(* ===== verification/Matter_Prelude.thy ===== *)
theory Matter_Prelude
  imports Main "HOL-Library.Word"
begin

text \<open>
  Shared ground of the development: results of JavaScript code that may throw, Node buffers
  as byte lists with the reads and writes the source uses on them, and the little-endian
  number lemmas every component needs. A thrown value is an \<open>Inl\<close> and a normal return an
  \<open>Inr\<close>; nothing in the modelled code but \<open>MsgCodec.decrypt\<close> and two setters of
  \<open>PersistantStore\<close> catches, so an \<open>Inl\<close> ends the handler that produced it.
\<close>

unbundle bit_operations_syntax

section \<open>Collections of rules\<close>

named_theorems buffer_simps \<open>lengths, reads and writes of buffers\<close>
named_theorems codec_simps \<open>reads that follow a write or an encoding\<close>

section \<open>Results\<close>

text \<open>
  \<open>Thrown s\<close> is the source's own \<open>throw(s)\<close>; the other constructors are the classes
  of the errors the JavaScript runtime raises. \<open>Unmodelled\<close> marks the coercions the model
  does not follow (a string, array or object used where a number is expected).
\<close>

datatype js_error = RangeError | TypeError | ReferenceError | Thrown string | Unmodelled

type_synonym 'a result = "js_error + 'a"

definition rbind :: "'e + 'a \<Rightarrow> ('a \<Rightarrow> 'e + 'b) \<Rightarrow> 'e + 'b" where
  "rbind r f = (case r of Inl e \<Rightarrow> Inl e | Inr x \<Rightarrow> f x)"

definition rmap :: "('a \<Rightarrow> 'b) \<Rightarrow> 'e + 'a \<Rightarrow> 'e + 'b" where
  "rmap f r = (case r of Inl e \<Rightarrow> Inl e | Inr x \<Rightarrow> Inr (f x))"

lemma rbind_simps [simp]:
  "rbind (Inl e) f = Inl e"
  "rbind (Inr x) f = f x"
  by (simp_all add: rbind_def)

lemma rmap_simps [simp]:
  "rmap f (Inl e) = Inl e"
  "rmap f (Inr x) = Inr (f x)"
  by (simp_all add: rmap_def)

lemma rbind_eq_Inr [simp]: "rbind r f = Inr y \<longleftrightarrow> (\<exists>x. r = Inr x \<and> f x = Inr y)"
  by (cases r) auto

lemma rmap_eq_Inr [simp]: "rmap f r = Inr y \<longleftrightarrow> (\<exists>x. r = Inr x \<and> y = f x)"
  by (cases r) auto

lemma rbind_assoc: "rbind (rbind r f) g = rbind r (\<lambda>x. rbind (f x) g)"
  by (cases r) auto

lemma rbind_cong [fundef_cong]:
  "r = r' \<Longrightarrow> (\<And>x. r' = Inr x \<Longrightarrow> f x = g x) \<Longrightarrow> rbind r f = rbind r' g"
  by (cases r') auto

lemma rbind_split:
  "P (rbind r f) \<longleftrightarrow> (\<forall>e. r = Inl e \<longrightarrow> P (Inl e)) \<and> (\<forall>x. r = Inr x \<longrightarrow> P (f x))"
  by (cases r) auto

text \<open>Sequencing a handler over a list, stopping at the first throw (\<open>forEach\<close>).\<close>

fun rfold :: "('a \<Rightarrow> 's \<Rightarrow> 'e + 's) \<Rightarrow> 'a list \<Rightarrow> 's \<Rightarrow> 'e + 's" where
  "rfold f [] s = Inr s"
| "rfold f (x # xs) s = rbind (f x s) (rfold f xs)"

lemma rfold_append: "rfold f (xs @ ys) s = rbind (rfold f xs s) (rfold f ys)"
proof (induction xs arbitrary: s)
  case (Cons x xs)
  then show ?case by (cases "f x s") auto
qed simp

lemma rfold_cong [fundef_cong]:
  "xs = ys \<Longrightarrow> s = t \<Longrightarrow> (\<And>x s. x \<in> set ys \<Longrightarrow> f x s = g x s) \<Longrightarrow> rfold f xs s = rfold g ys t"
proof (induction ys arbitrary: xs s t)
  case (Cons y ys)
  show ?case
    by (simp add: Cons.prems(1,2) Cons.prems(3) [of y], cases "g y t") (simp_all add: Cons.IH Cons.prems(3))
qed simp

lemma rfold_invariant:
  assumes "rfold f xs s = Inr t" and "P s"
    and "\<And>x s t. x \<in> set xs \<Longrightarrow> P s \<Longrightarrow> f x s = Inr t \<Longrightarrow> P t"
  shows "P t"
  using assms
proof (induction xs arbitrary: s)
  case Nil
  then show ?case by simp
next
  case (Cons x xs)
  then obtain u where u: "f x s = Inr u" and rest: "rfold f xs u = Inr t" by auto
  have "P u" using Cons.prems(2,3) u by (meson list.set_intros(1))
  with rest show ?case
    by (rule Cons.IH) (use Cons.prems(3) in auto)
qed

text \<open>\<open>Array.prototype.find\<close> with a predicate that may throw.\<close>

fun rfind :: "('a \<Rightarrow> 'e + bool) \<Rightarrow> 'a list \<Rightarrow> 'e + 'a option" where
  "rfind p [] = Inr None"
| "rfind p (x # xs) = rbind (p x) (\<lambda>b. if b then Inr (Some x) else rfind p xs)"

lemma rfind_Some: "rfind p xs = Inr (Some x) \<Longrightarrow> x \<in> set xs \<and> p x = Inr True"
  by (induction xs) (auto split: if_splits)

lemma rfind_None: "rfind p xs = Inr None \<longleftrightarrow> (\<forall>x \<in> set xs. p x = Inr False)"
proof (induction xs)
  case (Cons x xs)
  then show ?case by (cases "p x") auto
qed simp

lemma rfind_total: "(\<And>x. x \<in> set xs \<Longrightarrow> p x = Inr (q x)) \<Longrightarrow> rfind p xs = Inr (find q xs)"
  by (induction xs) auto

lemma rfind_append:
  "rfind p (xs @ ys) = rbind (rfind p xs) (\<lambda>r. case r of Some x \<Rightarrow> Inr (Some x) | None \<Rightarrow> rfind p ys)"
proof (induction xs)
  case (Cons x xs)
  then show ?case by (cases "p x") auto
qed simp

text \<open>\<open>join\<close> of an array of strings.\<close>

fun js_join :: "'a list \<Rightarrow> 'a list list \<Rightarrow> 'a list" where
  "js_join sep [] = []"
| "js_join sep [s] = s"
| "js_join sep (s # t # ss) = s @ sep @ js_join sep (t # ss)"

lemma js_join_Cons: "ss \<noteq> [] \<Longrightarrow> js_join sep (s # ss) = s @ sep @ js_join sep ss"
  by (cases ss) simp_all

section \<open>Bytes and little-endian numbers\<close>

type_synonym byte = "8 word"
type_synonym buffer = "byte list"

text \<open>
  \<open>le_bytes n v\<close> are the \<open>n\<close> low bytes of \<open>v\<close>, least significant first. Division
  of \<open>int\<close> rounds down, so a negative \<open>v\<close> gives its two's complement.
\<close>

fun le_bytes :: "nat \<Rightarrow> int \<Rightarrow> buffer" where
  "le_bytes 0 v = []"
| "le_bytes (Suc n) v = word_of_int v # le_bytes n (v div 256)"

fun le_val :: "buffer \<Rightarrow> int" where
  "le_val [] = 0"
| "le_val (b # bs) = uint b + 256 * le_val bs"

text \<open>Two's complement reading of \<open>n\<close> bytes.\<close>

definition le_sval :: "buffer \<Rightarrow> int" where
  "le_sval bs = (let v = le_val bs; m = 256 ^ length bs in if 2 * v < m then v else v - m)"

lemma length_le_bytes [simp, buffer_simps]: "length (le_bytes n v) = n"
  by (induction n arbitrary: v) auto

lemma uint_byte_of_int [simp]: "uint (word_of_int v :: byte) = v mod 256"
  by (simp add: uint_word_of_int)

lemma uint_byte_less [simp]: "uint (b :: byte) < 256"
  using uint_lt2p [of b] by simp

lemma uint_byte_le [simp]: "uint (b :: byte) \<le> 255"
  using uint_byte_less [of b] by linarith

lemma le_val_le_bytes [simp, codec_simps]: "le_val (le_bytes n v) = v mod 256 ^ n"
proof (induction n arbitrary: v)
  case (Suc n)
  have "v mod (256 * 256 ^ n) = 256 * (v div 256 mod 256 ^ n) + v mod 256"
    by (rule zmod_zmult2_eq) simp
  with Suc show ?case by simp
qed simp

lemma le_val_ge_0 [simp]: "0 \<le> le_val b"
  by (induction b) auto

lemma le_val_less [simp]: "le_val b < 256 ^ length b"
proof (induction b)
  case (Cons x b)
  define p :: int where "p = 256 ^ length b"
  have "le_val b + 1 \<le> p" using Cons by (simp add: p_def)
  moreover have "uint x < 256" by (rule uint_byte_less)
  ultimately have "uint x + 256 * le_val b < 256 * p" by linarith
  then show ?case by (simp add: p_def)
qed simp

lemma le_bytes_le_val [simp, codec_simps]: "le_bytes (length b) (le_val b) = b"
proof (induction b)
  case (Cons x b)
  have "(uint x + 256 * le_val b) div 256 = le_val b"
    using uint_byte_less [of x] by simp
  moreover have "(uint x + 256 * le_val b) mod 256 = uint x"
    using uint_byte_less [of x] by simp
  then have "uint (word_of_int (uint x + 256 * le_val b) :: byte) = uint x"
    by (simp only: uint_byte_of_int)
  then have "(word_of_int (uint x + 256 * le_val b) :: byte) = x"
    by (rule word_uint_eq_iff [THEN iffD2])
  ultimately show ?case using Cons by simp
qed simp

lemma le_sval_le_bytes [codec_simps]:
  assumes "- (256 ^ n) \<le> 2 * v" and "2 * v < 256 ^ n"
  shows "le_sval (le_bytes n v) = v"
proof (cases "0 \<le> v")
  case True
  then have "v < 256 ^ n" using assms(2) by linarith
  then show ?thesis using True assms(2) by (simp add: le_sval_def)
next
  case False
  then have "v + 256 ^ n < 256 ^ n" and "0 \<le> v + 256 ^ n"
    using assms(1) by linarith+
  then have "(v + 256 ^ n) mod 256 ^ n = v + 256 ^ n"
    by (rule mod_pos_pos_trivial [rotated])
  then have "v mod 256 ^ n = v + 256 ^ n" by simp
  then show ?thesis using False assms(1) by (simp add: le_sval_def)
qed

section \<open>Node buffers\<close>

definition buf_alloc :: "nat \<Rightarrow> buffer" where
  "buf_alloc n = replicate n 0"

text \<open>
  \<open>subarray(start, end)\<close>: a negative index counts from the end, and both are clamped to
  the buffer, so no call of it throws. \<open>subarray_from\<close> is the call with one argument.
\<close>

definition js_index :: "nat \<Rightarrow> int \<Rightarrow> nat" where
  "js_index len i = (if i < 0 then nat (int len + i) else min len (nat i))"

definition subarray :: "int \<Rightarrow> int \<Rightarrow> buffer \<Rightarrow> buffer" where
  "subarray s e b = (let i = js_index (length b) s; j = js_index (length b) e
                     in take (j - i) (drop i b))"

definition subarray_from :: "int \<Rightarrow> buffer \<Rightarrow> buffer" where
  "subarray_from s b = drop (js_index (length b) s) b"

text \<open>Reads: outside the buffer Node throws a \<open>RangeError\<close>.\<close>

definition read_uint_le :: "nat \<Rightarrow> nat \<Rightarrow> buffer \<Rightarrow> int result" where
  "read_uint_le n off b =
     (if off + n \<le> length b then Inr (le_val (take n (drop off b))) else Inl RangeError)"

definition read_int_le :: "nat \<Rightarrow> nat \<Rightarrow> buffer \<Rightarrow> int result" where
  "read_int_le n off b =
     (if off + n \<le> length b then Inr (le_sval (take n (drop off b))) else Inl RangeError)"

definition read_uint_be :: "nat \<Rightarrow> nat \<Rightarrow> buffer \<Rightarrow> int result" where
  "read_uint_be n off b =
     (if off + n \<le> length b then Inr (le_val (rev (take n (drop off b)))) else Inl RangeError)"

text \<open>
  Writes: the value is checked against the width first, then the offset against the
  length; both failures are a \<open>RangeError\<close>.
\<close>

definition splice :: "nat \<Rightarrow> buffer \<Rightarrow> buffer \<Rightarrow> buffer" where
  "splice off bs b = take off b @ bs @ drop (off + length bs) b"

definition write_uint_le :: "nat \<Rightarrow> int \<Rightarrow> nat \<Rightarrow> buffer \<Rightarrow> buffer result" where
  "write_uint_le n v off b =
     (if v < 0 \<or> 256 ^ n \<le> v then Inl RangeError
      else if length b < off + n then Inl RangeError
      else Inr (splice off (le_bytes n v) b))"

definition write_int_le :: "nat \<Rightarrow> int \<Rightarrow> nat \<Rightarrow> buffer \<Rightarrow> buffer result" where
  "write_int_le n v off b =
     (if 2 * v < - (256 ^ n) \<or> 256 ^ n \<le> 2 * v then Inl RangeError
      else if length b < off + n then Inl RangeError
      else Inr (splice off (le_bytes n v) b))"

definition write_uint_be :: "nat \<Rightarrow> int \<Rightarrow> nat \<Rightarrow> buffer \<Rightarrow> buffer result" where
  "write_uint_be n v off b =
     (if v < 0 \<or> 256 ^ n \<le> v then Inl RangeError
      else if length b < off + n then Inl RangeError
      else Inr (splice off (rev (le_bytes n v)) b))"

lemma length_buf_alloc [simp, buffer_simps]: "length (buf_alloc n) = n"
  by (simp add: buf_alloc_def)

lemma js_index_nat [simp]: "js_index len (int i) = min len i"
  by (simp add: js_index_def)

lemma js_index_numeral [simp]: "js_index len (numeral k) = min len (numeral k)"
  by (simp add: js_index_def)

lemma js_index_0 [simp]: "js_index len 0 = 0"
  and js_index_1 [simp]: "js_index len 1 = min len 1"
  by (simp_all add: js_index_def)

lemma subarray_nat: "subarray (int i) (int j) b = take (j - i) (drop i b)"
  by (simp add: subarray_def Let_def min_def)

lemma subarray_numeral: "subarray (numeral i) (numeral j) b = take (numeral j - numeral i) (drop (numeral i) b)"
  using subarray_nat [of "numeral i" "numeral j" b] by (simp only: of_nat_numeral)

lemma subarray_0: "subarray 0 (int n) b = take n b"
  using subarray_nat [of 0 n b] by simp

lemma subarray_from_nat: "subarray_from (int n) b = drop n b"
  by (simp add: subarray_from_def min_def)

lemma length_splice [simp, buffer_simps]:
  "off + length bs \<le> length b \<Longrightarrow> length (splice off bs b) = length b"
  by (simp add: splice_def)

lemma splice_at_0 [simp]: "splice 0 bs b = bs @ drop (length bs) b"
  by (simp add: splice_def)

lemma splice_alloc_full: "length bs = n \<Longrightarrow> splice 0 bs (buf_alloc n) = bs"
  by (simp add: splice_def buf_alloc_def)

lemma take_drop_splice_same [codec_simps]:
  "off + length bs \<le> length b \<Longrightarrow> take (length bs) (drop off (splice off bs b)) = bs"
  by (simp add: splice_def)

lemma take_drop_splice_before [codec_simps]:
  "i + n \<le> off \<Longrightarrow> off + length bs \<le> length b \<Longrightarrow>
   take n (drop i (splice off bs b)) = take n (drop i b)"
  by (simp add: splice_def drop_take min_absorb1 take_take)

lemma take_drop_splice_after [codec_simps]:
  "off + length bs \<le> i \<Longrightarrow> off + length bs \<le> length b \<Longrightarrow>
   take n (drop i (splice off bs b)) = take n (drop i b)"
  by (simp add: splice_def min_def)

lemma write_uint_le_ok:
  "0 \<le> v \<Longrightarrow> v < 256 ^ n \<Longrightarrow> off + n \<le> length b \<Longrightarrow>
   write_uint_le n v off b = Inr (splice off (le_bytes n v) b)"
  by (simp add: write_uint_le_def)

lemma write_uint_le_Inr:
  "write_uint_le n v off b = Inr b' \<longleftrightarrow>
   0 \<le> v \<and> v < 256 ^ n \<and> off + n \<le> length b \<and> b' = splice off (le_bytes n v) b"
  by (auto simp: write_uint_le_def)

lemma write_uint_le_length:
  "write_uint_le n v off b = Inr b' \<Longrightarrow> length b' = length b"
  by (auto simp: write_uint_le_Inr)

text \<open>Reading back what a write stored, and what it left alone.\<close>

lemma read_write_same [codec_simps]:
  "write_uint_le n v off b = Inr b' \<Longrightarrow> read_uint_le n off b' = Inr v"
  using take_drop_splice_same [of off "le_bytes n v" b]
  by (auto simp: write_uint_le_Inr read_uint_le_def)

lemma read_write_other [codec_simps]:
  assumes "write_uint_le n v off b = Inr b'" and "i + m \<le> off \<or> off + n \<le> i"
  shows "read_uint_le m i b' = read_uint_le m i b"
  using assms take_drop_splice_before [of i m off "le_bytes n v" b]
    take_drop_splice_after [of off "le_bytes n v" i b m]
  by (auto simp: write_uint_le_Inr read_uint_le_def)

lemma read_uint_le_bounds:
  "read_uint_le n off b = Inr v \<Longrightarrow> 0 \<le> v \<and> v < 256 ^ n"
  using le_val_less [of "take n (drop off b)"]
  by (auto simp: read_uint_le_def split: if_splits)

lemma read_uint_le_append [codec_simps]:
  "off + n \<le> length a \<Longrightarrow> read_uint_le n off (a @ b) = read_uint_le n off a"
  by (simp add: read_uint_le_def)

lemma read_uint_le_skip [codec_simps]:
  "read_uint_le n (length a + off) (a @ b) = read_uint_le n off b"
  by (simp add: read_uint_le_def)

lemma read_uint_le_prefix [codec_simps]:
  "0 \<le> v \<Longrightarrow> v < 256 ^ n \<Longrightarrow> read_uint_le n 0 (le_bytes n v @ b) = Inr v"
  by (simp add: read_uint_le_def)

lemma read_int_le_prefix [codec_simps]:
  "- (256 ^ n) \<le> 2 * v \<Longrightarrow> 2 * v < 256 ^ n \<Longrightarrow> read_int_le n 0 (le_bytes n v @ b) = Inr v"
  by (simp add: read_int_le_def le_sval_le_bytes)

lemma read_uint_le_short: "length b < off + n \<Longrightarrow> read_uint_le n off b = Inl RangeError"
  by (simp add: read_uint_le_def)

section \<open>Codecs\<close>

text \<open>
  The contract between a writer and a reader of the same format: on its domain the writer
  succeeds, and the reader returns what the value looks like from the other side.
\<close>

locale codec =
  fixes enc :: "'a \<Rightarrow> js_error + 'w"
    and dec :: "'w \<Rightarrow> js_error + 'b"
    and codable :: "'a \<Rightarrow> bool"
    and view :: "'a \<Rightarrow> 'b"
  assumes enc_total: "codable x \<Longrightarrow> \<exists>w. enc x = Inr w"
    and dec_enc: "codable x \<Longrightarrow> enc x = Inr w \<Longrightarrow> dec w = Inr (view x)"
begin

lemma roundtrip: "codable x \<Longrightarrow> rbind (enc x) dec = Inr (view x)"
  using enc_total dec_enc by fastforce

lemma enc_inj: "codable x \<Longrightarrow> codable y \<Longrightarrow> enc x = enc y \<Longrightarrow> view x = view y"
  by (metis enc_total dec_enc sum.inject(2))

end

end
