(* ===== verification/Js_Value.thy ===== *)
theory Js_Value
  imports Matter_Prelude
begin

text \<open>
  JavaScript values as the TLV and protocol code handles them: the dynamic type
  \<open>jsval\<close>, its property and element accesses (which throw on \<open>undefined\<close>), the
  coercion of a value given to a buffer write, UTF-8, and the IEEE-754 bit patterns behind
  the float reads and writes. A \<open>Number\<close> with an integral value is a \<open>JNum\<close>; any other
  \<open>Number\<close> is a \<open>JDbl\<close> with its binary64 pattern. A string is its list of UTF-16 code
  units, since \<open>length\<close> counts those.
\<close>

section \<open>Values\<close>

datatype jsval =
    JUndef
  | JNull
  | JBool bool
  | JNum int
  | JDbl "64 word"
  | JBig int
  | JStr "16 word list"
  | JBuf buffer
  | JArr "jsval list"
  | JObj (obj_profile: "int option") (obj_tag: "int option") (obj_type: "string option")
      (obj_value: jsval) (obj_name: "string option")

text \<open>
  \<open>JObj\<close> is an object of the interface \<open>TlvType.DeterministicJson\<close>. Reading a
  property of \<open>undefined\<close> or \<open>null\<close> is a \<open>TypeError\<close>; a property that is not
  there is \<open>undefined\<close>.
\<close>

definition opt_num :: "int option \<Rightarrow> jsval" where
  "opt_num v = (case v of None \<Rightarrow> JUndef | Some n \<Rightarrow> JNum n)"

fun prop_value :: "jsval \<Rightarrow> jsval result" where
  "prop_value JUndef = Inl TypeError"
| "prop_value JNull = Inl TypeError"
| "prop_value (JObj p t ty v n) = Inr v"
| "prop_value _ = Inr JUndef"

fun prop_tag :: "jsval \<Rightarrow> jsval result" where
  "prop_tag JUndef = Inl TypeError"
| "prop_tag JNull = Inl TypeError"
| "prop_tag (JObj p t ty v n) = Inr (opt_num t)"
| "prop_tag _ = Inr JUndef"

fun prop_name :: "jsval \<Rightarrow> string option result" where
  "prop_name JUndef = Inl TypeError"
| "prop_name JNull = Inl TypeError"
| "prop_name (JObj p t ty v n) = Inr n"
| "prop_name _ = Inr None"

text \<open>\<open>v[i]\<close>: out of range is \<open>undefined\<close>.\<close>

fun js_at :: "jsval \<Rightarrow> nat \<Rightarrow> jsval result" where
  "js_at JUndef i = Inl TypeError"
| "js_at JNull i = Inl TypeError"
| "js_at (JArr xs) i = Inr (if i < length xs then xs ! i else JUndef)"
| "js_at (JBuf bs) i = Inr (if i < length bs then JNum (uint (bs ! i)) else JUndef)"
| "js_at (JStr us) i = Inr (if i < length us then JStr [us ! i] else JUndef)"
| "js_at _ i = Inr JUndef"

text \<open>
  The elements that \<open>find\<close> and \<open>forEach\<close> visit. A \<open>Buffer\<close> has both methods and
  visits its bytes; on any other value the method is \<open>undefined\<close> and calling it throws.
\<close>

fun js_elements :: "jsval \<Rightarrow> jsval list result" where
  "js_elements (JArr xs) = Inr xs"
| "js_elements (JBuf bs) = Inr (map (\<lambda>b. JNum (uint b)) bs)"
| "js_elements _ = Inl TypeError"

text \<open>The path \<open>v[i].value[j].value \<dots>\<close> the cluster servers walk.\<close>

fun js_path :: "nat list \<Rightarrow> jsval \<Rightarrow> jsval result" where
  "js_path [] v = Inr v"
| "js_path (i # is) v = rbind (js_at v i) (\<lambda>e. rbind (prop_value e) (js_path is))"

text \<open>\<open>find\<close> with a predicate that may throw.\<close>

fun js_find :: "(jsval \<Rightarrow> bool result) \<Rightarrow> jsval list \<Rightarrow> jsval result" where
  "js_find p [] = Inr JUndef"
| "js_find p (x # xs) = rbind (p x) (\<lambda>b. if b then Inr x else js_find p xs)"

definition js_truthy :: "jsval \<Rightarrow> bool" where
  "js_truthy v = (case v of
      JUndef \<Rightarrow> False | JNull \<Rightarrow> False | JBool b \<Rightarrow> b | JNum n \<Rightarrow> n \<noteq> 0
    | JDbl p \<Rightarrow> \<not> (uint p div 2 ^ 52 mod 2048 = 2047 \<and> uint p mod 2 ^ 52 \<noteq> 0)
    | JBig n \<Rightarrow> n \<noteq> 0 | JStr s \<Rightarrow> s \<noteq> [] | _ \<Rightarrow> True)"

text \<open>
  The value a Node buffer write stores after its unary \<open>+\<close>: \<open>undefined\<close> becomes
  \<open>NaN\<close>, which passes the range check and is stored as \<open>0\<close>; a \<open>BigInt\<close> throws.
\<close>

fun to_write :: "jsval \<Rightarrow> int result" where
  "to_write (JNum n) = Inr n"
| "to_write JUndef = Inr 0"
| "to_write JNull = Inr 0"
| "to_write (JBool b) = Inr (if b then 1 else 0)"
| "to_write (JBig n) = Inl TypeError"
| "to_write _ = Inl Unmodelled"

text \<open>\<open>BigInt(val)\<close>.\<close>

fun to_bigint :: "jsval \<Rightarrow> int result" where
  "to_bigint (JNum n) = Inr n"
| "to_bigint (JBig n) = Inr n"
| "to_bigint (JBool b) = Inr (if b then 1 else 0)"
| "to_bigint JUndef = Inl TypeError"
| "to_bigint JNull = Inl TypeError"
| "to_bigint (JDbl p) = Inl RangeError"
| "to_bigint _ = Inl Unmodelled"

lemma js_path_append: "js_path (is @ js) v = rbind (js_path is v) (js_path js)"
  by (induction "is" arbitrary: v) (auto simp: rbind_assoc intro: rbind_cong)

lemma js_at_arr [simp]: "i < length xs \<Longrightarrow> js_at (JArr xs) i = Inr (xs ! i)"
  by simp

section \<open>UTF-8\<close>

definition is_high_surrogate :: "int \<Rightarrow> bool" where
  "is_high_surrogate c \<longleftrightarrow> 0xD800 \<le> c \<and> c < 0xDC00"

definition is_low_surrogate :: "int \<Rightarrow> bool" where
  "is_low_surrogate c \<longleftrightarrow> 0xDC00 \<le> c \<and> c < 0xE000"

text \<open>Code points of a JavaScript string; an unpaired surrogate encodes as U+FFFD.\<close>

fun code_points :: "16 word list \<Rightarrow> int list" where
  "code_points [] = []"
| "code_points (u # us) =
     (if is_high_surrogate (uint u) then
        (case us of
           [] \<Rightarrow> [0xFFFD]
         | v # vs \<Rightarrow>
             if is_low_surrogate (uint v)
             then (0x10000 + (uint u - 0xD800) * 1024 + (uint v - 0xDC00)) # code_points vs
             else 0xFFFD # code_points us)
      else if is_low_surrogate (uint u) then 0xFFFD # code_points us
      else uint u # code_points us)"

definition utf8_of_cp :: "int \<Rightarrow> int list" where
  "utf8_of_cp c =
     (if c < 0x80 then [c]
      else if c < 0x800 then [0xC0 + c div 64, 0x80 + c mod 64]
      else if c < 0x10000 then [0xE0 + c div 4096, 0x80 + c div 64 mod 64, 0x80 + c mod 64]
      else [0xF0 + c div 262144, 0x80 + c div 4096 mod 64, 0x80 + c div 64 mod 64, 0x80 + c mod 64])"

definition utf8_encode :: "16 word list \<Rightarrow> buffer" where
  "utf8_encode s = map word_of_int (concat (map utf8_of_cp (code_points s)))"

text \<open>
  The decoder: state \<open>(cp, need, lo, hi)\<close> with \<open>need\<close> continuation bytes missing and
  the next one due in \<open>lo..hi\<close>. A byte that does not fit ends the sequence with one
  U+FFFD and is looked at again as a first byte.
\<close>

type_synonym utf8_state = "int \<times> nat \<times> int \<times> int"

definition utf8_init :: utf8_state where
  "utf8_init = (0, 0, 0x80, 0xBF)"

definition utf8_start :: "int \<Rightarrow> int list \<times> utf8_state" where
  "utf8_start b =
     (if b < 0x80 then ([b], utf8_init)
      else if 0xC2 \<le> b \<and> b \<le> 0xDF then ([], (b - 0xC0, 1, 0x80, 0xBF))
      else if 0xE0 \<le> b \<and> b \<le> 0xEF then
        ([], (b - 0xE0, 2, if b = 0xE0 then 0xA0 else 0x80, if b = 0xED then 0x9F else 0xBF))
      else if 0xF0 \<le> b \<and> b \<le> 0xF4 then
        ([], (b - 0xF0, 3, if b = 0xF0 then 0x90 else 0x80, if b = 0xF4 then 0x8F else 0xBF))
      else ([0xFFFD], utf8_init))"

fun utf8_go :: "utf8_state \<Rightarrow> int list \<Rightarrow> int list" where
  "utf8_go (cp, need, lo, hi) [] = (if need = 0 then [] else [0xFFFD])"
| "utf8_go (cp, need, lo, hi) (b # bs) =
     (if need = 0 then (case utf8_start b of (out, st) \<Rightarrow> out @ utf8_go st bs)
      else if lo \<le> b \<and> b \<le> hi then
        (if need = 1 then (cp * 64 + (b - 0x80)) # utf8_go utf8_init bs
         else utf8_go (cp * 64 + (b - 0x80), need - 1, 0x80, 0xBF) bs)
      else (case utf8_start b of (out, st) \<Rightarrow> 0xFFFD # out @ utf8_go st bs))"

definition units_of_cp :: "int \<Rightarrow> 16 word list" where
  "units_of_cp c =
     (if c < 0x10000 then [word_of_int c]
      else [word_of_int (0xD800 + (c - 0x10000) div 1024), word_of_int (0xDC00 + (c - 0x10000) mod 1024)])"

definition utf8_decode :: "buffer \<Rightarrow> 16 word list" where
  "utf8_decode b = concat (map units_of_cp (utf8_go utf8_init (map uint b)))"

text \<open>Strings with no unpaired surrogate, which is what the round trip needs.\<close>

fun well_formed_utf16 :: "16 word list \<Rightarrow> bool" where
  "well_formed_utf16 [] = True"
| "well_formed_utf16 (u # us) =
     (if is_high_surrogate (uint u) then
        (case us of [] \<Rightarrow> False | v # vs \<Rightarrow> is_low_surrogate (uint v) \<and> well_formed_utf16 vs)
      else \<not> is_low_surrogate (uint u) \<and> well_formed_utf16 us)"

definition is_ascii :: "16 word list \<Rightarrow> bool" where
  "is_ascii s \<longleftrightarrow> (\<forall>u \<in> set s. uint u < 0x80)"

text \<open>A character literal as code units, for the source's string constants.\<close>

definition js_string :: "string \<Rightarrow> 16 word list" where
  "js_string s = map (\<lambda>c. word_of_nat (of_char c)) s"

definition scalar_value :: "int \<Rightarrow> bool" where
  "scalar_value c \<longleftrightarrow> 0 \<le> c \<and> c < 0x110000 \<and> \<not> is_high_surrogate c \<and> \<not> is_low_surrogate c"

lemma utf8_go_two:
  assumes "2 \<le> a" "a \<le> 31" "0 \<le> d" "d \<le> 63"
  shows "utf8_go utf8_init ((0xC0 + a) # (0x80 + d) # bs) = (a * 64 + d) # utf8_go utf8_init bs"
  using assms by (simp add: utf8_init_def utf8_start_def)

lemma utf8_go_three:
  assumes "0 \<le> a" "a \<le> 15" "0 \<le> b" "b \<le> 63" "0 \<le> d" "d \<le> 63"
    and "a = 0 \<longrightarrow> 32 \<le> b" "a = 13 \<longrightarrow> b \<le> 31"
  shows "utf8_go utf8_init ((0xE0 + a) # (0x80 + b) # (0x80 + d) # bs) =
    ((a * 64 + b) * 64 + d) # utf8_go utf8_init bs"
  using assms by (simp add: utf8_init_def utf8_start_def)

lemma utf8_go_four:
  assumes "0 \<le> a" "a \<le> 4" "0 \<le> b" "b \<le> 63" "0 \<le> d" "d \<le> 63" "0 \<le> e" "e \<le> 63"
    and "a = 0 \<longrightarrow> 16 \<le> b" "a = 4 \<longrightarrow> b \<le> 15"
  shows "utf8_go utf8_init ((0xF0 + a) # (0x80 + b) # (0x80 + d) # (0x80 + e) # bs) =
    (((a * 64 + b) * 64 + d) * 64 + e) # utf8_go utf8_init bs"
  using assms by (simp add: utf8_init_def utf8_start_def)

lemma utf8_go_cp:
  assumes "scalar_value c"
  shows "utf8_go utf8_init (utf8_of_cp c @ bs) = c # utf8_go utf8_init bs"
proof -
  consider (one) "0 \<le> c" "c < 0x80" | (two) "0x80 \<le> c" "c < 0x800"
    | (three) "0x800 \<le> c" "c < 0x10000" | (four) "0x10000 \<le> c" "c < 0x110000"
    using assms unfolding scalar_value_def by linarith
  then show ?thesis
  proof cases
    case one
    then show ?thesis by (simp add: utf8_of_cp_def utf8_init_def utf8_start_def)
  next
    case two
    have "2 \<le> c div 64" "c div 64 \<le> 31" "0 \<le> c mod 64" "c mod 64 \<le> 63"
      using two by simp_all
    then have "utf8_go utf8_init ((0xC0 + c div 64) # (0x80 + c mod 64) # bs) =
        c # utf8_go utf8_init bs"
      by (subst utf8_go_two) (simp_all only: div_mult_mod_eq)
    then show ?thesis using two by (simp add: utf8_of_cp_def)
  next
    case three
    define q where "q = c div 64"
    have c: "c = q * 64 + c mod 64" and q: "q = q div 64 * 64 + q mod 64" by (simp_all add: q_def)
    have "\<not> (0xD800 \<le> c \<and> c < 0xE000)"
      using assms by (auto simp: scalar_value_def is_high_surrogate_def is_low_surrogate_def)
    then have "\<not> (0x360 \<le> q \<and> q < 0x380)" unfolding q_def by linarith
    moreover have "32 \<le> q" "q < 0x400" using three by (simp_all add: q_def)
    moreover have "0 \<le> c mod 64" "c mod 64 \<le> 63" "0 \<le> q mod 64" "q mod 64 \<le> 63" by simp_all
    ultimately have "utf8_go utf8_init
        ((0xE0 + q div 64) # (0x80 + q mod 64) # (0x80 + c mod 64) # bs) = c # utf8_go utf8_init bs"
      using q by (subst utf8_go_three) (linarith | simp add: c [symmetric] q [symmetric])+
    moreover have "c div 4096 = q div 64" using zdiv_zmult2_eq [of 64 c 64] by (simp add: q_def)
    ultimately show ?thesis using three by (simp add: utf8_of_cp_def q_def)
  next
    case four
    define q where "q = c div 64"
    define r where "r = q div 64"
    have c: "c = q * 64 + c mod 64" and q: "q = r * 64 + q mod 64" and r: "r = r div 64 * 64 + r mod 64"
      by (simp_all add: q_def r_def)
    have "0x10 \<le> r" "r < 0x110" using four by (simp_all add: q_def r_def)
    moreover have "0 \<le> c mod 64" "c mod 64 \<le> 63" "0 \<le> q mod 64" "q mod 64 \<le> 63"
      "0 \<le> r mod 64" "r mod 64 \<le> 63" by simp_all
    ultimately have "utf8_go utf8_init ((0xF0 + r div 64) # (0x80 + r mod 64)
        # (0x80 + q mod 64) # (0x80 + c mod 64) # bs) = c # utf8_go utf8_init bs"
      using r by (subst utf8_go_four)
        (linarith | simp add: c [symmetric] q [symmetric] r [symmetric])+
    moreover have "c div 4096 = r" and "c div 262144 = r div 64"
      using zdiv_zmult2_eq [of 64 c 64] zdiv_zmult2_eq [of 64 c 4096] by (simp_all add: q_def r_def zdiv_zmult2_eq [of 64 _ 64, simplified])
    ultimately show ?thesis using four by (simp add: utf8_of_cp_def q_def)
  qed
qed

lemma scalar_value_unit:
  "\<not> is_high_surrogate (uint u) \<Longrightarrow> \<not> is_low_surrogate (uint u) \<Longrightarrow> scalar_value (uint (u :: 16 word))"
  using uint_lt2p [of u] by (simp add: scalar_value_def)

lemma scalar_value_pair:
  "is_high_surrogate (uint u) \<Longrightarrow> is_low_surrogate (uint v) \<Longrightarrow>
   scalar_value (0x10000 + (uint (u :: 16 word) - 0xD800) * 1024 + (uint (v :: 16 word) - 0xDC00))"
  unfolding scalar_value_def is_high_surrogate_def is_low_surrogate_def by presburger

lemma scalar_value_replacement: "scalar_value 0xFFFD"
  by (simp add: scalar_value_def is_high_surrogate_def is_low_surrogate_def)

lemma code_points_unit:
  "\<not> is_high_surrogate (uint u) \<Longrightarrow> \<not> is_low_surrogate (uint u) \<Longrightarrow>
   code_points (u # us) = uint u # code_points us"
  by simp

lemma code_points_pair:
  "is_high_surrogate (uint u) \<Longrightarrow> is_low_surrogate (uint v) \<Longrightarrow>
   code_points (u # v # vs) = (0x10000 + (uint u - 0xD800) * 1024 + (uint v - 0xDC00)) # code_points vs"
  by simp

lemma code_points_lone:
  "is_high_surrogate (uint u) \<Longrightarrow> us = [] \<or> \<not> is_low_surrogate (uint (hd us)) \<Longrightarrow>
   code_points (u # us) = 0xFFFD # code_points us"
  "is_low_surrogate (uint u) \<Longrightarrow> code_points (u # us) = 0xFFFD # code_points us"
  by (auto simp: is_high_surrogate_def is_low_surrogate_def split: list.splits)

declare code_points.simps(2) [simp del]

text \<open>Case analysis over the shapes a string can start with.\<close>

lemma utf16_cases:
  obtains (empty) "s = []"
  | (unit) u us where "s = u # us" "\<not> is_high_surrogate (uint u)" "\<not> is_low_surrogate (uint u)"
  | (pair) u v vs where "s = u # v # vs" "is_high_surrogate (uint u)" "is_low_surrogate (uint v)"
  | (lone) u us where "s = u # us"
      "is_low_surrogate (uint u) \<or> is_high_surrogate (uint u) \<and> (us = [] \<or> \<not> is_low_surrogate (uint (hd us)))"
  by (cases s; cases "tl s") auto

lemma code_points_scalar: "c \<in> set (code_points s) \<Longrightarrow> scalar_value c"
proof (induction s rule: length_induct)
  case (1 s)
  show ?case
  proof (cases s rule: utf16_cases)
    case empty
    with 1 show ?thesis by simp
  next
    case (unit u us)
    with 1 show ?thesis by (auto simp: code_points_unit scalar_value_unit)
  next
    case (pair u v vs)
    with "1.prems" have "c = 0x10000 + (uint u - 0xD800) * 1024 + (uint v - 0xDC00) \<or> c \<in> set (code_points vs)"
      by (simp add: code_points_pair)
    moreover have "c \<in> set (code_points vs) \<Longrightarrow> scalar_value c"
      using "1.IH" [rule_format, of vs] pair(1) by simp
    ultimately show ?thesis using scalar_value_pair [OF pair(2,3)] by blast
  next
    case (lone u us)
    with 1 show ?thesis by (auto simp: code_points_lone scalar_value_replacement)
  qed
qed

lemma utf8_of_cp_bytes: "scalar_value c \<Longrightarrow> x \<in> set (utf8_of_cp c) \<Longrightarrow> 0 \<le> x \<and> x < 256"
  by (auto simp: utf8_of_cp_def scalar_value_def split: if_splits)

lemma utf8_go_cps:
  "(\<forall>c \<in> set cs. scalar_value c) \<Longrightarrow>
   utf8_go utf8_init (concat (map utf8_of_cp cs) @ bs) = cs @ utf8_go utf8_init bs"
  by (induction cs) (simp_all add: utf8_go_cp)

lemma units_of_pair_int:
  assumes "0 \<le> a" and "0 \<le> b" and "b < 1024"
  shows "units_of_cp (0x10000 + a * 1024 + b) = [word_of_int (0xD800 + a), word_of_int (0xDC00 + b)]"
proof -
  have "0x10000 + a * 1024 + b - 0x10000 = b + a * 1024" by simp
  then have "(0x10000 + a * 1024 + b - 0x10000) div 1024 = a"
    and "(0x10000 + a * 1024 + b - 0x10000) mod 1024 = b"
    and "\<not> 0x10000 + a * 1024 + b < 0x10000"
    using assms by simp_all
  then show ?thesis by (simp only: units_of_cp_def if_False)
qed

lemma units_of_pair:
  assumes "is_high_surrogate (uint u)" and "is_low_surrogate (uint (v :: 16 word))"
  shows "units_of_cp (0x10000 + (uint (u :: 16 word) - 0xD800) * 1024 + (uint v - 0xDC00)) = [u, v]"
  using assms by (subst units_of_pair_int) (simp_all add: is_high_surrogate_def is_low_surrogate_def)

lemma units_of_bmp: "units_of_cp (uint (u :: 16 word)) = [u]"
  using uint_lt2p [of u] by (simp add: units_of_cp_def)

lemma units_of_code_points:
  "well_formed_utf16 s \<Longrightarrow> concat (map units_of_cp (code_points s)) = s"
proof (induction s rule: length_induct)
  case (1 s)
  show ?case
  proof (cases s rule: utf16_cases)
    case (unit u us)
    with 1 have "concat (map units_of_cp (code_points us)) = us" by simp
    with unit show ?thesis by (simp add: code_points_unit units_of_bmp)
  next
    case (pair u v vs)
    with 1 have "concat (map units_of_cp (code_points vs)) = vs" by simp
    then show ?thesis
      by (simp only: pair(1) code_points_pair [OF pair(2,3)] list.map concat.simps
          units_of_pair [OF pair(2,3)]) simp
  next
    case (lone u us)
    then have "\<not> well_formed_utf16 s"
      by (cases us) (auto simp: is_high_surrogate_def is_low_surrogate_def)
    with "1.prems" show ?thesis by simp
  qed simp
qed

lemma utf8_decode_encode [codec_simps]:
  assumes "well_formed_utf16 s"
  shows "utf8_decode (utf8_encode s) = s"
proof -
  let ?cs = "code_points s"
  let ?bs = "concat (map utf8_of_cp ?cs)"
  have "map uint (map (word_of_int :: int \<Rightarrow> byte) ?bs) = ?bs"
    by (auto simp: comp_def intro!: map_idI mod_pos_pos_trivial
        dest!: code_points_scalar utf8_of_cp_bytes)
  moreover have "utf8_go utf8_init ?bs = ?cs"
    using utf8_go_cps [of ?cs "[]"] by (auto simp: code_points_scalar utf8_init_def)
  ultimately show ?thesis
    using assms by (simp only: utf8_decode_def utf8_encode_def units_of_code_points)
qed

lemma ascii_code_points: "is_ascii s \<Longrightarrow> code_points s = map uint s"
  by (induction s)
    (auto simp: is_ascii_def is_high_surrogate_def is_low_surrogate_def code_points_unit)

lemma ascii_utf8_length: "is_ascii s \<Longrightarrow> length (utf8_encode s) = length s"
proof -
  assume a: "is_ascii s"
  have "concat (map utf8_of_cp (map uint s)) = map uint s"
    using a by (induction s) (auto simp: is_ascii_def utf8_of_cp_def)
  with a show ?thesis by (simp add: utf8_encode_def ascii_code_points)
qed

lemma ascii_well_formed: "is_ascii s \<Longrightarrow> well_formed_utf16 s"
  by (induction s) (auto simp: is_ascii_def is_high_surrogate_def is_low_surrogate_def)

section \<open>Floating point bit patterns\<close>

function ilog2 :: "int \<Rightarrow> int" where
  "ilog2 n = (if n \<le> 1 then 0 else 1 + ilog2 (n div 2))"
  by pat_completeness auto
termination
  by (relation "measure nat") auto

declare ilog2.simps [simp del]

text \<open>Rounding division, ties to even.\<close>

definition round_div :: "int \<Rightarrow> int \<Rightarrow> int" where
  "round_div m d = (let q = m div d; r = m mod d
     in if d < 2 * r \<or> (d = 2 * r \<and> odd q) then q + 1 else q)"

text \<open>
  The pattern, without sign, of \<open>m * 2 ^ e\<close> in a format with \<open>fb\<close> fraction bits, least
  exponent \<open>emin\<close> and infinity pattern \<open>infp\<close>; a carry out of the significand moves
  into the exponent field by itself.
\<close>

definition ieee_round :: "nat \<Rightarrow> int \<Rightarrow> int \<Rightarrow> int \<Rightarrow> int \<Rightarrow> int" where
  "ieee_round fb emin infp m e =
     (if m = 0 then 0
      else let ex = max emin (ilog2 m + e); s = ex - int fb - e;
               sig = (if s \<le> 0 then m * 2 ^ nat (- s) else round_div m (2 ^ nat s))
           in min infp ((ex - emin) * 2 ^ fb + sig))"

definition dbl_sign :: "64 word \<Rightarrow> int" where "dbl_sign p = uint p div 2 ^ 63"
definition dbl_exp :: "64 word \<Rightarrow> int" where "dbl_exp p = uint p div 2 ^ 52 mod 2048"
definition dbl_frac :: "64 word \<Rightarrow> int" where "dbl_frac p = uint p mod 2 ^ 52"

text \<open>The \<open>Number\<close> with a given binary64 pattern: a \<open>JNum\<close> where it is integral.\<close>

definition num_of_bits64 :: "64 word \<Rightarrow> jsval" where
  "num_of_bits64 p =
     (let e = dbl_exp p; f = dbl_frac p; m = 2 ^ 52 + f; s = (if dbl_sign p = 0 then 1 else -1)
      in if e = 2047 then JDbl p
         else if e = 0 then (if f = 0 then JNum 0 else JDbl p)
         else if 1075 \<le> e then JNum (s * m * 2 ^ nat (e - 1075))
         else if 2 ^ nat (1075 - e) dvd m then JNum (s * (m div 2 ^ nat (1075 - e)))
         else JDbl p)"

definition non_integral :: "64 word \<Rightarrow> bool" where
  "non_integral p \<longleftrightarrow> num_of_bits64 p = JDbl p"

definition bits64_of_bits32 :: "int \<Rightarrow> 64 word" where
  "bits64_of_bits32 p =
     (let s = p div 2 ^ 31; e = p div 2 ^ 23 mod 256; f = p mod 2 ^ 23;
          k = ilog2 f
      in word_of_int (s * 2 ^ 63 +
           (if e = 255 then 2047 * 2 ^ 52 + f * 2 ^ 29
            else if e = 0 then
              (if f = 0 then 0
               else (k - 149 + 1023) * 2 ^ 52 + (f - 2 ^ nat k) * 2 ^ nat (52 - k))
            else (e - 127 + 1023) * 2 ^ 52 + f * 2 ^ 29)))"

text \<open>What \<open>writeFloatLE\<close> and \<open>writeDoubleLE\<close> store for a value.\<close>

definition bits32_of_dyadic :: "bool \<Rightarrow> int \<Rightarrow> int \<Rightarrow> int" where
  "bits32_of_dyadic neg m e =
     (if neg then 2 ^ 31 else 0) + ieee_round 23 (-126) (255 * 2 ^ 23) m e"

definition bits64_of_int :: "int \<Rightarrow> int" where
  "bits64_of_int n =
     (if n < 0 then 2 ^ 63 else 0) + ieee_round 52 (-1022) (2047 * 2 ^ 52) \<bar>n\<bar> 0"

fun float_bits :: "jsval \<Rightarrow> int result" where
  "float_bits (JNum n) = Inr (bits32_of_dyadic (n < 0) \<bar>n\<bar> 0)"
| "float_bits (JDbl p) =
     Inr (let neg = (dbl_sign p = 1); e = dbl_exp p; f = dbl_frac p
          in if e = 2047 then (if f = 0 then (if neg then 2 ^ 31 else 0) + 255 * 2 ^ 23 else 0x7FC00000)
             else if e = 0 then bits32_of_dyadic neg f (-1074)
             else bits32_of_dyadic neg (2 ^ 52 + f) (e - 1075))"
| "float_bits JUndef = Inr 0x7FC00000"
| "float_bits JNull = Inr 0"
| "float_bits (JBool b) = Inr (if b then 0x3F800000 else 0)"
| "float_bits (JBig n) = Inl TypeError"
| "float_bits _ = Inl Unmodelled"

fun double_bits :: "jsval \<Rightarrow> int result" where
  "double_bits (JDbl p) = Inr (uint p)"
| "double_bits (JNum n) = Inr (bits64_of_int n)"
| "double_bits JUndef = Inr 0x7FF8000000000000"
| "double_bits JNull = Inr 0"
| "double_bits (JBool b) = Inr (if b then 0x3FF0000000000000 else 0)"
| "double_bits (JBig n) = Inl TypeError"
| "double_bits _ = Inl Unmodelled"

section \<open>Hexadecimal strings\<close>

text \<open>
  \<open>Buffer.from(s, "hex")\<close> stops at the first pair that is not two hex digits and drops an
  odd last digit; \<open>toString('hex')\<close> writes lower case.
\<close>

definition hex_digit :: "16 word \<Rightarrow> int option" where
  "hex_digit u = (let c = uint u
     in if 0x30 \<le> c \<and> c \<le> 0x39 then Some (c - 0x30)
        else if 0x41 \<le> c \<and> c \<le> 0x46 then Some (c - 0x41 + 10)
        else if 0x61 \<le> c \<and> c \<le> 0x66 then Some (c - 0x61 + 10)
        else None)"

fun hex_decode :: "16 word list \<Rightarrow> buffer" where
  "hex_decode (a # b # us) =
     (case (hex_digit a, hex_digit b) of
        (Some x, Some y) \<Rightarrow> word_of_int (16 * x + y) # hex_decode us
      | _ \<Rightarrow> [])"
| "hex_decode _ = []"

definition hex_char :: "int \<Rightarrow> 16 word" where
  "hex_char d = word_of_int (if d < 10 then 0x30 + d else 0x61 + (d - 10))"

definition hex_encode :: "buffer \<Rightarrow> 16 word list" where
  "hex_encode bs = concat (map (\<lambda>b. [hex_char (uint b div 16), hex_char (uint b mod 16)]) bs)"

lemma hex_digit_char: "0 \<le> d \<Longrightarrow> d < 16 \<Longrightarrow> hex_digit (hex_char d) = Some d"
  by (auto simp: hex_digit_def hex_char_def Let_def uint_word_of_int)

lemma hex_decode_encode [codec_simps]: "hex_decode (hex_encode bs) = bs"
proof (induction bs)
  case (Cons b bs)
  have "0 \<le> uint b div 16" by (rule div_int_pos_iff [THEN iffD2]) simp
  moreover have "uint b div 16 < 16" using uint_byte_less [of b] by linarith
  moreover have "16 * (uint b div 16) + uint b mod 16 = uint b" by simp
  ultimately show ?case
    using Cons by (simp only: hex_encode_def list.map concat.simps append_Cons append_Nil
        hex_decode.simps hex_digit_char option.case prod.case pos_mod_sign pos_mod_bound) simp
qed (simp add: hex_encode_def)

text \<open>\<open>Buffer.from(value)\<close> for a value that is not a string.\<close>

fun byte_of_element :: "jsval \<Rightarrow> byte result" where
  "byte_of_element (JNum n) = Inr (word_of_int n)"
| "byte_of_element JUndef = Inr 0"
| "byte_of_element JNull = Inr 0"
| "byte_of_element (JBool b) = Inr (if b then 1 else 0)"
| "byte_of_element (JBig n) = Inl TypeError"
| "byte_of_element _ = Inl Unmodelled"

fun buffer_from :: "jsval \<Rightarrow> buffer result" where
  "buffer_from (JBuf b) = Inr b"
| "buffer_from (JArr xs) = rfold (\<lambda>x b. rmap (\<lambda>y. b @ [y]) (byte_of_element x)) xs []"
| "buffer_from (JStr s) = Inr (utf8_encode s)"
| "buffer_from _ = Inl TypeError"

end
