(* ===== verification/Tlv_Codec.thy ===== *)
theory Tlv_Codec
  imports Js_Value
begin

text \<open>
  \<open>src/tlv/TlvCodec.ts\<close>: the element encodings of Matter TLV (integers, floats, control
  octet with tag) and their decoders, with every range check and \<open>throw\<close> of the source.
  The lemmas give the exact bytes of each encoder on its domain and the inverse decoders.
\<close>

section \<open>Constants\<close>

definition TLV_TYPE_SIGNED_INTEGER :: int where "TLV_TYPE_SIGNED_INTEGER = 0x00"
definition TLV_TYPE_UNSIGNED_INTEGER :: int where "TLV_TYPE_UNSIGNED_INTEGER = 0x04"
definition TLV_TYPE_BOOLEAN_FALSE :: int where "TLV_TYPE_BOOLEAN_FALSE = 0x08"
definition TLV_TYPE_BOOLEAN_TRUE :: int where "TLV_TYPE_BOOLEAN_TRUE = 0x09"
definition TLV_TYPE_FLOAT :: int where "TLV_TYPE_FLOAT = 0x0A"
definition TLV_TYPE_DOUBLE :: int where "TLV_TYPE_DOUBLE = 0x0B"
definition TLV_TYPE_UTF8_STRING :: int where "TLV_TYPE_UTF8_STRING = 0x0C"
definition TLV_TYPE_BYTE_STRING :: int where "TLV_TYPE_BYTE_STRING = 0x10"
definition TLV_TYPE_NULL :: int where "TLV_TYPE_NULL = 0x14"
definition TLV_TYPE_STRUCTURE :: int where "TLV_TYPE_STRUCTURE = 0x15"
definition TLV_TYPE_ARRAY :: int where "TLV_TYPE_ARRAY = 0x16"
definition TLV_TYPE_LIST :: int where "TLV_TYPE_LIST = 0x17"
definition TLV_TYPE_END :: int where "TLV_TYPE_END = 0x18"

definition TLV_TAG_CONTROL_ANONYMOUS :: int where "TLV_TAG_CONTROL_ANONYMOUS = 0x00"
definition TLV_TAG_CONTROL_CONTEXT_SPECIFIC :: int where "TLV_TAG_CONTROL_CONTEXT_SPECIFIC = 0x20"
definition TLV_TAG_CONTROL_COMMON_PROFILE_2Bytes :: int where "TLV_TAG_CONTROL_COMMON_PROFILE_2Bytes = 0x40"
definition TLV_TAG_CONTROL_COMMON_PROFILE_4Bytes :: int where "TLV_TAG_CONTROL_COMMON_PROFILE_4Bytes = 0x60"
definition TLV_TAG_CONTROL_IMPLICIT_PROFILE_2Bytes :: int where "TLV_TAG_CONTROL_IMPLICIT_PROFILE_2Bytes = 0x80"
definition TLV_TAG_CONTROL_IMPLICIT_PROFILE_4Bytes :: int where "TLV_TAG_CONTROL_IMPLICIT_PROFILE_4Bytes = 0xA0"
definition TLV_TAG_CONTROL_FULLY_QUALIFIED_6Bytes :: int where "TLV_TAG_CONTROL_FULLY_QUALIFIED_6Bytes = 0xC0"
definition TLV_TAG_CONTROL_FULLY_QUALIFIED_8Bytes :: int where "TLV_TAG_CONTROL_FULLY_QUALIFIED_8Bytes = 0xE0"

lemmas tlv_types =
  TLV_TYPE_SIGNED_INTEGER_def TLV_TYPE_UNSIGNED_INTEGER_def TLV_TYPE_BOOLEAN_FALSE_def
  TLV_TYPE_BOOLEAN_TRUE_def TLV_TYPE_FLOAT_def TLV_TYPE_DOUBLE_def TLV_TYPE_UTF8_STRING_def
  TLV_TYPE_BYTE_STRING_def TLV_TYPE_NULL_def TLV_TYPE_STRUCTURE_def TLV_TYPE_ARRAY_def
  TLV_TYPE_LIST_def TLV_TYPE_END_def

lemmas tlv_tag_controls =
  TLV_TAG_CONTROL_ANONYMOUS_def TLV_TAG_CONTROL_CONTEXT_SPECIFIC_def
  TLV_TAG_CONTROL_COMMON_PROFILE_2Bytes_def TLV_TAG_CONTROL_COMMON_PROFILE_4Bytes_def
  TLV_TAG_CONTROL_IMPLICIT_PROFILE_2Bytes_def TLV_TAG_CONTROL_IMPLICIT_PROFILE_4Bytes_def
  TLV_TAG_CONTROL_FULLY_QUALIFIED_6Bytes_def TLV_TAG_CONTROL_FULLY_QUALIFIED_8Bytes_def

text \<open>
  Integer limits. The literals \<open>9223372036854775807\<close> and \<open>18446744073709551615\<close> are not
  \<open>Number\<close>s: they round to \<open>2 ^ 63\<close> and \<open>2 ^ 64\<close>, and a comparison with them is with
  the rounded value.
\<close>

definition INT8_MIN :: int where "INT8_MIN = -128"
definition INT16_MIN :: int where "INT16_MIN = -32768"
definition INT32_MIN :: int where "INT32_MIN = -2147483648"
definition INT64_MIN :: int where "INT64_MIN = -9223372036854775808"
definition INT8_MAX :: int where "INT8_MAX = 127"
definition INT16_MAX :: int where "INT16_MAX = 32767"
definition INT32_MAX :: int where "INT32_MAX = 2147483647"
definition INT64_MAX :: int where "INT64_MAX = 9223372036854775808"
definition UINT8_MAX :: int where "UINT8_MAX = 255"
definition UINT16_MAX :: int where "UINT16_MAX = 65535"
definition UINT32_MAX :: int where "UINT32_MAX = 4294967295"
definition UINT64_MAX :: int where "UINT64_MAX = 18446744073709551616"

lemmas tlv_limits =
  INT8_MIN_def INT16_MIN_def INT32_MIN_def INT64_MIN_def INT8_MAX_def INT16_MAX_def
  INT32_MAX_def INT64_MAX_def UINT8_MAX_def UINT16_MAX_def UINT32_MAX_def UINT64_MAX_def

definition ElementTypes :: "int \<Rightarrow> string option" where
  "ElementTypes n = map_of
     [(0x00, ''int8''), (0x01, ''int16''), (0x02, ''int32''), (0x03, ''int64''),
      (0x04, ''uint8''), (0x05, ''uint16''), (0x06, ''uint32''), (0x07, ''uint64''),
      (0x08, ''boolean''), (0x09, ''boolean''), (0x0A, ''float''), (0x0B, ''double''),
      (0x0C, ''string uint8 len''), (0x0D, ''string uint16 len''),
      (0x0E, ''string uint32 len''), (0x0F, ''string uint64 len''),
      (0x10, ''Buffer uint8 len''), (0x11, ''Buffer uint16 len''),
      (0x12, ''Buffer uint32 len''), (0x13, ''Buffer uint64 len''),
      (0x14, ''null''), (0x15, ''struct''), (0x16, ''array''), (0x17, ''list''),
      (0x18, ''End of Collection'')] n"

definition TagControls :: "int \<Rightarrow> string option" where
  "TagControls n = map_of
     [(0x00, ''Anonymous''), (0x20, ''Context 1-byte''), (0x40, ''Common Profile 2-byte''),
      (0x60, ''Common Profile 4-byte''), (0x80, ''Implicit Profile 2-byte''),
      (0xA0, ''Implicit Profile 4-byte''), (0xC0, ''Fully Qualified 6-byte''),
      (0xE0, ''Fully Qualified 8-byte'')] n"

section \<open>Integers\<close>

definition int_range_error :: js_error where
  "int_range_error = Thrown ''TLV: Integer value out of range''"

text \<open>
  The number a relational comparison sees: \<open>None\<close> where every comparison is false
  (\<open>undefined\<close>).
\<close>

fun cmp_int :: "jsval \<Rightarrow> int option result" where
  "cmp_int (JNum n) = Inr (Some n)"
| "cmp_int (JBig n) = Inr (Some n)"
| "cmp_int JUndef = Inr None"
| "cmp_int JNull = Inr (Some 0)"
| "cmp_int (JBool b) = Inr (Some (if b then 1 else 0))"
| "cmp_int _ = Inl Unmodelled"

definition encodeSignedInt :: "jsval \<Rightarrow> buffer result" where
  "encodeSignedInt val = rbind (cmp_int val) (\<lambda>c. case c of
      None \<Rightarrow> Inl int_range_error
    | Some n \<Rightarrow>
        if INT8_MIN \<le> n \<and> n \<le> INT8_MAX then write_int_le 1 n 0 (buf_alloc 1)
        else if INT16_MIN \<le> n \<and> n \<le> INT16_MAX then write_int_le 2 n 0 (buf_alloc 2)
        else if INT32_MIN \<le> n \<and> n \<le> INT32_MAX then write_int_le 4 n 0 (buf_alloc 4)
        else if INT64_MIN \<le> n \<and> n \<le> INT64_MAX then write_int_le 8 n 0 (buf_alloc 8)
        else Inl int_range_error)"

definition encodeU64 :: "jsval \<Rightarrow> buffer result" where
  "encodeU64 val = rbind (to_bigint val) (\<lambda>n. write_uint_le 8 n 0 (buf_alloc 8))"

definition encodeUnsignedInt :: "jsval \<Rightarrow> buffer result" where
  "encodeUnsignedInt val = rbind (cmp_int val) (\<lambda>c. case c of
      None \<Rightarrow> Inl int_range_error
    | Some n \<Rightarrow>
        if n < 0 then Inl int_range_error
        else if n \<le> UINT8_MAX then
          rbind (to_write val) (\<lambda>w. write_uint_le 1 w 0 (buf_alloc 1))
        else if n \<le> UINT16_MAX then
          rbind (to_write val) (\<lambda>w. write_uint_le 2 w 0 (buf_alloc 2))
        else if n \<le> UINT32_MAX then
          rbind (to_write val) (\<lambda>w. write_uint_le 4 w 0 (buf_alloc 4))
        else if n \<le> UINT64_MAX then
          rbind (to_bigint val) (\<lambda>w. write_uint_le 8 w 0 (buf_alloc 8))
        else Inl int_range_error)"

definition encodeFloat :: "jsval \<Rightarrow> buffer result" where
  "encodeFloat val = rbind (float_bits val) (\<lambda>p. Inr (splice 0 (le_bytes 4 p) (buf_alloc 4)))"

definition encodeDouble :: "jsval \<Rightarrow> buffer result" where
  "encodeDouble val = rbind (double_bits val) (\<lambda>p. Inr (splice 0 (le_bytes 8 p) (buf_alloc 8)))"

definition encodeTag :: "int \<Rightarrow> buffer result" where
  "encodeTag tag =
     (if tag \<ge> 0 \<or> tag \<le> UINT16_MAX then write_uint_le 2 tag 0 (buf_alloc 2)
      else if tag > UINT16_MAX \<or> tag \<le> UINT32_MAX then write_uint_le 4 tag 0 (buf_alloc 4)
      else Inr (buf_alloc 0))"

section \<open>The control octet and the tag\<close>

definition tag_undefined_error :: js_error where
  "tag_undefined_error = Thrown ''TLV: tag undefined''"

definition tag_length_error :: js_error where
  "tag_length_error = Thrown ''TLV: Illegal tag length''"

text \<open>The bits that record a length of 2, 4 or 8 bytes.\<close>

definition control_length_bits :: "int \<Rightarrow> int \<Rightarrow> int result" where
  "control_length_bits controlByte lenOfLenOrVal =
     (if lenOfLenOrVal = 2 then Inr (controlByte OR 1)
      else if lenOfLenOrVal = 4 then Inr (controlByte OR 2)
      else if lenOfLenOrVal = 8 then Inr (controlByte OR 3)
      else if lenOfLenOrVal > 1 then Inl (Thrown ''TLV: Illegal control value length'')
      else Inr controlByte)"

text \<open>
  The tag part: the control octet with the tag control bits, and the tag bytes. In the two
  byte common profile branch the source first stores the control octet and then writes the
  tag over it at the same offset.
\<close>

definition control_tag :: "int \<Rightarrow> int option \<Rightarrow> int option \<Rightarrow> (int \<times> buffer) result" where
  "control_tag controlByte tag profile =
     (case profile of
        None \<Rightarrow>
          (case tag of
             None \<Rightarrow> Inr (controlByte OR TLV_TAG_CONTROL_ANONYMOUS, buf_alloc 0)
           | Some t \<Rightarrow>
               if t < 0 \<or> t > UINT8_MAX then Inl (Thrown ''TLV: Context-specific tag number out of range'')
               else rmap (Pair (controlByte OR TLV_TAG_CONTROL_CONTEXT_SPECIFIC))
                      (write_uint_le 1 t 0 (buf_alloc 1)))
      | Some p \<Rightarrow>
          if p = 0 \<or> p = TLV_TAG_CONTROL_COMMON_PROFILE_2Bytes \<or> p = TLV_TAG_CONTROL_COMMON_PROFILE_4Bytes then
            (case tag of
               None \<Rightarrow> Inl tag_undefined_error
             | Some t \<Rightarrow>
                 if 0 \<le> t \<and> t \<le> UINT16_MAX then
                   (let c = controlByte OR TLV_TAG_CONTROL_COMMON_PROFILE_2Bytes
                    in rmap (Pair c)
                         (rbind (write_uint_le 1 c 0 (buf_alloc 2)) (write_uint_le 2 t 0)))
                 else if t > UINT16_MAX \<and> t \<le> UINT32_MAX then
                   rmap (Pair (controlByte OR TLV_TAG_CONTROL_COMMON_PROFILE_4Bytes))
                     (write_uint_le 4 t 0 (buf_alloc 4))
                 else Inl tag_length_error)
          else if p = -1 \<or> p = TLV_TAG_CONTROL_IMPLICIT_PROFILE_2Bytes \<or> p = TLV_TAG_CONTROL_IMPLICIT_PROFILE_4Bytes then
            (case tag of
               None \<Rightarrow> Inl tag_undefined_error
             | Some t \<Rightarrow>
                 if 0 \<le> t \<and> t \<le> UINT16_MAX then
                   rmap (Pair (controlByte OR TLV_TAG_CONTROL_IMPLICIT_PROFILE_2Bytes))
                     (write_uint_le 2 t 0 (buf_alloc 2))
                 else if t > UINT16_MAX \<and> t \<le> UINT32_MAX then
                   rmap (Pair (controlByte OR TLV_TAG_CONTROL_IMPLICIT_PROFILE_4Bytes))
                     (write_uint_le 4 t 0 (buf_alloc 4))
                 else Inl tag_length_error)
          else
            (case tag of
               None \<Rightarrow> Inl tag_undefined_error
             | Some t \<Rightarrow>
                 if 0 \<le> t \<and> t \<le> UINT16_MAX then
                   rmap (Pair (controlByte OR TLV_TAG_CONTROL_FULLY_QUALIFIED_6Bytes))
                     (rbind (write_uint_le 4 p 0 (buf_alloc 6)) (write_uint_le 2 t 4))
                 else if t > UINT16_MAX \<and> t \<le> UINT32_MAX then
                   rmap (Pair (controlByte OR TLV_TAG_CONTROL_FULLY_QUALIFIED_8Bytes))
                     (rbind (write_uint_le 4 p 0 (buf_alloc 8)) (write_uint_le 4 t 4))
                 else Inr (controlByte, buf_alloc 0)))"

definition encodeControlByte :: "int \<Rightarrow> int \<Rightarrow> int option \<Rightarrow> int option \<Rightarrow> buffer result" where
  "encodeControlByte ty lenOfLenOrVal tag profile =
     rbind (control_length_bits ty lenOfLenOrVal) (\<lambda>c0.
     rbind (control_tag c0 tag profile) (\<lambda>(c, encoded).
     rbind (write_uint_le 1 c 0 (buf_alloc 1)) (\<lambda>encodedControl.
       Inr (encodedControl @ encoded))))"

record decoded_control =
  dc_typeNum :: int
  dc_tagType :: int
  dc_type :: "string option"
  dc_tagTypeName :: "string option"

definition decodeControlByte :: "buffer \<Rightarrow> decoded_control result" where
  "decodeControlByte tlv = rbind (read_uint_le 1 0 tlv) (\<lambda>controlByte.
     let elementType = controlByte AND 0x1F; tagControl = controlByte AND 0xE0
     in Inr \<lparr>dc_typeNum = elementType, dc_tagType = tagControl,
             dc_type = ElementTypes elementType, dc_tagTypeName = TagControls tagControl\<rparr>)"

section \<open>Decoding values and tags\<close>

text \<open>
  The number or length field. \<open>readBigUInt64LE\<close> and \<open>readBigInt64LE\<close> return a
  \<open>BigInt\<close>.
\<close>

definition decode_primitive :: "buffer \<Rightarrow> int \<Rightarrow> (jsval \<times> int) result" where
  "decode_primitive tlv ty =
     (if ty = TLV_TYPE_NULL then Inr (JUndef, 0)
      else if ty = TLV_TYPE_BOOLEAN_TRUE then Inr (JBool True, 0)
      else if ty = TLV_TYPE_BOOLEAN_FALSE then Inr (JBool False, 0)
      else if ty = TLV_TYPE_UTF8_STRING \<or> ty = TLV_TYPE_BYTE_STRING \<or> ty = TLV_TYPE_UNSIGNED_INTEGER then
        rmap (\<lambda>v. (JNum v, 1)) (read_uint_le 1 0 tlv)
      else if ty = TLV_TYPE_UTF8_STRING + 1 \<or> ty = TLV_TYPE_BYTE_STRING + 1 \<or> ty = TLV_TYPE_UNSIGNED_INTEGER + 1 then
        rmap (\<lambda>v. (JNum v, 2)) (read_uint_le 2 0 tlv)
      else if ty = TLV_TYPE_UTF8_STRING + 2 \<or> ty = TLV_TYPE_BYTE_STRING + 2 \<or> ty = TLV_TYPE_UNSIGNED_INTEGER + 2 then
        rmap (\<lambda>v. (JNum v, 4)) (read_uint_le 4 0 tlv)
      else if ty = TLV_TYPE_UTF8_STRING + 3 \<or> ty = TLV_TYPE_BYTE_STRING + 3 \<or> ty = TLV_TYPE_UNSIGNED_INTEGER + 3 then
        rmap (\<lambda>v. (JBig v, 8)) (read_uint_le 8 0 tlv)
      else if ty = TLV_TYPE_SIGNED_INTEGER then rmap (\<lambda>v. (JNum v, 1)) (read_int_le 1 0 tlv)
      else if ty = TLV_TYPE_SIGNED_INTEGER + 1 then rmap (\<lambda>v. (JNum v, 2)) (read_int_le 2 0 tlv)
      else if ty = TLV_TYPE_SIGNED_INTEGER + 2 then rmap (\<lambda>v. (JNum v, 4)) (read_int_le 4 0 tlv)
      else if ty = TLV_TYPE_SIGNED_INTEGER + 3 then rmap (\<lambda>v. (JBig v, 8)) (read_int_le 8 0 tlv)
      else if ty = TLV_TYPE_FLOAT then
        rmap (\<lambda>p. (num_of_bits64 (bits64_of_bits32 p), 4)) (read_uint_le 4 0 tlv)
      else if ty = TLV_TYPE_DOUBLE then
        rmap (\<lambda>p. (num_of_bits64 (word_of_int p), 8)) (read_uint_le 8 0 tlv)
      else if ty = TLV_TYPE_STRUCTURE \<or> ty = TLV_TYPE_ARRAY \<or> ty = TLV_TYPE_LIST then Inr (JArr [], 0)
      else Inr (JUndef, 0))"

text \<open>
  Strings: \<open>subarray\<close> clamps, so a length beyond the buffer shortens the value. A 64-bit
  length is a \<open>BigInt\<close>, fails the \<open>typeof\<close> test and stays the value.
\<close>

definition decodeValueAndLength :: "buffer \<Rightarrow> int \<Rightarrow> (jsval \<times> int) result" where
  "decodeValueAndLength tlv ty = rbind (decode_primitive tlv ty) (\<lambda>(v, l).
     case v of
       JNum valSize \<Rightarrow>
         if TLV_TYPE_UTF8_STRING \<le> ty \<and> ty \<le> TLV_TYPE_UTF8_STRING + 3 then
           Inr (JStr (utf8_decode (subarray l (l + valSize) tlv)), l + valSize)
         else if TLV_TYPE_BYTE_STRING \<le> ty \<and> ty \<le> TLV_TYPE_BYTE_STRING + 3 then
           Inr (JBuf (subarray l (l + valSize) tlv), l + valSize)
         else Inr (v, l)
     | _ \<Rightarrow> Inr (v, l))"

record decoded_tag =
  dt_tag :: "int option"
  dt_tagLength :: int
  dt_profile :: "int option"

definition decodeTagAndLength :: "buffer \<Rightarrow> int \<Rightarrow> decoded_tag result" where
  "decodeTagAndLength tlv tagType =
     (let fixup = (\<lambda>p. if tagType = TLV_TAG_CONTROL_IMPLICIT_PROFILE_2Bytes \<or>
                        tagType = TLV_TAG_CONTROL_IMPLICIT_PROFILE_4Bytes then Some (-1) else p);
          mk = (\<lambda>tag l p. \<lparr>dt_tag = tag, dt_tagLength = l, dt_profile = fixup p\<rparr>)
      in if tagType = TLV_TAG_CONTROL_ANONYMOUS then Inr (mk None 0 None)
         else if tagType = TLV_TAG_CONTROL_CONTEXT_SPECIFIC then
           rmap (\<lambda>t. mk (Some t) 1 None) (read_uint_le 1 0 tlv)
         else if tagType = TLV_TAG_CONTROL_COMMON_PROFILE_2Bytes \<or>
                 tagType = TLV_TAG_CONTROL_IMPLICIT_PROFILE_2Bytes then
           rmap (\<lambda>t. mk (Some t) 2 (Some 0)) (read_uint_le 2 0 tlv)
         else if tagType = TLV_TAG_CONTROL_COMMON_PROFILE_4Bytes \<or>
                 tagType = TLV_TAG_CONTROL_IMPLICIT_PROFILE_4Bytes then
           rmap (\<lambda>t. mk (Some t) 4 (Some 0)) (read_uint_le 4 0 tlv)
         else if tagType = TLV_TAG_CONTROL_FULLY_QUALIFIED_6Bytes then
           rbind (read_uint_le 4 0 tlv) (\<lambda>p. rmap (\<lambda>t. mk (Some t) 6 (Some p)) (read_uint_le 2 4 tlv))
         else if tagType = TLV_TAG_CONTROL_FULLY_QUALIFIED_8Bytes then
           rbind (read_uint_le 4 0 tlv) (\<lambda>p. rmap (\<lambda>t. mk (Some t) 8 (Some p)) (read_uint_le 4 4 tlv))
         else Inr (mk (Some 0) 0 None))"

section \<open>Exact encodings of integers\<close>

text \<open>The width the encoders choose, the least of 1, 2, 4 and 8 bytes that holds the value.\<close>

definition uwidth :: "int \<Rightarrow> nat" where
  "uwidth n = (if n < 2 ^ 8 then 1 else if n < 2 ^ 16 then 2 else if n < 2 ^ 32 then 4 else 8)"

definition swidth :: "int \<Rightarrow> nat" where
  "swidth n = (if - (2 ^ 7) \<le> n \<and> n < 2 ^ 7 then 1 else if - (2 ^ 15) \<le> n \<and> n < 2 ^ 15 then 2
     else if - (2 ^ 31) \<le> n \<and> n < 2 ^ 31 then 4 else 8)"

lemma uwidth_cases: "uwidth n = 1 \<or> uwidth n = 2 \<or> uwidth n = 4 \<or> uwidth n = 8"
  by (simp add: uwidth_def)

lemma swidth_cases: "swidth n = 1 \<or> swidth n = 2 \<or> swidth n = 4 \<or> swidth n = 8"
  by (simp add: swidth_def)

lemma uwidth_fits: "n < 2 ^ 64 \<Longrightarrow> n < 256 ^ uwidth n"
  by (simp add: uwidth_def)

lemma swidth_fits:
  "- (2 ^ 63) \<le> n \<Longrightarrow> n < 2 ^ 63 \<Longrightarrow> - (256 ^ swidth n) \<le> 2 * n \<and> 2 * n < 256 ^ swidth n"
  by (auto simp: swidth_def)

lemma write_alloc_full [codec_simps]:
  "0 \<le> v \<Longrightarrow> v < 256 ^ n \<Longrightarrow> write_uint_le n v 0 (buf_alloc n) = Inr (le_bytes n v)"
  by (simp add: write_uint_le_def splice_alloc_full [simplified])

lemma write_int_alloc_full [codec_simps]:
  "- (256 ^ n) \<le> 2 * v \<Longrightarrow> 2 * v < 256 ^ n \<Longrightarrow> write_int_le n v 0 (buf_alloc n) = Inr (le_bytes n v)"
  by (simp add: write_int_le_def splice_alloc_full [simplified])

lemma encodeUnsignedInt_num:
  assumes "0 \<le> n" and "n < 2 ^ 64"
  shows "encodeUnsignedInt (JNum n) = Inr (le_bytes (uwidth n) n)"
  using assms by (simp add: encodeUnsignedInt_def tlv_limits uwidth_def write_alloc_full del: le_bytes.simps)

lemma encodeUnsignedInt_big:
  assumes "2 ^ 32 \<le> n" and "n < 2 ^ 64"
  shows "encodeUnsignedInt (JBig n) = Inr (le_bytes 8 n)"
  using assms by (simp add: encodeUnsignedInt_def tlv_limits write_alloc_full del: le_bytes.simps)

lemma encodeUnsignedInt_big_small:
  "0 \<le> n \<Longrightarrow> n < 2 ^ 32 \<Longrightarrow> encodeUnsignedInt (JBig n) = Inl TypeError"
  by (simp add: encodeUnsignedInt_def tlv_limits)

lemma encodeSignedInt_num:
  assumes "- (2 ^ 63) \<le> n" and "n < 2 ^ 63" and "val = JNum n \<or> val = JBig n"
  shows "encodeSignedInt val = Inr (le_bytes (swidth n) n)"
  using assms by (auto simp: encodeSignedInt_def tlv_limits swidth_def write_int_alloc_full simp del: le_bytes.simps)

text \<open>
  The whole behaviour of the unsigned encoder on \<open>Number\<close>s. At \<open>2 ^ 64\<close> the rounded
  limit lets the value through to \<open>writeBigUInt64LE\<close>, which throws a different error.
\<close>

lemma encodeUnsignedInt_cases:
  "encodeUnsignedInt (JNum n) =
     (if n < 0 then Inl int_range_error
      else if n < 2 ^ 64 then Inr (le_bytes (uwidth n) n)
      else if n = 2 ^ 64 then Inl RangeError
      else Inl int_range_error)"
  by (simp add: encodeUnsignedInt_num)
    (auto simp: encodeUnsignedInt_def tlv_limits write_uint_le_def simp del: le_bytes.simps)

lemma encodeSignedInt_cases:
  "encodeSignedInt (JNum n) =
     (if - (2 ^ 63) \<le> n \<and> n < 2 ^ 63 then Inr (le_bytes (swidth n) n)
      else if n = 2 ^ 63 then Inl RangeError
      else Inl int_range_error)"
proof (cases "- (2 ^ 63) \<le> n \<and> n < 2 ^ 63")
  case False
  then show ?thesis
    by (auto simp: encodeSignedInt_def tlv_limits write_int_le_def simp del: le_bytes.simps)
qed (simp add: encodeSignedInt_num)

section \<open>Tags: what is written and what is read back\<close>

text \<open>
  The tags a document can carry and keep: anonymous, context-specific, common profile
  (\<open>profile = 0\<close>), implicit profile (\<open>profile = -1\<close>) and fully qualified. The profile
  numbers \<open>0x40\<close>, \<open>0x60\<close>, \<open>0x80\<close>, \<open>0xA0\<close> are not among them: the encoder takes
  them for the tag control values.
\<close>

definition wf_tag :: "int option \<Rightarrow> int option \<Rightarrow> bool" where
  "wf_tag tag profile =
     (case profile of
        None \<Rightarrow> (case tag of None \<Rightarrow> True | Some t \<Rightarrow> 0 \<le> t \<and> t < 2 ^ 8)
      | Some p \<Rightarrow> (case tag of None \<Rightarrow> False | Some t \<Rightarrow> 0 \<le> t \<and> t < 2 ^ 32) \<and>
          (p = -1 \<or> (0 \<le> p \<and> p < 2 ^ 32 \<and> p \<notin> {0x40, 0x60, 0x80, 0xA0})))"

definition tag_control :: "int option \<Rightarrow> int option \<Rightarrow> int" where
  "tag_control tag profile =
     (case profile of
        None \<Rightarrow> (case tag of None \<Rightarrow> 0x00 | Some t \<Rightarrow> 0x20)
      | Some p \<Rightarrow>
          (let wide = (case tag of None \<Rightarrow> False | Some t \<Rightarrow> 2 ^ 16 \<le> t)
           in if p = 0 then (if wide then 0x60 else 0x40)
              else if p = -1 then (if wide then 0xA0 else 0x80)
              else (if wide then 0xE0 else 0xC0)))"

definition tag_field :: "int option \<Rightarrow> int option \<Rightarrow> buffer" where
  "tag_field tag profile =
     (case tag of
        None \<Rightarrow> []
      | Some t \<Rightarrow>
          (case profile of
             None \<Rightarrow> le_bytes 1 t
           | Some p \<Rightarrow> (if p = 0 \<or> p = -1 then [] else le_bytes 4 p) @ le_bytes (if t < 2 ^ 16 then 2 else 4) t))"

definition length_bits :: "nat \<Rightarrow> int" where
  "length_bits w = (if w = 2 then 1 else if w = 4 then 2 else if w = 8 then 3 else 0)"

lemma tag_control_range: "tag_control tag profile \<in> {0x00, 0x20, 0x40, 0x60, 0x80, 0xA0, 0xC0, 0xE0}"
  by (auto simp: tag_control_def Let_def split: option.splits)

lemma and_type_mask: "0 \<le> t \<Longrightarrow> t < 32 \<Longrightarrow> (t :: int) AND 0x1F = t"
  using take_bit_eq_mask [of 5 t] by (simp add: take_bit_int_eq_self mask_eq_exp_minus_1)

lemma and_tag_mask: "0 \<le> t \<Longrightarrow> t < 32 \<Longrightarrow> (t :: int) AND 0xE0 = 0"
proof -
  assume "0 \<le> t" "t < 32"
  then have "t AND 0xE0 = (t AND 0x1F) AND 0xE0" by (simp add: and_type_mask)
  also have "\<dots> = t AND (0x1F AND 0xE0)" by (simp only: and.assoc)
  finally show ?thesis by simp
qed

lemma control_split:
  assumes "0 \<le> t" and "t < 32" and "k \<in> {0x00, 0x20, 0x40, 0x60, 0x80, 0xA0, 0xC0, 0xE0 :: int}"
  shows "(t OR k) AND 0x1F = t" and "(t OR k) AND 0xE0 = k"
    and "0 \<le> t OR k" and "t OR k < 256"
proof -
  show "(t OR k) AND 0x1F = t" and "(t OR k) AND 0xE0 = k"
    using assms by (auto simp: bit.conj_disj_distrib2 and_type_mask and_tag_mask)
  show "0 \<le> t OR k" using assms by auto
  show "t OR k < 256" using assms OR_upper [of t 8 k] by auto
qed

lemma write_then_write:
  "0 \<le> v \<Longrightarrow> v < 256 ^ n \<Longrightarrow> 0 \<le> w \<Longrightarrow> w < 256 ^ m \<Longrightarrow>
   rbind (write_uint_le n v 0 (buf_alloc (n + m))) (write_uint_le m w n) = Inr (le_bytes n v @ le_bytes m w)"
  by (simp add: write_uint_le_def splice_def buf_alloc_def del: le_bytes.simps)

lemma write_over:
  "0 \<le> v \<Longrightarrow> v < 256 ^ n \<Longrightarrow> 0 \<le> w \<Longrightarrow> w < 256 ^ m \<Longrightarrow> n \<le> m \<Longrightarrow>
   rbind (write_uint_le n v 0 (buf_alloc m)) (write_uint_le m w 0) = Inr (le_bytes m w)"
  by (simp add: write_uint_le_def splice_def buf_alloc_def del: le_bytes.simps)

lemma wf_tag_Some:
  "wf_tag tag (Some p) \<Longrightarrow> \<exists>t. tag = Some t \<and> 0 \<le> t \<and> t < 2 ^ 32 \<and>
     (p = 0 \<or> p = -1 \<or> 0 < p \<and> p < 2 ^ 32 \<and> p \<notin> {0x40, 0x60, 0x80, 0xA0})"
  by (cases "p = 0") (auto simp: wf_tag_def split: option.splits)

lemma control_tag_ok:
  assumes "wf_tag tag profile" and "0 \<le> c" and "c < 32"
  shows "control_tag c tag profile = Inr (c OR tag_control tag profile, tag_field tag profile)"
proof (cases profile)
  case None
  then show ?thesis using assms(1)
    by (cases tag) (simp_all add: wf_tag_def control_tag_def tag_control_def tag_field_def
        tlv_tag_controls tlv_limits buf_alloc_def write_uint_le_def)
next
  case (Some p)
  then obtain t where tag: "tag = Some t" and t: "0 \<le> t" "t < 2 ^ 32"
    and p: "p = 0 \<or> p = -1 \<or> 0 < p \<and> p < 2 ^ 32 \<and> p \<notin> {0x40, 0x60, 0x80, 0xA0}"
    using wf_tag_Some [of tag p] assms(1) by blast
  have c40: "0 \<le> c OR 0x40" "c OR 0x40 < 256 ^ 1" using control_split(3,4) [of c "0x40"] assms by simp_all
  consider (common) "p = 0" | (implicit) "p = -1"
    | (full) "0 < p" "p < 2 ^ 32" "p \<notin> {0x40, 0x60, 0x80, 0xA0}"
    using p by blast
  then show ?thesis
  proof cases
    case common
    then show ?thesis
      using t c40 write_over [of "c OR 0x40" 1 t 2] write_alloc_full [of t 4]
      by (simp add: Some tag control_tag_def tag_control_def tag_field_def tlv_tag_controls
          tlv_limits Let_def del: le_bytes.simps)
  next
    case implicit
    then show ?thesis
      using t write_alloc_full [of t 2] write_alloc_full [of t 4]
      by (simp add: Some tag control_tag_def tag_control_def tag_field_def tlv_tag_controls
          tlv_limits Let_def del: le_bytes.simps)
  next
    case full
    then show ?thesis
      using t write_then_write [of p 4 t 2] write_then_write [of p 4 t 4]
      by (simp add: Some tag control_tag_def tag_control_def tag_field_def tlv_tag_controls
          tlv_limits Let_def del: le_bytes.simps)
  qed
qed

definition control_octet :: "int \<Rightarrow> int option \<Rightarrow> int option \<Rightarrow> byte" where
  "control_octet ty tag profile = word_of_int (ty OR tag_control tag profile)"

text \<open>The octet and tag written for an element type \<open>ty\<close> with a length or value of \<open>w\<close> bytes.\<close>

lemma encodeControlByte_ok:
  assumes "wf_tag tag profile" and "0 \<le> ty OR length_bits w" and "ty OR length_bits w < 32"
    and "w \<in> {0, 1, 2, 4, 8}"
  shows "encodeControlByte ty (int w) tag profile =
    Inr (control_octet (ty OR length_bits w) tag profile # tag_field tag profile)"
proof -
  let ?c = "ty OR length_bits w"
  have "control_length_bits ty (int w) = Inr ?c"
    using assms(4) by (auto simp: control_length_bits_def length_bits_def)
  moreover have "write_uint_le 1 (?c OR tag_control tag profile) 0 (buf_alloc 1) =
      Inr [control_octet ?c tag profile]"
    using control_split(3,4) [OF assms(2,3) tag_control_range [of tag profile]]
    by (simp add: write_alloc_full [of _ 1, simplified] control_octet_def)
  ultimately show ?thesis
    using control_tag_ok [OF assms(1-3)] by (simp add: encodeControlByte_def)
qed

lemma decodeControlByte_octet:
  assumes "0 \<le> ty" and "ty < 32"
  shows "decodeControlByte (control_octet ty tag profile # bs) =
    Inr \<lparr>dc_typeNum = ty, dc_tagType = tag_control tag profile, dc_type = ElementTypes ty,
         dc_tagTypeName = TagControls (tag_control tag profile)\<rparr>"
  using control_split [OF assms tag_control_range [of tag profile]]
  by (simp add: decodeControlByte_def read_uint_le_def control_octet_def Let_def)

lemma decodeTag_field:
  assumes "wf_tag tag profile"
  shows "decodeTagAndLength (tag_field tag profile @ bs) (tag_control tag profile) =
    Inr \<lparr>dt_tag = tag, dt_tagLength = int (length (tag_field tag profile)), dt_profile = profile\<rparr>"
proof (cases profile)
  case None
  then show ?thesis using assms
    by (cases tag) (simp_all add: wf_tag_def decodeTagAndLength_def tag_control_def tag_field_def
        tlv_tag_controls read_uint_le_def)
next
  case (Some p)
  then obtain t where tag: "tag = Some t" and t: "0 \<le> t" "t < 2 ^ 32"
    and p: "p = 0 \<or> p = -1 \<or> 0 < p \<and> p < 2 ^ 32 \<and> p \<notin> {0x40, 0x60, 0x80, 0xA0}"
    using wf_tag_Some [of tag p] assms by blast
  have skip: "read_uint_le n 4 (le_bytes 4 p @ b) = read_uint_le n 0 b" for n b
    using read_uint_le_skip [of n "le_bytes 4 p" 0 b] by (simp del: le_bytes.simps)
  consider (common) "p = 0" | (implicit) "p = -1"
    | (full) "0 < p" "p < 2 ^ 32" "p \<notin> {0x40, 0x60, 0x80, 0xA0}"
    using p by blast
  then show ?thesis
  proof cases
    case full
    then show ?thesis
      using t read_uint_le_prefix [of p 4 "le_bytes 2 t @ bs"] read_uint_le_prefix [of p 4 "le_bytes 4 t @ bs"]
        read_uint_le_prefix [of t 2 bs] read_uint_le_prefix [of t 4 bs]
      by (simp add: Some tag decodeTagAndLength_def tag_control_def tag_field_def tlv_tag_controls
          skip del: le_bytes.simps)
  qed (use t read_uint_le_prefix [of t 2 bs] read_uint_le_prefix [of t 4 bs] in
      \<open>simp_all add: Some tag decodeTagAndLength_def tag_control_def tag_field_def tlv_tag_controls
        del: le_bytes.simps\<close>)
qed

section \<open>Values: what is read back\<close>

lemma subarray_middle [codec_simps]:
  "subarray (int (length a)) (int (length a) + int (length b)) (a @ b @ c) = b"
  using js_index_nat [of "length (a @ b @ c)" "length a"]
    js_index_nat [of "length (a @ b @ c)" "length a + length b"]
  by (simp add: subarray_def Let_def min_def)

lemma subarray_from_prefix [codec_simps]: "subarray_from (int (length a)) (a @ b) = b"
  by (simp add: subarray_from_def)

lemma or_length_bits:
  "w \<in> {1, 2, 4, 8} \<Longrightarrow> TLV_TYPE_UNSIGNED_INTEGER OR length_bits w = 4 + length_bits w"
  "w \<in> {1, 2, 4, 8} \<Longrightarrow> TLV_TYPE_SIGNED_INTEGER OR length_bits w = length_bits w"
  "w \<in> {1, 2, 4, 8} \<Longrightarrow> TLV_TYPE_UTF8_STRING OR length_bits w = 12 + length_bits w"
  "w \<in> {1, 2, 4, 8} \<Longrightarrow> TLV_TYPE_BYTE_STRING OR length_bits w = 16 + length_bits w"
  by (auto simp: tlv_types length_bits_def)

lemma decode_unsigned [codec_simps]:
  assumes "0 \<le> n" and "n < 2 ^ 64"
  shows "decodeValueAndLength (le_bytes (uwidth n) n @ bs) (4 + length_bits (uwidth n)) =
    Inr (if n < 2 ^ 32 then JNum n else JBig n, int (uwidth n))"
  using read_uint_le_prefix [OF assms(1) uwidth_fits [OF assms(2)], of bs] assms
  by (simp add: decodeValueAndLength_def decode_primitive_def tlv_types length_bits_def uwidth_def
      del: le_bytes.simps split: if_splits)

lemma decode_signed [codec_simps]:
  assumes "- (2 ^ 63) \<le> n" and "n < 2 ^ 63"
  shows "decodeValueAndLength (le_bytes (swidth n) n @ bs) (length_bits (swidth n)) =
    Inr (if swidth n = 8 then JBig n else JNum n, int (swidth n))"
  using read_int_le_prefix [of "swidth n" n bs] swidth_fits [OF assms] swidth_cases [of n]
  by (auto simp: decodeValueAndLength_def decode_primitive_def tlv_types length_bits_def
      simp del: le_bytes.simps)

lemma decode_length_field:
  assumes "0 \<le> n" and "n < 2 ^ 32" and "b \<in> {12, 16}"
  shows "decode_primitive (le_bytes (uwidth n) n @ bs) (b + length_bits (uwidth n)) =
    Inr (JNum n, int (uwidth n))"
  using read_uint_le_prefix [of n "uwidth n" bs] uwidth_fits [of n] assms
  by (auto simp: decode_primitive_def tlv_types length_bits_def uwidth_def
      simp del: le_bytes.simps split: if_splits)

lemma decode_bytes [codec_simps]:
  assumes "int (length v) < 2 ^ 32"
  shows "decodeValueAndLength (le_bytes (uwidth (int (length v))) (int (length v)) @ v @ bs)
      (16 + length_bits (uwidth (int (length v)))) =
    Inr (JBuf v, int (uwidth (int (length v))) + int (length v))"
proof -
  let ?n = "int (length v)"
  have "subarray (int (uwidth ?n)) (int (uwidth ?n) + ?n) (le_bytes (uwidth ?n) ?n @ v @ bs) = v"
    using subarray_middle [of "le_bytes (uwidth ?n) ?n" v bs] by simp
  moreover have "0 \<le> length_bits (uwidth ?n)" "length_bits (uwidth ?n) \<le> 3"
    by (simp_all add: length_bits_def)
  ultimately show ?thesis
    using decode_length_field [of ?n 16 "v @ bs"] assms
    by (simp add: decodeValueAndLength_def tlv_types)
qed

lemma decode_string [codec_simps]:
  assumes "int (length v) < 2 ^ 32"
  shows "decodeValueAndLength (le_bytes (uwidth (int (length v))) (int (length v)) @ v @ bs)
      (12 + length_bits (uwidth (int (length v)))) =
    Inr (JStr (utf8_decode v), int (uwidth (int (length v))) + int (length v))"
proof -
  let ?n = "int (length v)"
  have "subarray (int (uwidth ?n)) (int (uwidth ?n) + ?n) (le_bytes (uwidth ?n) ?n @ v @ bs) = v"
    using subarray_middle [of "le_bytes (uwidth ?n) ?n" v bs] by simp
  moreover have "0 \<le> length_bits (uwidth ?n)" "length_bits (uwidth ?n) \<le> 3"
    by (simp_all add: length_bits_def)
  ultimately show ?thesis
    using decode_length_field [of ?n 12 "v @ bs"] assms
    by (simp add: decodeValueAndLength_def tlv_types)
qed

lemma decode_double [codec_simps]:
  "decodeValueAndLength (le_bytes 8 (uint (p :: 64 word)) @ bs) TLV_TYPE_DOUBLE =
   (case num_of_bits64 p of v \<Rightarrow> Inr (v, 8))"
  using read_uint_le_prefix [of "uint p" 8 bs] uint_lt2p [of p]
  by (simp add: decodeValueAndLength_def decode_primitive_def tlv_types del: le_bytes.simps
      split: jsval.split)

lemma decode_plain [codec_simps]:
  "decodeValueAndLength bs TLV_TYPE_NULL = Inr (JUndef, 0)"
  "decodeValueAndLength bs TLV_TYPE_BOOLEAN_TRUE = Inr (JBool True, 0)"
  "decodeValueAndLength bs TLV_TYPE_BOOLEAN_FALSE = Inr (JBool False, 0)"
  "decodeValueAndLength bs TLV_TYPE_STRUCTURE = Inr (JArr [], 0)"
  "decodeValueAndLength bs TLV_TYPE_ARRAY = Inr (JArr [], 0)"
  "decodeValueAndLength bs TLV_TYPE_LIST = Inr (JArr [], 0)"
  "decodeValueAndLength bs TLV_TYPE_END = Inr (JUndef, 0)"
  by (simp_all add: decodeValueAndLength_def decode_primitive_def tlv_types)

end
