(* ===== verification/Tlv_Writer.thy ===== *)
theory Tlv_Writer
  imports Tlv_Codec
begin

text \<open>
  \<open>src/tlv/TlvWriter.ts\<close>: the writer object and its operations. The put operations append
  to the buffer; what \<open>putFloat\<close> and the three container starts also return is used by no
  caller and is left out. \<open>put\<close> and \<open>encode\<close> call each other; \<open>put\<close> stores the given
  tag and profile in an object before it encodes it, which the model does on a copy.
\<close>

section \<open>The writer\<close>

record tlv_writer =
  tw_buf :: buffer

definition new_writer :: tlv_writer where
  "new_writer = \<lparr>tw_buf = buf_alloc 0\<rparr>"

definition emit :: "buffer \<Rightarrow> tlv_writer \<Rightarrow> tlv_writer" where
  "emit bs w = w\<lparr>tw_buf := tw_buf w @ bs\<rparr>"

definition putUnsignedInt :: "jsval \<Rightarrow> int option \<Rightarrow> int option \<Rightarrow> tlv_writer \<Rightarrow> tlv_writer result" where
  "putUnsignedInt val tag profile w =
     rbind (encodeUnsignedInt val) (\<lambda>encoded.
     rbind (encodeControlByte TLV_TYPE_UNSIGNED_INTEGER (int (length encoded)) tag profile) (\<lambda>controlAndTag.
       Inr (emit (controlAndTag @ encoded) w)))"

definition putSignedInt :: "jsval \<Rightarrow> int option \<Rightarrow> int option \<Rightarrow> tlv_writer \<Rightarrow> tlv_writer result" where
  "putSignedInt val tag profile w =
     rbind (encodeSignedInt val) (\<lambda>encoded.
     rbind (encodeControlByte TLV_TYPE_SIGNED_INTEGER (int (length encoded)) tag profile) (\<lambda>controlAndTag.
       Inr (emit (controlAndTag @ encoded) w)))"

definition putFloat :: "jsval \<Rightarrow> int option \<Rightarrow> int option \<Rightarrow> tlv_writer \<Rightarrow> tlv_writer result" where
  "putFloat val tag profile w =
     rbind (encodeFloat val) (\<lambda>encoded.
     rbind (encodeControlByte TLV_TYPE_FLOAT 0 tag profile) (\<lambda>controlAndTag.
       Inr (emit (controlAndTag @ encoded) w)))"

definition putDouble :: "jsval \<Rightarrow> int option \<Rightarrow> int option \<Rightarrow> tlv_writer \<Rightarrow> tlv_writer result" where
  "putDouble val tag profile w =
     rbind (encodeDouble val) (\<lambda>encoded.
     rbind (encodeControlByte TLV_TYPE_DOUBLE 0 tag profile) (\<lambda>controlAndTag.
       Inr (emit (controlAndTag @ encoded) w)))"

definition putBoolean :: "jsval \<Rightarrow> int option \<Rightarrow> int option \<Rightarrow> tlv_writer \<Rightarrow> tlv_writer result" where
  "putBoolean val tag profile w =
     (let ty = (if js_truthy val then TLV_TYPE_BOOLEAN_TRUE else TLV_TYPE_BOOLEAN_FALSE)
      in rbind (encodeControlByte ty 0 tag profile) (\<lambda>controlAndTag. Inr (emit controlAndTag w)))"

definition putNull :: "int option \<Rightarrow> int option \<Rightarrow> tlv_writer \<Rightarrow> tlv_writer result" where
  "putNull tag profile w =
     rbind (encodeControlByte TLV_TYPE_NULL 0 tag profile) (\<lambda>controlAndTag. Inr (emit controlAndTag w))"

definition putBytes :: "buffer \<Rightarrow> int option \<Rightarrow> int option \<Rightarrow> tlv_writer \<Rightarrow> tlv_writer result" where
  "putBytes val tag profile w =
     rbind (encodeUnsignedInt (JNum (int (length val)))) (\<lambda>valLen.
     rbind (encodeControlByte TLV_TYPE_BYTE_STRING (int (length valLen)) tag profile) (\<lambda>controlAndTag.
       Inr (emit (controlAndTag @ valLen @ val) w)))"

text \<open>The length written is \<open>val.length\<close>, the number of UTF-16 units of the string.\<close>

definition putString :: "16 word list \<Rightarrow> int option \<Rightarrow> int option \<Rightarrow> tlv_writer \<Rightarrow> tlv_writer result" where
  "putString val tag profile w =
     (let encoded = utf8_encode val
      in rbind (encodeUnsignedInt (JNum (int (length val)))) (\<lambda>valLen.
         rbind (encodeControlByte TLV_TYPE_UTF8_STRING (int (length valLen)) tag profile) (\<lambda>controlAndTag.
           Inr (emit (controlAndTag @ valLen @ encoded) w))))"

definition putStructStart :: "int option \<Rightarrow> int option \<Rightarrow> tlv_writer \<Rightarrow> tlv_writer result" where
  "putStructStart tag profile w =
     rbind (encodeControlByte TLV_TYPE_STRUCTURE 0 tag profile) (\<lambda>controlAndTag. Inr (emit controlAndTag w))"

definition putArrayStart :: "int option \<Rightarrow> int option \<Rightarrow> tlv_writer \<Rightarrow> tlv_writer result" where
  "putArrayStart tag profile w =
     rbind (encodeControlByte TLV_TYPE_ARRAY 0 tag profile) (\<lambda>controlAndTag. Inr (emit controlAndTag w))"

definition putListStart :: "int option \<Rightarrow> int option \<Rightarrow> tlv_writer \<Rightarrow> tlv_writer result" where
  "putListStart tag profile w =
     rbind (encodeControlByte TLV_TYPE_LIST 0 tag profile) (\<lambda>controlAndTag. Inr (emit controlAndTag w))"

definition putContainerEnd :: "tlv_writer \<Rightarrow> tlv_writer result" where
  "putContainerEnd w =
     rbind (encodeControlByte TLV_TYPE_END 0 None None) (\<lambda>controlAndTag. Inr (emit controlAndTag w))"

section \<open>Generic values and documents\<close>

function (sequential) put :: "jsval \<Rightarrow> int option \<Rightarrow> int option \<Rightarrow> tlv_writer \<Rightarrow> tlv_writer result"
  and encode :: "jsval \<Rightarrow> tlv_writer \<Rightarrow> tlv_writer result" where
  "put JUndef tag profile w = putNull tag profile w"
| "put JNull tag profile w = putNull tag profile w"
| "put (JStr s) tag profile w = putString s tag profile w"
| "put (JBuf b) tag profile w = putBytes b tag profile w"
| "put (JNum n) tag profile w =
     (if n < 0 then putSignedInt (JNum n) tag profile w else putUnsignedInt (JNum n) tag profile w)"
| "put (JBig n) tag profile w =
     (if n < 0 then putSignedInt (JBig n) tag profile w else putUnsignedInt (JBig n) tag profile w)"
| "put (JDbl p) tag profile w = putDouble (JDbl p) tag profile w"
| "put (JBool b) tag profile w = putBoolean (JBool b) tag profile w"
| "put (JArr xs) tag profile w = encode (JArr xs) w"
| "put (JObj p t ty v n) tag profile w = encode (JObj profile tag ty v n) w"
| "encode JUndef w = Inl TypeError"
| "encode JNull w = Inl TypeError"
| "encode (JArr xs) w = rfold encode xs w"
| "encode (JObj profile tag ty v n) w =
     (if ty = Some ''struct'' then
        rbind (putStructStart tag profile w) (\<lambda>w. rbind (encode v w) putContainerEnd)
      else if ty = Some ''array'' then
        rbind (putArrayStart tag profile w) (\<lambda>w. rbind (encode v w) putContainerEnd)
      else if ty = Some ''list'' then
        rbind (putListStart tag profile w) (\<lambda>w. rbind (encode v w) putContainerEnd)
      else if ty = Some ''int8'' \<or> ty = Some ''int16'' \<or> ty = Some ''int32'' \<or> ty = Some ''int64'' then
        putSignedInt v tag profile w
      else if ty = Some ''uint8'' \<or> ty = Some ''uint16'' \<or> ty = Some ''uint32'' \<or> ty = Some ''uint64'' then
        putUnsignedInt v tag profile w
      else if ty = Some ''float'' then putFloat v tag profile w
      else if ty = Some ''boolean'' \<or> ty = Some ''bool'' then putBoolean v tag profile w
      else if ty = Some ''Buffer'' then
        (case v of
           JStr s \<Rightarrow> putBytes (hex_decode s) tag profile w
         | _ \<Rightarrow> rbind (buffer_from v) (\<lambda>b. putBytes b tag profile w))
      else put v tag profile w)"
| "encode (JBuf b) w = put JUndef None None w"
| "encode v w = put v None None w"
  by pat_completeness auto
termination
  by (relation "measure (\<lambda>x. case x of
      Inl (v, _, _, _) \<Rightarrow> (case v of JArr _ \<Rightarrow> 3 * size v + 2 | JObj _ _ _ _ _ \<Rightarrow> 3 * size v + 2 | _ \<Rightarrow> 0)
    | Inr (v, _) \<Rightarrow> 3 * size v + 1)")
    (auto split: jsval.splits dest!: size_list_estimation' [where f = size, OF _ order.refl])

end
