(* ===== verification/Tlv_Reader.thy ===== *)
theory Tlv_Reader
  imports Tlv_Codec
begin

text \<open>
  \<open>src/tlv/TlvReader.ts\<close> and \<open>src/tlv/TlvParser.ts\<close>: decoding a buffer into
  deterministic JSON and looking elements up in it.

  The reader appends to nested arrays through references: \<open>_container\<close> and the entries of
  \<open>containerStack\<close> point into the tree under \<open>_json\<close>. Every array they can point to is
  the \<open>value\<close> of the last element of the array one level up, so a reference is modelled as
  the number of such steps from \<open>_json\<close>, and a push through it as \<open>spine_push\<close>.
\<close>

section \<open>Lookup\<close>

text \<open>\<open>TlvReader.findTag\<close> and \<open>TlvParser.findTag\<close>, which have the same body.\<close>

definition findTag :: "jsval \<Rightarrow> int \<Rightarrow> jsval result" where
  "findTag tlvJson tag =
     rbind (js_elements tlvJson) (\<lambda>xs.
     rbind (js_find (\<lambda>e. rmap (\<lambda>t. t = JNum tag) (prop_tag e)) xs) (\<lambda>entry.
       if entry \<noteq> JUndef \<and> entry \<noteq> JNull then prop_value entry else Inr JUndef))"

definition set_name :: "string \<Rightarrow> jsval \<Rightarrow> jsval" where
  "set_name nm e = (case e of JObj p t ty v n \<Rightarrow> JObj p t ty v (Some nm) | _ \<Rightarrow> e)"

text \<open>\<open>TlvParser.setNameForTag\<close>: names the first element with the tag.\<close>

fun setNameForTag :: "jsval list \<Rightarrow> int \<Rightarrow> string \<Rightarrow> jsval list result" where
  "setNameForTag [] tag nm = Inr []"
| "setNameForTag (e # es) tag nm =
     rbind (prop_tag e) (\<lambda>t. if t = JNum tag then Inr (set_name nm e # es)
                              else rmap (Cons e) (setNameForTag es tag nm))"

text \<open>\<open>TlvParser.get\<close>: the value of the first element with the name.\<close>

definition getByName :: "jsval \<Rightarrow> string \<Rightarrow> jsval result" where
  "getByName tlvJson tagName =
     rbind (js_elements tlvJson) (\<lambda>xs.
     rbind (js_find (\<lambda>e. rmap (\<lambda>n. n = Some tagName) (prop_name e)) xs) (\<lambda>entry.
       if entry \<noteq> JUndef \<and> entry \<noteq> JNull then prop_value entry else Inr JUndef))"

text \<open>
  \<open>TlvParser.mapFields\<close>: the guard \<open>element.tag &&\<close> is false for tag \<open>0\<close>, so an
  element with tag 0 is never named.
\<close>

definition map_field :: "(int \<Rightarrow> string option) \<Rightarrow> jsval \<Rightarrow> jsval result" where
  "map_field tagNameMap e = rbind (prop_tag e) (\<lambda>t.
     case t of
       JNum n \<Rightarrow> (if n \<noteq> 0 then (case tagNameMap n of None \<Rightarrow> Inr e | Some nm \<Rightarrow> Inr (set_name nm e)) else Inr e)
     | _ \<Rightarrow> Inr e)"

definition mapFields :: "jsval \<Rightarrow> (int \<Rightarrow> string option) \<Rightarrow> jsval result" where
  "mapFields tlvJson tagNameMap =
     rbind (js_elements tlvJson) (\<lambda>xs.
     rmap (\<lambda>ys. case tlvJson of JArr _ \<Rightarrow> JArr ys | _ \<Rightarrow> tlvJson)
       (rfold (\<lambda>e acc. rmap (\<lambda>e'. acc @ [e']) (map_field tagNameMap e)) xs []))"

section \<open>The reader\<close>

record tlv_reader =
  tr_json :: "jsval list"
  tr_container :: nat

definition new_reader :: tlv_reader where
  "new_reader = \<lparr>tr_json = [], tr_container = 0\<rparr>"

fun spine_push :: "nat \<Rightarrow> jsval list \<Rightarrow> jsval list \<Rightarrow> jsval list" where
  "spine_push 0 es js = js @ es"
| "spine_push (Suc d) es js =
     (if js = [] then js
      else butlast js @ [case last js of
             JObj p t ty (JArr xs) n \<Rightarrow> JObj p t ty (JArr (spine_push d es xs)) n
           | e \<Rightarrow> e])"

definition is_container_type :: "int \<Rightarrow> bool" where
  "is_container_type ty \<longleftrightarrow> ty = TLV_TYPE_STRUCTURE \<or> ty = TLV_TYPE_ARRAY \<or> ty = TLV_TYPE_LIST"

text \<open>One element: its type number, the entry built from it, and the rest of the buffer.\<close>

definition decode_element :: "buffer \<Rightarrow> (int \<times> jsval \<times> buffer) result" where
  "decode_element tlv =
     rbind (decodeControlByte tlv) (\<lambda>control.
     let tlv1 = subarray_from 1 tlv
     in rbind (decodeTagAndLength tlv1 (dc_tagType control)) (\<lambda>tag.
        let tlv2 = subarray_from (dt_tagLength tag) tlv1
        in rbind (decodeValueAndLength tlv2 (dc_typeNum control)) (\<lambda>(v, l).
             Inr (dc_typeNum control, JObj (dt_profile tag) (dt_tag tag) (dc_type control) v None,
                  subarray_from l tlv2))))"

lemma length_subarray_from: "length (subarray_from i b) \<le> length b"
  by (simp add: subarray_from_def)

lemma decode_element_shrinks:
  assumes "decode_element tlv = Inr (ty, e, rest)"
  shows "length rest < length tlv"
proof -
  from assms obtain control where "decodeControlByte tlv = Inr control"
    by (auto simp: decode_element_def)
  then have "tlv \<noteq> []"
    by (auto simp: decodeControlByte_def read_uint_le_def split: if_splits)
  then have "length (subarray_from 1 tlv) < length tlv"
    by (simp add: subarray_from_def)
  moreover from assms obtain i j where "rest = subarray_from i (subarray_from j (subarray_from 1 tlv))"
    by (auto simp: decode_element_def Let_def split: prod.splits)
  ultimately show ?thesis
    using length_subarray_from [of i "subarray_from j (subarray_from 1 tlv)"]
      length_subarray_from [of j "subarray_from 1 tlv"] by simp
qed

text \<open>
  The loop over \<open>(tlv, containerDepth, containerStack, _container, _json)\<close>; the head of the
  stack is its top. It consumes at least the control octet in each turn, so it ends.
\<close>

function decode_loop :: "buffer \<Rightarrow> int \<Rightarrow> nat list \<Rightarrow> nat \<Rightarrow> jsval list \<Rightarrow> tlv_reader result" where
  "decode_loop tlv depth stack container json =
     (if tlv \<noteq> [] \<and> depth > 0 then
        rbind (decode_element tlv) (\<lambda>(ty, decoding, rest).
          if ty = TLV_TYPE_END then
            decode_loop rest (depth - 1) (tl stack) (hd stack) json
          else if is_container_type ty then
            decode_loop rest (depth + 1) (container # stack) (Suc container)
              (spine_push container [decoding] json)
          else
            decode_loop rest depth stack container (spine_push container [decoding] json))
      else Inr \<lparr>tr_json = json, tr_container = container\<rparr>)"
  by pat_completeness auto
termination
  by (relation "measure (\<lambda>(tlv, _, _, _, _). length tlv)") (auto dest: decode_element_shrinks)

declare decode_loop.simps [simp del]

definition decode :: "buffer \<Rightarrow> tlv_reader \<Rightarrow> tlv_reader result" where
  "decode tlv r = decode_loop tlv 1 [tr_container r] (tr_container r) (tr_json r)"

text \<open>\<open>new TlvReader().decode(tlv).Json\<close>, the call every protocol handler makes.\<close>

definition decode_json :: "buffer \<Rightarrow> jsval result" where
  "decode_json tlv = rmap (\<lambda>r. JArr (tr_json r)) (decode tlv new_reader)"

section \<open>Lookup lemmas\<close>

lemma findTag_Cons [simp]:
  "findTag (JArr (JObj p (Some t) ty v n # es)) tag =
     (if t = tag then Inr v else findTag (JArr es) tag)"
  "findTag (JArr (JObj p None ty v n # es)) tag = findTag (JArr es) tag"
  "findTag (JArr []) tag = Inr JUndef"
  by (auto simp: findTag_def opt_num_def)

lemma getByName_Cons [simp]:
  "getByName (JArr (JObj p t ty v n # es)) nm =
     (if n = Some nm then Inr v else getByName (JArr es) nm)"
  "getByName (JArr []) nm = Inr JUndef"
  by (auto simp: getByName_def)

end
