(* ===== verification/Tlv_Roundtrip.thy ===== *)
theory Tlv_Roundtrip
  imports Tlv_Writer Tlv_Reader
begin

text \<open>
  What the TLV writer and reader promise each other. \<open>telem\<close> is a TLV element as the Matter
  data model sees it; \<open>tlv_bytes\<close> gives its octets and \<open>tlv_json\<close> the document the
  reader builds for it. \<open>telem_of\<close> is the element a document handed to the writer stands
  for, whichever of the accepted spellings it uses. The writer refines \<open>tlv_bytes\<close> and the
  reader inverts it.
\<close>

section \<open>The data model\<close>

datatype tlv_leaf =
    TUnsigned int
  | TSigned int
  | TBool bool
  | TNull
  | TBytes buffer
  | TString "16 word list"
  | TDouble "64 word"

datatype tlv_container = CStruct | CArray | CList

datatype telem =
    TLeaf "int option" "int option" tlv_leaf
  | TNode "int option" "int option" tlv_container "telem list"

fun leaf_type :: "tlv_leaf \<Rightarrow> int" where
  "leaf_type (TUnsigned n) = 4 + length_bits (uwidth n)"
| "leaf_type (TSigned n) = length_bits (swidth n)"
| "leaf_type (TBool b) = (if b then TLV_TYPE_BOOLEAN_TRUE else TLV_TYPE_BOOLEAN_FALSE)"
| "leaf_type TNull = TLV_TYPE_NULL"
| "leaf_type (TBytes b) = 16 + length_bits (uwidth (int (length b)))"
| "leaf_type (TString s) = 12 + length_bits (uwidth (int (length s)))"
| "leaf_type (TDouble p) = TLV_TYPE_DOUBLE"

fun leaf_bytes :: "tlv_leaf \<Rightarrow> buffer" where
  "leaf_bytes (TUnsigned n) = le_bytes (uwidth n) n"
| "leaf_bytes (TSigned n) = le_bytes (swidth n) n"
| "leaf_bytes (TBool b) = []"
| "leaf_bytes TNull = []"
| "leaf_bytes (TBytes b) = le_bytes (uwidth (int (length b))) (int (length b)) @ b"
| "leaf_bytes (TString s) = le_bytes (uwidth (int (length s))) (int (length s)) @ utf8_encode s"
| "leaf_bytes (TDouble p) = le_bytes 8 (uint p)"

fun leaf_value :: "tlv_leaf \<Rightarrow> jsval" where
  "leaf_value (TUnsigned n) = (if n < 2 ^ 32 then JNum n else JBig n)"
| "leaf_value (TSigned n) = (if swidth n = 8 then JBig n else JNum n)"
| "leaf_value (TBool b) = JBool b"
| "leaf_value TNull = JUndef"
| "leaf_value (TBytes b) = JBuf b"
| "leaf_value (TString s) = JStr s"
| "leaf_value (TDouble p) = JDbl p"

fun container_type :: "tlv_container \<Rightarrow> int" where
  "container_type CStruct = TLV_TYPE_STRUCTURE"
| "container_type CArray = TLV_TYPE_ARRAY"
| "container_type CList = TLV_TYPE_LIST"

fun container_name :: "tlv_container \<Rightarrow> string" where
  "container_name CStruct = ''struct''"
| "container_name CArray = ''array''"
| "container_name CList = ''list''"

definition end_octet :: byte where
  "end_octet = control_octet TLV_TYPE_END None None"

fun tlv_bytes :: "telem \<Rightarrow> buffer" where
  "tlv_bytes (TLeaf p t l) = control_octet (leaf_type l) t p # tag_field t p @ leaf_bytes l"
| "tlv_bytes (TNode p t c es) =
     control_octet (container_type c) t p # tag_field t p @ concat (map tlv_bytes es) @ [end_octet]"

fun tlv_json :: "telem \<Rightarrow> jsval" where
  "tlv_json (TLeaf p t l) = JObj p t (ElementTypes (leaf_type l)) (leaf_value l) None"
| "tlv_json (TNode p t c es) = JObj p t (Some (container_name c)) (JArr (map tlv_json es)) None"

text \<open>
  Elements that survive: in-range integers, strings whose length field tells the truth (ASCII),
  \<open>Number\<close>s that are not integral (an integral one is written as an integer), tags as in
  \<open>wf_tag\<close>.
\<close>

fun wf_leaf :: "tlv_leaf \<Rightarrow> bool" where
  "wf_leaf (TUnsigned n) = (0 \<le> n \<and> n < 2 ^ 64)"
| "wf_leaf (TSigned n) = (- (2 ^ 63) \<le> n \<and> n < 2 ^ 63)"
| "wf_leaf (TBytes b) = (int (length b) < 2 ^ 32)"
| "wf_leaf (TString s) = (is_ascii s \<and> int (length s) < 2 ^ 32)"
| "wf_leaf (TDouble p) = non_integral p"
| "wf_leaf _ = True"

fun wf_telem :: "telem \<Rightarrow> bool" where
  "wf_telem (TLeaf p t l) = (wf_tag t p \<and> wf_leaf l)"
| "wf_telem (TNode p t c es) = (wf_tag t p \<and> list_all wf_telem es)"

section \<open>The element a document stands for\<close>

definition signed_types :: "string option list" where
  "signed_types = [Some ''int8'', Some ''int16'', Some ''int32'', Some ''int64'']"

definition unsigned_types :: "string option list" where
  "unsigned_types = [Some ''uint8'', Some ''uint16'', Some ''uint32'', Some ''uint64'']"

definition typed_names :: "string option list" where
  "typed_names = signed_types @ unsigned_types @
     [Some ''float'', Some ''boolean'', Some ''bool'', Some ''Buffer'', Some ''struct'', Some ''array'', Some ''list'']"

text \<open>A raw value, written by the runtime type it has.\<close>

fun raw_leaf :: "jsval \<Rightarrow> tlv_leaf option" where
  "raw_leaf JUndef = Some TNull"
| "raw_leaf JNull = Some TNull"
| "raw_leaf (JStr s) = Some (TString s)"
| "raw_leaf (JBuf b) = Some (TBytes b)"
| "raw_leaf (JNum n) = Some (if n < 0 then TSigned n else TUnsigned n)"
| "raw_leaf (JBig n) =
     (if n < 0 then Some (TSigned n) else if n < 2 ^ 32 then None else Some (TUnsigned n))"
| "raw_leaf (JDbl p) = Some (TDouble p)"
| "raw_leaf (JBool b) = Some (TBool b)"
| "raw_leaf _ = None"

fun signed_leaf :: "jsval \<Rightarrow> tlv_leaf option" where
  "signed_leaf (JNum n) = Some (TSigned n)"
| "signed_leaf (JBig n) = Some (TSigned n)"
| "signed_leaf _ = None"

fun unsigned_leaf :: "jsval \<Rightarrow> tlv_leaf option" where
  "unsigned_leaf (JNum n) = Some (TUnsigned n)"
| "unsigned_leaf (JBig n) = (if n < 2 ^ 32 then None else Some (TUnsigned n))"
| "unsigned_leaf _ = None"

fun buffer_leaf :: "jsval \<Rightarrow> tlv_leaf option" where
  "buffer_leaf (JStr s) = Some (TBytes (hex_decode s))"
| "buffer_leaf (JBuf b) = Some (TBytes b)"
| "buffer_leaf _ = None"

definition leaf_of :: "string option \<Rightarrow> jsval \<Rightarrow> tlv_leaf option" where
  "leaf_of ty v =
     (if ty \<in> set signed_types then signed_leaf v
      else if ty \<in> set unsigned_types then unsigned_leaf v
      else if ty = Some ''boolean'' \<or> ty = Some ''bool'' then Some (TBool (js_truthy v))
      else if ty = Some ''Buffer'' then buffer_leaf v
      else if ty = Some ''float'' then None
      else raw_leaf v)"

definition container_of :: "string option \<Rightarrow> tlv_container option" where
  "container_of ty =
     (if ty = Some ''struct'' then Some CStruct
      else if ty = Some ''array'' then Some CArray
      else if ty = Some ''list'' then Some CList
      else None)"

fun telem_of :: "jsval \<Rightarrow> telem option" where
  "telem_of (JObj p t ty v n) =
     (case container_of ty of
        Some c \<Rightarrow> (case v of
            JArr xs \<Rightarrow> map_option (TNode p t c) (those (map telem_of xs))
          | _ \<Rightarrow> None)
      | None \<Rightarrow> map_option (TLeaf p t) (leaf_of ty v))"
| "telem_of JUndef = None"
| "telem_of JNull = None"
| "telem_of (JBuf b) = None"
| "telem_of (JArr xs) = None"
| "telem_of v = map_option (TLeaf None None) (raw_leaf v)"

section \<open>The writer emits exactly the element's octets\<close>

lemma emit_emit [simp]: "emit b (emit a w) = emit (a @ b) w"
  by (simp add: emit_def)

lemma emit_Nil [simp]: "emit [] w = w"
  by (simp add: emit_def)

lemma length_bits_range: "0 \<le> length_bits w" "length_bits w \<le> 3"
  by (simp_all add: length_bits_def)

lemma uwidth_in: "uwidth n \<in> {0, 1, 2, 4, 8}" "uwidth n \<in> {1, 2, 4, 8}"
  and swidth_in: "swidth n \<in> {0, 1, 2, 4, 8}" "swidth n \<in> {1, 2, 4, 8}"
  by (auto simp: uwidth_def swidth_def)

lemma length_bits_0 [simp]: "length_bits 0 = 0"
  by (simp add: length_bits_def)

lemma putUnsignedInt_leaf:
  assumes "wf_tag t p" and "wf_leaf (TUnsigned n)" and "unsigned_leaf v = Some (TUnsigned n)"
  shows "putUnsignedInt v t p w = Inr (emit (tlv_bytes (TLeaf p t (TUnsigned n))) w)"
proof -
  have "encodeUnsignedInt v = Inr (le_bytes (uwidth n) n)"
    using assms(2,3) by (cases v) (auto simp: encodeUnsignedInt_num encodeUnsignedInt_big uwidth_def simp del: le_bytes.simps split: if_splits)
  then show ?thesis
    using assms(1) uwidth_in [of n] length_bits_range [of "uwidth n"]
    by (simp add: putUnsignedInt_def encodeControlByte_ok or_length_bits)
qed

lemma encodeSignedInt_JBig: "encodeSignedInt (JBig n) = encodeSignedInt (JNum n)"
  by (simp only: encodeSignedInt_def cmp_int.simps)

lemma putSignedInt_leaf:
  assumes "wf_tag t p" and "wf_leaf (TSigned n)" and "signed_leaf v = Some (TSigned n)"
  shows "putSignedInt v t p w = Inr (emit (tlv_bytes (TLeaf p t (TSigned n))) w)"
proof -
  have "encodeSignedInt v = Inr (le_bytes (swidth n) n)"
    using assms(2,3) encodeSignedInt_num [of n] encodeSignedInt_JBig [of n]
    by (cases v) auto
  then show ?thesis
    using assms(1) swidth_in [of n] length_bits_range [of "swidth n"]
    by (simp add: putSignedInt_def encodeControlByte_ok or_length_bits)
qed

lemma putBytes_leaf:
  assumes "wf_tag t p" and "wf_leaf (TBytes b)"
  shows "putBytes b t p w = Inr (emit (tlv_bytes (TLeaf p t (TBytes b))) w)"
  using assms uwidth_in [of "int (length b)"] length_bits_range [of "uwidth (int (length b))"]
  by (simp add: putBytes_def encodeUnsignedInt_num encodeControlByte_ok or_length_bits)

lemma putString_leaf:
  assumes "wf_tag t p" and "wf_leaf (TString s)"
  shows "putString s t p w = Inr (emit (tlv_bytes (TLeaf p t (TString s))) w)"
  using assms uwidth_in [of "int (length s)"] length_bits_range [of "uwidth (int (length s))"]
  by (simp add: putString_def Let_def encodeUnsignedInt_num encodeControlByte_ok or_length_bits)

lemma encodeControlByte_plain:
  "wf_tag t p \<Longrightarrow> 0 \<le> ty \<Longrightarrow> ty < 32 \<Longrightarrow>
   encodeControlByte ty 0 t p = Inr (control_octet ty t p # tag_field t p)"
  using encodeControlByte_ok [of t p ty 0] by simp

lemma wf_tag_anonymous [simp]: "wf_tag None None" "tag_field None None = []"
  by (simp_all add: wf_tag_def tag_field_def)

lemma putContainerEnd_ok [simp]: "putContainerEnd w = Inr (emit [end_octet] w)"
  by (simp add: putContainerEnd_def encodeControlByte_plain end_octet_def tlv_types)

lemma putDouble_leaf:
  assumes "wf_tag t p"
  shows "putDouble (JDbl d) t p w = Inr (emit (tlv_bytes (TLeaf p t (TDouble d))) w)"
  using assms uint_lt2p [of d]
  by (simp add: putDouble_def encodeDouble_def encodeControlByte_plain tlv_types splice_alloc_full del: le_bytes.simps)

lemma putBoolean_leaf:
  "wf_tag t p \<Longrightarrow> putBoolean v t p w = Inr (emit (tlv_bytes (TLeaf p t (TBool (js_truthy v)))) w)"
  by (simp add: putBoolean_def encodeControlByte_plain tlv_types)

lemma putNull_leaf:
  "wf_tag t p \<Longrightarrow> putNull t p w = Inr (emit (tlv_bytes (TLeaf p t TNull)) w)"
  by (simp add: putNull_def encodeControlByte_plain tlv_types)

lemmas put_leaves = putUnsignedInt_leaf putSignedInt_leaf putBytes_leaf putString_leaf
  putDouble_leaf putBoolean_leaf putNull_leaf

lemma js_truthy_JBool [simp]: "js_truthy (JBool b) = b"
  by (simp add: js_truthy_def)

lemma put_raw_leaf:
  assumes "wf_tag t p" and "raw_leaf v = Some l" and "wf_leaf l"
  shows "put v t p w = Inr (emit (tlv_bytes (TLeaf p t l)) w)"
  using assms by (cases v) (auto simp: put_leaves simp del: tlv_bytes.simps split: if_splits)

lemma encode_dispatch:
  assumes "container_of ty = None"
  shows "encode (JObj p t ty v n) w =
    (if ty \<in> set signed_types then putSignedInt v t p w
     else if ty \<in> set unsigned_types then putUnsignedInt v t p w
     else if ty = Some ''float'' then putFloat v t p w
     else if ty = Some ''boolean'' \<or> ty = Some ''bool'' then putBoolean v t p w
     else if ty = Some ''Buffer'' then
       (case v of JStr s \<Rightarrow> putBytes (hex_decode s) t p w
        | _ \<Rightarrow> rbind (buffer_from v) (\<lambda>b. putBytes b t p w))
     else put v t p w)"
  using assms by (simp add: container_of_def signed_types_def unsigned_types_def split: if_splits)

lemma put_typed:
  "wf_tag t p \<Longrightarrow> signed_leaf v = Some l \<Longrightarrow> wf_leaf l \<Longrightarrow>
   putSignedInt v t p w = Inr (emit (tlv_bytes (TLeaf p t l)) w)"
  "wf_tag t p \<Longrightarrow> unsigned_leaf v = Some l \<Longrightarrow> wf_leaf l \<Longrightarrow>
   putUnsignedInt v t p w = Inr (emit (tlv_bytes (TLeaf p t l)) w)"
  "wf_tag t p \<Longrightarrow> buffer_leaf v = Some l \<Longrightarrow> wf_leaf l \<Longrightarrow>
   (case v of JStr s \<Rightarrow> putBytes (hex_decode s) t p w
    | _ \<Rightarrow> rbind (buffer_from v) (\<lambda>b. putBytes b t p w)) = Inr (emit (tlv_bytes (TLeaf p t l)) w)"
  subgoal by (cases l; cases v) (simp_all add: put_leaves del: tlv_bytes.simps)
  subgoal by (cases l; cases v) (simp_all add: put_leaves del: tlv_bytes.simps split: if_splits)
  subgoal by (cases v) (auto simp: put_leaves simp del: tlv_bytes.simps)
  done

lemma other_types [simp]:
  "ty \<in> {''float'', ''boolean'', ''bool'', ''Buffer''} \<Longrightarrow> Some ty \<notin> set signed_types \<and> Some ty \<notin> set unsigned_types"
  by (auto simp: signed_types_def unsigned_types_def)

lemma encode_leaf:
  assumes "wf_tag t p" and "container_of ty = None" and "leaf_of ty v = Some l" and "wf_leaf l"
  shows "encode (JObj p t ty v n) w = Inr (emit (tlv_bytes (TLeaf p t l)) w)"
  unfolding encode_dispatch [OF assms(2)]
  using assms(1,3,4) unfolding leaf_of_def
  by (cases "ty \<in> set signed_types"; cases "ty \<in> set unsigned_types")
    (auto simp: put_typed put_raw_leaf putBoolean_leaf simp del: tlv_bytes.simps encode.simps put.simps split: if_splits)

lemma those_Some_Cons: "those (x # xs) = Some ys \<longleftrightarrow> (\<exists>y zs. x = Some y \<and> those xs = Some zs \<and> ys = y # zs)"
  by (auto split: option.splits)

lemma putStart_ok:
  "wf_tag t p \<Longrightarrow> putStructStart t p w = Inr (emit (control_octet (container_type CStruct) t p # tag_field t p) w)"
  "wf_tag t p \<Longrightarrow> putArrayStart t p w = Inr (emit (control_octet (container_type CArray) t p # tag_field t p) w)"
  "wf_tag t p \<Longrightarrow> putListStart t p w = Inr (emit (control_octet (container_type CList) t p # tag_field t p) w)"
  by (simp_all add: putStructStart_def putArrayStart_def putListStart_def encodeControlByte_plain tlv_types)

lemma encode_node:
  assumes "wf_tag t p" and "container_of ty = Some c"
    and "\<And>w. rfold encode xs w = Inr (emit bs w)"
  shows "encode (JObj p t ty (JArr xs) n) w =
    Inr (emit (control_octet (container_type c) t p # tag_field t p @ bs @ [end_octet]) w)"
  using assms by (auto simp: container_of_def putStart_ok split: if_splits)

lemma rfold_encode:
  assumes "those (map telem_of xs) = Some es" and "list_all wf_telem es"
    and "\<And>x e w. x \<in> set xs \<Longrightarrow> telem_of x = Some e \<Longrightarrow> wf_telem e \<Longrightarrow> encode x w = Inr (emit (tlv_bytes e) w)"
  shows "rfold encode xs w = Inr (emit (concat (map tlv_bytes es)) w)"
  using assms
proof (induction xs arbitrary: es w)
  case (Cons x xs)
  from Cons.prems(1) obtain e es' where "telem_of x = Some e" "those (map telem_of xs) = Some es'" "es = e # es'"
    unfolding list.map those_Some_Cons by blast
  with Cons show ?case by simp
qed simp

lemma encode_telem:
  "telem_of j = Some e \<Longrightarrow> wf_telem e \<Longrightarrow> encode j w = Inr (emit (tlv_bytes e) w)"
proof (induction j arbitrary: e w rule: measure_induct_rule [of size])
  case (less j)
  show ?case
  proof (cases j)
    case (JObj p t ty v n)
    show ?thesis
    proof (cases "container_of ty")
      case None
      with less.prems JObj obtain l where "e = TLeaf p t l" "leaf_of ty v = Some l" by auto
      with less.prems None JObj show ?thesis by (simp only: encode_leaf wf_telem.simps)
    next
      case (Some c)
      with less.prems JObj obtain xs es where v: "v = JArr xs" and e: "e = TNode p t c es"
        and es: "those (map telem_of xs) = Some es"
        by (auto split: jsval.splits)
      have smaller: "size x < size j" if "x \<in> set xs" for x
        using that by (auto simp: JObj v dest!: size_list_estimation' [where f = size, OF _ order.refl])
      have "rfold encode xs w' = Inr (emit (concat (map tlv_bytes es)) w')" for w'
        using rfold_encode [OF es, of w'] less.IH smaller less.prems(2) e by simp
      then show ?thesis
        using encode_node [of t p ty c xs] Some less.prems(2) e JObj v by simp
    qed
  qed (use less.prems in \<open>auto simp: put_leaves simp del: tlv_bytes.simps split: if_splits\<close>)
qed

lemma encode_telems:
  assumes "those (map telem_of xs) = Some es" and "list_all wf_telem es"
  shows "encode (JArr xs) w = Inr (emit (concat (map tlv_bytes es)) w)"
  using rfold_encode [OF assms] encode_telem by simp

section \<open>The reader inverts the octets\<close>

text \<open>The array at depth \<open>d\<close> of the last elements exists.\<close>

fun spine :: "nat \<Rightarrow> jsval list \<Rightarrow> bool" where
  "spine 0 js = True"
| "spine (Suc d) js = (js \<noteq> [] \<and> (case last js of JObj p t ty (JArr xs) n \<Rightarrow> spine d xs | _ \<Rightarrow> False))"

lemma spine_SucE:
  assumes "spine (Suc d) js"
  obtains ys p t ty xs n where "js = ys @ [JObj p t ty (JArr xs) n]" "spine d xs"
  using assms by (cases js rule: rev_cases) (auto split: jsval.splits)

lemma spine_snoc [simp]: "spine (Suc d) (ys @ [JObj p t ty (JArr xs) n]) = spine d xs"
  by simp

declare spine.simps(2) [simp del]

lemma spine_push_push: "spine d js \<Longrightarrow> spine_push d bs (spine_push d as js) = spine_push d (as @ bs) js"
  by (induction d arbitrary: js) (auto elim!: spine_SucE)

lemma spine_spine_push: "spine d js \<Longrightarrow> spine d (spine_push d es js)"
  by (induction d arbitrary: js) (auto elim!: spine_SucE)

lemma spine_push_open: "spine d js \<Longrightarrow> spine (Suc d) (spine_push d [JObj p t ty (JArr []) n] js)"
  by (induction d arbitrary: js) (auto elim!: spine_SucE)

lemma spine_push_children:
  "spine d js \<Longrightarrow>
   spine_push (Suc d) ch (spine_push d [JObj p t ty (JArr []) n] js) =
   spine_push d [JObj p t ty (JArr ch) n] js"
  by (induction d arbitrary: js) (auto elim!: spine_SucE)

lemma spine_push_Nil: "spine d js \<Longrightarrow> spine_push d [] js = js"
  by (induction d arbitrary: js) (auto elim!: spine_SucE)

lemma leaf_type_range: "0 \<le> leaf_type l" "leaf_type l < 32" "leaf_type l \<noteq> TLV_TYPE_END"
    "\<not> is_container_type (leaf_type l)"
  by (cases l; simp add: tlv_types length_bits_def is_container_type_def)+

lemma decode_leaf_value:
  assumes "wf_leaf l"
  shows "decodeValueAndLength (leaf_bytes l @ bs) (leaf_type l) = Inr (leaf_value l, int (length (leaf_bytes l)))"
proof (cases l)
  case (TString s)
  then have "length (utf8_encode s) = length s" "utf8_decode (utf8_encode s) = s"
    using assms by (simp_all add: ascii_utf8_length utf8_decode_encode ascii_well_formed)
  with TString assms show ?thesis using decode_string [of "utf8_encode s" bs] by simp
next
  case (TDouble p)
  with assms show ?thesis by (simp add: decode_double non_integral_def del: le_bytes.simps)
qed (use assms in \<open>simp_all add: decode_unsigned decode_signed decode_bytes decode_plain\<close>)

lemma decode_element_ok:
  assumes "wf_tag t p" and "0 \<le> ty" and "ty < 32"
    and "decodeValueAndLength (vb @ bs) ty = Inr (v, int (length vb))"
  shows "decode_element (control_octet ty t p # tag_field t p @ vb @ bs) =
    Inr (ty, JObj p t (ElementTypes ty) v None, bs)"
  using assms subarray_from_prefix [of "[control_octet ty t p]" "tag_field t p @ vb @ bs"]
  by (simp add: decode_element_def decodeControlByte_octet decodeTag_field subarray_from_prefix Let_def)

lemma decode_element_leaf:
  "wf_telem (TLeaf p t l) \<Longrightarrow>
   decode_element (tlv_bytes (TLeaf p t l) @ bs) = Inr (leaf_type l, tlv_json (TLeaf p t l), bs)"
  using decode_element_ok [of t p "leaf_type l" "leaf_bytes l" bs "leaf_value l"]
  by (simp add: leaf_type_range decode_leaf_value)

lemma container_type_range:
  "0 \<le> container_type c" "container_type c < 32" "container_type c \<noteq> TLV_TYPE_END"
  "is_container_type (container_type c)" "ElementTypes (container_type c) = Some (container_name c)"
  by (cases c; simp add: tlv_types is_container_type_def ElementTypes_def)+

lemma decode_element_open:
  assumes "wf_tag t p"
  shows "decode_element (control_octet (container_type c) t p # tag_field t p @ bs) =
     Inr (container_type c, JObj p t (Some (container_name c)) (JArr []) None, bs)"
proof -
  have "decodeValueAndLength ([] @ bs) (container_type c) = Inr (JArr [], int (length []))"
    by (cases c) (simp_all add: decode_plain)
  with decode_element_ok [OF assms container_type_range(1,2)] show ?thesis
    by (metis append_Nil container_type_range(5))
qed

lemma decode_element_end:
  "decode_element (end_octet # bs) = Inr (TLV_TYPE_END, JObj None None (Some ''End of Collection'') JUndef None, bs)"
  using decode_element_ok [of None None TLV_TYPE_END "[]" bs JUndef]
  by (simp add: decode_plain end_octet_def) (simp add: tlv_types ElementTypes_def)

lemma decode_loop_end:
  "depth > 0 \<Longrightarrow> decode_loop (end_octet # bs) depth (c # stack) d js = decode_loop bs (depth - 1) stack c js"
  by (subst decode_loop.simps) (simp add: decode_element_end)

lemma decode_loop_leaf:
  assumes "depth > 0" and "wf_telem (TLeaf p t l)"
  shows "decode_loop (tlv_bytes (TLeaf p t l) @ bs) depth stack d js =
    decode_loop bs depth stack d (spine_push d [tlv_json (TLeaf p t l)] js)"
  using assms decode_element_leaf [OF assms(2), of bs]
  by (subst decode_loop.simps) (simp add: leaf_type_range)

lemma decode_loop_open:
  assumes "depth > 0" and "wf_tag t p"
  shows "decode_loop (control_octet (container_type c) t p # tag_field t p @ bs) depth stack d js =
    decode_loop bs (depth + 1) (d # stack) (Suc d)
      (spine_push d [JObj p t (Some (container_name c)) (JArr []) None] js)"
  using assms by (subst decode_loop.simps) (simp add: decode_element_open container_type_range)

lemma decode_loop_list:
  assumes "\<And>e bs js. e \<in> set es \<Longrightarrow> spine d js \<Longrightarrow>
      decode_loop (tlv_bytes e @ bs) depth stack d js = decode_loop bs depth stack d (spine_push d [tlv_json e] js)"
    and "spine d js"
  shows "decode_loop (concat (map tlv_bytes es) @ bs) depth stack d js =
    decode_loop bs depth stack d (spine_push d (map tlv_json es) js)"
  using assms by (induction es arbitrary: js) (simp_all add: spine_push_Nil spine_spine_push spine_push_push)

lemma decode_loop_telem:
  "depth > 0 \<Longrightarrow> spine d js \<Longrightarrow> wf_telem e \<Longrightarrow>
   decode_loop (tlv_bytes e @ bs) depth stack d js = decode_loop bs depth stack d (spine_push d [tlv_json e] js)"
proof (induction e arbitrary: depth stack d js bs)
  case (TLeaf p t l)
  then show ?case by (simp only: decode_loop_leaf)
next
  case (TNode p t c es)
  let ?open = "spine_push d [JObj p t (Some (container_name c)) (JArr []) None] js"
  have "decode_loop (concat (map tlv_bytes es) @ end_octet # bs) (depth + 1) (d # stack) (Suc d) ?open =
      decode_loop (end_octet # bs) (depth + 1) (d # stack) (Suc d) (spine_push (Suc d) (map tlv_json es) ?open)"
    using TNode by (intro decode_loop_list) (auto simp: list_all_iff intro: spine_push_open)
  then show ?case
    using TNode.prems
    by (simp add: decode_loop_open decode_loop_end spine_push_children del: spine_push.simps)
qed

lemma decode_telems:
  assumes "list_all wf_telem es"
  shows "decode_json (concat (map tlv_bytes es)) = Inr (JArr (map tlv_json es))"
proof -
  have "decode_loop (concat (map tlv_bytes es) @ []) 1 [0] 0 [] = decode_loop [] 1 [0] 0 (spine_push 0 (map tlv_json es) [])"
    using assms by (intro decode_loop_list decode_loop_telem) (auto simp: list_all_iff)
  moreover have "decode_loop [] 1 [0] 0 (map tlv_json es) = Inr \<lparr>tr_json = map tlv_json es, tr_container = 0\<rparr>"
    by (subst decode_loop.simps) simp
  ultimately show ?thesis by (simp add: decode_json_def decode_def new_reader_def)
qed

section \<open>Documents the reader builds are read back as the same elements\<close>

lemma length_bits_values: "w \<in> {1, 2, 4, 8} \<Longrightarrow> length_bits w \<in> {0, 1, 2, 3}"
  by (auto simp: length_bits_def)

lemma ElementTypes_int:
  "k \<in> {0, 1, 2, 3} \<Longrightarrow> ElementTypes (4 + k) \<in> set unsigned_types"
  "k \<in> {0, 1, 2, 3} \<Longrightarrow> ElementTypes k \<in> set signed_types"
  by (auto simp: ElementTypes_def signed_types_def unsigned_types_def)

lemma ElementTypes_string:
  "k \<in> {0, 1, 2, 3} \<Longrightarrow> ElementTypes (12 + k) \<notin> set typed_names"
  "k \<in> {0, 1, 2, 3} \<Longrightarrow> ElementTypes (16 + k) \<notin> set typed_names"
  by (auto simp: ElementTypes_def signed_types_def unsigned_types_def typed_names_def)

lemma ElementTypes_plain:
  "ElementTypes TLV_TYPE_NULL \<notin> set typed_names"
  "ElementTypes TLV_TYPE_DOUBLE \<notin> set typed_names"
  "ElementTypes TLV_TYPE_BOOLEAN_TRUE = Some ''boolean''"
  "ElementTypes TLV_TYPE_BOOLEAN_FALSE = Some ''boolean''"
  by (simp_all add: ElementTypes_def signed_types_def unsigned_types_def typed_names_def tlv_types)

lemma typed_disjoint: "ty \<in> set unsigned_types \<Longrightarrow> ty \<notin> set signed_types"
  by (auto simp: signed_types_def unsigned_types_def)

lemma container_names:
  "Some (container_name c) \<notin> set signed_types" "Some (container_name c) \<notin> set unsigned_types"
  "Some (container_name c) \<in> set typed_names"
  by (cases c; simp add: signed_types_def unsigned_types_def typed_names_def)+

lemma container_of_Some: "container_of ty = Some c \<Longrightarrow> ty = Some (container_name c)"
  by (simp add: container_of_def split: if_splits)

lemma container_of_typed:
  "ty \<in> set signed_types \<or> ty \<in> set unsigned_types \<or> ty \<notin> set typed_names \<Longrightarrow> container_of ty = None"
  using container_names container_of_Some by (metis not_Some_eq)

lemma leaf_of_typed:
  "ty \<in> set signed_types \<Longrightarrow> container_of ty = None \<and> leaf_of ty v = signed_leaf v"
  "ty \<in> set unsigned_types \<Longrightarrow> container_of ty = None \<and> leaf_of ty v = unsigned_leaf v"
  "ty \<notin> set typed_names \<Longrightarrow> container_of ty = None \<and> leaf_of ty v = raw_leaf v"
  subgoal by (simp add: leaf_of_def container_of_typed)
  subgoal by (simp add: leaf_of_def container_of_typed typed_disjoint)
  subgoal by (simp add: container_of_typed) (simp add: leaf_of_def typed_names_def)
  done

lemma ElementTypes_leaf:
  assumes "wf_leaf l"
  shows "container_of (ElementTypes (leaf_type l)) = None \<and>
    leaf_of (ElementTypes (leaf_type l)) (leaf_value l) = Some l"
proof (cases l)
  case (TUnsigned n)
  then show ?thesis
    using assms leaf_of_typed(2) [OF ElementTypes_int(1) [OF length_bits_values [OF uwidth_in(2)]]] by simp
next
  case (TSigned n)
  then show ?thesis
    using leaf_of_typed(1) [OF ElementTypes_int(2) [OF length_bits_values [OF swidth_in(2)]]] by simp
next
  case (TBytes b)
  then show ?thesis
    using leaf_of_typed(3) [OF ElementTypes_string(2) [OF length_bits_values [OF uwidth_in(2)]]] by simp
next
  case (TString b)
  then show ?thesis
    using leaf_of_typed(3) [OF ElementTypes_string(1) [OF length_bits_values [OF uwidth_in(2)]]] by simp
next
  case (TBool b)
  then show ?thesis by (simp add: ElementTypes_plain leaf_of_def container_of_def)
qed (simp_all add: leaf_of_typed(3) ElementTypes_plain)

lemma those_map_Some: "(\<And>x. x \<in> set xs \<Longrightarrow> f x = Some (g x)) \<Longrightarrow> those (map f xs) = Some (map g xs)"
  by (induction xs) auto

lemma telem_of_tlv_json: "wf_telem e \<Longrightarrow> telem_of (tlv_json e) = Some e"
proof (induction e)
  case (TLeaf p t l)
  then show ?case using ElementTypes_leaf [of l] by simp
next
  case (TNode p t c es)
  then have "those (map telem_of (map tlv_json es)) = Some es"
    using those_map_Some [of es "telem_of \<circ> tlv_json" id] by (simp add: list_all_iff)
  moreover have "container_of (Some (container_name c)) = Some c"
    by (cases c) (simp_all add: container_of_def)
  ultimately show ?case by simp
qed

definition tlv_encode :: "jsval list \<Rightarrow> buffer result" where
  "tlv_encode doc = rmap tw_buf (encode (JArr doc) new_writer)"

definition tlv_document :: "jsval list \<Rightarrow> bool" where
  "tlv_document doc = (case those (map telem_of doc) of None \<Rightarrow> False | Some es \<Rightarrow> list_all wf_telem es)"

definition tlv_view :: "jsval list \<Rightarrow> jsval" where
  "tlv_view doc = JArr (map tlv_json (the (those (map telem_of doc))))"

lemma tlv_encode_bytes:
  "those (map telem_of doc) = Some es \<Longrightarrow> list_all wf_telem es \<Longrightarrow>
   tlv_encode doc = Inr (concat (map tlv_bytes es))"
  using encode_telems [of doc es new_writer]
  by (simp add: tlv_encode_def emit_def new_writer_def buf_alloc_def)

interpretation tlv: codec tlv_encode decode_json tlv_document tlv_view
proof
  show "\<exists>w. tlv_encode doc = Inr w" if "tlv_document doc" for doc
    using that tlv_encode_bytes by (auto simp: tlv_document_def split: option.splits)
  show "decode_json w = Inr (tlv_view doc)" if "tlv_document doc" "tlv_encode doc = Inr w" for doc w
    using that tlv_encode_bytes decode_telems
    by (fastforce simp: tlv_document_def tlv_view_def split: option.splits)
qed

text \<open>
  (C23) Round trip of documents. A TLV document is encoded without a throw, and decoding the bytes gives the
  same elements with the same tags, profiles, order and nesting, if its values are null, booleans, integers
  in the range of the 64-bit type they are written with, non-integral numbers, octet strings (hex text or
  \<open>Buffer\<close>) and ASCII strings, typed or untyped, in nested structures, arrays and lists, with tags in
  range. Left out are the type \<open>float\<close>, a \<open>BigInt\<close> below \<open>2^32\<close> in an unsigned place, and strings that
  are not ASCII, which do not decode (\<open>putString_non_ascii\<close>).
\<close>

theorem tlv_encode_decode:
  assumes "tlv_document doc"
  shows "rbind (tlv_encode doc) decode_json = Inr (tlv_view doc)"
  using assms by (rule tlv.roundtrip)

theorem tlv_encode_decode_witness:
  "rbind (tlv_encode
     [JObj None None (Some ''struct'')
       (JArr [JObj None (Some 1) (Some ''Buffer'') (JStr (js_string ''c0ffee'')) None,
              JObj None (Some 2) None (JNum 300) None,
              JObj None (Some 3) None (JNum (-5)) None,
              JObj None (Some 4) (Some ''array'') (JArr [JStr (js_string ''on''), JBool True]) None]) None])
     decode_json =
   Inr (JArr
     [JObj None None (Some ''struct'')
       (JArr [JObj None (Some 1) (Some ''Buffer uint8 len'') (JBuf [0xC0, 0xFF, 0xEE]) None,
              JObj None (Some 2) (Some ''uint16'') (JNum 300) None,
              JObj None (Some 3) (Some ''int8'') (JNum (-5)) None,
              JObj None (Some 4) (Some ''array'')
                (JArr [JObj None None (Some ''string uint8 len'') (JStr (js_string ''on'')) None,
                       JObj None None (Some ''boolean'') (JBool True) None]) None]) None])"
proof -
  let ?doc = "[JObj None None (Some ''struct'')
       (JArr [JObj None (Some 1) (Some ''Buffer'') (JStr (js_string ''c0ffee'')) None,
              JObj None (Some 2) None (JNum 300) None,
              JObj None (Some 3) None (JNum (-5)) None,
              JObj None (Some 4) (Some ''array'') (JArr [JStr (js_string ''on''), JBool True]) None]) None]"
  have doc: "those (map telem_of ?doc) = Some [TNode None None CStruct
      [TLeaf None (Some 1) (TBytes [0xC0, 0xFF, 0xEE]), TLeaf None (Some 2) (TUnsigned 300),
       TLeaf None (Some 3) (TSigned (-5)),
       TNode None (Some 4) CArray [TLeaf None None (TString (js_string ''on'')), TLeaf None None (TBool True)]]]"
    by code_simp
  then have "tlv_document ?doc"
    by (simp add: tlv_document_def wf_tag_def is_ascii_def js_string_def)
  from tlv_encode_decode [OF this] doc show ?thesis
    by (simp add: tlv_view_def ElementTypes_def tlv_types length_bits_def uwidth_def swidth_def js_string_def)
qed

text \<open>
  Decoding is injective on what it builds: encoding a decoded document again gives the
  octets it came from, for every sequence of elements in the shortest form.
\<close>

theorem tlv_reencode:
  assumes "list_all wf_telem es"
  shows "rbind (decode_json (concat (map tlv_bytes es))) (\<lambda>j. rmap tw_buf (encode j new_writer)) =
    Inr (concat (map tlv_bytes es))"
proof -
  have "those (map telem_of (map tlv_json es)) = Some es"
    using assms those_map_Some [of es "telem_of \<circ> tlv_json" id] by (simp add: list_all_iff telem_of_tlv_json)
  then show ?thesis
    using decode_telems [OF assms] tlv_encode_bytes [OF _ assms] by (simp add: tlv_encode_def)
qed

theorem tlv_reencode_witness:
  "rbind (decode_json (concat (map tlv_bytes
      [TNode None None CStruct [TLeaf None (Some 1) (TUnsigned 70000), TLeaf (Some 0xFFF1) (Some 2) (TBool False)]])))
     (\<lambda>j. rmap tw_buf (encode j new_writer)) =
   Inr (concat (map tlv_bytes
      [TNode None None CStruct [TLeaf None (Some 1) (TUnsigned 70000), TLeaf (Some 0xFFF1) (Some 2) (TBool False)]]))"
  by (rule tlv_reencode) (simp add: wf_tag_def)

section \<open>Decoding untrusted octets\<close>

lemma rmap_Inl [simp]: "rmap f r = Inl e \<longleftrightarrow> r = Inl e"
  by (cases r) auto

lemma rbind_Inl: "rbind r f = Inl e \<longleftrightarrow> r = Inl e \<or> (\<exists>x. r = Inr x \<and> f x = Inl e)"
  by (cases r) auto

lemma read_Inl:
  "read_uint_le n off b = Inl e \<Longrightarrow> e = RangeError"
  "read_int_le n off b = Inl e \<Longrightarrow> e = RangeError"
  by (auto simp: read_uint_le_def read_int_le_def split: if_splits)

lemma decodeControlByte_Inl: "decodeControlByte b = Inl e \<Longrightarrow> e = RangeError"
  by (auto simp: decodeControlByte_def rbind_Inl Let_def dest: read_Inl)

lemma decodeTagAndLength_Inl: "decodeTagAndLength b ty = Inl e \<Longrightarrow> e = RangeError"
  by (auto simp: decodeTagAndLength_def rbind_Inl Let_def dest: read_Inl split: if_splits)

lemma decode_primitive_Inl: "decode_primitive b ty = Inl e \<Longrightarrow> e = RangeError"
  by (auto simp: decode_primitive_def dest: read_Inl split: if_splits)

lemma decodeValueAndLength_Inl: "decodeValueAndLength b ty = Inl e \<Longrightarrow> e = RangeError"
proof (cases "decode_primitive b ty")
  case (Inr r)
  assume "decodeValueAndLength b ty = Inl e"
  with Inr show ?thesis by (cases r; cases "fst r") (auto simp: decodeValueAndLength_def split: if_splits)
qed (auto simp: decodeValueAndLength_def dest: decode_primitive_Inl)

lemma decode_element_Inl: "decode_element b = Inl e \<Longrightarrow> e = RangeError"
  by (auto simp: decode_element_def rbind_Inl Let_def
      dest: decodeControlByte_Inl decodeTagAndLength_Inl decodeValueAndLength_Inl)

lemma decode_loop_Inl: "decode_loop tlv depth stack d js = Inl e \<Longrightarrow> e = RangeError"
proof (induction tlv depth stack d js rule: decode_loop.induct)
  case (1 tlv depth stack d js)
  show ?case
  proof (cases "decode_element tlv")
    case (Inl e')
    with "1.prems" show ?thesis
      by (subst (asm) decode_loop.simps) (auto dest: decode_element_Inl split: if_splits)
  next
    case (Inr r)
    obtain ty j rest where r: "r = (ty, j, rest)" by (cases r)
    show ?thesis
      using "1.prems" "1.IH" [OF _ Inr r [symmetric] refl] Inr r
      by (subst (asm) decode_loop.simps) (auto split: if_splits)
  qed
qed

text \<open>
  (C38) Decoding any octets at all ends, and the only error it can raise is the
  \<open>RangeError\<close> of a read beyond the buffer; it never fails on a type, a tag or a nesting.
\<close>

theorem decode_json_errors:
  "(\<exists>doc. decode_json tlv = Inr (JArr doc)) \<or> decode_json tlv = Inl RangeError"
  by (cases "decode tlv new_reader") (auto simp: decode_json_def decode_def dest: decode_loop_Inl)

text \<open>
  The length field of a string is its number of UTF-16 units, not of UTF-8 octets: the
  string \<open>U+00E9\<close> is written with length 1 and two octets, and reading it back gives the
  replacement character and then runs into the second octet as if it were a control octet.
\<close>

theorem putString_non_ascii:
  "tlv_encode [JStr [0xE9]] = Inr [0x0C, 0x01, 0xC3, 0xA9] \<and>
   decode_json [0x0C, 0x01, 0xC3, 0xA9] = Inl RangeError"
  by code_simp

end
