(* ===== verification/Msg_Codec.thy ===== *)
theory Msg_Codec
  imports Matter_Prelude
begin

text \<open>
  \<open>src/message/MsgCodec.js\<close>: flag bytes, message and protocol headers, the nonce, and
  encryption and decryption of a whole message. AES-CCM is Node's; it is the argument
  \<open>aead\<close> of the functions that use it, and \<open>ccm_ok\<close> states what they rely on.
\<close>

section \<open>Constants\<close>

definition DEFAULT_PORT :: int where "DEFAULT_PORT = 5540"
definition DEFAULT_HOST :: string where "DEFAULT_HOST = ''::1''"
definition MTU :: nat where "MTU = 1280"
definition MSG_FLAGS_VERSION_OFFSET :: nat where "MSG_FLAGS_VERSION_OFFSET = 4"
definition MSG_FLAGS_SRC_OMIT :: int where "MSG_FLAGS_SRC_OMIT = 0x00"
definition MSG_FLAGS_SRC_PRESENT :: int where "MSG_FLAGS_SRC_PRESENT = 0x04"
definition MSG_FLAGS_DST_OMIT :: int where "MSG_FLAGS_DST_OMIT = 0x00"
definition MSG_FLAGS_DST_PRESENT :: int where "MSG_FLAGS_DST_PRESENT = 0x01"
definition MSG_FLAGS_DST_GROUP :: int where "MSG_FLAGS_DST_GROUP = 0x02"
definition SEC_FLAGS_PRIVACY :: int where "SEC_FLAGS_PRIVACY = 0x80"
definition SEC_FLAGS_CONTROL :: int where "SEC_FLAGS_CONTROL = 0x40"
definition SEC_FLAGS_MX :: int where "SEC_FLAGS_MX = 0x20"
definition MSG_SESSION_TYPE_UNICAST :: int where "MSG_SESSION_TYPE_UNICAST = 0x00"
definition MSG_SESSION_TYPE_GROUP :: int where "MSG_SESSION_TYPE_GROUP = 0x01"
definition EXC_FLAGS_INITIATOR :: int where "EXC_FLAGS_INITIATOR = 0x01"
definition EXC_FLAGS_ACK :: int where "EXC_FLAGS_ACK = 0x02"
definition EXC_FLAGS_RELIABILITY :: int where "EXC_FLAGS_RELIABILITY = 0x04"
definition EXC_FLAGS_SX :: int where "EXC_FLAGS_SX = 0x08"
definition EXC_FLAGS_VENDOR :: int where "EXC_FLAGS_VENDOR = 0x10"
definition NODE_ID_ANY :: int where "NODE_ID_ANY = 0xFFFFFFFFFFFFFFFF"

lemmas msg_consts =
  MTU_def MSG_FLAGS_SRC_PRESENT_def MSG_FLAGS_DST_PRESENT_def MSG_FLAGS_DST_GROUP_def
  EXC_FLAGS_INITIATOR_def EXC_FLAGS_ACK_def EXC_FLAGS_RELIABILITY_def

section \<open>Flag bytes\<close>

definition encodeMessageFlags :: "int \<Rightarrow> int \<Rightarrow> int \<Rightarrow> int" where
  "encodeMessageFlags dsiz sFlag version =
     (0 OR push_bit 4 (version AND 0x0F)) OR push_bit 2 (sFlag AND 0x01) OR (dsiz AND 0x03)"

definition encodeSecurityFlags :: "int \<Rightarrow> int \<Rightarrow> int \<Rightarrow> int \<Rightarrow> int" where
  "encodeSecurityFlags sessionType cFlag pFlag mxFlag =
     (0 OR push_bit 7 (pFlag AND 0x01)) OR push_bit 6 (cFlag AND 0x01)
       OR push_bit 5 (mxFlag AND 0x01) OR (sessionType AND 0x03)"

definition encodeExchangeFlags :: "int \<Rightarrow> int \<Rightarrow> int \<Rightarrow> int \<Rightarrow> int \<Rightarrow> int" where
  "encodeExchangeFlags iFlag aFlag rFlag vFlag sxFlag =
     (0 OR push_bit 4 (vFlag AND 0x01)) OR push_bit 3 (sxFlag AND 0x01)
       OR push_bit 2 (rFlag AND 0x01) OR push_bit 1 (aFlag AND 0x01) OR (iFlag AND 0x01)"

section \<open>Headers\<close>

text \<open>
  Both encoders write into a buffer of \<open>MTU\<close> octets and return the part up to
  \<open>offset\<close>. \<open>src\<close> and \<open>dst\<close> are BigInts or \<open>null\<close>; a group destination is
  never written.
\<close>

definition encodeHeader ::
  "int \<Rightarrow> int \<Rightarrow> int \<Rightarrow> int \<Rightarrow> int option \<Rightarrow> int option \<Rightarrow> buffer result" where
  "encodeHeader msgFlags secFlags sessionId msgCounter src dst =
     rbind (write_uint_le 1 msgFlags 0 (buf_alloc MTU)) (\<lambda>buf.
     rbind (write_uint_le 2 sessionId 1 buf) (\<lambda>buf.
     rbind (write_uint_le 1 secFlags 3 buf) (\<lambda>buf.
     rbind (write_uint_le 4 msgCounter 4 buf) (\<lambda>buf.
     rbind (if msgFlags AND MSG_FLAGS_SRC_PRESENT \<noteq> 0 \<and> src \<noteq> None
            then rmap (\<lambda>b. (b, 16)) (write_uint_le 8 (the src) 8 buf) else Inr (buf, 8)) (\<lambda>(buf, off).
     rbind (if msgFlags AND MSG_FLAGS_DST_PRESENT \<noteq> 0 \<and> dst \<noteq> None
            then rmap (\<lambda>b. (b, off + 8)) (write_uint_le 8 (the dst) off buf) else Inr (buf, off)) (\<lambda>(buf, off).
       Inr (subarray 0 (int off) buf)))))))"

definition encodeProtocolHeader ::
  "int \<Rightarrow> int \<Rightarrow> int \<Rightarrow> int \<Rightarrow> int option \<Rightarrow> int option \<Rightarrow> buffer result" where
  "encodeProtocolHeader exchangeFlags exchangeId opcode protocolId vendorId ackMsgCounter =
     rbind (write_uint_le 1 exchangeFlags 0 (buf_alloc MTU)) (\<lambda>buf.
     rbind (write_uint_le 1 opcode 1 buf) (\<lambda>buf.
     rbind (write_uint_le 2 exchangeId 2 buf) (\<lambda>buf.
     rbind (write_uint_le 2 protocolId 4 buf) (\<lambda>buf.
     rbind (case vendorId of None \<Rightarrow> Inr (buf, 6)
            | Some v \<Rightarrow> rmap (\<lambda>b. (b, 8)) (write_uint_le 2 v 6 buf)) (\<lambda>(buf, off).
     rbind (case ackMsgCounter of None \<Rightarrow> Inr (buf, off)
            | Some c \<Rightarrow> rmap (\<lambda>b. (b, off + 4)) (write_uint_le 4 c off buf)) (\<lambda>(buf, off).
       Inr (subarray 0 (int off) buf)))))))"

section \<open>Nonce, encryption, decryption\<close>

text \<open>\<open>msg[0]\<close> in a bitwise operation: \<open>undefined\<close> counts as \<open>0\<close>.\<close>

definition octet0 :: "buffer \<Rightarrow> int" where
  "octet0 msg = (case msg of [] \<Rightarrow> 0 | b # _ \<Rightarrow> uint b)"

text \<open>\<open>Buffer.concat(list, 13)\<close> cuts or zero-fills to the given length.\<close>

definition concat_to :: "nat \<Rightarrow> buffer list \<Rightarrow> buffer" where
  "concat_to n bs = take n (concat bs) @ replicate (n - length (concat bs)) 0"

definition getNonce :: "buffer \<Rightarrow> int \<Rightarrow> buffer result" where
  "getNonce msg srcNode =
     (let nonce = subarray 3 8 msg
      in rbind (if octet0 msg AND MSG_FLAGS_SRC_PRESENT \<noteq> 0 then Inr (subarray 8 16 msg)
                else write_uint_le 8 srcNode 0 (buf_alloc 8)) (\<lambda>src.
           Inr (concat_to 13 [nonce, src])))"

definition header_size :: "buffer \<Rightarrow> nat" where
  "header_size msg =
     8 + (if octet0 msg AND MSG_FLAGS_SRC_PRESENT \<noteq> 0 then 8 else 0)
       + (if octet0 msg AND MSG_FLAGS_DST_PRESENT \<noteq> 0 then 8 else 0)
       + (if octet0 msg AND MSG_FLAGS_DST_GROUP \<noteq> 0 then 2 else 0)"

text \<open>
  \<open>aes-128-ccm\<close> with a tag of 16 octets: key, nonce, additional data and text to ciphertext
  and tag, and back. Both throw on a key or nonce of the wrong size and on a text too long for
  the nonce; decryption also throws when the tag does not fit.
\<close>

record aead =
  ccm_encrypt :: "buffer \<Rightarrow> buffer \<Rightarrow> buffer \<Rightarrow> buffer \<Rightarrow> (buffer \<times> buffer) result"
  ccm_decrypt :: "buffer \<Rightarrow> buffer \<Rightarrow> buffer \<Rightarrow> buffer \<Rightarrow> buffer \<Rightarrow> buffer result"

definition msg_encrypt :: "aead \<Rightarrow> buffer \<Rightarrow> buffer \<Rightarrow> buffer result" where
  "msg_encrypt A msg key =
     (let headerSize = header_size msg
      in rbind (getNonce msg 0) (\<lambda>nonce.
         let aad = subarray 0 (int headerSize) msg;
             pay = subarray_from (int headerSize) msg
         in rbind (ccm_encrypt A key nonce aad pay) (\<lambda>(encrypted, tag).
              Inr (aad @ encrypted @ tag))))"

definition msg_decrypt :: "aead \<Rightarrow> buffer \<Rightarrow> buffer \<Rightarrow> buffer option result" where
  "msg_decrypt A msg key =
     (let headerSize = header_size msg
      in rbind (getNonce msg 0) (\<lambda>nonce.
         let aad = subarray 0 (int headerSize) msg;
             enc = subarray (int headerSize) (int (length msg) - 16) msg;
             mic = subarray_from (int (length msg) - 16) msg
         in (case ccm_decrypt A key nonce aad enc mic of
               Inl e \<Rightarrow> Inr None
             | Inr dmsg \<Rightarrow> Inr (Some (aad @ dmsg)))))"

section \<open>What the cipher is relied on for\<close>

text \<open>
  Encryption is total on keys of 16 and nonces of 13 octets with fewer than \<open>2 ^ 16\<close> octets
  of text, keeps the length, and makes a tag of 16 octets; decryption recomputes the tag, so it
  accepts exactly what encryption produces.
\<close>

definition ccm_ok :: "aead \<Rightarrow> bool" where
  "ccm_ok A \<longleftrightarrow>
     (\<forall>key nonce aad p. length key = 16 \<longrightarrow> length nonce = 13 \<longrightarrow> length p < 2 ^ 16 \<longrightarrow>
        (\<exists>c t. ccm_encrypt A key nonce aad p = Inr (c, t) \<and> length c = length p \<and> length t = 16)) \<and>
     (\<forall>key nonce aad p c t. ccm_encrypt A key nonce aad p = Inr (c, t) \<longleftrightarrow>
        ccm_decrypt A key nonce aad c t = Inr p)"

lemma ccm_encrypt_ok:
  assumes "ccm_ok A" and "length key = 16" and "length nonce = 13" and "length p < 2 ^ 16"
  obtains c t where "ccm_encrypt A key nonce aad p = Inr (c, t)" "length c = length p" "length t = 16"
  using assms unfolding ccm_ok_def by metis

lemma ccm_decrypt_iff:
  "ccm_ok A \<Longrightarrow> ccm_decrypt A key nonce aad c t = Inr p \<longleftrightarrow> ccm_encrypt A key nonce aad p = Inr (c, t)"
  unfolding ccm_ok_def by metis

section \<open>Lemmas on encryption\<close>

lemma header_size_ge: "8 \<le> header_size msg"
  by (simp add: header_size_def)

lemma header_size_octet0: "octet0 a = octet0 b \<Longrightarrow> header_size a = header_size b"
  by (simp add: header_size_def)

lemma octet0_append: "a \<noteq> [] \<Longrightarrow> octet0 (a @ b) = octet0 a"
  by (cases a) (simp_all add: octet0_def)

lemma octet0_take: "0 < n \<Longrightarrow> octet0 (take n b) = octet0 b"
  by (cases b; cases n) (simp_all add: octet0_def)

lemma length_concat_to [simp]: "length (concat_to n bs) = n"
  by (simp add: concat_to_def)

lemma getNonce_length: "getNonce msg s = Inr nonce \<Longrightarrow> length nonce = 13"
  by (auto simp: getNonce_def Let_def)

lemma getNonce_total: "0 \<le> s \<Longrightarrow> s < 2 ^ 64 \<Longrightarrow> \<exists>nonce. getNonce msg s = Inr nonce"
  by (auto simp: getNonce_def Let_def write_uint_le_def)

text \<open>A header is complete when its first octet announces exactly its length.\<close>

definition complete_header :: "buffer \<Rightarrow> bool" where
  "complete_header h \<longleftrightarrow> header_size h = length h"

lemma complete_header_append [simp]:
  assumes "complete_header h"
  shows "octet0 (h @ b) = octet0 h" and "header_size (h @ b) = length h"
proof -
  have "h \<noteq> []" using assms header_size_ge [of h] by (auto simp: complete_header_def)
  then show "octet0 (h @ b) = octet0 h" by (rule octet0_append)
  then have "header_size (h @ b) = header_size h" by (rule header_size_octet0)
  then show "header_size (h @ b) = length h" using assms by (simp add: complete_header_def)
qed

lemma complete_header_take:
  assumes "header_size msg \<le> length msg"
  shows "complete_header (take (header_size msg) msg)"
  using assms header_size_ge [of msg] header_size_octet0 [of "take (header_size msg) msg" msg]
  by (simp add: complete_header_def octet0_take min_def)

text \<open>The nonce depends on the header alone.\<close>

lemma getNonce_header:
  assumes "complete_header h"
  shows "getNonce (h @ b) s = getNonce h s"
proof -
  have "8 \<le> length h" and "octet0 h AND 4 \<noteq> 0 \<Longrightarrow> 16 \<le> length h"
    using assms header_size_ge [of h] by (auto simp: complete_header_def header_size_def msg_consts split: if_splits)
  then have "take 5 (drop 3 (h @ b)) = take 5 (drop 3 h)"
    and "octet0 h AND 4 \<noteq> 0 \<Longrightarrow> take 8 (drop 8 (h @ b)) = take 8 (drop 8 h)" by simp_all
  then show ?thesis
    using assms
    by (simp add: getNonce_def Let_def subarray_numeral msg_consts del: drop_append take_append)
qed

lemma msg_encrypt_append:
  assumes "complete_header h" and "getNonce h 0 = Inr nonce"
  shows "msg_encrypt A (h @ p) key =
    rbind (ccm_encrypt A key nonce h p) (\<lambda>(c, t). Inr (h @ c @ t))"
  using assms by (simp add: msg_encrypt_def Let_def getNonce_header subarray_0 subarray_from_nat)

lemma msg_decrypt_append:
  assumes "complete_header h" and "length t = 16" and "getNonce h 0 = Inr nonce"
  shows "msg_decrypt A (h @ c @ t) key =
    (case ccm_decrypt A key nonce h c t of Inl e \<Rightarrow> Inr None | Inr p \<Rightarrow> Inr (Some (h @ p)))"
proof -
  have len: "int (length (h @ c @ t)) - 16 = int (length h + length c)" using assms by simp
  show ?thesis
    using assms
    by (simp only: msg_decrypt_def Let_def getNonce_header complete_header_append len subarray_nat
        subarray_0 subarray_from_nat) (simp split: sum.split)
qed

lemma encrypt_then_decrypt:
  assumes "ccm_ok A" and "length key = 16"
    and "header_size msg \<le> length msg" and "length msg < 2 ^ 16"
  shows "\<exists>enc. msg_encrypt A msg key = Inr enc \<and> length enc = length msg + 16 \<and>
    take (header_size msg) enc = take (header_size msg) msg \<and>
    msg_decrypt A enc key = Inr (Some msg)"
proof -
  let ?h = "take (header_size msg) msg" and ?p = "drop (header_size msg) msg"
  have h: "complete_header ?h" by (rule complete_header_take) fact
  obtain nonce where n: "getNonce ?h 0 = Inr nonce" using getNonce_total [of 0 ?h] by auto
  have "length ?p < 2 ^ 16" using assms(4) by simp
  then obtain c t where ct: "ccm_encrypt A key nonce ?h ?p = Inr (c, t)" "length c = length ?p" "length t = 16"
    using ccm_encrypt_ok [OF assms(1,2) getNonce_length [OF n]] by metis
  then have "msg_encrypt A msg key = Inr (?h @ c @ t)" and "msg_decrypt A (?h @ c @ t) key = Inr (Some msg)"
    using msg_encrypt_append [OF h n, of A ?p key] msg_decrypt_append [OF h ct(3) n, of A c key]
      ccm_decrypt_iff [OF assms(1), of key nonce ?h c t ?p] by simp_all
  then show ?thesis using ct assms(3) by simp
qed

text \<open>
  A message with a complete header, encrypted under a 16-octet key and decrypted under
  the same key, is the original; the header travels in clear and the ciphertext is 16 octets
  longer.
\<close>

theorem decrypt_encrypt:
  assumes "ccm_ok A" and "length key = 16"
    and "header_size msg \<le> length msg" and "length msg < 2 ^ 16"
  shows "\<exists>enc. msg_encrypt A msg key = Inr enc \<and> length enc = length msg + 16 \<and>
    take (header_size msg) enc = take (header_size msg) msg \<and>
    msg_decrypt A enc key = Inr (Some msg)"
  using assms by (rule encrypt_then_decrypt)

definition toy_aead :: aead where
  "toy_aead = \<lparr>
     ccm_encrypt = (\<lambda>key nonce aad p.
       if length key = 16 \<and> length nonce = 13 \<and> length p < 65536
       then Inr (map (\<lambda>b. b XOR hd key) p, replicate 16 (hd nonce)) else Inl RangeError),
     ccm_decrypt = (\<lambda>key nonce aad c t.
       if length key = 16 \<and> length nonce = 13 \<and> length c < 65536 \<and> t = replicate 16 (hd nonce)
       then Inr (map (\<lambda>b. b XOR hd key) c) else Inl (Thrown ''auth''))\<rparr>"

lemma xor_cancel: "map (\<lambda>b. b XOR k) (map (\<lambda>b. b XOR k) p) = (p :: buffer)"
  by (simp add: comp_def xor.assoc)

lemma toy_aead_ok: "ccm_ok toy_aead"
  unfolding ccm_ok_def toy_aead_def
  by (auto simp del: map_map simp: xor_cancel split: if_splits)

theorem decrypt_encrypt_witness:
  "\<exists>enc. msg_encrypt toy_aead [0, 1, 0, 0, 7, 0, 0, 0, 0xAB] (replicate 16 0x5E) = Inr enc \<and> length enc = 25 \<and>
    take 8 enc = [0, 1, 0, 0, 7, 0, 0, 0] \<and>
    msg_decrypt toy_aead enc (replicate 16 0x5E) = Inr (Some [0, 1, 0, 0, 7, 0, 0, 0, 0xAB])"
  using decrypt_encrypt [OF toy_aead_ok, of "replicate 16 0x5E" "[0, 1, 0, 0, 7, 0, 0, 0, 0xAB]"]
  by (simp add: header_size_def octet0_def)

text \<open>
  (C24) Authenticity of what decryption returns: if decrypting a message with a whole header
  and a whole tag succeeds, the message is the encryption of the result under the same key, so
  a change of any octet of header, ciphertext or tag is rejected.
\<close>

theorem decrypt_authentic:
  assumes "ccm_ok A" and "header_size enc + 16 \<le> length enc"
    and "msg_decrypt A enc key = Inr (Some msg)"
  shows "msg_encrypt A msg key = Inr enc \<and> take (header_size enc) msg = take (header_size enc) enc"
proof -
  let ?n = "header_size enc"
  let ?h = "take ?n enc" and ?c = "take (length enc - 16 - ?n) (drop ?n enc)" and ?t = "drop (length enc - 16) enc"
  have h: "complete_header ?h" by (rule complete_header_take) (use assms(2) in simp)
  have t: "length ?t = 16" using assms(2) by simp
  have "?c @ ?t = drop ?n enc"
    using append_take_drop_id [of "length enc - 16 - ?n" "drop ?n enc"] assms(2) by simp
  then have enc: "enc = ?h @ ?c @ ?t" by simp
  obtain nonce where n: "getNonce ?h 0 = Inr nonce" using getNonce_total [of 0 ?h] by auto
  have "msg_decrypt A (?h @ ?c @ ?t) key = Inr (Some msg)" using assms(3) enc by simp
  then obtain p where p: "ccm_decrypt A key nonce ?h ?c ?t = Inr p" and m: "msg = ?h @ p"
    unfolding msg_decrypt_append [OF h t n] by (auto split: sum.splits)
  then have "msg_encrypt A msg key = Inr (?h @ ?c @ ?t)"
    using msg_encrypt_append [OF h n, of A p key] ccm_decrypt_iff [OF assms(1)] by auto
  then show ?thesis using enc m assms(2) by simp
qed

theorem decrypt_authentic_witness:
  "msg_encrypt toy_aead [0, 1, 0, 0, 7, 0, 0, 0, 0xAB] (replicate 16 0x5E) =
     Inr ([0, 1, 0, 0, 7, 0, 0, 0, 0xF5] @ replicate 16 0)"
  using decrypt_authentic [OF toy_aead_ok,
      of "[0, 1, 0, 0, 7, 0, 0, 0, 0xF5] @ replicate 16 0" "replicate 16 0x5E" "[0, 1, 0, 0, 7, 0, 0, 0, 0xAB]"]
  by (simp add: header_size_def octet0_def msg_decrypt_def getNonce_def Let_def toy_aead_def
      write_uint_le_def subarray_def subarray_from_def concat_to_def js_index_def buf_alloc_def)

section \<open>Exact header octets\<close>

lemma write_append:
  assumes "0 \<le> v" and "v < 256 ^ n" and "n \<le> k"
  shows "write_uint_le n v (length pre) (pre @ buf_alloc k) = Inr ((pre @ le_bytes n v) @ buf_alloc (k - n))"
  using assms by (simp add: write_uint_le_def splice_def buf_alloc_def)

definition header_octets :: "int \<Rightarrow> int \<Rightarrow> int \<Rightarrow> int \<Rightarrow> buffer" where
  "header_octets msgFlags secFlags sessionId msgCounter =
     le_bytes 1 msgFlags @ le_bytes 2 sessionId @ le_bytes 1 secFlags @ le_bytes 4 msgCounter"

definition opt_field :: "nat \<Rightarrow> int option \<Rightarrow> buffer" where
  "opt_field n v = (case v of None \<Rightarrow> [] | Some x \<Rightarrow> le_bytes n x)"

definition opt_in_range :: "nat \<Rightarrow> int option \<Rightarrow> bool" where
  "opt_in_range n v = (case v of None \<Rightarrow> True | Some x \<Rightarrow> 0 \<le> x \<and> x < 256 ^ n)"

lemma length_header_octets [simp]: "length (header_octets f s i c) = 8"
  by (simp add: header_octets_def)

lemma encodeHeader_ok:
  assumes "0 \<le> f" "f < 2 ^ 8" "0 \<le> sf" "sf < 2 ^ 8" "0 \<le> sid" "sid < 2 ^ 16" "0 \<le> ctr" "ctr < 2 ^ 32"
    and "opt_in_range 8 src" and "opt_in_range 8 dst"
    and "f AND 4 \<noteq> 0 \<longleftrightarrow> src \<noteq> None" and "f AND 1 \<noteq> 0 \<longleftrightarrow> dst \<noteq> None"
  shows "encodeHeader f sf sid ctr src dst = Inr (header_octets f sf sid ctr @ opt_field 8 src @ opt_field 8 dst)"
proof -
  have "rbind (write_uint_le 1 f 0 (buf_alloc MTU)) (\<lambda>b.
     rbind (write_uint_le 2 sid 1 b) (\<lambda>b. rbind (write_uint_le 1 sf 3 b) (\<lambda>b. write_uint_le 4 ctr 4 b))) =
     Inr (header_octets f sf sid ctr @ buf_alloc 1272)"
    using assms(1-8) write_append [of f 1 1280 "[]"] write_append [of sid 2 1279 "le_bytes 1 f"]
      write_append [of sf 1 1277 "le_bytes 1 f @ le_bytes 2 sid"]
      write_append [of ctr 4 1276 "le_bytes 1 f @ le_bytes 2 sid @ le_bytes 1 sf"]
    by (simp add: header_octets_def msg_consts numeral_3_eq_3 [symmetric] del: le_bytes.simps)
  then have base: "rbind (write_uint_le 1 f 0 (buf_alloc MTU)) (\<lambda>b.
     rbind (write_uint_le 2 sid 1 b) (\<lambda>b. rbind (write_uint_le 1 sf 3 b) (\<lambda>b. rbind (write_uint_le 4 ctr 4 b) g))) =
     g (header_octets f sf sid ctr @ buf_alloc 1272)" for g :: "buffer \<Rightarrow> buffer result"
    by (auto simp: rbind_assoc [symmetric] simp del: rbind_eq_Inr)
  have w: "0 \<le> v \<Longrightarrow> v < 256 ^ 8 \<Longrightarrow> 8 \<le> k \<Longrightarrow> length pre = off \<Longrightarrow>
      write_uint_le 8 v off (pre @ buf_alloc k) = Inr ((pre @ le_bytes 8 v) @ buf_alloc (k - 8))" for v k pre off
    using write_append by blast
  show ?thesis
    unfolding encodeHeader_def base
    using assms(9-12) w [of "the src" 1272 "header_octets f sf sid ctr" 8]
      w [of "the dst" 1272 "header_octets f sf sid ctr" 8]
      w [of "the dst" 1264 "header_octets f sf sid ctr @ le_bytes 8 (the src)" 16]
    by (cases src; cases dst)
      (simp_all add: msg_consts opt_in_range_def opt_field_def subarray_0 subarray_nat [of 0, simplified]
        del: le_bytes.simps)
qed

definition protocol_octets :: "int \<Rightarrow> int \<Rightarrow> int \<Rightarrow> int \<Rightarrow> buffer" where
  "protocol_octets exchangeFlags exchangeId opcode protocolId =
     le_bytes 1 exchangeFlags @ le_bytes 1 opcode @ le_bytes 2 exchangeId @ le_bytes 2 protocolId"

lemma length_protocol_octets [simp]: "length (protocol_octets f i o' p) = 6"
  by (simp add: protocol_octets_def)

lemma encodeProtocolHeader_ok:
  assumes "0 \<le> f" "f < 2 ^ 8" "0 \<le> opc" "opc < 2 ^ 8" "0 \<le> eid" "eid < 2 ^ 16" "0 \<le> pid" "pid < 2 ^ 16"
    and "opt_in_range 2 vid" and "opt_in_range 4 ack"
  shows "encodeProtocolHeader f eid opc pid vid ack =
    Inr (protocol_octets f eid opc pid @ opt_field 2 vid @ opt_field 4 ack)"
proof -
  have "rbind (write_uint_le 1 f 0 (buf_alloc MTU)) (\<lambda>b.
     rbind (write_uint_le 1 opc 1 b) (\<lambda>b. rbind (write_uint_le 2 eid 2 b) (\<lambda>b. write_uint_le 2 pid 4 b))) =
     Inr (protocol_octets f eid opc pid @ buf_alloc 1274)"
    using assms(1-8) write_append [of f 1 1280 "[]"] write_append [of opc 1 1279 "le_bytes 1 f"]
      write_append [of eid 2 1278 "le_bytes 1 f @ le_bytes 1 opc"]
      write_append [of pid 2 1276 "le_bytes 1 f @ le_bytes 1 opc @ le_bytes 2 eid"]
    by (simp add: protocol_octets_def msg_consts numeral_2_eq_2 [symmetric] del: le_bytes.simps)
  then have base: "rbind (write_uint_le 1 f 0 (buf_alloc MTU)) (\<lambda>b.
     rbind (write_uint_le 1 opc 1 b) (\<lambda>b. rbind (write_uint_le 2 eid 2 b) (\<lambda>b. rbind (write_uint_le 2 pid 4 b) g))) =
     g (protocol_octets f eid opc pid @ buf_alloc 1274)" for g :: "buffer \<Rightarrow> buffer result"
    by (auto simp: rbind_assoc [symmetric] simp del: rbind_eq_Inr)
  have w: "0 \<le> v \<Longrightarrow> v < 256 ^ n \<Longrightarrow> n \<le> k \<Longrightarrow> length pre = off \<Longrightarrow>
      write_uint_le n v off (pre @ buf_alloc k) = Inr ((pre @ le_bytes n v) @ buf_alloc (k - n))" for n v k pre off
    using write_append by blast
  show ?thesis
    unfolding encodeProtocolHeader_def base
    using assms(9,10) w [of "the vid" 2 1274 "protocol_octets f eid opc pid" 6]
      w [of "the ack" 4 1274 "protocol_octets f eid opc pid" 6]
      w [of "the ack" 4 1272 "protocol_octets f eid opc pid @ le_bytes 2 (the vid)" 8]
    by (cases vid; cases ack)
      (simp_all add: opt_in_range_def opt_field_def subarray_0 subarray_nat [of 0, simplified]
        del: le_bytes.simps)
qed

end
