(* ===== verification/Matter_Message.thy ===== *)
theory Matter_Message
  imports Msg_Codec Js_Value
begin

text \<open>
  \<open>src/message/Message.js\<close>: the message object and its accessors. Every getter reads the
  buffer and every setter writes it, so both may throw; a setter of the exchange header writes
  through a view of the buffer that starts at \<open>PayloadOffset\<close>.
\<close>

section \<open>Constants and state\<close>

definition SESSION_ID_UNSECURED :: int where "SESSION_ID_UNSECURED = 0x0000"
definition MESSAGE_HEADER_MIN_SIZE :: nat where "MESSAGE_HEADER_MIN_SIZE = 8"
definition MESSAGE_HEADER_CLEARTEXT_SIZE :: nat where "MESSAGE_HEADER_CLEARTEXT_SIZE = 4"
definition EXCHANGE_HEADER_MIN_SIZE :: nat where "EXCHANGE_HEADER_MIN_SIZE = 6"
definition MESSAGE_NODE_ID_SIZE :: nat where "MESSAGE_NODE_ID_SIZE = 8"
definition MESSAGE_GROUP_ID_SIZE :: nat where "MESSAGE_GROUP_ID_SIZE = 2"
definition CRYPTO_AEAD_MIC_LENGTH_BYTES :: nat where "CRYPTO_AEAD_MIC_LENGTH_BYTES = 16"
definition ACK_COUNTER_SIZE :: nat where "ACK_COUNTER_SIZE = 4"
definition DestinationType_Omit :: int where "DestinationType_Omit = 0"
definition DestinationType_NodeId :: int where "DestinationType_NodeId = 1"
definition DestinationType_GroupId :: int where "DestinationType_GroupId = 2"
definition SourceType_Omit :: int where "SourceType_Omit = 0"
definition SourceType_NodeId :: int where "SourceType_NodeId = 4"

lemmas message_consts =
  SESSION_ID_UNSECURED_def MESSAGE_HEADER_MIN_SIZE_def MESSAGE_HEADER_CLEARTEXT_SIZE_def
  EXCHANGE_HEADER_MIN_SIZE_def MESSAGE_NODE_ID_SIZE_def MESSAGE_GROUP_ID_SIZE_def
  CRYPTO_AEAD_MIC_LENGTH_BYTES_def ACK_COUNTER_SIZE_def DestinationType_Omit_def
  DestinationType_NodeId_def DestinationType_GroupId_def SourceType_Omit_def SourceType_NodeId_def

text \<open>The two sockets of a node (\<open>UdpServer\<close>, \<open>UdpClient\<close>) and a datagram's peer.\<close>

datatype transport = Server | Client

record peer_info =
  pi_address :: string
  pi_port :: int

text \<open>\<open>m_exchange\<close> is the property \<open>Exchange\<close> that the exchange manager adds.\<close>

record message =
  m_buffer :: buffer
  m_encrypted :: "buffer option"
  m_peerInfo :: "peer_info option"
  m_hasSource :: bool
  m_hasDestination :: bool
  m_exchange :: "nat option"

definition new_message_of :: "buffer \<Rightarrow> buffer option \<Rightarrow> peer_info option \<Rightarrow> message" where
  "new_message_of buf enc peerInfo =
     \<lparr>m_buffer = buf, m_encrypted = enc, m_peerInfo = peerInfo, m_hasSource = False,
      m_hasDestination = False, m_exchange = None\<rparr>"

definition new_message :: message where
  "new_message = new_message_of (buf_alloc (MESSAGE_HEADER_MIN_SIZE + EXCHANGE_HEADER_MIN_SIZE)) None None"

section \<open>The fixed header\<close>

definition MessageFlags :: "message \<Rightarrow> int result" where
  "MessageFlags m = read_uint_le 1 0 (m_buffer m)"

definition SessionId :: "message \<Rightarrow> int result" where
  "SessionId m = read_uint_le 2 1 (m_buffer m)"

definition SecurityFlags :: "message \<Rightarrow> int result" where
  "SecurityFlags m = read_uint_le 1 3 (m_buffer m)"

definition MessageCounter :: "message \<Rightarrow> int result" where
  "MessageCounter m = read_uint_le 4 4 (m_buffer m)"

definition set_MessageFlags :: "int \<Rightarrow> message \<Rightarrow> message result" where
  "set_MessageFlags v m = rmap (\<lambda>b. m\<lparr>m_buffer := b\<rparr>) (write_uint_le 1 v 0 (m_buffer m))"

definition set_SessionId :: "int \<Rightarrow> message \<Rightarrow> message result" where
  "set_SessionId v m = rmap (\<lambda>b. m\<lparr>m_buffer := b\<rparr>) (write_uint_le 2 v 1 (m_buffer m))"

definition set_SecurityFlags :: "int \<Rightarrow> message \<Rightarrow> message result" where
  "set_SecurityFlags v m = rmap (\<lambda>b. m\<lparr>m_buffer := b\<rparr>) (write_uint_le 1 v 3 (m_buffer m))"

definition set_MessageCounter :: "int \<Rightarrow> message \<Rightarrow> message result" where
  "set_MessageCounter v m = rmap (\<lambda>b. m\<lparr>m_buffer := b\<rparr>) (write_uint_le 4 v 4 (m_buffer m))"

definition Version :: "message \<Rightarrow> int result" where
  "Version m = rmap (drop_bit 4) (MessageFlags m)"

definition Sflag :: "message \<Rightarrow> bool result" where
  "Sflag m = rmap (\<lambda>f. f AND 0x04 \<noteq> 0) (MessageFlags m)"

definition Dsiz :: "message \<Rightarrow> int result" where
  "Dsiz m = rmap (\<lambda>f. f AND 0x03) (MessageFlags m)"

text \<open>
  The setters of \<open>Sflag\<close> and \<open>Dsiz\<close> first intersect the flags with their own mask, which
  clears every other bit of the octet and leaves their own.
\<close>

definition set_Sflag :: "int \<Rightarrow> message \<Rightarrow> message result" where
  "set_Sflag v m =
     rbind (MessageFlags m) (\<lambda>f. rbind (set_MessageFlags (f AND 0x04) m) (\<lambda>m.
     rbind (MessageFlags m) (\<lambda>f. set_MessageFlags (f OR (v AND 0x04)) m)))"

definition set_Dsiz :: "int \<Rightarrow> message \<Rightarrow> message result" where
  "set_Dsiz v m =
     rbind (MessageFlags m) (\<lambda>f. rbind (set_MessageFlags (f AND 0x03) m) (\<lambda>m.
     rbind (MessageFlags m) (\<lambda>f. set_MessageFlags (f OR (v AND 0x03)) m)))"

definition Mic :: "message \<Rightarrow> buffer result" where
  "Mic m = (case m_encrypted m of
      None \<Rightarrow> Inl TypeError
    | Some e \<Rightarrow> Inr (subarray (int (length e) - int CRYPTO_AEAD_MIC_LENGTH_BYTES) (int (length e)) e))"

section \<open>Node identifiers\<close>

definition SourceNodeId :: "message \<Rightarrow> int result" where
  "SourceNodeId m = rbind (Sflag m) (\<lambda>s.
     if s then read_uint_le 8 MESSAGE_HEADER_MIN_SIZE (m_buffer m) else Inr NODE_ID_ANY)"

definition set_SourceNodeId :: "jsval \<Rightarrow> message \<Rightarrow> message result" where
  "set_SourceNodeId v m = rbind (Sflag m) (\<lambda>s.
     if s then
       (let m = (if m_hasSource m then m
                 else m\<lparr>m_buffer := subarray 0 8 (m_buffer m) @ buf_alloc MESSAGE_NODE_ID_SIZE
                                    @ subarray_from 8 (m_buffer m),
                        m_hasSource := True\<rparr>)
        in rbind (to_bigint v) (\<lambda>n.
             rmap (\<lambda>b. m\<lparr>m_buffer := b\<rparr>) (write_uint_le 8 n MESSAGE_HEADER_MIN_SIZE (m_buffer m))))
     else Inr m)"

text \<open>
  The getter tests \<open>this.dsiz\<close>, which is \<open>undefined\<close>, for the group case: a group
  destination reads as \<open>NODE_ID_ANY\<close>.
\<close>

definition DestinationNodeId :: "message \<Rightarrow> int result" where
  "DestinationNodeId m = rbind (Dsiz m) (\<lambda>dsiz. rbind (Sflag m) (\<lambda>s.
     let offset = MESSAGE_HEADER_MIN_SIZE + (if s then MESSAGE_NODE_ID_SIZE else 0)
     in if dsiz = 1 then read_uint_le 8 offset (m_buffer m) else Inr NODE_ID_ANY))"

text \<open>
  With \<open>Dsiz = 3\<close> the list given to \<open>Buffer.concat\<close> holds \<open>undefined\<close>, a
  \<open>TypeError\<close>.
\<close>

definition set_DestinationNodeId :: "jsval \<Rightarrow> message \<Rightarrow> message result" where
  "set_DestinationNodeId v m = rbind (Sflag m) (\<lambda>s. rbind (Dsiz m) (\<lambda>dsiz.
     let offset = MESSAGE_HEADER_MIN_SIZE + (if s then MESSAGE_NODE_ID_SIZE else 0)
     in if dsiz = 0 then Inr m
        else
          rbind (if m_hasDestination m then Inr m
                 else if dsiz = 1 \<or> dsiz = 2 then
                   Inr (m\<lparr>m_buffer := subarray 0 (int offset) (m_buffer m)
                            @ buf_alloc (if dsiz = 1 then MESSAGE_NODE_ID_SIZE else MESSAGE_GROUP_ID_SIZE)
                            @ subarray_from (int offset) (m_buffer m),
                          m_hasDestination := True\<rparr>)
                 else Inl TypeError) (\<lambda>m.
          rbind (Dsiz m) (\<lambda>dsiz.
            if dsiz = 1 then rbind (to_bigint v) (\<lambda>n.
              rmap (\<lambda>b. m\<lparr>m_buffer := b\<rparr>) (write_uint_le 8 n offset (m_buffer m)))
            else if dsiz = 2 then rbind (to_write v) (\<lambda>n.
              rmap (\<lambda>b. m\<lparr>m_buffer := b\<rparr>) (write_uint_le 2 n offset (m_buffer m)))
            else Inr m))))"

section \<open>Security flags and the payload\<close>

definition Pflag :: "message \<Rightarrow> bool result" where
  "Pflag m = rmap (\<lambda>f. f AND 0x80 \<noteq> 0) (SecurityFlags m)"

definition Cflag :: "message \<Rightarrow> bool result" where
  "Cflag m = rmap (\<lambda>f. f AND 0x40 \<noteq> 0) (SecurityFlags m)"

definition Mxflag :: "message \<Rightarrow> bool result" where
  "Mxflag m = rmap (\<lambda>f. f AND 0x20 \<noteq> 0) (SecurityFlags m)"

definition SessionType :: "message \<Rightarrow> int result" where
  "SessionType m = rmap (\<lambda>f. f AND 0x03) (SecurityFlags m)"

definition PayloadOffset :: "message \<Rightarrow> nat result" where
  "PayloadOffset m = rbind (Sflag m) (\<lambda>s. rbind (Dsiz m) (\<lambda>dsiz.
     Inr (MESSAGE_HEADER_MIN_SIZE + (if s then 8 else 0)
          + (if dsiz = 1 then 8 else if dsiz = 2 then 2 else 0))))"

definition Payload :: "message \<Rightarrow> buffer result" where
  "Payload m = rmap (\<lambda>off. subarray_from (int off) (m_buffer m)) (PayloadOffset m)"

text \<open>A write through the view \<open>this.Payload\<close>.\<close>

definition write_payload :: "nat \<Rightarrow> int \<Rightarrow> nat \<Rightarrow> message \<Rightarrow> message result" where
  "write_payload n v k m = rbind (PayloadOffset m) (\<lambda>off.
     rmap (\<lambda>p. m\<lparr>m_buffer := take off (m_buffer m) @ p\<rparr>)
       (write_uint_le n v k (subarray_from (int off) (m_buffer m))))"

definition ExchangeFlags :: "message \<Rightarrow> int result" where
  "ExchangeFlags m = rbind (Payload m) (read_uint_le 1 0)"

definition ProtocolOpcode :: "message \<Rightarrow> int result" where
  "ProtocolOpcode m = rbind (Payload m) (read_uint_le 1 1)"

definition ExchangeId :: "message \<Rightarrow> int result" where
  "ExchangeId m = rbind (Payload m) (read_uint_le 2 2)"

definition ProtocolId :: "message \<Rightarrow> int result" where
  "ProtocolId m = rbind (Payload m) (read_uint_le 2 4)"

definition set_ExchangeFlags :: "int \<Rightarrow> message \<Rightarrow> message result" where
  "set_ExchangeFlags v m = write_payload 1 v 0 m"

definition set_ProtocolOpcode :: "int \<Rightarrow> message \<Rightarrow> message result" where
  "set_ProtocolOpcode v m = write_payload 1 v 1 m"

definition set_ExchangeId :: "int \<Rightarrow> message \<Rightarrow> message result" where
  "set_ExchangeId v m = write_payload 2 v 2 m"

definition set_ProtocolId :: "int \<Rightarrow> message \<Rightarrow> message result" where
  "set_ProtocolId v m = write_payload 2 v 4 m"

definition exchange_flag :: "int \<Rightarrow> message \<Rightarrow> bool result" where
  "exchange_flag bits m = rmap (\<lambda>f. f AND bits \<noteq> 0) (ExchangeFlags m)"

definition set_exchange_flag :: "int \<Rightarrow> bool \<Rightarrow> message \<Rightarrow> message result" where
  "set_exchange_flag bits v m = rbind (ExchangeFlags m) (\<lambda>f.
     if v then set_ExchangeFlags (f OR bits) m else set_ExchangeFlags (f AND NOT bits) m)"

definition Iflag :: "message \<Rightarrow> bool result" where "Iflag m = exchange_flag 0x01 m"
definition Aflag :: "message \<Rightarrow> bool result" where "Aflag m = exchange_flag 0x02 m"
definition Rflag :: "message \<Rightarrow> bool result" where "Rflag m = exchange_flag 0x04 m"
definition Sxflag :: "message \<Rightarrow> bool result" where "Sxflag m = exchange_flag 0x08 m"
definition Vflag :: "message \<Rightarrow> bool result" where "Vflag m = exchange_flag 0x10 m"

definition set_Iflag :: "bool \<Rightarrow> message \<Rightarrow> message result" where "set_Iflag v m = set_exchange_flag 0x01 v m"
definition set_Aflag :: "bool \<Rightarrow> message \<Rightarrow> message result" where "set_Aflag v m = set_exchange_flag 0x02 v m"
definition set_Rflag :: "bool \<Rightarrow> message \<Rightarrow> message result" where "set_Rflag v m = set_exchange_flag 0x04 v m"

definition set_AckCounter :: "int \<Rightarrow> message \<Rightarrow> message result" where
  "set_AckCounter v m = rbind (PayloadOffset m) (\<lambda>po.
     let offset = po + EXCHANGE_HEADER_MIN_SIZE
     in rbind (Aflag m) (\<lambda>a.
          if a then
            rmap (\<lambda>b. m\<lparr>m_buffer := b\<rparr>)
              (write_uint_le 4 v offset
                (subarray 0 (int offset) (m_buffer m) @ buf_alloc ACK_COUNTER_SIZE
                  @ subarray_from (int offset) (m_buffer m)))
          else Inr m))"

definition isUnencrypted :: "message \<Rightarrow> bool result" where
  "isUnencrypted m = rbind (SessionType m) (\<lambda>t.
     if t = 0 then rmap (\<lambda>i. i = SESSION_ID_UNSECURED) (SessionId m) else Inr False)"

definition isEncrypted :: "message \<Rightarrow> bool result" where
  "isEncrypted m = rmap Not (isUnencrypted m)"

definition AppPayload :: "message \<Rightarrow> buffer result" where
  "AppPayload m = rbind (Aflag m) (\<lambda>a. rbind (PayloadOffset m) (\<lambda>po.
     Inr (subarray_from (int (po + EXCHANGE_HEADER_MIN_SIZE + (if a then ACK_COUNTER_SIZE else 0))) (m_buffer m))))"

definition append_AppPayload :: "buffer \<Rightarrow> message \<Rightarrow> message" where
  "append_AppPayload v m = m\<lparr>m_buffer := m_buffer m @ v\<rparr>"

section \<open>Nonces, encryption and privacy\<close>

definition Nonce :: "message \<Rightarrow> buffer result" where
  "Nonce m = rbind (SourceNodeId m) (\<lambda>n.
     getNonce (m_buffer m) (if n = NODE_ID_ANY then 0 else n))"

text \<open>\<open>buf.fill(value, 2)\<close> repeats the value to the end; an empty value throws.\<close>

definition fill_from :: "nat \<Rightarrow> buffer \<Rightarrow> buffer \<Rightarrow> buffer result" where
  "fill_from off v b =
     (if v = [] then Inl TypeError
      else Inr (take off b @ map (\<lambda>i. v ! (i mod length v)) [0..<length b - off]))"

definition PrivacyNonce :: "message \<Rightarrow> buffer result" where
  "PrivacyNonce m = rbind (SessionId m) (\<lambda>sessionId. rbind (Mic m) (\<lambda>mic.
     let micFragment = subarray 5 16 mic
     in rbind (write_uint_be 2 sessionId 0 (buf_alloc 13)) (\<lambda>privacyNonce.
          fill_from 2 micFragment privacyNonce)))"

text \<open>
  \<open>encrypt\<close> and \<open>decrypt\<close> return the message after the call and the value returned
  (\<open>None\<close> for \<open>undefined\<close>).
\<close>

definition encrypt :: "aead \<Rightarrow> buffer \<Rightarrow> bool \<Rightarrow> message \<Rightarrow> (message \<times> buffer option) result" where
  "encrypt A key apply_it m = rbind (isUnencrypted m) (\<lambda>u.
     if u then Inr (m, None)
     else rbind (msg_encrypt A (m_buffer m) key) (\<lambda>buf.
       Inr (if apply_it then m\<lparr>m_encrypted := Some buf\<rparr> else m, Some buf)))"

definition decrypt :: "aead \<Rightarrow> buffer \<Rightarrow> bool \<Rightarrow> message \<Rightarrow> (message \<times> buffer option) result" where
  "decrypt A key apply_it m = rbind (isUnencrypted m) (\<lambda>u.
     if u then Inr (m, None)
     else (case m_encrypted m of
         None \<Rightarrow> Inl TypeError
       | Some e \<Rightarrow> rbind (msg_decrypt A e key) (\<lambda>dmsg.
           case dmsg of
             None \<Rightarrow> Inr (m, None)
           | Some d \<Rightarrow> Inr (if apply_it then m\<lparr>m_buffer := d\<rparr> else m, Some d))))"

text \<open>\<open>Crypto.PrivacyEncrypt\<close>: CCM without additional data, the tag thrown away.\<close>

definition PrivacyEncrypt :: "aead \<Rightarrow> buffer \<Rightarrow> buffer \<Rightarrow> buffer \<Rightarrow> buffer result" where
  "PrivacyEncrypt A symmetricKey plaintext nonce = rmap fst (ccm_encrypt A symmetricKey nonce [] plaintext)"

definition privacy_header :: "aead \<Rightarrow> buffer \<Rightarrow> message \<Rightarrow> buffer result" where
  "privacy_header A privacyKey m = rbind (PayloadOffset m) (\<lambda>offsetEnd.
     (case m_encrypted m of
        None \<Rightarrow> Inl TypeError
      | Some e \<Rightarrow>
          rbind (PrivacyNonce m) (\<lambda>nonce.
          rbind (PrivacyEncrypt A privacyKey
                   (subarray (int MESSAGE_HEADER_CLEARTEXT_SIZE) (int offsetEnd) e) nonce) (\<lambda>header.
            Inr (subarray 0 (int MESSAGE_HEADER_CLEARTEXT_SIZE) e @ header @ subarray_from (int offsetEnd) e)))))"

definition privacyEncrypt :: "aead \<Rightarrow> buffer \<Rightarrow> bool \<Rightarrow> message \<Rightarrow> (message \<times> buffer option) result" where
  "privacyEncrypt A privacyKey apply_it m = rbind (Pflag m) (\<lambda>p.
     if \<not> p then Inr (m, m_encrypted m)
     else rbind (privacy_header A privacyKey m) (\<lambda>privateMessage.
       Inr (if apply_it then m\<lparr>m_encrypted := Some privateMessage\<rparr> else m, Some privateMessage)))"

definition privacyDecrypt :: "aead \<Rightarrow> buffer \<Rightarrow> bool \<Rightarrow> message \<Rightarrow> (message \<times> buffer option) result" where
  "privacyDecrypt A privacyKey apply_it m = rbind (Pflag m) (\<lambda>p.
     if \<not> p then Inr (m, m_encrypted m)
     else rbind (privacy_header A privacyKey m) (\<lambda>plainMessage.
       Inr (if apply_it then m\<lparr>m_encrypted := Some plainMessage, m_buffer := plainMessage\<rparr> else m, Some plainMessage)))"

section \<open>Fields of a fixed place\<close>

text \<open>
  The contract of the four fixed header fields: a getter that reads \<open>n\<close> octets at
  \<open>off\<close> and a setter that writes them.
\<close>

locale buffer_field =
  fixes n off :: nat
    and get :: "message \<Rightarrow> int result"
    and put :: "int \<Rightarrow> message \<Rightarrow> message result"
  assumes get_read: "get m = read_uint_le n off (m_buffer m)"
    and put_write: "put v m = rmap (\<lambda>b. m\<lparr>m_buffer := b\<rparr>) (write_uint_le n v off (m_buffer m))"
begin

lemma get_put: "put v m = Inr m' \<Longrightarrow> get m' = Inr v"
  by (auto simp: put_write get_read intro: read_write_same)

lemma put_total: "0 \<le> v \<Longrightarrow> v < 256 ^ n \<Longrightarrow> off + n \<le> length (m_buffer m) \<Longrightarrow> \<exists>m'. put v m = Inr m'"
  by (simp add: put_write write_uint_le_ok)

lemma put_range: "put v m = Inr m' \<Longrightarrow> 0 \<le> v \<and> v < 256 ^ n"
  by (auto simp: put_write write_uint_le_Inr)

lemma put_keeps:
  "put v m = Inr m' \<Longrightarrow> length (m_buffer m') = length (m_buffer m) \<and>
   m_encrypted m' = m_encrypted m \<and> m_peerInfo m' = m_peerInfo m"
  by (auto simp: put_write dest: write_uint_le_length)

lemma put_frame:
  "put v m = Inr m' \<Longrightarrow> i + k \<le> off \<or> off + n \<le> i \<Longrightarrow>
   read_uint_le k i (m_buffer m') = read_uint_le k i (m_buffer m)"
  by (auto simp: put_write intro: read_write_other)

end

text \<open>Two fields that do not overlap: setting one is not seen by the other.\<close>

locale disjoint_fields =
  f: buffer_field n off getf putf + g: buffer_field n' off' getg putg
  for n off getf putf n' off' getg putg +
  assumes apart: "off + n \<le> off' \<or> off' + n' \<le> off"
begin

lemma putf_getg: "putf v m = Inr m' \<Longrightarrow> getg m' = getg m"
  using f.put_frame [of v m m' off' n'] apart by (auto simp: g.get_read)

lemma putg_getf: "putg v m = Inr m' \<Longrightarrow> getf m' = getf m"
  using g.put_frame [of v m m' off n] apart by (auto simp: f.get_read)

end

interpretation message_flags: buffer_field 1 0 MessageFlags set_MessageFlags
  by unfold_locales (simp_all add: MessageFlags_def set_MessageFlags_def)

interpretation session_id: buffer_field 2 1 SessionId set_SessionId
  by unfold_locales (simp_all add: SessionId_def set_SessionId_def)

interpretation security_flags: buffer_field 1 3 SecurityFlags set_SecurityFlags
  by unfold_locales (simp_all add: SecurityFlags_def set_SecurityFlags_def)

interpretation message_counter: buffer_field 4 4 MessageCounter set_MessageCounter
  by unfold_locales (simp_all add: MessageCounter_def set_MessageCounter_def)

interpretation flags_session: disjoint_fields 1 0 MessageFlags set_MessageFlags 2 1 SessionId set_SessionId
  by unfold_locales simp

interpretation flags_security: disjoint_fields 1 0 MessageFlags set_MessageFlags 1 3 SecurityFlags set_SecurityFlags
  by unfold_locales simp

interpretation flags_counter: disjoint_fields 1 0 MessageFlags set_MessageFlags 4 4 MessageCounter set_MessageCounter
  by unfold_locales simp

interpretation session_security: disjoint_fields 2 1 SessionId set_SessionId 1 3 SecurityFlags set_SecurityFlags
  by unfold_locales simp

interpretation session_counter: disjoint_fields 2 1 SessionId set_SessionId 4 4 MessageCounter set_MessageCounter
  by unfold_locales simp

interpretation security_counter: disjoint_fields 1 3 SecurityFlags set_SecurityFlags 4 4 MessageCounter set_MessageCounter
  by unfold_locales simp

text \<open>
  The header setters do not disturb each other: after setting the session id, the
  message and security flags and the message counter in any message long enough, all four
  getters return what was set.
\<close>

theorem header_fields_independent:
  assumes "8 \<le> length (m_buffer m)"
    and "0 \<le> f" "f < 2 ^ 8" "0 \<le> sid" "sid < 2 ^ 16" "0 \<le> sf" "sf < 2 ^ 8" "0 \<le> ctr" "ctr < 2 ^ 32"
  shows "\<exists>m'. rbind (set_MessageFlags f m) (\<lambda>m. rbind (set_SessionId sid m) (\<lambda>m.
      rbind (set_SecurityFlags sf m) (set_MessageCounter ctr))) = Inr m' \<and>
    MessageFlags m' = Inr f \<and> SessionId m' = Inr sid \<and> SecurityFlags m' = Inr sf \<and> MessageCounter m' = Inr ctr"
proof -
  obtain a where a: "set_MessageFlags f m = Inr a" using message_flags.put_total [of f m] assms by auto
  obtain b where b: "set_SessionId sid a = Inr b"
    using session_id.put_total [of sid a] message_flags.put_keeps [OF a] assms by auto
  obtain c where c: "set_SecurityFlags sf b = Inr c"
    using security_flags.put_total [of sf b] session_id.put_keeps [OF b] message_flags.put_keeps [OF a] assms by auto
  obtain d where d: "set_MessageCounter ctr c = Inr d"
    using message_counter.put_total [of ctr c] security_flags.put_keeps [OF c] session_id.put_keeps [OF b]
      message_flags.put_keeps [OF a] assms by auto
  show ?thesis
    using a b c d message_counter.get_put [OF d] security_flags.get_put [OF c] session_id.get_put [OF b]
      message_flags.get_put [OF a] flags_session.putg_getf [OF b] flags_security.putg_getf [OF c]
      flags_counter.putg_getf [OF d] session_security.putg_getf [OF c] session_counter.putg_getf [OF d]
      security_counter.putg_getf [OF d] by simp
qed

theorem header_fields_independent_witness:
  "\<exists>m'. rbind (set_MessageFlags 5 new_message) (\<lambda>m. rbind (set_SessionId 0x1234 m) (\<lambda>m.
      rbind (set_SecurityFlags 0x80 m) (set_MessageCounter 77))) = Inr m' \<and>
    MessageFlags m' = Inr 5 \<and> SessionId m' = Inr 0x1234 \<and> SecurityFlags m' = Inr 0x80 \<and> MessageCounter m' = Inr 77"
  by (rule header_fields_independent) (simp_all add: new_message_def new_message_of_def message_consts)

section \<open>The message as a record of its fields\<close>

text \<open>
  \<open>wire\<close> is the abstract message: header fields, node identifiers, exchange header and the
  rest. \<open>wire_bytes\<close> lays it out; on a message laid out so, getters read the record and
  setters update it.
\<close>

record wire =
  w_flags :: int
  w_sid :: int
  w_sec :: int
  w_ctr :: int
  w_ids :: buffer
  w_xflags :: int
  w_opcode :: int
  w_xid :: int
  w_pid :: int
  w_rest :: buffer

definition wire_bytes :: "wire \<Rightarrow> buffer" where
  "wire_bytes w = header_octets (w_flags w) (w_sec w) (w_sid w) (w_ctr w) @ w_ids w
     @ protocol_octets (w_xflags w) (w_xid w) (w_opcode w) (w_pid w) @ w_rest w"

definition id_size :: "int \<Rightarrow> nat" where
  "id_size f = (if f AND 0x04 \<noteq> 0 then 8 else 0) + (if f AND 0x03 = 1 then 8 else if f AND 0x03 = 2 then 2 else 0)"

definition wire_ranges :: "wire \<Rightarrow> bool" where
  "wire_ranges w \<longleftrightarrow>
     0 \<le> w_flags w \<and> w_flags w < 2 ^ 8 \<and> 0 \<le> w_sid w \<and> w_sid w < 2 ^ 16 \<and>
     0 \<le> w_sec w \<and> w_sec w < 2 ^ 8 \<and> 0 \<le> w_ctr w \<and> w_ctr w < 2 ^ 32 \<and>
     0 \<le> w_xflags w \<and> w_xflags w < 2 ^ 8 \<and> 0 \<le> w_opcode w \<and> w_opcode w < 2 ^ 8 \<and>
     0 \<le> w_xid w \<and> w_xid w < 2 ^ 16 \<and> 0 \<le> w_pid w \<and> w_pid w < 2 ^ 16"

definition wire_ok :: "wire \<Rightarrow> bool" where
  "wire_ok w \<longleftrightarrow> wire_ranges w \<and> length (w_ids w) = id_size (w_flags w)"

lemma read_field:
  "length a = off \<Longrightarrow> 0 \<le> v \<Longrightarrow> v < 256 ^ n \<Longrightarrow> read_uint_le n off (a @ le_bytes n v @ b) = Inr v"
  by (simp add: read_uint_le_def)

lemma write_field:
  "length a = off \<Longrightarrow> length x = n \<Longrightarrow> 0 \<le> v \<Longrightarrow> v < 256 ^ n \<Longrightarrow>
   write_uint_le n v off (a @ x @ b) = Inr (a @ le_bytes n v @ b)"
  by (simp add: write_uint_le_def splice_def)

definition on_wire :: "wire \<Rightarrow> message \<Rightarrow> message" where
  "on_wire w m = m\<lparr>m_buffer := wire_bytes w\<rparr>"

lemma on_wire_buffer [simp]: "m_buffer (on_wire w m) = wire_bytes w"
  and on_wire_update [simp]: "(on_wire w m)\<lparr>m_buffer := wire_bytes w'\<rparr> = on_wire w' m"
  and on_wire_other [simp]: "m_encrypted (on_wire w m) = m_encrypted m" "m_peerInfo (on_wire w m) = m_peerInfo m"
    "m_hasSource (on_wire w m) = m_hasSource m" "m_hasDestination (on_wire w m) = m_hasDestination m"
  by (simp_all add: on_wire_def)

lemma wire_get:
  assumes "wire_ranges w"
  shows "MessageFlags (on_wire w m) = Inr (w_flags w)"
    and "SessionId (on_wire w m) = Inr (w_sid w)"
    and "SecurityFlags (on_wire w m) = Inr (w_sec w)"
    and "MessageCounter (on_wire w m) = Inr (w_ctr w)"
proof -
  let ?f = "le_bytes 1 (w_flags w)" and ?i = "le_bytes 2 (w_sid w)" and ?s = "le_bytes 1 (w_sec w)"
    and ?c = "le_bytes 4 (w_ctr w)"
  let ?r = "w_ids w @ protocol_octets (w_xflags w) (w_xid w) (w_opcode w) (w_pid w) @ w_rest w"
  note wire = wire_bytes_def header_octets_def wire_ranges_def
  show "MessageFlags (on_wire w m) = Inr (w_flags w)"
    using assms read_field [of "[]" 0 "w_flags w" 1 "?i @ ?s @ ?c @ ?r"]
    by (simp add: MessageFlags_def wire del: le_bytes.simps)
  show "SessionId (on_wire w m) = Inr (w_sid w)"
    using assms read_field [of ?f 1 "w_sid w" 2 "?s @ ?c @ ?r"]
    by (simp add: SessionId_def wire del: le_bytes.simps)
  show "SecurityFlags (on_wire w m) = Inr (w_sec w)"
    using assms read_field [of "?f @ ?i" 3 "w_sec w" 1 "?c @ ?r"]
    by (simp add: SecurityFlags_def wire del: le_bytes.simps)
  show "MessageCounter (on_wire w m) = Inr (w_ctr w)"
    using assms read_field [of "?f @ ?i @ ?s" 4 "w_ctr w" 4 ?r]
    by (simp add: MessageCounter_def wire del: le_bytes.simps)
qed

lemma wire_put:
  shows "0 \<le> v \<Longrightarrow> v < 2 ^ 8 \<Longrightarrow> set_MessageFlags v (on_wire w m) = Inr (on_wire (w\<lparr>w_flags := v\<rparr>) m)"
    and "0 \<le> v \<Longrightarrow> v < 2 ^ 16 \<Longrightarrow> set_SessionId v (on_wire w m) = Inr (on_wire (w\<lparr>w_sid := v\<rparr>) m)"
    and "0 \<le> v \<Longrightarrow> v < 2 ^ 8 \<Longrightarrow> set_SecurityFlags v (on_wire w m) = Inr (on_wire (w\<lparr>w_sec := v\<rparr>) m)"
    and "0 \<le> v \<Longrightarrow> v < 2 ^ 32 \<Longrightarrow> set_MessageCounter v (on_wire w m) = Inr (on_wire (w\<lparr>w_ctr := v\<rparr>) m)"
proof -
  let ?f = "le_bytes 1 (w_flags w)" and ?i = "le_bytes 2 (w_sid w)" and ?s = "le_bytes 1 (w_sec w)"
    and ?c = "le_bytes 4 (w_ctr w)"
  let ?r = "w_ids w @ protocol_octets (w_xflags w) (w_xid w) (w_opcode w) (w_pid w) @ w_rest w"
  note wire = wire_bytes_def header_octets_def on_wire_def
  show "set_MessageFlags v (on_wire w m) = Inr (on_wire (w\<lparr>w_flags := v\<rparr>) m)" if "0 \<le> v" "v < 2 ^ 8"
    using that write_field [of "[]" 0 ?f 1 v "?i @ ?s @ ?c @ ?r"]
    by (simp add: set_MessageFlags_def wire del: le_bytes.simps)
  show "set_SessionId v (on_wire w m) = Inr (on_wire (w\<lparr>w_sid := v\<rparr>) m)" if "0 \<le> v" "v < 2 ^ 16"
    using that write_field [of ?f 1 ?i 2 v "?s @ ?c @ ?r"]
    by (simp add: set_SessionId_def wire del: le_bytes.simps)
  show "set_SecurityFlags v (on_wire w m) = Inr (on_wire (w\<lparr>w_sec := v\<rparr>) m)" if "0 \<le> v" "v < 2 ^ 8"
    using that write_field [of "?f @ ?i" 3 ?s 1 v "?c @ ?r"]
    by (simp add: set_SecurityFlags_def wire del: le_bytes.simps)
  show "set_MessageCounter v (on_wire w m) = Inr (on_wire (w\<lparr>w_ctr := v\<rparr>) m)" if "0 \<le> v" "v < 2 ^ 32"
    using that write_field [of "?f @ ?i @ ?s" 4 ?c 4 v ?r]
    by (simp add: set_MessageCounter_def wire del: le_bytes.simps)
qed

lemma wire_flags:
  assumes "wire_ranges w"
  shows "Sflag (on_wire w m) = Inr (w_flags w AND 0x04 \<noteq> 0)"
    and "Dsiz (on_wire w m) = Inr (w_flags w AND 0x03)"
    and "PayloadOffset (on_wire w m) = Inr (8 + id_size (w_flags w))"
    and "SessionType (on_wire w m) = Inr (w_sec w AND 0x03)"
    and "Pflag (on_wire w m) = Inr (w_sec w AND 0x80 \<noteq> 0)"
  using wire_get [OF assms, of m]
  by (simp_all add: Sflag_def Dsiz_def PayloadOffset_def SessionType_def Pflag_def id_size_def message_consts)

lemma wire_ok_ranges: "wire_ok w \<Longrightarrow> wire_ranges w"
  by (simp add: wire_ok_def)

lemma wire_payload:
  assumes "wire_ok w"
  shows "Payload (on_wire w m) = Inr (protocol_octets (w_xflags w) (w_xid w) (w_opcode w) (w_pid w) @ w_rest w)"
    and "take (8 + id_size (w_flags w)) (wire_bytes w) = header_octets (w_flags w) (w_sec w) (w_sid w) (w_ctr w) @ w_ids w"
  using assms wire_flags [OF wire_ok_ranges [OF assms], of m] subarray_from_nat [of "8 + id_size (w_flags w)" "wire_bytes w"]
  by (simp_all add: Payload_def wire_bytes_def wire_ok_def)

lemma wire_exchange_get:
  assumes "wire_ok w"
  shows "ExchangeFlags (on_wire w m) = Inr (w_xflags w)"
    and "ProtocolOpcode (on_wire w m) = Inr (w_opcode w)"
    and "ExchangeId (on_wire w m) = Inr (w_xid w)"
    and "ProtocolId (on_wire w m) = Inr (w_pid w)"
proof -
  let ?f = "le_bytes 1 (w_xflags w)" and ?o = "le_bytes 1 (w_opcode w)" and ?x = "le_bytes 2 (w_xid w)"
    and ?p = "le_bytes 2 (w_pid w)"
  note r = wire_ok_ranges [OF assms, unfolded wire_ranges_def]
  note p = wire_payload(1) [OF assms, of m]
  show "ExchangeFlags (on_wire w m) = Inr (w_xflags w)"
    using r p read_field [of "[]" 0 "w_xflags w" 1 "?o @ ?x @ ?p @ w_rest w"]
    by (simp add: ExchangeFlags_def protocol_octets_def del: le_bytes.simps)
  show "ProtocolOpcode (on_wire w m) = Inr (w_opcode w)"
    using r p read_field [of ?f 1 "w_opcode w" 1 "?x @ ?p @ w_rest w"]
    by (simp add: ProtocolOpcode_def protocol_octets_def del: le_bytes.simps)
  show "ExchangeId (on_wire w m) = Inr (w_xid w)"
    using r p read_field [of "?f @ ?o" 2 "w_xid w" 2 "?p @ w_rest w"]
    by (simp add: ExchangeId_def protocol_octets_def del: le_bytes.simps)
  show "ProtocolId (on_wire w m) = Inr (w_pid w)"
    using r p read_field [of "?f @ ?o @ ?x" 4 "w_pid w" 2 "w_rest w"]
    by (simp add: ProtocolId_def protocol_octets_def del: le_bytes.simps)
qed

lemma write_payload_wire:
  assumes "wire_ok w"
    and "write_uint_le n v k (protocol_octets (w_xflags w) (w_xid w) (w_opcode w) (w_pid w) @ w_rest w) = Inr p"
  shows "write_payload n v k (on_wire w m) = Inr (m\<lparr>m_buffer := header_octets (w_flags w) (w_sec w) (w_sid w) (w_ctr w) @ w_ids w @ p\<rparr>)"
  using assms(2) wire_flags(3) [OF wire_ok_ranges [OF assms(1)], of m] wire_payload(1) [OF assms(1), of m] wire_payload(2) [OF assms(1)]
  by (simp add: write_payload_def Payload_def on_wire_def)

lemma wire_exchange_put:
  assumes "wire_ok w"
  shows "0 \<le> v \<Longrightarrow> v < 2 ^ 8 \<Longrightarrow> set_ExchangeFlags v (on_wire w m) = Inr (on_wire (w\<lparr>w_xflags := v\<rparr>) m)"
    and "0 \<le> v \<Longrightarrow> v < 2 ^ 8 \<Longrightarrow> set_ProtocolOpcode v (on_wire w m) = Inr (on_wire (w\<lparr>w_opcode := v\<rparr>) m)"
    and "0 \<le> v \<Longrightarrow> v < 2 ^ 16 \<Longrightarrow> set_ExchangeId v (on_wire w m) = Inr (on_wire (w\<lparr>w_xid := v\<rparr>) m)"
    and "0 \<le> v \<Longrightarrow> v < 2 ^ 16 \<Longrightarrow> set_ProtocolId v (on_wire w m) = Inr (on_wire (w\<lparr>w_pid := v\<rparr>) m)"
proof -
  let ?f = "le_bytes 1 (w_xflags w)" and ?o = "le_bytes 1 (w_opcode w)" and ?x = "le_bytes 2 (w_xid w)"
    and ?p = "le_bytes 2 (w_pid w)"
  note w = write_payload_wire [OF assms, where m = m]
  note wire = on_wire_def wire_bytes_def protocol_octets_def
  show "set_ExchangeFlags v (on_wire w m) = Inr (on_wire (w\<lparr>w_xflags := v\<rparr>) m)" if "0 \<le> v" "v < 2 ^ 8"
    using that w [where n = 1 and v = v and k = 0] write_field [of "[]" 0 ?f 1 v "?o @ ?x @ ?p @ w_rest w"]
    by (simp add: set_ExchangeFlags_def wire del: le_bytes.simps)
  show "set_ProtocolOpcode v (on_wire w m) = Inr (on_wire (w\<lparr>w_opcode := v\<rparr>) m)" if "0 \<le> v" "v < 2 ^ 8"
    using that w [where n = 1 and v = v and k = 1] write_field [of ?f 1 ?o 1 v "?x @ ?p @ w_rest w"]
    by (simp add: set_ProtocolOpcode_def wire del: le_bytes.simps)
  show "set_ExchangeId v (on_wire w m) = Inr (on_wire (w\<lparr>w_xid := v\<rparr>) m)" if "0 \<le> v" "v < 2 ^ 16"
    using that w [where n = 2 and v = v and k = 2] write_field [of "?f @ ?o" 2 ?x 2 v "?p @ w_rest w"]
    by (simp add: set_ExchangeId_def wire numeral_2_eq_2 [symmetric] del: le_bytes.simps)
  show "set_ProtocolId v (on_wire w m) = Inr (on_wire (w\<lparr>w_pid := v\<rparr>) m)" if "0 \<le> v" "v < 2 ^ 16"
    using that w [where n = 2 and v = v and k = 4] write_field [of "?f @ ?o @ ?x" 4 ?p 2 v "w_rest w"]
    by (simp add: set_ProtocolId_def wire numeral_2_eq_2 [symmetric] del: le_bytes.simps)
qed

lemma octet_or: "0 \<le> a \<Longrightarrow> a < 2 ^ 8 \<Longrightarrow> 0 \<le> b \<Longrightarrow> b < 2 ^ 8 \<Longrightarrow> 0 \<le> a OR b \<and> a OR b < (2 ^ 8 :: int)"
  using OR_upper [of a 8 b] by simp

lemma octet_and: "0 \<le> a \<Longrightarrow> a < 2 ^ 8 \<Longrightarrow> 0 \<le> a AND b \<and> a AND b < (2 ^ 8 :: int)"
  using AND_upper1 [of a b] by simp

lemma wire_exchange_flag:
  assumes "wire_ok w"
  shows "exchange_flag k (on_wire w m) = Inr (w_xflags w AND k \<noteq> 0)"
    and "Iflag (on_wire w m) = Inr (w_xflags w AND 0x01 \<noteq> 0)"
    and "Aflag (on_wire w m) = Inr (w_xflags w AND 0x02 \<noteq> 0)"
    and "Rflag (on_wire w m) = Inr (w_xflags w AND 0x04 \<noteq> 0)"
  using wire_exchange_get(1) [OF assms, of m]
  by (simp_all add: exchange_flag_def Iflag_def Aflag_def Rflag_def)

lemma wire_set_exchange_flag:
  assumes "wire_ok w" and "0 \<le> k" and "k < 2 ^ 8"
  shows "set_exchange_flag k v (on_wire w m) =
    Inr (on_wire (w\<lparr>w_xflags := if v then w_xflags w OR k else w_xflags w AND NOT k\<rparr>) m)"
proof -
  have "0 \<le> w_xflags w" "w_xflags w < 2 ^ 8" using assms(1) by (simp_all add: wire_ok_def wire_ranges_def)
  then show ?thesis
    using wire_exchange_get(1) [OF assms(1), of m] wire_exchange_put(1) [OF assms(1)] octet_or [of "w_xflags w" k]
      octet_and [of "w_xflags w" "NOT k"] assms(2,3)
    by (simp add: set_exchange_flag_def)
qed

lemma wire_AppPayload:
  assumes "wire_ok w"
  shows "AppPayload (on_wire w m) = Inr (drop (if w_xflags w AND 0x02 \<noteq> 0 then 4 else 0) (w_rest w))"
  using assms wire_exchange_flag(3) [OF assms, of m] wire_flags(3) [OF wire_ok_ranges [OF assms], of m]
    subarray_from_nat [of "18 + id_size (w_flags w)" "wire_bytes w"]
    subarray_from_nat [of "14 + id_size (w_flags w)" "wire_bytes w"]
  by (auto simp: AppPayload_def message_consts wire_bytes_def wire_ok_def)

lemma wire_AckCounter:
  assumes "wire_ok w" and "0 \<le> v" and "v < 2 ^ 32"
  shows "set_AckCounter v (on_wire w m) =
    Inr (on_wire (if w_xflags w AND 0x02 \<noteq> 0 then w\<lparr>w_rest := le_bytes 4 v @ w_rest w\<rparr> else w) m)"
proof -
  let ?h = "header_octets (w_flags w) (w_sec w) (w_sid w) (w_ctr w) @ w_ids w
     @ protocol_octets (w_xflags w) (w_xid w) (w_opcode w) (w_pid w)"
  have len: "length ?h = 14 + id_size (w_flags w)" using assms(1) by (simp add: wire_ok_def)
  have t: "subarray 0 (int (14 + id_size (w_flags w))) (wire_bytes w) = ?h"
    and d: "subarray_from (int (14 + id_size (w_flags w))) (wire_bytes w) = w_rest w"
    using len by (simp_all add: subarray_0 subarray_from_nat wire_bytes_def del: of_nat_add)
  have wr: "write_uint_le 4 v (14 + id_size (w_flags w)) (?h @ buf_alloc 4 @ w_rest w) = Inr (?h @ le_bytes 4 v @ w_rest w)"
    using assms(2,3) len write_field [of ?h _ "buf_alloc 4"] by simp
  have o: "8 + id_size (w_flags w) + 6 = 14 + id_size (w_flags w)" by simp
  show ?thesis
    using wire_exchange_flag(3) [OF assms(1), of m] wire_flags(3) [OF wire_ok_ranges [OF assms(1)], of m] wr
    by (simp only: set_AckCounter_def message_consts Let_def rbind_simps o t d on_wire_buffer if_split)
      (auto simp: on_wire_def wire_bytes_def)
qed

lemma wire_isUnencrypted:
  "wire_ranges w \<Longrightarrow> isUnencrypted (on_wire w m) = Inr (w_sec w AND 0x03 = 0 \<and> w_sid w = 0)"
  by (simp add: isUnencrypted_def wire_flags wire_get message_consts)

lemma wire_SourceNodeId:
  assumes "wire_ok w" and "w_flags w AND 0x04 \<noteq> 0" and "0 \<le> src" and "src < 2 ^ 64" and "w_ids w = le_bytes 8 src @ dst"
  shows "SourceNodeId (on_wire w m) = Inr src"
  using assms wire_flags(1) [OF wire_ok_ranges [OF assms(1)], of m]
    read_field [of "header_octets (w_flags w) (w_sec w) (w_sid w) (w_ctr w)" 8 src 8
      "dst @ protocol_octets (w_xflags w) (w_xid w) (w_opcode w) (w_pid w) @ w_rest w"]
  by (simp add: SourceNodeId_def message_consts wire_bytes_def)

lemma wire_DestinationNodeId:
  assumes "wire_ok w" and "w_flags w AND 0x03 = 1" and "0 \<le> dst" and "dst < 2 ^ 64" and "w_ids w = src @ le_bytes 8 dst"
  shows "DestinationNodeId (on_wire w m) = Inr dst"
proof -
  have "length src = (if w_flags w AND 0x04 \<noteq> 0 then 8 else 0)"
    using assms(1,2,5) by (simp add: wire_ok_def id_size_def split: if_splits)
  then show ?thesis
    using assms wire_flags(1,2) [OF wire_ok_ranges [OF assms(1)], of m]
      read_field [of "header_octets (w_flags w) (w_sec w) (w_sid w) (w_ctr w) @ src" "8 + length src" dst 8
        "protocol_octets (w_xflags w) (w_xid w) (w_opcode w) (w_pid w) @ w_rest w"]
    by (simp add: DestinationNodeId_def message_consts wire_bytes_def split: if_splits)
qed

lemma wire_no_ids:
  "wire_ranges w \<Longrightarrow> w_flags w AND 0x04 = 0 \<Longrightarrow> SourceNodeId (on_wire w m) = Inr NODE_ID_ANY"
  "wire_ranges w \<Longrightarrow> w_flags w AND 0x03 \<noteq> 1 \<Longrightarrow> DestinationNodeId (on_wire w m) = Inr NODE_ID_ANY"
  by (simp_all add: SourceNodeId_def DestinationNodeId_def wire_flags)

section \<open>Properties of messages\<close>

definition message_buffer ::
  "int \<Rightarrow> int \<Rightarrow> int \<Rightarrow> int \<Rightarrow> int option \<Rightarrow> int option \<Rightarrow> int \<Rightarrow> int \<Rightarrow> int \<Rightarrow> int \<Rightarrow> int option \<Rightarrow>
   int option \<Rightarrow> buffer \<Rightarrow> buffer result" where
  "message_buffer f sf sid ctr src dst xf xid opc pid vid ack pay =
     rbind (encodeHeader f sf sid ctr src dst) (\<lambda>h.
     rbind (encodeProtocolHeader xf xid opc pid vid ack) (\<lambda>p. Inr (h @ p @ pay)))"

text \<open>
  What \<open>AppPayload\<close> returns in front of the payload: it skips the acknowledged counter and not the vendor
  id, which is written before it.
\<close>

fun unskipped :: "int option \<Rightarrow> int option \<Rightarrow> buffer" where
  "unskipped None _ = []"
| "unskipped (Some vid) None = le_bytes 2 vid"
| "unskipped (Some vid) (Some ack) = drop 2 (le_bytes 4 ack)"

lemma message_buffer_wire:
  assumes "wire_ok w" and "w_xflags w AND 0x02 \<noteq> 0 \<longleftrightarrow> ack \<noteq> None" and "opt_in_range 4 ack"
    and "opt_in_range 8 src" and "opt_in_range 8 dst" and "w_ids w = opt_field 8 src @ opt_field 8 dst"
    and "w_flags w AND 0x04 \<noteq> 0 \<longleftrightarrow> src \<noteq> None" and "w_flags w AND 0x03 = (if dst = None then 0 else 1)"
    and "w_rest w = opt_field 2 vid @ opt_field 4 ack @ pay" and "opt_in_range 2 vid"
  shows "message_buffer (w_flags w) (w_sec w) (w_sid w) (w_ctr w) src dst (w_xflags w) (w_xid w) (w_opcode w)
    (w_pid w) vid ack pay = Inr (wire_bytes w)"
proof -
  have "w_flags w AND 1 = (w_flags w AND 3) AND 1" by (simp add: and.assoc)
  then have "w_flags w AND 1 \<noteq> 0 \<longleftrightarrow> dst \<noteq> None" using assms(8) by simp
  then have h: "encodeHeader (w_flags w) (w_sec w) (w_sid w) (w_ctr w) src dst =
      Inr (header_octets (w_flags w) (w_sec w) (w_sid w) (w_ctr w) @ opt_field 8 src @ opt_field 8 dst)"
    using assms by (intro encodeHeader_ok) (simp_all add: wire_ok_def wire_ranges_def)
  have p: "encodeProtocolHeader (w_xflags w) (w_xid w) (w_opcode w) (w_pid w) vid ack =
      Inr (protocol_octets (w_xflags w) (w_xid w) (w_opcode w) (w_pid w) @ opt_field 2 vid @ opt_field 4 ack)"
    using assms by (intro encodeProtocolHeader_ok) (simp_all add: wire_ok_def wire_ranges_def)
  show ?thesis
    using assms by (simp add: message_buffer_def h p wire_bytes_def)
qed

text \<open>
  (C36) Round trip of headers: a datagram built by \<open>encodeHeader\<close> and
  \<open>encodeProtocolHeader\<close>, with flags that announce the node ids and the acknowledged counter given,
  is parsed by the accessors of \<open>Message\<close> into exactly those fields. \<open>AppPayload\<close> is the payload
  if no vendor id is given; with a vendor id it begins two octets early: with the vendor id, or, behind
  an acknowledged counter, with the last two octets of that.
\<close>

theorem message_header_roundtrip:
  assumes "0 \<le> f" "f < 2 ^ 8" "0 \<le> sf" "sf < 2 ^ 8" "0 \<le> sid" "sid < 2 ^ 16" "0 \<le> ctr" "ctr < 2 ^ 32"
    and "0 \<le> xf" "xf < 2 ^ 8" "0 \<le> opc" "opc < 2 ^ 8" "0 \<le> xid" "xid < 2 ^ 16" "0 \<le> pid" "pid < 2 ^ 16"
    and "opt_in_range 8 src" and "opt_in_range 8 dst" and "opt_in_range 2 vid" and "opt_in_range 4 ack"
    and "f AND 0x04 \<noteq> 0 \<longleftrightarrow> src \<noteq> None" and "f AND 0x03 = (if dst = None then 0 else 1)"
    and "xf AND 0x02 \<noteq> 0 \<longleftrightarrow> ack \<noteq> None"
  shows "\<exists>buf. message_buffer f sf sid ctr src dst xf xid opc pid vid ack pay = Inr buf \<and>
    (let m = new_message_of buf None peer
     in MessageFlags m = Inr f \<and> SecurityFlags m = Inr sf \<and> SessionId m = Inr sid \<and> MessageCounter m = Inr ctr \<and>
        SourceNodeId m = Inr (case src of None \<Rightarrow> NODE_ID_ANY | Some s \<Rightarrow> s) \<and>
        DestinationNodeId m = Inr (case dst of None \<Rightarrow> NODE_ID_ANY | Some d \<Rightarrow> d) \<and>
        ExchangeFlags m = Inr xf \<and> ExchangeId m = Inr xid \<and> ProtocolOpcode m = Inr opc \<and> ProtocolId m = Inr pid \<and>
        AppPayload m = Inr (unskipped vid ack @ pay))"
proof -
  let ?w = "\<lparr>w_flags = f, w_sid = sid, w_sec = sf, w_ctr = ctr, w_ids = opt_field 8 src @ opt_field 8 dst,
    w_xflags = xf, w_opcode = opc, w_xid = xid, w_pid = pid,
    w_rest = opt_field 2 vid @ opt_field 4 ack @ pay\<rparr>"
  have ok: "wire_ok ?w"
    using assms by (auto simp: wire_ok_def wire_ranges_def id_size_def opt_field_def split: option.splits)
  have buf: "message_buffer f sf sid ctr src dst xf xid opc pid vid ack pay = Inr (wire_bytes ?w)"
    using message_buffer_wire [OF ok, of ack src dst vid pay] assms by simp
  have m: "new_message_of (wire_bytes ?w) None peer = on_wire ?w (new_message_of [] None peer)"
    by (simp add: on_wire_def new_message_of_def)
  have s: "SourceNodeId (on_wire ?w n) = Inr (case src of None \<Rightarrow> NODE_ID_ANY | Some s \<Rightarrow> s)" for n
    using wire_SourceNodeId [OF ok, of "the src" "opt_field 8 dst" n] assms wire_no_ids(1) [OF wire_ok_ranges [OF ok], of n]
    by (cases src) (simp_all add: opt_in_range_def opt_field_def)
  have d: "DestinationNodeId (on_wire ?w n) = Inr (case dst of None \<Rightarrow> NODE_ID_ANY | Some s \<Rightarrow> s)" for n
    using wire_DestinationNodeId [OF ok, of "the dst" "opt_field 8 src" n] assms wire_no_ids(2) [OF wire_ok_ranges [OF ok], of n]
    by (cases dst) (simp_all add: opt_in_range_def opt_field_def)
  have a: "AppPayload (on_wire ?w n) = Inr (unskipped vid ack @ pay)" for n
    using wire_AppPayload [OF ok, of n] assms by (cases vid; cases ack) (simp_all add: opt_field_def)
  show ?thesis
    using buf wire_get [OF wire_ok_ranges [OF ok]] wire_exchange_get [OF ok] s d a
    by (auto simp: m Let_def)
qed

theorem message_header_roundtrip_witness:
  "\<exists>buf. message_buffer 4 0 0 9 (Some 0x1122334455667788) None 0x17 0x10 0x20 0 (Some 0xFFF1) (Some 0x01020304) [0x15, 0x18] = Inr buf \<and>
    (let m = new_message_of buf None None
     in MessageFlags m = Inr 4 \<and> SecurityFlags m = Inr 0 \<and> SessionId m = Inr 0 \<and> MessageCounter m = Inr 9 \<and>
        SourceNodeId m = Inr (case Some 0x1122334455667788 of None \<Rightarrow> NODE_ID_ANY | Some s \<Rightarrow> s) \<and>
        DestinationNodeId m = Inr (case None of None \<Rightarrow> NODE_ID_ANY | Some d \<Rightarrow> d) \<and>
        ExchangeFlags m = Inr 0x17 \<and> ExchangeId m = Inr 0x10 \<and> ProtocolOpcode m = Inr 0x20 \<and> ProtocolId m = Inr 0 \<and>
        AppPayload m = Inr [0x02, 0x01, 0x15, 0x18])"
proof -
  have "unskipped (Some 0xFFF1) (Some 0x01020304) @ [0x15, 0x18] = [0x02, 0x01, 0x15, 0x18]" by code_simp
  then show ?thesis
    using message_header_roundtrip [where f = 4 and sf = 0 and sid = 0 and ctr = 9 and xf = "0x17" and opc = "0x20" and xid = "0x10" and pid = 0 and dst = None and
      src = "Some 0x1122334455667788" and vid = "Some 0xFFF1" and ack = "Some 0x01020304" and pay = "[0x15, 0x18]" and peer = None]
    by (simp add: opt_in_range_def)
qed

text \<open>
  The setters of \<open>Sflag\<close> and \<open>Dsiz\<close> erase each other, and neither can clear its
  own bits: setting the source flag makes the destination size zero whatever it was, and
  "setting" it to \<open>Omit\<close> leaves a flag that is set.
\<close>

theorem set_Sflag_effect:
  assumes "MessageFlags m = Inr f"
  shows "\<exists>m'. set_Sflag v m = Inr m' \<and> MessageFlags m' = Inr ((f OR v) AND 0x04) \<and> Dsiz m' = Inr 0"
proof -
  have f: "0 \<le> f" "f < 2 ^ 8" and len: "1 \<le> length (m_buffer m)"
    using assms read_uint_le_bounds [of 1 0 "m_buffer m" f]
    by (auto simp: MessageFlags_def read_uint_le_def split: if_splits)
  have r1: "0 \<le> f AND 4" "f AND 4 < 256" using octet_and [of f 4] f by simp_all
  have r2: "0 \<le> f AND 4 OR v AND 4" "f AND 4 OR v AND 4 < 256"
    using octet_or [of "f AND 4" "v AND 4"] r1 AND_upper2 [of 4 v] by simp_all
  obtain a where a: "set_MessageFlags (f AND 4) m = Inr a"
    using message_flags.put_total [of "f AND 4" m] r1 len by auto
  obtain b where b: "set_MessageFlags (f AND 4 OR v AND 4) a = Inr b"
    using message_flags.put_total [of "f AND 4 OR v AND 4" a] r2 len message_flags.put_keeps [OF a] by auto
  have eq: "f AND 4 OR v AND 4 = (f OR v) AND 4" by (simp add: bit.conj_disj_distrib2)
  then have "MessageFlags b = Inr ((f OR v) AND 4)" using message_flags.get_put [OF b] by simp
  then show ?thesis
    using assms a b eq message_flags.get_put [OF a] by (simp add: set_Sflag_def Dsiz_def and.assoc)
qed

theorem set_Sflag_effect_witness:
  "\<exists>m'. set_Sflag 0 (new_message_of [0x05] None None) = Inr m' \<and>
     MessageFlags m' = Inr ((5 OR 0) AND 0x04) \<and> Dsiz m' = Inr 0"
  by (rule set_Sflag_effect) (simp add: MessageFlags_def new_message_of_def read_uint_le_def)

section \<open>Header privacy\<close>

text \<open>CCM encrypts with a key stream that depends on key and nonce only.\<close>

definition ccm_stream :: "aead \<Rightarrow> bool" where
  "ccm_stream A \<longleftrightarrow> (\<forall>key nonce p c t. ccm_encrypt A key nonce [] p = Inr (c, t) \<longrightarrow>
     length c = length p \<and> (\<exists>t'. ccm_encrypt A key nonce [] c = Inr (p, t')))"

lemma PrivacyEncrypt_involution:
  "ccm_stream A \<Longrightarrow> PrivacyEncrypt A key p nonce = Inr c \<Longrightarrow>
   length c = length p \<and> PrivacyEncrypt A key c nonce = Inr p"
  unfolding PrivacyEncrypt_def ccm_stream_def by fastforce

lemma read_take: "off + n \<le> k \<Longrightarrow> k \<le> length b \<Longrightarrow> read_uint_le n off (take k b) = read_uint_le n off b"
  by (simp add: read_uint_le_def drop_take min_def)

text \<open>The flags, the session id and the payload offset depend on the first four octets.\<close>

lemma clear_header:
  assumes "take 4 (m_buffer a) = take 4 (m_buffer b)" and "4 \<le> length (m_buffer a)" and "4 \<le> length (m_buffer b)"
  shows "MessageFlags a = MessageFlags b" and "SessionId a = SessionId b" and "Pflag a = Pflag b"
    and "PayloadOffset a = PayloadOffset b" and "isUnencrypted a = isUnencrypted b"
proof -
  have r: "read_uint_le n off (m_buffer a) = read_uint_le n off (m_buffer b)" if "off + n \<le> 4" for off n
    using read_take [OF that assms(2)] read_take [OF that assms(3)] assms(1) by simp
  have m: "MessageFlags a = MessageFlags b" and i: "SessionId a = SessionId b" and f: "SecurityFlags a = SecurityFlags b"
    using r [of 0 1] r [of 1 2] r [of 3 1] by (simp_all add: MessageFlags_def SessionId_def SecurityFlags_def)
  show "MessageFlags a = MessageFlags b" "SessionId a = SessionId b" by (fact m) (fact i)
  show "Pflag a = Pflag b" "PayloadOffset a = PayloadOffset b" "isUnencrypted a = isUnencrypted b"
    using m i f by (simp_all only: Pflag_def PayloadOffset_def Sflag_def Dsiz_def isUnencrypted_def SessionType_def)
qed

lemma Mic_suffix:
  "m_encrypted m = Some (h @ t) \<Longrightarrow> length t = 16 \<Longrightarrow> Mic m = Inr t"
  using subarray_nat [of "length h" "length h + 16" "h @ t"] by (simp add: Mic_def message_consts)

lemma privacy_header_split:
  assumes "m_encrypted m = Some (c @ h @ b @ t)" and "length c = 4" and "length t = 16"
    and "PayloadOffset m = Inr (4 + length h)" and "PrivacyNonce m = Inr nonce"
  shows "privacy_header A key m = rmap (\<lambda>h'. c @ h' @ b @ t) (PrivacyEncrypt A key h nonce)"
proof -
  have "subarray 4 (int (4 + length h)) (c @ h @ b @ t) = h"
    using subarray_nat [of 4 "4 + length h" "c @ h @ b @ t"] assms(2) by simp
  moreover have "subarray 0 4 (c @ h @ b @ t) = c" using subarray_0 [of 4 "c @ h @ b @ t"] assms(2) by simp
  moreover have "subarray_from (int (4 + length h)) (c @ h @ b @ t) = b @ t"
    using assms(2) by (simp only: subarray_from_nat) simp
  ultimately show ?thesis
    using assms by (cases "PrivacyEncrypt A key h nonce") (simp_all add: privacy_header_def message_consts)
qed

text \<open>
  (C37) Header privacy round trip: a receiver that holds only the obfuscated message and the
  privacy key recovers the encrypted message that \<open>privacyEncrypt\<close> was applied to, header
  included.
\<close>

theorem privacy_roundtrip:
  assumes "ccm_stream A" and "m_encrypted m = Some e" and "take 4 (m_buffer m) = take 4 e" and "4 \<le> length (m_buffer m)"
    and "Pflag m = Inr True" and "PayloadOffset m = Inr off" and "off + 16 \<le> length e"
    and "privacyEncrypt A key True m = Inr (m', Some e')"
  shows "\<exists>r. privacyDecrypt A key True (new_message_of e' (Some e') peer) = Inr (r, Some e) \<and>
    m_encrypted r = Some e \<and> m_buffer r = e"
proof -
  have off: "4 \<le> off" using assms(6) by (auto simp: PayloadOffset_def message_consts)
  define c h b t where "c = take 4 e" and "h = take (off - 4) (drop 4 e)"
    and "b = take (length e - 16 - off) (drop off e)" and "t = drop (length e - 16) e"
  have "b @ t = drop off e"
    using append_take_drop_id [of "length e - 16 - off" "drop off e"] assms(7) by (simp add: b_def t_def)
  moreover have "h @ drop off e = drop 4 e"
    using append_take_drop_id [of "off - 4" "drop 4 e"] off by (simp add: h_def)
  ultimately have e: "e = c @ h @ b @ t" by (metis append_take_drop_id c_def)
  have len: "length c = 4" "length h = off - 4" "length t = 16" using assms(7) off by (simp_all add: c_def h_def t_def)
  from assms(5,8) have "privacy_header A key m = Inr e'" by (auto simp: privacyEncrypt_def)
  moreover from this obtain nonce where n: "PrivacyNonce m = Inr nonce" using assms(2) by (auto simp: privacy_header_def)
  moreover have po: "PayloadOffset m = Inr (4 + length h)" using assms(6) len off by simp
  ultimately obtain h' where h': "PrivacyEncrypt A key h nonce = Inr h'" and e': "e' = c @ h' @ b @ t"
    using privacy_header_split [of m c h b t nonce A key] len assms(2) e by auto
  have inv: "length h' = length h" "PrivacyEncrypt A key h' nonce = Inr h"
    using PrivacyEncrypt_involution [OF assms(1) h'] by auto
  let ?r = "new_message_of e' (Some e') peer"
  have same: "take 4 (m_buffer ?r) = take 4 (m_buffer m)" "4 \<le> length (m_buffer ?r)"
    using assms(3) e e' len by (simp_all add: new_message_of_def)
  have mic: "Mic ?r = Mic m"
    using Mic_suffix [of ?r "c @ h' @ b" t] Mic_suffix [of m "c @ h @ b" t] e' e len assms(2)
    by (simp add: new_message_of_def)
  have "PrivacyNonce ?r = Inr nonce"
    using n clear_header(2) [OF same assms(4)] mic by (simp add: PrivacyNonce_def)
  then have "privacy_header A key ?r = Inr e"
    using privacy_header_split [of ?r c h' b t nonce A key] len po clear_header(4) [OF same assms(4)] inv e' e
    by (simp add: new_message_of_def)
  then show ?thesis
    using clear_header(3) [OF same assms(4)] assms(5) by (simp add: privacyDecrypt_def)
qed

lemma toy_aead_stream: "ccm_stream toy_aead"
  unfolding ccm_stream_def toy_aead_def by (auto simp del: map_map simp: xor_cancel split: if_splits)

theorem privacy_roundtrip_witness:
  "\<exists>r. privacyDecrypt toy_aead (replicate 16 0x11) True
      (new_message_of ([0, 1, 0, 0x80, 0x16, 0x11, 0x11, 0x11, 0xAA] @ replicate 16 0xCC)
        (Some ([0, 1, 0, 0x80, 0x16, 0x11, 0x11, 0x11, 0xAA] @ replicate 16 0xCC)) None) =
      Inr (r, Some ([0, 1, 0, 0x80, 7, 0, 0, 0, 0xAA] @ replicate 16 0xCC)) \<and>
    m_encrypted r = Some ([0, 1, 0, 0x80, 7, 0, 0, 0, 0xAA] @ replicate 16 0xCC) \<and>
    m_buffer r = [0, 1, 0, 0x80, 7, 0, 0, 0, 0xAA] @ replicate 16 0xCC"
proof -
  let ?e = "[0, 1, 0, 0x80, 7, 0, 0, 0, 0xAA] @ replicate 16 (0xCC :: byte)"
  let ?e' = "[0, 1, 0, 0x80, 0x16, 0x11, 0x11, 0x11, 0xAA] @ replicate 16 (0xCC :: byte)"
  let ?m = "new_message_of [0, 1, 0, 0x80, 7, 0, 0, 0, 0xAB] (Some ?e) None"
  have p: "Pflag ?m = Inr True" and o: "PayloadOffset ?m = Inr (4 + length [7, 0, 0, 0 :: byte])"
    by (simp_all add: Pflag_def SecurityFlags_def PayloadOffset_def Sflag_def Dsiz_def MessageFlags_def
        new_message_of_def read_uint_le_def message_consts)
  have "PrivacyNonce ?m = Inr ([0, 1] @ replicate 11 0xCC)"
    by (simp add: PrivacyNonce_def SessionId_def Mic_def new_message_of_def read_uint_le_def message_consts
        subarray_def write_uint_be_def fill_from_def buf_alloc_def)
      (simp add: map_replicate_const numeral_2_eq_2)
  then have "privacy_header toy_aead (replicate 16 0x11) ?m = Inr ?e'"
    using privacy_header_split [OF _ _ _ o, of "[0, 1, 0, 0x80]" "[0xAA]" "replicate 16 0xCC"]
    by (simp add: new_message_of_def PrivacyEncrypt_def toy_aead_def)
  then have "privacyEncrypt toy_aead (replicate 16 0x11) True ?m = Inr (?m\<lparr>m_encrypted := Some ?e'\<rparr>, Some ?e')"
    using p by (simp add: privacyEncrypt_def)
  from privacy_roundtrip [OF toy_aead_stream _ _ _ p o _ this, of ?e None] show ?thesis
    by (simp add: new_message_of_def)
qed

end
