(* ===== verification/Session.thy ===== *)
theory Session
  imports Matter_Message
begin

text \<open>
  \<open>src/message/SessionCryptoContext.js\<close> and \<open>src/message/Session.js\<close>, with the state of
  a node they live in. JavaScript objects are shared by reference, so sessions sit in a store
  \<open>n_sessions\<close> and are named by their index; the tables of the session manager and the
  exchanges hold indices. What a socket sends is the list \<open>n_sent\<close>, newest last.
  The random octets \<open>crypto.randomBytes\<close> will return are the stream \<open>n_random\<close>, of
  which \<open>n_drawn\<close> have been used.
\<close>

section \<open>Session keys\<close>

definition kI2RKey :: nat where "kI2RKey = 0"
definition kR2IKey :: nat where "kR2IKey = 1"
definition kAttestationChallenge :: nat where "kAttestationChallenge = 2"

lemmas key_index = kI2RKey_def kR2IKey_def kAttestationChallenge_def

text \<open>The constructor of \<open>SessionCryptoContext\<close>: the keys of the test mode.\<close>

definition test_keys :: "buffer list" where
  "test_keys =
     [hex_decode (js_string ''5eded244e5532b3cdc23409dbad052d2''),
      hex_decode (js_string ''a9e011b1737c6d4b70e4c0a2fe660476''),
      hex_decode (js_string ''c5aead0e0691c420284c9580f90e07b0'')]"

text \<open>
  \<open>hkdf(secret, len, {salt, info, hash: 'SHA-256'})\<close> of the package \<open>futoin-hkdf\<close> is an
  argument: secret, length, salt and info to the key octets. \<open>CHIP_CONFIG_SECURITY_TEST_MODE\<close>
  is \<open>0\<close>.
\<close>

type_synonym hkdf = "buffer \<Rightarrow> nat \<Rightarrow> buffer \<Rightarrow> buffer \<Rightarrow> buffer result"

definition keys_from_secret :: "hkdf \<Rightarrow> buffer \<Rightarrow> buffer \<Rightarrow> buffer \<Rightarrow> buffer list result" where
  "keys_from_secret kdf secret salt info =
     rbind (kdf secret 48 salt info) (\<lambda>sessionKey.
       Inr [subarray 0 16 sessionKey, subarray 16 32 sessionKey, subarray_from 32 sessionKey])"

section \<open>State\<close>

text \<open>
  \<open>s_keys\<close> is the private \<open>#cryptoContext\<close> (\<open>None\<close> for a session made with
  \<open>secure = false\<close>). Session ids come from headers or from a peer's TLV and can be any
  value; a node id is a BigInt or \<open>undefined\<close>.
\<close>

record session =
  s_localSessionId :: jsval
  s_peerSessionId :: jsval
  s_peerNodeId :: "int option"
  s_peerInfo :: "peer_info option"
  s_peerMessageCounter :: int
  s_initiator :: bool
  s_lastActivityTimeMs :: int
  s_secure :: bool
  s_messageCounter :: int
  s_metricTxCount :: nat
  s_metricRxCount :: nat
  s_transport :: transport
  s_keys :: "buffer list option"

record packet =
  p_transport :: transport
  p_data :: buffer
  p_port :: int
  p_host :: string

record net =
  n_sessions :: "session list"
  n_sent :: "packet list"
  n_random :: "nat \<Rightarrow> byte"
  n_drawn :: nat
  n_now :: int

definition upd_session :: "nat \<Rightarrow> (session \<Rightarrow> session) \<Rightarrow> 'a net_scheme \<Rightarrow> 'a net_scheme" where
  "upd_session a f n = n\<lparr>n_sessions := (n_sessions n)[a := f (n_sessions n ! a)]\<rparr>"

section \<open>Random numbers (Crypto.js)\<close>

definition Random :: "nat \<Rightarrow> 'a net_scheme \<Rightarrow> buffer \<times> 'a net_scheme" where
  "Random len n = (map (n_random n) [n_drawn n..<n_drawn n + len], n\<lparr>n_drawn := n_drawn n + len\<rparr>)"

definition RandomU16 :: "'a net_scheme \<Rightarrow> int \<times> 'a net_scheme" where
  "RandomU16 n = (case Random 2 n of (b, n) \<Rightarrow> (le_val (rev b), n))"

definition RandomU32 :: "'a net_scheme \<Rightarrow> int \<times> 'a net_scheme" where
  "RandomU32 n = (case Random 4 n of (b, n) \<Rightarrow> (le_val (rev b), n))"

definition RandomU64 :: "'a net_scheme \<Rightarrow> int \<times> 'a net_scheme" where
  "RandomU64 n = (case Random 8 n of (b, n) \<Rightarrow> (le_val (rev b), n))"

section \<open>Sessions\<close>

definition UNSECURED_SESSION_ID :: int where "UNSECURED_SESSION_ID = 0"

definition new_session :: "jsval \<Rightarrow> jsval \<Rightarrow> bool \<Rightarrow> 'a net_scheme \<Rightarrow> nat \<times> 'a net_scheme" where
  "new_session localSessionId peerSessionId secure n =
     (case RandomU32 n of (r, n) \<Rightarrow>
        let s = \<lparr>s_localSessionId = localSessionId, s_peerSessionId = peerSessionId, s_peerNodeId = None,
                 s_peerInfo = None, s_peerMessageCounter = 0, s_initiator = False, s_lastActivityTimeMs = 0,
                 s_secure = secure, s_messageCounter = (r AND 0x0FFFFFFF) + 1, s_metricTxCount = 0,
                 s_metricRxCount = 0, s_transport = Server, s_keys = (if secure then Some test_keys else None)\<rparr>
        in (length (n_sessions n), n\<lparr>n_sessions := n_sessions n @ [s]\<rparr>))"

definition AttestationChallenge :: "session \<Rightarrow> buffer result" where
  "AttestationChallenge s = (case s_keys s of None \<Rightarrow> Inl TypeError | Some ks \<Rightarrow> Inr (ks ! kAttestationChallenge))"

definition initFromSecret :: "hkdf \<Rightarrow> nat \<Rightarrow> buffer \<Rightarrow> buffer \<Rightarrow> buffer \<Rightarrow> 'a net_scheme \<Rightarrow> 'a net_scheme result" where
  "initFromSecret kdf a secret salt info n =
     (case s_keys (n_sessions n ! a) of
        None \<Rightarrow> Inl TypeError
      | Some _ \<Rightarrow> rbind (keys_from_secret kdf secret salt info) (\<lambda>ks.
          Inr (upd_session a (\<lambda>s. s\<lparr>s_keys := Some ks\<rparr>) n)))"

definition updateActivity :: "nat \<Rightarrow> 'a net_scheme \<Rightarrow> 'a net_scheme" where
  "updateActivity a n =
     upd_session a (\<lambda>s. s\<lparr>s_lastActivityTimeMs := n_now n, s_metricRxCount := Suc (s_metricRxCount s)\<rparr>) n"

definition node_id_truthy :: "int option \<Rightarrow> bool" where
  "node_id_truthy v = (case v of None \<Rightarrow> False | Some k \<Rightarrow> k \<noteq> 0)"

definition transport_send :: "transport \<Rightarrow> buffer \<Rightarrow> int \<Rightarrow> string \<Rightarrow> 'a net_scheme \<Rightarrow> 'a net_scheme" where
  "transport_send t buf port host n =
     n\<lparr>n_sent := n_sent n @ [\<lparr>p_transport = t, p_data = buf, p_port = port, p_host = host\<rparr>]\<rparr>"

text \<open>
  \<open>sendMessage\<close> returns the message too, whose buffer it changes. First the header:
\<close>

definition send_header :: "nat \<Rightarrow> message \<Rightarrow> 'a net_scheme \<Rightarrow> (message \<times> 'a net_scheme) result" where
  "send_header a msg n =
     rbind (set_MessageFlags 0 msg) (\<lambda>msg.
     rbind (set_SecurityFlags 0 msg) (\<lambda>msg.
     rbind (to_write (s_peerSessionId (n_sessions n ! a))) (\<lambda>sid.
     rbind (set_SessionId sid msg) (\<lambda>msg.
     rbind (set_MessageCounter (s_messageCounter (n_sessions n ! a)) msg) (\<lambda>msg.
       Inr (msg, upd_session a (\<lambda>s. s\<lparr>s_messageCounter := s_messageCounter s + 1,
                                       s_metricTxCount := Suc (s_metricTxCount s)\<rparr>) n))))))"

text \<open>Then the octets to send, encrypted or with the node id of an unsecured session.\<close>

definition send_secure :: "aead \<Rightarrow> nat \<Rightarrow> message \<Rightarrow> 'a net_scheme \<Rightarrow> (message \<times> buffer \<times> 'a net_scheme) result" where
  "send_secure A a msg n =
     rbind (Iflag msg) (\<lambda>i.
       case s_keys (n_sessions n ! a) of
         None \<Rightarrow> Inl TypeError
       | Some ks \<Rightarrow> rbind (msg_encrypt A (m_buffer msg) (ks ! (if i then 0 else 1))) (\<lambda>buf.
           Inr (msg\<lparr>m_encrypted := Some buf\<rparr>, buf, n)))"

definition send_unsecured :: "nat \<Rightarrow> message \<Rightarrow> 'a net_scheme \<Rightarrow> (message \<times> buffer \<times> 'a net_scheme) result" where
  "send_unsecured a msg n =
     rbind (Iflag msg) (\<lambda>i.
       if i then
         let n = (if node_id_truthy (s_peerNodeId (n_sessions n ! a)) then n
                  else case RandomU64 n of (r, n) \<Rightarrow> upd_session a (\<lambda>s. s\<lparr>s_peerNodeId := Some r\<rparr>) n)
         in rbind (set_Dsiz DestinationType_Omit msg) (\<lambda>msg.
            rbind (set_Sflag SourceType_NodeId msg) (\<lambda>msg.
            rbind (set_SourceNodeId (JBig (the (s_peerNodeId (n_sessions n ! a)))) msg) (\<lambda>msg.
              Inr (msg, m_buffer msg, n))))
       else if node_id_truthy (s_peerNodeId (n_sessions n ! a)) then
         rbind (set_Sflag SourceType_Omit msg) (\<lambda>msg.
         rbind (set_Dsiz DestinationType_NodeId msg) (\<lambda>msg.
         rbind (set_DestinationNodeId (JBig (the (s_peerNodeId (n_sessions n ! a)))) msg) (\<lambda>msg.
           Inr (msg, m_buffer msg, n))))
       else Inl ReferenceError)"

definition session_sendMessage :: "aead \<Rightarrow> nat \<Rightarrow> message \<Rightarrow> 'a net_scheme \<Rightarrow> (message \<times> 'a net_scheme) result" where
  "session_sendMessage A a msg n =
     rbind (send_header a msg n) (\<lambda>(msg, n).
     rbind (isEncrypted msg) (\<lambda>e.
     rbind (if e then send_secure A a msg n else send_unsecured a msg n) (\<lambda>(msg, buf, n).
       case s_peerInfo (n_sessions n ! a) of
         None \<Rightarrow> Inl TypeError
       | Some p \<Rightarrow> Inr (msg, transport_send (s_transport (n_sessions n ! a)) buf (pi_port p) (pi_address p) n))))"

text \<open>\<open>decryptMessage\<close>: the message after the call.\<close>

definition decryptMessage :: "aead \<Rightarrow> session \<Rightarrow> message \<Rightarrow> message result" where
  "decryptMessage A s msg =
     rbind (isUnencrypted msg) (\<lambda>u.
       if u then Inr msg
       else (case s_keys s of
           None \<Rightarrow> Inl TypeError
         | Some ks \<Rightarrow> (case m_encrypted msg of
             None \<Rightarrow> Inl TypeError
           | Some buf \<Rightarrow> rbind (msg_decrypt A buf (ks ! (if s_initiator s then 1 else 0))) (\<lambda>dmsg.
               case dmsg of
                 None \<Rightarrow> Inr msg
               | Some d \<Rightarrow> Inr (msg\<lparr>m_buffer := d\<rparr>)))))"

section \<open>Lemmas on the store\<close>

lemma upd_session_same [simp]:
  "a < length (n_sessions n) \<Longrightarrow> n_sessions (upd_session a f n) ! a = f (n_sessions n ! a)"
  by (simp add: upd_session_def)

lemma upd_session_other [simp]: "a \<noteq> b \<Longrightarrow> n_sessions (upd_session a f n) ! b = n_sessions n ! b"
  by (simp add: upd_session_def)

lemma upd_session_fields [simp]:
  "length (n_sessions (upd_session a f n)) = length (n_sessions n)"
  "n_sent (upd_session a f n) = n_sent n"
  "n_now (upd_session a f n) = n_now n"
  by (simp_all add: upd_session_def)

lemma transport_send_fields [simp]:
  "n_sessions (transport_send t b p h n) = n_sessions n"
  "n_sent (transport_send t b p h n) = n_sent n @ [\<lparr>p_transport = t, p_data = b, p_port = p, p_host = h\<rparr>]"
  by (simp_all add: transport_send_def)

lemma Random_fields [simp]:
  "length (fst (Random k n)) = k"
  "n_sessions (snd (Random k n)) = n_sessions n"
  "n_sent (snd (Random k n)) = n_sent n"
  by (simp_all add: Random_def)

lemma RandomU64_fields [simp]:
  "n_sessions (snd (RandomU64 n)) = n_sessions n" "n_sent (snd (RandomU64 n)) = n_sent n"
  by (simp_all add: RandomU64_def Random_def)

lemma RandomU64_range: "0 \<le> fst (RandomU64 n) \<and> fst (RandomU64 n) < 2 ^ 64"
  using le_val_less [of "rev (fst (Random 8 n))"] by (simp add: RandomU64_def split: prod.split) (metis fst_conv le_val_ge_0)

lemma message_counter_start: "1 \<le> (r AND 0x0FFFFFFF) + (1 :: int) \<and> (r AND 0x0FFFFFFF) + 1 \<le> 2 ^ 28"
  using AND_upper2 [of "0x0FFFFFFF" r] by simp

lemma new_session_store:
  assumes "new_session l p sec n = (a, n')"
  shows "a = length (n_sessions n)" and "\<exists>s. n_sessions n' = n_sessions n @ [s] \<and> s_localSessionId s = l \<and>
      s_peerSessionId s = p \<and> s_secure s = sec \<and> s_keys s = (if sec then Some test_keys else None) \<and>
      s_peerNodeId s = None \<and> s_peerInfo s = None \<and> s_initiator s = False \<and>
      1 \<le> s_messageCounter s \<and> s_messageCounter s \<le> 2 ^ 28"
    and "n_sent n' = n_sent n"
proof -
  obtain r n0 where r: "RandomU32 n = (r, n0)" by (cases "RandomU32 n")
  then have "n_sessions n0 = n_sessions n" "n_sent n0 = n_sent n" by (auto simp: RandomU32_def Random_def)
  then show "a = length (n_sessions n)" "n_sent n' = n_sent n"
      "\<exists>s. n_sessions n' = n_sessions n @ [s] \<and> s_localSessionId s = l \<and>
      s_peerSessionId s = p \<and> s_secure s = sec \<and> s_keys s = (if sec then Some test_keys else None) \<and>
      s_peerNodeId s = None \<and> s_peerInfo s = None \<and> s_initiator s = False \<and>
      1 \<le> s_messageCounter s \<and> s_messageCounter s \<le> 2 ^ 28"
    using assms message_counter_start [of r] by (auto simp: new_session_def r Let_def)
qed

section \<open>What a session sends\<close>

definition header_of :: "int \<Rightarrow> int \<Rightarrow> wire \<Rightarrow> wire" where
  "header_of sid ctr w = w\<lparr>w_flags := 0, w_sec := 0, w_sid := sid, w_ctr := ctr\<rparr>"

definition counted :: "session \<Rightarrow> session" where
  "counted s = s\<lparr>s_messageCounter := s_messageCounter s + 1, s_metricTxCount := Suc (s_metricTxCount s)\<rparr>"

definition can_send :: "session \<Rightarrow> int \<Rightarrow> bool" where
  "can_send s sid \<longleftrightarrow> s_peerSessionId s = JNum sid \<and> 0 \<le> sid \<and> sid < 2 ^ 16 \<and>
     0 \<le> s_messageCounter s \<and> s_messageCounter s < 2 ^ 32"

lemma send_header_wire:
  assumes "can_send (n_sessions n ! a) sid"
  shows "send_header a (on_wire w m) n =
    Inr (on_wire (header_of sid (s_messageCounter (n_sessions n ! a)) w) m, upd_session a counted n)"
proof -
  have "upd_session a (\<lambda>s. s\<lparr>s_messageCounter := s_messageCounter s + 1, s_metricTxCount := Suc (s_metricTxCount s)\<rparr>) n =
      upd_session a counted n" by (simp add: counted_def [abs_def])
  then show ?thesis
    using assms by (simp add: send_header_def can_send_def wire_put header_of_def)
qed

lemma header_of_ok:
  "wire_ranges w \<Longrightarrow> w_ids w = [] \<Longrightarrow> can_send s sid \<Longrightarrow> wire_ok (header_of sid (s_messageCounter s) w)"
  by (auto simp: wire_ok_def wire_ranges_def header_of_def id_size_def can_send_def)

text \<open>A secured session: the message is encrypted under the key of its direction.\<close>

lemma send_secured:
  assumes "a < length (n_sessions n)" and "can_send (n_sessions n ! a) sid" and "sid \<noteq> 0"
    and "s_keys (n_sessions n ! a) = Some ks" and "s_peerInfo (n_sessions n ! a) = Some p"
    and "wire_ranges w" and "w_ids w = []"
    and "w' = header_of sid (s_messageCounter (n_sessions n ! a)) w"
    and "msg_encrypt A (wire_bytes w') (ks ! (if w_xflags w AND 0x01 \<noteq> 0 then 0 else 1)) = Inr buf"
  shows "session_sendMessage A a (on_wire w m) n =
    Inr ((on_wire w' m)\<lparr>m_encrypted := Some buf\<rparr>,
      transport_send (s_transport (n_sessions n ! a)) buf (pi_port p) (pi_address p) (upd_session a counted n))"
proof -
  have ok: "wire_ok w'" using header_of_ok [OF assms(6,7,2)] assms(8) by simp
  have "isEncrypted (on_wire w' m) = Inr True"
    using wire_isUnencrypted [OF wire_ok_ranges [OF ok], of m] assms(3,8) by (simp add: isEncrypted_def header_of_def)
  moreover have "Iflag (on_wire w' m) = Inr (w_xflags w AND 0x01 \<noteq> 0)"
    using wire_exchange_flag(2) [OF ok, of m] assms(8) by (simp add: header_of_def)
  ultimately show ?thesis
    using assms send_header_wire [OF assms(2), of w m]
    by (simp add: session_sendMessage_def send_secure_def counted_def)
qed

lemma wire_header:
  assumes "w_flags w = 0" and "w_ids w = []"
  shows "header_size (wire_bytes w) = 8"
    and "take 8 (wire_bytes w) = header_octets 0 (w_sec w) (w_sid w) (w_ctr w)"
proof -
  have "octet0 (wire_bytes w) = 0" using assms by (simp add: octet0_def wire_bytes_def header_octets_def)
  then show "header_size (wire_bytes w) = 8" by (simp add: header_size_def)
  show "take 8 (wire_bytes w) = header_octets 0 (w_sec w) (w_sid w) (w_ctr w)"
    using assms by (simp add: wire_bytes_def)
qed

lemma length_wire_bytes: "length (wire_bytes w) = 14 + length (w_ids w) + length (w_rest w)"
  by (simp add: wire_bytes_def)

text \<open>Encryption under a key, and what a session with that key reads back.\<close>

lemma secure_datagram:
  assumes "ccm_ok A" and "can_send s sid" and "sid \<noteq> 0" and "length k = 16" and "wire_ranges w" and "w_ids w = []"
    and "length (w_rest w) < 2 ^ 16 - 14"
  shows "\<exists>data. msg_encrypt A (wire_bytes (header_of sid (s_messageCounter s) w)) k = Inr data \<and>
    (\<forall>r kr peer. s_keys r = Some kr \<longrightarrow> kr ! (if s_initiator r then 1 else 0) = k \<longrightarrow>
      decryptMessage A r (new_message_of data (Some data) peer) =
        Inr ((new_message_of data (Some data) peer)\<lparr>m_buffer := wire_bytes (header_of sid (s_messageCounter s) w)\<rparr>))"
proof -
  let ?w = "header_of sid (s_messageCounter s) w"
  have ok: "wire_ok ?w" using header_of_ok [OF assms(5,6,2)] .
  have h: "header_size (wire_bytes ?w) = 8" using wire_header [of ?w] assms(6) by (simp add: header_of_def)
  have "length (wire_bytes ?w) < 2 ^ 16" using assms(6,7) by (simp add: length_wire_bytes header_of_def)
  then obtain data where enc: "msg_encrypt A (wire_bytes ?w) k = Inr data"
    and len: "length data = length (wire_bytes ?w) + 16" and pre: "take 8 data = take 8 (wire_bytes ?w)"
    and dec: "msg_decrypt A data k = Inr (Some (wire_bytes ?w))"
    using encrypt_then_decrypt [OF assms(1,4), of "wire_bytes ?w"] h by (auto simp: length_wire_bytes)
  have "take 4 data = take 4 (wire_bytes ?w)"
    using arg_cong [OF pre, of "take 4"] by simp
  then have "isUnencrypted (new_message_of data (Some data) peer) = isUnencrypted (on_wire ?w m)" for peer m
    using len by (intro clear_header) (simp_all add: new_message_of_def length_wire_bytes)
  then show ?thesis
    using enc dec wire_isUnencrypted [OF wire_ok_ranges [OF ok]] assms(3)
    by (auto simp: decryptMessage_def header_of_def new_message_of_def)
qed

text \<open>
  (C8) The secure channel, in both directions: what a session sends arrives at a session that
  holds the same key for the direction as exactly the message sent, with the peer's session id
  and the session's counter in its header; the sender's counter has moved on by one.
\<close>

theorem secure_channel:
  assumes "ccm_ok A" and "a < length (n_sessions n)" and "can_send (n_sessions n ! a) sid" and "sid \<noteq> 0"
    and "s_keys (n_sessions n ! a) = Some ks" and "s_peerInfo (n_sessions n ! a) = Some p"
    and "i = (if w_xflags w AND 0x01 \<noteq> 0 then 0 else 1)" and "length (ks ! i) = 16"
    and "wire_ranges w" and "w_ids w = []" and "length (w_rest w) < 2 ^ 16 - 14"
    and "s_keys r = Some kr" and "kr ! i = ks ! i" and "s_initiator r \<longleftrightarrow> i = 1"
  shows "\<exists>msg n' data m'. session_sendMessage A a (on_wire w m) n = Inr (msg, n') \<and>
    n_sent n' = n_sent n @ [\<lparr>p_transport = s_transport (n_sessions n ! a), p_data = data, p_port = pi_port p, p_host = pi_address p\<rparr>] \<and>
    s_messageCounter (n_sessions n' ! a) = s_messageCounter (n_sessions n ! a) + 1 \<and>
    decryptMessage A r (new_message_of data (Some data) peer) = Inr m' \<and>
    m_buffer m' = wire_bytes (header_of sid (s_messageCounter (n_sessions n ! a)) w)"
proof -
  let ?w = "header_of sid (s_messageCounter (n_sessions n ! a)) w"
  have k: "kr ! (if s_initiator r then 1 else 0) = ks ! i" using assms(7,13,14) by (auto split: if_splits)
  obtain data where d: "msg_encrypt A (wire_bytes ?w) (ks ! i) = Inr data"
    "decryptMessage A r (new_message_of data (Some data) peer) = Inr ((new_message_of data (Some data) peer)\<lparr>m_buffer := wire_bytes ?w\<rparr>)"
    using secure_datagram [OF assms(1,3,4,8,9,10,11)] assms(12) k by blast
  then show ?thesis
    using send_secured [OF assms(2-6,9,10) refl, of A data m] assms(2,7) by (simp add: counted_def)
qed

definition demo_session :: session where
  "demo_session = \<lparr>s_localSessionId = JNum 7, s_peerSessionId = JNum 9, s_peerNodeId = None,
     s_peerInfo = Some \<lparr>pi_address = ''::1'', pi_port = 5540\<rparr>, s_peerMessageCounter = 0, s_initiator = False,
     s_lastActivityTimeMs = 0, s_secure = True, s_messageCounter = 41, s_metricTxCount = 0, s_metricRxCount = 0,
     s_transport = Server, s_keys = Some [replicate 16 1, replicate 16 2, replicate 16 3]\<rparr>"

definition demo_net :: net where
  "demo_net = \<lparr>n_sessions = [demo_session], n_sent = [], n_random = (\<lambda>i. word_of_nat i), n_drawn = 0, n_now = 0\<rparr>"

definition demo_wire :: wire where
  "demo_wire = \<lparr>w_flags = 0, w_sid = 0, w_sec = 0, w_ctr = 0, w_ids = [], w_xflags = 5, w_opcode = 2, w_xid = 3,
     w_pid = 1, w_rest = [0x15, 0x18]\<rparr>"

theorem secure_channel_witness:
  "\<exists>msg n' data m'. session_sendMessage toy_aead 0 (on_wire demo_wire new_message) demo_net = Inr (msg, n') \<and>
    n_sent n' = n_sent demo_net @ [\<lparr>p_transport = s_transport (n_sessions demo_net ! 0), p_data = data, p_port = 5540, p_host = ''::1''\<rparr>] \<and>
    s_messageCounter (n_sessions n' ! 0) = s_messageCounter (n_sessions demo_net ! 0) + 1 \<and>
    decryptMessage toy_aead demo_session (new_message_of data (Some data) None) = Inr m' \<and>
    m_buffer m' = wire_bytes (header_of 9 (s_messageCounter (n_sessions demo_net ! 0)) demo_wire)"
  using secure_channel [OF toy_aead_ok, of 0 demo_net 9 "[replicate 16 1, replicate 16 2, replicate 16 3]"
      "\<lparr>pi_address = ''::1'', pi_port = 5540\<rparr>" 0 demo_wire demo_session
      "[replicate 16 1, replicate 16 2, replicate 16 3]" new_message None]
  by (simp add: demo_net_def demo_session_def demo_wire_def can_send_def wire_ranges_def)

section \<open>Counters and nonces\<close>

lemma session_sendMessage_counter:
  assumes "session_sendMessage A b msg n = Inr (msg', n')" and "b < length (n_sessions n)"
  shows "length (n_sessions n') = length (n_sessions n)"
    and "s_messageCounter (n_sessions n' ! a) = s_messageCounter (n_sessions n ! a) + (if a = b then 1 else 0)"
    and "s_peerSessionId (n_sessions n' ! a) = s_peerSessionId (n_sessions n ! a)"
proof -
  obtain m1 n1 where h: "send_header b msg n = Inr (m1, n1)" using assms(1) by (auto simp: session_sendMessage_def)
  then have n1: "n1 = upd_session b counted n"
    by (auto simp: send_header_def counted_def [abs_def])
  obtain e m2 buf n2 where e: "(if e then send_secure A b m1 n1 else send_unsecured b m1 n1) = Inr (m2, buf, n2)"
    and n': "n_sessions n' = n_sessions n2"
    using assms(1) h by (auto simp: session_sendMessage_def split: option.splits)
  have "length (n_sessions n2) = length (n_sessions n1) \<and>
      s_messageCounter (n_sessions n2 ! a) = s_messageCounter (n_sessions n1 ! a) \<and>
      s_peerSessionId (n_sessions n2 ! a) = s_peerSessionId (n_sessions n1 ! a)"
  proof (cases e)
    case True
    then show ?thesis using e by (auto simp: send_secure_def split: option.splits)
  next
    case False
    obtain r m where "RandomU64 n1 = (r, m)" by (cases "RandomU64 n1")
    moreover from this have "n_sessions m = n_sessions n1" using RandomU64_fields(1) [of n1] by simp
    moreover have "b < length (n_sessions n1)" using assms(2) n1 by simp
    ultimately show ?thesis
      using False e by (cases "a = b")
        (auto simp: send_unsecured_def Let_def upd_session_def nth_list_update split: if_splits)
  qed
  then show "length (n_sessions n') = length (n_sessions n)"
    and "s_messageCounter (n_sessions n' ! a) = s_messageCounter (n_sessions n ! a) + (if a = b then 1 else 0)"
    and "s_peerSessionId (n_sessions n' ! a) = s_peerSessionId (n_sessions n ! a)"
    using n1 n' assms(2) by (auto simp: counted_def upd_session_def nth_list_update)
qed

text \<open>
  A step of a node's sessions: one of them sends a message, takes its keys from a secret, or
  records activity.
\<close>

inductive session_step :: "aead \<Rightarrow> hkdf \<Rightarrow> 'a net_scheme \<Rightarrow> 'a net_scheme \<Rightarrow> bool" for A kdf where
  send: "b < length (n_sessions n) \<Longrightarrow> session_sendMessage A b msg n = Inr (msg', n') \<Longrightarrow> session_step A kdf n n'"
| init: "b < length (n_sessions n) \<Longrightarrow> initFromSecret kdf b secret salt info n = Inr n' \<Longrightarrow> session_step A kdf n n'"
| activity: "b < length (n_sessions n) \<Longrightarrow> n' = updateActivity b n \<Longrightarrow> session_step A kdf n n'"
| create: "new_session l p sec n = (b, n') \<Longrightarrow> session_step A kdf n n'"

lemma session_step_counter:
  assumes "session_step A kdf n n'" and "a < length (n_sessions n)"
  shows "a < length (n_sessions n') \<and> s_messageCounter (n_sessions n ! a) \<le> s_messageCounter (n_sessions n' ! a)"
  using assms(1)
proof cases
  case (send b msg msg')
  then show ?thesis using session_sendMessage_counter(1) [OF send(2,1)] session_sendMessage_counter(2) [OF send(2,1), of a] assms(2) by simp
next
  case (init b secret salt info)
  then show ?thesis
    using assms(2) by (auto simp: initFromSecret_def upd_session_def nth_list_update split: option.splits)
next
  case (activity b)
  then show ?thesis using assms(2) by (auto simp: updateActivity_def upd_session_def nth_list_update)
next
  case (create l p sec b)
  then show ?thesis using assms(2) new_session_store(2) [OF create] by (auto simp: nth_append)
qed

lemma session_steps_counter:
  assumes "(session_step A kdf)\<^sup>*\<^sup>* n n'" and "a < length (n_sessions n)"
  shows "a < length (n_sessions n') \<and> s_messageCounter (n_sessions n ! a) \<le> s_messageCounter (n_sessions n' ! a)"
  using assms by (induction rule: rtranclp_induct) (auto dest: session_step_counter intro: order.trans)

lemma sent_counter:
  assumes "session_sendMessage A a msg n = Inr (msg', n')" and "s_peerSessionId (n_sessions n ! a) = JNum sid" and "sid \<noteq> 0"
  shows "MessageCounter msg' = Inr (s_messageCounter (n_sessions n ! a))" and "MessageFlags msg' = Inr 0"
    and "8 \<le> length (m_buffer msg')"
proof -
  obtain m1 m2 m3 m4 where m: "set_MessageFlags 0 msg = Inr m1" "set_SecurityFlags 0 m1 = Inr m2"
      "set_SessionId sid m2 = Inr m3" "set_MessageCounter (s_messageCounter (n_sessions n ! a)) m3 = Inr m4"
      and h: "send_header a msg n = Inr (m4, upd_session a counted n)"
    using assms(1,2) by (auto simp: session_sendMessage_def send_header_def counted_def [abs_def])
  have "SessionId m4 = Inr sid"
    using session_counter.putg_getf [OF m(4)] session_id.get_put [OF m(3)] by simp
  then have "isEncrypted m4 = Inr x \<Longrightarrow> x" for x
    using assms(3) by (auto simp: isEncrypted_def isUnencrypted_def message_consts split: if_splits)
  then obtain buf where "msg' = m4\<lparr>m_encrypted := Some buf\<rparr>"
    using assms(1) h by (auto simp: session_sendMessage_def send_secure_def split: option.splits)
  then have b: "m_buffer msg' = m_buffer m4" by simp
  show "MessageCounter msg' = Inr (s_messageCounter (n_sessions n ! a))"
    using message_counter.get_put [OF m(4)] b by (simp add: MessageCounter_def)
  then show "8 \<le> length (m_buffer msg')"
    by (auto simp: MessageCounter_def read_uint_le_def split: if_splits)
  have "MessageFlags m4 = Inr 0"
    using message_flags.get_put [OF m(1)] flags_security.putg_getf [OF m(2)] flags_session.putg_getf [OF m(3)]
      flags_counter.putg_getf [OF m(4)] by simp
  then show "MessageFlags msg' = Inr 0" using b by (simp add: MessageFlags_def)
qed

lemma getNonce_counter:
  assumes "MessageCounter msg = Inr c" and "getNonce (m_buffer msg) s = Inr nonce" and "8 \<le> length (m_buffer msg)"
  shows "le_val (take 4 (drop 1 nonce)) = c"
proof -
  have "take 5 nonce = take 5 (drop 3 (m_buffer msg))"
    using assms(2,3) by (auto simp: getNonce_def Let_def concat_to_def subarray_numeral min_def)
  moreover have "take 4 (drop 1 nonce) = drop 1 (take 5 nonce)" by (simp add: take_drop)
  moreover have "drop 1 (take 5 (drop 3 (m_buffer msg))) = take 4 (drop 4 (m_buffer msg))" by (simp add: drop_take)
  ultimately show ?thesis
    using assms(1) by (auto simp: MessageCounter_def read_uint_le_def split: if_splits)
qed

text \<open>
  (C22) No nonce is used twice on a secured session: of any two messages it sends, with any
  steps of the node's sessions between them (other sends, new keys, new sessions), the second
  carries a larger message counter and its encryption nonce differs from the first's.
\<close>

theorem nonces_never_repeat:
  assumes "a < length (n_sessions n)" and "s_peerSessionId (n_sessions n ! a) = JNum sid" and "sid \<noteq> 0"
    and "session_sendMessage A a m1 n = Inr (m1', n1)"
    and "(session_step A kdf)\<^sup>*\<^sup>* n1 n2" and "s_peerSessionId (n_sessions n2 ! a) = JNum sid'" and "sid' \<noteq> 0"
    and "session_sendMessage A a m2 n2 = Inr (m2', n3)"
    and "getNonce (m_buffer m1') 0 = Inr nonce1" and "getNonce (m_buffer m2') 0 = Inr nonce2"
  shows "\<exists>c1 c2. MessageCounter m1' = Inr c1 \<and> MessageCounter m2' = Inr c2 \<and> c1 < c2 \<and> nonce1 \<noteq> nonce2"
proof -
  note s1 = sent_counter [OF assms(4,2,3)] and s2 = sent_counter [OF assms(8,6,7)]
  have "s_messageCounter (n_sessions n1 ! a) \<le> s_messageCounter (n_sessions n2 ! a)"
    using session_steps_counter [OF assms(5)] session_sendMessage_counter(1) [OF assms(4,1)] assms(1) by simp
  then have "s_messageCounter (n_sessions n ! a) < s_messageCounter (n_sessions n2 ! a)"
    using session_sendMessage_counter(2) [OF assms(4,1), of a] by simp
  then show ?thesis
    using s1 s2 getNonce_counter [OF s1(1) assms(9) s1(3)] getNonce_counter [OF s2(1) assms(10) s2(3)] by auto
qed

lemma send_secured_total:
  assumes "ccm_ok A" and "a < length (n_sessions n)" and "can_send (n_sessions n ! a) sid" and "sid \<noteq> 0"
    and "s_keys (n_sessions n ! a) = Some ks" and "s_peerInfo (n_sessions n ! a) = Some p"
    and "length (ks ! 0) = 16" and "length (ks ! 1) = 16"
    and "wire_ranges w" and "w_ids w = []" and "length (w_rest w) < 2 ^ 16 - 14"
  shows "\<exists>msg n'. session_sendMessage A a (on_wire w m) n = Inr (msg, n') \<and> n_sessions n' = n_sessions (upd_session a counted n)"
proof -
  let ?w = "header_of sid (s_messageCounter (n_sessions n ! a)) w"
  let ?k = "ks ! (if w_xflags w AND 0x01 \<noteq> 0 then 0 else 1)"
  have "header_size (wire_bytes ?w) = 8" using wire_header [of ?w] assms(10) by (simp add: header_of_def)
  moreover have "length (wire_bytes ?w) < 2 ^ 16" using assms(10,11) by (simp add: length_wire_bytes header_of_def)
  moreover have "length ?k = 16" using assms(7,8) by simp
  ultimately obtain buf where "msg_encrypt A (wire_bytes ?w) ?k = Inr buf"
    using encrypt_then_decrypt [OF assms(1), of ?k "wire_bytes ?w"] by (auto simp: length_wire_bytes)
  with send_secured [OF assms(2-6,9,10) refl, of A buf m] show ?thesis by simp
qed

theorem nonces_never_repeat_witness:
  "\<exists>m1' n1 m2' n3 nonce1 nonce2 c1 c2.
    session_sendMessage toy_aead 0 (on_wire demo_wire new_message) demo_net = Inr (m1', n1) \<and>
    session_sendMessage toy_aead 0 (on_wire demo_wire new_message) n1 = Inr (m2', n3) \<and>
    getNonce (m_buffer m1') 0 = Inr nonce1 \<and> getNonce (m_buffer m2') 0 = Inr nonce2 \<and>
    MessageCounter m1' = Inr c1 \<and> MessageCounter m2' = Inr c2 \<and> c1 < c2 \<and> nonce1 \<noteq> nonce2"
proof -
  note defs = demo_net_def demo_session_def demo_wire_def can_send_def wire_ranges_def counted_def upd_session_def
  obtain m1' n1 where 1: "session_sendMessage toy_aead 0 (on_wire demo_wire new_message) demo_net = Inr (m1', n1)"
    and n1: "n_sessions n1 = n_sessions (upd_session 0 counted demo_net)"
    using send_secured_total [OF toy_aead_ok, of 0 demo_net 9 "[replicate 16 1, replicate 16 2, replicate 16 3]"
        "\<lparr>pi_address = ''::1'', pi_port = 5540\<rparr>" demo_wire new_message] by (auto simp: defs)
  obtain m2' n3 where 2: "session_sendMessage toy_aead 0 (on_wire demo_wire new_message) n1 = Inr (m2', n3)"
    using send_secured_total [OF toy_aead_ok, of 0 n1 9 "[replicate 16 1, replicate 16 2, replicate 16 3]"
        "\<lparr>pi_address = ''::1'', pi_port = 5540\<rparr>" demo_wire new_message] by (auto simp: n1 defs)
  obtain x y where n: "getNonce (m_buffer m1') 0 = Inr x" "getNonce (m_buffer m2') 0 = Inr y"
    using getNonce_total [of 0 "m_buffer m1'"] getNonce_total [of 0 "m_buffer m2'"] by auto
  have a: "0 < length (n_sessions demo_net)" "s_peerSessionId (n_sessions demo_net ! 0) = JNum 9"
    "s_peerSessionId (n_sessions n1 ! 0) = JNum 9" by (simp_all add: n1 defs)
  show ?thesis
    using 1 2 n nonces_never_repeat [OF a(1,2) _ 1 rtranclp.rtrancl_refl [of _ n1] a(3) _ 2 n] by auto
qed

section \<open>What an unsecured session sends\<close>

lemma wire_flags_same: "w_flags w = v \<Longrightarrow> w\<lparr>w_flags := v\<rparr> = w"
  by (cases w) simp

lemma wire_set_Dsiz:
  assumes "wire_ranges w" and "w_flags w = 0"
  shows "set_Dsiz 0 (on_wire w m) = Inr (on_wire w m)"
    and "set_Dsiz 1 (on_wire w m) = Inr (on_wire (w\<lparr>w_flags := 1\<rparr>) m)"
    and "set_Sflag 0 (on_wire w m) = Inr (on_wire w m)"
    and "set_Sflag 4 (on_wire w m) = Inr (on_wire (w\<lparr>w_flags := 4\<rparr>) m)"
  using assms wire_get(1) [OF assms(1), of m] wire_put(1) [of 0 w m] wire_put(1) [of 1 w m] wire_put(1) [of 4 w m]
  by (simp_all add: set_Dsiz_def set_Sflag_def wire_flags_same)

definition with_source :: "int \<Rightarrow> wire \<Rightarrow> wire" where
  "with_source v w = w\<lparr>w_flags := 4, w_ids := le_bytes 8 v\<rparr>"

definition with_destination :: "int \<Rightarrow> wire \<Rightarrow> wire" where
  "with_destination v w = w\<lparr>w_flags := 1, w_ids := le_bytes 8 v\<rparr>"

lemma insert_id:
  assumes "0 \<le> v" and "v < 2 ^ 64" and "w_ids w = []"
  shows "write_uint_le 8 v 8 (subarray 0 8 (wire_bytes w) @ buf_alloc 8 @ subarray_from 8 (wire_bytes w)) =
    Inr (wire_bytes (w\<lparr>w_ids := le_bytes 8 v\<rparr>))"
proof -
  let ?h = "header_octets (w_flags w) (w_sec w) (w_sid w) (w_ctr w)"
  let ?r = "protocol_octets (w_xflags w) (w_xid w) (w_opcode w) (w_pid w) @ w_rest w"
  have "wire_bytes w = ?h @ ?r" using assms(3) by (simp add: wire_bytes_def)
  then have "subarray 0 8 (wire_bytes w) = ?h" "subarray_from 8 (wire_bytes w) = ?r"
    using subarray_0 [of 8 "wire_bytes w"] subarray_from_nat [of 8 "wire_bytes w"] by simp_all
  then show ?thesis
    using write_field [of ?h 8 "buf_alloc 8" 8 v ?r] assms by (simp add: wire_bytes_def)
qed

lemma wire_set_SourceNodeId:
  assumes "wire_ranges w" and "w_flags w = 4" and "w_ids w = []" and "\<not> m_hasSource m" and "0 \<le> v" and "v < 2 ^ 64"
  shows "set_SourceNodeId (JBig v) (on_wire w m) = Inr (on_wire (w\<lparr>w_ids := le_bytes 8 v\<rparr>) (m\<lparr>m_hasSource := True\<rparr>))"
  using assms wire_flags(1) [OF assms(1), of m] insert_id [OF assms(5,6,3)]
  by (simp add: set_SourceNodeId_def message_consts Let_def on_wire_def)

lemma wire_set_DestinationNodeId:
  assumes "wire_ranges w" and "w_flags w = 1" and "w_ids w = []" and "\<not> m_hasDestination m" and "0 \<le> v" and "v < 2 ^ 64"
  shows "set_DestinationNodeId (JBig v) (on_wire w m) = Inr (on_wire (w\<lparr>w_ids := le_bytes 8 v\<rparr>) (m\<lparr>m_hasDestination := True\<rparr>))"
proof -
  have r: "Dsiz ((on_wire w m)\<lparr>m_buffer := subarray 0 8 (wire_bytes w) @ buf_alloc 8 @ subarray_from 8 (wire_bytes w),
      m_hasDestination := True\<rparr>) = Dsiz (on_wire w m)"
    using subarray_0 [of 8 "wire_bytes w"] length_wire_bytes [of w]
      read_uint_le_append [of 0 1 "take 8 (wire_bytes w)"] read_take [of 0 1 8 "wire_bytes w"]
    by (simp add: Dsiz_def MessageFlags_def)
  show ?thesis
    using assms wire_flags(1,2) [OF assms(1), of m] insert_id [OF assms(5,6,3)] r
    by (simp add: set_DestinationNodeId_def message_consts Let_def on_wire_def)
qed

text \<open>
  An unsecured session addresses the peer it tracks: as the source of an initiator's message,
  as the destination of a responder's.
\<close>

lemma send_unsecured_wire:
  assumes "a < length (n_sessions n)" and "can_send (n_sessions n ! a) 0"
    and "s_peerNodeId (n_sessions n ! a) = Some v" and "0 < v" and "v < 2 ^ 64"
    and "s_peerInfo (n_sessions n ! a) = Some p" and "wire_ranges w" and "w_ids w = []"
    and "\<not> m_hasSource m" and "\<not> m_hasDestination m"
    and "w' = (if w_xflags w AND 0x01 \<noteq> 0 then with_source v else with_destination v)
       (header_of 0 (s_messageCounter (n_sessions n ! a)) w)"
  shows "\<exists>msg. session_sendMessage A a (on_wire w m) n =
    Inr (msg, transport_send (s_transport (n_sessions n ! a)) (wire_bytes w') (pi_port p) (pi_address p)
      (upd_session a counted n)) \<and> m_buffer msg = wire_bytes w'"
proof -
  let ?w = "header_of 0 (s_messageCounter (n_sessions n ! a)) w"
  have ok: "wire_ok ?w" by (rule header_of_ok [OF assms(7,8,2)])
  have f: "w_flags ?w = 0" "w_ids ?w = []" "w_xflags ?w = w_xflags w" using assms(8) by (simp_all add: header_of_def)
  have r: "wire_ranges (?w\<lparr>w_flags := 4\<rparr>)" "wire_ranges (?w\<lparr>w_flags := 1\<rparr>)"
    using wire_ok_ranges [OF ok] by (simp_all add: wire_ranges_def)
  have "isEncrypted (on_wire ?w m) = Inr False"
    using wire_isUnencrypted [OF wire_ok_ranges [OF ok], of m] by (simp add: isEncrypted_def header_of_def)
  moreover have "Iflag (on_wire ?w m) = Inr (w_xflags w AND 0x01 \<noteq> 0)"
    using wire_exchange_flag(2) [OF ok, of m] f by simp
  moreover note wire_set_Dsiz [OF wire_ok_ranges [OF ok] f(1), of m]
    wire_set_SourceNodeId [OF r(1), of m v] wire_set_DestinationNodeId [OF r(2), of m v]
  ultimately show ?thesis
    using assms f send_header_wire [OF assms(2), of w m]
    by (auto simp: session_sendMessage_def send_unsecured_def counted_def node_id_truthy_def message_consts
        with_source_def with_destination_def)
qed

end
