(* ===== verification/Session_Manager.thy ===== *)
theory Session_Manager
  imports Session
begin

text \<open>
  \<open>src/message/SessionManager.js\<close>: the tables of secured and unsecured sessions, the match
  of a datagram with a session, and what happens to it there. The managers that listen to its
  events are the argument \<open>emit\<close>: message, session and state to state.
\<close>

section \<open>State and tables\<close>

record session_manager = net +
  sm_secured :: "nat list"
  sm_unsecured :: "nat list"
  sm_nextSessionId :: int

type_synonym 's emitter = "message \<Rightarrow> nat \<Rightarrow> 's \<Rightarrow> 's result"

definition getSecureSession :: "int \<Rightarrow> 'a session_manager_scheme \<Rightarrow> nat option" where
  "getSecureSession sessionId n = find (\<lambda>a. s_peerSessionId (n_sessions n ! a) = JNum sessionId) (sm_secured n)"

text \<open>The properties of \<open>s.PeerInfo\<close> are read first, which throws while it is \<open>undefined\<close>.\<close>

definition getUnsecureSession :: "peer_info \<Rightarrow> int \<Rightarrow> 'a session_manager_scheme \<Rightarrow> nat option result" where
  "getUnsecureSession peerInfo peerNodeId n =
     rfind (\<lambda>a. case s_peerInfo (n_sessions n ! a) of
               None \<Rightarrow> Inl TypeError
             | Some p \<Rightarrow> Inr (pi_address p = pi_address peerInfo \<and> pi_port p = pi_port peerInfo \<and>
                 (s_peerNodeId (n_sessions n ! a) = Some peerNodeId \<or> s_peerNodeId (n_sessions n ! a) = None)))
       (sm_unsecured n)"

definition newSession ::
  "jsval \<Rightarrow> jsval \<Rightarrow> bool \<Rightarrow> 'a session_manager_scheme \<Rightarrow> nat \<times> 'a session_manager_scheme" where
  "newSession localSessionId peerSessionId isSecure n =
     (case new_session localSessionId peerSessionId isSecure n of (a, n) \<Rightarrow>
        (a, if isSecure then n\<lparr>sm_secured := sm_secured n @ [a]\<rparr>
            else n\<lparr>sm_unsecured := sm_unsecured n @ [a]\<rparr>))"

definition newUnsecuredSession :: "'a session_manager_scheme \<Rightarrow> nat \<times> 'a session_manager_scheme" where
  "newUnsecuredSession n = newSession (JNum UNSECURED_SESSION_ID) (JNum UNSECURED_SESSION_ID) False n"

section \<open>Reception\<close>

text \<open>The peer's address, counter and activity, recorded on every message.\<close>

definition touch_session ::
  "nat \<Rightarrow> message \<Rightarrow> 'a session_manager_scheme \<Rightarrow> 'a session_manager_scheme result" where
  "touch_session a msg n = rbind (MessageCounter msg) (\<lambda>c.
     Inr (updateActivity a (upd_session a (\<lambda>s. s\<lparr>s_peerInfo := m_peerInfo msg, s_peerMessageCounter := c\<rparr>) n)))"

definition sm_onUnsecuredMessage ::
  "'a session_manager_scheme emitter \<Rightarrow> message \<Rightarrow> 'a session_manager_scheme \<Rightarrow> 'a session_manager_scheme result" where
  "sm_onUnsecuredMessage emit msg n =
     rbind (Iflag msg) (\<lambda>i.
     rbind (if i then SourceNodeId msg else DestinationNodeId msg) (\<lambda>peerNodeId.
     case m_peerInfo msg of
       None \<Rightarrow> Inl TypeError
     | Some peer \<Rightarrow>
         rbind (getUnsecureSession peer peerNodeId n) (\<lambda>found.
         rbind (case found of
             Some a \<Rightarrow>
               (if s_peerNodeId (n_sessions n ! a) = None
                then rmap (\<lambda>v. (a, upd_session a (\<lambda>s. s\<lparr>s_peerNodeId := Some v\<rparr>) n)) (SourceNodeId msg)
                else Inr (a, n))
           | None \<Rightarrow>
               (case newSession (JNum UNSECURED_SESSION_ID) (JNum UNSECURED_SESSION_ID) False n of (a, n) \<Rightarrow>
                  rmap (\<lambda>v. (a, upd_session a (\<lambda>s. s\<lparr>s_peerNodeId := Some v\<rparr>) n)) (SourceNodeId msg))) (\<lambda>(a, n).
         rbind (touch_session a msg n) (emit msg a)))))"

definition onSecureMessage ::
  "aead \<Rightarrow> 'a session_manager_scheme emitter \<Rightarrow> buffer \<Rightarrow> peer_info \<Rightarrow> 'a session_manager_scheme \<Rightarrow>
   'a session_manager_scheme result" where
  "onSecureMessage A emit buf peerInfo n =
     (let msg = new_message_of buf (Some buf) (Some peerInfo)
      in rbind (SessionId msg) (\<lambda>sessionId.
         rbind (case getSecureSession sessionId n of
             Some a \<Rightarrow> Inr (a, n)
           | None \<Rightarrow>
               (case newSession (JNum sessionId) (JNum sessionId) True n of (a, n) \<Rightarrow>
                  rmap (\<lambda>v. (a, upd_session a (\<lambda>s. s\<lparr>s_peerNodeId := Some v\<rparr>) n)) (SourceNodeId msg))) (\<lambda>(a, n).
         rbind (decryptMessage A (n_sessions n ! a) msg) (\<lambda>msg.
         rbind (touch_session a msg n) (emit msg a)))))"

definition onMessage ::
  "aead \<Rightarrow> 'a session_manager_scheme emitter \<Rightarrow> buffer \<Rightarrow> peer_info \<Rightarrow> 'a session_manager_scheme \<Rightarrow>
   'a session_manager_scheme result" where
  "onMessage A emit buf peerInfo n =
     (let rawMsg = new_message_of buf None (Some peerInfo)
      in rbind (isUnencrypted rawMsg) (\<lambda>u.
           if u then sm_onUnsecuredMessage emit rawMsg n
           else onSecureMessage A emit buf peerInfo n))"

section \<open>The secure table as a registry\<close>

text \<open>
  A table of objects with a key: a fresh object is found under its key once it is registered,
  unless an older one has the same key, and objects registered under other keys stay.
\<close>

locale registry =
  fixes lookup :: "'k \<Rightarrow> 's \<Rightarrow> nat option"
    and register :: "'k \<Rightarrow> 's \<Rightarrow> nat \<times> 's"
    and wf :: "'s \<Rightarrow> bool"
  assumes lookup_register: "wf s \<Longrightarrow> register k s = (a, s') \<Longrightarrow>
      lookup k' s' = (case lookup k' s of Some b \<Rightarrow> Some b | None \<Rightarrow> if k' = k then Some a else None)"
    and wf_register: "wf s \<Longrightarrow> register k s = (a, s') \<Longrightarrow> wf s'"
begin

lemma found_after: "wf s \<Longrightarrow> lookup k s = None \<Longrightarrow> register k s = (a, s') \<Longrightarrow> lookup k s' = Some a"
  by (simp add: lookup_register)

lemma others_stay: "wf s \<Longrightarrow> lookup k' s = Some b \<Longrightarrow> register k s = (a, s') \<Longrightarrow> lookup k' s' = Some b"
  by (simp add: lookup_register)

definition find_or_register :: "'k \<Rightarrow> 's \<Rightarrow> nat \<times> 's" where
  "find_or_register k s = (case lookup k s of Some a \<Rightarrow> (a, s) | None \<Rightarrow> register k s)"

lemma find_or_register_idem:
  assumes "wf s" and "find_or_register k s = (a, s')"
  shows "find_or_register k s' = (a, s') \<and> wf s'"
  using assms found_after wf_register
  by (auto simp: find_or_register_def split: option.splits)

end

text \<open>The indices in the tables are in the store, and no index is in both.\<close>

definition tables_ok :: "'a session_manager_scheme \<Rightarrow> bool" where
  "tables_ok n \<longleftrightarrow> (\<forall>a \<in> set (sm_secured n) \<union> set (sm_unsecured n). a < length (n_sessions n)) \<and>
     set (sm_secured n) \<inter> set (sm_unsecured n) = {} \<and> distinct (sm_secured n) \<and> distinct (sm_unsecured n)"

lemma find_append: "find p (xs @ ys) = (case find p xs of Some x \<Rightarrow> Some x | None \<Rightarrow> find p ys)"
  by (induction xs) auto

lemma find_cong_set: "(\<And>x. x \<in> set xs \<Longrightarrow> p x = q x) \<Longrightarrow> find p xs = find q xs"
  by (induction xs) auto

lemma new_session_tables:
  assumes "new_session l p sec n = (a, n')"
  shows "sm_secured n' = sm_secured n" "sm_unsecured n' = sm_unsecured n"
  using assms by (auto simp: new_session_def RandomU32_def Random_def Let_def)

lemma newSession_tables:
  assumes "newSession l p sec n = (a, n')"
  shows "a = length (n_sessions n)"
    and "sm_secured n' = (if sec then sm_secured n @ [a] else sm_secured n)"
    and "sm_unsecured n' = (if sec then sm_unsecured n else sm_unsecured n @ [a])"
    and "\<exists>s. n_sessions n' = n_sessions n @ [s] \<and> s_localSessionId s = l \<and> s_peerSessionId s = p \<and> s_secure s = sec \<and>
       s_keys s = (if sec then Some test_keys else None) \<and> s_peerNodeId s = None \<and> s_peerInfo s = None \<and> s_initiator s = False"
    and "n_sent n' = n_sent n"
proof -
  obtain b m where m: "new_session l p sec n = (b, m)" by (cases "new_session l p sec n")
  then have "a = b" "n_sessions n' = n_sessions m" "n_sent n' = n_sent m"
    "sm_secured n' = (if sec then sm_secured m @ [a] else sm_secured m)"
    "sm_unsecured n' = (if sec then sm_unsecured m else sm_unsecured m @ [a])"
    using assms by (auto simp: newSession_def split: if_splits)
  then show "a = length (n_sessions n)" "n_sent n' = n_sent n"
    "sm_secured n' = (if sec then sm_secured n @ [a] else sm_secured n)"
    "sm_unsecured n' = (if sec then sm_unsecured n else sm_unsecured n @ [a])"
    "\<exists>s. n_sessions n' = n_sessions n @ [s] \<and> s_localSessionId s = l \<and> s_peerSessionId s = p \<and> s_secure s = sec \<and>
       s_keys s = (if sec then Some test_keys else None) \<and> s_peerNodeId s = None \<and> s_peerInfo s = None \<and> s_initiator s = False"
    using new_session_tables [OF m] new_session_store [OF m] by auto
qed

lemma tables_ok_newSession: "tables_ok n \<Longrightarrow> newSession l p sec n = (a, n') \<Longrightarrow> tables_ok n'"
  using newSession_tables [of l p sec n a n'] by (auto simp: tables_ok_def intro: less_SucI split: if_splits)

lemma getSecureSession_newSession:
  assumes "tables_ok n" and "newSession l (JNum k) True n = (a, n')"
  shows "getSecureSession k' n' =
    (case getSecureSession k' n of Some b \<Rightarrow> Some b | None \<Rightarrow> if k' = k then Some a else None)"
proof -
  obtain s where s: "n_sessions n' = n_sessions n @ [s]" "s_peerSessionId s = JNum k" and a: "a = length (n_sessions n)"
    and t: "sm_secured n' = sm_secured n @ [a]" using newSession_tables [OF assms(2)] by auto
  have "find (\<lambda>b. s_peerSessionId (n_sessions n' ! b) = JNum k') (sm_secured n) =
      find (\<lambda>b. s_peerSessionId (n_sessions n ! b) = JNum k') (sm_secured n)"
    using assms(1) s(1) by (intro find_cong_set) (auto simp: tables_ok_def nth_append)
  then show ?thesis using s a t by (simp add: getSecureSession_def find_append split: option.split)
qed

interpretation secure_sessions: registry getSecureSession "\<lambda>k. newSession (JNum k) (JNum k) True" tables_ok
  by unfold_locales (simp_all add: getSecureSession_newSession tables_ok_newSession)

section \<open>Properties of reception\<close>

definition touched :: "nat \<Rightarrow> peer_info \<Rightarrow> int \<Rightarrow> 'a session_manager_scheme \<Rightarrow> 'a session_manager_scheme" where
  "touched a peer c n =
     updateActivity a (upd_session a (\<lambda>s. s\<lparr>s_peerInfo := Some peer, s_peerMessageCounter := c\<rparr>) n)"

lemma tables_ok_touched [simp]: "tables_ok (touched a peer c n) = tables_ok n"
  by (simp add: touched_def tables_ok_def updateActivity_def upd_session_def)

lemma upd_session_nth:
  "g (f (n_sessions n ! a)) = g (n_sessions n ! a) \<Longrightarrow> g (n_sessions (upd_session a f n) ! b) = g (n_sessions n ! b)"
  by (cases "a < length (n_sessions n)") (auto simp: upd_session_def nth_list_update list_update_beyond)

lemma getSecureSession_upd [simp]:
  assumes "\<And>s. s_peerSessionId (f s) = s_peerSessionId s"
  shows "getSecureSession k (upd_session a f n) = getSecureSession k n"
  using upd_session_nth [of s_peerSessionId f n a] assms
  by (simp add: getSecureSession_def) (simp add: upd_session_def)

lemma getSecureSession_touched [simp]: "getSecureSession k (touched a peer c n) = getSecureSession k n"
  by (simp add: touched_def updateActivity_def)

lemma touched_keys [simp]: "s_keys (n_sessions (touched a peer c n) ! b) = s_keys (n_sessions n ! b)"
  by (simp add: touched_def updateActivity_def upd_session_nth [of s_keys])

lemma touch_session_ok:
  "m_peerInfo msg = Some peer \<Longrightarrow> MessageCounter msg = Inr c \<Longrightarrow> touch_session a msg n = Inr (touched a peer c n)"
  by (simp add: touch_session_def touched_def)

lemma encrypted_datagram:
  assumes "ccm_ok A" and "length key = 16" and "wire_ok w" and "w_flags w = 0" and "w_sec w AND 3 = 0" and "w_sid w \<noteq> 0"
    and "length (w_rest w) < 2 ^ 16 - 14" and "msg_encrypt A (wire_bytes w) key = Inr data"
  shows "msg_decrypt A data key = Inr (Some (wire_bytes w))"
    and "isUnencrypted (new_message_of data e peer) = Inr False"
    and "SessionId (new_message_of data e peer) = Inr (w_sid w)"
    and "SourceNodeId (new_message_of data e peer) = Inr NODE_ID_ANY"
proof -
  have ids: "w_ids w = []" using assms(3,4) by (simp add: wire_ok_def id_size_def)
  have h: "header_size (wire_bytes w) = 8" using wire_header(1) [OF assms(4) ids] .
  have "length (wire_bytes w) < 2 ^ 16" using assms(7) ids by (simp add: length_wire_bytes)
  then have len: "length data = length (wire_bytes w) + 16" and pre: "take 8 data = take 8 (wire_bytes w)"
    and dec: "msg_decrypt A data key = Inr (Some (wire_bytes w))"
    using encrypt_then_decrypt [OF assms(1,2), of "wire_bytes w"] h assms(8) by (auto simp: length_wire_bytes)
  show "msg_decrypt A data key = Inr (Some (wire_bytes w))" by (fact dec)
  have "take 4 data = take 4 (wire_bytes w)" using arg_cong [OF pre, of "take 4"] by simp
  then have c: "take 4 (m_buffer (new_message_of data e peer)) = take 4 (m_buffer (on_wire w new_message))"
    "4 \<le> length (m_buffer (new_message_of data e peer))" "4 \<le> length (m_buffer (on_wire w new_message))"
    using len by (simp_all add: new_message_of_def length_wire_bytes)
  show "isUnencrypted (new_message_of data e peer) = Inr False"
    using clear_header(5) [OF c] wire_isUnencrypted [OF wire_ok_ranges [OF assms(3)], of new_message] assms(6) by simp
  show "SessionId (new_message_of data e peer) = Inr (w_sid w)"
    using clear_header(2) [OF c] wire_get(2) [OF wire_ok_ranges [OF assms(3)], of new_message] by simp
  have "MessageFlags (new_message_of data e peer) = Inr 0"
    using clear_header(1) [OF c] wire_get(1) [OF wire_ok_ranges [OF assms(3)], of new_message] assms(4) by simp
  then show "SourceNodeId (new_message_of data e peer) = Inr NODE_ID_ANY"
    by (simp add: SourceNodeId_def Sflag_def)
qed

lemma onMessage_secured:
  assumes "ccm_ok A" and "wire_ok w" and "w_flags w = 0" and "w_sec w AND 3 = 0" and "w_sid w \<noteq> 0" and "length (w_rest w) < 2 ^ 16 - 14"
    and "getSecureSession (w_sid w) n = Some a" and "s_keys (n_sessions n ! a) = Some ks" and "length (ks ! 0) = 16"
    and "\<not> s_initiator (n_sessions n ! a)" and "msg_encrypt A (wire_bytes w) (ks ! 0) = Inr data"
  shows "onMessage A emit data peer n =
    emit ((new_message_of data (Some data) (Some peer))\<lparr>m_buffer := wire_bytes w\<rparr>) a (touched a peer (w_ctr w) n)"
proof -
  note d = encrypted_datagram [OF assms(1,9,2,3,4,5,6,11)]
  let ?raw = "new_message_of data (Some data) (Some peer)"
  have dec: "decryptMessage A (n_sessions n ! a) ?raw = Inr (?raw\<lparr>m_buffer := wire_bytes w\<rparr>)"
    using d assms(8,10) by (simp add: decryptMessage_def) (simp add: new_message_of_def)
  have "?raw\<lparr>m_buffer := wire_bytes w\<rparr> = on_wire w ?raw" by (simp add: on_wire_def)
  then have t: "touch_session a (?raw\<lparr>m_buffer := wire_bytes w\<rparr>) n = Inr (touched a peer (w_ctr w) n)"
    using wire_get(4) [OF wire_ok_ranges [OF assms(2)], of ?raw]
    by (intro touch_session_ok) (simp_all add: new_message_of_def)
  show ?thesis
    using d(2,3) dec t assms(7) by (simp add: onMessage_def onSecureMessage_def Let_def)
qed

text \<open>
  Reception of a protected datagram: when the secure table has a session for the
  datagram's session id and the datagram was encrypted under that session's
  initiator-to-responder key, the session manager hands its listeners the plaintext message and
  that session, after recording the peer's address and the message counter in it; no other
  session changes.
\<close>

theorem onMessage_secure:
  assumes "ccm_ok A" and "wire_ok w" and "w_flags w = 0" and "w_sec w AND 3 = 0" and "w_sid w \<noteq> 0" and "length (w_rest w) < 2 ^ 16 - 14"
    and "getSecureSession (w_sid w) n = Some a" and "s_keys (n_sessions n ! a) = Some ks" and "length (ks ! 0) = 16"
    and "\<not> s_initiator (n_sessions n ! a)" and "msg_encrypt A (wire_bytes w) (ks ! 0) = Inr data"
  shows "onMessage A emit data peer n =
    emit ((new_message_of data (Some data) (Some peer))\<lparr>m_buffer := wire_bytes w\<rparr>) a (touched a peer (w_ctr w) n)"
  using onMessage_secured [OF assms] .

text \<open>
  (C39) Reception does not depend on authentication: when decryption fails, the listeners get
  the message all the same, with the octets of the datagram, ciphertext included, as its
  content, and the session takes the sender's address for its peer.
\<close>

theorem onSecureMessage_unauthenticated:
  assumes "SessionId (new_message_of buf (Some buf) (Some peer)) = Inr sid"
    and "isUnencrypted (new_message_of buf (Some buf) (Some peer)) = Inr False"
    and "MessageCounter (new_message_of buf (Some buf) (Some peer)) = Inr c"
    and "getSecureSession sid n = Some a" and "s_keys (n_sessions n ! a) = Some ks"
    and "msg_decrypt A buf (ks ! (if s_initiator (n_sessions n ! a) then 1 else 0)) = Inr None"
  shows "onSecureMessage A emit buf peer n =
    emit (new_message_of buf (Some buf) (Some peer)) a (touched a peer c n)"
proof -
  let ?raw = "new_message_of buf (Some buf) (Some peer)"
  have "decryptMessage A (n_sessions n ! a) ?raw = Inr ?raw"
    using assms(2,5,6)
    by (cases "s_initiator (n_sessions n ! a)") (simp_all add: decryptMessage_def new_message_of_def)
  moreover have "touch_session a ?raw n = Inr (touched a peer c n)"
    using assms(3) by (intro touch_session_ok) (simp_all add: new_message_of_def)
  ultimately show ?thesis using assms(1,4) by (simp add: onSecureMessage_def Let_def)
qed

definition demo_manager :: session_manager where
  "demo_manager = \<lparr>n_sessions = [demo_session], n_sent = [], n_random = (\<lambda>i. word_of_nat i), n_drawn = 0, n_now = 5,
     sm_secured = [0], sm_unsecured = [], sm_nextSessionId = 1\<rparr>"

definition demo_peer :: peer_info where
  "demo_peer = \<lparr>pi_address = ''fe80::1'', pi_port = 5541\<rparr>"

definition demo_emit :: "session_manager emitter" where
  "demo_emit = (\<lambda>msg a n. rbind (ProtocolOpcode msg) (\<lambda>c. Inr (n\<lparr>sm_nextSessionId := c\<rparr>)))"

theorem onMessage_secure_witness:
  "\<exists>data. msg_encrypt toy_aead (wire_bytes (demo_wire\<lparr>w_sid := 9\<rparr>)) (replicate 16 1) = Inr data \<and>
    onMessage toy_aead demo_emit data demo_peer demo_manager =
    demo_emit ((new_message_of data (Some data) (Some demo_peer))\<lparr>m_buffer := wire_bytes (demo_wire\<lparr>w_sid := 9\<rparr>)\<rparr>) 0
      (touched 0 demo_peer 0 demo_manager)"
proof -
  let ?w = "demo_wire\<lparr>w_sid := 9\<rparr>"
  have ok: "wire_ok ?w" by (simp add: wire_ok_def wire_ranges_def id_size_def demo_wire_def)
  have "header_size (wire_bytes ?w) = 8" by (rule wire_header) (simp_all add: demo_wire_def)
  then obtain data where d: "msg_encrypt toy_aead (wire_bytes ?w) (replicate 16 1) = Inr data"
    using encrypt_then_decrypt [OF toy_aead_ok, of "replicate 16 1" "wire_bytes ?w"]
    by (auto simp: length_wire_bytes demo_wire_def)
  have g: "getSecureSession (w_sid ?w) demo_manager = Some 0" "s_keys (n_sessions demo_manager ! 0) = Some [replicate 16 1, replicate 16 2, replicate 16 3]"
    "\<not> s_initiator (n_sessions demo_manager ! 0)"
    by (simp_all add: getSecureSession_def demo_manager_def demo_session_def)
  show ?thesis
    using onMessage_secure [OF toy_aead_ok ok _ _ _ _ g(1,2) _ g(3), of data demo_emit demo_peer] d
    by (simp add: demo_wire_def)
qed

lemma le_bytes_0: "le_bytes k 0 = replicate k 0"
  by (induction k) simp_all

theorem onSecureMessage_unauthenticated_witness:
  "onSecureMessage toy_aead demo_emit (header_octets 0 0 9 77 @ replicate 20 0xEE) demo_peer demo_manager =
   demo_emit (new_message_of (header_octets 0 0 9 77 @ replicate 20 0xEE) (Some (header_octets 0 0 9 77 @ replicate 20 0xEE)) (Some demo_peer)) 0
     (touched 0 demo_peer 77 demo_manager)"
proof (rule onSecureMessage_unauthenticated)
  let ?b = "header_octets 0 0 9 77 @ replicate 20 0xEE"
  have h: "header_octets 0 0 9 77 = [0, 9, 0, 0, 77, 0, 0, 0]" by (simp add: header_octets_def numeral_eq_Suc)
  have c: "complete_header (header_octets 0 0 9 77)" by (simp add: h complete_header_def header_size_def octet0_def)
  have n: "getNonce (header_octets 0 0 9 77) 0 = Inr ([0, 77, 0, 0, 0] @ replicate 8 0)"
    using le_bytes_0 [of 8]
    by (simp add: h getNonce_def octet0_def write_uint_le_def subarray_numeral concat_to_def Let_def splice_alloc_full
        del: le_bytes.simps)
  have "msg_decrypt toy_aead (header_octets 0 0 9 77 @ replicate 4 0xEE @ replicate 16 0xEE) (replicate 16 1) = Inr None"
    using msg_decrypt_append [OF c _ n, of "replicate 16 0xEE" toy_aead "replicate 4 0xEE" "replicate 16 1"]
    by (simp add: toy_aead_def)
  then show "msg_decrypt toy_aead ?b ([replicate 16 1, replicate 16 2, replicate 16 3] ! (if s_initiator (n_sessions demo_manager ! 0) then 1 else 0)) = Inr None"
    by (simp add: demo_manager_def demo_session_def replicate_add [symmetric])
  show "SessionId (new_message_of ?b (Some ?b) (Some demo_peer)) = Inr 9"
    "MessageCounter (new_message_of ?b (Some ?b) (Some demo_peer)) = Inr 77"
    "isUnencrypted (new_message_of ?b (Some ?b) (Some demo_peer)) = Inr False"
    by (simp_all add: h new_message_of_def SessionId_def MessageCounter_def isUnencrypted_def SessionType_def SecurityFlags_def
        read_uint_le_def message_consts)
qed (simp_all add: getSecureSession_def demo_manager_def demo_session_def)

lemma test_key_0: "test_keys ! 0 = [0x5e, 0xde, 0xd2, 0x44, 0xe5, 0x53, 0x2b, 0x3c, 0xdc, 0x23, 0x40, 0x9d, 0xba, 0xd0, 0x52, 0xd2]"
  by (simp add: test_keys_def js_string_def hex_digit_def)

lemma test_key_length: "length (test_keys ! 0) = 16"
  by (simp add: test_key_0)

lemma unknown_session_accepted:
  assumes "ccm_ok A" and "wire_ok w" and "w_flags w = 0" and "w_sec w AND 3 = 0" and "w_sid w \<noteq> 0" and "length (w_rest w) < 2 ^ 16 - 14"
    and "tables_ok n" and "getSecureSession (w_sid w) n = None"
    and "msg_encrypt A (wire_bytes w) (test_keys ! 0) = Inr data"
  shows "\<exists>n'. onMessage A emit data peer n =
      emit ((new_message_of data (Some data) (Some peer))\<lparr>m_buffer := wire_bytes w\<rparr>) (length (n_sessions n)) n' \<and>
    getSecureSession (w_sid w) n' = Some (length (n_sessions n)) \<and>
    s_keys (n_sessions n' ! length (n_sessions n)) = Some test_keys"
proof -
  note d = encrypted_datagram [OF assms(1) test_key_length assms(2,3,4,5,6,9)]
  let ?raw = "new_message_of data (Some data) (Some peer)" and ?a = "length (n_sessions n)"
  obtain n1 where n1: "newSession (JNum (w_sid w)) (JNum (w_sid w)) True n = (?a, n1)"
    using newSession_tables(1) by (metis surj_pair)
  obtain s where s: "n_sessions n1 = n_sessions n @ [s]" "s_keys s = Some test_keys" "\<not> s_initiator s"
    using newSession_tables(4) [OF n1] by auto
  have g1: "getSecureSession (w_sid w) n1 = Some ?a"
    using secure_sessions.found_after [OF assms(7,8) n1] .
  let ?n2 = "upd_session ?a (\<lambda>s. s\<lparr>s_peerNodeId := Some NODE_ID_ANY\<rparr>) n1"
  have s2: "s_keys (n_sessions ?n2 ! ?a) = Some test_keys" "\<not> s_initiator (n_sessions ?n2 ! ?a)" "?a < length (n_sessions ?n2)"
    using s by (simp_all add: upd_session_def)
  have dec: "decryptMessage A (n_sessions ?n2 ! ?a) ?raw = Inr (on_wire w ?raw)"
    using d s2 by (simp add: decryptMessage_def on_wire_def) (simp add: new_message_of_def)
  have t: "touch_session ?a (on_wire w ?raw) ?n2 = Inr (touched ?a peer (w_ctr w) ?n2)"
    using wire_get(4) [OF wire_ok_ranges [OF assms(2)], of ?raw]
    by (intro touch_session_ok) (simp_all add: new_message_of_def)
  have "onMessage A emit data peer n = emit (on_wire w ?raw) ?a (touched ?a peer (w_ctr w) ?n2)"
    using d(2,3,4) dec t assms(8) n1 by (simp add: onMessage_def onSecureMessage_def Let_def)
  then show ?thesis using g1 s2 by (auto simp: on_wire_def)
qed

text \<open>
  (C40) A datagram for a session id the node does not know, encrypted under the fixed test key
  of \<open>SessionCryptoContext\<close>, is accepted: the session manager creates a secured session for
  it, decrypts the message with the test key and hands it to its listeners.
\<close>

theorem onMessage_unknown_session:
  assumes "ccm_ok A" and "wire_ok w" and "w_flags w = 0" and "w_sec w AND 3 = 0" and "w_sid w \<noteq> 0" and "length (w_rest w) < 2 ^ 16 - 14"
    and "tables_ok n" and "getSecureSession (w_sid w) n = None"
    and "msg_encrypt A (wire_bytes w) (test_keys ! 0) = Inr data"
  shows "\<exists>n'. onMessage A emit data peer n =
      emit ((new_message_of data (Some data) (Some peer))\<lparr>m_buffer := wire_bytes w\<rparr>) (length (n_sessions n)) n' \<and>
    getSecureSession (w_sid w) n' = Some (length (n_sessions n)) \<and>
    s_keys (n_sessions n' ! length (n_sessions n)) = Some test_keys"
  using assms by (rule unknown_session_accepted)

theorem onMessage_unknown_session_witness:
  "\<exists>data n'. msg_encrypt toy_aead (wire_bytes (demo_wire\<lparr>w_sid := 1\<rparr>)) (test_keys ! 0) = Inr data \<and>
    onMessage toy_aead demo_emit data demo_peer demo_manager =
      demo_emit ((new_message_of data (Some data) (Some demo_peer))\<lparr>m_buffer := wire_bytes (demo_wire\<lparr>w_sid := 1\<rparr>)\<rparr>) 1 n' \<and>
    s_keys (n_sessions n' ! 1) = Some test_keys"
proof -
  let ?w = "demo_wire\<lparr>w_sid := 1\<rparr>"
  have ok: "wire_ok ?w" by (simp add: wire_ok_def wire_ranges_def id_size_def demo_wire_def)
  have "header_size (wire_bytes ?w) = 8" by (rule wire_header) (simp_all add: demo_wire_def)
  then obtain data where d: "msg_encrypt toy_aead (wire_bytes ?w) (test_keys ! 0) = Inr data"
    using encrypt_then_decrypt [OF toy_aead_ok, of "test_keys ! 0" "wire_bytes ?w"]
    by (auto simp: length_wire_bytes demo_wire_def test_key_0)
  have t: "tables_ok demo_manager" "getSecureSession (w_sid ?w) demo_manager = None"
    by (simp_all add: tables_ok_def getSecureSession_def demo_manager_def demo_session_def)
  show ?thesis
    using onMessage_unknown_session [OF toy_aead_ok ok _ _ _ _ t d, of demo_emit demo_peer] d
    by (auto simp: test_key_0 demo_wire_def demo_manager_def)
qed

text \<open>
  Sessions are looked up by the peer's session id although a datagram carries the
  receiver's: a session made with different ids for the two sides, as PASE makes them, is not
  found under its local id.
\<close>

theorem local_session_id_not_found:
  assumes "tables_ok n" and "getSecureSession l n = None" and "l \<noteq> p"
    and "newSession (JNum l) (JNum p) True n = (a, n')"
  shows "getSecureSession l n' = None \<and> s_localSessionId (n_sessions n' ! a) = JNum l"
  using getSecureSession_newSession [OF assms(1,4)] newSession_tables(1,4) [OF assms(4)] assms(2,3) by auto

theorem local_session_id_not_found_witness:
  "\<exists>n'. newSession (JNum 11) (JNum 12) True demo_manager = (1, n') \<and> getSecureSession 11 n' = None \<and>
     s_localSessionId (n_sessions n' ! 1) = JNum 11"
proof -
  obtain a n' where n: "newSession (JNum 11) (JNum 12) True demo_manager = (a, n')" by (cases "newSession (JNum 11) (JNum 12) True demo_manager")
  moreover have "tables_ok demo_manager" "getSecureSession 11 demo_manager = None"
    by (simp_all add: tables_ok_def getSecureSession_def demo_manager_def demo_session_def)
  moreover have "a = 1" using newSession_tables(1) [OF n] by (simp add: demo_manager_def)
  ultimately show ?thesis using local_session_id_not_found [OF _ _ _ n] by simp
qed

end
