(* ===== verification/Exchange.thy ===== *)
theory Exchange
  imports Session_Manager
begin

text \<open>
  \<open>src/message/Exchange.js\<close> and \<open>src/message/ExchangeManager.js\<close>: conversations over a
  session, the match of a message with one of them, and the dispatch to its listeners or to the
  protocol that answers unsolicited messages. Exchanges are shared objects like sessions and
  sit in the store \<open>x_exchanges\<close>. The listeners are the argument \<open>handlers\<close>: of the
  event \<open>message\<close> of an exchange, and of the event named by a protocol id of the manager.
\<close>

section \<open>Exchanges\<close>

text \<open>\<open>_exchangeAcl\<close>, \<open>_dispatch\<close>, \<open>_responseTimeout\<close> and the delegate are never read.\<close>

record exchange =
  e_session :: nat
  e_exchangeId :: int
  e_isInitiator :: bool
  e_isReliable :: bool
  e_isAck :: bool
  e_ackCounter :: int

record exchange_manager = session_manager +
  x_exchanges :: "exchange list"
  x_table :: "nat list"
  x_nextExchangeId :: int

record 's handlers =
  h_exchange :: "nat \<Rightarrow> message \<Rightarrow> 's \<Rightarrow> 's result"
  h_protocol :: "int \<Rightarrow> message \<Rightarrow> nat \<Rightarrow> 's \<Rightarrow> 's result"

definition new_exchange :: "int \<Rightarrow> nat \<Rightarrow> bool \<Rightarrow> exchange" where
  "new_exchange exchangeId session isInitiator =
     \<lparr>e_session = session, e_exchangeId = exchangeId, e_isInitiator = isInitiator, e_isReliable = False,
      e_isAck = False, e_ackCounter = 0\<rparr>"

definition upd_exchange :: "nat \<Rightarrow> (exchange \<Rightarrow> exchange) \<Rightarrow> 'a exchange_manager_scheme \<Rightarrow> 'a exchange_manager_scheme" where
  "upd_exchange x f n = n\<lparr>x_exchanges := (x_exchanges n)[x := f (x_exchanges n ! x)]\<rparr>"

text \<open>\<open>match\<close>: the conjuncts in order, each read of the message may throw.\<close>

definition exchange_match :: "nat \<Rightarrow> message \<Rightarrow> 'a exchange_manager_scheme \<Rightarrow> nat \<Rightarrow> bool result" where
  "exchange_match session msg n x =
     (let e = x_exchanges n ! x
      in rbind (ExchangeId msg) (\<lambda>i.
         if i \<noteq> e_exchangeId e then Inr False
         else rbind (SessionId msg) (\<lambda>sid.
           if JNum sid \<noteq> s_localSessionId (n_sessions n ! e_session e) then Inr False
           else rbind (Iflag msg) (\<lambda>f.
             if f = e_isInitiator e then Inr False else Inr (session = e_session e)))))"

definition exchange_sendMessage ::
  "aead \<Rightarrow> nat \<Rightarrow> message \<Rightarrow> 'a exchange_manager_scheme \<Rightarrow> (message \<times> 'a exchange_manager_scheme) result" where
  "exchange_sendMessage A x msg n =
     (let e = x_exchanges n ! x
      in rbind (set_ExchangeId (e_exchangeId e) msg) (\<lambda>msg.
         rbind (set_ExchangeFlags 0 msg) (\<lambda>msg.
         rbind (set_Iflag (e_isInitiator e) msg) (\<lambda>msg.
         rbind (set_Rflag (e_isReliable e) msg) (\<lambda>msg.
         rbind (if e_isAck e then rbind (set_Aflag True msg) (set_AckCounter (e_ackCounter e)) else Inr msg) (\<lambda>msg.
         rbind (SessionId msg) (\<lambda>_. session_sendMessage A (e_session e) msg n)))))))"

definition sendAck ::
  "aead \<Rightarrow> nat \<Rightarrow> 'a exchange_manager_scheme \<Rightarrow> (message \<times> 'a exchange_manager_scheme) result" where
  "sendAck A x n =
     (let e = x_exchanges n ! x
      in rbind (set_ExchangeId (e_exchangeId e) new_message) (\<lambda>ack.
         rbind (set_ExchangeFlags 0 ack) (\<lambda>ack.
         rbind (set_Aflag True ack) (\<lambda>ack.
         rbind (set_AckCounter (e_ackCounter e) ack) (\<lambda>ack.
         rbind (set_Iflag (e_isInitiator e) ack) (\<lambda>ack.
           session_sendMessage A (e_session e) ack n))))))"

section \<open>The exchange manager\<close>

definition getExchange :: "nat \<Rightarrow> message \<Rightarrow> 'a exchange_manager_scheme \<Rightarrow> nat option result" where
  "getExchange session msg n = rfind (exchange_match session msg n) (x_table n)"

definition newExchange ::
  "nat option \<Rightarrow> message option \<Rightarrow> bool \<Rightarrow> 'a exchange_manager_scheme \<Rightarrow> (nat \<times> 'a exchange_manager_scheme) result" where
  "newExchange session msg isInitiator n =
     (case (case session of Some a \<Rightarrow> (a, n) | None \<Rightarrow> newUnsecuredSession n) of (a, n) \<Rightarrow>
        rbind (case msg of
            Some m \<Rightarrow> rmap (\<lambda>i. (i, n)) (ExchangeId m)
          | None \<Rightarrow> Inr (x_nextExchangeId n, n\<lparr>x_nextExchangeId := x_nextExchangeId n + 1\<rparr>)) (\<lambda>(exchangeId, n).
          let x = length (x_exchanges n)
          in Inr (x, n\<lparr>x_exchanges := x_exchanges n @ [new_exchange exchangeId a isInitiator],
                       x_table := x_table n @ [x]\<rparr>)))"

text \<open>
  \<open>deleteExchange\<close> compares \<open>ex.ExchangeId\<close>, a property no exchange has: \<open>undefined\<close>
  equals \<open>undefined\<close>, so \<open>findIndex\<close> gives \<open>0\<close> on any table but the empty one
  (\<open>-1\<close>, where \<open>splice\<close> removes nothing).
\<close>

definition deleteExchange :: "nat \<Rightarrow> 'a exchange_manager_scheme \<Rightarrow> 'a exchange_manager_scheme" where
  "deleteExchange x n = n\<lparr>x_table := (case x_table n of [] \<Rightarrow> [] | _ # xs \<Rightarrow> xs)\<rparr>"

definition onSessionMessage ::
  "'a exchange_manager_scheme handlers \<Rightarrow> message \<Rightarrow> nat \<Rightarrow> 'a exchange_manager_scheme \<Rightarrow>
   'a exchange_manager_scheme result" where
  "onSessionMessage H msg session n =
     rbind (SessionId msg) (\<lambda>_. rbind (ExchangeId msg) (\<lambda>_. rbind (Iflag msg) (\<lambda>i.
     rbind (getExchange session msg n) (\<lambda>found.
     case found of
       Some x \<Rightarrow>
         rbind (MessageCounter msg) (\<lambda>c.
           h_exchange H x (msg\<lparr>m_exchange := Some x\<rparr>) (upd_exchange x (\<lambda>e. e\<lparr>e_ackCounter := c\<rparr>) n))
     | None \<Rightarrow>
         if i then
           rbind (ProtocolId msg) (\<lambda>pid.
           rbind (newExchange (Some session) (Some msg) True n) (\<lambda>(x, n).
           rbind (Rflag msg) (\<lambda>r.
           rbind (MessageCounter msg) (\<lambda>c.
             h_protocol H pid (msg\<lparr>m_exchange := Some x\<rparr>) x
               (upd_exchange x (\<lambda>e. e\<lparr>e_isInitiator := \<not> i, e_isReliable := r, e_isAck := r, e_ackCounter := c\<rparr>) n)))))
         else Inr n))))"

definition onUnsecuredMessage ::
  "'a exchange_manager_scheme handlers \<Rightarrow> message \<Rightarrow> nat \<Rightarrow> 'a exchange_manager_scheme \<Rightarrow>
   'a exchange_manager_scheme result" where
  "onUnsecuredMessage H msg session n = onSessionMessage H msg session n"

section \<open>Messages as the protocols build them\<close>

definition zero_wire :: wire where
  "zero_wire = \<lparr>w_flags = 0, w_sid = 0, w_sec = 0, w_ctr = 0, w_ids = [], w_xflags = 0, w_opcode = 0, w_xid = 0,
     w_pid = 0, w_rest = []\<rparr>"

lemma zero_wire_ok [simp]: "wire_ok zero_wire"
  by (simp add: zero_wire_def wire_ok_def wire_ranges_def id_size_def)

lemma new_message_wire: "new_message = on_wire zero_wire new_message"
proof -
  have "wire_bytes zero_wire = buf_alloc 14"
    by (simp add: wire_bytes_def zero_wire_def header_octets_def protocol_octets_def le_bytes_0 buf_alloc_def)
      (simp add: eval_nat_numeral)
  then show ?thesis by (simp add: on_wire_def new_message_def new_message_of_def message_consts)
qed

lemma append_AppPayload_wire: "append_AppPayload b (on_wire w m) = on_wire (w\<lparr>w_rest := w_rest w @ b\<rparr>) m"
  by (simp add: append_AppPayload_def on_wire_def wire_bytes_def)

text \<open>The flags of a message on an exchange, and the message it becomes.\<close>

definition exchange_flags :: "exchange \<Rightarrow> int" where
  "exchange_flags e = (if e_isInitiator e then 1 else 0) + (if e_isReliable e then 4 else 0) + (if e_isAck e then 2 else 0)"

definition on_exchange :: "exchange \<Rightarrow> wire \<Rightarrow> wire" where
  "on_exchange e w = w\<lparr>w_xid := e_exchangeId e, w_xflags := exchange_flags e,
     w_rest := (if e_isAck e then le_bytes 4 (e_ackCounter e) else []) @ w_rest w\<rparr>"

definition exchange_ok :: "exchange \<Rightarrow> bool" where
  "exchange_ok e \<longleftrightarrow> 0 \<le> e_exchangeId e \<and> e_exchangeId e < 2 ^ 16 \<and> 0 \<le> e_ackCounter e \<and> e_ackCounter e < 2 ^ 32"

lemma wire_ok_on_exchange: "wire_ok w \<Longrightarrow> exchange_ok e \<Longrightarrow> wire_ok (on_exchange e w)"
  by (auto simp: wire_ok_def wire_ranges_def on_exchange_def exchange_ok_def exchange_flags_def)

lemma exchange_sendMessage_wire:
  assumes "wire_ok w" and "exchange_ok (x_exchanges n ! x)"
  shows "exchange_sendMessage A x (on_wire w m) n =
    session_sendMessage A (e_session (x_exchanges n ! x)) (on_wire (on_exchange (x_exchanges n ! x) w) m) n"
proof -
  let ?e = "x_exchanges n ! x"
  define i r where "i = e_isInitiator ?e" and "r = e_isReliable ?e"
  let ?w1 = "w\<lparr>w_xid := e_exchangeId ?e\<rparr>"
  let ?w2 = "?w1\<lparr>w_xflags := 0\<rparr>"
  let ?w3 = "?w1\<lparr>w_xflags := if i then 1 else 0\<rparr>"
  let ?w4 = "?w1\<lparr>w_xflags := (if i then 1 else 0) + (if r then 4 else 0)\<rparr>"
  let ?w5 = "?w1\<lparr>w_xflags := (if i then 1 else 0) + (if r then 4 else 0) + 2\<rparr>"
  have id: "0 \<le> e_exchangeId ?e" "e_exchangeId ?e < 2 ^ 16" using assms(2) by (simp_all add: exchange_ok_def)
  have ok: "wire_ok ?w1" "wire_ok ?w2" "wire_ok ?w3" "wire_ok ?w4" "wire_ok ?w5"
    using assms id by (simp_all add: wire_ok_def wire_ranges_def)
  have s1: "set_ExchangeId (e_exchangeId ?e) (on_wire w m) = Inr (on_wire ?w1 m)" using wire_exchange_put(3) [OF assms(1) id] .
  have s2: "set_ExchangeFlags 0 (on_wire ?w1 m) = Inr (on_wire ?w2 m)" using wire_exchange_put(1) [OF ok(1)] by simp
  have s3: "set_Iflag i (on_wire ?w2 m) = Inr (on_wire ?w3 m)"
    using wire_set_exchange_flag [OF ok(2), of 1 i m] by (simp add: set_Iflag_def)
  have s4: "set_Rflag r (on_wire ?w3 m) = Inr (on_wire ?w4 m)"
    using wire_set_exchange_flag [OF ok(3), of 4 r m] by (cases i; cases r) (simp_all add: set_Rflag_def)
  have s5: "set_Aflag True (on_wire ?w4 m) = Inr (on_wire ?w5 m)"
    using wire_set_exchange_flag [OF ok(4), of 2 True m] by (cases i; cases r) (simp_all add: set_Aflag_def)
  have s6: "set_AckCounter (e_ackCounter ?e) (on_wire ?w5 m) = Inr (on_wire (?w5\<lparr>w_rest := le_bytes 4 (e_ackCounter ?e) @ w_rest w\<rparr>) m)"
    using wire_AckCounter [OF ok(5), of "e_ackCounter ?e" m] assms(2)
    by (cases i; cases r) (simp_all add: exchange_ok_def)
  have sid: "\<exists>v. SessionId (on_wire (on_exchange ?e w) m) = Inr v"
    using wire_get(2) [OF wire_ok_ranges [OF wire_ok_on_exchange [OF assms]]] by blast
  show ?thesis
    using s1 s2 s3 s4 s5 s6 sid
    by (auto simp: exchange_sendMessage_def Let_def i_def [symmetric] r_def [symmetric] on_exchange_def exchange_flags_def)
qed

section \<open>Properties of exchanges\<close>

text \<open>
  What goes on the wire: a message sent on an exchange over a session with a peer node
  id, unsecured, is the datagram that carries the exchange's id, its initiator and reliability
  flags, the acknowledgement of the last message received when the exchange acknowledges, the
  session's next counter and the peer as destination (as source when the exchange is the
  initiator).
\<close>

theorem exchange_send_unsecured:
  assumes "e = x_exchanges n ! x" and "exchange_ok e" and "a = e_session e" and "a < length (n_sessions n)"
    and "can_send (n_sessions n ! a) 0" and "s_peerNodeId (n_sessions n ! a) = Some v" and "0 < v" and "v < 2 ^ 64"
    and "s_peerInfo (n_sessions n ! a) = Some p" and "wire_ok w" and "w_flags w = 0"
    and "\<not> m_hasSource m" and "\<not> m_hasDestination m"
  shows "\<exists>msg n'. exchange_sendMessage A x (on_wire w m) n = Inr (msg, n') \<and>
    n_sent n' = n_sent n @ [\<lparr>p_transport = s_transport (n_sessions n ! a),
      p_data = wire_bytes ((if e_isInitiator e then with_source v else with_destination v)
        (header_of 0 (s_messageCounter (n_sessions n ! a)) (on_exchange e w))),
      p_port = pi_port p, p_host = pi_address p\<rparr>]"
proof -
  have ok: "wire_ok (on_exchange e w)" using wire_ok_on_exchange [OF assms(10,2)] .
  have ids: "w_ids (on_exchange e w) = []" using assms(10,11) by (simp add: wire_ok_def id_size_def on_exchange_def)
  have i: "w_xflags (on_exchange e w) AND 0x01 \<noteq> 0 \<longleftrightarrow> e_isInitiator e"
    by (simp add: on_exchange_def exchange_flags_def)
  obtain msg where "session_sendMessage A a (on_wire (on_exchange e w) m) n =
      Inr (msg, transport_send (s_transport (n_sessions n ! a))
        (wire_bytes ((if e_isInitiator e then with_source v else with_destination v)
          (header_of 0 (s_messageCounter (n_sessions n ! a)) (on_exchange e w)))) (pi_port p) (pi_address p) (upd_session a counted n))"
    using send_unsecured_wire [OF assms(4-9) wire_ok_ranges [OF ok] ids assms(12,13) refl, of A] i by auto
  then show ?thesis
    using exchange_sendMessage_wire [OF assms(10), of n x A m] assms(1,2,3) by simp
qed

definition demo_exchanges :: exchange_manager where
  "demo_exchanges = \<lparr>n_sessions = [demo_session\<lparr>s_peerSessionId := JNum 0, s_localSessionId := JNum 0, s_keys := None,
       s_peerNodeId := Some 0xABCD\<rparr>],
     n_sent = [], n_random = (\<lambda>i. word_of_nat i), n_drawn = 0, n_now = 5,
     sm_secured = [], sm_unsecured = [0], sm_nextSessionId = 1,
     x_exchanges = [\<lparr>e_session = 0, e_exchangeId = 6, e_isInitiator = False, e_isReliable = True, e_isAck = True, e_ackCounter = 300\<rparr>],
     x_table = [0], x_nextExchangeId = 0\<rparr>"

theorem exchange_send_unsecured_witness:
  "\<exists>msg n'. exchange_sendMessage toy_aead 0 (on_wire demo_wire new_message) demo_exchanges = Inr (msg, n') \<and>
    n_sent n' = [\<lparr>p_transport = Server,
      p_data = wire_bytes (with_destination 0xABCD (header_of 0 41 (on_exchange (x_exchanges demo_exchanges ! 0) demo_wire))),
      p_port = 5540, p_host = ''::1''\<rparr>]"
  using exchange_send_unsecured [OF refl _ refl, where n = demo_exchanges and x = 0 and v = "0xABCD"
      and p = "\<lparr>pi_address = ''::1'', pi_port = 5540\<rparr>" and w = demo_wire and m = new_message and A = toy_aead]
  by (simp add: demo_exchanges_def demo_session_def exchange_ok_def can_send_def demo_wire_def wire_ok_def wire_ranges_def
      id_size_def new_message_def new_message_of_def)

lemma upd_exchange_fields [simp]:
  "n_sessions (upd_exchange x f n) = n_sessions n" "x_table (upd_exchange x f n) = x_table n"
  "length (x_exchanges (upd_exchange x f n)) = length (x_exchanges n)"
  by (simp_all add: upd_exchange_def)

lemma exchange_match_wire:
  assumes "wire_ok w"
  shows "exchange_match a (on_wire w m) n x = Inr
    (let e = x_exchanges n ! x
     in w_xid w = e_exchangeId e \<and> JNum (w_sid w) = s_localSessionId (n_sessions n ! e_session e) \<and>
        (w_xflags w AND 0x01 \<noteq> 0) \<noteq> e_isInitiator e \<and> a = e_session e)"
  using wire_exchange_get(3) [OF assms, of m] wire_get(2) [OF wire_ok_ranges [OF assms], of m]
    wire_exchange_flag(2) [OF assms, of m]
  by (auto simp: exchange_match_def Let_def)

definition exchanges_ok :: "'a exchange_manager_scheme \<Rightarrow> bool" where
  "exchanges_ok n \<longleftrightarrow> tables_ok n \<and> (\<forall>x \<in> set (x_table n). x < length (x_exchanges n)) \<and> distinct (x_table n) \<and>
     (\<forall>e \<in> set (x_exchanges n). e_session e < length (n_sessions n))"

definition accepted :: "wire \<Rightarrow> nat \<Rightarrow> 'a exchange_manager_scheme \<Rightarrow> 'a exchange_manager_scheme" where
  "accepted w a n = n\<lparr>x_table := x_table n @ [length (x_exchanges n)],
     x_exchanges := x_exchanges n @
     [\<lparr>e_session = a, e_exchangeId = w_xid w, e_isInitiator = False, e_isReliable = (w_xflags w AND 0x04 \<noteq> 0),
       e_isAck = (w_xflags w AND 0x04 \<noteq> 0), e_ackCounter = w_ctr w\<rparr>]\<rparr>"

lemma onSessionMessage_new:
  assumes "wire_ok w" and "w_xflags w AND 0x01 \<noteq> 0" and "getExchange a (on_wire w m) n = Inr None"
  shows "onSessionMessage H (on_wire w m) a n =
    h_protocol H (w_pid w) ((on_wire w m)\<lparr>m_exchange := Some (length (x_exchanges n))\<rparr>) (length (x_exchanges n)) (accepted w a n)"
  using assms wire_get [OF wire_ok_ranges [OF assms(1)], of m] wire_exchange_get [OF assms(1), of m]
    wire_exchange_flag(2-4) [OF assms(1), of m]
  by (simp add: onSessionMessage_def newExchange_def new_exchange_def upd_exchange_def accepted_def Let_def)

lemma accepted_fields [simp]:
  "n_sessions (accepted w a n) = n_sessions n" "x_table (accepted w a n) = x_table n @ [length (x_exchanges n)]"
  by (simp_all add: accepted_def)

lemma accepted_nth:
  "y < length (x_exchanges n) \<Longrightarrow> x_exchanges (accepted w a n) ! y = x_exchanges n ! y"
  "x_exchanges (accepted w a n) ! length (x_exchanges n) =
     \<lparr>e_session = a, e_exchangeId = w_xid w, e_isInitiator = False, e_isReliable = (w_xflags w AND 0x04 \<noteq> 0),
       e_isAck = (w_xflags w AND 0x04 \<noteq> 0), e_ackCounter = w_ctr w\<rparr>"
  by (simp_all add: accepted_def nth_append)

lemma exchanges_ok_accepted: "exchanges_ok n \<Longrightarrow> a < length (n_sessions n) \<Longrightarrow> exchanges_ok (accepted w a n)"
  by (auto simp: exchanges_ok_def accepted_def tables_ok_def intro: less_SucI)

lemma getExchange_accepted:
  assumes "exchanges_ok n" and "wire_ok w" and "wire_ok w'" and "w_xflags w AND 0x01 \<noteq> 0"
    and "getExchange a (on_wire w m) n = Inr None" and "s_localSessionId (n_sessions n ! a) = JNum (w_sid w)"
    and "w_xid w' = w_xid w" and "w_sid w' = w_sid w" and "w_xflags w' AND 0x01 \<noteq> 0"
  shows "getExchange a (on_wire w' m') (accepted w a n) = Inr (Some (length (x_exchanges n)))"
proof -
  have "exchange_match a (on_wire w' m') (accepted w a n) y = Inr False" if "y \<in> set (x_table n)" for y
  proof -
    have "exchange_match a (on_wire w m) n y = Inr False"
      using assms(5) that by (simp add: getExchange_def rfind_None)
    moreover have "y < length (x_exchanges n)" using assms(1) that by (simp add: exchanges_ok_def)
    ultimately show ?thesis
      using assms(4,7-9) by (auto simp: exchange_match_wire [OF assms(2)] exchange_match_wire [OF assms(3)] accepted_nth Let_def)
  qed
  then have "rfind (exchange_match a (on_wire w' m') (accepted w a n)) (x_table n) = Inr None"
    by (simp add: rfind_None)
  then show ?thesis
    using assms(6-9) by (simp add: getExchange_def rfind_append exchange_match_wire [OF assms(3)] accepted_nth Let_def)
qed

text \<open>
  (C25) Conversations: an initiator's message that belongs to no exchange reaches the handler of
  its protocol together with a new exchange that is a responder, acknowledges the message when
  it asked for that, and from then on receives every later message of the initiator with the
  same exchange id on the session.
\<close>

theorem conversation_starts:
  assumes "exchanges_ok n" and "wire_ok w" and "w_xflags w AND 0x01 \<noteq> 0"
    and "getExchange a (on_wire w m) n = Inr None" and "s_localSessionId (n_sessions n ! a) = JNum (w_sid w)"
    and "wire_ok w'" and "w_xid w' = w_xid w" and "w_sid w' = w_sid w" and "w_xflags w' AND 0x01 \<noteq> 0"
  shows "\<exists>x n'. onSessionMessage H (on_wire w m) a n = h_protocol H (w_pid w) ((on_wire w m)\<lparr>m_exchange := Some x\<rparr>) x n' \<and>
    e_isInitiator (x_exchanges n' ! x) = False \<and> e_isAck (x_exchanges n' ! x) = (w_xflags w AND 0x04 \<noteq> 0) \<and>
    e_ackCounter (x_exchanges n' ! x) = w_ctr w \<and>
    onSessionMessage H (on_wire w' m') a n' =
      h_exchange H x ((on_wire w' m')\<lparr>m_exchange := Some x\<rparr>) (upd_exchange x (\<lambda>e. e\<lparr>e_ackCounter := w_ctr w'\<rparr>) n')"
proof -
  let ?x = "length (x_exchanges n)" and ?n = "accepted w a n"
  have "getExchange a (on_wire w' m') ?n = Inr (Some ?x)"
    using getExchange_accepted [OF assms(1,2,6,3,4,5,7,8,9)] .
  then have "onSessionMessage H (on_wire w' m') a ?n =
      h_exchange H ?x ((on_wire w' m')\<lparr>m_exchange := Some ?x\<rparr>) (upd_exchange ?x (\<lambda>e. e\<lparr>e_ackCounter := w_ctr w'\<rparr>) ?n)"
    using wire_get [OF wire_ok_ranges [OF assms(6)], of m'] wire_exchange_get(3) [OF assms(6), of m']
      wire_exchange_flag(2) [OF assms(6), of m'] by (simp add: onSessionMessage_def)
  then show ?thesis
    using onSessionMessage_new [OF assms(2,3,4), of H] accepted_nth(2) [of w a n]
    by (intro exI [of _ ?x] exI [of _ ?n]) simp
qed

definition demo_handlers :: "exchange_manager handlers" where
  "demo_handlers = \<lparr>h_exchange = (\<lambda>x m n. Inr n), h_protocol = (\<lambda>p m x n. Inr n)\<rparr>"

theorem conversation_starts_witness:
  "\<exists>x n'. onSessionMessage demo_handlers (on_wire demo_wire new_message) 0 demo_exchanges = Inr n' \<and>
    onSessionMessage demo_handlers (on_wire (demo_wire\<lparr>w_ctr := 8\<rparr>) new_message) 0 n' =
      Inr (upd_exchange x (\<lambda>e. e\<lparr>e_ackCounter := 8\<rparr>) n')"
proof -
  have w: "wire_ok demo_wire" "wire_ok (demo_wire\<lparr>w_ctr := 8\<rparr>)"
    by (simp_all add: demo_wire_def wire_ok_def wire_ranges_def id_size_def)
  have ok: "exchanges_ok demo_exchanges"
    by (simp add: exchanges_ok_def tables_ok_def demo_exchanges_def)
  have g: "getExchange 0 (on_wire demo_wire new_message) demo_exchanges = Inr None"
    by (simp add: getExchange_def exchange_match_wire [OF w(1)] Let_def demo_exchanges_def)
      (simp add: demo_wire_def)
  have f: "w_xflags demo_wire AND 0x01 \<noteq> 0" "s_localSessionId (n_sessions demo_exchanges ! 0) = JNum (w_sid demo_wire)"
    by (simp_all add: demo_wire_def demo_exchanges_def)
  show ?thesis
    using conversation_starts [OF ok w(1) f(1) g f(2) w(2), of demo_handlers new_message]
    by (auto simp: demo_handlers_def demo_wire_def)
qed

text \<open>
  A responder's message that belongs to no exchange is dropped: nothing is dispatched and
  the state stays.
\<close>

theorem stray_response_dropped:
  assumes "wire_ok w" and "w_xflags w AND 0x01 = 0" and "getExchange a (on_wire w m) n = Inr None"
  shows "onSessionMessage H (on_wire w m) a n = Inr n"
  using assms wire_get(2) [OF wire_ok_ranges [OF assms(1)], of m] wire_exchange_get(3) [OF assms(1), of m]
    wire_exchange_flag(2) [OF assms(1), of m] by (simp add: onSessionMessage_def)

theorem stray_response_dropped_witness:
  "onSessionMessage demo_handlers (on_wire zero_wire new_message) 0 (demo_exchanges\<lparr>x_table := []\<rparr>) = Inr (demo_exchanges\<lparr>x_table := []\<rparr>)"
  by (rule stray_response_dropped) (simp_all add: zero_wire_def getExchange_def wire_ok_def wire_ranges_def id_size_def)

text \<open>
  \<open>deleteExchange\<close> does not look at its argument: it takes the oldest exchange out of
  the table, whichever was to be deleted.
\<close>

theorem deleteExchange_removes_oldest:
  "deleteExchange x n = n\<lparr>x_table := tl (x_table n)\<rparr> \<and> deleteExchange x n = deleteExchange y n"
  by (cases "x_table n") (simp_all add: deleteExchange_def)

end
