(* ===== verification/Status_Report.thy ===== *)
theory Status_Report
  imports Exchange Tlv_Roundtrip
begin

text \<open>
  \<open>src/protocols/session/SessionProtocolConst.js\<close> and \<open>StatusReport.js\<close>: the numbers of
  the secure channel protocol and the status report message.
\<close>

section \<open>Constants\<close>

definition SESSION_PROTOCOL_ID :: int where "SESSION_PROTOCOL_ID = 0x0000"

definition Command_MsgCounterSyncReq :: int where "Command_MsgCounterSyncReq = 0x00"
definition Command_MsgCounterSyncRsp :: int where "Command_MsgCounterSyncRsp = 0x01"
definition Command_MrpStandaloneAck :: int where "Command_MrpStandaloneAck = 0x10"
definition Command_StatusReport :: int where "Command_StatusReport = 0x40"

definition PaseCommand_ParamRequest :: int where "PaseCommand_ParamRequest = 0x20"
definition PaseCommand_ParamResponse :: int where "PaseCommand_ParamResponse = 0x21"
definition PaseCommand_Pake1 :: int where "PaseCommand_Pake1 = 0x22"
definition PaseCommand_Pake2 :: int where "PaseCommand_Pake2 = 0x23"
definition PaseCommand_Pake3 :: int where "PaseCommand_Pake3 = 0x24"
definition PaseCommand_PakeError :: int where "PaseCommand_PakeError = 0x2F"

definition CaseCommand_Sigma1 :: int where "CaseCommand_Sigma1 = 0x30"
definition CaseCommand_Sigma2 :: int where "CaseCommand_Sigma2 = 0x31"
definition CaseCommand_Sigma3 :: int where "CaseCommand_Sigma3 = 0x32"
definition CaseCommand_Sigma2_Resume :: int where "CaseCommand_Sigma2_Resume = 0x33"

definition SESSION_ESTABLISHMENT_SUCCESS :: int where "SESSION_ESTABLISHMENT_SUCCESS = 0x0000"
definition NO_SHARED_TRUST_ROOTS :: int where "NO_SHARED_TRUST_ROOTS = 0x0001"
definition INVALID_PARAMETER :: int where "INVALID_PARAMETER = 0x0002"
definition CLOSE_SESSION :: int where "CLOSE_SESSION = 0x0003"
definition STATUS_BUSY :: int where "STATUS_BUSY = 0x0004"
definition SESSION_NOT_FOUND :: int where "SESSION_NOT_FOUND = 0x0005"

lemmas session_consts = SESSION_PROTOCOL_ID_def Command_MrpStandaloneAck_def Command_StatusReport_def
  PaseCommand_ParamRequest_def PaseCommand_ParamResponse_def PaseCommand_Pake1_def PaseCommand_Pake2_def
  PaseCommand_Pake3_def PaseCommand_PakeError_def CaseCommand_Sigma1_def SESSION_ESTABLISHMENT_SUCCESS_def

datatype GeneralCode =
  SUCCESS | FAILURE | BAD_PRECONDITION | OUT_OF_RANGE | BAD_REQUEST | UNSUPPORTED | UNEXPECTED
| RESOURCE_EXHAUSTED | BUSY | TIMEOUT | CONTINUE | ABORTED | INVALID_ARGUMENT | NOT_FOUND
| ALREADY_EXISTS | PERMISSION_DENIED | DATA_LOSS

fun general_code :: "GeneralCode \<Rightarrow> int" where
  "general_code SUCCESS = 0"
| "general_code FAILURE = 1"
| "general_code BAD_PRECONDITION = 2"
| "general_code OUT_OF_RANGE = 3"
| "general_code BAD_REQUEST = 4"
| "general_code UNSUPPORTED = 5"
| "general_code UNEXPECTED = 6"
| "general_code RESOURCE_EXHAUSTED = 7"
| "general_code BUSY = 8"
| "general_code TIMEOUT = 9"
| "general_code CONTINUE = 10"
| "general_code ABORTED = 11"
| "general_code INVALID_ARGUMENT = 12"
| "general_code NOT_FOUND = 13"
| "general_code ALREADY_EXISTS = 14"
| "general_code PERMISSION_DENIED = 15"
| "general_code DATA_LOSS = 16"

section \<open>Sending\<close>

text \<open>
  A new message with protocol, opcode and payload, the first lines of every sender of the
  protocols, sent on an exchange.
\<close>

definition protocol_message :: "int \<Rightarrow> int \<Rightarrow> buffer \<Rightarrow> message result" where
  "protocol_message protocolId opcode payload =
     rbind (set_ProtocolId protocolId new_message) (\<lambda>msg.
     rbind (set_ProtocolOpcode opcode msg) (\<lambda>msg.
       Inr (append_AppPayload payload msg)))"

definition send_protocol ::
  "aead \<Rightarrow> nat \<Rightarrow> int \<Rightarrow> int \<Rightarrow> buffer \<Rightarrow> 'a exchange_manager_scheme \<Rightarrow> 'a exchange_manager_scheme result" where
  "send_protocol A x protocolId opcode payload n =
     rbind (protocol_message protocolId opcode payload) (\<lambda>msg.
       rmap snd (exchange_sendMessage A x msg n))"

definition status_send :: "aead \<Rightarrow> nat \<Rightarrow> buffer \<Rightarrow> 'a exchange_manager_scheme \<Rightarrow> 'a exchange_manager_scheme result" where
  "status_send A x payload n = send_protocol A x SESSION_PROTOCOL_ID Command_StatusReport payload n"

text \<open>All three writes have no offset argument and go to offset 0.\<close>

definition status_payload :: "int \<Rightarrow> int \<Rightarrow> int \<Rightarrow> buffer option \<Rightarrow> buffer result" where
  "status_payload generalCode protocolId protocolCode protocolData =
     rbind (write_uint_le 2 generalCode 0 (buf_alloc 8)) (\<lambda>payload.
     rbind (write_uint_le 4 protocolId 0 payload) (\<lambda>payload.
     rbind (write_uint_le 2 protocolCode 0 payload) (\<lambda>payload.
       Inr (case protocolData of None \<Rightarrow> payload | Some d \<Rightarrow> payload @ d))))"

definition sendStatus ::
  "aead \<Rightarrow> nat \<Rightarrow> GeneralCode \<Rightarrow> int \<Rightarrow> int \<Rightarrow> buffer option \<Rightarrow> 'a exchange_manager_scheme \<Rightarrow> 'a exchange_manager_scheme result" where
  "sendStatus A x generalCode protocolId protocolCode protocolData n =
     rbind (status_payload (general_code generalCode) protocolId protocolCode protocolData) (\<lambda>payload.
       status_send A x payload n)"

definition sendSuccess ::
  "aead \<Rightarrow> nat \<Rightarrow> int \<Rightarrow> int \<Rightarrow> buffer option \<Rightarrow> 'a exchange_manager_scheme \<Rightarrow> 'a exchange_manager_scheme result" where
  "sendSuccess A x protocolId protocolCode protocolData n =
     sendStatus A x SUCCESS protocolId protocolCode protocolData n"

section \<open>Lemmas\<close>

definition protocol_wire :: "int \<Rightarrow> int \<Rightarrow> buffer \<Rightarrow> wire" where
  "protocol_wire protocolId opcode payload = zero_wire\<lparr>w_pid := protocolId, w_opcode := opcode, w_rest := payload\<rparr>"

lemma protocol_message_wire:
  assumes "0 \<le> p" "p < 2 ^ 16" "0 \<le> c" "c < 2 ^ 8"
  shows "protocol_message p c pay = Inr (on_wire (protocol_wire p c pay) new_message)"
    and "wire_ok (protocol_wire p c pay)"
proof -
  have ok: "wire_ok (zero_wire\<lparr>w_pid := p\<rparr>)"
    using assms by (simp add: zero_wire_def wire_ok_def wire_ranges_def id_size_def)
  have "set_ProtocolId p new_message = Inr (on_wire (zero_wire\<lparr>w_pid := p\<rparr>) new_message)"
    using wire_exchange_put(4) [OF zero_wire_ok assms(1,2), of new_message] new_message_wire by simp
  moreover have "set_ProtocolOpcode c (on_wire (zero_wire\<lparr>w_pid := p\<rparr>) new_message) =
      Inr (on_wire (zero_wire\<lparr>w_pid := p, w_opcode := c\<rparr>) new_message)"
    using wire_exchange_put(2) [OF ok assms(3,4)] by simp
  ultimately show "protocol_message p c pay = Inr (on_wire (protocol_wire p c pay) new_message)"
    by (simp add: protocol_message_def append_AppPayload_wire protocol_wire_def zero_wire_def)
  show "wire_ok (protocol_wire p c pay)"
    using assms by (simp add: protocol_wire_def zero_wire_def wire_ok_def wire_ranges_def id_size_def)
qed

text \<open>
  The payload of a status report is not laid out as documented: whatever the general code,
  its two octets are overwritten, the protocol code lies where the general code belongs, the
  protocol id keeps only its upper half, and the last four octets are zero.
\<close>

theorem status_payload_layout:
  assumes "0 \<le> g" "g < 2 ^ 16" "0 \<le> p" "p < 2 ^ 32" "0 \<le> c" "c < 2 ^ 16"
  shows "status_payload g p c None = Inr (le_bytes 2 c @ le_bytes 2 (p div 2 ^ 16) @ [0, 0, 0, 0])"
proof -
  have "le_bytes 4 p = le_bytes 2 p @ le_bytes 2 (p div 2 ^ 16)"
    using zdiv_zmult2_eq [of 256 p 256] by (simp add: numeral_eq_Suc)
  then show ?thesis
    using assms by (simp add: status_payload_def write_uint_le_def splice_def buf_alloc_def del: le_bytes.simps)
      (simp add: numeral_eq_Suc)
qed

theorem status_payload_layout_witness:
  "status_payload (general_code FAILURE) 0 2 None = Inr ([2, 0] @ [0, 0] @ [0, 0, 0, 0])"
  using status_payload_layout [of "general_code FAILURE" 0 2] by (simp add: numeral_eq_Suc)

end
