(* ===== verification/Pase_Session.thy ===== *)
theory Pase_Session
  imports Status_Report
begin

text \<open>
  \<open>src/protocols/session/PaseSession.js\<close>: the PAKE handshake as initiator and as responder.
  SPAKE2+, PBKDF2, SHA-256 and the curve are packages; they are the argument \<open>S\<close>. A handler
  that awaits is cut at each \<open>await\<close>: the part before it leaves a task that holds the value
  awaited, and \<open>run_task\<close> is the part after it, which may find the object changed by what
  ran in between. A promise that rejects ends the process, like a throw.
\<close>

section \<open>What the packages provide\<close>

record pase_secret =
  k_Ka :: buffer
  k_Ke :: buffer
  k_KcA :: buffer
  k_KcB :: buffer

text \<open>
  \<open>sp_client_start\<close> and \<open>sp_server_start\<close> take the context, the verifier and the random
  octets of the fresh scalar; their states are opaque. A public value is the hex text of an
  encoded point (\<open>ec.decodePoint(p, 'hex').encode('hex')\<close>). \<open>sp_verify\<close> is
  \<open>verifyHash\<close>, which throws when the value does not fit.
\<close>

record spake =
  sp_sha256 :: "buffer \<Rightarrow> buffer"
  sp_pbkdf2 :: "buffer \<Rightarrow> jsval \<Rightarrow> jsval \<Rightarrow> nat \<Rightarrow> buffer result"
  sp_verifier :: "buffer \<Rightarrow> buffer \<Rightarrow> buffer \<Rightarrow> buffer result"
  sp_client_start :: "buffer \<Rightarrow> buffer \<Rightarrow> buffer \<Rightarrow> buffer result"
  sp_server_start :: "buffer \<Rightarrow> buffer \<Rightarrow> buffer \<Rightarrow> buffer result"
  sp_message :: "buffer \<Rightarrow> 16 word list"
  sp_client_finish :: "buffer \<Rightarrow> jsval \<Rightarrow> pase_secret result"
  sp_server_finish :: "buffer \<Rightarrow> jsval \<Rightarrow> pase_secret result"
  sp_mac :: "jsval \<Rightarrow> buffer \<Rightarrow> buffer result"
  sp_verify :: "pase_secret \<Rightarrow> jsval \<Rightarrow> unit result"

section \<open>Constants and state\<close>

definition PBKDF_ITERATIONS_MIN :: int where "PBKDF_ITERATIONS_MIN = 1000"
definition PBKDF_ITERATIONS_MAX :: int where "PBKDF_ITERATIONS_MAX = 100000"
definition DEFAULT_PINCODE :: int where "DEFAULT_PINCODE = 20202021"
definition RESPONSE_TIMEOUT :: int where "RESPONSE_TIMEOUT = 10000"
definition PASE_CONTEXT_SALT :: "16 word list" where "PASE_CONTEXT_SALT = js_string ''CHIP PAKE V1 Commissioning''"

datatype pase_state = IDLE | AWAIT_PBKDF_PARAM_RSP | AWAIT_PAKE1 | AWAIT_PAKE2 | AWAIT_PAKE3

datatype pase_role = INITIATOR | RESPONDER

text \<open>
  \<open>ps_timer\<close>: a timeout is armed. \<open>ps_spake2\<close> is the context of the SPAKE2+ object.
\<close>

record pase =
  ps_exchange :: nat
  ps_state :: pase_state
  ps_timer :: bool
  ps_paramPaircode :: int
  ps_paramIterations :: jsval
  ps_paramSalt :: jsval
  ps_paramSaltHex :: "16 word list"
  ps_localRole :: pase_role
  ps_initiatorRandom :: jsval
  ps_initiatorSessionId :: jsval
  ps_passcodeId :: jsval
  ps_responderRandom :: jsval
  ps_responderSessionId :: jsval
  ps_pA :: jsval
  ps_pB :: jsval
  ps_cA :: jsval
  ps_cB :: jsval
  ps_pbkdfRequest :: "buffer option"
  ps_pbkdfResponse :: "buffer option"
  ps_spake2 :: "buffer option"
  ps_spakeVerifier :: "buffer option"
  ps_spakeServer :: "buffer option"
  ps_spakeClient :: "buffer option"
  ps_secret :: "pase_secret option"

text \<open>What a handler is waiting for: the verifier, then the started client or server.\<close>

datatype task =
    ClientVerifier nat buffer
  | ClientStarted nat buffer
  | ServerVerifier nat buffer
  | ServerStarted nat buffer

record pase_node = exchange_manager +
  pn_pases :: "pase list"
  pn_listeners :: "(nat \<times> nat) list"
  pn_tasks :: "task list"

definition new_pase :: "nat \<Rightarrow> pase" where
  "new_pase x =
     \<lparr>ps_exchange = x, ps_state = IDLE, ps_timer = False, ps_paramPaircode = DEFAULT_PINCODE,
      ps_paramIterations = JNum PBKDF_ITERATIONS_MIN, ps_paramSalt = JStr (js_string ''SPAKE2P Key Salt''),
      ps_paramSaltHex = hex_encode (utf8_encode (js_string ''SPAKE2P Key Salt'')), ps_localRole = INITIATOR,
      ps_initiatorRandom = JUndef, ps_initiatorSessionId = JUndef, ps_passcodeId = JUndef,
      ps_responderRandom = JUndef, ps_responderSessionId = JUndef, ps_pA = JUndef, ps_pB = JUndef, ps_cA = JUndef,
      ps_cB = JUndef, ps_pbkdfRequest = None, ps_pbkdfResponse = None, ps_spake2 = None, ps_spakeVerifier = None,
      ps_spakeServer = None, ps_spakeClient = None, ps_secret = None\<rparr>"

definition upd_pase :: "nat \<Rightarrow> (pase \<Rightarrow> pase) \<Rightarrow> 'a pase_node_scheme \<Rightarrow> 'a pase_node_scheme" where
  "upd_pase p f n = n\<lparr>pn_pases := (pn_pases n)[p := f (pn_pases n ! p)]\<rparr>"

definition push_task :: "task \<Rightarrow> 'a pase_node_scheme \<Rightarrow> 'a pase_node_scheme" where
  "push_task t n = n\<lparr>pn_tasks := pn_tasks n @ [t]\<rparr>"

definition setState :: "pase_state \<Rightarrow> pase \<Rightarrow> pase" where
  "setState st ps = ps\<lparr>ps_state := st, ps_timer := (st \<noteq> IDLE)\<rparr>"

text \<open>The timer's callback, which only a timer that is armed can run.\<close>

definition stateTimeout :: "pase \<Rightarrow> pase" where
  "stateTimeout ps = setState IDLE ps"

definition pase_create :: "nat \<Rightarrow> 'a pase_node_scheme \<Rightarrow> nat \<times> 'a pase_node_scheme" where
  "pase_create x n =
     (let p = length (pn_pases n)
      in (p, upd_exchange x (\<lambda>e. e\<lparr>e_isReliable := True\<rparr>)
               (n\<lparr>pn_pases := pn_pases n @ [new_pase x], pn_listeners := pn_listeners n @ [(x, p)]\<rparr>)))"

section \<open>Message templates\<close>

definition jfield :: "int \<Rightarrow> string \<Rightarrow> jsval \<Rightarrow> jsval" where
  "jfield tag ty v = JObj None (Some tag) (Some ty) v None"

definition jstruct :: "jsval list \<Rightarrow> jsval" where
  "jstruct fs = JObj None None (Some ''struct'') (JArr fs) None"

definition TemplateMsgPasePbkdfParamRequest :: "jsval \<Rightarrow> jsval \<Rightarrow> jsval \<Rightarrow> jsval \<Rightarrow> jsval \<Rightarrow> jsval \<Rightarrow> jsval" where
  "TemplateMsgPasePbkdfParamRequest initiatorRandom initiatorSessionId passcodeId hasPbkdfParameters idle active =
     jstruct [jfield 1 ''Buffer'' initiatorRandom, jfield 2 ''uint16'' initiatorSessionId, jfield 3 ''uint16'' passcodeId,
       jfield 4 ''boolean'' hasPbkdfParameters,
       jfield 5 ''struct'' (JArr [jfield 1 ''uint32'' idle, jfield 2 ''uint32'' active])]"

definition MapMsgPasePbkdfParamRequest :: "int \<Rightarrow> string option" where
  "MapMsgPasePbkdfParamRequest = map_of [(1, ''initiatorRandom''), (2, ''initiatorSessionId''), (3, ''passcodeId''),
     (4, ''hasPbkdfParameters''), (5, ''initiatorSedParameters'')]"

definition TemplateMsgPasePbkdfParamResponse :: "jsval \<Rightarrow> jsval \<Rightarrow> jsval \<Rightarrow> jsval \<Rightarrow> jsval \<Rightarrow> jsval" where
  "TemplateMsgPasePbkdfParamResponse initiatorRandom responderRandom responderSessionId iterations salt =
     jstruct [jfield 1 ''Buffer'' initiatorRandom, jfield 2 ''Buffer'' responderRandom,
       jfield 3 ''uint16'' responderSessionId,
       jfield 4 ''struct'' (JArr [jfield 1 ''uint16'' iterations, jfield 2 ''Buffer'' salt])]"

definition MapMsgPasePbkdfParamResponse :: "int \<Rightarrow> string option" where
  "MapMsgPasePbkdfParamResponse = map_of [(1, ''initiatorRandom''), (2, ''responderRandom''), (3, ''responderSessionId''),
     (4, ''pbkdfParameters'')]"

definition TemplateMsgPasePake1 :: "jsval \<Rightarrow> jsval" where
  "TemplateMsgPasePake1 pA = jstruct [jfield 1 ''Buffer'' pA]"

definition TemplateMsgPasePake2 :: "jsval \<Rightarrow> jsval \<Rightarrow> jsval" where
  "TemplateMsgPasePake2 pB cB = jstruct [jfield 1 ''Buffer'' pB, jfield 2 ''Buffer'' cB]"

definition TemplateMsgPasePake3 :: "jsval \<Rightarrow> jsval" where
  "TemplateMsgPasePake3 cA = jstruct [jfield 1 ''Buffer'' cA]"

definition writer_encode :: "jsval \<Rightarrow> buffer result" where
  "writer_encode json = rmap tw_buf (encode json new_writer)"

section \<open>Helpers\<close>

text \<open>\<open>v.toString("hex")\<close>: a radix of \<open>"hex"\<close> makes a number throw.\<close>

fun to_string_hex :: "jsval \<Rightarrow> 16 word list result" where
  "to_string_hex (JBuf b) = Inr (hex_encode b)"
| "to_string_hex (JStr s) = Inr s"
| "to_string_hex (JBool b) = Inr (if b then js_string ''true'' else js_string ''false'')"
| "to_string_hex (JNum k) = Inl RangeError"
| "to_string_hex (JDbl d) = Inl RangeError"
| "to_string_hex (JBig k) = Inl RangeError"
| "to_string_hex JUndef = Inl TypeError"
| "to_string_hex JNull = Inl TypeError"
| "to_string_hex _ = Inl Unmodelled"

definition computeContext :: "spake \<Rightarrow> pase \<Rightarrow> buffer result" where
  "computeContext S ps =
     (case (ps_pbkdfRequest ps, ps_pbkdfResponse ps) of
        (Some req, Some rsp) \<Rightarrow> Inr (sp_sha256 S (utf8_encode PASE_CONTEXT_SALT @ req @ rsp))
      | _ \<Rightarrow> Inl TypeError)"

text \<open>
  \<open>generateVerifier\<close> up to its \<open>await\<close>: the object with the parameters stored, and the
  verifier that is being computed.
\<close>

definition generateVerifier :: "spake \<Rightarrow> jsval \<Rightarrow> jsval \<Rightarrow> pase \<Rightarrow> (pase \<times> buffer) result" where
  "generateVerifier S iterations salt ps =
     (let ps = (if iterations = JUndef \<or> iterations = JNull then ps else ps\<lparr>ps_paramIterations := iterations\<rparr>);
          ps = (if salt = JUndef \<or> salt = JNull then ps else ps\<lparr>ps_paramSalt := salt\<rparr>)
      in rbind (write_uint_le 4 (ps_paramPaircode ps) 0 (buf_alloc 4)) (\<lambda>passcode.
         rbind (sp_pbkdf2 S passcode (ps_paramSalt ps) (ps_paramIterations ps) 80) (\<lambda>w0sw1s.
         case ps_spake2 ps of
           None \<Rightarrow> Inl TypeError
         | Some ctx \<Rightarrow> rbind (sp_verifier S ctx (subarray 0 40 w0sw1s) (subarray 40 80 w0sw1s)) (\<lambda>v. Inr (ps, v)))))"

definition pase_send :: "aead \<Rightarrow> nat \<Rightarrow> int \<Rightarrow> buffer \<Rightarrow> 'a pase_node_scheme \<Rightarrow> 'a pase_node_scheme result" where
  "pase_send A p opcode payload n =
     send_protocol A (ps_exchange (pn_pases n ! p)) SESSION_PROTOCOL_ID opcode payload n"

section \<open>Sessions from secrets\<close>

definition initPaseSession :: "hkdf \<Rightarrow> nat \<Rightarrow> nat \<Rightarrow> 'a pase_node_scheme \<Rightarrow> 'a pase_node_scheme result" where
  "initPaseSession kdf p a n =
     (case ps_secret (pn_pases n ! p) of
        None \<Rightarrow> Inl TypeError
      | Some k \<Rightarrow> initFromSecret kdf a (k_Ke k) [] (utf8_encode (js_string ''SessionKeys'')) n)"

definition createSecureSession :: "hkdf \<Rightarrow> nat \<Rightarrow> 'a pase_node_scheme \<Rightarrow> 'a pase_node_scheme result" where
  "createSecureSession kdf p n =
     (let ps = pn_pases n ! p;
          (a, n) = (if ps_localRole ps = INITIATOR
                    then newSession (ps_initiatorSessionId ps) (ps_responderSessionId ps) True n
                    else newSession (ps_responderSessionId ps) (ps_initiatorSessionId ps) True n)
      in initPaseSession kdf p a n)"

section \<open>The initiator\<close>

definition sendPbkdfParamRequest :: "aead \<Rightarrow> nat \<Rightarrow> 'a pase_node_scheme \<Rightarrow> 'a pase_node_scheme result" where
  "sendPbkdfParamRequest A p n =
     (case RandomU16 n of (sid, n) \<Rightarrow>
      case Random 32 n of (rnd, n) \<Rightarrow>
        let n = upd_pase p (\<lambda>ps. ps\<lparr>ps_localRole := INITIATOR, ps_initiatorSessionId := JNum sid,
                  ps_initiatorRandom := JBuf rnd, ps_passcodeId := JNum 0\<rparr>) n
        in rbind (writer_encode (TemplateMsgPasePbkdfParamRequest (JBuf rnd) (JNum sid) (JNum 0) JUndef (JNum 4000) (JNum 300)))
             (\<lambda>payload.
               pase_send A p PaseCommand_ParamRequest payload
                 (upd_pase p (\<lambda>ps. setState AWAIT_PBKDF_PARAM_RSP (ps\<lparr>ps_pbkdfRequest := Some payload\<rparr>)) n)))"

definition startPase :: "aead \<Rightarrow> nat \<Rightarrow> 'a pase_node_scheme \<Rightarrow> 'a pase_node_scheme result" where
  "startPase A p n = (if ps_state (pn_pases n ! p) \<noteq> IDLE then Inr n else sendPbkdfParamRequest A p n)"

definition onPbkdfParamResponse :: "spake \<Rightarrow> nat \<Rightarrow> message \<Rightarrow> 'a pase_node_scheme \<Rightarrow> 'a pase_node_scheme result" where
  "onPbkdfParamResponse S p msg n =
     rbind (AppPayload msg) (\<lambda>tlv.
     rbind (decode_json tlv) (\<lambda>json.
     rbind (js_path [0] json) (\<lambda>tlvJson.
     rbind (mapFields tlvJson MapMsgPasePbkdfParamResponse) (\<lambda>tlvJson.
     rbind (getByName tlvJson ''responderSessionId'') (\<lambda>responderSessionId.
     rbind (getByName tlvJson ''pbkdfParameters'') (\<lambda>pbkdfParameters.
     rbind (js_path [0] pbkdfParameters) (\<lambda>iterations.
     rbind (js_path [1] pbkdfParameters) (\<lambda>salt.
     let ps = (pn_pases n ! p)\<lparr>ps_pbkdfResponse := Some tlv, ps_responderSessionId := responderSessionId\<rparr>
     in rbind (computeContext S ps) (\<lambda>ctx.
        rbind (generateVerifier S iterations salt (ps\<lparr>ps_spake2 := Some ctx\<rparr>)) (\<lambda>(ps, v).
          Inr (push_task (ClientVerifier p v) (upd_pase p (\<lambda>_. ps) n))))))))))))"

definition sendPake1 :: "aead \<Rightarrow> nat \<Rightarrow> 'a pase_node_scheme \<Rightarrow> 'a pase_node_scheme result" where
  "sendPake1 A p n =
     rbind (writer_encode (TemplateMsgPasePake1 (ps_pA (pn_pases n ! p)))) (\<lambda>payload.
       pase_send A p PaseCommand_Pake1 payload
         (upd_exchange (ps_exchange (pn_pases n ! p)) (\<lambda>e. e\<lparr>e_isAck := True\<rparr>)
           (upd_pase p (setState AWAIT_PAKE2) n)))"

definition sendPake3 :: "aead \<Rightarrow> hkdf \<Rightarrow> nat \<Rightarrow> 'a pase_node_scheme \<Rightarrow> 'a pase_node_scheme result" where
  "sendPake3 A kdf p n =
     rbind (writer_encode (TemplateMsgPasePake3 (ps_cA (pn_pases n ! p)))) (\<lambda>payload.
     rbind (pase_send A p PaseCommand_Pake3 payload (upd_pase p (setState IDLE) n))
       (createSecureSession kdf p))"

definition onPake2 :: "aead \<Rightarrow> hkdf \<Rightarrow> spake \<Rightarrow> nat \<Rightarrow> message \<Rightarrow> 'a pase_node_scheme \<Rightarrow> 'a pase_node_scheme result" where
  "onPake2 A kdf S p msg n =
     (if ps_state (pn_pases n ! p) \<noteq> AWAIT_PAKE2 then Inr n
      else
        rbind (AppPayload msg) (\<lambda>tlv.
        rbind (decode_json tlv) (\<lambda>json.
        rbind (js_path [0, 0] json) (\<lambda>pB.
        rbind (js_path [0, 1] json) (\<lambda>cB.
        case ps_spakeClient (pn_pases n ! p) of
          None \<Rightarrow> Inl TypeError
        | Some client \<Rightarrow>
            rbind (sp_client_finish S client pB) (\<lambda>secret.
            rbind (sp_mac S pB (k_KcA secret)) (\<lambda>cA.
            rbind (to_string_hex pB) (\<lambda>_. rbind (to_string_hex cB) (\<lambda>_.
            rbind (to_string_hex (ps_pA (pn_pases n ! p))) (\<lambda>_.
              sendPake3 A kdf p (upd_pase p (\<lambda>ps. ps\<lparr>ps_pB := pB, ps_cB := cB, ps_secret := Some secret,
                ps_cA := JStr (hex_encode cA)\<rparr>) n)))))))))))"

section \<open>The responder\<close>

definition sendPbkdfParamResponse :: "aead \<Rightarrow> nat \<Rightarrow> 'a pase_node_scheme \<Rightarrow> 'a pase_node_scheme result" where
  "sendPbkdfParamResponse A p n =
     (case Random 32 n of (rnd, n) \<Rightarrow>
      case RandomU16 n of (sid, n) \<Rightarrow>
        let n = upd_pase p (\<lambda>ps. ps\<lparr>ps_responderRandom := JBuf rnd, ps_responderSessionId := JNum sid\<rparr>) n;
            ps = pn_pases n ! p
        in rbind (to_string_hex (ps_initiatorRandom ps)) (\<lambda>initiatorRandom.
           rbind (writer_encode (TemplateMsgPasePbkdfParamResponse (JStr initiatorRandom) (JStr (hex_encode rnd)) (JNum sid)
                    (ps_paramIterations ps) (JStr (ps_paramSaltHex ps)))) (\<lambda>payload.
             pase_send A p PaseCommand_ParamResponse payload
               (upd_pase p (\<lambda>ps. setState AWAIT_PAKE1 (ps\<lparr>ps_pbkdfResponse := Some payload\<rparr>)) n))))"

definition onPbkdfParamRequest :: "aead \<Rightarrow> nat \<Rightarrow> message \<Rightarrow> 'a pase_node_scheme \<Rightarrow> 'a pase_node_scheme result" where
  "onPbkdfParamRequest A p msg n =
     (if ps_state (pn_pases n ! p) \<noteq> IDLE then Inr n
      else
        rbind (AppPayload msg) (\<lambda>tlv.
        rbind (decode_json tlv) (\<lambda>json.
        rbind (js_path [0] json) (\<lambda>tlvJson.
        rbind (mapFields tlvJson MapMsgPasePbkdfParamRequest) (\<lambda>tlvJson.
        rbind (getByName tlvJson ''initiatorRandom'') (\<lambda>initiatorRandom.
        rbind (getByName tlvJson ''initiatorSessionId'') (\<lambda>initiatorSessionId.
        rbind (getByName tlvJson ''passcodeId'') (\<lambda>passcodeId.
        rbind (to_string_hex initiatorRandom) (\<lambda>_.
          sendPbkdfParamResponse A p (upd_pase p (\<lambda>ps. ps\<lparr>ps_initiatorRandom := initiatorRandom,
            ps_initiatorSessionId := initiatorSessionId, ps_passcodeId := passcodeId, ps_localRole := RESPONDER,
            ps_pbkdfRequest := Some tlv\<rparr>) n))))))))))"

definition onPake1 :: "spake \<Rightarrow> nat \<Rightarrow> message \<Rightarrow> 'a pase_node_scheme \<Rightarrow> 'a pase_node_scheme result" where
  "onPake1 S p msg n =
     (if ps_state (pn_pases n ! p) \<noteq> AWAIT_PAKE1 then Inr n
      else
        rbind (AppPayload msg) (\<lambda>tlv.
        rbind (decode_json tlv) (\<lambda>json.
        rbind (js_path [0, 0] json) (\<lambda>pA.
        let ps = (pn_pases n ! p)\<lparr>ps_pA := pA\<rparr>
        in rbind (computeContext S ps) (\<lambda>ctx.
           rbind (to_string_hex pA) (\<lambda>_.
           rbind (generateVerifier S JUndef JUndef (ps\<lparr>ps_spake2 := Some ctx\<rparr>)) (\<lambda>(ps, v).
             Inr (push_task (ServerVerifier p v) (upd_pase p (\<lambda>_. ps) n)))))))))"

definition sendPake2 :: "aead \<Rightarrow> nat \<Rightarrow> 'a pase_node_scheme \<Rightarrow> 'a pase_node_scheme result" where
  "sendPake2 A p n =
     rbind (writer_encode (TemplateMsgPasePake2 (ps_pB (pn_pases n ! p)) (ps_cB (pn_pases n ! p)))) (\<lambda>payload.
       pase_send A p PaseCommand_Pake2 payload (upd_pase p (setState AWAIT_PAKE3) n))"

definition onPake3 :: "aead \<Rightarrow> hkdf \<Rightarrow> spake \<Rightarrow> nat \<Rightarrow> message \<Rightarrow> 'a pase_node_scheme \<Rightarrow> 'a pase_node_scheme result" where
  "onPake3 A kdf S p msg n =
     (if ps_state (pn_pases n ! p) \<noteq> AWAIT_PAKE3 then Inr n
      else
        rbind (AppPayload msg) (\<lambda>tlv.
        rbind (decode_json tlv) (\<lambda>json.
        rbind (js_path [0, 0] json) (\<lambda>cA.
        rbind (to_string_hex cA) (\<lambda>_.
        case ps_secret (pn_pases n ! p) of
          None \<Rightarrow> Inl TypeError
        | Some secret \<Rightarrow>
            rbind (sp_verify S secret cA) (\<lambda>_.
            rbind (sendSuccess A (ps_exchange (pn_pases n ! p)) SESSION_PROTOCOL_ID SESSION_ESTABLISHMENT_SUCCESS None
                     (upd_pase p (\<lambda>ps. ps\<lparr>ps_cA := cA\<rparr>) n)) (\<lambda>n.
            rbind (createSecureSession kdf p n) (\<lambda>n.
              Inr (upd_pase p (setState IDLE) n)))))))))"

section \<open>After the awaits\<close>

text \<open>
  The continuation of a task. \<open>start\<close> draws the random octets of the scalar, 32 of them.
\<close>

definition run_task ::
  "aead \<Rightarrow> spake \<Rightarrow> task \<Rightarrow> 'a pase_node_scheme \<Rightarrow> 'a pase_node_scheme result" where
  "run_task A S t n = (case t of
      ClientVerifier p v \<Rightarrow>
        (let n = upd_pase p (\<lambda>ps. ps\<lparr>ps_spakeVerifier := Some v\<rparr>) n
         in case ps_spake2 (pn_pases n ! p) of
              None \<Rightarrow> Inl TypeError
            | Some ctx \<Rightarrow> (case Random 32 n of (rnd, n) \<Rightarrow>
                rbind (sp_client_start S ctx v rnd) (\<lambda>client. Inr (push_task (ClientStarted p client) n))))
    | ClientStarted p client \<Rightarrow>
        sendPake1 A p (upd_pase p (\<lambda>ps. ps\<lparr>ps_spakeClient := Some client, ps_pA := JStr (sp_message S client)\<rparr>) n)
    | ServerVerifier p v \<Rightarrow>
        (let n = upd_pase p (\<lambda>ps. ps\<lparr>ps_spakeVerifier := Some v\<rparr>) n
         in case ps_spake2 (pn_pases n ! p) of
              None \<Rightarrow> Inl TypeError
            | Some ctx \<Rightarrow> (case Random 32 n of (rnd, n) \<Rightarrow>
                rbind (sp_server_start S ctx v rnd) (\<lambda>server. Inr (push_task (ServerStarted p server) n))))
    | ServerStarted p server \<Rightarrow>
        rbind (sp_server_finish S server (ps_pA (pn_pases n ! p))) (\<lambda>secret.
        rbind (sp_mac S (ps_pA (pn_pases n ! p)) (k_KcB secret)) (\<lambda>cB.
          sendPake2 A p (upd_pase p (\<lambda>ps. ps\<lparr>ps_spakeServer := Some server, ps_pB := JStr (sp_message S server),
            ps_secret := Some secret, ps_cB := JStr (hex_encode cB)\<rparr>) n))))"

section \<open>Dispatch\<close>

definition onExchangeMessage ::
  "aead \<Rightarrow> hkdf \<Rightarrow> spake \<Rightarrow> nat \<Rightarrow> message \<Rightarrow> 'a pase_node_scheme \<Rightarrow> 'a pase_node_scheme result" where
  "onExchangeMessage A kdf S p msg n =
     rbind (ProtocolOpcode msg) (\<lambda>opcode. rbind (ExchangeId msg) (\<lambda>_.
       if opcode = PaseCommand_ParamRequest then onPbkdfParamRequest A p msg n
       else if opcode = PaseCommand_ParamResponse then onPbkdfParamResponse S p msg n
       else if opcode = PaseCommand_Pake1 then onPake1 S p msg n
       else if opcode = PaseCommand_Pake2 then onPake2 A kdf S p msg n
       else if opcode = PaseCommand_Pake3 then onPake3 A kdf S p msg n
       else Inr n))"

definition opcodeName :: "int \<Rightarrow> string option" where
  "opcodeName opcode =
     (if opcode = PaseCommand_ParamRequest then Some ''PbkdfParamRequest''
      else if opcode = PaseCommand_ParamResponse then Some ''PbkdfParamResponse''
      else if opcode = PaseCommand_Pake1 then Some ''Pake1''
      else if opcode = PaseCommand_Pake2 then Some ''Pake2''
      else if opcode = PaseCommand_Pake3 then Some ''Pake3''
      else if opcode = PaseCommand_PakeError then Some ''PakeError''
      else if opcode = Command_MrpStandaloneAck then Some ''MrpAcK''
      else None)"

end
