(* ===== verification/Pase_Handshake.thy ===== *)
theory Pase_Handshake
  imports Pase_Session
begin

text \<open>
  What the PASE handlers do together. First the wire side: an exchange that can send leaves
  everything but its session and the sent datagrams alone. Then the TLV side: each template is a
  TLV element and each reader finds its fields. Then each handler's exact effect, the state
  machine they form, and the run of a whole handshake.
\<close>

section \<open>Sending on an unsecured exchange\<close>

text \<open>\<open>n'\<close> differs from \<open>n\<close> only in session \<open>a\<close>, the datagrams and the random octets used.\<close>

definition net_only :: "nat \<Rightarrow> 'a net_scheme \<Rightarrow> 'a net_scheme \<Rightarrow> bool" where
  "net_only a n n' \<longleftrightarrow> (\<exists>l s d. n' = n\<lparr>n_sessions := l, n_sent := s, n_drawn := d\<rparr> \<and>
     length l = length (n_sessions n) \<and> (\<forall>b. b \<noteq> a \<longrightarrow> l ! b = n_sessions n ! b))"

text \<open>\<open>k\<close> more messages can be sent on exchange \<open>x\<close>.\<close>

definition sendable :: "nat \<Rightarrow> nat \<Rightarrow> 'a exchange_manager_scheme \<Rightarrow> bool" where
  "sendable k x n \<longleftrightarrow>
     (let e = x_exchanges n ! x; a = e_session e; s = n_sessions n ! a
      in x < length (x_exchanges n) \<and> exchange_ok e \<and> a < length (n_sessions n) \<and>
         s_peerSessionId s = JNum 0 \<and> 0 \<le> s_messageCounter s \<and> s_messageCounter s + int k \<le> 2 ^ 32 \<and>
         s_peerInfo s \<noteq> None \<and>
         (case s_peerNodeId s of None \<Rightarrow> e_isInitiator e | Some v \<Rightarrow> 0 \<le> v \<and> v < 2 ^ 64 \<and> (e_isInitiator e \<or> v \<noteq> 0)))"

lemma net_only_refl: "net_only a n n"
  by (auto simp: net_only_def intro!: exI [of _ "n_sessions n"] exI [of _ "n_sent n"] exI [of _ "n_drawn n"])

lemma net_only_trans: "net_only a n n' \<Longrightarrow> net_only a n' n'' \<Longrightarrow> net_only a n n''"
  by (cases n) (fastforce simp: net_only_def)

lemma net_only_upd: "net_only a n (upd_session a f n)"
  unfolding net_only_def upd_session_def
  by (intro exI [of _ "(n_sessions n)[a := f (n_sessions n ! a)]"] exI [of _ "n_sent n"] exI [of _ "n_drawn n"]) (cases n; simp)

lemma net_only_send: "net_only a n (transport_send t b p h n)"
  unfolding net_only_def transport_send_def
  by (intro exI [of _ "n_sessions n"] exI [of _ "n_sent n @ [\<lparr>p_transport = t, p_data = b, p_port = p, p_host = h\<rparr>]"]
      exI [of _ "n_drawn n"]) (cases n; simp)

lemma net_only_upd_send: "net_only a n (transport_send t b p h (upd_session a f n))"
  by (rule net_only_trans [OF net_only_upd net_only_send])

lemma net_only_drawn: "net_only a n (n\<lparr>n_drawn := d\<rparr>)"
  unfolding net_only_def
  by (intro exI [of _ "n_sessions n"] exI [of _ "n_sent n"] exI [of _ d]) (cases n; simp)

lemma send_unsecured_initiator:
  assumes "a < length (n_sessions n)" and "can_send (n_sessions n ! a) 0"
    and "\<not> node_id_truthy (s_peerNodeId (n_sessions n ! a))"
    and "s_peerInfo (n_sessions n ! a) = Some p" and "wire_ranges w" and "w_ids w = []"
    and "\<not> m_hasSource m" and "w_xflags w AND 0x01 \<noteq> 0" and "RandomU64 (upd_session a counted n) = (v, n1)"
  shows "\<exists>msg. session_sendMessage A a (on_wire w m) n =
    Inr (msg, transport_send (s_transport (n_sessions n ! a))
      (wire_bytes (with_source v (header_of 0 (s_messageCounter (n_sessions n ! a)) w))) (pi_port p) (pi_address p)
      (upd_session a (\<lambda>s. s\<lparr>s_peerNodeId := Some v\<rparr>) n1))"
proof -
  let ?w = "header_of 0 (s_messageCounter (n_sessions n ! a)) w"
  have ok: "wire_ok ?w" by (rule header_of_ok [OF assms(5,6,2)])
  have f: "w_flags ?w = 0" "w_ids ?w = []" "w_xflags ?w = w_xflags w" using assms(6) by (simp_all add: header_of_def)
  have r: "wire_ranges (?w\<lparr>w_flags := 4\<rparr>)" using wire_ok_ranges [OF ok] by (simp add: wire_ranges_def)
  have v: "0 \<le> v" "v < 2 ^ 64" using RandomU64_range [of "upd_session a counted n"] assms(9) by simp_all
  have n1: "n_sessions n1 = n_sessions (upd_session a counted n)" using RandomU64_fields(1) [of "upd_session a counted n"] assms(9) by simp
  have "isEncrypted (on_wire ?w m) = Inr False"
    using wire_isUnencrypted [OF wire_ok_ranges [OF ok], of m] by (simp add: isEncrypted_def header_of_def)
  moreover have "Iflag (on_wire ?w m) = Inr True"
    using wire_exchange_flag(2) [OF ok, of m] f assms(8) by simp
  moreover note wire_set_Dsiz [OF wire_ok_ranges [OF ok] f(1), of m] wire_set_SourceNodeId [OF r, of m v]
  ultimately show ?thesis
    using assms f v n1 send_header_wire [OF assms(2), of w m]
    by (auto simp: session_sendMessage_def send_unsecured_def counted_def message_consts Let_def node_id_truthy_def
        with_source_def)
qed

lemma RandomU64_net: "RandomU64 n = (v, n1) \<Longrightarrow> n1 = n\<lparr>n_drawn := n_drawn n + 8\<rparr>"
  by (auto simp: RandomU64_def Random_def)

text \<open>A datagram that its receiver reads as a message with this opcode and payload.\<close>

definition carries :: "packet \<Rightarrow> int \<Rightarrow> buffer \<Rightarrow> bool" where
  "carries pkt opc pay \<longleftrightarrow> (\<forall>peer. let m = new_message_of (p_data pkt) None peer
     in ProtocolOpcode m = Inr opc \<and> (\<exists>i. ExchangeId m = Inr i) \<and> AppPayload m = Inr pay)"

lemma carries_wire:
  assumes "wire_ok w" and "w_flags w = 0" and "exchange_ok e" and "0 \<le> v" and "v < 2 ^ 64"
    and "can_send s 0" and "w' = with_source v (header_of 0 (s_messageCounter s) (on_exchange e w)) \<or>
      w' = with_destination v (header_of 0 (s_messageCounter s) (on_exchange e w))"
  shows "carries \<lparr>p_transport = t, p_data = wire_bytes w', p_port = q, p_host = h\<rparr> (w_opcode w) (w_rest w)"
proof -
  have r: "wire_ranges (on_exchange e w)" "w_ids (on_exchange e w) = []"
    using wire_ok_on_exchange [OF assms(1,3)] assms(1,2) by (simp_all add: wire_ok_def on_exchange_def id_size_def)
  have "wire_ok (header_of 0 (s_messageCounter s) (on_exchange e w))" by (rule header_of_ok [OF r assms(6)])
  then have ok: "wire_ok w'" using assms(7)
    by (auto simp: wire_ok_def wire_ranges_def id_size_def with_source_def with_destination_def header_of_def)
  have f: "w_opcode w' = w_opcode w" "w_xflags w' = exchange_flags e"
    "w_rest w' = (if e_isAck e then le_bytes 4 (e_ackCounter e) else []) @ w_rest w"
    using assms(7) by (auto simp: with_source_def with_destination_def header_of_def on_exchange_def)
  have x: "exchange_flags e AND 2 \<noteq> 0 \<longleftrightarrow> e_isAck e" by (simp add: exchange_flags_def)
  have m: "new_message_of (wire_bytes w') None peer = on_wire w' (new_message_of [] None peer)" for peer
    by (simp add: on_wire_def new_message_of_def)
  show ?thesis
    using wire_exchange_get(2,3) [OF ok] wire_AppPayload [OF ok] f x by (simp add: carries_def Let_def m)
qed

text \<open>
  The header of a datagram sent on an unsecured exchange, and what sending it leaves of the
  exchange's session: its peer, and the node id under which the two know each other, chosen at
  random when there is none yet.
\<close>

definition headed :: "int \<Rightarrow> bool \<Rightarrow> int \<Rightarrow> int \<Rightarrow> packet \<Rightarrow> bool" where
  "headed pid i xid v pkt \<longleftrightarrow> 0 \<le> v \<and> v < 2 ^ 64 \<and>
     (\<exists>w. p_data pkt = wire_bytes w \<and> wire_ok w \<and> w_sid w = 0 \<and> w_sec w = 0 \<and> w_pid w = pid \<and> w_xid w = xid \<and>
        (w_xflags w AND 0x01 \<noteq> 0 \<longleftrightarrow> i) \<and> w_flags w = (if i then 4 else 1) \<and> w_ids w = le_bytes 8 v)"

text \<open>The number that \<open>RandomU64\<close> draws after \<open>d\<close> octets.\<close>

definition random_id :: "(nat \<Rightarrow> byte) \<Rightarrow> nat \<Rightarrow> int" where
  "random_id rnd d = le_val (rev (map rnd [d..<d + 8]))"

lemma RandomU64_id: "RandomU64 n = (v, n') \<Longrightarrow> v = random_id (n_random n) (n_drawn n)"
  by (auto simp: RandomU64_def Random_def random_id_def)

definition spoken :: "int \<Rightarrow> nat \<Rightarrow> 'a exchange_manager_scheme \<Rightarrow> 'a exchange_manager_scheme \<Rightarrow> packet \<Rightarrow> bool" where
  "spoken pid x n n' pkt \<longleftrightarrow>
     (let e = x_exchanges n ! x; s = n_sessions n ! e_session e; s' = n_sessions n' ! e_session e
      in s_localSessionId s' = s_localSessionId s \<and> s_peerInfo s' = s_peerInfo s \<and> s_peerInfo s = Some \<lparr>pi_address = p_host pkt, pi_port = p_port pkt\<rparr> \<and>
         (\<exists>v. s_peerNodeId s' = Some v \<and> (if node_id_truthy (s_peerNodeId s) then s_peerNodeId s = Some v else \<exists>d. v = random_id (n_random n) d) \<and>
           headed pid (e_isInitiator e) (e_exchangeId e) v pkt))"

lemma headed_wire:
  assumes "wire_ok w" and "w_flags w = 0" and "exchange_ok e" and "0 \<le> v" and "v < 2 ^ 64" and "can_send s 0"
    and "w' = (if e_isInitiator e then with_source v else with_destination v) (header_of 0 (s_messageCounter s) (on_exchange e w))"
  shows "headed (w_pid w) (e_isInitiator e) (e_exchangeId e) v \<lparr>p_transport = t, p_data = wire_bytes w', p_port = q, p_host = h\<rparr>"
proof -
  have r: "wire_ranges (on_exchange e w)" "w_ids (on_exchange e w) = []"
    using wire_ok_on_exchange [OF assms(1,3)] assms(1,2) by (simp_all add: wire_ok_def on_exchange_def id_size_def)
  have "wire_ok (header_of 0 (s_messageCounter s) (on_exchange e w))" by (rule header_of_ok [OF r assms(6)])
  then have "wire_ok w'" using assms(7)
    by (auto simp: wire_ok_def wire_ranges_def id_size_def with_source_def with_destination_def header_of_def split: if_splits)
  then show ?thesis
    unfolding headed_def using assms(4,5,7)
    by (auto intro!: exI [of _ w'] simp: with_source_def with_destination_def header_of_def on_exchange_def exchange_flags_def)
qed

lemma send_protocol_total:
  assumes "sendable (Suc k) x n" and "0 \<le> pid" "pid < 2 ^ 16" "0 \<le> opc" "opc < 2 ^ 8"
  shows "\<exists>n' pkt. send_protocol A x pid opc pay n = Inr n' \<and> net_only (e_session (x_exchanges n ! x)) n n' \<and> sendable k x n' \<and>
    n_sent n' = n_sent n @ [pkt] \<and> carries pkt opc pay \<and> spoken pid x n n' pkt"
proof -
  define e a where "e = x_exchanges n ! x" and "a = e_session e"
  let ?p = "protocol_wire pid opc pay" and ?w = "on_exchange e (protocol_wire pid opc pay)"
  have s: "exchange_ok e" "a < length (n_sessions n)" "can_send (n_sessions n ! a) 0"
    using assms(1) by (simp_all add: sendable_def Let_def e_def a_def can_send_def)
  obtain p where p: "s_peerInfo (n_sessions n ! a) = Some p" using assms(1) by (auto simp: sendable_def Let_def e_def a_def)
  have pok: "wire_ok ?p" by (rule protocol_message_wire(2) [OF assms(2-5)])
  have pw: "w_flags ?p = 0" "w_opcode ?p = opc" "w_rest ?p = pay" by (simp_all add: protocol_wire_def zero_wire_def)
  have ok: "wire_ok ?w" using wire_ok_on_exchange [OF pok s(1)] .
  have ids: "w_ids ?w = []" by (simp add: on_exchange_def protocol_wire_def zero_wire_def)
  have i: "w_xflags ?w AND 0x01 \<noteq> 0 \<longleftrightarrow> e_isInitiator e" by (simp add: on_exchange_def exchange_flags_def)
  have m: "\<not> m_hasSource new_message" "\<not> m_hasDestination new_message" by (simp_all add: new_message_def new_message_of_def)
  note carry = carries_wire [OF pok pw(1) s(1) _ _ s(3), unfolded pw]
  have pid: "w_pid ?p = pid" by (simp add: protocol_wire_def)
  note head = headed_wire [OF pok pw(1) s(1) _ _ s(3), unfolded pid]
  have eq: "send_protocol A x pid opc pay n = rmap snd (session_sendMessage A a (on_wire ?w new_message) n)"
    using exchange_sendMessage_wire [OF pok, of n x A new_message] s(1)
    by (simp add: send_protocol_def protocol_message_wire(1) [OF assms(2-5)] e_def a_def)
  show ?thesis
  proof (cases "node_id_truthy (s_peerNodeId (n_sessions n ! a))")
    case True
    then obtain v where v: "s_peerNodeId (n_sessions n ! a) = Some v" "0 < v" "v < 2 ^ 64"
      using assms(1) by (auto simp: sendable_def Let_def node_id_truthy_def e_def a_def split: option.splits)
    let ?d = "wire_bytes ((if e_isInitiator e then with_source v else with_destination v)
        (header_of 0 (s_messageCounter (n_sessions n ! a)) ?w))"
    let ?n = "transport_send (s_transport (n_sessions n ! a)) ?d (pi_port p) (pi_address p) (upd_session a counted n)"
    obtain msg where "session_sendMessage A a (on_wire ?w new_message) n = Inr (msg, ?n)"
      using send_unsecured_wire [OF s(2,3) v p wire_ok_ranges [OF ok] ids m refl] i by auto
    moreover have "sendable k x ?n"
      using assms(1) s(2) v
      by (auto simp: transport_send_def upd_session_def counted_def sendable_def Let_def e_def a_def)
    moreover have "carries \<lparr>p_transport = s_transport (n_sessions n ! a), p_data = ?d, p_port = pi_port p, p_host = pi_address p\<rparr> opc pay"
      by (rule carry [of v]) (use v in auto)
    moreover have "spoken pid x n ?n \<lparr>p_transport = s_transport (n_sessions n ! a), p_data = ?d, p_port = pi_port p, p_host = pi_address p\<rparr>"
      using head [OF _ v(3) refl] v s(2) p
      by (auto simp: spoken_def Let_def e_def [symmetric] a_def [symmetric] transport_send_def upd_session_def counted_def node_id_truthy_def)
    ultimately show ?thesis
      using eq net_only_upd_send [of a n] by (intro exI [of _ ?n]) (auto simp: e_def [symmetric] a_def [symmetric])
  next
    case False
    then have init: "e_isInitiator e"
      using assms(1) by (auto simp: sendable_def Let_def node_id_truthy_def e_def a_def split: option.splits)
    obtain v n1 where r: "RandomU64 (upd_session a counted n) = (v, n1)" by (cases "RandomU64 (upd_session a counted n)")
    have v: "0 \<le> v" "v < 2 ^ 64" using RandomU64_range [of "upd_session a counted n"] r by simp_all
    let ?d = "wire_bytes (with_source v (header_of 0 (s_messageCounter (n_sessions n ! a)) ?w))"
    let ?n = "transport_send (s_transport (n_sessions n ! a)) ?d (pi_port p) (pi_address p) (upd_session a (\<lambda>s. s\<lparr>s_peerNodeId := Some v\<rparr>) n1)"
    obtain msg where "session_sendMessage A a (on_wire ?w new_message) n = Inr (msg, ?n)"
      using send_unsecured_initiator [OF s(2,3) False p wire_ok_ranges [OF ok] ids m(1) _ r] i init by blast
    moreover have "sendable k x ?n"
      using assms(1) s(2) v init RandomU64_net [OF r]
      by (auto simp: transport_send_def upd_session_def counted_def sendable_def Let_def e_def a_def)
    moreover have "net_only a n ?n"
      using net_only_trans [OF net_only_trans [OF net_only_upd net_only_drawn] net_only_upd_send] RandomU64_net [OF r] by simp
    moreover have "carries \<lparr>p_transport = s_transport (n_sessions n ! a), p_data = ?d, p_port = pi_port p, p_host = pi_address p\<rparr> opc pay"
      by (rule carry [of v]) (use v in auto)
    moreover have "spoken pid x n ?n \<lparr>p_transport = s_transport (n_sessions n ! a), p_data = ?d, p_port = pi_port p, p_host = pi_address p\<rparr>"
      using head [OF v refl] init s(2) p False RandomU64_net [OF r] RandomU64_id [OF r]
      by (auto simp: spoken_def Let_def e_def [symmetric] a_def [symmetric] transport_send_def upd_session_def counted_def node_id_truthy_def)
    moreover have "n_sent n1 = n_sent n" using RandomU64_net [OF r] by simp
    ultimately show ?thesis
      using eq by (intro exI [of _ ?n]) (auto simp: e_def [symmetric] a_def [symmetric])
  qed
qed

lemma net_only_fields:
  assumes "net_only a n n'"
  shows "n_random n' = n_random n" "length (n_sessions n') = length (n_sessions n)"
    "b \<noteq> a \<Longrightarrow> n_sessions n' ! b = n_sessions n ! b"
  using assms by (auto simp: net_only_def)

lemma net_only_pase:
  assumes "net_only a (n :: 'a pase_node_scheme) n'"
  shows "pn_pases n' = pn_pases n" "pn_tasks n' = pn_tasks n" "pn_listeners n' = pn_listeners n"
    "x_exchanges n' = x_exchanges n" "x_table n' = x_table n" "sm_secured n' = sm_secured n" "sm_unsecured n' = sm_unsecured n"
  using assms by (auto simp: net_only_def)

lemma upd_pase_fields [simp]:
  "pn_tasks (upd_pase p f n) = pn_tasks n" "pn_listeners (upd_pase p f n) = pn_listeners n"
  "x_exchanges (upd_pase p f n) = x_exchanges n" "x_table (upd_pase p f n) = x_table n" "n_sessions (upd_pase p f n) = n_sessions n"
  "sm_secured (upd_pase p f n) = sm_secured n" "sm_unsecured (upd_pase p f n) = sm_unsecured n"
  "length (pn_pases (upd_pase p f n)) = length (pn_pases n)" "n_sent (upd_pase p f n) = n_sent n"
  by (simp_all add: upd_pase_def)

lemma upd_pase_same [simp]: "p < length (pn_pases n) \<Longrightarrow> pn_pases (upd_pase p f n) ! p = f (pn_pases n ! p)"
  by (simp add: upd_pase_def)

lemma upd_pase_other [simp]: "p \<noteq> q \<Longrightarrow> pn_pases (upd_pase p f n) ! q = pn_pases n ! q"
  by (simp add: upd_pase_def)

lemma upd_pase_upd [simp]: "upd_pase p f (upd_pase p g n) = upd_pase p (f \<circ> g) n"
  by (cases "p < length (pn_pases n)") (simp_all add: upd_pase_def list_update_beyond)

lemma upd_exchange_pase: "upd_exchange x f (upd_pase p g n) = upd_pase p g (upd_exchange x f n)"
  by (simp add: upd_exchange_def upd_pase_def)

lemma upd_exchange_pase_fields [simp]:
  "pn_pases (upd_exchange x f n) = pn_pases n" "pn_tasks (upd_exchange x f n) = pn_tasks n" "n_sent (upd_exchange x f n) = n_sent n"
  "sm_secured (upd_exchange x f n) = sm_secured n" "n_sessions (upd_exchange x f n) = n_sessions n"
  by (simp_all add: upd_exchange_def)

lemma upd_pase_const: "upd_pase p f n = upd_pase p (\<lambda>_. f (pn_pases n ! p)) n"
  by (simp add: upd_pase_def)

lemma sendable_upd_pase [simp]: "sendable k x (upd_pase p f n) = sendable k x n"
  by (simp add: sendable_def)

lemma sendable_mono: "sendable (Suc k) x n \<Longrightarrow> sendable k x n"
  by (auto simp: sendable_def Let_def)

lemma sendable_ack: "sendable k x n \<Longrightarrow> sendable k x (upd_exchange y (\<lambda>e. e\<lparr>e_isAck := b\<rparr>) n)"
  by (cases "y < length (x_exchanges n)")
    (auto simp: sendable_def Let_def upd_exchange_def nth_list_update exchange_ok_def list_update_beyond split: option.splits)

section \<open>Templates and readers\<close>

lemma writer_encode_telem:
  "telem_of j = Some e \<Longrightarrow> wf_telem e \<Longrightarrow> writer_encode j = Inr (tlv_bytes e)"
  by (simp add: writer_encode_def encode_telem emit_def new_writer_def buf_alloc_def)

lemma decode_telem: "wf_telem e \<Longrightarrow> decode_json (tlv_bytes e) = Inr (JArr [tlv_json e])"
  using decode_telems [of "[e]"] by simp

definition leaf1 :: "int \<Rightarrow> tlv_leaf \<Rightarrow> telem" where
  "leaf1 t l = TLeaf None (Some t) l"

definition request_elem :: "buffer \<Rightarrow> int \<Rightarrow> telem" where
  "request_elem rnd sid = TNode None None CStruct
     [leaf1 1 (TBytes rnd), leaf1 2 (TUnsigned sid), leaf1 3 (TUnsigned 0), leaf1 4 (TBool False),
      TNode None (Some 5) CStruct [leaf1 1 (TUnsigned 4000), leaf1 2 (TUnsigned 300)]]"

definition response_elem :: "buffer \<Rightarrow> buffer \<Rightarrow> int \<Rightarrow> int \<Rightarrow> buffer \<Rightarrow> telem" where
  "response_elem irnd rrnd sid iter salt = TNode None None CStruct
     [leaf1 1 (TBytes irnd), leaf1 2 (TBytes rrnd), leaf1 3 (TUnsigned sid),
      TNode None (Some 4) CStruct [leaf1 1 (TUnsigned iter), leaf1 2 (TBytes salt)]]"

definition pake_elem :: "buffer list \<Rightarrow> telem" where
  "pake_elem bs = TNode None None CStruct (map (\<lambda>(i, b). leaf1 (1 + int i) (TBytes b)) (enumerate 0 bs))"

lemma template_request:
  "telem_of (TemplateMsgPasePbkdfParamRequest (JBuf rnd) (JNum sid) (JNum 0) JUndef (JNum 4000) (JNum 300)) =
     Some (request_elem rnd sid)"
  by (simp add: TemplateMsgPasePbkdfParamRequest_def jstruct_def jfield_def request_elem_def leaf1_def container_of_def
      leaf_of_def signed_types_def unsigned_types_def js_truthy_def)

lemma template_response:
  "telem_of (TemplateMsgPasePbkdfParamResponse (JStr (hex_encode irnd)) (JStr (hex_encode rrnd)) (JNum sid) (JNum iter)
     (JStr (hex_encode salt))) = Some (response_elem irnd rrnd sid iter salt)"
  by (simp add: TemplateMsgPasePbkdfParamResponse_def jstruct_def jfield_def response_elem_def leaf1_def container_of_def
      leaf_of_def signed_types_def unsigned_types_def hex_decode_encode)

lemma template_pake:
  "telem_of (TemplateMsgPasePake1 (JStr a)) = Some (pake_elem [hex_decode a])"
  "telem_of (TemplateMsgPasePake2 (JStr a) (JStr b)) = Some (pake_elem [hex_decode a, hex_decode b])"
  "telem_of (TemplateMsgPasePake3 (JStr a)) = Some (pake_elem [hex_decode a])"
  by (simp_all add: TemplateMsgPasePake1_def TemplateMsgPasePake2_def TemplateMsgPasePake3_def jstruct_def jfield_def
      pake_elem_def leaf1_def container_of_def leaf_of_def signed_types_def unsigned_types_def)

lemma wf_request: "int (length rnd) < 2 ^ 32 \<Longrightarrow> 0 \<le> sid \<Longrightarrow> sid < 2 ^ 16 \<Longrightarrow> wf_telem (request_elem rnd sid)"
  by (simp add: request_elem_def leaf1_def wf_tag_def)

lemma wf_response:
  "int (length irnd) < 2 ^ 32 \<Longrightarrow> int (length rrnd) < 2 ^ 32 \<Longrightarrow> int (length salt) < 2 ^ 32 \<Longrightarrow> 0 \<le> sid \<Longrightarrow> sid < 2 ^ 16 \<Longrightarrow>
   0 \<le> iter \<Longrightarrow> iter < 2 ^ 32 \<Longrightarrow> wf_telem (response_elem irnd rrnd sid iter salt)"
  by (simp add: response_elem_def leaf1_def wf_tag_def)

lemma wf_pake:
  "int (length a) < 2 ^ 32 \<Longrightarrow> wf_telem (pake_elem [a])"
  "int (length a) < 2 ^ 32 \<Longrightarrow> int (length b) < 2 ^ 32 \<Longrightarrow> wf_telem (pake_elem [a, b])"
  by (simp_all add: pake_elem_def leaf1_def wf_tag_def)

lemma read_request:
  "\<exists>fs. js_path [0] (JArr [tlv_json (request_elem rnd sid)]) = Inr fs \<and>
    (\<exists>gs. mapFields fs MapMsgPasePbkdfParamRequest = Inr gs \<and> getByName gs ''initiatorRandom'' = Inr (JBuf rnd) \<and>
      getByName gs ''initiatorSessionId'' = Inr (if sid < 2 ^ 32 then JNum sid else JBig sid) \<and>
      getByName gs ''passcodeId'' = Inr (JNum 0))"
  by (simp add: request_elem_def leaf1_def mapFields_def map_field_def MapMsgPasePbkdfParamRequest_def opt_num_def set_name_def)

lemma read_response:
  "\<exists>fs. js_path [0] (JArr [tlv_json (response_elem irnd rrnd sid iter salt)]) = Inr fs \<and>
    (\<exists>gs ps. mapFields fs MapMsgPasePbkdfParamResponse = Inr gs \<and>
      getByName gs ''responderSessionId'' = Inr (if sid < 2 ^ 32 then JNum sid else JBig sid) \<and>
      getByName gs ''pbkdfParameters'' = Inr ps \<and>
      js_path [0] ps = Inr (if iter < 2 ^ 32 then JNum iter else JBig iter) \<and> js_path [1] ps = Inr (JBuf salt))"
  by (simp add: response_elem_def leaf1_def mapFields_def map_field_def MapMsgPasePbkdfParamResponse_def opt_num_def set_name_def)

lemma read_pake:
  "js_path [0, 0] (JArr [tlv_json (pake_elem (a # bs))]) = Inr (JBuf a)"
  "js_path [0, 1] (JArr [tlv_json (pake_elem (a # b # bs))]) = Inr (JBuf b)"
  by (simp_all add: pake_elem_def leaf1_def)

section \<open>What each handler does\<close>

text \<open>
  \<open>pase_moves k p ps n n'\<close>: object \<open>p\<close> has become \<open>ps\<close>, one datagram has gone out,
  nothing else has changed but the session and the random octets used, and \<open>k\<close> more
  messages can be sent.
\<close>

definition pase_sent :: "nat \<Rightarrow> nat \<Rightarrow> pase \<Rightarrow> int \<Rightarrow> buffer \<Rightarrow> 'a pase_node_scheme \<Rightarrow> 'a pase_node_scheme \<Rightarrow> bool" where
  "pase_sent k p ps opc pay n n' \<longleftrightarrow>
     (\<exists>pkt. net_only (e_session (x_exchanges n ! ps_exchange ps)) (upd_pase p (\<lambda>_. ps) n) n' \<and> sendable k (ps_exchange ps) n' \<and>
        n_sent n' = n_sent n @ [pkt] \<and> carries pkt opc pay \<and> spoken SESSION_PROTOCOL_ID (ps_exchange ps) n n' pkt)"

definition ready :: "nat \<Rightarrow> nat \<Rightarrow> 'a pase_node_scheme \<Rightarrow> bool" where
  "ready k p n \<longleftrightarrow> p < length (pn_pases n) \<and> sendable k (ps_exchange (pn_pases n ! p)) n"

lemma pase_sent_state:
  assumes "pase_sent k p ps opc pay n n'" and "p < length (pn_pases n)"
  shows "pn_pases n' ! p = ps" "pn_tasks n' = pn_tasks n" "sm_secured n' = sm_secured n" "ready k p n'"
    "length (n_sessions n') = length (n_sessions n)" "length (pn_pases n') = length (pn_pases n)"
  using assms net_only_pase [of _ "upd_pase p (\<lambda>_. ps) n" n'] net_only_fields(2) [of _ "upd_pase p (\<lambda>_. ps) n" n']
  by (auto simp: pase_sent_def ready_def)

lemma pase_send_sent:
  assumes "p < length (pn_pases n)" and "ps_exchange ps = ps_exchange (pn_pases n ! p)"
    and "sendable (Suc k) (ps_exchange (pn_pases n ! p)) n" and "0 \<le> opc" and "opc < 2 ^ 8"
  shows "\<exists>n'. pase_send A p opc pay (upd_pase p (\<lambda>_. ps) (n\<lparr>n_drawn := d\<rparr>)) = Inr n' \<and> pase_sent k p ps opc pay n n'"
proof -
  let ?n = "upd_pase p (\<lambda>_. ps) (n\<lparr>n_drawn := d\<rparr>)"
  have u: "?n = (upd_pase p (\<lambda>_. ps) n)\<lparr>n_drawn := d\<rparr>" by (simp add: upd_pase_def)
  have f: "x_exchanges ?n = x_exchanges n" "n_sent ?n = n_sent n" "ps_exchange (pn_pases ?n ! p) = ps_exchange ps"
    using assms(1) by (simp_all add: upd_pase_def)
  have "sendable (Suc k) (ps_exchange ps) ?n" using assms(2,3) by (simp add: sendable_def upd_pase_def)
  then obtain n' pkt where "send_protocol A (ps_exchange ps) SESSION_PROTOCOL_ID opc pay ?n = Inr n'"
    "net_only (e_session (x_exchanges n ! ps_exchange ps)) ?n n'" "sendable k (ps_exchange ps) n'"
    "n_sent n' = n_sent n @ [pkt]" "carries pkt opc pay" "spoken SESSION_PROTOCOL_ID (ps_exchange ps) ?n n' pkt"
    using send_protocol_total [of k "ps_exchange ps" ?n SESSION_PROTOCOL_ID opc A pay] assms(4,5) f
    by (auto simp: SESSION_PROTOCOL_ID_def)
  moreover have "spoken SESSION_PROTOCOL_ID (ps_exchange ps) ?n n' pkt = spoken SESSION_PROTOCOL_ID (ps_exchange ps) n n' pkt" for n' pkt
    by (simp add: spoken_def upd_pase_def)
  ultimately show ?thesis
    using f net_only_trans [OF net_only_drawn] unfolding pase_send_def pase_sent_def u by metis
qed

lemma Random_net: "Random k n = (b, n') \<Longrightarrow> n' = n\<lparr>n_drawn := n_drawn n + k\<rparr> \<and> length b = k"
  by (auto simp: Random_def)

lemma RandomU16_net: "RandomU16 n = (v, n') \<Longrightarrow> n' = n\<lparr>n_drawn := n_drawn n + 2\<rparr> \<and> 0 \<le> v \<and> v < 2 ^ 16"
proof -
  assume "RandomU16 n = (v, n')"
  then have v: "v = le_val (rev (fst (Random 2 n)))" "n' = snd (Random 2 n)" by (simp_all add: RandomU16_def split: prod.splits)
  then show ?thesis
    using le_val_less [of "rev (fst (Random 2 n))"] Random_net [of 2 n] by (cases "Random 2 n") simp
qed

text \<open>The initiator opens.\<close>

definition after_request :: "buffer \<Rightarrow> int \<Rightarrow> pase \<Rightarrow> pase" where
  "after_request rnd sid ps = setState AWAIT_PBKDF_PARAM_RSP
     (ps\<lparr>ps_localRole := INITIATOR, ps_initiatorSessionId := JNum sid, ps_initiatorRandom := JBuf rnd,
         ps_passcodeId := JNum 0, ps_pbkdfRequest := Some (tlv_bytes (request_elem rnd sid))\<rparr>)"

lemma startPase_sends:
  assumes "ready (Suc k) p n" and "ps_state (pn_pases n ! p) = IDLE"
  shows "\<exists>rnd sid n'. length rnd = 32 \<and> 0 \<le> sid \<and> sid < 2 ^ 16 \<and> startPase A p n = Inr n' \<and>
    pase_sent k p (after_request rnd sid (pn_pases n ! p)) PaseCommand_ParamRequest (tlv_bytes (request_elem rnd sid)) n n'"
proof -
  obtain sid n1 where 1: "RandomU16 n = (sid, n1)" by (cases "RandomU16 n")
  obtain rnd n2 where 2: "Random 32 n1 = (rnd, n2)" by (cases "Random 32 n1")
  have n2: "n2 = n\<lparr>n_drawn := n_drawn n + 34\<rparr>" and l: "length rnd = 32" "0 \<le> sid" "sid < 2 ^ 16"
    using RandomU16_net [OF 1] Random_net [OF 2] by simp_all
  have enc: "writer_encode (TemplateMsgPasePbkdfParamRequest (JBuf rnd) (JNum sid) (JNum 0) JUndef (JNum 4000) (JNum 300)) =
      Inr (tlv_bytes (request_elem rnd sid))"
    using writer_encode_telem [OF template_request wf_request] l by simp
  have p: "p < length (pn_pases n)" "sendable (Suc k) (ps_exchange (pn_pases n ! p)) n" using assms(1) by (simp_all add: ready_def)
  let ?ps = "after_request rnd sid (pn_pases n ! p)"
  obtain n' where "pase_send A p PaseCommand_ParamRequest (tlv_bytes (request_elem rnd sid))
      (upd_pase p (\<lambda>_. ?ps) (n\<lparr>n_drawn := n_drawn n + 34\<rparr>)) = Inr n'"
    and s: "pase_sent k p ?ps PaseCommand_ParamRequest (tlv_bytes (request_elem rnd sid)) n n'"
    using pase_send_sent [OF p(1) _ p(2), of ?ps PaseCommand_ParamRequest A "tlv_bytes (request_elem rnd sid)" "n_drawn n + 34"]
    by (auto simp: after_request_def setState_def session_consts)
  then have "startPase A p n = Inr n'"
    using assms(2) p(1) enc 1 2
    by (simp add: startPase_def sendPbkdfParamRequest_def n2 Let_def after_request_def upd_pase_def comp_def)
  then show ?thesis using l s by blast
qed

text \<open>The responder answers with its parameters.\<close>

definition after_response :: "buffer \<Rightarrow> int \<Rightarrow> buffer \<Rightarrow> int \<Rightarrow> buffer \<Rightarrow> pase \<Rightarrow> pase" where
  "after_response rnd sid rrnd rsid rsp ps = setState AWAIT_PAKE1
     (ps\<lparr>ps_initiatorRandom := JBuf rnd, ps_initiatorSessionId := JNum sid, ps_passcodeId := JNum 0,
         ps_localRole := RESPONDER, ps_pbkdfRequest := Some (tlv_bytes (request_elem rnd sid)),
         ps_responderRandom := JBuf rrnd, ps_responderSessionId := JNum rsid, ps_pbkdfResponse := Some rsp\<rparr>)"

lemma onPbkdfParamRequest_sends:
  assumes "ready (Suc k) p n" and "ps_state (pn_pases n ! p) = IDLE"
    and "AppPayload msg = Inr (tlv_bytes (request_elem rnd sid))" and "length rnd = 32" and "0 \<le> sid" and "sid < 2 ^ 16"
    and "ps_paramIterations (pn_pases n ! p) = JNum iter" and "0 \<le> iter" and "iter < 2 ^ 32"
    and "ps_paramSaltHex (pn_pases n ! p) = hex_encode salt" and "int (length salt) < 2 ^ 32"
  shows "\<exists>rrnd rsid rsp n'. length rrnd = 32 \<and> 0 \<le> rsid \<and> rsid < 2 ^ 16 \<and> rsp = tlv_bytes (response_elem rnd rrnd rsid iter salt) \<and>
    onPbkdfParamRequest A p msg n = Inr n' \<and>
    pase_sent k p (after_response rnd sid rrnd rsid rsp (pn_pases n ! p)) PaseCommand_ParamResponse rsp n n'"
proof -
  have p: "p < length (pn_pases n)" "sendable (Suc k) (ps_exchange (pn_pases n ! p)) n" using assms(1) by (simp_all add: ready_def)
  let ?n0 = "upd_pase p (\<lambda>ps. ps\<lparr>ps_initiatorRandom := JBuf rnd, ps_initiatorSessionId := JNum sid, ps_passcodeId := JNum 0,
      ps_localRole := RESPONDER, ps_pbkdfRequest := Some (tlv_bytes (request_elem rnd sid))\<rparr>) n"
  have dec: "decode_json (tlv_bytes (request_elem rnd sid)) = Inr (JArr [tlv_json (request_elem rnd sid)])"
    using decode_telem [OF wf_request] assms(4-6) by simp
  have on: "onPbkdfParamRequest A p msg n = sendPbkdfParamResponse A p ?n0"
    using read_request [of rnd sid] dec assms(2,3,6) by (auto simp: onPbkdfParamRequest_def)
  obtain rrnd n1 where 1: "Random 32 ?n0 = (rrnd, n1)" by (cases "Random 32 ?n0")
  obtain rsid n2 where 2: "RandomU16 n1 = (rsid, n2)" by (cases "RandomU16 n1")
  have n2: "n2 = ?n0\<lparr>n_drawn := n_drawn ?n0 + 34\<rparr>" and l: "length rrnd = 32" "0 \<le> rsid" "rsid < 2 ^ 16"
    using RandomU16_net [OF 2] Random_net [OF 1] by simp_all
  let ?rsp = "tlv_bytes (response_elem rnd rrnd rsid iter salt)"
  have enc: "writer_encode (TemplateMsgPasePbkdfParamResponse (JStr (hex_encode rnd)) (JStr (hex_encode rrnd)) (JNum rsid)
      (JNum iter) (JStr (hex_encode salt))) = Inr ?rsp"
    using writer_encode_telem [OF template_response wf_response] l assms by simp
  let ?ps = "after_response rnd sid rrnd rsid ?rsp (pn_pases n ! p)"
  obtain n' where n': "pase_send A p PaseCommand_ParamResponse ?rsp (upd_pase p (\<lambda>_. ?ps) (n\<lparr>n_drawn := n_drawn n + 34\<rparr>)) = Inr n'"
    and s: "pase_sent k p ?ps PaseCommand_ParamResponse ?rsp n n'"
    using pase_send_sent [OF p(1) _ p(2), of ?ps PaseCommand_ParamResponse A ?rsp "n_drawn n + 34"]
    by (auto simp: after_response_def setState_def session_consts)
  have "sendPbkdfParamResponse A p ?n0 = Inr n'"
    using n' p(1) enc 1 2 assms(7,10)
    by (simp add: sendPbkdfParamResponse_def n2 Let_def after_response_def upd_pase_def comp_def)
  then show ?thesis using l s on by auto
qed

section \<open>What the packages promise\<close>

text \<open>
  PBKDF2 takes a text salt for its UTF-8 octets and gives 80 octets; the verifier and the two
  parties can be computed; two parties started with the same context and verifier that exchange
  their public values reach the same secret, and the confirmation the client computes from it is
  the one the server's \<open>verifyHash\<close> accepts; public values and confirmations are short.
\<close>

definition spake_ok :: "spake \<Rightarrow> bool" where
  "spake_ok S \<longleftrightarrow>
     (\<forall>pc s it. sp_pbkdf2 S pc (JStr s) it 80 = sp_pbkdf2 S pc (JBuf (utf8_encode s)) it 80) \<and>
     (\<forall>pc b it. 0 < it \<longrightarrow> (\<exists>w. sp_pbkdf2 S pc (JBuf b) (JNum it) 80 = Inr w \<and> length w = 80)) \<and>
     (\<forall>ctx w0 w1. length w0 = 40 \<longrightarrow> length w1 = 40 \<longrightarrow> (\<exists>v. sp_verifier S ctx w0 w1 = Inr v)) \<and>
     (\<forall>ctx v r. (\<exists>c. sp_client_start S ctx v r = Inr c) \<and> (\<exists>c. sp_server_start S ctx v r = Inr c)) \<and>
     (\<forall>ctx v r1 r2 c s. sp_client_start S ctx v r1 = Inr c \<longrightarrow> sp_server_start S ctx v r2 = Inr s \<longrightarrow>
        (\<exists>k. sp_client_finish S c (JBuf (hex_decode (sp_message S s))) = Inr k \<and>
             sp_server_finish S s (JBuf (hex_decode (sp_message S c))) = Inr k \<and>
             (\<forall>cA. sp_mac S (JBuf (hex_decode (sp_message S s))) (k_KcA k) = Inr cA \<longrightarrow> sp_verify S k (JBuf cA) = Inr ()))) \<and>
     (\<forall>b key. \<exists>m. sp_mac S (JBuf b) key = Inr m \<and> int (length m) < 2 ^ 16) \<and>
     (\<forall>c. int (length (hex_decode (sp_message S c))) < 2 ^ 16)"

lemma spake_lengths:
  assumes "spake_ok S"
  shows "int (length (hex_decode (sp_message S c))) < 65536" and "\<exists>m. sp_mac S (JBuf b) key = Inr m \<and> int (length m) < 65536"
  using assms by (simp_all add: spake_ok_def)

definition kdf_ok :: "hkdf \<Rightarrow> bool" where
  "kdf_ok kdf \<longleftrightarrow> (\<forall>secret salt info. \<exists>b. kdf secret 48 salt info = Inr b \<and> length b = 48)"

definition verifier_for :: "spake \<Rightarrow> buffer \<Rightarrow> int \<Rightarrow> buffer \<Rightarrow> int \<Rightarrow> buffer \<Rightarrow> bool" where
  "verifier_for S ctx pc salt it v \<longleftrightarrow> (\<exists>w. sp_pbkdf2 S (le_bytes 4 pc) (JBuf salt) (JNum it) 80 = Inr w \<and> length w = 80 \<and>
     sp_verifier S ctx (take 40 w) (drop 40 w) = Inr v)"

lemma verifier_for_fun: "verifier_for S ctx pc salt it v \<Longrightarrow> verifier_for S ctx pc salt it v' \<Longrightarrow> v = v'"
  by (auto simp: verifier_for_def)

lemma pbkdf2_split:
  assumes "spake_ok S" and "0 < it"
  obtains w v where "sp_pbkdf2 S pc (JBuf salt) (JNum it) 80 = Inr w" "length w = 80" "sp_verifier S ctx (take 40 w) (drop 40 w) = Inr v"
proof -
  from assms obtain w where w: "sp_pbkdf2 S pc (JBuf salt) (JNum it) 80 = Inr w" "length w = 80" unfolding spake_ok_def by metis
  moreover from w(2) have "length (take 40 w) = 40" "length (drop 40 w) = 40" by simp_all
  with assms(1) obtain v where "sp_verifier S ctx (take 40 w) (drop 40 w) = Inr v" unfolding spake_ok_def by metis
  ultimately show ?thesis using that by blast
qed

definition with_salt :: "jsval \<Rightarrow> buffer \<Rightarrow> bool" where
  "with_salt v salt \<longleftrightarrow> v = JBuf salt \<or> (\<exists>s. v = JStr s \<and> utf8_encode s = salt)"

lemma generateVerifier_ok:
  assumes "spake_ok S" and "0 < it" and "0 \<le> ps_paramPaircode ps" and "ps_paramPaircode ps < 2 ^ 32" and "ps_spake2 ps = Some ctx"
    and "ps' = ps\<lparr>ps_paramIterations := (if iv = JUndef then ps_paramIterations ps else iv),
                 ps_paramSalt := (if sv = JUndef then ps_paramSalt ps else sv)\<rparr>"
    and "iv \<noteq> JNull" and "sv \<noteq> JNull" and "ps_paramIterations ps' = JNum it" and "with_salt (ps_paramSalt ps') salt"
  shows "\<exists>v. generateVerifier S iv sv ps = Inr (ps', v) \<and> verifier_for S ctx (ps_paramPaircode ps) salt it v"
proof -
  let ?pc = "le_bytes 4 (ps_paramPaircode ps)"
  obtain w v where w: "sp_pbkdf2 S ?pc (JBuf salt) (JNum it) 80 = Inr w" "length w = 80" "sp_verifier S ctx (take 40 w) (drop 40 w) = Inr v"
    by (rule pbkdf2_split [OF assms(1,2)])
  have salt: "sp_pbkdf2 S ?pc (ps_paramSalt ps') (JNum it) 80 = Inr w"
    using assms(1,10) w(1) by (auto simp: spake_ok_def with_salt_def)
  have sub: "subarray 0 40 w = take 40 w" "subarray 40 80 w = drop 40 w"
    using w(2) subarray_0 [of 40 w] subarray_nat [of 40 80 w] by simp_all
  have upd: "(let ps = (if iv = JUndef \<or> iv = JNull then ps else ps\<lparr>ps_paramIterations := iv\<rparr>);
      ps = (if sv = JUndef \<or> sv = JNull then ps else ps\<lparr>ps_paramSalt := sv\<rparr>) in ps) = ps'"
    using assms(6,7,8) by (cases ps) (auto simp: Let_def)
  have "write_uint_le 4 (ps_paramPaircode ps) 0 (buf_alloc 4) = Inr ?pc"
    using assms(3,4) by (simp add: write_uint_le_def splice_alloc_full del: le_bytes.simps)
  moreover have "ps_paramPaircode ps' = ps_paramPaircode ps" "ps_spake2 ps' = Some ctx" using assms(5,6) by simp_all
  ultimately show ?thesis
    using w salt sub assms(9) upd unfolding generateVerifier_def Let_def verifier_for_def by auto
qed

definition context_of :: "spake \<Rightarrow> buffer \<Rightarrow> buffer \<Rightarrow> buffer" where
  "context_of S req rsp = sp_sha256 S (utf8_encode PASE_CONTEXT_SALT @ req @ rsp)"

text \<open>The initiator, on the responder's parameters, starts to compute the verifier.\<close>

definition after_parameters :: "spake \<Rightarrow> buffer \<Rightarrow> buffer \<Rightarrow> int \<Rightarrow> int \<Rightarrow> buffer \<Rightarrow> pase \<Rightarrow> pase" where
  "after_parameters S req rsp rsid iter salt ps =
     ps\<lparr>ps_pbkdfResponse := Some rsp, ps_responderSessionId := JNum rsid, ps_spake2 := Some (context_of S req rsp),
        ps_paramIterations := JNum iter, ps_paramSalt := JBuf salt\<rparr>"

lemma onPbkdfParamResponse_computes:
  assumes "spake_ok S" and "ps = pn_pases n ! p" and "AppPayload msg = Inr (tlv_bytes (response_elem irnd rrnd rsid iter salt))"
    and "wf_telem (response_elem irnd rrnd rsid iter salt)" and "rsid < 2 ^ 16" and "0 < iter" and "iter < 2 ^ 32"
    and "ps_pbkdfRequest ps = Some req" and "0 \<le> ps_paramPaircode ps" and "ps_paramPaircode ps < 2 ^ 32"
    and "rsp = tlv_bytes (response_elem irnd rrnd rsid iter salt)"
  shows "\<exists>v. onPbkdfParamResponse S p msg n =
      Inr (push_task (ClientVerifier p v) (upd_pase p (\<lambda>_. after_parameters S req rsp rsid iter salt ps) n)) \<and>
    verifier_for S (context_of S req rsp) (ps_paramPaircode ps) salt iter v"
proof -
  let ?ps = "ps\<lparr>ps_pbkdfResponse := Some rsp, ps_responderSessionId := JNum rsid\<rparr>"
  have ctx: "computeContext S ?ps = Inr (context_of S req rsp)" using assms(8) by (simp add: computeContext_def context_of_def)
  have "\<exists>v. generateVerifier S (JNum iter) (JBuf salt) (?ps\<lparr>ps_spake2 := Some (context_of S req rsp)\<rparr>) =
      Inr (after_parameters S req rsp rsid iter salt ps, v) \<and> verifier_for S (context_of S req rsp) (ps_paramPaircode ps) salt iter v"
    by (rule generateVerifier_ok [OF assms(1,6), where ps = "?ps\<lparr>ps_spake2 := Some (context_of S req rsp)\<rparr>", simplified])
      (use assms(9,10) in \<open>simp_all add: after_parameters_def with_salt_def\<close>)
  then show ?thesis
    using read_response [of irnd rrnd rsid iter salt] decode_telem [OF assms(4)] assms(2,3,5,7,11) ctx
    by (auto simp: onPbkdfParamResponse_def Let_def)
qed

lemma push_task_fields [simp]:
  "pn_pases (push_task t n) = pn_pases n" "pn_tasks (push_task t n) = pn_tasks n @ [t]" "n_sent (push_task t n) = n_sent n"
  "sm_secured (push_task t n) = sm_secured n" "n_sessions (push_task t n) = n_sessions n" "x_exchanges (push_task t n) = x_exchanges n"
  by (simp_all add: push_task_def)

lemma sendable_cong:
  "x_exchanges n' = x_exchanges n \<Longrightarrow> n_sessions n' = n_sessions n \<Longrightarrow> sendable k x n' = sendable k x n"
  by (simp add: sendable_def)

text \<open>The started party, client or server, after the verifier.\<close>

lemma run_verifier:
  assumes "spake_ok S" and "p < length (pn_pases n)" and "ps_spake2 (pn_pases n ! p) = Some ctx"
  shows "\<exists>c rnd. run_task A S (ClientVerifier p v) n = Inr (push_task (ClientStarted p c)
      ((upd_pase p (\<lambda>ps. ps\<lparr>ps_spakeVerifier := Some v\<rparr>) n)\<lparr>n_drawn := n_drawn n + 32\<rparr>)) \<and> sp_client_start S ctx v rnd = Inr c"
    and "\<exists>c rnd. run_task A S (ServerVerifier p v) n = Inr (push_task (ServerStarted p c)
      ((upd_pase p (\<lambda>ps. ps\<lparr>ps_spakeVerifier := Some v\<rparr>) n)\<lparr>n_drawn := n_drawn n + 32\<rparr>)) \<and> sp_server_start S ctx v rnd = Inr c"
proof -
  let ?n = "upd_pase p (\<lambda>ps. ps\<lparr>ps_spakeVerifier := Some v\<rparr>) n"
  obtain rnd n1 where r: "Random 32 ?n = (rnd, n1)" by (cases "Random 32 ?n")
  have n1: "n1 = ?n\<lparr>n_drawn := n_drawn n + 32\<rparr>" using Random_net [OF r] by (simp add: upd_pase_def)
  obtain c s where "sp_client_start S ctx v rnd = Inr c" "sp_server_start S ctx v rnd = Inr s"
    using assms(1) unfolding spake_ok_def by metis
  then show "\<exists>c rnd. run_task A S (ClientVerifier p v) n = Inr (push_task (ClientStarted p c) (?n\<lparr>n_drawn := n_drawn n + 32\<rparr>)) \<and> sp_client_start S ctx v rnd = Inr c"
    and "\<exists>c rnd. run_task A S (ServerVerifier p v) n = Inr (push_task (ServerStarted p c) (?n\<lparr>n_drawn := n_drawn n + 32\<rparr>)) \<and> sp_server_start S ctx v rnd = Inr c"
    using assms(2,3) r n1 by (auto simp: run_task_def Let_def)
qed

lemma pase_send_here:
  assumes "p < length (pn_pases n)" and "ps_exchange ps = ps_exchange (pn_pases n ! p)"
    and "sendable (Suc k) (ps_exchange (pn_pases n ! p)) n" and "0 \<le> opc" and "opc < 2 ^ 8"
  shows "\<exists>n'. pase_send A p opc pay (upd_pase p (\<lambda>_. ps) n) = Inr n' \<and> pase_sent k p ps opc pay n n'"
  using pase_send_sent [OF assms, of A pay "n_drawn n"] by simp

text \<open>The initiator sends its public value.\<close>

lemma run_ClientStarted:
  assumes "spake_ok S" and "ready (Suc k) p n" and "x = ps_exchange (pn_pases n ! p)"
    and "ps = setState AWAIT_PAKE2 ((pn_pases n ! p)\<lparr>ps_spakeClient := Some c, ps_pA := JStr (sp_message S c)\<rparr>)"
  shows "\<exists>n'. run_task A S (ClientStarted p c) n = Inr n' \<and>
    pase_sent k p ps PaseCommand_Pake1 (tlv_bytes (pake_elem [hex_decode (sp_message S c)]))
      (upd_exchange x (\<lambda>e. e\<lparr>e_isAck := True\<rparr>) n) n'"
proof -
  let ?n = "upd_exchange x (\<lambda>e. e\<lparr>e_isAck := True\<rparr>) n"
  have len: "int (length (hex_decode (sp_message S c))) < 2 ^ 32"
    using spake_lengths(1) [OF assms(1), of c] by simp
  have enc: "writer_encode (TemplateMsgPasePake1 (JStr (sp_message S c))) = Inr (tlv_bytes (pake_elem [hex_decode (sp_message S c)]))"
    by (rule writer_encode_telem [OF template_pake(1) wf_pake(1) [OF len]])
  have p: "p < length (pn_pases ?n)" "sendable (Suc k) (ps_exchange (pn_pases ?n ! p)) ?n"
    using assms(2) sendable_ack [of "Suc k" "ps_exchange (pn_pases n ! p)" n] by (simp_all add: ready_def upd_exchange_def)
  have x: "ps_exchange ps = ps_exchange (pn_pases ?n ! p)" by (simp add: assms(4) setState_def upd_exchange_def)
  obtain n' where "pase_send A p PaseCommand_Pake1 (tlv_bytes (pake_elem [hex_decode (sp_message S c)])) (upd_pase p (\<lambda>_. ps) ?n) = Inr n'"
    "pase_sent k p ps PaseCommand_Pake1 (tlv_bytes (pake_elem [hex_decode (sp_message S c)])) ?n n'"
    using pase_send_here [OF p(1) x p(2), of PaseCommand_Pake1 A] by (auto simp: session_consts)
  moreover have "upd_pase p (\<lambda>_. ps) ?n = upd_exchange x (\<lambda>e. e\<lparr>e_isAck := True\<rparr>) (upd_pase p (setState AWAIT_PAKE2)
      (upd_pase p (\<lambda>ps. ps\<lparr>ps_spakeClient := Some c, ps_pA := JStr (sp_message S c)\<rparr>) n))"
    by (simp add: upd_exchange_pase assms(4)) (simp add: upd_pase_def upd_exchange_def)
  ultimately show ?thesis
    using enc p(1) assms(3) by (simp add: run_task_def sendPake1_def)
qed

end
