(* ===== verification/Pase_Run.thy ===== *)
theory Pase_Run
  imports Pase_Handshake
begin

text \<open>
  The second half of the PASE handshake (the public values, the confirmations, the sessions), the
  run of a whole handshake between two nodes, and the state machine with an arbitrary peer.
\<close>

section \<open>The responder's answer to the public value\<close>

lemma onPake1_computes:
  assumes "spake_ok S" and "ps = pn_pases n ! p" and "ps_state ps = AWAIT_PAKE1"
    and "AppPayload msg = Inr (tlv_bytes (pake_elem [a]))" and "int (length a) < 65536"
    and "ps_pbkdfRequest ps = Some req" and "ps_pbkdfResponse ps = Some rsp"
    and "0 \<le> ps_paramPaircode ps" and "ps_paramPaircode ps < 2 ^ 32"
    and "ps_paramIterations ps = JNum iter" and "0 < iter" and "with_salt (ps_paramSalt ps) salt"
  shows "\<exists>v. onPake1 S p msg n =
      Inr (push_task (ServerVerifier p v) (upd_pase p (\<lambda>_. ps\<lparr>ps_pA := JBuf a, ps_spake2 := Some (context_of S req rsp)\<rparr>) n)) \<and>
    verifier_for S (context_of S req rsp) (ps_paramPaircode ps) salt iter v"
proof -
  let ?ps = "ps\<lparr>ps_pA := JBuf a, ps_spake2 := Some (context_of S req rsp)\<rparr>"
  have ctx: "computeContext S (ps\<lparr>ps_pA := JBuf a\<rparr>) = Inr (context_of S req rsp)"
    using assms(6,7) by (simp add: computeContext_def context_of_def)
  have "\<exists>v. generateVerifier S JUndef JUndef ?ps = Inr (?ps, v) \<and> verifier_for S (context_of S req rsp) (ps_paramPaircode ps) salt iter v"
    by (rule generateVerifier_ok [OF assms(1,11), where ps = ?ps, simplified]) (use assms(8-12) in simp_all)
  moreover have "decode_json (tlv_bytes (pake_elem [a])) = Inr (JArr [tlv_json (pake_elem [a])])"
    by (rule decode_telem [OF wf_pake(1)]) (use assms(5) in simp)
  ultimately show ?thesis
    using read_pake(1) [of a "[]"] assms(2-4) ctx by (auto simp: onPake1_def Let_def)
qed

definition after_pake1 :: "spake \<Rightarrow> buffer \<Rightarrow> pase_secret \<Rightarrow> buffer \<Rightarrow> pase \<Rightarrow> pase" where
  "after_pake1 S srv k cB ps = setState AWAIT_PAKE3 (ps\<lparr>ps_spakeServer := Some srv, ps_pB := JStr (sp_message S srv),
     ps_secret := Some k, ps_cB := JStr (hex_encode cB)\<rparr>)"

lemma run_ServerStarted:
  assumes "spake_ok S" and "ready (Suc j) p n" and "ps_pA (pn_pases n ! p) = JBuf a" and "sp_server_finish S srv (JBuf a) = Inr k"
    and "sp_mac S (JBuf a) (k_KcB k) = Inr cB" and "int (length cB) < 65536"
  shows "\<exists>n'. run_task A S (ServerStarted p srv) n = Inr n' \<and>
    pase_sent j p (after_pake1 S srv k cB (pn_pases n ! p)) PaseCommand_Pake2
      (tlv_bytes (pake_elem [hex_decode (sp_message S srv), cB])) n n'"
proof -
  let ?ps = "after_pake1 S srv k cB (pn_pases n ! p)" and ?pay = "tlv_bytes (pake_elem [hex_decode (sp_message S srv), cB])"
  have p: "p < length (pn_pases n)" "sendable (Suc j) (ps_exchange (pn_pases n ! p)) n" using assms(2) by (simp_all add: ready_def)
  have enc: "writer_encode (TemplateMsgPasePake2 (JStr (sp_message S srv)) (JStr (hex_encode cB))) = Inr ?pay"
    using writer_encode_telem [OF template_pake(2) wf_pake(2)] spake_lengths(1) [OF assms(1), of srv] assms(6)
    by (simp add: hex_decode_encode)
  have x: "ps_exchange ?ps = ps_exchange (pn_pases n ! p)" by (simp add: after_pake1_def setState_def)
  obtain n' where "pase_send A p PaseCommand_Pake2 ?pay (upd_pase p (\<lambda>_. ?ps) n) = Inr n'" "pase_sent j p ?ps PaseCommand_Pake2 ?pay n n'"
    using pase_send_here [OF p(1) x p(2), of PaseCommand_Pake2 A ?pay] by (auto simp: session_consts)
  then show ?thesis
    using enc p(1) assms(3-5) by (simp add: run_task_def sendPake2_def after_pake1_def upd_pase_def comp_def)
qed

section \<open>Sessions\<close>

text \<open>A secured session with these keys and session ids is in the table.\<close>

definition has_session :: "buffer list \<Rightarrow> jsval \<Rightarrow> jsval \<Rightarrow> 'a session_manager_scheme \<Rightarrow> bool" where
  "has_session keys l r n \<longleftrightarrow> (\<exists>a \<in> set (sm_secured n). a < length (n_sessions n) \<and> s_keys (n_sessions n ! a) = Some keys \<and>
     s_localSessionId (n_sessions n ! a) = l \<and> s_peerSessionId (n_sessions n ! a) = r)"

definition session_keys :: "hkdf \<Rightarrow> pase_secret \<Rightarrow> buffer list result" where
  "session_keys kdf k = keys_from_secret kdf (k_Ke k) [] (utf8_encode (js_string ''SessionKeys''))"

lemma session_keys_ok: "kdf_ok kdf \<Longrightarrow> \<exists>keys. session_keys kdf k = Inr keys \<and> length keys = 3"
proof -
  assume "kdf_ok kdf"
  then obtain b where "kdf (k_Ke k) 48 [] (utf8_encode (js_string ''SessionKeys'')) = Inr b" unfolding kdf_ok_def by metis
  then show ?thesis by (simp add: session_keys_def keys_from_secret_def)
qed

lemma createSecureSession_ok:
  assumes "session_keys kdf k = Inr keys" and "ps_secret (pn_pases n ! p) = Some k"
    and "ids = (if ps_localRole (pn_pases n ! p) = INITIATOR then (ps_initiatorSessionId (pn_pases n ! p), ps_responderSessionId (pn_pases n ! p))
       else (ps_responderSessionId (pn_pases n ! p), ps_initiatorSessionId (pn_pases n ! p)))"
  shows "\<exists>n'. createSecureSession kdf p n = Inr n' \<and> has_session keys (fst ids) (snd ids) n' \<and> pn_pases n' = pn_pases n \<and>
    pn_tasks n' = pn_tasks n \<and> n_sent n' = n_sent n \<and> x_exchanges n' = x_exchanges n"
proof -
  obtain a n1 where n1: "newSession (fst ids) (snd ids) True n = (a, n1)" by (cases "newSession (fst ids) (snd ids) True n")
  then have a: "a = length (n_sessions n)" "length (n_sessions n1) = Suc a" "sm_secured n1 = sm_secured n @ [a]"
    "s_keys (n_sessions n1 ! a) = Some test_keys" "s_localSessionId (n_sessions n1 ! a) = fst ids"
    "s_peerSessionId (n_sessions n1 ! a) = snd ids" "pn_pases n1 = pn_pases n" "pn_tasks n1 = pn_tasks n" "n_sent n1 = n_sent n"
    "x_exchanges n1 = x_exchanges n"
    by (auto simp: newSession_def new_session_def RandomU32_def Random_def Let_def split: prod.splits)
  have c: "createSecureSession kdf p n = initPaseSession kdf p a n1"
    using n1 assms(3) by (auto simp: createSecureSession_def Let_def split: if_splits)
  let ?n = "upd_session a (\<lambda>s. s\<lparr>s_keys := Some keys\<rparr>) n1"
  have "createSecureSession kdf p n = Inr ?n"
    using c a assms(1,2) by (simp add: initPaseSession_def initFromSecret_def session_keys_def)
  moreover have "has_session keys (fst ids) (snd ids) ?n" using a by (auto simp: has_session_def upd_session_def)
  ultimately show ?thesis using a by (auto simp: upd_session_def)
qed

text \<open>A step that made one: its keys are those of the secret \<open>k\<close>, and it is the last of the table.\<close>

definition opens_session :: "hkdf \<Rightarrow> pase_secret \<Rightarrow> 'a session_manager_scheme \<Rightarrow> 'a session_manager_scheme \<Rightarrow> bool" where
  "opens_session kdf k n n' \<longleftrightarrow> (\<exists>keys. session_keys kdf k = Inr keys \<and> sm_secured n' = sm_secured n @ [length (n_sessions n)] \<and>
     length (n_sessions n') = Suc (length (n_sessions n)) \<and> s_keys (n_sessions n' ! length (n_sessions n)) = Some keys)"

lemma createSecureSession_opens:
  assumes "createSecureSession kdf p n = Inr n'"
  shows "\<exists>k. ps_secret (pn_pases n ! p) = Some k \<and> opens_session kdf k n n'"
  using assms by (auto simp: createSecureSession_def initPaseSession_def initFromSecret_def newSession_def new_session_def
      RandomU32_def Random_def Let_def upd_session_def opens_session_def session_keys_def split: if_splits prod.splits option.splits)

section \<open>The confirmations\<close>

definition after_pake2 :: "buffer \<Rightarrow> buffer \<Rightarrow> pase_secret \<Rightarrow> buffer \<Rightarrow> pase \<Rightarrow> pase" where
  "after_pake2 b cB k cA ps =
     setState IDLE (ps\<lparr>ps_pB := JBuf b, ps_cB := JBuf cB, ps_secret := Some k, ps_cA := JStr (hex_encode cA)\<rparr>)"

lemma onPake2_finishes:
  assumes "ready (Suc j) p n" and "ps = pn_pases n ! p" and "ps_state ps = AWAIT_PAKE2"
    and "AppPayload msg = Inr (tlv_bytes (pake_elem [b, cB]))" and "int (length b) < 65536" and "int (length cB) < 65536"
    and "ps_spakeClient ps = Some c" and "ps_pA ps = JStr t" and "sp_client_finish S c (JBuf b) = Inr k"
    and "sp_mac S (JBuf b) (k_KcA k) = Inr cA" and "int (length cA) < 65536"
  shows "\<exists>n1. onPake2 A kdf S p msg n = createSecureSession kdf p n1 \<and>
    pase_sent j p (after_pake2 b cB k cA ps) PaseCommand_Pake3 (tlv_bytes (pake_elem [cA])) n n1"
proof -
  let ?ps = "after_pake2 b cB k cA ps" and ?pay = "tlv_bytes (pake_elem [cA])"
  have p: "p < length (pn_pases n)" "sendable (Suc j) (ps_exchange (pn_pases n ! p)) n" using assms(1) by (simp_all add: ready_def)
  have enc: "writer_encode (TemplateMsgPasePake3 (JStr (hex_encode cA))) = Inr ?pay"
    using writer_encode_telem [OF template_pake(3) wf_pake(1)] assms(11) by (simp add: hex_decode_encode)
  have dec: "decode_json (tlv_bytes (pake_elem [b, cB])) = Inr (JArr [tlv_json (pake_elem [b, cB])])"
    by (rule decode_telem [OF wf_pake(2)]) (use assms(5,6) in simp_all)
  have x: "ps_exchange ?ps = ps_exchange (pn_pases n ! p)" by (simp add: after_pake2_def setState_def assms(2))
  obtain n' where "pase_send A p PaseCommand_Pake3 ?pay (upd_pase p (\<lambda>_. ?ps) n) = Inr n'" "pase_sent j p ?ps PaseCommand_Pake3 ?pay n n'"
    using pase_send_here [OF p(1) x p(2), of PaseCommand_Pake3 A ?pay] by (auto simp: session_consts)
  then show ?thesis
    using enc dec p(1) assms(2-4,7-10)
    by (intro exI [of _ n']) (simp add: onPake2_def sendPake3_def after_pake2_def upd_pase_def comp_def
        read_pake [unfolded One_nat_def] del: js_path.simps)
qed

lemma status_payload_total: "\<exists>pay. status_payload (general_code c) SESSION_PROTOCOL_ID SESSION_ESTABLISHMENT_SUCCESS None = Inr pay"
  by (cases c) (simp_all add: status_payload_def write_uint_le_def session_consts buf_alloc_def splice_def)

lemma rmap_as_bind: "rbind r (\<lambda>x. Inr (f x)) = rmap f r"
  by (cases r) simp_all

lemma onPake3_finishes:
  assumes "ready (Suc j) p n" and "ps = pn_pases n ! p" and "ps_state ps = AWAIT_PAKE3"
    and "AppPayload msg = Inr (tlv_bytes (pake_elem [cA]))" and "int (length cA) < 65536"
    and "ps_secret ps = Some k" and "sp_verify S k (JBuf cA) = Inr ()"
  shows "\<exists>n1 pay. onPake3 A kdf S p msg n = rmap (upd_pase p (setState IDLE)) (createSecureSession kdf p n1) \<and>
    status_payload (general_code SUCCESS) SESSION_PROTOCOL_ID SESSION_ESTABLISHMENT_SUCCESS None = Inr pay \<and>
    pase_sent j p (ps\<lparr>ps_cA := JBuf cA\<rparr>) Command_StatusReport pay n n1"
proof -
  let ?ps = "ps\<lparr>ps_cA := JBuf cA\<rparr>"
  have p: "p < length (pn_pases n)" "sendable (Suc j) (ps_exchange (pn_pases n ! p)) n" using assms(1) by (simp_all add: ready_def)
  have dec: "decode_json (tlv_bytes (pake_elem [cA])) = Inr (JArr [tlv_json (pake_elem [cA])])"
    by (rule decode_telem [OF wf_pake(1)]) (use assms(5) in simp)
  obtain pay where pay: "status_payload (general_code SUCCESS) SESSION_PROTOCOL_ID SESSION_ESTABLISHMENT_SUCCESS None = Inr pay"
    using status_payload_total by blast
  have x: "ps_exchange ?ps = ps_exchange (pn_pases n ! p)" by (simp add: assms(2))
  have u: "upd_pase p (\<lambda>ps. ps\<lparr>ps_cA := JBuf cA\<rparr>) n = upd_pase p (\<lambda>_. ?ps) n" by (simp add: assms(2) upd_pase_def)
  obtain n' where "pase_send A p Command_StatusReport pay (upd_pase p (\<lambda>_. ?ps) n) = Inr n'" "pase_sent j p ?ps Command_StatusReport pay n n'"
    using pase_send_here [OF p(1) x p(2), of Command_StatusReport A pay] by (auto simp: session_consts)
  then show ?thesis
    using dec p(1) assms(2-4,6-7) pay
    by (intro exI [of _ n'] exI [of _ pay]) (simp add: onPake3_def sendSuccess_def sendStatus_def status_send_def
        pase_send_def read_pake rmap_as_bind u del: js_path.simps)
qed

section \<open>A whole handshake\<close>

text \<open>
  The queue of awaited values is served in order. A message is delivered to the PASE object that
  listens on the exchange, as the octets of the datagram its peer sent last.
\<close>

definition next_task :: "aead \<Rightarrow> spake \<Rightarrow> 'a pase_node_scheme \<Rightarrow> 'a pase_node_scheme result" where
  "next_task A S n = (case pn_tasks n of [] \<Rightarrow> Inr n | t # ts \<Rightarrow> run_task A S t (n\<lparr>pn_tasks := ts\<rparr>))"

lemma next_task_pushed: "pn_tasks n = [] \<Longrightarrow> next_task A S (push_task t n) = run_task A S t n"
  by (cases n) (simp add: next_task_def push_task_def)

definition deliver :: "aead \<Rightarrow> hkdf \<Rightarrow> spake \<Rightarrow> nat \<Rightarrow> 'a pase_node_scheme \<Rightarrow> 'b pase_node_scheme \<Rightarrow> 'b pase_node_scheme result" where
  "deliver A kdf S p src n = onExchangeMessage A kdf S p (new_message_of (p_data (last (n_sent src))) None None) n"

definition handshake ::
  "aead \<Rightarrow> hkdf \<Rightarrow> spake \<Rightarrow> nat \<Rightarrow> 'a pase_node_scheme \<Rightarrow> nat \<Rightarrow> 'b pase_node_scheme \<Rightarrow> ('a pase_node_scheme \<times> 'b pase_node_scheme) result" where
  "handshake A kdf S p i q r =
     rbind (startPase A p i) (\<lambda>i.
     rbind (deliver A kdf S q i r) (\<lambda>r.
     rbind (rbind (deliver A kdf S p r i) (\<lambda>i. rbind (next_task A S i) (next_task A S))) (\<lambda>i.
     rbind (rbind (deliver A kdf S q i r) (\<lambda>r. rbind (next_task A S r) (next_task A S))) (\<lambda>r.
     rbind (deliver A kdf S p r i) (\<lambda>i.
     rbind (deliver A kdf S q i r) (\<lambda>r. Inr (i, r)))))))"

definition sent_last :: "int \<Rightarrow> buffer \<Rightarrow> 'a net_scheme \<Rightarrow> bool" where
  "sent_last opc pay n \<longleftrightarrow> n_sent n \<noteq> [] \<and> carries (last (n_sent n)) opc pay"

lemma pase_sent_last: "pase_sent k p ps opc pay n n' \<Longrightarrow> sent_last opc pay n'"
  by (auto simp: pase_sent_def sent_last_def)

lemma deliver_sent:
  assumes "sent_last opc pay src"
  obtains m where "AppPayload m = Inr pay" and "deliver A kdf S p src n =
      (if opc = PaseCommand_ParamRequest then onPbkdfParamRequest A p m n
       else if opc = PaseCommand_ParamResponse then onPbkdfParamResponse S p m n
       else if opc = PaseCommand_Pake1 then onPake1 S p m n
       else if opc = PaseCommand_Pake2 then onPake2 A kdf S p m n
       else if opc = PaseCommand_Pake3 then onPake3 A kdf S p m n
       else Inr n)"
proof -
  let ?m = "new_message_of (p_data (last (n_sent src))) None None"
  have "ProtocolOpcode ?m = Inr opc" "AppPayload ?m = Inr pay" "\<exists>i. ExchangeId ?m = Inr i"
    using assms by (auto simp: sent_last_def carries_def Let_def)
  then show ?thesis using that [of ?m] by (auto simp: deliver_def onExchangeMessage_def)
qed

lemma ready_cong:
  "pn_pases n' = pn_pases n \<Longrightarrow> x_exchanges n' = x_exchanges n \<Longrightarrow> n_sessions n' = n_sessions n \<Longrightarrow> ready k p n' = ready k p n"
  by (simp add: ready_def sendable_def)

lemma ready_upd:
  "ps_exchange ps = ps_exchange (pn_pases n ! p) \<Longrightarrow> ready k p (upd_pase p (\<lambda>_. ps) n) = ready k p n"
  by (cases "p < length (pn_pases n)") (simp_all add: ready_def)

text \<open>
  The side of a node in a conversation: its only exchange belongs to PASE object \<open>p\<close> and to its
  only unsecured session, which knows the peer's address and the node id both go by.
\<close>

definition linked :: "nat \<Rightarrow> bool \<Rightarrow> peer_info \<Rightarrow> int \<Rightarrow> int option \<Rightarrow> 'a pase_node_scheme \<Rightarrow> bool" where
  "linked p i peer xid v n \<longleftrightarrow>
     (let x = ps_exchange (pn_pases n ! p); e = x_exchanges n ! x; s = n_sessions n ! e_session e
      in e_exchangeId e = xid \<and> e_isInitiator e = i \<and> x_table n = [x] \<and> sm_unsecured n = [e_session e] \<and> pn_listeners n = [(x, p)] \<and>
         e_session e < length (n_sessions n) \<and> s_localSessionId s = JNum 0 \<and> s_peerInfo s = Some peer \<and> s_peerNodeId s = v)"

text \<open>The conversation goes on with a datagram: the last one sent bears its ids.\<close>

definition keeps_link :: "nat \<Rightarrow> 'a pase_node_scheme \<Rightarrow> 'a pase_node_scheme \<Rightarrow> bool" where
  "keeps_link p n n' \<longleftrightarrow> (\<forall>i peer xid v. linked p i peer xid v n \<longrightarrow>
     (\<exists>u. (if node_id_truthy v then v = Some u else \<exists>d. u = random_id (n_random n) d) \<and> linked p i peer xid (Some u) n' \<and> headed SESSION_PROTOCOL_ID i xid u (last (n_sent n')) \<and>
        peer = \<lparr>pi_address = p_host (last (n_sent n')), pi_port = p_port (last (n_sent n'))\<rparr>))"

lemma linked_cong:
  assumes "ps_exchange (pn_pases n' ! p) = ps_exchange (pn_pases n ! p)" and "x_exchanges n' = x_exchanges n" and "n_sessions n' = n_sessions n"
    and "x_table n' = x_table n" and "sm_unsecured n' = sm_unsecured n" and "pn_listeners n' = pn_listeners n"
  shows "linked p i peer xid v n' = linked p i peer xid v n"
  using assms by (simp add: linked_def)

lemma linked_ack:
  "linked p i peer xid v (upd_exchange y (\<lambda>e. e\<lparr>e_isAck := b\<rparr>) n) = linked p i peer xid v n"
  "linked p i peer xid v (upd_exchange y (\<lambda>e. e\<lparr>e_ackCounter := c\<rparr>) n) = linked p i peer xid v n"
proof -
  let ?z = "\<lambda>x. (x_exchanges n)[y := (x_exchanges n ! y)\<lparr>e_isAck := b\<rparr>] ! x" and ?w = "\<lambda>x. (x_exchanges n)[y := (x_exchanges n ! y)\<lparr>e_ackCounter := c\<rparr>] ! x"
  have "e_exchangeId (?z x) = e_exchangeId (x_exchanges n ! x) \<and> e_isInitiator (?z x) = e_isInitiator (x_exchanges n ! x) \<and> e_session (?z x) = e_session (x_exchanges n ! x) \<and>
      e_exchangeId (?w x) = e_exchangeId (x_exchanges n ! x) \<and> e_isInitiator (?w x) = e_isInitiator (x_exchanges n ! x) \<and> e_session (?w x) = e_session (x_exchanges n ! x)" for x
    by (cases "y < length (x_exchanges n)") (auto simp: nth_list_update list_update_beyond)
  then show "linked p i peer xid v (upd_exchange y (\<lambda>e. e\<lparr>e_isAck := b\<rparr>) n) = linked p i peer xid v n"
    "linked p i peer xid v (upd_exchange y (\<lambda>e. e\<lparr>e_ackCounter := c\<rparr>) n) = linked p i peer xid v n"
    by (simp_all add: linked_def upd_exchange_def Let_def)
qed

lemma keeps_link_cong:
  "(\<And>i peer xid v. linked p i peer xid v n = linked p i peer xid v m) \<Longrightarrow> n_random n = n_random m \<Longrightarrow> keeps_link p m n' \<Longrightarrow> keeps_link p n n'"
  by (simp only: keeps_link_def)

lemma createSecureSession_link:
  assumes "createSecureSession kdf p n = Inr n'" and "linked q i peer xid v n"
  shows "linked q i peer xid v n'"
proof -
  obtain l r a n1 where n1: "newSession l r True n = (a, n1)" and c: "initPaseSession kdf p a n1 = Inr n'"
    using assms(1) by (auto simp: createSecureSession_def Let_def split: if_splits prod.splits)
  obtain s where s: "n_sessions n1 = n_sessions n @ [s]" "a = length (n_sessions n)" "sm_unsecured n1 = sm_unsecured n"
    using newSession_tables [OF n1] by auto
  have f: "x_exchanges n1 = x_exchanges n" "x_table n1 = x_table n" "pn_pases n1 = pn_pases n" "pn_listeners n1 = pn_listeners n"
    using n1 by (auto simp: newSession_def new_session_def RandomU32_def Random_def Let_def split: prod.splits)
  obtain keys where "n' = upd_session a (\<lambda>s. s\<lparr>s_keys := Some keys\<rparr>) n1"
    using c by (auto simp: initPaseSession_def initFromSecret_def split: option.splits)
  then show ?thesis
    using assms(2) s f by (auto simp: linked_def upd_session_def nth_append Let_def)
qed

lemma pase_sent_link:
  assumes "pase_sent k p ps opc pay n n'" and "p < length (pn_pases n)" and "ps_exchange ps = ps_exchange (pn_pases n ! p)"
  shows "keeps_link p n n'"
proof -
  obtain pkt where s: "net_only (e_session (x_exchanges n ! ps_exchange ps)) (upd_pase p (\<lambda>_. ps) n) n'" "n_sent n' = n_sent n @ [pkt]"
    "spoken SESSION_PROTOCOL_ID (ps_exchange ps) n n' pkt" using assms(1) by (auto simp: pase_sent_def)
  note f = net_only_pase [OF s(1)] net_only_fields(2) [OF s(1)]
  show ?thesis
    using s(2,3) f assms(2,3) by (auto simp: keeps_link_def linked_def spoken_def Let_def)
qed

text \<open>The initiator from the parameters to its public value.\<close>

definition client_waits :: "nat \<Rightarrow> buffer \<Rightarrow> int \<Rightarrow> int \<Rightarrow> 'a pase_node_scheme \<Rightarrow> bool" where
  "client_waits p c sid rsid n \<longleftrightarrow> (let ps = pn_pases n ! p
     in ps_state ps = AWAIT_PAKE2 \<and> ps_localRole ps = INITIATOR \<and> ps_spakeClient ps = Some c \<and> (\<exists>t. ps_pA ps = JStr t) \<and>
        ps_initiatorSessionId ps = JNum sid \<and> ps_responderSessionId ps = JNum rsid)"

text \<open>
  The same of an object in whatever role it began: \<open>onPbkdfParamResponse\<close> looks at neither the
  role nor the state.
\<close>

definition client_started :: "nat \<Rightarrow> buffer \<Rightarrow> int \<Rightarrow> int \<Rightarrow> 'a pase_node_scheme \<Rightarrow> bool" where
  "client_started p c sid rsid n \<longleftrightarrow> (let ps = pn_pases n ! p
     in ps_state ps = AWAIT_PAKE2 \<and> ps_spakeClient ps = Some c \<and> (\<exists>t. ps_pA ps = JStr t) \<and>
        ps_initiatorSessionId ps = JNum sid \<and> ps_responderSessionId ps = JNum rsid)"

lemma client_waits_started:
  "client_waits p c sid rsid n \<longleftrightarrow> client_started p c sid rsid n \<and> ps_localRole (pn_pases n ! p) = INITIATOR"
  by (auto simp: client_waits_def client_started_def Let_def)

lemma client_starts:
  assumes "spake_ok S" and "ready (Suc j) p n" and "pn_tasks n = []" and "ps = pn_pases n ! p"
    and "ps_initiatorSessionId ps = JNum sid" and "ps_pbkdfRequest ps = Some req" and "0 \<le> ps_paramPaircode ps" and "ps_paramPaircode ps < 2 ^ 32"
    and "AppPayload msg = Inr rsp" and "rsp = tlv_bytes (response_elem irnd rrnd rsid iter salt)"
    and "wf_telem (response_elem irnd rrnd rsid iter salt)" and "rsid < 2 ^ 16" and "0 < iter" and "iter < 2 ^ 32"
  shows "\<exists>n' v c rnd. rbind (onPbkdfParamResponse S p msg n) (\<lambda>n. rbind (next_task A S n) (next_task A S)) = Inr n' \<and>
    client_started p c sid rsid n' \<and> ps_localRole (pn_pases n' ! p) = ps_localRole ps \<and> ready j p n' \<and> sent_last PaseCommand_Pake1 (tlv_bytes (pake_elem [hex_decode (sp_message S c)])) n' \<and>
    keeps_link p n n' \<and> pn_tasks n' = [] \<and> verifier_for S (context_of S req rsp) (ps_paramPaircode ps) salt iter v \<and> sp_client_start S (context_of S req rsp) v rnd = Inr c"
proof -
  let ?ps = "after_parameters S req rsp rsid iter salt ps" and ?ctx = "context_of S req rsp"
  have p: "p < length (pn_pases n)" using assms(2) by (simp add: ready_def)
  obtain v where v: "onPbkdfParamResponse S p msg n = Inr (push_task (ClientVerifier p v) (upd_pase p (\<lambda>_. ?ps) n))"
    and vf: "verifier_for S ?ctx (ps_paramPaircode ps) salt iter v"
    using onPbkdfParamResponse_computes [OF assms(1,4) assms(9) [unfolded assms(10)] assms(11,12,13,14,6,7,8,10)] by auto
  let ?n1 = "upd_pase p (\<lambda>_. ?ps) n"
  have t1: "next_task A S (push_task (ClientVerifier p v) ?n1) = run_task A S (ClientVerifier p v) ?n1"
    by (rule next_task_pushed) (simp add: assms(3))
  have s1: "ps_spake2 (pn_pases ?n1 ! p) = Some ?ctx" using p by (simp add: after_parameters_def)
  let ?n2 = "(upd_pase p (\<lambda>ps. ps\<lparr>ps_spakeVerifier := Some v\<rparr>) ?n1)\<lparr>n_drawn := n_drawn ?n1 + 32\<rparr>"
  obtain c rnd where c: "run_task A S (ClientVerifier p v) ?n1 = Inr (push_task (ClientStarted p c) ?n2)"
    and cs: "sp_client_start S ?ctx v rnd = Inr c"
    using run_verifier(1) [OF assms(1) _ s1, of A v] p by auto
  have t2: "next_task A S (push_task (ClientStarted p c) ?n2) = run_task A S (ClientStarted p c) ?n2"
    by (rule next_task_pushed) (simp add: assms(3))
  have r2: "ready (Suc j) p ?n2"
    using assms(2,4) p by (simp add: ready_def sendable_def after_parameters_def upd_pase_def)
  let ?x = "ps_exchange (pn_pases ?n2 ! p)"
  let ?ps3 = "setState AWAIT_PAKE2 ((pn_pases ?n2 ! p)\<lparr>ps_spakeClient := Some c, ps_pA := JStr (sp_message S c)\<rparr>)"
  obtain n' where n': "run_task A S (ClientStarted p c) ?n2 = Inr n'"
    and s: "pase_sent j p ?ps3 PaseCommand_Pake1 (tlv_bytes (pake_elem [hex_decode (sp_message S c)])) (upd_exchange ?x (\<lambda>e. e\<lparr>e_isAck := True\<rparr>) ?n2) n'"
    using run_ClientStarted [OF assms(1) r2 refl refl, of A] by auto
  have p2: "p < length (pn_pases (upd_exchange ?x (\<lambda>e. e\<lparr>e_isAck := True\<rparr>) ?n2))" using p by simp
  have "client_started p c sid rsid n'" "ps_localRole (pn_pases n' ! p) = ps_localRole ps" "ready j p n'"
    using pase_sent_state(1,4) [OF s p2] p assms(4,5)
    by (simp_all add: client_started_def after_parameters_def setState_def upd_pase_def)
  moreover have "keeps_link p n n'"
  proof (rule keeps_link_cong [OF _ _ pase_sent_link [OF s p2]])
    show "linked p i peer xid u n = linked p i peer xid u (upd_exchange ?x (\<lambda>e. e\<lparr>e_isAck := True\<rparr>) ?n2)" for i peer xid u
      unfolding linked_ack by (rule linked_cong) (use p assms(4) in \<open>simp_all add: after_parameters_def upd_pase_def\<close>)
  qed (simp_all add: setState_def upd_exchange_def upd_pase_def)
  moreover have "pn_tasks n' = []" using pase_sent_state(2) [OF s p2] assms(3) by simp
  ultimately show ?thesis using v t1 c t2 n' vf cs pase_sent_last [OF s] by auto
qed

lemma client_sends_pake1:
  assumes "spake_ok S" and "ready (Suc j) p n" and "pn_tasks n = []" and "ps = pn_pases n ! p" and "ps_localRole ps = INITIATOR"
    and "ps_initiatorSessionId ps = JNum sid" and "ps_pbkdfRequest ps = Some req" and "0 \<le> ps_paramPaircode ps" and "ps_paramPaircode ps < 2 ^ 32"
    and "AppPayload msg = Inr rsp" and "rsp = tlv_bytes (response_elem irnd rrnd rsid iter salt)"
    and "wf_telem (response_elem irnd rrnd rsid iter salt)" and "rsid < 2 ^ 16" and "0 < iter" and "iter < 2 ^ 32"
  shows "\<exists>n' v c rnd. rbind (onPbkdfParamResponse S p msg n) (\<lambda>n. rbind (next_task A S n) (next_task A S)) = Inr n' \<and>
    client_waits p c sid rsid n' \<and> ready j p n' \<and> sent_last PaseCommand_Pake1 (tlv_bytes (pake_elem [hex_decode (sp_message S c)])) n' \<and>
    keeps_link p n n' \<and> pn_tasks n' = [] \<and> verifier_for S (context_of S req rsp) (ps_paramPaircode ps) salt iter v \<and> sp_client_start S (context_of S req rsp) v rnd = Inr c"
  using client_starts [OF assms(1-4,6-15), of A] assms(5) unfolding client_waits_started by metis

text \<open>The responder from the initiator's public value to its own and its confirmation.\<close>

definition server_waits :: "nat \<Rightarrow> pase_secret \<Rightarrow> int \<Rightarrow> int \<Rightarrow> 'a pase_node_scheme \<Rightarrow> bool" where
  "server_waits p k sid rsid n \<longleftrightarrow> (let ps = pn_pases n ! p
     in ps_state ps = AWAIT_PAKE3 \<and> ps_localRole ps = RESPONDER \<and> ps_secret ps = Some k \<and>
        ps_initiatorSessionId ps = JNum sid \<and> ps_responderSessionId ps = JNum rsid)"

text \<open>What the two parties know of each other once both have started.\<close>

definition agreed :: "spake \<Rightarrow> buffer \<Rightarrow> buffer \<Rightarrow> pase_secret \<Rightarrow> bool" where
  "agreed S c s k \<longleftrightarrow> sp_client_finish S c (JBuf (hex_decode (sp_message S s))) = Inr k \<and>
     sp_server_finish S s (JBuf (hex_decode (sp_message S c))) = Inr k \<and>
     (\<forall>cA. sp_mac S (JBuf (hex_decode (sp_message S s))) (k_KcA k) = Inr cA \<longrightarrow> sp_verify S k (JBuf cA) = Inr ())"

lemma spake_agreed:
  assumes "spake_ok S" and "sp_client_start S ctx v r1 = Inr c" and "sp_server_start S ctx v r2 = Inr s"
  obtains k where "agreed S c s k"
  using assms unfolding spake_ok_def agreed_def by metis

lemma server_sends_pake2:
  assumes "spake_ok S" and "ready (Suc j) p n" and "pn_tasks n = []" and "ps = pn_pases n ! p" and "ps_localRole ps = RESPONDER"
    and "ps_state ps = AWAIT_PAKE1" and "ps_initiatorSessionId ps = JNum sid" and "ps_responderSessionId ps = JNum rsid"
    and "ps_pbkdfRequest ps = Some req" and "ps_pbkdfResponse ps = Some rsp" and "0 \<le> ps_paramPaircode ps" and "ps_paramPaircode ps < 2 ^ 32"
    and "ps_paramIterations ps = JNum iter" and "0 < iter" and "with_salt (ps_paramSalt ps) salt"
    and "AppPayload msg = Inr (tlv_bytes (pake_elem [hex_decode (sp_message S c)]))"
    and "verifier_for S (context_of S req rsp) (ps_paramPaircode ps) salt iter v" and "sp_client_start S (context_of S req rsp) v rnd = Inr c"
  shows "\<exists>n' s k cB. rbind (onPake1 S p msg n) (\<lambda>n. rbind (next_task A S n) (next_task A S)) = Inr n' \<and>
    server_waits p k sid rsid n' \<and> ready j p n' \<and> agreed S c s k \<and> int (length cB) < 65536 \<and>
    sent_last PaseCommand_Pake2 (tlv_bytes (pake_elem [hex_decode (sp_message S s), cB])) n' \<and> keeps_link p n n' \<and> pn_tasks n' = []"
proof -
  let ?ctx = "context_of S req rsp" and ?a = "hex_decode (sp_message S c)"
  let ?ps = "ps\<lparr>ps_pA := JBuf ?a, ps_spake2 := Some ?ctx\<rparr>"
  let ?n1 = "upd_pase p (\<lambda>_. ?ps) n"
  have p: "p < length (pn_pases n)" using assms(2) by (simp add: ready_def)
  have on: "onPake1 S p msg n = Inr (push_task (ServerVerifier p v) ?n1)"
    using onPake1_computes [OF assms(1,4,6,16) spake_lengths(1) [OF assms(1)] assms(9-15)] verifier_for_fun [OF assms(17)] by blast
  have t1: "next_task A S (push_task (ServerVerifier p v) ?n1) = run_task A S (ServerVerifier p v) ?n1"
    by (rule next_task_pushed) (simp add: assms(3))
  let ?n2 = "(upd_pase p (\<lambda>ps. ps\<lparr>ps_spakeVerifier := Some v\<rparr>) ?n1)\<lparr>n_drawn := n_drawn ?n1 + 32\<rparr>"
  obtain s r2 where s: "run_task A S (ServerVerifier p v) ?n1 = Inr (push_task (ServerStarted p s) ?n2)"
    and ss: "sp_server_start S ?ctx v r2 = Inr s"
    using run_verifier(2) [OF assms(1), of p ?n1 ?ctx A v] p by auto
  have t2: "next_task A S (push_task (ServerStarted p s) ?n2) = run_task A S (ServerStarted p s) ?n2"
    by (rule next_task_pushed) (simp add: assms(3))
  have r2: "ready (Suc j) p ?n2" using assms(2,4) p by (simp add: ready_def sendable_def upd_pase_def)
  obtain k where k: "agreed S c s k" using spake_agreed [OF assms(1,18) ss] by blast
  obtain cB where cB: "sp_mac S (JBuf ?a) (k_KcB k) = Inr cB" "int (length cB) < 65536" using spake_lengths(2) [OF assms(1)] by blast
  have pA: "ps_pA (pn_pases ?n2 ! p) = JBuf ?a" using p by (simp add: upd_pase_def)
  obtain n' where n': "run_task A S (ServerStarted p s) ?n2 = Inr n'"
    and st: "pase_sent j p (after_pake1 S s k cB (pn_pases ?n2 ! p)) PaseCommand_Pake2 (tlv_bytes (pake_elem [hex_decode (sp_message S s), cB])) ?n2 n'"
    using run_ServerStarted [OF assms(1) r2 pA _ cB, of s A] k by (auto simp: agreed_def)
  have p2: "p < length (pn_pases ?n2)" using p by simp
  have "server_waits p k sid rsid n'" "ready j p n'"
    using pase_sent_state(1,4) [OF st p2] p assms(5,7,8)
    by (simp_all add: server_waits_def after_pake1_def setState_def upd_pase_def)
  moreover have "keeps_link p n n'"
  proof (rule keeps_link_cong [OF _ _ pase_sent_link [OF st p2]])
    show "linked p i peer xid u n = linked p i peer xid u ?n2" for i peer xid u
      by (rule linked_cong) (use p assms(4) in \<open>simp_all add: upd_pase_def\<close>)
  qed (simp_all add: after_pake1_def setState_def upd_pase_def)
  moreover have "pn_tasks n' = []" using pase_sent_state(2) [OF st p2] assms(3) by simp
  ultimately show ?thesis using on t1 s t2 n' k cB(2) pase_sent_last [OF st] by auto
qed

text \<open>The last two messages.\<close>

lemma client_opens_session:
  assumes "spake_ok S" and "session_keys kdf k = Inr keys" and "ready (Suc j) p n" and "client_started p c sid rsid n"
    and "sp_client_finish S c (JBuf b) = Inr k" and "int (length b) < 65536" and "int (length cB) < 65536"
    and "AppPayload msg = Inr (tlv_bytes (pake_elem [b, cB]))"
    and "ids = (if ps_localRole (pn_pases n ! p) = INITIATOR then (sid, rsid) else (rsid, sid))"
  shows "\<exists>n' cA. onPake2 A kdf S p msg n = Inr n' \<and> has_session keys (JNum (fst ids)) (JNum (snd ids)) n' \<and> ps_state (pn_pases n' ! p) = IDLE \<and>
    sent_last PaseCommand_Pake3 (tlv_bytes (pake_elem [cA])) n' \<and> keeps_link p n n' \<and> sp_mac S (JBuf b) (k_KcA k) = Inr cA \<and> int (length cA) < 65536"
proof -
  let ?ps = "pn_pases n ! p"
  obtain cA where cA: "sp_mac S (JBuf b) (k_KcA k) = Inr cA" "int (length cA) < 65536" using spake_lengths(2) [OF assms(1)] by blast
  have w: "ps_state ?ps = AWAIT_PAKE2" "ps_spakeClient ?ps = Some c"
    "ps_initiatorSessionId ?ps = JNum sid" "ps_responderSessionId ?ps = JNum rsid"
    using assms(4) by (simp_all add: client_started_def Let_def)
  obtain t where t: "ps_pA ?ps = JStr t" using assms(4) by (auto simp: client_started_def Let_def)
  obtain n1 where n1: "onPake2 A kdf S p msg n = createSecureSession kdf p n1"
    and st: "pase_sent j p (after_pake2 b cB k cA ?ps) PaseCommand_Pake3 (tlv_bytes (pake_elem [cA])) n n1"
    using onPake2_finishes [OF assms(3) refl w(1) assms(8,6,7) w(2) t assms(5) cA] by blast
  have q: "pn_pases n1 ! p = after_pake2 b cB k cA ?ps" by (rule pase_sent_state(1) [OF st]) (use assms(3) in \<open>simp add: ready_def\<close>)
  obtain n' where n': "createSecureSession kdf p n1 = Inr n'" "has_session keys (JNum (fst ids)) (JNum (snd ids)) n'" "pn_pases n' = pn_pases n1" "n_sent n' = n_sent n1"
    using createSecureSession_ok [OF assms(2), of n1 p "(JNum (fst ids), JNum (snd ids))"] q w assms(9)
    by (cases "ps_localRole ?ps = INITIATOR") (auto simp: after_pake2_def setState_def)
  have "keeps_link p n n1" by (rule pase_sent_link [OF st]) (use assms(3) in \<open>simp_all add: ready_def after_pake2_def setState_def\<close>)
  then have "keeps_link p n n'" using createSecureSession_link [OF n'(1)] n'(4) unfolding keeps_link_def by metis
  with n' show ?thesis using n1 q cA pase_sent_last [OF st] by (auto simp: after_pake2_def setState_def sent_last_def)
qed

lemma client_opens:
  assumes "spake_ok S" and "session_keys kdf k = Inr keys" and "ready (Suc j) p n" and "client_waits p c sid rsid n"
    and "sp_client_finish S c (JBuf b) = Inr k" and "int (length b) < 65536" and "int (length cB) < 65536"
    and "AppPayload msg = Inr (tlv_bytes (pake_elem [b, cB]))"
  shows "\<exists>n' cA. onPake2 A kdf S p msg n = Inr n' \<and> has_session keys (JNum sid) (JNum rsid) n' \<and> ps_state (pn_pases n' ! p) = IDLE \<and>
    sent_last PaseCommand_Pake3 (tlv_bytes (pake_elem [cA])) n' \<and> keeps_link p n n' \<and> sp_mac S (JBuf b) (k_KcA k) = Inr cA \<and> int (length cA) < 65536"
  using client_opens_session [OF assms(1-3) _ assms(5-8) refl, of sid rsid A] assms(4) by (simp add: client_waits_started)

lemma client_finishes:
  assumes "spake_ok S" and "session_keys kdf k = Inr keys" and "ready (Suc j) p n" and "client_waits p c sid rsid n"
    and "agreed S c s k" and "int (length cB) < 65536" and "AppPayload msg = Inr (tlv_bytes (pake_elem [hex_decode (sp_message S s), cB]))"
  shows "\<exists>n' cA. onPake2 A kdf S p msg n = Inr n' \<and> has_session keys (JNum sid) (JNum rsid) n' \<and> ps_state (pn_pases n' ! p) = IDLE \<and>
    sent_last PaseCommand_Pake3 (tlv_bytes (pake_elem [cA])) n' \<and> keeps_link p n n' \<and> sp_verify S k (JBuf cA) = Inr () \<and> int (length cA) < 65536"
  using client_opens [OF assms(1-4) _ spake_lengths(1) [OF assms(1)] assms(6,7), of A] assms(5) unfolding agreed_def by blast

lemma server_finishes:
  assumes "session_keys kdf k = Inr keys" and "ready (Suc j) p n" and "server_waits p k sid rsid n"
    and "AppPayload msg = Inr (tlv_bytes (pake_elem [cA]))" and "int (length cA) < 65536" and "sp_verify S k (JBuf cA) = Inr ()"
  shows "\<exists>n'. onPake3 A kdf S p msg n = Inr n' \<and> has_session keys (JNum rsid) (JNum sid) n' \<and> ps_state (pn_pases n' ! p) = IDLE"
proof -
  let ?ps = "pn_pases n ! p"
  have w: "ps_state ?ps = AWAIT_PAKE3" "ps_localRole ?ps = RESPONDER" "ps_secret ?ps = Some k"
    "ps_initiatorSessionId ?ps = JNum sid" "ps_responderSessionId ?ps = JNum rsid"
    using assms(3) by (simp_all add: server_waits_def Let_def)
  have p: "p < length (pn_pases n)" using assms(2) by (simp add: ready_def)
  obtain n1 pay where n1: "onPake3 A kdf S p msg n = rmap (upd_pase p (setState IDLE)) (createSecureSession kdf p n1)"
    and st: "pase_sent j p (?ps\<lparr>ps_cA := JBuf cA\<rparr>) Command_StatusReport pay n n1"
    using onPake3_finishes [OF assms(2) refl w(1) assms(4,5) w(3) assms(6), of A kdf] by blast
  obtain n2 where "createSecureSession kdf p n1 = Inr n2" "has_session keys (JNum rsid) (JNum sid) n2" "pn_pases n2 = pn_pases n1"
    using createSecureSession_ok [OF assms(1), of n1 p "(JNum rsid, JNum sid)"] pase_sent_state(1) [OF st p] w by auto
  moreover from this(2) have "has_session keys (JNum rsid) (JNum sid) (upd_pase p (setState IDLE) n2)" by (simp add: has_session_def)
  ultimately show ?thesis using n1 pase_sent_state(6) [OF st p] p by (simp add: setState_def)
qed

text \<open>A node about to take part: idle, nothing awaited, an exchange that can carry three messages.\<close>

definition fresh_pase :: "int \<Rightarrow> nat \<Rightarrow> 'a pase_node_scheme \<Rightarrow> bool" where
  "fresh_pase pc p n \<longleftrightarrow> ready 3 p n \<and> ps_state (pn_pases n ! p) = IDLE \<and> pn_tasks n = [] \<and>
     ps_paramPaircode (pn_pases n ! p) = pc"

text \<open>The parameters a responder offers: the salt as text and as hex, and the iterations.\<close>

definition offers :: "16 word list \<Rightarrow> int \<Rightarrow> pase \<Rightarrow> bool" where
  "offers salt iter ps \<longleftrightarrow> ps_paramSalt ps = JStr salt \<and> ps_paramSaltHex ps = hex_encode (utf8_encode salt) \<and>
     int (length (utf8_encode salt)) < 2 ^ 32 \<and> ps_paramIterations ps = JNum iter \<and> 0 < iter \<and> iter < 2 ^ 32"

text \<open>What both know after the request and the parameters.\<close>

definition introduced :: "nat \<Rightarrow> 'a pase_node_scheme \<Rightarrow> nat \<Rightarrow> 'b pase_node_scheme \<Rightarrow> int \<Rightarrow> int \<Rightarrow> buffer \<Rightarrow> buffer \<Rightarrow> bool" where
  "introduced p i q r sid rsid req rsp \<longleftrightarrow>
     ready 2 p i \<and> pn_tasks i = [] \<and> ps_localRole (pn_pases i ! p) = INITIATOR \<and> ps_initiatorSessionId (pn_pases i ! p) = JNum sid \<and>
     ps_pbkdfRequest (pn_pases i ! p) = Some req \<and>
     ready 2 q r \<and> pn_tasks r = [] \<and> ps_localRole (pn_pases r ! q) = RESPONDER \<and> ps_state (pn_pases r ! q) = AWAIT_PAKE1 \<and>
     ps_initiatorSessionId (pn_pases r ! q) = JNum sid \<and> ps_responderSessionId (pn_pases r ! q) = JNum rsid \<and>
     ps_pbkdfRequest (pn_pases r ! q) = Some req \<and> ps_pbkdfResponse (pn_pases r ! q) = Some rsp"

lemma parameters_exchanged:
  assumes "fresh_pase pc p i" and "fresh_pase pc q r" and "offers salt iter (pn_pases r ! q)"
  shows "\<exists>i' r' sid rsid rnd rrnd rsp. startPase A p i = Inr i' \<and> deliver A kdf S q i' r = Inr r' \<and>
    introduced p i' q r' sid rsid (tlv_bytes (request_elem rnd sid)) rsp \<and> sent_last PaseCommand_ParamResponse rsp r' \<and>
    rsp = tlv_bytes (response_elem rnd rrnd rsid iter (utf8_encode salt)) \<and> wf_telem (response_elem rnd rrnd rsid iter (utf8_encode salt)) \<and>
    rsid < 2 ^ 16 \<and> ps_paramPaircode (pn_pases i' ! p) = pc \<and> ps_paramPaircode (pn_pases r' ! q) = pc \<and> offers salt iter (pn_pases r' ! q)"
proof -
  have i: "ready (Suc 2) p i" "ps_state (pn_pases i ! p) = IDLE" "pn_tasks i = []" "ps_paramPaircode (pn_pases i ! p) = pc" "p < length (pn_pases i)"
    and r: "ready (Suc 2) q r" "ps_state (pn_pases r ! q) = IDLE" "pn_tasks r = []" "ps_paramPaircode (pn_pases r ! q) = pc" "q < length (pn_pases r)"
    using assms(1,2) by (simp_all add: fresh_pase_def numeral_3_eq_3 numeral_2_eq_2 ready_def)
  let ?s = "utf8_encode salt"
  have o: "ps_paramSaltHex (pn_pases r ! q) = hex_encode ?s" "int (length ?s) < 2 ^ 32"
    "ps_paramIterations (pn_pases r ! q) = JNum iter" "0 \<le> iter" "iter < 2 ^ 32" using assms(3) by (simp_all add: offers_def)
  obtain rnd sid i1 where sid: "length rnd = 32" "0 \<le> sid" "sid < 2 ^ 16" and i1: "startPase A p i = Inr i1"
    and s1: "pase_sent 2 p (after_request rnd sid (pn_pases i ! p)) PaseCommand_ParamRequest (tlv_bytes (request_elem rnd sid)) i i1"
    using startPase_sends [OF i(1,2), of A] by blast
  obtain m1 where m1: "AppPayload m1 = Inr (tlv_bytes (request_elem rnd sid))" and d1: "deliver A kdf S q i1 r = onPbkdfParamRequest A q m1 r"
    by (rule deliver_sent [OF pase_sent_last [OF s1]]) (simp add: session_consts)
  obtain rrnd rsid rsp r1 where rsid: "length rrnd = 32" "0 \<le> rsid" "rsid < 2 ^ 16" and rsp: "rsp = tlv_bytes (response_elem rnd rrnd rsid iter ?s)"
    and r1: "onPbkdfParamRequest A q m1 r = Inr r1"
    and s2: "pase_sent 2 q (after_response rnd sid rrnd rsid rsp (pn_pases r ! q)) PaseCommand_ParamResponse rsp r r1"
    using onPbkdfParamRequest_sends [OF r(1,2) m1 sid o(3,4,5,1,2), of A] by blast
  have wf: "wf_telem (response_elem rnd rrnd rsid iter ?s)" using wf_response sid rsid o by simp
  note i1s = pase_sent_state [OF s1 i(5)] and r1s = pase_sent_state [OF s2 r(5)]
  have "introduced p i1 q r1 sid rsid (tlv_bytes (request_elem rnd sid)) rsp"
    using i1s(1,2,4) r1s(1,2,4) i(3) r(3) by (simp add: introduced_def after_request_def after_response_def setState_def)
  moreover have "ps_paramPaircode (pn_pases i1 ! p) = pc" "ps_paramPaircode (pn_pases r1 ! q) = pc" "offers salt iter (pn_pases r1 ! q)"
    using i1s(1) r1s(1) i(4) r(4) assms(3) by (simp_all add: after_request_def after_response_def setState_def offers_def)
  moreover note pase_sent_last [OF s2] i1 r1 wf rsp rsid(3) d1
  ultimately show ?thesis by auto
qed

text \<open>
  Two nodes with the same pairing code complete the handshake. Whatever random octets they
  draw, the initiator's request, the responder's parameters, the two public values and the two
  confirmations, each delivered as the octets that were sent, are all accepted; at the end both
  are idle and each has a secured session, with the same three keys, and with the session id of
  one as the peer's session id of the other.
\<close>

theorem pase_handshake:
  assumes "spake_ok S" and "kdf_ok kdf" and "0 \<le> pc" and "pc < 2 ^ 32"
    and "fresh_pase pc p i" and "fresh_pase pc q r" and "offers salt iter (pn_pases r ! q)"
  shows "\<exists>i' r' keys sid rsid. handshake A kdf S p i q r = Inr (i', r') \<and> length keys = 3 \<and>
    has_session keys (JNum sid) (JNum rsid) i' \<and> has_session keys (JNum rsid) (JNum sid) r' \<and>
    ps_state (pn_pases i' ! p) = IDLE \<and> ps_state (pn_pases r' ! q) = IDLE"
proof -
  let ?s = "utf8_encode salt"
  obtain i1 r1 sid rsid rnd rrnd rsp where 1: "startPase A p i = Inr i1" "deliver A kdf S q i1 r = Inr r1"
    and intro: "introduced p i1 q r1 sid rsid (tlv_bytes (request_elem rnd sid)) rsp" and s2: "sent_last PaseCommand_ParamResponse rsp r1"
    and rsp: "rsp = tlv_bytes (response_elem rnd rrnd rsid iter ?s)" "wf_telem (response_elem rnd rrnd rsid iter ?s)" "rsid < 2 ^ 16"
    and pc: "ps_paramPaircode (pn_pases i1 ! p) = pc" "ps_paramPaircode (pn_pases r1 ! q) = pc" "offers salt iter (pn_pases r1 ! q)"
    using parameters_exchanged [OF assms(5-7), of A kdf S] by blast
  let ?ctx = "context_of S (tlv_bytes (request_elem rnd sid)) rsp"
  have it: "0 < iter" "iter < 2 ^ 32" "ps_paramIterations (pn_pases r1 ! q) = JNum iter" "with_salt (ps_paramSalt (pn_pases r1 ! q)) ?s"
    using pc(3) by (simp_all add: offers_def with_salt_def)
  note in' = intro [unfolded introduced_def numeral_2_eq_2]
  obtain m2 where m2: "AppPayload m2 = Inr rsp" and d2: "deliver A kdf S p r1 i1 = onPbkdfParamResponse S p m2 i1"
    by (rule deliver_sent [OF s2]) (simp add: session_consts)
  obtain i2 v c crnd where i2: "rbind (deliver A kdf S p r1 i1) (\<lambda>n. rbind (next_task A S n) (next_task A S)) = Inr i2"
    and cw: "client_waits p c sid rsid i2" "ready (Suc 0) p i2"
    and s3: "sent_last PaseCommand_Pake1 (tlv_bytes (pake_elem [hex_decode (sp_message S c)])) i2"
    and v: "verifier_for S ?ctx pc ?s iter v" "sp_client_start S ?ctx v crnd = Inr c"
    using client_sends_pake1 [OF assms(1) _ _ refl _ _ _ _ _ m2 rsp it(1,2), where p = p and n = i1 and A = A and j = "Suc 0"]
      in' pc(1) assms(3,4) unfolding d2 by blast
  obtain m3 where m3: "AppPayload m3 = Inr (tlv_bytes (pake_elem [hex_decode (sp_message S c)]))" and d3: "deliver A kdf S q i2 r1 = onPake1 S q m3 r1"
    by (rule deliver_sent [OF s3]) (simp add: session_consts)
  obtain r2 s k cB where r2: "rbind (deliver A kdf S q i2 r1) (\<lambda>n. rbind (next_task A S n) (next_task A S)) = Inr r2"
    and sw: "server_waits q k sid rsid r2" "ready (Suc 0) q r2" and k: "agreed S c s k" "int (length cB) < 65536"
    and s4: "sent_last PaseCommand_Pake2 (tlv_bytes (pake_elem [hex_decode (sp_message S s), cB])) r2"
    using server_sends_pake2 [OF assms(1) _ _ refl _ _ _ _ _ _ _ _ it(3,1,4) m3 _ v(2), where A = A and j = "Suc 0"]
      in' pc(2) assms(3,4) v(1) unfolding d3 by blast
  obtain keys where keys: "session_keys kdf k = Inr keys" "length keys = 3" using session_keys_ok [OF assms(2)] by blast
  obtain m4 where m4: "AppPayload m4 = Inr (tlv_bytes (pake_elem [hex_decode (sp_message S s), cB]))" and d4: "deliver A kdf S p r2 i2 = onPake2 A kdf S p m4 i2"
    by (rule deliver_sent [OF s4]) (simp add: session_consts)
  obtain i3 cA where i3: "onPake2 A kdf S p m4 i2 = Inr i3" "has_session keys (JNum sid) (JNum rsid) i3" "ps_state (pn_pases i3 ! p) = IDLE"
    and s5: "sent_last PaseCommand_Pake3 (tlv_bytes (pake_elem [cA])) i3" and cA: "sp_verify S k (JBuf cA) = Inr ()" "int (length cA) < 65536"
    using client_finishes [OF assms(1) keys(1) cw(2,1) k m4, of A] by blast
  obtain m5 where m5: "AppPayload m5 = Inr (tlv_bytes (pake_elem [cA]))" and d5: "deliver A kdf S q i3 r2 = onPake3 A kdf S q m5 r2"
    by (rule deliver_sent [OF s5]) (simp add: session_consts)
  obtain r3 where r3: "onPake3 A kdf S q m5 r2 = Inr r3" "has_session keys (JNum rsid) (JNum sid) r3" "ps_state (pn_pases r3 ! q) = IDLE"
    using server_finishes [OF keys(1) sw(2,1) m5 cA(2,1), of A] by blast
  have "handshake A kdf S p i q r = Inr (i3, r3)"
    unfolding handshake_def using 1 i2 r2 d4 i3(1) d5 r3(1) by auto
  then show ?thesis using keys(2) i3(2,3) r3(2,3) by blast
qed

text \<open>
  A toy key exchange in which the parties' secret is the verifier: it depends on the pairing code,
  the salt and nothing else.
\<close>

definition toy_secret :: "buffer \<Rightarrow> pase_secret" where
  "toy_secret v = \<lparr>k_Ka = take 16 v, k_Ke = take 16 v, k_KcA = take 16 v, k_KcB = take 16 (drop 16 v)\<rparr>"

definition toy_spake :: spake where
  "toy_spake =
     \<lparr>sp_sha256 = id,
      sp_pbkdf2 = (\<lambda>pc salt it n. case salt of
          JBuf b \<Rightarrow> Inr (take n (pc @ b @ replicate n 0))
        | JStr s \<Rightarrow> Inr (take n (pc @ utf8_encode s @ replicate n 0))
        | _ \<Rightarrow> Inl TypeError),
      sp_verifier = (\<lambda>ctx w0 w1. Inr (w0 @ w1)), sp_client_start = (\<lambda>ctx v r. Inr v), sp_server_start = (\<lambda>ctx v r. Inr v),
      sp_message = (\<lambda>c. hex_encode (take 65 c)), sp_client_finish = (\<lambda>c m. Inr (toy_secret c)),
      sp_server_finish = (\<lambda>c m. Inr (toy_secret c)),
      sp_mac = (\<lambda>m key. Inr (take 32 key)),
      sp_verify = (\<lambda>k m. if m = JBuf (take 32 (k_KcA k)) then Inr () else Inl TypeError)\<rparr>"

definition toy_kdf :: hkdf where
  "toy_kdf secret n salt info = Inr (take n (secret @ salt @ info @ replicate n 0))"

lemma toy_spake_ok: "spake_ok toy_spake"
  by (simp add: spake_ok_def toy_spake_def hex_decode_encode min_def)

lemma toy_kdf_ok: "kdf_ok toy_kdf"
  by (simp add: kdf_ok_def toy_kdf_def min_def)

definition demo_pase_node :: "bool \<Rightarrow> pase_node" where
  "demo_pase_node initiator = \<lparr>n_sessions = [demo_session\<lparr>s_peerSessionId := JNum 0, s_localSessionId := JNum 0, s_keys := None,
       s_peerNodeId := (if initiator then None else Some 0xABCD)\<rparr>],
     n_sent = [], n_random = (\<lambda>i. word_of_nat (7 * i)), n_drawn = 0, n_now = 5,
     sm_secured = [], sm_unsecured = [0], sm_nextSessionId = 1,
     x_exchanges = [\<lparr>e_session = 0, e_exchangeId = 6, e_isInitiator = initiator, e_isReliable = True, e_isAck = False, e_ackCounter = 0\<rparr>],
     x_table = [0], x_nextExchangeId = 0, pn_pases = [new_pase 0], pn_listeners = [(0, 0)], pn_tasks = []\<rparr>"

lemma demo_pase_fresh: "fresh_pase DEFAULT_PINCODE 0 (demo_pase_node b)"
  by (simp add: fresh_pase_def ready_def sendable_def demo_pase_node_def demo_session_def new_pase_def exchange_ok_def)

lemma demo_pase_offers: "offers (js_string ''SPAKE2P Key Salt'') 1000 (new_pase 0)"
proof -
  have "length (utf8_encode (js_string ''SPAKE2P Key Salt'')) = 16" by code_simp
  then show ?thesis by (simp add: offers_def new_pase_def PBKDF_ITERATIONS_MIN_def)
qed

theorem pase_handshake_witness:
  "\<exists>i' r' keys sid rsid. handshake toy_aead toy_kdf toy_spake 0 (demo_pase_node True) 0 (demo_pase_node False) = Inr (i', r') \<and>
    length keys = 3 \<and> has_session keys (JNum sid) (JNum rsid) i' \<and> has_session keys (JNum rsid) (JNum sid) r' \<and>
    ps_state (pn_pases i' ! 0) = IDLE \<and> ps_state (pn_pases r' ! 0) = IDLE"
  using pase_handshake [OF toy_spake_ok toy_kdf_ok _ _ demo_pase_fresh demo_pase_fresh,
      of "js_string ''SPAKE2P Key Salt''" 1000 False toy_aead True] demo_pase_offers
  by (simp add: DEFAULT_PINCODE_def demo_pase_node_def)

end
