(* ===== verification/Pase_Invariant.thy ===== *)
theory Pase_Invariant
  imports Pase_Run
begin

text \<open>
  PASE with an arbitrary peer: any message at any time, awaited values and timeouts in any order
  the code allows. Every handler has a frame (what it leaves alone), the reachable states an
  invariant, and a session an origin.
\<close>

section \<open>Frames\<close>

lemma session_send_net_only:
  assumes "session_sendMessage A a msg n = Inr (m', n')"
  shows "net_only a n n'"
proof -
  let ?send = "\<lambda>(msg, buf, n). case s_peerInfo (n_sessions n ! a) of
         None \<Rightarrow> Inl TypeError
       | Some p \<Rightarrow> Inr (msg, transport_send (s_transport (n_sessions n ! a)) buf (pi_port p) (pi_address p) n)"
  obtain m1 n1 where 1: "send_header a msg n = Inr (m1, n1)"
    and r1: "rbind (isEncrypted m1) (\<lambda>e. rbind (if e then send_secure A a m1 n1 else send_unsecured a m1 n1) ?send) = Inr (m', n')"
    using assms by (cases "send_header a msg n") (auto simp: session_sendMessage_def simp del: rbind_eq_Inr)
  then obtain e where r: "rbind (if e then send_secure A a m1 n1 else send_unsecured a m1 n1) ?send = Inr (m', n')"
    by (cases "isEncrypted m1") (simp_all del: rbind_eq_Inr)
  obtain m2 buf n2 where 2: "(if e then send_secure A a m1 n1 else send_unsecured a m1 n1) = Inr (m2, buf, n2)"
    and 3: "\<exists>t p h. n' = transport_send t buf p h n2"
    using r by (auto split: option.splits) blast
  have "net_only a n n1" using 1 net_only_upd by (auto simp: send_header_def)
  moreover have "net_only a n1 n2"
  proof (cases e)
    case True
    then show ?thesis using 2 net_only_refl by (auto simp: send_secure_def split: option.splits)
  next
    case False
    have "net_only a n1 (upd_session a f (n1\<lparr>n_drawn := d\<rparr>))" for f d by (rule net_only_trans [OF net_only_drawn net_only_upd])
    then show ?thesis
      using 2 False net_only_refl by (auto simp: send_unsecured_def Let_def split: if_splits prod.splits dest!: RandomU64_net)
  qed
  moreover have "net_only a n2 n'" using 3 net_only_send by blast
  ultimately show ?thesis using net_only_trans by blast
qed

lemma exchange_send_net_only: "exchange_sendMessage A x msg n = Inr (m', n') \<Longrightarrow> net_only (e_session (x_exchanges n ! x)) n n'"
  using session_send_net_only by (auto simp: exchange_sendMessage_def Let_def)

lemma send_protocol_net_only: "send_protocol A x pid opc pay n = Inr n' \<Longrightarrow> net_only (e_session (x_exchanges n ! x)) n n'"
  using exchange_send_net_only by (auto simp: send_protocol_def)

lemma send_protocol_frame:
  assumes "send_protocol A x pid opc pay (n :: 'a pase_node_scheme) = Inr n'"
  shows "pn_pases n' = pn_pases n" "pn_tasks n' = pn_tasks n" "sm_secured n' = sm_secured n" "pn_listeners n' = pn_listeners n"
  using net_only_pase [OF send_protocol_net_only [OF assms]] by simp_all

lemma pase_send_frame:
  assumes "pase_send A p opc pay n = Inr n'"
  shows "pn_pases n' = pn_pases n" "pn_tasks n' = pn_tasks n" "sm_secured n' = sm_secured n" "pn_listeners n' = pn_listeners n"
  using send_protocol_frame [OF assms [unfolded pase_send_def]] by simp_all

lemma Random_frame:
  "Random k (n :: 'a pase_node_scheme) = (b, n') \<Longrightarrow> pn_pases n' = pn_pases n \<and> pn_tasks n' = pn_tasks n \<and> sm_secured n' = sm_secured n"
  "RandomU16 n = (v, n') \<Longrightarrow> pn_pases n' = pn_pases n \<and> pn_tasks n' = pn_tasks n \<and> sm_secured n' = sm_secured n"
  by (auto dest!: Random_net RandomU16_net)

lemma createSecureSession_frame:
  assumes "createSecureSession kdf p n = Inr n'"
  shows "pn_pases n' = pn_pases n" "pn_tasks n' = pn_tasks n"
  using assms by (auto simp: createSecureSession_def initPaseSession_def initFromSecret_def newSession_def new_session_def
      RandomU32_def Random_def Let_def upd_session_def split: if_splits prod.splits option.splits)

section \<open>The invariant\<close>

definition pase_inv :: "pase \<Rightarrow> bool" where
  "pase_inv ps \<longleftrightarrow> (ps_timer ps \<longleftrightarrow> ps_state ps \<noteq> IDLE) \<and>
     (ps_state ps = AWAIT_PBKDF_PARAM_RSP \<longrightarrow> ps_localRole ps = INITIATOR \<and> ps_pbkdfRequest ps \<noteq> None) \<and>
     (ps_state ps = AWAIT_PAKE1 \<longrightarrow> ps_localRole ps = RESPONDER \<and> ps_pbkdfRequest ps \<noteq> None \<and> ps_pbkdfResponse ps \<noteq> None) \<and>
     (ps_state ps = AWAIT_PAKE2 \<longrightarrow> ps_spakeClient ps \<noteq> None \<and> (\<exists>t. ps_pA ps = JStr t)) \<and>
     (ps_state ps = AWAIT_PAKE3 \<longrightarrow> ps_secret ps \<noteq> None)"

text \<open>A task belongs to an object, and the context it resumes with is there.\<close>

fun task_ok :: "pase list \<Rightarrow> task \<Rightarrow> bool" where
  "task_ok l (ClientVerifier p v) \<longleftrightarrow> p < length l \<and> ps_spake2 (l ! p) \<noteq> None"
| "task_ok l (ClientStarted p c) \<longleftrightarrow> p < length l"
| "task_ok l (ServerVerifier p v) \<longleftrightarrow> p < length l \<and> ps_spake2 (l ! p) \<noteq> None"
| "task_ok l (ServerStarted p s) \<longleftrightarrow> p < length l"

definition pases_ok :: "'a pase_node_scheme \<Rightarrow> bool" where
  "pases_ok n \<longleftrightarrow> (\<forall>ps \<in> set (pn_pases n). pase_inv ps) \<and> (\<forall>t \<in> set (pn_tasks n). task_ok (pn_pases n) t)"

text \<open>Object \<open>p\<close> becomes \<open>ps\<close> and tasks for it are added.\<close>

definition evolves :: "nat \<Rightarrow> 'a pase_node_scheme \<Rightarrow> 'a pase_node_scheme \<Rightarrow> bool" where
  "evolves p n n' \<longleftrightarrow> (\<exists>ps ts. pn_pases n' = (pn_pases n)[p := ps] \<and> pn_tasks n' = pn_tasks n @ ts \<and>
     (pase_inv (pn_pases n ! p) \<longrightarrow> pase_inv ps) \<and> (ps_spake2 (pn_pases n ! p) \<noteq> None \<longrightarrow> ps_spake2 ps \<noteq> None) \<and>
     (\<forall>t \<in> set ts. task_ok (pn_pases n') t))"

lemma task_ok_update:
  "task_ok l t \<Longrightarrow> (ps_spake2 (l ! p) \<noteq> None \<longrightarrow> ps_spake2 ps \<noteq> None) \<Longrightarrow> task_ok (l[p := ps]) t"
  by (cases "p < length l"; cases t) (auto simp: nth_list_update list_update_beyond)

lemma evolves_ok:
  assumes "evolves p n n'" and "p < length (pn_pases n)" and "pases_ok n"
  shows "pases_ok n'" and "length (pn_pases n') = length (pn_pases n)"
proof -
  obtain ps ts where e: "pn_pases n' = (pn_pases n)[p := ps]" "pn_tasks n' = pn_tasks n @ ts" "pase_inv (pn_pases n ! p) \<longrightarrow> pase_inv ps"
    "ps_spake2 (pn_pases n ! p) \<noteq> None \<longrightarrow> ps_spake2 ps \<noteq> None" "\<forall>t \<in> set ts. task_ok (pn_pases n') t"
    using assms(1) unfolding evolves_def by auto
  have "pase_inv (pn_pases n ! p)" using assms(2,3) by (simp add: pases_ok_def)
  then have "\<forall>ps' \<in> set (pn_pases n'). pase_inv ps'"
    using e(1,3) assms(3) set_update_subset_insert [of "pn_pases n" p ps] by (auto simp: pases_ok_def)
  moreover have "\<forall>t \<in> set (pn_tasks n'). task_ok (pn_pases n') t"
    using e task_ok_update assms(3) by (auto simp: pases_ok_def)
  ultimately show "pases_ok n'" by (simp add: pases_ok_def)
  show "length (pn_pases n') = length (pn_pases n)" using e(1) by simp
qed

lemma evolves_refl: "p < length (pn_pases n) \<Longrightarrow> evolves p n n"
  unfolding evolves_def by (intro exI [of _ "pn_pases n ! p"] exI [of _ "[]"]) simp

section \<open>Every handler keeps it\<close>

lemmas evolvesI = evolves_def [THEN iffD2, OF exI, OF exI]

lemma pase_inv_simps [simp]:
  "pase_inv (setState IDLE ps)"
  "pase_inv (setState AWAIT_PBKDF_PARAM_RSP ps) \<longleftrightarrow> ps_localRole ps = INITIATOR \<and> ps_pbkdfRequest ps \<noteq> None"
  "pase_inv (setState AWAIT_PAKE1 ps) \<longleftrightarrow> ps_localRole ps = RESPONDER \<and> ps_pbkdfRequest ps \<noteq> None \<and> ps_pbkdfResponse ps \<noteq> None"
  "pase_inv (setState AWAIT_PAKE2 ps) \<longleftrightarrow> ps_spakeClient ps \<noteq> None \<and> (\<exists>t. ps_pA ps = JStr t)"
  "pase_inv (setState AWAIT_PAKE3 ps) \<longleftrightarrow> ps_secret ps \<noteq> None"
  by (auto simp: pase_inv_def setState_def)

lemma setState_fields [simp]:
  "ps_spake2 (setState st ps) = ps_spake2 ps" "ps_secret (setState st ps) = ps_secret ps" "ps_exchange (setState st ps) = ps_exchange ps"
  by (simp_all add: setState_def)

lemma startPase_evolves:
  assumes "startPase A p n = Inr n'" and "p < length (pn_pases n)"
  shows "evolves p n n' \<and> sm_secured n' = sm_secured n"
proof (cases "ps_state (pn_pases n ! p) = IDLE")
  case True
  obtain sid n1 rnd n2 where r: "RandomU16 n = (sid, n1)" "Random 32 n1 = (rnd, n2)"
    by (metis prod.exhaust)
  let ?ps = "\<lambda>pay. setState AWAIT_PBKDF_PARAM_RSP ((pn_pases n ! p)\<lparr>ps_localRole := INITIATOR, ps_initiatorSessionId := JNum sid,
      ps_initiatorRandom := JBuf rnd, ps_passcodeId := JNum 0, ps_pbkdfRequest := Some pay\<rparr>)"
  note f = Random_frame(2) [OF r(1)] Random_frame(1) [OF r(2)]
  obtain pay n3 where 3: "pase_send A p PaseCommand_ParamRequest pay n3 = Inr n'"
    "n3 = upd_pase p (\<lambda>_. ?ps pay) n2"
    using assms True r f by (auto simp: startPase_def sendPbkdfParamRequest_def Let_def upd_pase_def comp_def)
  have "pn_pases n' = (pn_pases n)[p := ?ps pay]" "pn_tasks n' = pn_tasks n" "sm_secured n' = sm_secured n"
    using pase_send_frame [OF 3(1)] 3(2) f by (simp_all add: upd_pase_def)
  then show ?thesis unfolding evolves_def by (intro conjI exI [of _ "?ps pay"] exI [of _ "[]"]) simp_all
next
  case False
  then show ?thesis using assms evolves_refl by (auto simp: startPase_def)
qed

lemma onPbkdfParamRequest_evolves:
  assumes "onPbkdfParamRequest A p msg n = Inr n'" and "p < length (pn_pases n)"
  shows "evolves p n n' \<and> sm_secured n' = sm_secured n"
proof (cases "ps_state (pn_pases n ! p) = IDLE")
  case True
  obtain tlv ir isid pid where 1: "sendPbkdfParamResponse A p (upd_pase p (\<lambda>ps. ps\<lparr>ps_initiatorRandom := ir,
      ps_initiatorSessionId := isid, ps_passcodeId := pid, ps_localRole := RESPONDER, ps_pbkdfRequest := Some tlv\<rparr>) n) = Inr n'"
    (is "sendPbkdfParamResponse A p ?n = _")
    using assms True by (auto simp: onPbkdfParamRequest_def)
  obtain rnd n1 sid n2 where r: "Random 32 ?n = (rnd, n1)" "RandomU16 n1 = (sid, n2)" by (metis prod.exhaust)
  note f = Random_frame(1) [OF r(1)] Random_frame(2) [OF r(2)]
  obtain pay n3 ps where 3: "pase_send A p PaseCommand_ParamResponse pay n3 = Inr n'" "n3 = upd_pase p (\<lambda>_. setState AWAIT_PAKE1 ps) n2"
    "ps_localRole ps = RESPONDER" "ps_pbkdfRequest ps \<noteq> None" "ps_pbkdfResponse ps \<noteq> None" "ps_spake2 ps = ps_spake2 (pn_pases n ! p)"
    using 1 r f assms(2) by (auto simp: sendPbkdfParamResponse_def Let_def upd_pase_def comp_def)
  have "pn_pases n' = (pn_pases n)[p := setState AWAIT_PAKE1 ps]" "pn_tasks n' = pn_tasks n" "sm_secured n' = sm_secured n"
    using pase_send_frame [OF 3(1)] 3(2) f by (simp_all add: upd_pase_def)
  then show ?thesis using 3 unfolding evolves_def by (intro conjI exI [of _ "setState AWAIT_PAKE1 ps"] exI [of _ "[]"]) simp_all
next
  case False
  then show ?thesis using assms evolves_refl by (auto simp: onPbkdfParamRequest_def)
qed

lemma pase_inv_params [simp]:
  "pase_inv (ps\<lparr>ps_paramIterations := it\<rparr>) = pase_inv ps" "pase_inv (ps\<lparr>ps_paramSalt := salt\<rparr>) = pase_inv ps"
  "pase_inv (ps\<lparr>ps_spake2 := ctx\<rparr>) = pase_inv ps" "pase_inv (ps\<lparr>ps_spakeVerifier := v\<rparr>) = pase_inv ps"
  "pase_inv (ps\<lparr>ps_responderSessionId := i\<rparr>) = pase_inv ps" "pase_inv (ps\<lparr>ps_cA := x\<rparr>) = pase_inv ps"
  by (simp_all add: pase_inv_def)

lemma generateVerifier_keeps:
  assumes "generateVerifier S it salt ps = Inr (ps', v)"
  shows "pase_inv ps' = pase_inv ps" "ps_spake2 ps' = ps_spake2 ps"
proof -
  define p1 where "p1 = (if it = JUndef \<or> it = JNull then ps else ps\<lparr>ps_paramIterations := it\<rparr>)"
  define p2 where "p2 = (if salt = JUndef \<or> salt = JNull then p1 else p1\<lparr>ps_paramSalt := salt\<rparr>)"
  have "ps' = p2" using assms unfolding generateVerifier_def p2_def [symmetric] p1_def [symmetric] Let_def by (auto split: option.splits)
  then show "pase_inv ps' = pase_inv ps" "ps_spake2 ps' = ps_spake2 ps" by (simp_all add: p1_def p2_def)
qed

lemma onPbkdfParamResponse_evolves:
  assumes "onPbkdfParamResponse S p msg n = Inr n'" and "p < length (pn_pases n)"
  shows "evolves p n n' \<and> sm_secured n' = sm_secured n"
proof -
  obtain tlv rsid ctx it salt ps v where g: "generateVerifier S it salt ((pn_pases n ! p)\<lparr>ps_pbkdfResponse := Some tlv,
        ps_responderSessionId := rsid, ps_spake2 := Some ctx\<rparr>) = Inr (ps, v)"
    and n': "n' = push_task (ClientVerifier p v) (upd_pase p (\<lambda>_. ps) n)"
    using assms(1) by (auto simp: onPbkdfParamResponse_def Let_def)
  have i: "pase_inv (ps\<lparr>ps_pbkdfResponse := Some t\<rparr>)" if "pase_inv ps" for ps t using that by (simp add: pase_inv_def)
  have "pase_inv (pn_pases n ! p) \<longrightarrow> pase_inv ps" "ps_spake2 ps = Some ctx"
    using generateVerifier_keeps [OF g] i by simp_all
  then show ?thesis
    using n' assms(2) unfolding evolves_def by (auto intro!: exI [of _ ps] exI [of _ "[ClientVerifier p v]"] simp: upd_pase_def)
qed

lemma onPake1_evolves:
  assumes "onPake1 S p msg n = Inr n'" and "p < length (pn_pases n)"
  shows "evolves p n n' \<and> sm_secured n' = sm_secured n"
proof (cases "ps_state (pn_pases n ! p) = AWAIT_PAKE1")
  case True
  then obtain pA ctx ps v where g: "generateVerifier S JUndef JUndef ((pn_pases n ! p)\<lparr>ps_pA := pA, ps_spake2 := Some ctx\<rparr>) = Inr (ps, v)"
    and n': "n' = push_task (ServerVerifier p v) (upd_pase p (\<lambda>_. ps) n)"
    using assms(1) by (auto simp: onPake1_def Let_def)
  have "pase_inv ((pn_pases n ! p)\<lparr>ps_pA := pA\<rparr>) = pase_inv (pn_pases n ! p)" using True by (simp add: pase_inv_def)
  then have "pase_inv (pn_pases n ! p) \<longrightarrow> pase_inv ps" "ps_spake2 ps = Some ctx"
    using generateVerifier_keeps [OF g] by simp_all
  then show ?thesis
    using n' assms(2) unfolding evolves_def by (auto intro!: exI [of _ ps] exI [of _ "[ServerVerifier p v]"] simp: upd_pase_def)
next
  case False
  then show ?thesis using assms evolves_refl by (auto simp: onPake1_def)
qed

text \<open>The two handlers that make a session.\<close>

lemma onPake2_evolves:
  assumes "onPake2 A kdf S p msg n = Inr n'" and "p < length (pn_pases n)"
  shows "evolves p n n'"
proof (cases "ps_state (pn_pases n ! p) = AWAIT_PAKE2")
  case True
  then obtain pB cB k cA where 0: "sendPake3 A kdf p (upd_pase p (\<lambda>ps. ps\<lparr>ps_pB := pB, ps_cB := cB, ps_secret := Some k, ps_cA := JStr cA\<rparr>) n) = Inr n'"
    (is "sendPake3 A kdf p ?n1 = _")
    using assms(1) by (auto simp: onPake2_def simp del: js_path.simps split: option.splits)
  define n1 ps where "n1 = ?n1" and "ps = (pn_pases n ! p)\<lparr>ps_pB := pB, ps_cB := cB, ps_secret := Some k, ps_cA := JStr cA\<rparr>"
  have 1: "sendPake3 A kdf p n1 = Inr n'" "pn_tasks n1 = pn_tasks n" and ps: "pn_pases n1 = (pn_pases n)[p := ps]" "ps_spake2 ps = ps_spake2 (pn_pases n ! p)"
    using 0 by (simp_all add: n1_def ps_def upd_pase_def)
  obtain pay n2 where 2: "pase_send A p PaseCommand_Pake3 pay (upd_pase p (setState IDLE) n1) = Inr n2" "createSecureSession kdf p n2 = Inr n'"
    using 1(1) by (auto simp: sendPake3_def)
  have "pn_pases n' = (pn_pases n)[p := setState IDLE ps]" "pn_tasks n' = pn_tasks n"
    using createSecureSession_frame [OF 2(2)] pase_send_frame [OF 2(1)] ps(1) 1(2) assms(2) by (simp_all add: upd_pase_def)
  then show ?thesis using True ps(2) unfolding evolves_def by (auto intro!: exI [of _ "setState IDLE ps"])
next
  case False
  then show ?thesis using assms evolves_refl by (auto simp: onPake2_def)
qed

lemma onPake3_evolves:
  assumes "onPake3 A kdf S p msg n = Inr n'" and "p < length (pn_pases n)"
  shows "evolves p n n'"
proof (cases "ps_state (pn_pases n ! p) = AWAIT_PAKE3")
  case True
  then obtain cA n1 n2 where 1: "sendSuccess A (ps_exchange (pn_pases n ! p)) SESSION_PROTOCOL_ID SESSION_ESTABLISHMENT_SUCCESS None
        (upd_pase p (\<lambda>ps. ps\<lparr>ps_cA := cA\<rparr>) n) = Inr n1"
    and 2: "createSecureSession kdf p n1 = Inr n2" "n' = upd_pase p (setState IDLE) n2"
    using assms(1) by (auto simp: onPake3_def simp del: js_path.simps split: option.splits)
  obtain pay where "send_protocol A (ps_exchange (pn_pases n ! p)) SESSION_PROTOCOL_ID Command_StatusReport pay
      (upd_pase p (\<lambda>ps. ps\<lparr>ps_cA := cA\<rparr>) n) = Inr n1"
    using 1 by (auto simp: sendSuccess_def sendStatus_def status_send_def)
  from send_protocol_frame [OF this] createSecureSession_frame [OF 2(1)] 2(2) assms(2)
  have "pn_pases n' = (pn_pases n)[p := setState IDLE ((pn_pases n ! p)\<lparr>ps_cA := cA\<rparr>)]" "pn_tasks n' = pn_tasks n"
    by (simp_all add: upd_pase_def)
  then show ?thesis unfolding evolves_def
    by (intro exI [of _ "setState IDLE ((pn_pases n ! p)\<lparr>ps_cA := cA\<rparr>)"] exI [of _ "[]"]) simp
next
  case False
  then show ?thesis using assms evolves_refl by (auto simp: onPake3_def)
qed

lemma run_task_evolves:
  assumes "run_task A S t n = Inr n'" and "task_ok (pn_pases n) t" and "pases_ok n"
  shows "pases_ok n' \<and> sm_secured n' = sm_secured n \<and> length (pn_pases n') = length (pn_pases n)"
proof -
  have verifier: "evolves p n (push_task u n1) \<and> sm_secured (push_task u n1) = sm_secured n"
    if "Random 32 (upd_pase p (\<lambda>ps. ps\<lparr>ps_spakeVerifier := Some v\<rparr>) n) = (r, n1)" and "p < length (pn_pases n)"
      and "u = ClientStarted p c \<or> u = ServerStarted p c" for p v r n1 u c
    using Random_frame(1) [OF that(1)] that(2,3) unfolding evolves_def
    by (auto intro!: exI [of _ "(pn_pases n ! p)\<lparr>ps_spakeVerifier := Some v\<rparr>"] exI [of _ "[u]"] simp: upd_pase_def)
  have started: "evolves p n n' \<and> sm_secured n' = sm_secured n"
    if "pase_send A p opc pay m = Inr n'" and "pn_pases m = (pn_pases n)[p := setState st ps]" and "pn_tasks m = pn_tasks n"
      and "sm_secured m = sm_secured n" and "pase_inv (setState st ps)" and "ps_spake2 ps = ps_spake2 (pn_pases n ! p)" for p opc pay m ps st
    using pase_send_frame [OF that(1)] that(2-6) unfolding evolves_def
    by (intro conjI exI [of _ "setState st ps"] exI [of _ "[]"]) simp_all
  have "\<exists>p. p < length (pn_pases n) \<and> evolves p n n' \<and> sm_secured n' = sm_secured n"
  proof (cases t)
    case (ClientVerifier p v)
    then obtain c r n1 where "Random 32 (upd_pase p (\<lambda>ps. ps\<lparr>ps_spakeVerifier := Some v\<rparr>) n) = (r, n1)" "n' = push_task (ClientStarted p c) n1"
      using assms(1) by (auto simp: run_task_def Let_def split: option.splits prod.splits)
    moreover have "p < length (pn_pases n)" using assms(2) ClientVerifier by simp
    ultimately show ?thesis using verifier by blast
  next
    case (ClientStarted p c)
    let ?ps = "(pn_pases n ! p)\<lparr>ps_spakeClient := Some c, ps_pA := JStr (sp_message S c)\<rparr>"
    have p: "p < length (pn_pases n)" using assms(2) ClientStarted by simp
    obtain pay x where "pase_send A p PaseCommand_Pake1 pay (upd_exchange x (\<lambda>e. e\<lparr>e_isAck := True\<rparr>)
        (upd_pase p (\<lambda>_. setState AWAIT_PAKE2 ?ps) n)) = Inr n'"
      using assms(1) ClientStarted p by (auto simp: run_task_def sendPake1_def upd_pase_def)
    then show ?thesis using started [where ps = ?ps] p by (auto simp: upd_pase_def intro!: exI [of _ p])
  next
    case (ServerVerifier p v)
    then obtain c r n1 where "Random 32 (upd_pase p (\<lambda>ps. ps\<lparr>ps_spakeVerifier := Some v\<rparr>) n) = (r, n1)" "n' = push_task (ServerStarted p c) n1"
      using assms(1) by (auto simp: run_task_def Let_def split: option.splits prod.splits)
    moreover have "p < length (pn_pases n)" using assms(2) ServerVerifier by simp
    ultimately show ?thesis using verifier by blast
  next
    case (ServerStarted p s)
    have p: "p < length (pn_pases n)" using assms(2) ServerStarted by simp
    obtain k cB pay where "pase_send A p PaseCommand_Pake2 pay (upd_pase p (\<lambda>_. setState AWAIT_PAKE3 ((pn_pases n ! p)
        \<lparr>ps_spakeServer := Some s, ps_pB := JStr (sp_message S s), ps_secret := Some k, ps_cB := JStr (hex_encode cB)\<rparr>)) n) = Inr n'"
      using assms(1) ServerStarted p by (auto simp: run_task_def sendPake2_def upd_pase_def)
    then show ?thesis using started p by (fastforce simp: upd_pase_def intro!: exI [of _ p])
  qed
  then show ?thesis using evolves_ok assms(3) by blast
qed

section \<open>Steps\<close>

datatype pase_event = Start nat | Receive nat message | Resume | Timeout nat

inductive pase_step :: "aead \<Rightarrow> hkdf \<Rightarrow> spake \<Rightarrow> pase_event \<Rightarrow> 'a pase_node_scheme \<Rightarrow> 'a pase_node_scheme \<Rightarrow> bool" for A kdf S where
  start: "p < length (pn_pases n) \<Longrightarrow> startPase A p n = Inr n' \<Longrightarrow> pase_step A kdf S (Start p) n n'"
| receive: "p < length (pn_pases n) \<Longrightarrow> onExchangeMessage A kdf S p m n = Inr n' \<Longrightarrow> pase_step A kdf S (Receive p m) n n'"
| resume: "pn_tasks n = ts1 @ t # ts2 \<Longrightarrow> run_task A S t (n\<lparr>pn_tasks := ts1 @ ts2\<rparr>) = Inr n' \<Longrightarrow> pase_step A kdf S Resume n n'"
| timeout: "p < length (pn_pases n) \<Longrightarrow> ps_timer (pn_pases n ! p) \<Longrightarrow> pase_step A kdf S (Timeout p) n (upd_pase p stateTimeout n)"

inductive pase_reachable :: "aead \<Rightarrow> hkdf \<Rightarrow> spake \<Rightarrow> 'a pase_node_scheme \<Rightarrow> bool" for A kdf S where
  init: "(\<forall>ps \<in> set (pn_pases n). \<exists>x. ps = new_pase x) \<Longrightarrow> pn_tasks n = [] \<Longrightarrow> pase_reachable A kdf S n"
| step: "pase_reachable A kdf S n \<Longrightarrow> pase_step A kdf S ev n n' \<Longrightarrow> pase_reachable A kdf S n'"

inductive_cases pase_stepE: "pase_step A kdf S ev n n'"

lemma onExchangeMessage_evolves:
  assumes "onExchangeMessage A kdf S p m n = Inr n'" and "p < length (pn_pases n)"
  shows "evolves p n n'"
  using assms by (auto simp: onExchangeMessage_def split: if_splits intro: evolves_refl
      dest: onPbkdfParamRequest_evolves onPbkdfParamResponse_evolves onPake1_evolves onPake2_evolves onPake3_evolves)

lemma pase_step_ok:
  assumes "pase_step A kdf S ev n n'" and "pases_ok n"
  shows "pases_ok n'"
  using assms(1)
proof (cases rule: pase_step.cases)
  case (resume ts1 t ts2)
  have "pases_ok (n\<lparr>pn_tasks := ts1 @ ts2\<rparr>)" "task_ok (pn_pases n) t" using assms(2) resume by (auto simp: pases_ok_def)
  then show ?thesis using run_task_evolves [OF resume(3)] by simp
next
  case (timeout p)
  have "evolves p n (upd_pase p stateTimeout n)"
    unfolding evolves_def stateTimeout_def by (intro exI [of _ "setState IDLE (pn_pases n ! p)"] exI [of _ "[]"]) (simp add: upd_pase_def)
  then show ?thesis using evolves_ok(1) timeout assms(2) by blast
qed (use evolves_ok(1) assms(2) startPase_evolves onExchangeMessage_evolves in blast)+

text \<open>
  (C2) The state machine, whatever the peer sends and in whatever order awaited values and
  timeouts come: the timer runs exactly when a reply is awaited, and in each state what the
  handler of the awaited message reads is there: the request for the parameters, the request and
  the response for \<open>Pake1\<close>, the started client for \<open>Pake2\<close>, the secret for \<open>Pake3\<close>.
\<close>

theorem pase_state_invariant:
  assumes "pase_reachable A kdf S n" and "ps \<in> set (pn_pases n)"
  shows "(ps_timer ps \<longleftrightarrow> ps_state ps \<noteq> IDLE) \<and>
    (ps_state ps = AWAIT_PBKDF_PARAM_RSP \<longrightarrow> ps_localRole ps = INITIATOR \<and> ps_pbkdfRequest ps \<noteq> None) \<and>
    (ps_state ps = AWAIT_PAKE1 \<longrightarrow> ps_localRole ps = RESPONDER \<and> ps_pbkdfRequest ps \<noteq> None \<and> ps_pbkdfResponse ps \<noteq> None) \<and>
    (ps_state ps = AWAIT_PAKE2 \<longrightarrow> ps_spakeClient ps \<noteq> None \<and> (\<exists>t. ps_pA ps = JStr t)) \<and>
    (ps_state ps = AWAIT_PAKE3 \<longrightarrow> ps_secret ps \<noteq> None)"
proof -
  have "pases_ok n" using assms(1)
  proof induction
    case (init n)
    have "pase_inv (new_pase x)" for x by (simp add: pase_inv_def new_pase_def)
    then show ?case using init by (auto simp: pases_ok_def)
  next
    case (step n ev n')
    then show ?case using pase_step_ok by blast
  qed
  then show ?thesis using assms(2) unfolding pases_ok_def pase_inv_def by blast
qed

theorem pase_state_invariant_witness:
  "\<exists>n'. startPase toy_aead 0 (demo_pase_node True) = Inr n' \<and> ps_timer (pn_pases n' ! 0) \<and>
    ps_state (pn_pases n' ! 0) = AWAIT_PBKDF_PARAM_RSP \<and> ps_pbkdfRequest (pn_pases n' ! 0) \<noteq> None"
proof -
  let ?n = "demo_pase_node True"
  have r: "ready (Suc 2) 0 ?n" "ps_state (pn_pases ?n ! 0) = IDLE" "0 < length (pn_pases ?n)"
    using demo_pase_fresh [of True] by (simp_all add: fresh_pase_def ready_def numeral_3_eq_3 numeral_2_eq_2)
  obtain rnd sid n' where n': "startPase toy_aead 0 ?n = Inr n'"
    and s: "pase_sent 2 0 (after_request rnd sid (pn_pases ?n ! 0)) PaseCommand_ParamRequest (tlv_bytes (request_elem rnd sid)) ?n n'"
    using startPase_sends [OF r(1,2)] by blast
  have st: "ps_state (pn_pases n' ! 0) = AWAIT_PBKDF_PARAM_RSP" "0 < length (pn_pases n')"
    using pase_sent_state(1,6) [OF s r(3)] r(3) by (simp_all add: after_request_def setState_def)
  have "pase_reachable toy_aead toy_kdf toy_spake ?n" by (rule pase_reachable.init) (auto simp: demo_pase_node_def)
  then have "pase_reachable toy_aead toy_kdf toy_spake n'" using pase_step.start [OF r(3) n'] by (rule pase_reachable.step)
  from pase_state_invariant [OF this nth_mem [OF st(2)]]
  have "ps_timer (pn_pases n' ! 0)" "ps_pbkdfRequest (pn_pases n' ! 0) \<noteq> None" using st(1) by simp_all
  then show ?thesis using n' st(1) by blast
qed

section \<open>Where sessions come from\<close>

lemma opens_session_cong:
  "sm_secured m = sm_secured n \<Longrightarrow> length (n_sessions m) = length (n_sessions n) \<Longrightarrow> opens_session kdf k m n' \<Longrightarrow> opens_session kdf k n n'"
  by (simp add: opens_session_def)

lemma send_protocol_sessions: "send_protocol A x pid opc pay n = Inr n' \<Longrightarrow> length (n_sessions n') = length (n_sessions n)"
  using net_only_fields(2) [OF send_protocol_net_only] by blast

lemma onPake2_opens:
  assumes "onPake2 A kdf S p msg n = Inr n'" and "p < length (pn_pases n)" and "n' \<noteq> n"
  shows "\<exists>tlv json c pB k. AppPayload msg = Inr tlv \<and> decode_json tlv = Inr json \<and> ps_state (pn_pases n ! p) = AWAIT_PAKE2 \<and>
    ps_spakeClient (pn_pases n ! p) = Some c \<and> js_path [0, 0] json = Inr pB \<and> sp_client_finish S c pB = Inr k \<and>
    opens_session kdf k n n' \<and> ps_state (pn_pases n' ! p) = IDLE"
proof -
  have st: "ps_state (pn_pases n ! p) = AWAIT_PAKE2" using assms(1,3) by (auto simp: onPake2_def split: if_splits)
  then obtain tlv json pB c cB k cA where h: "AppPayload msg = Inr tlv" "decode_json tlv = Inr json" "js_path [0, 0] json = Inr pB"
    "ps_spakeClient (pn_pases n ! p) = Some c" "sp_client_finish S c pB = Inr k"
    and 0: "sendPake3 A kdf p (upd_pase p (\<lambda>ps. ps\<lparr>ps_pB := pB, ps_cB := cB, ps_secret := Some k, ps_cA := JStr cA\<rparr>) n) = Inr n'"
      (is "sendPake3 A kdf p ?n1 = _")
    using assms(1) by (auto simp: onPake2_def simp del: js_path.simps split: option.splits)
  obtain pay n2 where 2: "pase_send A p PaseCommand_Pake3 pay (upd_pase p (setState IDLE) ?n1) = Inr n2" "createSecureSession kdf p n2 = Inr n'"
    using 0 by (auto simp: sendPake3_def)
  note f = pase_send_frame [OF 2(1)] send_protocol_sessions [OF 2(1) [unfolded pase_send_def]]
  have s: "ps_secret (pn_pases n2 ! p) = Some k" "ps_state (pn_pases n2 ! p) = IDLE" using f(1) assms(2) by (simp_all add: setState_def)
  have "opens_session kdf k n2 n'" using createSecureSession_opens [OF 2(2)] s(1) by auto
  then have "opens_session kdf k n n'" by (rule opens_session_cong [rotated 2]) (use f in simp_all)
  then show ?thesis using h st s(2) createSecureSession_frame(1) [OF 2(2)] by auto
qed

lemma onPake3_opens:
  assumes "onPake3 A kdf S p msg n = Inr n'" and "p < length (pn_pases n)" and "n' \<noteq> n"
  shows "\<exists>tlv json cA k. AppPayload msg = Inr tlv \<and> decode_json tlv = Inr json \<and> ps_state (pn_pases n ! p) = AWAIT_PAKE3 \<and>
    ps_secret (pn_pases n ! p) = Some k \<and> js_path [0, 0] json = Inr cA \<and> sp_verify S k cA = Inr () \<and>
    opens_session kdf k n n' \<and> ps_state (pn_pases n' ! p) = IDLE"
proof -
  have st: "ps_state (pn_pases n ! p) = AWAIT_PAKE3" using assms(1,3) by (auto simp: onPake3_def split: if_splits)
  then obtain tlv json cA k n1 n2 where h: "AppPayload msg = Inr tlv" "decode_json tlv = Inr json" "js_path [0, 0] json = Inr cA"
    "ps_secret (pn_pases n ! p) = Some k" "sp_verify S k cA = Inr ()"
    and 1: "sendSuccess A (ps_exchange (pn_pases n ! p)) SESSION_PROTOCOL_ID SESSION_ESTABLISHMENT_SUCCESS None
        (upd_pase p (\<lambda>ps. ps\<lparr>ps_cA := cA\<rparr>) n) = Inr n1"
    and 2: "createSecureSession kdf p n1 = Inr n2" "n' = upd_pase p (setState IDLE) n2"
    using assms(1) by (auto simp: onPake3_def simp del: js_path.simps split: option.splits)
  obtain pay where 3: "send_protocol A (ps_exchange (pn_pases n ! p)) SESSION_PROTOCOL_ID Command_StatusReport pay
      (upd_pase p (\<lambda>ps. ps\<lparr>ps_cA := cA\<rparr>) n) = Inr n1"
    using 1 by (auto simp: sendSuccess_def sendStatus_def status_send_def)
  note f = send_protocol_frame [OF 3] send_protocol_sessions [OF 3] createSecureSession_frame(1) [OF 2(1)]
  have "opens_session kdf k n1 n2" using createSecureSession_opens [OF 2(1)] f(1) assms(2) h(4) by simp
  then have "opens_session kdf k n n2" by (rule opens_session_cong [rotated 2]) (use f in simp_all)
  then have "opens_session kdf k n n'" by (simp add: opens_session_def 2(2))
  then show ?thesis using h st 2(2) f assms(2) by (auto simp: setState_def)
qed

text \<open>
  (C4) Where sessions come from: a step that adds a secured session is the reception of one of two
  messages, and the new session's keys are derived from the secret of that handshake. Either it is
  a \<open>Pake2\<close> for an object that waits for one, and then the secret is the started client's
  with the public value of the message and no confirmation is compared, whatever the object's
  role; or it is a \<open>Pake3\<close> for an object that waits for one, and then the message's
  confirmation has passed the check against the object's secret. The object is idle afterwards.
  No other message, no timeout and no awaited value makes a session.
\<close>

theorem session_needs_confirmation:
  assumes "pase_step A kdf S ev n n'" and "sm_secured n' \<noteq> sm_secured n" and "pases_ok n"
  shows "\<exists>p m tlv json k. ev = Receive p m \<and> p < length (pn_pases n) \<and> AppPayload m = Inr tlv \<and> decode_json tlv = Inr json \<and>
    opens_session kdf k n n' \<and> ps_state (pn_pases n' ! p) = IDLE \<and>
    (ProtocolOpcode m = Inr PaseCommand_Pake2 \<and> ps_state (pn_pases n ! p) = AWAIT_PAKE2 \<and>
       (\<exists>c pB. ps_spakeClient (pn_pases n ! p) = Some c \<and> js_path [0, 0] json = Inr pB \<and> sp_client_finish S c pB = Inr k) \<or>
     ProtocolOpcode m = Inr PaseCommand_Pake3 \<and> ps_state (pn_pases n ! p) = AWAIT_PAKE3 \<and>
       (\<exists>cA. ps_secret (pn_pases n ! p) = Some k \<and> js_path [0, 0] json = Inr cA \<and> sp_verify S k cA = Inr ()))"
  using assms(1)
proof (cases rule: pase_step.cases)
  case (start p)
  then show ?thesis using startPase_evolves assms(2) by blast
next
  case (receive p m)
  then consider "onPbkdfParamRequest A p m n = Inr n'" | "onPbkdfParamResponse S p m n = Inr n'" | "onPake1 S p m n = Inr n'"
    | "ProtocolOpcode m = Inr PaseCommand_Pake2" "onPake2 A kdf S p m n = Inr n'"
    | "ProtocolOpcode m = Inr PaseCommand_Pake3" "onPake3 A kdf S p m n = Inr n'" | "n' = n"
    unfolding onExchangeMessage_def by (auto split: if_splits)
  then show ?thesis
  proof cases
    case 1
    then show ?thesis using onPbkdfParamRequest_evolves [OF 1 receive(2)] assms(2) by simp
  next
    case 2
    then show ?thesis using onPbkdfParamResponse_evolves [OF 2 receive(2)] assms(2) by simp
  next
    case 3
    then show ?thesis using onPake1_evolves [OF 3 receive(2)] assms(2) by simp
  next
    case 4
    then show ?thesis using onPake2_opens [OF 4(2) receive(2)] assms(2) receive(1,2) by blast
  next
    case 5
    then show ?thesis using onPake3_opens [OF 5(2) receive(2)] assms(2) receive(1,2) by blast
  next
    case 6
    then show ?thesis using assms(2) by simp
  qed
next
  case (resume ts1 t ts2)
  have "pases_ok (n\<lparr>pn_tasks := ts1 @ ts2\<rparr>)" "task_ok (pn_pases n) t" using assms(3) resume by (auto simp: pases_ok_def)
  then show ?thesis using run_task_evolves [OF resume(3)] assms(2) by simp
next
  case (timeout p)
  then show ?thesis using assms(2) by simp
qed

text \<open>Messages of the session protocol as a peer sends them.\<close>

definition pase_message :: "int \<Rightarrow> buffer \<Rightarrow> message" where
  "pase_message opc pay = on_wire (protocol_wire SESSION_PROTOCOL_ID opc pay) new_message"

lemma pase_message_get:
  assumes "0 \<le> opc" and "opc < 2 ^ 8"
  shows "ProtocolOpcode (pase_message opc pay) = Inr opc" "AppPayload (pase_message opc pay) = Inr pay"
    "\<exists>i. ExchangeId (pase_message opc pay) = Inr i"
proof -
  have ok: "wire_ok (protocol_wire SESSION_PROTOCOL_ID opc pay)"
    by (rule protocol_message_wire(2)) (use assms in \<open>simp_all add: SESSION_PROTOCOL_ID_def\<close>)
  show "ProtocolOpcode (pase_message opc pay) = Inr opc" "AppPayload (pase_message opc pay) = Inr pay"
    "\<exists>i. ExchangeId (pase_message opc pay) = Inr i"
    unfolding pase_message_def using wire_exchange_get [OF ok] wire_AppPayload [OF ok] by (simp_all add: protocol_wire_def zero_wire_def)
qed

definition pase_says :: "int \<Rightarrow> telem \<Rightarrow> message \<Rightarrow> bool" where
  "pase_says opc e m \<longleftrightarrow> ProtocolOpcode m = Inr opc \<and> AppPayload m = Inr (tlv_bytes e) \<and> (\<exists>i. ExchangeId m = Inr i)"

lemma pase_saysD: "pase_says opc e m \<Longrightarrow> AppPayload m = Inr (tlv_bytes e)"
  by (simp add: pase_says_def)

lemma pase_says_on:
  "pase_says PaseCommand_ParamRequest e m \<Longrightarrow> onExchangeMessage A kdf S p m n = onPbkdfParamRequest A p m n"
  "pase_says PaseCommand_ParamResponse e m \<Longrightarrow> onExchangeMessage A kdf S p m n = onPbkdfParamResponse S p m n"
  "pase_says PaseCommand_Pake2 e m \<Longrightarrow> onExchangeMessage A kdf S p m n = onPake2 A kdf S p m n"
  by (auto simp: pase_says_def onExchangeMessage_def session_consts)

definition demo_waiting :: "pase_state \<Rightarrow> pase_node" where
  "demo_waiting st = (demo_pase_node (st = AWAIT_PAKE2))\<lparr>pn_pases := [(new_pase 0)\<lparr>ps_state := st, ps_timer := True,
     ps_localRole := (if st = AWAIT_PAKE2 then INITIATOR else RESPONDER), ps_secret := Some (toy_secret (replicate 32 7)),
     ps_spakeClient := Some (replicate 32 7), ps_pA := JStr [], ps_initiatorSessionId := JNum 3, ps_responderSessionId := JNum 4\<rparr>]\<rparr>"

lemma demo_waiting_ready: "ready 3 0 (demo_waiting st)"
  using demo_pase_fresh [of "st = AWAIT_PAKE2"]
  by (auto simp: fresh_pase_def ready_def sendable_def demo_waiting_def demo_pase_node_def new_pase_def)

theorem session_needs_confirmation_witness:
  "\<exists>n'. pase_step toy_aead toy_kdf toy_spake (Receive 0 (pase_message PaseCommand_Pake3 (tlv_bytes (pake_elem [replicate 16 7])))) (demo_waiting AWAIT_PAKE3) n' \<and>
    sm_secured n' \<noteq> [] \<and> opens_session toy_kdf (toy_secret (replicate 32 7)) (demo_waiting AWAIT_PAKE3) n' \<and>
    ps_state (pn_pases n' ! 0) = IDLE"
proof -
  let ?n = "demo_waiting AWAIT_PAKE3" and ?k = "toy_secret (replicate 32 7)" and ?m = "pase_message PaseCommand_Pake3 (tlv_bytes (pake_elem [replicate 16 7]))"
  obtain keys where keys: "session_keys toy_kdf ?k = Inr keys" using session_keys_ok [OF toy_kdf_ok] by blast
  have w: "server_waits 0 ?k 3 4 ?n" by (simp add: server_waits_def demo_waiting_def)
  have m: "ProtocolOpcode ?m = Inr PaseCommand_Pake3" "AppPayload ?m = Inr (tlv_bytes (pake_elem [replicate 16 7]))" "\<exists>i. ExchangeId ?m = Inr i"
    using pase_message_get [of PaseCommand_Pake3] by (simp_all add: session_consts)
  have v: "sp_verify toy_spake ?k (JBuf (replicate 16 7)) = Inr ()" by (simp add: toy_spake_def toy_secret_def)
  obtain n' where n': "onPake3 toy_aead toy_kdf toy_spake 0 ?m ?n = Inr n'" "has_session keys (JNum 4) (JNum 3) n'"
    using server_finishes [OF keys _ w m(2) _ v, of 2 toy_aead] demo_waiting_ready by (auto simp: numeral_3_eq_3 numeral_2_eq_2)
  have "onExchangeMessage toy_aead toy_kdf toy_spake 0 ?m ?n = Inr n'"
    using m n'(1) by (auto simp: onExchangeMessage_def session_consts)
  then have s: "pase_step toy_aead toy_kdf toy_spake (Receive 0 ?m) ?n n'" by (intro pase_step.receive) (simp add: demo_waiting_def)
  have g: "sm_secured n' \<noteq> []" "sm_secured ?n = []" using n'(2) by (auto simp: has_session_def demo_waiting_def demo_pase_node_def)
  have "pases_ok ?n" by (simp add: pases_ok_def demo_waiting_def demo_pase_node_def pase_inv_def)
  from session_needs_confirmation [OF s _ this] g
  have "opens_session toy_kdf ?k ?n n'" "ps_state (pn_pases n' ! 0) = IDLE"
    using w by (auto simp: server_waits_def Let_def simp del: js_path.simps)
  then show ?thesis using s g(1) by blast
qed

text \<open>
  (C33) A responder can be talked out of its confirmation. An idle object gets a parameter
  request and answers it, as the responder; the same peer then sends it a parameter
  \<open>response\<close>, which \<open>onPbkdfParamResponse\<close> takes in any state and any role. After the
  two awaited values the object waits for \<open>Pake2\<close>, still as responder, and any \<open>Pake2\<close> whose
  public value the started client can use makes a secured session with the responder's ids,
  whatever octets stand in place of the confirmation: nothing is verified on this path.
\<close>

theorem responder_skips_confirmation:
  assumes "spake_ok S" and "kdf_ok kdf" and "fresh_pase pc p n" and "0 \<le> pc" and "pc < 2 ^ 32" and "offers salt0 iter0 (pn_pases n ! p)"
    and "pase_says PaseCommand_ParamRequest (request_elem rnd sid) m1" and "length rnd = 32" and "0 \<le> sid" and "sid < 2 ^ 16"
    and "pase_says PaseCommand_ParamResponse (response_elem irnd rrnd rsid iter salt) m2" and "wf_telem (response_elem irnd rrnd rsid iter salt)"
    and "rsid < 2 ^ 16" and "0 < iter" and "iter < 2 ^ 32"
  shows "\<exists>n1 n2 c. onExchangeMessage A kdf S p m1 n = Inr n1 \<and>
    ps_state (pn_pases n1 ! p) = AWAIT_PAKE1 \<and> ps_localRole (pn_pases n1 ! p) = RESPONDER \<and>
    rbind (onExchangeMessage A kdf S p m2 n1) (\<lambda>n. rbind (next_task A S n) (next_task A S)) = Inr n2 \<and>
    ps_state (pn_pases n2 ! p) = AWAIT_PAKE2 \<and> ps_localRole (pn_pases n2 ! p) = RESPONDER \<and>
    (\<forall>m3 b cB k. pase_says PaseCommand_Pake2 (pake_elem [b, cB]) m3 \<longrightarrow> int (length b) < 65536 \<longrightarrow> int (length cB) < 65536 \<longrightarrow>
       sp_client_finish S c (JBuf b) = Inr k \<longrightarrow>
       (\<exists>keys n3. onExchangeMessage A kdf S p m3 n2 = Inr n3 \<and> session_keys kdf k = Inr keys \<and> has_session keys (JNum rsid) (JNum sid) n3))"
proof -
  have n: "ready (Suc 2) p n" "ps_state (pn_pases n ! p) = IDLE" "pn_tasks n = []" "ps_paramPaircode (pn_pases n ! p) = pc" "p < length (pn_pases n)"
    using assms(3) by (simp_all add: fresh_pase_def numeral_3_eq_3 numeral_2_eq_2 ready_def)
  have o: "ps_paramSaltHex (pn_pases n ! p) = hex_encode (utf8_encode salt0)" "int (length (utf8_encode salt0)) < 2 ^ 32"
    "ps_paramIterations (pn_pases n ! p) = JNum iter0" "0 \<le> iter0" "iter0 < 2 ^ 32" using assms(6) by (simp_all add: offers_def)
  obtain rr ri rsp n1 where n1: "onPbkdfParamRequest A p m1 n = Inr n1"
    and s1: "pase_sent 2 p (after_response rnd sid rr ri rsp (pn_pases n ! p)) PaseCommand_ParamResponse rsp n n1"
    using onPbkdfParamRequest_sends [OF n(1,2) pase_saysD [OF assms(7)] assms(8-10) o(3-5,1,2), of A] by blast
  note st1 = pase_sent_state [OF s1 n(5)]
  have f1: "ps_state (pn_pases n1 ! p) = AWAIT_PAKE1" "ps_localRole (pn_pases n1 ! p) = RESPONDER" "pn_tasks n1 = []"
    "ps_initiatorSessionId (pn_pases n1 ! p) = JNum sid" "ps_pbkdfRequest (pn_pases n1 ! p) = Some (tlv_bytes (request_elem rnd sid))"
    "ps_paramPaircode (pn_pases n1 ! p) = pc"
    using st1(1,2) n(3,4) by (simp_all add: after_response_def setState_def)
  obtain n2 c where n2: "rbind (onPbkdfParamResponse S p m2 n1) (\<lambda>n. rbind (next_task A S n) (next_task A S)) = Inr n2"
    and c: "client_started p c sid rsid n2" "ps_localRole (pn_pases n2 ! p) = RESPONDER" "ready (Suc 0) p n2"
    using client_starts [OF assms(1) st1(4) [unfolded numeral_2_eq_2] f1(3) refl f1(4,5) _ _ pase_saysD [OF assms(11)] refl assms(12-15), of A]
      f1(2,6) assms(4,5) by auto
  have "\<exists>keys n3. onExchangeMessage A kdf S p m3 n2 = Inr n3 \<and> session_keys kdf k = Inr keys \<and> has_session keys (JNum rsid) (JNum sid) n3"
    if m3: "pase_says PaseCommand_Pake2 (pake_elem [b, cB]) m3" and l: "int (length b) < 65536" "int (length cB) < 65536"
      and k: "sp_client_finish S c (JBuf b) = Inr k" for m3 b cB k
  proof -
    obtain keys where keys: "session_keys kdf k = Inr keys" using session_keys_ok [OF assms(2)] by blast
    obtain n3 where "onPake2 A kdf S p m3 n2 = Inr n3" "has_session keys (JNum rsid) (JNum sid) n3"
      using client_opens_session [OF assms(1) keys c(3,1) k l pase_saysD [OF m3] refl, of A] c(2) by auto
    then show ?thesis using keys by (auto simp: pase_says_on(3) [OF m3])
  qed
  then show ?thesis
    using n1 n2 c f1(1,2) unfolding pase_says_on(1) [OF assms(7)] pase_says_on(2) [OF assms(11)]
    by (intro exI [of _ n1] exI [of _ n2] exI [of _ c]) (auto simp: client_started_def Let_def)
qed

theorem responder_skips_confirmation_witness:
  "\<exists>n1 n2 n3. onExchangeMessage toy_aead toy_kdf toy_spake 0 (pase_message PaseCommand_ParamRequest (tlv_bytes (request_elem (replicate 32 1) 3))) (demo_pase_node False) = Inr n1 \<and>
    rbind (onExchangeMessage toy_aead toy_kdf toy_spake 0 (pase_message PaseCommand_ParamResponse (tlv_bytes (response_elem [] [] 4 1000 [])))  n1)
      (\<lambda>n. rbind (next_task toy_aead toy_spake n) (next_task toy_aead toy_spake)) = Inr n2 \<and>
    ps_localRole (pn_pases n2 ! 0) = RESPONDER \<and>
    onExchangeMessage toy_aead toy_kdf toy_spake 0 (pase_message PaseCommand_Pake2 (tlv_bytes (pake_elem [[9], [1, 2, 3]]))) n2 = Inr n3 \<and>
    (\<exists>keys. has_session keys (JNum 4) (JNum 3) n3)"
proof -
  have says: "pase_says PaseCommand_ParamRequest (request_elem (replicate 32 1) 3) (pase_message PaseCommand_ParamRequest (tlv_bytes (request_elem (replicate 32 1) 3)))"
    "pase_says PaseCommand_ParamResponse (response_elem [] [] 4 1000 []) (pase_message PaseCommand_ParamResponse (tlv_bytes (response_elem [] [] 4 1000 [])))"
    "pase_says PaseCommand_Pake2 (pake_elem [[9], [1, 2, 3]]) (pase_message PaseCommand_Pake2 (tlv_bytes (pake_elem [[9], [1, 2, 3]])))"
    using pase_message_get by (simp_all add: pase_says_def session_consts)
  have k: "sp_client_finish toy_spake c (JBuf [9]) = Inr (toy_secret c)" for c by (simp add: toy_spake_def)
  have o: "offers (js_string ''SPAKE2P Key Salt'') 1000 (pn_pases (demo_pase_node False) ! 0)" using demo_pase_offers by (simp add: demo_pase_node_def)
  have wf: "wf_telem (response_elem [] [] 4 1000 [])" by (rule wf_response) simp_all
  have num: "0 \<le> DEFAULT_PINCODE" "DEFAULT_PINCODE < 2 ^ 32" "length (replicate 32 (1::byte)) = 32" "0 \<le> (3::int)" "(3::int) < 2 ^ 16"
    "(4::int) < 2 ^ 16" "0 < (1000::int)" "(1000::int) < 2 ^ 32" by (simp_all add: DEFAULT_PINCODE_def)
  obtain n1 n2 c where r: "onExchangeMessage toy_aead toy_kdf toy_spake 0 (pase_message PaseCommand_ParamRequest (tlv_bytes (request_elem (replicate 32 1) 3))) (demo_pase_node False) = Inr n1"
    "rbind (onExchangeMessage toy_aead toy_kdf toy_spake 0 (pase_message PaseCommand_ParamResponse (tlv_bytes (response_elem [] [] 4 1000 [])))  n1)
      (\<lambda>n. rbind (next_task toy_aead toy_spake n) (next_task toy_aead toy_spake)) = Inr n2"
    "ps_localRole (pn_pases n2 ! 0) = RESPONDER"
    and q: "\<forall>m3 b cB k. pase_says PaseCommand_Pake2 (pake_elem [b, cB]) m3 \<longrightarrow> int (length b) < 65536 \<longrightarrow> int (length cB) < 65536 \<longrightarrow>
       sp_client_finish toy_spake c (JBuf b) = Inr k \<longrightarrow>
       (\<exists>keys n3. onExchangeMessage toy_aead toy_kdf toy_spake 0 m3 n2 = Inr n3 \<and> session_keys toy_kdf k = Inr keys \<and> has_session keys (JNum 4) (JNum 3) n3)"
    using responder_skips_confirmation [OF toy_spake_ok toy_kdf_ok demo_pase_fresh [of False] num(1,2) o says(1) num(3-5) says(2) wf num(6-8), of toy_aead]
    by blast
  have "\<exists>keys n3. onExchangeMessage toy_aead toy_kdf toy_spake 0 (pase_message PaseCommand_Pake2 (tlv_bytes (pake_elem [[9], [1, 2, 3]]))) n2 = Inr n3 \<and>
      has_session keys (JNum 4) (JNum 3) n3"
    using q [rule_format, OF says(3) _ _ k] by auto
  then show ?thesis using r by blast
qed

text \<open>
  (C6) The initiator opens its session without checking the responder's confirmation: any octets
  in place of \<open>cB\<close> lead to the same keys and session ids, and the initiator goes idle.
\<close>

theorem initiator_ignores_confirmation:
  assumes "spake_ok S" and "session_keys kdf k = Inr keys" and "ready 1 p n" and "client_waits p c sid rsid n"
    and "sp_client_finish S c (JBuf b) = Inr k" and "int (length b) < 65536" and "int (length cB) < 65536"
    and "AppPayload msg = Inr (tlv_bytes (pake_elem [b, cB]))"
  shows "\<exists>n'. onPake2 A kdf S p msg n = Inr n' \<and> has_session keys (JNum sid) (JNum rsid) n' \<and> ps_state (pn_pases n' ! p) = IDLE"
  using client_opens [OF assms(1,2) assms(3) [unfolded One_nat_def] assms(4-8)] by blast

theorem initiator_ignores_confirmation_witness:
  "k_KcB (toy_secret (replicate 32 7)) \<noteq> [1, 2, 3] \<and>
   (\<exists>keys n'. session_keys toy_kdf (toy_secret (replicate 32 7)) = Inr keys \<and>
     onPake2 toy_aead toy_kdf toy_spake 0 (pase_message PaseCommand_Pake2 (tlv_bytes (pake_elem [[9], [1, 2, 3]]))) (demo_waiting AWAIT_PAKE2) = Inr n' \<and>
     has_session keys (JNum 3) (JNum 4) n' \<and> ps_state (pn_pases n' ! 0) = IDLE)"
proof -
  obtain keys where keys: "session_keys toy_kdf (toy_secret (replicate 32 7)) = Inr keys" using session_keys_ok [OF toy_kdf_ok] by blast
  have "ready 1 0 (demo_waiting AWAIT_PAKE2)"
    using demo_waiting_ready [of AWAIT_PAKE2] by (auto simp: ready_def numeral_3_eq_3 intro: sendable_mono)
  moreover have "client_waits 0 (replicate 32 7) 3 4 (demo_waiting AWAIT_PAKE2)" by (simp add: client_waits_def demo_waiting_def)
  moreover have "sp_client_finish toy_spake (replicate 32 7) (JBuf [9]) = Inr (toy_secret (replicate 32 7))" by (simp add: toy_spake_def)
  moreover have "AppPayload (pase_message PaseCommand_Pake2 (tlv_bytes (pake_elem [[9], [1, 2, 3]]))) = Inr (tlv_bytes (pake_elem [[9], [1, 2, 3]]))"
    by (rule pase_message_get(2)) (simp_all add: session_consts)
  ultimately show ?thesis
    using initiator_ignores_confirmation [OF toy_spake_ok keys, of 0 "demo_waiting AWAIT_PAKE2" "replicate 32 7" 3 4 "[9]" "[1, 2, 3]"] keys
    by (auto simp: toy_secret_def dest: arg_cong [where f = length])
qed

text \<open>
  A parameter response nobody asked for ends the process: the handler has no guard on the
  state, and without a stored request the context cannot be computed, so the \<open>async\<close> handler
  rejects with a \<open>TypeError\<close>.
\<close>

theorem unsolicited_response_throws:
  assumes "ps_pbkdfRequest (pn_pases n ! p) = None" and "wf_telem (response_elem irnd rrnd rsid iter salt)"
    and "AppPayload msg = Inr (tlv_bytes (response_elem irnd rrnd rsid iter salt))"
  shows "onPbkdfParamResponse S p msg n = Inl TypeError"
  using read_response [of irnd rrnd rsid iter salt] decode_telem [OF assms(2)] assms(1,3)
  by (auto simp: onPbkdfParamResponse_def computeContext_def Let_def simp del: js_path.simps)

theorem unsolicited_response_throws_witness:
  "ps_state (pn_pases (demo_pase_node False) ! 0) = IDLE \<and>
   onPbkdfParamResponse toy_spake 0 (pase_message PaseCommand_ParamResponse (tlv_bytes (response_elem [] [] 1 1000 []))) (demo_pase_node False) = Inl TypeError"
  using unsolicited_response_throws [of "demo_pase_node False" 0 "[]" "[]" 1 1000 "[]"] pase_message_get(2) [of PaseCommand_ParamResponse] wf_response
  by (simp add: demo_pase_node_def new_pase_def session_consts)

end
