(* ===== verification/Session_Protocol.thy ===== *)
theory Session_Protocol
  imports Pase_Invariant
begin

text \<open>
  \<open>src/protocols/session/SessionProtocol.js\<close>: the protocol object that creates a
  PASE object per exchange, and the listeners that connect it to the exchange manager
  (\<open>exchangeMgr.on(PROTOCOL_ID, ..)\<close> and the \<open>exchange.on("message", ..)\<close> of
  \<open>PaseSession.create\<close>).
\<close>

section \<open>State and operations\<close>

text \<open>\<open>pr_pairingCodes\<close>: a code is \<open>true\<close> or \<open>undefined\<close>; nothing reads them.\<close>

record session_protocol = pase_node +
  pr_paseSessions :: "nat list"
  pr_pairingCodes :: "int \<Rightarrow> bool option"

definition pairingCodeAdd :: "int \<Rightarrow> 'a session_protocol_scheme \<Rightarrow> 'a session_protocol_scheme" where
  "pairingCodeAdd code n = n\<lparr>pr_pairingCodes := (pr_pairingCodes n)(code \<mapsto> True)\<rparr>"

definition pairingCodeRemove :: "int \<Rightarrow> 'a session_protocol_scheme \<Rightarrow> 'a session_protocol_scheme" where
  "pairingCodeRemove code n = n\<lparr>pr_pairingCodes := (pr_pairingCodes n)(code := None)\<rparr>"

definition getPase :: "nat \<Rightarrow> 'a session_protocol_scheme \<Rightarrow> nat option" where
  "getPase x n = find (\<lambda>p. ps_exchange (pn_pases n ! p) = x) (pr_paseSessions n)"

definition newPase :: "nat \<Rightarrow> 'a session_protocol_scheme \<Rightarrow> nat \<times> 'a session_protocol_scheme" where
  "newPase x n = (case pase_create x n of (p, n) \<Rightarrow> (p, n\<lparr>pr_paseSessions := pr_paseSessions n @ [p]\<rparr>))"

definition onProtocolMessage ::
  "aead \<Rightarrow> hkdf \<Rightarrow> spake \<Rightarrow> message \<Rightarrow> nat \<Rightarrow> 'a session_protocol_scheme \<Rightarrow> 'a session_protocol_scheme result" where
  "onProtocolMessage A kdf S msg x n =
     rbind (ProtocolOpcode msg) (\<lambda>opcode. rbind (ExchangeId msg) (\<lambda>_.
       if opcode = PaseCommand_ParamRequest then
         (case getPase x n of
            None \<Rightarrow> (case newPase x n of (p, n) \<Rightarrow> onExchangeMessage A kdf S p msg n)
          | Some _ \<Rightarrow> Inr n)
       else Inr n))"

text \<open>\<open>exchange.emit("message", ..)\<close>: the listeners of the exchange, in the order they were added.\<close>

definition emit_exchange ::
  "aead \<Rightarrow> hkdf \<Rightarrow> spake \<Rightarrow> nat \<Rightarrow> message \<Rightarrow> 'a session_protocol_scheme \<Rightarrow> 'a session_protocol_scheme result" where
  "emit_exchange A kdf S x msg n =
     rfold (\<lambda>p n. onExchangeMessage A kdf S p msg n) (map snd (filter (\<lambda>l. fst l = x) (pn_listeners n))) n"

definition session_handlers :: "aead \<Rightarrow> hkdf \<Rightarrow> spake \<Rightarrow> 'a session_protocol_scheme handlers" where
  "session_handlers A kdf S =
     \<lparr>h_exchange = emit_exchange A kdf S,
      h_protocol = (\<lambda>pid msg x n. if pid = SESSION_PROTOCOL_ID then onProtocolMessage A kdf S msg x n else Inr n)\<rparr>"

text \<open>\<open>PaseSession.destroy\<close> passes the object itself to \<open>removeListener\<close>, which takes a function and throws otherwise.\<close>

definition pase_destroy :: "nat \<Rightarrow> 'a session_protocol_scheme \<Rightarrow> 'a session_protocol_scheme result" where
  "pase_destroy p n = Inl TypeError"

section \<open>The registry of PASE objects\<close>

text \<open>The listed objects exist and each exchange has one at most.\<close>

definition pase_table_ok :: "'a session_protocol_scheme \<Rightarrow> bool" where
  "pase_table_ok n \<longleftrightarrow> (\<forall>p \<in> set (pr_paseSessions n). p < length (pn_pases n)) \<and>
     distinct (map (\<lambda>p. ps_exchange (pn_pases n ! p)) (pr_paseSessions n))"

lemma newPase_fields:
  assumes "newPase x n = (p, n')"
  shows "p = length (pn_pases n)" "pn_pases n' = pn_pases n @ [new_pase x]" "pr_paseSessions n' = pr_paseSessions n @ [p]"
    "pn_listeners n' = pn_listeners n @ [(x, p)]" "pn_tasks n' = pn_tasks n" "n_sent n' = n_sent n" "n_sessions n' = n_sessions n"
    "x_exchanges n' = (x_exchanges n)[x := (x_exchanges n ! x)\<lparr>e_isReliable := True\<rparr>]"
  using assms by (auto simp: newPase_def pase_create_def Let_def upd_exchange_def)

lemma getPase_newPase:
  assumes "pase_table_ok n" and "newPase x n = (p, n')"
  shows "getPase y n' = (case getPase y n of Some q \<Rightarrow> Some q | None \<Rightarrow> if y = x then Some p else None)"
proof -
  note f = newPase_fields [OF assms(2)]
  have "find (\<lambda>q. ps_exchange (pn_pases n' ! q) = y) (pr_paseSessions n) = find (\<lambda>q. ps_exchange (pn_pases n ! q) = y) (pr_paseSessions n)"
    using assms(1) f(2) by (intro find_cong_set) (auto simp: pase_table_ok_def nth_append)
  then show ?thesis using f by (auto simp: getPase_def find_append new_pase_def split: option.split)
qed

text \<open>Registration under a key that is taken does not happen in the code: \<open>newPase\<close> follows a failed \<open>getPase\<close>.\<close>

definition add_pase :: "nat \<Rightarrow> 'a session_protocol_scheme \<Rightarrow> nat \<times> 'a session_protocol_scheme" where
  "add_pase x n = (case getPase x n of None \<Rightarrow> newPase x n | Some p \<Rightarrow> (p, n))"

lemma find_None_notin: "find P xs = None \<longleftrightarrow> (\<forall>x \<in> set xs. \<not> P x)"
  by (induction xs) auto

lemma pase_table_ok_newPase:
  assumes "pase_table_ok n" and "getPase x n = None" and "newPase x n = (p, n')"
  shows "pase_table_ok n'"
proof -
  note f = newPase_fields [OF assms(3)]
  have m: "map (\<lambda>p. ps_exchange (pn_pases n' ! p)) (pr_paseSessions n') = map (\<lambda>p. ps_exchange (pn_pases n ! p)) (pr_paseSessions n) @ [x]"
    using assms(1) f(1-3) by (auto simp: pase_table_ok_def nth_append new_pase_def)
  have "\<forall>p \<in> set (pr_paseSessions n'). p < length (pn_pases n')" using assms(1) f(1-3) by (auto simp: pase_table_ok_def intro: less_SucI)
  moreover have "distinct (map (\<lambda>p. ps_exchange (pn_pases n ! p)) (pr_paseSessions n) @ [x])"
    using assms(1,2) by (auto simp: pase_table_ok_def getPase_def find_None_notin)
  ultimately show ?thesis unfolding pase_table_ok_def m by blast
qed

interpretation pase_objects: registry getPase add_pase pase_table_ok
proof
  show "getPase y n' = (case getPase y n of Some b \<Rightarrow> Some b | None \<Rightarrow> if y = x then Some p else None)"
    if "pase_table_ok n" "add_pase x n = (p, n')" for n x p n' y
    using that getPase_newPase [of n x p n' y] by (auto simp: add_pase_def split: option.splits)
  show "pase_table_ok n'" if "pase_table_ok n" "add_pase x n = (p, n')" for n x p n'
    using that pase_table_ok_newPase by (auto simp: add_pase_def split: option.splits)
qed

section \<open>Properties\<close>

lemma evolves_exchange:
  assumes "onExchangeMessage A kdf S p msg n = Inr n'" and "p < length (pn_pases n)"
  shows "length (pn_pases n') = length (pn_pases n)"
  using onExchangeMessage_evolves [OF assms] by (auto simp: evolves_def)

text \<open>An unsecured session that a responder can answer on.\<close>

definition answerable :: "nat \<Rightarrow> 'a net_scheme \<Rightarrow> bool" where
  "answerable a n \<longleftrightarrow> a < length (n_sessions n) \<and> (let s = n_sessions n ! a in
     s_peerSessionId s = JNum 0 \<and> 0 \<le> s_messageCounter s \<and> s_messageCounter s + 1 \<le> 2 ^ 32 \<and> s_peerInfo s \<noteq> None \<and>
     (\<exists>v. s_peerNodeId s = Some v \<and> 0 < v \<and> v < 2 ^ 64))"

lemma newPase_ready:
  assumes "answerable a n" and "wire_ok w" and "newPase (length (x_exchanges n)) (accepted w a n) = (p, n')"
  shows "ready 1 p n'" "pn_pases n' ! p = new_pase (length (x_exchanges n))"
proof -
  note f = newPase_fields [OF assms(3)]
  have ps: "pn_pases n' ! p = new_pase (length (x_exchanges n))" using f(1,2) by simp
  have "w_xid w < 2 ^ 16" "0 \<le> w_xid w" "w_ctr w < 2 ^ 32" "0 \<le> w_ctr w"
    using wire_ok_ranges [OF assms(2)] by (simp_all add: wire_ranges_def)
  then have "sendable 1 (length (x_exchanges n)) n'"
    using assms(1) f(7,8) by (auto simp: sendable_def answerable_def Let_def accepted_def exchange_ok_def nth_append)
  then show "ready 1 p n'" using f(1,2) ps by (simp add: ready_def new_pase_def)
  show "pn_pases n' ! p = new_pase (length (x_exchanges n))" by (fact ps)
qed

text \<open>
  (C5) How a pairing starts, across the layers: a parameter request of an initiator that belongs
  to no exchange makes a new exchange and a new PASE object for it, which stores the request,
  answers with its parameters on that exchange and waits for \<open>Pake1\<close>; the object is found
  under the exchange from then on, and the one-object-per-exchange property of the table is kept.
\<close>

theorem param_request_starts_pase:
  assumes "wire_ok w" and "w_xflags w AND 0x01 \<noteq> 0" and "w_xflags w AND 0x02 = 0" and "getExchange a (on_wire w m) n = Inr None"
    and "w_pid w = SESSION_PROTOCOL_ID" and "w_opcode w = PaseCommand_ParamRequest" and "w_rest w = tlv_bytes (request_elem rnd sid)"
    and "length rnd = 32" and "0 \<le> sid" and "sid < 2 ^ 16" and "answerable a n" and "pase_table_ok n"
    and "\<forall>ps \<in> set (pn_pases n). ps_exchange ps < length (x_exchanges n)"
  shows "\<exists>n' p rsp. onSessionMessage (session_handlers A kdf S) (on_wire w m) a n = Inr n' \<and>
    getPase (length (x_exchanges n)) n' = Some p \<and> ps_state (pn_pases n' ! p) = AWAIT_PAKE1 \<and>
    ps_pbkdfRequest (pn_pases n' ! p) = Some (w_rest w) \<and> ps_initiatorSessionId (pn_pases n' ! p) = JNum sid \<and>
    ps_pbkdfResponse (pn_pases n' ! p) = Some rsp \<and> sent_last PaseCommand_ParamResponse rsp n' \<and> pase_table_ok n'"
proof -
  let ?x = "length (x_exchanges n)" and ?m = "(on_wire w m)\<lparr>m_exchange := Some (length (x_exchanges n))\<rparr>"
  have m: "?m = on_wire w (m\<lparr>m_exchange := Some ?x\<rparr>)" by (simp add: on_wire_def)
  have msg: "AppPayload ?m = Inr (tlv_bytes (request_elem rnd sid))" "ProtocolOpcode ?m = Inr PaseCommand_ParamRequest" "\<exists>i. ExchangeId ?m = Inr i"
    unfolding m using wire_AppPayload [OF assms(1)] wire_exchange_get [OF assms(1)] assms(3,6,7) by simp_all
  have ok: "pase_table_ok (accepted w a n)" using assms(12) by (simp add: pase_table_ok_def accepted_def)
  have none: "getPase ?x (accepted w a n) = None"
    unfolding getPase_def find_None_notin
  proof
    fix q assume "q \<in> set (pr_paseSessions (accepted w a n))"
    then have "pn_pases n ! q \<in> set (pn_pases n)" using assms(12) by (simp add: accepted_def pase_table_ok_def)
    then have "ps_exchange (pn_pases n ! q) < ?x" using assms(13) by blast
    then show "ps_exchange (pn_pases (accepted w a n) ! q) \<noteq> ?x" by (simp add: accepted_def)
  qed
  obtain p n1 where n1: "newPase ?x (accepted w a n) = (p, n1)" by (cases "newPase ?x (accepted w a n)")
  note r = newPase_ready [OF assms(11,1) n1] and f = newPase_fields [OF n1]
  have o: "offers (js_string ''SPAKE2P Key Salt'') 1000 (pn_pases n1 ! p)"
    using demo_pase_offers r(2) by (simp add: offers_def new_pase_def)
  then have o': "ps_paramIterations (pn_pases n1 ! p) = JNum 1000" "0 \<le> (1000 :: int)" "(1000 :: int) < 2 ^ 32"
    "ps_paramSaltHex (pn_pases n1 ! p) = hex_encode (utf8_encode (js_string ''SPAKE2P Key Salt''))"
    "int (length (utf8_encode (js_string ''SPAKE2P Key Salt''))) < 2 ^ 32"
    by (simp_all add: offers_def)
  have idle: "ps_state (pn_pases n1 ! p) = IDLE" using r(2) by (simp add: new_pase_def)
  obtain rrnd rsid rsp n' where n': "onPbkdfParamRequest A p ?m n1 = Inr n'"
    and s: "pase_sent 0 p (after_response rnd sid rrnd rsid rsp (pn_pases n1 ! p)) PaseCommand_ParamResponse rsp n1 n'"
    using onPbkdfParamRequest_sends [OF r(1) [unfolded One_nat_def] idle msg(1) assms(8-10) o', of A] by blast
  have p: "p < length (pn_pases n1)" using f(1,2) by simp
  have u: "pn_pases n' = (pn_pases n1)[p := after_response rnd sid rrnd rsid rsp (pn_pases n1 ! p)]" "pr_paseSessions n' = pr_paseSessions n1"
    using s by (auto simp: pase_sent_def net_only_def upd_pase_def)
  have x: "ps_exchange (pn_pases n' ! q) = ps_exchange (pn_pases n1 ! q)" for q
    using p by (cases "q = p") (simp_all add: u(1) after_response_def setState_def)
  have "onSessionMessage (session_handlers A kdf S) (on_wire w m) a n = Inr n'"
    using onSessionMessage_new [OF assms(1,2,4)] msg none n1 n' assms(5)
    by (auto simp: session_handlers_def onProtocolMessage_def onExchangeMessage_def)
  moreover have "getPase ?x n' = Some p" using getPase_newPase [OF ok n1] none by (simp add: getPase_def u(2) x)
  moreover have "pase_table_ok n'"
    using pase_table_ok_newPase [OF ok none n1] by (simp add: pase_table_ok_def x) (simp add: u)
  ultimately show ?thesis
    using pase_sent_last [OF s] pase_sent_state(1) [OF s p] assms(7) by (auto simp: after_response_def setState_def)
qed

definition demo_request :: wire where
  "demo_request = zero_wire\<lparr>w_xflags := 1, w_xid := 77, w_opcode := PaseCommand_ParamRequest,
     w_rest := tlv_bytes (request_elem (replicate 32 5) 9)\<rparr>"

definition demo_protocol :: session_protocol where
  "demo_protocol = \<lparr>n_sessions = [demo_session\<lparr>s_peerSessionId := JNum 0, s_localSessionId := JNum 0, s_keys := None, s_peerNodeId := Some 0xABCD\<rparr>],
     n_sent = [], n_random = (\<lambda>i. word_of_nat (3 * i)), n_drawn = 0, n_now = 5,
     sm_secured = [], sm_unsecured = [0], sm_nextSessionId = 1, x_exchanges = [], x_table = [], x_nextExchangeId = 0,
     pn_pases = [], pn_listeners = [], pn_tasks = [], pr_paseSessions = [], pr_pairingCodes = Map.empty\<rparr>"

theorem param_request_starts_pase_witness:
  "\<exists>n' p rsp. onSessionMessage (session_handlers toy_aead toy_kdf toy_spake) (on_wire demo_request new_message) 0 demo_protocol = Inr n' \<and>
    getPase 0 n' = Some p \<and> ps_state (pn_pases n' ! p) = AWAIT_PAKE1 \<and>
    ps_initiatorSessionId (pn_pases n' ! p) = JNum 9 \<and> sent_last PaseCommand_ParamResponse rsp n'"
proof -
  have w: "wire_ok demo_request" by (simp add: demo_request_def zero_wire_def wire_ok_def wire_ranges_def id_size_def session_consts)
  have g: "getExchange 0 (on_wire demo_request new_message) demo_protocol = Inr None" by (simp add: getExchange_def demo_protocol_def)
  have a: "answerable 0 demo_protocol" by (simp add: answerable_def demo_protocol_def demo_session_def)
  from param_request_starts_pase [OF w _ _ g, of "replicate 32 5" 9] a show ?thesis
    by (simp add: demo_request_def zero_wire_def session_consts pase_table_ok_def demo_protocol_def) blast
qed

end
