(* ===== verification/Im_Path.thy ===== *)
theory Im_Path
  imports Session_Protocol
begin

text \<open>
  The data of the interaction model: \<open>ImConst.js\<close>, \<open>AttributePath.js\<close> and
  \<open>CommandPath.js\<close> of \<open>src/protocols/interaction_model\<close>, with the property keys and the
  printing of JavaScript that they use. A path's ids come out of a peer's TLV and can be any
  value.
\<close>

section \<open>Property keys and printing\<close>

text \<open>
  A property key is a string; the keys of the tables of this code are decimal numbers, so a key
  that is the canonical form of an integer is represented by that integer.
\<close>

datatype prop_key = IntKey int | StrKey "16 word list"

fun digits_val :: "int \<Rightarrow> 16 word list \<Rightarrow> int option" where
  "digits_val acc [] = Some acc"
| "digits_val acc (c # cs) = (if 48 \<le> uint c \<and> uint c \<le> 57 then digits_val (10 * acc + (uint c - 48)) cs else None)"

definition canonical_nat :: "16 word list \<Rightarrow> int option" where
  "canonical_nat s = (case s of [] \<Rightarrow> None | c # cs \<Rightarrow> if uint c = 48 \<and> cs \<noteq> [] then None else digits_val 0 s)"

definition canonical_int :: "16 word list \<Rightarrow> int option" where
  "canonical_int s = (case s of
      c # cs \<Rightarrow> if uint c = 45 then (case canonical_nat cs of Some k \<Rightarrow> if k = 0 then None else Some (- k) | None \<Rightarrow> None)
                else canonical_nat s
    | [] \<Rightarrow> None)"

text \<open>
  \<open>ToPropertyKey\<close>. A number that is no integer prints with a point, an exponent or a name, so
  it is a key of none of the tables; \<open>None\<close> stands for it. Objects are not modelled as keys.
\<close>

fun to_key :: "jsval \<Rightarrow> prop_key option result" where
  "to_key (JNum k) = Inr (Some (IntKey k))"
| "to_key (JBig k) = Inr (Some (IntKey k))"
| "to_key (JStr s) = Inr (Some (case canonical_int s of Some k \<Rightarrow> IntKey k | None \<Rightarrow> StrKey s))"
| "to_key JUndef = Inr (Some (StrKey (js_string ''undefined'')))"
| "to_key JNull = Inr (Some (StrKey (js_string ''null'')))"
| "to_key (JBool b) = Inr (Some (StrKey (js_string (if b then ''true'' else ''false''))))"
| "to_key (JDbl d) = Inr None"
| "to_key _ = Inl Unmodelled"

text \<open>The names every object inherits; a lookup under one of them is not modelled.\<close>

definition inherited_names :: "16 word list list" where
  "inherited_names = map js_string [''constructor'', ''__defineGetter__'', ''__defineSetter__'', ''hasOwnProperty'',
     ''__lookupGetter__'', ''__lookupSetter__'', ''isPrototypeOf'', ''propertyIsEnumerable'', ''toString'', ''valueOf'',
     ''__proto__'', ''toLocaleString'']"

definition js_lookup :: "(prop_key \<times> 'v) list \<Rightarrow> jsval \<Rightarrow> 'v option result" where
  "js_lookup table v = rbind (to_key v) (\<lambda>k. case k of
      None \<Rightarrow> Inr None
    | Some (StrKey s) \<Rightarrow> if s \<in> set inherited_names then Inl Unmodelled else Inr (map_of table (StrKey s))
    | Some k \<Rightarrow> Inr (map_of table k))"

fun dec_digits :: "nat \<Rightarrow> 16 word list" where
  "dec_digits n = (if n < 10 then [word_of_nat (48 + n)] else dec_digits (n div 10) @ [word_of_nat (48 + n mod 10)])"

declare dec_digits.simps [simp del]

definition dec_string :: "int \<Rightarrow> 16 word list" where
  "dec_string k = (if k < 0 then word_of_nat 45 # dec_digits (nat (- k)) else dec_digits (nat k))"

fun to_text :: "jsval \<Rightarrow> 16 word list result" where
  "to_text JUndef = Inr (js_string ''undefined'')"
| "to_text JNull = Inr (js_string ''null'')"
| "to_text (JBool b) = Inr (js_string (if b then ''true'' else ''false''))"
| "to_text (JNum k) = Inr (dec_string k)"
| "to_text (JBig k) = Inr (dec_string k)"
| "to_text (JStr s) = Inr s"
| "to_text _ = Inl Unmodelled"

text \<open>\<open>JSON.stringify\<close> of a value: a BigInt anywhere in it throws.\<close>

fun has_bigint :: "jsval \<Rightarrow> bool" where
  "has_bigint (JBig k) = True"
| "has_bigint (JArr xs) = list_ex has_bigint xs"
| "has_bigint (JObj p t ty v n) = has_bigint v"
| "has_bigint _ = False"

definition json_stringify :: "jsval \<Rightarrow> unit result" where
  "json_stringify v = (if has_bigint v then Inl TypeError else Inr ())"

section \<open>Constants\<close>

definition IM_PROTOCOL_ID :: int where "IM_PROTOCOL_ID = 0x0001"
definition IM_VERSION :: int where "IM_VERSION = 1"
definition RESP_MAX :: int where "RESP_MAX = 900"
definition ImCommand_StatusResponse :: int where "ImCommand_StatusResponse = 1"
definition ImCommand_ReadRequest :: int where "ImCommand_ReadRequest = 2"
definition ImCommand_SubscribeRequest :: int where "ImCommand_SubscribeRequest = 3"
definition ImCommand_SubscribeResponse :: int where "ImCommand_SubscribeResponse = 4"
definition ImCommand_ReportData :: int where "ImCommand_ReportData = 5"
definition ImCommand_WriteRequest :: int where "ImCommand_WriteRequest = 6"
definition ImCommand_WriteResponse :: int where "ImCommand_WriteResponse = 7"
definition ImCommand_CommandRequest :: int where "ImCommand_CommandRequest = 8"
definition ImCommand_CommandResponse :: int where "ImCommand_CommandResponse = 9"
definition ImCommand_TimedRequest :: int where "ImCommand_TimedRequest = 10"
definition ImRevision :: int where "ImRevision = 0xFF"

lemmas im_consts =
  IM_PROTOCOL_ID_def IM_VERSION_def RESP_MAX_def ImCommand_StatusResponse_def ImCommand_ReadRequest_def
  ImCommand_SubscribeRequest_def ImCommand_SubscribeResponse_def ImCommand_ReportData_def ImCommand_WriteRequest_def
  ImCommand_WriteResponse_def ImCommand_CommandRequest_def ImCommand_CommandResponse_def ImCommand_TimedRequest_def ImRevision_def

text \<open>The templates; \<open>TemplateMsgStatusResponse\<close> reads a variable \<open>param\<close> that does not exist.\<close>

definition TemplateMsgStatusResponse :: "jsval \<Rightarrow> jsval result" where
  "TemplateMsgStatusResponse status = Inl ReferenceError"

definition TemplateMsgReadRequest :: jsval where "TemplateMsgReadRequest = jstruct []"
definition TemplateMsgReportData :: jsval where "TemplateMsgReportData = jstruct []"
definition TemplateMsgSubscribeRequest :: jsval where "TemplateMsgSubscribeRequest = jstruct []"

definition TemplateMsgSubscribeResponse :: "jsval \<Rightarrow> jsval \<Rightarrow> jsval \<Rightarrow> jsval" where
  "TemplateMsgSubscribeResponse subscriptionId minInterval maxInterval =
     jstruct [jfield 0 ''uint32'' subscriptionId, jfield 1 ''uint16'' minInterval, jfield 2 ''uint16'' maxInterval]"

definition TemplateMsgWriteRequest :: "jsval \<Rightarrow> jsval" where
  "TemplateMsgWriteRequest status = jstruct [jfield 0 ''uint32'' status]"

definition TemplateMsgWriteResponse :: jsval where "TemplateMsgWriteResponse = jstruct []"

definition TemplateMsgTimedRequest :: "jsval \<Rightarrow> jsval" where
  "TemplateMsgTimedRequest contextTag = jstruct [jfield 0 ''uint16'' contextTag]"

text \<open>
  Three templates hold texts where a program of templates would put values: the tag of the path, which
  a \<open>jsval\<close> has as a number and which is given beside it here, and the data of a command.
\<close>

definition CommandPathIB :: "jsval \<Rightarrow> jsval \<Rightarrow> jsval \<Rightarrow> string \<times> jsval" where
  "CommandPathIB endpointId clusterId commandId =
     (''{{tag}}'', JObj None None (Some ''list'')
        (JArr [jfield 0 ''uint16'' endpointId, jfield 1 ''uint16'' clusterId, jfield 2 ''uint16'' commandId]) None)"

definition CommandDataIB :: "jsval \<Rightarrow> jsval \<Rightarrow> jsval \<Rightarrow> jsval" where
  "CommandDataIB endpointId clusterId commandId =
     jstruct [jfield 0 ''list'' (JArr [jfield 0 ''uint16'' endpointId, jfield 1 ''uint16'' clusterId, jfield 2 ''uint16'' commandId]),
       jfield 1 ''struct'' (JStr (js_string ''{{commandData}}''))]"

definition CommandStatusIB :: "jsval \<Rightarrow> jsval \<Rightarrow> jsval \<Rightarrow> jsval" where
  "CommandStatusIB endpointId clusterId commandId =
     jstruct [jfield 0 ''list'' (JArr [jfield 0 ''uint16'' endpointId, jfield 1 ''uint16'' clusterId, jfield 2 ''uint16'' commandId]),
       jfield 1 ''struct'' (JStr (js_string ''{{commandData}}''))]"

section \<open>Attribute paths\<close>

definition AttributePathIB_EnableTagCompression :: int where "AttributePathIB_EnableTagCompression = 0"
definition AttributePathIB_Node :: int where "AttributePathIB_Node = 1"
definition AttributePathIB_Endpoint :: int where "AttributePathIB_Endpoint = 2"
definition AttributePathIB_Cluster :: int where "AttributePathIB_Cluster = 3"
definition AttributePathIB_Attribute :: int where "AttributePathIB_Attribute = 4"

lemmas attribute_path_tags =
  AttributePathIB_EnableTagCompression_def AttributePathIB_Node_def AttributePathIB_Endpoint_def AttributePathIB_Cluster_def
  AttributePathIB_Attribute_def

record attribute_path =
  ap_tagCompression :: jsval
  ap_nodeId :: jsval
  ap_endpointId :: jsval
  ap_clusterId :: jsval
  ap_attributeId :: jsval

text \<open>\<open>v != undefined\<close>, which \<open>null\<close> fails too.\<close>

definition is_nullish :: "jsval \<Rightarrow> bool" where
  "is_nullish v \<longleftrightarrow> v = JUndef \<or> v = JNull"

definition new_AttributePath :: "jsval \<Rightarrow> attribute_path result" where
  "new_AttributePath pathTlv =
     (if is_nullish pathTlv then
        Inr \<lparr>ap_tagCompression = JUndef, ap_nodeId = JUndef, ap_endpointId = JUndef, ap_clusterId = JUndef, ap_attributeId = JUndef\<rparr>
      else
        rbind (findTag pathTlv AttributePathIB_EnableTagCompression) (\<lambda>tagCompression.
        rbind (findTag pathTlv AttributePathIB_Node) (\<lambda>nodeId.
        rbind (findTag pathTlv AttributePathIB_Endpoint) (\<lambda>endpointId.
        rbind (findTag pathTlv AttributePathIB_Cluster) (\<lambda>clusterId.
        rbind (findTag pathTlv AttributePathIB_Attribute) (\<lambda>attributeId.
          Inr \<lparr>ap_tagCompression = tagCompression, ap_nodeId = nodeId, ap_endpointId = endpointId, ap_clusterId = clusterId,
            ap_attributeId = attributeId\<rparr>))))))"

definition put_id :: "jsval \<Rightarrow> int \<Rightarrow> tlv_writer \<Rightarrow> tlv_writer result" where
  "put_id v tag w = (if is_nullish v then Inr w else putUnsignedInt v (Some tag) None w)"

definition attribute_path_serialize :: "attribute_path \<Rightarrow> int \<Rightarrow> tlv_writer \<Rightarrow> tlv_writer result" where
  "attribute_path_serialize path tag w =
     rbind (putListStart (Some tag) None w) (\<lambda>w.
     rbind (put_id (ap_nodeId path) AttributePathIB_Node w) (\<lambda>w.
     rbind (put_id (ap_endpointId path) AttributePathIB_Endpoint w) (\<lambda>w.
     rbind (put_id (ap_clusterId path) AttributePathIB_Cluster w) (\<lambda>w.
     rbind (put_id (ap_attributeId path) AttributePathIB_Attribute w) putContainerEnd))))"

definition attribute_path_toString :: "attribute_path \<Rightarrow> 16 word list result" where
  "attribute_path_toString path =
     rbind (if is_nullish (ap_nodeId path) then Inr [] else rmap (append (js_string ''/N'')) (to_text (ap_nodeId path))) (\<lambda>pathNode.
     rbind (if is_nullish (ap_endpointId path) then Inr (js_string ''/EP*'')
            else rmap (append (js_string ''/EP'')) (to_text (ap_endpointId path))) (\<lambda>pathEndpointId.
     rbind (to_text (ap_clusterId path)) (\<lambda>c. rbind (to_text (ap_attributeId path)) (\<lambda>a.
       Inr (pathNode @ pathEndpointId @ js_string ''/C'' @ c @ js_string ''/Attr'' @ a)))))"

section \<open>Command paths\<close>

definition CommandPathIB_Endpoint :: int where "CommandPathIB_Endpoint = 0"
definition CommandPathIB_Cluster :: int where "CommandPathIB_Cluster = 1"
definition CommandPathIB_Command :: int where "CommandPathIB_Command = 2"

lemmas command_path_tags = CommandPathIB_Endpoint_def CommandPathIB_Cluster_def CommandPathIB_Command_def

record command_path =
  cp_endpointId :: jsval
  cp_clusterId :: jsval
  cp_commandId :: jsval

definition new_CommandPath :: "jsval \<Rightarrow> command_path result" where
  "new_CommandPath pathTlv =
     (if is_nullish pathTlv then Inr \<lparr>cp_endpointId = JUndef, cp_clusterId = JUndef, cp_commandId = JUndef\<rparr>
      else
        rbind (findTag pathTlv CommandPathIB_Endpoint) (\<lambda>endpointId.
        rbind (findTag pathTlv CommandPathIB_Cluster) (\<lambda>clusterId.
        rbind (findTag pathTlv CommandPathIB_Command) (\<lambda>commandId.
          Inr \<lparr>cp_endpointId = endpointId, cp_clusterId = clusterId, cp_commandId = commandId\<rparr>))))"

text \<open>\<open>serialize\<close> writes \<open>this.AttributeId\<close>, which a command path does not have.\<close>

definition command_path_serialize :: "command_path \<Rightarrow> int \<Rightarrow> tlv_writer \<Rightarrow> tlv_writer result" where
  "command_path_serialize path tag w =
     rbind (putListStart (Some tag) None w) (\<lambda>w.
     rbind (put_id (cp_endpointId path) CommandPathIB_Endpoint w) (\<lambda>w.
     rbind (put_id (cp_clusterId path) CommandPathIB_Cluster w) (\<lambda>w.
     rbind (if is_nullish (cp_commandId path) then Inr w else putUnsignedInt JUndef (Some CommandPathIB_Command) None w) putContainerEnd)))"

definition command_path_template :: "command_path \<Rightarrow> int \<Rightarrow> jsval" where
  "command_path_template path tag = jfield tag ''list'' (JArr
     [jfield CommandPathIB_Endpoint ''uint16'' (cp_endpointId path), jfield CommandPathIB_Cluster ''uint16'' (cp_clusterId path),
      jfield CommandPathIB_Command ''uint16'' (cp_commandId path)])"

definition command_path_toString :: "command_path \<Rightarrow> 16 word list result" where
  "command_path_toString path =
     rbind (if is_nullish (cp_endpointId path) then Inr (js_string ''/EP*'')
            else rmap (append (js_string ''/EP'')) (to_text (cp_endpointId path))) (\<lambda>pathEndpointId.
     rbind (to_text (cp_clusterId path)) (\<lambda>c. rbind (to_text (cp_commandId path)) (\<lambda>a.
       Inr (pathEndpointId @ js_string ''/C'' @ c @ js_string ''/Cmd'' @ a))))"

end
