(* ===== verification/Im_Command.thy ===== *)
theory Im_Command
  imports Im_Path
begin

text \<open>
  The responses of \<open>ImCommandMixin.js\<close>: the templates of an invoke response with a status or
  with data, and the three senders. Logging prints the JSON of a response, which can throw.
\<close>

section \<open>Tags\<close>

definition StatusIB_Status :: int where "StatusIB_Status = 0"
definition StatusIB_ClusterStatus :: int where "StatusIB_ClusterStatus = 1"
definition CommandDataIB_Path :: int where "CommandDataIB_Path = 0"
definition CommandDataIB_Data :: int where "CommandDataIB_Data = 1"
definition CommandStatusIB_Path :: int where "CommandStatusIB_Path = 0"
definition CommandStatusIB_Status :: int where "CommandStatusIB_Status = 1"
definition InvokeResponseIB_Data :: int where "InvokeResponseIB_Data = 0"
definition InvokeResponseIB_Status :: int where "InvokeResponseIB_Status = 1"
definition InvokeRequestMessage_SuppressResponse :: int where "InvokeRequestMessage_SuppressResponse = 0"
definition InvokeRequestMessage_TimedRequest :: int where "InvokeRequestMessage_TimedRequest = 1"
definition InvokeRequestMessage_CommandList :: int where "InvokeRequestMessage_CommandList = 2"
definition InvokeResponseMessage_SuppressResponse :: int where "InvokeResponseMessage_SuppressResponse = 0"
definition InvokeResponseMessage_CommandResponses :: int where "InvokeResponseMessage_CommandResponses = 1"

lemmas im_tags =
  StatusIB_Status_def StatusIB_ClusterStatus_def CommandDataIB_Path_def CommandDataIB_Data_def CommandStatusIB_Path_def
  CommandStatusIB_Status_def InvokeResponseIB_Data_def InvokeResponseIB_Status_def InvokeRequestMessage_SuppressResponse_def
  InvokeRequestMessage_TimedRequest_def InvokeRequestMessage_CommandList_def InvokeResponseMessage_SuppressResponse_def
  InvokeResponseMessage_CommandResponses_def

section \<open>Templates\<close>

definition jtagged :: "int \<Rightarrow> jsval \<Rightarrow> jsval" where
  "jtagged tag v = JObj None (Some tag) None v None"

text \<open>
  The template reads \<open>params.supressedResponse\<close>, which the sender never sets (it sets
  \<open>suppressResponse\<close>).
\<close>

definition TemplateMsgCommandResponseStatus :: "jsval \<Rightarrow> command_path \<Rightarrow> jsval \<Rightarrow> jsval" where
  "TemplateMsgCommandResponseStatus supressedResponse commandPath commandStatus =
     jstruct
       [jfield InvokeResponseMessage_SuppressResponse ''boolean'' supressedResponse,
        jfield InvokeResponseMessage_CommandResponses ''array'' (JArr
          [jstruct
            [jfield InvokeResponseIB_Status ''struct'' (JArr
              [command_path_template commandPath CommandStatusIB_Path,
               jfield CommandStatusIB_Status ''struct'' (JArr [jtagged StatusIB_Status commandStatus])])]]),
        jfield ImRevision ''uint8'' (JNum IM_VERSION)]"

definition TemplateMsgCommandResponseData :: "jsval \<Rightarrow> command_path \<Rightarrow> jsval list \<Rightarrow> jsval" where
  "TemplateMsgCommandResponseData suppressResponse commandPath commandData =
     jstruct
       [jfield InvokeResponseMessage_SuppressResponse ''boolean'' suppressResponse,
        jfield InvokeResponseMessage_CommandResponses ''array'' (JArr
          [jstruct
            [jfield InvokeResponseIB_Data ''struct'' (JArr
              [command_path_template commandPath CommandDataIB_Path,
               jfield CommandDataIB_Data ''struct'' (JArr commandData)])]]),
        jfield ImRevision ''uint8'' (JNum IM_VERSION)]"

section \<open>Senders\<close>

text \<open>The exchange is the \<open>msg.Exchange\<close> of the request; \<open>undefined\<close> cannot send.\<close>

definition sendInvokeCommandResponseRaw ::
  "aead \<Rightarrow> nat option \<Rightarrow> buffer \<Rightarrow> 'a exchange_manager_scheme \<Rightarrow> 'a exchange_manager_scheme result" where
  "sendInvokeCommandResponseRaw A exch commandPayload n = (case exch of
      None \<Rightarrow> Inl TypeError
    | Some x \<Rightarrow> send_protocol A x IM_PROTOCOL_ID ImCommand_CommandResponse commandPayload n)"

definition sendInvokeCommandResponseStatus ::
  "aead \<Rightarrow> nat option \<Rightarrow> command_path \<Rightarrow> jsval \<Rightarrow> 'a exchange_manager_scheme \<Rightarrow> 'a exchange_manager_scheme result" where
  "sendInvokeCommandResponseStatus A exch commandPath statusCode n =
     (let json = TemplateMsgCommandResponseStatus JUndef commandPath statusCode
      in rbind (writer_encode json) (\<lambda>payload.
         rbind (json_stringify json) (\<lambda>_. sendInvokeCommandResponseRaw A exch payload n)))"

definition sendInvokeCommandResponseData ::
  "aead \<Rightarrow> nat option \<Rightarrow> command_path \<Rightarrow> jsval list \<Rightarrow> 'a exchange_manager_scheme \<Rightarrow> 'a exchange_manager_scheme result" where
  "sendInvokeCommandResponseData A exch commandPath commandData n =
     (let json = TemplateMsgCommandResponseData (JBool False) commandPath commandData
      in rbind (writer_encode json) (\<lambda>payload.
         rbind (json_stringify json) (\<lambda>_. sendInvokeCommandResponseRaw A exch payload n)))"

section \<open>Responses as TLV elements\<close>

definition response_frame :: "telem \<Rightarrow> telem" where
  "response_frame body = TNode None None CStruct
     [leaf1 0 (TBool False), TNode None (Some 1) CArray [TNode None None CStruct [body]], leaf1 255 (TUnsigned 1)]"

definition path_elem :: "int \<Rightarrow> int \<Rightarrow> int \<Rightarrow> telem" where
  "path_elem ep cl cmd = TNode None (Some 0) CList [leaf1 0 (TUnsigned ep), leaf1 1 (TUnsigned cl), leaf1 2 (TUnsigned cmd)]"

definition status_elem :: "int \<Rightarrow> int \<Rightarrow> int \<Rightarrow> int \<Rightarrow> telem" where
  "status_elem ep cl cmd st = response_frame (TNode None (Some 1) CStruct
     [path_elem ep cl cmd, TNode None (Some 1) CStruct [leaf1 0 (TUnsigned st)]])"

definition data_elem :: "int \<Rightarrow> int \<Rightarrow> int \<Rightarrow> telem list \<Rightarrow> telem" where
  "data_elem ep cl cmd es = response_frame (TNode None (Some 0) CStruct [path_elem ep cl cmd, TNode None (Some 1) CStruct es])"

definition num_path :: "int \<Rightarrow> int \<Rightarrow> int \<Rightarrow> command_path" where
  "num_path ep cl cmd = \<lparr>cp_endpointId = JNum ep, cp_clusterId = JNum cl, cp_commandId = JNum cmd\<rparr>"

definition id_range :: "int \<Rightarrow> bool" where
  "id_range k \<longleftrightarrow> 0 \<le> k \<and> k < 2 ^ 32"

lemma template_path: "telem_of (command_path_template (num_path ep cl cmd) 0) = Some (path_elem ep cl cmd)"
  by (simp add: command_path_template_def num_path_def path_elem_def jfield_def leaf1_def command_path_tags container_of_def leaf_of_def
      signed_types_def unsigned_types_def)

lemma wf_path: "id_range ep \<Longrightarrow> id_range cl \<Longrightarrow> id_range cmd \<Longrightarrow> wf_telem (path_elem ep cl cmd)"
  by (simp add: path_elem_def leaf1_def wf_tag_def id_range_def)

lemmas telem_template_simps = jstruct_def jfield_def jtagged_def leaf1_def container_of_def leaf_of_def signed_types_def unsigned_types_def im_tags im_consts

lemma template_frame:
  assumes "telem_of body = Some e" and "\<not> js_truthy flag"
  shows "telem_of (jstruct [jfield 0 ''boolean'' flag, jfield 1 ''array'' (JArr [jstruct [body]]), jfield ImRevision ''uint8'' (JNum IM_VERSION)]) =
    Some (response_frame e)"
  using assms by (simp add: telem_template_simps response_frame_def)

lemma wf_frame: "wf_telem e \<Longrightarrow> wf_telem (response_frame e)"
  by (simp add: response_frame_def leaf1_def wf_tag_def)

lemma send_status:
  assumes "id_range ep" and "id_range cl" and "id_range cmd" and "id_range st"
  shows "sendInvokeCommandResponseStatus A (Some x) (num_path ep cl cmd) (JNum st) n =
    send_protocol A x IM_PROTOCOL_ID ImCommand_CommandResponse (tlv_bytes (status_elem ep cl cmd st)) n"
proof -
  let ?j = "TemplateMsgCommandResponseStatus JUndef (num_path ep cl cmd) (JNum st)"
  have b: "telem_of (jfield InvokeResponseIB_Status ''struct'' (JArr [command_path_template (num_path ep cl cmd) CommandStatusIB_Path,
      jfield CommandStatusIB_Status ''struct'' (JArr [jtagged StatusIB_Status (JNum st)])])) =
    Some (TNode None (Some 1) CStruct [path_elem ep cl cmd, TNode None (Some 1) CStruct [leaf1 0 (TUnsigned st)]])"
    using assms(4) template_path [of ep cl cmd] by (simp add: telem_template_simps id_range_def)
  have "telem_of ?j = Some (status_elem ep cl cmd st)"
    unfolding TemplateMsgCommandResponseStatus_def status_elem_def InvokeResponseMessage_SuppressResponse_def
      InvokeResponseMessage_CommandResponses_def
    by (rule template_frame [OF b]) (simp add: js_truthy_def)
  moreover have "wf_telem (status_elem ep cl cmd st)"
    unfolding status_elem_def by (rule wf_frame) (use assms wf_path in \<open>simp add: leaf1_def wf_tag_def id_range_def\<close>)
  moreover have "json_stringify ?j = Inr ()"
    by (simp add: json_stringify_def TemplateMsgCommandResponseStatus_def telem_template_simps command_path_template_def num_path_def)
  ultimately show ?thesis
    using writer_encode_telem by (simp add: sendInvokeCommandResponseStatus_def sendInvokeCommandResponseRaw_def Let_def)
qed

lemma send_data:
  assumes "id_range ep" and "id_range cl" and "id_range cmd" and "those (map telem_of data) = Some es" and "list_all wf_telem es"
    and "\<not> list_ex has_bigint data"
  shows "sendInvokeCommandResponseData A (Some x) (num_path ep cl cmd) data n =
    send_protocol A x IM_PROTOCOL_ID ImCommand_CommandResponse (tlv_bytes (data_elem ep cl cmd es)) n"
proof -
  let ?j = "TemplateMsgCommandResponseData (JBool False) (num_path ep cl cmd) data"
  have b: "telem_of (jfield InvokeResponseIB_Data ''struct'' (JArr [command_path_template (num_path ep cl cmd) CommandDataIB_Path,
      jfield CommandDataIB_Data ''struct'' (JArr data)])) =
    Some (TNode None (Some 0) CStruct [path_elem ep cl cmd, TNode None (Some 1) CStruct es])"
    using assms(4) template_path [of ep cl cmd] by (simp add: telem_template_simps)
  have "telem_of ?j = Some (data_elem ep cl cmd es)"
    unfolding TemplateMsgCommandResponseData_def data_elem_def InvokeResponseMessage_SuppressResponse_def
      InvokeResponseMessage_CommandResponses_def
    by (rule template_frame [OF b]) (simp add: js_truthy_def)
  moreover have "wf_telem (data_elem ep cl cmd es)"
    unfolding data_elem_def by (rule wf_frame) (use assms wf_path in \<open>simp add: wf_tag_def\<close>)
  moreover have "json_stringify ?j = Inr ()"
    using assms(6) by (simp add: json_stringify_def TemplateMsgCommandResponseData_def telem_template_simps command_path_template_def num_path_def)
  ultimately show ?thesis
    using writer_encode_telem by (simp add: sendInvokeCommandResponseData_def sendInvokeCommandResponseRaw_def Let_def)
qed

end
