(* ===== verification/Cluster_Servers.thy ===== *)
theory Cluster_Servers
  imports Im_Command
begin

text \<open>
  The cluster servers of \<open>src/clusters\<close> for basic information, general commissioning and
  network commissioning: the enumerations, the attribute tables their constructors build, the
  command templates and the command handlers. \<open>_dataVersion\<close> is random and never read.
  Only the tables are state, and nothing changes them but \<open>put\<close>, which overwrites the tag of
  the one object value with the tag of each report.
\<close>

section \<open>Attributes\<close>

record attribute =
  at_name :: string
  at_type :: string
  at_nullable :: bool
  at_nosubscribe :: bool
  at_readonly :: bool
  at_value :: jsval

text \<open>Every attribute is \<open>"nosubscribe": true, "readonly": true\<close>; most have no \<open>"value"\<close>.\<close>

definition ro_attribute :: "string \<Rightarrow> string \<Rightarrow> bool \<Rightarrow> jsval \<Rightarrow> attribute" where
  "ro_attribute name ty nullable v =
     \<lparr>at_name = name, at_type = ty, at_nullable = nullable, at_nosubscribe = True, at_readonly = True, at_value = v\<rparr>"

definition lookup_attribute :: "(prop_key \<times> attribute) list \<Rightarrow> jsval \<Rightarrow> attribute option result" where
  "lookup_attribute attributes i = js_lookup attributes i"

text \<open>
  What the interaction model relies on in a server with attributes: a numeric id is looked up in
  the server's own table, and an id that the table does not have gives no attribute.
\<close>

locale attribute_server =
  fixes attributes :: "(prop_key \<times> attribute) list"
    and getAttribute :: "jsval \<Rightarrow> attribute option result"
  assumes getAttribute_table: "getAttribute i = js_lookup attributes i"
begin

lemma num: "getAttribute (JNum k) = Inr (map_of attributes (IntKey k))"
  by (simp add: getAttribute_table js_lookup_def)

lemma absent: "IntKey k \<notin> fst ` set attributes \<Longrightarrow> getAttribute (JNum k) = Inr None"
  by (simp add: num map_of_eq_None_iff)

lemma present: "getAttribute (JNum k) = Inr (Some a) \<Longrightarrow> (IntKey k, a) \<in> set attributes"
  by (simp add: num map_of_SomeD)

end

section \<open>Basic information\<close>

definition BASIC_CLUSTER_ID :: int where "BASIC_CLUSTER_ID = 0x0028"
definition BasicCommand_MfgSpecificPing :: int where "BasicCommand_MfgSpecificPing = 0"

definition BasicAttribute :: "(string \<times> int) list" where
  "BasicAttribute =
     [(''DataModelRevision'', 0), (''VendorName'', 1), (''VendorID'', 2), (''ProductName'', 3), (''ProductID'', 4),
      (''NodeLabel'', 5), (''Location'', 6), (''HardwareVersion'', 7), (''HardwareVersionString'', 8),
      (''SoftwareVersion'', 9), (''SoftwareVersionString'', 10), (''ManufacturingDate'', 11), (''PartNumber'', 12),
      (''ProductURL'', 13), (''ProductLabel'', 14), (''SerialNumber'', 15), (''LocalConfigDisabled'', 16),
      (''Reachable'', 17), (''UniqueID'', 18), (''CapabilityMinima'', 19), (''GeneratedCommandList'', 65528),
      (''AcceptedCommandList'', 65529), (''AttributeList'', 65531), (''FeatureMap'', 65532), (''ClusterRevision'', 65533)]"

definition Basic_own_attributes :: "(prop_key \<times> attribute) list" where
  "Basic_own_attributes =
     [(IntKey 0, ro_attribute ''DataModelRevision'' ''int16u'' False JUndef),
      (IntKey 1, ro_attribute ''VendorName'' ''char_string'' False JUndef),
      (IntKey 2, ro_attribute ''VendorID'' ''vendor_id'' False (JNum 0xFFF1)),
      (IntKey 3, ro_attribute ''ProductName'' ''char_string'' False JUndef),
      (IntKey 4, ro_attribute ''ProductID'' ''int16u'' False (JNum 0x8001)),
      (IntKey 5, ro_attribute ''NodeLabel'' ''char_string'' False JUndef),
      (IntKey 6, ro_attribute ''Location'' ''char_string'' False JUndef),
      (IntKey 7, ro_attribute ''HardwareVersion'' ''int16u'' False JUndef),
      (IntKey 8, ro_attribute ''HardwareVersionString'' ''char_string'' False JUndef),
      (IntKey 9, ro_attribute ''SoftwareVersion'' ''int32u'' False JUndef),
      (IntKey 10, ro_attribute ''SoftwareVersionString'' ''char_string'' False JUndef),
      (IntKey 11, ro_attribute ''ManufacturingDate'' ''char_string'' False JUndef),
      (IntKey 12, ro_attribute ''PartNumber'' ''char_string'' False JUndef),
      (IntKey 13, ro_attribute ''ProductURL'' ''long_char_string'' False JUndef),
      (IntKey 14, ro_attribute ''ProductLabel'' ''char_string'' False JUndef),
      (IntKey 15, ro_attribute ''SerialNumber'' ''char_string'' False JUndef),
      (IntKey 16, ro_attribute ''LocalConfigDisabled'' ''boolean'' False JUndef),
      (IntKey 17, ro_attribute ''Reachable'' ''boolean'' False JUndef),
      (IntKey 18, ro_attribute ''UniqueID'' ''char_string'' False JUndef),
      (IntKey 19, ro_attribute ''CapabilityMinima'' ''CapabilityMinimaStruct'' False JUndef)]"

definition Basic_global_attributes :: "(prop_key \<times> attribute) list" where
  "Basic_global_attributes =
     [(IntKey 65528, ro_attribute ''GeneratedCommandList'' ''array'' False JUndef),
      (IntKey 65529, ro_attribute ''AcceptedCommandList'' ''array'' False JUndef),
      (IntKey 65531, ro_attribute ''AttributeList'' ''array'' False JUndef),
      (IntKey 65532, ro_attribute ''FeatureMap'' ''bitmap32'' False JUndef),
      (IntKey 65533, ro_attribute ''ClusterRevision'' ''int16u'' False JUndef)]"

definition Basic_attributes :: "(prop_key \<times> attribute) list" where
  "Basic_attributes = Basic_own_attributes @ Basic_global_attributes"

definition Basic_TemplateCommandMfgSpecificPing :: "jsval list" where "Basic_TemplateCommandMfgSpecificPing = []"

definition Basic_getAttribute :: "jsval \<Rightarrow> attribute option result" where
  "Basic_getAttribute i = lookup_attribute Basic_attributes i"

interpretation basic_attributes: attribute_server Basic_attributes Basic_getAttribute
  by unfold_locales (simp add: Basic_getAttribute_def lookup_attribute_def)

text \<open>The handler names a variable \<open>exchange\<close> that does not exist.\<close>

definition onMfgSpecificPing :: "message \<Rightarrow> command_path \<Rightarrow> 'a exchange_manager_scheme \<Rightarrow> 'a exchange_manager_scheme result" where
  "onMfgSpecificPing msg commandPath n = Inl ReferenceError"

text \<open>\<open>switch\<close> compares with \<open>===\<close>: only the number is the command.\<close>

definition Basic_onCommand :: "message \<Rightarrow> command_path \<Rightarrow> 'a exchange_manager_scheme \<Rightarrow> 'a exchange_manager_scheme result" where
  "Basic_onCommand msg path n =
     (if cp_commandId path = JNum BasicCommand_MfgSpecificPing then onMfgSpecificPing msg path n else Inr n)"

section \<open>General commissioning\<close>

definition GENERAL_COMMISSIONING_CLUSTER_ID :: int where "GENERAL_COMMISSIONING_CLUSTER_ID = 0x0030"

datatype CommissioningError = OK | ValueOutsideRange | InvalidAuthentication | NoFailSafe | BusyWithOtherAdmin

fun commissioning_error :: "CommissioningError \<Rightarrow> int" where
  "commissioning_error OK = 0"
| "commissioning_error ValueOutsideRange = 1"
| "commissioning_error InvalidAuthentication = 2"
| "commissioning_error NoFailSafe = 3"
| "commissioning_error BusyWithOtherAdmin = 4"

definition RegulatoryLocationType :: "(string \<times> int) list" where
  "RegulatoryLocationType = [(''Indoor'', 0), (''Outdoor'', 1), (''IndoorOutdoor'', 2)]"

definition GeneralCommand_ArmFailSafe :: int where "GeneralCommand_ArmFailSafe = 0"
definition GeneralCommand_ArmFailSafeResponse :: int where "GeneralCommand_ArmFailSafeResponse = 1"
definition GeneralCommand_SetRegulatoryConfig :: int where "GeneralCommand_SetRegulatoryConfig = 2"
definition GeneralCommand_SetRegulatoryConfigResponse :: int where "GeneralCommand_SetRegulatoryConfigResponse = 3"
definition GeneralCommand_CommissioningComplete :: int where "GeneralCommand_CommissioningComplete = 4"
definition GeneralCommand_CommissioningCompleteResponse :: int where "GeneralCommand_CommissioningCompleteResponse = 5"

definition GeneralAttribute :: "(string \<times> int) list" where
  "GeneralAttribute =
     [(''Breadcrumb'', 0), (''BasicCommissioningInfo'', 1), (''RegulatoryConfig'', 2), (''LocationCapability'', 3),
      (''SupportsConcurrentConnection'', 4), (''GeneratedCommandList'', 65528), (''AcceptedCommandList'', 65529),
      (''AttributeList'', 65531), (''FeatureMap'', 65532), (''ClusterRevision'', 65533)]"

definition General_attributes :: "(prop_key \<times> attribute) list" where
  "General_attributes =
     [(IntKey 0, ro_attribute ''Breadcrumb'' ''int64u'' False (JNum 0)),
      (IntKey 1, ro_attribute ''BasicCommissioningInfo'' ''BasicCommissioningInfo'' False (jstruct [jtagged 0 (JNum 60), jtagged 1 (JNum 900)])),
      (IntKey 2, ro_attribute ''RegulatoryConfig'' ''RegulatoryLocationType'' False (JNum 0)),
      (IntKey 3, ro_attribute ''LocationCapability'' ''RegulatoryLocationType'' False (JNum 2)),
      (IntKey 4, ro_attribute ''SupportsConcurrentConnection'' ''boolean'' False JUndef),
      (IntKey 65528, ro_attribute ''GeneratedCommandList'' ''array'' False JUndef),
      (IntKey 65529, ro_attribute ''AcceptedCommandList'' ''array'' False JUndef),
      (IntKey 65531, ro_attribute ''AttributeList'' ''array'' False JUndef),
      (IntKey 65532, ro_attribute ''FeatureMap'' ''bitmap32'' False (JNum 0)),
      (IntKey 65533, ro_attribute ''ClusterRevision'' ''int16u'' False (JNum 0))]"

definition TemplateCommandArmFailSafe :: "jsval \<Rightarrow> jsval \<Rightarrow> jsval list" where
  "TemplateCommandArmFailSafe expiryLengthSeconds breadcrumb =
     [jfield 0 ''uint16_t'' expiryLengthSeconds, jfield 1 ''uint64_t'' breadcrumb]"

definition TemplateCommandArmFailSafeResponse :: "jsval \<Rightarrow> jsval \<Rightarrow> jsval list" where
  "TemplateCommandArmFailSafeResponse errorCode debugText = [jfield 0 ''uint8_t'' errorCode, jfield 1 ''string'' debugText]"

definition TemplateCommandSetRegulatoryConfig :: "jsval \<Rightarrow> jsval \<Rightarrow> jsval \<Rightarrow> jsval list" where
  "TemplateCommandSetRegulatoryConfig newRegulatoryConfig countryCode breadcrumb =
     [jfield 0 ''uint8_t'' newRegulatoryConfig, jfield 1 ''string'' countryCode, jfield 2 ''uint64_t'' breadcrumb]"

definition TemplateCommandSetRegulatoryConfigResponse :: "jsval \<Rightarrow> jsval \<Rightarrow> jsval list" where
  "TemplateCommandSetRegulatoryConfigResponse errorCode debugText = [jfield 0 ''uint8_t'' errorCode, jfield 1 ''string'' debugText]"

definition TemplateCommandCommissioningComplete :: "jsval list" where "TemplateCommandCommissioningComplete = []"

definition TemplateCommandCommissioningCompleteResponse :: "jsval \<Rightarrow> jsval \<Rightarrow> jsval list" where
  "TemplateCommandCommissioningCompleteResponse errorCode debugText = [jfield 0 ''uint8_t'' errorCode, jfield 1 ''string'' debugText]"

definition General_getAttribute :: "jsval \<Rightarrow> attribute option result" where
  "General_getAttribute i = lookup_attribute General_attributes i"

interpretation general_attributes: attribute_server General_attributes General_getAttribute
  by unfold_locales (simp add: General_getAttribute_def lookup_attribute_def)

text \<open>\<open>JSON.stringify\<close> prints the command data before it is sent.\<close>

definition sendArmFailSafeResponse ::
  "aead \<Rightarrow> nat option \<Rightarrow> command_path \<Rightarrow> 'a exchange_manager_scheme \<Rightarrow> 'a exchange_manager_scheme result" where
  "sendArmFailSafeResponse A exch commandPath n =
     (let json = TemplateCommandArmFailSafeResponse (JNum 0) (JStr [])
      in rbind (json_stringify (JArr json)) (\<lambda>_.
         sendInvokeCommandResponseData A exch (commandPath\<lparr>cp_commandId := JNum GeneralCommand_ArmFailSafeResponse\<rparr>) json n))"

definition onArmFailSafe :: "aead \<Rightarrow> message \<Rightarrow> command_path \<Rightarrow> 'a exchange_manager_scheme \<Rightarrow> 'a exchange_manager_scheme result" where
  "onArmFailSafe A msg commandPath n = sendArmFailSafeResponse A (m_exchange msg) commandPath n"

definition sendSetRegulatoryConfigResponse ::
  "aead \<Rightarrow> nat option \<Rightarrow> command_path \<Rightarrow> 'a exchange_manager_scheme \<Rightarrow> 'a exchange_manager_scheme result" where
  "sendSetRegulatoryConfigResponse A exch commandPath n =
     (let json = TemplateCommandSetRegulatoryConfigResponse (JNum 0) (JStr [])
      in rbind (json_stringify (JArr json)) (\<lambda>_.
         sendInvokeCommandResponseData A exch (commandPath\<lparr>cp_commandId := JNum GeneralCommand_SetRegulatoryConfigResponse\<rparr>) json n))"

definition onSetRegulatoryConfig :: "aead \<Rightarrow> message \<Rightarrow> command_path \<Rightarrow> 'a exchange_manager_scheme \<Rightarrow> 'a exchange_manager_scheme result" where
  "onSetRegulatoryConfig A msg commandPath n = sendSetRegulatoryConfigResponse A (m_exchange msg) commandPath n"

text \<open>The completion is answered with a status, under the id of the request.\<close>

definition sendCommissioningCompleteResponse ::
  "aead \<Rightarrow> nat option \<Rightarrow> command_path \<Rightarrow> 'a exchange_manager_scheme \<Rightarrow> 'a exchange_manager_scheme result" where
  "sendCommissioningCompleteResponse A exch commandPath n = sendInvokeCommandResponseStatus A exch commandPath (JNum 0) n"

definition onCommissioningComplete :: "aead \<Rightarrow> message \<Rightarrow> command_path \<Rightarrow> 'a exchange_manager_scheme \<Rightarrow> 'a exchange_manager_scheme result" where
  "onCommissioningComplete A msg commandPath n = sendCommissioningCompleteResponse A (m_exchange msg) commandPath n"

definition General_onCommand :: "aead \<Rightarrow> message \<Rightarrow> command_path \<Rightarrow> 'a exchange_manager_scheme \<Rightarrow> 'a exchange_manager_scheme result" where
  "General_onCommand A msg path n =
     (if cp_commandId path = JNum GeneralCommand_ArmFailSafe then onArmFailSafe A msg path n
      else if cp_commandId path = JNum GeneralCommand_SetRegulatoryConfig then onSetRegulatoryConfig A msg path n
      else if cp_commandId path = JNum GeneralCommand_CommissioningComplete then onCommissioningComplete A msg path n
      else Inr n)"

section \<open>Network commissioning\<close>

definition NETWORK_COMMISSIONING_CLUSTER_ID :: int where "NETWORK_COMMISSIONING_CLUSTER_ID = 0x0031"
definition NetworkCommand_ScanNetworks :: int where "NetworkCommand_ScanNetworks = 0"
definition NetworkCommand_ScanNetworksResponse :: int where "NetworkCommand_ScanNetworksResponse = 1"
definition NetworkCommand_AddOrUpdateWiFiNetwork :: int where "NetworkCommand_AddOrUpdateWiFiNetwork = 2"
definition NetworkCommand_AddOrUpdateThreadNetwork :: int where "NetworkCommand_AddOrUpdateThreadNetwork = 3"
definition NetworkCommand_RemoveNetwork :: int where "NetworkCommand_RemoveNetwork = 4"
definition NetworkCommand_NetworkConfigResponse :: int where "NetworkCommand_NetworkConfigResponse = 5"
definition NetworkCommand_ConnectNetwork :: int where "NetworkCommand_ConnectNetwork = 6"
definition NetworkCommand_ConnectNetworkResponse :: int where "NetworkCommand_ConnectNetworkResponse = 7"
definition NetworkCommand_ReorderNetwork :: int where "NetworkCommand_ReorderNetwork = 8"

definition NetworkAttribute :: "(string \<times> int) list" where
  "NetworkAttribute =
     [(''MaxNetworks'', 0), (''Networks'', 1), (''ScanMaxTimeSeconds'', 2), (''ConnectMaxTimeSeconds'', 3),
      (''InterfaceEnabled'', 4), (''LastNetworkingStatus'', 5), (''LastNetworkID'', 6), (''LastConnectErrorValue'', 7),
      (''GeneratedCommandList'', 65528), (''AcceptedCommandList'', 65529), (''AttributeList'', 65531),
      (''FeatureMap'', 65532), (''ClusterRevision'', 65533)]"

definition Network_attributes :: "(prop_key \<times> attribute) list" where
  "Network_attributes =
     [(IntKey 0, ro_attribute ''MaxNetworks'' ''int8u'' False JUndef),
      (IntKey 1, ro_attribute ''Networks'' ''array'' False JUndef),
      (IntKey 2, ro_attribute ''ScanMaxTimeSeconds'' ''int8u'' False JUndef),
      (IntKey 3, ro_attribute ''ConnectMaxTimeSeconds'' ''int8u'' False (JNum 0)),
      (IntKey 4, ro_attribute ''InterfaceEnabled'' ''boolean'' False JUndef),
      (IntKey 5, ro_attribute ''LastNetworkingStatus'' ''NetworkCommissioningStatus'' True JUndef),
      (IntKey 6, ro_attribute ''LastNetworkID'' ''octet_string'' True JUndef),
      (IntKey 7, ro_attribute ''LastConnectErrorValue'' ''int32s'' True JUndef),
      (IntKey 65528, ro_attribute ''GeneratedCommandList'' ''array'' False JUndef),
      (IntKey 65529, ro_attribute ''AcceptedCommandList'' ''array'' False JUndef),
      (IntKey 65531, ro_attribute ''AttributeList'' ''array'' False JUndef),
      (IntKey 65532, ro_attribute ''FeatureMap'' ''bitmap32'' False (JNum 4)),
      (IntKey 65533, ro_attribute ''ClusterRevision'' ''int16u'' False JUndef)]"

definition TemplateCommandScanNetworks :: "jsval \<Rightarrow> jsval \<Rightarrow> jsval list" where
  "TemplateCommandScanNetworks ssid breadcrumb =
     [jfield 0 ''chip::ByteSpan'' ssid, jfield 1 ''uint64_t'' breadcrumb]"

definition TemplateCommandScanNetworksResponse :: "jsval \<Rightarrow> jsval \<Rightarrow> jsval list" where
  "TemplateCommandScanNetworksResponse networkingStatus debugText =
     [jfield 0 ''uint8_t'' networkingStatus, jfield 1 ''chip::CharSpan'' debugText, jfield 2 ''array'' (JArr []), jfield 3 ''array'' (JArr [])]"

definition TemplateCommandAddOrUpdateWiFiNetwork :: "jsval \<Rightarrow> jsval \<Rightarrow> jsval \<Rightarrow> jsval list" where
  "TemplateCommandAddOrUpdateWiFiNetwork ssid credentials breadcrumb =
     [jfield 0 ''chip::ByteSpan'' ssid, jfield 1 ''chip::ByteSpan'' credentials, jfield 2 ''uint64_t'' breadcrumb]"

definition TemplateCommandAddOrUpdateThreadNetwork :: "jsval \<Rightarrow> jsval \<Rightarrow> jsval list" where
  "TemplateCommandAddOrUpdateThreadNetwork operationalDataset breadcrumb =
     [jfield 0 ''chip::ByteSpan'' operationalDataset, jfield 1 ''uint64_t'' breadcrumb]"

definition TemplateCommandRemoveNetwork :: "jsval \<Rightarrow> jsval \<Rightarrow> jsval list" where
  "TemplateCommandRemoveNetwork networkID breadcrumb =
     [jfield 0 ''chip::ByteSpan'' networkID, jfield 1 ''uint64_t'' breadcrumb]"

definition TemplateCommandNetworkConfigResponse :: "jsval \<Rightarrow> jsval \<Rightarrow> jsval \<Rightarrow> jsval list" where
  "TemplateCommandNetworkConfigResponse networkingStatus debugText networkIndex =
     [jfield 0 ''uint8_t'' networkingStatus, jfield 1 ''chip::CharSpan'' debugText, jfield 2 ''uint8_t'' networkIndex]"

definition TemplateCommandConnectNetwork :: "jsval \<Rightarrow> jsval \<Rightarrow> jsval list" where
  "TemplateCommandConnectNetwork networkID breadcrumb =
     [jfield 0 ''chip::ByteSpan'' networkID, jfield 1 ''uint64_t'' breadcrumb]"

definition TemplateCommandConnectNetworkResponse :: "jsval \<Rightarrow> jsval \<Rightarrow> jsval \<Rightarrow> jsval list" where
  "TemplateCommandConnectNetworkResponse networkingStatus debugText errorValue =
     [jfield 0 ''uint8_t'' networkingStatus, jfield 1 ''chip::CharSpan'' debugText, jfield 2 ''int32_t'' errorValue]"

definition TemplateCommandReorderNetwork :: "jsval \<Rightarrow> jsval \<Rightarrow> jsval \<Rightarrow> jsval list" where
  "TemplateCommandReorderNetwork networkID networkIndex breadcrumb =
     [jfield 0 ''chip::ByteSpan'' networkID, jfield 1 ''uint8_t'' networkIndex, jfield 2 ''uint64_t'' breadcrumb]"

definition Network_getAttribute :: "jsval \<Rightarrow> attribute option result" where
  "Network_getAttribute i = lookup_attribute Network_attributes i"

interpretation network_attributes: attribute_server Network_attributes Network_getAttribute
  by unfold_locales (simp add: Network_getAttribute_def lookup_attribute_def)

text \<open>
  The handlers name a variable \<open>exchange\<close> that does not exist. The \<open>switch\<close> never gets to
  them: its first label reads \<open>ClusterGeneralCommissioningServer\<close>, which the file does not
  import.
\<close>

definition onScanNetworks :: "message \<Rightarrow> command_path \<Rightarrow> 'a exchange_manager_scheme \<Rightarrow> 'a exchange_manager_scheme result" where
  "onScanNetworks msg commandPath n = Inl ReferenceError"

definition onScanNetworkResponse :: "message \<Rightarrow> command_path \<Rightarrow> 'a exchange_manager_scheme \<Rightarrow> 'a exchange_manager_scheme result" where
  "onScanNetworkResponse msg commandPath n = Inl ReferenceError"

definition onAddOrUpdateWiFiNetwork :: "message \<Rightarrow> command_path \<Rightarrow> 'a exchange_manager_scheme \<Rightarrow> 'a exchange_manager_scheme result" where
  "onAddOrUpdateWiFiNetwork msg commandPath n = Inl ReferenceError"

definition Network_onCommand :: "message \<Rightarrow> command_path \<Rightarrow> 'a exchange_manager_scheme \<Rightarrow> 'a exchange_manager_scheme result" where
  "Network_onCommand msg path n = Inl ReferenceError"

end
