(* ===== verification/Cluster_Credentials.thy ===== *)
theory Cluster_Credentials
  imports Cluster_Servers
begin

text \<open>
  \<open>src/clusters/operational_credentials/ClusterOperationalCredentialsServer.js\<close>: attestation,
  certificate chain, CSR and NOC commands. Signing is a package and an argument; a CSR and the
  outcome of decoding a NOC are awaited, so the handlers leave a task and the value comes with its
  resumption. The server has no \<open>getAttribute\<close>.
\<close>

section \<open>Constants and tables\<close>

definition OPERATIONAL_CREDENTIALS_CLUSTER_ID :: int where "OPERATIONAL_CREDENTIALS_CLUSTER_ID = 0x003E"
definition DacCertificate :: int where "DacCertificate = 1"
definition PaiCertificate :: int where "PaiCertificate = 2"
definition CredentialsCommand_AttestationRequest :: int where "CredentialsCommand_AttestationRequest = 0"
definition CredentialsCommand_AttestationResponse :: int where "CredentialsCommand_AttestationResponse = 1"
definition CredentialsCommand_CertificateChainRequest :: int where "CredentialsCommand_CertificateChainRequest = 2"
definition CredentialsCommand_CertificateChainResponse :: int where "CredentialsCommand_CertificateChainResponse = 3"
definition CredentialsCommand_CsrRequest :: int where "CredentialsCommand_CsrRequest = 4"
definition CredentialsCommand_CsrResponse :: int where "CredentialsCommand_CsrResponse = 5"
definition CredentialsCommand_AddNoc :: int where "CredentialsCommand_AddNoc = 6"
definition CredentialsCommand_UpdateNoc :: int where "CredentialsCommand_UpdateNoc = 7"
definition CredentialsCommand_NocResponse :: int where "CredentialsCommand_NocResponse = 8"
definition CredentialsCommand_UpdateFabricLabel :: int where "CredentialsCommand_UpdateFabricLabel = 9"
definition CredentialsCommand_RemoveFabric :: int where "CredentialsCommand_RemoveFabric = 10"
definition CredentialsCommand_AddTrustedRootCertificate :: int where "CredentialsCommand_AddTrustedRootCertificate = 11"
definition CredentialsCommand_RemoveTrustedRootCertificate :: int where "CredentialsCommand_RemoveTrustedRootCertificate = 12"

definition CredentialsAttribute :: "(string \<times> int) list" where
  "CredentialsAttribute =
     [(''NOCs'', 0), (''Fabrics'', 1), (''SupportedFabrics'', 2), (''CommissionedFabrics'', 3),
      (''TrustedRootCertificates'', 4), (''CurrentFabricIndex'', 5), (''GeneratedCommandList'', 65528),
      (''AcceptedCommandList'', 65529), (''AttributeList'', 65531), (''FeatureMap'', 65532), (''ClusterRevision'', 65533)]"

definition Credentials_attributes :: "(prop_key \<times> attribute) list" where
  "Credentials_attributes =
     [(IntKey 0, ro_attribute ''NOCs'' ''array'' False JUndef),
      (IntKey 1, ro_attribute ''Fabrics'' ''array'' False JUndef),
      (IntKey 2, ro_attribute ''SupportedFabrics'' ''int8u'' False JUndef),
      (IntKey 3, ro_attribute ''CommissionedFabrics'' ''int8u'' False JUndef),
      (IntKey 4, ro_attribute ''TrustedRootCertificates'' ''array'' False JUndef),
      (IntKey 5, ro_attribute ''CurrentFabricIndex'' ''fabric_idx'' False JUndef),
      (IntKey 65528, ro_attribute ''GeneratedCommandList'' ''array'' False JUndef),
      (IntKey 65529, ro_attribute ''AcceptedCommandList'' ''array'' False JUndef),
      (IntKey 65531, ro_attribute ''AttributeList'' ''array'' False JUndef),
      (IntKey 65532, ro_attribute ''FeatureMap'' ''bitmap32'' False JUndef),
      (IntKey 65533, ro_attribute ''ClusterRevision'' ''int16u'' False JUndef)]"

lemmas credentials_commands = CredentialsCommand_AttestationRequest_def CredentialsCommand_AttestationResponse_def
  CredentialsCommand_CertificateChainRequest_def CredentialsCommand_CertificateChainResponse_def CredentialsCommand_CsrRequest_def
  CredentialsCommand_CsrResponse_def CredentialsCommand_AddNoc_def CredentialsCommand_NocResponse_def
  CredentialsCommand_AddTrustedRootCertificate_def

text \<open>The example certificates, \<open>src/crypto/ExampleCerts.js\<close>.\<close>

definition TEST_PAI_CERTIFICATE :: buffer where
  "TEST_PAI_CERTIFICATE = hex_decode (js_string
     (''308201cb30820171a003020102020856ad8222ad945b64300a06082a8648ce3d04030230303118301606035504030c0f4d61'' @
      ''7474657220546573742050414131143012060a2b0601040182a27c02010c04464646313020170d3232303230353030303030'' @
      ''305a180f39393939313233313233353935395a303d3125302306035504030c1c4d6174746572204465762050414920307846'' @
      ''464631206e6f2050494431143012060a2b0601040182a27c02010c04464646313059301306072a8648ce3d020106082a8648'' @
      ''ce3d03010703420004419a9315c2173e0c8c876d03ccfc944852647f7fec5e5082f4059928eca894c594151309ac631e4cb0'' @
      ''3392af684b0bafb7e65b3b8162c2f52bf931b8e77aaa82a366306430120603551d130101ff040830060101ff020100300e06'' @
      ''03551d0f0101ff040403020106301d0603551d0e0416041463540e47f64b1c38d13884a462d16c195d8ffb3c301f0603551d'' @
      ''230418301680146afd22771f511fecbf1641976710dcdc31a1717e300a06082a8648ce3d0403020348003045022100b2ef27'' @
      ''f49ae9b50fb91eeac94c4d0bdbb8d7929c6cb88face529368d12054c0c0220655dc92b86bd909882a6c62177b825d7d05edb'' @
      ''e7c22f9fea71220e7ea703f891''))"

definition TEST_DAC_CERTIFICATE :: buffer where
  "TEST_DAC_CERTIFICATE = hex_decode (js_string
     (''308201e73082018ea003020102020869cdf10de9e54ed1300a06082a8648ce3d040302303d3125302306035504030c1c4d61'' @
      ''74746572204465762050414920307846464631206e6f2050494431143012060a2b0601040182a27c02010c04464646313020'' @
      ''170d3232303230353030303030305a180f39393939313233313233353935395a30533125302306035504030c1c4d61747465'' @
      ''722044657620444143203078464646312f30783830303131143012060a2b0601040182a27c02010c04464646313114301206'' @
      ''0a2b0601040182a27c02020c04383030313059301306072a8648ce3d020106082a8648ce3d03010703420004463ac6934291'' @
      ''0a0e5588fc6ff56bb63e62eccecb148f7d4eb03ee552601415767d16a5c663f793e49123260b8297a7cd7e7cfc7b316b39d9'' @
      ''8e90d29377738e82a360305e300c0603551d130101ff04023000300e0603551d0f0101ff040403020780301d0603551d0e04'' @
      ''16041488dde7b300382932cff734c04624810f44168a6f301f0603551d2304183016801463540e47f64b1c38d13884a462d1'' @
      ''6c195d8ffb3c300a06082a8648ce3d040302034700304402200127a27b4b44610ee2fcdc4d2b7885563660bc0f76f17219ed'' @
      ''6a08dfb2b3c1cd02206b59e0af45f3eb2a85b919d35731528c6028c415239545e108e4e54e70971353''))"

definition TEST_DAC_PRIVKEY :: buffer where
  "TEST_DAC_PRIVKEY = hex_decode (js_string
     (''aab600ae8ae8aab7d73627c217b7c204709ca6946af5f2f7530833a52b44fbff''))"

definition TEST_CERTIFICATION_DECLARATION :: buffer where
  "TEST_CERTIFICATION_DECLARATION = hex_decode (js_string
     (''3082021906092a864886f70d010702a082020a30820206020103310d300b06096086480165030402013082017106092a8648'' @
      ''86f70d010701a08201620482015e152400012501f1ff36020500800501800502800503800504800505800506800507800508'' @
      ''80050980050a80050b80050c80050d80050e80050f8005108005118005128005138005148005158005168005178005188005'' @
      ''1980051a80051b80051c80051d80051e80051f80052080052180052280052380052480052580052680052780052880052980'' @
      ''052a80052b80052c80052d80052e80052f80053080053180053280053380053480053580053680053780053880053980053a'' @
      ''80053b80053c80053d80053e80053f80054080054180054280054380054480054580054680054780054880054980054a8005'' @
      ''4b80054c80054d80054e80054f80055080055180055280055380055480055580055680055780055880055980055a80055b80'' @
      ''055c80055d80055e80055f80056080056180056280056380182403162c04135a494732303134325a423333303030332d3234'' @
      ''2405002406002507942624080018317d307b020103801462fa823359acfaa9963e1cfa140addf504f37160300b0609608648'' @
      ''016503040201300a06082a8648ce3d04030204473045022024e5d1f47a7d7b0d206a26ef699b7c9757b72d469089de3192e6'' @
      ''78c745e7f60c022100f8aa2fa711fcb79b97e397ceda667bae464e2bd3ffdfc3cced7aa8ca5f4c1a7c''))"

section \<open>Templates\<close>

definition TemplateCommandAttestationRequest :: "jsval \<Rightarrow> jsval list" where
  "TemplateCommandAttestationRequest attestationNonce =
     [jfield 0 ''Buffer'' attestationNonce]"

definition TemplateCommandAttestationResponse :: "jsval \<Rightarrow> jsval \<Rightarrow> jsval list" where
  "TemplateCommandAttestationResponse attestationElements attestationSignature =
     [jfield 0 ''Buffer'' attestationElements, jfield 1 ''Buffer'' attestationSignature]"

definition TemplateCommandCertificateChainRequest :: "jsval \<Rightarrow> jsval list" where
  "TemplateCommandCertificateChainRequest certificateType =
     [jfield 0 ''uint8'' certificateType]"

definition TemplateCommandCertificateChainResponse :: "jsval \<Rightarrow> jsval list" where
  "TemplateCommandCertificateChainResponse certificate =
     [jfield 0 ''Buffer'' certificate]"

definition TemplateCommandCsrRequest :: "jsval \<Rightarrow> jsval list" where
  "TemplateCommandCsrRequest csrNonce =
     [jfield 0 ''Buffer'' csrNonce]"

definition TemplateCommandCsrResponse :: "jsval \<Rightarrow> jsval \<Rightarrow> jsval list" where
  "TemplateCommandCsrResponse nocsrElements attestationSignature =
     [jfield 0 ''Buffer'' nocsrElements, jfield 1 ''Buffer'' attestationSignature]"

definition TemplateCommandAddNOC :: "jsval \<Rightarrow> jsval \<Rightarrow> jsval \<Rightarrow> jsval \<Rightarrow> jsval \<Rightarrow> jsval list" where
  "TemplateCommandAddNOC nOCValue iCACValue iPKValue caseAdminNode adminVendorId =
     [jfield 0 ''Buffer'' nOCValue, jfield 1 ''Buffer'' iCACValue, jfield 2 ''Buffer'' iPKValue, jfield 3 ''chip::NodeId'' caseAdminNode, jfield 4 ''chip::VendorId'' adminVendorId]"

definition TemplateCommandUpdateNOC :: "jsval \<Rightarrow> jsval \<Rightarrow> jsval list" where
  "TemplateCommandUpdateNOC nOCValue iCACValue =
     [jfield 0 ''Buffer'' nOCValue, jfield 1 ''Buffer'' iCACValue]"

definition TemplateCommandNocResponse :: "jsval \<Rightarrow> jsval \<Rightarrow> jsval list" where
  "TemplateCommandNocResponse statusCode fabricIndex =
     [jfield 0 ''uint8'' statusCode, jfield 1 ''uint8'' fabricIndex]"

definition TemplateCommandUpdateFabricLabel :: "jsval \<Rightarrow> jsval list" where
  "TemplateCommandUpdateFabricLabel label =
     [jfield 0 ''chip::CharSpan'' label]"

definition TemplateCommandRemoveFabric :: "jsval \<Rightarrow> jsval list" where
  "TemplateCommandRemoveFabric fabricIndex =
     [jfield 0 ''chip::FabricIndex'' fabricIndex]"

definition TemplateCommandAddTrustedRootCertificate :: "jsval \<Rightarrow> jsval list" where
  "TemplateCommandAddTrustedRootCertificate rootCertificate =
     [jfield 0 ''Buffer'' rootCertificate]"

definition TemplateCommandRemoveTrustedRootCertificate :: "jsval \<Rightarrow> jsval list" where
  "TemplateCommandRemoveTrustedRootCertificate trustedRootIdentifier =
     [jfield 0 ''Buffer'' trustedRootIdentifier]"

definition TemplateAttestationElements :: "jsval \<Rightarrow> jsval \<Rightarrow> jsval \<Rightarrow> jsval" where
  "TemplateAttestationElements certificationDecl attestationNonce timestamp =
     jstruct [jfield 1 ''Buffer'' certificationDecl, jfield 2 ''Buffer'' attestationNonce, jfield 3 ''uint32'' timestamp]"

definition TemplateNocsrElements :: "jsval \<Rightarrow> jsval \<Rightarrow> jsval" where
  "TemplateNocsrElements csr csrNonce = jstruct [jfield 1 ''Buffer'' csr, jfield 2 ''Buffer'' csrNonce]"

section \<open>State and helpers\<close>

text \<open>What is awaited: a CSR for a response, or the certificate in a NOC.\<close>

datatype im_task = CsrPending "nat option" command_path jsval | NocPending jsval

record im_node = session_protocol +
  im_tasks :: "im_task list"

type_synonym signer = "buffer \<Rightarrow> buffer \<Rightarrow> buffer result"

definition push_im_task :: "im_task \<Rightarrow> 'a im_node_scheme \<Rightarrow> 'a im_node_scheme" where
  "push_im_task t n = n\<lparr>im_tasks := im_tasks n @ [t]\<rparr>"

text \<open>\<open>v == k\<close> with a number \<open>k\<close>; the conversions of strings and objects are not modelled.\<close>

fun loose_equals :: "jsval \<Rightarrow> int \<Rightarrow> bool result" where
  "loose_equals (JNum j) k = Inr (j = k)"
| "loose_equals (JBig j) k = Inr (j = k)"
| "loose_equals (JBool b) k = Inr ((if b then 1 else 0) = k)"
| "loose_equals JUndef k = Inr False"
| "loose_equals JNull k = Inr False"
| "loose_equals (JDbl d) k = Inr False"
| "loose_equals _ k = Inl Unmodelled"

text \<open>\<open>exchange.Session.AttestationChallenge\<close>.\<close>

definition exchange_challenge :: "nat option \<Rightarrow> 'a exchange_manager_scheme \<Rightarrow> buffer result" where
  "exchange_challenge exch n = (case exch of
      None \<Rightarrow> Inl TypeError
    | Some x \<Rightarrow> AttestationChallenge (n_sessions n ! e_session (x_exchanges n ! x)))"

section \<open>Handlers\<close>

definition sendCertificateChainResponse ::
  "aead \<Rightarrow> nat option \<Rightarrow> command_path \<Rightarrow> buffer \<Rightarrow> 'a exchange_manager_scheme \<Rightarrow> 'a exchange_manager_scheme result" where
  "sendCertificateChainResponse A exch commandPath certificate n =
     (let json = TemplateCommandCertificateChainResponse (JBuf certificate)
      in rbind (json_stringify (JArr json)) (\<lambda>_.
         sendInvokeCommandResponseData A exch (commandPath\<lparr>cp_commandId := JNum CredentialsCommand_CertificateChainResponse\<rparr>) json n))"

definition onCertificateChainRequest ::
  "aead \<Rightarrow> message \<Rightarrow> command_path \<Rightarrow> 'a exchange_manager_scheme \<Rightarrow> 'a exchange_manager_scheme result" where
  "onCertificateChainRequest A msg commandPath n =
     rbind (AppPayload msg) (\<lambda>tlv.
     rbind (decode_json tlv) (\<lambda>result.
     rbind (json_stringify result) (\<lambda>_.
     rbind (js_path [0, 2, 0, 1, 0] result) (\<lambda>certificateType.
     rbind (loose_equals certificateType PaiCertificate) (\<lambda>pai.
       sendCertificateChainResponse A (m_exchange msg) commandPath (if pai then TEST_PAI_CERTIFICATE else TEST_DAC_CERTIFICATE) n)))))"

definition sendAttestationResponse ::
  "aead \<Rightarrow> signer \<Rightarrow> nat option \<Rightarrow> command_path \<Rightarrow> jsval \<Rightarrow> 'a exchange_manager_scheme \<Rightarrow> 'a exchange_manager_scheme result" where
  "sendAttestationResponse A sign exch commandPath attestationNonce n =
     rbind (writer_encode (TemplateAttestationElements (JBuf TEST_CERTIFICATION_DECLARATION) attestationNonce (JNum 0))) (\<lambda>attestationElements.
     rbind (exchange_challenge exch n) (\<lambda>attestationChallenge.
     rbind (sign (attestationElements @ attestationChallenge) TEST_DAC_PRIVKEY) (\<lambda>attestationSignature.
       sendInvokeCommandResponseData A exch (commandPath\<lparr>cp_commandId := JNum CredentialsCommand_AttestationResponse\<rparr>)
         (TemplateCommandAttestationResponse (JBuf attestationElements) (JBuf attestationSignature)) n)))"

definition onAttestationRequest ::
  "aead \<Rightarrow> signer \<Rightarrow> message \<Rightarrow> command_path \<Rightarrow> 'a exchange_manager_scheme \<Rightarrow> 'a exchange_manager_scheme result" where
  "onAttestationRequest A sign msg commandPath n =
     rbind (AppPayload msg) (\<lambda>tlv.
     rbind (decode_json tlv) (\<lambda>result.
     rbind (js_path [0, 2, 0, 1, 0] result) (\<lambda>attestationNonce.
     rbind (to_string_hex attestationNonce) (\<lambda>_.
       sendAttestationResponse A sign (m_exchange msg) (commandPath\<lparr>cp_commandId := JNum CredentialsCommand_AttestationResponse\<rparr>)
         attestationNonce n))))"

text \<open>\<open>sendCsrResponse\<close> up to its \<open>await\<close>, and from it on with the CSR and the stored device key.\<close>

definition sendCsrResponse :: "nat option \<Rightarrow> command_path \<Rightarrow> jsval \<Rightarrow> 'a im_node_scheme \<Rightarrow> 'a im_node_scheme result" where
  "sendCsrResponse exch commandPath csrNonce n = Inr (push_im_task (CsrPending exch commandPath csrNonce) n)"

definition csr_generated ::
  "aead \<Rightarrow> signer \<Rightarrow> 16 word list \<Rightarrow> buffer \<Rightarrow> nat option \<Rightarrow> command_path \<Rightarrow> jsval \<Rightarrow> 'a exchange_manager_scheme \<Rightarrow> 'a exchange_manager_scheme result" where
  "csr_generated A sign storedDaKey csr exch commandPath csrNonce n =
     rbind (writer_encode (TemplateNocsrElements (JBuf csr) csrNonce)) (\<lambda>nocsrElements.
     rbind (exchange_challenge exch n) (\<lambda>attestationChallenge.
     rbind (sign (nocsrElements @ attestationChallenge) (hex_decode storedDaKey)) (\<lambda>attestationSignature.
       sendInvokeCommandResponseData A exch (commandPath\<lparr>cp_commandId := JNum CredentialsCommand_CsrResponse\<rparr>)
         (TemplateCommandCsrResponse (JBuf nocsrElements) (JBuf attestationSignature)) n)))"

definition onCsrRequest :: "message \<Rightarrow> command_path \<Rightarrow> 'a im_node_scheme \<Rightarrow> 'a im_node_scheme result" where
  "onCsrRequest msg commandPath n =
     rbind (AppPayload msg) (\<lambda>tlv.
     rbind (decode_json tlv) (\<lambda>result.
     rbind (js_path [0, 2, 0, 1, 0] result) (\<lambda>csrNonce.
       sendCsrResponse (m_exchange msg) commandPath csrNonce n)))"

definition onAddTrustedRootCertificate ::
  "aead \<Rightarrow> message \<Rightarrow> command_path \<Rightarrow> 'a exchange_manager_scheme \<Rightarrow> 'a exchange_manager_scheme result" where
  "onAddTrustedRootCertificate A msg commandPath n =
     rbind (AppPayload msg) (\<lambda>tlv.
     rbind (decode_json tlv) (\<lambda>result.
     rbind (js_path [0, 2, 0, 1, 0] result) (\<lambda>rootCaTlv.
       sendInvokeCommandResponseStatus A (m_exchange msg) commandPath (JNum 0) n)))"

definition sendNocResponse ::
  "aead \<Rightarrow> nat option \<Rightarrow> command_path \<Rightarrow> jsval \<Rightarrow> jsval \<Rightarrow> 'a exchange_manager_scheme \<Rightarrow> 'a exchange_manager_scheme result" where
  "sendNocResponse A exch commandPath statusCode fabricIndex n =
     (let json = TemplateCommandNocResponse statusCode fabricIndex
      in rbind (json_stringify (JArr json)) (\<lambda>_.
         sendInvokeCommandResponseData A exch (commandPath\<lparr>cp_commandId := JNum CredentialsCommand_NocResponse\<rparr>) json n))"

text \<open>
  \<open>onAddNoc\<close> reads the fields by position, the vendor id at the position of the subject id, and
  answers before \<open>proccessNoc\<close> has decoded the certificate.
\<close>

definition onAddNoc :: "aead \<Rightarrow> message \<Rightarrow> command_path \<Rightarrow> 'a im_node_scheme \<Rightarrow> 'a im_node_scheme result" where
  "onAddNoc A msg commandPath n =
     rbind (AppPayload msg) (\<lambda>tlv.
     rbind (decode_json tlv) (\<lambda>result.
     rbind (js_path [0, 2, 0, 1] result) (\<lambda>addNocData.
     rbind (js_path [0] addNocData) (\<lambda>nocTlv.
     rbind (js_path [1] addNocData) (\<lambda>icac.
     rbind (js_path [2] addNocData) (\<lambda>ipk.
     rbind (js_path [3] addNocData) (\<lambda>adminSubjectId.
     rbind (js_path [3] addNocData) (\<lambda>adminVendorId.
     rbind (to_string_hex nocTlv) (\<lambda>_.
     rbind (sendNocResponse A (m_exchange msg) (commandPath\<lparr>cp_commandId := JNum CredentialsCommand_NocResponse\<rparr>) (JNum 0) (JNum 1) n) (\<lambda>n.
       Inr (push_im_task (NocPending nocTlv) n)))))))))))"

definition Credentials_onCommand ::
  "aead \<Rightarrow> signer \<Rightarrow> message \<Rightarrow> command_path \<Rightarrow> 'a im_node_scheme \<Rightarrow> 'a im_node_scheme result" where
  "Credentials_onCommand A sign msg path n =
     (if cp_commandId path = JNum CredentialsCommand_AttestationRequest then onAttestationRequest A sign msg path n
      else if cp_commandId path = JNum CredentialsCommand_CertificateChainRequest then onCertificateChainRequest A msg path n
      else if cp_commandId path = JNum CredentialsCommand_CsrRequest then onCsrRequest msg path n
      else if cp_commandId path = JNum CredentialsCommand_AddTrustedRootCertificate then onAddTrustedRootCertificate A msg path n
      else if cp_commandId path = JNum CredentialsCommand_AddNoc then onAddNoc A msg path n
      else Inr n)"

text \<open>
  The continuations: \<open>csr\<close> and \<open>noc\<close> are what the promises settle with, an error being a
  rejection that nothing handles.
\<close>

definition run_im_task ::
  "aead \<Rightarrow> signer \<Rightarrow> 16 word list \<Rightarrow> buffer result \<Rightarrow> unit result \<Rightarrow> im_task \<Rightarrow> 'a im_node_scheme \<Rightarrow> 'a im_node_scheme result" where
  "run_im_task A sign storedDaKey csr noc t n = (case t of
      CsrPending exch commandPath csrNonce \<Rightarrow> rbind csr (\<lambda>csr. csr_generated A sign storedDaKey csr exch commandPath csrNonce n)
    | NocPending nocTlv \<Rightarrow> rbind noc (\<lambda>_. Inr n))"

end
