(* ===== verification/Interaction_Model.thy ===== *)
theory Interaction_Model
  imports Cluster_Credentials
begin

text \<open>
  The interaction model protocol: \<open>InteractionModel.js\<close> with the mixins
  \<open>ImReadMixin.js\<close>, \<open>ImCommandMixin.js\<close>, \<open>ImWriteMixin.js\<close> and
  \<open>ImSubscribeMixin.js\<close> of \<open>src/protocols/interaction_model\<close>, and the endpoint table
  \<open>zzz_generated/Endpoints.json\<close> that both dispatchers read. Printing is left out, except
  that \<open>JSON.stringify\<close> throws on a BigInt.
\<close>

section \<open>Endpoints and clusters\<close>

text \<open>The entries are in the order of \<open>for .. in\<close>: the integer keys ascending, then \<open>""\<close>.\<close>

definition Endpoint0 :: "(prop_key \<times> string) list" where
  "Endpoint0 =
     [(IntKey 3, ''ClusterIdentifyServer''), (IntKey 4, ''ClusterGroupsServer''), (IntKey 29, ''ClusterDescriptorServer''),
      (IntKey 30, ''ClusterBindingServer''), (IntKey 31, ''ClusterAccessControlServer''), (IntKey 40, ''ClusterBasicServer''),
      (IntKey 41, ''ClusterOtaSoftwareUpdateProviderClient''), (IntKey 42, ''ClusterOtaSoftwareUpdateRequestorServer''),
      (IntKey 43, ''ClusterLocalizationConfigurationServer''), (IntKey 44, ''ClusterTimeFormatLocalizationServer''),
      (IntKey 45, ''ClusterUnitLocalizationServer''), (IntKey 46, ''ClusterPowerSourceConfigurationServer''),
      (IntKey 47, ''ClusterPowerSourceServer''), (IntKey 48, ''ClusterGeneralCommissioningServer''),
      (IntKey 49, ''ClusterNetworkCommissioningServer''), (IntKey 50, ''ClusterDiagnosticLogsServer''),
      (IntKey 51, ''ClusterGeneralDiagnosticsServer''), (IntKey 52, ''ClusterSoftwareDiagnosticsServer''),
      (IntKey 53, ''ClusterThreadNetworkDiagnosticsServer''), (IntKey 54, ''ClusterWiFiNetworkDiagnosticsServer''),
      (IntKey 55, ''ClusterEthernetNetworkDiagnosticsServer''), (IntKey 60, ''ClusterAdministratorCommissioningServer''),
      (IntKey 62, ''ClusterOperationalCredentialsServer''), (IntKey 63, ''ClusterGroupKeyManagementServer''),
      (IntKey 64, ''ClusterFixedLabelServer''), (IntKey 65, ''ClusterUserLabelServer''),
      (IntKey 1029, ''ClusterRelativeHumidityMeasurementServer''), (IntKey 1295, ''ClusterTestClusterServer'')]"

definition Endpoint1 :: "(prop_key \<times> string) list" where
  "Endpoint1 =
     [(IntKey 3, ''ClusterIdentifyServer''), (IntKey 4, ''ClusterGroupsServer''), (IntKey 5, ''ClusterScenesServer''),
      (IntKey 6, ''ClusterOnOffServer''), (IntKey 7, ''ClusterOnOffSwitchConfigurationServer''),
      (IntKey 8, ''ClusterLevelControlServer''), (IntKey 15, ''ClusterBinaryInputBasicServer''),
      (IntKey 29, ''ClusterDescriptorServer''), (IntKey 30, ''ClusterBindingServer''), (IntKey 37, ''ClusterBridgedActionsServer''),
      (IntKey 47, ''ClusterPowerSourceServer''), (IntKey 59, ''ClusterSwitchServer''), (IntKey 64, ''ClusterFixedLabelServer''),
      (IntKey 65, ''ClusterUserLabelServer''), (IntKey 69, ''ClusterBooleanStateServer''), (IntKey 80, ''ClusterModeSelectServer''),
      (IntKey 257, ''ClusterDoorLockServer''), (IntKey 258, ''ClusterWindowCoveringServer''),
      (IntKey 259, ''ClusterBarrierControlServer''), (IntKey 512, ''ClusterPumpConfigurationAndControlServer''),
      (IntKey 513, ''ClusterThermostatServer''), (IntKey 514, ''ClusterFanControlServer''),
      (IntKey 516, ''ClusterThermostatUserInterfaceConfigurationServer''), (IntKey 768, ''ClusterColorControlServer''),
      (IntKey 1024, ''ClusterIlluminanceMeasurementServer''), (IntKey 1026, ''ClusterTemperatureMeasurementServer''),
      (IntKey 1027, ''ClusterPressureMeasurementServer''), (IntKey 1028, ''ClusterFlowMeasurementServer''),
      (IntKey 1029, ''ClusterRelativeHumidityMeasurementServer''), (IntKey 1030, ''ClusterOccupancySensingServer''),
      (IntKey 1280, ''ClusterIasZoneServer''), (IntKey 1283, ''ClusterWakeOnLanServer''), (IntKey 1284, ''ClusterChannelServer''),
      (IntKey 1285, ''ClusterTargetNavigatorServer''), (IntKey 1286, ''ClusterMediaPlaybackServer''),
      (IntKey 1287, ''ClusterMediaInputServer''), (IntKey 1288, ''ClusterLowPowerServer''),
      (IntKey 1289, ''ClusterKeypadInputServer''), (IntKey 1290, ''ClusterContentLauncherServer''),
      (IntKey 1291, ''ClusterAudioOutputServer''), (IntKey 1292, ''ClusterApplicationLauncherServer''),
      (IntKey 1293, ''ClusterApplicationBasicServer''), (IntKey 1294, ''ClusterAccountLoginServer''),
      (IntKey 1295, ''ClusterTestClusterServer''), (IntKey 2820, ''ClusterElectricalMeasurementServer'')]"

definition Endpoint2 :: "(prop_key \<times> string) list" where
  "Endpoint2 =
     [(IntKey 4, ''ClusterGroupsServer''), (IntKey 6, ''ClusterOnOffServer''), (IntKey 29, ''ClusterDescriptorServer''),
      (IntKey 47, ''ClusterPowerSourceServer''), (IntKey 1030, ''ClusterOccupancySensingServer''),
      (IntKey 1280, ''ClusterIasZoneServer'')]"

definition Endpoints :: "(prop_key \<times> (prop_key \<times> string) list) list" where
  "Endpoints = [(IntKey 0, Endpoint0), (IntKey 1, Endpoint1), (IntKey 2, Endpoint2), (StrKey [], [])]"

datatype cluster_server =
  ClusterBasicServer | ClusterGeneralCommissioningServer | ClusterNetworkCommissioningServer | ClusterOperationalCredentialsServer

definition ClusterMap :: "(string \<times> cluster_server) list" where
  "ClusterMap =
     [(''ClusterBasicServer'', ClusterBasicServer), (''ClusterGeneralCommissioningServer'', ClusterGeneralCommissioningServer),
      (''ClusterNetworkCommissioningServer'', ClusterNetworkCommissioningServer),
      (''ClusterOperationalCredentialsServer'', ClusterOperationalCredentialsServer)]"

text \<open>\<open>cluster.getAttribute(id)\<close>; the operational credentials server has no such method.\<close>

fun cluster_getAttribute :: "cluster_server \<Rightarrow> jsval \<Rightarrow> attribute option result" where
  "cluster_getAttribute ClusterBasicServer i = Basic_getAttribute i"
| "cluster_getAttribute ClusterGeneralCommissioningServer i = General_getAttribute i"
| "cluster_getAttribute ClusterNetworkCommissioningServer i = Network_getAttribute i"
| "cluster_getAttribute ClusterOperationalCredentialsServer i = Inl TypeError"

fun cluster_onCommand ::
  "aead \<Rightarrow> signer \<Rightarrow> cluster_server \<Rightarrow> message \<Rightarrow> command_path \<Rightarrow> 'a im_node_scheme \<Rightarrow> 'a im_node_scheme result" where
  "cluster_onCommand A sign ClusterBasicServer msg path n = Basic_onCommand msg path n"
| "cluster_onCommand A sign ClusterGeneralCommissioningServer msg path n = General_onCommand A msg path n"
| "cluster_onCommand A sign ClusterNetworkCommissioningServer msg path n = Network_onCommand msg path n"
| "cluster_onCommand A sign ClusterOperationalCredentialsServer msg path n = Credentials_onCommand A sign msg path n"

section \<open>Commands\<close>

text \<open>\<open>Endpoints[endpointId][clusterId]\<close>: an endpoint that is not in the table is a \<open>TypeError\<close>.\<close>

definition cluster_class :: "jsval \<Rightarrow> jsval \<Rightarrow> string option result" where
  "cluster_class endpointId clusterId =
     rbind (js_lookup Endpoints endpointId) (\<lambda>clusters. case clusters of
         None \<Rightarrow> Inl TypeError
       | Some clusters \<Rightarrow> js_lookup clusters clusterId)"

definition cluster_of :: "string option \<Rightarrow> cluster_server option" where
  "cluster_of clusterClass = Option.bind clusterClass (map_of ClusterMap)"

definition invoke_command :: "aead \<Rightarrow> signer \<Rightarrow> message \<Rightarrow> jsval \<Rightarrow> 'a im_node_scheme \<Rightarrow> 'a im_node_scheme result" where
  "invoke_command A sign msg command n =
     rbind (prop_value command) (\<lambda>value.
     rbind (findTag value CommandDataIB_Path) (\<lambda>pathTlv.
     rbind (new_CommandPath pathTlv) (\<lambda>path.
     rbind (findTag value CommandDataIB_Data) (\<lambda>commandData.
     rbind (json_stringify commandData) (\<lambda>_.
     rbind (cluster_class (cp_endpointId path) (cp_clusterId path)) (\<lambda>clusterClass.
       case cluster_of clusterClass of
         None \<Rightarrow> Inr n
       | Some cluster \<Rightarrow> cluster_onCommand A sign cluster msg path n))))))"

definition onInvokeCommandRequest :: "aead \<Rightarrow> signer \<Rightarrow> message \<Rightarrow> 'a im_node_scheme \<Rightarrow> 'a im_node_scheme result" where
  "onInvokeCommandRequest A sign msg n =
     rbind (AppPayload msg) (\<lambda>tlv.
     rbind (decode_json tlv) (\<lambda>result.
     rbind (json_stringify result) (\<lambda>_.
     rbind (js_path [0] result) (\<lambda>params.
     rbind (findTag params InvokeRequestMessage_SuppressResponse) (\<lambda>suppressResponse.
     rbind (findTag params InvokeRequestMessage_TimedRequest) (\<lambda>timedRequest.
     rbind (findTag params InvokeRequestMessage_CommandList) (\<lambda>commandList.
     rbind (js_elements commandList) (\<lambda>commands.
       rfold (invoke_command A sign msg) commands n))))))))"

section \<open>Reads\<close>

definition ReadRequestMessage_AttributeRequests :: int where "ReadRequestMessage_AttributeRequests = 0"
definition ReadRequestMessage_EventRequests :: int where "ReadRequestMessage_EventRequests = 1"
definition ReadRequestMessage_EventFilters :: int where "ReadRequestMessage_EventFilters = 2"
definition ReadRequestMessage_FabricFiltered :: int where "ReadRequestMessage_FabricFiltered = 3"
definition ReadRequestMessage_DataVersionFilters :: int where "ReadRequestMessage_DataVersionFilters = 4"
definition ReportDataMessage_SubscriptionID :: int where "ReportDataMessage_SubscriptionID = 0"
definition ReportDataMessage_AttributeReports :: int where "ReportDataMessage_AttributeReports = 1"
definition ReportDataMessage_EventReports :: int where "ReportDataMessage_EventReports = 2"
definition ReportDataMessage_MoreChunkedMessages :: int where "ReportDataMessage_MoreChunkedMessages = 3"

definition getAttributeOnEndpoint :: "jsval \<Rightarrow> attribute_path \<Rightarrow> attribute option result" where
  "getAttributeOnEndpoint endpointId path =
     rbind (cluster_class endpointId (ap_clusterId path)) (\<lambda>clusterClass.
       case cluster_of clusterClass of
         None \<Rightarrow> Inr None
       | Some cluster \<Rightarrow> cluster_getAttribute cluster (ap_attributeId path))"

definition reportAttribute :: "attribute \<Rightarrow> attribute_path \<Rightarrow> tlv_writer \<Rightarrow> tlv_writer result" where
  "reportAttribute attr path w =
     rbind (putStructStart None None w) (\<lambda>w.
     rbind (putStructStart (Some 1) None w) (\<lambda>w.
     rbind (putUnsignedInt (JNum 0x79cea838) (Some 0) None w) (\<lambda>w.
     rbind (attribute_path_serialize path 1 w) (\<lambda>w.
     rbind (put (at_value attr) (Some 2) None w) (\<lambda>w.
     rbind (putContainerEnd w) putContainerEnd)))))"

text \<open>\<open>Number(key)\<close>: the empty key is the number 0; the table has no other key that is no integer.\<close>

fun key_number :: "prop_key \<Rightarrow> jsval result" where
  "key_number (IntKey k) = Inr (JNum k)"
| "key_number (StrKey s) = (if s = [] then Inr (JNum 0) else Inl Unmodelled)"

text \<open>One turn of the wildcard loop; \<open>path\<close> is one object that the loop changes.\<close>

definition read_wildcard_at :: "prop_key \<Rightarrow> attribute_path \<times> tlv_writer \<Rightarrow> (attribute_path \<times> tlv_writer) result" where
  "read_wildcard_at key = (\<lambda>(path, w).
     rbind (key_number key) (\<lambda>key.
     rbind (getAttributeOnEndpoint key path) (\<lambda>attr. case attr of
         None \<Rightarrow> Inr (path, w)
       | Some attr \<Rightarrow> (let path = path\<lparr>ap_endpointId := key\<rparr> in rmap (Pair path) (reportAttribute attr path w)))))"

definition read_entry :: "jsval \<Rightarrow> tlv_writer \<Rightarrow> tlv_writer result" where
  "read_entry entry w =
     rbind (prop_value entry) (\<lambda>value.
     rbind (new_AttributePath value) (\<lambda>path.
       if \<not> is_nullish (ap_endpointId path) then
         rbind (getAttributeOnEndpoint (ap_endpointId path) path) (\<lambda>attr. case attr of
             None \<Rightarrow> Inr w
           | Some attr \<Rightarrow> reportAttribute attr path w)
       else rmap snd (rfold read_wildcard_at (map fst Endpoints) (path, w))))"

definition onReadRequest :: "aead \<Rightarrow> message \<Rightarrow> 'a exchange_manager_scheme \<Rightarrow> 'a exchange_manager_scheme result" where
  "onReadRequest A msg n =
     rbind (AppPayload msg) (\<lambda>tlv.
     rbind (decode_json tlv) (\<lambda>result.
     rbind (json_stringify result) (\<lambda>_.
     rbind (js_path [0] result) (\<lambda>params.
     rbind (findTag params ReadRequestMessage_AttributeRequests) (\<lambda>attrList.
     rbind (putStructStart None None new_writer) (\<lambda>w.
     rbind (putArrayStart (Some ReportDataMessage_AttributeReports) None w) (\<lambda>w.
     rbind (js_elements attrList) (\<lambda>entries.
     rbind (rfold read_entry entries w) (\<lambda>w.
     rbind (putContainerEnd w) (\<lambda>w.
     rbind (putContainerEnd w) (\<lambda>w. case m_exchange msg of
         None \<Rightarrow> Inl TypeError
       | Some x \<Rightarrow> send_protocol A x IM_PROTOCOL_ID ImCommand_ReportData (tw_buf w) n)))))))))))"

section \<open>The protocol object\<close>

text \<open>The handlers that only print.\<close>

definition onReportData :: "message \<Rightarrow> 'n \<Rightarrow> 'n result" where "onReportData msg n = Inr n"
definition onStatusResponse :: "message \<Rightarrow> 'n \<Rightarrow> 'n result" where "onStatusResponse msg n = Inr n"
definition onInvokeCommandResponse :: "message \<Rightarrow> 'n \<Rightarrow> 'n result" where "onInvokeCommandResponse msg n = Inr n"
definition onWriteRequest :: "message \<Rightarrow> 'n \<Rightarrow> 'n result" where "onWriteRequest msg n = Inr n"
definition onWriteResponse :: "message \<Rightarrow> 'n \<Rightarrow> 'n result" where "onWriteResponse msg n = Inr n"
definition onTimedRequest :: "message \<Rightarrow> 'n \<Rightarrow> 'n result" where "onTimedRequest msg n = Inr n"
definition onSubscribeRequest :: "message \<Rightarrow> 'n \<Rightarrow> 'n result" where "onSubscribeRequest msg n = Inr n"
definition onSubscribeResponse :: "message \<Rightarrow> 'n \<Rightarrow> 'n result" where "onSubscribeResponse msg n = Inr n"

definition im_opcodeName :: "int \<Rightarrow> string" where
  "im_opcodeName opcode =
     (if opcode = ImCommand_StatusResponse then ''StatusResponse''
      else if opcode = ImCommand_ReadRequest then ''ReadRequest''
      else if opcode = ImCommand_SubscribeRequest then ''SubscribeRequest''
      else if opcode = ImCommand_SubscribeResponse then ''SubscribeResponse''
      else if opcode = ImCommand_ReportData then ''ReportData''
      else if opcode = ImCommand_WriteRequest then ''WriteRequest''
      else if opcode = ImCommand_WriteResponse then ''WriteResponse''
      else if opcode = ImCommand_CommandRequest then ''InvokeCommandRequest''
      else if opcode = ImCommand_CommandResponse then ''InvokeCommandResponse''
      else if opcode = ImCommand_TimedRequest then ''TimedRequest''
      else ''Unknown'')"

definition im_onProtocolMessage :: "aead \<Rightarrow> signer \<Rightarrow> message \<Rightarrow> 'a im_node_scheme \<Rightarrow> 'a im_node_scheme result" where
  "im_onProtocolMessage A sign msg n =
     rbind (ProtocolOpcode msg) (\<lambda>opcode. rbind (ExchangeId msg) (\<lambda>_.
       if opcode = ImCommand_StatusResponse then onStatusResponse msg n
       else if opcode = ImCommand_ReadRequest then onReadRequest A msg n
       else if opcode = ImCommand_SubscribeRequest then onSubscribeRequest msg n
       else if opcode = ImCommand_SubscribeResponse then onSubscribeResponse msg n
       else if opcode = ImCommand_ReportData then onReportData msg n
       else if opcode = ImCommand_WriteRequest then onWriteRequest msg n
       else if opcode = ImCommand_WriteResponse then onWriteResponse msg n
       else if opcode = ImCommand_CommandRequest then onInvokeCommandRequest A sign msg n
       else if opcode = ImCommand_CommandResponse then onInvokeCommandResponse msg n
       else if opcode = ImCommand_TimedRequest then onTimedRequest msg n
       else Inr n))"

text \<open>The listeners of a node that runs both protocols.\<close>

definition node_handlers :: "aead \<Rightarrow> hkdf \<Rightarrow> spake \<Rightarrow> signer \<Rightarrow> 'a im_node_scheme handlers" where
  "node_handlers A kdf S sign =
     \<lparr>h_exchange = emit_exchange A kdf S,
      h_protocol = (\<lambda>pid msg x n.
        if pid = SESSION_PROTOCOL_ID then onProtocolMessage A kdf S msg x n
        else if pid = IM_PROTOCOL_ID then im_onProtocolMessage A sign msg n
        else Inr n)\<rparr>"

end
