(* ===== verification/Interaction_Read.thy ===== *)
theory Interaction_Read
  imports Interaction_Model
begin

text \<open>
  What a read of attributes is answered with: the report of \<open>onReadRequest\<close> as a TLV
  document, for any list of attribute paths.
\<close>

section \<open>Which clusters are served\<close>

definition served_cluster :: "int \<Rightarrow> int \<Rightarrow> cluster_server option" where
  "served_cluster ep cl =
     (if ep \<noteq> 0 then None
      else if cl = BASIC_CLUSTER_ID then Some ClusterBasicServer
      else if cl = GENERAL_COMMISSIONING_CLUSTER_ID then Some ClusterGeneralCommissioningServer
      else if cl = NETWORK_COMMISSIONING_CLUSTER_ID then Some ClusterNetworkCommissioningServer
      else if cl = OPERATIONAL_CREDENTIALS_CLUSTER_ID then Some ClusterOperationalCredentialsServer
      else None)"

lemmas cluster_ids = BASIC_CLUSTER_ID_def GENERAL_COMMISSIONING_CLUSTER_ID_def NETWORK_COMMISSIONING_CLUSTER_ID_def
  OPERATIONAL_CREDENTIALS_CLUSTER_ID_def

text \<open>A key whose name is in a list of names is one of the keys with these names.\<close>

lemma bind_map_of_None:
  assumes "\<forall>p \<in> set xs. g (snd p) = None"
  shows "Option.bind (map_of xs k) g = None"
  using assms by (cases "map_of xs k") (fastforce dest: map_of_SomeD)+

lemma bind_map_of_filter:
  assumes "distinct (map fst xs)"
  shows "Option.bind (map_of xs k) g = Option.bind (map_of (filter (\<lambda>p. g (snd p) \<noteq> None) xs) k) g"
proof (cases "map_of xs k")
  case (Some v)
  then have "map_of (filter (\<lambda>p. g (snd p) \<noteq> None) xs) k = (if g v \<noteq> None then Some v else None)"
    using assms by (induction xs) (auto simp: map_of_eq_None_iff dest!: map_of_SomeD split: if_splits)
  with Some show ?thesis by simp
next
  case None
  then have "map_of (filter (\<lambda>p. g (snd p) \<noteq> None) xs) k = None" by (auto simp: map_of_eq_None_iff)
  with None show ?thesis by simp
qed

lemma endpoint0_clusters: "cluster_of (map_of Endpoint0 (IntKey cl)) = served_cluster 0 cl"
proof -
  have "filter (\<lambda>p. map_of ClusterMap (snd p) \<noteq> None) Endpoint0 =
    [(IntKey 40, ''ClusterBasicServer''), (IntKey 48, ''ClusterGeneralCommissioningServer''),
     (IntKey 49, ''ClusterNetworkCommissioningServer''), (IntKey 62, ''ClusterOperationalCredentialsServer'')]"
    by code_simp
  moreover have "distinct (map fst Endpoint0)" by code_simp
  ultimately show ?thesis
    using bind_map_of_filter [of Endpoint0 "IntKey cl" "map_of ClusterMap"]
    by (simp add: cluster_of_def served_cluster_def cluster_ids ClusterMap_def)
qed

lemma other_endpoint_clusters: "cluster_of (map_of Endpoint1 k) = None" "cluster_of (map_of Endpoint2 k) = None"
proof -
  have "\<forall>p \<in> set Endpoint1. map_of ClusterMap (snd p) = None" "\<forall>p \<in> set Endpoint2. map_of ClusterMap (snd p) = None"
    by code_simp+
  then show "cluster_of (map_of Endpoint1 k) = None" "cluster_of (map_of Endpoint2 k) = None"
    unfolding cluster_of_def by (simp_all add: bind_map_of_None)
qed

lemma js_lookup_num [simp]: "js_lookup table (JNum k) = Inr (map_of table (IntKey k))"
  by (simp add: js_lookup_def)

lemma cluster_class_num:
  "cluster_class (JNum ep) (JNum cl) =
    (if ep = 0 then Inr (map_of Endpoint0 (IntKey cl)) else if ep = 1 then Inr (map_of Endpoint1 (IntKey cl))
     else if ep = 2 then Inr (map_of Endpoint2 (IntKey cl)) else Inl TypeError)"
  by (simp add: cluster_class_def Endpoints_def)

lemma dispatch_cluster:
  assumes "ep \<in> {0, 1, 2}"
  shows "\<exists>c. cluster_class (JNum ep) (JNum cl) = Inr c \<and> cluster_of c = served_cluster ep cl"
  using assms endpoint0_clusters other_endpoint_clusters
  by (auto simp: cluster_class_num served_cluster_def)

section \<open>Reports\<close>

text \<open>The element that \<open>put\<close> writes for a value under tag 2.\<close>

definition value_elem :: "jsval \<Rightarrow> telem option" where
  "value_elem v = (case v of
      JObj p t ty u nm \<Rightarrow> telem_of (JObj None (Some 2) ty u nm)
    | _ \<Rightarrow> map_option (TLeaf None (Some 2)) (raw_leaf v))"

definition report_elem :: "int \<Rightarrow> int \<Rightarrow> int \<Rightarrow> telem \<Rightarrow> telem" where
  "report_elem ep cl at v = TNode None None CStruct [TNode None (Some 1) CStruct
     [leaf1 0 (TUnsigned 0x79cea838),
      TNode None (Some 1) CList [leaf1 2 (TUnsigned ep), leaf1 3 (TUnsigned cl), leaf1 4 (TUnsigned at)], v]]"

lemma put_value_elem:
  assumes "value_elem v = Some e" and "wf_telem e"
  shows "put v (Some 2) None w = Inr (emit (tlv_bytes e) w)"
proof (cases v)
  case (JObj p t ty u nm)
  then have "telem_of (JObj None (Some 2) ty u nm) = Some e" using assms(1) by (simp only: value_elem_def jsval.case)
  from encode_telem [OF this assms(2)] show ?thesis by (simp only: JObj put.simps)
qed (use assms in \<open>auto simp: value_elem_def put_raw_leaf simp del: put.simps\<close>)

definition num_attribute_path :: "jsval \<Rightarrow> int \<Rightarrow> int \<Rightarrow> attribute_path" where
  "num_attribute_path ep cl at =
     \<lparr>ap_tagCompression = JUndef, ap_nodeId = JUndef, ap_endpointId = ep, ap_clusterId = JNum cl, ap_attributeId = JNum at\<rparr>"

lemma num_attribute_path_endpoint [simp]: "ap_endpointId (num_attribute_path ep cl at) = ep"
  by (simp add: num_attribute_path_def)

lemma put_id_num:
  assumes "id_range k" and "0 \<le> t" and "t < 256"
  shows "put_id (JNum k) t w = Inr (emit (tlv_bytes (leaf1 t (TUnsigned k))) w)"
  using assms putUnsignedInt_leaf [of "Some t" None k "JNum k" w] by (simp add: put_id_def is_nullish_def leaf1_def wf_tag_def id_range_def)

lemma reportAttribute_emits:
  assumes "id_range ep" and "id_range cl" and "id_range at" and "value_elem (at_value attr) = Some v" and "wf_telem v"
  shows "reportAttribute attr (num_attribute_path (JNum ep) cl at) w = Inr (emit (tlv_bytes (report_elem ep cl at v)) w)"
proof -
  have "putUnsignedInt (JNum 0x79cea838) (Some 0) None w = Inr (emit (tlv_bytes (leaf1 0 (TUnsigned 0x79cea838))) w)" for w
    unfolding leaf1_def by (rule putUnsignedInt_leaf) (simp_all add: wf_tag_def)
  moreover have "wf_tag (Some 1) None" by (simp add: wf_tag_def)
  ultimately show ?thesis
    using assms put_value_elem [OF assms(4,5)]
    by (simp add: reportAttribute_def attribute_path_serialize_def num_attribute_path_def attribute_path_tags putStart_ok put_id_num
        report_elem_def del: leaf_type.simps leaf_bytes.simps) (simp add: put_id_def is_nullish_def)
qed

text \<open>The attribute of a served cluster, and what is reported of it.\<close>

fun served_attribute :: "cluster_server \<Rightarrow> int \<Rightarrow> attribute option" where
  "served_attribute ClusterBasicServer at = map_of Basic_attributes (IntKey at)"
| "served_attribute ClusterGeneralCommissioningServer at = map_of General_attributes (IntKey at)"
| "served_attribute ClusterNetworkCommissioningServer at = map_of Network_attributes (IntKey at)"
| "served_attribute ClusterOperationalCredentialsServer at = None"

definition reports_at :: "int \<Rightarrow> int \<Rightarrow> int \<Rightarrow> telem list" where
  "reports_at ep cl at = (case Option.bind (served_cluster ep cl) (\<lambda>c. served_attribute c at) of
      None \<Rightarrow> []
    | Some attr \<Rightarrow> [report_elem ep cl at (the (value_elem (at_value attr)))])"

lemma attribute_values:
  "\<forall>p \<in> set (Basic_attributes @ General_attributes @ Network_attributes).
     case value_elem (at_value (snd p)) of None \<Rightarrow> False | Some v \<Rightarrow> wf_telem v"
  by code_simp

lemma served_value:
  assumes "served_attribute c at = Some attr"
  shows "\<exists>v. value_elem (at_value attr) = Some v \<and> wf_telem v"
proof -
  have "(IntKey at, attr) \<in> set (Basic_attributes @ General_attributes @ Network_attributes)"
    using assms by (cases c) (auto dest: map_of_SomeD)
  with attribute_values show ?thesis by (fastforce split: option.splits)
qed

lemma getAttribute_num:
  assumes "c \<noteq> ClusterOperationalCredentialsServer"
  shows "cluster_getAttribute c (JNum at) = Inr (served_attribute c at)"
  using assms by (cases c) (simp_all add: basic_attributes.num general_attributes.num network_attributes.num)

text \<open>A path that reads no attribute of the operational credentials server.\<close>

definition readable :: "int \<Rightarrow> int \<Rightarrow> bool" where
  "readable ep cl \<longleftrightarrow> ep \<in> {0, 1, 2} \<and> served_cluster ep cl \<noteq> Some ClusterOperationalCredentialsServer"

lemma getAttributeOnEndpoint_num:
  assumes "readable ep cl"
  shows "getAttributeOnEndpoint (JNum ep) (num_attribute_path e cl at) = Inr (Option.bind (served_cluster ep cl) (\<lambda>c. served_attribute c at))"
proof -
  from assms obtain k where "cluster_class (JNum ep) (JNum cl) = Inr k" "cluster_of k = served_cluster ep cl"
    using dispatch_cluster [of ep cl] by (auto simp: readable_def)
  with assms show ?thesis
    by (auto simp: getAttributeOnEndpoint_def num_attribute_path_def readable_def getAttribute_num split: option.split)
qed

lemma report_at:
  assumes "readable ep cl" and "id_range ep" and "id_range cl" and "id_range at"
  shows "rbind (getAttributeOnEndpoint (JNum ep) (num_attribute_path e cl at)) (\<lambda>attr. case attr of
      None \<Rightarrow> Inr w
    | Some attr \<Rightarrow> reportAttribute attr (num_attribute_path (JNum ep) cl at) w) =
    Inr (emit (concat (map tlv_bytes (reports_at ep cl at))) w)"
proof (cases "Option.bind (served_cluster ep cl) (\<lambda>c. served_attribute c at)")
  case None
  then show ?thesis using assms(1) by (simp add: getAttributeOnEndpoint_num reports_at_def)
next
  case (Some attr)
  then obtain c where "served_attribute c at = Some attr" by (auto simp: bind_eq_Some_conv)
  with served_value obtain v where "value_elem (at_value attr) = Some v" "wf_telem v" by blast
  then show ?thesis using Some assms by (simp add: getAttributeOnEndpoint_num reports_at_def reportAttribute_emits)
qed

section \<open>The read request\<close>

text \<open>A path: no endpoint for all of them, a cluster and an attribute.\<close>

type_synonym read_path = "int option \<times> int \<times> int"

fun read_path_elem :: "read_path \<Rightarrow> telem" where
  "read_path_elem (ep, cl, at) = TNode None None CList
     ((case ep of None \<Rightarrow> [] | Some e \<Rightarrow> [leaf1 2 (TUnsigned e)]) @ [leaf1 3 (TUnsigned cl), leaf1 4 (TUnsigned at)])"

definition read_request_elem :: "read_path list \<Rightarrow> telem" where
  "read_request_elem paths = TNode None None CStruct [TNode None (Some 0) CArray (map read_path_elem paths)]"

definition report_data_elem :: "telem list \<Rightarrow> telem" where
  "report_data_elem es = TNode None None CStruct [TNode None (Some 1) CArray es]"

text \<open>A wildcard visits the keys 0, 1, 2 and the empty key, which is the number 0 again.\<close>

fun path_reports :: "read_path \<Rightarrow> telem list" where
  "path_reports (Some ep, cl, at) = reports_at ep cl at"
| "path_reports (None, cl, at) = reports_at 0 cl at @ reports_at 0 cl at"

fun read_path_ok :: "read_path \<Rightarrow> bool" where
  "read_path_ok (ep, cl, at) \<longleftrightarrow> readable (case ep of None \<Rightarrow> 0 | Some e \<Rightarrow> e) cl \<and> id_range cl \<and> id_range at"

fun read_path_range :: "read_path \<Rightarrow> bool" where
  "read_path_range (ep, cl, at) \<longleftrightarrow> (\<forall>e. ep = Some e \<longrightarrow> id_range e) \<and> id_range cl \<and> id_range at"

lemma readable_range: "readable ep cl \<Longrightarrow> id_range ep"
  by (auto simp: readable_def id_range_def)

lemma new_path_num:
  assumes "id_range cl" and "id_range at" and "\<forall>e. ep = Some e \<longrightarrow> id_range e"
  shows "prop_value (tlv_json (read_path_elem (ep, cl, at))) = Inr v \<Longrightarrow>
    new_AttributePath v = Inr (num_attribute_path (case ep of None \<Rightarrow> JUndef | Some e \<Rightarrow> JNum e) cl at)"
  using assms by (auto simp: new_AttributePath_def is_nullish_def attribute_path_tags leaf1_def num_attribute_path_def id_range_def split: option.splits)

lemma path_set_endpoint: "(num_attribute_path e cl at)\<lparr>ap_endpointId := e'\<rparr> = num_attribute_path e' cl at"
  by (simp add: num_attribute_path_def)

lemma wildcard_turn:
  assumes "key_number key = Inr (JNum k)" and "readable k cl" and "id_range cl" and "id_range at"
  shows "\<exists>e'. read_wildcard_at key (num_attribute_path e cl at, w) =
    Inr (num_attribute_path e' cl at, emit (concat (map tlv_bytes (reports_at k cl at))) w)"
  using report_at [OF assms(2) readable_range [OF assms(2)] assms(3,4), of e w] getAttributeOnEndpoint_num [OF assms(2), of e at] assms(1)
  by (cases "Option.bind (served_cluster k cl) (\<lambda>c. served_attribute c at)")
    (auto simp: read_wildcard_at_def path_set_endpoint simp del: rbind_eq_Inr)

lemma wildcard_turns:
  assumes "list_all2 (\<lambda>key k. key_number key = Inr (JNum k) \<and> readable k cl) keys ks" and "id_range cl" and "id_range at"
  shows "\<exists>e'. rfold read_wildcard_at keys (num_attribute_path e cl at, w) =
    Inr (num_attribute_path e' cl at, emit (concat (map (\<lambda>k. concat (map tlv_bytes (reports_at k cl at))) ks)) w)"
  using assms(1)
proof (induction keys ks arbitrary: e w rule: list_all2_induct)
  case Nil
  then show ?case by auto
next
  case (Cons key keys k ks)
  obtain e1 where "read_wildcard_at key (num_attribute_path e cl at, w) =
      Inr (num_attribute_path e1 cl at, emit (concat (map tlv_bytes (reports_at k cl at))) w)"
    using wildcard_turn Cons.hyps assms(2,3) by blast
  with Cons.IH [of e1 "emit (concat (map tlv_bytes (reports_at k cl at))) w"] show ?case by auto
qed

lemma reports_elsewhere: "ep \<noteq> 0 \<Longrightarrow> reports_at ep cl at = []"
  by (simp add: reports_at_def served_cluster_def)

lemma read_entry_emits:
  assumes "read_path_ok path"
  shows "read_entry (tlv_json (read_path_elem path)) w = Inr (emit (concat (map tlv_bytes (path_reports path))) w)"
proof -
  obtain ep cl at where p: "path = (ep, cl, at)" by (cases path) auto
  let ?e = "case ep of None \<Rightarrow> JUndef | Some e \<Rightarrow> JNum e"
  have r: "id_range cl" "id_range at" "\<forall>e. ep = Some e \<longrightarrow> id_range e" using assms p readable_range by (auto split: option.splits)
  obtain v where v: "prop_value (tlv_json (read_path_elem (ep, cl, at))) = Inr v" by simp
  have n: "new_AttributePath v = Inr (num_attribute_path ?e cl at)" using new_path_num [OF r v] .
  show ?thesis
  proof (cases ep)
    case (Some e)
    then have "readable e cl" using assms p by simp
    from report_at [OF this readable_range [OF this] r(1,2), of "JNum e" w] show ?thesis
      using n v p Some by (simp add: read_entry_def is_nullish_def del: read_path_elem.simps tlv_json.simps rbind_eq_Inr)
  next
    case None
    then have "readable 0 cl" using assms p by simp
    moreover have "readable 1 cl" "readable 2 cl" by (simp_all add: readable_def served_cluster_def)
    ultimately have "list_all2 (\<lambda>key k. key_number key = Inr (JNum k) \<and> readable k cl) (map fst Endpoints) [0, 1, 2, 0]"
      by (simp add: Endpoints_def)
    from wildcard_turns [OF this r(1,2), of JUndef w] show ?thesis
      using n v p None by (auto simp: read_entry_def is_nullish_def reports_elsewhere simp del: read_path_elem.simps tlv_json.simps)
  qed
qed

lemma read_entries_emit:
  assumes "list_all read_path_ok paths"
  shows "rfold read_entry (map (tlv_json \<circ> read_path_elem) paths) w = Inr (emit (concat (map tlv_bytes (concat (map path_reports paths)))) w)"
  using assms by (induction paths arbitrary: w) (simp_all add: read_entry_emits del: read_path_elem.simps)

lemma read_path_ok_range: "read_path_ok p \<Longrightarrow> read_path_range p"
  using readable_range by (cases p) (auto split: option.splits)

lemma read_request_clean:
  assumes "list_all read_path_range paths"
  shows "wf_telem (read_request_elem paths)" "\<not> has_bigint (tlv_json (read_request_elem paths))"
proof -
  have "wf_telem (read_path_elem p) \<and> \<not> has_bigint (tlv_json (read_path_elem p))" if "p \<in> set paths" for p
  proof -
    obtain ep cl at where p: "p = (ep, cl, at)" by (cases p) auto
    have "read_path_range p" using assms that by (simp add: list_all_iff)
    then show ?thesis using p by (auto simp: leaf1_def wf_tag_def id_range_def split: option.splits)
  qed
  then show "wf_telem (read_request_elem paths)" "\<not> has_bigint (tlv_json (read_request_elem paths))"
    by (auto simp: read_request_elem_def list_all_iff list_ex_iff wf_tag_def simp del: read_path_elem.simps)
qed

text \<open>The handler on a request in canonical form: its loop, then the closing of the report.\<close>

lemma onReadRequest_loop:
  assumes "AppPayload msg = Inr (tlv_bytes (read_request_elem paths))" and "list_all read_path_range paths" and "m_exchange msg = Some x"
  shows "onReadRequest A msg n =
    rbind (rfold read_entry (map (tlv_json \<circ> read_path_elem) paths)
        (emit ([control_octet (container_type CStruct) None None] @ control_octet (container_type CArray) (Some 1) None # tag_field (Some 1) None) new_writer))
      (\<lambda>w. send_protocol A x IM_PROTOCOL_ID ImCommand_ReportData (tw_buf w @ [end_octet, end_octet]) n)"
proof -
  note c = read_request_clean [OF assms(2)]
  have d: "decode_json (tlv_bytes (read_request_elem paths)) = Inr (JArr [tlv_json (read_request_elem paths)])" by (rule decode_telem [OF c(1)])
  have s: "json_stringify (JArr [tlv_json (read_request_elem paths)]) = Inr ()" using c(2) by (simp add: json_stringify_def)
  have p: "js_path [0] (JArr [tlv_json (read_request_elem paths)]) = Inr (JArr [tlv_json (TNode None (Some 0) CArray (map read_path_elem paths))])"
    by (simp add: read_request_elem_def)
  have e: "tw_buf (emit bs w) = tw_buf w @ bs" for bs w by (simp add: emit_def)
  show ?thesis
    by (simp add: onReadRequest_def assms(1,3) d s p putStart_ok wf_tag_def ReadRequestMessage_AttributeRequests_def
        ReportDataMessage_AttributeReports_def e del: js_path.simps rbind_eq_Inr)
qed

lemma getAttributeOnEndpoint_throws:
  assumes "\<not> readable ep cl"
  shows "getAttributeOnEndpoint (JNum ep) (num_attribute_path e cl at) = Inl TypeError"
proof (cases "ep \<in> {0, 1, 2}")
  case True
  then obtain k where "cluster_class (JNum ep) (JNum cl) = Inr k" "cluster_of k = Some ClusterOperationalCredentialsServer"
    using dispatch_cluster [of ep cl] assms by (auto simp: readable_def)
  then show ?thesis by (simp add: getAttributeOnEndpoint_def num_attribute_path_def)
qed (simp add: getAttributeOnEndpoint_def num_attribute_path_def cluster_class_num)

lemma read_entry_throws:
  assumes "read_path_range path" and "\<not> read_path_ok path"
  shows "read_entry (tlv_json (read_path_elem path)) w = Inl TypeError"
proof -
  obtain ep cl at where p: "path = (ep, cl, at)" by (cases path) auto
  let ?e = "case ep of None \<Rightarrow> JUndef | Some e \<Rightarrow> JNum e" and ?k = "case ep of None \<Rightarrow> 0 | Some e \<Rightarrow> e"
  have r: "id_range cl" "id_range at" "\<forall>e. ep = Some e \<longrightarrow> id_range e" using assms(1) p by auto
  have nr: "\<not> readable ?k cl" using assms p by (auto split: option.splits)
  obtain v where v: "prop_value (tlv_json (read_path_elem (ep, cl, at))) = Inr v" by simp
  have n: "new_AttributePath v = Inr (num_attribute_path ?e cl at)" using new_path_num [OF r v] .
  show ?thesis using n v p getAttributeOnEndpoint_throws [OF nr]
    by (cases ep) (simp_all add: read_entry_def is_nullish_def Endpoints_def read_wildcard_at_def del: read_path_elem.simps tlv_json.simps rbind_eq_Inr)
qed

lemma read_entries_throw:
  assumes "list_all read_path_range paths" and "\<not> list_all read_path_ok paths"
  shows "rfold read_entry (map (tlv_json \<circ> read_path_elem) paths) w = Inl TypeError"
  using assms
proof (induction paths arbitrary: w)
  case (Cons p paths)
  then show ?case
    by (cases "read_path_ok p") (simp_all add: read_entry_emits read_entry_throws del: read_path_elem.simps read_path_ok.simps read_path_range.simps)
qed simp

section \<open>Properties\<close>

text \<open>
  (C11) The answer to a read request for any list of attribute paths with numbers of at most 32 bits as
  ids, the endpoint being optional. When each path leads to an endpoint of the table (0, 1 or 2) and none
  to the operational credentials cluster, one report message is sent, whose payload is the document with a
  report for each path whose cluster is served and whose attribute exists, in the order of the request; a
  path without an endpoint is reported for endpoint 0 twice. Otherwise the handler throws a
  \<open>TypeError\<close> and nothing is sent, also for the other paths.
\<close>

theorem read_request_report:
  assumes "AppPayload msg = Inr (tlv_bytes (read_request_elem paths))" and "list_all read_path_range paths" and "m_exchange msg = Some x"
  shows "onReadRequest A msg n =
    (if list_all read_path_ok paths
     then send_protocol A x IM_PROTOCOL_ID ImCommand_ReportData (tlv_bytes (report_data_elem (concat (map path_reports paths)))) n
     else Inl TypeError)"
proof (cases "list_all read_path_ok paths")
  case True
  then show ?thesis using onReadRequest_loop [OF assms(1-3)]
    by (simp add: read_entries_emit report_data_elem_def emit_def new_writer_def buf_alloc_def)
next
  case False
  then show ?thesis using onReadRequest_loop [OF assms(1-3)] read_entries_throw [OF assms(2)] by simp
qed

definition read_message :: "read_path list \<Rightarrow> message" where
  "read_message paths = (on_wire (protocol_wire IM_PROTOCOL_ID ImCommand_ReadRequest (tlv_bytes (read_request_elem paths))) new_message)\<lparr>m_exchange := Some 0\<rparr>"

lemma read_message_payload: "AppPayload (read_message paths) = Inr (tlv_bytes (read_request_elem paths))"
proof -
  let ?w = "protocol_wire IM_PROTOCOL_ID ImCommand_ReadRequest (tlv_bytes (read_request_elem paths))"
  have "read_message paths = on_wire ?w (new_message\<lparr>m_exchange := Some 0\<rparr>)" by (simp add: read_message_def on_wire_def)
  moreover have "wire_ok ?w" by (rule protocol_message_wire(2)) (simp_all add: im_consts)
  ultimately show ?thesis using wire_AppPayload [of ?w] by (simp add: protocol_wire_def zero_wire_def)
qed

text \<open>The vendor id, an absent attribute, a cluster of endpoint 1 without a server, a wildcard read of the breadcrumb.\<close>

theorem read_request_report_witness:
  "onReadRequest toy_aead (read_message [(Some 0, 40, 2), (Some 5, 40, 2)]) demo_exchanges = Inl TypeError \<and>
   onReadRequest toy_aead (read_message [(Some 0, 40, 2), (Some 0, 40, 77), (Some 1, 6, 0), (None, 48, 0)]) demo_exchanges =
    send_protocol toy_aead 0 IM_PROTOCOL_ID ImCommand_ReportData (tlv_bytes (report_data_elem
      [report_elem 0 40 2 (leaf1 2 (TUnsigned 0xFFF1)), report_elem 0 48 0 (leaf1 2 (TUnsigned 0)), report_elem 0 48 0 (leaf1 2 (TUnsigned 0))])) demo_exchanges"
proof -
  let ?p = "[(Some 0, 40, 2), (Some 0, 40, 77), (Some 1, 6, 0), (None, 48, 0)] :: read_path list"
  have "list_all read_path_ok ?p" by (simp add: readable_def served_cluster_def cluster_ids id_range_def)
  moreover have "concat (map path_reports ?p) =
      [report_elem 0 40 2 (leaf1 2 (TUnsigned 0xFFF1)), report_elem 0 48 0 (leaf1 2 (TUnsigned 0)), report_elem 0 48 0 (leaf1 2 (TUnsigned 0))]"
    by code_simp
  moreover from this have "list_all read_path_range ?p" by (simp add: id_range_def)
  moreover have "list_all read_path_range [(Some 0, 40, 2), (Some 5, 40, 2)]" "\<not> list_all read_path_ok [(Some 0, 40, 2), (Some 5, 40, 2)]"
    by (simp_all add: id_range_def readable_def)
  ultimately show ?thesis
    using read_request_report [OF read_message_payload, of ?p 0 toy_aead demo_exchanges]
      read_request_report [OF read_message_payload, of "[(Some 0, 40, 2), (Some 5, 40, 2)]" 0 toy_aead demo_exchanges]
    by (simp add: read_message_def del: path_reports.simps read_path_ok.simps read_path_range.simps)
qed



end
