(* ===== verification/Interaction_Commands.thy ===== *)
theory Interaction_Commands
  imports Interaction_Read
begin

text \<open>
  What an invoke request does: the dispatcher on the octets of a request refines an abstract
  dispatcher on the list of its commands, and the commissioning and credentials commands are
  answered with the documents stated here.
\<close>

section \<open>Requests\<close>

text \<open>A command: endpoint, cluster, command id and the elements of its data.\<close>

type_synonym invoked = "int \<times> int \<times> int \<times> telem list"

fun command_elem :: "invoked \<Rightarrow> telem" where
  "command_elem (ep, cl, cmd, data) = TNode None None CStruct [path_elem ep cl cmd, TNode None (Some 1) CStruct data]"

definition invoke_request_elem :: "invoked list \<Rightarrow> telem" where
  "invoke_request_elem cmds = TNode None None CStruct
     [leaf1 0 (TBool False), leaf1 1 (TBool False), TNode None (Some 2) CArray (map command_elem cmds), leaf1 255 (TUnsigned 1)]"

text \<open>The data of a command may hold anything but integers of 64 bits, which \<open>JSON.stringify\<close> cannot print.\<close>

fun command_ok :: "invoked \<Rightarrow> bool" where
  "command_ok (ep, cl, cmd, data) \<longleftrightarrow> id_range ep \<and> id_range cl \<and> id_range cmd \<and> list_all wf_telem data \<and>
     \<not> list_ex (has_bigint \<circ> tlv_json) data"

fun dispatch :: "aead \<Rightarrow> signer \<Rightarrow> message \<Rightarrow> invoked \<Rightarrow> 'a im_node_scheme \<Rightarrow> 'a im_node_scheme result" where
  "dispatch A sign msg (ep, cl, cmd, data) n =
     (if ep \<notin> {0, 1, 2} then Inl TypeError
      else case served_cluster ep cl of
          None \<Rightarrow> Inr n
        | Some c \<Rightarrow> cluster_onCommand A sign c msg (num_path ep cl cmd) n)"

lemma command_clean:
  assumes "command_ok c"
  shows "wf_telem (command_elem c)" "\<not> has_bigint (tlv_json (command_elem c))"
proof -
  obtain ep cl cmd data where c: "c = (ep, cl, cmd, data)" by (cases c) auto
  then show "wf_telem (command_elem c)" using assms wf_path by (simp add: wf_tag_def)
  show "\<not> has_bigint (tlv_json (command_elem c))"
    using assms c by (auto simp: path_elem_def leaf1_def id_range_def list_ex_iff)
qed

lemma invoke_request_clean:
  assumes "list_all command_ok cmds"
  shows "wf_telem (invoke_request_elem cmds)" "\<not> has_bigint (tlv_json (invoke_request_elem cmds))"
  using assms command_clean
  by (auto simp: invoke_request_elem_def leaf1_def wf_tag_def list_all_iff list_ex_iff simp del: command_elem.simps command_ok.simps)

lemma num_path_fields [simp]:
  "cp_endpointId (num_path ep cl cmd) = JNum ep" "cp_clusterId (num_path ep cl cmd) = JNum cl" "cp_commandId (num_path ep cl cmd) = JNum cmd"
  "(num_path ep cl cmd)\<lparr>cp_commandId := JNum k\<rparr> = num_path ep cl k"
  by (simp_all add: num_path_def)

lemma path_elem_path:
  assumes "id_range ep" and "id_range cl" and "id_range cmd"
  shows "new_CommandPath (JArr (map tlv_json [leaf1 0 (TUnsigned ep), leaf1 1 (TUnsigned cl), leaf1 2 (TUnsigned cmd)])) = Inr (num_path ep cl cmd)"
  using assms by (simp add: new_CommandPath_def is_nullish_def command_path_tags leaf1_def num_path_def id_range_def)

lemma invoke_command_dispatch:
  assumes "command_ok c"
  shows "invoke_command A sign msg (tlv_json (command_elem c)) n = dispatch A sign msg c n"
proof -
  obtain ep cl cmd data where c: "c = (ep, cl, cmd, data)" by (cases c) auto
  have r: "id_range ep" "id_range cl" "id_range cmd" using assms c by auto
  have s: "json_stringify (JArr (map tlv_json data)) = Inr ()" using assms c by (auto simp: json_stringify_def list_ex_iff)
  have "invoke_command A sign msg (tlv_json (command_elem c)) n =
      rbind (cluster_class (JNum ep) (JNum cl)) (\<lambda>k. case cluster_of k of None \<Rightarrow> Inr n
        | Some cluster \<Rightarrow> cluster_onCommand A sign cluster msg (num_path ep cl cmd) n)"
    using path_elem_path [OF r] s by (simp add: c invoke_command_def path_elem_def im_tags del: rbind_eq_Inr)
  then show ?thesis
    using dispatch_cluster [of ep cl] by (cases "ep \<in> {0, 1, 2}") (auto simp: c cluster_class_num)
qed

lemma onInvokeCommandRequest_fold:
  assumes "AppPayload msg = Inr (tlv_bytes (invoke_request_elem cmds))" and "list_all command_ok cmds"
  shows "onInvokeCommandRequest A sign msg n = rfold (dispatch A sign msg) cmds n"
proof -
  note c = invoke_request_clean [OF assms(2)]
  have d: "decode_json (tlv_bytes (invoke_request_elem cmds)) = Inr (JArr [tlv_json (invoke_request_elem cmds)])" by (rule decode_telem [OF c(1)])
  have s: "json_stringify (JArr [tlv_json (invoke_request_elem cmds)]) = Inr ()" using c(2) by (simp add: json_stringify_def)
  have f: "rfold (invoke_command A sign msg) (map (tlv_json \<circ> command_elem) cmds) n = rfold (dispatch A sign msg) cmds n"
    using assms(2) by (induction cmds arbitrary: n) (auto simp: invoke_command_dispatch simp del: command_elem.simps command_ok.simps dispatch.simps intro!: rbind_cong)
  show ?thesis
    using f by (simp add: onInvokeCommandRequest_def assms(1) d s del: rbind_eq_Inr)
      (simp add: invoke_request_elem_def leaf1_def im_tags)
qed

text \<open>
  (C10) The handler of invoke requests refines the abstract dispatcher: on the octets of a request
  with any list of commands it does what dispatching the commands in their order does, each to
  the server of its endpoint and cluster; a command for a cluster without a server is skipped, an
  endpoint outside the table throws and ends the request.
\<close>

theorem invoke_dispatch:
  assumes "AppPayload msg = Inr (tlv_bytes (invoke_request_elem cmds))" and "list_all command_ok cmds"
  shows "onInvokeCommandRequest A sign msg n = rfold (dispatch A sign msg) cmds n"
  using assms by (rule onInvokeCommandRequest_fold)

section \<open>Answers\<close>

lemma command_response:
  assumes "those (map telem_of data) = Some es" and "list_all wf_telem es" and "\<not> list_ex has_bigint data" and "id_range cl" and "id_range k"
  shows "rbind (json_stringify (JArr data)) (\<lambda>_. sendInvokeCommandResponseData A (Some x) (num_path 0 cl k) data n) =
    send_protocol A x IM_PROTOCOL_ID ImCommand_CommandResponse (tlv_bytes (data_elem 0 cl k es)) n"
  using send_data [of 0 cl k data es A x n] assms by (simp add: json_stringify_def id_range_def del: rbind_eq_Inr)

text \<open>The document that answers a command of the general commissioning cluster.\<close>

definition commissioning_response :: "int \<Rightarrow> telem" where
  "commissioning_response cmd =
     (if cmd = GeneralCommand_CommissioningComplete then status_elem 0 GENERAL_COMMISSIONING_CLUSTER_ID cmd 0
      else data_elem 0 GENERAL_COMMISSIONING_CLUSTER_ID (cmd + 1) [leaf1 0 (TUnsigned 0), leaf1 1 (TString [])])"

definition commissioning_commands :: "int set" where
  "commissioning_commands = {GeneralCommand_ArmFailSafe, GeneralCommand_SetRegulatoryConfig, GeneralCommand_CommissioningComplete}"

lemmas general_commands = GeneralCommand_ArmFailSafe_def GeneralCommand_ArmFailSafeResponse_def GeneralCommand_SetRegulatoryConfig_def
  GeneralCommand_SetRegulatoryConfigResponse_def GeneralCommand_CommissioningComplete_def GeneralCommand_CommissioningCompleteResponse_def

lemma general_onCommand:
  assumes "cmd \<in> commissioning_commands" and "m_exchange msg = Some x"
  shows "General_onCommand A msg (num_path 0 GENERAL_COMMISSIONING_CLUSTER_ID cmd) n =
    send_protocol A x IM_PROTOCOL_ID ImCommand_CommandResponse (tlv_bytes (commissioning_response cmd)) n"
proof -
  let ?d = "[jfield 0 ''uint8_t'' (JNum 0), jfield 1 ''string'' (JStr [])]" and ?e = "[leaf1 0 (TUnsigned 0), leaf1 1 (TString [])]"
  have "those (map telem_of ?d) = Some ?e" "list_all wf_telem ?e" "\<not> list_ex has_bigint ?d"
    by (simp_all add: telem_template_simps wf_tag_def is_ascii_def)
  note r = command_response [OF this, of GENERAL_COMMISSIONING_CLUSTER_ID]
  have i: "id_range GENERAL_COMMISSIONING_CLUSTER_ID" "id_range 0" "id_range 4" "id_range 1" "id_range 3"
    by (simp_all add: id_range_def GENERAL_COMMISSIONING_CLUSTER_ID_def)
  consider "cmd = GeneralCommand_ArmFailSafe" | "cmd = GeneralCommand_SetRegulatoryConfig" | "cmd = GeneralCommand_CommissioningComplete"
    using assms(1) by (auto simp: commissioning_commands_def)
  then show ?thesis
  proof cases
    case 1
    with r [OF i(1,4)] assms(2) show ?thesis
      by (simp add: General_onCommand_def onArmFailSafe_def sendArmFailSafeResponse_def TemplateCommandArmFailSafeResponse_def
          commissioning_response_def general_commands Let_def)
  next
    case 2
    with r [OF i(1,5)] assms(2) show ?thesis
      by (simp add: General_onCommand_def onSetRegulatoryConfig_def sendSetRegulatoryConfigResponse_def
          TemplateCommandSetRegulatoryConfigResponse_def commissioning_response_def general_commands Let_def)
  next
    case 3
    with send_status [OF i(2,1,3,2)] assms(2) show ?thesis
      by (simp add: General_onCommand_def onCommissioningComplete_def sendCommissioningCompleteResponse_def
          commissioning_response_def general_commands Let_def)
  qed
qed

section \<open>Across the layers\<close>

text \<open>
  A message sent on an exchange of a secured session: the datagram, and what the other end of
  the session reads from it.
\<close>

definition secured_reply :: "aead \<Rightarrow> buffer \<Rightarrow> exchange \<Rightarrow> int \<Rightarrow> buffer \<Rightarrow> packet \<Rightarrow> bool" where
  "secured_reply A k e opc pay pkt \<longleftrightarrow>
     (\<forall>r kr peer. s_keys r = Some kr \<longrightarrow> kr ! (if s_initiator r then 1 else 0) = k \<longrightarrow>
       (\<exists>m'. decryptMessage A r (new_message_of (p_data pkt) (Some (p_data pkt)) peer) = Inr m' \<and>
         ProtocolOpcode m' = Inr opc \<and> ExchangeId m' = Inr (e_exchangeId e) \<and> Iflag m' = Inr (e_isInitiator e) \<and> AppPayload m' = Inr pay))"

lemma send_protocol_secured:
  assumes "ccm_ok A" and "e = x_exchanges n ! x" and "exchange_ok e" and "a = e_session e" and "a < length (n_sessions n)"
    and "can_send (n_sessions n ! a) sid" and "sid \<noteq> 0" and "s_keys (n_sessions n ! a) = Some ks" and "s_peerInfo (n_sessions n ! a) = Some p"
    and "k = ks ! (if e_isInitiator e then 0 else 1)" and "length k = 16"
    and "0 \<le> pid" "pid < 2 ^ 16" "0 \<le> opc" "opc < 2 ^ 8" and "length pay < 2 ^ 16 - 18"
  shows "\<exists>n' data. send_protocol A x pid opc pay n = Inr n' \<and>
    n_sent n' = n_sent n @ [\<lparr>p_transport = s_transport (n_sessions n ! a), p_data = data, p_port = pi_port p, p_host = pi_address p\<rparr>] \<and>
    secured_reply A k e opc pay \<lparr>p_transport = s_transport (n_sessions n ! a), p_data = data, p_port = pi_port p, p_host = pi_address p\<rparr>"
proof -
  let ?p = "protocol_wire pid opc pay" and ?s = "n_sessions n ! a"
  let ?w = "on_exchange e ?p"
  let ?h = "header_of sid (s_messageCounter ?s) ?w"
  have pok: "wire_ok ?p" by (rule protocol_message_wire(2) [OF assms(12-15)])
  have ok: "wire_ok ?w" using wire_ok_on_exchange [OF pok assms(3)] .
  have w: "w_ids ?w = []" "w_xflags ?w = exchange_flags e" "w_opcode ?w = opc" "w_xid ?w = e_exchangeId e"
    "w_rest ?w = (if e_isAck e then le_bytes 4 (e_ackCounter e) else []) @ pay"
    by (simp_all add: on_exchange_def protocol_wire_def zero_wire_def)
  have i: "(exchange_flags e AND 1 \<noteq> 0) = e_isInitiator e" "(exchange_flags e AND 2 \<noteq> 0) = e_isAck e" by (simp_all add: exchange_flags_def)
  have len: "length (w_rest ?w) < 2 ^ 16 - 14" using assms(16) w(5) by (cases "e_isAck e") simp_all
  obtain data where enc: "msg_encrypt A (wire_bytes ?h) k = Inr data"
    and dec: "\<forall>r kr peer. s_keys r = Some kr \<longrightarrow> kr ! (if s_initiator r then 1 else 0) = k \<longrightarrow>
      decryptMessage A r (new_message_of data (Some data) peer) = Inr ((new_message_of data (Some data) peer)\<lparr>m_buffer := wire_bytes ?h\<rparr>)"
    using secure_datagram [OF assms(1,6,7,11) wire_ok_ranges [OF ok] w(1) len] by blast
  have kk: "ks ! (if w_xflags ?w AND 1 \<noteq> 0 then 0 else 1) = k" using assms(10) w(2) i(1) by simp
  have "send_protocol A x pid opc pay n = rmap snd (session_sendMessage A a (on_wire ?w new_message) n)"
    using exchange_sendMessage_wire [OF pok, of n x A new_message] assms(2-4)
    by (simp add: send_protocol_def protocol_message_wire(1) [OF assms(12-15)])
  then have snd: "send_protocol A x pid opc pay n =
      Inr (transport_send (s_transport ?s) data (pi_port p) (pi_address p) (upd_session a counted n))"
    using send_secured [OF assms(5-9) wire_ok_ranges [OF ok] w(1) refl, unfolded kk, OF enc, of new_message] by simp
  have hok: "wire_ok ?h" using header_of_ok [OF wire_ok_ranges [OF ok] w(1) assms(6)] .
  have f: "w_xflags ?h = exchange_flags e" "w_opcode ?h = opc" "w_xid ?h = e_exchangeId e" "w_rest ?h = w_rest ?w"
    using w by (simp_all add: header_of_def)
  have m: "(new_message_of data (Some data) peer)\<lparr>m_buffer := wire_bytes ?h\<rparr> = on_wire ?h (new_message_of data (Some data) peer)" for peer
    by (simp add: on_wire_def new_message_of_def)
  have "secured_reply A k e opc pay \<lparr>p_transport = s_transport ?s, p_data = data, p_port = pi_port p, p_host = pi_address p\<rparr>"
    using dec wire_exchange_get(2,3) [OF hok] wire_exchange_flag(2) [OF hok] wire_AppPayload [OF hok] f w(5) i
    by (simp add: secured_reply_def m)
  with snd show ?thesis by (auto simp: transport_send_def)
qed

text \<open>The message of a commissioning command on a session, and its way to the cluster server.\<close>

definition command_message :: "int \<Rightarrow> int \<Rightarrow> telem list \<Rightarrow> wire \<Rightarrow> bool" where
  "command_message cl cmd data w \<longleftrightarrow> wire_ok w \<and> w_xflags w AND 0x01 \<noteq> 0 \<and> w_xflags w AND 0x02 = 0 \<and> w_pid w = IM_PROTOCOL_ID \<and>
     w_opcode w = ImCommand_CommandRequest \<and> w_rest w = tlv_bytes (invoke_request_elem [(0, cl, cmd, data)]) \<and> command_ok (0, cl, cmd, data)"

lemma command_message_dispatch:
  assumes "command_message cl cmd data w" and "getExchange a (on_wire w m) n = Inr None"
  shows "onSessionMessage (node_handlers A kdf S sign) (on_wire w m) a n =
    dispatch A sign ((on_wire w m)\<lparr>m_exchange := Some (length (x_exchanges n))\<rparr>) (0, cl, cmd, data) (accepted w a n)"
proof -
  let ?m = "(on_wire w m)\<lparr>m_exchange := Some (length (x_exchanges n))\<rparr>"
  have w: "wire_ok w" "w_xflags w AND 0x01 \<noteq> 0" "w_xflags w AND 0x02 = 0" "w_pid w = IM_PROTOCOL_ID" "w_opcode w = ImCommand_CommandRequest"
    "w_rest w = tlv_bytes (invoke_request_elem [(0, cl, cmd, data)])" "list_all command_ok [(0, cl, cmd, data)]"
    using assms(1) by (simp_all add: command_message_def)
  have m: "?m = on_wire w (m\<lparr>m_exchange := Some (length (x_exchanges n))\<rparr>)" by (simp add: on_wire_def)
  have g: "AppPayload ?m = Inr (tlv_bytes (invoke_request_elem [(0, cl, cmd, data)]))" "ProtocolOpcode ?m = Inr ImCommand_CommandRequest"
    "\<exists>i. ExchangeId ?m = Inr i"
    unfolding m using wire_AppPayload [OF w(1)] wire_exchange_get [OF w(1)] w(3,5,6) by simp_all
  have "onInvokeCommandRequest A sign ?m (accepted w a n) = dispatch A sign ?m (0, cl, cmd, data) (accepted w a n)"
    using onInvokeCommandRequest_fold [OF g(1) w(7), of A sign "accepted w a n"]
    by (cases "dispatch A sign ?m (0, cl, cmd, data) (accepted w a n)") (simp_all del: dispatch.simps)
  then show ?thesis
    using onSessionMessage_new [OF w(1,2) assms(2), of "node_handlers A kdf S sign"] g(2,3) w(4)
    by (auto simp: node_handlers_def im_onProtocolMessage_def im_consts session_consts simp del: dispatch.simps)
qed

lemma commissioning_message:
  assumes "command_message GENERAL_COMMISSIONING_CLUSTER_ID cmd data w" and "cmd \<in> commissioning_commands" and "getExchange a (on_wire w m) n = Inr None"
  shows "onSessionMessage (node_handlers A kdf S sign) (on_wire w m) a n =
    send_protocol A (length (x_exchanges n)) IM_PROTOCOL_ID ImCommand_CommandResponse (tlv_bytes (commissioning_response cmd)) (accepted w a n)"
  using command_message_dispatch [OF assms(1,3), of A kdf S sign] general_onCommand [OF assms(2), of _ _ A "accepted w a n"]
  by (simp add: served_cluster_def cluster_ids)

lemma response_size: "cmd \<in> commissioning_commands \<Longrightarrow> length (tlv_bytes (commissioning_response cmd)) < 100"
  by (auto simp: commissioning_commands_def commissioning_response_def general_commands status_elem_def data_elem_def response_frame_def
      path_elem_def leaf1_def GENERAL_COMMISSIONING_CLUSTER_ID_def uwidth_def tag_field_def utf8_encode_def)

lemma accepted_exchange_ok: "wire_ok w \<Longrightarrow> exchange_ok (x_exchanges (accepted w a n) ! length (x_exchanges n))"
  using wire_ok_ranges by (auto simp: accepted_nth exchange_ok_def wire_ranges_def)

text \<open>
  The answer to a command of the general commissioning cluster that arrives on a secured
  session outside every exchange: one datagram, which the initiator of the session decrypts with
  the shared key.
\<close>

lemma secured_command_reply:
  assumes "ccm_ok A" and "command_message GENERAL_COMMISSIONING_CLUSTER_ID cmd data w" and "cmd \<in> commissioning_commands"
    and "getExchange a (on_wire w m) n = Inr None" and "a < length (n_sessions n)" and "can_send (n_sessions n ! a) sid" and "sid \<noteq> 0"
    and "s_keys (n_sessions n ! a) = Some ks" and "s_peerInfo (n_sessions n ! a) = Some p" and "length (ks ! 1) = 16"
  shows "\<exists>n' pkt. onSessionMessage (node_handlers A kdf S sign) (on_wire w m) a n = Inr n' \<and> n_sent n' = n_sent n @ [pkt] \<and>
    p_host pkt = pi_address p \<and> p_port pkt = pi_port p \<and>
    (\<forall>r kr peer. s_keys r = Some kr \<longrightarrow> s_initiator r \<longrightarrow> kr ! 1 = ks ! 1 \<longrightarrow>
      (\<exists>m'. decryptMessage A r (new_message_of (p_data pkt) (Some (p_data pkt)) peer) = Inr m' \<and>
        ProtocolOpcode m' = Inr ImCommand_CommandResponse \<and> ExchangeId m' = Inr (w_xid w) \<and> Iflag m' = Inr False \<and>
        AppPayload m' = Inr (tlv_bytes (commissioning_response cmd))))"
proof -
  let ?x = "length (x_exchanges n)" and ?n = "accepted w a n"
  have e: "exchange_ok (x_exchanges ?n ! ?x)" using assms(2) accepted_exchange_ok by (auto simp: command_message_def)
  have s: "e_session (x_exchanges ?n ! ?x) = a" "e_exchangeId (x_exchanges ?n ! ?x) = w_xid w" "\<not> e_isInitiator (x_exchanges ?n ! ?x)"
    by (simp_all add: accepted_nth)
  have sent: "n_sent ?n = n_sent n" by (simp add: accepted_def)
  obtain n' data where "send_protocol A ?x IM_PROTOCOL_ID ImCommand_CommandResponse (tlv_bytes (commissioning_response cmd)) ?n = Inr n'"
    and "n_sent n' = n_sent n @ [\<lparr>p_transport = s_transport (n_sessions n ! a), p_data = data, p_port = pi_port p, p_host = pi_address p\<rparr>]"
    and "secured_reply A (ks ! 1) (x_exchanges ?n ! ?x) ImCommand_CommandResponse (tlv_bytes (commissioning_response cmd))
      \<lparr>p_transport = s_transport (n_sessions n ! a), p_data = data, p_port = pi_port p, p_host = pi_address p\<rparr>"
    using send_protocol_secured [OF assms(1) refl e refl, of sid ks p "ks ! 1" IM_PROTOCOL_ID ImCommand_CommandResponse "tlv_bytes (commissioning_response cmd)"]
      assms(5-10) s sent response_size [OF assms(3)] by (auto simp: im_consts)
  then show ?thesis
    using commissioning_message [OF assms(2,3,4), of A kdf S sign] s(2,3) by (auto simp: secured_reply_def)
qed

text \<open>
  (C15) The same command is answered on an unsecured session: nothing in the node asks whether
  the session a command arrives on was established by a handshake.
\<close>

theorem unsecured_command_answered:
  assumes "command_message GENERAL_COMMISSIONING_CLUSTER_ID cmd data w" and "cmd \<in> commissioning_commands"
    and "getExchange a (on_wire w m) n = Inr None" and "answerable a n"
  shows "\<exists>n' pkt. onSessionMessage (node_handlers A kdf S sign) (on_wire w m) a n = Inr n' \<and> n_sent n' = n_sent n @ [pkt] \<and>
    carries pkt ImCommand_CommandResponse (tlv_bytes (commissioning_response cmd))"
proof -
  let ?x = "length (x_exchanges n)" and ?n = "accepted w a n"
  have "exchange_ok (x_exchanges ?n ! ?x)" using assms(1) accepted_exchange_ok by (auto simp: command_message_def)
  then have "sendable (Suc 0) ?x ?n"
    using assms(4) by (auto simp: sendable_def answerable_def Let_def accepted_nth) (simp add: accepted_def)
  then obtain n' pkt where "send_protocol A ?x IM_PROTOCOL_ID ImCommand_CommandResponse (tlv_bytes (commissioning_response cmd)) ?n = Inr n'"
      "n_sent n' = n_sent ?n @ [pkt]" "carries pkt ImCommand_CommandResponse (tlv_bytes (commissioning_response cmd))"
    using send_protocol_total [of 0 ?x ?n IM_PROTOCOL_ID ImCommand_CommandResponse A "tlv_bytes (commissioning_response cmd)"] by (auto simp: im_consts)
  moreover have "n_sent ?n = n_sent n" by (simp add: accepted_def)
  ultimately show ?thesis using commissioning_message [OF assms(1-3), of A kdf S sign] by auto
qed

section \<open>Witnesses\<close>

definition demo_im_node :: im_node where
  "demo_im_node = \<lparr>n_sessions = [demo_session\<lparr>s_peerSessionId := JNum 0, s_localSessionId := JNum 0, s_keys := None, s_peerNodeId := Some 0xABCD\<rparr>, demo_session],
     n_sent = [], n_random = (\<lambda>i. word_of_nat (3 * i)), n_drawn = 0, n_now = 5,
     sm_secured = [1], sm_unsecured = [0], sm_nextSessionId = 1, x_exchanges = [], x_table = [], x_nextExchangeId = 0,
     pn_pases = [], pn_listeners = [], pn_tasks = [], pr_paseSessions = [], pr_pairingCodes = Map.empty, im_tasks = []\<rparr>"

definition toy_sign :: signer where "toy_sign data key = Inr (take 4 data @ key)"

definition invoke_wire :: "invoked list \<Rightarrow> wire" where
  "invoke_wire cmds = zero_wire\<lparr>w_xflags := 5, w_xid := 77, w_pid := IM_PROTOCOL_ID, w_opcode := ImCommand_CommandRequest,
     w_rest := tlv_bytes (invoke_request_elem cmds)\<rparr>"

text \<open>Arming the fail-safe: 60 seconds, breadcrumb 1.\<close>

definition demo_arm :: "telem list" where "demo_arm = [leaf1 0 (TUnsigned 60), leaf1 1 (TUnsigned 1)]"

lemma demo_command: "command_message GENERAL_COMMISSIONING_CLUSTER_ID 0 demo_arm (invoke_wire [(0, 48, 0, demo_arm)])"
  by (simp add: command_message_def invoke_wire_def zero_wire_def wire_ok_def wire_ranges_def id_size_def demo_arm_def leaf1_def id_range_def
      wf_tag_def im_consts GENERAL_COMMISSIONING_CLUSTER_ID_def)

theorem unsecured_command_answered_witness:
  "\<exists>n' pkt. onSessionMessage (node_handlers toy_aead toy_kdf toy_spake toy_sign) (on_wire (invoke_wire [(0, 48, 0, demo_arm)]) new_message) 0 demo_im_node = Inr n' \<and>
    n_sent n' = [pkt] \<and> carries pkt ImCommand_CommandResponse (tlv_bytes (commissioning_response 0))"
  using unsecured_command_answered [OF demo_command, of 0 new_message demo_im_node toy_aead toy_kdf toy_spake toy_sign]
  by (simp add: commissioning_commands_def general_commands getExchange_def demo_im_node_def demo_session_def answerable_def)

text \<open>A cluster without a server is skipped, an endpoint outside the table ends the request.\<close>

definition invoke_message :: "invoked list \<Rightarrow> message" where
  "invoke_message cmds = on_wire (invoke_wire cmds) (new_message\<lparr>m_exchange := Some 0\<rparr>)"

lemma invoke_message_payload:
  "AppPayload (invoke_message cmds) = Inr (tlv_bytes (invoke_request_elem cmds))" "m_exchange (invoke_message cmds) = Some 0"
  using wire_AppPayload [of "invoke_wire cmds" "new_message\<lparr>m_exchange := Some 0\<rparr>"]
  by (simp_all add: invoke_message_def invoke_wire_def zero_wire_def wire_ok_def wire_ranges_def id_size_def im_consts on_wire_def)

theorem invoke_dispatch_witness:
  "onInvokeCommandRequest toy_aead toy_sign (invoke_message [(1, 6, 2, [])]) demo_im_node = Inr demo_im_node \<and>
   onInvokeCommandRequest toy_aead toy_sign (invoke_message [(1, 6, 2, []), (9, 48, 0, demo_arm)]) demo_im_node = Inl TypeError"
  using invoke_dispatch [OF invoke_message_payload(1), of "[(1, 6, 2, [])]" toy_aead toy_sign demo_im_node]
    invoke_dispatch [OF invoke_message_payload(1), of "[(1, 6, 2, []), (9, 48, 0, demo_arm)]" toy_aead toy_sign demo_im_node]
  by (simp add: id_range_def demo_arm_def leaf1_def wf_tag_def served_cluster_def)

end
