(* ===== verification/Interaction_Credentials.thy ===== *)
theory Interaction_Credentials
  imports Interaction_Commands
begin

text \<open>
  The commands of the operational credentials cluster on the octets of a request: attestation,
  certificate signing, certificate chain and the installation of a certificate; the requests
  that throw; and the agreement of the attribute tables with the enumerations.
\<close>

section \<open>Elements\<close>

definition attestation_elem :: "buffer \<Rightarrow> telem" where
  "attestation_elem nonce = TNode None None CStruct
     [leaf1 1 (TBytes TEST_CERTIFICATION_DECLARATION), leaf1 2 (TBytes nonce), leaf1 3 (TUnsigned 0)]"

definition nocsr_elem :: "buffer \<Rightarrow> buffer \<Rightarrow> telem" where
  "nocsr_elem csr nonce = TNode None None CStruct [leaf1 1 (TBytes csr), leaf1 2 (TBytes nonce)]"

definition short :: "buffer \<Rightarrow> bool" where
  "short b \<longleftrightarrow> int (length b) < 2 ^ 32"

lemma hex_decode_length: "length (hex_decode us) \<le> length us"
  by (induction us rule: induct_list012) (auto split: option.splits)

lemma hex_constant_bound: "length s < 2000 \<Longrightarrow> length (hex_decode (js_string s)) < 2000"
  using hex_decode_length [of "js_string s"] by (simp add: js_string_def)

lemma constants_bound:
  "length TEST_CERTIFICATION_DECLARATION < 2000" "length TEST_PAI_CERTIFICATE < 2000" "length TEST_DAC_CERTIFICATE < 2000"
  unfolding TEST_CERTIFICATION_DECLARATION_def TEST_PAI_CERTIFICATE_def TEST_DAC_CERTIFICATE_def
  by (rule hex_constant_bound, simp only: length_append, simp)+

lemma constants_short: "short TEST_CERTIFICATION_DECLARATION" "short TEST_PAI_CERTIFICATE" "short TEST_DAC_CERTIFICATE"
  using constants_bound by (simp_all add: short_def)

lemma encode_attestation:
  assumes "short nonce"
  shows "writer_encode (TemplateAttestationElements (JBuf TEST_CERTIFICATION_DECLARATION) (JBuf nonce) (JNum 0)) = Inr (tlv_bytes (attestation_elem nonce))"
  by (rule writer_encode_telem)
    (use assms constants_short(1) in \<open>simp_all add: TemplateAttestationElements_def attestation_elem_def telem_template_simps wf_tag_def short_def\<close>)

lemma encode_nocsr:
  assumes "short csr" and "short nonce"
  shows "writer_encode (TemplateNocsrElements (JBuf csr) (JBuf nonce)) = Inr (tlv_bytes (nocsr_elem csr nonce))"
  by (rule writer_encode_telem)
    (use assms in \<open>simp_all add: TemplateNocsrElements_def nocsr_elem_def telem_template_simps wf_tag_def short_def\<close>)

text \<open>The response with two byte strings.\<close>

definition signed_response :: "int \<Rightarrow> buffer \<Rightarrow> buffer \<Rightarrow> telem" where
  "signed_response cmd elements signature =
     data_elem 0 OPERATIONAL_CREDENTIALS_CLUSTER_ID cmd [leaf1 0 (TBytes elements), leaf1 1 (TBytes signature)]"

lemma send_signed:
  assumes "id_range cmd" and "short els" and "short sg"
  shows "sendInvokeCommandResponseData A (Some x) (num_path 0 OPERATIONAL_CREDENTIALS_CLUSTER_ID cmd)
      [jfield 0 ''Buffer'' (JBuf els), jfield 1 ''Buffer'' (JBuf sg)] n =
    send_protocol A x IM_PROTOCOL_ID ImCommand_CommandResponse (tlv_bytes (signed_response cmd els sg)) n"
  unfolding signed_response_def
  by (rule send_data) (use assms in \<open>simp_all add: telem_template_simps wf_tag_def short_def id_range_def OPERATIONAL_CREDENTIALS_CLUSTER_ID_def\<close>)

section \<open>Reading the data of a command\<close>

text \<open>
  The handlers read their data by position in the whole message, always that of its first
  command.
\<close>

lemma first_command_data:
  assumes "AppPayload msg = Inr (tlv_bytes (invoke_request_elem (c # cs)))" and "list_all command_ok (c # cs)"
    and "c = (ep, cl, cmd, data)" and "i < length data"
  shows "\<exists>result. decode_json (tlv_bytes (invoke_request_elem (c # cs))) = Inr result \<and> json_stringify result = Inr () \<and>
    js_path [0, 2, 0, 1] result = Inr (JArr (map tlv_json data)) \<and>
    js_path [0, 2, 0, 1, i] result = prop_value (tlv_json (data ! i))"
proof -
  note k = invoke_request_clean [OF assms(2)]
  have "js_path [0, 2, 0, 1] (JArr [tlv_json (invoke_request_elem (c # cs))]) = Inr (JArr (map tlv_json data))"
    by (simp add: invoke_request_elem_def leaf1_def assms(3) path_elem_def numeral_2_eq_2)
  moreover from this have "js_path ([0, 2, 0, 1] @ [i]) (JArr [tlv_json (invoke_request_elem (c # cs))]) = prop_value (tlv_json (data ! i))"
    unfolding js_path_append using assms(4) by (cases "tlv_json (data ! i)") (simp_all del: js_path.simps(2) add: js_path.simps(2) [of i])
  ultimately show ?thesis using decode_telem [OF k(1)] k(2) by (auto simp: json_stringify_def simp del: js_path.simps)
qed

lemma credentials_dispatch:
  "dispatch A sign msg (0, OPERATIONAL_CREDENTIALS_CLUSTER_ID, cmd, data) n =
    Credentials_onCommand A sign msg (num_path 0 OPERATIONAL_CREDENTIALS_CLUSTER_ID cmd) n"
  by (simp add: served_cluster_def cluster_ids)

text \<open>A request with one credentials command whose first field is a byte string.\<close>

definition credentials_request :: "int \<Rightarrow> buffer \<Rightarrow> message \<Rightarrow> bool" where
  "credentials_request cmd b msg \<longleftrightarrow> short b \<and>
     AppPayload msg = Inr (tlv_bytes (invoke_request_elem [(0, OPERATIONAL_CREDENTIALS_CLUSTER_ID, cmd, [leaf1 0 (TBytes b)])]))"

lemma credentials_request_handler:
  assumes "credentials_request cmd b msg" and "id_range cmd"
  shows "onInvokeCommandRequest A sign msg n = Credentials_onCommand A sign msg (num_path 0 OPERATIONAL_CREDENTIALS_CLUSTER_ID cmd) n"
    and "\<exists>tlv result. AppPayload msg = Inr tlv \<and> decode_json tlv = Inr result \<and> json_stringify result = Inr () \<and> js_path [0, 2, 0, 1, 0] result = Inr (JBuf b)"
proof -
  let ?c = "(0, OPERATIONAL_CREDENTIALS_CLUSTER_ID, cmd, [leaf1 0 (TBytes b)])"
  have p: "AppPayload msg = Inr (tlv_bytes (invoke_request_elem [?c]))" using assms(1) by (simp add: credentials_request_def)
  have ok: "list_all command_ok [?c]"
    using assms by (simp add: credentials_request_def id_range_def leaf1_def wf_tag_def short_def OPERATIONAL_CREDENTIALS_CLUSTER_ID_def)
  have "onInvokeCommandRequest A sign msg n = rfold (dispatch A sign msg) [?c] n" by (rule onInvokeCommandRequest_fold [OF p ok])
  also have "\<dots> = dispatch A sign msg ?c n" by (cases "dispatch A sign msg ?c n") (simp_all del: dispatch.simps)
  also have "\<dots> = Credentials_onCommand A sign msg (num_path 0 OPERATIONAL_CREDENTIALS_CLUSTER_ID cmd) n" by (rule credentials_dispatch)
  finally show "onInvokeCommandRequest A sign msg n = Credentials_onCommand A sign msg (num_path 0 OPERATIONAL_CREDENTIALS_CLUSTER_ID cmd) n" .
  show "\<exists>tlv result. AppPayload msg = Inr tlv \<and> decode_json tlv = Inr result \<and> json_stringify result = Inr () \<and> js_path [0, 2, 0, 1, 0] result = Inr (JBuf b)"
    using first_command_data [OF p ok refl, of 0] p by (auto simp: leaf1_def simp del: js_path.simps)
qed

section \<open>Attestation and certificate signing\<close>

text \<open>
  (C12) Device attestation: a request with a nonce is answered with the attestation elements, which
  hold the certification declaration and that nonce, and the signature, under the device's
  attestation key, of these elements followed by the attestation challenge of the session.
\<close>

theorem attestation_signed:
  assumes "credentials_request CredentialsCommand_AttestationRequest nonce msg" and "m_exchange msg = Some x"
    and "exchange_challenge (Some x) n = Inr challenge"
    and "sign (tlv_bytes (attestation_elem nonce) @ challenge) TEST_DAC_PRIVKEY = Inr signature"
    and "short (tlv_bytes (attestation_elem nonce))" and "short signature"
  shows "onInvokeCommandRequest A sign msg n = send_protocol A x IM_PROTOCOL_ID ImCommand_CommandResponse
    (tlv_bytes (signed_response CredentialsCommand_AttestationResponse (tlv_bytes (attestation_elem nonce)) signature)) n"
proof -
  have i: "id_range CredentialsCommand_AttestationRequest" "id_range CredentialsCommand_AttestationResponse"
    by (simp_all add: id_range_def credentials_commands)
  have "short nonce" using assms(1) by (simp add: credentials_request_def)
  note e = encode_attestation [OF this] and s = send_signed [OF i(2) assms(5,6), of A x n]
  obtain tlv result where "AppPayload msg = Inr tlv" "decode_json tlv = Inr result" "js_path [0, 2, 0, 1, 0] result = Inr (JBuf nonce)"
    using credentials_request_handler(2) [OF assms(1) i(1)] by blast
  then show ?thesis
    using assms(2-4) e s
    by (simp add: credentials_request_handler(1) [OF assms(1) i(1)] Credentials_onCommand_def onAttestationRequest_def sendAttestationResponse_def
        TemplateCommandAttestationResponse_def del: js_path.simps)
qed

text \<open>
  (C13) Certificate signing: a CSR request sends nothing until the CSR has been made; then one
  response goes out on the exchange of the request, with the CSR and the nonce of the request in
  its elements and the signature, under the stored device key, of the elements followed by the
  attestation challenge of the session.
\<close>

theorem csr_signed:
  assumes "credentials_request CredentialsCommand_CsrRequest nonce msg" and "m_exchange msg = Some x" and "short csr"
    and "exchange_challenge (Some x) n = Inr challenge"
    and "sign (tlv_bytes (nocsr_elem csr nonce) @ challenge) (hex_decode key) = Inr signature"
    and "short (tlv_bytes (nocsr_elem csr nonce))" and "short signature"
  shows "\<exists>t. onInvokeCommandRequest A sign msg n = Inr (push_im_task t n) \<and>
    run_im_task A sign key (Inr csr) noc t n = send_protocol A x IM_PROTOCOL_ID ImCommand_CommandResponse
      (tlv_bytes (signed_response CredentialsCommand_CsrResponse (tlv_bytes (nocsr_elem csr nonce)) signature)) n"
proof -
  have i: "id_range CredentialsCommand_CsrRequest" "id_range CredentialsCommand_CsrResponse" by (simp_all add: id_range_def credentials_commands)
  have "short nonce" using assms(1) by (simp add: credentials_request_def)
  note e = encode_nocsr [OF assms(3) this] and s = send_signed [OF i(2) assms(6,7), of A x n]
  obtain tlv result where r: "AppPayload msg = Inr tlv" "decode_json tlv = Inr result" "js_path [0, 2, 0, 1, 0] result = Inr (JBuf nonce)"
    using credentials_request_handler(2) [OF assms(1) i(1)] by blast
  let ?t = "CsrPending (Some x) (num_path 0 OPERATIONAL_CREDENTIALS_CLUSTER_ID CredentialsCommand_CsrRequest) (JBuf nonce)"
  have "onInvokeCommandRequest A sign msg n = Inr (push_im_task ?t n)"
    using r assms(2) by (simp add: credentials_request_handler(1) [OF assms(1) i(1)] Credentials_onCommand_def onCsrRequest_def sendCsrResponse_def
        credentials_commands del: js_path.simps)
  moreover have "run_im_task A sign key (Inr csr) noc ?t n = send_protocol A x IM_PROTOCOL_ID ImCommand_CommandResponse
      (tlv_bytes (signed_response CredentialsCommand_CsrResponse (tlv_bytes (nocsr_elem csr nonce)) signature)) n"
    using assms(4,5) e s by (simp add: run_im_task_def csr_generated_def TemplateCommandCsrResponse_def)
  ultimately show ?thesis by blast
qed

lemma credentials_message:
  "short b \<Longrightarrow> credentials_request cmd b (invoke_message [(0, OPERATIONAL_CREDENTIALS_CLUSTER_ID, cmd, [leaf1 0 (TBytes b)])])"
  by (simp add: credentials_request_def invoke_message_payload)

text \<open>An exchange on the secured session of the demonstration node.\<close>

definition demo_im_exchange :: im_node where
  "demo_im_exchange = demo_im_node\<lparr>x_table := [0], x_exchanges :=
     [\<lparr>e_session = 1, e_exchangeId = 6, e_isInitiator = False, e_isReliable = True, e_isAck = True, e_ackCounter = 300\<rparr>]\<rparr>"

lemma demo_challenge: "exchange_challenge (Some 0) demo_im_exchange = Inr (replicate 16 3)"
  by (simp add: exchange_challenge_def demo_im_exchange_def demo_im_node_def demo_session_def AttestationChallenge_def kAttestationChallenge_def)

definition demo_sign :: signer where "demo_sign data key = Inr (rev data)"

lemma demo_bound: "length (tlv_bytes (attestation_elem [1, 2])) < 2100" "length (tlv_bytes (nocsr_elem [7, 8] [1, 2])) < 2100"
  using constants_bound(1)
  by (simp_all add: attestation_elem_def nocsr_elem_def leaf1_def tag_field_def uwidth_def)

theorem attestation_signed_witness:
  "onInvokeCommandRequest toy_aead demo_sign (invoke_message [(0, 62, 0, [leaf1 0 (TBytes [1, 2])])]) demo_im_exchange =
    send_protocol toy_aead 0 IM_PROTOCOL_ID ImCommand_CommandResponse
      (tlv_bytes (signed_response 1 (tlv_bytes (attestation_elem [1, 2])) (replicate 16 3 @ rev (tlv_bytes (attestation_elem [1, 2]))))) demo_im_exchange"
  using attestation_signed [OF credentials_message invoke_message_payload(2) demo_challenge, of "[1, 2]" demo_sign _ toy_aead] demo_bound(1)
  by (simp add: demo_sign_def credentials_commands OPERATIONAL_CREDENTIALS_CLUSTER_ID_def short_def)

theorem csr_signed_witness:
  "\<exists>t. onInvokeCommandRequest toy_aead demo_sign (invoke_message [(0, 62, 4, [leaf1 0 (TBytes [1, 2])])]) demo_im_exchange = Inr (push_im_task t demo_im_exchange) \<and>
    run_im_task toy_aead demo_sign (js_string ''0a0b'') (Inr [7, 8]) (Inr ()) t demo_im_exchange =
      send_protocol toy_aead 0 IM_PROTOCOL_ID ImCommand_CommandResponse
        (tlv_bytes (signed_response 5 (tlv_bytes (nocsr_elem [7, 8] [1, 2])) (replicate 16 3 @ rev (tlv_bytes (nocsr_elem [7, 8] [1, 2]))))) demo_im_exchange"
  using csr_signed [OF credentials_message invoke_message_payload(2) _ demo_challenge, of "[1, 2]" "[7, 8]" demo_sign "js_string ''0a0b''" _ toy_aead "Inr ()"]
    demo_bound(2)
  by (simp add: demo_sign_def credentials_commands OPERATIONAL_CREDENTIALS_CLUSTER_ID_def short_def)

section \<open>Certificates\<close>

definition chain_response :: "buffer \<Rightarrow> telem" where
  "chain_response certificate = data_elem 0 OPERATIONAL_CREDENTIALS_CLUSTER_ID CredentialsCommand_CertificateChainResponse [leaf1 0 (TBytes certificate)]"

lemma send_chain:
  assumes "short certificate"
  shows "sendCertificateChainResponse A (Some x) (num_path 0 OPERATIONAL_CREDENTIALS_CLUSTER_ID cmd) certificate n =
    send_protocol A x IM_PROTOCOL_ID ImCommand_CommandResponse (tlv_bytes (chain_response certificate)) n"
proof -
  let ?d = "[jfield 0 ''Buffer'' (JBuf certificate)]" and ?e = "[leaf1 0 (TBytes certificate)]"
  have "those (map telem_of ?d) = Some ?e" "list_all wf_telem ?e" "\<not> list_ex has_bigint ?d"
    using assms by (simp_all add: telem_template_simps wf_tag_def short_def)
  from command_response [OF this, of OPERATIONAL_CREDENTIALS_CLUSTER_ID CredentialsCommand_CertificateChainResponse A x n] show ?thesis
    by (simp add: sendCertificateChainResponse_def TemplateCommandCertificateChainResponse_def chain_response_def Let_def id_range_def
        OPERATIONAL_CREDENTIALS_CLUSTER_ID_def credentials_commands)
qed

text \<open>
  A certificate chain request is answered with the intermediate certificate when the first
  command of the message it arrives in carries the number 2 in its first field, and with the
  device certificate otherwise: the handler does not look at the data of its own command, so
  in a message with several commands the first decides for all.
\<close>

theorem certificate_chain_of_first:
  assumes "AppPayload msg = Inr (tlv_bytes (invoke_request_elem ((ep, cl, cmd, leaf1 0 (TUnsigned v) # data) # cs)))"
    and "list_all command_ok ((ep, cl, cmd, leaf1 0 (TUnsigned v) # data) # cs)" and "m_exchange msg = Some x"
  shows "Credentials_onCommand A sign msg (num_path 0 OPERATIONAL_CREDENTIALS_CLUSTER_ID CredentialsCommand_CertificateChainRequest) n =
    send_protocol A x IM_PROTOCOL_ID ImCommand_CommandResponse
      (tlv_bytes (chain_response (if v = PaiCertificate then TEST_PAI_CERTIFICATE else TEST_DAC_CERTIFICATE))) n"
proof -
  have "v < 2 ^ 32" using assms(2) by (simp add: leaf1_def split: if_splits)
  then obtain result where "decode_json (tlv_bytes (invoke_request_elem ((ep, cl, cmd, leaf1 0 (TUnsigned v) # data) # cs))) = Inr result"
    "json_stringify result = Inr ()" "js_path [0, 2, 0, 1, 0] result = Inr (JNum v)"
    using first_command_data [OF assms(1,2) refl, of 0] by (auto simp: leaf1_def simp del: js_path.simps)
  then show ?thesis
    using assms(1,3) constants_short
    by (simp add: Credentials_onCommand_def onCertificateChainRequest_def send_chain credentials_commands del: js_path.simps)
qed

theorem certificate_chain_of_first_witness:
  "Credentials_onCommand toy_aead toy_sign (invoke_message [(0, 48, 0, demo_arm), (0, 62, 2, [leaf1 0 (TUnsigned 2)])]) (num_path 0 62 2) demo_im_exchange =
     send_protocol toy_aead 0 IM_PROTOCOL_ID ImCommand_CommandResponse (tlv_bytes (chain_response TEST_DAC_CERTIFICATE)) demo_im_exchange"
  using certificate_chain_of_first [OF invoke_message_payload(1) _ invoke_message_payload(2), of 0 48 0 60 "[leaf1 1 (TUnsigned 1)]" "[(0, 62, 2, [leaf1 0 (TUnsigned 2)])]"
      toy_aead toy_sign demo_im_exchange]
  by (simp add: demo_arm_def PaiCertificate_def credentials_commands OPERATIONAL_CREDENTIALS_CLUSTER_ID_def id_range_def leaf1_def wf_tag_def)

lemma telem_value: "\<exists>v. prop_value (tlv_json e) = Inr v"
  by (cases e) simp_all

lemma js_path_field: "i < length data \<Longrightarrow> \<exists>v. js_path [i] (JArr (map tlv_json data)) = Inr v"
  using telem_value [of "data ! i"] by auto

definition noc_response :: telem where
  "noc_response = data_elem 0 OPERATIONAL_CREDENTIALS_CLUSTER_ID CredentialsCommand_NocResponse [leaf1 0 (TUnsigned 0), leaf1 1 (TUnsigned 1)]"

lemma send_noc:
  "sendNocResponse A (Some x) (num_path 0 OPERATIONAL_CREDENTIALS_CLUSTER_ID cmd) (JNum 0) (JNum 1) n =
    send_protocol A x IM_PROTOCOL_ID ImCommand_CommandResponse (tlv_bytes noc_response) n"
proof -
  let ?d = "[jfield 0 ''uint8'' (JNum 0), jfield 1 ''uint8'' (JNum 1)]" and ?e = "[leaf1 0 (TUnsigned 0), leaf1 1 (TUnsigned 1)]"
  have "those (map telem_of ?d) = Some ?e" "list_all wf_telem ?e" "\<not> list_ex has_bigint ?d"
    by (simp_all add: telem_template_simps wf_tag_def)
  from command_response [OF this, of OPERATIONAL_CREDENTIALS_CLUSTER_ID CredentialsCommand_NocResponse A x n] show ?thesis
    by (simp add: sendNocResponse_def TemplateCommandNocResponse_def noc_response_def Let_def id_range_def OPERATIONAL_CREDENTIALS_CLUSTER_ID_def
        credentials_commands)
qed

text \<open>
  (C14) A node operational certificate is accepted unseen: whatever octets the request brings as
  the certificate, the answer sent is success with fabric index 1, before the certificate is
  decoded; if decoding fails later, nothing is sent and the state is that after the success.
\<close>

theorem noc_accepted_unseen:
  assumes "AppPayload msg = Inr (tlv_bytes (invoke_request_elem [(0, OPERATIONAL_CREDENTIALS_CLUSTER_ID, CredentialsCommand_AddNoc, leaf1 0 (TBytes noc) # data)]))"
    and "command_ok (0, OPERATIONAL_CREDENTIALS_CLUSTER_ID, CredentialsCommand_AddNoc, leaf1 0 (TBytes noc) # data)" and "3 \<le> length data"
    and "m_exchange msg = Some x"
  shows "onInvokeCommandRequest A sign msg n =
    rmap (push_im_task (NocPending (JBuf noc))) (send_protocol A x IM_PROTOCOL_ID ImCommand_CommandResponse (tlv_bytes noc_response) n) \<and>
    run_im_task A sign key csr (Inl e) (NocPending (JBuf noc)) n = Inl e"
proof -
  let ?c = "(0, OPERATIONAL_CREDENTIALS_CLUSTER_ID, CredentialsCommand_AddNoc, leaf1 0 (TBytes noc) # data)"
  let ?d = "JArr (map tlv_json (leaf1 0 (TBytes noc) # data))"
  have ok: "list_all command_ok [?c]" using assms(2) by simp
  have "onInvokeCommandRequest A sign msg n = rfold (dispatch A sign msg) [?c] n" by (rule onInvokeCommandRequest_fold [OF assms(1) ok])
  also have "\<dots> = dispatch A sign msg ?c n" by (cases "dispatch A sign msg ?c n") (simp_all del: dispatch.simps)
  also have "\<dots> = onAddNoc A msg (num_path 0 OPERATIONAL_CREDENTIALS_CLUSTER_ID CredentialsCommand_AddNoc) n"
    by (simp add: credentials_dispatch Credentials_onCommand_def credentials_commands del: dispatch.simps)
  also have "\<dots> = rmap (push_im_task (NocPending (JBuf noc))) (send_protocol A x IM_PROTOCOL_ID ImCommand_CommandResponse (tlv_bytes noc_response) n)"
  proof -
    obtain result where r: "decode_json (tlv_bytes (invoke_request_elem [?c])) = Inr result" "js_path [0, 2, 0, 1] result = Inr ?d"
      using first_command_data [OF assms(1) ok refl, of 0] by (auto simp del: js_path.simps)
    have "data \<noteq> []" using assms(3) by auto
    then obtain v1 v2 v3 where v: "js_path [1] ?d = Inr v1" "js_path [2] ?d = Inr v2" "js_path [3] ?d = Inr v3"
      using js_path_field [of 1 "leaf1 0 (TBytes noc) # data"] js_path_field [of 2 "leaf1 0 (TBytes noc) # data"]
        js_path_field [of 3 "leaf1 0 (TBytes noc) # data"] assms(3) \<open>data \<noteq> []\<close> by (auto simp del: js_path.simps list.map)
    have "js_path [0] ?d = Inr (JBuf noc)" by (simp add: leaf1_def)
    with r v show ?thesis
      using assms(1,4) by (simp add: onAddNoc_def send_noc rmap_def credentials_commands del: js_path.simps list.map split: sum.split)
  qed
  finally show ?thesis by (simp add: run_im_task_def)
qed

theorem noc_accepted_unseen_witness:
  "onInvokeCommandRequest toy_aead toy_sign (invoke_message [(0, 62, 6, [leaf1 0 (TBytes [0xFF]), leaf1 1 (TBytes []), leaf1 2 (TBytes []), leaf1 3 (TUnsigned 7)])]) demo_im_exchange =
    rmap (push_im_task (NocPending (JBuf [0xFF]))) (send_protocol toy_aead 0 IM_PROTOCOL_ID ImCommand_CommandResponse (tlv_bytes noc_response) demo_im_exchange)"
  using noc_accepted_unseen [of "invoke_message [(0, 62, 6, [leaf1 0 (TBytes [0xFF]), leaf1 1 (TBytes []), leaf1 2 (TBytes []), leaf1 3 (TUnsigned 7)])]" "[0xFF]"
      "[leaf1 1 (TBytes []), leaf1 2 (TBytes []), leaf1 3 (TUnsigned 7)]" 0 toy_aead toy_sign demo_im_exchange]
  by (simp add: invoke_message_payload OPERATIONAL_CREDENTIALS_CLUSTER_ID_def credentials_commands id_range_def leaf1_def wf_tag_def)

section \<open>Requests that throw\<close>

text \<open>
  (C17) A request with an integer of 64 bits anywhere in it is never handled: the handlers print
  it with \<open>JSON.stringify\<close> first, which throws on the BigInt it decodes to. So throw the
  installation of a certificate with the node id of its administrator, a breadcrumb of eight
  octets, or a read with a node id in a path.
\<close>

theorem wide_integers_throw:
  assumes "AppPayload msg = Inr (tlv_bytes e)" and "wf_telem e" and "has_bigint (tlv_json e)"
  shows "onInvokeCommandRequest A sign msg n = Inl TypeError \<and> onReadRequest A msg n = Inl TypeError"
  using assms decode_telem [OF assms(2)] by (simp add: onInvokeCommandRequest_def onReadRequest_def json_stringify_def)

theorem wide_integers_throw_witness:
  "onInvokeCommandRequest toy_aead toy_sign (invoke_message [(0, 48, 0, [leaf1 0 (TUnsigned 60), leaf1 1 (TUnsigned (2 ^ 32))])]) demo_im_exchange = Inl TypeError"
  using wide_integers_throw [OF invoke_message_payload(1), of "[(0, 48, 0, [leaf1 0 (TUnsigned 60), leaf1 1 (TUnsigned (2 ^ 32))])]" toy_aead toy_sign demo_im_exchange]
  by (simp add: invoke_request_elem_def leaf1_def path_elem_def wf_tag_def)

text \<open>
  The commands of the network commissioning cluster and the ping of the basic cluster
  cannot be answered: every one of them throws a \<open>ReferenceError\<close>, for a name that the
  server's file does not define.
\<close>

lemma undefined_names_throw:
  assumes "AppPayload msg = Inr (tlv_bytes (invoke_request_elem ((0, cl, cmd, data) # cs)))" and "list_all command_ok ((0, cl, cmd, data) # cs)"
    and "cl = NETWORK_COMMISSIONING_CLUSTER_ID \<or> cl = BASIC_CLUSTER_ID \<and> cmd = BasicCommand_MfgSpecificPing"
  shows "onInvokeCommandRequest A sign msg n = Inl ReferenceError"
  using onInvokeCommandRequest_fold [OF assms(1,2), of A sign n] assms(3)
  by (auto simp: served_cluster_def cluster_ids Network_onCommand_def Basic_onCommand_def onMfgSpecificPing_def BasicCommand_MfgSpecificPing_def)

lemma undefined_names_throw_witness:
  "onInvokeCommandRequest toy_aead toy_sign (invoke_message [(0, 49, 2, [])]) demo_im_exchange = Inl ReferenceError \<and>
   onInvokeCommandRequest toy_aead toy_sign (invoke_message [(0, 40, 0, [])]) demo_im_exchange = Inl ReferenceError"
  using undefined_names_throw [OF invoke_message_payload(1), of 49 2 "[]" "[]" toy_aead toy_sign demo_im_exchange]
    undefined_names_throw [OF invoke_message_payload(1), of 40 0 "[]" "[]" toy_aead toy_sign demo_im_exchange]
  by (simp add: cluster_ids BasicCommand_MfgSpecificPing_def id_range_def)

section \<open>The attribute tables\<close>

definition table_of :: "(string \<times> int) list \<Rightarrow> (prop_key \<times> attribute) list \<Rightarrow> bool" where
  "table_of enum table \<longleftrightarrow> map (\<lambda>(k, a). (at_name a, k)) table = map (\<lambda>(nm, i). (nm, IntKey i)) enum \<and>
     distinct (map fst table) \<and> list_all (\<lambda>(k, a). at_readonly a \<and> at_nosubscribe a) table"

text \<open>
  The attribute table of each server agrees with the enumeration of its attributes: the
  same ids under the same names in the same order, no id twice, and every attribute read-only
  and closed to subscriptions.
\<close>

theorem attribute_tables:
  "table_of BasicAttribute Basic_attributes \<and> table_of GeneralAttribute General_attributes \<and>
   table_of NetworkAttribute Network_attributes \<and> table_of CredentialsAttribute Credentials_attributes"
  by (intro conjI) code_simp+

end
