(* ===== verification/Matter_Node.thy ===== *)
theory Matter_Node
  imports Interaction_Credentials
begin

text \<open>
  \<open>src/Node.js\<close>: the objects of a node wired together. A datagram of either socket goes to
  the session manager, its events to the exchange manager, and from there to the two protocols.
\<close>

definition node_onMessage ::
  "aead \<Rightarrow> hkdf \<Rightarrow> spake \<Rightarrow> signer \<Rightarrow> buffer \<Rightarrow> peer_info \<Rightarrow> 'a im_node_scheme \<Rightarrow> 'a im_node_scheme result" where
  "node_onMessage A kdf S sign buf peerInfo n = onMessage A (onSessionMessage (node_handlers A kdf S sign)) buf peerInfo n"

section \<open>What reception leaves unchanged\<close>

lemma touched_store [simp]:
  "length (n_sessions (touched a peer c n)) = length (n_sessions n)" "n_sent (touched a peer c n) = n_sent n"
  "x_exchanges (touched a peer c n) = x_exchanges n" "x_table (touched a peer c n) = x_table n"
  by (simp_all add: touched_def updateActivity_def upd_session_def)

lemma touched_fields [simp]:
  "s_localSessionId (n_sessions (touched a peer c n) ! b) = s_localSessionId (n_sessions n ! b)"
  "s_peerSessionId (n_sessions (touched a peer c n) ! b) = s_peerSessionId (n_sessions n ! b)"
  "s_messageCounter (n_sessions (touched a peer c n) ! b) = s_messageCounter (n_sessions n ! b)"
  by (simp_all add: touched_def updateActivity_def upd_session_nth [of s_localSessionId] upd_session_nth [of s_peerSessionId]
      upd_session_nth [of s_messageCounter])

lemma touched_peer: "a < length (n_sessions n) \<Longrightarrow> s_peerInfo (n_sessions (touched a peer c n) ! a) = Some peer"
  by (simp add: touched_def updateActivity_def upd_session_def)

lemma can_send_touched [simp]: "can_send (n_sessions (touched a peer c n) ! b) sid = can_send (n_sessions n ! b) sid"
  by (simp add: can_send_def)

lemma getExchange_touched [simp]: "getExchange b msg (touched a peer c n) = getExchange b msg n"
proof -
  have "exchange_match b msg (touched a peer c n) x = exchange_match b msg n x" for x
    by (simp add: exchange_match_def Let_def touched_fields(1) cong: if_cong)
  then have "exchange_match b msg (touched a peer c n) = exchange_match b msg n" ..
  then show ?thesis by (simp add: getExchange_def)
qed

end
