(* ===== verification/Node_Handshake.thy ===== *)
theory Node_Handshake
  imports Matter_Node
begin

text \<open>
  The PASE handshake between two nodes, datagram by datagram: from the shell's \<open>pase\<close> command
  (\<open>src/shell/cmd_pase.js\<close>) through the sockets, the session manager, the exchange manager and
  the session protocol of both nodes.
\<close>

section \<open>Opening a connection\<close>

text \<open>What \<open>doPase\<close> does once its arguments are read.\<close>

definition pase_connect :: "aead \<Rightarrow> string \<Rightarrow> int \<Rightarrow> 'a session_protocol_scheme \<Rightarrow> 'a session_protocol_scheme result" where
  "pase_connect A ipHost ipPort n =
     rbind (newExchange None None True n) (\<lambda>(x, n).
       let n = upd_session (e_session (x_exchanges n ! x))
                 (\<lambda>s. s\<lparr>s_transport := Client, s_peerInfo := Some \<lparr>pi_address = ipHost, pi_port = ipPort\<rparr>\<rparr>) n
       in (case newPase x n of (p, n) \<Rightarrow> startPase A p n))"

section \<open>A conversation at the level of datagrams\<close>

text \<open>A node without unsecured sessions, exchanges and handshakes; its secured sessions do not matter.\<close>

definition idle_node :: "'a session_protocol_scheme \<Rightarrow> bool" where
  "idle_node n \<longleftrightarrow> sm_unsecured n = [] \<and> x_table n = [] \<and> pn_listeners n = [] \<and> pr_paseSessions n = [] \<and> pn_tasks n = []"

lemma RandomU32_and: "RandomU32 n = (r, n') \<Longrightarrow> 0 \<le> (r AND 0x0FFFFFFF) + 1 \<and> (r AND 0x0FFFFFFF) + 1 + 3 \<le> 2 ^ 32"
  using AND_upper2 [of "0x0FFFFFFF" r] by simp

lemma new_unsecured_session:
  assumes "newSession (JNum UNSECURED_SESSION_ID) (JNum UNSECURED_SESSION_ID) False n = (a, n')"
  shows "\<exists>s d. a = length (n_sessions n) \<and>
    n' = n\<lparr>n_sessions := n_sessions n @ [s], n_drawn := d, sm_unsecured := sm_unsecured n @ [a]\<rparr> \<and>
    s_localSessionId s = JNum 0 \<and> s_peerSessionId s = JNum 0 \<and> s_peerNodeId s = None \<and>
    0 \<le> s_messageCounter s \<and> s_messageCounter s + 3 \<le> 2 ^ 32"
proof -
  obtain r n1 where r: "RandomU32 n = (r, n1)" by (cases "RandomU32 n")
  then have "n1 = n\<lparr>n_drawn := n_drawn n + 4\<rparr>" by (auto simp: RandomU32_def Random_def)
  then show ?thesis
    using assms r RandomU32_and [OF r]
    by (intro exI [of _ "last (n_sessions n')"] exI [of _ "n_drawn n + 4"])
      (auto simp: newSession_def new_session_def UNSECURED_SESSION_ID_def Let_def)
qed

lemma pase_connect_starts:
  assumes "idle_node n" and "0 \<le> x_nextExchangeId n" and "x_nextExchangeId n < 2 ^ 16"
  shows "\<exists>n1. pase_connect A host port n = startPase A (length (pn_pases n)) n1 \<and> ready 3 (length (pn_pases n)) n1 \<and> pn_tasks n1 = [] \<and>
    pn_pases n1 ! length (pn_pases n) = new_pase (length (x_exchanges n)) \<and>
    linked (length (pn_pases n)) True \<lparr>pi_address = host, pi_port = port\<rparr> (x_nextExchangeId n) None n1 \<and> n_random n1 = n_random n"
proof -
  obtain a n1 where n1: "newSession (JNum UNSECURED_SESSION_ID) (JNum UNSECURED_SESSION_ID) False n = (a, n1)"
    by (cases "newSession (JNum UNSECURED_SESSION_ID) (JNum UNSECURED_SESSION_ID) False n")
  from new_unsecured_session [OF n1] obtain s d where s: "a = length (n_sessions n)"
    "n1 = n\<lparr>n_sessions := n_sessions n @ [s], n_drawn := d, sm_unsecured := sm_unsecured n @ [a]\<rparr>"
    "s_localSessionId s = JNum 0" "s_peerSessionId s = JNum 0" "s_peerNodeId s = None" "0 \<le> s_messageCounter s" "s_messageCounter s + 3 \<le> 2 ^ 32"
    by blast
  show ?thesis
    using assms n1 s
    by (auto simp: pase_connect_def newExchange_def newUnsecuredSession_def newPase_def pase_create_def upd_session_def upd_exchange_def
        idle_node_def ready_def sendable_def linked_def new_exchange_def new_pase_def exchange_ok_def nth_append Let_def)
qed

text \<open>What reception on an unsecured session does to the node before the handler runs.\<close>

definition received :: "nat \<Rightarrow> peer_info \<Rightarrow> int \<Rightarrow> 'a pase_node_scheme \<Rightarrow> 'a pase_node_scheme" where
  "received x peer c n = upd_exchange x (\<lambda>e. e\<lparr>e_ackCounter := c\<rparr>) (touched (e_session (x_exchanges n ! x)) peer c n)"

lemma touched_pase [simp]:
  "pn_pases (touched a peer c n) = pn_pases n" "pn_listeners (touched a peer c n) = pn_listeners n" "pn_tasks (touched a peer c n) = pn_tasks n"
  "sm_unsecured (touched a peer c n) = sm_unsecured n" "n_random (touched a peer c n) = n_random n"
  "pr_paseSessions (touched a peer c m) = pr_paseSessions m"
  by (simp_all add: touched_def updateActivity_def upd_session_def)

lemma touched_node_id [simp]: "s_peerNodeId (n_sessions (touched a peer c n) ! b) = s_peerNodeId (n_sessions n ! b)"
  by (simp add: touched_def updateActivity_def upd_session_nth [of s_peerNodeId])

lemma touched_linked:
  assumes "linked p i peer xid v n" and "a = e_session (x_exchanges n ! ps_exchange (pn_pases n ! p))"
  shows "linked p i peer xid v (touched a peer c n)"
  using assms by (simp add: linked_def Let_def touched_peer)

lemma received_linked:
  assumes "linked p i peer xid v n" and "x = ps_exchange (pn_pases n ! p)"
  shows "linked p i peer xid v (received x peer c n)"
  unfolding received_def linked_ack by (rule touched_linked [OF assms(1)]) (simp add: assms(2))

lemma received_ready:
  assumes "ready k p n" and "linked p i peer xid v n" and "x = ps_exchange (pn_pases n ! p)" and "0 \<le> c" and "c < 2 ^ 32"
  shows "ready k p (received x peer c n)"
proof -
  have "x < length (x_exchanges n)" "e_session (x_exchanges n ! x) < length (n_sessions n)"
    using assms(1,3) by (simp_all add: ready_def sendable_def Let_def)
  then show ?thesis
    using assms by (auto simp: ready_def received_def sendable_def upd_exchange_def exchange_ok_def Let_def touched_peer split: option.splits)
qed

lemma received_fields [simp]:
  "pn_pases (received x peer c n) = pn_pases n" "pn_tasks (received x peer c n) = pn_tasks n" "n_random (received x peer c n) = n_random n"
  by (simp_all add: received_def upd_exchange_def)

text \<open>A datagram of the conversation reaches the PASE object at the other end.\<close>

lemma carries_on_wire:
  assumes "carries pkt opc pay" and "p_data pkt = wire_bytes w" and "wire_ok w"
  shows "ProtocolOpcode (on_wire w m) = Inr opc" "AppPayload (on_wire w m) = Inr pay" "ExchangeId (on_wire w m) = Inr (w_xid w)"
proof -
  have "new_message_of (p_data pkt) None None = on_wire w (new_message_of [] None None)" using assms(2) by (simp add: on_wire_def new_message_of_def)
  then have "ProtocolOpcode (on_wire w (new_message_of [] None None)) = Inr opc" "AppPayload (on_wire w (new_message_of [] None None)) = Inr pay"
    using assms(1) unfolding carries_def Let_def by metis+
  then show "ProtocolOpcode (on_wire w m) = Inr opc" "AppPayload (on_wire w m) = Inr pay" "ExchangeId (on_wire w m) = Inr (w_xid w)"
    using wire_exchange_get(2,3) [OF assms(3)] wire_AppPayload [OF assms(3)] by simp_all
qed

lemma rbind_rfold_Nil [simp]: "rbind r (rfold f []) = r"
  by (cases r) simp_all

lemma receive_on_link:
  assumes "linked p i peer xid (Some v) n" and "x = ps_exchange (pn_pases n ! p)" and "headed SESSION_PROTOCOL_ID (\<not> i) xid v pkt" and "carries pkt opc pay"
  shows "\<exists>m c. node_onMessage A kdf S sign (p_data pkt) peer n = onExchangeMessage A kdf S p m (received x peer c n) \<and>
    ProtocolOpcode m = Inr opc \<and> AppPayload m = Inr pay \<and> ExchangeId m = Inr xid \<and> 0 \<le> c \<and> c < 2 ^ 32"
proof -
  obtain w where w: "p_data pkt = wire_bytes w" "wire_ok w" "w_sid w = 0" "w_sec w = 0" "w_xid w = xid" "w_xflags w AND 0x01 \<noteq> 0 \<longleftrightarrow> \<not> i"
    "w_flags w = (if i then 1 else 4)" "w_ids w = le_bytes 8 v" and v: "0 \<le> v" "v < 2 ^ 64"
    using assms(3) by (auto simp: headed_def)
  let ?a = "e_session (x_exchanges n ! x)" and ?raw = "new_message_of (p_data pkt) None (Some peer)"
  let ?m = "on_wire w (?raw\<lparr>m_exchange := Some x\<rparr>)"
  have l: "e_exchangeId (x_exchanges n ! x) = xid" "e_isInitiator (x_exchanges n ! x) = i" "x_table n = [x]" "sm_unsecured n = [?a]"
    "pn_listeners n = [(x, p)]" "s_localSessionId (n_sessions n ! ?a) = JNum 0" "s_peerInfo (n_sessions n ! ?a) = Some peer" "s_peerNodeId (n_sessions n ! ?a) = Some v"
    using assms(1,2) by (simp_all add: linked_def Let_def)
  have raw: "on_wire w ?raw = ?raw" by (simp add: w(1) on_wire_def new_message_of_def)
  have f: "isUnencrypted (on_wire w m) = Inr True" "SessionId (on_wire w m) = Inr 0" "MessageCounter (on_wire w m) = Inr (w_ctr w)"
    "Iflag (on_wire w m) = Inr (\<not> i)" "ExchangeId (on_wire w m) = Inr xid"
    "i \<Longrightarrow> DestinationNodeId (on_wire w m) = Inr v" "\<not> i \<Longrightarrow> SourceNodeId (on_wire w m) = Inr v" for m
    using wire_get [OF wire_ok_ranges [OF w(2)]] wire_exchange_flag [OF w(2)] wire_exchange_get [OF w(2)] w v
      wire_isUnencrypted [OF wire_ok_ranges [OF w(2)]] wire_DestinationNodeId [OF w(2), of v "[]"] wire_SourceNodeId [OF w(2), of v "[]"]
    by simp_all
  let ?n = "touched ?a peer (w_ctr w) n"
  have g: "getUnsecureSession peer v n = Inr (Some ?a)" using l by (simp add: getUnsecureSession_def)
  note r = f [of ?raw, unfolded raw]
  have pi: "m_peerInfo ?raw = Some peer" by (simp add: new_message_of_def)
  have t: "touch_session ?a ?raw n = Inr ?n" by (rule touch_session_ok [OF pi r(3)])
  have x: "getExchange ?a ?raw ?n = Inr (Some x)" using l r by (simp add: getExchange_def exchange_match_def Let_def)
  have m: "?raw\<lparr>m_exchange := Some x\<rparr> = ?m" by (simp add: w(1) on_wire_def new_message_of_def)
  have u: "getUnsecureSession peer v n = Inr (Some ?a)" "sm_onUnsecuredMessage emit ?raw n = emit ?raw ?a ?n" for emit
    using g t pi r l by (cases i; simp add: sm_onUnsecuredMessage_def)+
  have s: "onSessionMessage H ?raw ?a ?n = h_exchange H x ?m (received x peer (w_ctr w) n)" for H
    unfolding received_def m [symmetric] using r x by (simp add: onSessionMessage_def)
  have "node_onMessage A kdf S sign (p_data pkt) peer n = onExchangeMessage A kdf S p ?m (received x peer (w_ctr w) n)"
    using r(1) u(2) s l(5) by (simp add: node_onMessage_def onMessage_def Let_def node_handlers_def emit_exchange_def received_def upd_exchange_def)
  moreover have "0 \<le> w_ctr w" "w_ctr w < 2 ^ 32" using wire_ok_ranges [OF w(2)] by (simp_all add: wire_ranges_def)
  ultimately show ?thesis using carries_on_wire [OF assms(4) w(1,2)] f(5) by blast
qed

text \<open>The first datagram makes the session, the exchange and the PASE object at the other end.\<close>

lemma receive_first:
  assumes "idle_node n" and "headed SESSION_PROTOCOL_ID True xid v pkt" and "v \<noteq> 0" and "carries pkt PaseCommand_ParamRequest pay"
  shows "\<exists>m n1. node_onMessage A kdf S sign (p_data pkt) peer n = onExchangeMessage A kdf S (length (pn_pases n)) m n1 \<and>
    ready 3 (length (pn_pases n)) n1 \<and> pn_tasks n1 = [] \<and> pn_pases n1 ! length (pn_pases n) = new_pase (length (x_exchanges n)) \<and>
    linked (length (pn_pases n)) False peer xid (Some v) n1 \<and>
    ProtocolOpcode m = Inr PaseCommand_ParamRequest \<and> AppPayload m = Inr pay \<and> ExchangeId m = Inr xid"
proof -
  obtain w where w: "p_data pkt = wire_bytes w" "wire_ok w" "w_sid w = 0" "w_sec w = 0" "w_pid w = SESSION_PROTOCOL_ID" "w_xid w = xid" "w_xflags w AND 0x01 \<noteq> 0"
    "w_flags w = 4" "w_ids w = le_bytes 8 v" and v: "0 \<le> v" "v < 2 ^ 64"
    using assms(2) by (auto simp: headed_def)
  let ?raw = "new_message_of (p_data pkt) None (Some peer)" and ?x = "length (x_exchanges n)" and ?p = "length (pn_pases n)"
  have raw: "on_wire w ?raw = ?raw" by (simp add: w(1) on_wire_def new_message_of_def)
  have r: "isUnencrypted ?raw = Inr True" "SessionId ?raw = Inr 0" "MessageCounter ?raw = Inr (w_ctr w)" "Iflag ?raw = Inr True" "SourceNodeId ?raw = Inr v"
    using wire_get [OF wire_ok_ranges [OF w(2)], of ?raw] wire_exchange_flag(2) [OF w(2), of ?raw] w v
      wire_isUnencrypted [OF wire_ok_ranges [OF w(2)], of ?raw] wire_SourceNodeId [OF w(2), where src = v and dst = "[]" and m = ?raw]
    unfolding raw by simp_all
  have pi: "m_peerInfo ?raw = Some peer" by (simp add: new_message_of_def)
  obtain a n1 where n1: "newSession (JNum UNSECURED_SESSION_ID) (JNum UNSECURED_SESSION_ID) False n = (a, n1)"
    by (cases "newSession (JNum UNSECURED_SESSION_ID) (JNum UNSECURED_SESSION_ID) False n")
  from new_unsecured_session [OF n1] obtain s d where s: "a = length (n_sessions n)"
    "n1 = n\<lparr>n_sessions := n_sessions n @ [s], n_drawn := d, sm_unsecured := sm_unsecured n @ [a]\<rparr>"
    "s_localSessionId s = JNum 0" "s_peerSessionId s = JNum 0" "0 \<le> s_messageCounter s" "s_messageCounter s + 3 \<le> 2 ^ 32" by blast
  let ?n2 = "upd_session a (\<lambda>s. s\<lparr>s_peerNodeId := Some v\<rparr>) n1"
  define n3 where "n3 = touched a peer (w_ctr w) ?n2"
  have t: "touch_session a ?raw ?n2 = Inr n3" unfolding n3_def by (rule touch_session_ok [OF pi r(3)])
  have u: "sm_onUnsecuredMessage emit ?raw n = emit ?raw a n3" for emit
    using assms(1) r pi n1 t by (simp add: sm_onUnsecuredMessage_def getUnsecureSession_def idle_node_def)
  have f3: "x_exchanges n3 = x_exchanges n" "x_table n3 = []" "pn_pases n3 = pn_pases n" "pn_listeners n3 = []" "pr_paseSessions n3 = []"
    "pn_tasks n3 = []" "sm_unsecured n3 = [a]" "a < length (n_sessions n3)"
    using assms(1) s by (simp_all add: n3_def idle_node_def upd_session_def)
  have s3: "s_localSessionId (n_sessions n3 ! a) = JNum 0" "s_peerSessionId (n_sessions n3 ! a) = JNum 0" "0 \<le> s_messageCounter (n_sessions n3 ! a)"
    "s_messageCounter (n_sessions n3 ! a) + 3 \<le> 2 ^ 32" "s_peerNodeId (n_sessions n3 ! a) = Some v" "s_peerInfo (n_sessions n3 ! a) = Some peer"
    using s by (simp_all add: n3_def upd_session_def touched_peer)
  let ?n4 = "accepted w a n3" and ?m = "?raw\<lparr>m_exchange := Some ?x\<rparr>"
  have g: "getExchange a ?raw n3 = Inr None" unfolding getExchange_def f3(2) by simp
  have o: "onSessionMessage H ?raw a n3 = h_protocol H SESSION_PROTOCOL_ID ?m ?x ?n4" for H
    using onSessionMessage_new [OF w(2,7), of a ?raw n3 H] g w(5) f3(1) unfolding raw by simp
  have m: "?m = on_wire w ?m" by (simp add: w(1) on_wire_def new_message_of_def)
  have mm: "ProtocolOpcode ?m = Inr PaseCommand_ParamRequest" "AppPayload ?m = Inr pay" "ExchangeId ?m = Inr xid"
    using carries_on_wire [OF assms(4) w(1,2), of ?m] w(6) unfolding m [symmetric] by simp_all
  obtain q n5 where n5: "newPase ?x ?n4 = (q, n5)" by (cases "newPase ?x ?n4")
  have "getPase ?x ?n4 = None" by (simp add: getPase_def accepted_def f3(5))
  then have "node_onMessage A kdf S sign (p_data pkt) peer n = onExchangeMessage A kdf S q ?m n5"
    using r(1) u o mm n5 by (simp add: node_onMessage_def onMessage_def Let_def node_handlers_def onProtocolMessage_def)
  moreover have "w_xid w < 2 ^ 16" "0 \<le> w_xid w" "w_ctr w < 2 ^ 32" "0 \<le> w_ctr w"
    using wire_ok_ranges [OF w(2)] by (simp_all add: wire_ranges_def)
  then have "q = ?p \<and> ready 3 ?p n5 \<and> pn_tasks n5 = [] \<and> pn_pases n5 ! ?p = new_pase ?x \<and> linked ?p False peer xid (Some v) n5"
    using n5 f3 s3 v assms(3) w(6)
    by (auto simp: newPase_def pase_create_def accepted_def upd_exchange_def ready_def sendable_def linked_def new_pase_def exchange_ok_def nth_append Let_def)
  ultimately show ?thesis using mm by blast
qed

section \<open>The whole handshake\<close>

text \<open>
  The network: the last datagram that \<open>src\<close> sent arrives at the node whose address is
  \<open>here\<close>, from the address \<open>from\<close>, if it was sent there. Then the awaited values arrive.
\<close>

definition carry :: "aead \<Rightarrow> hkdf \<Rightarrow> spake \<Rightarrow> signer \<Rightarrow> 'a net_scheme \<Rightarrow> peer_info \<Rightarrow> peer_info \<Rightarrow> 'b im_node_scheme \<Rightarrow> 'b im_node_scheme result" where
  "carry A kdf S sign src here q n =
     (let pkt = last (n_sent src)
      in if here = \<lparr>pi_address = p_host pkt, pi_port = p_port pkt\<rparr> then node_onMessage A kdf S sign (p_data pkt) q n else Inr n)"

definition settle :: "aead \<Rightarrow> spake \<Rightarrow> 'a pase_node_scheme \<Rightarrow> 'a pase_node_scheme result" where
  "settle A S n = rbind (next_task A S n) (next_task A S)"

definition node_handshake ::
  "aead \<Rightarrow> hkdf \<Rightarrow> spake \<Rightarrow> signer \<Rightarrow> peer_info \<Rightarrow> peer_info \<Rightarrow> 'a im_node_scheme \<Rightarrow> 'b im_node_scheme \<Rightarrow> ('a im_node_scheme \<times> 'b im_node_scheme) result" where
  "node_handshake A kdf S sign ai ar i r =
     rbind (pase_connect A (pi_address ar) (pi_port ar) i) (\<lambda>i.
     rbind (carry A kdf S sign i ar ai r) (\<lambda>r.
     rbind (rbind (carry A kdf S sign r ai ar i) (settle A S)) (\<lambda>i.
     rbind (rbind (carry A kdf S sign i ar ai r) (settle A S)) (\<lambda>r.
     rbind (carry A kdf S sign r ai ar i) (\<lambda>i.
     rbind (carry A kdf S sign i ar ai r) (\<lambda>r. Inr (i, r)))))))"

text \<open>
  Each end of a conversation under way: what it is linked to, and what it sent last.
\<close>

definition said :: "nat \<Rightarrow> bool \<Rightarrow> peer_info \<Rightarrow> int \<Rightarrow> int \<Rightarrow> int \<Rightarrow> buffer \<Rightarrow> 'a pase_node_scheme \<Rightarrow> bool" where
  "said p i peer xid v opc pay n \<longleftrightarrow> linked p i peer xid (Some v) n \<and> sent_last opc pay n \<and>
     headed SESSION_PROTOCOL_ID i xid v (last (n_sent n)) \<and> peer = \<lparr>pi_address = p_host (last (n_sent n)), pi_port = p_port (last (n_sent n))\<rparr>"

lemma said_next:
  assumes "keeps_link p n n'" and "linked p i peer xid (Some v) n" and "v \<noteq> 0" and "sent_last opc pay n'"
  shows "said p i peer xid v opc pay n'"
  using assms unfolding keeps_link_def said_def by (fastforce simp: node_id_truthy_def)

lemma carry_said:
  assumes "said q (\<not> i) here xid v opc pay src" and "linked p i peer xid (Some v) n" and "ready k p n"
  shows "\<exists>m n1. carry A kdf S sign src here peer n = onExchangeMessage A kdf S p m n1 \<and> ProtocolOpcode m = Inr opc \<and> AppPayload m = Inr pay \<and>
    (\<exists>j. ExchangeId m = Inr j) \<and> ready k p n1 \<and> linked p i peer xid (Some v) n1 \<and> pn_pases n1 = pn_pases n \<and> pn_tasks n1 = pn_tasks n"
proof -
  let ?x = "ps_exchange (pn_pases n ! p)" and ?pkt = "last (n_sent src)"
  have h: "headed SESSION_PROTOCOL_ID (\<not> i) xid v ?pkt" "carries ?pkt opc pay" "here = \<lparr>pi_address = p_host ?pkt, pi_port = p_port ?pkt\<rparr>"
    using assms(1) by (simp_all add: said_def sent_last_def)
  from receive_on_link [OF assms(2) refl h(1,2), of A kdf S sign] obtain m c where
    "node_onMessage A kdf S sign (p_data ?pkt) peer n = onExchangeMessage A kdf S p m (received ?x peer c n)"
    "ProtocolOpcode m = Inr opc" "AppPayload m = Inr pay" "ExchangeId m = Inr xid" "0 \<le> c" "c < 2 ^ 32" by blast
  with h(3) show ?thesis
    using received_ready [OF assms(3,2) refl] received_linked [OF assms(2) refl]
    by (intro exI [of _ m] exI [of _ "received ?x peer c n"]) (simp add: carry_def Let_def)
qed

lemma new_pase_offers: "offers (js_string ''SPAKE2P Key Salt'') 1000 (new_pase x)"
  using demo_pase_offers by (simp add: offers_def new_pase_def)

abbreviation pase_salt :: buffer where
  "pase_salt \<equiv> utf8_encode (js_string ''SPAKE2P Key Salt'')"

text \<open>The request and the parameters: both ends know each other's session ids and octets.\<close>

definition acquainted :: "peer_info \<Rightarrow> peer_info \<Rightarrow> nat \<Rightarrow> 'a pase_node_scheme \<Rightarrow> nat \<Rightarrow> 'b pase_node_scheme \<Rightarrow> int \<Rightarrow> int \<Rightarrow> int \<Rightarrow> int \<Rightarrow> buffer \<Rightarrow> buffer \<Rightarrow> bool" where
  "acquainted ai ar p i q r xid v sid rsid req rsp \<longleftrightarrow> introduced p i q r sid rsid req rsp \<and> v \<noteq> 0 \<and>
     linked p True ar xid (Some v) i \<and> said q False ai xid v PaseCommand_ParamResponse rsp r \<and>
     ps_paramPaircode (pn_pases i ! p) = DEFAULT_PINCODE \<and> ps_paramPaircode (pn_pases r ! q) = DEFAULT_PINCODE \<and>
     offers (js_string ''SPAKE2P Key Salt'') 1000 (pn_pases r ! q)"

lemma node_opens:
  assumes "idle_node i" and "0 \<le> x_nextExchangeId i" and "x_nextExchangeId i < 2 ^ 16" and "\<forall>d. random_id (n_random i) d \<noteq> 0"
  shows "\<exists>i1 p v rnd sid. pase_connect A (pi_address ar) (pi_port ar) i = Inr i1 \<and> length rnd = 32 \<and> 0 \<le> sid \<and> sid < 2 ^ 16 \<and> v \<noteq> 0 \<and>
    said p True ar (x_nextExchangeId i) v PaseCommand_ParamRequest (tlv_bytes (request_elem rnd sid)) i1 \<and> ready 2 p i1 \<and> pn_tasks i1 = [] \<and>
    pn_pases i1 ! p = after_request rnd sid (new_pase (length (x_exchanges i)))"
proof -
  let ?p = "length (pn_pases i)" and ?x = "length (x_exchanges i)" and ?xid = "x_nextExchangeId i"
  have ar: "\<lparr>pi_address = pi_address ar, pi_port = pi_port ar\<rparr> = ar" by simp
  obtain n1 where n1: "pase_connect A (pi_address ar) (pi_port ar) i = startPase A ?p n1" "ready 3 ?p n1" "pn_tasks n1 = []"
    "pn_pases n1 ! ?p = new_pase ?x" "linked ?p True ar ?xid None n1" "n_random n1 = n_random i"
    using pase_connect_starts [OF assms(1-3), of A "pi_address ar" "pi_port ar", unfolded ar] by blast
  have r: "ready (Suc 2) ?p n1" "ps_state (pn_pases n1 ! ?p) = IDLE" "?p < length (pn_pases n1)"
    using n1(2,4) by (simp_all add: numeral_3_eq_3 numeral_2_eq_2 new_pase_def ready_def)
  obtain rnd sid i1 where o: "length rnd = 32" "0 \<le> sid" "sid < 2 ^ 16" "startPase A ?p n1 = Inr i1"
    and s: "pase_sent 2 ?p (after_request rnd sid (pn_pases n1 ! ?p)) PaseCommand_ParamRequest (tlv_bytes (request_elem rnd sid)) n1 i1"
    using startPase_sends [OF r(1,2), of A] by blast
  have "keeps_link ?p n1 i1" by (rule pase_sent_link [OF s r(3)]) (simp add: after_request_def setState_def)
  then obtain v d where "v = random_id (n_random n1) d" and l: "linked ?p True ar ?xid (Some v) i1" "headed SESSION_PROTOCOL_ID True ?xid v (last (n_sent i1))"
    "ar = \<lparr>pi_address = p_host (last (n_sent i1)), pi_port = p_port (last (n_sent i1))\<rparr>"
    using n1(5) unfolding keeps_link_def by (fastforce simp: node_id_truthy_def)
  moreover from this(1) have "v \<noteq> 0" using assms(4) n1(6) by simp
  moreover have "said ?p True ar ?xid v PaseCommand_ParamRequest (tlv_bytes (request_elem rnd sid)) i1"
    using l pase_sent_last [OF s] unfolding said_def by blast
  ultimately show ?thesis using o n1(1,3,4) pase_sent_state(1,2,4) [OF s r(3)] by auto
qed

lemma nodes_acquainted:
  assumes "idle_node i" and "idle_node r" and "0 \<le> x_nextExchangeId i" and "x_nextExchangeId i < 2 ^ 16" and "\<forall>d. random_id (n_random i) d \<noteq> 0"
  shows "\<exists>i1 r1 p q xid v sid rsid rnd rrnd rsp. pase_connect A (pi_address ar) (pi_port ar) i = Inr i1 \<and> carry A kdf S sign i1 ar ai r = Inr r1 \<and>
    acquainted ai ar p i1 q r1 xid v sid rsid (tlv_bytes (request_elem rnd sid)) rsp \<and> rsp = tlv_bytes (response_elem rnd rrnd rsid 1000 pase_salt) \<and>
    wf_telem (response_elem rnd rrnd rsid 1000 pase_salt) \<and> rsid < 2 ^ 16"
proof -
  let ?xid = "x_nextExchangeId i" and ?q = "length (pn_pases r)"
  obtain i1 p v rnd sid where i1: "pase_connect A (pi_address ar) (pi_port ar) i = Inr i1" and o: "length rnd = 32" "0 \<le> sid" "sid < 2 ^ 16" and v: "v \<noteq> 0"
    and sd: "said p True ar ?xid v PaseCommand_ParamRequest (tlv_bytes (request_elem rnd sid)) i1" and ri: "ready 2 p i1" "pn_tasks i1 = []"
    and ps: "pn_pases i1 ! p = after_request rnd sid (new_pase (length (x_exchanges i)))"
    using node_opens [OF assms(1,3,4,5), of A ar] by blast
  have h: "headed SESSION_PROTOCOL_ID True ?xid v (last (n_sent i1))" "carries (last (n_sent i1)) PaseCommand_ParamRequest (tlv_bytes (request_elem rnd sid))"
    "ar = \<lparr>pi_address = p_host (last (n_sent i1)), pi_port = p_port (last (n_sent i1))\<rparr>"
    using sd unfolding said_def sent_last_def by blast+
  obtain m n1 where m: "node_onMessage A kdf S sign (p_data (last (n_sent i1))) ai r = onExchangeMessage A kdf S ?q m n1"
    "ready 3 ?q n1" "pn_tasks n1 = []" "pn_pases n1 ! ?q = new_pase (length (x_exchanges r))" "linked ?q False ai ?xid (Some v) n1"
    "ProtocolOpcode m = Inr PaseCommand_ParamRequest" "AppPayload m = Inr (tlv_bytes (request_elem rnd sid))" "ExchangeId m = Inr ?xid"
    using receive_first [OF assms(2) h(1) v h(2), of A kdf S sign ai] by blast
  have r: "ready (Suc 2) ?q n1" "ps_state (pn_pases n1 ! ?q) = IDLE" "?q < length (pn_pases n1)"
    using m(2,4) by (simp_all add: numeral_3_eq_3 numeral_2_eq_2 new_pase_def ready_def)
  have off: "offers (js_string ''SPAKE2P Key Salt'') 1000 (pn_pases n1 ! ?q)" using new_pase_offers m(4) by simp
  then have po: "ps_paramIterations (pn_pases n1 ! ?q) = JNum 1000" "(0 :: int) \<le> 1000" "(1000 :: int) < 2 ^ 32"
    "ps_paramSaltHex (pn_pases n1 ! ?q) = hex_encode pase_salt" "int (length pase_salt) < 2 ^ 32" by (simp_all add: offers_def)
  obtain rrnd rsid rsp r1 where rs: "length rrnd = 32" "0 \<le> rsid" "rsid < 2 ^ 16" and rsp: "rsp = tlv_bytes (response_elem rnd rrnd rsid 1000 pase_salt)"
    and r1: "onPbkdfParamRequest A ?q m n1 = Inr r1"
    and s2: "pase_sent 2 ?q (after_response rnd sid rrnd rsid rsp (pn_pases n1 ! ?q)) PaseCommand_ParamResponse rsp n1 r1"
    using onPbkdfParamRequest_sends [OF r(1,2) m(7) o po, of A] by blast
  have c: "carry A kdf S sign i1 ar ai r = Inr r1"
    using m r1 h(3) by (simp add: carry_def Let_def onExchangeMessage_def)
  have wf: "wf_telem (response_elem rnd rrnd rsid 1000 pase_salt)" using wf_response o rs po by simp
  have "keeps_link ?q n1 r1" by (rule pase_sent_link [OF s2 r(3)]) (simp add: after_response_def setState_def)
  then have said2: "said ?q False ai ?xid v PaseCommand_ParamResponse rsp r1"
    by (rule said_next [OF _ m(5) v pase_sent_last [OF s2]])
  note r1s = pase_sent_state [OF s2 r(3)]
  have intro: "introduced p i1 ?q r1 sid rsid (tlv_bytes (request_elem rnd sid)) rsp"
    using ri ps r1s(1,2,4) m(3) by (simp add: introduced_def after_request_def after_response_def setState_def)
  have li: "linked p True ar ?xid (Some v) i1" using sd unfolding said_def by blast
  have pc: "ps_paramPaircode (pn_pases i1 ! p) = DEFAULT_PINCODE" "ps_paramPaircode (pn_pases r1 ! ?q) = DEFAULT_PINCODE"
    "offers (js_string ''SPAKE2P Key Salt'') 1000 (pn_pases r1 ! ?q)"
    using ps r1s(1) off m(4) by (simp_all add: after_request_def after_response_def setState_def offers_def new_pase_def)
  have "acquainted ai ar p i1 ?q r1 ?xid v sid rsid (tlv_bytes (request_elem rnd sid)) rsp"
    unfolding acquainted_def using intro v said2 li pc by blast
  then show ?thesis using i1 c rsp wf rs(3) by blast
qed

text \<open>The remaining steps, each from the datagram the other end sent last.\<close>

lemma node_sends_pake1:
  assumes "spake_ok S" and "acquainted ai ar p i q r xid v sid rsid req rsp"
    and "rsp = tlv_bytes (response_elem rnd rrnd rsid 1000 pase_salt)" and "wf_telem (response_elem rnd rrnd rsid 1000 pase_salt)" and "rsid < 2 ^ 16"
  shows "\<exists>i' v' c crnd. rbind (carry A kdf S sign r ai ar i) (settle A S) = Inr i' \<and> client_waits p c sid rsid i' \<and> ready (Suc 0) p i' \<and>
    linked p True ar xid (Some v) i' \<and> said p True ar xid v PaseCommand_Pake1 (tlv_bytes (pake_elem [hex_decode (sp_message S c)])) i' \<and>
    verifier_for S (context_of S req rsp) DEFAULT_PINCODE pase_salt 1000 v' \<and> sp_client_start S (context_of S req rsp) v' crnd = Inr c"
proof -
  have a: "said q (\<not> True) ai xid v PaseCommand_ParamResponse rsp r" "linked p True ar xid (Some v) i" "ready 2 p i" "pn_tasks i = []"
    "ps_localRole (pn_pases i ! p) = INITIATOR" "ps_initiatorSessionId (pn_pases i ! p) = JNum sid" "ps_pbkdfRequest (pn_pases i ! p) = Some req"
    "ps_paramPaircode (pn_pases i ! p) = DEFAULT_PINCODE" "v \<noteq> 0"
    using assms(2) by (simp_all add: acquainted_def introduced_def)
  obtain m n1 where m: "carry A kdf S sign r ai ar i = onExchangeMessage A kdf S p m n1" "ProtocolOpcode m = Inr PaseCommand_ParamResponse" "AppPayload m = Inr rsp"
    "\<exists>j. ExchangeId m = Inr j" and n1: "ready 2 p n1" "linked p True ar xid (Some v) n1" "pn_pases n1 = pn_pases i" "pn_tasks n1 = pn_tasks i"
    using carry_said [OF a(1-3), of A kdf S sign] by blast
  have c: "carry A kdf S sign r ai ar i = onPbkdfParamResponse S p m n1" using m by (auto simp: onExchangeMessage_def session_consts)
  have pc: "0 \<le> ps_paramPaircode (pn_pases n1 ! p)" "ps_paramPaircode (pn_pases n1 ! p) < 2 ^ 32" using a(8) n1(3) by (simp_all add: DEFAULT_PINCODE_def)
  obtain n' v' c crnd where n': "rbind (onPbkdfParamResponse S p m n1) (\<lambda>n. rbind (next_task A S n) (next_task A S)) = Inr n'"
    "client_waits p c sid rsid n'" "ready (Suc 0) p n'" "keeps_link p n1 n'"
    "verifier_for S (context_of S req rsp) (ps_paramPaircode (pn_pases n1 ! p)) pase_salt 1000 v'" "sp_client_start S (context_of S req rsp) v' crnd = Inr c"
    and s: "sent_last PaseCommand_Pake1 (tlv_bytes (pake_elem [hex_decode (sp_message S c)])) n'"
    using client_sends_pake1 [OF assms(1) n1(1) [unfolded numeral_2_eq_2] _ refl _ _ _ pc m(3) assms(3-5), of sid req A] n1(3,4) a(4-7) by auto
  note sd = said_next [OF n'(4) n1(2) a(9) s]
  then have "linked p True ar xid (Some v) n'" unfolding said_def by blast
  then show ?thesis using n' sd c n1(3) a(8) unfolding settle_def by auto
qed

lemma node_sends_pake2:
  assumes "spake_ok S" and "acquainted ai ar p i q r xid v sid rsid req rsp"
    and "said p True ar xid v PaseCommand_Pake1 (tlv_bytes (pake_elem [hex_decode (sp_message S c)])) i'"
    and "verifier_for S (context_of S req rsp) DEFAULT_PINCODE pase_salt 1000 v'" and "sp_client_start S (context_of S req rsp) v' crnd = Inr c"
  shows "\<exists>r' s k cB. rbind (carry A kdf S sign i' ar ai r) (settle A S) = Inr r' \<and> server_waits q k sid rsid r' \<and> ready (Suc 0) q r' \<and>
    agreed S c s k \<and> int (length cB) < 65536 \<and> linked q False ai xid (Some v) r' \<and>
    said q False ai xid v PaseCommand_Pake2 (tlv_bytes (pake_elem [hex_decode (sp_message S s), cB])) r'"
proof -
  have a: "linked q False ai xid (Some v) r" "ready 2 q r" "pn_tasks r = []"
    "ps_localRole (pn_pases r ! q) = RESPONDER" "ps_state (pn_pases r ! q) = AWAIT_PAKE1"
    "ps_initiatorSessionId (pn_pases r ! q) = JNum sid" "ps_responderSessionId (pn_pases r ! q) = JNum rsid"
    "ps_pbkdfRequest (pn_pases r ! q) = Some req" "ps_pbkdfResponse (pn_pases r ! q) = Some rsp"
    "ps_paramPaircode (pn_pases r ! q) = DEFAULT_PINCODE" "v \<noteq> 0"
    "ps_paramIterations (pn_pases r ! q) = JNum 1000" "with_salt (ps_paramSalt (pn_pases r ! q)) pase_salt"
    using assms(2) unfolding acquainted_def introduced_def said_def offers_def with_salt_def by auto
  obtain m n1 where m: "carry A kdf S sign i' ar ai r = onExchangeMessage A kdf S q m n1" "ProtocolOpcode m = Inr PaseCommand_Pake1"
    "AppPayload m = Inr (tlv_bytes (pake_elem [hex_decode (sp_message S c)]))" "\<exists>j. ExchangeId m = Inr j"
    and n1: "ready 2 q n1" "linked q False ai xid (Some v) n1" "pn_pases n1 = pn_pases r" "pn_tasks n1 = pn_tasks r"
    using carry_said [OF _ a(1,2), unfolded not_False_eq_True, OF assms(3), of A kdf S sign] by blast
  have c: "carry A kdf S sign i' ar ai r = onPake1 S q m n1" using m by (auto simp: onExchangeMessage_def session_consts)
  have pc: "0 \<le> ps_paramPaircode (pn_pases n1 ! q)" "ps_paramPaircode (pn_pases n1 ! q) < 2 ^ 32" using a(10) n1(3) by (simp_all add: DEFAULT_PINCODE_def)
  obtain n' s k cB where n': "rbind (onPake1 S q m n1) (\<lambda>n. rbind (next_task A S n) (next_task A S)) = Inr n'"
    "server_waits q k sid rsid n'" "ready (Suc 0) q n'" "agreed S c s k" "int (length cB) < 65536" "keeps_link q n1 n'"
    and s: "sent_last PaseCommand_Pake2 (tlv_bytes (pake_elem [hex_decode (sp_message S s), cB])) n'"
    using server_sends_pake2 [OF assms(1) n1(1) [unfolded numeral_2_eq_2] _ refl _ _ _ _ _ _ pc _ _ _ m(3) _ assms(5), where salt = pase_salt and A = A and sid = sid and rsid = rsid]
      n1(3,4) a assms(4) by auto
  note sd = said_next [OF n'(6) n1(2) a(11) s]
  then have "linked q False ai xid (Some v) n'" unfolding said_def by blast
  then show ?thesis using n' sd c unfolding settle_def by auto
qed

lemma node_opens_session:
  assumes "spake_ok S" and "session_keys kdf k = Inr keys" and "ready (Suc j) p i" and "client_waits p c sid rsid i" and "agreed S c s k" and "int (length cB) < 65536"
    and "said q False ai xid v PaseCommand_Pake2 (tlv_bytes (pake_elem [hex_decode (sp_message S s), cB])) r" and "linked p True ar xid (Some v) i"
    and "v \<noteq> 0"
  shows "\<exists>i' cA. carry A kdf S sign r ai ar i = Inr i' \<and> has_session keys (JNum sid) (JNum rsid) i' \<and>
    said p True ar xid v PaseCommand_Pake3 (tlv_bytes (pake_elem [cA])) i' \<and> sp_verify S k (JBuf cA) = Inr () \<and> int (length cA) < 65536"
proof -
  obtain m n1 where m: "carry A kdf S sign r ai ar i = onExchangeMessage A kdf S p m n1" "ProtocolOpcode m = Inr PaseCommand_Pake2"
    "AppPayload m = Inr (tlv_bytes (pake_elem [hex_decode (sp_message S s), cB]))" "\<exists>j. ExchangeId m = Inr j"
    and n1: "ready (Suc j) p n1" "linked p True ar xid (Some v) n1" "pn_pases n1 = pn_pases i"
    using carry_said [OF _ assms(8,3), unfolded not_True_eq_False, OF assms(7), of A kdf S sign] by blast
  have c: "carry A kdf S sign r ai ar i = onPake2 A kdf S p m n1" using m by (auto simp: onExchangeMessage_def session_consts)
  have w: "client_waits p c sid rsid n1" using assms(4) n1(3) by (simp add: client_waits_def)
  show ?thesis
    using client_finishes [OF assms(1,2) n1(1) w assms(5,6) m(3), of A] said_next [OF _ n1(2) assms(9)] c by metis
qed

lemma node_accepts_session:
  assumes "session_keys kdf k = Inr keys" and "ready (Suc j) q r" and "server_waits q k sid rsid r"
    and "said p True ar xid v PaseCommand_Pake3 (tlv_bytes (pake_elem [cA])) i" and "linked q False ai xid (Some v) r"
    and "int (length cA) < 65536" and "sp_verify S k (JBuf cA) = Inr ()"
  shows "\<exists>r'. carry A kdf S sign i ar ai r = Inr r' \<and> has_session keys (JNum rsid) (JNum sid) r'"
proof -
  obtain m n1 where m: "carry A kdf S sign i ar ai r = onExchangeMessage A kdf S q m n1" "ProtocolOpcode m = Inr PaseCommand_Pake3"
    "AppPayload m = Inr (tlv_bytes (pake_elem [cA]))" "\<exists>j. ExchangeId m = Inr j" and n1: "ready (Suc j) q n1" "pn_pases n1 = pn_pases r"
    using carry_said [OF _ assms(5,2), unfolded not_False_eq_True, OF assms(4), of A kdf S sign] by blast
  have c: "carry A kdf S sign i ar ai r = onPake3 A kdf S q m n1" using m by (auto simp: onExchangeMessage_def session_consts)
  have w: "server_waits q k sid rsid n1" using assms(3) n1(2) by (simp add: server_waits_def)
  show ?thesis using server_finishes [OF assms(1) n1(1) w m(3) assms(6,7), of A] c by auto
qed

text \<open>
  (C1) The handshake works from the command line of one node to the session tables of both. When the
  \<open>pase\<close> command connects an idle node to another idle node, the request, the parameters, the two
  public values and the two confirmations cross the network as datagrams: each is routed by the session
  manager to the unsecured session, by the exchange manager to the exchange and by the session protocol
  to the PASE object, and none is dropped or refused. At the end each node has a secured session with the
  same three keys, and with the session id of one as the peer's session id of the other.
\<close>

theorem node_handshake_completes:
  assumes "spake_ok S" and "kdf_ok kdf" and "idle_node i" and "idle_node r"
    and "0 \<le> x_nextExchangeId i" and "x_nextExchangeId i < 2 ^ 16" and "\<forall>d. random_id (n_random i) d \<noteq> 0"
  shows "\<exists>i' r' keys sid rsid. node_handshake A kdf S sign ai ar i r = Inr (i', r') \<and> length keys = 3 \<and>
    has_session keys (JNum sid) (JNum rsid) i' \<and> has_session keys (JNum rsid) (JNum sid) r'"
proof -
  obtain i1 r1 p q xid v sid rsid rnd rrnd rsp where 1: "pase_connect A (pi_address ar) (pi_port ar) i = Inr i1" "carry A kdf S sign i1 ar ai r = Inr r1"
    and acq: "acquainted ai ar p i1 q r1 xid v sid rsid (tlv_bytes (request_elem rnd sid)) rsp"
    and rsp: "rsp = tlv_bytes (response_elem rnd rrnd rsid 1000 pase_salt)" "wf_telem (response_elem rnd rrnd rsid 1000 pase_salt)" "rsid < 2 ^ 16"
    using nodes_acquainted [OF assms(3-7), of A ar kdf S sign ai] by blast
  obtain i2 v' c crnd where i2: "rbind (carry A kdf S sign r1 ai ar i1) (settle A S) = Inr i2"
    and cw: "client_waits p c sid rsid i2" "ready (Suc 0) p i2" and li2: "linked p True ar xid (Some v) i2"
    and s3: "said p True ar xid v PaseCommand_Pake1 (tlv_bytes (pake_elem [hex_decode (sp_message S c)])) i2"
    and vf: "verifier_for S (context_of S (tlv_bytes (request_elem rnd sid)) rsp) DEFAULT_PINCODE pase_salt 1000 v'"
      "sp_client_start S (context_of S (tlv_bytes (request_elem rnd sid)) rsp) v' crnd = Inr c"
    using node_sends_pake1 [OF assms(1) acq rsp, of A kdf sign] by blast
  obtain r2 s k cB where r2: "rbind (carry A kdf S sign i2 ar ai r1) (settle A S) = Inr r2"
    and sw: "server_waits q k sid rsid r2" "ready (Suc 0) q r2" and k: "agreed S c s k" "int (length cB) < 65536"
    and lr2: "linked q False ai xid (Some v) r2"
    and s4: "said q False ai xid v PaseCommand_Pake2 (tlv_bytes (pake_elem [hex_decode (sp_message S s), cB])) r2"
    using node_sends_pake2 [OF assms(1) acq s3 vf, of A kdf sign] by blast
  obtain keys where keys: "session_keys kdf k = Inr keys" "length keys = 3" using session_keys_ok [OF assms(2)] by blast
  obtain i3 cA where i3: "carry A kdf S sign r2 ai ar i2 = Inr i3" "has_session keys (JNum sid) (JNum rsid) i3"
    and s5: "said p True ar xid v PaseCommand_Pake3 (tlv_bytes (pake_elem [cA])) i3" and cA: "sp_verify S k (JBuf cA) = Inr ()" "int (length cA) < 65536"
    using node_opens_session [OF assms(1) keys(1) cw(2,1) k s4 li2, of A sign] acq unfolding acquainted_def by blast
  obtain r3 where r3: "carry A kdf S sign i3 ar ai r2 = Inr r3" "has_session keys (JNum rsid) (JNum sid) r3"
    using node_accepts_session [OF keys(1) sw(2,1) s5 lr2 cA(2,1), of A sign] by blast
  have "node_handshake A kdf S sign ai ar i r = Inr (i3, r3)"
    unfolding node_handshake_def using 1 i2 r2 i3(1) r3(1) by auto
  then show ?thesis using keys(2) i3(2) r3(2) by blast
qed

text \<open>A node that has just started; its random octets are all 1.\<close>

definition started_node :: im_node where
  "started_node = \<lparr>n_sessions = [], n_sent = [], n_random = (\<lambda>_. 1), n_drawn = 0, n_now = 5,
     sm_secured = [], sm_unsecured = [], sm_nextSessionId = 1, x_exchanges = [], x_table = [], x_nextExchangeId = 0,
     pn_pases = [], pn_listeners = [], pn_tasks = [], pr_paseSessions = [], pr_pairingCodes = Map.empty, im_tasks = []\<rparr>"

lemma started_node_idle: "idle_node started_node" "random_id (n_random started_node) d \<noteq> 0" "x_nextExchangeId started_node = 0"
  by (simp_all add: started_node_def idle_node_def random_id_def map_replicate_const eval_nat_numeral)

theorem node_handshake_completes_witness:
  "\<exists>i' r' keys sid rsid. node_handshake toy_aead toy_kdf toy_spake toy_sign demo_peer (demo_peer\<lparr>pi_port := 5540\<rparr>) started_node started_node = Inr (i', r') \<and>
    length keys = 3 \<and> has_session keys (JNum sid) (JNum rsid) i' \<and> has_session keys (JNum rsid) (JNum sid) r'"
  by (rule node_handshake_completes [OF toy_spake_ok toy_kdf_ok started_node_idle(1) started_node_idle(1)]) (simp_all add: started_node_idle)

section \<open>The negotiated session and the datagrams of the peer\<close>

text \<open>
  Whatever key a datagram with a complete header was made with, decrypting it ends: with octets, or
  with the \<open>null\<close> of a failed authentication, and what is left has a message counter.
\<close>

lemma decrypt_any_key:
  assumes "msg_decrypt A data key = Inr x" and "8 \<le> length data"
  obtains r where "msg_decrypt A data key' = Inr r" and "\<And>d. r = Some d \<Longrightarrow> 8 \<le> length d"
proof -
  obtain nonce where n: "getNonce data 0 = Inr nonce" using assms(1) by (auto simp: msg_decrypt_def Let_def)
  let ?c = "ccm_decrypt A key' nonce (subarray 0 (int (header_size data)) data) (subarray (int (header_size data)) (int (length data) - 16) data)
    (subarray_from (int (length data) - 16) data)"
  have "8 \<le> length (subarray 0 (int (header_size data)) data)" using assms(2) header_size_ge [of data] by (simp add: subarray_0)
  then show ?thesis using that [of "case ?c of Inl _ \<Rightarrow> None | Inr p \<Rightarrow> Some (subarray 0 (int (header_size data)) data @ p)"] n
    by (cases ?c) (auto simp: msg_decrypt_def Let_def)
qed

definition under_key :: "buffer option \<Rightarrow> message \<Rightarrow> message" where
  "under_key r m = (case r of None \<Rightarrow> m | Some d \<Rightarrow> m\<lparr>m_buffer := d\<rparr>)"

text \<open>
  A protected datagram for an id that no session has, made with any key: it goes up on a session
  made for it, with what the test key makes of it.
\<close>

lemma received_under_test_key:
  assumes "ccm_ok A" and "length key = 16" and "wire_ok w" and "w_flags w = 0" and "w_sec w AND 3 = 0" and "w_sid w \<noteq> 0"
    and "length (w_rest w) < 2 ^ 16 - 14" and "msg_encrypt A (wire_bytes w) key = Inr data"
    and "tables_ok n" and "getSecureSession (w_sid w) n = None"
  shows "\<exists>r n'. msg_decrypt A data (test_keys ! 0) = Inr r \<and>
    onMessage A up data peer n = up (under_key r (new_message_of data (Some data) (Some peer))) (length (n_sessions n)) n' \<and>
    getSecureSession (w_sid w) n' = Some (length (n_sessions n)) \<and> s_keys (n_sessions n' ! length (n_sessions n)) = Some test_keys"
proof -
  note d = encrypted_datagram [OF assms(1-8)]
  let ?raw = "new_message_of data (Some data) (Some peer)" and ?a = "length (n_sessions n)"
  have l: "8 \<le> length data"
  proof -
    have ids: "w_ids w = []" using assms(3,4) by (simp add: wire_ok_def id_size_def)
    have "header_size (wire_bytes w) = 8" using wire_header(1) [OF assms(4) ids] .
    moreover have "length (wire_bytes w) < 2 ^ 16" using assms(7) ids by (simp add: length_wire_bytes)
    ultimately show ?thesis using encrypt_then_decrypt [OF assms(1,2), of "wire_bytes w"] assms(8) by (auto simp: length_wire_bytes)
  qed
  obtain r where r: "msg_decrypt A data (test_keys ! 0) = Inr r" "\<And>d. r = Some d \<Longrightarrow> 8 \<le> length d"
    using decrypt_any_key [OF d(1) l] by metis
  obtain n1 where n1: "newSession (JNum (w_sid w)) (JNum (w_sid w)) True n = (?a, n1)"
    using newSession_tables(1) by (metis surj_pair)
  obtain s where s: "n_sessions n1 = n_sessions n @ [s]" "s_keys s = Some test_keys" "\<not> s_initiator s"
    using newSession_tables(4) [OF n1] by auto
  have g1: "getSecureSession (w_sid w) n1 = Some ?a" using secure_sessions.found_after [OF assms(9,10) n1] .
  let ?n2 = "upd_session ?a (\<lambda>s. s\<lparr>s_peerNodeId := Some NODE_ID_ANY\<rparr>) n1"
  have s2: "s_keys (n_sessions ?n2 ! ?a) = Some test_keys" "\<not> s_initiator (n_sessions ?n2 ! ?a)" using s by (simp_all add: upd_session_def)
  have dec: "decryptMessage A (n_sessions ?n2 ! ?a) ?raw = Inr (under_key r ?raw)"
    using d(2) r(1) s2 by (simp add: decryptMessage_def under_key_def new_message_of_def split: option.splits)
  have "8 \<le> length (m_buffer (under_key r ?raw))" "m_peerInfo (under_key r ?raw) = Some peer"
    using r(2) l by (auto simp: under_key_def new_message_of_def split: option.splits)
  then obtain c where t: "touch_session ?a (under_key r ?raw) ?n2 = Inr (touched ?a peer c ?n2)"
    using touch_session_ok by (metis MessageCounter_def read_uint_le_def numeral_Bit0 numeral_plus_numeral semiring_norm(2,6))
  have "onMessage A up data peer n = up (under_key r ?raw) ?a (touched ?a peer c ?n2)"
    using d(2,3,4) dec t assms(10) n1 by (simp add: onMessage_def onSecureMessage_def Let_def)
  then show ?thesis using g1 s2 r(1) by auto
qed

lemma createSecureSession_files:
  assumes "session_keys kdf k = Inr keys" and "ps_secret (pn_pases n ! p) = Some k" and "tables_ok n"
    and "ps_localRole (pn_pases n ! p) = INITIATOR \<longleftrightarrow> initiator"
    and "ps_initiatorSessionId (pn_pases n ! p) = JNum (if initiator then own else theirs)"
    and "ps_responderSessionId (pn_pases n ! p) = JNum (if initiator then theirs else own)"
    and "own \<noteq> theirs" and "getSecureSession own n = None" and "getSecureSession theirs n = None"
  shows "\<exists>n'. createSecureSession kdf p n = Inr n' \<and> has_session keys (JNum own) (JNum theirs) n' \<and> tables_ok n' \<and>
    getSecureSession own n' = None \<and> getSecureSession theirs n' = Some (length (n_sessions n)) \<and>
    length (n_sessions n') = Suc (length (n_sessions n)) \<and> s_keys (n_sessions n' ! length (n_sessions n)) = Some keys"
proof -
  obtain a n1 where n1: "newSession (JNum own) (JNum theirs) True n = (a, n1)" by (cases "newSession (JNum own) (JNum theirs) True n")
  note g = getSecureSession_newSession [OF assms(3) n1] and a = newSession_tables(1) [OF n1]
  have f: "ps_secret (pn_pases n1 ! p) = Some k"
    using n1 assms(2) by (auto simp: newSession_def new_session_def RandomU32_def Random_def Let_def split: prod.splits)
  let ?n = "upd_session a (\<lambda>s. s\<lparr>s_keys := Some keys\<rparr>) n1"
  have t: "s_keys (n_sessions n1 ! a) = Some test_keys" using newSession_tables(4) [OF n1] a by auto
  have c: "createSecureSession kdf p n = Inr ?n"
    using n1 f t assms(1,4-6) by (auto simp: createSecureSession_def initPaseSession_def initFromSecret_def session_keys_def Let_def)
  have "s_peerSessionId (n_sessions ?n ! b) = s_peerSessionId (n_sessions n1 ! b)" for b by (simp add: upd_session_nth [of s_peerSessionId])
  then have "getSecureSession j ?n = getSecureSession j n1" for j by (simp add: getSecureSession_def upd_session_def)
  moreover have "has_session keys (JNum own) (JNum theirs) ?n"
    using createSecureSession_ok [OF assms(1,2), of "(JNum own, JNum theirs)" ] c assms(4-6) by auto
  moreover have "tables_ok ?n" using tables_ok_newSession [OF assms(3) n1] by (simp add: tables_ok_def upd_session_def)
  moreover have "length (n_sessions ?n) = Suc a" "s_keys (n_sessions ?n ! a) = Some keys" using newSession_tables(4) [OF n1] a by (auto simp: upd_session_def)
  ultimately show ?thesis using c g a assms(7-9) by auto
qed

text \<open>
  (C7) The session that PASE negotiates does not receive. A party puts the session id its peer chose
  into the header; the session manager compares the id of a datagram with the peer's session id of
  its own sessions. Take a node that has just made the session of a handshake in which the two ids
  differ, and the peer's session for the same keys. The datagram the peer's session sends bears the
  id this node chose. When the node receives it, the negotiated session is not found: the session
  manager makes another one, with the fixed test keys, runs the test key over the datagram, and
  passes on to the protocols what comes of that (the ciphertext itself when authentication under
  the test key fails) on the session with the test keys.
\<close>

theorem negotiated_session_unreachable:
  assumes "session_keys kdf k = Inr keys" and "ps_secret (pn_pases n ! p) = Some k" and "tables_ok n"
    and "ps_localRole (pn_pases n ! p) = INITIATOR \<longleftrightarrow> initiator"
    and "ps_initiatorSessionId (pn_pases n ! p) = JNum (if initiator then own else theirs)"
    and "ps_responderSessionId (pn_pases n ! p) = JNum (if initiator then theirs else own)"
    and "own \<noteq> theirs" and "getSecureSession own n = None" and "getSecureSession theirs n = None"
    and "ccm_ok A" and "b < length (n_sessions m)" and "can_send (n_sessions m ! b) own" and "own \<noteq> 0"
    and "s_keys (n_sessions m ! b) = Some keys" and "s_peerInfo (n_sessions m ! b) = Some addr"
    and "length (keys ! (if w_xflags w AND 0x01 \<noteq> 0 then 0 else 1)) = 16"
    and "wire_ranges w" and "w_ids w = []" and "length (w_rest w) < 2 ^ 16 - 14"
  shows "\<exists>n' sent m' data r n''. createSecureSession kdf p n = Inr n' \<and> has_session keys (JNum own) (JNum theirs) n' \<and>
    session_sendMessage A b (on_wire w msg) m = Inr (sent, m') \<and> p_data (last (n_sent m')) = data \<and>
    msg_decrypt A data (test_keys ! 0) = Inr r \<and>
    node_onMessage A kdf' S sign data peer n' =
      onSessionMessage (node_handlers A kdf' S sign) (under_key r (new_message_of data (Some data) (Some peer))) (length (n_sessions n')) n'' \<and>
    s_keys (n_sessions n'' ! length (n_sessions n')) = Some test_keys \<and> getSecureSession own n'' = Some (length (n_sessions n'))"
proof -
  obtain n' where n': "createSecureSession kdf p n = Inr n'" "has_session keys (JNum own) (JNum theirs) n'" "tables_ok n'"
    "getSecureSession own n' = None"
    using createSecureSession_files [OF assms(1-9)] by blast
  let ?w = "header_of own (s_messageCounter (n_sessions m ! b)) w" and ?k = "keys ! (if w_xflags w AND 0x01 \<noteq> 0 then 0 else 1)"
  have ok: "wire_ok ?w" by (rule header_of_ok [OF assms(17,18,12)])
  have h: "w_flags ?w = 0" "w_sec ?w AND 3 = 0" "w_sid ?w = own" "length (w_rest ?w) < 2 ^ 16 - 14"
    using assms(19) by (simp_all add: header_of_def)
  obtain data where d: "msg_encrypt A (wire_bytes ?w) ?k = Inr data"
    using secure_datagram [OF assms(10,12,13,16-19)] by blast
  note sent = send_secured [OF assms(11-15,17,18) refl d, of msg]
  obtain r n'' where "msg_decrypt A data (test_keys ! 0) = Inr r"
    "node_onMessage A kdf' S sign data peer n' =
      onSessionMessage (node_handlers A kdf' S sign) (under_key r (new_message_of data (Some data) (Some peer))) (length (n_sessions n')) n''"
    "getSecureSession own n'' = Some (length (n_sessions n'))" "s_keys (n_sessions n'' ! length (n_sessions n')) = Some test_keys"
    using received_under_test_key [OF assms(10,16) ok h(1,2) _ h(4) d n'(3), of "onSessionMessage (node_handlers A kdf' S sign)" peer] h(3) assms(13) n'(4)
    by (auto simp: node_onMessage_def)
  then show ?thesis using n'(1,2) sent by (intro exI [of _ n'] exI) auto
qed

text \<open>A responder about to make its session.\<close>

definition demo_confirmed :: im_node where
  "demo_confirmed = started_node\<lparr>pn_pases := [(new_pase 0)\<lparr>ps_localRole := RESPONDER, ps_secret := Some (toy_secret (replicate 32 4)),
     ps_initiatorSessionId := JNum 17, ps_responderSessionId := JNum 23\<rparr>]\<rparr>"

theorem negotiated_session_unreachable_witness:
  "\<exists>keys n' sent m' data r n''. session_keys toy_kdf (toy_secret (replicate 32 4)) = Inr keys \<and>
    createSecureSession toy_kdf 0 demo_confirmed = Inr n' \<and> has_session keys (JNum 23) (JNum 17) n' \<and>
    session_sendMessage toy_aead 0 (on_wire demo_wire new_message) (demo_net\<lparr>n_sessions := [demo_session\<lparr>s_peerSessionId := JNum 23, s_keys := Some keys\<rparr>]\<rparr>) = Inr (sent, m') \<and>
    p_data (last (n_sent m')) = data \<and> msg_decrypt toy_aead data (test_keys ! 0) = Inr r \<and>
    node_onMessage toy_aead toy_kdf toy_spake toy_sign data demo_peer n' =
      onSessionMessage (node_handlers toy_aead toy_kdf toy_spake toy_sign) (under_key r (new_message_of data (Some data) (Some demo_peer))) (length (n_sessions n')) n'' \<and>
    s_keys (n_sessions n'' ! length (n_sessions n')) = Some test_keys \<and> getSecureSession 23 n'' = Some (length (n_sessions n'))"
proof -
  obtain keys where k: "session_keys toy_kdf (toy_secret (replicate 32 4)) = Inr keys" using session_keys_ok [OF toy_kdf_ok] by blast
  let ?m = "demo_net\<lparr>n_sessions := [demo_session\<lparr>s_peerSessionId := JNum 23, s_keys := Some keys\<rparr>]\<rparr>"
  obtain oct where oct: "toy_kdf (k_Ke (toy_secret (replicate 32 4))) 48 [] (utf8_encode (js_string ''SessionKeys'')) = Inr oct" "length oct = 48"
    using toy_kdf_ok unfolding kdf_ok_def by metis
  have kl: "length (keys ! 0) = 16"
    using k oct subarray_0 [of 16 oct] by (auto simp: session_keys_def keys_from_secret_def)
  have 1: "ps_secret (pn_pases demo_confirmed ! 0) = Some (toy_secret (replicate 32 4))" "tables_ok demo_confirmed"
    "ps_localRole (pn_pases demo_confirmed ! 0) = INITIATOR \<longleftrightarrow> False"
    "ps_initiatorSessionId (pn_pases demo_confirmed ! 0) = JNum (if False then 23 else 17)"
    "ps_responderSessionId (pn_pases demo_confirmed ! 0) = JNum (if False then 17 else 23)"
    "(23::int) \<noteq> 17" "getSecureSession 23 demo_confirmed = None" "getSecureSession 17 demo_confirmed = None"
    by (simp_all add: demo_confirmed_def started_node_def tables_ok_def getSecureSession_def)
  have 2: "0 < length (n_sessions ?m)" "can_send (n_sessions ?m ! 0) 23" "(23::int) \<noteq> 0" "s_keys (n_sessions ?m ! 0) = Some keys"
    "s_peerInfo (n_sessions ?m ! 0) = Some \<lparr>pi_address = ''::1'', pi_port = 5540\<rparr>"
    "length (keys ! (if w_xflags demo_wire AND 0x01 \<noteq> 0 then 0 else 1)) = 16"
    "wire_ranges demo_wire" "w_ids demo_wire = []" "length (w_rest demo_wire) < 2 ^ 16 - 14"
    using kl by (simp_all add: can_send_def demo_session_def demo_wire_def wire_ranges_def)
  show ?thesis
    using negotiated_session_unreachable [OF k 1 toy_aead_ok 2, of new_message toy_kdf toy_spake toy_sign demo_peer] k by blast
qed

end
