(* ===== verification/Node_Invariant.thy ===== *)
theory Node_Invariant
  imports Node_Handshake "HOL-Library.Sublist"
begin

text \<open>
  A node as a whole: what any sequence of datagrams, awaited values, timeouts and \<open>pase\<close> commands
  keeps. The objects of the program refer to each other by index, so the first thing to keep is that
  no reference dangles. The code changes the state in a few ways, the rules of \<open>change\<close>; every
  operation is a sequence of them, and an invariant is proved once for each rule.
\<close>

section \<open>The ways the state changes\<close>

text \<open>What no operation changes of a session: its ids, whether it is secure, its side; its counter only grows.\<close>

definition session_kept :: "session \<Rightarrow> session \<Rightarrow> bool" where
  "session_kept s s' \<longleftrightarrow> s_localSessionId s' = s_localSessionId s \<and> s_peerSessionId s' = s_peerSessionId s \<and> s_secure s' = s_secure s \<and>
     s_initiator s' = s_initiator s \<and> (s_keys s' = None \<longleftrightarrow> s_keys s = None) \<and> s_messageCounter s \<le> s_messageCounter s'"

definition exchange_kept :: "exchange \<Rightarrow> exchange \<Rightarrow> bool" where
  "exchange_kept e e' \<longleftrightarrow> e_session e' = e_session e \<and> e_exchangeId e' = e_exchangeId e \<and> e_isInitiator e' = e_isInitiator e"

fun im_task_ok :: "nat \<Rightarrow> im_task \<Rightarrow> bool" where
  "im_task_ok k (CsrPending (Some x) path nonce) \<longleftrightarrow> x < k"
| "im_task_ok k _ \<longleftrightarrow> True"

text \<open>The changes below PASE, and those of PASE.\<close>

inductive lower :: "'a im_node_scheme \<Rightarrow> 'a im_node_scheme \<Rightarrow> bool" where
  low_session: "session_kept (n_sessions n ! a) (f (n_sessions n ! a)) \<Longrightarrow> lower n (upd_session a f n)"
| low_random: "lower n (n\<lparr>n_drawn := d\<rparr>)"
| low_send: "lower n (transport_send t b p h n)"
| low_new: "newSession l r sec n = (a, n') \<Longrightarrow> lower n n'"
| low_exchange: "exchange_kept (x_exchanges n ! x) (f (x_exchanges n ! x)) \<Longrightarrow> lower n (upd_exchange x f n)"
| low_open: "e_session e < length (n_sessions n) \<Longrightarrow>
    lower n (n\<lparr>x_exchanges := x_exchanges n @ [e], x_table := x_table n @ [length (x_exchanges n)]\<rparr>)"
| low_number: "lower n (n\<lparr>x_nextExchangeId := k\<rparr>)"
| low_tasks: "(\<And>t. t \<in> set ts \<Longrightarrow> im_task_ok (length (x_exchanges n)) t) \<Longrightarrow> lower n (n\<lparr>im_tasks := ts\<rparr>)"

inductive change :: "'a im_node_scheme \<Rightarrow> 'a im_node_scheme \<Rightarrow> bool" where
  change_lower: "lower n n' \<Longrightarrow> change n n'"
| change_pase: "ps_exchange (f (pn_pases n ! p)) = ps_exchange (pn_pases n ! p) \<Longrightarrow> change n (upd_pase p f n)"
| change_create: "x < length (x_exchanges n) \<Longrightarrow> newPase x n = (p, n') \<Longrightarrow> change n n'"
| change_tasks: "change n (n\<lparr>pn_tasks := ts\<rparr>)"

lemmas lowers = low_session [THEN r_into_rtranclp [where r = lower]] low_random [THEN r_into_rtranclp [where r = lower]] low_send [THEN r_into_rtranclp [where r = lower]] low_new [THEN r_into_rtranclp [where r = lower]]
  low_exchange [THEN r_into_rtranclp [where r = lower]] low_open [THEN r_into_rtranclp [where r = lower]] low_number [THEN r_into_rtranclp [where r = lower]] low_tasks [THEN r_into_rtranclp [where r = lower]]

lemma lower_changes: "lower\<^sup>*\<^sup>* n n' \<Longrightarrow> change\<^sup>*\<^sup>* n n'"
  by (rule mono_rtranclp [rule_format]) (rule change_lower)

section \<open>Every operation is a sequence of them\<close>

lemma session_keptI [simp]:
  "session_kept s (s\<lparr>s_peerNodeId := v\<rparr>)" "session_kept s (s\<lparr>s_peerInfo := i, s_peerMessageCounter := c\<rparr>)"
  "session_kept s (s\<lparr>s_lastActivityTimeMs := t, s_metricRxCount := k\<rparr>)"
  "session_kept s (s\<lparr>s_messageCounter := s_messageCounter s + 1, s_metricTxCount := k\<rparr>)"
  "session_kept s (s\<lparr>s_transport := tr, s_peerInfo := i\<rparr>)" "s_keys s \<noteq> None \<Longrightarrow> session_kept s (s\<lparr>s_keys := Some ks\<rparr>)"
  by (simp_all add: session_kept_def)

lemma exchange_keptI [simp]:
  "exchange_kept e (e\<lparr>e_ackCounter := c\<rparr>)" "exchange_kept e (e\<lparr>e_isReliable := b\<rparr>)" "exchange_kept e (e\<lparr>e_isAck := b\<rparr>)"
  by (simp_all add: exchange_kept_def)

lemma send_header_lower: "send_header a msg n = Inr (m, n') \<Longrightarrow> lower\<^sup>*\<^sup>* n n'"
  by (auto simp: send_header_def intro: lowers(1))

lemma send_unsecured_lower:
  assumes "send_unsecured a msg n = Inr (m, b, n')"
  shows "lower\<^sup>*\<^sup>* n n'"
proof -
  have "lower\<^sup>*\<^sup>* n (upd_session a (\<lambda>s. s\<lparr>s_peerNodeId := v\<rparr>) (n\<lparr>n_drawn := d\<rparr>))" for v d
    by (rule rtranclp_trans [OF lowers(2) lowers(1)]) simp
  then show ?thesis using assms by (auto simp: send_unsecured_def Let_def split: if_splits prod.splits dest!: RandomU64_net)
qed

lemma session_send_lower:
  assumes "session_sendMessage A a msg n = Inr (m', n')"
  shows "lower\<^sup>*\<^sup>* n n'"
proof -
  let ?send = "\<lambda>(msg, buf, n). case s_peerInfo (n_sessions n ! a) of
         None \<Rightarrow> Inl TypeError
       | Some p \<Rightarrow> Inr (msg, transport_send (s_transport (n_sessions n ! a)) buf (pi_port p) (pi_address p) n)"
  obtain m1 n1 e where 1: "send_header a msg n = Inr (m1, n1)"
    and r: "rbind (if e then send_secure A a m1 n1 else send_unsecured a m1 n1) ?send = Inr (m', n')"
    using assms unfolding session_sendMessage_def by (auto simp del: rbind_eq_Inr simp add: rbind_eq_Inr [of "send_header a msg n"] rbind_eq_Inr [of "isEncrypted _"])
  obtain m2 buf n2 where 2: "(if e then send_secure A a m1 n1 else send_unsecured a m1 n1) = Inr (m2, buf, n2)"
    and 3: "\<exists>t p h. n' = transport_send t buf p h n2"
    using r by (auto split: option.splits) blast
  have "lower\<^sup>*\<^sup>* n1 n2"
    using 2 send_unsecured_lower by (cases e) (auto simp: send_secure_def split: option.splits)
  moreover have "lower\<^sup>*\<^sup>* n2 n'" using 3 lowers(3) by blast
  ultimately show ?thesis using send_header_lower [OF 1] by (meson rtranclp_trans)
qed

lemma send_protocol_lower: "send_protocol A x pid opc pay n = Inr n' \<Longrightarrow> lower\<^sup>*\<^sup>* n n'"
  using session_send_lower by (auto simp: send_protocol_def exchange_sendMessage_def Let_def)

text \<open>The clusters and the interaction model only send, or wait.\<close>

lemma response_lower:
  "sendInvokeCommandResponseRaw A exch b n = Inr n' \<Longrightarrow> lower\<^sup>*\<^sup>* n n'"
  "sendInvokeCommandResponseData A exch path data n = Inr n' \<Longrightarrow> lower\<^sup>*\<^sup>* n n'"
  "sendInvokeCommandResponseStatus A exch path st n = Inr n' \<Longrightarrow> lower\<^sup>*\<^sup>* n n'"
  using send_protocol_lower
  by (auto simp: sendInvokeCommandResponseRaw_def sendInvokeCommandResponseData_def sendInvokeCommandResponseStatus_def Let_def split: option.splits)

section \<open>What every change keeps\<close>

text \<open>
  A session decrypts as a responder does; it has keys exactly when it is secure; its counter has
  started.
\<close>

definition session_wf :: "session \<Rightarrow> bool" where
  "session_wf s \<longleftrightarrow> \<not> s_initiator s \<and> (s_secure s \<longleftrightarrow> s_keys s \<noteq> None) \<and> 1 \<le> s_messageCounter s"

text \<open>References: tables to sessions and exchanges, exchanges to sessions, PASE objects to exchanges, listeners to both, waiting commands to exchanges.\<close>

definition refs_ok :: "'a im_node_scheme \<Rightarrow> bool" where
  "refs_ok n \<longleftrightarrow> list_all session_wf (n_sessions n) \<and> exchanges_ok n \<and>
     (\<forall>a \<in> set (sm_secured n). s_secure (n_sessions n ! a)) \<and> (\<forall>a \<in> set (sm_unsecured n). \<not> s_secure (n_sessions n ! a)) \<and>
     list_all (\<lambda>ps. ps_exchange ps < length (x_exchanges n)) (pn_pases n) \<and>
     list_all (\<lambda>(x, p). p < length (pn_pases n) \<and> ps_exchange (pn_pases n ! p) = x) (pn_listeners n) \<and>
     list_all (\<lambda>p. p < length (pn_pases n)) (pr_paseSessions n) \<and> list_all (im_task_ok (length (x_exchanges n))) (im_tasks n)"

text \<open>
  History: the tables of the managers only get longer, at the end, and the objects keep their identity.
\<close>

definition tables_grow :: "'a im_node_scheme \<Rightarrow> 'a im_node_scheme \<Rightarrow> bool" where
  "tables_grow n n' \<longleftrightarrow> prefix (sm_secured n) (sm_secured n') \<and> prefix (sm_unsecured n) (sm_unsecured n') \<and> prefix (x_table n) (x_table n') \<and>
     prefix (pn_listeners n) (pn_listeners n') \<and> prefix (pr_paseSessions n) (pr_paseSessions n')"

definition extends :: "'a im_node_scheme \<Rightarrow> 'a im_node_scheme \<Rightarrow> bool" where
  "extends n n' \<longleftrightarrow> length (n_sessions n) \<le> length (n_sessions n') \<and> (\<forall>a < length (n_sessions n). session_kept (n_sessions n ! a) (n_sessions n' ! a)) \<and>
     length (x_exchanges n) \<le> length (x_exchanges n') \<and> (\<forall>x < length (x_exchanges n). exchange_kept (x_exchanges n ! x) (x_exchanges n' ! x)) \<and>
     length (pn_pases n) \<le> length (pn_pases n') \<and> (\<forall>p < length (pn_pases n). ps_exchange (pn_pases n' ! p) = ps_exchange (pn_pases n ! p)) \<and>
     tables_grow n n'"

lemma tables_grow_trans: "tables_grow n n' \<Longrightarrow> tables_grow n' n'' \<Longrightarrow> tables_grow n n''"
  unfolding tables_grow_def by (meson prefix_order.trans)

lemma tables_growI [simp]: "tables_grow n n"
  by (simp add: tables_grow_def)

lemma kept_refl [simp]: "session_kept s s" "exchange_kept e e"
  by (simp_all add: session_kept_def exchange_kept_def)

lemma extends_refl: "extends n n"
  by (simp add: extends_def)

lemma kept_trans: "session_kept s s' \<Longrightarrow> session_kept s' s'' \<Longrightarrow> session_kept s s''" "exchange_kept e e' \<Longrightarrow> exchange_kept e' e'' \<Longrightarrow> exchange_kept e e''"
  by (auto simp: session_kept_def exchange_kept_def)

lemma extends_trans:
  assumes "extends n n'" and "extends n' n''"
  shows "extends n n''"
proof -
  have "session_kept (n_sessions n ! a) (n_sessions n'' ! a)" if "a < length (n_sessions n)" for a
    using assms that unfolding extends_def by (meson kept_trans(1) order.strict_trans2)
  moreover have "exchange_kept (x_exchanges n ! x) (x_exchanges n'' ! x)" if "x < length (x_exchanges n)" for x
    using assms that unfolding extends_def by (meson kept_trans(2) order.strict_trans2)
  moreover have "ps_exchange (pn_pases n'' ! p) = ps_exchange (pn_pases n ! p)" if "p < length (pn_pases n)" for p
    using assms that unfolding extends_def by (metis order.strict_trans2)
  moreover have "tables_grow n n''" using assms tables_grow_trans unfolding extends_def by blast
  ultimately show ?thesis using assms unfolding extends_def by (meson order_trans)
qed

lemma session_kept_wf: "session_kept s s' \<Longrightarrow> session_wf s \<Longrightarrow> session_wf s'"
  by (auto simp: session_kept_def session_wf_def)

lemma list_all_list_update: "list_all f xs \<Longrightarrow> f v \<Longrightarrow> list_all f (xs[i := v])"
  using set_update_subset_insert [of xs i v] by (auto simp: list_all_iff)

lemma update_nth_eq: "g (f (xs ! i)) = g (xs ! i) \<Longrightarrow> g (xs[i := f (xs ! i)] ! j) = g (xs ! j)"
  by (cases "i = j"; cases "i < length xs") (simp_all add: list_update_beyond)

lemma nth_update_rel: "R (xs ! i) v \<Longrightarrow> (\<And>x. R x x) \<Longrightarrow> R (xs ! j) (xs[i := v] ! j)"
  by (cases "i = j"; cases "i < length xs") (simp_all add: list_update_beyond)

lemma im_task_ok_mono: "im_task_ok k t \<Longrightarrow> k \<le> k' \<Longrightarrow> im_task_ok k' t"
  by (induction k t rule: im_task_ok.induct) auto

lemma low_session_ok:
  assumes "session_kept (n_sessions n ! a) (f (n_sessions n ! a))" and "refs_ok n"
  shows "refs_ok (upd_session a f n) \<and> extends n (upd_session a f n)"
proof -
  have g: "g (n_sessions (upd_session a f n) ! b) = g (n_sessions n ! b)" if "g (f (n_sessions n ! a)) = g (n_sessions n ! a)" for g b
    using that by (simp add: upd_session_def update_nth_eq)
  have k: "s_secure (f (n_sessions n ! a)) = s_secure (n_sessions n ! a)" using assms(1) by (simp add: session_kept_def)
  have "list_all session_wf (n_sessions (upd_session a f n))"
  proof (cases "a < length (n_sessions n)")
    case True
    then have "session_wf (f (n_sessions n ! a))" using assms session_kept_wf by (auto simp: refs_ok_def list_all_length)
    then show ?thesis using assms(2) by (simp add: upd_session_def refs_ok_def list_all_list_update)
  qed (use assms(2) in \<open>simp add: upd_session_def refs_ok_def list_update_beyond\<close>)
  moreover have "extends n (upd_session a f n)"
    using assms(1) by (simp add: extends_def tables_grow_def upd_session_def nth_update_rel [of session_kept])
  ultimately show ?thesis
    using assms(2) g [of s_secure, OF k] unfolding refs_ok_def exchanges_ok_def tables_ok_def by (simp add: upd_session_def)
qed

lemma low_exchange_ok:
  assumes "exchange_kept (x_exchanges n ! x) (f (x_exchanges n ! x))" and "refs_ok n"
  shows "refs_ok (upd_exchange x f n) \<and> extends n (upd_exchange x f n)"
proof -
  have "\<forall>e \<in> set ((x_exchanges n)[x := f (x_exchanges n ! x)]). e_session e < length (n_sessions n)"
  proof (cases "x < length (x_exchanges n)")
    case True
    then have "e_session (f (x_exchanges n ! x)) < length (n_sessions n)"
      using assms by (simp add: exchange_kept_def refs_ok_def exchanges_ok_def)
    then show ?thesis
      using assms(2) set_update_subset_insert [of "x_exchanges n" x "f (x_exchanges n ! x)"] by (auto simp: refs_ok_def exchanges_ok_def)
  qed (use assms(2) in \<open>simp add: refs_ok_def exchanges_ok_def list_update_beyond\<close>)
  then have "refs_ok (upd_exchange x f n)"
    using assms(2) by (simp add: upd_exchange_def refs_ok_def exchanges_ok_def tables_ok_def)
  moreover have "extends n (upd_exchange x f n)" using assms(1) by (simp add: extends_def tables_grow_def upd_exchange_def nth_update_rel [of exchange_kept])
  ultimately show ?thesis by simp
qed

lemma low_new_ok:
  assumes "newSession l r sec n = (a, n')" and "refs_ok n"
  shows "refs_ok n' \<and> extends n n'"
proof -
  obtain v n1 where v: "RandomU32 n = (v, n1)" by (cases "RandomU32 n")
  then have n1: "n1 = n\<lparr>n_drawn := n_drawn n + 4\<rparr>" by (auto simp: RandomU32_def Random_def)
  define s where "s = \<lparr>s_localSessionId = l, s_peerSessionId = r, s_peerNodeId = None, s_peerInfo = None, s_peerMessageCounter = 0, s_initiator = False,
    s_lastActivityTimeMs = 0, s_secure = sec, s_messageCounter = (v AND 0x0FFFFFFF) + 1, s_metricTxCount = 0, s_metricRxCount = 0, s_transport = Server,
    s_keys = (if sec then Some test_keys else None)\<rparr>"
  have a: "new_session l r sec n = (length (n_sessions n), n1\<lparr>n_sessions := n_sessions n @ [s]\<rparr>)"
    using v n1 by (simp add: new_session_def s_def)
  have s: "session_wf s" "s_secure s = sec" using message_counter_start [of v] by (simp_all add: session_wf_def s_def)
  have n': "n' = n\<lparr>n_drawn := n_drawn n + 4, n_sessions := n_sessions n @ [s], sm_secured := (if sec then sm_secured n @ [length (n_sessions n)] else sm_secured n),
      sm_unsecured := (if sec then sm_unsecured n else sm_unsecured n @ [length (n_sessions n)])\<rparr>"
    using assms(1) a n1 by (cases sec) (auto simp: newSession_def)
  have t: "\<forall>a \<in> set (sm_secured n) \<union> set (sm_unsecured n). a < length (n_sessions n)" using assms(2) by (simp add: refs_ok_def exchanges_ok_def tables_ok_def)
  have "\<forall>a \<in> set (sm_secured n'). s_secure (n_sessions n' ! a)" "\<forall>a \<in> set (sm_unsecured n'). \<not> s_secure (n_sessions n' ! a)"
    using t s(2) assms(2) by (auto simp: n' refs_ok_def nth_append)
  moreover have "exchanges_ok n'"
    using assms(2) t by (auto simp: n' refs_ok_def exchanges_ok_def tables_ok_def intro: less_SucI)
  moreover have "extends n n'" by (simp add: n' extends_def tables_grow_def nth_append)
  ultimately show ?thesis using assms(2) s(1) by (simp add: n' refs_ok_def)
qed

lemma lower_ok:
  assumes "lower n n'" and "refs_ok n"
  shows "refs_ok n' \<and> extends n n'"
  using assms
proof (induction rule: lower.induct)
  case (low_session n a f)
  then show ?case by (rule low_session_ok)
next
  case (low_new l r sec n a n')
  then show ?case by (rule low_new_ok)
next
  case (low_exchange n x f)
  then show ?case by (rule low_exchange_ok)
next
  case (low_open e n)
  then show ?case
    by (auto simp: refs_ok_def exchanges_ok_def tables_ok_def extends_def tables_grow_def nth_append list_all_iff intro: less_SucI im_task_ok_mono)
qed (auto simp: refs_ok_def exchanges_ok_def tables_ok_def extends_def tables_grow_def transport_send_def list_all_iff)

lemma change_pase_ok:
  assumes "ps_exchange (f (pn_pases n ! p)) = ps_exchange (pn_pases n ! p)" and "refs_ok n"
  shows "refs_ok (upd_pase p f n) \<and> extends n (upd_pase p f n)"
proof -
  define l where "l = (pn_pases n)[p := f (pn_pases n ! p)]"
  have g: "ps_exchange (l ! q) = ps_exchange (pn_pases n ! q)" for q using assms(1) by (simp add: l_def update_nth_eq [of ps_exchange])
  have l: "length l = length (pn_pases n)" by (simp add: l_def)
  then have "list_all (\<lambda>ps. ps_exchange ps < length (x_exchanges n)) l" using assms(2) g by (simp add: refs_ok_def list_all_length)
  moreover have u: "upd_pase p f n = n\<lparr>pn_pases := l\<rparr>" by (simp add: upd_pase_def l_def)
  ultimately have "refs_ok (upd_pase p f n)" using assms(2) g l by (simp add: refs_ok_def exchanges_ok_def tables_ok_def)
  then show ?thesis using g l by (simp add: u extends_def tables_grow_def)
qed

lemma change_create_ok:
  assumes "x < length (x_exchanges n)" and "newPase x n = (p, n')" and "refs_ok n"
  shows "refs_ok n' \<and> extends n n'"
proof -
  let ?k = "length (pn_pases n)"
  let ?n = "n\<lparr>pn_pases := pn_pases n @ [new_pase x], pn_listeners := pn_listeners n @ [(x, ?k)], pr_paseSessions := pr_paseSessions n @ [?k]\<rparr>"
  have n': "n' = upd_exchange x (\<lambda>e. e\<lparr>e_isReliable := True\<rparr>) ?n"
    using assms(2) by (auto simp: newPase_def pase_create_def Let_def upd_exchange_def)
  have x: "ps_exchange (new_pase x) = x" by (simp add: new_pase_def)
  have "list_all (\<lambda>(y, q). q < length (pn_pases ?n) \<and> ps_exchange (pn_pases ?n ! q) = y) (pn_listeners ?n)"
    using assms(3) x by (auto simp: refs_ok_def list_all_iff nth_append split: prod.splits)
  moreover have "list_all (\<lambda>q. q < length (pn_pases ?n)) (pr_paseSessions ?n)"
    using assms(3) by (auto simp: refs_ok_def list_all_iff intro: less_SucI)
  ultimately have "refs_ok ?n" using assms(1,3) x unfolding refs_ok_def exchanges_ok_def tables_ok_def by simp
  moreover have "extends n ?n" by (simp add: extends_def tables_grow_def nth_append)
  ultimately show ?thesis unfolding n' using low_exchange_ok [of ?n x "\<lambda>e. e\<lparr>e_isReliable := True\<rparr>"] by (auto intro: extends_trans)
qed

lemma change_ok:
  assumes "change n n'" and "refs_ok n"
  shows "refs_ok n' \<and> extends n n'"
  using assms
proof (induction rule: change.induct)
  case (change_lower n n')
  then show ?case by (rule lower_ok)
next
  case (change_pase f n p)
  then show ?case by (rule change_pase_ok)
next
  case (change_create x n p n')
  then show ?case by (rule change_create_ok)
next
  case (change_tasks n ts)
  then show ?case unfolding refs_ok_def exchanges_ok_def tables_ok_def extends_def tables_grow_def by simp
qed

lemma changes_ok: "change\<^sup>*\<^sup>* n n' \<Longrightarrow> refs_ok n \<Longrightarrow> refs_ok n' \<and> extends n n'"
proof (induction rule: rtranclp_induct)
  case base
  then show ?case by (simp add: extends_refl)
next
  case (step n1 n2)
  then show ?case using change_ok extends_trans by blast
qed

section \<open>The interaction model\<close>

text \<open>The exchange of a message exists.\<close>

definition msg_ok :: "message \<Rightarrow> 'a exchange_manager_scheme \<Rightarrow> bool" where
  "msg_ok msg n \<longleftrightarrow> (\<forall>x. m_exchange msg = Some x \<longrightarrow> x < length (x_exchanges n))"

lemma lowers_ok: "lower\<^sup>*\<^sup>* n n' \<Longrightarrow> refs_ok n \<Longrightarrow> refs_ok n' \<and> extends n n'"
  using lower_changes changes_ok by blast

lemma msg_ok_extends: "msg_ok msg n \<Longrightarrow> extends n n' \<Longrightarrow> msg_ok msg n'"
  by (auto simp: msg_ok_def extends_def)

lemma push_im_task_lower: "refs_ok n \<Longrightarrow> im_task_ok (length (x_exchanges n)) t \<Longrightarrow> lower\<^sup>*\<^sup>* n (push_im_task t n)"
  unfolding push_im_task_def by (rule lowers(8)) (auto simp: refs_ok_def list_all_iff)

lemma csr_lower: "sendCsrResponse (m_exchange msg) path nonce n = Inr n' \<Longrightarrow> refs_ok n \<Longrightarrow> msg_ok msg n \<Longrightarrow> lower\<^sup>*\<^sup>* n n'"
  using push_im_task_lower [of n "CsrPending (m_exchange msg) path nonce"]
  by (cases "m_exchange msg") (auto simp: sendCsrResponse_def msg_ok_def)

lemma addNoc_lower:
  assumes "onAddNoc A msg path n = Inr n'" and "refs_ok n"
  shows "lower\<^sup>*\<^sup>* n n'"
proof -
  obtain path' st fi n1 noc where 1: "sendNocResponse A (m_exchange msg) path' st fi n = Inr n1" and n': "n' = push_im_task (NocPending noc) n1"
    using assms(1) by (auto simp: onAddNoc_def simp del: js_path.simps)
  have l: "lower\<^sup>*\<^sup>* n n1" using 1 response_lower by (auto simp: sendNocResponse_def Let_def)
  then have "lower\<^sup>*\<^sup>* n1 n'" unfolding n' using lowers_ok [OF l assms(2)] by (intro push_im_task_lower) simp_all
  with l show ?thesis by (rule rtranclp_trans)
qed

lemma requests_lower:
  "onAttestationRequest A sign msg path n = Inr n' \<Longrightarrow> lower\<^sup>*\<^sup>* n n'" "onCertificateChainRequest A msg path n = Inr n' \<Longrightarrow> lower\<^sup>*\<^sup>* n n'"
  "onAddTrustedRootCertificate A msg path n = Inr n' \<Longrightarrow> lower\<^sup>*\<^sup>* n n'"
  unfolding onAttestationRequest_def sendAttestationResponse_def onCertificateChainRequest_def sendCertificateChainResponse_def onAddTrustedRootCertificate_def Let_def
    rbind_eq_Inr by (elim exE conjE, erule response_lower)+

lemma credentials_lower:
  assumes "Credentials_onCommand A sign msg path n = Inr n'" and "refs_ok n" and "msg_ok msg n"
  shows "lower\<^sup>*\<^sup>* n n'"
proof -
  consider "onAttestationRequest A sign msg path n = Inr n'" | "onCertificateChainRequest A msg path n = Inr n'" | "onCsrRequest msg path n = Inr n'"
    | "onAddTrustedRootCertificate A msg path n = Inr n'" | "onAddNoc A msg path n = Inr n'" | "n' = n"
    using assms(1) unfolding Credentials_onCommand_def by (metis sum.inject(2))
  then show ?thesis
  proof cases
    case 3
    then obtain nonce where "sendCsrResponse (m_exchange msg) path nonce n = Inr n'" unfolding onCsrRequest_def rbind_eq_Inr by blast
    then show ?thesis using csr_lower assms(2,3) by blast
  qed (use requests_lower addNoc_lower assms(2) in auto)
qed

lemma general_lower: "General_onCommand A msg path n = Inr n' \<Longrightarrow> lower\<^sup>*\<^sup>* n n'"
  using response_lower
  by (auto simp: General_onCommand_def onArmFailSafe_def sendArmFailSafeResponse_def onSetRegulatoryConfig_def sendSetRegulatoryConfigResponse_def
      onCommissioningComplete_def sendCommissioningCompleteResponse_def Let_def split: if_splits)

lemma cluster_lower:
  assumes "cluster_onCommand A sign c msg path n = Inr n'" and "refs_ok n" and "msg_ok msg n"
  shows "lower\<^sup>*\<^sup>* n n'"
  using assms credentials_lower general_lower
  by (cases c) (auto simp: Basic_onCommand_def onMfgSpecificPing_def Network_onCommand_def split: if_splits)

lemma invoke_lower:
  assumes "invoke_command A sign msg c n = Inr n'" and "refs_ok n" and "msg_ok msg n"
  shows "lower\<^sup>*\<^sup>* n n'"
  using assms cluster_lower by (auto simp: invoke_command_def split: option.splits)

lemma invokes_lower:
  assumes "rfold (invoke_command A sign msg) cs n = Inr n'" and "refs_ok n" and "msg_ok msg n"
  shows "lower\<^sup>*\<^sup>* n n'"
  using assms
proof (induction cs arbitrary: n)
  case (Cons c cs)
  then obtain n1 where 1: "invoke_command A sign msg c n = Inr n1" "rfold (invoke_command A sign msg) cs n1 = Inr n'" by auto
  have l: "lower\<^sup>*\<^sup>* n n1" by (rule invoke_lower [OF 1(1) Cons.prems(2,3)])
  then have "refs_ok n1" "msg_ok msg n1" using lowers_ok [OF l Cons.prems(2)] msg_ok_extends Cons.prems(3) by blast+
  with l Cons.IH [OF 1(2)] show ?case by (meson rtranclp_trans)
qed simp

lemma im_lower:
  assumes "im_onProtocolMessage A sign msg n = Inr n'" and "refs_ok n" and "msg_ok msg n"
  shows "lower\<^sup>*\<^sup>* n n'"
proof -
  consider "onReadRequest A msg n = Inr n'" | "onInvokeCommandRequest A sign msg n = Inr n'" | "n' = n"
    using assms(1) unfolding im_onProtocolMessage_def
    by (auto simp: onStatusResponse_def onSubscribeRequest_def onSubscribeResponse_def onReportData_def onWriteRequest_def onWriteResponse_def
        onInvokeCommandResponse_def onTimedRequest_def split: if_splits)
  then show ?thesis
  proof cases
    case 1
    then show ?thesis using send_protocol_lower by (auto simp: onReadRequest_def simp del: js_path.simps split: option.splits)
  next
    case 2
    then show ?thesis using invokes_lower assms(2,3) by (auto simp: onInvokeCommandRequest_def simp del: js_path.simps)
  qed simp
qed

lemma run_im_task_lower:
  assumes "run_im_task A sign key csr noc t n = Inr n'"
  shows "lower\<^sup>*\<^sup>* n n'"
  using assms response_lower by (cases t) (auto simp: run_im_task_def csr_generated_def)

section \<open>PASE\<close>

lemma Random_changes: "Random k n = (b, n') \<Longrightarrow> change\<^sup>*\<^sup>* n n'" "RandomU16 n = (v, n') \<Longrightarrow> change\<^sup>*\<^sup>* n n'"
  using lower_changes [OF lowers(2)] by (auto dest!: Random_net RandomU16_net)

lemma upd_pase_changes: "change\<^sup>*\<^sup>* n n' \<Longrightarrow> ps_exchange (f (pn_pases n' ! p)) = ps_exchange (pn_pases n' ! p) \<Longrightarrow> change\<^sup>*\<^sup>* n (upd_pase p f n')"
  by (erule rtranclp.rtrancl_into_rtrancl, rule change_pase)

lemma push_task_changes: "change\<^sup>*\<^sup>* n n' \<Longrightarrow> change\<^sup>*\<^sup>* n (push_task t n')"
  unfolding push_task_def by (erule rtranclp.rtrancl_into_rtrancl, rule change_tasks)

lemma pase_send_changes: "pase_send A p opc pay n' = Inr n'' \<Longrightarrow> change\<^sup>*\<^sup>* n n' \<Longrightarrow> change\<^sup>*\<^sup>* n n''"
  unfolding pase_send_def using send_protocol_lower lower_changes by (meson rtranclp_trans)

lemma createSecureSession_changes:
  assumes "createSecureSession kdf p n = Inr n'"
  shows "change\<^sup>*\<^sup>* n n'"
proof -
  obtain l r a n1 where 1: "newSession l r True n = (a, n1)" and 2: "initPaseSession kdf p a n1 = Inr n'"
    using assms by (auto simp: createSecureSession_def Let_def split: if_splits prod.splits)
  from 2 obtain ks where "n' = upd_session a (\<lambda>s. s\<lparr>s_keys := Some ks\<rparr>) n1" "s_keys (n_sessions n1 ! a) \<noteq> None"
    by (auto simp: initPaseSession_def initFromSecret_def split: option.splits)
  then have "lower\<^sup>*\<^sup>* n1 n'" by (simp add: lowers(1))
  with lowers(4) [OF 1] show ?thesis using lower_changes by (meson rtranclp_trans)
qed

lemma startPase_changes:
  assumes "startPase A p n = Inr n'"
  shows "change\<^sup>*\<^sup>* n n'"
proof (cases "ps_state (pn_pases n ! p) = IDLE")
  case True
  obtain sid n1 rnd n2 where r: "RandomU16 n = (sid, n1)" "Random 32 n1 = (rnd, n2)" by (metis prod.exhaust)
  have "change\<^sup>*\<^sup>* n n2" using Random_changes(2) [OF r(1)] Random_changes(1) [OF r(2)] by (rule rtranclp_trans)
  then show ?thesis using assms True r
    by (auto simp: startPase_def sendPbkdfParamRequest_def Let_def elim!: pase_send_changes intro!: upd_pase_changes)
qed (use assms in \<open>simp add: startPase_def\<close>)

lemma onPbkdfParamRequest_changes:
  assumes "onPbkdfParamRequest A p msg n = Inr n'"
  shows "change\<^sup>*\<^sup>* n n'"
proof (cases "ps_state (pn_pases n ! p) = IDLE")
  case True
  obtain tlv ir isid pid where 1: "sendPbkdfParamResponse A p (upd_pase p (\<lambda>ps. ps\<lparr>ps_initiatorRandom := ir,
      ps_initiatorSessionId := isid, ps_passcodeId := pid, ps_localRole := RESPONDER, ps_pbkdfRequest := Some tlv\<rparr>) n) = Inr n'"
    (is "sendPbkdfParamResponse A p ?n = _")
    using assms True by (auto simp: onPbkdfParamRequest_def)
  obtain rnd n1 sid n2 where r: "Random 32 ?n = (rnd, n1)" "RandomU16 n1 = (sid, n2)" by (metis prod.exhaust)
  have "change\<^sup>*\<^sup>* n ?n" by (rule upd_pase_changes) simp_all
  then have "change\<^sup>*\<^sup>* n n2" using Random_changes(1) [OF r(1)] Random_changes(2) [OF r(2)] by (meson rtranclp_trans)
  then show ?thesis using 1 r
    by (auto simp: sendPbkdfParamResponse_def Let_def elim!: pase_send_changes intro!: upd_pase_changes)
qed (use assms in \<open>simp add: onPbkdfParamRequest_def\<close>)

lemma generateVerifier_exchange: "generateVerifier S it salt ps = Inr (ps', v) \<Longrightarrow> ps_exchange ps' = ps_exchange ps"
  by (auto simp: generateVerifier_def Let_def split: if_splits option.splits)

lemma onPbkdfParamResponse_changes:
  assumes "onPbkdfParamResponse S p msg n = Inr n'"
  shows "change\<^sup>*\<^sup>* n n'"
proof -
  obtain tlv rsid ctx it salt ps v where g: "generateVerifier S it salt ((pn_pases n ! p)\<lparr>ps_pbkdfResponse := Some tlv,
        ps_responderSessionId := rsid, ps_spake2 := Some ctx\<rparr>) = Inr (ps, v)"
    and n': "n' = push_task (ClientVerifier p v) (upd_pase p (\<lambda>_. ps) n)"
    using assms(1) by (auto simp: onPbkdfParamResponse_def Let_def)
  show ?thesis unfolding n' using generateVerifier_exchange [OF g] by (intro push_task_changes upd_pase_changes) simp_all
qed

lemma onPake1_changes:
  assumes "onPake1 S p msg n = Inr n'"
  shows "change\<^sup>*\<^sup>* n n'"
proof (cases "ps_state (pn_pases n ! p) = AWAIT_PAKE1")
  case True
  then obtain pA ctx ps v where g: "generateVerifier S JUndef JUndef ((pn_pases n ! p)\<lparr>ps_pA := pA, ps_spake2 := Some ctx\<rparr>) = Inr (ps, v)"
    and n': "n' = push_task (ServerVerifier p v) (upd_pase p (\<lambda>_. ps) n)"
    using assms(1) by (auto simp: onPake1_def Let_def)
  show ?thesis unfolding n' using generateVerifier_exchange [OF g] by (intro push_task_changes upd_pase_changes) simp_all
qed (use assms in \<open>simp add: onPake1_def\<close>)

lemma onPake2_changes:
  assumes "onPake2 A kdf S p msg n = Inr n'"
  shows "change\<^sup>*\<^sup>* n n'"
proof (cases "ps_state (pn_pases n ! p) = AWAIT_PAKE2")
  case True
  then obtain f where 0: "sendPake3 A kdf p (upd_pase p f n) = Inr n'" and f: "\<And>ps. ps_exchange (f ps) = ps_exchange ps"
    using assms(1) by (auto simp: onPake2_def simp del: js_path.simps split: option.splits)
  obtain pay n2 where 2: "pase_send A p PaseCommand_Pake3 pay (upd_pase p (setState IDLE) (upd_pase p f n)) = Inr n2" "createSecureSession kdf p n2 = Inr n'"
    using 0 by (auto simp: sendPake3_def)
  have "change\<^sup>*\<^sup>* n n2" by (rule pase_send_changes [OF 2(1)]) (auto intro!: upd_pase_changes simp: f)
  then show ?thesis using createSecureSession_changes [OF 2(2)] by (rule rtranclp_trans)
qed (use assms in \<open>simp add: onPake2_def\<close>)

lemma onPake3_changes:
  assumes "onPake3 A kdf S p msg n = Inr n'"
  shows "change\<^sup>*\<^sup>* n n'"
proof (cases "ps_state (pn_pases n ! p) = AWAIT_PAKE3")
  case True
  then obtain cA n1 n2 where 1: "sendSuccess A (ps_exchange (pn_pases n ! p)) SESSION_PROTOCOL_ID SESSION_ESTABLISHMENT_SUCCESS None
        (upd_pase p (\<lambda>ps. ps\<lparr>ps_cA := cA\<rparr>) n) = Inr n1"
    and 2: "createSecureSession kdf p n1 = Inr n2" and n': "n' = upd_pase p (setState IDLE) n2"
    using assms(1) by (auto simp: onPake3_def simp del: js_path.simps split: option.splits)
  have "change\<^sup>*\<^sup>* n (upd_pase p (\<lambda>ps. ps\<lparr>ps_cA := cA\<rparr>) n)" by (rule upd_pase_changes) simp_all
  moreover have "change\<^sup>*\<^sup>* (upd_pase p (\<lambda>ps. ps\<lparr>ps_cA := cA\<rparr>) n) n1"
    using 1 unfolding sendSuccess_def sendStatus_def status_send_def Let_def rbind_eq_Inr by (auto intro: lower_changes send_protocol_lower)
  ultimately have "change\<^sup>*\<^sup>* n n2" using createSecureSession_changes [OF 2] by (meson rtranclp_trans)
  then show ?thesis unfolding n' by (rule upd_pase_changes) simp
qed (use assms in \<open>simp add: onPake3_def\<close>)

lemma onExchangeMessage_changes: "onExchangeMessage A kdf S p msg n = Inr n' \<Longrightarrow> change\<^sup>*\<^sup>* n n'"
  using onPbkdfParamRequest_changes onPbkdfParamResponse_changes onPake1_changes onPake2_changes onPake3_changes
  by (auto simp: onExchangeMessage_def split: if_splits)

lemma run_task_changes:
  assumes "run_task A S t n = Inr n'"
  shows "change\<^sup>*\<^sup>* n n'"
proof (cases t)
  case (ClientVerifier p v)
  let ?n = "upd_pase p (\<lambda>ps. ps\<lparr>ps_spakeVerifier := Some v\<rparr>) n"
  have "change\<^sup>*\<^sup>* n ?n" by (rule upd_pase_changes) simp_all
  then have "change\<^sup>*\<^sup>* n n1" if "Random 32 ?n = (r, n1)" for r n1 using Random_changes(1) [OF that] by (rule rtranclp_trans)
  then show ?thesis using assms ClientVerifier by (auto simp: run_task_def Let_def split: option.splits prod.splits intro!: push_task_changes)
next
  case (ServerVerifier p v)
  let ?n = "upd_pase p (\<lambda>ps. ps\<lparr>ps_spakeVerifier := Some v\<rparr>) n"
  have "change\<^sup>*\<^sup>* n ?n" by (rule upd_pase_changes) simp_all
  then have "change\<^sup>*\<^sup>* n n1" if "Random 32 ?n = (r, n1)" for r n1 using Random_changes(1) [OF that] by (rule rtranclp_trans)
  then show ?thesis using assms ServerVerifier by (auto simp: run_task_def Let_def split: option.splits prod.splits intro!: push_task_changes)
next
  case (ClientStarted p c)
  let ?n = "upd_pase p (setState AWAIT_PAKE2) (upd_pase p (\<lambda>ps. ps\<lparr>ps_spakeClient := Some c, ps_pA := JStr (sp_message S c)\<rparr>) n)"
  obtain pay x where s: "pase_send A p PaseCommand_Pake1 pay (upd_exchange x (\<lambda>e. e\<lparr>e_isAck := True\<rparr>) ?n) = Inr n'"
    using assms ClientStarted by (auto simp: run_task_def sendPake1_def)
  have "change\<^sup>*\<^sup>* n ?n" by (auto intro!: upd_pase_changes)
  moreover have "change\<^sup>*\<^sup>* ?n (upd_exchange x (\<lambda>e. e\<lparr>e_isAck := True\<rparr>) ?n)" by (rule lower_changes [OF lowers(5)]) simp
  ultimately show ?thesis using pase_send_changes [OF s] by (meson rtranclp_trans)
next
  case (ServerStarted p c)
  then show ?thesis using assms by (auto simp: run_task_def sendPake2_def elim!: pase_send_changes intro!: upd_pase_changes)
qed

section \<open>Reception\<close>

text \<open>References and handshakes together.\<close>

definition node_ok :: "'a im_node_scheme \<Rightarrow> bool" where
  "node_ok n \<longleftrightarrow> refs_ok n \<and> pases_ok n"

lemma lowers_pase: "lower\<^sup>*\<^sup>* n n' \<Longrightarrow> pn_pases n' = pn_pases n \<and> pn_tasks n' = pn_tasks n"
proof (induction rule: rtranclp_induct)
  case (step n1 n2)
  from step(2) have "pn_pases n2 = pn_pases n1 \<and> pn_tasks n2 = pn_tasks n1"
    by (cases rule: lower.cases)
      (auto simp: upd_session_def upd_exchange_def transport_send_def newSession_def new_session_def RandomU32_def Random_def Let_def)
  then show ?case using step by simp
qed simp

lemma lowers_node_ok: "lower\<^sup>*\<^sup>* n n' \<Longrightarrow> node_ok n \<Longrightarrow> node_ok n' \<and> extends n n'"
  using lowers_ok [of n n'] lowers_pase [of n n'] by (simp add: node_ok_def pases_ok_def)

lemma newUnsecuredSession_lower: "newUnsecuredSession n = (a, n') \<Longrightarrow> lower\<^sup>*\<^sup>* n n' \<and> a < length (n_sessions n')"
  unfolding newUnsecuredSession_def using lowers(4) by (auto dest: new_unsecured_session)

lemma newSession_length: "newSession l r sec n = (a, n') \<Longrightarrow> a < length (n_sessions n')"
  by (auto simp: newSession_def new_session_def RandomU32_def Random_def Let_def split: if_splits)

lemma newExchange_lower:
  assumes "newExchange sess msg i n = Inr (x, n')" and "\<And>a. sess = Some a \<Longrightarrow> a < length (n_sessions n)"
  shows "lower\<^sup>*\<^sup>* n n' \<and> x < length (x_exchanges n') \<and> e_session (x_exchanges n' ! x) < length (n_sessions n')"
proof -
  obtain a n1 where 1: "(case sess of Some a \<Rightarrow> (a, n) | None \<Rightarrow> newUnsecuredSession n) = (a, n1)" by (metis prod.exhaust)
  have l: "lower\<^sup>*\<^sup>* n n1" "a < length (n_sessions n1)"
    using 1 assms(2) newUnsecuredSession_lower by (auto split: option.splits)
  obtain k n2 where 2: "n2 = n1 \<or> n2 = n1\<lparr>x_nextExchangeId := x_nextExchangeId n1 + 1\<rparr>"
    and r: "(case msg of Some m \<Rightarrow> rmap (\<lambda>i. (i, n1)) (ExchangeId m) | None \<Rightarrow> Inr (x_nextExchangeId n1, n1\<lparr>x_nextExchangeId := x_nextExchangeId n1 + 1\<rparr>)) = Inr (k, n2)"
    using assms(1) 1 unfolding newExchange_def by (cases msg) auto
  then have x: "x = length (x_exchanges n2)"
    and n': "n' = n2\<lparr>x_exchanges := x_exchanges n2 @ [new_exchange k a i], x_table := x_table n2 @ [length (x_exchanges n2)]\<rparr>"
    using assms(1) unfolding newExchange_def 1 prod.case r by (auto simp: Let_def)
  have l2: "lower\<^sup>*\<^sup>* n1 n2" "a < length (n_sessions n2)" using 2 l(2) lowers(7) by auto
  have "lower\<^sup>*\<^sup>* n2 n'" unfolding n' by (rule lowers(6)) (use l2(2) in \<open>simp add: new_exchange_def\<close>)
  then show ?thesis using l l2 x n' by (auto simp: new_exchange_def)
qed

text \<open>An exchange made for a message is new until the manager has written the message's flags into it.\<close>

lemma accepted_lower:
  assumes "newExchange (Some a) (Some msg) True n = Inr (x, n1)" and "a < length (n_sessions n)"
  shows "lower\<^sup>*\<^sup>* n (upd_exchange x (\<lambda>e. e\<lparr>e_isInitiator := i, e_isReliable := r, e_isAck := k, e_ackCounter := c\<rparr>) n1)"
proof -
  obtain xid where n1: "n1 = n\<lparr>x_exchanges := x_exchanges n @ [new_exchange xid a True], x_table := x_table n @ [length (x_exchanges n)]\<rparr>"
    and x: "x = length (x_exchanges n)"
    using assms(1) by (auto simp: newExchange_def Let_def)
  let ?e = "(new_exchange xid a True)\<lparr>e_isInitiator := i, e_isReliable := r, e_isAck := k, e_ackCounter := c\<rparr>"
  have "upd_exchange x (\<lambda>e. e\<lparr>e_isInitiator := i, e_isReliable := r, e_isAck := k, e_ackCounter := c\<rparr>) n1 =
      n\<lparr>x_exchanges := x_exchanges n @ [?e], x_table := x_table n @ [length (x_exchanges n)]\<rparr>"
    by (simp add: n1 x upd_exchange_def)
  then show ?thesis using lowers(6) [of ?e n] assms(2) by (simp add: new_exchange_def)
qed

text \<open>The handlers get the node after some such changes, with an exchange that exists.\<close>

lemma onSessionMessage_lower:
  assumes "onSessionMessage H msg a n = Inr n'" and "a < length (n_sessions n)" and "refs_ok n"
  shows "n' = n \<or> (\<exists>n1 x m. lower\<^sup>*\<^sup>* n n1 \<and> x < length (x_exchanges n1) \<and> m_exchange m = Some x \<and>
    (h_exchange H x m n1 = Inr n' \<or> (\<exists>pid. h_protocol H pid m x n1 = Inr n')))"
proof -
  obtain found i where 1: "getExchange a msg n = Inr found" "Iflag msg = Inr i" using assms(1) unfolding onSessionMessage_def rbind_eq_Inr by blast
  show ?thesis
  proof (cases found)
    case (Some x)
    then obtain c where 2: "h_exchange H x (msg\<lparr>m_exchange := Some x\<rparr>) (upd_exchange x (\<lambda>e. e\<lparr>e_ackCounter := c\<rparr>) n) = Inr n'"
      using assms(1) 1 unfolding onSessionMessage_def by auto
    have "x < length (x_exchanges n)"
      using rfind_Some 1(1) Some assms(3) by (fastforce simp: getExchange_def refs_ok_def exchanges_ok_def)
    moreover have "lower\<^sup>*\<^sup>* n (upd_exchange x (\<lambda>e. e\<lparr>e_ackCounter := c\<rparr>) n)" by (rule lowers(5)) simp
    ultimately show ?thesis using 2 by (intro disjI2 exI [of _ "upd_exchange x (\<lambda>e. e\<lparr>e_ackCounter := c\<rparr>) n"] exI [of _ x]
          exI [of _ "msg\<lparr>m_exchange := Some x\<rparr>"]) (simp add: upd_exchange_def)
  next
    case None
    show ?thesis
    proof (cases i)
      case True
      then obtain pid x n1 r c where 2: "newExchange (Some a) (Some msg) True n = Inr (x, n1)"
        "h_protocol H pid (msg\<lparr>m_exchange := Some x\<rparr>) x
           (upd_exchange x (\<lambda>e. e\<lparr>e_isInitiator := False, e_isReliable := r, e_isAck := r, e_ackCounter := c\<rparr>) n1) = Inr n'"
        (is "h_protocol H pid ?m x ?n2 = _")
        using assms(1) 1 None unfolding onSessionMessage_def by auto
      have "x < length (x_exchanges n1)" using newExchange_lower [OF 2(1)] assms(2) by auto
      moreover have "lower\<^sup>*\<^sup>* n ?n2" by (rule accepted_lower [OF 2(1) assms(2)])
      ultimately show ?thesis using 2(2) by (intro disjI2 exI [of _ ?n2] exI [of _ x] exI [of _ ?m]) (auto simp: upd_exchange_def)
    qed (use assms(1) 1 None in \<open>auto simp: onSessionMessage_def\<close>)
  qed
qed

lemma touch_session_lower:
  assumes "touch_session a msg n = Inr n'"
  shows "lower\<^sup>*\<^sup>* n n'" "length (n_sessions n') = length (n_sessions n)"
proof -
  obtain c where n': "n' = updateActivity a (upd_session a (\<lambda>s. s\<lparr>s_peerInfo := m_peerInfo msg, s_peerMessageCounter := c\<rparr>) n)"
    using assms by (auto simp: touch_session_def)
  show "lower\<^sup>*\<^sup>* n n'" unfolding n' updateActivity_def by (rule rtranclp_trans [OF lowers(1) lowers(1)]) simp_all
  show "length (n_sessions n') = length (n_sessions n)" by (simp add: n' updateActivity_def upd_session_def)
qed

lemma peerNodeId_lower: "lower\<^sup>*\<^sup>* n (upd_session a (\<lambda>s. s\<lparr>s_peerNodeId := v\<rparr>) n)"
  by (rule lowers(1)) simp

lemma unsecured_lower:
  assumes "sm_onUnsecuredMessage H msg n = Inr n'" and "refs_ok n"
  shows "\<exists>a n1. lower\<^sup>*\<^sup>* n n1 \<and> a < length (n_sessions n1) \<and> H msg a n1 = Inr n'"
proof -
  obtain peer v found r where 1: "getUnsecureSession peer v n = Inr found"
    and r: "(case found of Some a \<Rightarrow> if s_peerNodeId (n_sessions n ! a) = None then rmap (\<lambda>v. (a, upd_session a (\<lambda>s. s\<lparr>s_peerNodeId := Some v\<rparr>) n)) (SourceNodeId msg) else Inr (a, n)
      | None \<Rightarrow> (case newSession (JNum UNSECURED_SESSION_ID) (JNum UNSECURED_SESSION_ID) False n of (a, n) \<Rightarrow>
                  rmap (\<lambda>v. (a, upd_session a (\<lambda>s. s\<lparr>s_peerNodeId := Some v\<rparr>) n)) (SourceNodeId msg))) = Inr r"
    and e: "rbind (touch_session (fst r) msg (snd r)) (H msg (fst r)) = Inr n'"
    using assms(1) unfolding sm_onUnsecuredMessage_def by (cases "m_peerInfo msg") (auto simp del: rbind_eq_Inr simp: rbind_eq_Inr [of "Iflag msg"] rbind_eq_Inr [of "getUnsecureSession _ _ _"]
        rbind_eq_Inr [of "if _ then SourceNodeId msg else DestinationNodeId msg"] rbind_eq_Inr [of "case_option _ _ _"])
  have "lower\<^sup>*\<^sup>* n (snd r) \<and> fst r < length (n_sessions (snd r))"
  proof (cases found)
    case None
    obtain a n1 where 2: "newSession (JNum UNSECURED_SESSION_ID) (JNum UNSECURED_SESSION_ID) False n = (a, n1)" by (metis prod.exhaust)
    show ?thesis using r None 2 newSession_length [OF 2] rtranclp_trans [OF lowers(4) [OF 2] peerNodeId_lower] by (auto simp: upd_session_def)
  next
    case (Some a)
    then have "a < length (n_sessions n)"
      using rfind_Some 1 assms(2) by (fastforce simp: getUnsecureSession_def refs_ok_def exchanges_ok_def tables_ok_def)
    then show ?thesis using r Some peerNodeId_lower by (auto simp: upd_session_def split: if_splits)
  qed
  moreover obtain n1 where "touch_session (fst r) msg (snd r) = Inr n1" "H msg (fst r) n1 = Inr n'" using e by auto
  ultimately show ?thesis using touch_session_lower [of "fst r" msg "snd r" n1] by (intro exI [of _ "fst r"] exI [of _ n1]) auto
qed

lemma secure_lower:
  assumes "onSecureMessage A H buf peer n = Inr n'" and "refs_ok n"
  shows "\<exists>a n1 msg. lower\<^sup>*\<^sup>* n n1 \<and> a < length (n_sessions n1) \<and> H msg a n1 = Inr n'"
proof -
  let ?msg = "new_message_of buf (Some buf) (Some peer)"
  obtain sid r msg where r: "(case getSecureSession sid n of Some a \<Rightarrow> Inr (a, n)
      | None \<Rightarrow> (case newSession (JNum sid) (JNum sid) True n of (a, n) \<Rightarrow>
                  rmap (\<lambda>v. (a, upd_session a (\<lambda>s. s\<lparr>s_peerNodeId := Some v\<rparr>) n)) (SourceNodeId ?msg))) = Inr r"
    and e: "rbind (touch_session (fst r) msg (snd r)) (H msg (fst r)) = Inr n'"
    using assms(1) unfolding onSecureMessage_def Let_def by (auto simp del: rbind_eq_Inr simp: rbind_eq_Inr [of "SessionId _"]
        rbind_eq_Inr [of "case_option _ _ _"] rbind_eq_Inr [of "decryptMessage _ _ _"])
  have "lower\<^sup>*\<^sup>* n (snd r) \<and> fst r < length (n_sessions (snd r))"
  proof (cases "getSecureSession sid n")
    case None
    obtain a n1 where 2: "newSession (JNum sid) (JNum sid) True n = (a, n1)" by (metis prod.exhaust)
    show ?thesis using r None 2 newSession_length [OF 2] rtranclp_trans [OF lowers(4) [OF 2] peerNodeId_lower] by (auto simp: upd_session_def)
  next
    case (Some a)
    then have "a < length (n_sessions n)"
      using assms(2) by (auto simp: getSecureSession_def find_Some_iff refs_ok_def exchanges_ok_def tables_ok_def)
    then show ?thesis using r Some by auto
  qed
  moreover obtain n1 where "touch_session (fst r) msg (snd r) = Inr n1" "H msg (fst r) n1 = Inr n'" using e by auto
  ultimately show ?thesis using touch_session_lower [of "fst r" msg "snd r" n1] by (intro exI [of _ "fst r"] exI [of _ n1] exI [of _ msg]) auto
qed

section \<open>The handlers keep the node in order\<close>

lemma onExchangeMessage_node_ok:
  assumes "onExchangeMessage A kdf S p m n = Inr n'" and "p < length (pn_pases n)" and "node_ok n"
  shows "node_ok n' \<and> extends n n'"
  using changes_ok [OF onExchangeMessage_changes [OF assms(1)]] evolves_ok(1) [OF onExchangeMessage_evolves [OF assms(1,2)] assms(2)] assms(3)
  by (simp add: node_ok_def)

lemma listeners_node_ok:
  assumes "rfold (\<lambda>p n. onExchangeMessage A kdf S p m n) ps n = Inr n'" and "\<forall>p \<in> set ps. p < length (pn_pases n)" and "node_ok n"
  shows "node_ok n' \<and> extends n n'"
  using assms
proof (induction ps arbitrary: n)
  case (Cons p ps)
  then obtain n1 where 1: "onExchangeMessage A kdf S p m n = Inr n1" "rfold (\<lambda>p n. onExchangeMessage A kdf S p m n) ps n1 = Inr n'" by auto
  have k: "node_ok n1" "extends n n1" using onExchangeMessage_node_ok [OF 1(1)] Cons.prems by auto
  then have "\<forall>p \<in> set ps. p < length (pn_pases n1)" using Cons.prems(2) by (auto simp: extends_def)
  with k Cons.IH [OF 1(2)] show ?case using extends_trans by blast
qed (simp add: extends_refl)

lemma emit_exchange_node_ok:
  assumes "emit_exchange A kdf S x m n = Inr n'" and "node_ok n"
  shows "node_ok n' \<and> extends n n'"
proof (rule listeners_node_ok [OF assms(1) [unfolded emit_exchange_def] _ assms(2)])
  show "\<forall>p \<in> set (map snd (filter (\<lambda>l. fst l = x) (pn_listeners n))). p < length (pn_pases n)"
    using assms(2) by (auto simp: node_ok_def refs_ok_def list_all_iff)
qed

lemma task_ok_append: "task_ok l t \<Longrightarrow> task_ok (l @ l') t"
  by (cases t) (auto simp: nth_append)

lemma newPase_node_ok:
  assumes "newPase x n = (p, n')" and "x < length (x_exchanges n)" and "node_ok n"
  shows "node_ok n' \<and> extends n n' \<and> p < length (pn_pases n')"
proof -
  have "pase_inv (new_pase x)" by (simp add: pase_inv_def new_pase_def)
  then have "pases_ok n'" using assms(3) newPase_fields(2,5) [OF assms(1)] by (auto simp: node_ok_def pases_ok_def intro: task_ok_append)
  then show ?thesis using change_create_ok [OF assms(2,1)] assms(3) newPase_fields(1,2) [OF assms(1)] by (simp add: node_ok_def)
qed

lemma onProtocolMessage_node_ok:
  assumes "onProtocolMessage A kdf S m x n = Inr n'" and "x < length (x_exchanges n)" and "node_ok n"
  shows "node_ok n' \<and> extends n n'"
proof -
  obtain p n1 where 1: "newPase x n = (p, n1)" by (metis prod.exhaust)
  then have "n' = n \<or> onExchangeMessage A kdf S p m n1 = Inr n'"
    using assms(1) by (auto simp: onProtocolMessage_def split: if_splits option.splits)
  then show ?thesis
    using newPase_node_ok [OF 1 assms(2,3)] onExchangeMessage_node_ok [of A kdf S p m n1 n'] assms(3) extends_refl extends_trans by blast
qed

lemma node_onMessage_ok:
  assumes "node_onMessage A kdf S sign buf peer n = Inr n'" and "node_ok n"
  shows "node_ok n' \<and> extends n n'"
proof -
  let ?H = "node_handlers A kdf S sign"
  have refs: "refs_ok n" using assms(2) by (simp add: node_ok_def)
  have "\<exists>a n1 m. lower\<^sup>*\<^sup>* n n1 \<and> a < length (n_sessions n1) \<and> onSessionMessage ?H m a n1 = Inr n'"
  proof (cases "sm_onUnsecuredMessage (onSessionMessage ?H) (new_message_of buf None (Some peer)) n = Inr n'")
    case True
    from unsecured_lower [OF this refs] show ?thesis by blast
  next
    case False
    then have "onSecureMessage A (onSessionMessage ?H) buf peer n = Inr n'"
      using assms(1) by (auto simp: node_onMessage_def onMessage_def Let_def split: if_splits)
    from secure_lower [OF this refs] show ?thesis .
  qed
  then obtain a n1 m where 1: "lower\<^sup>*\<^sup>* n n1" "a < length (n_sessions n1)" "onSessionMessage ?H m a n1 = Inr n'" by blast
  have k1: "node_ok n1" "extends n n1" using lowers_node_ok [OF 1(1) assms(2)] by simp_all
  have "node_ok n' \<and> extends n1 n'"
  proof (cases "n' = n1")
    case False
    have "refs_ok n1" using k1(1) by (simp add: node_ok_def)
    from onSessionMessage_lower [OF 1(3,2) this] False obtain n2 x m' where 2: "lower\<^sup>*\<^sup>* n1 n2" "x < length (x_exchanges n2)" "m_exchange m' = Some x"
      "h_exchange ?H x m' n2 = Inr n' \<or> (\<exists>pid. h_protocol ?H pid m' x n2 = Inr n')" by blast
    have k2: "node_ok n2" "extends n1 n2" using lowers_node_ok [OF 2(1) k1(1)] by simp_all
    have o: "msg_ok m' n2" "refs_ok n2" using 2(2,3) k2(1) by (simp_all add: msg_ok_def node_ok_def)
    consider "emit_exchange A kdf S x m' n2 = Inr n'" | "onProtocolMessage A kdf S m' x n2 = Inr n'" | "im_onProtocolMessage A sign m' n2 = Inr n'" | "n' = n2"
      using 2(4) by (auto simp: node_handlers_def split: if_splits)
    then have "node_ok n' \<and> extends n2 n'"
    proof cases
      case 1
      then show ?thesis by (rule emit_exchange_node_ok) (rule k2(1))
    next
      case 2
      then show ?thesis by (rule onProtocolMessage_node_ok) (rule \<open>x < length (x_exchanges n2)\<close> k2(1))+
    next
      case 3
      then have "lower\<^sup>*\<^sup>* n2 n'" by (rule im_lower [OF _ o(2,1)])
      then show ?thesis by (rule lowers_node_ok) (rule k2(1))
    next
      case 4
      then show ?thesis using k2(1) by (simp add: extends_refl)
    qed
    then show ?thesis using k2(2) extends_trans by blast
  qed (use k1(1) extends_refl in blast)
  then show ?thesis using k1(2) extends_trans by blast
qed

lemma pase_connect_ok:
  assumes "pase_connect A host port n = Inr n'" and "node_ok n"
  shows "node_ok n' \<and> extends n n'"
proof -
  obtain x n1 where 1: "newExchange None None True n = Inr (x, n1)" using assms(1) by (auto simp: pase_connect_def)
  let ?n2 = "upd_session (e_session (x_exchanges n1 ! x)) (\<lambda>s. s\<lparr>s_transport := Client, s_peerInfo := Some \<lparr>pi_address = host, pi_port = port\<rparr>\<rparr>) n1"
  obtain p n3 where 3: "newPase x ?n2 = (p, n3)" by (metis prod.exhaust)
  have l: "lower\<^sup>*\<^sup>* n n1" "x < length (x_exchanges n1)" using newExchange_lower [OF 1] by simp_all
  have "lower\<^sup>*\<^sup>* n1 ?n2" by (rule lowers(1)) simp
  with l(1) have k2: "node_ok ?n2" "extends n ?n2" using lowers_node_ok [OF rtranclp_trans assms(2)] by blast+
  have k3: "node_ok n3" "extends ?n2 n3" "p < length (pn_pases n3)"
    using newPase_node_ok [OF 3 _ k2(1)] l(2) by (simp_all add: upd_session_def)
  have s: "startPase A p n3 = Inr n'" using assms(1) 1 3 by (simp add: pase_connect_def Let_def)
  then have "node_ok n'" "extends n3 n'"
    using changes_ok [OF startPase_changes [OF s]] evolves_ok(1) [of p n3 n'] startPase_evolves [OF s k3(3)] k3 by (simp_all add: node_ok_def)
  then show ?thesis using k2(2) k3(2) extends_trans by blast
qed

section \<open>Steps\<close>

text \<open>
  What can happen to a node: a datagram, an awaited value of PASE or of the credentials cluster, a
  timer, the \<open>pase\<close> command, the passing of time. An exception ends the process, so it has no step.
\<close>

inductive node_step :: "aead \<Rightarrow> hkdf \<Rightarrow> spake \<Rightarrow> signer \<Rightarrow> 'a im_node_scheme \<Rightarrow> 'a im_node_scheme \<Rightarrow> bool" for A kdf S sign where
  datagram: "node_onMessage A kdf S sign buf peer n = Inr n' \<Longrightarrow> node_step A kdf S sign n n'"
| pase_value: "pn_tasks n = ts1 @ t # ts2 \<Longrightarrow> run_task A S t (n\<lparr>pn_tasks := ts1 @ ts2\<rparr>) = Inr n' \<Longrightarrow> node_step A kdf S sign n n'"
| im_value: "im_tasks n = ts1 @ t # ts2 \<Longrightarrow> run_im_task A sign key csr noc t (n\<lparr>im_tasks := ts1 @ ts2\<rparr>) = Inr n' \<Longrightarrow> node_step A kdf S sign n n'"
| pase_timer: "p < length (pn_pases n) \<Longrightarrow> ps_timer (pn_pases n ! p) \<Longrightarrow> node_step A kdf S sign n (upd_pase p stateTimeout n)"
| pase_command: "pase_connect A host port n = Inr n' \<Longrightarrow> node_step A kdf S sign n n'"
| clock: "node_step A kdf S sign n (n\<lparr>n_now := t\<rparr>)"

text \<open>A node as its constructors leave it.\<close>

definition fresh_node :: "'a im_node_scheme \<Rightarrow> bool" where
  "fresh_node n \<longleftrightarrow> n_sessions n = [] \<and> sm_secured n = [] \<and> sm_unsecured n = [] \<and> x_exchanges n = [] \<and> x_table n = [] \<and>
     pn_pases n = [] \<and> pn_listeners n = [] \<and> pn_tasks n = [] \<and> pr_paseSessions n = [] \<and> im_tasks n = []"

inductive node_reachable :: "aead \<Rightarrow> hkdf \<Rightarrow> spake \<Rightarrow> signer \<Rightarrow> 'a im_node_scheme \<Rightarrow> bool" for A kdf S sign where
  fresh: "fresh_node n \<Longrightarrow> node_reachable A kdf S sign n"
| step: "node_reachable A kdf S sign n \<Longrightarrow> node_step A kdf S sign n n' \<Longrightarrow> node_reachable A kdf S sign n'"

lemma fresh_node_ok: "fresh_node n \<Longrightarrow> node_ok n"
  by (simp add: fresh_node_def node_ok_def refs_ok_def exchanges_ok_def tables_ok_def pases_ok_def)

lemma pase_value_ok:
  assumes "pn_tasks n = ts1 @ t # ts2" and "run_task A S t (n\<lparr>pn_tasks := ts1 @ ts2\<rparr>) = Inr n'" and "node_ok n"
  shows "node_ok n' \<and> extends n n'"
proof -
  have "change\<^sup>*\<^sup>* n (n\<lparr>pn_tasks := ts1 @ ts2\<rparr>)" by (intro r_into_rtranclp change_tasks)
  then have "change\<^sup>*\<^sup>* n n'" using run_task_changes [OF assms(2)] by (rule rtranclp_trans)
  moreover have "pases_ok n'" using pase_step_ok [OF pase_step.resume [OF assms(1,2)]] assms(3) by (simp add: node_ok_def)
  ultimately show ?thesis using changes_ok assms(3) by (auto simp: node_ok_def)
qed

lemma node_step_ok:
  assumes "node_step A kdf S sign n n'" and "node_ok n"
  shows "node_ok n' \<and> extends n n'"
  using assms(1)
proof (cases rule: node_step.cases)
  case (datagram buf peer)
  then show ?thesis using node_onMessage_ok assms(2) by blast
next
  case (pase_value ts1 t ts2)
  then show ?thesis using pase_value_ok assms(2) by blast
next
  case (im_value ts1 t ts2 key csr noc)
  have "lower\<^sup>*\<^sup>* n (n\<lparr>im_tasks := ts1 @ ts2\<rparr>)" by (rule lowers(8)) (use assms(2) im_value(1) in \<open>auto simp: node_ok_def refs_ok_def list_all_iff\<close>)
  then have "lower\<^sup>*\<^sup>* n n'" using run_im_task_lower [OF im_value(2)] by (rule rtranclp_trans)
  then show ?thesis by (rule lowers_node_ok) (rule assms(2))
next
  case (pase_timer p)
  have "change\<^sup>*\<^sup>* n n'" unfolding pase_timer(1) by (rule upd_pase_changes) (simp_all add: stateTimeout_def)
  moreover have "pases_ok n'" unfolding pase_timer(1)
    using pase_step_ok [OF pase_step.timeout [OF pase_timer(2,3)]] assms(2) by (auto simp: node_ok_def)
  ultimately show ?thesis using changes_ok assms(2) by (auto simp: node_ok_def)
next
  case (pase_command host port)
  then show ?thesis using pase_connect_ok assms(2) by blast
next
  case (clock t)
  then show ?thesis using assms(2) by (simp add: node_ok_def refs_ok_def exchanges_ok_def tables_ok_def pases_ok_def extends_def tables_grow_def)
qed

lemma reachable_node_ok: "node_reachable A kdf S sign n \<Longrightarrow> node_ok n"
  by (induction rule: node_reachable.induct) (use fresh_node_ok node_step_ok in blast)+

text \<open>
  (C3) Whatever datagrams arrive, in whatever order awaited values, timers and commands come: the
  session tables hold distinct sessions, the secured ones in one table and the others in the other;
  an exchange has its session, a PASE object its exchange, and the listener of an exchange is the
  PASE object made for it; a secured session has keys and no other has; no session ever takes the
  initiator's side; and each PASE object is in order.
\<close>

theorem node_invariant:
  assumes "node_reachable A kdf S sign n"
  shows "(\<forall>a \<in> set (sm_secured n). a < length (n_sessions n) \<and> s_secure (n_sessions n ! a)) \<and>
    (\<forall>a \<in> set (sm_unsecured n). a < length (n_sessions n) \<and> \<not> s_secure (n_sessions n ! a)) \<and>
    distinct (sm_secured n @ sm_unsecured n) \<and>
    (\<forall>s \<in> set (n_sessions n). (s_secure s \<longleftrightarrow> s_keys s \<noteq> None) \<and> \<not> s_initiator s) \<and>
    (\<forall>x \<in> set (x_table n). x < length (x_exchanges n)) \<and> distinct (x_table n) \<and>
    (\<forall>e \<in> set (x_exchanges n). e_session e < length (n_sessions n)) \<and>
    (\<forall>ps \<in> set (pn_pases n). ps_exchange ps < length (x_exchanges n) \<and> pase_inv ps) \<and>
    (\<forall>(x, p) \<in> set (pn_listeners n). p < length (pn_pases n) \<and> ps_exchange (pn_pases n ! p) = x) \<and>
    (\<forall>t \<in> set (pn_tasks n). task_ok (pn_pases n) t) \<and>
    (\<forall>t \<in> set (im_tasks n). im_task_ok (length (x_exchanges n)) t)"
  using reachable_node_ok [OF assms]
  by (auto simp: node_ok_def refs_ok_def pases_ok_def exchanges_ok_def tables_ok_def session_wf_def list_all_iff)

text \<open>The node of the examples after the \<open>pase\<close> command.\<close>

lemma started_fresh: "fresh_node started_node"
  by (simp add: fresh_node_def started_node_def)

lemma demo_connected:
  "\<exists>n p. pase_connect toy_aead ''::1'' 5540 started_node = Inr n \<and> sm_unsecured n \<noteq> [] \<and> pn_listeners n \<noteq> [] \<and> x_table n \<noteq> [] \<and>
     p < length (pn_pases n) \<and> ps_timer (pn_pases n ! p)"
proof -
  let ?ar = "\<lparr>pi_address = ''::1'', pi_port = 5540\<rparr>"
  obtain n p v rnd sid where n: "pase_connect toy_aead ''::1'' 5540 started_node = Inr n"
    and s: "said p True ?ar (x_nextExchangeId started_node) v PaseCommand_ParamRequest (tlv_bytes (request_elem rnd sid)) n" "ready 2 p n"
    and ps: "pn_pases n ! p = after_request rnd sid (new_pase (length (x_exchanges started_node)))"
    using node_opens [of started_node toy_aead ?ar] started_node_idle by auto
  then show ?thesis
    by (intro exI [of _ n] exI [of _ p]) (auto simp: said_def sent_last_def linked_def ready_def Let_def after_request_def setState_def)
qed

theorem node_invariant_witness:
  "\<exists>n. pase_connect toy_aead ''::1'' 5540 started_node = Inr n \<and> sm_unsecured n \<noteq> [] \<and> pn_listeners n \<noteq> [] \<and>
     (\<forall>a \<in> set (sm_unsecured n). a < length (n_sessions n) \<and> \<not> s_secure (n_sessions n ! a)) \<and>
     (\<forall>s \<in> set (n_sessions n). (s_secure s \<longleftrightarrow> s_keys s \<noteq> None) \<and> \<not> s_initiator s) \<and>
     (\<forall>(x, p) \<in> set (pn_listeners n). p < length (pn_pases n) \<and> ps_exchange (pn_pases n ! p) = x)"
proof -
  obtain n where n: "pase_connect toy_aead ''::1'' 5540 started_node = Inr n" "sm_unsecured n \<noteq> []" "pn_listeners n \<noteq> []" using demo_connected by blast
  have "node_reachable toy_aead toy_kdf toy_spake toy_sign n"
    by (rule node_reachable.step [OF node_reachable.fresh [OF started_fresh] node_step.pase_command [OF n(1)]])
  from node_invariant [OF this] n show ?thesis by (elim conjE, intro exI [of _ n] conjI)
qed

text \<open>What a lookup finds in a table it finds in the longer one.\<close>

lemma find_grows:
  assumes "prefix xs ys" and "\<And>x. x \<in> set xs \<Longrightarrow> q x = p x" and "find p xs = Some x"
  shows "find q ys = Some x"
proof -
  obtain zs where "ys = xs @ zs" using assms(1) by (auto simp: prefix_def)
  then show ?thesis using find_cong_set [of xs q p] assms(2,3) by (simp add: find_append)
qed

lemma rfind_grows:
  assumes "prefix xs ys" and "\<And>x. x \<in> set xs \<Longrightarrow> q x = p x" and "rfind p xs = Inr (Some x)"
  shows "rfind q ys = Inr (Some x)"
proof -
  obtain zs where "ys = xs @ zs" using assms(1) by (auto simp: prefix_def)
  moreover have "rfind q xs = rfind p xs" using assms(2)
  proof (induction xs)
    case (Cons x xs)
    then show ?case by (cases "p x") auto
  qed simp
  ultimately show ?thesis using assms(3) by (simp add: rfind_append)
qed

lemma lookups_grow:
  assumes "extends n n'" and "refs_ok n"
  shows "getSecureSession k n = Some a \<Longrightarrow> getSecureSession k n' = Some a"
    and "getExchange s msg n = Inr (Some x) \<Longrightarrow> getExchange s msg n' = Inr (Some x)"
    and "getPase x n = Some p \<Longrightarrow> getPase x n' = Some p"
proof -
  have t: "tables_grow n n'" and s: "\<And>b. b < length (n_sessions n) \<Longrightarrow> session_kept (n_sessions n ! b) (n_sessions n' ! b)"
    and e: "\<And>y. y < length (x_exchanges n) \<Longrightarrow> exchange_kept (x_exchanges n ! y) (x_exchanges n' ! y)"
    and p: "\<And>q. q < length (pn_pases n) \<Longrightarrow> ps_exchange (pn_pases n' ! q) = ps_exchange (pn_pases n ! q)"
    using assms(1) by (simp_all add: extends_def)
  have r: "\<And>b. b \<in> set (sm_secured n) \<Longrightarrow> b < length (n_sessions n)"
    "\<And>y. y \<in> set (x_table n) \<Longrightarrow> y < length (x_exchanges n) \<and> e_session (x_exchanges n ! y) < length (n_sessions n)"
    "\<And>q. q \<in> set (pr_paseSessions n) \<Longrightarrow> q < length (pn_pases n)"
    using assms(2) by (auto simp: refs_ok_def exchanges_ok_def tables_ok_def list_all_iff)
  show "getSecureSession k n = Some a \<Longrightarrow> getSecureSession k n' = Some a"
    unfolding getSecureSession_def by (rule find_grows) (use t r(1) s in \<open>auto simp: tables_grow_def session_kept_def\<close>)
  have x: "exchange_match s msg n' y = exchange_match s msg n y" if "y \<in> set (x_table n)" for y
    using e [of y] s [of "e_session (x_exchanges n ! y)"] r(2) [OF that] by (simp add: exchange_match_def exchange_kept_def session_kept_def Let_def cong: if_cong)
  show "getExchange s msg n = Inr (Some x) \<Longrightarrow> getExchange s msg n' = Inr (Some x)"
    unfolding getExchange_def by (rule rfind_grows) (use t x in \<open>auto simp: tables_grow_def\<close>)
  show "getPase x n = Some p \<Longrightarrow> getPase x n' = Some p"
    unfolding getPase_def by (rule find_grows) (use t r(3) p in \<open>auto simp: tables_grow_def\<close>)
qed

text \<open>
  (C18) No entry ever leaves a table. Whatever a reachable node goes through, the tables of the
  session manager, of the exchange manager and of the session protocol and the listeners of the
  exchanges only get longer, at the end: nothing expires, nothing is deleted, also not when a
  handshake has failed or timed out. So what a lookup has found it finds for ever: a datagram's id
  the same session, with the same ids and a counter that is not lower; a message the same exchange;
  an exchange the same PASE object.
\<close>

theorem node_history:
  assumes "node_reachable A kdf S sign n" and "(node_step A kdf S sign)\<^sup>*\<^sup>* n n'"
  shows "prefix (sm_secured n) (sm_secured n') \<and> prefix (sm_unsecured n) (sm_unsecured n') \<and> prefix (x_table n) (x_table n') \<and>
    prefix (pn_listeners n) (pn_listeners n') \<and> prefix (pr_paseSessions n) (pr_paseSessions n') \<and>
    (\<forall>k a. getSecureSession k n = Some a \<longrightarrow> getSecureSession k n' = Some a) \<and>
    (\<forall>s msg x. getExchange s msg n = Inr (Some x) \<longrightarrow> getExchange s msg n' = Inr (Some x)) \<and>
    (\<forall>x p. getPase x n = Some p \<longrightarrow> getPase x n' = Some p) \<and>
    (\<forall>a \<in> set (sm_secured n) \<union> set (sm_unsecured n). s_localSessionId (n_sessions n' ! a) = s_localSessionId (n_sessions n ! a) \<and>
      s_peerSessionId (n_sessions n' ! a) = s_peerSessionId (n_sessions n ! a) \<and> s_messageCounter (n_sessions n ! a) \<le> s_messageCounter (n_sessions n' ! a)) \<and>
    (\<forall>x \<in> set (x_table n). e_session (x_exchanges n' ! x) = e_session (x_exchanges n ! x) \<and> e_exchangeId (x_exchanges n' ! x) = e_exchangeId (x_exchanges n ! x))"
proof -
  have k: "node_ok n" by (rule reachable_node_ok [OF assms(1)])
  have e: "extends n n'"
    using assms(2)
  proof (induction rule: rtranclp_induct)
    case base
    then show ?case by (simp add: extends_refl)
  next
    case (step n1 n2)
    have "node_ok n1" using step(1) by (induction rule: rtranclp_induct) (use k node_step_ok in blast)+
    then show ?case using node_step_ok [OF step(2)] step(3) extends_trans by blast
  qed
  have r: "refs_ok n" using k by (simp add: node_ok_def)
  have "a < length (n_sessions n)" if "a \<in> set (sm_secured n) \<union> set (sm_unsecured n)" for a using that r by (auto simp: refs_ok_def exchanges_ok_def tables_ok_def)
  moreover have "x < length (x_exchanges n)" if "x \<in> set (x_table n)" for x using that r by (auto simp: refs_ok_def exchanges_ok_def)
  ultimately show ?thesis
    using lookups_grow [OF e r] e unfolding extends_def tables_grow_def session_kept_def exchange_kept_def by blast
qed

theorem node_history_witness:
  "\<exists>n n'. pase_connect toy_aead ''::1'' 5540 started_node = Inr n \<and> sm_unsecured n \<noteq> [] \<and> x_table n \<noteq> [] \<and> pn_listeners n \<noteq> [] \<and>
     (node_step toy_aead toy_kdf toy_spake toy_sign)\<^sup>*\<^sup>* n n' \<and> n' \<noteq> n \<and>
     prefix (sm_unsecured n) (sm_unsecured n') \<and> prefix (x_table n) (x_table n') \<and> prefix (pn_listeners n) (pn_listeners n')"
proof -
  obtain n p where n: "pase_connect toy_aead ''::1'' 5540 started_node = Inr n" "sm_unsecured n \<noteq> []" "x_table n \<noteq> []" "pn_listeners n \<noteq> []"
    "p < length (pn_pases n)" "ps_timer (pn_pases n ! p)" using demo_connected by blast
  have r: "node_reachable toy_aead toy_kdf toy_spake toy_sign n"
    by (rule node_reachable.step [OF node_reachable.fresh [OF started_fresh] node_step.pase_command [OF n(1)]])
  let ?n = "upd_pase p stateTimeout n"
  have "ps_timer (pn_pases ?n ! p) \<noteq> ps_timer (pn_pases n ! p)" using n(5,6) by (simp add: stateTimeout_def setState_def)
  then have d: "?n \<noteq> n" by metis
  have "node_step toy_aead toy_kdf toy_spake toy_sign n ?n" by (rule node_step.pase_timer [OF n(5,6)])
  then have s: "(node_step toy_aead toy_kdf toy_spake toy_sign)\<^sup>*\<^sup>* n ?n" by (rule r_into_rtranclp)
  show ?thesis using node_history [OF r s] s n d by (elim conjE, intro exI [of _ n] exI [of _ ?n] conjI)
qed

section \<open>The initiator cannot read the replies\<close>

text \<open>
  The keys of a session are those of the two directions, and a reply is encrypted with the second.
  Since no session is ever on the initiator's side, a node decrypts with the first, also when it
  opened the session: under a cipher that authenticates, it takes no reply for authentic, and hands on
  the encrypted octets.
\<close>

lemma reply_not_decrypted:
  assumes "node_reachable A kdf S sign n" and "a < length (n_sessions n)" and "s_keys (n_sessions n ! a) = Some ks"
    and "isUnencrypted msg = Inr False" and "m_encrypted msg = Some buf" and "msg_decrypt A buf (ks ! 0) = Inr None"
  shows "decryptMessage A (n_sessions n ! a) msg = Inr msg"
proof -
  have "session_wf (n_sessions n ! a)" using reachable_node_ok [OF assms(1)] assms(2) by (simp add: node_ok_def refs_ok_def list_all_length)
  then show ?thesis using assms(3-6) by (simp add: decryptMessage_def session_wf_def)
qed

end
