(* ===== verification/Crypto_Keys.thy ===== *)
theory Crypto_Keys
  imports Matter_Message Session
begin

text \<open>
  \<open>src/crypto/Crypto.js\<close>, \<open>src/crypto/GroupKey.js\<close> and
  \<open>src/protocols/session/CaseSession.js\<close>: the wrappers of the cipher, of signatures and of
  key derivation. SHA-256, HMAC, HKDF, AES-CCM and the elliptic curve are parameters, with the
  numbers of a signature as \<open>bn.js\<close> prints them.
\<close>

section \<open>Parameters\<close>

text \<open>
  \<open>cr_sign\<close> is \<open>ec.keyFromPrivate(key).sign(digest)\<close> with the numbers \<open>r\<close> and
  \<open>s\<close>; \<open>cr_verify\<close> is \<open>ec.keyFromPublic(key).verify(digest, {r, s})\<close> with both
  numbers as octets; \<open>cr_toBuffer\<close> is \<open>toBuffer()\<close> of a number.
\<close>

record crypto_lib =
  cr_hash :: "buffer \<Rightarrow> buffer"
  cr_hmac :: "buffer \<Rightarrow> buffer \<Rightarrow> buffer"
  cr_sign :: "buffer \<Rightarrow> buffer \<Rightarrow> (int \<times> int) result"
  cr_verify :: "buffer \<Rightarrow> buffer \<Rightarrow> buffer \<Rightarrow> buffer \<Rightarrow> bool"
  cr_toBuffer :: "int \<Rightarrow> buffer"
  cr_publicKey :: "buffer \<Rightarrow> buffer result"
  cr_kdf :: "buffer \<Rightarrow> buffer \<Rightarrow> buffer \<Rightarrow> nat \<Rightarrow> buffer result"

section \<open>Crypto\<close>

definition CRYPTO_AEAD_CCM_NONCE_SIZE :: nat where "CRYPTO_AEAD_CCM_NONCE_SIZE = 13"
definition CRYPTO_AEAD_CTR_NONCE_SIZE :: nat where "CRYPTO_AEAD_CTR_NONCE_SIZE = 16"
definition CRYPTO_SYMMETRIC_KEY_LENGTH_BYTES :: nat where "CRYPTO_SYMMETRIC_KEY_LENGTH_BYTES = 16"

definition PublicFromPrivate :: "crypto_lib \<Rightarrow> buffer \<Rightarrow> buffer result" where
  "PublicFromPrivate L privateKey = cr_publicKey L privateKey"

definition Hash :: "crypto_lib \<Rightarrow> buffer \<Rightarrow> buffer" where
  "Hash L message = cr_hash L message"

definition Hmac :: "crypto_lib \<Rightarrow> buffer \<Rightarrow> buffer \<Rightarrow> buffer" where
  "Hmac L key message = cr_hmac L key message"

definition Kdf :: "crypto_lib \<Rightarrow> buffer \<Rightarrow> buffer \<Rightarrow> buffer \<Rightarrow> nat \<Rightarrow> buffer result" where
  "Kdf L inputKey salt info len = cr_kdf L inputKey salt info len"

definition Sign :: "crypto_lib \<Rightarrow> buffer \<Rightarrow> buffer \<Rightarrow> buffer result" where
  "Sign L message privateKey =
     (let digest = Hash L message
      in rmap (\<lambda>(r, s). cr_toBuffer L r @ cr_toBuffer L s) (cr_sign L privateKey digest))"

definition Verify :: "crypto_lib \<Rightarrow> buffer \<Rightarrow> buffer \<Rightarrow> buffer \<Rightarrow> bool" where
  "Verify L message signature publicKey =
     (let r = subarray 0 32 signature; s = subarray_from 32 signature; digest = Hash L message
      in cr_verify L publicKey digest r s)"

definition AeadEncrypt :: "aead \<Rightarrow> buffer \<Rightarrow> buffer \<Rightarrow> buffer \<Rightarrow> buffer \<Rightarrow> buffer result" where
  "AeadEncrypt A key plaintext additionalData nonce = rmap (\<lambda>(ciphertext, tag). ciphertext @ tag) (ccm_encrypt A key nonce additionalData plaintext)"

text \<open>Every error of the cipher is caught and becomes \<open>null\<close>.\<close>

definition AeadDecrypt :: "aead \<Rightarrow> buffer \<Rightarrow> buffer \<Rightarrow> buffer \<Rightarrow> buffer \<Rightarrow> buffer \<Rightarrow> buffer option" where
  "AeadDecrypt A key ciphertext additionalData nonce mic =
     (case ccm_decrypt A key nonce additionalData ciphertext mic of Inl _ \<Rightarrow> None | Inr plaintext \<Rightarrow> Some plaintext)"

definition PrivacyDecrypt :: "aead \<Rightarrow> buffer \<Rightarrow> buffer \<Rightarrow> buffer \<Rightarrow> buffer result" where
  "PrivacyDecrypt A symmetricKey ciphertext nonce = PrivacyEncrypt A symmetricKey ciphertext nonce"

definition kCompressedFabricInfo :: buffer where
  "kCompressedFabricInfo = utf8_encode (js_string ''CompressedFabric'')"

definition GenerateCompressedFabricId :: "crypto_lib \<Rightarrow> buffer \<Rightarrow> int \<Rightarrow> buffer result" where
  "GenerateCompressedFabricId L rootPublicKey fabricId =
     (if 0 \<le> fabricId \<and> fabricId < 2 ^ 64 then Kdf L rootPublicKey (rev (le_bytes 8 fabricId)) kCompressedFabricInfo 8
      else Inl RangeError)"

section \<open>Group keys\<close>

definition kSaltZero :: buffer where "kSaltZero = []"
definition kGroupKeyInfo :: buffer where "kGroupKeyInfo = utf8_encode (js_string ''GroupKey v1.0'')"
definition kGroupKeyHashInfo :: buffer where "kGroupKeyHashInfo = utf8_encode (js_string ''GroupKeyHash'')"
definition kPrivacyKeyInfo :: buffer where "kPrivacyKeyInfo = utf8_encode (js_string ''PrivacyKey'')"

definition DeriveGroupKey :: "crypto_lib \<Rightarrow> buffer \<Rightarrow> buffer \<Rightarrow> buffer result" where
  "DeriveGroupKey L epochKey compressedFabricId = Kdf L epochKey compressedFabricId kGroupKeyInfo CRYPTO_SYMMETRIC_KEY_LENGTH_BYTES"

definition DeriveGroupKeyHash :: "crypto_lib \<Rightarrow> buffer \<Rightarrow> buffer result" where
  "DeriveGroupKeyHash L groupKey = rmap (subarray 0 2) (Kdf L groupKey kSaltZero kGroupKeyHashInfo CRYPTO_SYMMETRIC_KEY_LENGTH_BYTES)"

definition DerivePrivacyKey :: "crypto_lib \<Rightarrow> buffer \<Rightarrow> buffer result" where
  "DerivePrivacyKey L groupKey = Kdf L groupKey kSaltZero kPrivacyKeyInfo CRYPTO_SYMMETRIC_KEY_LENGTH_BYTES"

section \<open>CASE\<close>

text \<open>The private \<open>#secret\<close>: nothing assigns it, and key derivation rejects \<open>undefined\<close>.\<close>

record case_session =
  cs_secret :: "buffer option"

definition new_case :: case_session where "new_case = \<lparr>cs_secret = None\<rparr>"

definition SessionResumptionKeys :: buffer where
  "SessionResumptionKeys = utf8_encode (js_string ''SessionResumptionKeys'')"

definition initCaseSession :: "hkdf \<Rightarrow> nat \<Rightarrow> case_session \<Rightarrow> 'a net_scheme \<Rightarrow> 'a net_scheme result" where
  "initCaseSession kdf a c n = (case cs_secret c of None \<Rightarrow> Inl TypeError | Some secret \<Rightarrow> initFromSecret kdf a secret [] SessionResumptionKeys n)"

definition resumeCaseSession :: "hkdf \<Rightarrow> nat \<Rightarrow> case_session \<Rightarrow> 'a net_scheme \<Rightarrow> 'a net_scheme result" where
  "resumeCaseSession kdf a c n = (case cs_secret c of None \<Rightarrow> Inl TypeError | Some secret \<Rightarrow> initFromSecret kdf a secret [] SessionResumptionKeys n)"

section \<open>Signatures\<close>

definition be_val :: "buffer \<Rightarrow> int" where
  "be_val b = le_val (rev b)"

lemma le_val_append: "le_val (a @ b) = le_val a + 256 ^ length a * le_val b"
  by (induction a) (simp_all add: algebra_simps)

lemma be_val_append: "be_val (a @ b) = be_val a * 256 ^ length b + be_val b"
  by (simp add: be_val_def le_val_append)

lemma be_val_ge_0 [simp]: "0 \<le> be_val b"
  by (simp add: be_val_def)

text \<open>
  \<open>toBuffer()\<close> without a length argument: the big-endian octets of a positive number, with
  no leading zero.
\<close>

definition bn_ok :: "crypto_lib \<Rightarrow> bool" where
  "bn_ok L \<longleftrightarrow> (\<forall>v > 0. be_val (cr_toBuffer L v) = v \<and> cr_toBuffer L v \<noteq> [] \<and> 256 ^ (length (cr_toBuffer L v) - 1) \<le> v)"

lemma bn_okD:
  assumes "bn_ok L" and "0 < v"
  shows "be_val (cr_toBuffer L v) = v" "cr_toBuffer L v \<noteq> []" "256 ^ (length (cr_toBuffer L v) - 1) \<le> v" "v < 256 ^ length (cr_toBuffer L v)"
  using assms le_val_less [of "rev (cr_toBuffer L v)"] by (auto simp: bn_ok_def be_val_def)

lemma bn_length:
  assumes "bn_ok L" and "0 < v"
  shows "length (cr_toBuffer L v) \<le> k \<longleftrightarrow> v < 256 ^ k"
proof
  assume "length (cr_toBuffer L v) \<le> k"
  then have "(256 :: int) ^ length (cr_toBuffer L v) \<le> 256 ^ k" by (rule power_increasing) simp
  with bn_okD(4) [OF assms] show "v < 256 ^ k" by (rule order.strict_trans2)
next
  assume "v < 256 ^ k"
  with bn_okD(3) [OF assms] have "(256 :: int) ^ (length (cr_toBuffer L v) - 1) < 256 ^ k" by (rule order.strict_trans1)
  then have "length (cr_toBuffer L v) - 1 < k" by (rule power_less_imp_less_exp [rotated]) simp
  then show "length (cr_toBuffer L v) \<le> k" by simp
qed

text \<open>
  (C32) The two numbers of a signature survive the concatenation only when the first needs all
  of its 32 octets: splitting what \<open>Sign\<close> returns the way \<open>Verify\<close> does gives back
  \<open>r\<close> and \<open>s\<close> exactly when \<open>r\<close> is at least \<open>2 ^ 248\<close>. For a smaller \<open>r\<close>, one
  signature in 256, \<open>Verify\<close> is given other numbers.
\<close>

theorem signature_split:
  assumes "bn_ok L" and "cr_sign L key (Hash L msg) = Inr (r, s)" and "0 < r" and "r < 2 ^ 256" and "0 < s"
  shows "\<exists>signature. Sign L msg key = Inr signature \<and>
    ((be_val (subarray 0 32 signature) = r \<and> be_val (subarray_from 32 signature) = s) \<longleftrightarrow> 2 ^ 248 \<le> r)"
proof -
  let ?a = "cr_toBuffer L r" and ?b = "cr_toBuffer L s"
  have sg: "Sign L msg key = Inr (?a @ ?b)" using assms(2) by (simp add: Sign_def Let_def)
  have l: "length ?a \<le> 32" using bn_length [OF assms(1,3), of 32] assms(4) by simp
  have t: "subarray 0 32 (?a @ ?b) = take 32 (?a @ ?b)" "subarray_from 32 (?a @ ?b) = drop 32 (?a @ ?b)"
    using subarray_0 [of 32 "?a @ ?b"] subarray_from_nat [of 32 "?a @ ?b"] by simp_all
  show ?thesis
  proof (cases "2 ^ 248 \<le> r")
    case True
    then have "\<not> length ?a \<le> 31" using bn_length [OF assms(1,3), of 31] by simp
    with l have "length ?a = 32" by simp
    with True sg t bn_okD(1) [OF assms(1,3)] bn_okD(1) [OF assms(1,5)] show ?thesis by simp
  next
    case False
    then have s: "length ?a \<le> 31" using bn_length [OF assms(1,3), of 31] by simp
    let ?c = "take (32 - length ?a) ?b"
    have "take 32 (?a @ ?b) = ?a @ ?c" using l by simp
    then have v: "be_val (take 32 (?a @ ?b)) = r * 256 ^ length ?c + be_val ?c" using bn_okD(1) [OF assms(1,3)] by (simp add: be_val_append)
    have "1 \<le> length ?c" using s bn_okD(2) [OF assms(1,5)] by (cases ?b) simp_all
    then have "(256 :: int) ^ 1 \<le> 256 ^ length ?c" by (rule power_increasing) simp
    then have "r * 256 \<le> r * 256 ^ length ?c" using assms(3) by simp
    then have "be_val (take 32 (?a @ ?b)) \<noteq> r" using v be_val_ge_0 [of ?c] assms(3) by linarith
    with False sg t show ?thesis by simp
  qed
qed

text \<open>A library that satisfies the hypothesis: digits to base 256.\<close>

fun be_digits :: "nat \<Rightarrow> buffer" where
  "be_digits v = (if v < 256 then [word_of_nat v] else be_digits (v div 256) @ [word_of_nat (v mod 256)])"

declare be_digits.simps [simp del]

lemma be_digits_ok:
  assumes "0 < v"
  shows "be_val (be_digits v) = int v \<and> be_digits v \<noteq> [] \<and> 256 ^ (length (be_digits v) - 1) \<le> int v"
  using assms
proof (induction v rule: be_digits.induct)
  case (1 v)
  show ?case
  proof (cases "v < 256")
    case True
    then have "uint (word_of_nat v :: byte) = int v" by (simp add: unat_of_nat uint_nat)
    with True "1.prems" show ?thesis by (simp add: be_digits.simps [of v] be_val_def)
  next
    case False
    let ?d = "be_digits (v div 256)"
    have IH: "be_val ?d = int (v div 256)" "?d \<noteq> []" "256 ^ (length ?d - 1) \<le> int (v div 256)" using "1.IH" [OF False] False by simp_all
    have "uint (word_of_nat (v mod 256) :: byte) = int (v mod 256)" by (simp add: unat_of_nat uint_nat)
    moreover have "256 * int (v div 256) + int (v mod 256) = int v" by (metis mult_div_mod_eq of_nat_add of_nat_mult of_nat_numeral)
    ultimately have "be_val (be_digits v) = int v" using IH(1) False by (simp add: be_digits.simps [of v] be_val_append) (simp add: be_val_def)
    moreover have "256 ^ length ?d \<le> int v"
    proof -
      have "(256 :: int) ^ length ?d = 256 * 256 ^ (length ?d - 1)" using IH(2) by (cases "length ?d") simp_all
      also have "\<dots> \<le> 256 * int (v div 256)" using IH(3) by simp
      also have "\<dots> \<le> int v" by linarith
      finally show ?thesis .
    qed
    ultimately show ?thesis using False by (simp add: be_digits.simps [of v])
  qed
qed

definition demo_crypto :: crypto_lib where
  "demo_crypto = \<lparr>cr_hash = rev, cr_hmac = (\<lambda>k m. k @ m), cr_sign = (\<lambda>k d. Inr (int (length k), 258)),
     cr_verify = (\<lambda>k d r s. be_val r = int (length k) \<and> be_val s = 258), cr_toBuffer = (\<lambda>v. be_digits (nat v)),
     cr_publicKey = Inr, cr_kdf = (\<lambda>k salt info l. Inr (take l (k @ salt @ info)))\<rparr>"

lemma demo_crypto_ok: "bn_ok demo_crypto"
proof -
  have "be_val (be_digits (nat v)) = v \<and> be_digits (nat v) \<noteq> [] \<and> 256 ^ (length (be_digits (nat v)) - 1) \<le> v" if "0 < v" for v
    using be_digits_ok [of "nat v"] that by (simp del: One_nat_def)
  then show ?thesis by (simp add: bn_ok_def demo_crypto_def)
qed

theorem signature_split_witness:
  "\<exists>signature. Sign demo_crypto [1, 2] (replicate 5 0) = Inr signature \<and>
    \<not> (be_val (subarray 0 32 signature) = 5 \<and> be_val (subarray_from 32 signature) = 258)"
  using signature_split [OF demo_crypto_ok, of "replicate 5 0" "[1, 2]" 5 258] by (auto simp: demo_crypto_def)

section \<open>The message codec and the wrappers\<close>

text \<open>
  The codec of messages, which calls the cipher itself, computes what the wrappers compute:
  encrypting is the header followed by \<open>AeadEncrypt\<close> of the rest under the message's nonce,
  and decrypting is \<open>AeadDecrypt\<close> of what lies between header and tag.
\<close>

theorem codec_is_aead:
  "msg_encrypt A msg key = rbind (getNonce msg 0) (\<lambda>nonce.
      rmap (append (take (header_size msg) msg)) (AeadEncrypt A key (drop (header_size msg) msg) (take (header_size msg) msg) nonce)) \<and>
   msg_decrypt A msg key = rbind (getNonce msg 0) (\<lambda>nonce.
      Inr (map_option (append (take (header_size msg) msg))
        (AeadDecrypt A key (subarray (int (header_size msg)) (int (length msg) - 16) msg) (take (header_size msg) msg) nonce
          (subarray_from (int (length msg) - 16) msg))))"
  by (auto simp: msg_encrypt_def msg_decrypt_def AeadEncrypt_def AeadDecrypt_def Let_def subarray_0 subarray_from_nat rmap_def
      simp del: rbind_eq_Inr intro!: rbind_cong split: sum.split)

text \<open>The three keys derived from group keys use different info strings, so no derivation stands in for another.\<close>

lemma group_infos_distinct: "distinct [kGroupKeyInfo, kGroupKeyHashInfo, kPrivacyKeyInfo, kCompressedFabricInfo]"
  by code_simp

text \<open>A new CASE object has no secret, so neither of its operations derives keys.\<close>

lemma case_without_secret: "initCaseSession kdf a new_case n = Inl TypeError" "resumeCaseSession kdf a new_case n = Inl TypeError"
  by (simp_all add: initCaseSession_def resumeCaseSession_def new_case_def)

end
