(* ===== verification/Persistent_Store.thy ===== *)
theory Persistent_Store
  imports Crypto_Keys Cluster_Credentials
begin

text \<open>
  \<open>src/platform/PersistantStore.js\<close> and the level of \<open>src/util/Tracer.js\<close>: the
  parameters of a node, kept in \<open>node-localstorage\<close>. The storage is a parameter, as are the
  levels that the logger accepts and the derivation of a public key.
\<close>

section \<open>Parameters\<close>

record 'd local_storage =
  ls_getItem :: "string \<Rightarrow> 'd \<Rightarrow> 16 word list option"
  ls_setItem :: "string \<Rightarrow> 16 word list \<Rightarrow> 'd \<Rightarrow> 'd"

text \<open>Documented behaviour: an item reads as what was last stored under its key.\<close>

definition storage_ok :: "'d local_storage \<Rightarrow> bool" where
  "storage_ok D \<longleftrightarrow> (\<forall>k k' v d. ls_getItem D k (ls_setItem D k' v d) = (if k = k' then Some v else ls_getItem D k d))"

text \<open>The runtime around the store: the storage, the levels the logger knows, key derivation and random octets.\<close>

record 'd store_env =
  se_storage :: "'d local_storage"
  se_levels :: "jsval \<Rightarrow> bool"
  se_publicKey :: "buffer \<Rightarrow> buffer result"
  se_random :: buffer

section \<open>Helpers\<close>

text \<open>\<open>getItem\<close> returns \<open>null\<close> for a key that is not there; \<open>setItem\<close> stores the printed value.\<close>

definition getItem :: "'d store_env \<Rightarrow> string \<Rightarrow> 'd \<Rightarrow> jsval" where
  "getItem E k d = (case ls_getItem (se_storage E) k d of None \<Rightarrow> JNull | Some s \<Rightarrow> JStr s)"

definition setItem :: "'d store_env \<Rightarrow> string \<Rightarrow> jsval \<Rightarrow> 'd \<Rightarrow> 'd result" where
  "setItem E k v d = rmap (\<lambda>s. ls_setItem (se_storage E) k s d) (to_text v)"

text \<open>\<open>Number(v)\<close>; of the strings only decimal integers are modelled.\<close>

fun to_number :: "jsval \<Rightarrow> int result" where
  "to_number (JNum k) = Inr k"
| "to_number (JBool b) = Inr (if b then 1 else 0)"
| "to_number JNull = Inr 0"
| "to_number (JStr s) = (case canonical_int s of Some k \<Rightarrow> Inr k | None \<Rightarrow> Inl Unmodelled)"
| "to_number _ = Inl Unmodelled"

text \<open>\<open>toString(radix)\<close> of a number.\<close>

definition radix_char :: "nat \<Rightarrow> 16 word" where
  "radix_char d = word_of_nat (if d < 10 then 48 + d else 87 + d)"

function radix_digits :: "nat \<Rightarrow> nat \<Rightarrow> 16 word list" where
  "radix_digits r n = (if n < r \<or> r < 2 then [radix_char n] else radix_digits r (n div r) @ [radix_char (n mod r)])"
  by pat_completeness auto
termination
  by (relation "measure snd") auto

declare radix_digits.simps [simp del]

fun js_toString :: "nat \<Rightarrow> jsval \<Rightarrow> 16 word list result" where
  "js_toString r (JStr s) = Inr s"
| "js_toString r (JNum k) = (if 0 \<le> k then Inr (radix_digits r (nat k)) else Inr (word_of_nat 45 # radix_digits r (nat (- k))))"
| "js_toString r JUndef = Inl TypeError"
| "js_toString r JNull = Inl TypeError"
| "js_toString r _ = Inl Unmodelled"

text \<open>The loop of \<open>formatHex\<close>; it prepends zeros until the length is reached.\<close>

function pad_zeros :: "nat \<Rightarrow> 16 word list \<Rightarrow> 16 word list" where
  "pad_zeros len padded = (if length padded < len then pad_zeros len (word_of_nat 48 # padded) else padded)"
  by pat_completeness auto
termination
  by (relation "measure (\<lambda>(len, padded). len - length padded)") auto

declare pad_zeros.simps [simp del]

text \<open>\<open>hex.toString(len)\<close> takes the length for the radix.\<close>

definition formatHex :: "jsval \<Rightarrow> nat \<Rightarrow> 16 word list result" where
  "formatHex hex len = rmap (pad_zeros len) (js_toString len hex)"

lemma pad_zeros_eq: "pad_zeros len s = replicate (len - length s) (word_of_nat 48) @ s"
proof (induction len s rule: pad_zeros.induct)
  case (1 len s)
  show ?case
  proof (cases "length s < len")
    case True
    then have "len - length s = Suc (len - Suc (length s))" by simp
    with True 1 show ?thesis by (simp add: pad_zeros.simps [of len s] replicate_app_Cons_same)
  qed (simp add: pad_zeros.simps)
qed

section \<open>The store\<close>

record 'd store =
  st_storage :: 'd
  st_nodeid :: jsval
  st_fabricid :: jsval
  st_encryptionKey :: jsval
  st_nodenum :: jsval
  st_ipPort :: jsval
  st_logLevel :: jsval
  st_traceLevel :: jsval
  st_daPrivateKey :: jsval
  st_daPublicKey :: jsval
  st_daCertificat :: jsval
  st_daCertificate :: jsval
  st_logger :: jsval
  st_tracer :: jsval

definition set_NodeId :: "'d store_env \<Rightarrow> jsval \<Rightarrow> 'd store \<Rightarrow> 'd store result" where
  "set_NodeId E v t = rbind (formatHex v 16) (\<lambda>v.
     rmap (\<lambda>d. t\<lparr>st_nodeid := JStr v, st_storage := d\<rparr>) (setItem E ''nodeid'' (JStr v) (st_storage t)))"

definition set_FabricId :: "'d store_env \<Rightarrow> jsval \<Rightarrow> 'd store \<Rightarrow> 'd store result" where
  "set_FabricId E v t = rbind (formatHex v 16) (\<lambda>v.
     rmap (\<lambda>d. t\<lparr>st_fabricid := JStr v, st_storage := d\<rparr>) (setItem E ''fabricid'' (JStr v) (st_storage t)))"

definition set_EncryptionKey :: "'d store_env \<Rightarrow> jsval \<Rightarrow> 'd store \<Rightarrow> 'd store result" where
  "set_EncryptionKey E v t = rbind (formatHex v 32) (\<lambda>v.
     rmap (\<lambda>d. t\<lparr>st_encryptionKey := JStr v, st_storage := d\<rparr>) (setItem E ''encryptionKey'' (JStr v) (st_storage t)))"

definition set_IpPort :: "'d store_env \<Rightarrow> jsval \<Rightarrow> 'd store \<Rightarrow> 'd store result" where
  "set_IpPort E v t = rbind (to_number v) (\<lambda>k.
     rmap (\<lambda>d. t\<lparr>st_ipPort := JNum k, st_storage := d\<rparr>) (setItem E ''ipPort'' v (st_storage t)))"

definition set_NodeNum :: "'d store_env \<Rightarrow> jsval \<Rightarrow> 'd store \<Rightarrow> 'd store result" where
  "set_NodeNum E v t = rbind (to_number v) (\<lambda>k.
     rbind (set_IpPort E (JNum (DEFAULT_PORT + k)) (t\<lparr>st_nodenum := JNum k\<rparr>)) (\<lambda>t.
     rmap (\<lambda>d. t\<lparr>st_storage := d\<rparr>) (setItem E ''nodenum'' v (st_storage t))))"

text \<open>A level that is not accepted is reported, and the present one is stored.\<close>

definition set_LogLevel :: "'d store_env \<Rightarrow> jsval \<Rightarrow> 'd store \<Rightarrow> 'd store result" where
  "set_LogLevel E v t =
     (let t = (if se_levels E v then t\<lparr>st_logger := v\<rparr> else t); v = st_logger t
      in rmap (\<lambda>d. t\<lparr>st_logLevel := v, st_storage := d\<rparr>) (setItem E ''logLevel'' v (st_storage t)))"

text \<open>The level of the tracer, \<open>v == 0 || v == 1\<close>, which the printed numbers pass too.\<close>

definition tracer_level_ok :: "jsval \<Rightarrow> bool" where
  "tracer_level_ok v \<longleftrightarrow> (\<exists>k \<in> {0, 1}. to_number v = Inr k) \<and> v \<noteq> JNull"

definition set_TraceLevel :: "'d store_env \<Rightarrow> jsval \<Rightarrow> 'd store \<Rightarrow> 'd store result" where
  "set_TraceLevel E v t =
     (let t = (if tracer_level_ok v then t\<lparr>st_tracer := v\<rparr> else t); v = st_tracer t
      in rmap (\<lambda>d. t\<lparr>st_traceLevel := v, st_storage := d\<rparr>) (setItem E ''traceLevel'' v (st_storage t)))"

text \<open>The key of the device is not put into the storage.\<close>

definition set_DaPrivateKey :: "'d store_env \<Rightarrow> 16 word list \<Rightarrow> 'd store \<Rightarrow> 'd store result" where
  "set_DaPrivateKey E v t =
     rmap (\<lambda>p. t\<lparr>st_daPrivateKey := JStr v, st_daPublicKey := JStr (hex_encode p)\<rparr>) (se_publicKey E (hex_decode v))"

definition when_unset :: "jsval \<Rightarrow> ('t \<Rightarrow> 't result) \<Rightarrow> 't \<Rightarrow> 't result" where
  "when_unset v f t = (if js_truthy v then Inr t else f t)"

definition default_EncryptionKey :: "16 word list" where
  "default_EncryptionKey = js_string ''5eded244e5532b3cdc23409dbad052d2''"

definition setDefaults :: "'d store_env \<Rightarrow> 'd store \<Rightarrow> 'd store result" where
  "setDefaults E t =
     rbind (when_unset (st_nodeid t) (set_NodeId E (JStr (hex_encode (take 8 (se_random E))))) t) (\<lambda>t.
     rbind (when_unset (st_fabricid t) (set_FabricId E (JStr (js_string ''0000000000000000''))) t) (\<lambda>t.
     rbind (when_unset (st_encryptionKey t) (set_EncryptionKey E (JStr default_EncryptionKey)) t) (\<lambda>t.
     rbind (when_unset (st_nodenum t) (set_NodeNum E (JNum 0)) t) (\<lambda>t.
     rbind (when_unset (st_ipPort t) (\<lambda>t. rbind (to_number (st_nodenum t)) (\<lambda>k. set_IpPort E (JNum (DEFAULT_PORT + k)) t)) t) (\<lambda>t.
     rbind (set_LogLevel E (if js_truthy (st_logLevel t) then st_logLevel t else JStr (js_string ''info'')) t) (\<lambda>t.
     rbind (set_TraceLevel E (if js_truthy (st_traceLevel t) then st_traceLevel t else JNum 0) t) (\<lambda>t.
     rbind (when_unset (st_daPrivateKey t) (set_DaPrivateKey E (hex_encode TEST_DAC_PRIVKEY)) t) (\<lambda>t.
       when_unset (st_daCertificate t) (\<lambda>t. Inr (t\<lparr>st_daCertificate := JStr (hex_encode TEST_DAC_CERTIFICATE)\<rparr>)) t))))))))"

text \<open>
  \<open>init\<close> on a new object, in a process whose logger and tracer have the given levels. The
  port is read under \<open>udpPort\<close>, a key that nothing writes, and the certificate into a field
  that nothing reads.
\<close>

definition store_init :: "'d store_env \<Rightarrow> jsval \<Rightarrow> jsval \<Rightarrow> 'd \<Rightarrow> 'd store result" where
  "store_init E logger tracer d = setDefaults E
     \<lparr>st_storage = d, st_nodeid = getItem E ''nodeid'' d, st_fabricid = getItem E ''fabricid'' d,
      st_encryptionKey = getItem E ''encryptionKey'' d, st_nodenum = getItem E ''nodenum'' d, st_ipPort = getItem E ''udpPort'' d,
      st_logLevel = getItem E ''logLevel'' d, st_traceLevel = getItem E ''traceLevel'' d,
      st_daPrivateKey = getItem E ''daPrivateKey'' d, st_daPublicKey = getItem E ''daPublicKey'' d,
      st_daCertificat = getItem E ''daCertificate'' d, st_daCertificate = JUndef, st_logger = logger, st_tracer = tracer\<rparr>"

definition mdnsTarget :: "'d store \<Rightarrow> 16 word list result" where
  "mdnsTarget t = rbind (to_text (st_fabricid t)) (\<lambda>f. rmap (\<lambda>n. f @ js_string ''-'' @ n) (to_text (st_nodeid t)))"

section \<open>Numbers in text\<close>

lemma digits_val_snoc:
  "digits_val acc (xs @ [c]) = (case digits_val acc xs of None \<Rightarrow> None | Some v \<Rightarrow> digits_val v [c])"
  by (induction xs arbitrary: acc) auto

lemma digit_unit: "d < 10 \<Longrightarrow> uint (word_of_nat (48 + d) :: 16 word) = 48 + int d"
  by (simp only: unsigned_of_nat) (simp add: take_bit_nat_eq_self)

lemma dec_digits_step: "n < 10 \<Longrightarrow> dec_digits n = [word_of_nat (48 + n)]" "10 \<le> n \<Longrightarrow> dec_digits n = dec_digits (n div 10) @ [word_of_nat (48 + n mod 10)]"
  by (subst dec_digits.simps, simp)+

lemma dec_digits_val: "digits_val 0 (dec_digits n) = Some (int n)"
proof (induction n rule: dec_digits.induct)
  case (1 n)
  show ?case
  proof (cases "n < 10")
    case True
    then show ?thesis using digit_unit [OF True] by (simp add: dec_digits_step)
  next
    case False
    have "uint (word_of_nat (48 + n mod 10) :: 16 word) = 48 + int (n mod 10)" by (rule digit_unit) simp
    moreover have "10 * int (n div 10) + int (n mod 10) = int n" by (metis mult_div_mod_eq of_nat_add of_nat_mult of_nat_numeral)
    moreover have "n mod 10 \<le> 9" using mod_less_divisor [of 10 n] by linarith
    ultimately show ?thesis using False 1 by (simp add: dec_digits_step digits_val_snoc del: of_nat_add)
  qed
qed

lemma dec_digits_head: "0 < n \<Longrightarrow> \<exists>c cs. dec_digits n = c # cs \<and> uint c \<noteq> 48 \<and> uint c \<noteq> 45"
proof (induction n rule: dec_digits.induct)
  case (1 n)
  show ?case
  proof (cases "n < 10")
    case True
    then show ?thesis using digit_unit [OF True] 1 by (simp add: dec_digits_step)
  next
    case False
    with 1 have "\<exists>c cs. dec_digits (n div 10) = c # cs \<and> uint c \<noteq> 48 \<and> uint c \<noteq> 45" by simp
    with False show ?thesis by (auto simp: dec_digits_step)
  qed
qed

lemma number_of_text: "to_number (JStr (dec_string (int n))) = Inr (int n)"
proof (cases "n = 0")
  case True
  then show ?thesis by (simp add: dec_string_def dec_digits_step canonical_int_def canonical_nat_def)
next
  case False
  then obtain c cs where "dec_digits n = c # cs" "uint c \<noteq> 48" "uint c \<noteq> 45" using dec_digits_head [of n] by auto
  with dec_digits_val [of n] show ?thesis by (simp add: dec_string_def canonical_int_def canonical_nat_def)
qed

section \<open>Restart\<close>

datatype store_op = SetNodeId jsval | SetFabricId jsval | SetEncryptionKey jsval | SetNodeNum jsval | SetIpPort jsval
  | SetLogLevel jsval | SetTraceLevel jsval | SetDaPrivateKey "16 word list"

fun apply_op :: "'d store_env \<Rightarrow> store_op \<Rightarrow> 'd store \<Rightarrow> 'd store result" where
  "apply_op E (SetNodeId v) = set_NodeId E v"
| "apply_op E (SetFabricId v) = set_FabricId E v"
| "apply_op E (SetEncryptionKey v) = set_EncryptionKey E v"
| "apply_op E (SetNodeNum v) = set_NodeNum E v"
| "apply_op E (SetIpPort v) = set_IpPort E v"
| "apply_op E (SetLogLevel v) = set_LogLevel E v"
| "apply_op E (SetTraceLevel v) = set_TraceLevel E v"
| "apply_op E (SetDaPrivateKey v) = set_DaPrivateKey E v"

text \<open>A node number is a number or its text.\<close>

fun op_ok :: "store_op \<Rightarrow> bool" where
  "op_ok (SetNodeNum v) = (case v of JNum k \<Rightarrow> 0 \<le> k | JStr s \<Rightarrow> True | _ \<Rightarrow> False)"
| "op_ok _ = True"

text \<open>The identity of the node is in the storage as it is in the object.\<close>

definition item_saved :: "'d store_env \<Rightarrow> string \<Rightarrow> jsval \<Rightarrow> 'd \<Rightarrow> bool" where
  "item_saved E k v d \<longleftrightarrow> (\<exists>s. ls_getItem (se_storage E) k d = Some s \<and> s \<noteq> [] \<and> v = JStr s)"

definition number_saved :: "'d store_env \<Rightarrow> string \<Rightarrow> jsval \<Rightarrow> 'd \<Rightarrow> bool" where
  "number_saved E k v d \<longleftrightarrow> (\<exists>s m. ls_getItem (se_storage E) k d = Some s \<and> s \<noteq> [] \<and> to_number (JStr s) = Inr m \<and> to_number v = Inr m)"

definition saved :: "'d store_env \<Rightarrow> 'd store \<Rightarrow> bool" where
  "saved E t \<longleftrightarrow> item_saved E ''nodeid'' (st_nodeid t) (st_storage t) \<and> item_saved E ''fabricid'' (st_fabricid t) (st_storage t) \<and>
     item_saved E ''encryptionKey'' (st_encryptionKey t) (st_storage t) \<and> number_saved E ''nodenum'' (st_nodenum t) (st_storage t) \<and>
     ls_getItem (se_storage E) ''udpPort'' (st_storage t) = None"

lemma saved_put:
  assumes "storage_ok (se_storage E)" and "setItem E k' v d = Inr d'"
  shows "k \<noteq> k' \<Longrightarrow> ls_getItem (se_storage E) k d' = ls_getItem (se_storage E) k d"
    and "\<exists>s. to_text v = Inr s \<and> ls_getItem (se_storage E) k' d' = Some s"
  using assms by (auto simp: storage_ok_def setItem_def)

lemma item_saved_other:
  assumes "storage_ok (se_storage E)" and "setItem E k' w d = Inr d'" and "k \<noteq> k'"
  shows "item_saved E k v d' = item_saved E k v d" "number_saved E k v d' = number_saved E k v d"
    "ls_getItem (se_storage E) k d' = ls_getItem (se_storage E) k d"
  using saved_put(1) [OF assms(1,2), of k] assms(3) by (simp_all add: item_saved_def number_saved_def)

lemma formatHex_nonempty: "formatHex v len = Inr s \<Longrightarrow> 0 < len \<Longrightarrow> s \<noteq> []"
  by (auto simp: formatHex_def pad_zeros_eq)

lemma item_saved_same:
  assumes "storage_ok (se_storage E)" and "setItem E k (JStr s) d = Inr d'" and "s \<noteq> []"
  shows "item_saved E k (JStr s) d'"
  using saved_put(2) [OF assms(1,2)] assms(3) by (auto simp: item_saved_def)

lemma dec_string_nonempty: "dec_string k \<noteq> []"
  unfolding dec_string_def by (subst (1 2) dec_digits.simps) auto

lemma number_saved_same:
  assumes "storage_ok (se_storage E)" and "setItem E k v d = Inr d'" and "to_number v = Inr m"
    and "case v of JNum k \<Rightarrow> 0 \<le> k | JStr s \<Rightarrow> True | _ \<Rightarrow> False"
  shows "number_saved E k (JNum m) d'"
proof -
  obtain s where s: "to_text v = Inr s" "ls_getItem (se_storage E) k d' = Some s" using saved_put(2) [OF assms(1,2)] by blast
  have "s \<noteq> [] \<and> to_number (JStr s) = Inr m"
  proof (cases v)
    case (JNum k)
    with assms(3,4) s(1) show ?thesis using number_of_text [of "nat k"] dec_string_nonempty [of k] by auto
  next
    case (JStr u)
    with assms(3) s(1) show ?thesis by (auto simp: canonical_int_def)
  qed (use assms(4) in simp_all)
  with s show ?thesis by (auto simp: number_saved_def)
qed

lemmas setters = set_NodeId_def set_FabricId_def set_EncryptionKey_def set_NodeNum_def set_IpPort_def set_LogLevel_def set_TraceLevel_def
  set_DaPrivateKey_def

lemma apply_op_saved:
  assumes "storage_ok (se_storage E)" and "saved E t" and "op_ok op" and "apply_op E op t = Inr t'"
  shows "saved E t'"
proof (cases op)
  case (SetNodeNum v)
  then obtain m d1 d2 where m: "to_number v = Inr m" "setItem E ''ipPort'' (JNum (DEFAULT_PORT + m)) (st_storage t) = Inr d1"
    "setItem E ''nodenum'' v d1 = Inr d2" "t' = t\<lparr>st_nodenum := JNum m, st_ipPort := JNum (DEFAULT_PORT + m), st_storage := d2\<rparr>"
    using assms(4) by (auto simp: setters)
  have "number_saved E ''nodenum'' (JNum m) d2" using number_saved_same [OF assms(1) m(3,1)] assms(3) SetNodeNum by simp
  with m(4) assms(2) item_saved_other [OF assms(1) m(2)] item_saved_other [OF assms(1) m(3)] show ?thesis by (simp add: saved_def)
qed (use assms in \<open>auto simp: setters saved_def item_saved_other item_saved_same Let_def dest: formatHex_nonempty\<close>)

text \<open>What the levels and the device key leave alone.\<close>

definition keeps :: "'d store \<Rightarrow> 'd store \<Rightarrow> bool" where
  "keeps t t' \<longleftrightarrow> st_nodeid t' = st_nodeid t \<and> st_fabricid t' = st_fabricid t \<and> st_encryptionKey t' = st_encryptionKey t \<and>
     st_nodenum t' = st_nodenum t \<and> st_ipPort t' = st_ipPort t"

lemma set_LogLevel_total:
  assumes "storage_ok (se_storage E)" and "saved E t" and "\<exists>s. to_text v = Inr s" and "\<exists>l. to_text (st_logger t) = Inr l"
  shows "\<exists>t'. set_LogLevel E v t = Inr t' \<and> saved E t' \<and> keeps t t' \<and> st_tracer t' = st_tracer t \<and> st_traceLevel t' = st_traceLevel t"
proof -
  let ?l = "if se_levels E v then v else st_logger t"
  obtain l where "to_text ?l = Inr l" using assms(3,4) by (cases "se_levels E v") auto
  then obtain d where d: "setItem E ''logLevel'' ?l (st_storage t) = Inr d" by (simp add: setItem_def)
  then have e: "set_LogLevel E v t = Inr (t\<lparr>st_logger := ?l, st_logLevel := ?l, st_storage := d\<rparr>)"
    by (simp add: set_LogLevel_def Let_def split: if_splits)
  moreover have "saved E (t\<lparr>st_logger := ?l, st_logLevel := ?l, st_storage := d\<rparr>)"
    by (rule apply_op_saved [OF assms(1,2), of "SetLogLevel v"]) (simp_all add: e)
  ultimately show ?thesis by (simp add: keeps_def)
qed

lemma set_TraceLevel_total:
  assumes "storage_ok (se_storage E)" and "saved E t" and "\<exists>s. to_text v = Inr s" and "\<exists>l. to_text (st_tracer t) = Inr l"
  shows "\<exists>t'. set_TraceLevel E v t = Inr t' \<and> saved E t' \<and> keeps t t'"
proof -
  let ?l = "if tracer_level_ok v then v else st_tracer t"
  obtain l where "to_text ?l = Inr l" using assms(3,4) by (cases "tracer_level_ok v") auto
  then obtain d where d: "setItem E ''traceLevel'' ?l (st_storage t) = Inr d" by (simp add: setItem_def)
  then have e: "set_TraceLevel E v t = Inr (t\<lparr>st_tracer := ?l, st_traceLevel := ?l, st_storage := d\<rparr>)"
    by (simp add: set_TraceLevel_def Let_def split: if_splits)
  moreover have "saved E (t\<lparr>st_tracer := ?l, st_traceLevel := ?l, st_storage := d\<rparr>)"
    by (rule apply_op_saved [OF assms(1,2), of "SetTraceLevel v"]) (simp_all add: e)
  ultimately show ?thesis by (simp add: keeps_def)
qed

lemma set_IpPort_total:
  assumes "storage_ok (se_storage E)" and "saved E t"
  shows "\<exists>t'. set_IpPort E (JNum p) t = Inr t' \<and> saved E t' \<and> st_ipPort t' = JNum p \<and> keeps t (t'\<lparr>st_ipPort := st_ipPort t\<rparr>) \<and>
    st_logLevel t' = st_logLevel t \<and> st_traceLevel t' = st_traceLevel t \<and> st_logger t' = st_logger t \<and> st_tracer t' = st_tracer t"
proof -
  obtain d where d: "setItem E ''ipPort'' (JNum p) (st_storage t) = Inr d" by (simp add: setItem_def)
  then have e: "set_IpPort E (JNum p) t = Inr (t\<lparr>st_ipPort := JNum p, st_storage := d\<rparr>)" by (simp add: set_IpPort_def)
  then have "saved E (t\<lparr>st_ipPort := JNum p, st_storage := d\<rparr>)" using apply_op_saved [OF assms, of "SetIpPort (JNum p)"] by simp
  with e show ?thesis by (simp add: keeps_def)
qed

lemma set_device_total:
  assumes "saved E t" and "se_publicKey E TEST_DAC_PRIVKEY = Inr pk"
  shows "\<exists>t'. rbind (when_unset (st_daPrivateKey t) (set_DaPrivateKey E (hex_encode TEST_DAC_PRIVKEY)) t) (\<lambda>t.
      when_unset (st_daCertificate t) (\<lambda>t. Inr (t\<lparr>st_daCertificate := JStr (hex_encode TEST_DAC_CERTIFICATE)\<rparr>)) t) = Inr t' \<and> saved E t' \<and> keeps t t'"
  using assms by (cases "js_truthy (st_daPrivateKey t)"; cases "js_truthy (st_daCertificate t)")
    (simp_all add: when_unset_def set_DaPrivateKey_def hex_decode_encode saved_def keeps_def)

lemma saved_truthy:
  assumes "saved E t"
  shows "js_truthy (getItem E ''nodeid'' (st_storage t))" "js_truthy (getItem E ''fabricid'' (st_storage t))"
    "js_truthy (getItem E ''encryptionKey'' (st_storage t))" "js_truthy (getItem E ''nodenum'' (st_storage t))"
    "getItem E ''nodeid'' (st_storage t) = st_nodeid t" "getItem E ''fabricid'' (st_storage t) = st_fabricid t"
    "getItem E ''encryptionKey'' (st_storage t) = st_encryptionKey t" "getItem E ''udpPort'' (st_storage t) = JNull"
    "to_number (getItem E ''nodenum'' (st_storage t)) = to_number (st_nodenum t)" "\<exists>m. to_number (st_nodenum t) = Inr m"
  using assms by (auto simp: saved_def item_saved_def number_saved_def getItem_def js_truthy_def)

lemma getItem_text: "\<exists>s. to_text (if js_truthy (getItem E k d) then getItem E k d else JNum 0) = Inr s"
  "\<exists>s. (if js_truthy (getItem E k d) then getItem E k d else JStr u) = JStr s"
  by (auto simp: getItem_def js_truthy_def split: option.splits)

lemma restart_from_saved:
  assumes "storage_ok (se_storage E)" and "saved E t" and "\<exists>l. to_text lg = Inr l" and "\<exists>l. to_text tr = Inr l"
    and "se_publicKey E TEST_DAC_PRIVKEY = Inr pk" and "to_number (st_nodenum t) = Inr k"
  shows "\<exists>t'. store_init E lg tr (st_storage t) = Inr t' \<and> saved E t' \<and> st_nodeid t' = st_nodeid t \<and> st_fabricid t' = st_fabricid t \<and>
    st_encryptionKey t' = st_encryptionKey t \<and> to_number (st_nodenum t') = Inr k \<and> st_ipPort t' = JNum (DEFAULT_PORT + k)"
proof -
  note s = saved_truthy [OF assms(2)]
  define d where "d = st_storage t"
  define t0 where "t0 = \<lparr>st_storage = d, st_nodeid = getItem E ''nodeid'' d, st_fabricid = getItem E ''fabricid'' d,
      st_encryptionKey = getItem E ''encryptionKey'' d, st_nodenum = getItem E ''nodenum'' d, st_ipPort = getItem E ''udpPort'' d,
      st_logLevel = getItem E ''logLevel'' d, st_traceLevel = getItem E ''traceLevel'' d,
      st_daPrivateKey = getItem E ''daPrivateKey'' d, st_daPublicKey = getItem E ''daPublicKey'' d,
      st_daCertificat = getItem E ''daCertificate'' d, st_daCertificate = JUndef, st_logger = lg, st_tracer = tr\<rparr>"
  have t0: "saved E t0" "to_number (st_nodenum t0) = Inr k" "st_logger t0 = lg" "st_tracer t0 = tr"
    "st_nodeid t0 = st_nodeid t" "st_fabricid t0 = st_fabricid t" "st_encryptionKey t0 = st_encryptionKey t"
    using assms(2,6) s by (auto simp: t0_def d_def saved_def item_saved_def number_saved_def)
  have u: "js_truthy (st_nodeid t0)" "js_truthy (st_fabricid t0)" "js_truthy (st_encryptionKey t0)" "js_truthy (st_nodenum t0)" "\<not> js_truthy (st_ipPort t0)"
    using s by (simp_all add: t0_def d_def js_truthy_def)
  obtain t1 where t1: "set_IpPort E (JNum (DEFAULT_PORT + k)) t0 = Inr t1" "saved E t1" "st_ipPort t1 = JNum (DEFAULT_PORT + k)"
    "keeps t0 (t1\<lparr>st_ipPort := st_ipPort t0\<rparr>)" "st_logLevel t1 = getItem E ''logLevel'' d" "st_traceLevel t1 = getItem E ''traceLevel'' d"
    "st_logger t1 = lg" "st_tracer t1 = tr"
    using set_IpPort_total [OF assms(1) t0(1), of "DEFAULT_PORT + k"] by (auto simp: t0_def)
  let ?l = "if js_truthy (st_logLevel t1) then st_logLevel t1 else JStr (js_string ''info'')"
  have l: "\<exists>s. to_text ?l = Inr s" "\<exists>s. to_text (st_logger t1) = Inr s"
    using getItem_text(2) [of E "''logLevel''" d] assms(3) by (auto simp: t1(5,7))
  obtain t2 where t2: "set_LogLevel E ?l t1 = Inr t2" "saved E t2" "keeps t1 t2" "st_tracer t2 = tr" "st_traceLevel t2 = getItem E ''traceLevel'' d"
    using set_LogLevel_total [OF assms(1) t1(2) l] t1(6,8) by metis
  let ?r = "if js_truthy (st_traceLevel t2) then st_traceLevel t2 else JNum 0"
  have r: "\<exists>s. to_text ?r = Inr s" "\<exists>s. to_text (st_tracer t2) = Inr s"
    using getItem_text(1) [of E "''traceLevel''" d] assms(4) by (auto simp: t2(4,5))
  obtain t3 where t3: "set_TraceLevel E ?r t2 = Inr t3" "saved E t3" "keeps t2 t3"
    using set_TraceLevel_total [OF assms(1) t2(2) r] by blast
  obtain t4 where t4: "rbind (when_unset (st_daPrivateKey t3) (set_DaPrivateKey E (hex_encode TEST_DAC_PRIVKEY)) t3) (\<lambda>t.
      when_unset (st_daCertificate t) (\<lambda>t. Inr (t\<lparr>st_daCertificate := JStr (hex_encode TEST_DAC_CERTIFICATE)\<rparr>)) t) = Inr t4" "saved E t4" "keeps t3 t4"
    using set_device_total [OF t3(2) assms(5)] by blast
  have w: "when_unset v f x = Inr x" if "js_truthy v" for v f and x :: "'a store" using that by (simp add: when_unset_def)
  have "store_init E lg tr (st_storage t) = setDefaults E t0" by (simp add: store_init_def t0_def d_def)
  also have "\<dots> = Inr t4"
    using t1(1) t2(1) t3(1) t4(1) t0(2) u by (simp add: setDefaults_def w when_unset_def [of "st_ipPort t0"] del: rbind_eq_Inr)
  finally show ?thesis
    using t4(2,3) t3(3) t2(3) t1(3,4) t0 by (auto simp: keeps_def)
qed

text \<open>
  What a restart keeps: after any changes to a saved store, opening its storage again
  gives the node id, the fabric id, the encryption key and the node number back. The port is not
  kept: whatever it was set to, it is the default port plus the node number again.
\<close>

theorem store_restart:
  assumes "storage_ok (se_storage E)" and "saved E t0" and "list_all op_ok ops" and "rfold (apply_op E) ops t0 = Inr t"
    and "\<exists>l. to_text lg = Inr l" and "\<exists>l. to_text tr = Inr l" and "se_publicKey E TEST_DAC_PRIVKEY = Inr pk"
  shows "\<exists>t' k. store_init E lg tr (st_storage t) = Inr t' \<and> st_nodeid t' = st_nodeid t \<and> st_fabricid t' = st_fabricid t \<and>
    st_encryptionKey t' = st_encryptionKey t \<and> to_number (st_nodenum t) = Inr k \<and> to_number (st_nodenum t') = Inr k \<and>
    st_ipPort t' = JNum (DEFAULT_PORT + k)"
proof -
  have "saved E t"
    using assms(2-4) apply_op_saved [OF assms(1)] by (induction ops arbitrary: t0) (auto simp del: op_ok.simps)
  moreover from this obtain k where "to_number (st_nodenum t) = Inr k" using saved_truthy(10) by blast
  ultimately show ?thesis using restart_from_saved [OF assms(1) _ assms(5,6,7)] by blast
qed

definition demo_env :: "(string \<rightharpoonup> 16 word list) store_env" where
  "demo_env = \<lparr>se_storage = \<lparr>ls_getItem = (\<lambda>k d. d k), ls_setItem = (\<lambda>k v d. d(k \<mapsto> v))\<rparr>, se_levels = (\<lambda>v. True),
     se_publicKey = Inr, se_random = replicate 8 7\<rparr>"

definition demo_storage :: "string \<rightharpoonup> 16 word list" where
  "demo_storage = [''nodeid'' \<mapsto> js_string ''00aa'', ''fabricid'' \<mapsto> js_string ''00bb'', ''encryptionKey'' \<mapsto> js_string ''00cc'', ''nodenum'' \<mapsto> js_string ''2'']"

definition demo_store :: "(string \<rightharpoonup> 16 word list) store" where
  "demo_store = \<lparr>st_storage = demo_storage, st_nodeid = JStr (js_string ''00aa''), st_fabricid = JStr (js_string ''00bb''),
     st_encryptionKey = JStr (js_string ''00cc''), st_nodenum = JNum 2, st_ipPort = JNum 5542, st_logLevel = JNull, st_traceLevel = JNull,
     st_daPrivateKey = JNull, st_daPublicKey = JNull, st_daCertificat = JNull, st_daCertificate = JUndef, st_logger = JStr [], st_tracer = JNum 1\<rparr>"

lemma demo_saved: "storage_ok (se_storage demo_env)" "saved demo_env demo_store"
  by (simp_all add: storage_ok_def demo_env_def saved_def item_saved_def number_saved_def demo_store_def demo_storage_def js_string_def
      canonical_int_def canonical_nat_def)

text \<open>The port 9999 is back at 5542 after a restart of node 2.\<close>

theorem store_restart_witness:
  "\<exists>t t'. set_IpPort demo_env (JNum 9999) demo_store = Inr t \<and> st_ipPort t = JNum 9999 \<and>
     store_init demo_env (JStr []) (JNum 1) (st_storage t) = Inr t' \<and> st_nodeid t' = JStr (js_string ''00aa'') \<and> st_ipPort t' = JNum 5542"
proof -
  obtain t where t: "set_IpPort demo_env (JNum 9999) demo_store = Inr t" "st_ipPort t = JNum 9999" "st_nodenum t = JNum 2" "st_nodeid t = JStr (js_string ''00aa'')"
    by (simp add: set_IpPort_def setItem_def demo_store_def)
  then have "rfold (apply_op demo_env) [SetIpPort (JNum 9999)] demo_store = Inr t" by simp
  from store_restart [OF demo_saved _ this, of "JStr []" "JNum 1" TEST_DAC_PRIVKEY] t show ?thesis
    by (auto simp: demo_env_def DEFAULT_PORT_def)
qed

end
