(* ===== verification/Json_Text.thy ===== *)
theory Json_Text
  imports Persistent_Store
begin

text \<open>
  \<open>JSON.stringify\<close> and \<open>JSON.parse\<close> as the \<open>tlv\<close> command uses them, on the values of
  \<open>Js_Value\<close>: the text of a document, with or without indentation, and its parser. A document
  without octet strings and fractions is parsed back from its text.
\<close>

section \<open>The text of a value\<close>

definition option_list :: "'a option \<Rightarrow> 'a list" where
  "option_list v = (case v of None \<Rightarrow> [] | Some x \<Rightarrow> [x])"

text \<open>The characters of a string: escapes for quotes, backslashes, controls and unpaired surrogates.\<close>

definition short_escapes :: "(16 word \<times> 16 word) list" where
  "short_escapes = [(34, 34), (92, 92), (8, 98), (12, 102), (10, 110), (13, 114), (9, 116)]"

definition json_hex :: "16 word \<Rightarrow> 16 word list" where
  "json_hex c = [92, 117, hex_char (uint c div 4096), hex_char (uint c div 256 mod 16), hex_char (uint c div 16 mod 16), hex_char (uint c mod 16)]"

definition json_unit :: "16 word \<Rightarrow> 16 word list" where
  "json_unit c = (case map_of short_escapes c of
      Some e \<Rightarrow> [92, e]
    | None \<Rightarrow> if uint c < 32 \<or> is_high_surrogate (uint c) \<or> is_low_surrogate (uint c) then json_hex c else [c])"

fun json_units :: "16 word list \<Rightarrow> 16 word list" where
  "json_units [] = []"
| "json_units [c] = json_unit c"
| "json_units (c # d # cs) =
     (if is_high_surrogate (uint c) \<and> is_low_surrogate (uint d) then c # d # json_units cs else json_unit c @ json_units (d # cs))"

definition json_quote :: "16 word list \<Rightarrow> 16 word list" where
  "json_quote s = 34 # json_units s @ [34]"

text \<open>
  The items of an array or an object: on one line without a gap, otherwise each on its own line,
  indented by one gap more than the brackets.
\<close>

definition json_newline :: "16 word list \<Rightarrow> 16 word list \<Rightarrow> 16 word list" where
  "json_newline gap indent = (if gap = [] then [] else 10 # indent)"

definition json_block :: "16 word \<Rightarrow> 16 word \<Rightarrow> 16 word list \<Rightarrow> 16 word list \<Rightarrow> 16 word list list \<Rightarrow> 16 word list" where
  "json_block open close gap indent items =
     (if items = [] then [open, close]
      else open # json_newline gap (indent @ gap) @ js_join (44 # json_newline gap (indent @ gap)) items @ json_newline gap indent @ [close])"

definition json_member :: "16 word list \<Rightarrow> string \<Rightarrow> 16 word list \<Rightarrow> 16 word list" where
  "json_member gap key text = json_quote (js_string key) @ 58 # (if gap = [] then [] else [32]) @ text"

text \<open>A property that is \<open>undefined\<close> is left out; in an array it is \<open>null\<close>.\<close>

fun json_text :: "16 word list \<Rightarrow> 16 word list \<Rightarrow> jsval \<Rightarrow> 16 word list" where
  "json_text gap indent (JBool b) = js_string (if b then ''true'' else ''false'')"
| "json_text gap indent (JNum k) = dec_string k"
| "json_text gap indent (JStr s) = json_quote s"
| "json_text gap indent (JBuf b) = json_block 123 125 gap indent
     [json_member gap ''type'' (json_quote (js_string ''Buffer'')),
      json_member gap ''data'' (json_block 91 93 gap (indent @ gap) (map (\<lambda>x. dec_string (uint x)) b))]"
| "json_text gap indent (JArr xs) = json_block 91 93 gap indent (map (json_text gap (indent @ gap)) xs)"
| "json_text gap indent (JObj p t ty v n) = json_block 123 125 gap indent
     (map (\<lambda>k. json_member gap ''profile'' (dec_string k)) (option_list p) @ map (\<lambda>k. json_member gap ''tag'' (dec_string k)) (option_list t) @
      map (\<lambda>s. json_member gap ''type'' (json_quote (js_string s))) (option_list ty) @
      (if v = JUndef then [] else [json_member gap ''value'' (json_text gap (indent @ gap) v)]) @
      map (\<lambda>s. json_member gap ''name'' (json_quote (js_string s))) (option_list n))"
| "json_text gap indent _ = js_string ''null''"

text \<open>
  \<open>JSON.stringify(v, null, width)\<close>: a BigInt throws; fractions are not modelled. The gap has at
  most ten spaces.
\<close>

fun has_fraction :: "jsval \<Rightarrow> bool" where
  "has_fraction (JDbl p) = True"
| "has_fraction (JArr xs) = list_ex has_fraction xs"
| "has_fraction (JObj p t ty v n) = has_fraction v"
| "has_fraction _ = False"

definition stringify :: "int \<Rightarrow> jsval \<Rightarrow> 16 word list result" where
  "stringify width v = rbind (json_stringify v) (\<lambda>_.
     if has_fraction v then Inl Unmodelled else Inr (json_text (replicate (nat (min 10 width)) 32) [] v))"

section \<open>The parser\<close>

abbreviation syntax_error :: "'a result" where
  "syntax_error \<equiv> Inl (Thrown ''SyntaxError'')"

definition json_skip :: "16 word list \<Rightarrow> 16 word list" where
  "json_skip = dropWhile (\<lambda>u. u \<in> {9, 10, 13, 32})"

definition json_starts :: "16 word \<Rightarrow> 16 word list \<Rightarrow> bool" where
  "json_starts u s \<longleftrightarrow> json_skip s \<noteq> [] \<and> hd (json_skip s) = u"

definition long_escapes :: "(16 word \<times> 16 word) list" where
  "long_escapes = [(34, 34), (92, 92), (47, 47), (98, 8), (102, 12), (110, 10), (114, 13), (116, 9)]"

definition hex_unit :: "16 word \<Rightarrow> 16 word \<Rightarrow> 16 word \<Rightarrow> 16 word \<Rightarrow> 16 word result" where
  "hex_unit a b c d = (case (hex_digit a, hex_digit b, hex_digit c, hex_digit d) of
      (Some x, Some y, Some z, Some w) \<Rightarrow> Inr (word_of_int (4096 * x + 256 * y + 16 * z + w)) | _ \<Rightarrow> syntax_error)"

text \<open>The rest of a string, up to the closing quote.\<close>

fun json_chars :: "16 word list \<Rightarrow> (16 word list \<times> 16 word list) result" where
  "json_chars [] = syntax_error"
| "json_chars (u # us) =
     (if u = 34 then Inr ([], us)
      else if u = 92 then (case us of
          [] \<Rightarrow> syntax_error
        | e # us \<Rightarrow>
            if e = 117 then (case us of a # b # c # d # us \<Rightarrow> rbind (hex_unit a b c d) (\<lambda>w. rmap (apfst (Cons w)) (json_chars us)) | _ \<Rightarrow> syntax_error)
            else (case map_of long_escapes e of None \<Rightarrow> syntax_error | Some w \<Rightarrow> rmap (apfst (Cons w)) (json_chars us)))
      else if uint u < 32 then syntax_error
      else rmap (apfst (Cons u)) (json_chars us))"

text \<open>A literal or a number; a fraction, an exponent, \<open>-0\<close> and what a double cannot hold are not modelled.\<close>

definition is_digit :: "16 word \<Rightarrow> bool" where
  "is_digit u \<longleftrightarrow> 48 \<le> uint u \<and> uint u \<le> 57"

definition json_number :: "16 word list \<Rightarrow> (jsval \<times> 16 word list) result" where
  "json_number s =
     (let sign = (if s \<noteq> [] \<and> hd s = 45 then [45] else []);
          body = drop (length sign) s;
          digits = takeWhile is_digit body;
          rest = dropWhile is_digit body
      in if digits = [] then syntax_error
         else if (rest \<noteq> [] \<and> hd rest \<in> {46, 69, 101}) \<or> (sign \<noteq> [] \<and> digits = [48]) then Inl Unmodelled
         else (case canonical_int (sign @ digits) of
             None \<Rightarrow> syntax_error
           | Some k \<Rightarrow> if \<bar>k\<bar> < 2 ^ 53 then Inr (JNum k, rest) else Inl Unmodelled))"

definition json_word :: "16 word list \<Rightarrow> (jsval \<times> 16 word list) result" where
  "json_word s =
     (if take 4 s = js_string ''true'' then Inr (JBool True, drop 4 s)
      else if take 5 s = js_string ''false'' then Inr (JBool False, drop 5 s)
      else if take 4 s = js_string ''null'' then Inr (JNull, drop 4 s)
      else json_number s)"

text \<open>An object of the document interface; of a name given twice the last value counts.\<close>

definition json_field :: "string \<Rightarrow> (16 word list \<times> jsval) list \<Rightarrow> jsval" where
  "json_field name ms = (case map_of (rev ms) (js_string name) of None \<Rightarrow> JUndef | Some v \<Rightarrow> v)"

fun number_field :: "jsval \<Rightarrow> int option result" where
  "number_field JUndef = Inr None"
| "number_field (JNum k) = Inr (Some k)"
| "number_field _ = Inl Unmodelled"

fun name_field :: "jsval \<Rightarrow> string option result" where
  "name_field JUndef = Inr None"
| "name_field (JStr s) = (if is_ascii s then Inr (Some (map (\<lambda>u. char_of (unat u)) s)) else Inl Unmodelled)"
| "name_field _ = Inl Unmodelled"

definition json_object :: "(16 word list \<times> jsval) list \<Rightarrow> jsval result" where
  "json_object ms =
     (if \<not> list_all (\<lambda>(k, v). k \<in> set (map js_string [''profile'', ''tag'', ''type'', ''value'', ''name''])) ms then Inl Unmodelled
      else rbind (number_field (json_field ''profile'' ms)) (\<lambda>p. rbind (number_field (json_field ''tag'' ms)) (\<lambda>t.
           rbind (name_field (json_field ''type'' ms)) (\<lambda>ty. rbind (name_field (json_field ''name'' ms)) (\<lambda>n.
             Inr (JObj p t ty (json_field ''value'' ms) n))))))"

definition json_key :: "16 word list \<Rightarrow> (16 word list \<times> 16 word list) result" where
  "json_key s = (if \<not> json_starts 34 s then syntax_error
     else rbind (json_chars (tl (json_skip s))) (\<lambda>(k, r). if json_starts 58 r then Inr (k, tl (json_skip r)) else syntax_error))"

lemma length_json_skip: "length (json_skip s) \<le> length s"
  by (simp add: json_skip_def length_dropWhile_le)

text \<open>
  Values, the items of an array after its bracket, the members of an object after its brace. What is
  left after an item or a member is shorter than before it, so that the comparisons of lengths hold.
\<close>

function json_value :: "16 word list \<Rightarrow> (jsval \<times> 16 word list) result"
  and json_items :: "16 word list \<Rightarrow> (jsval list \<times> 16 word list) result"
  and json_members :: "16 word list \<Rightarrow> ((16 word list \<times> jsval) list \<times> 16 word list) result" where
  "json_value s = (case json_skip s of
      [] \<Rightarrow> syntax_error
    | c # r \<Rightarrow>
        if c = 91 then (if json_starts 93 r then Inr (JArr [], tl (json_skip r)) else rmap (apfst JArr) (json_items r))
        else if c = 123 then rbind (if json_starts 125 r then Inr ([], tl (json_skip r)) else json_members r) (\<lambda>(ms, r).
            rmap (\<lambda>v. (v, r)) (json_object ms))
        else if c = 34 then rmap (apfst JStr) (json_chars r)
        else json_word (c # r))"
| "json_items s = rbind (json_value s) (\<lambda>(v, r). case json_skip r of
      [] \<Rightarrow> syntax_error
    | c # r \<Rightarrow> if c = 93 then Inr ([v], r)
              else if c = 44 \<and> length r < length s then rmap (apfst (Cons v)) (json_items r) else syntax_error)"
| "json_members s = rbind (json_key s) (\<lambda>(k, r). if length r < length s then
      rbind (json_value r) (\<lambda>(v, r). case json_skip r of
          [] \<Rightarrow> syntax_error
        | c # r \<Rightarrow> if c = 125 then Inr ([(k, v)], r)
                  else if c = 44 \<and> length r < length s then rmap (apfst (Cons (k, v))) (json_members r) else syntax_error)
    else syntax_error)"
  by pat_completeness auto
termination
proof (relation "measure (\<lambda>x. case x of Inl s \<Rightarrow> 2 * length s | Inr (Inl s) \<Rightarrow> 2 * length s + 1 | Inr (Inr s) \<Rightarrow> 2 * length s + 1)", goal_cases)
  case 1 then show ?case by simp
next
  case (2 s c r) then show ?case using length_json_skip [of s] by simp
next
  case (3 s c r) then show ?case using length_json_skip [of s] by simp
qed auto

declare json_value.simps [simp del] json_items.simps [simp del] json_members.simps [simp del]

definition json_parse :: "16 word list \<Rightarrow> jsval result" where
  "json_parse s = rbind (json_value s) (\<lambda>(v, r). if json_skip r = [] then Inr v else syntax_error)"

section \<open>Parsing what was printed\<close>

text \<open>Strings.\<close>

lemma unit_16: "0 \<le> uint (c :: 16 word) \<and> uint c < 65536"
  using uint_lt2p [of c] by simp

lemma nibbles: "c = 16 * a + r0 \<Longrightarrow> a = 16 * b + r1 \<Longrightarrow> b = 16 * d + r2 \<Longrightarrow> 4096 * d + 256 * r2 + 16 * r1 + r0 = (c :: int)"
  by simp

lemma div_nibbles: "(c :: int) div 256 = c div 16 div 16" "c div 4096 = c div 256 div 16"
  using zdiv_zmult2_eq [of 16 c 16] zdiv_zmult2_eq [of 16 c 256] by simp_all

lemma nibbles_of: "4096 * (c div 4096) + 256 * (c div 256 mod 16) + 16 * (c div 16 mod 16) + c mod 16 = (c :: int)"
  by (rule nibbles [where a = "c div 16" and b = "c div 256"]) (simp_all only: div_nibbles mult_div_mod_eq)

lemma first_nibble: "0 \<le> uint (c :: 16 word) div 4096" "uint (c :: 16 word) div 4096 < 16"
  using unit_16 [of c] pos_imp_zdiv_nonneg_iff [of 4096 "uint c"] zdiv_mono1 [of "uint c" 65535 4096] by simp_all

lemma hex_unit_of: "hex_unit (hex_char (uint c div 4096)) (hex_char (uint c div 256 mod 16)) (hex_char (uint c div 16 mod 16)) (hex_char (uint c mod 16)) = Inr c"
proof -
  have "hex_digit (hex_char (uint c div 4096)) = Some (uint c div 4096)" by (intro hex_digit_char first_nibble)
  moreover have "hex_digit (hex_char (k mod 16)) = Some (k mod 16)" for k by (intro hex_digit_char) simp_all
  ultimately show ?thesis by (simp only: hex_unit_def option.case prod.case nibbles_of word_of_int_uint)
qed

lemma json_chars_unit: "json_chars (json_unit c @ r) = rmap (apfst (Cons c)) (json_chars r)"
proof (cases "map_of short_escapes c")
  case None
  then have "c \<noteq> 34" "c \<noteq> 92" by (auto simp: short_escapes_def)
  with None show ?thesis by (simp add: json_unit_def json_hex_def hex_unit_of)
next
  case (Some e)
  then have "(c, e) \<in> set short_escapes" by (rule map_of_SomeD)
  with Some show ?thesis by (auto simp: json_unit_def short_escapes_def long_escapes_def)
qed

lemma json_chars_plain: "is_high_surrogate (uint c) \<or> is_low_surrogate (uint c) \<Longrightarrow> json_chars (c # r) = rmap (apfst (Cons c)) (json_chars r)"
  by (auto simp: is_high_surrogate_def is_low_surrogate_def)

lemma json_chars_units: "json_chars (json_units s @ 34 # r) = Inr (s, r)"
proof (induction s rule: json_units.induct)
  case (3 c d cs)
  then show ?case
    by (cases "is_high_surrogate (uint c) \<and> is_low_surrogate (uint d)") (auto simp add: json_chars_unit json_chars_plain simp del: json_chars.simps(2))
qed (simp_all add: json_chars_unit)

lemma json_quote_chars: "json_quote s @ r = 34 # json_units s @ 34 # r"
  by (simp add: json_quote_def)

text \<open>Numbers.\<close>

text \<open>What may follow a value: nothing, white space, a comma or a closing bracket.\<close>

definition blank :: "16 word list \<Rightarrow> bool" where
  "blank s \<longleftrightarrow> set s \<subseteq> {9, 10, 13, 32}"

definition value_ends :: "16 word list \<Rightarrow> bool" where
  "value_ends s \<longleftrightarrow> s = [] \<or> hd s \<in> {9, 10, 13, 32, 44, 93, 125}"

lemma dec_digits_digits: "u \<in> set (dec_digits n) \<Longrightarrow> is_digit u"
proof (induction n rule: dec_digits.induct)
  case (1 n)
  have "is_digit (word_of_nat (48 + n mod 10))" using digit_unit [of "n mod 10"] by (simp add: is_digit_def del: of_nat_add)
  moreover have "n < 10 \<Longrightarrow> is_digit (word_of_nat (48 + n))" using digit_unit [of n] by (simp add: is_digit_def del: of_nat_add)
  ultimately show ?case using 1 by (cases "n < 10") (auto simp: dec_digits_step)
qed

lemma dec_digits_take:
  assumes "value_ends r"
  shows "takeWhile is_digit (dec_digits n @ r) = dec_digits n" "dropWhile is_digit (dec_digits n @ r) = r"
proof -
  have "\<forall>u \<in> set (dec_digits n). is_digit u" by (simp add: dec_digits_digits)
  moreover have "takeWhile is_digit r = []" "dropWhile is_digit r = r"
    using assms by (cases r; auto simp: value_ends_def is_digit_def)+
  ultimately show "takeWhile is_digit (dec_digits n @ r) = dec_digits n" "dropWhile is_digit (dec_digits n @ r) = r"
    by (simp_all add: takeWhile_append2 dropWhile_append2)
qed

lemma canonical_dec: "canonical_int (dec_string k) = Some k"
proof (cases "0 \<le> k")
  case True
  then show ?thesis using number_of_text [of "nat k"] by (simp split: option.splits)
next
  case False
  define m where "m = nat (- k)"
  have m: "0 < m" "k = - int m" using False by (simp_all add: m_def)
  obtain c cs where c: "dec_digits m = c # cs" "uint c \<noteq> 48" using dec_digits_head [OF m(1)] by blast
  have "canonical_nat (dec_digits m) = Some (int m)" using c dec_digits_val [of m] by (simp add: canonical_nat_def)
  then show ?thesis using m by (simp add: dec_string_def canonical_int_def)
qed

lemma dec_digits_nonempty: "dec_digits n \<noteq> []"
  by (cases "n < 10") (simp_all add: dec_digits_step)

lemma json_number_dec:
  assumes "\<bar>k\<bar> < 2 ^ 53" and "value_ends r"
  shows "json_number (dec_string k @ r) = Inr (JNum k, r)"
proof -
  define m where "m = nat \<bar>k\<bar>"
  let ?sign = "if k < 0 then [45] else [] :: 16 word list"
  have d: "dec_string k = ?sign @ dec_digits m" by (auto simp: dec_string_def m_def)
  have h: "hd (dec_digits m) \<noteq> 45" using dec_digits_digits [of "hd (dec_digits m)" m] dec_digits_nonempty [of m] by (auto simp: is_digit_def)
  have z: "k < 0 \<Longrightarrow> dec_digits m \<noteq> [48]" using dec_digits_head [of m] by (auto simp: m_def)
  have e: "r \<noteq> [] \<longrightarrow> hd r \<notin> {46, 69, 101}" using assms(2) by (auto simp: value_ends_def)
  have s: "(if dec_string k @ r \<noteq> [] \<and> hd (dec_string k @ r) = 45 then [45] else []) = ?sign"
    using h dec_digits_nonempty [of m] by (auto simp: d)
  have "drop (length ?sign) (dec_string k @ r) = dec_digits m @ r" by (simp add: d)
  then show ?thesis
    using assms(1) z e canonical_dec [of k] dec_digits_nonempty [of m] unfolding json_number_def s Let_def
    by (auto simp: dec_digits_take [OF assms(2)] simp flip: d)
qed

text \<open>White space.\<close>

lemma json_skip_blank [simp]: "blank w \<Longrightarrow> json_skip (w @ s) = json_skip s"
  by (simp add: json_skip_def blank_def dropWhile_append2 subset_iff)

lemma json_skip_stop [simp]: "u \<notin> {9, 10, 13, 32} \<Longrightarrow> json_skip (u # s) = u # s"
  by (simp add: json_skip_def)

lemma json_value_blank: "blank w \<Longrightarrow> json_value (w @ s) = json_value s"
  by (simp add: json_value.simps)

lemma blank_newline: "blank gap \<Longrightarrow> blank indent \<Longrightarrow> blank (json_newline gap indent)"
  by (simp add: blank_def json_newline_def)

lemma blank_append [simp]: "blank (a @ b) \<longleftrightarrow> blank a \<and> blank b"
  by (simp add: blank_def)

text \<open>How the text of a value begins.\<close>

definition opens :: "16 word list \<Rightarrow> bool" where
  "opens s \<longleftrightarrow> s \<noteq> [] \<and> hd s \<notin> {9, 10, 13, 32, 93, 125}"

lemma opens_append: "opens s \<Longrightarrow> opens (s @ r)"
  by (simp add: opens_def)

lemma opens_skip: "opens s \<Longrightarrow> json_skip s = s"
  by (cases s) (auto simp: opens_def json_skip_def)

lemma dec_string_opens: "opens (dec_string k)" "hd (dec_string k) \<notin> {34, 91, 102, 110, 116, 123}"
proof -
  have "hd (dec_string k) = 45 \<or> is_digit (hd (dec_string k))"
    using dec_digits_digits [OF hd_in_set [OF dec_digits_nonempty [of "nat k"]]] by (auto simp: dec_string_def)
  then show "opens (dec_string k)" "hd (dec_string k) \<notin> {34, 91, 102, 110, 116, 123}"
    using dec_string_nonempty [of k] by (auto simp: opens_def is_digit_def)
qed

text \<open>Arrays.\<close>

definition reads_back :: "(jsval \<Rightarrow> 16 word list) \<Rightarrow> jsval \<Rightarrow> bool" where
  "reads_back f v \<longleftrightarrow> opens (f v) \<and> (\<forall>r. value_ends r \<longrightarrow> json_value (f v @ r) = Inr (v, r))"

lemma json_skip_ends: "blank w \<Longrightarrow> u \<in> {44, 93, 125} \<Longrightarrow> json_skip (w @ u # r) = u # r"
  by (auto simp: json_skip_def blank_def dropWhile_append2 subset_iff)

lemma value_ends_blank: "blank w \<Longrightarrow> u \<in> {44, 93, 125} \<Longrightarrow> value_ends (w @ u # r)"
  by (cases w) (auto simp: value_ends_def blank_def)

lemma json_items_join:
  assumes "xs \<noteq> []" and "list_all (reads_back f) xs" and "blank nl" and "blank nl'"
  shows "json_items (nl @ js_join (44 # nl) (map f xs) @ nl' @ 93 # r) = Inr (xs, r)"
  using assms(1,2)
proof (induction xs rule: list_nonempty_induct)
  case (single x)
  with assms(4) have "json_value (f x @ nl' @ 93 # r) = Inr (x, nl' @ 93 # r)" by (simp add: reads_back_def value_ends_blank)
  with assms show ?case by (simp add: json_items.simps [of "nl @ _"] json_value_blank json_skip_ends)
next
  case (cons x xs)
  let ?r = "nl @ js_join (44 # nl) (map f xs) @ nl' @ 93 # r"
  have i: "json_items ?r = Inr (xs, r)" using cons by simp
  have v: "json_value (f x @ 44 # ?r) = Inr (x, 44 # ?r)" using cons.prems by (simp add: reads_back_def value_ends_def)
  have t: "nl @ js_join (44 # nl) (map f (x # xs)) @ nl' @ 93 # r = nl @ f x @ 44 # ?r" using cons.hyps by (simp add: js_join_Cons)
  have l: "length ?r < length (nl @ f x @ 44 # ?r)" by simp
  show ?case
    unfolding t json_items.simps [of "nl @ f x @ 44 # ?r"] json_value_blank [OF assms(3)] v using i l by (simp del: length_append)
qed

lemma reads_back_array:
  assumes "list_all (reads_back f) xs" and "blank gap" and "blank indent" and "v = JArr xs"
    and "g v = json_block 91 93 gap indent (map f xs)"
  shows "reads_back g v"
proof (cases "xs = []")
  case True
  with assms(4,5) show ?thesis
    by (simp add: reads_back_def opens_def json_block_def json_value.simps json_starts_def json_skip_def)
next
  case False
  then obtain x ys where x: "xs = x # ys" by (cases xs) auto
  let ?nl = "json_newline gap (indent @ gap)" and ?nl' = "json_newline gap indent"
  have b: "blank ?nl" "blank ?nl'" using assms(2,3) by (simp_all add: blank_newline)
  have "json_value (91 # ?nl @ js_join (44 # ?nl) (map f xs) @ ?nl' @ 93 # r) = Inr (JArr xs, r)" for r
  proof -
    let ?t = "js_join (44 # ?nl) (map f xs) @ ?nl' @ 93 # r"
    have "opens (f x)" using assms(1) x by (simp add: reads_back_def)
    then have "opens ?t" using x by (cases ys) (simp_all add: opens_append)
    then have "\<not> json_starts 93 (?nl @ ?t)" using b by (simp add: json_starts_def opens_skip) (simp add: opens_def)
    with json_items_join [OF False assms(1) b] show ?thesis by (simp add: json_value.simps json_skip_def)
  qed
  with assms(4,5) False show ?thesis by (simp add: reads_back_def opens_def json_block_def)
qed

text \<open>Objects.\<close>

lemma json_key_member:
  assumes "blank nl"
  shows "json_key (nl @ json_member gap k s @ r) = Inr (js_string k, (if gap = [] then [] else [32]) @ s @ r)"
proof -
  have "json_skip (json_quote (js_string k) @ q) = json_quote (js_string k) @ q" for q by (simp add: json_quote_def json_skip_def)
  then show ?thesis
    using assms by (simp add: json_key_def json_member_def json_starts_def json_quote_chars json_chars_units)
qed

lemma member_value:
  assumes "reads_back f v" and "value_ends r"
  shows "json_value ((if gap = [] then [] else [32]) @ f v @ r) = Inr (v, r)"
proof -
  have "blank (if gap = [] then [] else [32])" by (simp add: blank_def)
  from json_value_blank [OF this] show ?thesis using assms by (simp add: reads_back_def)
qed

lemma length_member: "length ((if gap = [] then [] else [32]) @ s @ r) < length (nl @ json_member gap k s @ r)"
  by (simp add: json_member_def json_quote_def)

lemma json_members_join:
  assumes "ms \<noteq> []" and "list_all (\<lambda>(k, v). reads_back f v) ms" and "blank nl" and "blank nl'"
  shows "json_members (nl @ js_join (44 # nl) (map (\<lambda>(k, v). json_member gap k (f v)) ms) @ nl' @ 125 # r) = Inr (map (apfst js_string) ms, r)"
  using assms(1,2)
proof (induction ms rule: list_nonempty_induct)
  case (single m)
  obtain k v where m: "m = (k, v)" by (cases m)
  have e: "value_ends (nl' @ 125 # r)" using assms(4) by (simp add: value_ends_blank)
  have f: "reads_back f v" using single m by simp
  show ?case
    using m assms(3,4) json_key_member [OF assms(3), of gap k "f v" "nl' @ 125 # r"] member_value [OF f e, of gap]
      length_member [of gap "f v" "nl' @ 125 # r" nl k]
    by (simp add: json_members.simps [of "nl @ _"] json_skip_ends del: length_append)
next
  case (cons m ms)
  obtain k v where m: "m = (k, v)" by (cases m)
  let ?r = "nl @ js_join (44 # nl) (map (\<lambda>(k, v). json_member gap k (f v)) ms) @ nl' @ 125 # r"
  have i: "json_members ?r = Inr (map (apfst js_string) ms, r)" using cons by simp
  have e: "value_ends (44 # ?r)" by (simp add: value_ends_def)
  have f: "reads_back f v" using cons.prems m by simp
  have t: "nl @ js_join (44 # nl) (map (\<lambda>(k, v). json_member gap k (f v)) (m # ms)) @ nl' @ 125 # r = nl @ json_member gap k (f v) @ 44 # ?r"
    using m cons.hyps by (simp add: js_join_Cons)
  have l: "length ?r < length (nl @ json_member gap k (f v) @ 44 # ?r)" by simp
  show ?case
    unfolding t json_members.simps [of "nl @ json_member gap k (f v) @ 44 # ?r"] json_key_member [OF assms(3)]
    using length_member [of gap "f v" "44 # ?r" nl k] member_value [OF f e, of gap] l i m by (simp del: length_append)
qed

definition obj_members :: "int option \<Rightarrow> int option \<Rightarrow> string option \<Rightarrow> jsval \<Rightarrow> string option \<Rightarrow> (string \<times> jsval) list" where
  "obj_members p t ty v n = map (\<lambda>k. (''profile'', JNum k)) (option_list p) @ map (\<lambda>k. (''tag'', JNum k)) (option_list t) @
     map (\<lambda>s. (''type'', JStr (js_string s))) (option_list ty) @ (if v = JUndef then [] else [(''value'', v)]) @
     map (\<lambda>s. (''name'', JStr (js_string s))) (option_list n)"

lemma json_text_members:
  "json_text gap indent (JObj p t ty v n) =
     json_block 123 125 gap indent (map (\<lambda>(k, x). json_member gap k (json_text gap (indent @ gap) x)) (obj_members p t ty v n))"
  by (simp add: obj_members_def comp_def)

definition plain_name :: "string option \<Rightarrow> bool" where
  "plain_name s \<longleftrightarrow> (\<forall>t. s = Some t \<longrightarrow> (\<forall>c \<in> set t. of_char c < (128 :: nat)))"

lemma js_string_unit: "of_char c < (128 :: nat) \<Longrightarrow> unat (word_of_nat (of_char c) :: 16 word) = of_char c"
  by (subst unsigned_of_nat) (simp add: take_bit_nat_eq_self del: of_char_of)

lemma js_string_ascii:
  assumes "\<forall>c \<in> set s. of_char c < (128 :: nat)"
  shows "is_ascii (js_string s)" "map (\<lambda>u. char_of (unat u)) (js_string s) = s"
proof -
  have u: "unat (word_of_nat (of_char c) :: 16 word) = of_char c" if "c \<in> set s" for c
    using assms that by (intro js_string_unit) simp
  then have "uint (word_of_nat (of_char c) :: 16 word) < 128" if "c \<in> set s" for c
    using assms that by (metis nat_less_numeral_power_cancel_iff of_nat_less_iff of_nat_numeral uint_nat)
  then show "is_ascii (js_string s)" by (simp only: is_ascii_def js_string_def set_map) simp
  show "map (\<lambda>u. char_of (unat u)) (js_string s) = s"
    using u by (simp only: js_string_def map_map comp_def) (simp add: map_idI del: unsigned_of_nat)
qed

lemma name_field_js_string: "plain_name (Some s) \<Longrightarrow> name_field (JStr (js_string s)) = Inr (Some s)"
  using js_string_ascii [of s] by (simp only: plain_name_def name_field.simps if_True) simp

lemma field_names:
  "js_string ''profile'' \<noteq> js_string ''tag''" "js_string ''profile'' \<noteq> js_string ''type''" "js_string ''profile'' \<noteq> js_string ''value''"
  "js_string ''profile'' \<noteq> js_string ''name''" "js_string ''tag'' \<noteq> js_string ''type''" "js_string ''tag'' \<noteq> js_string ''value''"
  "js_string ''tag'' \<noteq> js_string ''name''" "js_string ''type'' \<noteq> js_string ''value''" "js_string ''type'' \<noteq> js_string ''name''"
  "js_string ''value'' \<noteq> js_string ''name''"
  by (simp_all add: js_string_def)

lemma json_object_members:
  assumes "plain_name ty" and "plain_name n"
  shows "json_object (map (apfst js_string) (obj_members p t ty v n)) = Inr (JObj p t ty v n)"
proof -
  let ?ms = "map (apfst js_string) (obj_members p t ty v n)"
  note d = obj_members_def option_list_def json_field_def
  have a: "list_all (\<lambda>(k, v). k \<in> set (map js_string [''profile'', ''tag'', ''type'', ''value'', ''name''])) ?ms"
    by (auto simp: d list_all_iff split: option.splits if_splits)
  have f: "json_field ''profile'' ?ms = opt_num p" "json_field ''tag'' ?ms = opt_num t" "json_field ''value'' ?ms = v"
    "json_field ''type'' ?ms = (case ty of None \<Rightarrow> JUndef | Some s \<Rightarrow> JStr (js_string s))"
    "json_field ''name'' ?ms = (case n of None \<Rightarrow> JUndef | Some s \<Rightarrow> JStr (js_string s))"
    by (auto simp: d opt_num_def field_names field_names [symmetric] split: option.splits)
  have "number_field (opt_num k) = Inr k" for k by (cases k) (simp_all add: opt_num_def)
  moreover have "name_field (case s of None \<Rightarrow> JUndef | Some s \<Rightarrow> JStr (js_string s)) = Inr s" if "plain_name s" for s
    using that name_field_js_string by (cases s) (simp_all del: name_field.simps(2))
  ultimately show ?thesis using a assms by (simp only: json_object_def f) simp
qed

lemma reads_back_object:
  assumes "list_all (\<lambda>(k, x). reads_back (json_text gap (indent @ gap)) x) (obj_members p t ty v n)" and "blank gap" and "blank indent"
    and "plain_name ty" and "plain_name n"
  shows "reads_back (json_text gap indent) (JObj p t ty v n)"
proof -
  let ?ms = "obj_members p t ty v n" and ?nl = "json_newline gap (indent @ gap)" and ?nl' = "json_newline gap indent"
  let ?items = "map (\<lambda>(k, x). json_member gap k (json_text gap (indent @ gap) x)) ?ms"
  note o = json_object_members [OF assms(4,5), of p t v]
  have b: "blank ?nl" "blank ?nl'" using assms(2,3) by (simp_all add: blank_newline)
  have "json_value (json_block 123 125 gap indent ?items @ r) = Inr (JObj p t ty v n, r)" for r
  proof (cases "?ms = []")
    case True
    with o show ?thesis by (simp add: json_block_def json_value.simps json_starts_def)
  next
    case False
    let ?t = "js_join (44 # ?nl) ?items @ ?nl' @ 125 # r"
    obtain m ms where m: "?ms = m # ms" using False by (cases ?ms) auto
    have q: "opens (json_member gap k s)" for k s by (simp add: opens_def json_member_def json_quote_def)
    then have "opens ?t" using m by (cases ms; cases m) (simp_all add: opens_append)
    then have "\<not> json_starts 125 (?nl @ ?t)" using b by (simp add: json_starts_def opens_skip) (simp add: opens_def)
    with json_members_join [OF False assms(1) b, of gap r] o False show ?thesis by (simp add: json_block_def json_value.simps)
  qed
  then show ?thesis unfolding reads_back_def json_text_members by (simp add: opens_def json_block_def)
qed

text \<open>
  The documents that survive: no octet strings (which are printed as objects), no fractions, and no
  integers beyond what a double holds exactly.
\<close>

fun json_doc :: "jsval \<Rightarrow> bool" where
  "json_doc JNull = True"
| "json_doc (JBool b) = True"
| "json_doc (JNum k) = (\<bar>k\<bar> < 2 ^ 53)"
| "json_doc (JStr s) = True"
| "json_doc (JArr xs) = list_all json_doc xs"
| "json_doc (JObj p t ty v n) = ((v = JUndef \<or> json_doc v) \<and> list_all (\<lambda>k. \<bar>k\<bar> < 2 ^ 53) (option_list p @ option_list t) \<and> plain_name ty \<and> plain_name n)"
| "json_doc _ = False"

lemma reads_back_leaf:
  "reads_back (json_text gap indent) JNull" "reads_back (json_text gap indent) (JBool b)" "reads_back (json_text gap indent) (JStr s)"
  "\<bar>k\<bar> < 2 ^ 53 \<Longrightarrow> reads_back (json_text gap indent) (JNum k)"
proof -
  show "reads_back (json_text gap indent) JNull" "reads_back (json_text gap indent) (JBool b)"
    by (auto simp: reads_back_def opens_def json_value.simps json_word_def js_string_def)
  show "reads_back (json_text gap indent) (JStr s)"
    by (simp add: reads_back_def json_quote_chars json_value.simps json_chars_units) (simp add: opens_def json_quote_def)
  assume k: "\<bar>k\<bar> < 2 ^ 53"
  have "json_value (dec_string k @ r) = Inr (JNum k, r)" if "value_ends r" for r
  proof -
    obtain c cs where c: "dec_string k = c # cs" using dec_string_nonempty [of k] by (cases "dec_string k") auto
    then have "json_skip (dec_string k @ r) = c # cs @ r" "c \<notin> {34, 91, 102, 110, 116, 123}"
      using dec_string_opens [of k] opens_skip [OF opens_append, of "dec_string k" r] by simp_all
    with json_number_dec [OF k that] c show ?thesis by (simp add: json_value.simps json_word_def js_string_def)
  qed
  then show "reads_back (json_text gap indent) (JNum k)" using dec_string_opens(1) by (simp add: reads_back_def)
qed

lemma json_text_reads_back:
  assumes "blank gap" and "blank indent" and "json_doc v"
  shows "reads_back (json_text gap indent) v"
  using assms(2,3)
proof (induction v arbitrary: indent)
  case (JArr xs)
  then have "list_all (reads_back (json_text gap (indent @ gap))) xs" using assms(1) by (auto simp: list_all_iff)
  then show ?case by (rule reads_back_array [OF _ assms(1) JArr.prems(1) refl]) simp
next
  case (JObj p t ty v n)
  have "list_all (\<lambda>(k, x). reads_back (json_text gap (indent @ gap)) x) (obj_members p t ty v n)"
    using JObj assms(1) by (auto simp: obj_members_def option_list_def reads_back_leaf split: option.splits)
  with JObj.prems show ?case by (intro reads_back_object [OF _ assms(1)]) simp_all
qed (use reads_back_leaf in simp_all)

theorem json_parse_text:
  assumes "set gap \<subseteq> {32}" and "json_doc v"
  shows "json_parse (json_text gap [] v) = Inr v"
proof -
  have "blank gap" "blank []" using assms(1) by (auto simp: blank_def)
  from json_text_reads_back [OF this assms(2)] have "json_value (json_text gap [] v @ []) = Inr (v, [])"
    unfolding reads_back_def value_ends_def by blast
  then show ?thesis by (simp add: json_parse_def json_skip_def)
qed

end
