(* ===== verification/Discovery_Mdns.thy ===== *)
theory Discovery_Mdns
  imports Js_Value
begin

text \<open>
  \<open>src/net/Discovery.js\<close> and the address selection of \<open>src/net/Netif.js\<close>: the answers
  to DNS-SD queries and the reading of the answers of others. The sockets belong to the package
  \<open>multicast-dns\<close>; the model produces and consumes the records it is given and gives.
\<close>

section \<open>Records\<close>

text \<open>The data of a record: a name, an address or a text, a service location, or texts.\<close>

datatype dns_data = DnsName string | DnsSrv int int int string | DnsTxt "string list"

record dns_record =
  dr_name :: string
  dr_type :: string
  dr_ttl :: int
  dr_class :: "string option"
  dr_flush :: "bool option"
  dr_data :: dns_data

record dns_response =
  rs_answers :: "dns_record list"
  rs_additionals :: "dns_record list"

record dns_question =
  qu_name :: string
  qu_type :: string

definition MDNS_TTL_TIMEOUT :: int where "MDNS_TTL_TIMEOUT = 120"
definition MDNS_DOMAIN_OPERATIONAL :: string where "MDNS_DOMAIN_OPERATIONAL = ''_matter._tcp.local''"
definition MDNS_DOMAIN_COMMISSIONABLE :: string where "MDNS_DOMAIN_COMMISSIONABLE = ''_matterc._udp.local''"
definition MDNS_DOMAIN_COMMISSIONER :: string where "MDNS_DOMAIN_COMMISSIONER = ''_matterd._udp.local''"

definition dns_ptr :: "string \<Rightarrow> string \<Rightarrow> dns_record" where
  "dns_ptr name target = \<lparr>dr_name = name, dr_type = ''PTR'', dr_ttl = MDNS_TTL_TIMEOUT, dr_class = Some ''IN'',
     dr_flush = Some False, dr_data = DnsName target\<rparr>"

text \<open>\<open>s.includes(t)\<close>.\<close>

fun str_includes :: "string \<Rightarrow> string \<Rightarrow> bool" where
  "str_includes [] t = (t = [])"
| "str_includes (c # s) t = (take (length t) (c # s) = t \<or> str_includes s t)"

section \<open>Interfaces\<close>

text \<open>The addresses of an interface, with their families; the first of version 6 is taken.\<close>

definition getIpv6 :: "((string + int) \<times> string) list \<Rightarrow> string option" where
  "getIpv6 addresses = map_option snd (find (\<lambda>a. fst a = Inl ''IPv6'' \<or> fst a = Inr 6) addresses)"

text \<open>
  \<open>initListener\<close>: whether packets loop back, \<open>None\<close> when the interface is not listened on.
\<close>

definition listener_loopback :: "string \<Rightarrow> string \<Rightarrow> bool option" where
  "listener_loopback platform iface =
     (if platform = ''darwin'' then Some (str_includes iface ''%lo'')
      else if str_includes iface ''%lo'' then None else Some True)"

text \<open>\<open>update\<close>: the interfaces that are listened on, with the address each answers with.\<close>

definition discovery_update :: "string \<Rightarrow> (string \<times> ((string + int) \<times> string) list) list \<Rightarrow> (string \<times> bool \<times> string option) list" where
  "discovery_update platform interfaces = concat (map (\<lambda>(iface, addresses).
     case listener_loopback platform (''::%'' @ iface) of
       None \<Rightarrow> []
     | Some loopback \<Rightarrow> [(''::%'' @ iface, loopback, getIpv6 addresses)]) interfaces)"

section \<open>Answers\<close>

definition instanceName :: string where "instanceName = ''914CE95294D70845''"
definition vendorID :: string where "vendorID = ''65521''"
definition discriminator :: string where "discriminator = ''0''"
definition servicesName :: string where "servicesName = ''_services._dns-sd._udp.local''"

definition onCommissionableDiscovery :: "int \<Rightarrow> string \<Rightarrow> dns_response" where
  "onCommissionableDiscovery ipPort ip6Addr =
     (let serviceName = MDNS_DOMAIN_COMMISSIONABLE;
          txt = [''VP='' @ vendorID @ ''+32769'', ''SII=5000'', ''SAI=300'', ''T=1'', ''D='' @ discriminator, ''CM=1'', ''PH=33'', ''PI='']
      in \<lparr>rs_answers =
           [dns_ptr servicesName serviceName,
            dns_ptr servicesName (''_V'' @ vendorID @ ''._sub.'' @ serviceName),
            dns_ptr servicesName (''_S'' @ discriminator @ ''._sub.'' @ serviceName),
            dns_ptr servicesName (''_L'' @ discriminator @ ''._sub.'' @ serviceName),
            dns_ptr servicesName (''_CM._sub.'' @ serviceName),
            dns_ptr (''_V'' @ vendorID @ ''._sub.'' @ serviceName) (instanceName @ ''.'' @ serviceName),
            dns_ptr (''_S'' @ discriminator @ ''._sub.'' @ serviceName) (instanceName @ ''.'' @ serviceName),
            dns_ptr (''_L'' @ discriminator @ ''._sub.'' @ serviceName) (instanceName @ ''.'' @ serviceName),
            dns_ptr (''_CM._sub.'' @ serviceName) (instanceName @ ''.'' @ serviceName),
            dns_ptr serviceName (instanceName @ ''.'' @ serviceName)],
         rs_additionals =
           [\<lparr>dr_name = instanceName @ ''.'' @ serviceName, dr_type = ''SRV'', dr_ttl = MDNS_TTL_TIMEOUT, dr_class = Some ''IN'', dr_flush = Some False,
             
              dr_data = DnsSrv ipPort 0 0 (instanceName @ ''.local'')\<rparr>,
            \<lparr>dr_name = instanceName @ ''.local'', dr_type = ''AAAA'', dr_ttl = MDNS_TTL_TIMEOUT, dr_class = Some ''IN'', dr_flush = Some False,
              dr_data = DnsName ip6Addr\<rparr>,
            \<lparr>dr_name = instanceName @ ''._matterc._udp.local'', dr_type = ''TXT'', dr_ttl = 4500, dr_class = Some ''IN'', dr_flush = Some False,
              dr_data = DnsTxt txt\<rparr>]\<rparr>)"

text \<open>The query is not looked at; there are no additional records.\<close>

definition onOperationalDiscovery :: "int \<Rightarrow> string \<Rightarrow> string \<Rightarrow> dns_response" where
  "onOperationalDiscovery ipPort mdnsTarget ip6Addr =
     \<lparr>rs_answers =
        [\<lparr>dr_name = mdnsTarget @ ''.'' @ MDNS_DOMAIN_OPERATIONAL, dr_type = ''TXT'', dr_ttl = MDNS_TTL_TIMEOUT,
           dr_class = Some ''IN'', dr_flush = Some True, dr_data = DnsName ''test''\<rparr>,
         \<lparr>dr_name = mdnsTarget @ ''.'' @ MDNS_DOMAIN_OPERATIONAL, dr_type = ''SRV'', dr_ttl = MDNS_TTL_TIMEOUT,
           dr_class = None, dr_flush = Some True,
           dr_data = DnsSrv ipPort 0 0 mdnsTarget\<rparr>,
         \<lparr>dr_name = mdnsTarget @ ''.local'', dr_type = ''AAAA'', dr_ttl = MDNS_TTL_TIMEOUT,
           dr_class = Some ''IN'', dr_flush = Some True, dr_data = DnsName ip6Addr\<rparr>,
         \<lparr>dr_name = MDNS_DOMAIN_OPERATIONAL, dr_type = ''PTR'', dr_ttl = MDNS_TTL_TIMEOUT,
           dr_class = Some ''IN'', dr_flush = None, dr_data = DnsName (mdnsTarget @ ''.'' @ MDNS_DOMAIN_OPERATIONAL)\<rparr>],
      rs_additionals = []\<rparr>"

text \<open>One response for each question that asks for a service of this node.\<close>

definition onQuestion :: "int \<Rightarrow> string \<Rightarrow> string \<Rightarrow> dns_question \<Rightarrow> dns_response list" where
  "onQuestion ipPort mdnsTarget ip6Addr q =
     (if qu_type q = ''PTR'' \<or> qu_type q = ''ANY'' then
        (if str_includes (qu_name q) MDNS_DOMAIN_OPERATIONAL then [onOperationalDiscovery ipPort mdnsTarget ip6Addr]
         else if qu_name q = MDNS_DOMAIN_COMMISSIONABLE then [onCommissionableDiscovery ipPort ip6Addr]
         else [])
      else [])"

definition onQuery :: "int \<Rightarrow> string \<Rightarrow> string \<Rightarrow> dns_question list \<Rightarrow> dns_response list" where
  "onQuery ipPort mdnsTarget ip6Addr questions = concat (map (onQuestion ipPort mdnsTarget ip6Addr) questions)"

definition queryAll :: "string \<Rightarrow> string \<Rightarrow> dns_question list" where
  "queryAll serviceName queryType = [\<lparr>qu_name = serviceName, qu_type = queryType\<rparr>]"

text \<open>\<open>respondAll\<close>: the response goes to each interface.\<close>

definition respondAll :: "'i list \<Rightarrow> dns_response \<Rightarrow> ('i \<times> dns_response) list" where
  "respondAll mdnsInterfaces responseJson = map (\<lambda>mdns. (mdns, responseJson)) mdnsInterfaces"

section \<open>Reading answers\<close>

record found =
  fo_node :: "dns_data option"
  fo_ip :: "dns_data option"
  fo_port :: "int option"
  fo_txt :: "string list option"
  fo_service :: string

text \<open>\<open>entry['data']['port']\<close>: a record of another kind has no port.\<close>

definition data_port :: "dns_data \<Rightarrow> int option" where
  "data_port d = (case d of DnsSrv port _ _ _ \<Rightarrow> Some port | _ \<Rightarrow> None)"

definition answer_entry :: "dns_record \<Rightarrow> found \<Rightarrow> found" where
  "answer_entry entry f =
     (let f = (if dr_name entry = MDNS_DOMAIN_OPERATIONAL then f\<lparr>fo_node := Some (dr_data entry)\<rparr> else f);
          f = (if dr_name entry = MDNS_DOMAIN_COMMISSIONABLE then f\<lparr>fo_service := ''matterc'', fo_node := Some (dr_data entry)\<rparr> else f);
          f = (if dr_type entry = ''AAAA'' then f\<lparr>fo_ip := Some (dr_data entry)\<rparr> else f)
      in if dr_type entry = ''SRV'' then f\<lparr>fo_port := data_port (dr_data entry)\<rparr> else f)"

text \<open>\<open>entry['data'].map\<close>: only an array has one.\<close>

definition additional_entry :: "dns_record \<Rightarrow> found \<Rightarrow> found result" where
  "additional_entry entry f =
     (let f = (if dr_type entry = ''AAAA'' then f\<lparr>fo_ip := Some (dr_data entry)\<rparr> else f);
          f = (if dr_type entry = ''SRV'' then f\<lparr>fo_port := data_port (dr_data entry)\<rparr> else f)
      in if dr_type entry = ''TXT'' then
           (case dr_data entry of DnsTxt ts \<Rightarrow> Inr (f\<lparr>fo_txt := Some ts\<rparr>) | _ \<Rightarrow> Inl TypeError)
         else Inr f)"

fun additional_entries :: "dns_record list \<Rightarrow> found \<Rightarrow> found result" where
  "additional_entries [] f = Inr f"
| "additional_entries (e # es) f = rbind (additional_entry e f) (additional_entries es)"

text \<open>\<open>onResponse\<close>: what is reported, nothing when no service of Matter is among the answers.\<close>

definition onResponse :: "dns_response \<Rightarrow> found option result" where
  "onResponse response =
     (let f = fold answer_entry (rs_answers response)
            \<lparr>fo_node = None, fo_ip = None, fo_port = None, fo_txt = None, fo_service = ''matter''\<rparr>
      in rbind (additional_entries (rs_additionals response) f)
           (\<lambda>f. Inr (if fo_node f = None then None else Some f)))"

section \<open>Properties\<close>

text \<open>
  The package between two nodes: a record arrives with its name, its type and its data, except
  that the data of a text record arrive as a list whatever they were.
\<close>

definition record_arrives :: "dns_record \<Rightarrow> dns_record \<Rightarrow> bool" where
  "record_arrives r r' \<longleftrightarrow> dr_name r' = dr_name r \<and> dr_type r' = dr_type r \<and>
     (if dr_type r = ''TXT'' then \<exists>ts. dr_data r' = DnsTxt ts else dr_data r' = dr_data r)"

definition response_arrives :: "dns_response \<Rightarrow> dns_response \<Rightarrow> bool" where
  "response_arrives r r' \<longleftrightarrow> list_all2 record_arrives (rs_answers r) (rs_answers r') \<and>
     list_all2 record_arrives (rs_additionals r) (rs_additionals r')"

lemmas discovery_defs = onCommissionableDiscovery_def onOperationalDiscovery_def dns_ptr_def Let_def
  MDNS_DOMAIN_OPERATIONAL_def MDNS_DOMAIN_COMMISSIONABLE_def instanceName_def vendorID_def discriminator_def servicesName_def

lemma response_arrives_cons:
  "response_arrives \<lparr>rs_answers = a # as, rs_additionals = ds\<rparr> r' \<longleftrightarrow>
     (\<exists>b bs. rs_answers r' = b # bs \<and> record_arrives a b \<and> response_arrives \<lparr>rs_answers = as, rs_additionals = ds\<rparr> (r'\<lparr>rs_answers := bs\<rparr>))"
  by (auto simp: response_arrives_def list_all2_Cons1)

lemma response_arrives_nil:
  "response_arrives \<lparr>rs_answers = [], rs_additionals = ds\<rparr> r' \<longleftrightarrow>
     rs_answers r' = [] \<and> list_all2 record_arrives ds (rs_additionals r')"
  by (auto simp: response_arrives_def)

lemma commissionable_read:
  assumes "response_arrives (onCommissionableDiscovery port addr) r'"
  shows "\<exists>f. onResponse r' = Inr (Some f) \<and> fo_node f = Some (DnsName (instanceName @ ''.'' @ MDNS_DOMAIN_COMMISSIONABLE)) \<and>
     fo_ip f = Some (DnsName addr) \<and> fo_port f = Some port \<and> fo_service f = ''matterc''"
  using assms
  by (auto simp: discovery_defs response_arrives_cons response_arrives_nil list_all2_Cons1 record_arrives_def
      onResponse_def answer_entry_def additional_entry_def data_port_def
      simp del: rbind_eq_Inr)

lemma operational_names:
  "target @ ''.'' @ MDNS_DOMAIN_OPERATIONAL \<noteq> MDNS_DOMAIN_OPERATIONAL"
  "target @ ''.'' @ MDNS_DOMAIN_OPERATIONAL \<noteq> MDNS_DOMAIN_COMMISSIONABLE"
  "target @ ''.local'' = MDNS_DOMAIN_COMMISSIONABLE \<longleftrightarrow> target = ''_matterc._udp''"
proof -
  have c: "MDNS_DOMAIN_COMMISSIONABLE = ''_matterc._udp'' @ ''.local''"
    by (simp add: MDNS_DOMAIN_COMMISSIONABLE_def)
  show "target @ ''.local'' = MDNS_DOMAIN_COMMISSIONABLE \<longleftrightarrow> target = ''_matterc._udp''"
    unfolding c by (rule append_same_eq)
  have "rev (target @ ''.'' @ MDNS_DOMAIN_OPERATIONAL) \<noteq> rev MDNS_DOMAIN_COMMISSIONABLE"
    by (simp add: MDNS_DOMAIN_OPERATIONAL_def MDNS_DOMAIN_COMMISSIONABLE_def)
  then show "target @ ''.'' @ MDNS_DOMAIN_OPERATIONAL \<noteq> MDNS_DOMAIN_COMMISSIONABLE"
    by metis
  have "length (target @ ''.'' @ MDNS_DOMAIN_OPERATIONAL) \<noteq> length MDNS_DOMAIN_OPERATIONAL"
    by simp
  then show "target @ ''.'' @ MDNS_DOMAIN_OPERATIONAL \<noteq> MDNS_DOMAIN_OPERATIONAL"
    by metis
qed

lemma operational_read:
  assumes "response_arrives (onOperationalDiscovery port target addr) r'" "target \<noteq> ''_matterc._udp''"
  shows "\<exists>f. onResponse r' = Inr (Some f) \<and> fo_node f = Some (DnsName (target @ ''.'' @ MDNS_DOMAIN_OPERATIONAL)) \<and>
     fo_ip f = Some (DnsName addr) \<and> fo_port f = Some port \<and> fo_service f = ''matter''"
proof -
  have "MDNS_DOMAIN_OPERATIONAL \<noteq> MDNS_DOMAIN_COMMISSIONABLE"
    by (simp add: MDNS_DOMAIN_OPERATIONAL_def MDNS_DOMAIN_COMMISSIONABLE_def)
  with assms show ?thesis
    using operational_names [of target]
    by (auto simp: onOperationalDiscovery_def response_arrives_cons response_arrives_nil record_arrives_def
        onResponse_def answer_entry_def data_port_def
      simp del: rbind_eq_Inr)
qed

lemma query_commissionable:
  "onQuery port target addr (queryAll MDNS_DOMAIN_COMMISSIONABLE ''PTR'') = [onCommissionableDiscovery port addr]"
  by (simp add: onQuery_def onQuestion_def queryAll_def MDNS_DOMAIN_OPERATIONAL_def MDNS_DOMAIN_COMMISSIONABLE_def)

lemma query_operational:
  "onQuery port target addr (queryAll MDNS_DOMAIN_OPERATIONAL ''PTR'') = [onOperationalDiscovery port target addr]"
  by (simp add: onQuery_def onQuestion_def queryAll_def MDNS_DOMAIN_OPERATIONAL_def)

text \<open>
  (C34) Discovery between two nodes, across a network that delivers the records: what a node
  answers to the query for commissionable nodes or for operational nodes, another reads as the
  node's instance, its address and its port, under the service asked for; each query gets
  exactly one answer. A target that is itself the name of the other service is excluded.
\<close>

theorem discovery_roundtrip:
  assumes "target \<noteq> ''_matterc._udp''"
  shows "(\<exists>r. onQuery port target addr (queryAll MDNS_DOMAIN_COMMISSIONABLE ''PTR'') = [r] \<and>
      (\<forall>r'. response_arrives r r' \<longrightarrow> (\<exists>f. onResponse r' = Inr (Some f) \<and>
         fo_node f = Some (DnsName (instanceName @ ''.'' @ MDNS_DOMAIN_COMMISSIONABLE)) \<and>
         fo_ip f = Some (DnsName addr) \<and> fo_port f = Some port \<and> fo_service f = ''matterc''))) \<and>
    (\<exists>r. onQuery port target addr (queryAll MDNS_DOMAIN_OPERATIONAL ''PTR'') = [r] \<and>
      (\<forall>r'. response_arrives r r' \<longrightarrow> (\<exists>f. onResponse r' = Inr (Some f) \<and>
         fo_node f = Some (DnsName (target @ ''.'' @ MDNS_DOMAIN_OPERATIONAL)) \<and>
         fo_ip f = Some (DnsName addr) \<and> fo_port f = Some port \<and> fo_service f = ''matter'')))"
  unfolding query_commissionable query_operational list.inject
  using commissionable_read operational_read [OF _ assms] by blast

text \<open>
  A response whose text record arrives as a list, and which is otherwise the one sent, is read
  as the node that sent it.
\<close>

definition with_txt_list :: "dns_record \<Rightarrow> dns_record" where
  "with_txt_list r = (case dr_data r of DnsName s \<Rightarrow> if dr_type r = ''TXT'' then r\<lparr>dr_data := DnsTxt [s]\<rparr> else r | _ \<Rightarrow> r)"

definition over_network :: "dns_response \<Rightarrow> dns_response" where
  "over_network r = \<lparr>rs_answers = map with_txt_list (rs_answers r), rs_additionals = map with_txt_list (rs_additionals r)\<rparr>"

lemma over_network_arrives:
  "response_arrives (onCommissionableDiscovery port addr) (over_network (onCommissionableDiscovery port addr))"
  "response_arrives (onOperationalDiscovery port target addr) (over_network (onOperationalDiscovery port target addr))"
  by (simp_all add: response_arrives_def over_network_def with_txt_list_def record_arrives_def discovery_defs)

theorem discovery_roundtrip_witness:
  "(''0123-4567'' :: string) \<noteq> ''_matterc._udp'' \<and>
   (\<exists>f. onResponse (over_network (onOperationalDiscovery 5540 ''0123-4567'' ''fe80::1'')) = Inr (Some f) \<and> fo_ip f = Some (DnsName ''fe80::1'')) \<and>
   (\<exists>f. onResponse (over_network (onCommissionableDiscovery 5540 ''fe80::1'')) = Inr (Some f) \<and> fo_port f = Some 5540)"
proof -
  have t: "(''0123-4567'' :: string) \<noteq> ''_matterc._udp''"
    by simp
  show ?thesis
    using discovery_roundtrip [OF t, of 5540 "''fe80::1''"] t
      over_network_arrives(1) [of 5540 "''fe80::1''"] over_network_arrives(2) [of 5540 "''0123-4567''" "''fe80::1''"]
    unfolding query_commissionable query_operational list.inject by blast
qed

end
