(* ===== verification/Shell_Commands.thy ===== *)
theory Shell_Commands
  imports Node_Handshake Json_Text Discovery_Mdns
begin

text \<open>
  The commands of the shell (\<open>src/shell/cmd_*.js\<close>): the configuration, the cipher, messages, PASE,
  the tables of sessions and exchanges, discovery, TLV, the logger and the tracer. The package
  \<open>yargs\<close> is a parameter, from the declared options and the words of the line to the values of the
  options; what a command prints is recorded as the arguments of its prints.
\<close>

section \<open>The runtime\<close>

type_synonym words = "16 word list list"
type_synonym argv = "string \<Rightarrow> jsval"

datatype option_type = YString | YNumber | YBoolean

text \<open>An option: its name, its alias and its type.\<close>

type_synonym yoption = "string \<times> string \<times> option_type"

text \<open>
  The environment of the shell: the cipher, the option parser, the runtime of the store, the X.509
  package (a certificate and a format to text), and whether the modules run in strict mode, as the
  compiled ones do.
\<close>

record 'd shell_env =
  ev_aead :: aead
  ev_yargs :: "yoption list \<Rightarrow> words \<Rightarrow> argv"
  ev_store :: "'d store_env"
  ev_x509 :: "jsval \<Rightarrow> jsval \<Rightarrow> 16 word list result"
  ev_strict :: bool

text \<open>
  What is printed: a text, a value, a session, the tables of sessions and exchanges, the usage text
  of \<open>yargs\<close>, the prompt.
\<close>

datatype printed = Text "16 word list" | Value jsval | OneSession nat | Sessions "nat list"
  | Exchanges "nat list" | Usage | Prompt

text \<open>
  The state a command works on: the node, the store, and what went to the console, to the logger
  (level and message), to the tracer, to the network as DNS questions and to the system's shell.
\<close>

record 'd shell =
  sh_node :: im_node
  sh_store :: "'d store"
  sh_out :: "printed list"
  sh_logged :: "(string \<times> 16 word list) list"
  sh_traced :: words
  sh_asked :: "dns_question list"
  sh_executed :: words
  sh_exited :: bool

type_synonym 'd handler = "'d shell_env \<Rightarrow> words \<Rightarrow> 'd shell \<Rightarrow> (int \<times> 'd shell) result"

definition print :: "printed \<Rightarrow> 'd shell \<Rightarrow> 'd shell" where
  "print p h = h\<lparr>sh_out := sh_out h @ [p]\<rparr>"

abbreviation print_text :: "string \<Rightarrow> 16 word list \<Rightarrow> 'd shell \<Rightarrow> 'd shell" where
  "print_text label s \<equiv> print (Text (js_string label @ s))"

section \<open>Values\<close>

text \<open>\<open>v != undefined\<close>.\<close>

definition defined :: "jsval \<Rightarrow> bool" where
  "defined v \<longleftrightarrow> v \<noteq> JUndef \<and> v \<noteq> JNull"

text \<open>\<open>Buffer.from(v, "hex")\<close>.\<close>

fun from_hex :: "jsval \<Rightarrow> buffer result" where
  "from_hex (JStr s) = Inr (hex_decode s)"
| "from_hex (JArr xs) = Inl Unmodelled"
| "from_hex (JBuf b) = Inr b"
| "from_hex (JObj p t ty v n) = Inl Unmodelled"
| "from_hex _ = Inl TypeError"

text \<open>An option of type number, where it is not an integer nothing is modelled.\<close>

fun as_number :: "jsval \<Rightarrow> int result" where
  "as_number (JNum k) = Inr k"
| "as_number _ = Inl Unmodelled"

definition number_or :: "int \<Rightarrow> jsval \<Rightarrow> int result" where
  "number_or k v = (if defined v then as_number v else Inr k)"

text \<open>A host name or address.\<close>

fun as_host :: "jsval \<Rightarrow> string result" where
  "as_host (JStr s) = (if is_ascii s then Inr (map (\<lambda>u. char_of (unat u)) s) else Inl Unmodelled)"
| "as_host _ = Inl Unmodelled"

definition host_or :: "string \<Rightarrow> jsval \<Rightarrow> string result" where
  "host_or k v = (if defined v then as_host v else Inr k)"

text \<open>White space, as \<open>trim\<close>, \<open>\s\<close> and \<open>BigInt\<close> know it.\<close>

definition is_space :: "16 word \<Rightarrow> bool" where
  "is_space u \<longleftrightarrow> uint u \<in> {9, 10, 11, 12, 13, 0x20, 0xA0, 0x1680, 0x2028, 0x2029, 0x202F, 0x205F, 0x3000, 0xFEFF} \<or>
     (0x2000 \<le> uint u \<and> uint u \<le> 0x200A)"

definition js_trim :: "16 word list \<Rightarrow> 16 word list" where
  "js_trim s = rev (dropWhile is_space (rev (dropWhile is_space s)))"

text \<open>\<open>BigInt(v)\<close> of a string: decimal with a sign, or hexadecimal, octal or binary with a prefix.\<close>

fun radix_val :: "int \<Rightarrow> int \<Rightarrow> 16 word list \<Rightarrow> int option" where
  "radix_val r acc [] = Some acc"
| "radix_val r acc (u # us) = (case hex_digit u of None \<Rightarrow> None | Some d \<Rightarrow> if d < r then radix_val r (r * acc + d) us else None)"

definition numeral_val :: "int \<Rightarrow> 16 word list \<Rightarrow> int option" where
  "numeral_val r s = (if s = [] then None else radix_val r 0 s)"

definition string_bigint :: "16 word list \<Rightarrow> int option" where
  "string_bigint s =
     (case js_trim s of
        [] \<Rightarrow> Some 0
      | u # us \<Rightarrow>
          if uint u = 43 then numeral_val 10 us
          else if uint u = 45 then map_option uminus (numeral_val 10 us)
          else if uint u = 48 \<and> us \<noteq> [] \<and> uint (hd us) \<in> {88, 120} then numeral_val 16 (tl us)
          else if uint u = 48 \<and> us \<noteq> [] \<and> uint (hd us) \<in> {79, 111} then numeral_val 8 (tl us)
          else if uint u = 48 \<and> us \<noteq> [] \<and> uint (hd us) \<in> {66, 98} then numeral_val 2 (tl us)
          else numeral_val 10 (u # us))"

definition js_BigInt :: "jsval \<Rightarrow> int result" where
  "js_BigInt v = (case v of
      JStr s \<Rightarrow> (case string_bigint s of Some k \<Rightarrow> Inr k | None \<Rightarrow> Inl (Thrown ''SyntaxError''))
    | _ \<Rightarrow> to_bigint v)"

section \<open>The configuration\<close>

text \<open>Each command sets its value when it is given one, and prints it.\<close>

definition config_value ::
  "('d store_env \<Rightarrow> jsval \<Rightarrow> 'd store \<Rightarrow> 'd store result) \<Rightarrow> ('d store \<Rightarrow> jsval) \<Rightarrow> 'd handler" where
  "config_value setter getter V args h =
     rbind (if 1 < length args then setter (ev_store V) (JStr (args ! 1)) (sh_store h) else Inr (sh_store h)) (\<lambda>t.
       Inr (0, print (Value (getter t)) (h\<lparr>sh_store := t\<rparr>)))"

definition dump_line :: "string \<Rightarrow> jsval \<Rightarrow> 'd shell \<Rightarrow> 'd shell result" where
  "dump_line label v h = rmap (\<lambda>s. print_text label s h) (to_text v)"

definition dump :: "'d shell \<Rightarrow> 'd shell result" where
  "dump h = (let t = sh_store h in rfold (\<lambda>(label, v). dump_line label v)
     [(''store: encryptionKey = '', st_encryptionKey t), (''store: fabricid = '', st_fabricid t), (''store: loglevel = '', st_logLevel t),
      (''store: nodeid = '', st_nodeid t), (''store: nodenum = '', st_nodenum t), (''store: ipPort = '', st_ipPort t)] h)"

definition doConfig :: "'d handler" where
  "doConfig V args h = rmap (Pair 0) (dump h)"

text \<open>A level that is not accepted is reported by the store.\<close>

definition doLogLevel :: "'d handler" where
  "doLogLevel V args h = config_value set_LogLevel st_logLevel V args
     (if 1 < length args \<and> \<not> se_levels (ev_store V) (JStr (args ! 1))
      then print_text ''ERROR: invalid log level != debug|info|warn|error|fatal'' [] h else h)"

definition doTraceLevel :: "'d handler" where
  "doTraceLevel V args h = config_value set_TraceLevel st_traceLevel V args
     (if 1 < length args \<and> \<not> tracer_level_ok (JStr (args ! 1)) then print_text ''ERROR: invalid trace level != 0|1'' [] h else h)"

definition doNodeId :: "'d handler" where
  "doNodeId = config_value set_NodeId st_nodeid"

definition doFabricId :: "'d handler" where
  "doFabricId = config_value set_FabricId st_fabricid"

definition doEncryptionKey :: "'d handler" where
  "doEncryptionKey = config_value set_EncryptionKey st_encryptionKey"

definition doNodeNum :: "'d handler" where
  "doNodeNum = config_value set_NodeNum st_nodenum"

definition doIpPort :: "'d handler" where
  "doIpPort = config_value set_IpPort st_ipPort"

definition doDaPrivateKey :: "'d handler" where
  "doDaPrivateKey = config_value (\<lambda>E v. case v of JStr s \<Rightarrow> set_DaPrivateKey E s | _ \<Rightarrow> (\<lambda>t. Inl TypeError)) st_daPrivateKey"

definition doDaPublicKey :: "'d handler" where
  "doDaPublicKey V args h = Inr (0, print (Value (st_daPublicKey (sh_store h))) h)"

definition doDaCertificate :: "'d handler" where
  "doDaCertificate V args h = Inr (0, print (Value (st_daCertificate (sh_store h))) h)"

section \<open>The cipher\<close>

definition crypto_options :: "yoption list" where
  "crypto_options = [(''decrypt'', ''d'', YString), (''encrypt'', ''e'', YString), (''key'', ''k'', YString)]"

definition doCrypto :: "'d handler" where
  "doCrypto V args h =
     rbind (from_hex (st_encryptionKey (sh_store h))) (\<lambda>key.
     let argv = ev_yargs V crypto_options args
     in if js_truthy (argv ''help'') then Inr (0, h)
        else rbind (if defined (argv ''key'') then from_hex (argv ''key'') else Inr key) (\<lambda>key.
          let h = print_text ''Key:  '' (hex_encode key) h
          in if defined (argv ''decrypt'') then
               rbind (from_hex (argv ''decrypt'')) (\<lambda>buf.
               let h = print_text ''Cipher:  '' (hex_encode buf) h
               in rbind (msg_decrypt (ev_aead V) buf key) (\<lambda>dmsg.
                    Inr (0, (case dmsg of None \<Rightarrow> print_text ''ERROR: message failed authentication'' [] h
                             | Some dmsg \<Rightarrow> print_text ''Plain:  '' (hex_encode dmsg) h))))
             else if defined (argv ''encrypt'') then
               rbind (from_hex (argv ''encrypt'')) (\<lambda>buf.
               let h = print_text ''Plain:  '' (hex_encode buf) h
               in rbind (msg_encrypt (ev_aead V) buf key) (\<lambda>enc.
                    Inr (0, print_text ''Cipher:  '' (hex_encode enc) h)))
             else Inr (0, print Usage h)))"

section \<open>Messages\<close>

text \<open>The socket of the client (\<open>UdpClient.send\<close>): the node's own port and the local host are the defaults.\<close>

definition client_send :: "buffer \<Rightarrow> jsval \<Rightarrow> jsval \<Rightarrow> 'd shell \<Rightarrow> 'd shell result" where
  "client_send msg port host h =
     rbind (as_number (if defined port then port else st_ipPort (sh_store h))) (\<lambda>port.
     rbind (host_or DEFAULT_HOST host) (\<lambda>host.
       Inr (h\<lparr>sh_node := (sh_node h)\<lparr>n_sent := n_sent (sh_node h) @ [\<lparr>p_transport = Client, p_data = msg, p_port = port, p_host = host\<rparr>]\<rparr>\<rparr>)))"

definition msg_options :: "yoption list" where
  "msg_options = [(''dst'', ''d'', YString), (''src'', ''n'', YString), (''counter'', ''c'', YNumber), (''session'', ''s'', YNumber),
     (''key'', ''k'', YString), (''privacy'', ''x'', YNumber), (''control'', ''c'', YNumber), (''exchange'', ''e'', YNumber),
     (''initiator'', ''i'', YNumber), (''ack'', ''a'', YNumber), (''reliable'', ''r'', YNumber), (''port'', ''p'', YNumber),
     (''host'', ''h'', YString)]"

text \<open>A node id given as an option, empty for the default.\<close>

definition node_id_option :: "int \<Rightarrow> jsval \<Rightarrow> int result" where
  "node_id_option k v = (if defined v \<and> v \<noteq> JStr [] then js_BigInt v else Inr k)"

text \<open>The message that the options of the \<open>msg\<close> command describe, and the key for it.\<close>

definition msg_fields :: "int \<Rightarrow> buffer \<Rightarrow> argv \<Rightarrow> (buffer \<times> buffer) result" where
  "msg_fields src key argv =
     rbind (node_id_option NODE_ID_ANY (argv ''dst'')) (\<lambda>dst.
     rbind (node_id_option src (argv ''src'')) (\<lambda>src.
     rbind (number_or 0x0BB8 (argv ''session'')) (\<lambda>sessionId.
     rbind (number_or 0x0EEE (argv ''exchange'')) (\<lambda>exchangeId.
     rbind (number_or 0x3039 (argv ''counter'')) (\<lambda>counter.
     rbind (number_or 0 (argv ''x'')) (\<lambda>pFlag.
     rbind (number_or 0 (argv ''c'')) (\<lambda>cFlag.
     rbind (number_or 1 (argv ''i'')) (\<lambda>iFlag.
     rbind (number_or 0 (argv ''a'')) (\<lambda>aFlag.
     rbind (number_or 1 (argv ''r'')) (\<lambda>rFlag.
     rbind (if defined (argv ''key'') then from_hex (argv ''key'') else Inr key) (\<lambda>key.
     let dsiz = (if defined (argv ''dst'') then MSG_FLAGS_DST_PRESENT else 0);
         sFlag = (if defined (argv ''src'') then 1 else 0);
         messageFlags = encodeMessageFlags dsiz sFlag 0;
         securityFlags = encodeSecurityFlags MSG_SESSION_TYPE_UNICAST cFlag pFlag 0
     in rbind (encodeHeader messageFlags securityFlags sessionId counter (Some src) (Some dst)) (\<lambda>messageHeader.
        let exchangeFlags = encodeExchangeFlags iFlag aFlag rFlag 0 0
        in rbind (encodeProtocolHeader exchangeFlags exchangeId 0x64 0x7D20 None None) (\<lambda>protocolHeader.
             Inr (messageHeader @ protocolHeader, key))))))))))))))"

definition doMsg :: "'d handler" where
  "doMsg V args h =
     rbind (to_text (st_nodeid (sh_store h))) (\<lambda>nodeid.
     rbind (js_BigInt (JStr (js_string ''0x'' @ nodeid))) (\<lambda>src.
     rbind (from_hex (st_encryptionKey (sh_store h))) (\<lambda>key.
     let argv = ev_yargs V msg_options args
     in if js_truthy (argv ''help'') then Inr (0, h)
        else rbind (msg_fields src key argv) (\<lambda>(msg, key).
          let h = print_text ''Plain:  '' (hex_encode msg) h
          in rbind (msg_encrypt (ev_aead V) msg key) (\<lambda>enc.
             let h = print_text ''Secure: '' (hex_encode enc) h
             in rmap (Pair 0) (client_send enc (argv ''p'') (argv ''h'') h))))))"

text \<open>What it prints of a secured message that the node receives.\<close>

definition onMsg :: "message \<Rightarrow> 'd shell \<Rightarrow> 'd shell result" where
  "onMsg msg h = (case m_peerInfo msg of None \<Rightarrow> Inl TypeError | Some peer \<Rightarrow>
     (case m_encrypted msg of None \<Rightarrow> Inl TypeError | Some enc \<Rightarrow>
        Inr (print_text ''Plain:  '' (hex_encode (m_buffer msg))
          (print (Text (js_string ''server got: '' @ hex_encode enc @ js_string '' from '' @ js_string (pi_address peer) @ js_string '':'' @
             dec_string (pi_port peer))) h))))"

section \<open>PASE\<close>

definition pase_options :: "yoption list" where
  "pase_options = [(''dst'', ''d'', YString), (''key'', ''k'', YString), (''ip'', ''i'', YString), (''port'', ''p'', YNumber)]"

text \<open>
  The handler is called as a method of its entry in the command table, which has no pairing code, so
  that four zeros are written as the passcode, and \<open>startPase\<close> takes no argument. The option \<open>key\<close>
  is assigned to a variable that is not declared: an error in strict mode, otherwise a global that
  nothing reads.
\<close>

definition doPase :: "'d handler" where
  "doPase V args h =
     (let argv = ev_yargs V pase_options args
      in if js_truthy (argv ''help'') then Inr (0, h)
         else rbind (node_id_option 0 (argv ''dst'')) (\<lambda>_.
              rbind (number_or 5540 (argv ''p'')) (\<lambda>ipPort.
              rbind (host_or ''::1'' (argv ''h'')) (\<lambda>ipHost.
              rbind (if defined (argv ''key'') then rbind (from_hex (argv ''key'')) (\<lambda>_. if ev_strict V then Inl ReferenceError else Inr ())
                     else Inr ()) (\<lambda>_.
                rmap (\<lambda>n. (0, h\<lparr>sh_node := n\<rparr>)) (pase_connect (ev_aead V) ipHost ipPort (sh_node h)))))))"

section \<open>Tables\<close>

definition session_options :: "yoption list" where
  "session_options = [(''peerSessionId'', ''p'', YNumber), (''localSessionId'', ''l'', YNumber)]"

text \<open>Of the values of a number option only a number equals the id of a session.\<close>

definition show_session :: "jsval \<Rightarrow> 'd shell \<Rightarrow> 'd shell" where
  "show_session v h = (case (case v of JNum k \<Rightarrow> getSecureSession k (sh_node h) | _ \<Rightarrow> None) of
      None \<Rightarrow> h | Some a \<Rightarrow> print (OneSession a) h)"

definition doSession :: "'d handler" where
  "doSession V args h =
     (let argv = ev_yargs V session_options args
      in Inr (0,
           if js_truthy (argv ''help'') then h
           else if defined (argv ''peerSessionId'') then show_session (argv ''peerSessionId'') h
           else if defined (argv ''localSessionId'') then show_session (argv ''localSessionId'') h
           else print (Sessions (sm_unsecured (sh_node h))) (print_text ''__UNSECURED SESSIONS__'' []
                  (print (Sessions (sm_secured (sh_node h))) (print_text ''__SECURE SESSIONS__'' [] h)))))"

definition exchange_options :: "yoption list" where
  "exchange_options = [(''exchangeId'', ''i'', YNumber)]"

text \<open>The exchange manager has no method \<open>get\<close>.\<close>

definition doExchange :: "'d handler" where
  "doExchange V args h =
     (let argv = ev_yargs V exchange_options args
      in if js_truthy (argv ''help'') then Inr (0, h)
         else if defined (argv ''exchangeId'') then Inl TypeError
         else Inr (0, print (Exchanges (x_table (sh_node h))) h))"

section \<open>TLV\<close>

definition tlv_options :: "yoption list" where
  "tlv_options = [(''decode'', ''d'', YString), (''encode'', ''e'', YString), (''tab_width'', ''t'', YNumber)]"

definition doTlv :: "'d handler" where
  "doTlv V args h =
     (let argv = ev_yargs V tlv_options args
      in if js_truthy (argv ''help'') then Inr (0, h)
         else rbind (number_or 2 (argv ''tab_width'')) (\<lambda>tabWidth.
                 if defined (argv ''decode'') then
                   rbind (from_hex (argv ''decode'')) (\<lambda>tlv.
                   rbind (decode_json tlv) (\<lambda>result.
                     rmap (\<lambda>text. (0, print (Text text) h)) (stringify tabWidth result)))
                 else if defined (argv ''encode'') then
                   (case argv ''encode'' of
                      JStr text \<Rightarrow>
                        let h = print (Text text) h
                        in rbind (json_parse text) (\<lambda>json.
                           rbind (writer_encode json) (\<lambda>result.
                             Inr (0, print (Text (hex_encode result)) (print (Value json) h))))
                    | _ \<Rightarrow> Inl Unmodelled)
                 else Inr (0, print Usage h)))"

section \<open>Discovery, the logger, the tracer, X.509\<close>

definition mdns_options :: "yoption list" where
  "mdns_options = [(''matterd'', ''d'', YBoolean), (''matterc'', ''c'', YBoolean)]"

definition doMdns :: "'d handler" where
  "doMdns V args h =
     (let argv = ev_yargs V mdns_options args
      in if js_truthy (argv ''help'') then Inr (0, h)
         else let serviceName = (if js_truthy (argv ''c'') then MDNS_DOMAIN_COMMISSIONABLE
                                 else if js_truthy (argv ''d'') then MDNS_DOMAIN_COMMISSIONER else MDNS_DOMAIN_OPERATIONAL);
                  h = print_text ''Discover: '' (js_string serviceName) h
              in Inr (0, h\<lparr>sh_asked := sh_asked h @ queryAll serviceName ''PTR''\<rparr>))"

definition level_options :: "yoption list" where
  "level_options = [(''level'', ''l'', YString)]"

definition doLog :: "'d handler" where
  "doLog V args h =
     (let argv = ev_yargs V level_options args
      in Inr (0, if js_truthy (argv ''help'') \<or> length args \<le> 1 then h
                 else h\<lparr>sh_logged := sh_logged h @ map (\<lambda>level. (level, args ! 1)) [''trace'', ''debug'', ''info'', ''warn'', ''error'', ''fatal'']\<rparr>))"

text \<open>\<open>tracer.emit\<close> writes nothing at level 0, which may be stored as text.\<close>

definition doTrace :: "'d handler" where
  "doTrace V args h =
     (let argv = ev_yargs V level_options args
      in Inr (0, if js_truthy (argv ''help'') \<or> length args \<le> 1 \<or> to_number (st_tracer (sh_store h)) = Inr 0 then h
                 else h\<lparr>sh_traced := sh_traced h @ [args ! 1]\<rparr>))"

definition x509_options :: "yoption list" where
  "x509_options = [(''in'', ''i'', YString), (''out'', ''o'', YString)]"

definition doX509 :: "'d handler" where
  "doX509 V args h =
     (let argv = ev_yargs V x509_options args
      in if js_truthy (argv ''help'') then Inr (0, h)
         else if defined (argv ''in'') then rmap (\<lambda>s. (0, print (Text s) h)) (ev_x509 V (argv ''in'') (argv ''out''))
         else Inr (0, print Usage h))"

end
