(* ===== verification/Shell_Cli.thy ===== *)
theory Shell_Cli
  imports Shell_Commands
begin

text \<open>
  The shell (\<open>src/shell/Shell.js\<close>) and its table of commands (\<open>src/shell/cli.js\<close>): how a line is
  read, split and dispatched.
\<close>

section \<open>Words of a line\<close>

text \<open>\<open>line.split(/\s+/)\<close>: the stretches between maximal runs of white space, also the empty ones at the ends.\<close>

function split_spaces :: "16 word list \<Rightarrow> words" where
  "split_spaces s = takeWhile (Not \<circ> is_space) s #
     (case dropWhile (Not \<circ> is_space) s of [] \<Rightarrow> [] | u # us \<Rightarrow> split_spaces (dropWhile is_space us))"
  by pat_completeness auto
termination
proof (relation "measure length")
  fix s :: "16 word list" and u us
  assume "dropWhile (Not \<circ> is_space) s = u # us"
  then have "length (u # us) \<le> length s" by (metis length_dropWhile_le)
  moreover have "length (dropWhile is_space us) \<le> length us" by (rule length_dropWhile_le)
  ultimately show "(dropWhile is_space us, s) \<in> measure length" by simp
qed simp

declare split_spaces.simps [simp del]

section \<open>The table of commands\<close>

record 'd command =
  c_command :: string
  c_help :: string
  c_handler :: "'d handler"

definition PROMPT :: string where "PROMPT = ''matternode> ''"

text \<open>The commands and their help, in the order of the table; \<open>help\<close> prints it.\<close>

definition command_help :: "(string \<times> string) list" where
  "command_help =
     [(''help'', ''Display list of all commands''), (''config'', ''Display all config variables''), (''crypto'', ''Run crypto functions''),
      (''dacpriv'', ''Get and set the Device Attestation private key''), (''dacpub'', ''Get the Device Attestation public key''),
      (''dac'', ''Get the Device Attestation Certificate''), (''exchange'', ''Manage active exchanges''), (''exit'', ''Exit the shell''),
      (''fabricid'', ''Get and set the FabricId''), (''key'', ''Get and set the EncryptionKey''), (''log'', ''Output a log message''),
      (''loglevel'', ''Get and set the LogLevel''), (''mdns'', ''Execute the mDNS discovery client''), (''msg'', ''Encode a message''),
      (''nodeid'', ''Get and set the NodeId''), (''nodenum'', ''Get and set the Node Number''), (''pase'', ''Manage a PASE session''),
      (''port'', ''Get and set the IPv6 port''), (''session'', ''Manage active sessions''), (''tlv'', ''Encode / decode TLV''),
      (''trace'', ''Output a trace event''), (''tracelevel'', ''Get and set the TraceLevel''), (''x509'', ''Encode and decode X.509 certificates'')]"

definition doHelp :: "'d handler" where
  "doHelp V args h = Inr (0, fold (\<lambda>(c, t). print_text c (word_of_nat 9 # js_string t)) command_help h)"

definition doExit :: "'d handler" where
  "doExit V args h = Inr (0, (print_text ''Goodbye'' [] h)\<lparr>sh_exited := True\<rparr>)"

definition command_handlers :: "'d handler list" where
  "command_handlers =
     [doHelp, doConfig, doCrypto, doDaPrivateKey, doDaPublicKey, doDaCertificate, doExchange, doExit, doFabricId, doEncryptionKey, doLog,
      doLogLevel, doMdns, doMsg, doNodeId, doNodeNum, doPase, doIpPort, doSession, doTlv, doTrace, doTraceLevel, doX509]"

definition theCommandList :: "'d command list" where
  "theCommandList = map2 (\<lambda>(c, t) f. \<lparr>c_command = c, c_help = t, c_handler = f\<rparr>) command_help command_handlers"

section \<open>The shell\<close>

text \<open>What is printed after a command: its result, when it is not 0.\<close>

definition outcome :: "int \<Rightarrow> printed" where
  "outcome err = Text (if err \<noteq> 0 then js_string ''Error '' @ dec_string err else js_string ''Done'')"

text \<open>
  \<open>onReadLine\<close> on the line as it was typed, which is trimmed first; \<open>passthrough\<close> is
  \<open>configExecPassthrough\<close>. An exception of a handler is not caught.
\<close>

definition onReadLine :: "'d shell_env \<Rightarrow> 'd command list \<Rightarrow> bool \<Rightarrow> 16 word list \<Rightarrow> 'd shell \<Rightarrow> 'd shell result" where
  "onReadLine V commandList passthrough typed h =
     (let line = js_trim typed
      in if line = [] then Inr (print Prompt h)
         else let args = split_spaces line
              in (case find (\<lambda>entry. js_string (c_command entry) = args ! 0) commandList of
                    Some entry \<Rightarrow> rmap (\<lambda>(err, h). print Prompt (print (outcome err) h)) (c_handler entry V args h)
                  | None \<Rightarrow>
                      Inr (print Prompt (if passthrough then h\<lparr>sh_executed := sh_executed h @ [line]\<rparr>
                                         else print_text ''Error: command not found'' [] h))))"

text \<open>The callback of a command that the system's shell ran: its output, then an error, what it wrote as errors, or \<open>Done\<close>.\<close>

definition onExecuted :: "16 word list option \<Rightarrow> 16 word list \<Rightarrow> 16 word list \<Rightarrow> 'd shell \<Rightarrow> 'd shell" where
  "onExecuted error stdout stderr h =
     (let h = print (Text (word_of_nat 10 # stdout)) h
      in (case error of
            Some message \<Rightarrow> print_text ''error: '' message h
          | None \<Rightarrow> if stderr \<noteq> [] then print_text ''stderr: '' stderr h else print Prompt (print_text ''Done'' [] h)))"

text \<open>A line at the prompt of the program, and a whole session of lines; after \<open>exit\<close> the process is gone.\<close>

definition shell_line :: "'d shell_env \<Rightarrow> 16 word list \<Rightarrow> 'd shell \<Rightarrow> 'd shell result" where
  "shell_line V line h = (if sh_exited h then Inr h else onReadLine V theCommandList False line h)"

section \<open>Reading lines\<close>

text \<open>Words typed with a space between them and any white space around them are read as those words.\<close>

definition plain_word :: "16 word list \<Rightarrow> bool" where
  "plain_word w \<longleftrightarrow> w \<noteq> [] \<and> list_all (Not \<circ> is_space) w"

abbreviation line_of :: "words \<Rightarrow> 16 word list" where
  "line_of ws \<equiv> js_join [32] ws"

lemma plain_hd: "plain_word w \<Longrightarrow> \<not> is_space (hd w)" "plain_word w \<Longrightarrow> \<not> is_space (last w)"
  by (auto simp: plain_word_def list_all_iff)

lemma js_trim_around:
  assumes "list_all is_space pre" and "list_all is_space post" and "s \<noteq> []" and "\<not> is_space (hd s)" and "\<not> is_space (last s)"
  shows "js_trim (pre @ s @ post) = s"
proof -
  have "dropWhile is_space (pre @ s @ post) = s @ post" using assms by (cases s) (simp_all add: list_all_iff dropWhile_append2)
  moreover obtain u us where "rev s = u # us" "\<not> is_space u" using assms(3,5) by (cases "rev s") (auto simp: last_rev [of "rev s", simplified])
  then have "dropWhile is_space (rev post @ rev s) = rev s"
    using assms(2) by (subst dropWhile_append2) (auto simp: list_all_iff)
  ultimately show ?thesis by (simp add: js_trim_def)
qed

lemma line_bounds: "ws \<noteq> [] \<Longrightarrow> list_all plain_word ws \<Longrightarrow> line_of ws \<noteq> [] \<and> \<not> is_space (hd (line_of ws)) \<and> \<not> is_space (last (line_of ws))"
proof (induction ws rule: list_nonempty_induct)
  case (single w)
  then show ?case by (simp add: plain_hd) (simp add: plain_word_def)
next
  case (cons w ws)
  then have "plain_word w" "w \<noteq> []" "line_of ws \<noteq> []" "\<not> is_space (last (line_of ws))" by (simp_all add: plain_word_def)
  then show ?case using cons.hyps plain_hd(1) by (simp add: js_join_Cons)
qed

lemmas line_ends = line_bounds [THEN conjunct1] line_bounds [THEN conjunct2, THEN conjunct1] line_bounds [THEN conjunct2, THEN conjunct2]

lemma split_line: "ws \<noteq> [] \<Longrightarrow> list_all plain_word ws \<Longrightarrow> split_spaces (line_of ws) = ws"
proof (induction ws rule: list_nonempty_induct)
  case (single w)
  then have "takeWhile (Not \<circ> is_space) w = w" "dropWhile (Not \<circ> is_space) w = []"
    by (simp_all add: plain_word_def list_all_iff)
  then show ?case by (simp only: split_spaces.simps [of w] js_join.simps list.case)
next
  case (cons w ws)
  have w: "\<forall>u \<in> set w. (Not \<circ> is_space) u" "list_all plain_word ws" using cons.prems by (simp_all add: plain_word_def list_all_iff)
  have sp: "is_space 32" by (simp add: is_space_def)
  obtain u us where u: "line_of ws = u # us" "\<not> is_space u" using line_ends [OF cons.hyps(1) w(2)] by (cases "line_of ws") auto
  have l: "line_of (w # ws) = w @ 32 # u # us" using cons.hyps u by (simp add: js_join_Cons)
  have "takeWhile (Not \<circ> is_space) (w @ 32 # u # us) = w" "dropWhile (Not \<circ> is_space) (w @ 32 # u # us) = 32 # u # us"
    using w(1) sp by (simp_all add: takeWhile_append2 dropWhile_append2)
  moreover have "dropWhile is_space (u # us) = line_of ws" using u by simp
  ultimately show ?case unfolding l split_spaces.simps [of "w @ 32 # u # us"] using cons w(2) by simp
qed

lemma command_names: "distinct (map (js_string \<circ> fst) command_help)" "length command_help = length (command_handlers :: 'd handler list)"
proof -
  show "distinct (map (js_string \<circ> fst) command_help)" by code_simp
  show "length command_help = length (command_handlers :: 'd handler list)" by (simp add: command_help_def command_handlers_def)
qed

lemma find_distinct: "distinct (map f xs) \<Longrightarrow> x \<in> set xs \<Longrightarrow> find (\<lambda>y. f y = f x) xs = Some x"
  by (induction xs) (auto simp: image_iff)

lemma theCommandList_nth:
  "i < length command_help \<Longrightarrow> (theCommandList :: 'd command list) ! i = \<lparr>c_command = fst (command_help ! i), c_help = snd (command_help ! i), c_handler = command_handlers ! i\<rparr>"
  "length (theCommandList :: 'd command list) = length command_help"
  using command_names(2) [where 'd = 'd] by (simp_all add: theCommandList_def split_beta)

lemma find_command:
  assumes "entry \<in> set (theCommandList :: 'd command list)"
  shows "find (\<lambda>e. js_string (c_command e) = js_string (c_command entry)) theCommandList = Some entry"
proof -
  have "map (js_string \<circ> c_command) (theCommandList :: 'd command list) = map (js_string \<circ> fst) command_help"
    by (rule nth_equalityI) (simp_all add: theCommandList_nth)
  then have "distinct (map (js_string \<circ> c_command) (theCommandList :: 'd command list))" using command_names(1) by simp
  from find_distinct [OF this assms] show ?thesis by simp
qed

text \<open>
  A command typed with its words: its handler gets the words, and its result is printed with
  \<open>Done\<close> before the next prompt.
\<close>

lemma shell_runs:
  assumes "entry \<in> set theCommandList" and "list_all plain_word ws" and "\<not> sh_exited h" and "plain_word (js_string (c_command entry))"
  shows "shell_line V (line_of (js_string (c_command entry) # ws)) h =
    rmap (\<lambda>(err, h). print Prompt (print (outcome err) h)) (c_handler entry V (js_string (c_command entry) # ws) h)"
proof -
  let ?ws = "js_string (c_command entry) # ws"
  have w: "list_all plain_word ?ws" using assms by simp
  have t: "js_trim (line_of ?ws) = line_of ?ws" using js_trim_around [of "[]" "[]" "line_of ?ws"] line_ends [OF _ w] by simp
  show ?thesis
    using split_line [OF _ w] line_ends(1) [OF _ w] find_command [OF assms(1)] assms(3) unfolding shell_line_def onReadLine_def t Let_def by simp
qed

end
