(* ===== verification/Shell_Session.thy ===== *)
theory Shell_Session
  imports Shell_Cli
begin

text \<open>
  What lines typed at the prompt do, end to end: through the shell, the option parser and the
  command to the store, the cipher, the TLV codec and the network.
\<close>

section \<open>The option parser\<close>

text \<open>
  What a command asks of \<open>yargs\<close>: behind its own word, options of its own table given as \<open>--name value\<close>
  have that value, and the other names that the command reads are \<open>undefined\<close>. Only the names that the
  command reads are spoken of, since \<open>yargs\<close> may define more (\<open>_\<close>, \<open>$0\<close>, the camel case of a hyphenated
  name), and only lines that give an option once, with a value that is not empty, quoted or like an
  option, and for a number option an integer in decimal that a double holds.
\<close>

fun option_value :: "option_type \<Rightarrow> 16 word list \<Rightarrow> jsval" where
  "option_value YNumber s = (case canonical_int s of Some k \<Rightarrow> JNum k | None \<Rightarrow> JUndef)"
| "option_value _ s = JStr s"

definition given_words :: "(string \<times> 16 word list) list \<Rightarrow> words" where
  "given_words given = concat (map (\<lambda>(n, v). [js_string (''--'' @ n), v]) given)"

definition option_given :: "yoption list \<Rightarrow> string \<times> 16 word list \<Rightarrow> bool" where
  "option_given opts = (\<lambda>(n, v). v \<noteq> [] \<and> hd v \<notin> {34, 39, 45} \<and>
     (\<exists>a t. (n, a, t) \<in> set opts \<and> t \<noteq> YBoolean \<and> (t = YNumber \<longrightarrow> (case canonical_int v of None \<Rightarrow> False | Some k \<Rightarrow> \<bar>k\<bar> < 2 ^ 53))))"

definition option_read :: "yoption list \<Rightarrow> (string \<times> 16 word list) list \<Rightarrow> argv" where
  "option_read opts given m = (case find (\<lambda>(n, a, t). m = n \<or> m = a) opts of
      None \<Rightarrow> JUndef | Some (n, a, t) \<Rightarrow> (case map_of given n of None \<Rightarrow> JUndef | Some v \<Rightarrow> option_value t v))"

definition parses :: "(yoption list \<Rightarrow> words \<Rightarrow> argv) \<Rightarrow> yoption list \<Rightarrow> string \<Rightarrow> string list \<Rightarrow> bool" where
  "parses Y opts c names \<longleftrightarrow> (\<forall>given. distinct (map fst given) \<longrightarrow> list_all (option_given opts) given \<longrightarrow>
     (\<forall>m \<in> set names. Y opts (js_string c # given_words given) m = option_read opts given m))"



abbreviation pase_names :: "string list" where
  "pase_names \<equiv> [''help'', ''dst'', ''p'', ''h'', ''key'']"

abbreviation msg_names :: "string list" where
  "msg_names \<equiv> [''help'', ''dst'', ''src'', ''session'', ''exchange'', ''counter'', ''x'', ''c'', ''i'', ''a'', ''r'', ''key'', ''p'', ''h'']"

text \<open>A parser that does this.\<close>

fun word_pairs :: "words \<Rightarrow> (16 word list \<times> 16 word list) list" where
  "word_pairs (a # b # ws) = (a, b) # word_pairs ws"
| "word_pairs _ = []"

definition toy_yargs :: "yoption list \<Rightarrow> words \<Rightarrow> argv" where
  "toy_yargs opts ws m = (case find (\<lambda>(n, a, t). m = n \<or> m = a) opts of
      None \<Rightarrow> JUndef
    | Some (n, a, t) \<Rightarrow> (case map_of (word_pairs (tl ws)) (js_string (''--'' @ n)) of None \<Rightarrow> JUndef | Some v \<Rightarrow> option_value t v))"

lemma js_string_inj: "js_string s = js_string t \<longleftrightarrow> s = t"
proof -
  have u: "unat (word_of_nat (of_char c) :: 16 word) = of_char c" for c :: char
  proof -
    have "take_bit 16 (of_char c :: nat) = of_char c" by (rule take_bit_nat_eq_self, rule less_trans [OF nat_of_char_less_256]) simp
    then show ?thesis by (subst unsigned_of_nat) simp
  qed
  have "inj (\<lambda>c :: char. word_of_nat (of_char c) :: 16 word)" by (rule injI) (metis u of_char_eq_iff)
  then show ?thesis by (simp add: js_string_def inj_map_eq_map)
qed

lemma word_pairs_given: "word_pairs (given_words given) = map (\<lambda>(n, v). (js_string (''--'' @ n), v)) given"
  by (induction given) (auto simp: given_words_def)

lemma map_of_inj_keys: "(\<And>a b. f a = f b \<longleftrightarrow> a = b) \<Longrightarrow> map_of (map (\<lambda>(n, v). (f n, v)) xs) (f k) = map_of xs k"
  by (induction xs) auto

lemma toy_yargs_read: "toy_yargs opts (c # given_words given) = option_read opts given"
proof -
  have "map_of (word_pairs (given_words given)) (js_string (''--'' @ n)) = map_of given n" for n
    unfolding word_pairs_given by (rule map_of_inj_keys [where f = "\<lambda>n. js_string (''--'' @ n)"]) (simp add: js_string_inj)
  then show ?thesis by (simp only: toy_yargs_def option_read_def fun_eq_iff list.sel) simp
qed

lemma toy_yargs_none: "toy_yargs opts [c] m = JUndef"
  by (simp add: toy_yargs_def split: option.splits)

lemma toy_yargs_parses: "parses toy_yargs opts c names"
  by (simp add: parses_def toy_yargs_read)

section \<open>Command lines\<close>

lemma command_plain: "list_all (plain_word \<circ> js_string \<circ> fst) command_help"
  by code_simp

lemma run_command:
  assumes "command_help ! i = (c, t)" and "command_handlers ! i = f" and "i < length command_help" and "list_all plain_word ws" and "\<not> sh_exited h"
  shows "shell_line V (line_of (js_string c # ws)) h = rmap (\<lambda>(err, h). print Prompt (print (outcome err) h)) (f V (js_string c # ws) h)"
proof -
  let ?e = "theCommandList ! i :: 'a command"
  have "?e \<in> set theCommandList" using assms(3) by (simp add: theCommandList_nth(2))
  moreover have "plain_word (js_string (c_command ?e))" using assms(3) command_plain by (simp add: theCommandList_nth(1) list_all_length)
  ultimately show ?thesis using shell_runs [of ?e ws h V] assms by (simp add: theCommandList_nth(1))
qed

lemma js_string_append: "js_string (s @ t) = js_string s @ js_string t"
  by (simp add: js_string_def)

text \<open>A line with one option.\<close>

abbreviation option_line :: "string \<Rightarrow> string \<Rightarrow> 16 word list \<Rightarrow> 16 word list" where
  "option_line c n v \<equiv> js_string (c @ '' --'' @ n @ '' '') @ v"

lemma option_line_words: "option_line c n v = line_of (js_string c # given_words [(n, v)])"
  by (simp add: given_words_def js_string_append) (simp add: js_string_def)

lemma yargs_reads:
  assumes "parses Y opts c names" and "distinct (map fst given)" and "list_all (option_given opts) given" and "m \<in> set names"
  shows "Y opts (js_string c # given_words given) m = option_read opts given m"
  using assms unfolding parses_def by blast

section \<open>The cipher\<close>






text \<open>A node whose store holds the test key, with no sessions; its shell has just started.\<close>

definition demo_shell :: "(string \<rightharpoonup> 16 word list) shell" where
  "demo_shell = \<lparr>sh_node = started_node, sh_store = demo_store\<lparr>st_encryptionKey := JStr default_EncryptionKey\<rparr>, sh_out = [Prompt], sh_logged = [],
     sh_traced = [], sh_asked = [], sh_executed = [], sh_exited = False\<rparr>"

definition demo_shell_env :: "(string \<rightharpoonup> 16 word list) shell_env" where
  "demo_shell_env = \<lparr>ev_aead = toy_aead, ev_yargs = toy_yargs, ev_store = demo_env, ev_x509 = (\<lambda>c f. Inl TypeError), ev_strict = True\<rparr>"

lemma default_key: "hex_decode default_EncryptionKey = test_keys ! 0" "length (hex_decode default_EncryptionKey) = 16"
proof -
  show "hex_decode default_EncryptionKey = test_keys ! 0" unfolding default_EncryptionKey_def test_key_0 by code_simp
  then show "length (hex_decode default_EncryptionKey) = 16" by (simp add: test_key_length)
qed


section \<open>TLV\<close>







section \<open>The store\<close>

text \<open>What a handler promises of the store: its identity stays saved.\<close>

definition keeps_saved :: "'d handler \<Rightarrow> bool" where
  "keeps_saved f \<longleftrightarrow> (\<forall>V ws h err h'. storage_ok (se_storage (ev_store V)) \<longrightarrow> saved (ev_store V) (sh_store h) \<longrightarrow> f V ws h = Inr (err, h') \<longrightarrow>
     saved (ev_store V) (sh_store h'))"

lemma print_store [simp]: "sh_store (print p h) = sh_store h"
  by (simp add: print_def)

lemma keeps_saved_same: "(\<And>V ws h err h'. f V ws h = Inr (err, h') \<Longrightarrow> sh_store h' = sh_store h) \<Longrightarrow> keeps_saved f"
  unfolding keeps_saved_def by metis

lemma keeps_saved_config:
  assumes "\<And>E v. setter E (JStr v) = apply_op E (op v)" and "\<And>v. op_ok (op v)"
  shows "keeps_saved (config_value setter getter)"
  unfolding keeps_saved_def
proof (intro allI impI)
  fix V ws h err h'
  assume a: "storage_ok (se_storage (ev_store V))" "saved (ev_store V) (sh_store h)" "config_value setter getter V ws h = Inr (err, h')"
  show "saved (ev_store V) (sh_store h')"
  proof (cases "1 < length ws")
    case True
    then obtain t where "apply_op (ev_store V) (op (ws ! 1)) (sh_store h) = Inr t" "sh_store h' = t"
      using a(3) assms(1) by (auto simp: config_value_def)
    then show ?thesis using apply_op_saved [OF a(1,2) assms(2)] by simp
  qed (use a in \<open>auto simp: config_value_def\<close>)
qed

lemma config_keeps_saved:
  "keeps_saved doNodeId" "keeps_saved doFabricId" "keeps_saved doEncryptionKey" "keeps_saved doNodeNum" "keeps_saved doIpPort" "keeps_saved doDaPrivateKey"
  "keeps_saved (config_value set_LogLevel g)" "keeps_saved (config_value set_TraceLevel g)"
proof -
  show "keeps_saved doNodeId" unfolding doNodeId_def by (rule keeps_saved_config [where op = "SetNodeId \<circ> JStr"]) simp_all
  show "keeps_saved doFabricId" unfolding doFabricId_def by (rule keeps_saved_config [where op = "SetFabricId \<circ> JStr"]) simp_all
  show "keeps_saved doEncryptionKey" unfolding doEncryptionKey_def by (rule keeps_saved_config [where op = "SetEncryptionKey \<circ> JStr"]) simp_all
  show "keeps_saved doNodeNum" unfolding doNodeNum_def by (rule keeps_saved_config [where op = "SetNodeNum \<circ> JStr"]) simp_all
  show "keeps_saved doIpPort" unfolding doIpPort_def by (rule keeps_saved_config [where op = "SetIpPort \<circ> JStr"]) simp_all
  show "keeps_saved doDaPrivateKey" unfolding doDaPrivateKey_def by (rule keeps_saved_config [where op = SetDaPrivateKey]) simp_all
  show "keeps_saved (config_value set_LogLevel g)" by (rule keeps_saved_config [where op = "SetLogLevel \<circ> JStr"]) simp_all
  show "keeps_saved (config_value set_TraceLevel g)" by (rule keeps_saved_config [where op = "SetTraceLevel \<circ> JStr"]) simp_all
qed

lemma keeps_saved_printing:
  assumes "keeps_saved f" and "\<And>V ws h. g V ws h = f V ws (if P V ws then print p h else h)"
  shows "keeps_saved g"
  unfolding keeps_saved_def
proof (intro allI impI)
  fix V ws h err h'
  assume a: "storage_ok (se_storage (ev_store V))" "saved (ev_store V) (sh_store h)" "g V ws h = Inr (err, h')"
  let ?h = "if P V ws then print p h else h"
  have "saved (ev_store V) (sh_store ?h)" "f V ws ?h = Inr (err, h')" using a assms(2) by simp_all
  with assms(1) a(1) show "saved (ev_store V) (sh_store h')" unfolding keeps_saved_def by blast
qed

lemma level_keeps_saved: "keeps_saved doLogLevel" "keeps_saved doTraceLevel"
  by (rule keeps_saved_printing [OF config_keeps_saved(7)], rule doLogLevel_def)
    (rule keeps_saved_printing [OF config_keeps_saved(8)], rule doTraceLevel_def)

lemma dump_store: "dump h = Inr h' \<Longrightarrow> sh_store h' = sh_store h"
  by (auto simp: dump_def dump_line_def Let_def)

lemma help_store: "sh_store (fold (\<lambda>(c, t). print_text c (u # js_string t)) xs h) = sh_store h"
  by (induction xs arbitrary: h) auto

text \<open>The other commands leave the store alone, on every path through them.\<close>

definition leaves :: "'d store \<Rightarrow> (int \<times> 'd shell) result \<Rightarrow> bool" where
  "leaves t r \<longleftrightarrow> (\<forall>err h. r = Inr (err, h) \<longrightarrow> sh_store h = t)"

lemma leaves_error: "leaves t (Inl e)"
  by (simp add: leaves_def)

lemma leaves_result: "sh_store h = t \<Longrightarrow> leaves t (Inr (err, h))"
  by (simp add: leaves_def)

lemma leaves_bind: "(\<And>x. leaves t (f x)) \<Longrightarrow> leaves t (rbind r f)"
  by (cases r) (simp_all add: leaves_def)

lemma leaves_map: "(\<And>x. sh_store (snd (f x)) = t) \<Longrightarrow> leaves t (rmap f r)"
  by (cases r) (auto simp: leaves_def, metis snd_conv)

lemma leaves_if: "leaves t r \<Longrightarrow> leaves t r' \<Longrightarrow> leaves t (if b then r else r')"
  by simp

lemma leaves_pair: "(\<And>a b. leaves t (f a b)) \<Longrightarrow> leaves t (case x of (a, b) \<Rightarrow> f a b)"
  by (cases x) simp

lemma leaves_string: "(\<And>s. leaves t (f s)) \<Longrightarrow> leaves t (case v of JStr s \<Rightarrow> f s | _ \<Rightarrow> Inl e)"
  by (cases v) (simp_all add: leaves_error)

lemmas leaves_intros = leaves_pair leaves_string leaves_error leaves_result leaves_bind leaves_map leaves_if

lemma keeps_saved_leaves: "(\<And>V ws h. leaves (sh_store h) (f V ws h)) \<Longrightarrow> keeps_saved f"
  by (rule keeps_saved_same) (simp add: leaves_def)

lemma client_send_store: "client_send m p q h = Inr h' \<Longrightarrow> sh_store h' = sh_store h"
  by (auto simp: client_send_def)

lemma show_session_store: "sh_store (show_session v h) = sh_store h"
  by (simp add: show_session_def split: option.split)

lemma leaves_send: "sh_store h = t \<Longrightarrow> leaves t (rmap (Pair 0) (client_send m p q h))"
  using client_send_store by (auto simp: leaves_def)

lemma others_keep_saved:
  "keeps_saved doHelp" "keeps_saved doConfig" "keeps_saved doCrypto" "keeps_saved doDaPublicKey" "keeps_saved doDaCertificate" "keeps_saved doExchange"
  "keeps_saved doExit" "keeps_saved doLog" "keeps_saved doMdns" "keeps_saved doMsg" "keeps_saved doPase" "keeps_saved doSession" "keeps_saved doTlv"
  "keeps_saved doTrace" "keeps_saved doX509"
proof -
  show "keeps_saved doHelp" by (rule keeps_saved_same) (auto simp: doHelp_def help_store)
  show "keeps_saved doConfig" by (rule keeps_saved_same) (auto simp: doConfig_def dump_store)
  show "keeps_saved doDaPublicKey" "keeps_saved doDaCertificate" by (rule keeps_saved_same, auto simp: doDaPublicKey_def doDaCertificate_def)+
  show "keeps_saved doExit" by (rule keeps_saved_same) (auto simp: doExit_def)
  note keeps = keeps_saved_leaves and step = leaves_intros leaves_send
  show "keeps_saved doCrypto" by (rule keeps) (simp only: doCrypto_def Let_def, intro step, simp_all split: option.split)
  show "keeps_saved doExchange" by (rule keeps) (simp only: doExchange_def Let_def, intro step, simp_all)
  show "keeps_saved doLog" by (rule keeps) (simp only: doLog_def Let_def, intro step, simp)
  show "keeps_saved doMdns" by (rule keeps) (simp only: doMdns_def Let_def, intro step, simp_all)
  show "keeps_saved doTrace" by (rule keeps) (simp only: doTrace_def Let_def, intro step, simp)
  show "keeps_saved doMsg" by (rule keeps) (simp only: doMsg_def Let_def, intro step, simp_all)
  show "keeps_saved doPase" by (rule keeps) (simp only: doPase_def Let_def, intro step, simp_all)
  show "keeps_saved doSession" by (rule keeps) (simp only: doSession_def Let_def, intro step, simp add: show_session_store)
  show "keeps_saved doTlv" by (rule keeps) (simp only: doTlv_def Let_def, intro step, simp_all)
  show "keeps_saved doX509" by (rule keeps) (simp only: doX509_def Let_def, intro step, simp_all)
qed

lemma commands_keep_saved: "list_all keeps_saved command_handlers"
  by (simp add: command_handlers_def config_keeps_saved level_keeps_saved others_keep_saved)

lemma entry_handler: "entry \<in> set (theCommandList :: 'd command list) \<Longrightarrow> c_handler entry \<in> set (command_handlers :: 'd handler list)"
  by (auto simp: theCommandList_def dest: set_zip_rightD)

lemma shell_line_saved:
  assumes "storage_ok (se_storage (ev_store V))" and "saved (ev_store V) (sh_store h)" and "shell_line V line h = Inr h'"
  shows "saved (ev_store V) (sh_store h')"
proof (cases "find (\<lambda>e. js_string (c_command e) = split_spaces (js_trim line) ! 0) (theCommandList :: 'a command list)")
  case None
  then show ?thesis using assms(2,3) by (auto simp: shell_line_def onReadLine_def Let_def split: if_splits)
next
  case (Some e)
  then have "e \<in> set theCommandList" by (metis find_Some_iff nth_mem)
  then have "keeps_saved (c_handler e)" using entry_handler commands_keep_saved by (auto simp: list_all_iff)
  then show ?thesis using assms Some unfolding keeps_saved_def
    by (fastforce simp: shell_line_def onReadLine_def Let_def split: if_splits)
qed

text \<open>
  (C28) Whatever is typed at the prompt, in any number of lines, the node comes back as it was: after
  the lines, a restart reads the node id, the fabric id, the encryption key and the node number that
  the commands left in the store, and the port is the default port plus the node number again.
\<close>

theorem shell_restart:
  assumes "storage_ok (se_storage (ev_store V))" and "saved (ev_store V) (sh_store h)" and "rfold (shell_line V) lines h = Inr h'"
    and "\<exists>l. to_text lg = Inr l" and "\<exists>l. to_text tr = Inr l" and "se_publicKey (ev_store V) TEST_DAC_PRIVKEY = Inr pk"
  shows "\<exists>t k. store_init (ev_store V) lg tr (st_storage (sh_store h')) = Inr t \<and> st_nodeid t = st_nodeid (sh_store h') \<and>
    st_fabricid t = st_fabricid (sh_store h') \<and> st_encryptionKey t = st_encryptionKey (sh_store h') \<and>
    to_number (st_nodenum (sh_store h')) = Inr k \<and> to_number (st_nodenum t) = Inr k \<and> st_ipPort t = JNum (DEFAULT_PORT + k)"
proof -
  have "saved (ev_store V) (sh_store h')"
    using assms(2,3) shell_line_saved [OF assms(1)] by (induction lines arbitrary: h) auto
  moreover from this obtain k where "to_number (st_nodenum (sh_store h')) = Inr k" using saved_truthy(10) by blast
  ultimately show ?thesis using restart_from_saved [OF assms(1) _ assms(4,5,6)] by blast
qed

text \<open>Setting the port, then the node id: after the restart the node id is the new one, the port is the default.\<close>

theorem shell_restart_witness:
  "\<exists>h' t. rfold (shell_line demo_shell_env) [js_string ''port 9999'', js_string ''nodeid 1234abcd''] (demo_shell\<lparr>sh_store := demo_store\<rparr>) = Inr h' \<and>
    st_ipPort (sh_store h') = JNum 9999 \<and> store_init demo_env (JStr []) (JNum 1) (st_storage (sh_store h')) = Inr t \<and>
    st_nodeid t = JStr (js_string ''000000001234abcd'') \<and> st_ipPort t = JNum 5542"
proof -
  let ?h = "demo_shell\<lparr>sh_store := demo_store\<rparr>"
  have w: "js_string ''port 9999'' = line_of (js_string ''port'' # [js_string ''9999''])" "js_string ''nodeid 1234abcd'' = line_of (js_string ''nodeid'' # [js_string ''1234abcd''])"
    "list_all plain_word [js_string ''9999'']" "list_all plain_word [js_string ''1234abcd'']"
    by (simp_all add: js_string_def plain_word_def is_space_def)
  have p: "to_number (JStr (js_string ''9999'')) = Inr 9999" by (simp add: js_string_def canonical_int_def canonical_nat_def)
  have x: "formatHex (JStr (js_string ''1234abcd'')) 16 = Inr (js_string ''000000001234abcd'')" by (simp add: formatHex_def pad_zeros_eq js_string_def numeral_eq_Suc)
  have e: "ev_store demo_shell_env = demo_env" by (simp add: demo_shell_env_def)
  obtain h1 where h1: "shell_line demo_shell_env (js_string ''port 9999'') ?h = Inr h1" "st_ipPort (sh_store h1) = JNum 9999" "\<not> sh_exited h1"
    "st_nodenum (sh_store h1) = JNum 2"
    unfolding w(1) using run_command [of 17 "''port''" _ doIpPort, OF _ _ _ w(3), where h = ?h and V = demo_shell_env] p
    by (simp add: command_help_def command_handlers_def demo_shell_def doIpPort_def config_value_def set_IpPort_def setItem_def print_def demo_store_def)
  obtain h2 where h2: "shell_line demo_shell_env (js_string ''nodeid 1234abcd'') h1 = Inr h2" "st_ipPort (sh_store h2) = JNum 9999"
    "st_nodeid (sh_store h2) = JStr (js_string ''000000001234abcd'')" "st_nodenum (sh_store h2) = JNum 2"
    unfolding w(2) using run_command [of 14 "''nodeid''" _ doNodeId, OF _ _ _ w(4) h1(3), where V = demo_shell_env] x h1(2,4)
    by (simp add: command_help_def command_handlers_def doNodeId_def config_value_def set_NodeId_def setItem_def print_def)
  have r: "rfold (shell_line demo_shell_env) [js_string ''port 9999'', js_string ''nodeid 1234abcd''] ?h = Inr h2" using h1(1) h2(1) by simp
  show ?thesis
    using shell_restart [OF _ _ r, of "JStr []" "JNum 1" TEST_DAC_PRIVKEY] demo_saved h2 r e
    by (auto simp: demo_shell_def demo_env_def DEFAULT_PORT_def)
qed

section \<open>PASE\<close>

text \<open>
  The address given to the \<open>pase\<close> command is ignored: whatever \<open>--ip\<close> says, the handshake that
  an idle node starts sends its first datagram to port 5540 of \<open>::1\<close>, since the command reads the option
  \<open>h\<close>, which it does not declare.
\<close>

theorem pase_command_ignores_ip:
  assumes "parses (ev_yargs V) pase_options ''pase'' pase_names" and "plain_word addr" and "hd addr \<notin> {34, 39, 45}" and "\<not> sh_exited h"
    and "idle_node (sh_node h)" and "0 \<le> x_nextExchangeId (sh_node h)" and "x_nextExchangeId (sh_node h) < 2 ^ 16"
    and "\<forall>d. random_id (n_random (sh_node h)) d \<noteq> 0"
  shows "\<exists>n. shell_line V (option_line ''pase'' ''ip'' addr) h = Inr (print Prompt (print (Text (js_string ''Done'')) (h\<lparr>sh_node := n\<rparr>))) \<and>
    pase_connect (ev_aead V) ''::1'' 5540 (sh_node h) = Inr n \<and> n_sent n \<noteq> [] \<and> p_host (last (n_sent n)) = ''::1'' \<and> p_port (last (n_sent n)) = 5540"
proof -
  let ?ws = "given_words [(''ip'', addr)]" and ?ar = "\<lparr>pi_address = ''::1'', pi_port = 5540\<rparr>"
  have g: "list_all (option_given pase_options) [(''ip'', addr)]" using assms(2,3) by (auto simp: option_given_def pase_options_def plain_word_def)
  have w: "list_all plain_word ?ws" using assms(2) by (simp add: given_words_def plain_word_def js_string_def is_space_def)
  have r: "ev_yargs V pase_options (js_string ''pase'' # ?ws) m = JUndef" if "m \<in> {''help'', ''dst'', ''p'', ''h'', ''key''}" for m
  proof -
    have "ev_yargs V pase_options (js_string ''pase'' # ?ws) m = option_read pase_options [(''ip'', addr)] m"
      using that g by (intro yargs_reads [OF assms(1)]) simp_all
    then show ?thesis using that by (auto simp: option_read_def pase_options_def)
  qed
  obtain n p v rnd sid where n: "pase_connect (ev_aead V) ''::1'' 5540 (sh_node h) = Inr n"
    and sd: "said p True ?ar (x_nextExchangeId (sh_node h)) v PaseCommand_ParamRequest (tlv_bytes (request_elem rnd sid)) n"
    using node_opens [OF assms(5-8), of "ev_aead V" ?ar] by auto
  have "n_sent n \<noteq> []" "?ar = \<lparr>pi_address = p_host (last (n_sent n)), pi_port = p_port (last (n_sent n))\<rparr>"
    using sd unfolding said_def sent_last_def by blast+
  moreover have "doPase V (js_string ''pase'' # ?ws) h = Inr (0, h\<lparr>sh_node := n\<rparr>)"
    using r n by (simp add: doPase_def js_truthy_def defined_def node_id_option_def number_or_def host_or_def)
  then have "shell_line V (option_line ''pase'' ''ip'' addr) h = Inr (print Prompt (print (Text (js_string ''Done'')) (h\<lparr>sh_node := n\<rparr>)))"
    unfolding option_line_words using run_command [of 16 "''pase''" _ doPase, OF _ _ _ w assms(4), where V = V]
    by (simp add: command_help_def command_handlers_def outcome_def)
  ultimately show ?thesis using n by auto
qed

theorem pase_command_ignores_ip_witness:
  "\<exists>n. shell_line demo_shell_env (option_line ''pase'' ''ip'' (js_string ''fe80::1'')) demo_shell =
      Inr (print Prompt (print (Text (js_string ''Done'')) (demo_shell\<lparr>sh_node := n\<rparr>))) \<and> p_host (last (n_sent n)) = ''::1''"
proof -
  have "plain_word (js_string ''fe80::1'')" "hd (js_string ''fe80::1'') \<notin> {34, 39, 45}" by (simp_all add: plain_word_def js_string_def is_space_def)
  moreover have "sh_node demo_shell = started_node" "\<not> sh_exited demo_shell" "parses (ev_yargs demo_shell_env) pase_options ''pase'' pase_names"
    using toy_yargs_parses by (simp_all add: demo_shell_def demo_shell_env_def)
  ultimately show ?thesis using pase_command_ignores_ip [of demo_shell_env "js_string ''fe80::1''" demo_shell] started_node_idle by auto
qed

section \<open>Messages\<close>

definition msg_wire :: wire where
  "msg_wire = zero_wire\<lparr>w_sid := 0x0BB8, w_ctr := 0x3039, w_xflags := 5, w_opcode := 0x64, w_xid := 0x0EEE, w_pid := 0x7D20\<rparr>"

lemma msg_wire_ok: "wire_ok msg_wire" "length (wire_bytes msg_wire) = 14" "header_size (wire_bytes msg_wire) = 8"
proof -
  show "wire_ok msg_wire" by (simp add: msg_wire_def zero_wire_def wire_ok_def wire_ranges_def id_size_def)
  show "length (wire_bytes msg_wire) = 14" by (simp add: length_wire_bytes) (simp add: msg_wire_def zero_wire_def)
  show "header_size (wire_bytes msg_wire) = 8" by (rule wire_header) (simp_all add: msg_wire_def zero_wire_def)
qed

lemma radix_val_hex: "radix_val 16 acc s \<noteq> None \<Longrightarrow> u \<in> set s \<Longrightarrow> hex_digit u \<noteq> None"
  by (induction s arbitrary: acc) (auto split: option.splits if_splits)

lemma hex_not_space: "hex_digit u \<noteq> None \<Longrightarrow> \<not> is_space u"
  by (auto simp: hex_digit_def is_space_def Let_def split: if_splits)

lemma BigInt_hex:
  assumes "numeral_val 16 s = Some k"
  shows "js_BigInt (JStr (js_string ''0x'' @ s)) = Inr k"
proof -
  have s: "s \<noteq> []" "radix_val 16 0 s \<noteq> None" using assms by (auto simp: numeral_val_def split: if_splits)
  have "\<not> is_space (last s)" using s radix_val_hex [OF s(2)] by (intro hex_not_space) simp
  then have "js_trim (js_string ''0x'' @ s) = js_string ''0x'' @ s"
    using js_trim_around [of "[]" "[]" "js_string ''0x'' @ s"] s(1) by (simp add: js_string_def is_space_def)
  then show ?thesis using assms by (simp add: js_BigInt_def string_bigint_def js_string_def)
qed

lemma no_ids: "f AND 4 = 0 \<Longrightarrow> f AND 1 = 0 \<Longrightarrow> encodeHeader f sf sid ctr src dst = encodeHeader f sf sid ctr None None"
  by (simp add: encodeHeader_def MSG_FLAGS_SRC_PRESENT_def MSG_FLAGS_DST_PRESENT_def)

lemma msg_fields_default:
  assumes "\<forall>m \<in> set msg_names. argv m = JUndef"
  shows "msg_fields src key argv = Inr (wire_bytes msg_wire, key)"
proof -
  have f: "encodeMessageFlags 0 0 0 = 0" "encodeSecurityFlags MSG_SESSION_TYPE_UNICAST 0 0 0 = 0" "encodeExchangeFlags 1 0 1 0 0 = 5"
    by (simp_all add: encodeMessageFlags_def encodeSecurityFlags_def encodeExchangeFlags_def MSG_SESSION_TYPE_UNICAST_def)
  have h: "encodeHeader 0 0 0x0BB8 0x3039 (Some src) (Some dst) = Inr (header_octets 0 0 0x0BB8 0x3039)" for src dst
    using encodeHeader_ok [of 0 0 "0x0BB8" "0x3039" None None] no_ids [of 0 0 "0x0BB8" "0x3039" "Some src" "Some dst"] by (simp add: opt_in_range_def opt_field_def)
  have p: "encodeProtocolHeader 5 0x0EEE 0x64 0x7D20 None None = Inr (protocol_octets 5 0x0EEE 0x64 0x7D20)"
    using encodeProtocolHeader_ok [of 5 "0x64" "0x0EEE" "0x7D20" None None] by (simp add: opt_in_range_def opt_field_def)
  show ?thesis
    using assms by (simp add: msg_fields_def node_id_option_def number_or_def defined_def f h p Let_def) (simp add: wire_bytes_def msg_wire_def zero_wire_def)
qed

lemma doMsg_default:
  assumes "\<forall>m \<in> set msg_names. ev_yargs V msg_options [js_string ''msg''] m = JUndef" and "st_nodeid (sh_store h) = JStr nid" and "numeral_val 16 nid = Some k"
    and "st_encryptionKey (sh_store h) = JStr key" and "st_ipPort (sh_store h) = JNum port"
    and "msg_encrypt (ev_aead V) (wire_bytes msg_wire) (hex_decode key) = Inr enc"
  shows "\<exists>h'. doMsg V [js_string ''msg''] h = Inr (0, h') \<and>
    n_sent (sh_node h') = n_sent (sh_node h) @ [\<lparr>p_transport = Client, p_data = enc, p_port = port, p_host = ''::1''\<rparr>]"
proof -
  show ?thesis
    using assms(1,2,4-6) BigInt_hex [OF assms(3)] msg_fields_default [OF assms(1), of k "hex_decode key"]
    by (simp add: doMsg_def js_truthy_def client_send_def defined_def host_or_def print_def DEFAULT_HOST_def Let_def)
qed

text \<open>
  (C31) The \<open>msg\<close> command reaches any node: typed without options at a node that has the built-in key, it
  sends one datagram to the node's own port on the local host, and a node that has never heard of
  session 3000 decrypts it, makes a session with the test keys for it and hands the message, with
  exchange 3822 and protocol 32032, to its exchange manager.
\<close>

theorem msg_command_accepted:
  assumes "ccm_ok (ev_aead V)" and "\<forall>m \<in> set msg_names. ev_yargs V msg_options [js_string ''msg''] m = JUndef" and "\<not> sh_exited h" and "st_nodeid (sh_store h) = JStr nid" and "numeral_val 16 nid = Some k"
    and "st_encryptionKey (sh_store h) = JStr default_EncryptionKey" and "st_ipPort (sh_store h) = JNum port"
    and "tables_ok r" and "getSecureSession 3000 r = None"
  shows "\<exists>h' pkt r' m. shell_line V (js_string ''msg'') h = Inr h' \<and> n_sent (sh_node h') = n_sent (sh_node h) @ [pkt] \<and>
    p_host pkt = ''::1'' \<and> p_port pkt = port \<and> onMessage (ev_aead V) listener (p_data pkt) peer r = listener m (length (n_sessions r)) r' \<and>
    s_keys (n_sessions r' ! length (n_sessions r)) = Some test_keys \<and> ExchangeId m = Inr 3822 \<and> ProtocolId m = Inr 32032"
proof -
  note w = msg_wire_ok
  have key: "length (hex_decode default_EncryptionKey) = 16" "hex_decode default_EncryptionKey = test_keys ! 0" by (rule default_key)+
  obtain enc where enc: "msg_encrypt (ev_aead V) (wire_bytes msg_wire) (hex_decode default_EncryptionKey) = Inr enc"
    using encrypt_then_decrypt [OF assms(1) key(1), of "wire_bytes msg_wire"] w(2,3) by auto
  let ?pkt = "\<lparr>p_transport = Client, p_data = enc, p_port = port, p_host = ''::1''\<rparr>"
  obtain h1 where "doMsg V [js_string ''msg''] h = Inr (0, h1)" "n_sent (sh_node h1) = n_sent (sh_node h) @ [?pkt]"
    using doMsg_default [OF assms(2,4-7) enc] by blast
  then obtain h' where h': "shell_line V (js_string ''msg'') h = Inr h'" "n_sent (sh_node h') = n_sent (sh_node h) @ [?pkt]"
    using run_command [of 13 "''msg''" _ doMsg, where ws = "[]" and h = h and V = V] assms(3)
    by (simp add: command_help_def command_handlers_def print_def)
  have f: "w_flags msg_wire = 0" "w_sec msg_wire AND 3 = 0" "w_sid msg_wire = 3000" "w_sid msg_wire \<noteq> 0" "length (w_rest msg_wire) < 2 ^ 16 - 14"
    "w_xid msg_wire = 3822" "w_pid msg_wire = 32032"
    by (simp_all add: msg_wire_def zero_wire_def)
  have g: "getSecureSession (w_sid msg_wire) r = None" using assms(9) f(3) by simp
  let ?m = "on_wire msg_wire (new_message_of enc (Some enc) (Some peer))"
  obtain r' where "onMessage (ev_aead V) listener enc peer r = listener ?m (length (n_sessions r)) r'"
    "s_keys (n_sessions r' ! length (n_sessions r)) = Some test_keys"
    using unknown_session_accepted [OF assms(1) w(1) f(1,2,4,5) assms(8) g enc [unfolded key(2)], of listener peer] unfolding on_wire_def by blast
  moreover have "ExchangeId ?m = Inr 3822" "ProtocolId ?m = Inr 32032" using wire_exchange_get [OF w(1), of "new_message_of enc (Some enc) (Some peer)"] f(6,7) by simp_all
  ultimately show ?thesis using h' by (intro exI [of _ h'] exI [of _ ?pkt] exI [of _ r'] exI [of _ ?m]) simp
qed

theorem msg_command_accepted_witness:
  "\<exists>h' pkt r' m. shell_line demo_shell_env (js_string ''msg'') demo_shell = Inr h' \<and> n_sent (sh_node h') = [pkt] \<and>
    onMessage toy_aead demo_emit (p_data pkt) demo_peer demo_manager = demo_emit m 1 r' \<and> ExchangeId m = Inr 3822"
proof -
  have e: "ccm_ok (ev_aead demo_shell_env)" "\<forall>m \<in> set msg_names. ev_yargs demo_shell_env msg_options [js_string ''msg''] m = JUndef" "\<not> sh_exited demo_shell"
    "ev_aead demo_shell_env = toy_aead"
    using toy_aead_ok by (simp_all add: demo_shell_env_def demo_shell_def toy_yargs_none)
  have i: "st_nodeid (sh_store demo_shell) = JStr (js_string ''00aa'')" "numeral_val 16 (js_string ''00aa'') = Some 170"
    by (simp_all add: demo_shell_def demo_store_def numeral_val_def js_string_def hex_digit_def)
  have t: "tables_ok demo_manager" "getSecureSession 3000 demo_manager = None" "length (n_sessions demo_manager) = 1"
    by (simp_all add: tables_ok_def getSecureSession_def demo_manager_def demo_session_def)
  show ?thesis
    using msg_command_accepted [OF e(1,2,3) i _ _ t(1,2), of 5542 demo_emit demo_peer] e(4) t(3)
    by (auto simp: demo_shell_def demo_store_def started_node_def)
qed

end
