(* ===== verification/App_Start.thy ===== *)
theory App_Start
  imports Shell_Session
begin

text \<open>
  The program itself: \<open>main\<close> of \<open>app.ts\<close>, \<open>init\<close> and \<open>start\<close> of \<open>src/Node.js\<close>, \<open>start\<close> of
  \<open>src/net/UdpServer.js\<close> and the error handlers of both sockets. The storage of a node is the directory of its number.
\<close>

section \<open>Starting a node\<close>

text \<open>The store opened, and the name under which the node is announced.\<close>

definition node_init :: "'d store_env \<Rightarrow> jsval \<Rightarrow> jsval \<Rightarrow> 'd \<Rightarrow> ('d store \<times> 16 word list) result" where
  "node_init E logger tracer d = rbind (store_init E logger tracer d) (\<lambda>t. rmap (Pair t) (mdnsTarget t))"

text \<open>The port the server binds.\<close>

definition server_start :: "'d store \<Rightarrow> jsval" where
  "server_start t = st_ipPort t"

text \<open>
  An error of a socket. \<open>emit('error', err)\<close> throws the error when nobody listens for it, and nobody
  does in the program. The server closes its socket then, whose state is the result; the client has no
  field \<open>_server\<close>.
\<close>

definition emit_error :: "nat \<Rightarrow> js_error \<Rightarrow> unit result" where
  "emit_error listeners err = (if listeners = 0 then Inl err else Inr ())"

definition server_onError :: "nat \<Rightarrow> js_error \<Rightarrow> bool result" where
  "server_onError listeners err = rbind (emit_error listeners err) (\<lambda>_. Inr False)"

definition client_onError :: "nat \<Rightarrow> js_error \<Rightarrow> bool result" where
  "client_onError listeners err = rbind (emit_error listeners err) (\<lambda>_. Inl TypeError)"

lemma socket_errors_throw: "server_onError 0 err = Inl err" "client_onError 0 err = Inl err" "0 < k \<Longrightarrow> client_onError k err = Inl TypeError"
  by (simp_all add: server_onError_def client_onError_def emit_error_def)

text \<open>The shell as it is once its module is loaded: it has prompted.\<close>

definition new_shell :: "im_node \<Rightarrow> 'd store \<Rightarrow> 'd shell" where
  "new_shell n t = \<lparr>sh_node = n, sh_store = t, sh_out = [Prompt], sh_logged = [], sh_traced = [], sh_asked = [], sh_executed = [], sh_exited = False\<rparr>"

text \<open>The result is the shell, the name announced and the port bound.\<close>

definition app_main :: "'d store_env \<Rightarrow> words \<Rightarrow> jsval \<Rightarrow> jsval \<Rightarrow> (int \<Rightarrow> 'd) \<Rightarrow> im_node \<Rightarrow> ('d shell \<times> 16 word list \<times> jsval) result" where
  "app_main E myArgs logger tracer disk n =
     rbind (case myArgs of [] \<Rightarrow> Inr 0 | a # _ \<Rightarrow> to_number (JStr a)) (\<lambda>nodenum.
     rbind (node_init E logger tracer (disk nodenum)) (\<lambda>(t, target).
     let h = print_text ''Started Node #'' (dec_string nodenum) (new_shell n t)
     in rbind (if myArgs \<noteq> []
               then rmap (\<lambda>t. print_text ''nodenum: '' (dec_string nodenum) (h\<lparr>sh_store := t\<rparr>)) (set_NodeNum E (JNum nodenum) (sh_store h))
               else Inr h) (\<lambda>h.
        rmap (\<lambda>h. (h, target, server_start (sh_store h))) (dump h))))"

section \<open>What is started\<close>

text \<open>The level that is kept can be printed, since it was.\<close>

lemma logLevel_text:
  assumes "store_init E lg tr d = Inr t"
  shows "\<exists>l. to_text (st_logLevel t) = Inr l"
proof -
  have w: "st_logLevel t' = st_logLevel t" if "when_unset v (set_DaPrivateKey E k) t = Inr t'" for v k and t t' :: "'a store"
    using that by (auto simp: when_unset_def set_DaPrivateKey_def split: if_splits)
  have c: "st_logLevel t' = st_logLevel t" if "when_unset v (\<lambda>t. Inr (t\<lparr>st_daCertificate := u\<rparr>)) t = Inr t'" for v u and t t' :: "'a store"
    using that by (auto simp: when_unset_def split: if_splits)
  have r: "st_logLevel t' = st_logLevel t" if "set_TraceLevel E v t = Inr t'" for v and t t' :: "'a store"
    using that by (auto simp: set_TraceLevel_def Let_def)
  have l: "\<exists>l. to_text (st_logLevel t') = Inr l" if "set_LogLevel E v t = Inr t'" for v and t t' :: "'a store"
    using that by (auto simp: set_LogLevel_def Let_def setItem_def)
  from assms obtain t1 t2 v u t3 t4 where "set_LogLevel E v t1 = Inr t2" "set_TraceLevel E u t2 = Inr t3"
    "when_unset (st_daPrivateKey t3) (set_DaPrivateKey E (hex_encode TEST_DAC_PRIVKEY)) t3 = Inr t4"
    "when_unset (st_daCertificate t4) (\<lambda>t. Inr (t\<lparr>st_daCertificate := JStr (hex_encode TEST_DAC_CERTIFICATE)\<rparr>)) t4 = Inr t"
    unfolding store_init_def setDefaults_def by (auto simp only: rbind_eq_Inr)
  with l r w c show ?thesis by metis
qed

lemma set_NodeNum_total:
  assumes "storage_ok (se_storage E)" and "saved E t" and "0 \<le> k"
  shows "\<exists>t'. set_NodeNum E (JNum k) t = Inr t' \<and> saved E t' \<and> keeps t (t'\<lparr>st_nodenum := st_nodenum t, st_ipPort := st_ipPort t\<rparr>) \<and>
    st_nodenum t' = JNum k \<and> st_ipPort t' = JNum (DEFAULT_PORT + k) \<and> st_logLevel t' = st_logLevel t"
proof -
  obtain t' where t': "set_NodeNum E (JNum k) t = Inr t'" "keeps t (t'\<lparr>st_nodenum := st_nodenum t, st_ipPort := st_ipPort t\<rparr>)"
    "st_nodenum t' = JNum k" "st_ipPort t' = JNum (DEFAULT_PORT + k)" "st_logLevel t' = st_logLevel t"
    by (auto simp: set_NodeNum_def set_IpPort_def setItem_def keeps_def)
  moreover have "saved E t'" using apply_op_saved [OF assms(1,2), of "SetNodeNum (JNum k)"] assms(3) t'(1) by simp
  ultimately show ?thesis by blast
qed

lemma dump_lines_total: "list_all (\<lambda>(_, v). \<exists>s. to_text v = Inr s) ls \<Longrightarrow> \<exists>h'. rfold (\<lambda>(label, v). dump_line label v) ls h = Inr h'"
proof (induction ls arbitrary: h)
  case (Cons x ls)
  then obtain s where "to_text (snd x) = Inr s" by (cases x) auto
  then have "dump_line (fst x) (snd x) h = Inr (print_text (fst x) s h)" by (simp add: dump_line_def)
  moreover have "list_all (\<lambda>(_, v). \<exists>s. to_text v = Inr s) ls" using Cons.prems by simp
  ultimately show ?case using Cons.IH [of "print_text (fst x) s h"] by (simp add: case_prod_unfold)
qed simp

lemma dump_total:
  assumes "\<exists>s. to_text (st_encryptionKey t) = Inr s" and "\<exists>s. to_text (st_fabricid t) = Inr s" and "\<exists>s. to_text (st_logLevel t) = Inr s"
    and "\<exists>s. to_text (st_nodeid t) = Inr s" and "\<exists>s. to_text (st_nodenum t) = Inr s" and "\<exists>s. to_text (st_ipPort t) = Inr s" and "sh_store h = t"
  shows "\<exists>h'. dump h = Inr h' \<and> sh_store h' = t"
proof -
  have "\<exists>h'. dump h = Inr h'" unfolding dump_def Let_def assms(7) by (rule dump_lines_total) (simp add: assms(1-6))
  then show ?thesis using dump_store [of h] assms(7) by blast
qed

text \<open>
  A node started with its number on a storage it has used before comes back with its identity,
  announces its fabric and node id, and listens on the default port plus the number, whatever number
  and port the storage holds.
\<close>

theorem app_main_starts:
  assumes "storage_ok (se_storage E)" and "saved E t" and "disk (int k) = st_storage t" and "se_publicKey E TEST_DAC_PRIVKEY = Inr pk"
    and "\<exists>l. to_text lg = Inr l" and "\<exists>l. to_text tr = Inr l" and "st_fabricid t = JStr f" and "st_nodeid t = JStr i"
  shows "\<exists>h. app_main E [dec_string (int k)] lg tr disk n = Inr (h, f @ js_string ''-'' @ i, JNum (DEFAULT_PORT + int k)) \<and>
    saved E (sh_store h) \<and> st_fabricid (sh_store h) = st_fabricid t \<and> st_nodeid (sh_store h) = st_nodeid t \<and>
    st_encryptionKey (sh_store h) = st_encryptionKey t \<and> st_nodenum (sh_store h) = JNum (int k)"
proof -
  obtain m where m: "to_number (st_nodenum t) = Inr m" using saved_truthy(10) [OF assms(2)] by blast
  obtain t1 where t1: "store_init E lg tr (st_storage t) = Inr t1" "saved E t1" "st_nodeid t1 = st_nodeid t" "st_fabricid t1 = st_fabricid t"
    "st_encryptionKey t1 = st_encryptionKey t"
    using restart_from_saved [OF assms(1,2,5,6,4) m] by blast
  obtain l where l: "to_text (st_logLevel t1) = Inr l" using logLevel_text [OF t1(1)] by blast
  obtain t2 where t2: "set_NodeNum E (JNum (int k)) t1 = Inr t2" "saved E t2" "keeps t1 (t2\<lparr>st_nodenum := st_nodenum t1, st_ipPort := st_ipPort t1\<rparr>)"
    "st_nodenum t2 = JNum (int k)" "st_ipPort t2 = JNum (DEFAULT_PORT + int k)" "st_logLevel t2 = st_logLevel t1"
    using set_NodeNum_total [OF assms(1) t1(2), of "int k"] by auto
  let ?h = "print_text ''nodenum: '' (dec_string (int k)) ((print_text ''Started Node #'' (dec_string (int k)) (new_shell n t1))\<lparr>sh_store := t2\<rparr>)"
  obtain e where "st_encryptionKey t = JStr e" using assms(2) by (auto simp: saved_def item_saved_def)
  then have t: "to_text (st_encryptionKey t2) = Inr e" "to_text (st_fabricid t2) = Inr f" "to_text (st_nodeid t2) = Inr i" "to_text (st_logLevel t2) = Inr l"
    using t1 t2(3,6) l assms(7,8) by (auto simp: keeps_def)
  have s: "sh_store ?h = t2" by (simp add: print_def)
  obtain h where h: "dump ?h = Inr h" "sh_store h = t2"
    using dump_total [OF _ _ _ _ _ _ s] t t2(4,5) by auto
  have "node_init E lg tr (disk (int k)) = Inr (t1, f @ js_string ''-'' @ i)"
    using t1(1,3,4) assms(3,7,8) by (simp add: node_init_def mdnsTarget_def)
  moreover have "sh_store (print_text ''Started Node #'' (dec_string (int k)) (new_shell n t1)) = t1" by (simp add: print_def new_shell_def)
  ultimately have "app_main E [dec_string (int k)] lg tr disk n = Inr (h, f @ js_string ''-'' @ i, server_start t2)"
    using t2(1) h number_of_text [of k] by (simp add: app_main_def Let_def del: to_number.simps)
  then show ?thesis using h(2) t1 t2 by (auto simp: keeps_def server_start_def)
qed

end
