(* ===== verification/Async_Queue.thy ===== *)
theory Async_Queue
  imports Matter_Prelude
begin

text \<open>
  \<open>src/async/AsyncQueue.js\<close>, the queue of promises between the output of a process and the
  code that waits for its lines, and the search of \<open>src/expect/ExpectProcess.js\<close> that takes
  lines from it. A promise is a number, given in the order of creation; \<open>aq_settled\<close> holds
  the values the promises were resolved with.
\<close>

section \<open>The queue\<close>

record 'v async_queue =
  aq_resolvers :: "nat list"
  aq_promises :: "nat list"
  aq_created :: nat
  aq_settled :: "nat \<rightharpoonup> 'v"

definition new_queue :: "'v async_queue" where
  "new_queue = \<lparr>aq_resolvers = [], aq_promises = [], aq_created = 0, aq_settled = Map.empty\<rparr>"

definition createEntry :: "'v async_queue \<Rightarrow> 'v async_queue" where
  "createEntry q = q\<lparr>aq_resolvers := aq_resolvers q @ [aq_created q], aq_promises := aq_promises q @ [aq_created q],
     aq_created := Suc (aq_created q)\<rparr>"

definition queue_isEmpty :: "'v async_queue \<Rightarrow> bool" where
  "queue_isEmpty q \<longleftrightarrow> aq_promises q = []"

definition enqueue :: "'v \<Rightarrow> 'v async_queue \<Rightarrow> 'v async_queue" where
  "enqueue v q =
     (let q = (if aq_resolvers q = [] then createEntry q else q)
      in q\<lparr>aq_resolvers := tl (aq_resolvers q), aq_settled := (aq_settled q)(hd (aq_resolvers q) \<mapsto> v)\<rparr>)"

definition dequeue :: "'v async_queue \<Rightarrow> nat \<times> 'v async_queue" where
  "dequeue q =
     (let q = (if aq_promises q = [] then createEntry q else q)
      in (hd (aq_promises q), q\<lparr>aq_promises := tl (aq_promises q)\<rparr>))"

section \<open>Runs\<close>

datatype 'v queue_op = Enqueue 'v | Dequeue

text \<open>The promises that the calls of \<open>deq\<close> return, in the order of the calls.\<close>

fun run_ops :: "('v \<Rightarrow> 's \<Rightarrow> 's) \<Rightarrow> ('s \<Rightarrow> nat \<times> 's) \<Rightarrow> 'v queue_op list \<Rightarrow> 's \<Rightarrow> nat list \<times> 's" where
  "run_ops enq deq [] q = ([], q)"
| "run_ops enq deq (Enqueue v # ops) q = run_ops enq deq ops (enq v q)"
| "run_ops enq deq (Dequeue # ops) q = (case deq q of (p, q) \<Rightarrow> case run_ops enq deq ops q of (ps, q) \<Rightarrow> (p # ps, q))"

abbreviation run_queue :: "'v queue_op list \<Rightarrow> 'v async_queue \<Rightarrow> nat list \<times> 'v async_queue" where
  "run_queue \<equiv> run_ops enqueue dequeue"

fun enqueued :: "'v queue_op list \<Rightarrow> 'v list" where
  "enqueued [] = []"
| "enqueued (Enqueue v # ops) = v # enqueued ops"
| "enqueued (Dequeue # ops) = enqueued ops"

text \<open>
  A queue of numbered requests: \<open>rep vs k\<close> says that the state stands for the values \<open>vs\<close>
  put in so far and \<open>k\<close> requests made so far. Each request gets the next number.
\<close>

locale fifo =
  fixes enq :: "'v \<Rightarrow> 's \<Rightarrow> 's"
    and deq :: "'s \<Rightarrow> nat \<times> 's"
    and rep :: "'v list \<Rightarrow> nat \<Rightarrow> 's \<Rightarrow> bool"
  assumes rep_enq: "rep vs k q \<Longrightarrow> rep (vs @ [v]) k (enq v q)"
    and rep_deq: "rep vs k q \<Longrightarrow> deq q = (p, q') \<Longrightarrow> p = k \<and> rep vs (Suc k) q'"
begin

lemma run_rep:
  assumes "rep vs k q" and "run_ops enq deq ops q = (ps, q')"
  shows "ps = [k..<k + length ps] \<and> rep (vs @ enqueued ops) (k + length ps) q'"
  using assms
proof (induction ops arbitrary: vs k q ps q')
  case (Cons op ops)
  show ?case
  proof (cases op)
    case (Enqueue v)
    with Cons.prems rep_enq [OF Cons.prems(1), of v] Cons.IH [of "vs @ [v]" k "enq v q" ps q'] show ?thesis by simp
  next
    case Dequeue
    then obtain p q1 ps1 where d: "deq q = (p, q1)" "run_ops enq deq ops q1 = (ps1, q')" "ps = p # ps1"
      using Cons.prems(2) by (auto split: prod.splits)
    then have "p = k" "rep vs (Suc k) q1" using rep_deq [OF Cons.prems(1)] by simp_all
    with Cons.IH [OF this(2) d(2)] have "ps1 = [Suc k..<Suc k + length ps1]" "rep (vs @ enqueued ops) (Suc k + length ps1) q'"
      by simp_all
    with \<open>p = k\<close> d(3) Dequeue show ?thesis using upt_conv_Cons [of k "k + length ps"] by simp
  qed
qed simp

lemma fold_rep: "rep vs k q \<Longrightarrow> rep (vs @ ls) k (fold enq ls q)"
proof (induction ls arbitrary: vs q)
  case (Cons l ls)
  from Cons.IH [OF rep_enq [OF Cons.prems]] show ?case by simp
qed simp

end

text \<open>
  The abstract queue: the values put in so far and the number of requests so far. The concrete
  one keeps the promises of the values not asked for, or the resolvers of the requests not
  answered.
\<close>

definition queue_abs :: "'v list \<Rightarrow> nat \<Rightarrow> 'v async_queue \<Rightarrow> bool" where
  "queue_abs vs k q \<longleftrightarrow> aq_promises q = [k..<length vs] \<and> aq_resolvers q = [length vs..<k] \<and> aq_created q = max k (length vs) \<and>
     aq_settled q = (\<lambda>i. if i < length vs then Some (vs ! i) else None)"

lemma queue_abs_new: "queue_abs [] 0 new_queue"
  by (simp add: queue_abs_def new_queue_def)

lemma queue_abs_enqueue:
  assumes "queue_abs vs k q"
  shows "queue_abs (vs @ [v]) k (enqueue v q)"
proof (cases "length vs < k")
  case True
  then have "[length vs..<k] = length vs # [Suc (length vs)..<k]" by (rule upt_conv_Cons)
  with assms True show ?thesis
    by (auto simp: queue_abs_def enqueue_def Let_def nth_append less_Suc_eq fun_eq_iff)
next
  case False
  with assms show ?thesis
    by (auto simp: queue_abs_def enqueue_def createEntry_def Let_def nth_append less_Suc_eq fun_eq_iff)
qed

lemma queue_abs_dequeue:
  assumes "queue_abs vs k q"
  shows "fst (dequeue q) = k" "queue_abs vs (Suc k) (snd (dequeue q))"
proof -
  have "fst (dequeue q) = k \<and> queue_abs vs (Suc k) (snd (dequeue q))"
  proof (cases "k < length vs")
    case True
    then have "[k..<length vs] = k # [Suc k..<length vs]" by (rule upt_conv_Cons)
    with assms True show ?thesis by (auto simp: queue_abs_def dequeue_def Let_def)
  next
    case False
    with assms show ?thesis by (auto simp: queue_abs_def dequeue_def createEntry_def Let_def max_def)
  qed
  then show "fst (dequeue q) = k" "queue_abs vs (Suc k) (snd (dequeue q))" by simp_all
qed

interpretation async: fifo enqueue dequeue queue_abs
proof
  show "queue_abs (vs @ [v]) k (enqueue v q)" if "queue_abs vs k q" for vs k q v
    using that by (rule queue_abs_enqueue)
  show "p = k \<and> queue_abs vs (Suc k) q'" if "queue_abs vs k q" "dequeue q = (p, q')" for vs k q p q'
    using queue_abs_dequeue [OF that(1)] that(2) by simp
qed

text \<open>
  (C26) The queue refines a first-in first-out queue whatever the interleaving of its two sides:
  after any sequence of operations the promise of the i-th request holds the i-th value put in,
  also when the request came first, and is pending when there is none; the queue is empty
  exactly when no value waits.
\<close>

theorem async_queue_fifo:
  assumes "run_queue ops new_queue = (ps, q)"
  shows "map (aq_settled q) ps = map (\<lambda>i. if i < length (enqueued ops) then Some (enqueued ops ! i) else None) [0..<length ps] \<and>
    (queue_isEmpty q \<longleftrightarrow> length (enqueued ops) \<le> length ps)"
proof -
  have "ps = [0..<length ps]" "queue_abs (enqueued ops) (length ps) q"
    using async.run_rep [OF queue_abs_new assms] by simp_all
  then have "map (aq_settled q) ps = map (aq_settled q) [0..<length ps]" by simp
  with \<open>queue_abs (enqueued ops) (length ps) q\<close> show ?thesis by (auto simp: queue_abs_def queue_isEmpty_def)
qed

theorem async_queue_fifo_witness:
  "\<exists>q. run_queue [Dequeue, Enqueue 7, Enqueue (8 :: nat), Enqueue 9, Dequeue] new_queue = ([0, 1], q) \<and>
     map (aq_settled q) [0, 1] = [Some 7, Some 8] \<and> \<not> queue_isEmpty q"
proof -
  let ?ops = "[Dequeue, Enqueue 7, Enqueue (8 :: nat), Enqueue 9, Dequeue]"
  obtain q where "run_queue ?ops new_queue = ([0, 1], q)" by (simp add: new_queue_def enqueue_def dequeue_def createEntry_def)
  with async_queue_fifo [OF this] show ?thesis by (auto simp: upt_rec)
qed

section \<open>The search for a line\<close>

text \<open>
  \<open>expectSearch\<close> awaits one promise after the other until a line matches, and returns the match, what
  \<open>line.match\<close> gives for the condition; \<open>None\<close> means
  that it is suspended on a promise that is still pending, a fresh one when nothing waits.
\<close>

function expectSearch :: "('v \<Rightarrow> 'm option) \<Rightarrow> 'v async_queue \<Rightarrow> 'm option \<times> 'v async_queue" where
  "expectSearch condition q =
     (if queue_isEmpty q then (None, snd (dequeue q))
      else (case dequeue q of (p, q') \<Rightarrow> (case aq_settled q' p of
          None \<Rightarrow> (None, q')
        | Some line \<Rightarrow> (case condition line of None \<Rightarrow> expectSearch condition q' | Some m \<Rightarrow> (Some m, q')))))"
  by pat_completeness auto
termination
  by (relation "measure (\<lambda>(_, q). length (aq_promises q))") (auto simp: queue_isEmpty_def dequeue_def Let_def)

declare expectSearch.simps [simp del]

text \<open>The lines of a chunk of output, \<open>data.split(os.EOL)\<close>, each put into the queue.\<close>

fun split_at :: "'c \<Rightarrow> 'c list \<Rightarrow> 'c list list" where
  "split_at eol [] = [[]]"
| "split_at eol (c # cs) = (if c = eol then [] # split_at eol cs else (case split_at eol cs of l # ls \<Rightarrow> (c # l) # ls | [] \<Rightarrow> [[c]]))"

definition stdout_data :: "'c \<Rightarrow> 'c list \<Rightarrow> 'c list async_queue \<Rightarrow> 'c list async_queue" where
  "stdout_data eol data q = fold enqueue (split_at eol data) q"

text \<open>
  (C35) The search ends or is suspended on an empty queue, whatever the lines: of the lines that
  wait it returns the match of the first that matches, taking that line and those before it and leaving the rest, and
  when none matches it has taken them all.
\<close>

theorem expect_search_first:
  assumes "queue_abs vs k q" and "k \<le> length vs"
  shows "case dropWhile (\<lambda>l. condition l = None) (drop k vs) of
      [] \<Rightarrow> fst (expectSearch condition q) = None \<and> queue_abs vs (Suc (length vs)) (snd (expectSearch condition q))
    | l # rest \<Rightarrow> condition l \<noteq> None \<and> fst (expectSearch condition q) = condition l \<and> queue_abs vs (length vs - length rest) (snd (expectSearch condition q))"
  using assms
proof (induction "length vs - k" arbitrary: k q)
  case 0
  then have "queue_isEmpty q" "k = length vs" by (simp_all add: queue_abs_def queue_isEmpty_def)
  with queue_abs_dequeue [OF 0(2)] show ?case by (simp add: expectSearch.simps)
next
  case (Suc d)
  then have lt: "k < length vs" by simp
  then have d: "drop k vs = vs ! k # drop (Suc k) vs" by (simp add: Cons_nth_drop_Suc)
  obtain p q' where q': "dequeue q = (p, q')" by (cases "dequeue q")
  then have "p = k" and a: "queue_abs vs (Suc k) q'" using queue_abs_dequeue [OF Suc.prems(1)] by simp_all
  then have "aq_settled q' p = Some (vs ! k)" using lt by (simp add: queue_abs_def)
  moreover have "\<not> queue_isEmpty q" using Suc.prems(1) lt by (auto simp: queue_abs_def queue_isEmpty_def)
  ultimately have e: "expectSearch condition q = (case condition (vs ! k) of None \<Rightarrow> expectSearch condition q' | Some m \<Rightarrow> (Some m, q'))"
    using q' by (simp add: expectSearch.simps [of condition q])
  have "d = length vs - Suc k" "Suc k \<le> length vs" using Suc.hyps(2) lt by simp_all
  note IH = Suc.hyps(1) [OF this(1) a this(2)]
  show ?case
  proof (cases "condition (vs ! k)")
    case (Some m)
    then show ?thesis using e d a lt by (simp add: Suc_diff_Suc)
  next
    case None
    then have s: "dropWhile (\<lambda>l. condition l = None) (drop k vs) = dropWhile (\<lambda>l. condition l = None) (drop (Suc k) vs)"
      "expectSearch condition q = expectSearch condition q'" using d e by simp_all
    show ?thesis unfolding s by (rule IH)
  qed
qed

theorem expect_search_first_witness:
  "\<exists>q. run_queue [Enqueue 3, Enqueue (8 :: nat), Enqueue 9] new_queue = ([], q) \<and>
     fst (expectSearch (\<lambda>l. if 5 < l then Some (l - 5) else None) q) = Some 3 \<and>
     queue_abs [3, 8, 9] 2 (snd (expectSearch (\<lambda>l. if 5 < l then Some (l - 5) else None) q))"
proof -
  obtain q where q: "run_queue [Enqueue 3, Enqueue (8 :: nat), Enqueue 9] new_queue = ([], q)"
    by (simp add: new_queue_def enqueue_def dequeue_def createEntry_def)
  then have "queue_abs [3, 8, 9] 0 q" using async.run_rep [OF queue_abs_new q] by simp
  from expect_search_first [OF this, of "\<lambda>l. if 5 < l then Some (l - 5) else None"] q show ?thesis by (simp add: numeral_2_eq_2)
qed

end
