(* ===== verification/Expect_Process.thy ===== *)
theory Expect_Process
  imports Async_Queue Js_Value
begin

text \<open>
  \<open>src/expect/ExpectProcess.js\<close>, \<open>src/expect/ExpectNode.js\<close> and \<open>src/async/AsyncTimeout.js\<close>: a child process
  whose output is awaited line by line. Each \<open>await\<close> of a line is a point where other code runs, so
  that searches interleave with each other, with the output and with their timeouts; the step
  relation \<open>expect_step\<close> has one rule for each. A regular expression is the predicate of the
  lines it matches.
\<close>

section \<open>The process\<close>

type_synonym line = "16 word list"

text \<open>An awaited line: for \<open>expectSearch\<close>, which goes on until one matches, or for \<open>expectNext\<close>, which takes one.\<close>

datatype expect_kind = Search | Next

text \<open>
  A call that is under way or has ended: the promise it awaits, or awaited last, whether its loop
  has ended, and what its caller got, which for \<open>expect\<close> may be the timeout.
\<close>

record waiter =
  wt_kind :: expect_kind
  wt_condition :: "line \<Rightarrow> bool"
  wt_promise :: nat
  wt_ended :: bool
  wt_outcome :: "unit result option"

record expect_process =
  ep_stdoutQ :: "line async_queue"
  ep_stderrQ :: "line async_queue"
  ep_timeout :: int
  ep_stdin :: line
  ep_kills :: nat
  ep_waiters :: "waiter list"

definition DEFAULT_TIMEOUT :: int where "DEFAULT_TIMEOUT = 10000"

definition new_process :: expect_process where
  "new_process = \<lparr>ep_stdoutQ = new_queue, ep_stderrQ = new_queue, ep_timeout = DEFAULT_TIMEOUT, ep_stdin = [], ep_kills = 0, ep_waiters = []\<rparr>"

definition set_Timeout :: "int \<Rightarrow> expect_process \<Rightarrow> expect_process" where
  "set_Timeout ms P = P\<lparr>ep_timeout := ms\<rparr>"

definition sendRaw :: "line \<Rightarrow> expect_process \<Rightarrow> expect_process" where
  "sendRaw s P = P\<lparr>ep_stdin := ep_stdin P @ s\<rparr>"

definition process_send :: "line \<Rightarrow> expect_process \<Rightarrow> expect_process" where
  "process_send s = sendRaw (s @ [10])"

definition kill :: "expect_process \<Rightarrow> expect_process" where
  "kill P = P\<lparr>ep_kills := Suc (ep_kills P)\<rparr>"

definition process_exit :: "expect_process \<Rightarrow> expect_process" where
  "process_exit = kill"

text \<open>\<open>escapeRegExp\<close>: a backslash before the characters that have a meaning in a pattern, by their codes, and before blanks.\<close>

definition pattern_chars :: line where
  "pattern_chars = [45, 91, 93, 123, 125, 40, 41, 42, 43, 63, 46, 44, 92, 94, 36, 124, 35]"

definition js_blank :: "16 word \<Rightarrow> bool" where
  "js_blank u \<longleftrightarrow> uint u \<in> {9, 10, 11, 12, 13, 0x20, 0xA0, 0x1680, 0x2028, 0x2029, 0x202F, 0x205F, 0x3000, 0xFEFF} \<or>
     (0x2000 \<le> uint u \<and> uint u \<le> 0x200A)"

definition escapeRegExp :: "line \<Rightarrow> line" where
  "escapeRegExp text = concat (map (\<lambda>u. if u \<in> set pattern_chars \<or> js_blank u then [92, u] else [u]) text)"

text \<open>A pattern of escaped characters stands for the text: every backslash is followed by a character that it escapes.\<close>

fun unescape :: "line \<Rightarrow> line" where
  "unescape (u # v # us) = (if u = 92 then v # unescape us else u # unescape (v # us))"
| "unescape us = us"

lemma unescape_Cons: "u \<noteq> 92 \<Longrightarrow> unescape (u # us) = u # unescape us"
  by (cases us) simp_all

lemma escape_unescape: "unescape (escapeRegExp l) = l"
proof (induction l)
  case (Cons u l)
  have "(92 :: 16 word) \<in> set pattern_chars" by (simp add: pattern_chars_def)
  then show ?case using Cons unescape_Cons [of u "escapeRegExp l"] by (auto simp: escapeRegExp_def)
qed (simp add: escapeRegExp_def)

text \<open>The events of the child: it cannot be started, output, exit with a code or by a signal, disconnection, a message.\<close>

datatype child_event = Failed | Stdout line | Stderr line | Exit "int option" | Disconnect | Message line

definition onChild :: "child_event \<Rightarrow> expect_process \<Rightarrow> expect_process result" where
  "onChild ev P = (case ev of
       Failed \<Rightarrow> Inl (Thrown ''AssertionError'')
     | Stdout data \<Rightarrow> Inr (P\<lparr>ep_stdoutQ := stdout_data 10 data (ep_stdoutQ P)\<rparr>)
     | Stderr data \<Rightarrow> Inr (P\<lparr>ep_stderrQ := enqueue data (ep_stderrQ P)\<rparr>)
     | Exit None \<Rightarrow> Inr P
     | Exit (Some code) \<Rightarrow> if code = 0 then Inr P else Inl (Thrown ''AssertionError'')
     | Disconnect \<Rightarrow> Inr (kill P)
     | Message m \<Rightarrow> Inr (if m = js_string ''exit'' then kill P else P))"

section \<open>Awaiting lines\<close>

text \<open>The next line is asked for at once, also by a call that nobody awaits, such as that of \<open>expectRegEx\<close>.\<close>

definition wait_line :: "expect_kind \<Rightarrow> (line \<Rightarrow> bool) \<Rightarrow> expect_process \<Rightarrow> expect_process" where
  "wait_line kind condition P =
     (case dequeue (ep_stdoutQ P) of (p, q) \<Rightarrow>
        P\<lparr>ep_stdoutQ := q, ep_waiters := ep_waiters P @
          [\<lparr>wt_kind = kind, wt_condition = condition, wt_promise = p, wt_ended = False, wt_outcome = None\<rparr>]\<rparr>)"

definition expect :: "(line \<Rightarrow> bool) \<Rightarrow> expect_process \<Rightarrow> expect_process" where
  "expect = wait_line Search"

definition expectNext :: "(line \<Rightarrow> bool) \<Rightarrow> expect_process \<Rightarrow> expect_process" where
  "expectNext = wait_line Next"

definition expectLine :: "(line \<Rightarrow> bool) \<Rightarrow> line \<Rightarrow> unit result" where
  "expectLine condition l = (if condition l then Inr () else Inl (Thrown ''AssertionError''))"

text \<open>The first outcome of a race stays.\<close>

definition settle_outcome :: "unit result \<Rightarrow> waiter \<Rightarrow> waiter" where
  "settle_outcome r w = (if wt_outcome w = None then w\<lparr>wt_outcome := Some r\<rparr> else w)"

text \<open>A call resumed with the line of its promise; a search that does not match asks for the next line.\<close>

definition resume :: "nat \<Rightarrow> expect_process \<Rightarrow> expect_process option" where
  "resume i P =
     (let w = ep_waiters P ! i
      in if wt_ended w then None
         else (case aq_settled (ep_stdoutQ P) (wt_promise w) of
             None \<Rightarrow> None
           | Some l \<Rightarrow> Some
               (case wt_kind w of
                  Next \<Rightarrow> P\<lparr>ep_waiters := (ep_waiters P)[i := settle_outcome (expectLine (wt_condition w) l) (w\<lparr>wt_ended := True\<rparr>)]\<rparr>
                | Search \<Rightarrow>
                    if wt_condition w l then P\<lparr>ep_waiters := (ep_waiters P)[i := settle_outcome (Inr ()) (w\<lparr>wt_ended := True\<rparr>)]\<rparr>
                    else (case dequeue (ep_stdoutQ P) of (p, q) \<Rightarrow>
                        P\<lparr>ep_stdoutQ := q, ep_waiters := (ep_waiters P)[i := w\<lparr>wt_promise := p\<rparr>]\<rparr>))))"

text \<open>The timer of \<open>AsyncTimeout\<close>: the caller gets an error; the search is not told.\<close>

definition AsyncTimeout_expires :: "nat \<Rightarrow> expect_process \<Rightarrow> expect_process" where
  "AsyncTimeout_expires i P =
     P\<lparr>ep_waiters := (ep_waiters P)[i := settle_outcome (Inl (Thrown ''AsyncTimeout expired'')) (ep_waiters P ! i)]\<rparr>"

inductive expect_step :: "expect_process \<Rightarrow> expect_process \<Rightarrow> bool" where
  step_child: "onChild ev P = Inr P' \<Longrightarrow> expect_step P P'"
| step_send: "expect_step P (sendRaw s P)"
| step_expect: "expect_step P (expect c P)"
| step_next: "expect_step P (expectNext c P)"
| step_resume: "i < length (ep_waiters P) \<Longrightarrow> resume i P = Some P' \<Longrightarrow> expect_step P P'"
| step_expires: "i < length (ep_waiters P) \<Longrightarrow> wt_kind (ep_waiters P ! i) = Search \<Longrightarrow> expect_step P (AsyncTimeout_expires i P)"

text \<open>A search that runs alone does what \<open>expectSearch\<close> does on the queue; \<open>expect\<close> drops the match.\<close>

lemma resumed_search:
  assumes "dequeue q = (wt_promise w, ep_stdoutQ P)" and "i < length (ep_waiters P)" and "ep_waiters P ! i = w"
    and "wt_kind w = Search" and "wt_condition w = (\<lambda>l. c l \<noteq> None)" and "\<not> wt_ended w" and "wt_outcome w = None"
  shows "\<exists>P'. (\<lambda>P P'. resume i P = Some P')\<^sup>*\<^sup>* P P' \<and> ep_stdoutQ P' = snd (expectSearch c q) \<and>
    wt_outcome (ep_waiters P' ! i) = map_option (\<lambda>_. Inr ()) (fst (expectSearch c q))"
  using assms
proof (induction c q arbitrary: P w rule: expectSearch.induct)
  case (1 c q)
  show ?case
  proof (cases "\<not> queue_isEmpty q \<and> aq_settled (ep_stdoutQ P) (wt_promise w) \<noteq> None")
    case False
    then have "expectSearch c q = (None, ep_stdoutQ P)" using 1(2) by (auto simp: expectSearch.simps [of c q])
    with 1 show ?thesis by (intro exI [of _ P]) simp
  next
    case True
    then obtain l where l: "aq_settled (ep_stdoutQ P) (wt_promise w) = Some l" "\<not> queue_isEmpty q" by blast
    then have s: "expectSearch c q = (case c l of None \<Rightarrow> expectSearch c (ep_stdoutQ P) | Some m \<Rightarrow> (Some m, ep_stdoutQ P))"
      using 1(2) by (simp add: expectSearch.simps [of c q])
    show ?thesis
    proof (cases "c l")
      case (Some m)
      let ?P = "P\<lparr>ep_waiters := (ep_waiters P)[i := w\<lparr>wt_ended := True, wt_outcome := Some (Inr ())\<rparr>]\<rparr>"
      have "resume i P = Some ?P" using 1 l Some by (simp add: resume_def settle_outcome_def)
      with 1(3) s Some show ?thesis by (intro exI [of _ ?P]) auto
    next
      case None
      obtain p q' where d: "dequeue (ep_stdoutQ P) = (p, q')" by (cases "dequeue (ep_stdoutQ P)")
      let ?w = "w\<lparr>wt_promise := p\<rparr>" and ?P = "P\<lparr>ep_stdoutQ := q', ep_waiters := (ep_waiters P)[i := w\<lparr>wt_promise := p\<rparr>]\<rparr>"
      have r: "resume i P = Some ?P" using 1 l None d by (simp add: resume_def)
      have "\<exists>P'. (\<lambda>P P'. resume i P = Some P')\<^sup>*\<^sup>* ?P P' \<and> ep_stdoutQ P' = snd (expectSearch c (ep_stdoutQ P)) \<and>
          wt_outcome (ep_waiters P' ! i) = map_option (\<lambda>_. Inr ()) (fst (expectSearch c (ep_stdoutQ P)))"
        using 1 l None d by (intro 1(1) [where w = ?w]) simp_all
      with r s None show ?thesis by (auto intro: converse_rtranclp_into_rtranclp)
    qed
  qed
qed

section \<open>Who gets which line\<close>

text \<open>
  The queue stands for the lines so far; the calls await different promises, all of them handed
  out; a call that succeeded has ended, with a line that matches.
\<close>

definition waiter_ok :: "line list \<Rightarrow> nat \<Rightarrow> waiter \<Rightarrow> bool" where
  "waiter_ok vs k w \<longleftrightarrow> wt_promise w < k \<and> (wt_ended w \<longrightarrow> wt_promise w < length vs) \<and>
     (wt_outcome w = Some (Inr ()) \<longrightarrow> wt_ended w \<and> wt_condition w (vs ! wt_promise w))"

definition expect_inv :: "line list \<Rightarrow> nat \<Rightarrow> expect_process \<Rightarrow> bool" where
  "expect_inv vs k P \<longleftrightarrow> queue_abs vs k (ep_stdoutQ P) \<and> distinct (map wt_promise (ep_waiters P)) \<and> list_all (waiter_ok vs k) (ep_waiters P)"

lemma waiter_ok_more: "waiter_ok vs k w \<Longrightarrow> waiter_ok (vs @ ls) k w" "waiter_ok vs k w \<Longrightarrow> waiter_ok vs (Suc k) w"
  by (auto simp: waiter_ok_def nth_append)

lemma list_all_more: "list_all (waiter_ok vs k) ws \<Longrightarrow> list_all (waiter_ok (vs @ ls) k) ws" "list_all (waiter_ok vs k) ws \<Longrightarrow> list_all (waiter_ok vs (Suc k)) ws"
  by (auto simp: list_all_iff waiter_ok_more)

lemma list_all_update: "list_all f ws \<Longrightarrow> f w \<Longrightarrow> list_all f (ws[i := w])"
  using set_update_subset_insert [of ws i w] by (auto simp: list_all_iff)

lemma new_process_inv: "expect_inv [] 0 new_process"
  by (simp add: expect_inv_def new_process_def queue_abs_new)

lemma stdout_inv:
  assumes "expect_inv vs k P"
  shows "expect_inv (vs @ split_at 10 data) k (P\<lparr>ep_stdoutQ := stdout_data 10 data (ep_stdoutQ P)\<rparr>)"
  using assms async.fold_rep [of vs k "ep_stdoutQ P" "split_at 10 data"] by (simp add: expect_inv_def stdout_data_def list_all_more)

text \<open>A call that takes the next promise, a new one or one that went on.\<close>

lemma fresh_promise:
  assumes "expect_inv vs k P" and "dequeue (ep_stdoutQ P) = (p, q)"
  shows "p = k" "queue_abs vs (Suc k) q" "list_all (waiter_ok vs (Suc k)) (ep_waiters P)" "k \<notin> wt_promise ` set (ep_waiters P)"
  using assms queue_abs_dequeue [of vs k "ep_stdoutQ P"] by (auto simp: expect_inv_def list_all_more list_all_iff waiter_ok_def)

lemma wait_line_inv:
  assumes "expect_inv vs k P"
  shows "expect_inv vs (Suc k) (wait_line kind c P)"
proof -
  obtain p q where "dequeue (ep_stdoutQ P) = (p, q)" by (cases "dequeue (ep_stdoutQ P)")
  with fresh_promise [OF assms this] assms show ?thesis by (auto simp: wait_line_def expect_inv_def waiter_ok_def)
qed

lemma same_promise_inv:
  assumes "expect_inv vs k P" and "i < length (ep_waiters P)" and "wt_promise w = wt_promise (ep_waiters P ! i)" and "waiter_ok vs k w"
  shows "expect_inv vs k (P\<lparr>ep_waiters := (ep_waiters P)[i := w]\<rparr>)"
proof -
  have "map wt_promise ((ep_waiters P)[i := w]) = map wt_promise (ep_waiters P)"
    using assms(2,3) by (simp add: map_update list_update_same_conv)
  with assms show ?thesis by (simp add: expect_inv_def list_all_update)
qed

lemma resume_inv:
  assumes "expect_inv vs k P" and "i < length (ep_waiters P)" and "resume i P = Some P'"
  shows "\<exists>k'. expect_inv vs k' P'"
proof -
  let ?w = "ep_waiters P ! i"
  have w: "waiter_ok vs k ?w" using assms(1,2) by (simp add: expect_inv_def list_all_length)
  obtain l where l: "aq_settled (ep_stdoutQ P) (wt_promise ?w) = Some l" and e: "\<not> wt_ended ?w"
    using assms(3) by (auto simp: resume_def Let_def split: if_splits option.splits)
  then have v: "wt_promise ?w < length vs" "l = vs ! wt_promise ?w" using assms(1) by (auto simp: expect_inv_def queue_abs_def split: if_splits)
  have fin: "expect_inv vs k (P\<lparr>ep_waiters := (ep_waiters P)[i := settle_outcome r (?w\<lparr>wt_ended := True\<rparr>)]\<rparr>)"
    if "r = Inr () \<Longrightarrow> wt_condition ?w l" for r
    using w v e that by (intro same_promise_inv [OF assms(1,2)]) (auto simp: settle_outcome_def waiter_ok_def)
  show ?thesis
  proof (cases "wt_kind ?w = Search \<and> \<not> wt_condition ?w l")
    case True
    obtain p q where d: "dequeue (ep_stdoutQ P) = (p, q)" by (cases "dequeue (ep_stdoutQ P)")
    note f = fresh_promise [OF assms(1) d]
    have "waiter_ok vs (Suc k) (?w\<lparr>wt_promise := p\<rparr>)" using w e f(1) by (auto simp: waiter_ok_def)
    moreover have "distinct (map wt_promise ((ep_waiters P)[i := ?w\<lparr>wt_promise := p\<rparr>]))"
      using assms(1,2) f(1,4) by (simp add: map_update expect_inv_def distinct_list_update)
    ultimately have "expect_inv vs (Suc k) P'"
      using True d e l f assms(3) by (auto simp: resume_def expect_inv_def list_all_update)
    then show ?thesis by blast
  next
    case False
    then have "P' = P\<lparr>ep_waiters := (ep_waiters P)[i := settle_outcome (expectLine (wt_condition ?w) l) (?w\<lparr>wt_ended := True\<rparr>)]\<rparr>"
      using assms(3) e l by (cases "wt_kind ?w") (auto simp: resume_def expectLine_def)
    then show ?thesis using fin [of "expectLine (wt_condition ?w) l"] by (auto simp: expectLine_def split: if_splits)
  qed
qed

lemma expect_step_inv:
  assumes "expect_step P P'" and "expect_inv vs k P"
  shows "\<exists>ls k'. expect_inv (vs @ ls) k' P'"
  using assms
proof (induction rule: expect_step.induct)
  case (step_child ev P P')
  have same: "expect_inv vs k P'" if "ep_stdoutQ P' = ep_stdoutQ P" "ep_waiters P' = ep_waiters P"
    using step_child.prems that by (simp add: expect_inv_def)
  show ?case
  proof (cases "\<exists>data. ev = Stdout data")
    case True
    then obtain data where "P' = P\<lparr>ep_stdoutQ := stdout_data 10 data (ep_stdoutQ P)\<rparr>" using step_child.hyps by (auto simp: onChild_def)
    with stdout_inv [OF step_child.prems, of data] show ?thesis by blast
  next
    case False
    then have "expect_inv vs k P'"
      using step_child.hyps by (intro same) (auto simp: onChild_def kill_def split: child_event.splits option.splits if_splits)
    then show ?thesis by (metis append_Nil2)
  qed
next
  case (step_send P s)
  then have "expect_inv (vs @ []) k (sendRaw s P)" by (simp add: expect_inv_def sendRaw_def)
  then show ?case by blast
next
  case (step_expect P c)
  then show ?case unfolding expect_def by (metis append_Nil2 wait_line_inv)
next
  case (step_next P c)
  then show ?case unfolding expectNext_def by (metis append_Nil2 wait_line_inv)
next
  case (step_resume i P P')
  then show ?case by (metis append_Nil2 resume_inv)
next
  case (step_expires i P)
  then have "waiter_ok vs k (ep_waiters P ! i)" by (simp add: expect_inv_def list_all_length)
  then have "expect_inv vs k (AsyncTimeout_expires i P)"
    unfolding AsyncTimeout_expires_def using step_expires by (intro same_promise_inv) (auto simp: settle_outcome_def waiter_ok_def)
  then show ?case by (metis append_Nil2)
qed

lemma expect_reachable_inv: "expect_step\<^sup>*\<^sup>* new_process P \<Longrightarrow> \<exists>vs k. expect_inv vs k P"
proof (induction rule: rtranclp_induct)
  case base
  then show ?case using new_process_inv by blast
next
  case (step P P')
  then show ?case using expect_step_inv by blast
qed

text \<open>
  However calls, output and timeouts interleave, no two calls rest on the same line, and a call
  that succeeded ended on a line of the output that matches its condition.
\<close>

theorem expects_share_no_line:
  assumes "expect_step\<^sup>*\<^sup>* new_process P" and "i < length (ep_waiters P)"
  shows "(\<forall>j < length (ep_waiters P). j \<noteq> i \<longrightarrow> wt_promise (ep_waiters P ! j) \<noteq> wt_promise (ep_waiters P ! i)) \<and>
    (wt_outcome (ep_waiters P ! i) = Some (Inr ()) \<longrightarrow>
      (\<exists>l. aq_settled (ep_stdoutQ P) (wt_promise (ep_waiters P ! i)) = Some l \<and> wt_condition (ep_waiters P ! i) l))"
proof -
  obtain vs k where inv: "expect_inv vs k P" using expect_reachable_inv [OF assms(1)] by blast
  then have "waiter_ok vs k (ep_waiters P ! i)" using assms(2) by (simp add: expect_inv_def list_all_length)
  with inv assms(2) show ?thesis by (auto simp: expect_inv_def queue_abs_def waiter_ok_def distinct_conv_nth)
qed

text \<open>
  A search whose caller got the timeout goes on: it takes the next line of the output, which a later
  call then never sees, even when the line is the one that call expects.
\<close>

theorem abandoned_search_takes_line:
  assumes "expect_inv vs (Suc (length vs)) P" and "i < length (ep_waiters P)" and "wt_promise (ep_waiters P ! i) = length vs"
    and "\<not> wt_ended (ep_waiters P ! i)" and "10 \<notin> set l" and "onChild (Stdout l) (expect c (AsyncTimeout_expires i P)) = Inr P'"
  shows "resume i P' \<noteq> None \<and> resume (length (ep_waiters P)) P' = None \<and> wt_outcome (ep_waiters P' ! length (ep_waiters P)) = None"
proof -
  let ?E = "AsyncTimeout_expires i P"
  have l: "split_at 10 l = [l]" using assms(5) by (induction l) auto
  have e: "expect_inv vs (Suc (length vs)) ?E"
    unfolding AsyncTimeout_expires_def using assms(1,2)
    by (intro same_promise_inv) (auto simp: settle_outcome_def waiter_ok_def expect_inv_def list_all_length)
  obtain p q where d: "dequeue (ep_stdoutQ ?E) = (p, q)" by (cases "dequeue (ep_stdoutQ ?E)")
  note f = fresh_promise [OF e d]
  have n: "length (ep_waiters ?E) = length (ep_waiters P)" "wt_promise (ep_waiters ?E ! i) = length vs" "\<not> wt_ended (ep_waiters ?E ! i)"
    using assms(2-4) by (simp_all add: AsyncTimeout_expires_def settle_outcome_def)
  have "P' = (expect c ?E)\<lparr>ep_stdoutQ := enqueue l q\<rparr>"
    using assms(6) d l by (simp add: onChild_def expect_def wait_line_def stdout_data_def)
  moreover have "queue_abs (vs @ [l]) (Suc (Suc (length vs))) (enqueue l q)" by (rule queue_abs_enqueue [OF f(2)])
  ultimately show ?thesis using n d f(1) assms(2)
    by (auto simp: resume_def expect_def wait_line_def nth_append queue_abs_def Let_def split: expect_kind.split)
qed

section \<open>A node under test\<close>

text \<open>The patterns of \<open>init\<close> are literal: a line matches when it holds them.\<close>

definition contains :: "line \<Rightarrow> line \<Rightarrow> bool" where
  "contains s l \<longleftrightarrow> list_ex (\<lambda>i. take (length s) (drop i l) = s) [0..<Suc (length l)]"

definition PORT_OFFSET :: int where "PORT_OFFSET = 5540"

definition node_port :: "int \<Rightarrow> int" where
  "node_port nodeNum = nodeNum + PORT_OFFSET"

text \<open>\<open>init\<close> up to its first \<open>await\<close>, and from there when the first call has succeeded.\<close>

definition expect_node_init :: "expect_process \<Rightarrow> expect_process" where
  "expect_node_init = expect (contains (js_string ''Server started!''))"

definition expect_node_started :: "expect_process \<Rightarrow> expect_process" where
  "expect_node_started P = expect (contains (js_string ''>'')) (process_send [] P)"

end
