(* ===== verification/Certificate_Tlv.thy ===== *)
theory Certificate_Tlv
  imports Persistent_Store
begin

text \<open>
  \<open>src/crypto/CertificateTlv.js\<close> and the dates of \<open>src/crypto/Certificate.js\<close>: reading
  a certificate in the TLV form of Matter into the arguments of the X.509 generator. The import
  of the public key and the generator itself belong to packages; the first is a parameter, and
  the model ends with what the second is given.
\<close>

section \<open>Tag maps\<close>

definition MapTagStructure :: "(int \<times> string) list" where
  "MapTagStructure =
     [(1, ''SerialNumber''), (2, ''SignatureAlgorithm''), (3, ''Issuer''), (4, ''NotBefore''), (5, ''NotAfter''), (6, ''Subject''),
      (7, ''PublicKeyAlgorithm''), (8, ''EllipticCurveId''), (9, ''PublicKey''), (10, ''Extensions''), (11, ''Signature'')]"

definition MapTagExtensions :: "(int \<times> string) list" where
  "MapTagExtensions =
     [(1, ''BasicConstraints''), (2, ''KeyUsage''), (3, ''ExtendedKeyUsage''), (4, ''SubjectKeyId''), (5, ''AuthorityKeyId''), (6, ''FutureExtension'')]"

definition MapTagBasicConstraints :: "(int \<times> string) list" where
  "MapTagBasicConstraints = [(1, ''IsCa''), (2, ''PathLength'')]"

definition MapTagDn :: "(int \<times> string) list" where
  "MapTagDn =
     [(1, ''CommonName''), (2, ''Surname''), (3, ''SerialNumber''), (4, ''CountryName''), (5, ''LocalityName''), (6, ''StateOrProvinceName''),
      (7, ''OrgName''), (8, ''OrgUnitName''), (9, ''Title''), (10, ''Name''), (11, ''GivenName''), (12, ''Initials''), (13, ''GenQualifier''),
      (14, ''DnQualifier''), (15, ''Pseudonym''), (16, ''DomainComponent''), (17, ''NodeId''), (18, ''FirmwareSigningId''), (19, ''IcacId''),
      (20, ''RcacId''), (21, ''FabricId''), (22, ''NocCat'')]"

definition MapTagDnToOid :: "(string \<times> string) list" where
  "MapTagDnToOid =
     [(''NodeId'', ''1.3.6.1.4.1.37244.1.1''), (''FirmwareSigningId'', ''1.3.6.1.4.1.37244.1.2''), (''IcacId'', ''1.3.6.1.4.1.37244.1.3''),
      (''RcacId'', ''1.3.6.1.4.1.37244.1.4''), (''FabricId'', ''1.3.6.1.4.1.37244.1.5''), (''NocCat'', ''1.3.6.1.4.1.37244.1.6'')]"

definition MapTagExtendedKeyUsage :: "(prop_key \<times> string) list" where
  "MapTagExtendedKeyUsage =
     [(IntKey 1, ''1.3.6.1.5.5.7.3.1''), (IntKey 2, ''1.3.6.1.5.5.7.3.2''), (IntKey 3, ''1.3.6.1.5.5.7.3.3''),
      (IntKey 4, ''1.3.6.1.5.5.7.3.4''), (IntKey 5, ''1.3.6.1.5.5.7.3.5''), (IntKey 6, ''1.3.6.1.5.5.7.3.6'')]"

section \<open>Values\<close>

text \<open>\<open>Certificate.epochSec\<close>: seconds since 2000 as milliseconds since 1970.\<close>

fun epochSec :: "jsval \<Rightarrow> int result" where
  "epochSec (JNum tSec) = Inr (946684800000 + tSec * 1000)"
| "epochSec (JBig tSec) = Inl TypeError"
| "epochSec _ = Inl Unmodelled"

text \<open>\<open>v.toString(16).toUpperCase()\<close> of a number, without padding.\<close>

definition to_upper :: "16 word \<Rightarrow> 16 word" where
  "to_upper c = (if 97 \<le> uint c \<and> uint c \<le> 122 then c - 32 else c)"

fun upper_hex :: "jsval \<Rightarrow> 16 word list result" where
  "upper_hex (JNum k) = rmap (map to_upper) (js_toString 16 (JNum k))"
| "upper_hex (JBig k) = rmap (map to_upper) (js_toString 16 (JNum k))"
| "upper_hex JUndef = Inl TypeError"
| "upper_hex JNull = Inl TypeError"
| "upper_hex _ = Inl Unmodelled"

record cert_extensions =
  ce_isCa :: jsval
  ce_pathLength :: jsval
  ce_keyUsage :: jsval
  ce_extendedKeyUsage :: "string option list"
  ce_subjectKeyId :: "16 word list"
  ce_authorityKeyId :: "16 word list"

record certificate =
  ct_serialNumber :: "16 word list"
  ct_subject :: "(string \<times> 16 word list) list"
  ct_issuer :: "(string \<times> 16 word list) list"
  ct_notBefore :: int
  ct_notAfter :: int
  ct_extensions :: cert_extensions
  ct_publicKey :: buffer
  ct_signature :: jsval

section \<open>Decoding\<close>

text \<open>\<open>Object.keys(v).map(k => MapTagExtendedKeyUsage[v[k].value])\<close>.\<close>

definition usage_oids :: "jsval \<Rightarrow> string option list result" where
  "usage_oids v = (case v of
      JArr xs \<Rightarrow> rfold (\<lambda>x acc. rbind (prop_value x) (\<lambda>u. rmap (\<lambda>oid. acc @ [oid]) (js_lookup MapTagExtendedKeyUsage u))) xs []
    | JUndef \<Rightarrow> Inl TypeError
    | JNull \<Rightarrow> Inl TypeError
    | JNum _ \<Rightarrow> Inr []
    | JBig _ \<Rightarrow> Inr []
    | JBool _ \<Rightarrow> Inr []
    | JDbl _ \<Rightarrow> Inr []
    | _ \<Rightarrow> Inl Unmodelled)"

definition decodeExtensions :: "jsval \<Rightarrow> cert_extensions result" where
  "decodeExtensions fieldsTlv =
     rbind (getByName fieldsTlv ''Extensions'') (\<lambda>extensionsTlv.
     rbind (mapFields extensionsTlv (map_of MapTagExtensions)) (\<lambda>extensionsTlv.
     rbind (getByName extensionsTlv ''BasicConstraints'') (\<lambda>basicConstraints.
     rbind (mapFields basicConstraints (map_of MapTagBasicConstraints)) (\<lambda>basicConstraints.
     rbind (getByName basicConstraints ''IsCa'') (\<lambda>basicConstraintsIsCa.
     rbind (getByName basicConstraints ''PathLength'') (\<lambda>basicConstraintsPathLength.
     rbind (getByName extensionsTlv ''KeyUsage'') (\<lambda>keyUsage.
     rbind (getByName extensionsTlv ''ExtendedKeyUsage'') (\<lambda>extendedKeyUsage.
     rbind (usage_oids extendedKeyUsage) (\<lambda>extendedKeyUsageArray.
     rbind (getByName extensionsTlv ''SubjectKeyId'') (\<lambda>subjectKeyId.
     rbind (getByName extensionsTlv ''AuthorityKeyId'') (\<lambda>authorityKeyId.
     rbind (to_string_hex subjectKeyId) (\<lambda>ski.
     rbind (to_string_hex authorityKeyId) (\<lambda>aki.
       Inr \<lparr>ce_isCa = basicConstraintsIsCa, ce_pathLength = basicConstraintsPathLength, ce_keyUsage = keyUsage,
         ce_extendedKeyUsage = extendedKeyUsageArray, ce_subjectKeyId = ski, ce_authorityKeyId = aki\<rparr>)))))))))))))"

text \<open>
  The whole of \<open>decode\<close>; \<open>importKey\<close> is the import and export of the raw key. The names of
  the subject are the node id and then the fabric id.
\<close>

definition decode_certificate :: "(jsval \<Rightarrow> buffer result) \<Rightarrow> buffer \<Rightarrow> certificate result" where
  "decode_certificate importKey certTlv =
     rbind (decode_json certTlv) (\<lambda>tlv.
     rbind (js_path [0] tlv) (\<lambda>fields.
     rbind (mapFields fields (map_of MapTagStructure)) (\<lambda>fields.
     rbind (getByName fields ''SerialNumber'') (\<lambda>serialNumber.
     rbind (getByName fields ''SignatureAlgorithm'') (\<lambda>signatureAlgorithm.
     rbind (getByName fields ''Subject'') (\<lambda>subject.
     rbind (mapFields subject (map_of MapTagDn)) (\<lambda>subject.
     rbind (getByName subject ''NodeId'') (\<lambda>nodeId.
     rbind (upper_hex nodeId) (\<lambda>nodeIdHex.
     rbind (getByName subject ''FabricId'') (\<lambda>fabricId.
     rbind (upper_hex fabricId) (\<lambda>fabricIdHex.
     rbind (getByName fields ''Issuer'') (\<lambda>issuer.
     rbind (mapFields issuer (map_of MapTagDn)) (\<lambda>issuer.
     rbind (getByName issuer ''IcacId'') (\<lambda>icacId.
     rbind (upper_hex icacId) (\<lambda>icacIdHex.
     rbind (getByName fields ''NotAfter'') (\<lambda>notAfter.
     rbind (getByName fields ''NotBefore'') (\<lambda>notBefore.
     rbind (getByName fields ''Signature'') (\<lambda>signature.
     rbind (getByName fields ''PublicKey'') (\<lambda>publicKeyRaw.
     if signatureAlgorithm \<noteq> JNum 1 then Inl (Thrown ''ERROR: SignatureAlgorithm is not 1'')
     else
       rbind (decodeExtensions fields) (\<lambda>extensions.
       rbind (importKey publicKeyRaw) (\<lambda>publicKey.
       rbind (to_string_hex serialNumber) (\<lambda>serialHex.
       rbind (epochSec notBefore) (\<lambda>notBefore.
       rbind (epochSec notAfter) (\<lambda>notAfter.
         Inr \<lparr>ct_serialNumber = serialHex,
           ct_subject = [(''1.3.6.1.4.1.37244.1.1'', nodeIdHex), (''1.3.6.1.4.1.37244.1.5'', fabricIdHex)],
           ct_issuer = [(''1.3.6.1.4.1.37244.1.3'', icacIdHex)],
           ct_notBefore = notBefore, ct_notAfter = notAfter, ct_extensions = extensions, ct_publicKey = publicKey,
           ct_signature = signature\<rparr>))))))))))))))))))))))))"

section \<open>Naming and lookup\<close>

definition named :: "(int \<Rightarrow> string option) \<Rightarrow> jsval \<Rightarrow> jsval" where
  "named m e = (case e of
      JObj p (Some t) ty v n \<Rightarrow> if t \<noteq> 0 then (case m t of None \<Rightarrow> e | Some nm \<Rightarrow> JObj p (Some t) ty v (Some nm)) else e
    | _ \<Rightarrow> e)"

lemma map_field_telem: "map_field m (tlv_json e) = Inr (named m (tlv_json e))"
  by (cases e) (auto simp: map_field_def named_def opt_num_def set_name_def split: option.splits)

lemma mapFields_telems: "mapFields (JArr (map tlv_json es)) m = Inr (JArr (map (named m \<circ> tlv_json) es))"
proof -
  have "rfold (\<lambda>e acc. rmap (\<lambda>e'. acc @ [e']) (map_field m e)) (map tlv_json es) acc = Inr (acc @ map (named m \<circ> tlv_json) es)" for acc
    by (induction es arbitrary: acc) (simp_all add: map_field_telem)
  then show ?thesis by (simp add: mapFields_def)
qed

text \<open>Looking a name up after naming is looking its tag up.\<close>

lemma getByName_named:
  assumes "\<And>t. m t = Some nm \<longleftrightarrow> t = t0" and "t0 \<noteq> 0"
  shows "getByName (JArr (map (named m \<circ> tlv_json) es)) nm = findTag (JArr (map tlv_json es)) t0"
proof (induction es)
  case (Cons e es)
  obtain p t ty v where e: "tlv_json e = JObj p t ty v None" by (cases e) simp_all
  let ?n = "case t of None \<Rightarrow> None | Some k \<Rightarrow> if k \<noteq> 0 then m k else None"
  have "named m (tlv_json e) = JObj p t ty v ?n" using e by (auto simp: named_def split: option.splits)
  moreover have "?n = Some nm \<longleftrightarrow> t = Some t0" using assms by (auto split: option.splits)
  ultimately show ?case using Cons e by (cases t) auto
qed simp

lemma structure_names:
  "map_of MapTagStructure t = Some ''SerialNumber'' \<longleftrightarrow> t = 1" "map_of MapTagStructure t = Some ''SignatureAlgorithm'' \<longleftrightarrow> t = 2"
  "map_of MapTagStructure t = Some ''Issuer'' \<longleftrightarrow> t = 3" "map_of MapTagStructure t = Some ''NotBefore'' \<longleftrightarrow> t = 4"
  "map_of MapTagStructure t = Some ''NotAfter'' \<longleftrightarrow> t = 5" "map_of MapTagStructure t = Some ''Subject'' \<longleftrightarrow> t = 6"
  "map_of MapTagStructure t = Some ''PublicKey'' \<longleftrightarrow> t = 9" "map_of MapTagStructure t = Some ''Extensions'' \<longleftrightarrow> t = 10"
  "map_of MapTagStructure t = Some ''Signature'' \<longleftrightarrow> t = 11"
  by (simp_all add: MapTagStructure_def)

lemma extension_names:
  "map_of MapTagExtensions t = Some ''BasicConstraints'' \<longleftrightarrow> t = 1" "map_of MapTagExtensions t = Some ''KeyUsage'' \<longleftrightarrow> t = 2"
  "map_of MapTagExtensions t = Some ''ExtendedKeyUsage'' \<longleftrightarrow> t = 3" "map_of MapTagExtensions t = Some ''SubjectKeyId'' \<longleftrightarrow> t = 4"
  "map_of MapTagExtensions t = Some ''AuthorityKeyId'' \<longleftrightarrow> t = 5"
  "map_of MapTagBasicConstraints t = Some ''IsCa'' \<longleftrightarrow> t = 1" "map_of MapTagBasicConstraints t = Some ''PathLength'' \<longleftrightarrow> t = 2"
  by (simp_all add: MapTagExtensions_def MapTagBasicConstraints_def)

lemma dn_names:
  "map_of MapTagDn t = Some ''NodeId'' \<longleftrightarrow> t = 17" "map_of MapTagDn t = Some ''FabricId'' \<longleftrightarrow> t = 21" "map_of MapTagDn t = Some ''IcacId'' \<longleftrightarrow> t = 19"
  by (simp_all add: MapTagDn_def)

lemmas named_fields =
  getByName_named [where m = "map_of MapTagStructure", OF structure_names(1)] getByName_named [where m = "map_of MapTagStructure", OF structure_names(2)]
  getByName_named [where m = "map_of MapTagStructure", OF structure_names(3)] getByName_named [where m = "map_of MapTagStructure", OF structure_names(4)]
  getByName_named [where m = "map_of MapTagStructure", OF structure_names(5)] getByName_named [where m = "map_of MapTagStructure", OF structure_names(6)]
  getByName_named [where m = "map_of MapTagStructure", OF structure_names(7)] getByName_named [where m = "map_of MapTagStructure", OF structure_names(8)]
  getByName_named [where m = "map_of MapTagStructure", OF structure_names(9)]
  getByName_named [where m = "map_of MapTagExtensions", OF extension_names(1)] getByName_named [where m = "map_of MapTagExtensions", OF extension_names(2)]
  getByName_named [where m = "map_of MapTagExtensions", OF extension_names(3)] getByName_named [where m = "map_of MapTagExtensions", OF extension_names(4)]
  getByName_named [where m = "map_of MapTagExtensions", OF extension_names(5)]
  getByName_named [where m = "map_of MapTagBasicConstraints", OF extension_names(6)] getByName_named [where m = "map_of MapTagBasicConstraints", OF extension_names(7)]
  getByName_named [where m = "map_of MapTagDn", OF dn_names(1)] getByName_named [where m = "map_of MapTagDn", OF dn_names(2)]
  getByName_named [where m = "map_of MapTagDn", OF dn_names(3)]

section \<open>Certificates as documents\<close>

text \<open>A distinguished name: tags with their numbers.\<close>

definition dn_elems :: "(int \<times> int) list \<Rightarrow> telem list" where
  "dn_elems dn = map (\<lambda>(t, v). leaf1 t (TUnsigned v)) dn"

definition dn_ok :: "(int \<times> int) list \<Rightarrow> bool" where
  "dn_ok dn \<longleftrightarrow> (\<forall>(t, v) \<in> set dn. 0 < t \<and> t < 256 \<and> 0 \<le> v \<and> v < 2 ^ 64)"

definition extension_elems :: "bool \<Rightarrow> int \<Rightarrow> int list \<Rightarrow> buffer \<Rightarrow> buffer \<Rightarrow> telem list" where
  "extension_elems isCa usage purposes ski aki =
     [TNode None (Some 1) CStruct [leaf1 1 (TBool isCa)], leaf1 2 (TUnsigned usage),
      TNode None (Some 3) CArray (map (TLeaf None None \<circ> TUnsigned) purposes), leaf1 4 (TBytes ski), leaf1 5 (TBytes aki)]"

definition certificate_elem ::
  "buffer \<Rightarrow> (int \<times> int) list \<Rightarrow> int \<Rightarrow> int \<Rightarrow> (int \<times> int) list \<Rightarrow> buffer \<Rightarrow> telem list \<Rightarrow> buffer \<Rightarrow> telem" where
  "certificate_elem serial issuer notBefore notAfter subject key extensions signature = TNode None None CStruct
     [leaf1 1 (TBytes serial), leaf1 2 (TUnsigned 1), TNode None (Some 3) CList (dn_elems issuer), leaf1 4 (TUnsigned notBefore),
      leaf1 5 (TUnsigned notAfter), TNode None (Some 6) CList (dn_elems subject), leaf1 7 (TUnsigned 1), leaf1 8 (TUnsigned 1),
      leaf1 9 (TBytes key), TNode None (Some 10) CList extensions, leaf1 11 (TBytes signature)]"

definition dn_value :: "(int \<times> int) list \<Rightarrow> int \<Rightarrow> jsval" where
  "dn_value dn t = (case map_of dn t of None \<Rightarrow> JUndef | Some v \<Rightarrow> if v < 2 ^ 32 then JNum v else JBig v)"

lemma findTag_dn: "findTag (JArr (map tlv_json (dn_elems dn))) t = Inr (dn_value dn t)"
  by (induction dn) (auto simp: dn_elems_def dn_value_def leaf1_def)

lemma upper_hex_dn: "map_of dn t = Some v \<Longrightarrow> 0 \<le> v \<Longrightarrow> upper_hex (dn_value dn t) = Inr (map to_upper (radix_digits 16 (nat v)))"
  "map_of dn t = None \<Longrightarrow> upper_hex (dn_value dn t) = Inl TypeError"
  by (simp_all add: dn_value_def)

definition oid_of :: "int \<Rightarrow> string option" where
  "oid_of p = map_of MapTagExtendedKeyUsage (IntKey p)"

lemma usage_oids_num:
  assumes "list_all id_range ps"
  shows "usage_oids (JArr (map (tlv_json \<circ> TLeaf None None \<circ> TUnsigned) ps)) = Inr (map oid_of ps)"
proof -
  have "rfold (\<lambda>x acc. rbind (prop_value x) (\<lambda>u. rmap (\<lambda>oid. acc @ [oid]) (js_lookup MapTagExtendedKeyUsage u)))
      (map (tlv_json \<circ> TLeaf None None \<circ> TUnsigned) ps) acc = Inr (acc @ map oid_of ps)" for acc
    using assms by (induction ps arbitrary: acc) (simp_all add: id_range_def js_lookup_def oid_of_def)
  then show ?thesis by (simp add: usage_oids_def)
qed

lemma decodeExtensions_ok:
  assumes "findTag (JArr (map tlv_json es)) 10 = Inr (JArr (map tlv_json (extension_elems isCa usage ps ski aki)))" and "list_all id_range ps" and "id_range usage"
  shows "decodeExtensions (JArr (map (named (map_of MapTagStructure) \<circ> tlv_json) es)) =
    Inr \<lparr>ce_isCa = JBool isCa, ce_pathLength = JUndef, ce_keyUsage = JNum usage, ce_extendedKeyUsage = map oid_of ps,
      ce_subjectKeyId = hex_encode ski, ce_authorityKeyId = hex_encode aki\<rparr>"
proof -
  let ?x = "extension_elems isCa usage ps ski aki"
  have f: "findTag (JArr (map tlv_json ?x)) 1 = Inr (JArr (map tlv_json [leaf1 1 (TBool isCa)]))" "findTag (JArr (map tlv_json ?x)) 2 = Inr (JNum usage)"
    "findTag (JArr (map tlv_json ?x)) 3 = Inr (JArr (map (tlv_json \<circ> TLeaf None None \<circ> TUnsigned) ps))"
    "findTag (JArr (map tlv_json ?x)) 4 = Inr (JBuf ski)" "findTag (JArr (map tlv_json ?x)) 5 = Inr (JBuf aki)"
    using assms(3) by (simp_all add: extension_elems_def leaf1_def id_range_def)
  have b: "findTag (JArr (map tlv_json [leaf1 1 (TBool isCa)])) 1 = Inr (JBool isCa)" "findTag (JArr (map tlv_json [leaf1 1 (TBool isCa)])) 2 = Inr JUndef"
    by (simp_all add: leaf1_def)
  show ?thesis
    using assms(1) f b usage_oids_num [OF assms(2)] by (simp add: decodeExtensions_def named_fields mapFields_telems del: list.map)
qed

lemma dn_wf: "dn_ok dn \<Longrightarrow> list_all wf_telem (dn_elems dn)"
  by (induction dn) (auto simp: dn_ok_def dn_elems_def leaf1_def wf_tag_def)

lemma dn_range: "dn_ok dn \<Longrightarrow> map_of dn t = Some v \<Longrightarrow> 0 \<le> v"
  by (fastforce simp: dn_ok_def dest: map_of_SomeD)

definition small :: "buffer \<Rightarrow> bool" where
  "small b \<longleftrightarrow> int (length b) < 2 ^ 32"

text \<open>
  (C27) A certificate with the key usages of Matter is read completely and rightly when its
  subject names a node and a fabric and its issuer an intermediate authority, and throws a
  \<open>TypeError\<close> otherwise: so does every root certificate, and every node certificate that
  the root issued itself.
\<close>

theorem certificate_decoded:
  assumes "dn_ok issuer" and "dn_ok subject" and "small serial" and "small key" and "small signature" and "small ski" and "small aki"
    and "id_range notBefore" and "id_range notAfter" and "id_range usage" and "list_all id_range purposes" and "importKey (JBuf key) = Inr spki"
  shows "decode_certificate importKey
      (tlv_bytes (certificate_elem serial issuer notBefore notAfter subject key (extension_elems isCa usage purposes ski aki) signature)) =
    (case (map_of subject 17, map_of subject 21, map_of issuer 19) of
       (Some node, Some fabric, Some icac) \<Rightarrow> Inr
         \<lparr>ct_serialNumber = hex_encode serial,
          ct_subject = [(''1.3.6.1.4.1.37244.1.1'', map to_upper (radix_digits 16 (nat node))), (''1.3.6.1.4.1.37244.1.5'', map to_upper (radix_digits 16 (nat fabric)))],
          ct_issuer = [(''1.3.6.1.4.1.37244.1.3'', map to_upper (radix_digits 16 (nat icac)))],
          ct_notBefore = 946684800000 + notBefore * 1000, ct_notAfter = 946684800000 + notAfter * 1000,
          ct_extensions = \<lparr>ce_isCa = JBool isCa, ce_pathLength = JUndef, ce_keyUsage = JNum usage, ce_extendedKeyUsage = map oid_of purposes,
            ce_subjectKeyId = hex_encode ski, ce_authorityKeyId = hex_encode aki\<rparr>,
          ct_publicKey = spki, ct_signature = JBuf signature\<rparr>
     | _ \<Rightarrow> Inl TypeError)"
proof -
  define es where "es = [leaf1 1 (TBytes serial), leaf1 2 (TUnsigned 1), TNode None (Some 3) CList (dn_elems issuer), leaf1 4 (TUnsigned notBefore),
      leaf1 5 (TUnsigned notAfter), TNode None (Some 6) CList (dn_elems subject), leaf1 7 (TUnsigned 1), leaf1 8 (TUnsigned 1),
      leaf1 9 (TBytes key), TNode None (Some 10) CList (extension_elems isCa usage purposes ski aki), leaf1 11 (TBytes signature)]"
  define c where "c = certificate_elem serial issuer notBefore notAfter subject key (extension_elems isCa usage purposes ski aki) signature"
  have c: "c = TNode None None CStruct es" by (simp add: c_def es_def certificate_elem_def)
  have "list_all wf_telem (extension_elems isCa usage purposes ski aki)"
    using assms(6,7,10,11) by (auto simp: extension_elems_def leaf1_def wf_tag_def small_def id_range_def list_all_iff)
  then have "wf_telem c"
    using dn_wf [OF assms(1)] dn_wf [OF assms(2)] assms(3-5,8,9) by (simp add: c es_def leaf1_def wf_tag_def small_def id_range_def)
  then have d: "decode_json (tlv_bytes c) = Inr (JArr [tlv_json c])" by (rule decode_telem)
  have p: "js_path [0] (JArr [tlv_json c]) = Inr (JArr (map tlv_json es))" by (simp add: c)
  have f: "findTag (JArr (map tlv_json es)) 1 = Inr (JBuf serial)" "findTag (JArr (map tlv_json es)) 2 = Inr (JNum 1)"
    "findTag (JArr (map tlv_json es)) 3 = Inr (JArr (map tlv_json (dn_elems issuer)))" "findTag (JArr (map tlv_json es)) 4 = Inr (JNum notBefore)"
    "findTag (JArr (map tlv_json es)) 5 = Inr (JNum notAfter)" "findTag (JArr (map tlv_json es)) 6 = Inr (JArr (map tlv_json (dn_elems subject)))"
    "findTag (JArr (map tlv_json es)) 9 = Inr (JBuf key)" "findTag (JArr (map tlv_json es)) 11 = Inr (JBuf signature)"
    and x: "findTag (JArr (map tlv_json es)) 10 = Inr (JArr (map tlv_json (extension_elems isCa usage purposes ski aki)))"
    using assms(8,9) by (simp_all add: es_def leaf1_def id_range_def)
  note rules = decode_certificate_def d p mapFields_telems named_fields f findTag_dn decodeExtensions_ok [OF x assms(11,10)] assms(12)
  show ?thesis
  proof (cases "map_of subject 17 = None \<or> map_of subject 21 = None \<or> map_of issuer 19 = None")
    case True
    then show ?thesis unfolding c_def [symmetric]
      using upper_hex_dn(1) [OF _ dn_range [OF assms(2)]] upper_hex_dn(2)
      by (cases "map_of subject 17"; cases "map_of subject 21"; cases "map_of issuer 19") (simp_all add: rules del: js_path.simps)
  next
    case False
    then obtain node fabric icac where m: "map_of subject 17 = Some node" "map_of subject 21 = Some fabric" "map_of issuer 19 = Some icac" by auto
    note u = upper_hex_dn(1) [OF m(1) dn_range [OF assms(2) m(1)]] upper_hex_dn(1) [OF m(2) dn_range [OF assms(2) m(2)]]
      upper_hex_dn(1) [OF m(3) dn_range [OF assms(1) m(3)]]
    show ?thesis unfolding c_def [symmetric] by (simp add: rules m u del: js_path.simps)
  qed
qed

text \<open>A root certificate, and a node certificate under an intermediate authority.\<close>

theorem certificate_decoded_witness:
  "decode_certificate (\<lambda>k. Inr [9]) (tlv_bytes (certificate_elem [1] [(20, 5)] 0 60 [(20, 5)] [4] (extension_elems True 96 [] [2] [3]) [8])) = Inl TypeError \<and>
   (\<exists>c. decode_certificate (\<lambda>k. Inr [9]) (tlv_bytes (certificate_elem [1] [(19, 5)] 0 60 [(17, 0xABC), (21, 1)] [4] (extension_elems False 1 [2, 1] [2] [3]) [8])) = Inr c \<and>
      ct_notAfter c = 946684860000 \<and> ce_extendedKeyUsage (ct_extensions c) = [Some ''1.3.6.1.5.5.7.3.2'', Some ''1.3.6.1.5.5.7.3.1''])"
  using certificate_decoded [of "[(20, 5)]" "[(20, 5)]" "[1]" "[4]" "[8]" "[2]" "[3]" 0 60 96 "[]" "\<lambda>k. Inr [9]" "[9]" True]
    certificate_decoded [of "[(19, 5)]" "[(17, 0xABC), (21, 1)]" "[1]" "[4]" "[8]" "[2]" "[3]" 0 60 1 "[2, 1]" "\<lambda>k. Inr [9]" "[9]" False]
  by (simp add: dn_ok_def small_def id_range_def oid_of_def MapTagExtendedKeyUsage_def)

end
