(* ===== verification/Certificate_Tools.thy ===== *)
theory Certificate_Tools
  imports Certificate_Tlv Crypto_Keys
begin

text \<open>
  \<open>src/crypto/Certificate.js\<close> and \<open>src/crypto/ChipCert.js\<close>: certificates as PEM text, the requests for
  test certificates, and the tables of tags and flags; \<open>GenerateCsr\<close> of \<open>src/crypto/Crypto.js\<close> and what
  the operational credentials server reads of a node certificate.
\<close>

section \<open>Base64\<close>

definition b64_alphabet :: string where
  "b64_alphabet = ''ABCDEFGHIJKLMNOPQRSTUVWXYZabcdefghijklmnopqrstuvwxyz0123456789+/''"

definition b64_char :: "nat \<Rightarrow> char" where
  "b64_char d = b64_alphabet ! d"

text \<open>\<open>toString('base64')\<close>: four characters for three octets, padded at the end.\<close>

fun base64 :: "buffer \<Rightarrow> string" where
  "base64 [] = []"
| "base64 [a] = (let n = unat a * 16 in [b64_char (n div 64), b64_char (n mod 64), CHR ''='', CHR ''=''])"
| "base64 [a, b] = (let n = (unat a * 256 + unat b) * 4 in [b64_char (n div 4096), b64_char (n div 64 mod 64), b64_char (n mod 64), CHR ''=''])"
| "base64 (a # b # c # bs) = (let n = (unat a * 256 + unat b) * 256 + unat c
     in [b64_char (n div 262144), b64_char (n div 4096 mod 64), b64_char (n div 64 mod 64), b64_char (n mod 64)] @ base64 bs)"

text \<open>Reading it, as RFC 4648 defines it.\<close>

fun index_of :: "'a \<Rightarrow> 'a list \<Rightarrow> nat option" where
  "index_of x [] = None"
| "index_of x (y # ys) = (if x = y then Some 0 else map_option Suc (index_of x ys))"

definition b64_val :: "char \<Rightarrow> nat option" where
  "b64_val c = index_of c b64_alphabet"

definition b64_vals :: "string \<Rightarrow> nat list option" where
  "b64_vals s = those (map b64_val s)"

fun unbase64 :: "string \<Rightarrow> buffer option" where
  "unbase64 [] = Some []"
| "unbase64 [w, x, y, z] =
     (if y = CHR ''='' \<and> z = CHR ''='' then
        (case b64_vals [w, x] of Some [p, q] \<Rightarrow> Some [word_of_nat ((p * 64 + q) div 16)] | _ \<Rightarrow> None)
      else if z = CHR ''='' then
        (case b64_vals [w, x, y] of Some [p, q, r] \<Rightarrow>
           (let n = ((p * 64 + q) * 64 + r) div 4 in Some [word_of_nat (n div 256), word_of_nat (n mod 256)]) | _ \<Rightarrow> None)
      else (case b64_vals [w, x, y, z] of Some [p, q, r, s] \<Rightarrow>
           (let n = ((p * 64 + q) * 64 + r) * 64 + s in Some [word_of_nat (n div 65536), word_of_nat (n div 256 mod 256), word_of_nat (n mod 256)]) | _ \<Rightarrow> None))"
| "unbase64 (w # x # y # z # cs) =
     (case b64_vals [w, x, y, z] of Some [p, q, r, s] \<Rightarrow>
        (let n = ((p * 64 + q) * 64 + r) * 64 + s
         in map_option (\<lambda>bs. [word_of_nat (n div 65536), word_of_nat (n div 256 mod 256), word_of_nat (n mod 256)] @ bs) (unbase64 cs))
      | _ \<Rightarrow> None)"
| "unbase64 _ = None"

section \<open>PEM\<close>

text \<open>\<open>match(/.{0,64}/g)\<close> on a text without line ends: pieces of 64 characters, and an empty match at the end.\<close>

function match64 :: "string \<Rightarrow> string list" where
  "match64 s = (if s = [] then [[]] else take 64 s # match64 (drop 64 s))"
  by pat_completeness auto
termination
  by (relation "measure length") auto

declare match64.simps [simp del]

definition DerToPem :: "buffer \<Rightarrow> string" where
  "DerToPem der = ''-----BEGIN CERTIFICATE-----'' @ [CHR 0x0A] @ js_join [CHR 0x0A] (match64 (base64 der)) @ ''-----END CERTIFICATE-----''"

section \<open>Test certificates\<close>

text \<open>
  What the generator of the X.509 package is asked for. The names and keys are values of the package.
  A self-signed certificate has one name and one pair of keys; the others have an issuer and the keys
  of both sides. The lifetime is in years of 365 days, in milliseconds.
\<close>

record ('name, 'key) cert_request =
  cr_serialNumber :: string
  cr_subject :: 'name
  cr_issuer :: 'name
  cr_publicKey :: 'key
  cr_signingKey :: 'key
  cr_notBefore :: int
  cr_notAfter :: int

definition year :: int where "year = 24 * 60 * 60 * 1000 * 365"

definition GeneratePAA :: "'key \<times> 'key \<Rightarrow> 'name \<Rightarrow> int \<Rightarrow> int \<Rightarrow> ('name, 'key) cert_request" where
  "GeneratePAA caKeys entityName lifetime now =
     \<lparr>cr_serialNumber = ''01'', cr_subject = entityName, cr_issuer = entityName, cr_publicKey = fst caKeys, cr_signingKey = snd caKeys,
      cr_notBefore = now, cr_notAfter = now + lifetime * year\<rparr>"

definition GeneratePAI :: "'key \<times> 'key \<Rightarrow> ('name, 'key) cert_request \<Rightarrow> 'key \<times> 'key \<Rightarrow> 'name \<Rightarrow> int \<Rightarrow> int \<Rightarrow> ('name, 'key) cert_request" where
  "GeneratePAI leafKeys caCert caKeys entityName lifetime now =
     \<lparr>cr_serialNumber = ''02'', cr_subject = entityName, cr_issuer = cr_subject caCert, cr_publicKey = fst leafKeys, cr_signingKey = snd caKeys,
      cr_notBefore = now, cr_notAfter = now + lifetime * year\<rparr>"

definition GenerateDAC :: "'key \<times> 'key \<Rightarrow> ('name, 'key) cert_request \<Rightarrow> 'key \<times> 'key \<Rightarrow> 'name \<Rightarrow> int \<Rightarrow> int \<Rightarrow> ('name, 'key) cert_request" where
  "GenerateDAC leafKeys caCert caKeys entityName lifetime now =
     \<lparr>cr_serialNumber = ''02'', cr_subject = entityName, cr_issuer = cr_subject caCert, cr_publicKey = fst leafKeys, cr_signingKey = snd caKeys,
      cr_notBefore = now, cr_notAfter = now + lifetime * year\<rparr>"

section \<open>Certificate requests\<close>

text \<open>
  What \<open>Crypto.GenerateCsr\<close> asks of the package: the name, the algorithm and the two keys it imports,
  the private one as a JSON web key. The list of extensions goes under a misspelt name.
\<close>

record ec_algorithm =
  al_name :: string
  al_namedCurve :: string
  al_hash :: string

record csr_request =
  cq_name :: string
  cq_algorithm :: ec_algorithm
  cq_kty :: string
  cq_crv :: string
  cq_d :: string
  cq_publicKey :: buffer

definition Certificate_Algorithm :: ec_algorithm where
  "Certificate_Algorithm = \<lparr>al_name = ''ECDSA'', al_namedCurve = ''P-256'', al_hash = ''SHA-256''\<rparr>"

definition base64url :: "buffer \<Rightarrow> string" where
  "base64url bs = map (\<lambda>c. if c = CHR ''+'' then CHR ''-'' else if c = CHR ''/'' then CHR ''_'' else c) (filter (\<lambda>c. c \<noteq> CHR ''='') (base64 bs))"

definition GenerateCsr :: "crypto_lib \<Rightarrow> buffer \<Rightarrow> csr_request result" where
  "GenerateCsr L rawPrivateKey =
     rmap (\<lambda>publicKey. \<lparr>cq_name = ''O=CSA'', cq_algorithm = \<lparr>al_name = ''ECDSA'', al_namedCurve = ''P-256'', al_hash = ''SHA-256''\<rparr>,
         cq_kty = ''EC'', cq_crv = ''P-256'', cq_d = base64url rawPrivateKey, cq_publicKey = publicKey\<rparr>)
       (PublicFromPrivate L rawPrivateKey)"

text \<open>The request is for the key that a certificate of the same algorithm is issued for.\<close>

lemma csr_of_key:
  "GenerateCsr L key = Inr q \<Longrightarrow> cq_algorithm q = Certificate_Algorithm \<and> PublicFromPrivate L key = Inr (cq_publicKey q)"
  by (auto simp: GenerateCsr_def Certificate_Algorithm_def)

section \<open>What is read of a node certificate\<close>

text \<open>
  \<open>proccessNoc\<close> takes the ids of a decoded certificate: the fabric from the first part of the subject
  and the node from the second, with the public key. The parts are those that \<open>decode\<close> gave to the
  package, in their order.
\<close>

definition proccessNoc :: "(jsval \<Rightarrow> buffer result) \<Rightarrow> buffer \<Rightarrow> (16 word list \<times> 16 word list \<times> buffer) result" where
  "proccessNoc importKey nocTlv = rbind (decode_certificate importKey nocTlv) (\<lambda>noc.
     Inr (snd (ct_subject noc ! 0), snd (ct_subject noc ! 1), ct_publicKey noc))"

text \<open>Since \<open>decode\<close> gives the node id first, the two are taken for each other.\<close>

lemma noc_ids_swapped:
  assumes "decode_certificate importKey noc = Inr c" and "ct_subject c = [(''1.3.6.1.4.1.37244.1.1'', node), (''1.3.6.1.4.1.37244.1.5'', fabric)]"
  shows "\<exists>key. proccessNoc importKey noc = Inr (node, fabric, key)"
  using assms by (simp add: proccessNoc_def)

definition processRootCa :: "(jsval \<Rightarrow> buffer result) \<Rightarrow> buffer \<Rightarrow> certificate result" where
  "processRootCa importKey rootCaTlv = decode_certificate importKey rootCaTlv"

section \<open>Tables\<close>

definition TlvTagStructure :: "(string \<times> int) list" where
  "TlvTagStructure = [(''SerialNumber'', 1), (''SignatureAlgorithm'', 2), (''Issuer'', 3), (''NotBefore'', 4), (''NotAfter'', 5), (''Subject'', 6),
     (''PublicKeyAlgorithm'', 7), (''EllipticCurveId'', 8), (''PublicKey'', 9), (''Extensions'', 10), (''Signature'', 11)]"

definition TlvTagExtensions :: "(string \<times> int) list" where
  "TlvTagExtensions = [(''BasicConstraints'', 1), (''KeyUsage'', 2), (''ExtendedKeyUsage'', 3), (''SubjectKeyId'', 4), (''AuthorityKeyId'', 5),
     (''FutureExtension'', 6)]"

definition TlvTagDn :: "(string \<times> int) list" where
  "TlvTagDn = [(''CommonName'', 1), (''Surname'', 2), (''SerialNumber'', 3), (''CountryName'', 4), (''LocalityName'', 5), (''StateOrProvinceName'', 6),
     (''OrgName'', 7), (''OrgUnitName'', 8), (''Title'', 9), (''Name'', 10), (''GivenName'', 11), (''Initials'', 12), (''GenQualifier'', 13),
     (''DnQualifier'', 14), (''Pseudonym'', 15), (''DomainComponent'', 16), (''MatterNodeId'', 17), (''MatterFirmwareSigningId'', 18),
     (''MatterIcacId'', 19), (''MatterRcacId'', 20), (''MatterFabricId'', 21), (''MatterNocCat'', 22),
     (''CommonNamePs'', 129), (''SurnamePs'', 130), (''SerialNumPs'', 131), (''CountryNamePs'', 132), (''LocalityNamePs'', 133),
     (''StateOrProvinceNamePs'', 134), (''OrgNamePs'', 135), (''OrgUnitNamePs'', 136), (''TitlePs'', 137), (''NamePs'', 138), (''GivenNamePs'', 139),
     (''InitialsPs'', 140), (''GenQualifierPs'', 141), (''DnQualifierPs'', 143), (''PseudonymOs'', 144)]"

definition TlvTagBasicConstraints :: "(string \<times> int) list" where
  "TlvTagBasicConstraints = [(''kTag_BasicConstraints_IsCA'', 1), (''kTag_BasicConstraints_PathLenConstraint'', 2)]"

definition CertType :: "(string \<times> int) list" where
  "CertType = [(''kCertType_NotSpecified'', 0), (''kCertType_Root'', 1), (''kCertType_ICA'', 2), (''kCertType_Node'', 3), (''kCertType_FirmwareSigning'', 4)]"

definition KeyPurposeFlags :: "(string \<times> int) list" where
  "KeyPurposeFlags = [(''kServerAuth'', 0x01), (''kClientAuth'', 0x02), (''kCodeSigning'', 0x04), (''kEmailProtection'', 0x08), (''kTimeStamping'', 0x10),
     (''kOCSPSigning'', 0x20)]"

definition KeyUsageFlags :: "(string \<times> int) list" where
  "KeyUsageFlags = [(''kDigitalSignature'', 0x0001), (''kNonRepudiation'', 0x0002), (''kKeyEncipherment'', 0x0004), (''kDataEncipherment'', 0x0008),
     (''kKeyAgreement'', 0x0010), (''kKeyCertSign'', 0x0020), (''kCRLSign'', 0x0040), (''kEncipherOnly'', 0x0080), (''kDecipherOnly'', 0x0100)]"

definition CertFlags :: "(string \<times> int) list" where
  "CertFlags = [(''kExtPresent_BasicConstraints'', 0x0001), (''kExtPresent_KeyUsage'', 0x0002), (''kExtPresent_ExtendedKeyUsage'', 0x0004),
     (''kExtPresent_SubjectKeyId'', 0x0008), (''kExtPresent_AuthKeyId'', 0x0010), (''kExtPresent_FutureIsCritical'', 0x0020),
     (''kPathLenConstraintPresent'', 0x0040), (''kIsCA'', 0x0080), (''kIsTrustAnchor'', 0x0100), (''kTBSHashPresent'', 0x0200)]"

definition CertDecodeFlags :: "(string \<times> int) list" where
  "CertDecodeFlags = [(''kGenerateTBSHash'', 0x01), (''kIsTrustAnchor'', 0x02)]"

section \<open>Reading back\<close>

lemma index_of_nth: "distinct xs \<Longrightarrow> i < length xs \<Longrightarrow> index_of (xs ! i) xs = Some i"
proof (induction xs arbitrary: i)
  case (Cons x xs)
  then show ?case by (cases i) (auto simp: in_set_conv_nth)
qed simp

lemma b64_alphabet_ok: "distinct b64_alphabet" "length b64_alphabet = 64" "CHR ''='' \<notin> set b64_alphabet"
  by (simp_all add: b64_alphabet_def)

lemma b64_val_char: "d < 64 \<Longrightarrow> b64_val (b64_char d) = Some d" "d < 64 \<Longrightarrow> b64_char d \<noteq> CHR ''=''"
proof -
  show "d < 64 \<Longrightarrow> b64_val (b64_char d) = Some d" unfolding b64_val_def b64_char_def using b64_alphabet_ok by (simp add: index_of_nth)
  show "d < 64 \<Longrightarrow> b64_char d \<noteq> CHR ''=''" unfolding b64_char_def using b64_alphabet_ok by (metis nth_mem)
qed

lemma b64_vals_chars: "list_all (\<lambda>d. d < 64) ds \<Longrightarrow> b64_vals (map b64_char ds) = Some ds"
  by (induction ds) (simp_all add: b64_vals_def b64_val_char)

lemma unat_byte: "unat (b :: byte) < 256"
  using unsigned_less [of b] by simp

text \<open>A number of 24 bits as four digits of 6 bits and as three octets.\<close>

lemma digits64: "((n div 262144 * 64 + n div 4096 mod 64) * 64 + n div 64 mod 64) * 64 + n mod 64 = (n :: nat)"
proof -
  have d: "n div 4096 = n div 64 div 64" "n div 262144 = n div 4096 div 64"
    using div_mult2_eq [of n 64 64] div_mult2_eq [of n 4096 64] by simp_all
  have "n div 262144 * 64 + n div 4096 mod 64 = n div 4096" "n div 4096 * 64 + n div 64 mod 64 = n div 64"
    unfolding d by (simp_all only: div_mult_mod_eq)
  then show ?thesis by (simp only: div_mult_mod_eq)
qed

lemma digits256:
  assumes "a < 256" and "b < 256" and "c < 256" and "n = (a * 256 + b) * 256 + (c :: nat)"
  shows "n div 65536 = a" "n div 256 mod 256 = b" "n mod 256 = c" "n div 262144 < 64"
proof -
  have "n div 256 = a * 256 + b" using assms(3,4) by simp
  moreover have "n div 65536 = n div 256 div 256" using div_mult2_eq [of n 256 256] by simp
  ultimately show "n div 65536 = a" "n div 256 mod 256 = b" using assms(2) by simp_all
  show "n mod 256 = c" unfolding assms(4) using assms(3) by (simp only: mod_mult_self3 mod_less)
  have "a * 256 + b \<le> 65535" using assms(1,2) by simp
  then have "(a * 256 + b) * 256 \<le> 65535 * 256" by (rule mult_le_mono1)
  then have "n < 64 * 262144" unfolding assms(4) using assms(3) by simp
  then show "n div 262144 < 64" by (simp only: less_mult_imp_div_less)
qed

lemma b64_group:
  assumes "n = (unat (a :: byte) * 256 + unat (b :: byte)) * 256 + unat (c :: byte)"
  shows "b64_vals [b64_char (n div 262144), b64_char (n div 4096 mod 64), b64_char (n div 64 mod 64), b64_char (n mod 64)] =
      Some [n div 262144, n div 4096 mod 64, n div 64 mod 64, n mod 64]"
    and "[word_of_nat (n div 65536), word_of_nat (n div 256 mod 256), word_of_nat (n mod 256)] = [a, b, c]"
proof -
  note d = digits256 [OF unat_byte unat_byte unat_byte assms]
  show "b64_vals [b64_char (n div 262144), b64_char (n div 4096 mod 64), b64_char (n div 64 mod 64), b64_char (n mod 64)] =
      Some [n div 262144, n div 4096 mod 64, n div 64 mod 64, n mod 64]"
    using b64_vals_chars [of "[n div 262144, n div 4096 mod 64, n div 64 mod 64, n mod 64]"] d(4) by simp
  show "[word_of_nat (n div 65536), word_of_nat (n div 256 mod 256), word_of_nat (n mod 256)] = [a, b, c]"
    unfolding d(1-3) by simp
qed

lemma unbase64_one: "unbase64 (base64 [a]) = Some [a]"
proof -
  let ?n = "unat a * 16"
  have "?n < 64 * 64" using unat_byte [of a] by simp
  then have "?n div 64 < 64" by (simp only: less_mult_imp_div_less)
  then have "b64_vals [b64_char (?n div 64), b64_char (?n mod 64)] = Some [?n div 64, ?n mod 64]" using b64_vals_chars [of "[?n div 64, ?n mod 64]"] by simp
  moreover have "(?n div 64 * 64 + ?n mod 64) div 16 = unat a" by (simp only: div_mult_mod_eq)
  ultimately show ?thesis by (simp only: base64.simps Let_def unbase64.simps option.case list.case if_True simp_thms) simp
qed

lemma unbase64_two: "unbase64 (base64 [a, b]) = Some [a, b]"
proof -
  let ?m = "unat a * 256 + unat b"
  let ?n = "?m * 4"
  have "?n < 64 * 4096" using unat_byte [of a] unat_byte [of b] by simp
  then have l: "?n div 4096 < 64" by (simp only: less_mult_imp_div_less)
  then have v: "b64_vals [b64_char (?n div 4096), b64_char (?n div 64 mod 64), b64_char (?n mod 64)] = Some [?n div 4096, ?n div 64 mod 64, ?n mod 64]"
    using b64_vals_chars [of "[?n div 4096, ?n div 64 mod 64, ?n mod 64]"] by simp
  have "?n div 4096 = ?n div 64 div 64" using div_mult2_eq [of ?n 64 64] by simp
  then have e: "((?n div 4096 * 64 + ?n div 64 mod 64) * 64 + ?n mod 64) div 4 = ?m" by (simp only: div_mult_mod_eq) simp
  have "b64_char (?n mod 64) \<noteq> CHR ''=''" by (rule b64_val_char(2)) simp
  moreover have "?m div 256 = unat a" "?m mod 256 = unat b" using unat_byte [of b] by simp_all
  ultimately show ?thesis using v e by (simp only: base64.simps Let_def unbase64.simps option.case list.case if_True if_False simp_thms) simp
qed

lemma base64_nonempty: "bs \<noteq> [] \<Longrightarrow> base64 bs \<noteq> []"
  by (cases bs rule: base64.cases) (simp_all add: Let_def)

lemma unbase64_base64: "unbase64 (base64 bs) = Some bs"
proof (induction bs rule: base64.induct)
  case (4 a b c bs)
  define n where "n = (unat a * 256 + unat b) * 256 + unat c"
  note g = b64_group [OF n_def]
  have s: "base64 (a # b # c # bs) = [b64_char (n div 262144), b64_char (n div 4096 mod 64), b64_char (n div 64 mod 64), b64_char (n mod 64)] @ base64 bs"
    by (simp add: Let_def n_def)
  have ne: "b64_char (n mod 64) \<noteq> CHR ''=''" by (rule b64_val_char(2)) simp
  show ?case
  proof (cases "bs = []")
    case True
    then show ?thesis unfolding s using g ne by (simp only: base64.simps append_Nil2 unbase64.simps option.case list.case digits64 Let_def if_False simp_thms)
  next
    case False
    then obtain u us where u: "base64 bs = u # us" using base64_nonempty by (cases "base64 bs") auto
    with "4" have "unbase64 (u # us) = Some bs" by metis
    then show ?thesis unfolding s u using g by (simp only: append_Cons append_Nil unbase64.simps option.case list.case digits64 Let_def option.map list.inject)
  qed
qed (simp_all only: unbase64_one unbase64_two, simp)

lemma match64_lines:
  "\<exists>ls. list_all (\<lambda>l. l \<noteq> [] \<and> length l \<le> 64) ls \<and> js_join [e] (match64 s) = concat (map (\<lambda>l. l @ [e]) ls) \<and> concat ls = s"
proof (induction s rule: match64.induct)
  case (1 s)
  show ?case
  proof (cases "s = []")
    case True
    then show ?thesis by (intro exI [of _ "[]"]) (simp add: match64.simps)
  next
    case False
    then obtain ls where ls: "list_all (\<lambda>l. l \<noteq> [] \<and> length l \<le> 64) ls" "js_join [e] (match64 (drop 64 s)) = concat (map (\<lambda>l. l @ [e]) ls)"
      "concat ls = drop 64 s" using 1 by blast
    have "match64 (drop 64 s) \<noteq> []" by (simp add: match64.simps)
    then have "js_join [e] (match64 s) = take 64 s @ [e] @ js_join [e] (match64 (drop 64 s))" using False by (simp add: match64.simps [of s] js_join_Cons)
    then show ?thesis using ls False by (intro exI [of _ "take 64 s # ls"]) simp
  qed
qed

text \<open>
  PEM text: what \<open>DerToPem\<close> returns for any octets is a line with the opening marker, lines of at most 64
  characters that each end the line, and the closing marker; the characters between the markers read as Base64 give the octets back.
\<close>

theorem der_to_pem:
  "\<exists>ls. DerToPem der = ''-----BEGIN CERTIFICATE-----'' @ [CHR 0x0A] @ concat (map (\<lambda>l. l @ [CHR 0x0A]) ls) @ ''-----END CERTIFICATE-----'' \<and>
    list_all (\<lambda>l. l \<noteq> [] \<and> length l \<le> 64) ls \<and> unbase64 (concat ls) = Some der"
proof -
  obtain ls where ls: "list_all (\<lambda>l. l \<noteq> [] \<and> length l \<le> 64) ls" "js_join [CHR 0x0A] (match64 (base64 der)) = concat (map (\<lambda>l. l @ [CHR 0x0A]) ls)"
    "concat ls = base64 der" using match64_lines by blast
  have "unbase64 (concat ls) = Some der" unfolding ls(3) by (rule unbase64_base64)
  then show ?thesis using ls(1) unfolding DerToPem_def ls(2) by blast
qed

section \<open>The tables agree\<close>

text \<open>The tags are those that \<open>CertificateTlv\<close> names; the flags of a table can be told apart in any union.\<close>

lemma tag_tables:
  "map prod.swap TlvTagStructure = MapTagStructure" "map prod.swap TlvTagExtensions = MapTagExtensions"
  "map snd (take 22 TlvTagDn) = map fst MapTagDn" "map fst (take 16 TlvTagDn) = map snd (take 16 MapTagDn)"
  "map (drop 6 \<circ> fst) (take 6 (drop 16 TlvTagDn)) = map snd (drop 16 MapTagDn)" "map snd TlvTagBasicConstraints = map fst MapTagBasicConstraints"
  by (simp_all add: TlvTagStructure_def MapTagStructure_def TlvTagExtensions_def MapTagExtensions_def TlvTagDn_def MapTagDn_def
      TlvTagBasicConstraints_def MapTagBasicConstraints_def)

lemma flag_tables:
  "map snd KeyPurposeFlags = map (\<lambda>i. 2 ^ i) [0..<6]" "map snd KeyUsageFlags = map (\<lambda>i. 2 ^ i) [0..<9]" "map snd CertFlags = map (\<lambda>i. 2 ^ i) [0..<10]"
  "map snd CertDecodeFlags = map (\<lambda>i. 2 ^ i) [0..<2]" "length KeyPurposeFlags = length MapTagExtendedKeyUsage"
  by (simp_all add: KeyPurposeFlags_def KeyUsageFlags_def CertFlags_def CertDecodeFlags_def MapTagExtendedKeyUsage_def upt_rec)

text \<open>
  The tags of names encoded as printable strings are the base tags plus \<open>0x80\<close>, except for the last two,
  \<open>DnQualifierPs\<close> and \<open>PseudonymOs\<close>, which are one too high.
\<close>

lemma printable_tags:
  "map snd (take 13 (drop 22 TlvTagDn)) = map (\<lambda>(n, t). t + 0x80) (take 13 TlvTagDn)"
  "map_of TlvTagDn ''DnQualifierPs'' = Some (14 + 0x80 + 1)" "map_of TlvTagDn ''DnQualifier'' = Some 14"
  "map_of TlvTagDn ''PseudonymOs'' = Some (15 + 0x80 + 1)" "map_of TlvTagDn ''Pseudonym'' = Some 15"
  by (simp_all add: TlvTagDn_def)

text \<open>A chain of test certificates: each is issued by the subject, and signed with the private key, of the one before.\<close>

lemma test_chain:
  fixes paaKeys paiKeys dacKeys :: "'key \<times> 'key" and root pai dac :: 'name and lifetime now :: int
  defines "paa \<equiv> GeneratePAA paaKeys root lifetime now"
  defines "ica \<equiv> GeneratePAI paiKeys paa paaKeys pai lifetime now"
  defines "leaf \<equiv> GenerateDAC dacKeys ica paiKeys dac lifetime now"
  shows "cr_issuer paa = cr_subject paa" "cr_issuer ica = cr_subject paa" "cr_issuer leaf = cr_subject ica"
    "cr_publicKey paa = fst paaKeys" "cr_signingKey ica = snd paaKeys" "cr_signingKey leaf = snd paiKeys" "cr_notAfter leaf = cr_notAfter paa"
  by (simp_all add: paa_def ica_def leaf_def GeneratePAA_def GeneratePAI_def GenerateDAC_def)

end
