(* ===== verification/Support_Modules.thy ===== *)
theory Support_Modules
  imports Json_Text
begin

text \<open>
  Small modules: the tables of \<open>src/Const.js\<close>, the echo protocol (\<open>src/protocols/echo/\<close>), the trace file
  of \<open>src/util/Tracer.js\<close>, \<open>src/util/Random.js\<close> and \<open>src/util/Mixin.js\<close>.
\<close>

section \<open>Constants\<close>

definition Protocols :: "(string \<times> int) list" where
  "Protocols = [(''SECURE_CHANNEL'', 0x0000), (''INTERACTION_MODEL'', 0x0001), (''BDX'', 0x0002), (''COMMISSIONING'', 0x0003), (''ECHO'', 0x0004)]"

definition Clusters :: "(string \<times> int) list" where
  "Clusters =
     [(''IDENTITY'', 0x0003), (''GROUPS'', 0x0004), (''SCENES'', 0x0005), (''ON_OFF'', 0x0006), (''LEVEL'', 0x0008), (''DESCRIPTOR'', 0x001D),
      (''BINDING'', 0x001E), (''ACCESS_CONTROL'', 0x001F), (''BRIDGED_ACTIONS'', 0x0025), (''GENERAL_COMMISSIONING'', 0x0030),
      (''NETWORK_COMMISSIONING'', 0x0031), (''BRIDGED_DEVICE_BASIC_INFO'', 0x0039), (''SWITCH'', 0x003B), (''OPERATIONAL_CREDENTIALS'', 0x003E),
      (''FIXED_LABEL'', 0x0040), (''USER_LABEL'', 0x0041), (''PROXY_CONFIGURATION'', 0x0042), (''PROXY_DISCOVERY'', 0x0043), (''BOOLEAN'', 0x0045),
      (''MODE_SELECT'', 0x0050), (''DOOR_LOCK'', 0x0101), (''WINDOW_COVERING'', 0x0102), (''PUMP_CONTROL'', 0x0200), (''THERMOSTAT'', 0x0201),
      (''FAN_CONTROL'', 0x0202), (''THERMOSTAT_UI_CONFIGURATION'', 0x0204), (''COLOR_CONTROL'', 0x0300), (''BALAST_CONFIGURATION'', 0x0301),
      (''ILLUMINANCE_MEASUREMENT'', 0x0400), (''TEMPERATURE_MEASUREMENT'', 0x0402), (''PRESSURE_MEASUREMENT'', 0x0403),
      (''FLOW_MEASUREMENT'', 0x0404), (''HUMIDITY_MEASUREMENT'', 0x0405), (''OCCUPANCY_MEASUREMENT'', 0x0406), (''LEAF_WETNESS'', 0x0407),
      (''SOIL_MOISTURE'', 0x0408), (''WAKE_ON_LAN'', 0x0503), (''CHANNEL'', 0x0504), (''TARGET_NAVIGATOR'', 0x0505), (''MEDIA_PLAYBACK'', 0x0506),
      (''MEDIA_INPUT'', 0x0507), (''LOW_POWER'', 0x0508), (''KEYPAD_INPUT'', 0x0509), (''CONTENT_LAUNCHER'', 0x050A), (''AUDIO_OUTPUT'', 0x050B),
      (''APP_LAUNCHER'', 0x050C), (''APP_BASIC'', 0x050D), (''ACCOUNT_LOGIN'', 0x050E)]"

definition ClusterOnOff_Commands :: "(string \<times> int) list" where
  "ClusterOnOff_Commands = [(''Off'', 0x00), (''On'', 0x01), (''Toggle'', 0x02), (''OnWithEffect'', 0x40), (''OnWithRecallScene'', 0x41), (''OnWithTimedOff'', 0x42)]"

text \<open>No two names share an id, and the ids of the protocols and clusters that have code are those of their modules.\<close>

lemma ids_distinct: "distinct (map snd Protocols)" "distinct (map snd Clusters)" "distinct (map snd ClusterOnOff_Commands)"
  by (simp_all add: Protocols_def Clusters_def ClusterOnOff_Commands_def)

lemma ids_used:
  "map_of Protocols ''SECURE_CHANNEL'' = Some SESSION_PROTOCOL_ID" "map_of Protocols ''INTERACTION_MODEL'' = Some IM_PROTOCOL_ID"
  "map_of Clusters ''GENERAL_COMMISSIONING'' = Some GENERAL_COMMISSIONING_CLUSTER_ID"
  "map_of Clusters ''NETWORK_COMMISSIONING'' = Some NETWORK_COMMISSIONING_CLUSTER_ID"
  "map_of Clusters ''OPERATIONAL_CREDENTIALS'' = Some OPERATIONAL_CREDENTIALS_CLUSTER_ID"
  by (simp_all add: Protocols_def Clusters_def session_consts IM_PROTOCOL_ID_def GENERAL_COMMISSIONING_CLUSTER_ID_def NETWORK_COMMISSIONING_CLUSTER_ID_def
      OPERATIONAL_CREDENTIALS_CLUSTER_ID_def)

section \<open>The echo protocol\<close>

definition ECHO_PROTOCOL_ID :: int where "ECHO_PROTOCOL_ID = 0x0004"
definition EchoCommand_EchoRequest :: int where "EchoCommand_EchoRequest = 0x01"
definition EchoCommand_EchoResponse :: int where "EchoCommand_EchoResponse = 0x02"
definition kEchoMessageTimeoutMsec :: int where "kEchoMessageTimeoutMsec = 800"

text \<open>The server: what it prints and what is sent. A message has no property \<open>Opcode\<close>, and the response is not sent.\<close>

definition message_Opcode :: "message \<Rightarrow> jsval" where
  "message_Opcode msg = JUndef"

definition sendEchoResponse :: "message \<Rightarrow> 'a net_scheme \<Rightarrow> 'a net_scheme result" where
  "sendEchoResponse msg n = rmap (\<lambda>payload. n) (Payload msg)"

definition onEchoRequest :: "message \<Rightarrow> 'a net_scheme \<Rightarrow> 'a net_scheme result" where
  "onEchoRequest = sendEchoResponse"

definition echo_onProtocolMessage :: "message \<Rightarrow> 'a net_scheme \<Rightarrow> (string list \<times> 'a net_scheme) result" where
  "echo_onProtocolMessage msg n = rmap (Pair [''rx: Echo protocol message''])
     (if message_Opcode msg = JNum EchoCommand_EchoRequest then onEchoRequest msg n else Inr n)"

text \<open>The client: \<open>this.exchangeMgr\<close> is \<open>undefined\<close> (the field is \<open>_exchangeMgr\<close>), and so calling its method throws.\<close>

definition sendEchoRequest :: "buffer \<Rightarrow> 'a net_scheme \<Rightarrow> 'a net_scheme result" where
  "sendEchoRequest payload n = Inl TypeError"

lemma echo_silent: "echo_onProtocolMessage msg n = Inr ([''rx: Echo protocol message''], n)"
  by (simp add: echo_onProtocolMessage_def message_Opcode_def)

section \<open>The trace file\<close>

definition TRACE_CATEGORY :: string where "TRACE_CATEGORY = ''matternode''"

definition Tracer_Type :: "(string \<times> string) list" where
  "Tracer_Type = [(''Begin'', ''B''), (''End'', ''E''), (''Complete'', ''X''), (''Meta'', ''M''), (''Instant'', ''i''), (''Counter'', ''C''), (''Sample'', ''S''),
     (''MemGlobal'', ''V''), (''MemProcess'', ''v''), (''Obj'', ''O''), (''ObjNew'', ''N''), (''ObjDestroy'', ''D''), (''AsyncBegin'', ''b''),
     (''AsyncInstant'', ''i''), (''AsyncEnd'', ''e''), (''FlowStart'', ''s''), (''FlowStep'', ''t''), (''FlowEnd'', ''f''), (''ClockSync'', ''c'')]"

text \<open>The tracer: its level, the process id and the text written so far. Time and arguments come with each event.\<close>

record tracer =
  tr_level :: int
  tr_pid :: int
  tr_written :: "16 word list"

type_synonym trace_args = "(string \<times> 16 word list) list option"

definition trace_args_text :: "(string \<times> 16 word list) list \<Rightarrow> 16 word list" where
  "trace_args_text args = json_block 123 125 [] [] (map (\<lambda>(k, v). json_member [] k (json_quote v)) args)"

text \<open>\<open>JSON.stringify(traceEntry)\<close>; \<open>_tid\<close> is never set, so that \<open>tid\<close> is left out.\<close>

definition trace_entry :: "int \<Rightarrow> int \<Rightarrow> 16 word list \<Rightarrow> string \<Rightarrow> trace_args \<Rightarrow> 16 word list" where
  "trace_entry pid now name ph args = json_block 123 125 [] []
     ([json_member [] ''pid'' (dec_string pid), json_member [] ''ts'' (dec_string now), json_member [] ''cat'' (json_quote (js_string TRACE_CATEGORY)),
       json_member [] ''dur'' (dec_string 0), json_member [] ''ph'' (json_quote (js_string ph)), json_member [] ''name'' (json_quote name)] @
      map (\<lambda>a. json_member [] ''args'' (trace_args_text a)) (option_list args))"

definition tracer_write :: "16 word list \<Rightarrow> tracer \<Rightarrow> tracer" where
  "tracer_write s t = t\<lparr>tr_written := tr_written t @ s\<rparr>"

text \<open>The default of the name is an undefined variable; it is evaluated first, when no name is given.\<close>

definition tracer_emit :: "int \<Rightarrow> 16 word list option \<Rightarrow> string \<Rightarrow> trace_args \<Rightarrow> tracer \<Rightarrow> tracer result" where
  "tracer_emit now name ph args t =
     (case name of
        None \<Rightarrow> Inl ReferenceError
      | Some name \<Rightarrow> if tr_level t = 0 then Inr t else Inr (tracer_write (trace_entry (tr_pid t) now name ph args @ [44]) t))"

definition tracer_meta :: "int \<Rightarrow> string \<Rightarrow> trace_args \<Rightarrow> tracer \<Rightarrow> tracer result" where
  "tracer_meta now name args = tracer_emit now (Some (js_string name)) ''M'' args"

definition writeHeader :: "int \<Rightarrow> tracer \<Rightarrow> tracer result" where
  "writeHeader now t =
     rbind (tracer_meta now ''process_name'' (Some [(''name'', js_string TRACE_CATEGORY)]) (tracer_write (js_string ''{\"traceEvents\":['') t))
       (tracer_meta now ''thread_name'' (Some [(''name'', js_string (TRACE_CATEGORY @ '' thread''))]))"

definition writeFooter :: "tracer \<Rightarrow> tracer" where
  "writeFooter = tracer_write (js_string ''{}]}'')"

definition new_tracer :: "int \<Rightarrow> int \<Rightarrow> tracer result" where
  "new_tracer pid now = writeHeader now \<lparr>tr_level = 1, tr_pid = pid, tr_written = []\<rparr>"

definition set_tracer_level :: "int \<Rightarrow> tracer \<Rightarrow> tracer result" where
  "set_tracer_level v t = (if v = 0 \<or> v = 1 then Inr (t\<lparr>tr_level := v\<rparr>) else Inl (Thrown ''Invalid value''))"

text \<open>
  The other methods name a kind of event: the default of the name, the entry of \<open>Tracer.Type\<close>, and
  whether the event has arguments, none by default.
\<close>

definition tracer_methods :: "(string \<times> string \<times> string \<times> bool) list" where
  "tracer_methods =
     [(''begin'', ''event'', ''Begin'', False), (''end'', ''event'', ''End'', False), (''event'', ''event'', ''Complete'', False),
      (''instant'', ''event'', ''Instant'', False), (''asyncBegin'', ''async'', ''AsyncBegin'', False), (''asyncStep'', ''async'', ''AsyncInstant'', False),
      (''asyncEnd'', ''async'', ''AsyncEnd'', False), (''flowStart'', ''flow'', ''FlowStart'', False), (''flowStep'', ''flow'', ''FlowStep'', False),
      (''flowEnd'', ''flow'', ''FlowEnd'', False), (''meta'', ''meta'', ''Meta'', True), (''obj'', ''obj'', ''Obj'', True),
      (''objNew'', ''obj new'', ''Complete'', True), (''objDestroy'', ''obj destroy'', ''ObjDestroy'', True),
      (''memGlobal'', ''global memory'', ''MemGlobal'', True), (''memTask'', ''task memory'', ''MemProcess'', True)]"

definition tracer_call :: "int \<Rightarrow> string \<Rightarrow> 16 word list option \<Rightarrow> trace_args \<Rightarrow> tracer \<Rightarrow> tracer result" where
  "tracer_call now method name args t = (case map_of tracer_methods method of
       None \<Rightarrow> Inl TypeError
     | Some (usual, ty, has_args) \<Rightarrow> (case map_of Tracer_Type ty of
         None \<Rightarrow> Inl Unmodelled
       | Some ph \<Rightarrow> tracer_emit now (Some (case name of None \<Rightarrow> js_string usual | Some s \<Rightarrow> s)) ph
           (if has_args then (case args of None \<Rightarrow> Some [] | Some a \<Rightarrow> Some a) else None) t))"

text \<open>Whatever is traced and however the level changes, the file is one JSON array when the process exits: the entries and an empty object.\<close>

datatype tracer_op = Emit int "16 word list" string trace_args | SetLevel int

fun tracer_step :: "tracer_op \<Rightarrow> tracer \<Rightarrow> tracer result" where
  "tracer_step (Emit now name ph args) = tracer_emit now (Some name) ph args"
| "tracer_step (SetLevel v) = set_tracer_level v"

definition entries_written :: "16 word list list \<Rightarrow> tracer \<Rightarrow> bool" where
  "entries_written es t \<longleftrightarrow> tr_written t = js_string ''{\"traceEvents\":['' @ concat (map (\<lambda>e. e @ [44]) es)"

text \<open>Every method has its kind of event, so that a call of it is an event.\<close>

lemma tracer_call_step:
  assumes "method \<in> fst ` set tracer_methods"
  shows "\<exists>s ph a. tracer_call now method name args t = tracer_step (Emit now s ph a) t"
proof -
  obtain d ty b where m: "map_of tracer_methods method = Some (d, ty, b)" using assms by (metis map_of_eq_None_iff not_None_eq prod.exhaust)
  have "list_all (\<lambda>(_, _, ty, _). map_of Tracer_Type ty \<noteq> None) tracer_methods" by (simp add: tracer_methods_def Tracer_Type_def)
  then have "map_of Tracer_Type ty \<noteq> None" using map_of_SomeD [OF m] by (auto simp: list_all_iff)
  then obtain ph where "map_of Tracer_Type ty = Some ph" by blast
  then have "tracer_call now method name args t = tracer_step (Emit now (case name of None \<Rightarrow> js_string d | Some s \<Rightarrow> s) ph
      (if b then (case args of None \<Rightarrow> Some [] | Some a \<Rightarrow> Some a) else None)) t"
    using m by (simp add: tracer_call_def)
  then show ?thesis by blast
qed

lemma tracer_step_entries: "entries_written es t \<Longrightarrow> tracer_step op t = Inr t' \<Longrightarrow> \<exists>es'. entries_written es' t'"
  by (cases op) (auto simp: tracer_emit_def set_tracer_level_def entries_written_def tracer_write_def split: if_splits
      intro: exI [of _ es] exI [of _ "es @ [e]" for e])

lemma join_entries: "concat (map (\<lambda>e. e @ sep) es) @ z = js_join sep (es @ [z])"
  by (induction es) (simp_all add: js_join_Cons)

lemma trace_file:
  assumes "new_tracer pid now = Inr t0" and "rfold tracer_step ops t0 = Inr t"
  shows "\<exists>es. tr_written (writeFooter t) = js_string ''{\"traceEvents\":['' @ js_join [44] (es @ [js_string ''{}'']) @ js_string '']}''"
proof -
  have "\<exists>es. entries_written es t0"
    using assms(1) by (auto simp: new_tracer_def writeHeader_def tracer_meta_def tracer_emit_def entries_written_def tracer_write_def
        intro!: exI [of _ "[e, f]" for e f])
  then have "\<exists>es. entries_written es t" using assms(2)
  proof (induction ops arbitrary: t0)
    case (Cons op ops)
    then obtain t1 where "tracer_step op t0 = Inr t1" "rfold tracer_step ops t1 = Inr t" by auto
    with Cons tracer_step_entries show ?case by blast
  qed simp
  then obtain es where "tr_written t = js_string ''{\"traceEvents\":['' @ concat (map (\<lambda>e. e @ [44]) es)" by (auto simp: entries_written_def)
  moreover have "js_string ''{}]}'' = js_string ''{}'' @ js_string '']}''" by (simp add: js_string_def)
  ultimately show ?thesis unfolding join_entries [symmetric] by (intro exI [of _ es]) (simp add: writeFooter_def tracer_write_def)
qed

section \<open>Random numbers\<close>

text \<open>
  \<open>Math.random()\<close> is \<open>k / 2 ^ 53\<close> for some \<open>k\<close>. The products of the three calls are by powers of two,
  which doubles hold exactly.
\<close>

definition getRandomInt :: "int \<Rightarrow> int \<Rightarrow> int \<Rightarrow> int" where
  "getRandomInt k mini maxi = k * (maxi - mini + 1) div 2 ^ 53 + mini"

definition getRandomUint8 :: "int \<Rightarrow> int" where "getRandomUint8 k = getRandomInt k 0 255"
definition getRandomUint16 :: "int \<Rightarrow> int" where "getRandomUint16 k = getRandomInt k 0 65535"
definition getRandomUint32 :: "int \<Rightarrow> int" where "getRandomUint32 k = getRandomInt k 0 4294967295"

lemma int_div_mult_le: "0 < m \<Longrightarrow> m * (a div m) \<le> (a::int)"
  using mult_div_mod_eq [of m a] pos_mod_sign [of m a] by linarith

lemma getRandomInt_range:
  assumes "0 \<le> k" and "k < 2 ^ 53" and "mini \<le> maxi"
  shows "mini \<le> getRandomInt k mini maxi \<and> getRandomInt k mini maxi \<le> maxi"
proof -
  let ?w = "maxi - mini + 1"
  have "0 \<le> k * ?w" using assms by simp
  then have z: "0 \<le> k * ?w div 2 ^ 53" by (simp add: pos_imp_zdiv_nonneg_iff)
  have l: "k * ?w < 2 ^ 53 * ?w" using assms by (intro mult_strict_right_mono) simp_all
  have "2 ^ 53 * (k * ?w div 2 ^ 53) \<le> k * ?w" using int_div_mult_le [of "2 ^ 53" "k * ?w"] by simp
  then have "2 ^ 53 * (k * ?w div 2 ^ 53) < 2 ^ 53 * ?w" using l by (rule le_less_trans)
  then have "k * ?w div 2 ^ 53 < ?w" by (simp only: mult_less_cancel_left_pos zero_less_power zero_less_numeral)
  with z show ?thesis unfolding getRandomInt_def by linarith
qed

section \<open>Mixins\<close>

text \<open>The methods of a class by name; the mixin's own methods, its constructor among them, replace those of the class.\<close>

definition mixin_extend :: "(string \<rightharpoonup> 'm) \<Rightarrow> (string \<times> 'm) list \<Rightarrow> (string \<rightharpoonup> 'm)" where
  "mixin_extend baseClass mixinClass = fold (\<lambda>(method, f) c. c(method \<mapsto> f)) mixinClass baseClass"

lemma mixin_extend_lookup: "distinct (map fst mixin) \<Longrightarrow> mixin_extend base mixin m = (case map_of mixin m of None \<Rightarrow> base m | Some f \<Rightarrow> Some f)"
proof (induction mixin arbitrary: base)
  case (Cons x mixin)
  obtain k f where x: "x = (k, f)" by (cases x)
  have "mixin_extend base (x # mixin) = mixin_extend (base(k \<mapsto> f)) mixin" by (simp add: mixin_extend_def x)
  moreover have "m = k \<Longrightarrow> map_of mixin m = None" using Cons.prems x by (simp add: map_of_eq_None_iff)
  ultimately show ?case using Cons x by (simp split: option.split)
qed (simp add: mixin_extend_def)

text \<open>The same for one object, with the object as \<open>this\<close> of each method.\<close>

definition mixin_bind :: "'o \<Rightarrow> (string \<rightharpoonup> 'm) \<Rightarrow> (string \<times> ('o \<Rightarrow> 'm)) list \<Rightarrow> (string \<rightharpoonup> 'm)" where
  "mixin_bind self methods mixinClass = mixin_extend methods (map (\<lambda>(method, f). (method, f self)) mixinClass)"

lemma mixin_bind_lookup:
  assumes "distinct (map fst mixin)"
  shows "mixin_bind self ms mixin m = (case map_of mixin m of None \<Rightarrow> ms m | Some f \<Rightarrow> Some (f self))"
proof -
  have "map_of (map (\<lambda>(method, f). (method, f self)) mixin) m = map_option (\<lambda>f. f self) (map_of mixin m)" by (induction mixin) auto
  moreover have "distinct (map fst (map (\<lambda>(method, f). (method, f self)) mixin))" using assms by (simp add: case_prod_beta comp_def)
  ultimately show ?thesis by (simp add: mixin_bind_def mixin_extend_lookup split: option.split)
qed

end
