(* ===== verification/Cluster_Class.thy ===== *)
theory Cluster_Class
  imports Cluster_Credentials
begin

text \<open>
  The classes of \<open>zzz_generated/Clusters.js\<close>, one per cluster of the specification, all of one shape:
  tables of commands and attributes, a template per command, a constructor with the descriptors of the
  attributes, a switch over the command ids and a handler per command. A class is its data; what its
  constructor, its templates, its switch and its handlers do with the data is defined here, once. The
  theories \<open>Generated_Clusters_1\<close> to \<open>Generated_Clusters_4\<close> hold the classes in the order of the file.
\<close>

section \<open>A class\<close>

text \<open>
  A field of a template has a tag, a type and the property of \<open>params\<close> its value is read from; a
  structure or an array has the value \<open>[]\<close> whatever the parameters are. A case of the switch names a
  command and the handler called; a handler prints a text and answers.
\<close>

type_synonym template_field = "int \<times> string \<times> string option"

record generated_class =
  cc_class :: string
  cc_CLUSTER_NAME :: string
  cc_CLUSTER_ID :: int
  cc_Command :: "(string \<times> int) list"
  cc_Attribute :: "(string \<times> int) list"
  cc_templates :: "(string \<times> template_field list) list"
  cc_attributes :: "(prop_key \<times> attribute) list"
  cc_cases :: "(string \<times> string) list"
  cc_handlers :: "(string \<times> string) list"

text \<open>\<open>params.name\<close> is \<open>undefined\<close> unless the parameters have the property.\<close>

definition template_value :: "(string \<times> jsval) list \<Rightarrow> template_field \<Rightarrow> jsval" where
  "template_value params f = (case f of (tag, ty, p) \<Rightarrow>
     jfield tag ty (case p of None \<Rightarrow> JArr [] | Some k \<Rightarrow> (case map_of params k of None \<Rightarrow> JUndef | Some v \<Rightarrow> v)))"

definition TemplateCommand :: "generated_class \<Rightarrow> string \<Rightarrow> (string \<times> jsval) list \<Rightarrow> jsval list option" where
  "TemplateCommand c command params = map_option (map (template_value params)) (map_of (cc_templates c) command)"

section \<open>What its methods do\<close>

text \<open>
  A name that the module does not declare and that is not a global of the language throws when it is
  read. The module declares its classes and imports nothing.
\<close>

definition js_globals :: "string list" where
  "js_globals = [''console'', ''module'', ''undefined'']"

definition read_variable :: "string list \<Rightarrow> string \<Rightarrow> unit result" where
  "read_variable declared x = (if x \<in> set declared \<union> set js_globals then Inr () else Inl ReferenceError)"

text \<open>\<open>this._dataVersion = Random.getRandomUint32()\<close> comes before the descriptors; the number is an argument.\<close>

definition class_constructor :: "string list \<Rightarrow> int \<Rightarrow> generated_class \<Rightarrow> (int \<times> (prop_key \<times> attribute) list) result" where
  "class_constructor declared version c = rbind (read_variable declared ''Random'') (\<lambda>_. Inr (version, cc_attributes c))"

text \<open>
  \<open>switch (path.CommandId)\<close> runs the first case whose command has that id; the cases compare with
  \<open>===\<close>, and the command of every case is in the table.
\<close>

definition selected_case :: "generated_class \<Rightarrow> jsval \<Rightarrow> string option" where
  "selected_case c i = map_option snd (find (\<lambda>(command, h). map_option JNum (map_of (cc_Command c) command) = Some i) (cc_cases c))"

text \<open>A handler: what it prints, and then the answer on a variable \<open>exchange\<close>.\<close>

definition class_handler :: "string list \<Rightarrow> generated_class \<Rightarrow> string \<Rightarrow> string list result" where
  "class_handler declared c h = (case map_of (cc_handlers c) h of
       None \<Rightarrow> Inl TypeError
     | Some text \<Rightarrow> rbind (read_variable declared ''exchange'') (\<lambda>_. Inr [cc_class c @ text]))"

definition class_onCommand :: "string list \<Rightarrow> generated_class \<Rightarrow> jsval \<Rightarrow> string list result" where
  "class_onCommand declared c i = (case selected_case c i of
       None \<Rightarrow> Inr []
     | Some h \<Rightarrow> class_handler declared c h)"

section \<open>Agreement of the tables\<close>

fun increasing :: "int list \<Rightarrow> bool" where
  "increasing (x # y # xs) \<longleftrightarrow> x < y \<and> increasing (y # xs)"
| "increasing _ \<longleftrightarrow> True"

lemma increasing_sorted: "increasing xs \<longleftrightarrow> sorted_wrt (<) xs"
  by (induction xs rule: increasing.induct) (auto intro: order.strict_trans)

text \<open>
  The types that the TLV writer does not know, or knows as itself: a value of such a type is written by
  its own type. The parameters of the templates have only these.
\<close>

definition plain_type :: "string \<Rightarrow> bool" where
  "plain_type ty \<longleftrightarrow> Some ty \<notin> set typed_names"

lemma plain_types [simp]:
  "plain_type ''uint8_t''" "plain_type ''uint16_t''" "plain_type ''uint32_t''" "plain_type ''uint64_t''" "plain_type ''int8_t''"
  "plain_type ''int16_t''" "plain_type ''int32_t''" "plain_type ''chip::CharSpan''" "plain_type ''chip::ByteSpan''" "plain_type ''chip::GroupId''"
  "plain_type ''chip::FabricIndex''" "plain_type ''chip::VendorId''" "plain_type ''chip::NodeId''" "plain_type ''chip::Percent100ths''"
  "plain_type ''chip::EndpointId''"
  by code_simp+

definition field_ok :: "template_field \<Rightarrow> bool" where
  "field_ok f = (case f of (tag, ty, p) \<Rightarrow> 0 \<le> tag \<and> tag < 2 ^ 8 \<and>
     (case p of None \<Rightarrow> ty = ''array'' \<or> ty = ''struct'' | Some _ \<Rightarrow> ty = ''bool'' \<or> plain_type ty))"

text \<open>
  The descriptors are those of the enumeration, in the order of their ids; the switch, the handlers and
  the templates follow the table of commands; the tags of a template count from 0.
\<close>

definition class_ok :: "generated_class \<Rightarrow> bool" where
  "class_ok c \<longleftrightarrow> map (\<lambda>(k, a). (at_name a, k)) (cc_attributes c) = map (\<lambda>(x, i). (x, IntKey i)) (cc_Attribute c) \<and>
     increasing (map snd (cc_Attribute c)) \<and> distinct (map fst (cc_Command c)) \<and>
     cc_cases c = map (\<lambda>(x, i). (x, ''on'' @ x)) (cc_Command c) \<and> cc_handlers c = map (\<lambda>(x, i). (''on'' @ x, ''.on'' @ x)) (cc_Command c) \<and>
     map fst (cc_templates c) = map fst (cc_Command c) \<and>
     list_all (\<lambda>(x, fs). map fst fs = map int [0..<length fs] \<and> list_all field_ok fs) (cc_templates c)"

section \<open>What the agreement gives\<close>

interpretation class_attributes: attribute_server "cc_attributes c" "lookup_attribute (cc_attributes c)" for c
  by unfold_locales (simp add: lookup_attribute_def)

lemma map_of_rekeyed: "map (\<lambda>(k, a). (g a, k)) t = map (\<lambda>(x, i). (x, IntKey i)) e \<Longrightarrow> distinct (map snd e) \<Longrightarrow> (x, i) \<in> set e \<Longrightarrow>
    \<exists>a. map_of t (IntKey i) = Some a \<and> g a = x"
proof (induction e arbitrary: t)
  case (Cons y e)
  then obtain k a t' where t: "t = (k, a) # t'" by (cases t) auto
  then show ?case using Cons by (cases y) (force split: if_splits)
qed simp

lemma class_lookup:
  assumes "class_ok c"
  shows "(x, i) \<in> set (cc_Attribute c) \<Longrightarrow> \<exists>a. lookup_attribute (cc_attributes c) (JNum i) = Inr (Some a) \<and> at_name a = x"
    and "i \<notin> snd ` set (cc_Attribute c) \<Longrightarrow> lookup_attribute (cc_attributes c) (JNum i) = Inr None"
proof -
  have t: "map (\<lambda>(k, a). (at_name a, k)) (cc_attributes c) = map (\<lambda>(x, i). (x, IntKey i)) (cc_Attribute c)"
    and d: "distinct (map snd (cc_Attribute c))"
    using assms by (simp_all add: class_ok_def increasing_sorted strict_sorted_iff)
  show "\<exists>a. lookup_attribute (cc_attributes c) (JNum i) = Inr (Some a) \<and> at_name a = x" if "(x, i) \<in> set (cc_Attribute c)"
    using map_of_rekeyed [OF t d that] by (simp add: class_attributes.num)
  have "fst ` set (cc_attributes c) = IntKey ` snd ` set (cc_Attribute c)"
    using arg_cong [OF t, of "\<lambda>l. snd ` set l"] by (simp add: image_image case_prod_beta)
  then show "lookup_attribute (cc_attributes c) (JNum i) = Inr None" if "i \<notin> snd ` set (cc_Attribute c)"
    using that by (intro class_attributes.absent) auto
qed

lemma class_template:
  assumes "class_ok c" and "(x, i) \<in> set (cc_Command c)"
  shows "TemplateCommand c x params \<noteq> None"
proof -
  have "map fst (cc_templates c) = map fst (cc_Command c)" using assms(1) unfolding class_ok_def by blast
  then have "set (map fst (cc_templates c)) = set (map fst (cc_Command c))" by (rule arg_cong)
  then have "x \<in> fst ` set (cc_templates c)" using assms(2) by (metis fst_conv imageI list.set_map)
  then have "map_of (cc_templates c) x \<noteq> None" by (simp add: map_of_eq_None_iff)
  then show ?thesis by (simp add: TemplateCommand_def)
qed

lemma class_selects:
  assumes "class_ok c"
  shows "selected_case c (JNum i) = map_option (\<lambda>(x, j). ''on'' @ x) (find (\<lambda>(x, j). j = i) (cc_Command c))"
proof -
  have "find (\<lambda>(command, h). map_option JNum (map_of (cc_Command c) command) = Some (JNum i)) (map (\<lambda>(x, i). (x, ''on'' @ x)) ys) =
      map_option (\<lambda>(x, j). (x, ''on'' @ x)) (find (\<lambda>(x, j). j = i) ys)" if "set ys \<subseteq> set (cc_Command c)" for ys
    using that
  proof (induction ys)
    case (Cons y ys)
    then have "map_of (cc_Command c) (fst y) = Some (snd y)" using assms by (simp add: class_ok_def)
    then show ?case using Cons by (auto split: prod.splits)
  qed simp
  from this [OF order.refl] show ?thesis using assms by (auto simp: selected_case_def class_ok_def option.map_comp comp_def split_beta')
qed

lemma class_throws:
  assumes "class_ok c" and "''exchange'' \<notin> set declared" and "''Random'' \<notin> set declared"
  shows "class_constructor declared v c = Inl ReferenceError"
    and "class_onCommand declared c (JNum i) = (if i \<in> snd ` set (cc_Command c) then Inl ReferenceError else Inr [])"
proof -
  have g: "read_variable declared x = Inl ReferenceError" if "x \<notin> set declared" "x \<notin> set js_globals" for x using that by (simp add: read_variable_def)
  show "class_constructor declared v c = Inl ReferenceError" using g [OF assms(3)] by (simp add: class_constructor_def js_globals_def)
  show "class_onCommand declared c (JNum i) = (if i \<in> snd ` set (cc_Command c) then Inl ReferenceError else Inr [])"
  proof (cases "find (\<lambda>(x, j). j = i) (cc_Command c)")
    case None
    then have "i \<notin> snd ` set (cc_Command c)" by (auto simp: find_None_iff)
    then show ?thesis using None class_selects [OF assms(1)] by (simp add: class_onCommand_def)
  next
    case (Some y)
    then have y: "y \<in> set (cc_Command c)" "snd y = i" by (auto simp: find_Some_iff) (metis nth_mem)
    have "''on'' @ fst y \<in> fst ` set (cc_handlers c)" using y(1) assms(1) by (auto simp: class_ok_def image_image split_beta')
    then obtain label where "map_of (cc_handlers c) (''on'' @ fst y) = Some label" by (metis map_of_eq_None_iff not_None_eq)
    then show ?thesis
      using Some y class_selects [OF assms(1)] g [OF assms(2)] by (auto simp: class_onCommand_def class_handler_def js_globals_def case_prod_beta)
  qed
qed

section \<open>What a command's parameters become\<close>

text \<open>A value that the writer writes by its own type, and what a field is read as at the other end.\<close>

definition plain_value :: "jsval \<Rightarrow> bool" where
  "plain_value v = (case raw_leaf v of None \<Rightarrow> False | Some l \<Rightarrow> wf_leaf l)"

definition field_leaf :: "string \<Rightarrow> jsval \<Rightarrow> tlv_leaf" where
  "field_leaf ty v = (if ty = ''bool'' then TBool (js_truthy v) else the (raw_leaf v))"

definition field_read :: "(string \<times> jsval) list \<Rightarrow> template_field \<Rightarrow> jsval" where
  "field_read params f = (case f of (tag, ty, p) \<Rightarrow> (case p of
      None \<Rightarrow> JObj None (Some tag) (Some ty) (JArr []) None
    | Some k \<Rightarrow> let l = field_leaf ty (case map_of params k of None \<Rightarrow> JUndef | Some v \<Rightarrow> v)
        in JObj None (Some tag) (ElementTypes (leaf_type l)) (leaf_value l) None))"

lemma template_field_elem:
  assumes "field_ok f" and "\<forall>v \<in> snd ` set params. plain_value v"
  shows "\<exists>e. telem_of (template_value params f) = Some e \<and> wf_telem e \<and> tlv_json e = field_read params f"
proof -
  obtain tag ty p where f: "f = (tag, ty, p)" by (cases f)
  have t: "wf_tag (Some tag) None" using assms(1) by (simp add: field_ok_def f wf_tag_def)
  show ?thesis
  proof (cases p)
    case None
    then have "ty = ''array'' \<or> ty = ''struct''" using assms(1) by (simp add: field_ok_def f)
    then show ?thesis using t None by (auto simp: f template_value_def field_read_def jfield_def container_of_def)
  next
    case (Some k)
    define v where "v = (case map_of params k of None \<Rightarrow> JUndef | Some v \<Rightarrow> v)"
    have v: "plain_value v" using assms(2) by (auto simp: v_def plain_value_def split: option.splits dest!: map_of_SomeD)
    then obtain l where l: "raw_leaf v = Some l" "wf_leaf l" by (auto simp: plain_value_def split: option.splits)
    have ty: "ty = ''bool'' \<or> plain_type ty" using assms(1) Some by (simp add: field_ok_def f)
    then have "leaf_of (Some ty) v = Some (field_leaf ty v)" "wf_leaf (field_leaf ty v)" "container_of (Some ty) = None"
      using l by (auto simp: leaf_of_def field_leaf_def container_of_def plain_type_def typed_names_def signed_types_def unsigned_types_def)
    then show ?thesis using t Some by (simp add: f template_value_def field_read_def jfield_def Let_def flip: v_def)
  qed
qed

lemma template_elems:
  assumes "list_all field_ok fs" and "\<forall>v \<in> snd ` set params. plain_value v"
  shows "\<exists>es. those (map telem_of (map (template_value params) fs)) = Some es \<and> list_all wf_telem es \<and> map tlv_json es = map (field_read params) fs"
  using assms(1)
proof (induction fs)
  case (Cons f fs)
  then obtain e es where "telem_of (template_value params f) = Some e" "wf_telem e" "tlv_json e = field_read params f"
    "those (map telem_of (map (template_value params) fs)) = Some es" "list_all wf_telem es" "map tlv_json es = map (field_read params) fs"
    using template_field_elem [OF _ assms(2), of f] by auto
  then show ?case by (intro exI [of _ "e # es"]) simp
qed simp

lemma template_roundtrip:
  assumes "class_ok c" and "map_of (cc_templates c) x = Some fs" and "\<forall>v \<in> snd ` set params. plain_value v"
  shows "\<exists>doc. TemplateCommand c x params = Some doc \<and>
    rbind (tlv_encode [jstruct doc]) decode_json = Inr (JArr [JObj None None (Some ''struct'') (JArr (map (field_read params) fs)) None])"
proof -
  have "list_all field_ok fs" using assms(1) map_of_SomeD [OF assms(2)] by (auto simp: class_ok_def list_all_iff)
  from template_elems [OF this assms(3)] obtain es where es: "those (map telem_of (map (template_value params) fs)) = Some es"
    "list_all wf_telem es" "map tlv_json es = map (field_read params) fs" by blast
  then have t: "telem_of (jstruct (map (template_value params) fs)) = Some (TNode None None CStruct es)"
    by (simp add: jstruct_def container_of_def)
  then have "tlv_document [jstruct (map (template_value params) fs)]"
    "tlv_view [jstruct (map (template_value params) fs)] = JArr [JObj None None (Some ''struct'') (JArr (map (field_read params) fs)) None]"
    using es(2,3) by (simp_all add: tlv_document_def tlv_view_def wf_tag_def)
  then show ?thesis using tlv.roundtrip [of "[jstruct (map (template_value params) fs)]"] assms(2) by (simp add: TemplateCommand_def)
qed

end
