(* ===== verification/Generated_Clusters_1.thy ===== *)
theory Generated_Clusters_1
  imports Cluster_Class
begin

text \<open>
  \<open>zzz_generated/Clusters.js\<close>, lines 25 to 4449. Every descriptor has \<open>"nosubscribe": true, "readonly": true\<close>
  and no \<open>"value"\<close>.
\<close>

section \<open>\<open>ClusterAccessControlServer\<close>\<close>

definition ClusterAccessControlServer_Command :: "(string \<times> int) list" where "ClusterAccessControlServer_Command = []"

definition ClusterAccessControlServer_Attribute :: "(string \<times> int) list" where
  "ClusterAccessControlServer_Attribute =
     [(''Acl'', 0), (''Extension'', 1), (''SubjectsPerAccessControlEntry'', 2), (''TargetsPerAccessControlEntry'', 3),
      (''AccessControlEntriesPerFabric'', 4), (''GeneratedCommandList'', 65528), (''AcceptedCommandList'', 65529), (''AttributeList'', 65531),
      (''FeatureMap'', 65532), (''ClusterRevision'', 65533)]"

definition ClusterAccessControlServer_attributes :: "(prop_key \<times> attribute) list" where
  "ClusterAccessControlServer_attributes =
     [(IntKey 0, ro_attribute ''Acl'' ''array'' False JUndef), (IntKey 1, ro_attribute ''Extension'' ''array'' False JUndef),
      (IntKey 2, ro_attribute ''SubjectsPerAccessControlEntry'' ''int16u'' False JUndef),
      (IntKey 3, ro_attribute ''TargetsPerAccessControlEntry'' ''int16u'' False JUndef),
      (IntKey 4, ro_attribute ''AccessControlEntriesPerFabric'' ''int16u'' False JUndef),
      (IntKey 65528, ro_attribute ''GeneratedCommandList'' ''array'' False JUndef),
      (IntKey 65529, ro_attribute ''AcceptedCommandList'' ''array'' False JUndef),
      (IntKey 65531, ro_attribute ''AttributeList'' ''array'' False JUndef), (IntKey 65532, ro_attribute ''FeatureMap'' ''bitmap32'' False JUndef),
      (IntKey 65533, ro_attribute ''ClusterRevision'' ''int16u'' False JUndef)]"

definition ClusterAccessControlServer_cases :: "(string \<times> string) list" where "ClusterAccessControlServer_cases = []"

definition ClusterAccessControlServer :: generated_class where
  "ClusterAccessControlServer =
     \<lparr>cc_class = ''ClusterAccessControlServer'', cc_CLUSTER_NAME = ''ACCESS_CONTROL_CLUSTER'', cc_CLUSTER_ID = 0x001F,
      cc_Command = ClusterAccessControlServer_Command, cc_Attribute = ClusterAccessControlServer_Attribute,
      cc_templates = [], cc_attributes = ClusterAccessControlServer_attributes,
      cc_cases = ClusterAccessControlServer_cases, cc_handlers = []\<rparr>"

lemmas ClusterAccessControlServer_defs = ClusterAccessControlServer_Command_def ClusterAccessControlServer_Attribute_def
  ClusterAccessControlServer_cases_def ClusterAccessControlServer_attributes_def ClusterAccessControlServer_def

lemma ClusterAccessControlServer_ok: "class_ok ClusterAccessControlServer"
  by (simp add: class_ok_def field_ok_def ClusterAccessControlServer_defs ro_attribute_def)

lemma ClusterAccessControlServer_ids: "cc_class ClusterAccessControlServer = ''ClusterAccessControlServer''" "cc_CLUSTER_ID ClusterAccessControlServer = 0x001F" "distinct (map snd (cc_Command ClusterAccessControlServer)) \<longleftrightarrow> True"
  by (simp_all add: ClusterAccessControlServer_def ClusterAccessControlServer_Command_def)

section \<open>\<open>ClusterAccountLoginServer\<close>\<close>

definition ClusterAccountLoginServer_Command :: "(string \<times> int) list" where
  "ClusterAccountLoginServer_Command =
     [(''GetSetupPIN'', 0), (''GetSetupPINResponse'', 1), (''Login'', 2), (''Logout'', 3)]"

definition ClusterAccountLoginServer_Attribute :: "(string \<times> int) list" where
  "ClusterAccountLoginServer_Attribute =
     [(''GeneratedCommandList'', 65528), (''AcceptedCommandList'', 65529), (''AttributeList'', 65531), (''FeatureMap'', 65532),
      (''ClusterRevision'', 65533)]"

definition ClusterAccountLoginServer_templates :: "(string \<times> template_field list) list" where
  "ClusterAccountLoginServer_templates =
     [(''GetSetupPIN'', [(0, ''chip::CharSpan'', Some ''TempAccountIdentifier'')]),
      (''GetSetupPINResponse'', [(0, ''chip::CharSpan'', Some ''SetupPIN'')]),
      (''Login'', [(0, ''chip::CharSpan'', Some ''TempAccountIdentifier''), (1, ''chip::CharSpan'', Some ''SetupPIN'')]), (''Logout'', [])]"

definition ClusterAccountLoginServer_attributes :: "(prop_key \<times> attribute) list" where
  "ClusterAccountLoginServer_attributes =
     [(IntKey 65528, ro_attribute ''GeneratedCommandList'' ''array'' False JUndef),
      (IntKey 65529, ro_attribute ''AcceptedCommandList'' ''array'' False JUndef),
      (IntKey 65531, ro_attribute ''AttributeList'' ''array'' False JUndef), (IntKey 65532, ro_attribute ''FeatureMap'' ''bitmap32'' False JUndef),
      (IntKey 65533, ro_attribute ''ClusterRevision'' ''int16u'' False JUndef)]"

definition ClusterAccountLoginServer_cases :: "(string \<times> string) list" where
  "ClusterAccountLoginServer_cases =
     [(''GetSetupPIN'', ''onGetSetupPIN''), (''GetSetupPINResponse'', ''onGetSetupPINResponse''), (''Login'', ''onLogin''), (''Logout'', ''onLogout'')]"

definition ClusterAccountLoginServer_handlers :: "(string \<times> string) list" where
  "ClusterAccountLoginServer_handlers =
     [(''onGetSetupPIN'', ''.onGetSetupPIN''), (''onGetSetupPINResponse'', ''.onGetSetupPINResponse''), (''onLogin'', ''.onLogin''),
      (''onLogout'', ''.onLogout'')]"

definition ClusterAccountLoginServer :: generated_class where
  "ClusterAccountLoginServer =
     \<lparr>cc_class = ''ClusterAccountLoginServer'', cc_CLUSTER_NAME = ''ACCOUNT_LOGIN_CLUSTER'', cc_CLUSTER_ID = 0x050E,
      cc_Command = ClusterAccountLoginServer_Command, cc_Attribute = ClusterAccountLoginServer_Attribute,
      cc_templates = ClusterAccountLoginServer_templates, cc_attributes = ClusterAccountLoginServer_attributes,
      cc_cases = ClusterAccountLoginServer_cases, cc_handlers = ClusterAccountLoginServer_handlers\<rparr>"

lemmas ClusterAccountLoginServer_defs = ClusterAccountLoginServer_Command_def ClusterAccountLoginServer_Attribute_def ClusterAccountLoginServer_cases_def
  ClusterAccountLoginServer_templates_def ClusterAccountLoginServer_attributes_def
  ClusterAccountLoginServer_handlers_def ClusterAccountLoginServer_def

lemma ClusterAccountLoginServer_ok: "class_ok ClusterAccountLoginServer"
  by (simp add: class_ok_def field_ok_def ClusterAccountLoginServer_defs ro_attribute_def)

lemma ClusterAccountLoginServer_ids: "cc_class ClusterAccountLoginServer = ''ClusterAccountLoginServer''" "cc_CLUSTER_ID ClusterAccountLoginServer = 0x050E" "distinct (map snd (cc_Command ClusterAccountLoginServer)) \<longleftrightarrow> True"
  by (simp_all add: ClusterAccountLoginServer_def ClusterAccountLoginServer_Command_def)

section \<open>\<open>ClusterAdministratorCommissioningServer\<close>\<close>

definition ClusterAdministratorCommissioningServer_Command :: "(string \<times> int) list" where
  "ClusterAdministratorCommissioningServer_Command =
     [(''OpenCommissioningWindow'', 0), (''OpenBasicCommissioningWindow'', 1), (''RevokeCommissioning'', 2)]"

definition ClusterAdministratorCommissioningServer_Attribute :: "(string \<times> int) list" where
  "ClusterAdministratorCommissioningServer_Attribute =
     [(''WindowStatus'', 0), (''AdminFabricIndex'', 1), (''AdminVendorId'', 2), (''GeneratedCommandList'', 65528), (''AcceptedCommandList'', 65529),
      (''AttributeList'', 65531), (''FeatureMap'', 65532), (''ClusterRevision'', 65533)]"

definition ClusterAdministratorCommissioningServer_templates :: "(string \<times> template_field list) list" where
  "ClusterAdministratorCommissioningServer_templates =
     [(''OpenCommissioningWindow'', [(0, ''uint16_t'', Some ''CommissioningTimeout''), (1, ''chip::ByteSpan'', Some ''PAKEVerifier''),
         (2, ''uint16_t'', Some ''Discriminator''), (3, ''uint32_t'', Some ''Iterations''), (4, ''chip::ByteSpan'', Some ''Salt'')]),
      (''OpenBasicCommissioningWindow'', [(0, ''uint16_t'', Some ''CommissioningTimeout'')]), (''RevokeCommissioning'', [])]"

definition ClusterAdministratorCommissioningServer_attributes :: "(prop_key \<times> attribute) list" where
  "ClusterAdministratorCommissioningServer_attributes =
     [(IntKey 0, ro_attribute ''WindowStatus'' ''int8u'' False JUndef), (IntKey 1, ro_attribute ''AdminFabricIndex'' ''fabric_idx'' False JUndef),
      (IntKey 2, ro_attribute ''AdminVendorId'' ''int16u'' False JUndef),
      (IntKey 65528, ro_attribute ''GeneratedCommandList'' ''array'' False JUndef),
      (IntKey 65529, ro_attribute ''AcceptedCommandList'' ''array'' False JUndef),
      (IntKey 65531, ro_attribute ''AttributeList'' ''array'' False JUndef), (IntKey 65532, ro_attribute ''FeatureMap'' ''bitmap32'' False JUndef),
      (IntKey 65533, ro_attribute ''ClusterRevision'' ''int16u'' False JUndef)]"

definition ClusterAdministratorCommissioningServer_cases :: "(string \<times> string) list" where
  "ClusterAdministratorCommissioningServer_cases =
     [(''OpenCommissioningWindow'', ''onOpenCommissioningWindow''), (''OpenBasicCommissioningWindow'', ''onOpenBasicCommissioningWindow''),
      (''RevokeCommissioning'', ''onRevokeCommissioning'')]"

definition ClusterAdministratorCommissioningServer_handlers :: "(string \<times> string) list" where
  "ClusterAdministratorCommissioningServer_handlers =
     [(''onOpenCommissioningWindow'', ''.onOpenCommissioningWindow''), (''onOpenBasicCommissioningWindow'', ''.onOpenBasicCommissioningWindow''),
      (''onRevokeCommissioning'', ''.onRevokeCommissioning'')]"

definition ClusterAdministratorCommissioningServer :: generated_class where
  "ClusterAdministratorCommissioningServer =
     \<lparr>cc_class = ''ClusterAdministratorCommissioningServer'', cc_CLUSTER_NAME = ''ADMINISTRATOR_COMMISSIONING_CLUSTER'', cc_CLUSTER_ID = 0x003C,
      cc_Command = ClusterAdministratorCommissioningServer_Command, cc_Attribute = ClusterAdministratorCommissioningServer_Attribute,
      cc_templates = ClusterAdministratorCommissioningServer_templates, cc_attributes = ClusterAdministratorCommissioningServer_attributes,
      cc_cases = ClusterAdministratorCommissioningServer_cases, cc_handlers = ClusterAdministratorCommissioningServer_handlers\<rparr>"

lemmas ClusterAdministratorCommissioningServer_defs = ClusterAdministratorCommissioningServer_Command_def ClusterAdministratorCommissioningServer_Attribute_def
  ClusterAdministratorCommissioningServer_cases_def ClusterAdministratorCommissioningServer_templates_def
  ClusterAdministratorCommissioningServer_attributes_def ClusterAdministratorCommissioningServer_handlers_def
  ClusterAdministratorCommissioningServer_def

lemma ClusterAdministratorCommissioningServer_ok: "class_ok ClusterAdministratorCommissioningServer"
  by (simp add: class_ok_def field_ok_def ClusterAdministratorCommissioningServer_defs ro_attribute_def)

lemma ClusterAdministratorCommissioningServer_ids: "cc_class ClusterAdministratorCommissioningServer = ''ClusterAdministratorCommissioningServer''" "cc_CLUSTER_ID ClusterAdministratorCommissioningServer = 0x003C" "distinct (map snd (cc_Command ClusterAdministratorCommissioningServer)) \<longleftrightarrow> True"
  by (simp_all add: ClusterAdministratorCommissioningServer_def ClusterAdministratorCommissioningServer_Command_def)

section \<open>\<open>ClusterApplicationBasicServer\<close>\<close>

definition ClusterApplicationBasicServer_Command :: "(string \<times> int) list" where "ClusterApplicationBasicServer_Command = []"

definition ClusterApplicationBasicServer_Attribute :: "(string \<times> int) list" where
  "ClusterApplicationBasicServer_Attribute =
     [(''VendorName'', 0), (''VendorID'', 1), (''ApplicationName'', 2), (''ProductID'', 3), (''Application'', 4), (''Status'', 5),
      (''ApplicationVersion'', 6), (''AllowedVendorList'', 7), (''GeneratedCommandList'', 65528), (''AcceptedCommandList'', 65529),
      (''AttributeList'', 65531), (''FeatureMap'', 65532), (''ClusterRevision'', 65533)]"

definition ClusterApplicationBasicServer_attributes :: "(prop_key \<times> attribute) list" where
  "ClusterApplicationBasicServer_attributes =
     [(IntKey 0, ro_attribute ''VendorName'' ''char_string'' False JUndef), (IntKey 1, ro_attribute ''VendorID'' ''int16u'' False JUndef),
      (IntKey 2, ro_attribute ''ApplicationName'' ''char_string'' False JUndef), (IntKey 3, ro_attribute ''ProductID'' ''int16u'' False JUndef),
      (IntKey 4, ro_attribute ''Application'' ''ApplicationBasicApplication'' False JUndef),
      (IntKey 5, ro_attribute ''Status'' ''ApplicationStatusEnum'' False JUndef),
      (IntKey 6, ro_attribute ''ApplicationVersion'' ''char_string'' False JUndef),
      (IntKey 7, ro_attribute ''AllowedVendorList'' ''array'' False JUndef),
      (IntKey 65528, ro_attribute ''GeneratedCommandList'' ''array'' False JUndef),
      (IntKey 65529, ro_attribute ''AcceptedCommandList'' ''array'' False JUndef),
      (IntKey 65531, ro_attribute ''AttributeList'' ''array'' False JUndef), (IntKey 65532, ro_attribute ''FeatureMap'' ''bitmap32'' False JUndef),
      (IntKey 65533, ro_attribute ''ClusterRevision'' ''int16u'' False JUndef)]"

definition ClusterApplicationBasicServer_cases :: "(string \<times> string) list" where "ClusterApplicationBasicServer_cases = []"

definition ClusterApplicationBasicServer :: generated_class where
  "ClusterApplicationBasicServer =
     \<lparr>cc_class = ''ClusterApplicationBasicServer'', cc_CLUSTER_NAME = ''APPLICATION_BASIC_CLUSTER'', cc_CLUSTER_ID = 0x050D,
      cc_Command = ClusterApplicationBasicServer_Command, cc_Attribute = ClusterApplicationBasicServer_Attribute,
      cc_templates = [], cc_attributes = ClusterApplicationBasicServer_attributes,
      cc_cases = ClusterApplicationBasicServer_cases, cc_handlers = []\<rparr>"

lemmas ClusterApplicationBasicServer_defs = ClusterApplicationBasicServer_Command_def ClusterApplicationBasicServer_Attribute_def
  ClusterApplicationBasicServer_cases_def ClusterApplicationBasicServer_attributes_def
  ClusterApplicationBasicServer_def

lemma ClusterApplicationBasicServer_ok: "class_ok ClusterApplicationBasicServer"
  by (simp add: class_ok_def field_ok_def ClusterApplicationBasicServer_defs ro_attribute_def)

lemma ClusterApplicationBasicServer_ids: "cc_class ClusterApplicationBasicServer = ''ClusterApplicationBasicServer''" "cc_CLUSTER_ID ClusterApplicationBasicServer = 0x050D" "distinct (map snd (cc_Command ClusterApplicationBasicServer)) \<longleftrightarrow> True"
  by (simp_all add: ClusterApplicationBasicServer_def ClusterApplicationBasicServer_Command_def)

section \<open>\<open>ClusterApplicationLauncherServer\<close>\<close>

definition ClusterApplicationLauncherServer_Command :: "(string \<times> int) list" where
  "ClusterApplicationLauncherServer_Command =
     [(''LaunchApp'', 0), (''StopApp'', 1), (''HideApp'', 2), (''LauncherResponse'', 3)]"

definition ClusterApplicationLauncherServer_Attribute :: "(string \<times> int) list" where
  "ClusterApplicationLauncherServer_Attribute =
     [(''CatalogList'', 0), (''CurrentApp'', 1), (''GeneratedCommandList'', 65528), (''AcceptedCommandList'', 65529), (''AttributeList'', 65531),
      (''FeatureMap'', 65532), (''ClusterRevision'', 65533)]"

definition ClusterApplicationLauncherServer_templates :: "(string \<times> template_field list) list" where
  "ClusterApplicationLauncherServer_templates =
     [(''LaunchApp'', [(0, ''struct'', None), (1, ''chip::ByteSpan'', Some ''Data'')]), (''StopApp'', [(0, ''struct'', None)]),
      (''HideApp'', [(0, ''struct'', None)]), (''LauncherResponse'', [(0, ''uint8_t'', Some ''Status''), (1, ''chip::ByteSpan'', Some ''Data'')])]"

definition ClusterApplicationLauncherServer_attributes :: "(prop_key \<times> attribute) list" where
  "ClusterApplicationLauncherServer_attributes =
     [(IntKey 0, ro_attribute ''CatalogList'' ''array'' False JUndef), (IntKey 1, ro_attribute ''CurrentApp'' ''ApplicationEP'' True JUndef),
      (IntKey 65528, ro_attribute ''GeneratedCommandList'' ''array'' False JUndef),
      (IntKey 65529, ro_attribute ''AcceptedCommandList'' ''array'' False JUndef),
      (IntKey 65531, ro_attribute ''AttributeList'' ''array'' False JUndef), (IntKey 65532, ro_attribute ''FeatureMap'' ''bitmap32'' False JUndef),
      (IntKey 65533, ro_attribute ''ClusterRevision'' ''int16u'' False JUndef)]"

definition ClusterApplicationLauncherServer_cases :: "(string \<times> string) list" where
  "ClusterApplicationLauncherServer_cases =
     [(''LaunchApp'', ''onLaunchApp''), (''StopApp'', ''onStopApp''), (''HideApp'', ''onHideApp''), (''LauncherResponse'', ''onLauncherResponse'')]"

definition ClusterApplicationLauncherServer_handlers :: "(string \<times> string) list" where
  "ClusterApplicationLauncherServer_handlers =
     [(''onLaunchApp'', ''.onLaunchApp''), (''onStopApp'', ''.onStopApp''), (''onHideApp'', ''.onHideApp''),
      (''onLauncherResponse'', ''.onLauncherResponse'')]"

definition ClusterApplicationLauncherServer :: generated_class where
  "ClusterApplicationLauncherServer =
     \<lparr>cc_class = ''ClusterApplicationLauncherServer'', cc_CLUSTER_NAME = ''APPLICATION_LAUNCHER_CLUSTER'', cc_CLUSTER_ID = 0x050C,
      cc_Command = ClusterApplicationLauncherServer_Command, cc_Attribute = ClusterApplicationLauncherServer_Attribute,
      cc_templates = ClusterApplicationLauncherServer_templates, cc_attributes = ClusterApplicationLauncherServer_attributes,
      cc_cases = ClusterApplicationLauncherServer_cases, cc_handlers = ClusterApplicationLauncherServer_handlers\<rparr>"

lemmas ClusterApplicationLauncherServer_defs = ClusterApplicationLauncherServer_Command_def ClusterApplicationLauncherServer_Attribute_def
  ClusterApplicationLauncherServer_cases_def ClusterApplicationLauncherServer_templates_def
  ClusterApplicationLauncherServer_attributes_def ClusterApplicationLauncherServer_handlers_def
  ClusterApplicationLauncherServer_def

lemma ClusterApplicationLauncherServer_ok: "class_ok ClusterApplicationLauncherServer"
  by (simp add: class_ok_def field_ok_def ClusterApplicationLauncherServer_defs ro_attribute_def)

lemma ClusterApplicationLauncherServer_ids: "cc_class ClusterApplicationLauncherServer = ''ClusterApplicationLauncherServer''" "cc_CLUSTER_ID ClusterApplicationLauncherServer = 0x050C" "distinct (map snd (cc_Command ClusterApplicationLauncherServer)) \<longleftrightarrow> True"
  by (simp_all add: ClusterApplicationLauncherServer_def ClusterApplicationLauncherServer_Command_def)

section \<open>\<open>ClusterAudioOutputServer\<close>\<close>

definition ClusterAudioOutputServer_Command :: "(string \<times> int) list" where
  "ClusterAudioOutputServer_Command =
     [(''SelectOutput'', 0), (''RenameOutput'', 1)]"

definition ClusterAudioOutputServer_Attribute :: "(string \<times> int) list" where
  "ClusterAudioOutputServer_Attribute =
     [(''OutputList'', 0), (''CurrentOutput'', 1), (''GeneratedCommandList'', 65528), (''AcceptedCommandList'', 65529), (''AttributeList'', 65531),
      (''FeatureMap'', 65532), (''ClusterRevision'', 65533)]"

definition ClusterAudioOutputServer_templates :: "(string \<times> template_field list) list" where
  "ClusterAudioOutputServer_templates =
     [(''SelectOutput'', [(0, ''uint8_t'', Some ''Index'')]),
      (''RenameOutput'', [(0, ''uint8_t'', Some ''Index''), (1, ''chip::CharSpan'', Some ''Name'')])]"

definition ClusterAudioOutputServer_attributes :: "(prop_key \<times> attribute) list" where
  "ClusterAudioOutputServer_attributes =
     [(IntKey 0, ro_attribute ''OutputList'' ''array'' False JUndef), (IntKey 1, ro_attribute ''CurrentOutput'' ''int8u'' False JUndef),
      (IntKey 65528, ro_attribute ''GeneratedCommandList'' ''array'' False JUndef),
      (IntKey 65529, ro_attribute ''AcceptedCommandList'' ''array'' False JUndef),
      (IntKey 65531, ro_attribute ''AttributeList'' ''array'' False JUndef), (IntKey 65532, ro_attribute ''FeatureMap'' ''bitmap32'' False JUndef),
      (IntKey 65533, ro_attribute ''ClusterRevision'' ''int16u'' False JUndef)]"

definition ClusterAudioOutputServer_cases :: "(string \<times> string) list" where
  "ClusterAudioOutputServer_cases =
     [(''SelectOutput'', ''onSelectOutput''), (''RenameOutput'', ''onRenameOutput'')]"

definition ClusterAudioOutputServer_handlers :: "(string \<times> string) list" where
  "ClusterAudioOutputServer_handlers =
     [(''onSelectOutput'', ''.onSelectOutput''), (''onRenameOutput'', ''.onRenameOutput'')]"

definition ClusterAudioOutputServer :: generated_class where
  "ClusterAudioOutputServer =
     \<lparr>cc_class = ''ClusterAudioOutputServer'', cc_CLUSTER_NAME = ''AUDIO_OUTPUT_CLUSTER'', cc_CLUSTER_ID = 0x050B,
      cc_Command = ClusterAudioOutputServer_Command, cc_Attribute = ClusterAudioOutputServer_Attribute,
      cc_templates = ClusterAudioOutputServer_templates, cc_attributes = ClusterAudioOutputServer_attributes,
      cc_cases = ClusterAudioOutputServer_cases, cc_handlers = ClusterAudioOutputServer_handlers\<rparr>"

lemmas ClusterAudioOutputServer_defs = ClusterAudioOutputServer_Command_def ClusterAudioOutputServer_Attribute_def ClusterAudioOutputServer_cases_def
  ClusterAudioOutputServer_templates_def ClusterAudioOutputServer_attributes_def
  ClusterAudioOutputServer_handlers_def ClusterAudioOutputServer_def

lemma ClusterAudioOutputServer_ok: "class_ok ClusterAudioOutputServer"
  by (simp add: class_ok_def field_ok_def ClusterAudioOutputServer_defs ro_attribute_def)

lemma ClusterAudioOutputServer_ids: "cc_class ClusterAudioOutputServer = ''ClusterAudioOutputServer''" "cc_CLUSTER_ID ClusterAudioOutputServer = 0x050B" "distinct (map snd (cc_Command ClusterAudioOutputServer)) \<longleftrightarrow> True"
  by (simp_all add: ClusterAudioOutputServer_def ClusterAudioOutputServer_Command_def)

section \<open>\<open>ClusterBarrierControlServer\<close>\<close>

definition ClusterBarrierControlServer_Command :: "(string \<times> int) list" where
  "ClusterBarrierControlServer_Command =
     [(''BarrierControlGoToPercent'', 0), (''BarrierControlStop'', 1)]"

definition ClusterBarrierControlServer_Attribute :: "(string \<times> int) list" where
  "ClusterBarrierControlServer_Attribute =
     [(''BarrierMovingState'', 1), (''BarrierSafetyStatus'', 2), (''BarrierCapabilities'', 3), (''BarrierOpenEvents'', 4),
      (''BarrierCloseEvents'', 5), (''BarrierCommandOpenEvents'', 6), (''BarrierCommandCloseEvents'', 7), (''BarrierOpenPeriod'', 8),
      (''BarrierClosePeriod'', 9), (''BarrierPosition'', 10), (''GeneratedCommandList'', 65528), (''AcceptedCommandList'', 65529),
      (''AttributeList'', 65531), (''FeatureMap'', 65532), (''ClusterRevision'', 65533)]"

definition ClusterBarrierControlServer_templates :: "(string \<times> template_field list) list" where
  "ClusterBarrierControlServer_templates =
     [(''BarrierControlGoToPercent'', [(0, ''uint8_t'', Some ''PercentOpen'')]), (''BarrierControlStop'', [])]"

definition ClusterBarrierControlServer_attributes :: "(prop_key \<times> attribute) list" where
  "ClusterBarrierControlServer_attributes =
     [(IntKey 1, ro_attribute ''BarrierMovingState'' ''enum8'' False JUndef),
      (IntKey 2, ro_attribute ''BarrierSafetyStatus'' ''bitmap16'' False JUndef),
      (IntKey 3, ro_attribute ''BarrierCapabilities'' ''bitmap8'' False JUndef),
      (IntKey 4, ro_attribute ''BarrierOpenEvents'' ''int16u'' False JUndef), (IntKey 5, ro_attribute ''BarrierCloseEvents'' ''int16u'' False JUndef),
      (IntKey 6, ro_attribute ''BarrierCommandOpenEvents'' ''int16u'' False JUndef),
      (IntKey 7, ro_attribute ''BarrierCommandCloseEvents'' ''int16u'' False JUndef),
      (IntKey 8, ro_attribute ''BarrierOpenPeriod'' ''int16u'' False JUndef), (IntKey 9, ro_attribute ''BarrierClosePeriod'' ''int16u'' False JUndef),
      (IntKey 10, ro_attribute ''BarrierPosition'' ''int8u'' False JUndef),
      (IntKey 65528, ro_attribute ''GeneratedCommandList'' ''array'' False JUndef),
      (IntKey 65529, ro_attribute ''AcceptedCommandList'' ''array'' False JUndef),
      (IntKey 65531, ro_attribute ''AttributeList'' ''array'' False JUndef), (IntKey 65532, ro_attribute ''FeatureMap'' ''bitmap32'' False JUndef),
      (IntKey 65533, ro_attribute ''ClusterRevision'' ''int16u'' False JUndef)]"

definition ClusterBarrierControlServer_cases :: "(string \<times> string) list" where
  "ClusterBarrierControlServer_cases =
     [(''BarrierControlGoToPercent'', ''onBarrierControlGoToPercent''), (''BarrierControlStop'', ''onBarrierControlStop'')]"

definition ClusterBarrierControlServer_handlers :: "(string \<times> string) list" where
  "ClusterBarrierControlServer_handlers =
     [(''onBarrierControlGoToPercent'', ''.onBarrierControlGoToPercent''), (''onBarrierControlStop'', ''.onBarrierControlStop'')]"

definition ClusterBarrierControlServer :: generated_class where
  "ClusterBarrierControlServer =
     \<lparr>cc_class = ''ClusterBarrierControlServer'', cc_CLUSTER_NAME = ''BARRIER_CONTROL_CLUSTER'', cc_CLUSTER_ID = 0x0103,
      cc_Command = ClusterBarrierControlServer_Command, cc_Attribute = ClusterBarrierControlServer_Attribute,
      cc_templates = ClusterBarrierControlServer_templates, cc_attributes = ClusterBarrierControlServer_attributes,
      cc_cases = ClusterBarrierControlServer_cases, cc_handlers = ClusterBarrierControlServer_handlers\<rparr>"

lemmas ClusterBarrierControlServer_defs = ClusterBarrierControlServer_Command_def ClusterBarrierControlServer_Attribute_def
  ClusterBarrierControlServer_cases_def ClusterBarrierControlServer_templates_def
  ClusterBarrierControlServer_attributes_def ClusterBarrierControlServer_handlers_def ClusterBarrierControlServer_def

lemma ClusterBarrierControlServer_ok: "class_ok ClusterBarrierControlServer"
  by (simp add: class_ok_def field_ok_def ClusterBarrierControlServer_defs ro_attribute_def)

lemma ClusterBarrierControlServer_ids: "cc_class ClusterBarrierControlServer = ''ClusterBarrierControlServer''" "cc_CLUSTER_ID ClusterBarrierControlServer = 0x0103" "distinct (map snd (cc_Command ClusterBarrierControlServer)) \<longleftrightarrow> True"
  by (simp_all add: ClusterBarrierControlServer_def ClusterBarrierControlServer_Command_def)

section \<open>\<open>ClusterBasicServer\<close>\<close>

definition ClusterBasicServer_Command :: "(string \<times> int) list" where
  "ClusterBasicServer_Command =
     [(''MfgSpecificPing'', 0)]"

definition ClusterBasicServer_Attribute :: "(string \<times> int) list" where
  "ClusterBasicServer_Attribute =
     [(''DataModelRevision'', 0), (''VendorName'', 1), (''VendorID'', 2), (''ProductName'', 3), (''ProductID'', 4), (''NodeLabel'', 5),
      (''Location'', 6), (''HardwareVersion'', 7), (''HardwareVersionString'', 8), (''SoftwareVersion'', 9), (''SoftwareVersionString'', 10),
      (''ManufacturingDate'', 11), (''PartNumber'', 12), (''ProductURL'', 13), (''ProductLabel'', 14), (''SerialNumber'', 15),
      (''LocalConfigDisabled'', 16), (''Reachable'', 17), (''UniqueID'', 18), (''CapabilityMinima'', 19), (''GeneratedCommandList'', 65528),
      (''AcceptedCommandList'', 65529), (''AttributeList'', 65531), (''FeatureMap'', 65532), (''ClusterRevision'', 65533)]"

definition ClusterBasicServer_templates :: "(string \<times> template_field list) list" where
  "ClusterBasicServer_templates =
     [(''MfgSpecificPing'', [])]"

definition ClusterBasicServer_attributes_1 :: "(prop_key \<times> attribute) list" where
  "ClusterBasicServer_attributes_1 =
     [(IntKey 0, ro_attribute ''DataModelRevision'' ''int16u'' False JUndef), (IntKey 1, ro_attribute ''VendorName'' ''char_string'' False JUndef),
      (IntKey 2, ro_attribute ''VendorID'' ''vendor_id'' False JUndef), (IntKey 3, ro_attribute ''ProductName'' ''char_string'' False JUndef),
      (IntKey 4, ro_attribute ''ProductID'' ''int16u'' False JUndef), (IntKey 5, ro_attribute ''NodeLabel'' ''char_string'' False JUndef),
      (IntKey 6, ro_attribute ''Location'' ''char_string'' False JUndef), (IntKey 7, ro_attribute ''HardwareVersion'' ''int16u'' False JUndef),
      (IntKey 8, ro_attribute ''HardwareVersionString'' ''char_string'' False JUndef),
      (IntKey 9, ro_attribute ''SoftwareVersion'' ''int32u'' False JUndef),
      (IntKey 10, ro_attribute ''SoftwareVersionString'' ''char_string'' False JUndef),
      (IntKey 11, ro_attribute ''ManufacturingDate'' ''char_string'' False JUndef),
      (IntKey 12, ro_attribute ''PartNumber'' ''char_string'' False JUndef),
      (IntKey 13, ro_attribute ''ProductURL'' ''long_char_string'' False JUndef),
      (IntKey 14, ro_attribute ''ProductLabel'' ''char_string'' False JUndef),
      (IntKey 15, ro_attribute ''SerialNumber'' ''char_string'' False JUndef),
      (IntKey 16, ro_attribute ''LocalConfigDisabled'' ''boolean'' False JUndef), (IntKey 17, ro_attribute ''Reachable'' ''boolean'' False JUndef),
      (IntKey 18, ro_attribute ''UniqueID'' ''char_string'' False JUndef),
      (IntKey 19, ro_attribute ''CapabilityMinima'' ''CapabilityMinimaStruct'' False JUndef),
      (IntKey 65528, ro_attribute ''GeneratedCommandList'' ''array'' False JUndef)]"

definition ClusterBasicServer_attributes_2 :: "(prop_key \<times> attribute) list" where
  "ClusterBasicServer_attributes_2 =
     [(IntKey 65529, ro_attribute ''AcceptedCommandList'' ''array'' False JUndef),
      (IntKey 65531, ro_attribute ''AttributeList'' ''array'' False JUndef), (IntKey 65532, ro_attribute ''FeatureMap'' ''bitmap32'' False JUndef),
      (IntKey 65533, ro_attribute ''ClusterRevision'' ''int16u'' False JUndef)]"

definition ClusterBasicServer_attributes :: "(prop_key \<times> attribute) list" where
  "ClusterBasicServer_attributes = ClusterBasicServer_attributes_1 @ ClusterBasicServer_attributes_2"

definition ClusterBasicServer_cases :: "(string \<times> string) list" where
  "ClusterBasicServer_cases =
     [(''MfgSpecificPing'', ''onMfgSpecificPing'')]"

definition ClusterBasicServer_handlers :: "(string \<times> string) list" where
  "ClusterBasicServer_handlers =
     [(''onMfgSpecificPing'', ''.onMfgSpecificPing'')]"

definition ClusterBasicServer :: generated_class where
  "ClusterBasicServer =
     \<lparr>cc_class = ''ClusterBasicServer'', cc_CLUSTER_NAME = ''BASIC_CLUSTER'', cc_CLUSTER_ID = 0x0028,
      cc_Command = ClusterBasicServer_Command, cc_Attribute = ClusterBasicServer_Attribute,
      cc_templates = ClusterBasicServer_templates, cc_attributes = ClusterBasicServer_attributes,
      cc_cases = ClusterBasicServer_cases, cc_handlers = ClusterBasicServer_handlers\<rparr>"

lemmas ClusterBasicServer_defs = ClusterBasicServer_Command_def ClusterBasicServer_Attribute_def ClusterBasicServer_cases_def
  ClusterBasicServer_templates_def ClusterBasicServer_attributes_1_def ClusterBasicServer_attributes_2_def
  ClusterBasicServer_attributes_def ClusterBasicServer_handlers_def ClusterBasicServer_def

lemma ClusterBasicServer_ok: "class_ok ClusterBasicServer"
  by (simp add: class_ok_def field_ok_def ClusterBasicServer_defs ro_attribute_def)

lemma ClusterBasicServer_ids: "cc_class ClusterBasicServer = ''ClusterBasicServer''" "cc_CLUSTER_ID ClusterBasicServer = 0x0028" "distinct (map snd (cc_Command ClusterBasicServer)) \<longleftrightarrow> True"
  by (simp_all add: ClusterBasicServer_def ClusterBasicServer_Command_def)

section \<open>\<open>ClusterBinaryInputBasicServer\<close>\<close>

definition ClusterBinaryInputBasicServer_Command :: "(string \<times> int) list" where "ClusterBinaryInputBasicServer_Command = []"

definition ClusterBinaryInputBasicServer_Attribute :: "(string \<times> int) list" where
  "ClusterBinaryInputBasicServer_Attribute =
     [(''ActiveText'', 4), (''Description'', 28), (''InactiveText'', 46), (''OutOfService'', 81), (''Polarity'', 84), (''PresentValue'', 85),
      (''Reliability'', 103), (''StatusFlags'', 111), (''ApplicationType'', 256), (''GeneratedCommandList'', 65528), (''AcceptedCommandList'', 65529),
      (''AttributeList'', 65531), (''FeatureMap'', 65532), (''ClusterRevision'', 65533)]"

definition ClusterBinaryInputBasicServer_attributes :: "(prop_key \<times> attribute) list" where
  "ClusterBinaryInputBasicServer_attributes =
     [(IntKey 4, ro_attribute ''ActiveText'' ''char_string'' False JUndef), (IntKey 28, ro_attribute ''Description'' ''char_string'' False JUndef),
      (IntKey 46, ro_attribute ''InactiveText'' ''char_string'' False JUndef), (IntKey 81, ro_attribute ''OutOfService'' ''boolean'' False JUndef),
      (IntKey 84, ro_attribute ''Polarity'' ''enum8'' False JUndef), (IntKey 85, ro_attribute ''PresentValue'' ''boolean'' False JUndef),
      (IntKey 103, ro_attribute ''Reliability'' ''enum8'' False JUndef), (IntKey 111, ro_attribute ''StatusFlags'' ''bitmap8'' False JUndef),
      (IntKey 256, ro_attribute ''ApplicationType'' ''int32u'' False JUndef),
      (IntKey 65528, ro_attribute ''GeneratedCommandList'' ''array'' False JUndef),
      (IntKey 65529, ro_attribute ''AcceptedCommandList'' ''array'' False JUndef),
      (IntKey 65531, ro_attribute ''AttributeList'' ''array'' False JUndef), (IntKey 65532, ro_attribute ''FeatureMap'' ''bitmap32'' False JUndef),
      (IntKey 65533, ro_attribute ''ClusterRevision'' ''int16u'' False JUndef)]"

definition ClusterBinaryInputBasicServer_cases :: "(string \<times> string) list" where "ClusterBinaryInputBasicServer_cases = []"

definition ClusterBinaryInputBasicServer :: generated_class where
  "ClusterBinaryInputBasicServer =
     \<lparr>cc_class = ''ClusterBinaryInputBasicServer'', cc_CLUSTER_NAME = ''BINARY_INPUT_BASIC_CLUSTER'', cc_CLUSTER_ID = 0x000F,
      cc_Command = ClusterBinaryInputBasicServer_Command, cc_Attribute = ClusterBinaryInputBasicServer_Attribute,
      cc_templates = [], cc_attributes = ClusterBinaryInputBasicServer_attributes,
      cc_cases = ClusterBinaryInputBasicServer_cases, cc_handlers = []\<rparr>"

lemmas ClusterBinaryInputBasicServer_defs = ClusterBinaryInputBasicServer_Command_def ClusterBinaryInputBasicServer_Attribute_def
  ClusterBinaryInputBasicServer_cases_def ClusterBinaryInputBasicServer_attributes_def
  ClusterBinaryInputBasicServer_def

lemma ClusterBinaryInputBasicServer_ok: "class_ok ClusterBinaryInputBasicServer"
  by (simp add: class_ok_def field_ok_def ClusterBinaryInputBasicServer_defs ro_attribute_def)

lemma ClusterBinaryInputBasicServer_ids: "cc_class ClusterBinaryInputBasicServer = ''ClusterBinaryInputBasicServer''" "cc_CLUSTER_ID ClusterBinaryInputBasicServer = 0x000F" "distinct (map snd (cc_Command ClusterBinaryInputBasicServer)) \<longleftrightarrow> True"
  by (simp_all add: ClusterBinaryInputBasicServer_def ClusterBinaryInputBasicServer_Command_def)

section \<open>\<open>ClusterBindingServer\<close>\<close>

definition ClusterBindingServer_Command :: "(string \<times> int) list" where "ClusterBindingServer_Command = []"

definition ClusterBindingServer_Attribute :: "(string \<times> int) list" where
  "ClusterBindingServer_Attribute =
     [(''Binding'', 0), (''GeneratedCommandList'', 65528), (''AcceptedCommandList'', 65529), (''AttributeList'', 65531), (''FeatureMap'', 65532),
      (''ClusterRevision'', 65533)]"

definition ClusterBindingServer_attributes :: "(prop_key \<times> attribute) list" where
  "ClusterBindingServer_attributes =
     [(IntKey 0, ro_attribute ''Binding'' ''array'' False JUndef), (IntKey 65528, ro_attribute ''GeneratedCommandList'' ''array'' False JUndef),
      (IntKey 65529, ro_attribute ''AcceptedCommandList'' ''array'' False JUndef),
      (IntKey 65531, ro_attribute ''AttributeList'' ''array'' False JUndef), (IntKey 65532, ro_attribute ''FeatureMap'' ''bitmap32'' False JUndef),
      (IntKey 65533, ro_attribute ''ClusterRevision'' ''int16u'' False JUndef)]"

definition ClusterBindingServer_cases :: "(string \<times> string) list" where "ClusterBindingServer_cases = []"

definition ClusterBindingServer :: generated_class where
  "ClusterBindingServer =
     \<lparr>cc_class = ''ClusterBindingServer'', cc_CLUSTER_NAME = ''BINDING_CLUSTER'', cc_CLUSTER_ID = 0x001E,
      cc_Command = ClusterBindingServer_Command, cc_Attribute = ClusterBindingServer_Attribute,
      cc_templates = [], cc_attributes = ClusterBindingServer_attributes,
      cc_cases = ClusterBindingServer_cases, cc_handlers = []\<rparr>"

lemmas ClusterBindingServer_defs = ClusterBindingServer_Command_def ClusterBindingServer_Attribute_def ClusterBindingServer_cases_def
  ClusterBindingServer_attributes_def ClusterBindingServer_def

lemma ClusterBindingServer_ok: "class_ok ClusterBindingServer"
  by (simp add: class_ok_def field_ok_def ClusterBindingServer_defs ro_attribute_def)

lemma ClusterBindingServer_ids: "cc_class ClusterBindingServer = ''ClusterBindingServer''" "cc_CLUSTER_ID ClusterBindingServer = 0x001E" "distinct (map snd (cc_Command ClusterBindingServer)) \<longleftrightarrow> True"
  by (simp_all add: ClusterBindingServer_def ClusterBindingServer_Command_def)

section \<open>\<open>ClusterBooleanStateServer\<close>\<close>

definition ClusterBooleanStateServer_Command :: "(string \<times> int) list" where "ClusterBooleanStateServer_Command = []"

definition ClusterBooleanStateServer_Attribute :: "(string \<times> int) list" where
  "ClusterBooleanStateServer_Attribute =
     [(''StateValue'', 0), (''GeneratedCommandList'', 65528), (''AcceptedCommandList'', 65529), (''AttributeList'', 65531), (''FeatureMap'', 65532),
      (''ClusterRevision'', 65533)]"

definition ClusterBooleanStateServer_attributes :: "(prop_key \<times> attribute) list" where
  "ClusterBooleanStateServer_attributes =
     [(IntKey 0, ro_attribute ''StateValue'' ''boolean'' False JUndef), (IntKey 65528, ro_attribute ''GeneratedCommandList'' ''array'' False JUndef),
      (IntKey 65529, ro_attribute ''AcceptedCommandList'' ''array'' False JUndef),
      (IntKey 65531, ro_attribute ''AttributeList'' ''array'' False JUndef), (IntKey 65532, ro_attribute ''FeatureMap'' ''bitmap32'' False JUndef),
      (IntKey 65533, ro_attribute ''ClusterRevision'' ''int16u'' False JUndef)]"

definition ClusterBooleanStateServer_cases :: "(string \<times> string) list" where "ClusterBooleanStateServer_cases = []"

definition ClusterBooleanStateServer :: generated_class where
  "ClusterBooleanStateServer =
     \<lparr>cc_class = ''ClusterBooleanStateServer'', cc_CLUSTER_NAME = ''BOOLEAN_STATE_CLUSTER'', cc_CLUSTER_ID = 0x0045,
      cc_Command = ClusterBooleanStateServer_Command, cc_Attribute = ClusterBooleanStateServer_Attribute,
      cc_templates = [], cc_attributes = ClusterBooleanStateServer_attributes,
      cc_cases = ClusterBooleanStateServer_cases, cc_handlers = []\<rparr>"

lemmas ClusterBooleanStateServer_defs = ClusterBooleanStateServer_Command_def ClusterBooleanStateServer_Attribute_def ClusterBooleanStateServer_cases_def
  ClusterBooleanStateServer_attributes_def ClusterBooleanStateServer_def

lemma ClusterBooleanStateServer_ok: "class_ok ClusterBooleanStateServer"
  by (simp add: class_ok_def field_ok_def ClusterBooleanStateServer_defs ro_attribute_def)

lemma ClusterBooleanStateServer_ids: "cc_class ClusterBooleanStateServer = ''ClusterBooleanStateServer''" "cc_CLUSTER_ID ClusterBooleanStateServer = 0x0045" "distinct (map snd (cc_Command ClusterBooleanStateServer)) \<longleftrightarrow> True"
  by (simp_all add: ClusterBooleanStateServer_def ClusterBooleanStateServer_Command_def)

section \<open>\<open>ClusterBridgedActionsServer\<close>\<close>

definition ClusterBridgedActionsServer_Command :: "(string \<times> int) list" where
  "ClusterBridgedActionsServer_Command =
     [(''InstantAction'', 0), (''InstantActionWithTransition'', 1), (''StartAction'', 2), (''StartActionWithDuration'', 3), (''StopAction'', 4),
      (''PauseAction'', 5), (''PauseActionWithDuration'', 6), (''ResumeAction'', 7), (''EnableAction'', 8), (''EnableActionWithDuration'', 9),
      (''DisableAction'', 10), (''DisableActionWithDuration'', 11)]"

definition ClusterBridgedActionsServer_Attribute :: "(string \<times> int) list" where
  "ClusterBridgedActionsServer_Attribute =
     [(''ActionList'', 0), (''EndpointList'', 1), (''SetupUrl'', 2), (''GeneratedCommandList'', 65528), (''AcceptedCommandList'', 65529),
      (''AttributeList'', 65531), (''FeatureMap'', 65532), (''ClusterRevision'', 65533)]"

definition ClusterBridgedActionsServer_templates :: "(string \<times> template_field list) list" where
  "ClusterBridgedActionsServer_templates =
     [(''InstantAction'', [(0, ''uint16_t'', Some ''ActionID''), (1, ''uint32_t'', Some ''InvokeID'')]),
      (''InstantActionWithTransition'', [(0, ''uint16_t'', Some ''ActionID''), (1, ''uint32_t'', Some ''InvokeID''), (2, ''uint16_t'', Some ''TransitionTime'')]),
      (''StartAction'', [(0, ''uint16_t'', Some ''ActionID''), (1, ''uint32_t'', Some ''InvokeID'')]),
      (''StartActionWithDuration'', [(0, ''uint16_t'', Some ''ActionID''), (1, ''uint32_t'', Some ''InvokeID''), (2, ''uint32_t'', Some ''Duration'')]),
      (''StopAction'', [(0, ''uint16_t'', Some ''ActionID''), (1, ''uint32_t'', Some ''InvokeID'')]),
      (''PauseAction'', [(0, ''uint16_t'', Some ''ActionID''), (1, ''uint32_t'', Some ''InvokeID'')]),
      (''PauseActionWithDuration'', [(0, ''uint16_t'', Some ''ActionID''), (1, ''uint32_t'', Some ''InvokeID''), (2, ''uint32_t'', Some ''Duration'')]),
      (''ResumeAction'', [(0, ''uint16_t'', Some ''ActionID''), (1, ''uint32_t'', Some ''InvokeID'')]),
      (''EnableAction'', [(0, ''uint16_t'', Some ''ActionID''), (1, ''uint32_t'', Some ''InvokeID'')]),
      (''EnableActionWithDuration'', [(0, ''uint16_t'', Some ''ActionID''), (1, ''uint32_t'', Some ''InvokeID''), (2, ''uint32_t'', Some ''Duration'')]),
      (''DisableAction'', [(0, ''uint16_t'', Some ''ActionID''), (1, ''uint32_t'', Some ''InvokeID'')]),
      (''DisableActionWithDuration'', [(0, ''uint16_t'', Some ''ActionID''), (1, ''uint32_t'', Some ''InvokeID''), (2, ''uint32_t'', Some ''Duration'')])]"

definition ClusterBridgedActionsServer_attributes :: "(prop_key \<times> attribute) list" where
  "ClusterBridgedActionsServer_attributes =
     [(IntKey 0, ro_attribute ''ActionList'' ''array'' False JUndef), (IntKey 1, ro_attribute ''EndpointList'' ''array'' False JUndef),
      (IntKey 2, ro_attribute ''SetupUrl'' ''long_char_string'' False JUndef),
      (IntKey 65528, ro_attribute ''GeneratedCommandList'' ''array'' False JUndef),
      (IntKey 65529, ro_attribute ''AcceptedCommandList'' ''array'' False JUndef),
      (IntKey 65531, ro_attribute ''AttributeList'' ''array'' False JUndef), (IntKey 65532, ro_attribute ''FeatureMap'' ''bitmap32'' False JUndef),
      (IntKey 65533, ro_attribute ''ClusterRevision'' ''int16u'' False JUndef)]"

definition ClusterBridgedActionsServer_cases :: "(string \<times> string) list" where
  "ClusterBridgedActionsServer_cases =
     [(''InstantAction'', ''onInstantAction''), (''InstantActionWithTransition'', ''onInstantActionWithTransition''),
      (''StartAction'', ''onStartAction''), (''StartActionWithDuration'', ''onStartActionWithDuration''), (''StopAction'', ''onStopAction''),
      (''PauseAction'', ''onPauseAction''), (''PauseActionWithDuration'', ''onPauseActionWithDuration''), (''ResumeAction'', ''onResumeAction''),
      (''EnableAction'', ''onEnableAction''), (''EnableActionWithDuration'', ''onEnableActionWithDuration''),
      (''DisableAction'', ''onDisableAction''), (''DisableActionWithDuration'', ''onDisableActionWithDuration'')]"

definition ClusterBridgedActionsServer_handlers :: "(string \<times> string) list" where
  "ClusterBridgedActionsServer_handlers =
     [(''onInstantAction'', ''.onInstantAction''), (''onInstantActionWithTransition'', ''.onInstantActionWithTransition''),
      (''onStartAction'', ''.onStartAction''), (''onStartActionWithDuration'', ''.onStartActionWithDuration''), (''onStopAction'', ''.onStopAction''),
      (''onPauseAction'', ''.onPauseAction''), (''onPauseActionWithDuration'', ''.onPauseActionWithDuration''),
      (''onResumeAction'', ''.onResumeAction''), (''onEnableAction'', ''.onEnableAction''),
      (''onEnableActionWithDuration'', ''.onEnableActionWithDuration''), (''onDisableAction'', ''.onDisableAction''),
      (''onDisableActionWithDuration'', ''.onDisableActionWithDuration'')]"

definition ClusterBridgedActionsServer :: generated_class where
  "ClusterBridgedActionsServer =
     \<lparr>cc_class = ''ClusterBridgedActionsServer'', cc_CLUSTER_NAME = ''BRIDGED_ACTIONS_CLUSTER'', cc_CLUSTER_ID = 0x0025,
      cc_Command = ClusterBridgedActionsServer_Command, cc_Attribute = ClusterBridgedActionsServer_Attribute,
      cc_templates = ClusterBridgedActionsServer_templates, cc_attributes = ClusterBridgedActionsServer_attributes,
      cc_cases = ClusterBridgedActionsServer_cases, cc_handlers = ClusterBridgedActionsServer_handlers\<rparr>"

lemmas ClusterBridgedActionsServer_defs = ClusterBridgedActionsServer_Command_def ClusterBridgedActionsServer_Attribute_def
  ClusterBridgedActionsServer_cases_def ClusterBridgedActionsServer_templates_def
  ClusterBridgedActionsServer_attributes_def ClusterBridgedActionsServer_handlers_def ClusterBridgedActionsServer_def

lemma ClusterBridgedActionsServer_ok: "class_ok ClusterBridgedActionsServer"
  by (simp add: class_ok_def field_ok_def ClusterBridgedActionsServer_defs ro_attribute_def)

lemma ClusterBridgedActionsServer_ids: "cc_class ClusterBridgedActionsServer = ''ClusterBridgedActionsServer''" "cc_CLUSTER_ID ClusterBridgedActionsServer = 0x0025" "distinct (map snd (cc_Command ClusterBridgedActionsServer)) \<longleftrightarrow> True"
  by (simp_all add: ClusterBridgedActionsServer_def ClusterBridgedActionsServer_Command_def)

section \<open>\<open>ClusterChannelServer\<close>\<close>

definition ClusterChannelServer_Command :: "(string \<times> int) list" where
  "ClusterChannelServer_Command =
     [(''ChangeChannel'', 0), (''ChangeChannelResponse'', 1), (''ChangeChannelByNumber'', 2), (''SkipChannel'', 3)]"

definition ClusterChannelServer_Attribute :: "(string \<times> int) list" where
  "ClusterChannelServer_Attribute =
     [(''ChannelList'', 0), (''Lineup'', 1), (''CurrentChannel'', 2), (''GeneratedCommandList'', 65528), (''AcceptedCommandList'', 65529),
      (''AttributeList'', 65531), (''FeatureMap'', 65532), (''ClusterRevision'', 65533)]"

definition ClusterChannelServer_templates :: "(string \<times> template_field list) list" where
  "ClusterChannelServer_templates =
     [(''ChangeChannel'', [(0, ''chip::CharSpan'', Some ''Match'')]),
      (''ChangeChannelResponse'', [(0, ''uint8_t'', Some ''Status''), (1, ''chip::CharSpan'', Some ''Data'')]),
      (''ChangeChannelByNumber'', [(0, ''uint16_t'', Some ''MajorNumber''), (1, ''uint16_t'', Some ''MinorNumber'')]),
      (''SkipChannel'', [(0, ''uint16_t'', Some ''Count'')])]"

definition ClusterChannelServer_attributes :: "(prop_key \<times> attribute) list" where
  "ClusterChannelServer_attributes =
     [(IntKey 0, ro_attribute ''ChannelList'' ''array'' False JUndef), (IntKey 1, ro_attribute ''Lineup'' ''LineupInfo'' True JUndef),
      (IntKey 2, ro_attribute ''CurrentChannel'' ''ChannelInfo'' True JUndef),
      (IntKey 65528, ro_attribute ''GeneratedCommandList'' ''array'' False JUndef),
      (IntKey 65529, ro_attribute ''AcceptedCommandList'' ''array'' False JUndef),
      (IntKey 65531, ro_attribute ''AttributeList'' ''array'' False JUndef), (IntKey 65532, ro_attribute ''FeatureMap'' ''bitmap32'' False JUndef),
      (IntKey 65533, ro_attribute ''ClusterRevision'' ''int16u'' False JUndef)]"

definition ClusterChannelServer_cases :: "(string \<times> string) list" where
  "ClusterChannelServer_cases =
     [(''ChangeChannel'', ''onChangeChannel''), (''ChangeChannelResponse'', ''onChangeChannelResponse''),
      (''ChangeChannelByNumber'', ''onChangeChannelByNumber''), (''SkipChannel'', ''onSkipChannel'')]"

definition ClusterChannelServer_handlers :: "(string \<times> string) list" where
  "ClusterChannelServer_handlers =
     [(''onChangeChannel'', ''.onChangeChannel''), (''onChangeChannelResponse'', ''.onChangeChannelResponse''),
      (''onChangeChannelByNumber'', ''.onChangeChannelByNumber''), (''onSkipChannel'', ''.onSkipChannel'')]"

definition ClusterChannelServer :: generated_class where
  "ClusterChannelServer =
     \<lparr>cc_class = ''ClusterChannelServer'', cc_CLUSTER_NAME = ''CHANNEL_CLUSTER'', cc_CLUSTER_ID = 0x0504,
      cc_Command = ClusterChannelServer_Command, cc_Attribute = ClusterChannelServer_Attribute,
      cc_templates = ClusterChannelServer_templates, cc_attributes = ClusterChannelServer_attributes,
      cc_cases = ClusterChannelServer_cases, cc_handlers = ClusterChannelServer_handlers\<rparr>"

lemmas ClusterChannelServer_defs = ClusterChannelServer_Command_def ClusterChannelServer_Attribute_def ClusterChannelServer_cases_def
  ClusterChannelServer_templates_def ClusterChannelServer_attributes_def ClusterChannelServer_handlers_def
  ClusterChannelServer_def

lemma ClusterChannelServer_ok: "class_ok ClusterChannelServer"
  by (simp add: class_ok_def field_ok_def ClusterChannelServer_defs ro_attribute_def)

lemma ClusterChannelServer_ids: "cc_class ClusterChannelServer = ''ClusterChannelServer''" "cc_CLUSTER_ID ClusterChannelServer = 0x0504" "distinct (map snd (cc_Command ClusterChannelServer)) \<longleftrightarrow> True"
  by (simp_all add: ClusterChannelServer_def ClusterChannelServer_Command_def)

section \<open>\<open>ClusterColorControlServer\<close>\<close>

definition ClusterColorControlServer_Command :: "(string \<times> int) list" where
  "ClusterColorControlServer_Command =
     [(''MoveToHue'', 0), (''MoveHue'', 1), (''StepHue'', 2), (''MoveToSaturation'', 3), (''MoveSaturation'', 4), (''StepSaturation'', 5),
      (''MoveToHueAndSaturation'', 6), (''MoveToColor'', 7), (''MoveColor'', 8), (''StepColor'', 9), (''MoveToColorTemperature'', 10),
      (''EnhancedMoveToHue'', 64), (''EnhancedMoveHue'', 65), (''EnhancedStepHue'', 66), (''EnhancedMoveToHueAndSaturation'', 67),
      (''ColorLoopSet'', 68), (''StopMoveStep'', 71), (''MoveColorTemperature'', 75), (''StepColorTemperature'', 76)]"

definition ClusterColorControlServer_Attribute :: "(string \<times> int) list" where
  "ClusterColorControlServer_Attribute =
     [(''CurrentHue'', 0), (''CurrentSaturation'', 1), (''RemainingTime'', 2), (''CurrentX'', 3), (''CurrentY'', 4), (''DriftCompensation'', 5),
      (''CompensationText'', 6), (''ColorTemperature'', 7), (''ColorMode'', 8), (''ColorControlOptions'', 15), (''NumberOfPrimaries'', 16),
      (''Primary1X'', 17), (''Primary1Y'', 18), (''Primary1Intensity'', 19), (''Primary2X'', 21), (''Primary2Y'', 22), (''Primary2Intensity'', 23),
      (''Primary3X'', 25), (''Primary3Y'', 26), (''Primary3Intensity'', 27), (''Primary4X'', 32), (''Primary4Y'', 33), (''Primary4Intensity'', 34),
      (''Primary5X'', 36), (''Primary5Y'', 37), (''Primary5Intensity'', 38), (''Primary6X'', 40), (''Primary6Y'', 41), (''Primary6Intensity'', 42),
      (''WhitePointX'', 48), (''WhitePointY'', 49), (''ColorPointRX'', 50), (''ColorPointRY'', 51), (''ColorPointRIntensity'', 52),
      (''ColorPointGX'', 54), (''ColorPointGY'', 55), (''ColorPointGIntensity'', 56), (''ColorPointBX'', 58), (''ColorPointBY'', 59),
      (''ColorPointBIntensity'', 60), (''EnhancedCurrentHue'', 16384), (''EnhancedColorMode'', 16385), (''ColorLoopActive'', 16386),
      (''ColorLoopDirection'', 16387), (''ColorLoopTime'', 16388), (''ColorLoopStartEnhancedHue'', 16389), (''ColorLoopStoredEnhancedHue'', 16390),
      (''ColorCapabilities'', 16394), (''ColorTempPhysicalMin'', 16395), (''ColorTempPhysicalMax'', 16396),
      (''CoupleColorTempToLevelMinMireds'', 16397), (''StartUpColorTemperatureMireds'', 16400), (''GeneratedCommandList'', 65528),
      (''AcceptedCommandList'', 65529), (''AttributeList'', 65531), (''FeatureMap'', 65532), (''ClusterRevision'', 65533)]"

definition ClusterColorControlServer_templates_1 :: "(string \<times> template_field list) list" where
  "ClusterColorControlServer_templates_1 =
     [(''MoveToHue'', [(0, ''uint8_t'', Some ''Hue''), (1, ''uint8_t'', Some ''Direction''), (2, ''uint16_t'', Some ''TransitionTime''),
         (3, ''uint8_t'', Some ''OptionsMask''), (4, ''uint8_t'', Some ''OptionsOverride'')]),
      (''MoveHue'', [(0, ''uint8_t'', Some ''MoveMode''), (1, ''uint8_t'', Some ''Rate''), (2, ''uint8_t'', Some ''OptionsMask''),
         (3, ''uint8_t'', Some ''OptionsOverride'')]),
      (''StepHue'', [(0, ''uint8_t'', Some ''StepMode''), (1, ''uint8_t'', Some ''StepSize''), (2, ''uint8_t'', Some ''TransitionTime''),
         (3, ''uint8_t'', Some ''OptionsMask''), (4, ''uint8_t'', Some ''OptionsOverride'')]),
      (''MoveToSaturation'', [(0, ''uint8_t'', Some ''Saturation''), (1, ''uint16_t'', Some ''TransitionTime''), (2, ''uint8_t'', Some ''OptionsMask''),
         (3, ''uint8_t'', Some ''OptionsOverride'')]),
      (''MoveSaturation'', [(0, ''uint8_t'', Some ''MoveMode''), (1, ''uint8_t'', Some ''Rate''), (2, ''uint8_t'', Some ''OptionsMask''),
         (3, ''uint8_t'', Some ''OptionsOverride'')]),
      (''StepSaturation'', [(0, ''uint8_t'', Some ''StepMode''), (1, ''uint8_t'', Some ''StepSize''), (2, ''uint8_t'', Some ''TransitionTime''),
         (3, ''uint8_t'', Some ''OptionsMask''), (4, ''uint8_t'', Some ''OptionsOverride'')]),
      (''MoveToHueAndSaturation'', [(0, ''uint8_t'', Some ''Hue''), (1, ''uint8_t'', Some ''Saturation''), (2, ''uint16_t'', Some ''TransitionTime''),
         (3, ''uint8_t'', Some ''OptionsMask''), (4, ''uint8_t'', Some ''OptionsOverride'')]),
      (''MoveToColor'', [(0, ''uint16_t'', Some ''ColorX''), (1, ''uint16_t'', Some ''ColorY''), (2, ''uint16_t'', Some ''TransitionTime''),
         (3, ''uint8_t'', Some ''OptionsMask''), (4, ''uint8_t'', Some ''OptionsOverride'')]),
      (''MoveColor'', [(0, ''int16_t'', Some ''RateX''), (1, ''int16_t'', Some ''RateY''), (2, ''uint8_t'', Some ''OptionsMask''),
         (3, ''uint8_t'', Some ''OptionsOverride'')]),
      (''StepColor'', [(0, ''int16_t'', Some ''StepX''), (1, ''int16_t'', Some ''StepY''), (2, ''uint16_t'', Some ''TransitionTime''),
         (3, ''uint8_t'', Some ''OptionsMask''), (4, ''uint8_t'', Some ''OptionsOverride'')]),
      (''MoveToColorTemperature'', [(0, ''uint16_t'', Some ''ColorTemperature''), (1, ''uint16_t'', Some ''TransitionTime''), (2, ''uint8_t'', Some ''OptionsMask''),
         (3, ''uint8_t'', Some ''OptionsOverride'')]),
      (''EnhancedMoveToHue'', [(0, ''uint16_t'', Some ''EnhancedHue''), (1, ''uint8_t'', Some ''Direction''), (2, ''uint16_t'', Some ''TransitionTime''),
         (3, ''uint8_t'', Some ''OptionsMask''), (4, ''uint8_t'', Some ''OptionsOverride'')]),
      (''EnhancedMoveHue'', [(0, ''uint8_t'', Some ''MoveMode''), (1, ''uint16_t'', Some ''Rate''), (2, ''uint8_t'', Some ''OptionsMask''),
         (3, ''uint8_t'', Some ''OptionsOverride'')]),
      (''EnhancedStepHue'', [(0, ''uint8_t'', Some ''StepMode''), (1, ''uint16_t'', Some ''StepSize''), (2, ''uint16_t'', Some ''TransitionTime''),
         (3, ''uint8_t'', Some ''OptionsMask''), (4, ''uint8_t'', Some ''OptionsOverride'')]),
      (''EnhancedMoveToHueAndSaturation'', [(0, ''uint16_t'', Some ''EnhancedHue''), (1, ''uint8_t'', Some ''Saturation''), (2, ''uint16_t'', Some ''TransitionTime''),
         (3, ''uint8_t'', Some ''OptionsMask''), (4, ''uint8_t'', Some ''OptionsOverride'')]),
      (''ColorLoopSet'', [(0, ''uint8_t'', Some ''UpdateFlags''), (1, ''uint8_t'', Some ''Action''), (2, ''uint8_t'', Some ''Direction''),
         (3, ''uint16_t'', Some ''Time''), (4, ''uint16_t'', Some ''StartHue''), (5, ''uint8_t'', Some ''OptionsMask''),
         (6, ''uint8_t'', Some ''OptionsOverride'')]),
      (''StopMoveStep'', [(0, ''uint8_t'', Some ''OptionsMask''), (1, ''uint8_t'', Some ''OptionsOverride'')])]"

definition ClusterColorControlServer_templates_2 :: "(string \<times> template_field list) list" where
  "ClusterColorControlServer_templates_2 =
     [(''MoveColorTemperature'', [(0, ''uint8_t'', Some ''MoveMode''), (1, ''uint16_t'', Some ''Rate''), (2, ''uint16_t'', Some ''ColorTemperatureMinimum''),
         (3, ''uint16_t'', Some ''ColorTemperatureMaximum''), (4, ''uint8_t'', Some ''OptionsMask''),
         (5, ''uint8_t'', Some ''OptionsOverride'')]),
      (''StepColorTemperature'', [(0, ''uint8_t'', Some ''StepMode''), (1, ''uint16_t'', Some ''StepSize''), (2, ''uint16_t'', Some ''TransitionTime''),
         (3, ''uint16_t'', Some ''ColorTemperatureMinimum''), (4, ''uint16_t'', Some ''ColorTemperatureMaximum''),
         (5, ''uint8_t'', Some ''OptionsMask''), (6, ''uint8_t'', Some ''OptionsOverride'')])]"

definition ClusterColorControlServer_templates :: "(string \<times> template_field list) list" where
  "ClusterColorControlServer_templates = ClusterColorControlServer_templates_1 @ ClusterColorControlServer_templates_2"

definition ClusterColorControlServer_attributes_1 :: "(prop_key \<times> attribute) list" where
  "ClusterColorControlServer_attributes_1 =
     [(IntKey 0, ro_attribute ''CurrentHue'' ''int8u'' False JUndef), (IntKey 1, ro_attribute ''CurrentSaturation'' ''int8u'' False JUndef),
      (IntKey 2, ro_attribute ''RemainingTime'' ''int16u'' False JUndef), (IntKey 3, ro_attribute ''CurrentX'' ''int16u'' False JUndef),
      (IntKey 4, ro_attribute ''CurrentY'' ''int16u'' False JUndef), (IntKey 5, ro_attribute ''DriftCompensation'' ''enum8'' False JUndef),
      (IntKey 6, ro_attribute ''CompensationText'' ''char_string'' False JUndef),
      (IntKey 7, ro_attribute ''ColorTemperature'' ''int16u'' False JUndef), (IntKey 8, ro_attribute ''ColorMode'' ''enum8'' False JUndef),
      (IntKey 15, ro_attribute ''ColorControlOptions'' ''bitmap8'' False JUndef),
      (IntKey 16, ro_attribute ''NumberOfPrimaries'' ''int8u'' False JUndef), (IntKey 17, ro_attribute ''Primary1X'' ''int16u'' False JUndef),
      (IntKey 18, ro_attribute ''Primary1Y'' ''int16u'' False JUndef), (IntKey 19, ro_attribute ''Primary1Intensity'' ''int8u'' False JUndef),
      (IntKey 21, ro_attribute ''Primary2X'' ''int16u'' False JUndef), (IntKey 22, ro_attribute ''Primary2Y'' ''int16u'' False JUndef),
      (IntKey 23, ro_attribute ''Primary2Intensity'' ''int8u'' False JUndef), (IntKey 25, ro_attribute ''Primary3X'' ''int16u'' False JUndef),
      (IntKey 26, ro_attribute ''Primary3Y'' ''int16u'' False JUndef), (IntKey 27, ro_attribute ''Primary3Intensity'' ''int8u'' False JUndef),
      (IntKey 32, ro_attribute ''Primary4X'' ''int16u'' False JUndef)]"

definition ClusterColorControlServer_attributes_2 :: "(prop_key \<times> attribute) list" where
  "ClusterColorControlServer_attributes_2 =
     [(IntKey 33, ro_attribute ''Primary4Y'' ''int16u'' False JUndef), (IntKey 34, ro_attribute ''Primary4Intensity'' ''int8u'' False JUndef),
      (IntKey 36, ro_attribute ''Primary5X'' ''int16u'' False JUndef), (IntKey 37, ro_attribute ''Primary5Y'' ''int16u'' False JUndef),
      (IntKey 38, ro_attribute ''Primary5Intensity'' ''int8u'' False JUndef), (IntKey 40, ro_attribute ''Primary6X'' ''int16u'' False JUndef),
      (IntKey 41, ro_attribute ''Primary6Y'' ''int16u'' False JUndef), (IntKey 42, ro_attribute ''Primary6Intensity'' ''int8u'' False JUndef),
      (IntKey 48, ro_attribute ''WhitePointX'' ''int16u'' False JUndef), (IntKey 49, ro_attribute ''WhitePointY'' ''int16u'' False JUndef),
      (IntKey 50, ro_attribute ''ColorPointRX'' ''int16u'' False JUndef), (IntKey 51, ro_attribute ''ColorPointRY'' ''int16u'' False JUndef),
      (IntKey 52, ro_attribute ''ColorPointRIntensity'' ''int8u'' False JUndef), (IntKey 54, ro_attribute ''ColorPointGX'' ''int16u'' False JUndef),
      (IntKey 55, ro_attribute ''ColorPointGY'' ''int16u'' False JUndef), (IntKey 56, ro_attribute ''ColorPointGIntensity'' ''int8u'' False JUndef),
      (IntKey 58, ro_attribute ''ColorPointBX'' ''int16u'' False JUndef), (IntKey 59, ro_attribute ''ColorPointBY'' ''int16u'' False JUndef),
      (IntKey 60, ro_attribute ''ColorPointBIntensity'' ''int8u'' False JUndef),
      (IntKey 16384, ro_attribute ''EnhancedCurrentHue'' ''int16u'' False JUndef),
      (IntKey 16385, ro_attribute ''EnhancedColorMode'' ''enum8'' False JUndef)]"

definition ClusterColorControlServer_attributes_3 :: "(prop_key \<times> attribute) list" where
  "ClusterColorControlServer_attributes_3 =
     [(IntKey 16386, ro_attribute ''ColorLoopActive'' ''int8u'' False JUndef),
      (IntKey 16387, ro_attribute ''ColorLoopDirection'' ''int8u'' False JUndef),
      (IntKey 16388, ro_attribute ''ColorLoopTime'' ''int16u'' False JUndef),
      (IntKey 16389, ro_attribute ''ColorLoopStartEnhancedHue'' ''int16u'' False JUndef),
      (IntKey 16390, ro_attribute ''ColorLoopStoredEnhancedHue'' ''int16u'' False JUndef),
      (IntKey 16394, ro_attribute ''ColorCapabilities'' ''bitmap16'' False JUndef),
      (IntKey 16395, ro_attribute ''ColorTempPhysicalMin'' ''int16u'' False JUndef),
      (IntKey 16396, ro_attribute ''ColorTempPhysicalMax'' ''int16u'' False JUndef),
      (IntKey 16397, ro_attribute ''CoupleColorTempToLevelMinMireds'' ''int16u'' False JUndef),
      (IntKey 16400, ro_attribute ''StartUpColorTemperatureMireds'' ''int16u'' False JUndef),
      (IntKey 65528, ro_attribute ''GeneratedCommandList'' ''array'' False JUndef),
      (IntKey 65529, ro_attribute ''AcceptedCommandList'' ''array'' False JUndef),
      (IntKey 65531, ro_attribute ''AttributeList'' ''array'' False JUndef), (IntKey 65532, ro_attribute ''FeatureMap'' ''bitmap32'' False JUndef),
      (IntKey 65533, ro_attribute ''ClusterRevision'' ''int16u'' False JUndef)]"

definition ClusterColorControlServer_attributes :: "(prop_key \<times> attribute) list" where
  "ClusterColorControlServer_attributes = ClusterColorControlServer_attributes_1 @ ClusterColorControlServer_attributes_2 @ ClusterColorControlServer_attributes_3"

definition ClusterColorControlServer_cases :: "(string \<times> string) list" where
  "ClusterColorControlServer_cases =
     [(''MoveToHue'', ''onMoveToHue''), (''MoveHue'', ''onMoveHue''), (''StepHue'', ''onStepHue''), (''MoveToSaturation'', ''onMoveToSaturation''),
      (''MoveSaturation'', ''onMoveSaturation''), (''StepSaturation'', ''onStepSaturation''),
      (''MoveToHueAndSaturation'', ''onMoveToHueAndSaturation''), (''MoveToColor'', ''onMoveToColor''), (''MoveColor'', ''onMoveColor''),
      (''StepColor'', ''onStepColor''), (''MoveToColorTemperature'', ''onMoveToColorTemperature''), (''EnhancedMoveToHue'', ''onEnhancedMoveToHue''),
      (''EnhancedMoveHue'', ''onEnhancedMoveHue''), (''EnhancedStepHue'', ''onEnhancedStepHue''),
      (''EnhancedMoveToHueAndSaturation'', ''onEnhancedMoveToHueAndSaturation''), (''ColorLoopSet'', ''onColorLoopSet''),
      (''StopMoveStep'', ''onStopMoveStep''), (''MoveColorTemperature'', ''onMoveColorTemperature''),
      (''StepColorTemperature'', ''onStepColorTemperature'')]"

definition ClusterColorControlServer_handlers :: "(string \<times> string) list" where
  "ClusterColorControlServer_handlers =
     [(''onMoveToHue'', ''.onMoveToHue''), (''onMoveHue'', ''.onMoveHue''), (''onStepHue'', ''.onStepHue''),
      (''onMoveToSaturation'', ''.onMoveToSaturation''), (''onMoveSaturation'', ''.onMoveSaturation''), (''onStepSaturation'', ''.onStepSaturation''),
      (''onMoveToHueAndSaturation'', ''.onMoveToHueAndSaturation''), (''onMoveToColor'', ''.onMoveToColor''), (''onMoveColor'', ''.onMoveColor''),
      (''onStepColor'', ''.onStepColor''), (''onMoveToColorTemperature'', ''.onMoveToColorTemperature''),
      (''onEnhancedMoveToHue'', ''.onEnhancedMoveToHue''), (''onEnhancedMoveHue'', ''.onEnhancedMoveHue''),
      (''onEnhancedStepHue'', ''.onEnhancedStepHue''), (''onEnhancedMoveToHueAndSaturation'', ''.onEnhancedMoveToHueAndSaturation''),
      (''onColorLoopSet'', ''.onColorLoopSet''), (''onStopMoveStep'', ''.onStopMoveStep''), (''onMoveColorTemperature'', ''.onMoveColorTemperature''),
      (''onStepColorTemperature'', ''.onStepColorTemperature'')]"

definition ClusterColorControlServer :: generated_class where
  "ClusterColorControlServer =
     \<lparr>cc_class = ''ClusterColorControlServer'', cc_CLUSTER_NAME = ''COLOR_CONTROL_CLUSTER'', cc_CLUSTER_ID = 0x0300,
      cc_Command = ClusterColorControlServer_Command, cc_Attribute = ClusterColorControlServer_Attribute,
      cc_templates = ClusterColorControlServer_templates, cc_attributes = ClusterColorControlServer_attributes,
      cc_cases = ClusterColorControlServer_cases, cc_handlers = ClusterColorControlServer_handlers\<rparr>"

lemmas ClusterColorControlServer_defs = ClusterColorControlServer_Command_def ClusterColorControlServer_Attribute_def ClusterColorControlServer_cases_def
  ClusterColorControlServer_templates_1_def ClusterColorControlServer_templates_2_def
  ClusterColorControlServer_templates_def ClusterColorControlServer_attributes_1_def
  ClusterColorControlServer_attributes_2_def ClusterColorControlServer_attributes_3_def
  ClusterColorControlServer_attributes_def ClusterColorControlServer_handlers_def ClusterColorControlServer_def

lemma ClusterColorControlServer_ok: "class_ok ClusterColorControlServer"
  by (simp add: class_ok_def field_ok_def ClusterColorControlServer_defs ro_attribute_def)

lemma ClusterColorControlServer_ids: "cc_class ClusterColorControlServer = ''ClusterColorControlServer''" "cc_CLUSTER_ID ClusterColorControlServer = 0x0300" "distinct (map snd (cc_Command ClusterColorControlServer)) \<longleftrightarrow> True"
  by (simp_all add: ClusterColorControlServer_def ClusterColorControlServer_Command_def)

section \<open>\<open>ClusterContentLauncherServer\<close>\<close>

definition ClusterContentLauncherServer_Command :: "(string \<times> int) list" where
  "ClusterContentLauncherServer_Command =
     [(''LaunchContent'', 0), (''LaunchURL'', 1), (''LaunchResponse'', 2)]"

definition ClusterContentLauncherServer_Attribute :: "(string \<times> int) list" where
  "ClusterContentLauncherServer_Attribute =
     [(''AcceptHeader'', 0), (''SupportedStreamingProtocols'', 1), (''GeneratedCommandList'', 65528), (''AcceptedCommandList'', 65529),
      (''AttributeList'', 65531), (''FeatureMap'', 65532), (''ClusterRevision'', 65533)]"

definition ClusterContentLauncherServer_templates :: "(string \<times> template_field list) list" where
  "ClusterContentLauncherServer_templates =
     [(''LaunchContent'', [(0, ''struct'', None), (1, ''bool'', Some ''AutoPlay''), (2, ''chip::CharSpan'', Some ''Data'')]),
      (''LaunchURL'', [(0, ''chip::CharSpan'', Some ''ContentURL''), (1, ''chip::CharSpan'', Some ''DisplayString''), (2, ''struct'', None)]),
      (''LaunchResponse'', [(0, ''uint8_t'', Some ''Status''), (1, ''chip::CharSpan'', Some ''Data'')])]"

definition ClusterContentLauncherServer_attributes :: "(prop_key \<times> attribute) list" where
  "ClusterContentLauncherServer_attributes =
     [(IntKey 0, ro_attribute ''AcceptHeader'' ''array'' False JUndef),
      (IntKey 1, ro_attribute ''SupportedStreamingProtocols'' ''bitmap32'' False JUndef),
      (IntKey 65528, ro_attribute ''GeneratedCommandList'' ''array'' False JUndef),
      (IntKey 65529, ro_attribute ''AcceptedCommandList'' ''array'' False JUndef),
      (IntKey 65531, ro_attribute ''AttributeList'' ''array'' False JUndef), (IntKey 65532, ro_attribute ''FeatureMap'' ''bitmap32'' False JUndef),
      (IntKey 65533, ro_attribute ''ClusterRevision'' ''int16u'' False JUndef)]"

definition ClusterContentLauncherServer_cases :: "(string \<times> string) list" where
  "ClusterContentLauncherServer_cases =
     [(''LaunchContent'', ''onLaunchContent''), (''LaunchURL'', ''onLaunchURL''), (''LaunchResponse'', ''onLaunchResponse'')]"

definition ClusterContentLauncherServer_handlers :: "(string \<times> string) list" where
  "ClusterContentLauncherServer_handlers =
     [(''onLaunchContent'', ''.onLaunchContent''), (''onLaunchURL'', ''.onLaunchURL''), (''onLaunchResponse'', ''.onLaunchResponse'')]"

definition ClusterContentLauncherServer :: generated_class where
  "ClusterContentLauncherServer =
     \<lparr>cc_class = ''ClusterContentLauncherServer'', cc_CLUSTER_NAME = ''CONTENT_LAUNCH_CLUSTER'', cc_CLUSTER_ID = 0x050A,
      cc_Command = ClusterContentLauncherServer_Command, cc_Attribute = ClusterContentLauncherServer_Attribute,
      cc_templates = ClusterContentLauncherServer_templates, cc_attributes = ClusterContentLauncherServer_attributes,
      cc_cases = ClusterContentLauncherServer_cases, cc_handlers = ClusterContentLauncherServer_handlers\<rparr>"

lemmas ClusterContentLauncherServer_defs = ClusterContentLauncherServer_Command_def ClusterContentLauncherServer_Attribute_def
  ClusterContentLauncherServer_cases_def ClusterContentLauncherServer_templates_def
  ClusterContentLauncherServer_attributes_def ClusterContentLauncherServer_handlers_def
  ClusterContentLauncherServer_def

lemma ClusterContentLauncherServer_ok: "class_ok ClusterContentLauncherServer"
  by (simp add: class_ok_def field_ok_def ClusterContentLauncherServer_defs ro_attribute_def)

lemma ClusterContentLauncherServer_ids: "cc_class ClusterContentLauncherServer = ''ClusterContentLauncherServer''" "cc_CLUSTER_ID ClusterContentLauncherServer = 0x050A" "distinct (map snd (cc_Command ClusterContentLauncherServer)) \<longleftrightarrow> True"
  by (simp_all add: ClusterContentLauncherServer_def ClusterContentLauncherServer_Command_def)

section \<open>\<open>ClusterDescriptorServer\<close>\<close>

definition ClusterDescriptorServer_Command :: "(string \<times> int) list" where "ClusterDescriptorServer_Command = []"

definition ClusterDescriptorServer_Attribute :: "(string \<times> int) list" where
  "ClusterDescriptorServer_Attribute =
     [(''DeviceList'', 0), (''ServerList'', 1), (''ClientList'', 2), (''PartsList'', 3), (''GeneratedCommandList'', 65528),
      (''AcceptedCommandList'', 65529), (''AttributeList'', 65531), (''FeatureMap'', 65532), (''ClusterRevision'', 65533)]"

definition ClusterDescriptorServer_attributes :: "(prop_key \<times> attribute) list" where
  "ClusterDescriptorServer_attributes =
     [(IntKey 0, ro_attribute ''DeviceList'' ''array'' False JUndef), (IntKey 1, ro_attribute ''ServerList'' ''array'' False JUndef),
      (IntKey 2, ro_attribute ''ClientList'' ''array'' False JUndef), (IntKey 3, ro_attribute ''PartsList'' ''array'' False JUndef),
      (IntKey 65528, ro_attribute ''GeneratedCommandList'' ''array'' False JUndef),
      (IntKey 65529, ro_attribute ''AcceptedCommandList'' ''array'' False JUndef),
      (IntKey 65531, ro_attribute ''AttributeList'' ''array'' False JUndef), (IntKey 65532, ro_attribute ''FeatureMap'' ''bitmap32'' False JUndef),
      (IntKey 65533, ro_attribute ''ClusterRevision'' ''int16u'' False JUndef)]"

definition ClusterDescriptorServer_cases :: "(string \<times> string) list" where "ClusterDescriptorServer_cases = []"

definition ClusterDescriptorServer :: generated_class where
  "ClusterDescriptorServer =
     \<lparr>cc_class = ''ClusterDescriptorServer'', cc_CLUSTER_NAME = ''DESCRIPTOR_CLUSTER'', cc_CLUSTER_ID = 0x001D,
      cc_Command = ClusterDescriptorServer_Command, cc_Attribute = ClusterDescriptorServer_Attribute,
      cc_templates = [], cc_attributes = ClusterDescriptorServer_attributes,
      cc_cases = ClusterDescriptorServer_cases, cc_handlers = []\<rparr>"

lemmas ClusterDescriptorServer_defs = ClusterDescriptorServer_Command_def ClusterDescriptorServer_Attribute_def ClusterDescriptorServer_cases_def
  ClusterDescriptorServer_attributes_def ClusterDescriptorServer_def

lemma ClusterDescriptorServer_ok: "class_ok ClusterDescriptorServer"
  by (simp add: class_ok_def field_ok_def ClusterDescriptorServer_defs ro_attribute_def)

lemma ClusterDescriptorServer_ids: "cc_class ClusterDescriptorServer = ''ClusterDescriptorServer''" "cc_CLUSTER_ID ClusterDescriptorServer = 0x001D" "distinct (map snd (cc_Command ClusterDescriptorServer)) \<longleftrightarrow> True"
  by (simp_all add: ClusterDescriptorServer_def ClusterDescriptorServer_Command_def)

section \<open>\<open>ClusterDiagnosticLogsServer\<close>\<close>

definition ClusterDiagnosticLogsServer_Command :: "(string \<times> int) list" where
  "ClusterDiagnosticLogsServer_Command =
     [(''RetrieveLogsRequest'', 0), (''RetrieveLogsResponse'', 1)]"

definition ClusterDiagnosticLogsServer_Attribute :: "(string \<times> int) list" where
  "ClusterDiagnosticLogsServer_Attribute =
     [(''GeneratedCommandList'', 65528), (''AcceptedCommandList'', 65529), (''AttributeList'', 65531), (''FeatureMap'', 65532),
      (''ClusterRevision'', 65533)]"

definition ClusterDiagnosticLogsServer_templates :: "(string \<times> template_field list) list" where
  "ClusterDiagnosticLogsServer_templates =
     [(''RetrieveLogsRequest'', [(0, ''uint8_t'', Some ''Intent''), (1, ''uint8_t'', Some ''RequestedProtocol''),
         (2, ''chip::ByteSpan'', Some ''TransferFileDesignator'')]),
      (''RetrieveLogsResponse'', [(0, ''uint8_t'', Some ''Status''), (1, ''chip::ByteSpan'', Some ''Content''), (2, ''uint32_t'', Some ''TimeStamp''),
         (3, ''uint32_t'', Some ''TimeSinceBoot'')])]"

definition ClusterDiagnosticLogsServer_attributes :: "(prop_key \<times> attribute) list" where
  "ClusterDiagnosticLogsServer_attributes =
     [(IntKey 65528, ro_attribute ''GeneratedCommandList'' ''array'' False JUndef),
      (IntKey 65529, ro_attribute ''AcceptedCommandList'' ''array'' False JUndef),
      (IntKey 65531, ro_attribute ''AttributeList'' ''array'' False JUndef), (IntKey 65532, ro_attribute ''FeatureMap'' ''bitmap32'' False JUndef),
      (IntKey 65533, ro_attribute ''ClusterRevision'' ''int16u'' False JUndef)]"

definition ClusterDiagnosticLogsServer_cases :: "(string \<times> string) list" where
  "ClusterDiagnosticLogsServer_cases =
     [(''RetrieveLogsRequest'', ''onRetrieveLogsRequest''), (''RetrieveLogsResponse'', ''onRetrieveLogsResponse'')]"

definition ClusterDiagnosticLogsServer_handlers :: "(string \<times> string) list" where
  "ClusterDiagnosticLogsServer_handlers =
     [(''onRetrieveLogsRequest'', ''.onRetrieveLogsRequest''), (''onRetrieveLogsResponse'', ''.onRetrieveLogsResponse'')]"

definition ClusterDiagnosticLogsServer :: generated_class where
  "ClusterDiagnosticLogsServer =
     \<lparr>cc_class = ''ClusterDiagnosticLogsServer'', cc_CLUSTER_NAME = ''DIAGNOSTIC_LOGS_CLUSTER'', cc_CLUSTER_ID = 0x0032,
      cc_Command = ClusterDiagnosticLogsServer_Command, cc_Attribute = ClusterDiagnosticLogsServer_Attribute,
      cc_templates = ClusterDiagnosticLogsServer_templates, cc_attributes = ClusterDiagnosticLogsServer_attributes,
      cc_cases = ClusterDiagnosticLogsServer_cases, cc_handlers = ClusterDiagnosticLogsServer_handlers\<rparr>"

lemmas ClusterDiagnosticLogsServer_defs = ClusterDiagnosticLogsServer_Command_def ClusterDiagnosticLogsServer_Attribute_def
  ClusterDiagnosticLogsServer_cases_def ClusterDiagnosticLogsServer_templates_def
  ClusterDiagnosticLogsServer_attributes_def ClusterDiagnosticLogsServer_handlers_def ClusterDiagnosticLogsServer_def

lemma ClusterDiagnosticLogsServer_ok: "class_ok ClusterDiagnosticLogsServer"
  by (simp add: class_ok_def field_ok_def ClusterDiagnosticLogsServer_defs ro_attribute_def)

lemma ClusterDiagnosticLogsServer_ids: "cc_class ClusterDiagnosticLogsServer = ''ClusterDiagnosticLogsServer''" "cc_CLUSTER_ID ClusterDiagnosticLogsServer = 0x0032" "distinct (map snd (cc_Command ClusterDiagnosticLogsServer)) \<longleftrightarrow> True"
  by (simp_all add: ClusterDiagnosticLogsServer_def ClusterDiagnosticLogsServer_Command_def)

section \<open>\<open>ClusterDoorLockServer\<close>\<close>

definition ClusterDoorLockServer_Command :: "(string \<times> int) list" where
  "ClusterDoorLockServer_Command =
     [(''LockDoor'', 0), (''UnlockDoor'', 1), (''UnlockWithTimeout'', 3), (''GetLogRecord'', 4), (''GetLogRecordResponse'', 4), (''SetPINCode'', 5),
      (''GetPINCode'', 6), (''GetPINCodeResponse'', 6), (''ClearPINCode'', 7), (''ClearAllPINCodes'', 8), (''SetUserStatus'', 9),
      (''GetUserStatus'', 10), (''GetUserStatusResponse'', 10), (''SetWeekDaySchedule'', 11), (''GetWeekDaySchedule'', 12),
      (''GetWeekDayScheduleResponse'', 12), (''ClearWeekDaySchedule'', 13), (''SetYearDaySchedule'', 14), (''GetYearDaySchedule'', 15),
      (''GetYearDayScheduleResponse'', 15), (''ClearYearDaySchedule'', 16), (''SetHolidaySchedule'', 17), (''GetHolidaySchedule'', 18),
      (''GetHolidayScheduleResponse'', 18), (''ClearHolidaySchedule'', 19), (''SetUserType'', 20), (''GetUserType'', 21),
      (''GetUserTypeResponse'', 21), (''SetRFIDCode'', 22), (''GetRFIDCode'', 23), (''GetRFIDCodeResponse'', 23), (''ClearRFIDCode'', 24),
      (''ClearAllRFIDCodes'', 25), (''SetUser'', 26), (''GetUser'', 27), (''GetUserResponse'', 28), (''ClearUser'', 29),
      (''OperatingEventNotification'', 32), (''ProgrammingEventNotification'', 33), (''SetCredential'', 34), (''SetCredentialResponse'', 35),
      (''GetCredentialStatus'', 36), (''GetCredentialStatusResponse'', 37), (''ClearCredential'', 38)]"

definition ClusterDoorLockServer_Attribute :: "(string \<times> int) list" where
  "ClusterDoorLockServer_Attribute =
     [(''LockState'', 0), (''LockType'', 1), (''ActuatorEnabled'', 2), (''DoorState'', 3), (''DoorOpenEvents'', 4), (''DoorClosedEvents'', 5),
      (''OpenPeriod'', 6), (''NumberOfLogRecordsSupported'', 16), (''NumberOfTotalUsersSupported'', 17), (''NumberOfPINUsersSupported'', 18),
      (''NumberOfRFIDUsersSupported'', 19), (''NumberOfWeekDaySchedulesSupportedPerUser'', 20), (''NumberOfYearDaySchedulesSupportedPerUser'', 21),
      (''NumberOfHolidaySchedulesSupported'', 22), (''MaxPINCodeLength'', 23), (''MinPINCodeLength'', 24), (''MaxRFIDCodeLength'', 25),
      (''MinRFIDCodeLength'', 26), (''CredentialRulesSupport'', 27), (''NumberOfCredentialsSupportedPerUser'', 28), (''EnableLogging'', 32),
      (''Language'', 33), (''LEDSettings'', 34), (''AutoRelockTime'', 35), (''SoundVolume'', 36), (''OperatingMode'', 37),
      (''SupportedOperatingModes'', 38), (''DefaultConfigurationRegister'', 39), (''EnableLocalProgramming'', 40), (''EnableOneTouchLocking'', 41),
      (''EnableInsideStatusLED'', 42), (''EnablePrivacyModeButton'', 43), (''LocalProgrammingFeatures'', 44), (''WrongCodeEntryLimit'', 48),
      (''UserCodeTemporaryDisableTime'', 49), (''SendPINOverTheAir'', 50), (''RequirePINforRemoteOperation'', 51), (''ExpiringUserTimeout'', 53),
      (''AlarmMask'', 64), (''KeypadOperationEventMask'', 65), (''RemoteOperationEventMask'', 66), (''ManualOperationEventMask'', 67),
      (''RFIDOperationEventMask'', 68), (''KeypadProgrammingEventMask'', 69), (''RemoteProgrammingEventMask'', 70),
      (''RFIDProgrammingEventMask'', 71), (''GeneratedCommandList'', 65528), (''AcceptedCommandList'', 65529), (''AttributeList'', 65531),
      (''FeatureMap'', 65532), (''ClusterRevision'', 65533)]"

definition ClusterDoorLockServer_templates_1 :: "(string \<times> template_field list) list" where
  "ClusterDoorLockServer_templates_1 =
     [(''LockDoor'', [(0, ''chip::ByteSpan'', Some ''PinCode'')]), (''UnlockDoor'', [(0, ''chip::ByteSpan'', Some ''PinCode'')]),
      (''UnlockWithTimeout'', [(0, ''uint16_t'', Some ''Timeout''), (1, ''chip::ByteSpan'', Some ''PinCode'')]),
      (''GetLogRecord'', [(0, ''uint16_t'', Some ''LogIndex'')]),
      (''GetLogRecordResponse'', [(0, ''uint16_t'', Some ''LogEntryId''), (1, ''uint32_t'', Some ''Timestamp''), (2, ''uint8_t'', Some ''EventType''),
         (3, ''uint8_t'', Some ''Source''), (4, ''uint8_t'', Some ''EventIdOrAlarmCode''), (5, ''uint16_t'', Some ''UserId''),
         (6, ''chip::ByteSpan'', Some ''Pin'')]),
      (''SetPINCode'', [(0, ''uint16_t'', Some ''UserId''), (1, ''uint8_t'', Some ''UserStatus''), (2, ''uint8_t'', Some ''UserType''),
         (3, ''chip::ByteSpan'', Some ''Pin'')]),
      (''GetPINCode'', [(0, ''uint16_t'', Some ''UserId'')]),
      (''GetPINCodeResponse'', [(0, ''uint16_t'', Some ''UserId''), (1, ''uint8_t'', Some ''UserStatus''), (2, ''uint8_t'', Some ''UserType''),
         (3, ''chip::ByteSpan'', Some ''Pin'')]),
      (''ClearPINCode'', [(0, ''uint16_t'', Some ''PinSlotIndex'')]), (''ClearAllPINCodes'', []),
      (''SetUserStatus'', [(0, ''uint16_t'', Some ''UserId''), (1, ''uint8_t'', Some ''UserStatus'')]),
      (''GetUserStatus'', [(0, ''uint16_t'', Some ''UserId'')]),
      (''GetUserStatusResponse'', [(0, ''uint16_t'', Some ''UserId''), (1, ''uint8_t'', Some ''UserStatus'')]),
      (''SetWeekDaySchedule'', [(0, ''uint8_t'', Some ''WeekDayIndex''), (1, ''uint16_t'', Some ''UserIndex''), (2, ''uint8_t'', Some ''DaysMask''),
         (3, ''uint8_t'', Some ''StartHour''), (4, ''uint8_t'', Some ''StartMinute''), (5, ''uint8_t'', Some ''EndHour''),
         (6, ''uint8_t'', Some ''EndMinute'')]),
      (''GetWeekDaySchedule'', [(0, ''uint8_t'', Some ''WeekDayIndex''), (1, ''uint16_t'', Some ''UserIndex'')]),
      (''GetWeekDayScheduleResponse'', [(0, ''uint8_t'', Some ''WeekDayIndex''), (1, ''uint16_t'', Some ''UserIndex''), (2, ''uint8_t'', Some ''Status''),
         (3, ''uint8_t'', Some ''DaysMask''), (4, ''uint8_t'', Some ''StartHour''), (5, ''uint8_t'', Some ''StartMinute''),
         (6, ''uint8_t'', Some ''EndHour''), (7, ''uint8_t'', Some ''EndMinute'')]),
      (''ClearWeekDaySchedule'', [(0, ''uint8_t'', Some ''WeekDayIndex''), (1, ''uint16_t'', Some ''UserIndex'')]),
      (''SetYearDaySchedule'', [(0, ''uint8_t'', Some ''YearDayIndex''), (1, ''uint16_t'', Some ''UserIndex''), (2, ''uint32_t'', Some ''LocalStartTime''),
         (3, ''uint32_t'', Some ''LocalEndTime'')]),
      (''GetYearDaySchedule'', [(0, ''uint8_t'', Some ''YearDayIndex''), (1, ''uint16_t'', Some ''UserIndex'')]),
      (''GetYearDayScheduleResponse'', [(0, ''uint8_t'', Some ''YearDayIndex''), (1, ''uint16_t'', Some ''UserIndex''), (2, ''uint8_t'', Some ''Status''),
         (3, ''uint32_t'', Some ''LocalStartTime''), (4, ''uint32_t'', Some ''LocalEndTime'')]),
      (''ClearYearDaySchedule'', [(0, ''uint8_t'', Some ''YearDayIndex''), (1, ''uint16_t'', Some ''UserIndex'')])]"

definition ClusterDoorLockServer_templates_2 :: "(string \<times> template_field list) list" where
  "ClusterDoorLockServer_templates_2 =
     [(''SetHolidaySchedule'', [(0, ''uint8_t'', Some ''HolidayIndex''), (1, ''uint32_t'', Some ''LocalStartTime''), (2, ''uint32_t'', Some ''LocalEndTime''),
         (3, ''uint8_t'', Some ''OperatingMode'')]),
      (''GetHolidaySchedule'', [(0, ''uint8_t'', Some ''HolidayIndex'')]),
      (''GetHolidayScheduleResponse'', [(0, ''uint8_t'', Some ''HolidayIndex''), (1, ''uint8_t'', Some ''Status''), (2, ''uint32_t'', Some ''LocalStartTime''),
         (3, ''uint32_t'', Some ''LocalEndTime''), (4, ''uint8_t'', Some ''OperatingMode'')]),
      (''ClearHolidaySchedule'', [(0, ''uint8_t'', Some ''HolidayIndex'')]),
      (''SetUserType'', [(0, ''uint16_t'', Some ''UserId''), (1, ''uint8_t'', Some ''UserType'')]),
      (''GetUserType'', [(0, ''uint16_t'', Some ''UserId'')]),
      (''GetUserTypeResponse'', [(0, ''uint16_t'', Some ''UserId''), (1, ''uint8_t'', Some ''UserType'')]),
      (''SetRFIDCode'', [(0, ''uint16_t'', Some ''UserId''), (1, ''uint8_t'', Some ''UserStatus''), (2, ''uint8_t'', Some ''UserType''),
         (3, ''chip::ByteSpan'', Some ''RfidCode'')]),
      (''GetRFIDCode'', [(0, ''uint16_t'', Some ''UserId'')]),
      (''GetRFIDCodeResponse'', [(0, ''uint16_t'', Some ''UserId''), (1, ''uint8_t'', Some ''UserStatus''), (2, ''uint8_t'', Some ''UserType''),
         (3, ''chip::ByteSpan'', Some ''RfidCode'')]),
      (''ClearRFIDCode'', [(0, ''uint16_t'', Some ''RfidSlotIndex'')]), (''ClearAllRFIDCodes'', []),
      (''SetUser'', [(0, ''uint8_t'', Some ''OperationType''), (1, ''uint16_t'', Some ''UserIndex''), (2, ''chip::CharSpan'', Some ''UserName''),
         (3, ''uint32_t'', Some ''UserUniqueId''), (4, ''uint8_t'', Some ''UserStatus''), (5, ''uint8_t'', Some ''UserType''),
         (6, ''uint8_t'', Some ''CredentialRule'')]),
      (''GetUser'', [(0, ''uint16_t'', Some ''UserIndex'')]),
      (''GetUserResponse'', [(0, ''uint16_t'', Some ''UserIndex''), (1, ''chip::CharSpan'', Some ''UserName''), (2, ''uint32_t'', Some ''UserUniqueId''),
         (3, ''uint8_t'', Some ''UserStatus''), (4, ''uint8_t'', Some ''UserType''), (5, ''uint8_t'', Some ''CredentialRule''),
         (6, ''array'', None), (7, ''chip::FabricIndex'', Some ''CreatorFabricIndex''),
         (8, ''chip::FabricIndex'', Some ''LastModifiedFabricIndex''), (9, ''uint16_t'', Some ''NextUserIndex'')]),
      (''ClearUser'', [(0, ''uint16_t'', Some ''UserIndex'')]),
      (''OperatingEventNotification'', [(0, ''uint8_t'', Some ''OperationEventSource''), (1, ''uint8_t'', Some ''OperationEventCode''), (2, ''uint16_t'', Some ''UserId''),
         (3, ''chip::ByteSpan'', Some ''Pin''), (4, ''uint32_t'', Some ''LocalTime''), (5, ''chip::CharSpan'', Some ''Data'')]),
      (''ProgrammingEventNotification'', [(0, ''uint8_t'', Some ''ProgramEventSource''), (1, ''uint8_t'', Some ''ProgramEventCode''), (2, ''uint16_t'', Some ''UserId''),
         (3, ''chip::ByteSpan'', Some ''Pin''), (4, ''uint8_t'', Some ''UserType''), (5, ''uint8_t'', Some ''UserStatus''),
         (6, ''uint32_t'', Some ''LocalTime''), (7, ''chip::CharSpan'', Some ''Data'')]),
      (''SetCredential'', [(0, ''uint8_t'', Some ''OperationType''), (1, ''struct'', None), (2, ''chip::ByteSpan'', Some ''CredentialData''),
         (3, ''uint16_t'', Some ''UserIndex''), (4, ''uint8_t'', Some ''UserStatus''), (5, ''uint8_t'', Some ''UserType'')]),
      (''SetCredentialResponse'', [(0, ''uint8_t'', Some ''Status''), (1, ''uint16_t'', Some ''UserIndex''), (2, ''uint16_t'', Some ''NextCredentialIndex'')])]"

definition ClusterDoorLockServer_templates_3 :: "(string \<times> template_field list) list" where
  "ClusterDoorLockServer_templates_3 =
     [(''GetCredentialStatus'', [(0, ''struct'', None)]),
      (''GetCredentialStatusResponse'', [(0, ''bool'', Some ''CredentialExists''), (1, ''uint16_t'', Some ''UserIndex''),
         (2, ''chip::FabricIndex'', Some ''CreatorFabricIndex''), (3, ''chip::FabricIndex'', Some ''LastModifiedFabricIndex''),
         (4, ''uint16_t'', Some ''NextCredentialIndex'')]),
      (''ClearCredential'', [(0, ''struct'', None)])]"

definition ClusterDoorLockServer_templates :: "(string \<times> template_field list) list" where
  "ClusterDoorLockServer_templates = ClusterDoorLockServer_templates_1 @ ClusterDoorLockServer_templates_2 @ ClusterDoorLockServer_templates_3"

definition ClusterDoorLockServer_attributes_1 :: "(prop_key \<times> attribute) list" where
  "ClusterDoorLockServer_attributes_1 =
     [(IntKey 0, ro_attribute ''LockState'' ''DlLockState'' True JUndef), (IntKey 1, ro_attribute ''LockType'' ''DlLockType'' False JUndef),
      (IntKey 2, ro_attribute ''ActuatorEnabled'' ''boolean'' False JUndef), (IntKey 3, ro_attribute ''DoorState'' ''DlDoorState'' True JUndef),
      (IntKey 4, ro_attribute ''DoorOpenEvents'' ''int32u'' False JUndef), (IntKey 5, ro_attribute ''DoorClosedEvents'' ''int32u'' False JUndef),
      (IntKey 6, ro_attribute ''OpenPeriod'' ''int16u'' False JUndef),
      (IntKey 16, ro_attribute ''NumberOfLogRecordsSupported'' ''int16u'' False JUndef),
      (IntKey 17, ro_attribute ''NumberOfTotalUsersSupported'' ''int16u'' False JUndef),
      (IntKey 18, ro_attribute ''NumberOfPINUsersSupported'' ''int16u'' False JUndef),
      (IntKey 19, ro_attribute ''NumberOfRFIDUsersSupported'' ''int16u'' False JUndef),
      (IntKey 20, ro_attribute ''NumberOfWeekDaySchedulesSupportedPerUser'' ''int8u'' False JUndef),
      (IntKey 21, ro_attribute ''NumberOfYearDaySchedulesSupportedPerUser'' ''int8u'' False JUndef),
      (IntKey 22, ro_attribute ''NumberOfHolidaySchedulesSupported'' ''int8u'' False JUndef),
      (IntKey 23, ro_attribute ''MaxPINCodeLength'' ''int8u'' False JUndef), (IntKey 24, ro_attribute ''MinPINCodeLength'' ''int8u'' False JUndef),
      (IntKey 25, ro_attribute ''MaxRFIDCodeLength'' ''int8u'' False JUndef), (IntKey 26, ro_attribute ''MinRFIDCodeLength'' ''int8u'' False JUndef),
      (IntKey 27, ro_attribute ''CredentialRulesSupport'' ''DlCredentialRuleMask'' False JUndef),
      (IntKey 28, ro_attribute ''NumberOfCredentialsSupportedPerUser'' ''int8u'' False JUndef),
      (IntKey 32, ro_attribute ''EnableLogging'' ''boolean'' False JUndef)]"

definition ClusterDoorLockServer_attributes_2 :: "(prop_key \<times> attribute) list" where
  "ClusterDoorLockServer_attributes_2 =
     [(IntKey 33, ro_attribute ''Language'' ''char_string'' False JUndef), (IntKey 34, ro_attribute ''LEDSettings'' ''int8u'' False JUndef),
      (IntKey 35, ro_attribute ''AutoRelockTime'' ''int32u'' False JUndef), (IntKey 36, ro_attribute ''SoundVolume'' ''int8u'' False JUndef),
      (IntKey 37, ro_attribute ''OperatingMode'' ''DlOperatingMode'' False JUndef),
      (IntKey 38, ro_attribute ''SupportedOperatingModes'' ''DlSupportedOperatingModes'' False JUndef),
      (IntKey 39, ro_attribute ''DefaultConfigurationRegister'' ''DlDefaultConfigurationRegister'' False JUndef),
      (IntKey 40, ro_attribute ''EnableLocalProgramming'' ''boolean'' False JUndef),
      (IntKey 41, ro_attribute ''EnableOneTouchLocking'' ''boolean'' False JUndef),
      (IntKey 42, ro_attribute ''EnableInsideStatusLED'' ''boolean'' False JUndef),
      (IntKey 43, ro_attribute ''EnablePrivacyModeButton'' ''boolean'' False JUndef),
      (IntKey 44, ro_attribute ''LocalProgrammingFeatures'' ''DlLocalProgrammingFeatures'' False JUndef),
      (IntKey 48, ro_attribute ''WrongCodeEntryLimit'' ''int8u'' False JUndef),
      (IntKey 49, ro_attribute ''UserCodeTemporaryDisableTime'' ''int8u'' False JUndef),
      (IntKey 50, ro_attribute ''SendPINOverTheAir'' ''boolean'' False JUndef),
      (IntKey 51, ro_attribute ''RequirePINforRemoteOperation'' ''boolean'' False JUndef),
      (IntKey 53, ro_attribute ''ExpiringUserTimeout'' ''int16u'' False JUndef), (IntKey 64, ro_attribute ''AlarmMask'' ''DlAlarmMask'' False JUndef),
      (IntKey 65, ro_attribute ''KeypadOperationEventMask'' ''DlKeypadOperationEventMask'' False JUndef),
      (IntKey 66, ro_attribute ''RemoteOperationEventMask'' ''DlRemoteOperationEventMask'' False JUndef),
      (IntKey 67, ro_attribute ''ManualOperationEventMask'' ''DlManualOperationEventMask'' False JUndef)]"

definition ClusterDoorLockServer_attributes_3 :: "(prop_key \<times> attribute) list" where
  "ClusterDoorLockServer_attributes_3 =
     [(IntKey 68, ro_attribute ''RFIDOperationEventMask'' ''DlRFIDOperationEventMask'' False JUndef),
      (IntKey 69, ro_attribute ''KeypadProgrammingEventMask'' ''DlKeypadOperationEventMask'' False JUndef),
      (IntKey 70, ro_attribute ''RemoteProgrammingEventMask'' ''DlRemoteProgrammingEventMask'' False JUndef),
      (IntKey 71, ro_attribute ''RFIDProgrammingEventMask'' ''DlRFIDProgrammingEventMask'' False JUndef),
      (IntKey 65528, ro_attribute ''GeneratedCommandList'' ''array'' False JUndef),
      (IntKey 65529, ro_attribute ''AcceptedCommandList'' ''array'' False JUndef),
      (IntKey 65531, ro_attribute ''AttributeList'' ''array'' False JUndef), (IntKey 65532, ro_attribute ''FeatureMap'' ''bitmap32'' False JUndef),
      (IntKey 65533, ro_attribute ''ClusterRevision'' ''int16u'' False JUndef)]"

definition ClusterDoorLockServer_attributes :: "(prop_key \<times> attribute) list" where
  "ClusterDoorLockServer_attributes = ClusterDoorLockServer_attributes_1 @ ClusterDoorLockServer_attributes_2 @ ClusterDoorLockServer_attributes_3"

definition ClusterDoorLockServer_cases :: "(string \<times> string) list" where
  "ClusterDoorLockServer_cases =
     [(''LockDoor'', ''onLockDoor''), (''UnlockDoor'', ''onUnlockDoor''), (''UnlockWithTimeout'', ''onUnlockWithTimeout''),
      (''GetLogRecord'', ''onGetLogRecord''), (''GetLogRecordResponse'', ''onGetLogRecordResponse''), (''SetPINCode'', ''onSetPINCode''),
      (''GetPINCode'', ''onGetPINCode''), (''GetPINCodeResponse'', ''onGetPINCodeResponse''), (''ClearPINCode'', ''onClearPINCode''),
      (''ClearAllPINCodes'', ''onClearAllPINCodes''), (''SetUserStatus'', ''onSetUserStatus''), (''GetUserStatus'', ''onGetUserStatus''),
      (''GetUserStatusResponse'', ''onGetUserStatusResponse''), (''SetWeekDaySchedule'', ''onSetWeekDaySchedule''),
      (''GetWeekDaySchedule'', ''onGetWeekDaySchedule''), (''GetWeekDayScheduleResponse'', ''onGetWeekDayScheduleResponse''),
      (''ClearWeekDaySchedule'', ''onClearWeekDaySchedule''), (''SetYearDaySchedule'', ''onSetYearDaySchedule''),
      (''GetYearDaySchedule'', ''onGetYearDaySchedule''), (''GetYearDayScheduleResponse'', ''onGetYearDayScheduleResponse''),
      (''ClearYearDaySchedule'', ''onClearYearDaySchedule''), (''SetHolidaySchedule'', ''onSetHolidaySchedule''),
      (''GetHolidaySchedule'', ''onGetHolidaySchedule''), (''GetHolidayScheduleResponse'', ''onGetHolidayScheduleResponse''),
      (''ClearHolidaySchedule'', ''onClearHolidaySchedule''), (''SetUserType'', ''onSetUserType''), (''GetUserType'', ''onGetUserType''),
      (''GetUserTypeResponse'', ''onGetUserTypeResponse''), (''SetRFIDCode'', ''onSetRFIDCode''), (''GetRFIDCode'', ''onGetRFIDCode''),
      (''GetRFIDCodeResponse'', ''onGetRFIDCodeResponse''), (''ClearRFIDCode'', ''onClearRFIDCode''),
      (''ClearAllRFIDCodes'', ''onClearAllRFIDCodes''), (''SetUser'', ''onSetUser''), (''GetUser'', ''onGetUser''),
      (''GetUserResponse'', ''onGetUserResponse''), (''ClearUser'', ''onClearUser''),
      (''OperatingEventNotification'', ''onOperatingEventNotification''), (''ProgrammingEventNotification'', ''onProgrammingEventNotification''),
      (''SetCredential'', ''onSetCredential''), (''SetCredentialResponse'', ''onSetCredentialResponse''),
      (''GetCredentialStatus'', ''onGetCredentialStatus''), (''GetCredentialStatusResponse'', ''onGetCredentialStatusResponse''),
      (''ClearCredential'', ''onClearCredential'')]"

definition ClusterDoorLockServer_handlers_1 :: "(string \<times> string) list" where
  "ClusterDoorLockServer_handlers_1 =
     [(''onLockDoor'', ''.onLockDoor''), (''onUnlockDoor'', ''.onUnlockDoor''), (''onUnlockWithTimeout'', ''.onUnlockWithTimeout''),
      (''onGetLogRecord'', ''.onGetLogRecord''), (''onGetLogRecordResponse'', ''.onGetLogRecordResponse''), (''onSetPINCode'', ''.onSetPINCode''),
      (''onGetPINCode'', ''.onGetPINCode''), (''onGetPINCodeResponse'', ''.onGetPINCodeResponse''), (''onClearPINCode'', ''.onClearPINCode''),
      (''onClearAllPINCodes'', ''.onClearAllPINCodes''), (''onSetUserStatus'', ''.onSetUserStatus''), (''onGetUserStatus'', ''.onGetUserStatus''),
      (''onGetUserStatusResponse'', ''.onGetUserStatusResponse''), (''onSetWeekDaySchedule'', ''.onSetWeekDaySchedule''),
      (''onGetWeekDaySchedule'', ''.onGetWeekDaySchedule''), (''onGetWeekDayScheduleResponse'', ''.onGetWeekDayScheduleResponse''),
      (''onClearWeekDaySchedule'', ''.onClearWeekDaySchedule''), (''onSetYearDaySchedule'', ''.onSetYearDaySchedule''),
      (''onGetYearDaySchedule'', ''.onGetYearDaySchedule''), (''onGetYearDayScheduleResponse'', ''.onGetYearDayScheduleResponse''),
      (''onClearYearDaySchedule'', ''.onClearYearDaySchedule''), (''onSetHolidaySchedule'', ''.onSetHolidaySchedule''),
      (''onGetHolidaySchedule'', ''.onGetHolidaySchedule''), (''onGetHolidayScheduleResponse'', ''.onGetHolidayScheduleResponse'')]"

definition ClusterDoorLockServer_handlers_2 :: "(string \<times> string) list" where
  "ClusterDoorLockServer_handlers_2 =
     [(''onClearHolidaySchedule'', ''.onClearHolidaySchedule''), (''onSetUserType'', ''.onSetUserType''), (''onGetUserType'', ''.onGetUserType''),
      (''onGetUserTypeResponse'', ''.onGetUserTypeResponse''), (''onSetRFIDCode'', ''.onSetRFIDCode''), (''onGetRFIDCode'', ''.onGetRFIDCode''),
      (''onGetRFIDCodeResponse'', ''.onGetRFIDCodeResponse''), (''onClearRFIDCode'', ''.onClearRFIDCode''),
      (''onClearAllRFIDCodes'', ''.onClearAllRFIDCodes''), (''onSetUser'', ''.onSetUser''), (''onGetUser'', ''.onGetUser''),
      (''onGetUserResponse'', ''.onGetUserResponse''), (''onClearUser'', ''.onClearUser''),
      (''onOperatingEventNotification'', ''.onOperatingEventNotification''),
      (''onProgrammingEventNotification'', ''.onProgrammingEventNotification''), (''onSetCredential'', ''.onSetCredential''),
      (''onSetCredentialResponse'', ''.onSetCredentialResponse''), (''onGetCredentialStatus'', ''.onGetCredentialStatus''),
      (''onGetCredentialStatusResponse'', ''.onGetCredentialStatusResponse''), (''onClearCredential'', ''.onClearCredential'')]"

definition ClusterDoorLockServer_handlers :: "(string \<times> string) list" where
  "ClusterDoorLockServer_handlers = ClusterDoorLockServer_handlers_1 @ ClusterDoorLockServer_handlers_2"

definition ClusterDoorLockServer :: generated_class where
  "ClusterDoorLockServer =
     \<lparr>cc_class = ''ClusterDoorLockServer'', cc_CLUSTER_NAME = ''DOOR_LOCK_CLUSTER'', cc_CLUSTER_ID = 0x0101,
      cc_Command = ClusterDoorLockServer_Command, cc_Attribute = ClusterDoorLockServer_Attribute,
      cc_templates = ClusterDoorLockServer_templates, cc_attributes = ClusterDoorLockServer_attributes,
      cc_cases = ClusterDoorLockServer_cases, cc_handlers = ClusterDoorLockServer_handlers\<rparr>"

lemmas ClusterDoorLockServer_defs = ClusterDoorLockServer_Command_def ClusterDoorLockServer_Attribute_def ClusterDoorLockServer_cases_def
  ClusterDoorLockServer_templates_1_def ClusterDoorLockServer_templates_2_def ClusterDoorLockServer_templates_3_def
  ClusterDoorLockServer_templates_def ClusterDoorLockServer_attributes_1_def ClusterDoorLockServer_attributes_2_def
  ClusterDoorLockServer_attributes_3_def ClusterDoorLockServer_attributes_def ClusterDoorLockServer_handlers_1_def
  ClusterDoorLockServer_handlers_2_def ClusterDoorLockServer_handlers_def ClusterDoorLockServer_def

lemma ClusterDoorLockServer_ok: "class_ok ClusterDoorLockServer"
  by (simp add: class_ok_def field_ok_def ClusterDoorLockServer_defs ro_attribute_def)

lemma ClusterDoorLockServer_ids: "cc_class ClusterDoorLockServer = ''ClusterDoorLockServer''" "cc_CLUSTER_ID ClusterDoorLockServer = 0x0101" "distinct (map snd (cc_Command ClusterDoorLockServer)) \<longleftrightarrow> False"
  by (simp_all add: ClusterDoorLockServer_def ClusterDoorLockServer_Command_def)

end
