(* ===== verification/Generated_Clusters_2.thy ===== *)
theory Generated_Clusters_2
  imports Cluster_Class
begin

text \<open>
  \<open>zzz_generated/Clusters.js\<close>, lines 4454 to 7919. Every descriptor has \<open>"nosubscribe": true, "readonly": true\<close>
  and no \<open>"value"\<close>.
\<close>

section \<open>\<open>ClusterElectricalMeasurementServer\<close>\<close>

definition ClusterElectricalMeasurementServer_Command :: "(string \<times> int) list" where
  "ClusterElectricalMeasurementServer_Command =
     [(''GetProfileInfoResponseCommand'', 0), (''GetProfileInfoCommand'', 0), (''GetMeasurementProfileResponseCommand'', 1),
      (''GetMeasurementProfileCommand'', 1)]"

definition ClusterElectricalMeasurementServer_Attribute :: "(string \<times> int) list" where
  "ClusterElectricalMeasurementServer_Attribute =
     [(''MeasurementType'', 0), (''DcVoltage'', 256), (''DcVoltageMin'', 257), (''DcVoltageMax'', 258), (''DcCurrent'', 259), (''DcCurrentMin'', 260),
      (''DcCurrentMax'', 261), (''DcPower'', 262), (''DcPowerMin'', 263), (''DcPowerMax'', 264), (''DcVoltageMultiplier'', 512),
      (''DcVoltageDivisor'', 513), (''DcCurrentMultiplier'', 514), (''DcCurrentDivisor'', 515), (''DcPowerMultiplier'', 516),
      (''DcPowerDivisor'', 517), (''AcFrequency'', 768), (''AcFrequencyMin'', 769), (''AcFrequencyMax'', 770), (''NeutralCurrent'', 771),
      (''TotalActivePower'', 772), (''TotalReactivePower'', 773), (''TotalApparentPower'', 774), (''Measured1stHarmonicCurrent'', 775),
      (''Measured3rdHarmonicCurrent'', 776), (''Measured5thHarmonicCurrent'', 777), (''Measured7thHarmonicCurrent'', 778),
      (''Measured9thHarmonicCurrent'', 779), (''Measured11thHarmonicCurrent'', 780), (''MeasuredPhase1stHarmonicCurrent'', 781),
      (''MeasuredPhase3rdHarmonicCurrent'', 782), (''MeasuredPhase5thHarmonicCurrent'', 783), (''MeasuredPhase7thHarmonicCurrent'', 784),
      (''MeasuredPhase9thHarmonicCurrent'', 785), (''MeasuredPhase11thHarmonicCurrent'', 786), (''AcFrequencyMultiplier'', 1024),
      (''AcFrequencyDivisor'', 1025), (''PowerMultiplier'', 1026), (''PowerDivisor'', 1027), (''HarmonicCurrentMultiplier'', 1028),
      (''PhaseHarmonicCurrentMultiplier'', 1029), (''InstantaneousVoltage'', 1280), (''InstantaneousLineCurrent'', 1281),
      (''InstantaneousActiveCurrent'', 1282), (''InstantaneousReactiveCurrent'', 1283), (''InstantaneousPower'', 1284), (''RmsVoltage'', 1285),
      (''RmsVoltageMin'', 1286), (''RmsVoltageMax'', 1287), (''RmsCurrent'', 1288), (''RmsCurrentMin'', 1289), (''RmsCurrentMax'', 1290),
      (''ActivePower'', 1291), (''ActivePowerMin'', 1292), (''ActivePowerMax'', 1293), (''ReactivePower'', 1294), (''ApparentPower'', 1295),
      (''PowerFactor'', 1296), (''AverageRmsVoltageMeasurementPeriod'', 1297), (''AverageRmsUnderVoltageCounter'', 1299),
      (''RmsExtremeOverVoltagePeriod'', 1300), (''RmsExtremeUnderVoltagePeriod'', 1301), (''RmsVoltageSagPeriod'', 1302),
      (''RmsVoltageSwellPeriod'', 1303), (''AcVoltageMultiplier'', 1536), (''AcVoltageDivisor'', 1537), (''AcCurrentMultiplier'', 1538),
      (''AcCurrentDivisor'', 1539), (''AcPowerMultiplier'', 1540), (''AcPowerDivisor'', 1541), (''OverloadAlarmsMask'', 1792),
      (''VoltageOverload'', 1793), (''CurrentOverload'', 1794), (''AcOverloadAlarmsMask'', 2048), (''AcVoltageOverload'', 2049),
      (''AcCurrentOverload'', 2050), (''AcActivePowerOverload'', 2051), (''AcReactivePowerOverload'', 2052), (''AverageRmsOverVoltage'', 2053),
      (''AverageRmsUnderVoltage'', 2054), (''RmsExtremeOverVoltage'', 2055), (''RmsExtremeUnderVoltage'', 2056), (''RmsVoltageSag'', 2057),
      (''RmsVoltageSwell'', 2058), (''LineCurrentPhaseB'', 2305), (''ActiveCurrentPhaseB'', 2306), (''ReactiveCurrentPhaseB'', 2307),
      (''RmsVoltagePhaseB'', 2309), (''RmsVoltageMinPhaseB'', 2310), (''RmsVoltageMaxPhaseB'', 2311), (''RmsCurrentPhaseB'', 2312),
      (''RmsCurrentMinPhaseB'', 2313), (''RmsCurrentMaxPhaseB'', 2314), (''ActivePowerPhaseB'', 2315), (''ActivePowerMinPhaseB'', 2316),
      (''ActivePowerMaxPhaseB'', 2317), (''ReactivePowerPhaseB'', 2318), (''ApparentPowerPhaseB'', 2319), (''PowerFactorPhaseB'', 2320),
      (''AverageRmsVoltageMeasurementPeriodPhaseB'', 2321), (''AverageRmsOverVoltageCounterPhaseB'', 2322),
      (''AverageRmsUnderVoltageCounterPhaseB'', 2323), (''RmsExtremeOverVoltagePeriodPhaseB'', 2324), (''RmsExtremeUnderVoltagePeriodPhaseB'', 2325),
      (''RmsVoltageSagPeriodPhaseB'', 2326), (''RmsVoltageSwellPeriodPhaseB'', 2327), (''LineCurrentPhaseC'', 2561), (''ActiveCurrentPhaseC'', 2562),
      (''ReactiveCurrentPhaseC'', 2563), (''RmsVoltagePhaseC'', 2565), (''RmsVoltageMinPhaseC'', 2566), (''RmsVoltageMaxPhaseC'', 2567),
      (''RmsCurrentPhaseC'', 2568), (''RmsCurrentMinPhaseC'', 2569), (''RmsCurrentMaxPhaseC'', 2570), (''ActivePowerPhaseC'', 2571),
      (''ActivePowerMinPhaseC'', 2572), (''ActivePowerMaxPhaseC'', 2573), (''ReactivePowerPhaseC'', 2574), (''ApparentPowerPhaseC'', 2575),
      (''PowerFactorPhaseC'', 2576), (''AverageRmsVoltageMeasurementPeriodPhaseC'', 2577), (''AverageRmsOverVoltageCounterPhaseC'', 2578),
      (''AverageRmsUnderVoltageCounterPhaseC'', 2579), (''RmsExtremeOverVoltagePeriodPhaseC'', 2580), (''RmsExtremeUnderVoltagePeriodPhaseC'', 2581),
      (''RmsVoltageSagPeriodPhaseC'', 2582), (''RmsVoltageSwellPeriodPhaseC'', 2583), (''GeneratedCommandList'', 65528),
      (''AcceptedCommandList'', 65529), (''AttributeList'', 65531), (''FeatureMap'', 65532), (''ClusterRevision'', 65533)]"

definition ClusterElectricalMeasurementServer_templates :: "(string \<times> template_field list) list" where
  "ClusterElectricalMeasurementServer_templates =
     [(''GetProfileInfoResponseCommand'', [(0, ''uint8_t'', Some ''ProfileCount''), (1, ''uint8_t'', Some ''ProfileIntervalPeriod''),
         (2, ''uint8_t'', Some ''MaxNumberOfIntervals''), (3, ''array'', None)]),
      (''GetProfileInfoCommand'', []),
      (''GetMeasurementProfileResponseCommand'', [(0, ''uint32_t'', Some ''StartTime''), (1, ''uint8_t'', Some ''Status''), (2, ''uint8_t'', Some ''ProfileIntervalPeriod''),
         (3, ''uint8_t'', Some ''NumberOfIntervalsDelivered''), (4, ''uint16_t'', Some ''AttributeId''), (5, ''array'', None)]),
      (''GetMeasurementProfileCommand'', [(0, ''uint16_t'', Some ''AttributeId''), (1, ''uint32_t'', Some ''StartTime''), (2, ''uint8_t'', Some ''NumberOfIntervals'')])]"

definition ClusterElectricalMeasurementServer_attributes_1 :: "(prop_key \<times> attribute) list" where
  "ClusterElectricalMeasurementServer_attributes_1 =
     [(IntKey 0, ro_attribute ''MeasurementType'' ''bitmap32'' False JUndef), (IntKey 256, ro_attribute ''DcVoltage'' ''int16s'' False JUndef),
      (IntKey 257, ro_attribute ''DcVoltageMin'' ''int16s'' False JUndef), (IntKey 258, ro_attribute ''DcVoltageMax'' ''int16s'' False JUndef),
      (IntKey 259, ro_attribute ''DcCurrent'' ''int16s'' False JUndef), (IntKey 260, ro_attribute ''DcCurrentMin'' ''int16s'' False JUndef),
      (IntKey 261, ro_attribute ''DcCurrentMax'' ''int16s'' False JUndef), (IntKey 262, ro_attribute ''DcPower'' ''int16s'' False JUndef),
      (IntKey 263, ro_attribute ''DcPowerMin'' ''int16s'' False JUndef), (IntKey 264, ro_attribute ''DcPowerMax'' ''int16s'' False JUndef),
      (IntKey 512, ro_attribute ''DcVoltageMultiplier'' ''int16u'' False JUndef),
      (IntKey 513, ro_attribute ''DcVoltageDivisor'' ''int16u'' False JUndef),
      (IntKey 514, ro_attribute ''DcCurrentMultiplier'' ''int16u'' False JUndef),
      (IntKey 515, ro_attribute ''DcCurrentDivisor'' ''int16u'' False JUndef),
      (IntKey 516, ro_attribute ''DcPowerMultiplier'' ''int16u'' False JUndef), (IntKey 517, ro_attribute ''DcPowerDivisor'' ''int16u'' False JUndef),
      (IntKey 768, ro_attribute ''AcFrequency'' ''int16u'' False JUndef), (IntKey 769, ro_attribute ''AcFrequencyMin'' ''int16u'' False JUndef),
      (IntKey 770, ro_attribute ''AcFrequencyMax'' ''int16u'' False JUndef), (IntKey 771, ro_attribute ''NeutralCurrent'' ''int16u'' False JUndef),
      (IntKey 772, ro_attribute ''TotalActivePower'' ''int32s'' False JUndef)]"

definition ClusterElectricalMeasurementServer_attributes_2 :: "(prop_key \<times> attribute) list" where
  "ClusterElectricalMeasurementServer_attributes_2 =
     [(IntKey 773, ro_attribute ''TotalReactivePower'' ''int32s'' False JUndef),
      (IntKey 774, ro_attribute ''TotalApparentPower'' ''int32u'' False JUndef),
      (IntKey 775, ro_attribute ''Measured1stHarmonicCurrent'' ''int16s'' False JUndef),
      (IntKey 776, ro_attribute ''Measured3rdHarmonicCurrent'' ''int16s'' False JUndef),
      (IntKey 777, ro_attribute ''Measured5thHarmonicCurrent'' ''int16s'' False JUndef),
      (IntKey 778, ro_attribute ''Measured7thHarmonicCurrent'' ''int16s'' False JUndef),
      (IntKey 779, ro_attribute ''Measured9thHarmonicCurrent'' ''int16s'' False JUndef),
      (IntKey 780, ro_attribute ''Measured11thHarmonicCurrent'' ''int16s'' False JUndef),
      (IntKey 781, ro_attribute ''MeasuredPhase1stHarmonicCurrent'' ''int16s'' False JUndef),
      (IntKey 782, ro_attribute ''MeasuredPhase3rdHarmonicCurrent'' ''int16s'' False JUndef),
      (IntKey 783, ro_attribute ''MeasuredPhase5thHarmonicCurrent'' ''int16s'' False JUndef),
      (IntKey 784, ro_attribute ''MeasuredPhase7thHarmonicCurrent'' ''int16s'' False JUndef),
      (IntKey 785, ro_attribute ''MeasuredPhase9thHarmonicCurrent'' ''int16s'' False JUndef),
      (IntKey 786, ro_attribute ''MeasuredPhase11thHarmonicCurrent'' ''int16s'' False JUndef),
      (IntKey 1024, ro_attribute ''AcFrequencyMultiplier'' ''int16u'' False JUndef),
      (IntKey 1025, ro_attribute ''AcFrequencyDivisor'' ''int16u'' False JUndef),
      (IntKey 1026, ro_attribute ''PowerMultiplier'' ''int32u'' False JUndef), (IntKey 1027, ro_attribute ''PowerDivisor'' ''int32u'' False JUndef),
      (IntKey 1028, ro_attribute ''HarmonicCurrentMultiplier'' ''int8s'' False JUndef),
      (IntKey 1029, ro_attribute ''PhaseHarmonicCurrentMultiplier'' ''int8s'' False JUndef),
      (IntKey 1280, ro_attribute ''InstantaneousVoltage'' ''int16s'' False JUndef)]"

definition ClusterElectricalMeasurementServer_attributes_3 :: "(prop_key \<times> attribute) list" where
  "ClusterElectricalMeasurementServer_attributes_3 =
     [(IntKey 1281, ro_attribute ''InstantaneousLineCurrent'' ''int16u'' False JUndef),
      (IntKey 1282, ro_attribute ''InstantaneousActiveCurrent'' ''int16s'' False JUndef),
      (IntKey 1283, ro_attribute ''InstantaneousReactiveCurrent'' ''int16s'' False JUndef),
      (IntKey 1284, ro_attribute ''InstantaneousPower'' ''int16s'' False JUndef), (IntKey 1285, ro_attribute ''RmsVoltage'' ''int16u'' False JUndef),
      (IntKey 1286, ro_attribute ''RmsVoltageMin'' ''int16u'' False JUndef), (IntKey 1287, ro_attribute ''RmsVoltageMax'' ''int16u'' False JUndef),
      (IntKey 1288, ro_attribute ''RmsCurrent'' ''int16u'' False JUndef), (IntKey 1289, ro_attribute ''RmsCurrentMin'' ''int16u'' False JUndef),
      (IntKey 1290, ro_attribute ''RmsCurrentMax'' ''int16u'' False JUndef), (IntKey 1291, ro_attribute ''ActivePower'' ''int16s'' False JUndef),
      (IntKey 1292, ro_attribute ''ActivePowerMin'' ''int16s'' False JUndef), (IntKey 1293, ro_attribute ''ActivePowerMax'' ''int16s'' False JUndef),
      (IntKey 1294, ro_attribute ''ReactivePower'' ''int16s'' False JUndef), (IntKey 1295, ro_attribute ''ApparentPower'' ''int16u'' False JUndef),
      (IntKey 1296, ro_attribute ''PowerFactor'' ''int8s'' False JUndef),
      (IntKey 1297, ro_attribute ''AverageRmsVoltageMeasurementPeriod'' ''int16u'' False JUndef),
      (IntKey 1299, ro_attribute ''AverageRmsUnderVoltageCounter'' ''int16u'' False JUndef),
      (IntKey 1300, ro_attribute ''RmsExtremeOverVoltagePeriod'' ''int16u'' False JUndef),
      (IntKey 1301, ro_attribute ''RmsExtremeUnderVoltagePeriod'' ''int16u'' False JUndef),
      (IntKey 1302, ro_attribute ''RmsVoltageSagPeriod'' ''int16u'' False JUndef)]"

definition ClusterElectricalMeasurementServer_attributes_4 :: "(prop_key \<times> attribute) list" where
  "ClusterElectricalMeasurementServer_attributes_4 =
     [(IntKey 1303, ro_attribute ''RmsVoltageSwellPeriod'' ''int16u'' False JUndef),
      (IntKey 1536, ro_attribute ''AcVoltageMultiplier'' ''int16u'' False JUndef),
      (IntKey 1537, ro_attribute ''AcVoltageDivisor'' ''int16u'' False JUndef),
      (IntKey 1538, ro_attribute ''AcCurrentMultiplier'' ''int16u'' False JUndef),
      (IntKey 1539, ro_attribute ''AcCurrentDivisor'' ''int16u'' False JUndef),
      (IntKey 1540, ro_attribute ''AcPowerMultiplier'' ''int16u'' False JUndef),
      (IntKey 1541, ro_attribute ''AcPowerDivisor'' ''int16u'' False JUndef),
      (IntKey 1792, ro_attribute ''OverloadAlarmsMask'' ''bitmap8'' False JUndef),
      (IntKey 1793, ro_attribute ''VoltageOverload'' ''int16s'' False JUndef),
      (IntKey 1794, ro_attribute ''CurrentOverload'' ''int16s'' False JUndef),
      (IntKey 2048, ro_attribute ''AcOverloadAlarmsMask'' ''bitmap16'' False JUndef),
      (IntKey 2049, ro_attribute ''AcVoltageOverload'' ''int16s'' False JUndef),
      (IntKey 2050, ro_attribute ''AcCurrentOverload'' ''int16s'' False JUndef),
      (IntKey 2051, ro_attribute ''AcActivePowerOverload'' ''int16s'' False JUndef),
      (IntKey 2052, ro_attribute ''AcReactivePowerOverload'' ''int16s'' False JUndef),
      (IntKey 2053, ro_attribute ''AverageRmsOverVoltage'' ''int16s'' False JUndef),
      (IntKey 2054, ro_attribute ''AverageRmsUnderVoltage'' ''int16s'' False JUndef),
      (IntKey 2055, ro_attribute ''RmsExtremeOverVoltage'' ''int16s'' False JUndef),
      (IntKey 2056, ro_attribute ''RmsExtremeUnderVoltage'' ''int16s'' False JUndef),
      (IntKey 2057, ro_attribute ''RmsVoltageSag'' ''int16s'' False JUndef), (IntKey 2058, ro_attribute ''RmsVoltageSwell'' ''int16s'' False JUndef)]"

definition ClusterElectricalMeasurementServer_attributes_5 :: "(prop_key \<times> attribute) list" where
  "ClusterElectricalMeasurementServer_attributes_5 =
     [(IntKey 2305, ro_attribute ''LineCurrentPhaseB'' ''int16u'' False JUndef),
      (IntKey 2306, ro_attribute ''ActiveCurrentPhaseB'' ''int16s'' False JUndef),
      (IntKey 2307, ro_attribute ''ReactiveCurrentPhaseB'' ''int16s'' False JUndef),
      (IntKey 2309, ro_attribute ''RmsVoltagePhaseB'' ''int16u'' False JUndef),
      (IntKey 2310, ro_attribute ''RmsVoltageMinPhaseB'' ''int16u'' False JUndef),
      (IntKey 2311, ro_attribute ''RmsVoltageMaxPhaseB'' ''int16u'' False JUndef),
      (IntKey 2312, ro_attribute ''RmsCurrentPhaseB'' ''int16u'' False JUndef),
      (IntKey 2313, ro_attribute ''RmsCurrentMinPhaseB'' ''int16u'' False JUndef),
      (IntKey 2314, ro_attribute ''RmsCurrentMaxPhaseB'' ''int16u'' False JUndef),
      (IntKey 2315, ro_attribute ''ActivePowerPhaseB'' ''int16s'' False JUndef),
      (IntKey 2316, ro_attribute ''ActivePowerMinPhaseB'' ''int16s'' False JUndef),
      (IntKey 2317, ro_attribute ''ActivePowerMaxPhaseB'' ''int16s'' False JUndef),
      (IntKey 2318, ro_attribute ''ReactivePowerPhaseB'' ''int16s'' False JUndef),
      (IntKey 2319, ro_attribute ''ApparentPowerPhaseB'' ''int16u'' False JUndef),
      (IntKey 2320, ro_attribute ''PowerFactorPhaseB'' ''int8s'' False JUndef),
      (IntKey 2321, ro_attribute ''AverageRmsVoltageMeasurementPeriodPhaseB'' ''int16u'' False JUndef),
      (IntKey 2322, ro_attribute ''AverageRmsOverVoltageCounterPhaseB'' ''int16u'' False JUndef),
      (IntKey 2323, ro_attribute ''AverageRmsUnderVoltageCounterPhaseB'' ''int16u'' False JUndef),
      (IntKey 2324, ro_attribute ''RmsExtremeOverVoltagePeriodPhaseB'' ''int16u'' False JUndef),
      (IntKey 2325, ro_attribute ''RmsExtremeUnderVoltagePeriodPhaseB'' ''int16u'' False JUndef),
      (IntKey 2326, ro_attribute ''RmsVoltageSagPeriodPhaseB'' ''int16u'' False JUndef)]"

definition ClusterElectricalMeasurementServer_attributes_6 :: "(prop_key \<times> attribute) list" where
  "ClusterElectricalMeasurementServer_attributes_6 =
     [(IntKey 2327, ro_attribute ''RmsVoltageSwellPeriodPhaseB'' ''int16u'' False JUndef),
      (IntKey 2561, ro_attribute ''LineCurrentPhaseC'' ''int16u'' False JUndef),
      (IntKey 2562, ro_attribute ''ActiveCurrentPhaseC'' ''int16s'' False JUndef),
      (IntKey 2563, ro_attribute ''ReactiveCurrentPhaseC'' ''int16s'' False JUndef),
      (IntKey 2565, ro_attribute ''RmsVoltagePhaseC'' ''int16u'' False JUndef),
      (IntKey 2566, ro_attribute ''RmsVoltageMinPhaseC'' ''int16u'' False JUndef),
      (IntKey 2567, ro_attribute ''RmsVoltageMaxPhaseC'' ''int16u'' False JUndef),
      (IntKey 2568, ro_attribute ''RmsCurrentPhaseC'' ''int16u'' False JUndef),
      (IntKey 2569, ro_attribute ''RmsCurrentMinPhaseC'' ''int16u'' False JUndef),
      (IntKey 2570, ro_attribute ''RmsCurrentMaxPhaseC'' ''int16u'' False JUndef),
      (IntKey 2571, ro_attribute ''ActivePowerPhaseC'' ''int16s'' False JUndef),
      (IntKey 2572, ro_attribute ''ActivePowerMinPhaseC'' ''int16s'' False JUndef),
      (IntKey 2573, ro_attribute ''ActivePowerMaxPhaseC'' ''int16s'' False JUndef),
      (IntKey 2574, ro_attribute ''ReactivePowerPhaseC'' ''int16s'' False JUndef),
      (IntKey 2575, ro_attribute ''ApparentPowerPhaseC'' ''int16u'' False JUndef),
      (IntKey 2576, ro_attribute ''PowerFactorPhaseC'' ''int8s'' False JUndef),
      (IntKey 2577, ro_attribute ''AverageRmsVoltageMeasurementPeriodPhaseC'' ''int16u'' False JUndef),
      (IntKey 2578, ro_attribute ''AverageRmsOverVoltageCounterPhaseC'' ''int16u'' False JUndef),
      (IntKey 2579, ro_attribute ''AverageRmsUnderVoltageCounterPhaseC'' ''int16u'' False JUndef),
      (IntKey 2580, ro_attribute ''RmsExtremeOverVoltagePeriodPhaseC'' ''int16u'' False JUndef),
      (IntKey 2581, ro_attribute ''RmsExtremeUnderVoltagePeriodPhaseC'' ''int16u'' False JUndef)]"

definition ClusterElectricalMeasurementServer_attributes_7 :: "(prop_key \<times> attribute) list" where
  "ClusterElectricalMeasurementServer_attributes_7 =
     [(IntKey 2582, ro_attribute ''RmsVoltageSagPeriodPhaseC'' ''int16u'' False JUndef),
      (IntKey 2583, ro_attribute ''RmsVoltageSwellPeriodPhaseC'' ''int16u'' False JUndef),
      (IntKey 65528, ro_attribute ''GeneratedCommandList'' ''array'' False JUndef),
      (IntKey 65529, ro_attribute ''AcceptedCommandList'' ''array'' False JUndef),
      (IntKey 65531, ro_attribute ''AttributeList'' ''array'' False JUndef), (IntKey 65532, ro_attribute ''FeatureMap'' ''bitmap32'' False JUndef),
      (IntKey 65533, ro_attribute ''ClusterRevision'' ''int16u'' False JUndef)]"

definition ClusterElectricalMeasurementServer_attributes :: "(prop_key \<times> attribute) list" where
  "ClusterElectricalMeasurementServer_attributes = ClusterElectricalMeasurementServer_attributes_1 @ ClusterElectricalMeasurementServer_attributes_2 @ ClusterElectricalMeasurementServer_attributes_3 @ ClusterElectricalMeasurementServer_attributes_4 @ ClusterElectricalMeasurementServer_attributes_5 @ ClusterElectricalMeasurementServer_attributes_6 @ ClusterElectricalMeasurementServer_attributes_7"

definition ClusterElectricalMeasurementServer_cases :: "(string \<times> string) list" where
  "ClusterElectricalMeasurementServer_cases =
     [(''GetProfileInfoResponseCommand'', ''onGetProfileInfoResponseCommand''), (''GetProfileInfoCommand'', ''onGetProfileInfoCommand''),
      (''GetMeasurementProfileResponseCommand'', ''onGetMeasurementProfileResponseCommand''),
      (''GetMeasurementProfileCommand'', ''onGetMeasurementProfileCommand'')]"

definition ClusterElectricalMeasurementServer_handlers :: "(string \<times> string) list" where
  "ClusterElectricalMeasurementServer_handlers =
     [(''onGetProfileInfoResponseCommand'', ''.onGetProfileInfoResponseCommand''), (''onGetProfileInfoCommand'', ''.onGetProfileInfoCommand''),
      (''onGetMeasurementProfileResponseCommand'', ''.onGetMeasurementProfileResponseCommand''),
      (''onGetMeasurementProfileCommand'', ''.onGetMeasurementProfileCommand'')]"

definition ClusterElectricalMeasurementServer :: generated_class where
  "ClusterElectricalMeasurementServer =
     \<lparr>cc_class = ''ClusterElectricalMeasurementServer'', cc_CLUSTER_NAME = ''ELECTRICAL_MEASUREMENT_CLUSTER'', cc_CLUSTER_ID = 0x0B04,
      cc_Command = ClusterElectricalMeasurementServer_Command, cc_Attribute = ClusterElectricalMeasurementServer_Attribute,
      cc_templates = ClusterElectricalMeasurementServer_templates, cc_attributes = ClusterElectricalMeasurementServer_attributes,
      cc_cases = ClusterElectricalMeasurementServer_cases, cc_handlers = ClusterElectricalMeasurementServer_handlers\<rparr>"

lemmas ClusterElectricalMeasurementServer_defs = ClusterElectricalMeasurementServer_Command_def ClusterElectricalMeasurementServer_Attribute_def
  ClusterElectricalMeasurementServer_cases_def ClusterElectricalMeasurementServer_templates_def
  ClusterElectricalMeasurementServer_attributes_1_def ClusterElectricalMeasurementServer_attributes_2_def
  ClusterElectricalMeasurementServer_attributes_3_def ClusterElectricalMeasurementServer_attributes_4_def
  ClusterElectricalMeasurementServer_attributes_5_def ClusterElectricalMeasurementServer_attributes_6_def
  ClusterElectricalMeasurementServer_attributes_7_def ClusterElectricalMeasurementServer_attributes_def
  ClusterElectricalMeasurementServer_handlers_def ClusterElectricalMeasurementServer_def

lemma ClusterElectricalMeasurementServer_ok: "class_ok ClusterElectricalMeasurementServer"
  by (simp add: class_ok_def field_ok_def ClusterElectricalMeasurementServer_defs ro_attribute_def)

lemma ClusterElectricalMeasurementServer_ids: "cc_class ClusterElectricalMeasurementServer = ''ClusterElectricalMeasurementServer''" "cc_CLUSTER_ID ClusterElectricalMeasurementServer = 0x0B04" "distinct (map snd (cc_Command ClusterElectricalMeasurementServer)) \<longleftrightarrow> False"
  by (simp_all add: ClusterElectricalMeasurementServer_def ClusterElectricalMeasurementServer_Command_def)

section \<open>\<open>ClusterEthernetNetworkDiagnosticsServer\<close>\<close>

definition ClusterEthernetNetworkDiagnosticsServer_Command :: "(string \<times> int) list" where
  "ClusterEthernetNetworkDiagnosticsServer_Command =
     [(''ResetCounts'', 0)]"

definition ClusterEthernetNetworkDiagnosticsServer_Attribute :: "(string \<times> int) list" where
  "ClusterEthernetNetworkDiagnosticsServer_Attribute =
     [(''PHYRate'', 0), (''FullDuplex'', 1), (''PacketRxCount'', 2), (''PacketTxCount'', 3), (''TxErrCount'', 4), (''CollisionCount'', 5),
      (''OverrunCount'', 6), (''CarrierDetect'', 7), (''TimeSinceReset'', 8), (''GeneratedCommandList'', 65528), (''AcceptedCommandList'', 65529),
      (''AttributeList'', 65531), (''FeatureMap'', 65532), (''ClusterRevision'', 65533)]"

definition ClusterEthernetNetworkDiagnosticsServer_templates :: "(string \<times> template_field list) list" where
  "ClusterEthernetNetworkDiagnosticsServer_templates =
     [(''ResetCounts'', [])]"

definition ClusterEthernetNetworkDiagnosticsServer_attributes :: "(prop_key \<times> attribute) list" where
  "ClusterEthernetNetworkDiagnosticsServer_attributes =
     [(IntKey 0, ro_attribute ''PHYRate'' ''PHYRateType'' True JUndef), (IntKey 1, ro_attribute ''FullDuplex'' ''boolean'' True JUndef),
      (IntKey 2, ro_attribute ''PacketRxCount'' ''int64u'' False JUndef), (IntKey 3, ro_attribute ''PacketTxCount'' ''int64u'' False JUndef),
      (IntKey 4, ro_attribute ''TxErrCount'' ''int64u'' False JUndef), (IntKey 5, ro_attribute ''CollisionCount'' ''int64u'' False JUndef),
      (IntKey 6, ro_attribute ''OverrunCount'' ''int64u'' False JUndef), (IntKey 7, ro_attribute ''CarrierDetect'' ''boolean'' True JUndef),
      (IntKey 8, ro_attribute ''TimeSinceReset'' ''int64u'' False JUndef),
      (IntKey 65528, ro_attribute ''GeneratedCommandList'' ''array'' False JUndef),
      (IntKey 65529, ro_attribute ''AcceptedCommandList'' ''array'' False JUndef),
      (IntKey 65531, ro_attribute ''AttributeList'' ''array'' False JUndef), (IntKey 65532, ro_attribute ''FeatureMap'' ''bitmap32'' False JUndef),
      (IntKey 65533, ro_attribute ''ClusterRevision'' ''int16u'' False JUndef)]"

definition ClusterEthernetNetworkDiagnosticsServer_cases :: "(string \<times> string) list" where
  "ClusterEthernetNetworkDiagnosticsServer_cases =
     [(''ResetCounts'', ''onResetCounts'')]"

definition ClusterEthernetNetworkDiagnosticsServer_handlers :: "(string \<times> string) list" where
  "ClusterEthernetNetworkDiagnosticsServer_handlers =
     [(''onResetCounts'', ''.onResetCounts'')]"

definition ClusterEthernetNetworkDiagnosticsServer :: generated_class where
  "ClusterEthernetNetworkDiagnosticsServer =
     \<lparr>cc_class = ''ClusterEthernetNetworkDiagnosticsServer'', cc_CLUSTER_NAME = ''ETHERNET_NETWORK_DIAGNOSTICS_CLUSTER'', cc_CLUSTER_ID = 0x0037,
      cc_Command = ClusterEthernetNetworkDiagnosticsServer_Command, cc_Attribute = ClusterEthernetNetworkDiagnosticsServer_Attribute,
      cc_templates = ClusterEthernetNetworkDiagnosticsServer_templates, cc_attributes = ClusterEthernetNetworkDiagnosticsServer_attributes,
      cc_cases = ClusterEthernetNetworkDiagnosticsServer_cases, cc_handlers = ClusterEthernetNetworkDiagnosticsServer_handlers\<rparr>"

lemmas ClusterEthernetNetworkDiagnosticsServer_defs = ClusterEthernetNetworkDiagnosticsServer_Command_def ClusterEthernetNetworkDiagnosticsServer_Attribute_def
  ClusterEthernetNetworkDiagnosticsServer_cases_def ClusterEthernetNetworkDiagnosticsServer_templates_def
  ClusterEthernetNetworkDiagnosticsServer_attributes_def ClusterEthernetNetworkDiagnosticsServer_handlers_def
  ClusterEthernetNetworkDiagnosticsServer_def

lemma ClusterEthernetNetworkDiagnosticsServer_ok: "class_ok ClusterEthernetNetworkDiagnosticsServer"
  by (simp add: class_ok_def field_ok_def ClusterEthernetNetworkDiagnosticsServer_defs ro_attribute_def)

lemma ClusterEthernetNetworkDiagnosticsServer_ids: "cc_class ClusterEthernetNetworkDiagnosticsServer = ''ClusterEthernetNetworkDiagnosticsServer''" "cc_CLUSTER_ID ClusterEthernetNetworkDiagnosticsServer = 0x0037" "distinct (map snd (cc_Command ClusterEthernetNetworkDiagnosticsServer)) \<longleftrightarrow> True"
  by (simp_all add: ClusterEthernetNetworkDiagnosticsServer_def ClusterEthernetNetworkDiagnosticsServer_Command_def)

section \<open>\<open>ClusterFanControlServer\<close>\<close>

definition ClusterFanControlServer_Command :: "(string \<times> int) list" where "ClusterFanControlServer_Command = []"

definition ClusterFanControlServer_Attribute :: "(string \<times> int) list" where
  "ClusterFanControlServer_Attribute =
     [(''FanMode'', 0), (''FanModeSequence'', 1), (''PercentSetting'', 2), (''PercentCurrent'', 3), (''SpeedMax'', 4), (''SpeedSetting'', 5),
      (''SpeedCurrent'', 6), (''RockSupport'', 7), (''RockSetting'', 8), (''WindSupport'', 9), (''WindSetting'', 10),
      (''GeneratedCommandList'', 65528), (''AcceptedCommandList'', 65529), (''AttributeList'', 65531), (''FeatureMap'', 65532),
      (''ClusterRevision'', 65533)]"

definition ClusterFanControlServer_attributes :: "(prop_key \<times> attribute) list" where
  "ClusterFanControlServer_attributes =
     [(IntKey 0, ro_attribute ''FanMode'' ''FanModeType'' False JUndef),
      (IntKey 1, ro_attribute ''FanModeSequence'' ''FanModeSequenceType'' False JUndef),
      (IntKey 2, ro_attribute ''PercentSetting'' ''int8u'' False JUndef), (IntKey 3, ro_attribute ''PercentCurrent'' ''int8u'' False JUndef),
      (IntKey 4, ro_attribute ''SpeedMax'' ''int8u'' False JUndef), (IntKey 5, ro_attribute ''SpeedSetting'' ''int8u'' False JUndef),
      (IntKey 6, ro_attribute ''SpeedCurrent'' ''int8u'' False JUndef), (IntKey 7, ro_attribute ''RockSupport'' ''bitmap8'' False JUndef),
      (IntKey 8, ro_attribute ''RockSetting'' ''bitmap8'' False JUndef), (IntKey 9, ro_attribute ''WindSupport'' ''bitmap8'' False JUndef),
      (IntKey 10, ro_attribute ''WindSetting'' ''bitmap8'' False JUndef),
      (IntKey 65528, ro_attribute ''GeneratedCommandList'' ''array'' False JUndef),
      (IntKey 65529, ro_attribute ''AcceptedCommandList'' ''array'' False JUndef),
      (IntKey 65531, ro_attribute ''AttributeList'' ''array'' False JUndef), (IntKey 65532, ro_attribute ''FeatureMap'' ''bitmap32'' False JUndef),
      (IntKey 65533, ro_attribute ''ClusterRevision'' ''int16u'' False JUndef)]"

definition ClusterFanControlServer_cases :: "(string \<times> string) list" where "ClusterFanControlServer_cases = []"

definition ClusterFanControlServer :: generated_class where
  "ClusterFanControlServer =
     \<lparr>cc_class = ''ClusterFanControlServer'', cc_CLUSTER_NAME = ''FAN_CONTROL_CLUSTER'', cc_CLUSTER_ID = 0x0202,
      cc_Command = ClusterFanControlServer_Command, cc_Attribute = ClusterFanControlServer_Attribute,
      cc_templates = [], cc_attributes = ClusterFanControlServer_attributes,
      cc_cases = ClusterFanControlServer_cases, cc_handlers = []\<rparr>"

lemmas ClusterFanControlServer_defs = ClusterFanControlServer_Command_def ClusterFanControlServer_Attribute_def ClusterFanControlServer_cases_def
  ClusterFanControlServer_attributes_def ClusterFanControlServer_def

lemma ClusterFanControlServer_ok: "class_ok ClusterFanControlServer"
  by (simp add: class_ok_def field_ok_def ClusterFanControlServer_defs ro_attribute_def)

lemma ClusterFanControlServer_ids: "cc_class ClusterFanControlServer = ''ClusterFanControlServer''" "cc_CLUSTER_ID ClusterFanControlServer = 0x0202" "distinct (map snd (cc_Command ClusterFanControlServer)) \<longleftrightarrow> True"
  by (simp_all add: ClusterFanControlServer_def ClusterFanControlServer_Command_def)

section \<open>\<open>ClusterFixedLabelServer\<close>\<close>

definition ClusterFixedLabelServer_Command :: "(string \<times> int) list" where "ClusterFixedLabelServer_Command = []"

definition ClusterFixedLabelServer_Attribute :: "(string \<times> int) list" where
  "ClusterFixedLabelServer_Attribute =
     [(''LabelList'', 0), (''GeneratedCommandList'', 65528), (''AcceptedCommandList'', 65529), (''AttributeList'', 65531), (''FeatureMap'', 65532),
      (''ClusterRevision'', 65533)]"

definition ClusterFixedLabelServer_attributes :: "(prop_key \<times> attribute) list" where
  "ClusterFixedLabelServer_attributes =
     [(IntKey 0, ro_attribute ''LabelList'' ''array'' False JUndef), (IntKey 65528, ro_attribute ''GeneratedCommandList'' ''array'' False JUndef),
      (IntKey 65529, ro_attribute ''AcceptedCommandList'' ''array'' False JUndef),
      (IntKey 65531, ro_attribute ''AttributeList'' ''array'' False JUndef), (IntKey 65532, ro_attribute ''FeatureMap'' ''bitmap32'' False JUndef),
      (IntKey 65533, ro_attribute ''ClusterRevision'' ''int16u'' False JUndef)]"

definition ClusterFixedLabelServer_cases :: "(string \<times> string) list" where "ClusterFixedLabelServer_cases = []"

definition ClusterFixedLabelServer :: generated_class where
  "ClusterFixedLabelServer =
     \<lparr>cc_class = ''ClusterFixedLabelServer'', cc_CLUSTER_NAME = ''FIXED_LABEL_CLUSTER'', cc_CLUSTER_ID = 0x0040,
      cc_Command = ClusterFixedLabelServer_Command, cc_Attribute = ClusterFixedLabelServer_Attribute,
      cc_templates = [], cc_attributes = ClusterFixedLabelServer_attributes,
      cc_cases = ClusterFixedLabelServer_cases, cc_handlers = []\<rparr>"

lemmas ClusterFixedLabelServer_defs = ClusterFixedLabelServer_Command_def ClusterFixedLabelServer_Attribute_def ClusterFixedLabelServer_cases_def
  ClusterFixedLabelServer_attributes_def ClusterFixedLabelServer_def

lemma ClusterFixedLabelServer_ok: "class_ok ClusterFixedLabelServer"
  by (simp add: class_ok_def field_ok_def ClusterFixedLabelServer_defs ro_attribute_def)

lemma ClusterFixedLabelServer_ids: "cc_class ClusterFixedLabelServer = ''ClusterFixedLabelServer''" "cc_CLUSTER_ID ClusterFixedLabelServer = 0x0040" "distinct (map snd (cc_Command ClusterFixedLabelServer)) \<longleftrightarrow> True"
  by (simp_all add: ClusterFixedLabelServer_def ClusterFixedLabelServer_Command_def)

section \<open>\<open>ClusterFlowMeasurementServer\<close>\<close>

definition ClusterFlowMeasurementServer_Command :: "(string \<times> int) list" where "ClusterFlowMeasurementServer_Command = []"

definition ClusterFlowMeasurementServer_Attribute :: "(string \<times> int) list" where
  "ClusterFlowMeasurementServer_Attribute =
     [(''MeasuredValue'', 0), (''MinMeasuredValue'', 1), (''MaxMeasuredValue'', 2), (''Tolerance'', 3), (''GeneratedCommandList'', 65528),
      (''AcceptedCommandList'', 65529), (''AttributeList'', 65531), (''FeatureMap'', 65532), (''ClusterRevision'', 65533)]"

definition ClusterFlowMeasurementServer_attributes :: "(prop_key \<times> attribute) list" where
  "ClusterFlowMeasurementServer_attributes =
     [(IntKey 0, ro_attribute ''MeasuredValue'' ''int16u'' True JUndef), (IntKey 1, ro_attribute ''MinMeasuredValue'' ''int16u'' True JUndef),
      (IntKey 2, ro_attribute ''MaxMeasuredValue'' ''int16u'' True JUndef), (IntKey 3, ro_attribute ''Tolerance'' ''int16u'' False JUndef),
      (IntKey 65528, ro_attribute ''GeneratedCommandList'' ''array'' False JUndef),
      (IntKey 65529, ro_attribute ''AcceptedCommandList'' ''array'' False JUndef),
      (IntKey 65531, ro_attribute ''AttributeList'' ''array'' False JUndef), (IntKey 65532, ro_attribute ''FeatureMap'' ''bitmap32'' False JUndef),
      (IntKey 65533, ro_attribute ''ClusterRevision'' ''int16u'' False JUndef)]"

definition ClusterFlowMeasurementServer_cases :: "(string \<times> string) list" where "ClusterFlowMeasurementServer_cases = []"

definition ClusterFlowMeasurementServer :: generated_class where
  "ClusterFlowMeasurementServer =
     \<lparr>cc_class = ''ClusterFlowMeasurementServer'', cc_CLUSTER_NAME = ''FLOW_MEASUREMENT_CLUSTER'', cc_CLUSTER_ID = 0x0404,
      cc_Command = ClusterFlowMeasurementServer_Command, cc_Attribute = ClusterFlowMeasurementServer_Attribute,
      cc_templates = [], cc_attributes = ClusterFlowMeasurementServer_attributes,
      cc_cases = ClusterFlowMeasurementServer_cases, cc_handlers = []\<rparr>"

lemmas ClusterFlowMeasurementServer_defs = ClusterFlowMeasurementServer_Command_def ClusterFlowMeasurementServer_Attribute_def
  ClusterFlowMeasurementServer_cases_def ClusterFlowMeasurementServer_attributes_def ClusterFlowMeasurementServer_def

lemma ClusterFlowMeasurementServer_ok: "class_ok ClusterFlowMeasurementServer"
  by (simp add: class_ok_def field_ok_def ClusterFlowMeasurementServer_defs ro_attribute_def)

lemma ClusterFlowMeasurementServer_ids: "cc_class ClusterFlowMeasurementServer = ''ClusterFlowMeasurementServer''" "cc_CLUSTER_ID ClusterFlowMeasurementServer = 0x0404" "distinct (map snd (cc_Command ClusterFlowMeasurementServer)) \<longleftrightarrow> True"
  by (simp_all add: ClusterFlowMeasurementServer_def ClusterFlowMeasurementServer_Command_def)

section \<open>\<open>ClusterGeneralCommissioningServer\<close>\<close>

definition ClusterGeneralCommissioningServer_Command :: "(string \<times> int) list" where
  "ClusterGeneralCommissioningServer_Command =
     [(''ArmFailSafe'', 0), (''ArmFailSafeResponse'', 1), (''SetRegulatoryConfig'', 2), (''SetRegulatoryConfigResponse'', 3),
      (''CommissioningComplete'', 4), (''CommissioningCompleteResponse'', 5)]"

definition ClusterGeneralCommissioningServer_Attribute :: "(string \<times> int) list" where
  "ClusterGeneralCommissioningServer_Attribute =
     [(''Breadcrumb'', 0), (''BasicCommissioningInfo'', 1), (''RegulatoryConfig'', 2), (''LocationCapability'', 3),
      (''SupportsConcurrentConnection'', 4), (''GeneratedCommandList'', 65528), (''AcceptedCommandList'', 65529), (''AttributeList'', 65531),
      (''FeatureMap'', 65532), (''ClusterRevision'', 65533)]"

definition ClusterGeneralCommissioningServer_templates :: "(string \<times> template_field list) list" where
  "ClusterGeneralCommissioningServer_templates =
     [(''ArmFailSafe'', [(0, ''uint16_t'', Some ''ExpiryLengthSeconds''), (1, ''uint64_t'', Some ''Breadcrumb'')]),
      (''ArmFailSafeResponse'', [(0, ''uint8_t'', Some ''ErrorCode''), (1, ''chip::CharSpan'', Some ''DebugText'')]),
      (''SetRegulatoryConfig'', [(0, ''uint8_t'', Some ''NewRegulatoryConfig''), (1, ''chip::CharSpan'', Some ''CountryCode''),
         (2, ''uint64_t'', Some ''Breadcrumb'')]),
      (''SetRegulatoryConfigResponse'', [(0, ''uint8_t'', Some ''ErrorCode''), (1, ''chip::CharSpan'', Some ''DebugText'')]),
      (''CommissioningComplete'', []),
      (''CommissioningCompleteResponse'', [(0, ''uint8_t'', Some ''ErrorCode''), (1, ''chip::CharSpan'', Some ''DebugText'')])]"

definition ClusterGeneralCommissioningServer_attributes :: "(prop_key \<times> attribute) list" where
  "ClusterGeneralCommissioningServer_attributes =
     [(IntKey 0, ro_attribute ''Breadcrumb'' ''int64u'' False JUndef),
      (IntKey 1, ro_attribute ''BasicCommissioningInfo'' ''BasicCommissioningInfo'' False JUndef),
      (IntKey 2, ro_attribute ''RegulatoryConfig'' ''RegulatoryLocationType'' False JUndef),
      (IntKey 3, ro_attribute ''LocationCapability'' ''RegulatoryLocationType'' False JUndef),
      (IntKey 4, ro_attribute ''SupportsConcurrentConnection'' ''boolean'' False JUndef),
      (IntKey 65528, ro_attribute ''GeneratedCommandList'' ''array'' False JUndef),
      (IntKey 65529, ro_attribute ''AcceptedCommandList'' ''array'' False JUndef),
      (IntKey 65531, ro_attribute ''AttributeList'' ''array'' False JUndef), (IntKey 65532, ro_attribute ''FeatureMap'' ''bitmap32'' False JUndef),
      (IntKey 65533, ro_attribute ''ClusterRevision'' ''int16u'' False JUndef)]"

definition ClusterGeneralCommissioningServer_cases :: "(string \<times> string) list" where
  "ClusterGeneralCommissioningServer_cases =
     [(''ArmFailSafe'', ''onArmFailSafe''), (''ArmFailSafeResponse'', ''onArmFailSafeResponse''),
      (''SetRegulatoryConfig'', ''onSetRegulatoryConfig''), (''SetRegulatoryConfigResponse'', ''onSetRegulatoryConfigResponse''),
      (''CommissioningComplete'', ''onCommissioningComplete''), (''CommissioningCompleteResponse'', ''onCommissioningCompleteResponse'')]"

definition ClusterGeneralCommissioningServer_handlers :: "(string \<times> string) list" where
  "ClusterGeneralCommissioningServer_handlers =
     [(''onArmFailSafe'', ''.onArmFailSafe''), (''onArmFailSafeResponse'', ''.onArmFailSafeResponse''),
      (''onSetRegulatoryConfig'', ''.onSetRegulatoryConfig''), (''onSetRegulatoryConfigResponse'', ''.onSetRegulatoryConfigResponse''),
      (''onCommissioningComplete'', ''.onCommissioningComplete''), (''onCommissioningCompleteResponse'', ''.onCommissioningCompleteResponse'')]"

definition ClusterGeneralCommissioningServer :: generated_class where
  "ClusterGeneralCommissioningServer =
     \<lparr>cc_class = ''ClusterGeneralCommissioningServer'', cc_CLUSTER_NAME = ''GENERAL_COMMISSIONING_CLUSTER'', cc_CLUSTER_ID = 0x0030,
      cc_Command = ClusterGeneralCommissioningServer_Command, cc_Attribute = ClusterGeneralCommissioningServer_Attribute,
      cc_templates = ClusterGeneralCommissioningServer_templates, cc_attributes = ClusterGeneralCommissioningServer_attributes,
      cc_cases = ClusterGeneralCommissioningServer_cases, cc_handlers = ClusterGeneralCommissioningServer_handlers\<rparr>"

lemmas ClusterGeneralCommissioningServer_defs = ClusterGeneralCommissioningServer_Command_def ClusterGeneralCommissioningServer_Attribute_def
  ClusterGeneralCommissioningServer_cases_def ClusterGeneralCommissioningServer_templates_def
  ClusterGeneralCommissioningServer_attributes_def ClusterGeneralCommissioningServer_handlers_def
  ClusterGeneralCommissioningServer_def

lemma ClusterGeneralCommissioningServer_ok: "class_ok ClusterGeneralCommissioningServer"
  by (simp add: class_ok_def field_ok_def ClusterGeneralCommissioningServer_defs ro_attribute_def)

lemma ClusterGeneralCommissioningServer_ids: "cc_class ClusterGeneralCommissioningServer = ''ClusterGeneralCommissioningServer''" "cc_CLUSTER_ID ClusterGeneralCommissioningServer = 0x0030" "distinct (map snd (cc_Command ClusterGeneralCommissioningServer)) \<longleftrightarrow> True"
  by (simp_all add: ClusterGeneralCommissioningServer_def ClusterGeneralCommissioningServer_Command_def)

section \<open>\<open>ClusterGeneralDiagnosticsServer\<close>\<close>

definition ClusterGeneralDiagnosticsServer_Command :: "(string \<times> int) list" where "ClusterGeneralDiagnosticsServer_Command = []"

definition ClusterGeneralDiagnosticsServer_Attribute :: "(string \<times> int) list" where
  "ClusterGeneralDiagnosticsServer_Attribute =
     [(''NetworkInterfaces'', 0), (''RebootCount'', 1), (''UpTime'', 2), (''TotalOperationalHours'', 3), (''BootReasons'', 4),
      (''ActiveHardwareFaults'', 5), (''ActiveRadioFaults'', 6), (''ActiveNetworkFaults'', 7), (''GeneratedCommandList'', 65528),
      (''AcceptedCommandList'', 65529), (''AttributeList'', 65531), (''FeatureMap'', 65532), (''ClusterRevision'', 65533)]"

definition ClusterGeneralDiagnosticsServer_attributes :: "(prop_key \<times> attribute) list" where
  "ClusterGeneralDiagnosticsServer_attributes =
     [(IntKey 0, ro_attribute ''NetworkInterfaces'' ''array'' False JUndef), (IntKey 1, ro_attribute ''RebootCount'' ''int16u'' False JUndef),
      (IntKey 2, ro_attribute ''UpTime'' ''int64u'' False JUndef), (IntKey 3, ro_attribute ''TotalOperationalHours'' ''int32u'' False JUndef),
      (IntKey 4, ro_attribute ''BootReasons'' ''enum8'' False JUndef), (IntKey 5, ro_attribute ''ActiveHardwareFaults'' ''array'' False JUndef),
      (IntKey 6, ro_attribute ''ActiveRadioFaults'' ''array'' False JUndef), (IntKey 7, ro_attribute ''ActiveNetworkFaults'' ''array'' False JUndef),
      (IntKey 65528, ro_attribute ''GeneratedCommandList'' ''array'' False JUndef),
      (IntKey 65529, ro_attribute ''AcceptedCommandList'' ''array'' False JUndef),
      (IntKey 65531, ro_attribute ''AttributeList'' ''array'' False JUndef), (IntKey 65532, ro_attribute ''FeatureMap'' ''bitmap32'' False JUndef),
      (IntKey 65533, ro_attribute ''ClusterRevision'' ''int16u'' False JUndef)]"

definition ClusterGeneralDiagnosticsServer_cases :: "(string \<times> string) list" where "ClusterGeneralDiagnosticsServer_cases = []"

definition ClusterGeneralDiagnosticsServer :: generated_class where
  "ClusterGeneralDiagnosticsServer =
     \<lparr>cc_class = ''ClusterGeneralDiagnosticsServer'', cc_CLUSTER_NAME = ''GENERAL_DIAGNOSTICS_CLUSTER'', cc_CLUSTER_ID = 0x0033,
      cc_Command = ClusterGeneralDiagnosticsServer_Command, cc_Attribute = ClusterGeneralDiagnosticsServer_Attribute,
      cc_templates = [], cc_attributes = ClusterGeneralDiagnosticsServer_attributes,
      cc_cases = ClusterGeneralDiagnosticsServer_cases, cc_handlers = []\<rparr>"

lemmas ClusterGeneralDiagnosticsServer_defs = ClusterGeneralDiagnosticsServer_Command_def ClusterGeneralDiagnosticsServer_Attribute_def
  ClusterGeneralDiagnosticsServer_cases_def ClusterGeneralDiagnosticsServer_attributes_def
  ClusterGeneralDiagnosticsServer_def

lemma ClusterGeneralDiagnosticsServer_ok: "class_ok ClusterGeneralDiagnosticsServer"
  by (simp add: class_ok_def field_ok_def ClusterGeneralDiagnosticsServer_defs ro_attribute_def)

lemma ClusterGeneralDiagnosticsServer_ids: "cc_class ClusterGeneralDiagnosticsServer = ''ClusterGeneralDiagnosticsServer''" "cc_CLUSTER_ID ClusterGeneralDiagnosticsServer = 0x0033" "distinct (map snd (cc_Command ClusterGeneralDiagnosticsServer)) \<longleftrightarrow> True"
  by (simp_all add: ClusterGeneralDiagnosticsServer_def ClusterGeneralDiagnosticsServer_Command_def)

section \<open>\<open>ClusterGroupKeyManagementServer\<close>\<close>

definition ClusterGroupKeyManagementServer_Command :: "(string \<times> int) list" where
  "ClusterGroupKeyManagementServer_Command =
     [(''KeySetWrite'', 0), (''KeySetRead'', 1), (''KeySetReadResponse'', 2), (''KeySetRemove'', 3), (''KeySetReadAllIndices'', 4),
      (''KeySetReadAllIndicesResponse'', 5)]"

definition ClusterGroupKeyManagementServer_Attribute :: "(string \<times> int) list" where
  "ClusterGroupKeyManagementServer_Attribute =
     [(''GroupKeyMap'', 0), (''GroupTable'', 1), (''MaxGroupsPerFabric'', 2), (''MaxGroupKeysPerFabric'', 3), (''GeneratedCommandList'', 65528),
      (''AcceptedCommandList'', 65529), (''AttributeList'', 65531), (''FeatureMap'', 65532), (''ClusterRevision'', 65533)]"

definition ClusterGroupKeyManagementServer_templates :: "(string \<times> template_field list) list" where
  "ClusterGroupKeyManagementServer_templates =
     [(''KeySetWrite'', [(0, ''struct'', None)]), (''KeySetRead'', [(0, ''uint16_t'', Some ''GroupKeySetID'')]),
      (''KeySetReadResponse'', [(0, ''struct'', None)]), (''KeySetRemove'', [(0, ''uint16_t'', Some ''GroupKeySetID'')]),
      (''KeySetReadAllIndices'', [(0, ''array'', None)]), (''KeySetReadAllIndicesResponse'', [(0, ''array'', None)])]"

definition ClusterGroupKeyManagementServer_attributes :: "(prop_key \<times> attribute) list" where
  "ClusterGroupKeyManagementServer_attributes =
     [(IntKey 0, ro_attribute ''GroupKeyMap'' ''array'' False JUndef), (IntKey 1, ro_attribute ''GroupTable'' ''array'' False JUndef),
      (IntKey 2, ro_attribute ''MaxGroupsPerFabric'' ''int16u'' False JUndef),
      (IntKey 3, ro_attribute ''MaxGroupKeysPerFabric'' ''int16u'' False JUndef),
      (IntKey 65528, ro_attribute ''GeneratedCommandList'' ''array'' False JUndef),
      (IntKey 65529, ro_attribute ''AcceptedCommandList'' ''array'' False JUndef),
      (IntKey 65531, ro_attribute ''AttributeList'' ''array'' False JUndef), (IntKey 65532, ro_attribute ''FeatureMap'' ''bitmap32'' False JUndef),
      (IntKey 65533, ro_attribute ''ClusterRevision'' ''int16u'' False JUndef)]"

definition ClusterGroupKeyManagementServer_cases :: "(string \<times> string) list" where
  "ClusterGroupKeyManagementServer_cases =
     [(''KeySetWrite'', ''onKeySetWrite''), (''KeySetRead'', ''onKeySetRead''), (''KeySetReadResponse'', ''onKeySetReadResponse''),
      (''KeySetRemove'', ''onKeySetRemove''), (''KeySetReadAllIndices'', ''onKeySetReadAllIndices''),
      (''KeySetReadAllIndicesResponse'', ''onKeySetReadAllIndicesResponse'')]"

definition ClusterGroupKeyManagementServer_handlers :: "(string \<times> string) list" where
  "ClusterGroupKeyManagementServer_handlers =
     [(''onKeySetWrite'', ''.onKeySetWrite''), (''onKeySetRead'', ''.onKeySetRead''), (''onKeySetReadResponse'', ''.onKeySetReadResponse''),
      (''onKeySetRemove'', ''.onKeySetRemove''), (''onKeySetReadAllIndices'', ''.onKeySetReadAllIndices''),
      (''onKeySetReadAllIndicesResponse'', ''.onKeySetReadAllIndicesResponse'')]"

definition ClusterGroupKeyManagementServer :: generated_class where
  "ClusterGroupKeyManagementServer =
     \<lparr>cc_class = ''ClusterGroupKeyManagementServer'', cc_CLUSTER_NAME = ''GROUP_KEY_MANAGEMENT_CLUSTER'', cc_CLUSTER_ID = 0x003F,
      cc_Command = ClusterGroupKeyManagementServer_Command, cc_Attribute = ClusterGroupKeyManagementServer_Attribute,
      cc_templates = ClusterGroupKeyManagementServer_templates, cc_attributes = ClusterGroupKeyManagementServer_attributes,
      cc_cases = ClusterGroupKeyManagementServer_cases, cc_handlers = ClusterGroupKeyManagementServer_handlers\<rparr>"

lemmas ClusterGroupKeyManagementServer_defs = ClusterGroupKeyManagementServer_Command_def ClusterGroupKeyManagementServer_Attribute_def
  ClusterGroupKeyManagementServer_cases_def ClusterGroupKeyManagementServer_templates_def
  ClusterGroupKeyManagementServer_attributes_def ClusterGroupKeyManagementServer_handlers_def
  ClusterGroupKeyManagementServer_def

lemma ClusterGroupKeyManagementServer_ok: "class_ok ClusterGroupKeyManagementServer"
  by (simp add: class_ok_def field_ok_def ClusterGroupKeyManagementServer_defs ro_attribute_def)

lemma ClusterGroupKeyManagementServer_ids: "cc_class ClusterGroupKeyManagementServer = ''ClusterGroupKeyManagementServer''" "cc_CLUSTER_ID ClusterGroupKeyManagementServer = 0x003F" "distinct (map snd (cc_Command ClusterGroupKeyManagementServer)) \<longleftrightarrow> True"
  by (simp_all add: ClusterGroupKeyManagementServer_def ClusterGroupKeyManagementServer_Command_def)

section \<open>\<open>ClusterGroupsServer\<close>\<close>

definition ClusterGroupsServer_Command :: "(string \<times> int) list" where
  "ClusterGroupsServer_Command =
     [(''AddGroup'', 0), (''AddGroupResponse'', 0), (''ViewGroup'', 1), (''ViewGroupResponse'', 1), (''GetGroupMembership'', 2),
      (''GetGroupMembershipResponse'', 2), (''RemoveGroup'', 3), (''RemoveGroupResponse'', 3), (''RemoveAllGroups'', 4),
      (''AddGroupIfIdentifying'', 5)]"

definition ClusterGroupsServer_Attribute :: "(string \<times> int) list" where
  "ClusterGroupsServer_Attribute =
     [(''NameSupport'', 0), (''GeneratedCommandList'', 65528), (''AcceptedCommandList'', 65529), (''AttributeList'', 65531), (''FeatureMap'', 65532),
      (''ClusterRevision'', 65533)]"

definition ClusterGroupsServer_templates :: "(string \<times> template_field list) list" where
  "ClusterGroupsServer_templates =
     [(''AddGroup'', [(0, ''chip::GroupId'', Some ''GroupId''), (1, ''chip::CharSpan'', Some ''GroupName'')]),
      (''AddGroupResponse'', [(0, ''uint8_t'', Some ''Status''), (1, ''chip::GroupId'', Some ''GroupId'')]),
      (''ViewGroup'', [(0, ''chip::GroupId'', Some ''GroupId'')]),
      (''ViewGroupResponse'', [(0, ''uint8_t'', Some ''Status''), (1, ''chip::GroupId'', Some ''GroupId''), (2, ''chip::CharSpan'', Some ''GroupName'')]),
      (''GetGroupMembership'', [(0, ''array'', None)]), (''GetGroupMembershipResponse'', [(0, ''uint8_t'', Some ''Capacity''), (1, ''array'', None)]),
      (''RemoveGroup'', [(0, ''chip::GroupId'', Some ''GroupId'')]),
      (''RemoveGroupResponse'', [(0, ''uint8_t'', Some ''Status''), (1, ''chip::GroupId'', Some ''GroupId'')]), (''RemoveAllGroups'', []),
      (''AddGroupIfIdentifying'', [(0, ''chip::GroupId'', Some ''GroupId''), (1, ''chip::CharSpan'', Some ''GroupName'')])]"

definition ClusterGroupsServer_attributes :: "(prop_key \<times> attribute) list" where
  "ClusterGroupsServer_attributes =
     [(IntKey 0, ro_attribute ''NameSupport'' ''bitmap8'' False JUndef), (IntKey 65528, ro_attribute ''GeneratedCommandList'' ''array'' False JUndef),
      (IntKey 65529, ro_attribute ''AcceptedCommandList'' ''array'' False JUndef),
      (IntKey 65531, ro_attribute ''AttributeList'' ''array'' False JUndef), (IntKey 65532, ro_attribute ''FeatureMap'' ''bitmap32'' False JUndef),
      (IntKey 65533, ro_attribute ''ClusterRevision'' ''int16u'' False JUndef)]"

definition ClusterGroupsServer_cases :: "(string \<times> string) list" where
  "ClusterGroupsServer_cases =
     [(''AddGroup'', ''onAddGroup''), (''AddGroupResponse'', ''onAddGroupResponse''), (''ViewGroup'', ''onViewGroup''),
      (''ViewGroupResponse'', ''onViewGroupResponse''), (''GetGroupMembership'', ''onGetGroupMembership''),
      (''GetGroupMembershipResponse'', ''onGetGroupMembershipResponse''), (''RemoveGroup'', ''onRemoveGroup''),
      (''RemoveGroupResponse'', ''onRemoveGroupResponse''), (''RemoveAllGroups'', ''onRemoveAllGroups''),
      (''AddGroupIfIdentifying'', ''onAddGroupIfIdentifying'')]"

definition ClusterGroupsServer_handlers :: "(string \<times> string) list" where
  "ClusterGroupsServer_handlers =
     [(''onAddGroup'', ''.onAddGroup''), (''onAddGroupResponse'', ''.onAddGroupResponse''), (''onViewGroup'', ''.onViewGroup''),
      (''onViewGroupResponse'', ''.onViewGroupResponse''), (''onGetGroupMembership'', ''.onGetGroupMembership''),
      (''onGetGroupMembershipResponse'', ''.onGetGroupMembershipResponse''), (''onRemoveGroup'', ''.onRemoveGroup''),
      (''onRemoveGroupResponse'', ''.onRemoveGroupResponse''), (''onRemoveAllGroups'', ''.onRemoveAllGroups''),
      (''onAddGroupIfIdentifying'', ''.onAddGroupIfIdentifying'')]"

definition ClusterGroupsServer :: generated_class where
  "ClusterGroupsServer =
     \<lparr>cc_class = ''ClusterGroupsServer'', cc_CLUSTER_NAME = ''GROUPS_CLUSTER'', cc_CLUSTER_ID = 0x0004,
      cc_Command = ClusterGroupsServer_Command, cc_Attribute = ClusterGroupsServer_Attribute,
      cc_templates = ClusterGroupsServer_templates, cc_attributes = ClusterGroupsServer_attributes,
      cc_cases = ClusterGroupsServer_cases, cc_handlers = ClusterGroupsServer_handlers\<rparr>"

lemmas ClusterGroupsServer_defs = ClusterGroupsServer_Command_def ClusterGroupsServer_Attribute_def ClusterGroupsServer_cases_def
  ClusterGroupsServer_templates_def ClusterGroupsServer_attributes_def ClusterGroupsServer_handlers_def
  ClusterGroupsServer_def

lemma ClusterGroupsServer_ok: "class_ok ClusterGroupsServer"
  by (simp add: class_ok_def field_ok_def ClusterGroupsServer_defs ro_attribute_def)

lemma ClusterGroupsServer_ids: "cc_class ClusterGroupsServer = ''ClusterGroupsServer''" "cc_CLUSTER_ID ClusterGroupsServer = 0x0004" "distinct (map snd (cc_Command ClusterGroupsServer)) \<longleftrightarrow> False"
  by (simp_all add: ClusterGroupsServer_def ClusterGroupsServer_Command_def)

section \<open>\<open>ClusterIasZoneServer\<close>\<close>

definition ClusterIasZoneServer_Command :: "(string \<times> int) list" where
  "ClusterIasZoneServer_Command =
     [(''ZoneEnrollResponse'', 0), (''ZoneStatusChangeNotification'', 0), (''InitiateNormalOperationMode'', 1), (''ZoneEnrollRequest'', 1),
      (''InitiateTestMode'', 2), (''InitiateNormalOperationModeResponse'', 2), (''InitiateTestModeResponse'', 3)]"

definition ClusterIasZoneServer_Attribute :: "(string \<times> int) list" where
  "ClusterIasZoneServer_Attribute =
     [(''ZoneState'', 0), (''ZoneType'', 1), (''ZoneStatus'', 2), (''IasCieAddress'', 16), (''ZoneId'', 17),
      (''NumberOfZoneSensitivityLevelsSupported'', 18), (''CurrentZoneSensitivityLevel'', 19), (''GeneratedCommandList'', 65528),
      (''AcceptedCommandList'', 65529), (''AttributeList'', 65531), (''FeatureMap'', 65532), (''ClusterRevision'', 65533)]"

definition ClusterIasZoneServer_templates :: "(string \<times> template_field list) list" where
  "ClusterIasZoneServer_templates =
     [(''ZoneEnrollResponse'', [(0, ''uint8_t'', Some ''EnrollResponseCode''), (1, ''uint8_t'', Some ''ZoneId'')]),
      (''ZoneStatusChangeNotification'', [(0, ''uint16_t'', Some ''ZoneStatus''), (1, ''uint8_t'', Some ''ExtendedStatus''), (2, ''uint8_t'', Some ''ZoneId''),
         (3, ''uint16_t'', Some ''Delay'')]),
      (''InitiateNormalOperationMode'', []),
      (''ZoneEnrollRequest'', [(0, ''uint16_t'', Some ''ZoneType''), (1, ''uint16_t'', Some ''ManufacturerCode'')]),
      (''InitiateTestMode'', [(0, ''uint8_t'', Some ''TestModeDuration''), (1, ''uint8_t'', Some ''CurrentZoneSensitivityLevel'')]),
      (''InitiateNormalOperationModeResponse'', []), (''InitiateTestModeResponse'', [])]"

definition ClusterIasZoneServer_attributes :: "(prop_key \<times> attribute) list" where
  "ClusterIasZoneServer_attributes =
     [(IntKey 0, ro_attribute ''ZoneState'' ''enum8'' False JUndef), (IntKey 1, ro_attribute ''ZoneType'' ''enum16'' False JUndef),
      (IntKey 2, ro_attribute ''ZoneStatus'' ''bitmap16'' False JUndef), (IntKey 16, ro_attribute ''IasCieAddress'' ''node_id'' False JUndef),
      (IntKey 17, ro_attribute ''ZoneId'' ''int8u'' False JUndef),
      (IntKey 18, ro_attribute ''NumberOfZoneSensitivityLevelsSupported'' ''int8u'' False JUndef),
      (IntKey 19, ro_attribute ''CurrentZoneSensitivityLevel'' ''int8u'' False JUndef),
      (IntKey 65528, ro_attribute ''GeneratedCommandList'' ''array'' False JUndef),
      (IntKey 65529, ro_attribute ''AcceptedCommandList'' ''array'' False JUndef),
      (IntKey 65531, ro_attribute ''AttributeList'' ''array'' False JUndef), (IntKey 65532, ro_attribute ''FeatureMap'' ''bitmap32'' False JUndef),
      (IntKey 65533, ro_attribute ''ClusterRevision'' ''int16u'' False JUndef)]"

definition ClusterIasZoneServer_cases :: "(string \<times> string) list" where
  "ClusterIasZoneServer_cases =
     [(''ZoneEnrollResponse'', ''onZoneEnrollResponse''), (''ZoneStatusChangeNotification'', ''onZoneStatusChangeNotification''),
      (''InitiateNormalOperationMode'', ''onInitiateNormalOperationMode''), (''ZoneEnrollRequest'', ''onZoneEnrollRequest''),
      (''InitiateTestMode'', ''onInitiateTestMode''), (''InitiateNormalOperationModeResponse'', ''onInitiateNormalOperationModeResponse''),
      (''InitiateTestModeResponse'', ''onInitiateTestModeResponse'')]"

definition ClusterIasZoneServer_handlers :: "(string \<times> string) list" where
  "ClusterIasZoneServer_handlers =
     [(''onZoneEnrollResponse'', ''.onZoneEnrollResponse''), (''onZoneStatusChangeNotification'', ''.onZoneStatusChangeNotification''),
      (''onInitiateNormalOperationMode'', ''.onInitiateNormalOperationMode''), (''onZoneEnrollRequest'', ''.onZoneEnrollRequest''),
      (''onInitiateTestMode'', ''.onInitiateTestMode''), (''onInitiateNormalOperationModeResponse'', ''.onInitiateNormalOperationModeResponse''),
      (''onInitiateTestModeResponse'', ''.onInitiateTestModeResponse'')]"

definition ClusterIasZoneServer :: generated_class where
  "ClusterIasZoneServer =
     \<lparr>cc_class = ''ClusterIasZoneServer'', cc_CLUSTER_NAME = ''IAS_ZONE_CLUSTER'', cc_CLUSTER_ID = 0x0500,
      cc_Command = ClusterIasZoneServer_Command, cc_Attribute = ClusterIasZoneServer_Attribute,
      cc_templates = ClusterIasZoneServer_templates, cc_attributes = ClusterIasZoneServer_attributes,
      cc_cases = ClusterIasZoneServer_cases, cc_handlers = ClusterIasZoneServer_handlers\<rparr>"

lemmas ClusterIasZoneServer_defs = ClusterIasZoneServer_Command_def ClusterIasZoneServer_Attribute_def ClusterIasZoneServer_cases_def
  ClusterIasZoneServer_templates_def ClusterIasZoneServer_attributes_def ClusterIasZoneServer_handlers_def
  ClusterIasZoneServer_def

lemma ClusterIasZoneServer_ok: "class_ok ClusterIasZoneServer"
  by (simp add: class_ok_def field_ok_def ClusterIasZoneServer_defs ro_attribute_def)

lemma ClusterIasZoneServer_ids: "cc_class ClusterIasZoneServer = ''ClusterIasZoneServer''" "cc_CLUSTER_ID ClusterIasZoneServer = 0x0500" "distinct (map snd (cc_Command ClusterIasZoneServer)) \<longleftrightarrow> False"
  by (simp_all add: ClusterIasZoneServer_def ClusterIasZoneServer_Command_def)

section \<open>\<open>ClusterIdentifyServer\<close>\<close>

definition ClusterIdentifyServer_Command :: "(string \<times> int) list" where
  "ClusterIdentifyServer_Command =
     [(''Identify'', 0), (''IdentifyQueryResponse'', 0), (''IdentifyQuery'', 1), (''TriggerEffect'', 64)]"

definition ClusterIdentifyServer_Attribute :: "(string \<times> int) list" where
  "ClusterIdentifyServer_Attribute =
     [(''IdentifyTime'', 0), (''IdentifyType'', 1), (''GeneratedCommandList'', 65528), (''AcceptedCommandList'', 65529), (''AttributeList'', 65531),
      (''FeatureMap'', 65532), (''ClusterRevision'', 65533)]"

definition ClusterIdentifyServer_templates :: "(string \<times> template_field list) list" where
  "ClusterIdentifyServer_templates =
     [(''Identify'', [(0, ''uint16_t'', Some ''IdentifyTime'')]), (''IdentifyQueryResponse'', [(0, ''uint16_t'', Some ''Timeout'')]),
      (''IdentifyQuery'', []), (''TriggerEffect'', [(0, ''uint8_t'', Some ''EffectIdentifier''), (1, ''uint8_t'', Some ''EffectVariant'')])]"

definition ClusterIdentifyServer_attributes :: "(prop_key \<times> attribute) list" where
  "ClusterIdentifyServer_attributes =
     [(IntKey 0, ro_attribute ''IdentifyTime'' ''int16u'' False JUndef), (IntKey 1, ro_attribute ''IdentifyType'' ''enum8'' False JUndef),
      (IntKey 65528, ro_attribute ''GeneratedCommandList'' ''array'' False JUndef),
      (IntKey 65529, ro_attribute ''AcceptedCommandList'' ''array'' False JUndef),
      (IntKey 65531, ro_attribute ''AttributeList'' ''array'' False JUndef), (IntKey 65532, ro_attribute ''FeatureMap'' ''bitmap32'' False JUndef),
      (IntKey 65533, ro_attribute ''ClusterRevision'' ''int16u'' False JUndef)]"

definition ClusterIdentifyServer_cases :: "(string \<times> string) list" where
  "ClusterIdentifyServer_cases =
     [(''Identify'', ''onIdentify''), (''IdentifyQueryResponse'', ''onIdentifyQueryResponse''), (''IdentifyQuery'', ''onIdentifyQuery''),
      (''TriggerEffect'', ''onTriggerEffect'')]"

definition ClusterIdentifyServer_handlers :: "(string \<times> string) list" where
  "ClusterIdentifyServer_handlers =
     [(''onIdentify'', ''.onIdentify''), (''onIdentifyQueryResponse'', ''.onIdentifyQueryResponse''), (''onIdentifyQuery'', ''.onIdentifyQuery''),
      (''onTriggerEffect'', ''.onTriggerEffect'')]"

definition ClusterIdentifyServer :: generated_class where
  "ClusterIdentifyServer =
     \<lparr>cc_class = ''ClusterIdentifyServer'', cc_CLUSTER_NAME = ''IDENTIFY_CLUSTER'', cc_CLUSTER_ID = 0x0003,
      cc_Command = ClusterIdentifyServer_Command, cc_Attribute = ClusterIdentifyServer_Attribute,
      cc_templates = ClusterIdentifyServer_templates, cc_attributes = ClusterIdentifyServer_attributes,
      cc_cases = ClusterIdentifyServer_cases, cc_handlers = ClusterIdentifyServer_handlers\<rparr>"

lemmas ClusterIdentifyServer_defs = ClusterIdentifyServer_Command_def ClusterIdentifyServer_Attribute_def ClusterIdentifyServer_cases_def
  ClusterIdentifyServer_templates_def ClusterIdentifyServer_attributes_def ClusterIdentifyServer_handlers_def
  ClusterIdentifyServer_def

lemma ClusterIdentifyServer_ok: "class_ok ClusterIdentifyServer"
  by (simp add: class_ok_def field_ok_def ClusterIdentifyServer_defs ro_attribute_def)

lemma ClusterIdentifyServer_ids: "cc_class ClusterIdentifyServer = ''ClusterIdentifyServer''" "cc_CLUSTER_ID ClusterIdentifyServer = 0x0003" "distinct (map snd (cc_Command ClusterIdentifyServer)) \<longleftrightarrow> False"
  by (simp_all add: ClusterIdentifyServer_def ClusterIdentifyServer_Command_def)

section \<open>\<open>ClusterIlluminanceMeasurementServer\<close>\<close>

definition ClusterIlluminanceMeasurementServer_Command :: "(string \<times> int) list" where "ClusterIlluminanceMeasurementServer_Command = []"

definition ClusterIlluminanceMeasurementServer_Attribute :: "(string \<times> int) list" where
  "ClusterIlluminanceMeasurementServer_Attribute =
     [(''MeasuredValue'', 0), (''MinMeasuredValue'', 1), (''MaxMeasuredValue'', 2), (''Tolerance'', 3), (''LightSensorType'', 4),
      (''GeneratedCommandList'', 65528), (''AcceptedCommandList'', 65529), (''AttributeList'', 65531), (''FeatureMap'', 65532),
      (''ClusterRevision'', 65533)]"

definition ClusterIlluminanceMeasurementServer_attributes :: "(prop_key \<times> attribute) list" where
  "ClusterIlluminanceMeasurementServer_attributes =
     [(IntKey 0, ro_attribute ''MeasuredValue'' ''int16u'' True JUndef), (IntKey 1, ro_attribute ''MinMeasuredValue'' ''int16u'' True JUndef),
      (IntKey 2, ro_attribute ''MaxMeasuredValue'' ''int16u'' True JUndef), (IntKey 3, ro_attribute ''Tolerance'' ''int16u'' False JUndef),
      (IntKey 4, ro_attribute ''LightSensorType'' ''enum8'' True JUndef),
      (IntKey 65528, ro_attribute ''GeneratedCommandList'' ''array'' False JUndef),
      (IntKey 65529, ro_attribute ''AcceptedCommandList'' ''array'' False JUndef),
      (IntKey 65531, ro_attribute ''AttributeList'' ''array'' False JUndef), (IntKey 65532, ro_attribute ''FeatureMap'' ''bitmap32'' False JUndef),
      (IntKey 65533, ro_attribute ''ClusterRevision'' ''int16u'' False JUndef)]"

definition ClusterIlluminanceMeasurementServer_cases :: "(string \<times> string) list" where "ClusterIlluminanceMeasurementServer_cases = []"

definition ClusterIlluminanceMeasurementServer :: generated_class where
  "ClusterIlluminanceMeasurementServer =
     \<lparr>cc_class = ''ClusterIlluminanceMeasurementServer'', cc_CLUSTER_NAME = ''ILLUMINANCE_MEASUREMENT_CLUSTER'', cc_CLUSTER_ID = 0x0400,
      cc_Command = ClusterIlluminanceMeasurementServer_Command, cc_Attribute = ClusterIlluminanceMeasurementServer_Attribute,
      cc_templates = [], cc_attributes = ClusterIlluminanceMeasurementServer_attributes,
      cc_cases = ClusterIlluminanceMeasurementServer_cases, cc_handlers = []\<rparr>"

lemmas ClusterIlluminanceMeasurementServer_defs = ClusterIlluminanceMeasurementServer_Command_def ClusterIlluminanceMeasurementServer_Attribute_def
  ClusterIlluminanceMeasurementServer_cases_def ClusterIlluminanceMeasurementServer_attributes_def
  ClusterIlluminanceMeasurementServer_def

lemma ClusterIlluminanceMeasurementServer_ok: "class_ok ClusterIlluminanceMeasurementServer"
  by (simp add: class_ok_def field_ok_def ClusterIlluminanceMeasurementServer_defs ro_attribute_def)

lemma ClusterIlluminanceMeasurementServer_ids: "cc_class ClusterIlluminanceMeasurementServer = ''ClusterIlluminanceMeasurementServer''" "cc_CLUSTER_ID ClusterIlluminanceMeasurementServer = 0x0400" "distinct (map snd (cc_Command ClusterIlluminanceMeasurementServer)) \<longleftrightarrow> True"
  by (simp_all add: ClusterIlluminanceMeasurementServer_def ClusterIlluminanceMeasurementServer_Command_def)

section \<open>\<open>ClusterKeypadInputServer\<close>\<close>

definition ClusterKeypadInputServer_Command :: "(string \<times> int) list" where
  "ClusterKeypadInputServer_Command =
     [(''SendKey'', 0), (''SendKeyResponse'', 1)]"

definition ClusterKeypadInputServer_Attribute :: "(string \<times> int) list" where
  "ClusterKeypadInputServer_Attribute =
     [(''GeneratedCommandList'', 65528), (''AcceptedCommandList'', 65529), (''AttributeList'', 65531), (''FeatureMap'', 65532),
      (''ClusterRevision'', 65533)]"

definition ClusterKeypadInputServer_templates :: "(string \<times> template_field list) list" where
  "ClusterKeypadInputServer_templates =
     [(''SendKey'', [(0, ''uint8_t'', Some ''KeyCode'')]), (''SendKeyResponse'', [(0, ''uint8_t'', Some ''Status'')])]"

definition ClusterKeypadInputServer_attributes :: "(prop_key \<times> attribute) list" where
  "ClusterKeypadInputServer_attributes =
     [(IntKey 65528, ro_attribute ''GeneratedCommandList'' ''array'' False JUndef),
      (IntKey 65529, ro_attribute ''AcceptedCommandList'' ''array'' False JUndef),
      (IntKey 65531, ro_attribute ''AttributeList'' ''array'' False JUndef), (IntKey 65532, ro_attribute ''FeatureMap'' ''bitmap32'' False JUndef),
      (IntKey 65533, ro_attribute ''ClusterRevision'' ''int16u'' False JUndef)]"

definition ClusterKeypadInputServer_cases :: "(string \<times> string) list" where
  "ClusterKeypadInputServer_cases =
     [(''SendKey'', ''onSendKey''), (''SendKeyResponse'', ''onSendKeyResponse'')]"

definition ClusterKeypadInputServer_handlers :: "(string \<times> string) list" where
  "ClusterKeypadInputServer_handlers =
     [(''onSendKey'', ''.onSendKey''), (''onSendKeyResponse'', ''.onSendKeyResponse'')]"

definition ClusterKeypadInputServer :: generated_class where
  "ClusterKeypadInputServer =
     \<lparr>cc_class = ''ClusterKeypadInputServer'', cc_CLUSTER_NAME = ''KEYPAD_INPUT_CLUSTER'', cc_CLUSTER_ID = 0x0509,
      cc_Command = ClusterKeypadInputServer_Command, cc_Attribute = ClusterKeypadInputServer_Attribute,
      cc_templates = ClusterKeypadInputServer_templates, cc_attributes = ClusterKeypadInputServer_attributes,
      cc_cases = ClusterKeypadInputServer_cases, cc_handlers = ClusterKeypadInputServer_handlers\<rparr>"

lemmas ClusterKeypadInputServer_defs = ClusterKeypadInputServer_Command_def ClusterKeypadInputServer_Attribute_def ClusterKeypadInputServer_cases_def
  ClusterKeypadInputServer_templates_def ClusterKeypadInputServer_attributes_def
  ClusterKeypadInputServer_handlers_def ClusterKeypadInputServer_def

lemma ClusterKeypadInputServer_ok: "class_ok ClusterKeypadInputServer"
  by (simp add: class_ok_def field_ok_def ClusterKeypadInputServer_defs ro_attribute_def)

lemma ClusterKeypadInputServer_ids: "cc_class ClusterKeypadInputServer = ''ClusterKeypadInputServer''" "cc_CLUSTER_ID ClusterKeypadInputServer = 0x0509" "distinct (map snd (cc_Command ClusterKeypadInputServer)) \<longleftrightarrow> True"
  by (simp_all add: ClusterKeypadInputServer_def ClusterKeypadInputServer_Command_def)

section \<open>\<open>ClusterLevelControlServer\<close>\<close>

definition ClusterLevelControlServer_Command :: "(string \<times> int) list" where
  "ClusterLevelControlServer_Command =
     [(''MoveToLevel'', 0), (''Move'', 1), (''Step'', 2), (''Stop'', 3), (''MoveToLevelWithOnOff'', 4), (''MoveWithOnOff'', 5),
      (''StepWithOnOff'', 6), (''StopWithOnOff'', 7)]"

definition ClusterLevelControlServer_Attribute :: "(string \<times> int) list" where
  "ClusterLevelControlServer_Attribute =
     [(''CurrentLevel'', 0), (''RemainingTime'', 1), (''MinLevel'', 2), (''MaxLevel'', 3), (''CurrentFrequency'', 4), (''MinFrequency'', 5),
      (''MaxFrequency'', 6), (''Options'', 15), (''OnOffTransitionTime'', 16), (''OnLevel'', 17), (''OnTransitionTime'', 18),
      (''OffTransitionTime'', 19), (''DefaultMoveRate'', 20), (''StartUpCurrentLevel'', 16384), (''GeneratedCommandList'', 65528),
      (''AcceptedCommandList'', 65529), (''AttributeList'', 65531), (''FeatureMap'', 65532), (''ClusterRevision'', 65533)]"

definition ClusterLevelControlServer_templates :: "(string \<times> template_field list) list" where
  "ClusterLevelControlServer_templates =
     [(''MoveToLevel'', [(0, ''uint8_t'', Some ''Level''), (1, ''uint16_t'', Some ''TransitionTime''), (2, ''uint8_t'', Some ''OptionMask''),
         (3, ''uint8_t'', Some ''OptionOverride'')]),
      (''Move'', [(0, ''uint8_t'', Some ''MoveMode''), (1, ''uint8_t'', Some ''Rate''), (2, ''uint8_t'', Some ''OptionMask''),
         (3, ''uint8_t'', Some ''OptionOverride'')]),
      (''Step'', [(0, ''uint8_t'', Some ''StepMode''), (1, ''uint8_t'', Some ''StepSize''), (2, ''uint16_t'', Some ''TransitionTime''),
         (3, ''uint8_t'', Some ''OptionMask''), (4, ''uint8_t'', Some ''OptionOverride'')]),
      (''Stop'', [(0, ''uint8_t'', Some ''OptionMask''), (1, ''uint8_t'', Some ''OptionOverride'')]),
      (''MoveToLevelWithOnOff'', [(0, ''uint8_t'', Some ''Level''), (1, ''uint16_t'', Some ''TransitionTime'')]),
      (''MoveWithOnOff'', [(0, ''uint8_t'', Some ''MoveMode''), (1, ''uint8_t'', Some ''Rate'')]),
      (''StepWithOnOff'', [(0, ''uint8_t'', Some ''StepMode''), (1, ''uint8_t'', Some ''StepSize''), (2, ''uint16_t'', Some ''TransitionTime'')]),
      (''StopWithOnOff'', [])]"

definition ClusterLevelControlServer_attributes :: "(prop_key \<times> attribute) list" where
  "ClusterLevelControlServer_attributes =
     [(IntKey 0, ro_attribute ''CurrentLevel'' ''int8u'' False JUndef), (IntKey 1, ro_attribute ''RemainingTime'' ''int16u'' False JUndef),
      (IntKey 2, ro_attribute ''MinLevel'' ''int8u'' False JUndef), (IntKey 3, ro_attribute ''MaxLevel'' ''int8u'' False JUndef),
      (IntKey 4, ro_attribute ''CurrentFrequency'' ''int16u'' False JUndef), (IntKey 5, ro_attribute ''MinFrequency'' ''int16u'' False JUndef),
      (IntKey 6, ro_attribute ''MaxFrequency'' ''int16u'' False JUndef), (IntKey 15, ro_attribute ''Options'' ''bitmap8'' False JUndef),
      (IntKey 16, ro_attribute ''OnOffTransitionTime'' ''int16u'' False JUndef), (IntKey 17, ro_attribute ''OnLevel'' ''int8u'' True JUndef),
      (IntKey 18, ro_attribute ''OnTransitionTime'' ''int16u'' True JUndef), (IntKey 19, ro_attribute ''OffTransitionTime'' ''int16u'' True JUndef),
      (IntKey 20, ro_attribute ''DefaultMoveRate'' ''int8u'' True JUndef), (IntKey 16384, ro_attribute ''StartUpCurrentLevel'' ''int8u'' True JUndef),
      (IntKey 65528, ro_attribute ''GeneratedCommandList'' ''array'' False JUndef),
      (IntKey 65529, ro_attribute ''AcceptedCommandList'' ''array'' False JUndef),
      (IntKey 65531, ro_attribute ''AttributeList'' ''array'' False JUndef), (IntKey 65532, ro_attribute ''FeatureMap'' ''bitmap32'' False JUndef),
      (IntKey 65533, ro_attribute ''ClusterRevision'' ''int16u'' False JUndef)]"

definition ClusterLevelControlServer_cases :: "(string \<times> string) list" where
  "ClusterLevelControlServer_cases =
     [(''MoveToLevel'', ''onMoveToLevel''), (''Move'', ''onMove''), (''Step'', ''onStep''), (''Stop'', ''onStop''),
      (''MoveToLevelWithOnOff'', ''onMoveToLevelWithOnOff''), (''MoveWithOnOff'', ''onMoveWithOnOff''), (''StepWithOnOff'', ''onStepWithOnOff''),
      (''StopWithOnOff'', ''onStopWithOnOff'')]"

definition ClusterLevelControlServer_handlers :: "(string \<times> string) list" where
  "ClusterLevelControlServer_handlers =
     [(''onMoveToLevel'', ''.onMoveToLevel''), (''onMove'', ''.onMove''), (''onStep'', ''.onStep''), (''onStop'', ''.onStop''),
      (''onMoveToLevelWithOnOff'', ''.onMoveToLevelWithOnOff''), (''onMoveWithOnOff'', ''.onMoveWithOnOff''),
      (''onStepWithOnOff'', ''.onStepWithOnOff''), (''onStopWithOnOff'', ''.onStopWithOnOff'')]"

definition ClusterLevelControlServer :: generated_class where
  "ClusterLevelControlServer =
     \<lparr>cc_class = ''ClusterLevelControlServer'', cc_CLUSTER_NAME = ''LEVEL_CONTROL_CLUSTER'', cc_CLUSTER_ID = 0x0008,
      cc_Command = ClusterLevelControlServer_Command, cc_Attribute = ClusterLevelControlServer_Attribute,
      cc_templates = ClusterLevelControlServer_templates, cc_attributes = ClusterLevelControlServer_attributes,
      cc_cases = ClusterLevelControlServer_cases, cc_handlers = ClusterLevelControlServer_handlers\<rparr>"

lemmas ClusterLevelControlServer_defs = ClusterLevelControlServer_Command_def ClusterLevelControlServer_Attribute_def ClusterLevelControlServer_cases_def
  ClusterLevelControlServer_templates_def ClusterLevelControlServer_attributes_def
  ClusterLevelControlServer_handlers_def ClusterLevelControlServer_def

lemma ClusterLevelControlServer_ok: "class_ok ClusterLevelControlServer"
  by (simp add: class_ok_def field_ok_def ClusterLevelControlServer_defs ro_attribute_def)

lemma ClusterLevelControlServer_ids: "cc_class ClusterLevelControlServer = ''ClusterLevelControlServer''" "cc_CLUSTER_ID ClusterLevelControlServer = 0x0008" "distinct (map snd (cc_Command ClusterLevelControlServer)) \<longleftrightarrow> True"
  by (simp_all add: ClusterLevelControlServer_def ClusterLevelControlServer_Command_def)

end
