(* ===== verification/Generated_Clusters_3.thy ===== *)
theory Generated_Clusters_3
  imports Cluster_Class
begin

text \<open>
  \<open>zzz_generated/Clusters.js\<close>, lines 7924 to 11649. Every descriptor has \<open>"nosubscribe": true, "readonly": true\<close>
  and no \<open>"value"\<close>.
\<close>

section \<open>\<open>ClusterLocalizationConfigurationServer\<close>\<close>

definition ClusterLocalizationConfigurationServer_Command :: "(string \<times> int) list" where "ClusterLocalizationConfigurationServer_Command = []"

definition ClusterLocalizationConfigurationServer_Attribute :: "(string \<times> int) list" where
  "ClusterLocalizationConfigurationServer_Attribute =
     [(''ActiveLocale'', 1), (''SupportedLocales'', 2), (''GeneratedCommandList'', 65528), (''AcceptedCommandList'', 65529),
      (''AttributeList'', 65531), (''FeatureMap'', 65532), (''ClusterRevision'', 65533)]"

definition ClusterLocalizationConfigurationServer_attributes :: "(prop_key \<times> attribute) list" where
  "ClusterLocalizationConfigurationServer_attributes =
     [(IntKey 1, ro_attribute ''ActiveLocale'' ''char_string'' False JUndef), (IntKey 2, ro_attribute ''SupportedLocales'' ''array'' False JUndef),
      (IntKey 65528, ro_attribute ''GeneratedCommandList'' ''array'' False JUndef),
      (IntKey 65529, ro_attribute ''AcceptedCommandList'' ''array'' False JUndef),
      (IntKey 65531, ro_attribute ''AttributeList'' ''array'' False JUndef), (IntKey 65532, ro_attribute ''FeatureMap'' ''bitmap32'' False JUndef),
      (IntKey 65533, ro_attribute ''ClusterRevision'' ''int16u'' False JUndef)]"

definition ClusterLocalizationConfigurationServer_cases :: "(string \<times> string) list" where "ClusterLocalizationConfigurationServer_cases = []"

definition ClusterLocalizationConfigurationServer :: generated_class where
  "ClusterLocalizationConfigurationServer =
     \<lparr>cc_class = ''ClusterLocalizationConfigurationServer'', cc_CLUSTER_NAME = ''LOCALIZATION_CONFIGURATION_CLUSTER'', cc_CLUSTER_ID = 0x002B,
      cc_Command = ClusterLocalizationConfigurationServer_Command, cc_Attribute = ClusterLocalizationConfigurationServer_Attribute,
      cc_templates = [], cc_attributes = ClusterLocalizationConfigurationServer_attributes,
      cc_cases = ClusterLocalizationConfigurationServer_cases, cc_handlers = []\<rparr>"

lemmas ClusterLocalizationConfigurationServer_defs = ClusterLocalizationConfigurationServer_Command_def ClusterLocalizationConfigurationServer_Attribute_def
  ClusterLocalizationConfigurationServer_cases_def ClusterLocalizationConfigurationServer_attributes_def
  ClusterLocalizationConfigurationServer_def

lemma ClusterLocalizationConfigurationServer_ok: "class_ok ClusterLocalizationConfigurationServer"
  by (simp add: class_ok_def field_ok_def ClusterLocalizationConfigurationServer_defs ro_attribute_def)

lemma ClusterLocalizationConfigurationServer_ids: "cc_class ClusterLocalizationConfigurationServer = ''ClusterLocalizationConfigurationServer''" "cc_CLUSTER_ID ClusterLocalizationConfigurationServer = 0x002B" "distinct (map snd (cc_Command ClusterLocalizationConfigurationServer)) \<longleftrightarrow> True"
  by (simp_all add: ClusterLocalizationConfigurationServer_def ClusterLocalizationConfigurationServer_Command_def)

section \<open>\<open>ClusterLowPowerServer\<close>\<close>

definition ClusterLowPowerServer_Command :: "(string \<times> int) list" where
  "ClusterLowPowerServer_Command =
     [(''Sleep'', 0)]"

definition ClusterLowPowerServer_Attribute :: "(string \<times> int) list" where
  "ClusterLowPowerServer_Attribute =
     [(''GeneratedCommandList'', 65528), (''AcceptedCommandList'', 65529), (''AttributeList'', 65531), (''FeatureMap'', 65532),
      (''ClusterRevision'', 65533)]"

definition ClusterLowPowerServer_templates :: "(string \<times> template_field list) list" where
  "ClusterLowPowerServer_templates =
     [(''Sleep'', [])]"

definition ClusterLowPowerServer_attributes :: "(prop_key \<times> attribute) list" where
  "ClusterLowPowerServer_attributes =
     [(IntKey 65528, ro_attribute ''GeneratedCommandList'' ''array'' False JUndef),
      (IntKey 65529, ro_attribute ''AcceptedCommandList'' ''array'' False JUndef),
      (IntKey 65531, ro_attribute ''AttributeList'' ''array'' False JUndef), (IntKey 65532, ro_attribute ''FeatureMap'' ''bitmap32'' False JUndef),
      (IntKey 65533, ro_attribute ''ClusterRevision'' ''int16u'' False JUndef)]"

definition ClusterLowPowerServer_cases :: "(string \<times> string) list" where
  "ClusterLowPowerServer_cases =
     [(''Sleep'', ''onSleep'')]"

definition ClusterLowPowerServer_handlers :: "(string \<times> string) list" where
  "ClusterLowPowerServer_handlers =
     [(''onSleep'', ''.onSleep'')]"

definition ClusterLowPowerServer :: generated_class where
  "ClusterLowPowerServer =
     \<lparr>cc_class = ''ClusterLowPowerServer'', cc_CLUSTER_NAME = ''LOW_POWER_CLUSTER'', cc_CLUSTER_ID = 0x0508,
      cc_Command = ClusterLowPowerServer_Command, cc_Attribute = ClusterLowPowerServer_Attribute,
      cc_templates = ClusterLowPowerServer_templates, cc_attributes = ClusterLowPowerServer_attributes,
      cc_cases = ClusterLowPowerServer_cases, cc_handlers = ClusterLowPowerServer_handlers\<rparr>"

lemmas ClusterLowPowerServer_defs = ClusterLowPowerServer_Command_def ClusterLowPowerServer_Attribute_def ClusterLowPowerServer_cases_def
  ClusterLowPowerServer_templates_def ClusterLowPowerServer_attributes_def ClusterLowPowerServer_handlers_def
  ClusterLowPowerServer_def

lemma ClusterLowPowerServer_ok: "class_ok ClusterLowPowerServer"
  by (simp add: class_ok_def field_ok_def ClusterLowPowerServer_defs ro_attribute_def)

lemma ClusterLowPowerServer_ids: "cc_class ClusterLowPowerServer = ''ClusterLowPowerServer''" "cc_CLUSTER_ID ClusterLowPowerServer = 0x0508" "distinct (map snd (cc_Command ClusterLowPowerServer)) \<longleftrightarrow> True"
  by (simp_all add: ClusterLowPowerServer_def ClusterLowPowerServer_Command_def)

section \<open>\<open>ClusterMediaInputServer\<close>\<close>

definition ClusterMediaInputServer_Command :: "(string \<times> int) list" where
  "ClusterMediaInputServer_Command =
     [(''SelectInput'', 0), (''ShowInputStatus'', 1), (''HideInputStatus'', 2), (''RenameInput'', 3)]"

definition ClusterMediaInputServer_Attribute :: "(string \<times> int) list" where
  "ClusterMediaInputServer_Attribute =
     [(''InputList'', 0), (''CurrentInput'', 1), (''GeneratedCommandList'', 65528), (''AcceptedCommandList'', 65529), (''AttributeList'', 65531),
      (''FeatureMap'', 65532), (''ClusterRevision'', 65533)]"

definition ClusterMediaInputServer_templates :: "(string \<times> template_field list) list" where
  "ClusterMediaInputServer_templates =
     [(''SelectInput'', [(0, ''uint8_t'', Some ''Index'')]), (''ShowInputStatus'', []), (''HideInputStatus'', []),
      (''RenameInput'', [(0, ''uint8_t'', Some ''Index''), (1, ''chip::CharSpan'', Some ''Name'')])]"

definition ClusterMediaInputServer_attributes :: "(prop_key \<times> attribute) list" where
  "ClusterMediaInputServer_attributes =
     [(IntKey 0, ro_attribute ''InputList'' ''array'' False JUndef), (IntKey 1, ro_attribute ''CurrentInput'' ''int8u'' False JUndef),
      (IntKey 65528, ro_attribute ''GeneratedCommandList'' ''array'' False JUndef),
      (IntKey 65529, ro_attribute ''AcceptedCommandList'' ''array'' False JUndef),
      (IntKey 65531, ro_attribute ''AttributeList'' ''array'' False JUndef), (IntKey 65532, ro_attribute ''FeatureMap'' ''bitmap32'' False JUndef),
      (IntKey 65533, ro_attribute ''ClusterRevision'' ''int16u'' False JUndef)]"

definition ClusterMediaInputServer_cases :: "(string \<times> string) list" where
  "ClusterMediaInputServer_cases =
     [(''SelectInput'', ''onSelectInput''), (''ShowInputStatus'', ''onShowInputStatus''), (''HideInputStatus'', ''onHideInputStatus''),
      (''RenameInput'', ''onRenameInput'')]"

definition ClusterMediaInputServer_handlers :: "(string \<times> string) list" where
  "ClusterMediaInputServer_handlers =
     [(''onSelectInput'', ''.onSelectInput''), (''onShowInputStatus'', ''.onShowInputStatus''), (''onHideInputStatus'', ''.onHideInputStatus''),
      (''onRenameInput'', ''.onRenameInput'')]"

definition ClusterMediaInputServer :: generated_class where
  "ClusterMediaInputServer =
     \<lparr>cc_class = ''ClusterMediaInputServer'', cc_CLUSTER_NAME = ''MEDIA_INPUT_CLUSTER'', cc_CLUSTER_ID = 0x0507,
      cc_Command = ClusterMediaInputServer_Command, cc_Attribute = ClusterMediaInputServer_Attribute,
      cc_templates = ClusterMediaInputServer_templates, cc_attributes = ClusterMediaInputServer_attributes,
      cc_cases = ClusterMediaInputServer_cases, cc_handlers = ClusterMediaInputServer_handlers\<rparr>"

lemmas ClusterMediaInputServer_defs = ClusterMediaInputServer_Command_def ClusterMediaInputServer_Attribute_def ClusterMediaInputServer_cases_def
  ClusterMediaInputServer_templates_def ClusterMediaInputServer_attributes_def ClusterMediaInputServer_handlers_def
  ClusterMediaInputServer_def

lemma ClusterMediaInputServer_ok: "class_ok ClusterMediaInputServer"
  by (simp add: class_ok_def field_ok_def ClusterMediaInputServer_defs ro_attribute_def)

lemma ClusterMediaInputServer_ids: "cc_class ClusterMediaInputServer = ''ClusterMediaInputServer''" "cc_CLUSTER_ID ClusterMediaInputServer = 0x0507" "distinct (map snd (cc_Command ClusterMediaInputServer)) \<longleftrightarrow> True"
  by (simp_all add: ClusterMediaInputServer_def ClusterMediaInputServer_Command_def)

section \<open>\<open>ClusterMediaPlaybackServer\<close>\<close>

definition ClusterMediaPlaybackServer_Command :: "(string \<times> int) list" where
  "ClusterMediaPlaybackServer_Command =
     [(''Play'', 0), (''Pause'', 1), (''StopPlayback'', 2), (''StartOver'', 3), (''Previous'', 4), (''Next'', 5), (''Rewind'', 6),
      (''FastForward'', 7), (''SkipForward'', 8), (''SkipBackward'', 9), (''PlaybackResponse'', 10), (''Seek'', 11)]"

definition ClusterMediaPlaybackServer_Attribute :: "(string \<times> int) list" where
  "ClusterMediaPlaybackServer_Attribute =
     [(''CurrentState'', 0), (''StartTime'', 1), (''Duration'', 2), (''SampledPosition'', 3), (''PlaybackSpeed'', 4), (''SeekRangeEnd'', 5),
      (''SeekRangeStart'', 6), (''GeneratedCommandList'', 65528), (''AcceptedCommandList'', 65529), (''AttributeList'', 65531),
      (''FeatureMap'', 65532), (''ClusterRevision'', 65533)]"

definition ClusterMediaPlaybackServer_templates :: "(string \<times> template_field list) list" where
  "ClusterMediaPlaybackServer_templates =
     [(''Play'', []), (''Pause'', []), (''StopPlayback'', []), (''StartOver'', []), (''Previous'', []), (''Next'', []), (''Rewind'', []),
      (''FastForward'', []), (''SkipForward'', [(0, ''uint64_t'', Some ''DeltaPositionMilliseconds'')]),
      (''SkipBackward'', [(0, ''uint64_t'', Some ''DeltaPositionMilliseconds'')]),
      (''PlaybackResponse'', [(0, ''uint8_t'', Some ''Status''), (1, ''chip::CharSpan'', Some ''Data'')]),
      (''Seek'', [(0, ''uint64_t'', Some ''Position'')])]"

definition ClusterMediaPlaybackServer_attributes :: "(prop_key \<times> attribute) list" where
  "ClusterMediaPlaybackServer_attributes =
     [(IntKey 0, ro_attribute ''CurrentState'' ''PlaybackStateEnum'' False JUndef), (IntKey 1, ro_attribute ''StartTime'' ''epoch_us'' True JUndef),
      (IntKey 2, ro_attribute ''Duration'' ''int64u'' True JUndef), (IntKey 3, ro_attribute ''SampledPosition'' ''PlaybackPosition'' True JUndef),
      (IntKey 4, ro_attribute ''PlaybackSpeed'' ''single'' False JUndef), (IntKey 5, ro_attribute ''SeekRangeEnd'' ''int64u'' True JUndef),
      (IntKey 6, ro_attribute ''SeekRangeStart'' ''int64u'' True JUndef),
      (IntKey 65528, ro_attribute ''GeneratedCommandList'' ''array'' False JUndef),
      (IntKey 65529, ro_attribute ''AcceptedCommandList'' ''array'' False JUndef),
      (IntKey 65531, ro_attribute ''AttributeList'' ''array'' False JUndef), (IntKey 65532, ro_attribute ''FeatureMap'' ''bitmap32'' False JUndef),
      (IntKey 65533, ro_attribute ''ClusterRevision'' ''int16u'' False JUndef)]"

definition ClusterMediaPlaybackServer_cases :: "(string \<times> string) list" where
  "ClusterMediaPlaybackServer_cases =
     [(''Play'', ''onPlay''), (''Pause'', ''onPause''), (''StopPlayback'', ''onStopPlayback''), (''StartOver'', ''onStartOver''),
      (''Previous'', ''onPrevious''), (''Next'', ''onNext''), (''Rewind'', ''onRewind''), (''FastForward'', ''onFastForward''),
      (''SkipForward'', ''onSkipForward''), (''SkipBackward'', ''onSkipBackward''), (''PlaybackResponse'', ''onPlaybackResponse''),
      (''Seek'', ''onSeek'')]"

definition ClusterMediaPlaybackServer_handlers :: "(string \<times> string) list" where
  "ClusterMediaPlaybackServer_handlers =
     [(''onPlay'', ''.onPlay''), (''onPause'', ''.onPause''), (''onStopPlayback'', ''.onStopPlayback''), (''onStartOver'', ''.onStartOver''),
      (''onPrevious'', ''.onPrevious''), (''onNext'', ''.onNext''), (''onRewind'', ''.onRewind''), (''onFastForward'', ''.onFastForward''),
      (''onSkipForward'', ''.onSkipForward''), (''onSkipBackward'', ''.onSkipBackward''), (''onPlaybackResponse'', ''.onPlaybackResponse''),
      (''onSeek'', ''.onSeek'')]"

definition ClusterMediaPlaybackServer :: generated_class where
  "ClusterMediaPlaybackServer =
     \<lparr>cc_class = ''ClusterMediaPlaybackServer'', cc_CLUSTER_NAME = ''MEDIA_PLAYBACK_CLUSTER'', cc_CLUSTER_ID = 0x0506,
      cc_Command = ClusterMediaPlaybackServer_Command, cc_Attribute = ClusterMediaPlaybackServer_Attribute,
      cc_templates = ClusterMediaPlaybackServer_templates, cc_attributes = ClusterMediaPlaybackServer_attributes,
      cc_cases = ClusterMediaPlaybackServer_cases, cc_handlers = ClusterMediaPlaybackServer_handlers\<rparr>"

lemmas ClusterMediaPlaybackServer_defs = ClusterMediaPlaybackServer_Command_def ClusterMediaPlaybackServer_Attribute_def
  ClusterMediaPlaybackServer_cases_def ClusterMediaPlaybackServer_templates_def
  ClusterMediaPlaybackServer_attributes_def ClusterMediaPlaybackServer_handlers_def ClusterMediaPlaybackServer_def

lemma ClusterMediaPlaybackServer_ok: "class_ok ClusterMediaPlaybackServer"
  by (simp add: class_ok_def field_ok_def ClusterMediaPlaybackServer_defs ro_attribute_def)

lemma ClusterMediaPlaybackServer_ids: "cc_class ClusterMediaPlaybackServer = ''ClusterMediaPlaybackServer''" "cc_CLUSTER_ID ClusterMediaPlaybackServer = 0x0506" "distinct (map snd (cc_Command ClusterMediaPlaybackServer)) \<longleftrightarrow> True"
  by (simp_all add: ClusterMediaPlaybackServer_def ClusterMediaPlaybackServer_Command_def)

section \<open>\<open>ClusterModeSelectServer\<close>\<close>

definition ClusterModeSelectServer_Command :: "(string \<times> int) list" where
  "ClusterModeSelectServer_Command =
     [(''ChangeToMode'', 0)]"

definition ClusterModeSelectServer_Attribute :: "(string \<times> int) list" where
  "ClusterModeSelectServer_Attribute =
     [(''Description'', 0), (''StandardNamespace'', 1), (''SupportedModes'', 2), (''CurrentMode'', 3), (''StartUpMode'', 4), (''OnMode'', 5),
      (''GeneratedCommandList'', 65528), (''AcceptedCommandList'', 65529), (''AttributeList'', 65531), (''FeatureMap'', 65532),
      (''ClusterRevision'', 65533)]"

definition ClusterModeSelectServer_templates :: "(string \<times> template_field list) list" where
  "ClusterModeSelectServer_templates =
     [(''ChangeToMode'', [(0, ''uint8_t'', Some ''NewMode'')])]"

definition ClusterModeSelectServer_attributes :: "(prop_key \<times> attribute) list" where
  "ClusterModeSelectServer_attributes =
     [(IntKey 0, ro_attribute ''Description'' ''char_string'' False JUndef), (IntKey 1, ro_attribute ''StandardNamespace'' ''enum16'' True JUndef),
      (IntKey 2, ro_attribute ''SupportedModes'' ''array'' False JUndef), (IntKey 3, ro_attribute ''CurrentMode'' ''int8u'' False JUndef),
      (IntKey 4, ro_attribute ''StartUpMode'' ''int8u'' True JUndef), (IntKey 5, ro_attribute ''OnMode'' ''int8u'' True JUndef),
      (IntKey 65528, ro_attribute ''GeneratedCommandList'' ''array'' False JUndef),
      (IntKey 65529, ro_attribute ''AcceptedCommandList'' ''array'' False JUndef),
      (IntKey 65531, ro_attribute ''AttributeList'' ''array'' False JUndef), (IntKey 65532, ro_attribute ''FeatureMap'' ''bitmap32'' False JUndef),
      (IntKey 65533, ro_attribute ''ClusterRevision'' ''int16u'' False JUndef)]"

definition ClusterModeSelectServer_cases :: "(string \<times> string) list" where
  "ClusterModeSelectServer_cases =
     [(''ChangeToMode'', ''onChangeToMode'')]"

definition ClusterModeSelectServer_handlers :: "(string \<times> string) list" where
  "ClusterModeSelectServer_handlers =
     [(''onChangeToMode'', ''.onChangeToMode'')]"

definition ClusterModeSelectServer :: generated_class where
  "ClusterModeSelectServer =
     \<lparr>cc_class = ''ClusterModeSelectServer'', cc_CLUSTER_NAME = ''MODE_SELECT_CLUSTER'', cc_CLUSTER_ID = 0x0050,
      cc_Command = ClusterModeSelectServer_Command, cc_Attribute = ClusterModeSelectServer_Attribute,
      cc_templates = ClusterModeSelectServer_templates, cc_attributes = ClusterModeSelectServer_attributes,
      cc_cases = ClusterModeSelectServer_cases, cc_handlers = ClusterModeSelectServer_handlers\<rparr>"

lemmas ClusterModeSelectServer_defs = ClusterModeSelectServer_Command_def ClusterModeSelectServer_Attribute_def ClusterModeSelectServer_cases_def
  ClusterModeSelectServer_templates_def ClusterModeSelectServer_attributes_def ClusterModeSelectServer_handlers_def
  ClusterModeSelectServer_def

lemma ClusterModeSelectServer_ok: "class_ok ClusterModeSelectServer"
  by (simp add: class_ok_def field_ok_def ClusterModeSelectServer_defs ro_attribute_def)

lemma ClusterModeSelectServer_ids: "cc_class ClusterModeSelectServer = ''ClusterModeSelectServer''" "cc_CLUSTER_ID ClusterModeSelectServer = 0x0050" "distinct (map snd (cc_Command ClusterModeSelectServer)) \<longleftrightarrow> True"
  by (simp_all add: ClusterModeSelectServer_def ClusterModeSelectServer_Command_def)

section \<open>\<open>ClusterNetworkCommissioningServer\<close>\<close>

definition ClusterNetworkCommissioningServer_Command :: "(string \<times> int) list" where
  "ClusterNetworkCommissioningServer_Command =
     [(''ScanNetworks'', 0), (''ScanNetworksResponse'', 1), (''AddOrUpdateWiFiNetwork'', 2), (''AddOrUpdateThreadNetwork'', 3),
      (''RemoveNetwork'', 4), (''NetworkConfigResponse'', 5), (''ConnectNetwork'', 6), (''ConnectNetworkResponse'', 7), (''ReorderNetwork'', 8)]"

definition ClusterNetworkCommissioningServer_Attribute :: "(string \<times> int) list" where
  "ClusterNetworkCommissioningServer_Attribute =
     [(''MaxNetworks'', 0), (''Networks'', 1), (''ScanMaxTimeSeconds'', 2), (''ConnectMaxTimeSeconds'', 3), (''InterfaceEnabled'', 4),
      (''LastNetworkingStatus'', 5), (''LastNetworkID'', 6), (''LastConnectErrorValue'', 7), (''GeneratedCommandList'', 65528),
      (''AcceptedCommandList'', 65529), (''AttributeList'', 65531), (''FeatureMap'', 65532), (''ClusterRevision'', 65533)]"

definition ClusterNetworkCommissioningServer_templates :: "(string \<times> template_field list) list" where
  "ClusterNetworkCommissioningServer_templates =
     [(''ScanNetworks'', [(0, ''chip::ByteSpan'', Some ''Ssid''), (1, ''uint64_t'', Some ''Breadcrumb'')]),
      (''ScanNetworksResponse'', [(0, ''uint8_t'', Some ''NetworkingStatus''), (1, ''chip::CharSpan'', Some ''DebugText''), (2, ''array'', None),
         (3, ''array'', None)]),
      (''AddOrUpdateWiFiNetwork'', [(0, ''chip::ByteSpan'', Some ''Ssid''), (1, ''chip::ByteSpan'', Some ''Credentials''), (2, ''uint64_t'', Some ''Breadcrumb'')]),
      (''AddOrUpdateThreadNetwork'', [(0, ''chip::ByteSpan'', Some ''OperationalDataset''), (1, ''uint64_t'', Some ''Breadcrumb'')]),
      (''RemoveNetwork'', [(0, ''chip::ByteSpan'', Some ''NetworkID''), (1, ''uint64_t'', Some ''Breadcrumb'')]),
      (''NetworkConfigResponse'', [(0, ''uint8_t'', Some ''NetworkingStatus''), (1, ''chip::CharSpan'', Some ''DebugText''), (2, ''uint8_t'', Some ''NetworkIndex'')]),
      (''ConnectNetwork'', [(0, ''chip::ByteSpan'', Some ''NetworkID''), (1, ''uint64_t'', Some ''Breadcrumb'')]),
      (''ConnectNetworkResponse'', [(0, ''uint8_t'', Some ''NetworkingStatus''), (1, ''chip::CharSpan'', Some ''DebugText''), (2, ''int32_t'', Some ''ErrorValue'')]),
      (''ReorderNetwork'', [(0, ''chip::ByteSpan'', Some ''NetworkID''), (1, ''uint8_t'', Some ''NetworkIndex''), (2, ''uint64_t'', Some ''Breadcrumb'')])]"

definition ClusterNetworkCommissioningServer_attributes :: "(prop_key \<times> attribute) list" where
  "ClusterNetworkCommissioningServer_attributes =
     [(IntKey 0, ro_attribute ''MaxNetworks'' ''int8u'' False JUndef), (IntKey 1, ro_attribute ''Networks'' ''array'' False JUndef),
      (IntKey 2, ro_attribute ''ScanMaxTimeSeconds'' ''int8u'' False JUndef),
      (IntKey 3, ro_attribute ''ConnectMaxTimeSeconds'' ''int8u'' False JUndef),
      (IntKey 4, ro_attribute ''InterfaceEnabled'' ''boolean'' False JUndef),
      (IntKey 5, ro_attribute ''LastNetworkingStatus'' ''NetworkCommissioningStatus'' True JUndef),
      (IntKey 6, ro_attribute ''LastNetworkID'' ''octet_string'' True JUndef),
      (IntKey 7, ro_attribute ''LastConnectErrorValue'' ''int32s'' True JUndef),
      (IntKey 65528, ro_attribute ''GeneratedCommandList'' ''array'' False JUndef),
      (IntKey 65529, ro_attribute ''AcceptedCommandList'' ''array'' False JUndef),
      (IntKey 65531, ro_attribute ''AttributeList'' ''array'' False JUndef), (IntKey 65532, ro_attribute ''FeatureMap'' ''bitmap32'' False JUndef),
      (IntKey 65533, ro_attribute ''ClusterRevision'' ''int16u'' False JUndef)]"

definition ClusterNetworkCommissioningServer_cases :: "(string \<times> string) list" where
  "ClusterNetworkCommissioningServer_cases =
     [(''ScanNetworks'', ''onScanNetworks''), (''ScanNetworksResponse'', ''onScanNetworksResponse''),
      (''AddOrUpdateWiFiNetwork'', ''onAddOrUpdateWiFiNetwork''), (''AddOrUpdateThreadNetwork'', ''onAddOrUpdateThreadNetwork''),
      (''RemoveNetwork'', ''onRemoveNetwork''), (''NetworkConfigResponse'', ''onNetworkConfigResponse''), (''ConnectNetwork'', ''onConnectNetwork''),
      (''ConnectNetworkResponse'', ''onConnectNetworkResponse''), (''ReorderNetwork'', ''onReorderNetwork'')]"

definition ClusterNetworkCommissioningServer_handlers :: "(string \<times> string) list" where
  "ClusterNetworkCommissioningServer_handlers =
     [(''onScanNetworks'', ''.onScanNetworks''), (''onScanNetworksResponse'', ''.onScanNetworksResponse''),
      (''onAddOrUpdateWiFiNetwork'', ''.onAddOrUpdateWiFiNetwork''), (''onAddOrUpdateThreadNetwork'', ''.onAddOrUpdateThreadNetwork''),
      (''onRemoveNetwork'', ''.onRemoveNetwork''), (''onNetworkConfigResponse'', ''.onNetworkConfigResponse''),
      (''onConnectNetwork'', ''.onConnectNetwork''), (''onConnectNetworkResponse'', ''.onConnectNetworkResponse''),
      (''onReorderNetwork'', ''.onReorderNetwork'')]"

definition ClusterNetworkCommissioningServer :: generated_class where
  "ClusterNetworkCommissioningServer =
     \<lparr>cc_class = ''ClusterNetworkCommissioningServer'', cc_CLUSTER_NAME = ''NETWORK_COMMISSIONING_CLUSTER'', cc_CLUSTER_ID = 0x0031,
      cc_Command = ClusterNetworkCommissioningServer_Command, cc_Attribute = ClusterNetworkCommissioningServer_Attribute,
      cc_templates = ClusterNetworkCommissioningServer_templates, cc_attributes = ClusterNetworkCommissioningServer_attributes,
      cc_cases = ClusterNetworkCommissioningServer_cases, cc_handlers = ClusterNetworkCommissioningServer_handlers\<rparr>"

lemmas ClusterNetworkCommissioningServer_defs = ClusterNetworkCommissioningServer_Command_def ClusterNetworkCommissioningServer_Attribute_def
  ClusterNetworkCommissioningServer_cases_def ClusterNetworkCommissioningServer_templates_def
  ClusterNetworkCommissioningServer_attributes_def ClusterNetworkCommissioningServer_handlers_def
  ClusterNetworkCommissioningServer_def

lemma ClusterNetworkCommissioningServer_ok: "class_ok ClusterNetworkCommissioningServer"
  by (simp add: class_ok_def field_ok_def ClusterNetworkCommissioningServer_defs ro_attribute_def)

lemma ClusterNetworkCommissioningServer_ids: "cc_class ClusterNetworkCommissioningServer = ''ClusterNetworkCommissioningServer''" "cc_CLUSTER_ID ClusterNetworkCommissioningServer = 0x0031" "distinct (map snd (cc_Command ClusterNetworkCommissioningServer)) \<longleftrightarrow> True"
  by (simp_all add: ClusterNetworkCommissioningServer_def ClusterNetworkCommissioningServer_Command_def)

section \<open>\<open>ClusterOtaSoftwareUpdateProviderClient\<close>\<close>

definition ClusterOtaSoftwareUpdateProviderClient_Command :: "(string \<times> int) list" where
  "ClusterOtaSoftwareUpdateProviderClient_Command =
     [(''QueryImage'', 0), (''QueryImageResponse'', 1), (''ApplyUpdateRequest'', 2), (''ApplyUpdateResponse'', 3), (''NotifyUpdateApplied'', 4)]"

definition ClusterOtaSoftwareUpdateProviderClient_Attribute :: "(string \<times> int) list" where
  "ClusterOtaSoftwareUpdateProviderClient_Attribute =
     [(''GeneratedCommandList'', 65528), (''AcceptedCommandList'', 65529), (''AttributeList'', 65531), (''FeatureMap'', 65532),
      (''ClusterRevision'', 65533)]"

definition ClusterOtaSoftwareUpdateProviderClient_templates :: "(string \<times> template_field list) list" where
  "ClusterOtaSoftwareUpdateProviderClient_templates =
     [(''QueryImage'', [(0, ''chip::VendorId'', Some ''VendorId''), (1, ''uint16_t'', Some ''ProductId''), (2, ''uint32_t'', Some ''SoftwareVersion''),
         (3, ''array'', None), (4, ''uint16_t'', Some ''HardwareVersion''), (5, ''chip::CharSpan'', Some ''Location''),
         (6, ''bool'', Some ''RequestorCanConsent''), (7, ''chip::ByteSpan'', Some ''MetadataForProvider'')]),
      (''QueryImageResponse'', [(0, ''uint8_t'', Some ''Status''), (1, ''uint32_t'', Some ''DelayedActionTime''), (2, ''chip::CharSpan'', Some ''ImageURI''),
         (3, ''uint32_t'', Some ''SoftwareVersion''), (4, ''chip::CharSpan'', Some ''SoftwareVersionString''),
         (5, ''chip::ByteSpan'', Some ''UpdateToken''), (6, ''bool'', Some ''UserConsentNeeded''),
         (7, ''chip::ByteSpan'', Some ''MetadataForRequestor'')]),
      (''ApplyUpdateRequest'', [(0, ''chip::ByteSpan'', Some ''UpdateToken''), (1, ''uint32_t'', Some ''NewVersion'')]),
      (''ApplyUpdateResponse'', [(0, ''uint8_t'', Some ''Action''), (1, ''uint32_t'', Some ''DelayedActionTime'')]),
      (''NotifyUpdateApplied'', [(0, ''chip::ByteSpan'', Some ''UpdateToken''), (1, ''uint32_t'', Some ''SoftwareVersion'')])]"

definition ClusterOtaSoftwareUpdateProviderClient_attributes :: "(prop_key \<times> attribute) list" where
  "ClusterOtaSoftwareUpdateProviderClient_attributes =
     [(IntKey 65528, ro_attribute ''GeneratedCommandList'' ''array'' False JUndef),
      (IntKey 65529, ro_attribute ''AcceptedCommandList'' ''array'' False JUndef),
      (IntKey 65531, ro_attribute ''AttributeList'' ''array'' False JUndef), (IntKey 65532, ro_attribute ''FeatureMap'' ''bitmap32'' False JUndef),
      (IntKey 65533, ro_attribute ''ClusterRevision'' ''int16u'' False JUndef)]"

definition ClusterOtaSoftwareUpdateProviderClient_cases :: "(string \<times> string) list" where
  "ClusterOtaSoftwareUpdateProviderClient_cases =
     [(''QueryImage'', ''onQueryImage''), (''QueryImageResponse'', ''onQueryImageResponse''), (''ApplyUpdateRequest'', ''onApplyUpdateRequest''),
      (''ApplyUpdateResponse'', ''onApplyUpdateResponse''), (''NotifyUpdateApplied'', ''onNotifyUpdateApplied'')]"

definition ClusterOtaSoftwareUpdateProviderClient_handlers :: "(string \<times> string) list" where
  "ClusterOtaSoftwareUpdateProviderClient_handlers =
     [(''onQueryImage'', ''.onQueryImage''), (''onQueryImageResponse'', ''.onQueryImageResponse''),
      (''onApplyUpdateRequest'', ''.onApplyUpdateRequest''), (''onApplyUpdateResponse'', ''.onApplyUpdateResponse''),
      (''onNotifyUpdateApplied'', ''.onNotifyUpdateApplied'')]"

definition ClusterOtaSoftwareUpdateProviderClient :: generated_class where
  "ClusterOtaSoftwareUpdateProviderClient =
     \<lparr>cc_class = ''ClusterOtaSoftwareUpdateProviderClient'', cc_CLUSTER_NAME = ''OTA_PROVIDER_CLUSTER'', cc_CLUSTER_ID = 0x0029,
      cc_Command = ClusterOtaSoftwareUpdateProviderClient_Command, cc_Attribute = ClusterOtaSoftwareUpdateProviderClient_Attribute,
      cc_templates = ClusterOtaSoftwareUpdateProviderClient_templates, cc_attributes = ClusterOtaSoftwareUpdateProviderClient_attributes,
      cc_cases = ClusterOtaSoftwareUpdateProviderClient_cases, cc_handlers = ClusterOtaSoftwareUpdateProviderClient_handlers\<rparr>"

lemmas ClusterOtaSoftwareUpdateProviderClient_defs = ClusterOtaSoftwareUpdateProviderClient_Command_def ClusterOtaSoftwareUpdateProviderClient_Attribute_def
  ClusterOtaSoftwareUpdateProviderClient_cases_def ClusterOtaSoftwareUpdateProviderClient_templates_def
  ClusterOtaSoftwareUpdateProviderClient_attributes_def ClusterOtaSoftwareUpdateProviderClient_handlers_def
  ClusterOtaSoftwareUpdateProviderClient_def

lemma ClusterOtaSoftwareUpdateProviderClient_ok: "class_ok ClusterOtaSoftwareUpdateProviderClient"
  by (simp add: class_ok_def field_ok_def ClusterOtaSoftwareUpdateProviderClient_defs ro_attribute_def)

lemma ClusterOtaSoftwareUpdateProviderClient_ids: "cc_class ClusterOtaSoftwareUpdateProviderClient = ''ClusterOtaSoftwareUpdateProviderClient''" "cc_CLUSTER_ID ClusterOtaSoftwareUpdateProviderClient = 0x0029" "distinct (map snd (cc_Command ClusterOtaSoftwareUpdateProviderClient)) \<longleftrightarrow> True"
  by (simp_all add: ClusterOtaSoftwareUpdateProviderClient_def ClusterOtaSoftwareUpdateProviderClient_Command_def)

section \<open>\<open>ClusterOtaSoftwareUpdateRequestorServer\<close>\<close>

definition ClusterOtaSoftwareUpdateRequestorServer_Command :: "(string \<times> int) list" where
  "ClusterOtaSoftwareUpdateRequestorServer_Command =
     [(''AnnounceOtaProvider'', 0)]"

definition ClusterOtaSoftwareUpdateRequestorServer_Attribute :: "(string \<times> int) list" where
  "ClusterOtaSoftwareUpdateRequestorServer_Attribute =
     [(''DefaultOtaProviders'', 0), (''UpdatePossible'', 1), (''UpdateState'', 2), (''UpdateStateProgress'', 3), (''GeneratedCommandList'', 65528),
      (''AcceptedCommandList'', 65529), (''AttributeList'', 65531), (''FeatureMap'', 65532), (''ClusterRevision'', 65533)]"

definition ClusterOtaSoftwareUpdateRequestorServer_templates :: "(string \<times> template_field list) list" where
  "ClusterOtaSoftwareUpdateRequestorServer_templates =
     [(''AnnounceOtaProvider'', [(0, ''chip::NodeId'', Some ''ProviderNodeId''), (1, ''chip::VendorId'', Some ''VendorId''),
         (2, ''uint8_t'', Some ''AnnouncementReason''), (3, ''chip::ByteSpan'', Some ''MetadataForNode''),
         (4, ''chip::EndpointId'', Some ''Endpoint'')])]"

definition ClusterOtaSoftwareUpdateRequestorServer_attributes :: "(prop_key \<times> attribute) list" where
  "ClusterOtaSoftwareUpdateRequestorServer_attributes =
     [(IntKey 0, ro_attribute ''DefaultOtaProviders'' ''array'' False JUndef), (IntKey 1, ro_attribute ''UpdatePossible'' ''boolean'' False JUndef),
      (IntKey 2, ro_attribute ''UpdateState'' ''OTAUpdateStateEnum'' False JUndef),
      (IntKey 3, ro_attribute ''UpdateStateProgress'' ''int8u'' True JUndef),
      (IntKey 65528, ro_attribute ''GeneratedCommandList'' ''array'' False JUndef),
      (IntKey 65529, ro_attribute ''AcceptedCommandList'' ''array'' False JUndef),
      (IntKey 65531, ro_attribute ''AttributeList'' ''array'' False JUndef), (IntKey 65532, ro_attribute ''FeatureMap'' ''bitmap32'' False JUndef),
      (IntKey 65533, ro_attribute ''ClusterRevision'' ''int16u'' False JUndef)]"

definition ClusterOtaSoftwareUpdateRequestorServer_cases :: "(string \<times> string) list" where
  "ClusterOtaSoftwareUpdateRequestorServer_cases =
     [(''AnnounceOtaProvider'', ''onAnnounceOtaProvider'')]"

definition ClusterOtaSoftwareUpdateRequestorServer_handlers :: "(string \<times> string) list" where
  "ClusterOtaSoftwareUpdateRequestorServer_handlers =
     [(''onAnnounceOtaProvider'', ''.onAnnounceOtaProvider'')]"

definition ClusterOtaSoftwareUpdateRequestorServer :: generated_class where
  "ClusterOtaSoftwareUpdateRequestorServer =
     \<lparr>cc_class = ''ClusterOtaSoftwareUpdateRequestorServer'', cc_CLUSTER_NAME = ''OTA_REQUESTOR_CLUSTER'', cc_CLUSTER_ID = 0x002A,
      cc_Command = ClusterOtaSoftwareUpdateRequestorServer_Command, cc_Attribute = ClusterOtaSoftwareUpdateRequestorServer_Attribute,
      cc_templates = ClusterOtaSoftwareUpdateRequestorServer_templates, cc_attributes = ClusterOtaSoftwareUpdateRequestorServer_attributes,
      cc_cases = ClusterOtaSoftwareUpdateRequestorServer_cases, cc_handlers = ClusterOtaSoftwareUpdateRequestorServer_handlers\<rparr>"

lemmas ClusterOtaSoftwareUpdateRequestorServer_defs = ClusterOtaSoftwareUpdateRequestorServer_Command_def ClusterOtaSoftwareUpdateRequestorServer_Attribute_def
  ClusterOtaSoftwareUpdateRequestorServer_cases_def ClusterOtaSoftwareUpdateRequestorServer_templates_def
  ClusterOtaSoftwareUpdateRequestorServer_attributes_def ClusterOtaSoftwareUpdateRequestorServer_handlers_def
  ClusterOtaSoftwareUpdateRequestorServer_def

lemma ClusterOtaSoftwareUpdateRequestorServer_ok: "class_ok ClusterOtaSoftwareUpdateRequestorServer"
  by (simp add: class_ok_def field_ok_def ClusterOtaSoftwareUpdateRequestorServer_defs ro_attribute_def)

lemma ClusterOtaSoftwareUpdateRequestorServer_ids: "cc_class ClusterOtaSoftwareUpdateRequestorServer = ''ClusterOtaSoftwareUpdateRequestorServer''" "cc_CLUSTER_ID ClusterOtaSoftwareUpdateRequestorServer = 0x002A" "distinct (map snd (cc_Command ClusterOtaSoftwareUpdateRequestorServer)) \<longleftrightarrow> True"
  by (simp_all add: ClusterOtaSoftwareUpdateRequestorServer_def ClusterOtaSoftwareUpdateRequestorServer_Command_def)

section \<open>\<open>ClusterOccupancySensingServer\<close>\<close>

definition ClusterOccupancySensingServer_Command :: "(string \<times> int) list" where "ClusterOccupancySensingServer_Command = []"

definition ClusterOccupancySensingServer_Attribute :: "(string \<times> int) list" where
  "ClusterOccupancySensingServer_Attribute =
     [(''Occupancy'', 0), (''OccupancySensorType'', 1), (''OccupancySensorTypeBitmap'', 2), (''PirOccupiedToUnoccupiedDelay'', 16),
      (''PirUnoccupiedToOccupiedDelay'', 17), (''PirUnoccupiedToOccupiedThreshold'', 18), (''UltrasonicOccupiedToUnoccupiedDelay'', 32),
      (''UltrasonicUnoccupiedToOccupiedDelay'', 33), (''UltrasonicUnoccupiedToOccupiedThreshold'', 34),
      (''PhysicalContactOccupiedToUnoccupiedDelay'', 48), (''PhysicalContactUnoccupiedToOccupiedDelay'', 49),
      (''PhysicalContactUnoccupiedToOccupiedThreshold'', 50), (''GeneratedCommandList'', 65528), (''AcceptedCommandList'', 65529),
      (''AttributeList'', 65531), (''FeatureMap'', 65532), (''ClusterRevision'', 65533)]"

definition ClusterOccupancySensingServer_attributes :: "(prop_key \<times> attribute) list" where
  "ClusterOccupancySensingServer_attributes =
     [(IntKey 0, ro_attribute ''Occupancy'' ''bitmap8'' False JUndef), (IntKey 1, ro_attribute ''OccupancySensorType'' ''enum8'' False JUndef),
      (IntKey 2, ro_attribute ''OccupancySensorTypeBitmap'' ''bitmap8'' False JUndef),
      (IntKey 16, ro_attribute ''PirOccupiedToUnoccupiedDelay'' ''int16u'' False JUndef),
      (IntKey 17, ro_attribute ''PirUnoccupiedToOccupiedDelay'' ''int16u'' False JUndef),
      (IntKey 18, ro_attribute ''PirUnoccupiedToOccupiedThreshold'' ''int8u'' False JUndef),
      (IntKey 32, ro_attribute ''UltrasonicOccupiedToUnoccupiedDelay'' ''int16u'' False JUndef),
      (IntKey 33, ro_attribute ''UltrasonicUnoccupiedToOccupiedDelay'' ''int16u'' False JUndef),
      (IntKey 34, ro_attribute ''UltrasonicUnoccupiedToOccupiedThreshold'' ''int8u'' False JUndef),
      (IntKey 48, ro_attribute ''PhysicalContactOccupiedToUnoccupiedDelay'' ''int16u'' False JUndef),
      (IntKey 49, ro_attribute ''PhysicalContactUnoccupiedToOccupiedDelay'' ''int16u'' False JUndef),
      (IntKey 50, ro_attribute ''PhysicalContactUnoccupiedToOccupiedThreshold'' ''int8u'' False JUndef),
      (IntKey 65528, ro_attribute ''GeneratedCommandList'' ''array'' False JUndef),
      (IntKey 65529, ro_attribute ''AcceptedCommandList'' ''array'' False JUndef),
      (IntKey 65531, ro_attribute ''AttributeList'' ''array'' False JUndef), (IntKey 65532, ro_attribute ''FeatureMap'' ''bitmap32'' False JUndef),
      (IntKey 65533, ro_attribute ''ClusterRevision'' ''int16u'' False JUndef)]"

definition ClusterOccupancySensingServer_cases :: "(string \<times> string) list" where "ClusterOccupancySensingServer_cases = []"

definition ClusterOccupancySensingServer :: generated_class where
  "ClusterOccupancySensingServer =
     \<lparr>cc_class = ''ClusterOccupancySensingServer'', cc_CLUSTER_NAME = ''OCCUPANCY_SENSING_CLUSTER'', cc_CLUSTER_ID = 0x0406,
      cc_Command = ClusterOccupancySensingServer_Command, cc_Attribute = ClusterOccupancySensingServer_Attribute,
      cc_templates = [], cc_attributes = ClusterOccupancySensingServer_attributes,
      cc_cases = ClusterOccupancySensingServer_cases, cc_handlers = []\<rparr>"

lemmas ClusterOccupancySensingServer_defs = ClusterOccupancySensingServer_Command_def ClusterOccupancySensingServer_Attribute_def
  ClusterOccupancySensingServer_cases_def ClusterOccupancySensingServer_attributes_def
  ClusterOccupancySensingServer_def

lemma ClusterOccupancySensingServer_ok: "class_ok ClusterOccupancySensingServer"
  by (simp add: class_ok_def field_ok_def ClusterOccupancySensingServer_defs ro_attribute_def)

lemma ClusterOccupancySensingServer_ids: "cc_class ClusterOccupancySensingServer = ''ClusterOccupancySensingServer''" "cc_CLUSTER_ID ClusterOccupancySensingServer = 0x0406" "distinct (map snd (cc_Command ClusterOccupancySensingServer)) \<longleftrightarrow> True"
  by (simp_all add: ClusterOccupancySensingServer_def ClusterOccupancySensingServer_Command_def)

section \<open>\<open>ClusterOnOffServer\<close>\<close>

definition ClusterOnOffServer_Command :: "(string \<times> int) list" where
  "ClusterOnOffServer_Command =
     [(''Off'', 0), (''On'', 1), (''Toggle'', 2), (''OffWithEffect'', 64), (''OnWithRecallGlobalScene'', 65), (''OnWithTimedOff'', 66)]"

definition ClusterOnOffServer_Attribute :: "(string \<times> int) list" where
  "ClusterOnOffServer_Attribute =
     [(''OnOff'', 0), (''GlobalSceneControl'', 16384), (''OnTime'', 16385), (''OffWaitTime'', 16386), (''StartUpOnOff'', 16387),
      (''GeneratedCommandList'', 65528), (''AcceptedCommandList'', 65529), (''AttributeList'', 65531), (''FeatureMap'', 65532),
      (''ClusterRevision'', 65533)]"

definition ClusterOnOffServer_templates :: "(string \<times> template_field list) list" where
  "ClusterOnOffServer_templates =
     [(''Off'', []), (''On'', []), (''Toggle'', []),
      (''OffWithEffect'', [(0, ''uint8_t'', Some ''EffectId''), (1, ''uint8_t'', Some ''EffectVariant'')]), (''OnWithRecallGlobalScene'', []),
      (''OnWithTimedOff'', [(0, ''uint8_t'', Some ''OnOffControl''), (1, ''uint16_t'', Some ''OnTime''), (2, ''uint16_t'', Some ''OffWaitTime'')])]"

definition ClusterOnOffServer_attributes :: "(prop_key \<times> attribute) list" where
  "ClusterOnOffServer_attributes =
     [(IntKey 0, ro_attribute ''OnOff'' ''boolean'' False JUndef), (IntKey 16384, ro_attribute ''GlobalSceneControl'' ''boolean'' False JUndef),
      (IntKey 16385, ro_attribute ''OnTime'' ''int16u'' False JUndef), (IntKey 16386, ro_attribute ''OffWaitTime'' ''int16u'' False JUndef),
      (IntKey 16387, ro_attribute ''StartUpOnOff'' ''OnOffStartUpOnOff'' True JUndef),
      (IntKey 65528, ro_attribute ''GeneratedCommandList'' ''array'' False JUndef),
      (IntKey 65529, ro_attribute ''AcceptedCommandList'' ''array'' False JUndef),
      (IntKey 65531, ro_attribute ''AttributeList'' ''array'' False JUndef), (IntKey 65532, ro_attribute ''FeatureMap'' ''bitmap32'' False JUndef),
      (IntKey 65533, ro_attribute ''ClusterRevision'' ''int16u'' False JUndef)]"

definition ClusterOnOffServer_cases :: "(string \<times> string) list" where
  "ClusterOnOffServer_cases =
     [(''Off'', ''onOff''), (''On'', ''onOn''), (''Toggle'', ''onToggle''), (''OffWithEffect'', ''onOffWithEffect''),
      (''OnWithRecallGlobalScene'', ''onOnWithRecallGlobalScene''), (''OnWithTimedOff'', ''onOnWithTimedOff'')]"

definition ClusterOnOffServer_handlers :: "(string \<times> string) list" where
  "ClusterOnOffServer_handlers =
     [(''onOff'', ''.onOff''), (''onOn'', ''.onOn''), (''onToggle'', ''.onToggle''), (''onOffWithEffect'', ''.onOffWithEffect''),
      (''onOnWithRecallGlobalScene'', ''.onOnWithRecallGlobalScene''), (''onOnWithTimedOff'', ''.onOnWithTimedOff'')]"

definition ClusterOnOffServer :: generated_class where
  "ClusterOnOffServer =
     \<lparr>cc_class = ''ClusterOnOffServer'', cc_CLUSTER_NAME = ''ON_OFF_CLUSTER'', cc_CLUSTER_ID = 0x0006,
      cc_Command = ClusterOnOffServer_Command, cc_Attribute = ClusterOnOffServer_Attribute,
      cc_templates = ClusterOnOffServer_templates, cc_attributes = ClusterOnOffServer_attributes,
      cc_cases = ClusterOnOffServer_cases, cc_handlers = ClusterOnOffServer_handlers\<rparr>"

lemmas ClusterOnOffServer_defs = ClusterOnOffServer_Command_def ClusterOnOffServer_Attribute_def ClusterOnOffServer_cases_def
  ClusterOnOffServer_templates_def ClusterOnOffServer_attributes_def ClusterOnOffServer_handlers_def
  ClusterOnOffServer_def

lemma ClusterOnOffServer_ok: "class_ok ClusterOnOffServer"
  by (simp add: class_ok_def field_ok_def ClusterOnOffServer_defs ro_attribute_def)

lemma ClusterOnOffServer_ids: "cc_class ClusterOnOffServer = ''ClusterOnOffServer''" "cc_CLUSTER_ID ClusterOnOffServer = 0x0006" "distinct (map snd (cc_Command ClusterOnOffServer)) \<longleftrightarrow> True"
  by (simp_all add: ClusterOnOffServer_def ClusterOnOffServer_Command_def)

section \<open>\<open>ClusterOnOffSwitchConfigurationServer\<close>\<close>

definition ClusterOnOffSwitchConfigurationServer_Command :: "(string \<times> int) list" where "ClusterOnOffSwitchConfigurationServer_Command = []"

definition ClusterOnOffSwitchConfigurationServer_Attribute :: "(string \<times> int) list" where
  "ClusterOnOffSwitchConfigurationServer_Attribute =
     [(''SwitchType'', 0), (''SwitchActions'', 16), (''GeneratedCommandList'', 65528), (''AcceptedCommandList'', 65529), (''AttributeList'', 65531),
      (''FeatureMap'', 65532), (''ClusterRevision'', 65533)]"

definition ClusterOnOffSwitchConfigurationServer_attributes :: "(prop_key \<times> attribute) list" where
  "ClusterOnOffSwitchConfigurationServer_attributes =
     [(IntKey 0, ro_attribute ''SwitchType'' ''enum8'' False JUndef), (IntKey 16, ro_attribute ''SwitchActions'' ''enum8'' False JUndef),
      (IntKey 65528, ro_attribute ''GeneratedCommandList'' ''array'' False JUndef),
      (IntKey 65529, ro_attribute ''AcceptedCommandList'' ''array'' False JUndef),
      (IntKey 65531, ro_attribute ''AttributeList'' ''array'' False JUndef), (IntKey 65532, ro_attribute ''FeatureMap'' ''bitmap32'' False JUndef),
      (IntKey 65533, ro_attribute ''ClusterRevision'' ''int16u'' False JUndef)]"

definition ClusterOnOffSwitchConfigurationServer_cases :: "(string \<times> string) list" where "ClusterOnOffSwitchConfigurationServer_cases = []"

definition ClusterOnOffSwitchConfigurationServer :: generated_class where
  "ClusterOnOffSwitchConfigurationServer =
     \<lparr>cc_class = ''ClusterOnOffSwitchConfigurationServer'', cc_CLUSTER_NAME = ''ON_OFF_SWITCH_CONFIG_CLUSTER'', cc_CLUSTER_ID = 0x0007,
      cc_Command = ClusterOnOffSwitchConfigurationServer_Command, cc_Attribute = ClusterOnOffSwitchConfigurationServer_Attribute,
      cc_templates = [], cc_attributes = ClusterOnOffSwitchConfigurationServer_attributes,
      cc_cases = ClusterOnOffSwitchConfigurationServer_cases, cc_handlers = []\<rparr>"

lemmas ClusterOnOffSwitchConfigurationServer_defs = ClusterOnOffSwitchConfigurationServer_Command_def ClusterOnOffSwitchConfigurationServer_Attribute_def
  ClusterOnOffSwitchConfigurationServer_cases_def ClusterOnOffSwitchConfigurationServer_attributes_def
  ClusterOnOffSwitchConfigurationServer_def

lemma ClusterOnOffSwitchConfigurationServer_ok: "class_ok ClusterOnOffSwitchConfigurationServer"
  by (simp add: class_ok_def field_ok_def ClusterOnOffSwitchConfigurationServer_defs ro_attribute_def)

lemma ClusterOnOffSwitchConfigurationServer_ids: "cc_class ClusterOnOffSwitchConfigurationServer = ''ClusterOnOffSwitchConfigurationServer''" "cc_CLUSTER_ID ClusterOnOffSwitchConfigurationServer = 0x0007" "distinct (map snd (cc_Command ClusterOnOffSwitchConfigurationServer)) \<longleftrightarrow> True"
  by (simp_all add: ClusterOnOffSwitchConfigurationServer_def ClusterOnOffSwitchConfigurationServer_Command_def)

section \<open>\<open>ClusterOperationalCredentialsServer\<close>\<close>

definition ClusterOperationalCredentialsServer_Command :: "(string \<times> int) list" where
  "ClusterOperationalCredentialsServer_Command =
     [(''AttestationRequest'', 0), (''AttestationResponse'', 1), (''CertificateChainRequest'', 2), (''CertificateChainResponse'', 3),
      (''CSRRequest'', 4), (''CSRResponse'', 5), (''AddNOC'', 6), (''UpdateNOC'', 7), (''NOCResponse'', 8), (''UpdateFabricLabel'', 9),
      (''RemoveFabric'', 10), (''AddTrustedRootCertificate'', 11), (''RemoveTrustedRootCertificate'', 12)]"

definition ClusterOperationalCredentialsServer_Attribute :: "(string \<times> int) list" where
  "ClusterOperationalCredentialsServer_Attribute =
     [(''NOCs'', 0), (''Fabrics'', 1), (''SupportedFabrics'', 2), (''CommissionedFabrics'', 3), (''TrustedRootCertificates'', 4),
      (''CurrentFabricIndex'', 5), (''GeneratedCommandList'', 65528), (''AcceptedCommandList'', 65529), (''AttributeList'', 65531),
      (''FeatureMap'', 65532), (''ClusterRevision'', 65533)]"

definition ClusterOperationalCredentialsServer_templates :: "(string \<times> template_field list) list" where
  "ClusterOperationalCredentialsServer_templates =
     [(''AttestationRequest'', [(0, ''chip::ByteSpan'', Some ''AttestationNonce'')]),
      (''AttestationResponse'', [(0, ''chip::ByteSpan'', Some ''AttestationElements''), (1, ''chip::ByteSpan'', Some ''Signature'')]),
      (''CertificateChainRequest'', [(0, ''uint8_t'', Some ''CertificateType'')]),
      (''CertificateChainResponse'', [(0, ''chip::ByteSpan'', Some ''Certificate'')]), (''CSRRequest'', [(0, ''chip::ByteSpan'', Some ''CSRNonce'')]),
      (''CSRResponse'', [(0, ''chip::ByteSpan'', Some ''NOCSRElements''), (1, ''chip::ByteSpan'', Some ''AttestationSignature'')]),
      (''AddNOC'', [(0, ''chip::ByteSpan'', Some ''NOCValue''), (1, ''chip::ByteSpan'', Some ''ICACValue''),
         (2, ''chip::ByteSpan'', Some ''IPKValue''), (3, ''chip::NodeId'', Some ''CaseAdminNode''),
         (4, ''chip::VendorId'', Some ''AdminVendorId'')]),
      (''UpdateNOC'', [(0, ''chip::ByteSpan'', Some ''NOCValue''), (1, ''chip::ByteSpan'', Some ''ICACValue'')]),
      (''NOCResponse'', [(0, ''uint8_t'', Some ''StatusCode''), (1, ''chip::FabricIndex'', Some ''FabricIndex''),
         (2, ''chip::CharSpan'', Some ''DebugText'')]),
      (''UpdateFabricLabel'', [(0, ''chip::CharSpan'', Some ''Label'')]), (''RemoveFabric'', [(0, ''chip::FabricIndex'', Some ''FabricIndex'')]),
      (''AddTrustedRootCertificate'', [(0, ''chip::ByteSpan'', Some ''RootCertificate'')]),
      (''RemoveTrustedRootCertificate'', [(0, ''chip::ByteSpan'', Some ''TrustedRootIdentifier'')])]"

definition ClusterOperationalCredentialsServer_attributes :: "(prop_key \<times> attribute) list" where
  "ClusterOperationalCredentialsServer_attributes =
     [(IntKey 0, ro_attribute ''NOCs'' ''array'' False JUndef), (IntKey 1, ro_attribute ''Fabrics'' ''array'' False JUndef),
      (IntKey 2, ro_attribute ''SupportedFabrics'' ''int8u'' False JUndef), (IntKey 3, ro_attribute ''CommissionedFabrics'' ''int8u'' False JUndef),
      (IntKey 4, ro_attribute ''TrustedRootCertificates'' ''array'' False JUndef),
      (IntKey 5, ro_attribute ''CurrentFabricIndex'' ''fabric_idx'' False JUndef),
      (IntKey 65528, ro_attribute ''GeneratedCommandList'' ''array'' False JUndef),
      (IntKey 65529, ro_attribute ''AcceptedCommandList'' ''array'' False JUndef),
      (IntKey 65531, ro_attribute ''AttributeList'' ''array'' False JUndef), (IntKey 65532, ro_attribute ''FeatureMap'' ''bitmap32'' False JUndef),
      (IntKey 65533, ro_attribute ''ClusterRevision'' ''int16u'' False JUndef)]"

definition ClusterOperationalCredentialsServer_cases :: "(string \<times> string) list" where
  "ClusterOperationalCredentialsServer_cases =
     [(''AttestationRequest'', ''onAttestationRequest''), (''AttestationResponse'', ''onAttestationResponse''),
      (''CertificateChainRequest'', ''onCertificateChainRequest''), (''CertificateChainResponse'', ''onCertificateChainResponse''),
      (''CSRRequest'', ''onCSRRequest''), (''CSRResponse'', ''onCSRResponse''), (''AddNOC'', ''onAddNOC''), (''UpdateNOC'', ''onUpdateNOC''),
      (''NOCResponse'', ''onNOCResponse''), (''UpdateFabricLabel'', ''onUpdateFabricLabel''), (''RemoveFabric'', ''onRemoveFabric''),
      (''AddTrustedRootCertificate'', ''onAddTrustedRootCertificate''), (''RemoveTrustedRootCertificate'', ''onRemoveTrustedRootCertificate'')]"

definition ClusterOperationalCredentialsServer_handlers :: "(string \<times> string) list" where
  "ClusterOperationalCredentialsServer_handlers =
     [(''onAttestationRequest'', ''.onAttestationRequest''), (''onAttestationResponse'', ''.onAttestationResponse''),
      (''onCertificateChainRequest'', ''.onCertificateChainRequest''), (''onCertificateChainResponse'', ''.onCertificateChainResponse''),
      (''onCSRRequest'', ''.onCSRRequest''), (''onCSRResponse'', ''.onCSRResponse''), (''onAddNOC'', ''.onAddNOC''),
      (''onUpdateNOC'', ''.onUpdateNOC''), (''onNOCResponse'', ''.onNOCResponse''), (''onUpdateFabricLabel'', ''.onUpdateFabricLabel''),
      (''onRemoveFabric'', ''.onRemoveFabric''), (''onAddTrustedRootCertificate'', ''.onAddTrustedRootCertificate''),
      (''onRemoveTrustedRootCertificate'', ''.onRemoveTrustedRootCertificate'')]"

definition ClusterOperationalCredentialsServer :: generated_class where
  "ClusterOperationalCredentialsServer =
     \<lparr>cc_class = ''ClusterOperationalCredentialsServer'', cc_CLUSTER_NAME = ''OPERATIONAL_CREDENTIALS_CLUSTER'', cc_CLUSTER_ID = 0x003E,
      cc_Command = ClusterOperationalCredentialsServer_Command, cc_Attribute = ClusterOperationalCredentialsServer_Attribute,
      cc_templates = ClusterOperationalCredentialsServer_templates, cc_attributes = ClusterOperationalCredentialsServer_attributes,
      cc_cases = ClusterOperationalCredentialsServer_cases, cc_handlers = ClusterOperationalCredentialsServer_handlers\<rparr>"

lemmas ClusterOperationalCredentialsServer_defs = ClusterOperationalCredentialsServer_Command_def ClusterOperationalCredentialsServer_Attribute_def
  ClusterOperationalCredentialsServer_cases_def ClusterOperationalCredentialsServer_templates_def
  ClusterOperationalCredentialsServer_attributes_def ClusterOperationalCredentialsServer_handlers_def
  ClusterOperationalCredentialsServer_def

lemma ClusterOperationalCredentialsServer_ok: "class_ok ClusterOperationalCredentialsServer"
  by (simp add: class_ok_def field_ok_def ClusterOperationalCredentialsServer_defs ro_attribute_def)

lemma ClusterOperationalCredentialsServer_ids: "cc_class ClusterOperationalCredentialsServer = ''ClusterOperationalCredentialsServer''" "cc_CLUSTER_ID ClusterOperationalCredentialsServer = 0x003E" "distinct (map snd (cc_Command ClusterOperationalCredentialsServer)) \<longleftrightarrow> True"
  by (simp_all add: ClusterOperationalCredentialsServer_def ClusterOperationalCredentialsServer_Command_def)

section \<open>\<open>ClusterPowerSourceServer\<close>\<close>

definition ClusterPowerSourceServer_Command :: "(string \<times> int) list" where "ClusterPowerSourceServer_Command = []"

definition ClusterPowerSourceServer_Attribute :: "(string \<times> int) list" where
  "ClusterPowerSourceServer_Attribute =
     [(''Status'', 0), (''Order'', 1), (''Description'', 2), (''WiredAssessedInputVoltage'', 3), (''WiredAssessedInputFrequency'', 4),
      (''WiredCurrentType'', 5), (''WiredAssessedCurrent'', 6), (''WiredNominalVoltage'', 7), (''WiredMaximumCurrent'', 8), (''WiredPresent'', 9),
      (''ActiveWiredFaults'', 10), (''BatteryVoltage'', 11), (''BatteryPercentRemaining'', 12), (''BatteryTimeRemaining'', 13),
      (''BatteryChargeLevel'', 14), (''BatteryReplacementNeeded'', 15), (''BatteryReplaceability'', 16), (''BatteryPresent'', 17),
      (''ActiveBatteryFaults'', 18), (''BatteryReplacementDescription'', 19), (''BatteryCommonDesignation'', 20), (''BatteryANSIDesignation'', 21),
      (''BatteryIECDesignation'', 22), (''BatteryApprovedChemistry'', 23), (''BatteryCapacity'', 24), (''BatteryQuantity'', 25),
      (''BatteryChargeState'', 26), (''BatteryTimeToFullCharge'', 27), (''BatteryFunctionalWhileCharging'', 28), (''BatteryChargingCurrent'', 29),
      (''ActiveBatteryChargeFaults'', 30), (''GeneratedCommandList'', 65528), (''AcceptedCommandList'', 65529), (''AttributeList'', 65531),
      (''FeatureMap'', 65532), (''ClusterRevision'', 65533)]"

definition ClusterPowerSourceServer_attributes_1 :: "(prop_key \<times> attribute) list" where
  "ClusterPowerSourceServer_attributes_1 =
     [(IntKey 0, ro_attribute ''Status'' ''enum8'' False JUndef), (IntKey 1, ro_attribute ''Order'' ''int8u'' False JUndef),
      (IntKey 2, ro_attribute ''Description'' ''char_string'' False JUndef),
      (IntKey 3, ro_attribute ''WiredAssessedInputVoltage'' ''int32u'' False JUndef),
      (IntKey 4, ro_attribute ''WiredAssessedInputFrequency'' ''int16u'' False JUndef),
      (IntKey 5, ro_attribute ''WiredCurrentType'' ''enum8'' False JUndef), (IntKey 6, ro_attribute ''WiredAssessedCurrent'' ''int32u'' False JUndef),
      (IntKey 7, ro_attribute ''WiredNominalVoltage'' ''int32u'' False JUndef),
      (IntKey 8, ro_attribute ''WiredMaximumCurrent'' ''int32u'' False JUndef), (IntKey 9, ro_attribute ''WiredPresent'' ''boolean'' False JUndef),
      (IntKey 10, ro_attribute ''ActiveWiredFaults'' ''array'' False JUndef), (IntKey 11, ro_attribute ''BatteryVoltage'' ''int32u'' False JUndef),
      (IntKey 12, ro_attribute ''BatteryPercentRemaining'' ''int8u'' False JUndef),
      (IntKey 13, ro_attribute ''BatteryTimeRemaining'' ''int32u'' False JUndef),
      (IntKey 14, ro_attribute ''BatteryChargeLevel'' ''enum8'' False JUndef),
      (IntKey 15, ro_attribute ''BatteryReplacementNeeded'' ''boolean'' False JUndef),
      (IntKey 16, ro_attribute ''BatteryReplaceability'' ''enum8'' False JUndef),
      (IntKey 17, ro_attribute ''BatteryPresent'' ''boolean'' False JUndef), (IntKey 18, ro_attribute ''ActiveBatteryFaults'' ''array'' False JUndef),
      (IntKey 19, ro_attribute ''BatteryReplacementDescription'' ''char_string'' False JUndef),
      (IntKey 20, ro_attribute ''BatteryCommonDesignation'' ''int32u'' False JUndef)]"

definition ClusterPowerSourceServer_attributes_2 :: "(prop_key \<times> attribute) list" where
  "ClusterPowerSourceServer_attributes_2 =
     [(IntKey 21, ro_attribute ''BatteryANSIDesignation'' ''char_string'' False JUndef),
      (IntKey 22, ro_attribute ''BatteryIECDesignation'' ''char_string'' False JUndef),
      (IntKey 23, ro_attribute ''BatteryApprovedChemistry'' ''int32u'' False JUndef),
      (IntKey 24, ro_attribute ''BatteryCapacity'' ''int32u'' False JUndef), (IntKey 25, ro_attribute ''BatteryQuantity'' ''int8u'' False JUndef),
      (IntKey 26, ro_attribute ''BatteryChargeState'' ''enum8'' False JUndef),
      (IntKey 27, ro_attribute ''BatteryTimeToFullCharge'' ''int32u'' False JUndef),
      (IntKey 28, ro_attribute ''BatteryFunctionalWhileCharging'' ''boolean'' False JUndef),
      (IntKey 29, ro_attribute ''BatteryChargingCurrent'' ''int32u'' False JUndef),
      (IntKey 30, ro_attribute ''ActiveBatteryChargeFaults'' ''array'' False JUndef),
      (IntKey 65528, ro_attribute ''GeneratedCommandList'' ''array'' False JUndef),
      (IntKey 65529, ro_attribute ''AcceptedCommandList'' ''array'' False JUndef),
      (IntKey 65531, ro_attribute ''AttributeList'' ''array'' False JUndef), (IntKey 65532, ro_attribute ''FeatureMap'' ''bitmap32'' False JUndef),
      (IntKey 65533, ro_attribute ''ClusterRevision'' ''int16u'' False JUndef)]"

definition ClusterPowerSourceServer_attributes :: "(prop_key \<times> attribute) list" where
  "ClusterPowerSourceServer_attributes = ClusterPowerSourceServer_attributes_1 @ ClusterPowerSourceServer_attributes_2"

definition ClusterPowerSourceServer_cases :: "(string \<times> string) list" where "ClusterPowerSourceServer_cases = []"

definition ClusterPowerSourceServer :: generated_class where
  "ClusterPowerSourceServer =
     \<lparr>cc_class = ''ClusterPowerSourceServer'', cc_CLUSTER_NAME = ''POWER_SOURCE_CLUSTER'', cc_CLUSTER_ID = 0x002F,
      cc_Command = ClusterPowerSourceServer_Command, cc_Attribute = ClusterPowerSourceServer_Attribute,
      cc_templates = [], cc_attributes = ClusterPowerSourceServer_attributes,
      cc_cases = ClusterPowerSourceServer_cases, cc_handlers = []\<rparr>"

lemmas ClusterPowerSourceServer_defs = ClusterPowerSourceServer_Command_def ClusterPowerSourceServer_Attribute_def ClusterPowerSourceServer_cases_def
  ClusterPowerSourceServer_attributes_1_def ClusterPowerSourceServer_attributes_2_def
  ClusterPowerSourceServer_attributes_def ClusterPowerSourceServer_def

lemma ClusterPowerSourceServer_ok: "class_ok ClusterPowerSourceServer"
  by (simp add: class_ok_def field_ok_def ClusterPowerSourceServer_defs ro_attribute_def)

lemma ClusterPowerSourceServer_ids: "cc_class ClusterPowerSourceServer = ''ClusterPowerSourceServer''" "cc_CLUSTER_ID ClusterPowerSourceServer = 0x002F" "distinct (map snd (cc_Command ClusterPowerSourceServer)) \<longleftrightarrow> True"
  by (simp_all add: ClusterPowerSourceServer_def ClusterPowerSourceServer_Command_def)

section \<open>\<open>ClusterPowerSourceConfigurationServer\<close>\<close>

definition ClusterPowerSourceConfigurationServer_Command :: "(string \<times> int) list" where "ClusterPowerSourceConfigurationServer_Command = []"

definition ClusterPowerSourceConfigurationServer_Attribute :: "(string \<times> int) list" where
  "ClusterPowerSourceConfigurationServer_Attribute =
     [(''Sources'', 0), (''GeneratedCommandList'', 65528), (''AcceptedCommandList'', 65529), (''AttributeList'', 65531), (''FeatureMap'', 65532),
      (''ClusterRevision'', 65533)]"

definition ClusterPowerSourceConfigurationServer_attributes :: "(prop_key \<times> attribute) list" where
  "ClusterPowerSourceConfigurationServer_attributes =
     [(IntKey 0, ro_attribute ''Sources'' ''array'' False JUndef), (IntKey 65528, ro_attribute ''GeneratedCommandList'' ''array'' False JUndef),
      (IntKey 65529, ro_attribute ''AcceptedCommandList'' ''array'' False JUndef),
      (IntKey 65531, ro_attribute ''AttributeList'' ''array'' False JUndef), (IntKey 65532, ro_attribute ''FeatureMap'' ''bitmap32'' False JUndef),
      (IntKey 65533, ro_attribute ''ClusterRevision'' ''int16u'' False JUndef)]"

definition ClusterPowerSourceConfigurationServer_cases :: "(string \<times> string) list" where "ClusterPowerSourceConfigurationServer_cases = []"

definition ClusterPowerSourceConfigurationServer :: generated_class where
  "ClusterPowerSourceConfigurationServer =
     \<lparr>cc_class = ''ClusterPowerSourceConfigurationServer'', cc_CLUSTER_NAME = ''POWER_SOURCE_CONFIGURATION_CLUSTER'', cc_CLUSTER_ID = 0x002E,
      cc_Command = ClusterPowerSourceConfigurationServer_Command, cc_Attribute = ClusterPowerSourceConfigurationServer_Attribute,
      cc_templates = [], cc_attributes = ClusterPowerSourceConfigurationServer_attributes,
      cc_cases = ClusterPowerSourceConfigurationServer_cases, cc_handlers = []\<rparr>"

lemmas ClusterPowerSourceConfigurationServer_defs = ClusterPowerSourceConfigurationServer_Command_def ClusterPowerSourceConfigurationServer_Attribute_def
  ClusterPowerSourceConfigurationServer_cases_def ClusterPowerSourceConfigurationServer_attributes_def
  ClusterPowerSourceConfigurationServer_def

lemma ClusterPowerSourceConfigurationServer_ok: "class_ok ClusterPowerSourceConfigurationServer"
  by (simp add: class_ok_def field_ok_def ClusterPowerSourceConfigurationServer_defs ro_attribute_def)

lemma ClusterPowerSourceConfigurationServer_ids: "cc_class ClusterPowerSourceConfigurationServer = ''ClusterPowerSourceConfigurationServer''" "cc_CLUSTER_ID ClusterPowerSourceConfigurationServer = 0x002E" "distinct (map snd (cc_Command ClusterPowerSourceConfigurationServer)) \<longleftrightarrow> True"
  by (simp_all add: ClusterPowerSourceConfigurationServer_def ClusterPowerSourceConfigurationServer_Command_def)

section \<open>\<open>ClusterPressureMeasurementServer\<close>\<close>

definition ClusterPressureMeasurementServer_Command :: "(string \<times> int) list" where "ClusterPressureMeasurementServer_Command = []"

definition ClusterPressureMeasurementServer_Attribute :: "(string \<times> int) list" where
  "ClusterPressureMeasurementServer_Attribute =
     [(''MeasuredValue'', 0), (''MinMeasuredValue'', 1), (''MaxMeasuredValue'', 2), (''Tolerance'', 3), (''ScaledValue'', 16),
      (''MinScaledValue'', 17), (''MaxScaledValue'', 18), (''ScaledTolerance'', 19), (''Scale'', 20), (''GeneratedCommandList'', 65528),
      (''AcceptedCommandList'', 65529), (''AttributeList'', 65531), (''FeatureMap'', 65532), (''ClusterRevision'', 65533)]"

definition ClusterPressureMeasurementServer_attributes :: "(prop_key \<times> attribute) list" where
  "ClusterPressureMeasurementServer_attributes =
     [(IntKey 0, ro_attribute ''MeasuredValue'' ''int16s'' True JUndef), (IntKey 1, ro_attribute ''MinMeasuredValue'' ''int16s'' True JUndef),
      (IntKey 2, ro_attribute ''MaxMeasuredValue'' ''int16s'' True JUndef), (IntKey 3, ro_attribute ''Tolerance'' ''int16u'' False JUndef),
      (IntKey 16, ro_attribute ''ScaledValue'' ''int16s'' True JUndef), (IntKey 17, ro_attribute ''MinScaledValue'' ''int16s'' True JUndef),
      (IntKey 18, ro_attribute ''MaxScaledValue'' ''int16s'' True JUndef), (IntKey 19, ro_attribute ''ScaledTolerance'' ''int16u'' False JUndef),
      (IntKey 20, ro_attribute ''Scale'' ''int8s'' False JUndef), (IntKey 65528, ro_attribute ''GeneratedCommandList'' ''array'' False JUndef),
      (IntKey 65529, ro_attribute ''AcceptedCommandList'' ''array'' False JUndef),
      (IntKey 65531, ro_attribute ''AttributeList'' ''array'' False JUndef), (IntKey 65532, ro_attribute ''FeatureMap'' ''bitmap32'' False JUndef),
      (IntKey 65533, ro_attribute ''ClusterRevision'' ''int16u'' False JUndef)]"

definition ClusterPressureMeasurementServer_cases :: "(string \<times> string) list" where "ClusterPressureMeasurementServer_cases = []"

definition ClusterPressureMeasurementServer :: generated_class where
  "ClusterPressureMeasurementServer =
     \<lparr>cc_class = ''ClusterPressureMeasurementServer'', cc_CLUSTER_NAME = ''PRESSURE_MEASUREMENT_CLUSTER'', cc_CLUSTER_ID = 0x0403,
      cc_Command = ClusterPressureMeasurementServer_Command, cc_Attribute = ClusterPressureMeasurementServer_Attribute,
      cc_templates = [], cc_attributes = ClusterPressureMeasurementServer_attributes,
      cc_cases = ClusterPressureMeasurementServer_cases, cc_handlers = []\<rparr>"

lemmas ClusterPressureMeasurementServer_defs = ClusterPressureMeasurementServer_Command_def ClusterPressureMeasurementServer_Attribute_def
  ClusterPressureMeasurementServer_cases_def ClusterPressureMeasurementServer_attributes_def
  ClusterPressureMeasurementServer_def

lemma ClusterPressureMeasurementServer_ok: "class_ok ClusterPressureMeasurementServer"
  by (simp add: class_ok_def field_ok_def ClusterPressureMeasurementServer_defs ro_attribute_def)

lemma ClusterPressureMeasurementServer_ids: "cc_class ClusterPressureMeasurementServer = ''ClusterPressureMeasurementServer''" "cc_CLUSTER_ID ClusterPressureMeasurementServer = 0x0403" "distinct (map snd (cc_Command ClusterPressureMeasurementServer)) \<longleftrightarrow> True"
  by (simp_all add: ClusterPressureMeasurementServer_def ClusterPressureMeasurementServer_Command_def)

section \<open>\<open>ClusterPumpConfigurationAndControlServer\<close>\<close>

definition ClusterPumpConfigurationAndControlServer_Command :: "(string \<times> int) list" where "ClusterPumpConfigurationAndControlServer_Command = []"

definition ClusterPumpConfigurationAndControlServer_Attribute :: "(string \<times> int) list" where
  "ClusterPumpConfigurationAndControlServer_Attribute =
     [(''MaxPressure'', 0), (''MaxSpeed'', 1), (''MaxFlow'', 2), (''MinConstPressure'', 3), (''MaxConstPressure'', 4), (''MinCompPressure'', 5),
      (''MaxCompPressure'', 6), (''MinConstSpeed'', 7), (''MaxConstSpeed'', 8), (''MinConstFlow'', 9), (''MaxConstFlow'', 10), (''MinConstTemp'', 11),
      (''MaxConstTemp'', 12), (''PumpStatus'', 16), (''EffectiveOperationMode'', 17), (''EffectiveControlMode'', 18), (''Capacity'', 19),
      (''Speed'', 20), (''LifetimeRunningHours'', 21), (''Power'', 22), (''LifetimeEnergyConsumed'', 23), (''OperationMode'', 32),
      (''ControlMode'', 33), (''AlarmMask'', 34), (''GeneratedCommandList'', 65528), (''AcceptedCommandList'', 65529), (''AttributeList'', 65531),
      (''FeatureMap'', 65532), (''ClusterRevision'', 65533)]"

definition ClusterPumpConfigurationAndControlServer_attributes_1 :: "(prop_key \<times> attribute) list" where
  "ClusterPumpConfigurationAndControlServer_attributes_1 =
     [(IntKey 0, ro_attribute ''MaxPressure'' ''int16s'' True JUndef), (IntKey 1, ro_attribute ''MaxSpeed'' ''int16u'' True JUndef),
      (IntKey 2, ro_attribute ''MaxFlow'' ''int16u'' True JUndef), (IntKey 3, ro_attribute ''MinConstPressure'' ''int16s'' True JUndef),
      (IntKey 4, ro_attribute ''MaxConstPressure'' ''int16s'' True JUndef), (IntKey 5, ro_attribute ''MinCompPressure'' ''int16s'' True JUndef),
      (IntKey 6, ro_attribute ''MaxCompPressure'' ''int16s'' True JUndef), (IntKey 7, ro_attribute ''MinConstSpeed'' ''int16u'' True JUndef),
      (IntKey 8, ro_attribute ''MaxConstSpeed'' ''int16u'' True JUndef), (IntKey 9, ro_attribute ''MinConstFlow'' ''int16u'' True JUndef),
      (IntKey 10, ro_attribute ''MaxConstFlow'' ''int16u'' True JUndef), (IntKey 11, ro_attribute ''MinConstTemp'' ''int16s'' True JUndef),
      (IntKey 12, ro_attribute ''MaxConstTemp'' ''int16s'' True JUndef), (IntKey 16, ro_attribute ''PumpStatus'' ''bitmap16'' False JUndef),
      (IntKey 17, ro_attribute ''EffectiveOperationMode'' ''PumpOperationMode'' False JUndef),
      (IntKey 18, ro_attribute ''EffectiveControlMode'' ''PumpControlMode'' False JUndef),
      (IntKey 19, ro_attribute ''Capacity'' ''int16s'' True JUndef), (IntKey 20, ro_attribute ''Speed'' ''int16u'' True JUndef),
      (IntKey 21, ro_attribute ''LifetimeRunningHours'' ''int24u'' True JUndef), (IntKey 22, ro_attribute ''Power'' ''int24u'' True JUndef),
      (IntKey 23, ro_attribute ''LifetimeEnergyConsumed'' ''int32u'' True JUndef)]"

definition ClusterPumpConfigurationAndControlServer_attributes_2 :: "(prop_key \<times> attribute) list" where
  "ClusterPumpConfigurationAndControlServer_attributes_2 =
     [(IntKey 32, ro_attribute ''OperationMode'' ''PumpOperationMode'' False JUndef),
      (IntKey 33, ro_attribute ''ControlMode'' ''PumpControlMode'' False JUndef), (IntKey 34, ro_attribute ''AlarmMask'' ''bitmap16'' False JUndef),
      (IntKey 65528, ro_attribute ''GeneratedCommandList'' ''array'' False JUndef),
      (IntKey 65529, ro_attribute ''AcceptedCommandList'' ''array'' False JUndef),
      (IntKey 65531, ro_attribute ''AttributeList'' ''array'' False JUndef), (IntKey 65532, ro_attribute ''FeatureMap'' ''bitmap32'' False JUndef),
      (IntKey 65533, ro_attribute ''ClusterRevision'' ''int16u'' False JUndef)]"

definition ClusterPumpConfigurationAndControlServer_attributes :: "(prop_key \<times> attribute) list" where
  "ClusterPumpConfigurationAndControlServer_attributes = ClusterPumpConfigurationAndControlServer_attributes_1 @ ClusterPumpConfigurationAndControlServer_attributes_2"

definition ClusterPumpConfigurationAndControlServer_cases :: "(string \<times> string) list" where "ClusterPumpConfigurationAndControlServer_cases = []"

definition ClusterPumpConfigurationAndControlServer :: generated_class where
  "ClusterPumpConfigurationAndControlServer =
     \<lparr>cc_class = ''ClusterPumpConfigurationAndControlServer'', cc_CLUSTER_NAME = ''PUMP_CONFIG_CONTROL_CLUSTER'', cc_CLUSTER_ID = 0x0200,
      cc_Command = ClusterPumpConfigurationAndControlServer_Command, cc_Attribute = ClusterPumpConfigurationAndControlServer_Attribute,
      cc_templates = [], cc_attributes = ClusterPumpConfigurationAndControlServer_attributes,
      cc_cases = ClusterPumpConfigurationAndControlServer_cases, cc_handlers = []\<rparr>"

lemmas ClusterPumpConfigurationAndControlServer_defs = ClusterPumpConfigurationAndControlServer_Command_def ClusterPumpConfigurationAndControlServer_Attribute_def
  ClusterPumpConfigurationAndControlServer_cases_def ClusterPumpConfigurationAndControlServer_attributes_1_def
  ClusterPumpConfigurationAndControlServer_attributes_2_def ClusterPumpConfigurationAndControlServer_attributes_def
  ClusterPumpConfigurationAndControlServer_def

lemma ClusterPumpConfigurationAndControlServer_ok: "class_ok ClusterPumpConfigurationAndControlServer"
  by (simp add: class_ok_def field_ok_def ClusterPumpConfigurationAndControlServer_defs ro_attribute_def)

lemma ClusterPumpConfigurationAndControlServer_ids: "cc_class ClusterPumpConfigurationAndControlServer = ''ClusterPumpConfigurationAndControlServer''" "cc_CLUSTER_ID ClusterPumpConfigurationAndControlServer = 0x0200" "distinct (map snd (cc_Command ClusterPumpConfigurationAndControlServer)) \<longleftrightarrow> True"
  by (simp_all add: ClusterPumpConfigurationAndControlServer_def ClusterPumpConfigurationAndControlServer_Command_def)

section \<open>\<open>ClusterRelativeHumidityMeasurementServer\<close>\<close>

definition ClusterRelativeHumidityMeasurementServer_Command :: "(string \<times> int) list" where "ClusterRelativeHumidityMeasurementServer_Command = []"

definition ClusterRelativeHumidityMeasurementServer_Attribute :: "(string \<times> int) list" where
  "ClusterRelativeHumidityMeasurementServer_Attribute =
     [(''MeasuredValue'', 0), (''MinMeasuredValue'', 1), (''MaxMeasuredValue'', 2), (''Tolerance'', 3), (''GeneratedCommandList'', 65528),
      (''AcceptedCommandList'', 65529), (''AttributeList'', 65531), (''FeatureMap'', 65532), (''ClusterRevision'', 65533)]"

definition ClusterRelativeHumidityMeasurementServer_attributes :: "(prop_key \<times> attribute) list" where
  "ClusterRelativeHumidityMeasurementServer_attributes =
     [(IntKey 0, ro_attribute ''MeasuredValue'' ''int16u'' True JUndef), (IntKey 1, ro_attribute ''MinMeasuredValue'' ''int16u'' True JUndef),
      (IntKey 2, ro_attribute ''MaxMeasuredValue'' ''int16u'' True JUndef), (IntKey 3, ro_attribute ''Tolerance'' ''int16u'' False JUndef),
      (IntKey 65528, ro_attribute ''GeneratedCommandList'' ''array'' False JUndef),
      (IntKey 65529, ro_attribute ''AcceptedCommandList'' ''array'' False JUndef),
      (IntKey 65531, ro_attribute ''AttributeList'' ''array'' False JUndef), (IntKey 65532, ro_attribute ''FeatureMap'' ''bitmap32'' False JUndef),
      (IntKey 65533, ro_attribute ''ClusterRevision'' ''int16u'' False JUndef)]"

definition ClusterRelativeHumidityMeasurementServer_cases :: "(string \<times> string) list" where "ClusterRelativeHumidityMeasurementServer_cases = []"

definition ClusterRelativeHumidityMeasurementServer :: generated_class where
  "ClusterRelativeHumidityMeasurementServer =
     \<lparr>cc_class = ''ClusterRelativeHumidityMeasurementServer'', cc_CLUSTER_NAME = ''RELATIVE_HUMIDITY_MEASUREMENT_CLUSTER'', cc_CLUSTER_ID = 0x0405,
      cc_Command = ClusterRelativeHumidityMeasurementServer_Command, cc_Attribute = ClusterRelativeHumidityMeasurementServer_Attribute,
      cc_templates = [], cc_attributes = ClusterRelativeHumidityMeasurementServer_attributes,
      cc_cases = ClusterRelativeHumidityMeasurementServer_cases, cc_handlers = []\<rparr>"

lemmas ClusterRelativeHumidityMeasurementServer_defs = ClusterRelativeHumidityMeasurementServer_Command_def ClusterRelativeHumidityMeasurementServer_Attribute_def
  ClusterRelativeHumidityMeasurementServer_cases_def ClusterRelativeHumidityMeasurementServer_attributes_def
  ClusterRelativeHumidityMeasurementServer_def

lemma ClusterRelativeHumidityMeasurementServer_ok: "class_ok ClusterRelativeHumidityMeasurementServer"
  by (simp add: class_ok_def field_ok_def ClusterRelativeHumidityMeasurementServer_defs ro_attribute_def)

lemma ClusterRelativeHumidityMeasurementServer_ids: "cc_class ClusterRelativeHumidityMeasurementServer = ''ClusterRelativeHumidityMeasurementServer''" "cc_CLUSTER_ID ClusterRelativeHumidityMeasurementServer = 0x0405" "distinct (map snd (cc_Command ClusterRelativeHumidityMeasurementServer)) \<longleftrightarrow> True"
  by (simp_all add: ClusterRelativeHumidityMeasurementServer_def ClusterRelativeHumidityMeasurementServer_Command_def)

section \<open>\<open>ClusterScenesServer\<close>\<close>

definition ClusterScenesServer_Command :: "(string \<times> int) list" where
  "ClusterScenesServer_Command =
     [(''AddScene'', 0), (''AddSceneResponse'', 0), (''ViewScene'', 1), (''ViewSceneResponse'', 1), (''RemoveScene'', 2),
      (''RemoveSceneResponse'', 2), (''RemoveAllScenes'', 3), (''RemoveAllScenesResponse'', 3), (''StoreScene'', 4), (''StoreSceneResponse'', 4),
      (''RecallScene'', 5), (''GetSceneMembership'', 6), (''GetSceneMembershipResponse'', 6), (''EnhancedAddScene'', 64),
      (''EnhancedAddSceneResponse'', 64), (''EnhancedViewScene'', 65), (''EnhancedViewSceneResponse'', 65), (''CopyScene'', 66),
      (''CopySceneResponse'', 66)]"

definition ClusterScenesServer_Attribute :: "(string \<times> int) list" where
  "ClusterScenesServer_Attribute =
     [(''SceneCount'', 0), (''CurrentScene'', 1), (''CurrentGroup'', 2), (''SceneValid'', 3), (''NameSupport'', 4), (''LastConfiguredBy'', 5),
      (''GeneratedCommandList'', 65528), (''AcceptedCommandList'', 65529), (''AttributeList'', 65531), (''FeatureMap'', 65532),
      (''ClusterRevision'', 65533)]"

definition ClusterScenesServer_templates :: "(string \<times> template_field list) list" where
  "ClusterScenesServer_templates =
     [(''AddScene'', [(0, ''uint16_t'', Some ''GroupId''), (1, ''uint8_t'', Some ''SceneId''), (2, ''uint16_t'', Some ''TransitionTime''),
         (3, ''chip::CharSpan'', Some ''SceneName''), (4, ''array'', None)]),
      (''AddSceneResponse'', [(0, ''uint8_t'', Some ''Status''), (1, ''uint16_t'', Some ''GroupId''), (2, ''uint8_t'', Some ''SceneId'')]),
      (''ViewScene'', [(0, ''uint16_t'', Some ''GroupId''), (1, ''uint8_t'', Some ''SceneId'')]),
      (''ViewSceneResponse'', [(0, ''uint8_t'', Some ''Status''), (1, ''uint16_t'', Some ''GroupId''), (2, ''uint8_t'', Some ''SceneId''),
         (3, ''uint16_t'', Some ''TransitionTime''), (4, ''chip::CharSpan'', Some ''SceneName''), (5, ''array'', None)]),
      (''RemoveScene'', [(0, ''uint16_t'', Some ''GroupId''), (1, ''uint8_t'', Some ''SceneId'')]),
      (''RemoveSceneResponse'', [(0, ''uint8_t'', Some ''Status''), (1, ''uint16_t'', Some ''GroupId''), (2, ''uint8_t'', Some ''SceneId'')]),
      (''RemoveAllScenes'', [(0, ''uint16_t'', Some ''GroupId'')]),
      (''RemoveAllScenesResponse'', [(0, ''uint8_t'', Some ''Status''), (1, ''uint16_t'', Some ''GroupId'')]),
      (''StoreScene'', [(0, ''uint16_t'', Some ''GroupId''), (1, ''uint8_t'', Some ''SceneId'')]),
      (''StoreSceneResponse'', [(0, ''uint8_t'', Some ''Status''), (1, ''uint16_t'', Some ''GroupId''), (2, ''uint8_t'', Some ''SceneId'')]),
      (''RecallScene'', [(0, ''uint16_t'', Some ''GroupId''), (1, ''uint8_t'', Some ''SceneId''), (2, ''uint16_t'', Some ''TransitionTime'')]),
      (''GetSceneMembership'', [(0, ''uint16_t'', Some ''GroupId'')]),
      (''GetSceneMembershipResponse'', [(0, ''uint8_t'', Some ''Status''), (1, ''uint8_t'', Some ''Capacity''), (2, ''uint16_t'', Some ''GroupId''),
         (3, ''uint8_t'', Some ''SceneCount''), (4, ''array'', None)]),
      (''EnhancedAddScene'', [(0, ''uint16_t'', Some ''GroupId''), (1, ''uint8_t'', Some ''SceneId''), (2, ''uint16_t'', Some ''TransitionTime''),
         (3, ''chip::CharSpan'', Some ''SceneName''), (4, ''array'', None)]),
      (''EnhancedAddSceneResponse'', [(0, ''uint8_t'', Some ''Status''), (1, ''uint16_t'', Some ''GroupId''), (2, ''uint8_t'', Some ''SceneId'')]),
      (''EnhancedViewScene'', [(0, ''uint16_t'', Some ''GroupId''), (1, ''uint8_t'', Some ''SceneId'')]),
      (''EnhancedViewSceneResponse'', [(0, ''uint8_t'', Some ''Status''), (1, ''uint16_t'', Some ''GroupId''), (2, ''uint8_t'', Some ''SceneId''),
         (3, ''uint16_t'', Some ''TransitionTime''), (4, ''chip::CharSpan'', Some ''SceneName''), (5, ''array'', None)]),
      (''CopyScene'', [(0, ''uint8_t'', Some ''Mode''), (1, ''uint16_t'', Some ''GroupIdFrom''), (2, ''uint8_t'', Some ''SceneIdFrom''),
         (3, ''uint16_t'', Some ''GroupIdTo''), (4, ''uint8_t'', Some ''SceneIdTo'')]),
      (''CopySceneResponse'', [(0, ''uint8_t'', Some ''Status''), (1, ''uint16_t'', Some ''GroupIdFrom''), (2, ''uint8_t'', Some ''SceneIdFrom'')])]"

definition ClusterScenesServer_attributes :: "(prop_key \<times> attribute) list" where
  "ClusterScenesServer_attributes =
     [(IntKey 0, ro_attribute ''SceneCount'' ''int8u'' False JUndef), (IntKey 1, ro_attribute ''CurrentScene'' ''int8u'' False JUndef),
      (IntKey 2, ro_attribute ''CurrentGroup'' ''int16u'' False JUndef), (IntKey 3, ro_attribute ''SceneValid'' ''boolean'' False JUndef),
      (IntKey 4, ro_attribute ''NameSupport'' ''bitmap8'' False JUndef), (IntKey 5, ro_attribute ''LastConfiguredBy'' ''node_id'' False JUndef),
      (IntKey 65528, ro_attribute ''GeneratedCommandList'' ''array'' False JUndef),
      (IntKey 65529, ro_attribute ''AcceptedCommandList'' ''array'' False JUndef),
      (IntKey 65531, ro_attribute ''AttributeList'' ''array'' False JUndef), (IntKey 65532, ro_attribute ''FeatureMap'' ''bitmap32'' False JUndef),
      (IntKey 65533, ro_attribute ''ClusterRevision'' ''int16u'' False JUndef)]"

definition ClusterScenesServer_cases :: "(string \<times> string) list" where
  "ClusterScenesServer_cases =
     [(''AddScene'', ''onAddScene''), (''AddSceneResponse'', ''onAddSceneResponse''), (''ViewScene'', ''onViewScene''),
      (''ViewSceneResponse'', ''onViewSceneResponse''), (''RemoveScene'', ''onRemoveScene''), (''RemoveSceneResponse'', ''onRemoveSceneResponse''),
      (''RemoveAllScenes'', ''onRemoveAllScenes''), (''RemoveAllScenesResponse'', ''onRemoveAllScenesResponse''), (''StoreScene'', ''onStoreScene''),
      (''StoreSceneResponse'', ''onStoreSceneResponse''), (''RecallScene'', ''onRecallScene''), (''GetSceneMembership'', ''onGetSceneMembership''),
      (''GetSceneMembershipResponse'', ''onGetSceneMembershipResponse''), (''EnhancedAddScene'', ''onEnhancedAddScene''),
      (''EnhancedAddSceneResponse'', ''onEnhancedAddSceneResponse''), (''EnhancedViewScene'', ''onEnhancedViewScene''),
      (''EnhancedViewSceneResponse'', ''onEnhancedViewSceneResponse''), (''CopyScene'', ''onCopyScene''),
      (''CopySceneResponse'', ''onCopySceneResponse'')]"

definition ClusterScenesServer_handlers :: "(string \<times> string) list" where
  "ClusterScenesServer_handlers =
     [(''onAddScene'', ''.onAddScene''), (''onAddSceneResponse'', ''.onAddSceneResponse''), (''onViewScene'', ''.onViewScene''),
      (''onViewSceneResponse'', ''.onViewSceneResponse''), (''onRemoveScene'', ''.onRemoveScene''),
      (''onRemoveSceneResponse'', ''.onRemoveSceneResponse''), (''onRemoveAllScenes'', ''.onRemoveAllScenes''),
      (''onRemoveAllScenesResponse'', ''.onRemoveAllScenesResponse''), (''onStoreScene'', ''.onStoreScene''),
      (''onStoreSceneResponse'', ''.onStoreSceneResponse''), (''onRecallScene'', ''.onRecallScene''),
      (''onGetSceneMembership'', ''.onGetSceneMembership''), (''onGetSceneMembershipResponse'', ''.onGetSceneMembershipResponse''),
      (''onEnhancedAddScene'', ''.onEnhancedAddScene''), (''onEnhancedAddSceneResponse'', ''.onEnhancedAddSceneResponse''),
      (''onEnhancedViewScene'', ''.onEnhancedViewScene''), (''onEnhancedViewSceneResponse'', ''.onEnhancedViewSceneResponse''),
      (''onCopyScene'', ''.onCopyScene''), (''onCopySceneResponse'', ''.onCopySceneResponse'')]"

definition ClusterScenesServer :: generated_class where
  "ClusterScenesServer =
     \<lparr>cc_class = ''ClusterScenesServer'', cc_CLUSTER_NAME = ''SCENES_CLUSTER'', cc_CLUSTER_ID = 0x0005,
      cc_Command = ClusterScenesServer_Command, cc_Attribute = ClusterScenesServer_Attribute,
      cc_templates = ClusterScenesServer_templates, cc_attributes = ClusterScenesServer_attributes,
      cc_cases = ClusterScenesServer_cases, cc_handlers = ClusterScenesServer_handlers\<rparr>"

lemmas ClusterScenesServer_defs = ClusterScenesServer_Command_def ClusterScenesServer_Attribute_def ClusterScenesServer_cases_def
  ClusterScenesServer_templates_def ClusterScenesServer_attributes_def ClusterScenesServer_handlers_def
  ClusterScenesServer_def

lemma ClusterScenesServer_ok: "class_ok ClusterScenesServer"
  by (simp add: class_ok_def field_ok_def ClusterScenesServer_defs ro_attribute_def)

lemma ClusterScenesServer_ids: "cc_class ClusterScenesServer = ''ClusterScenesServer''" "cc_CLUSTER_ID ClusterScenesServer = 0x0005" "distinct (map snd (cc_Command ClusterScenesServer)) \<longleftrightarrow> False"
  by (simp_all add: ClusterScenesServer_def ClusterScenesServer_Command_def)

section \<open>\<open>ClusterSoftwareDiagnosticsServer\<close>\<close>

definition ClusterSoftwareDiagnosticsServer_Command :: "(string \<times> int) list" where
  "ClusterSoftwareDiagnosticsServer_Command =
     [(''ResetWatermarks'', 0)]"

definition ClusterSoftwareDiagnosticsServer_Attribute :: "(string \<times> int) list" where
  "ClusterSoftwareDiagnosticsServer_Attribute =
     [(''ThreadMetrics'', 0), (''CurrentHeapFree'', 1), (''CurrentHeapUsed'', 2), (''CurrentHeapHighWatermark'', 3),
      (''GeneratedCommandList'', 65528), (''AcceptedCommandList'', 65529), (''AttributeList'', 65531), (''FeatureMap'', 65532),
      (''ClusterRevision'', 65533)]"

definition ClusterSoftwareDiagnosticsServer_templates :: "(string \<times> template_field list) list" where
  "ClusterSoftwareDiagnosticsServer_templates =
     [(''ResetWatermarks'', [])]"

definition ClusterSoftwareDiagnosticsServer_attributes :: "(prop_key \<times> attribute) list" where
  "ClusterSoftwareDiagnosticsServer_attributes =
     [(IntKey 0, ro_attribute ''ThreadMetrics'' ''array'' False JUndef), (IntKey 1, ro_attribute ''CurrentHeapFree'' ''int64u'' False JUndef),
      (IntKey 2, ro_attribute ''CurrentHeapUsed'' ''int64u'' False JUndef),
      (IntKey 3, ro_attribute ''CurrentHeapHighWatermark'' ''int64u'' False JUndef),
      (IntKey 65528, ro_attribute ''GeneratedCommandList'' ''array'' False JUndef),
      (IntKey 65529, ro_attribute ''AcceptedCommandList'' ''array'' False JUndef),
      (IntKey 65531, ro_attribute ''AttributeList'' ''array'' False JUndef), (IntKey 65532, ro_attribute ''FeatureMap'' ''bitmap32'' False JUndef),
      (IntKey 65533, ro_attribute ''ClusterRevision'' ''int16u'' False JUndef)]"

definition ClusterSoftwareDiagnosticsServer_cases :: "(string \<times> string) list" where
  "ClusterSoftwareDiagnosticsServer_cases =
     [(''ResetWatermarks'', ''onResetWatermarks'')]"

definition ClusterSoftwareDiagnosticsServer_handlers :: "(string \<times> string) list" where
  "ClusterSoftwareDiagnosticsServer_handlers =
     [(''onResetWatermarks'', ''.onResetWatermarks'')]"

definition ClusterSoftwareDiagnosticsServer :: generated_class where
  "ClusterSoftwareDiagnosticsServer =
     \<lparr>cc_class = ''ClusterSoftwareDiagnosticsServer'', cc_CLUSTER_NAME = ''SOFTWARE_DIAGNOSTICS_CLUSTER'', cc_CLUSTER_ID = 0x0034,
      cc_Command = ClusterSoftwareDiagnosticsServer_Command, cc_Attribute = ClusterSoftwareDiagnosticsServer_Attribute,
      cc_templates = ClusterSoftwareDiagnosticsServer_templates, cc_attributes = ClusterSoftwareDiagnosticsServer_attributes,
      cc_cases = ClusterSoftwareDiagnosticsServer_cases, cc_handlers = ClusterSoftwareDiagnosticsServer_handlers\<rparr>"

lemmas ClusterSoftwareDiagnosticsServer_defs = ClusterSoftwareDiagnosticsServer_Command_def ClusterSoftwareDiagnosticsServer_Attribute_def
  ClusterSoftwareDiagnosticsServer_cases_def ClusterSoftwareDiagnosticsServer_templates_def
  ClusterSoftwareDiagnosticsServer_attributes_def ClusterSoftwareDiagnosticsServer_handlers_def
  ClusterSoftwareDiagnosticsServer_def

lemma ClusterSoftwareDiagnosticsServer_ok: "class_ok ClusterSoftwareDiagnosticsServer"
  by (simp add: class_ok_def field_ok_def ClusterSoftwareDiagnosticsServer_defs ro_attribute_def)

lemma ClusterSoftwareDiagnosticsServer_ids: "cc_class ClusterSoftwareDiagnosticsServer = ''ClusterSoftwareDiagnosticsServer''" "cc_CLUSTER_ID ClusterSoftwareDiagnosticsServer = 0x0034" "distinct (map snd (cc_Command ClusterSoftwareDiagnosticsServer)) \<longleftrightarrow> True"
  by (simp_all add: ClusterSoftwareDiagnosticsServer_def ClusterSoftwareDiagnosticsServer_Command_def)

end
