(* ===== verification/Generated_Clusters_4.thy ===== *)
theory Generated_Clusters_4
  imports Cluster_Class
begin

text \<open>
  \<open>zzz_generated/Clusters.js\<close>, lines 11654 to 15435. Every descriptor has \<open>"nosubscribe": true, "readonly": true\<close>
  and no \<open>"value"\<close>.
\<close>

section \<open>\<open>ClusterSwitchServer\<close>\<close>

definition ClusterSwitchServer_Command :: "(string \<times> int) list" where "ClusterSwitchServer_Command = []"

definition ClusterSwitchServer_Attribute :: "(string \<times> int) list" where
  "ClusterSwitchServer_Attribute =
     [(''NumberOfPositions'', 0), (''CurrentPosition'', 1), (''MultiPressMax'', 2), (''GeneratedCommandList'', 65528),
      (''AcceptedCommandList'', 65529), (''AttributeList'', 65531), (''FeatureMap'', 65532), (''ClusterRevision'', 65533)]"

definition ClusterSwitchServer_attributes :: "(prop_key \<times> attribute) list" where
  "ClusterSwitchServer_attributes =
     [(IntKey 0, ro_attribute ''NumberOfPositions'' ''int8u'' False JUndef), (IntKey 1, ro_attribute ''CurrentPosition'' ''int8u'' False JUndef),
      (IntKey 2, ro_attribute ''MultiPressMax'' ''int8u'' False JUndef), (IntKey 65528, ro_attribute ''GeneratedCommandList'' ''array'' False JUndef),
      (IntKey 65529, ro_attribute ''AcceptedCommandList'' ''array'' False JUndef),
      (IntKey 65531, ro_attribute ''AttributeList'' ''array'' False JUndef), (IntKey 65532, ro_attribute ''FeatureMap'' ''bitmap32'' False JUndef),
      (IntKey 65533, ro_attribute ''ClusterRevision'' ''int16u'' False JUndef)]"

definition ClusterSwitchServer_cases :: "(string \<times> string) list" where "ClusterSwitchServer_cases = []"

definition ClusterSwitchServer :: generated_class where
  "ClusterSwitchServer =
     \<lparr>cc_class = ''ClusterSwitchServer'', cc_CLUSTER_NAME = ''SWITCH_CLUSTER'', cc_CLUSTER_ID = 0x003B,
      cc_Command = ClusterSwitchServer_Command, cc_Attribute = ClusterSwitchServer_Attribute,
      cc_templates = [], cc_attributes = ClusterSwitchServer_attributes,
      cc_cases = ClusterSwitchServer_cases, cc_handlers = []\<rparr>"

lemmas ClusterSwitchServer_defs = ClusterSwitchServer_Command_def ClusterSwitchServer_Attribute_def ClusterSwitchServer_cases_def
  ClusterSwitchServer_attributes_def ClusterSwitchServer_def

lemma ClusterSwitchServer_ok: "class_ok ClusterSwitchServer"
  by (simp add: class_ok_def field_ok_def ClusterSwitchServer_defs ro_attribute_def)

lemma ClusterSwitchServer_ids: "cc_class ClusterSwitchServer = ''ClusterSwitchServer''" "cc_CLUSTER_ID ClusterSwitchServer = 0x003B" "distinct (map snd (cc_Command ClusterSwitchServer)) \<longleftrightarrow> True"
  by (simp_all add: ClusterSwitchServer_def ClusterSwitchServer_Command_def)

section \<open>\<open>ClusterTargetNavigatorServer\<close>\<close>

definition ClusterTargetNavigatorServer_Command :: "(string \<times> int) list" where
  "ClusterTargetNavigatorServer_Command =
     [(''NavigateTarget'', 0), (''NavigateTargetResponse'', 1)]"

definition ClusterTargetNavigatorServer_Attribute :: "(string \<times> int) list" where
  "ClusterTargetNavigatorServer_Attribute =
     [(''TargetList'', 0), (''CurrentTarget'', 1), (''GeneratedCommandList'', 65528), (''AcceptedCommandList'', 65529), (''AttributeList'', 65531),
      (''FeatureMap'', 65532), (''ClusterRevision'', 65533)]"

definition ClusterTargetNavigatorServer_templates :: "(string \<times> template_field list) list" where
  "ClusterTargetNavigatorServer_templates =
     [(''NavigateTarget'', [(0, ''uint8_t'', Some ''Target''), (1, ''chip::CharSpan'', Some ''Data'')]),
      (''NavigateTargetResponse'', [(0, ''uint8_t'', Some ''Status''), (1, ''chip::CharSpan'', Some ''Data'')])]"

definition ClusterTargetNavigatorServer_attributes :: "(prop_key \<times> attribute) list" where
  "ClusterTargetNavigatorServer_attributes =
     [(IntKey 0, ro_attribute ''TargetList'' ''array'' False JUndef), (IntKey 1, ro_attribute ''CurrentTarget'' ''int8u'' False JUndef),
      (IntKey 65528, ro_attribute ''GeneratedCommandList'' ''array'' False JUndef),
      (IntKey 65529, ro_attribute ''AcceptedCommandList'' ''array'' False JUndef),
      (IntKey 65531, ro_attribute ''AttributeList'' ''array'' False JUndef), (IntKey 65532, ro_attribute ''FeatureMap'' ''bitmap32'' False JUndef),
      (IntKey 65533, ro_attribute ''ClusterRevision'' ''int16u'' False JUndef)]"

definition ClusterTargetNavigatorServer_cases :: "(string \<times> string) list" where
  "ClusterTargetNavigatorServer_cases =
     [(''NavigateTarget'', ''onNavigateTarget''), (''NavigateTargetResponse'', ''onNavigateTargetResponse'')]"

definition ClusterTargetNavigatorServer_handlers :: "(string \<times> string) list" where
  "ClusterTargetNavigatorServer_handlers =
     [(''onNavigateTarget'', ''.onNavigateTarget''), (''onNavigateTargetResponse'', ''.onNavigateTargetResponse'')]"

definition ClusterTargetNavigatorServer :: generated_class where
  "ClusterTargetNavigatorServer =
     \<lparr>cc_class = ''ClusterTargetNavigatorServer'', cc_CLUSTER_NAME = ''TARGET_NAVIGATOR_CLUSTER'', cc_CLUSTER_ID = 0x0505,
      cc_Command = ClusterTargetNavigatorServer_Command, cc_Attribute = ClusterTargetNavigatorServer_Attribute,
      cc_templates = ClusterTargetNavigatorServer_templates, cc_attributes = ClusterTargetNavigatorServer_attributes,
      cc_cases = ClusterTargetNavigatorServer_cases, cc_handlers = ClusterTargetNavigatorServer_handlers\<rparr>"

lemmas ClusterTargetNavigatorServer_defs = ClusterTargetNavigatorServer_Command_def ClusterTargetNavigatorServer_Attribute_def
  ClusterTargetNavigatorServer_cases_def ClusterTargetNavigatorServer_templates_def
  ClusterTargetNavigatorServer_attributes_def ClusterTargetNavigatorServer_handlers_def
  ClusterTargetNavigatorServer_def

lemma ClusterTargetNavigatorServer_ok: "class_ok ClusterTargetNavigatorServer"
  by (simp add: class_ok_def field_ok_def ClusterTargetNavigatorServer_defs ro_attribute_def)

lemma ClusterTargetNavigatorServer_ids: "cc_class ClusterTargetNavigatorServer = ''ClusterTargetNavigatorServer''" "cc_CLUSTER_ID ClusterTargetNavigatorServer = 0x0505" "distinct (map snd (cc_Command ClusterTargetNavigatorServer)) \<longleftrightarrow> True"
  by (simp_all add: ClusterTargetNavigatorServer_def ClusterTargetNavigatorServer_Command_def)

section \<open>\<open>ClusterTemperatureMeasurementServer\<close>\<close>

definition ClusterTemperatureMeasurementServer_Command :: "(string \<times> int) list" where "ClusterTemperatureMeasurementServer_Command = []"

definition ClusterTemperatureMeasurementServer_Attribute :: "(string \<times> int) list" where
  "ClusterTemperatureMeasurementServer_Attribute =
     [(''MeasuredValue'', 0), (''MinMeasuredValue'', 1), (''MaxMeasuredValue'', 2), (''Tolerance'', 3), (''GeneratedCommandList'', 65528),
      (''AcceptedCommandList'', 65529), (''AttributeList'', 65531), (''FeatureMap'', 65532), (''ClusterRevision'', 65533)]"

definition ClusterTemperatureMeasurementServer_attributes :: "(prop_key \<times> attribute) list" where
  "ClusterTemperatureMeasurementServer_attributes =
     [(IntKey 0, ro_attribute ''MeasuredValue'' ''int16s'' True JUndef), (IntKey 1, ro_attribute ''MinMeasuredValue'' ''int16s'' True JUndef),
      (IntKey 2, ro_attribute ''MaxMeasuredValue'' ''int16s'' True JUndef), (IntKey 3, ro_attribute ''Tolerance'' ''int16u'' False JUndef),
      (IntKey 65528, ro_attribute ''GeneratedCommandList'' ''array'' False JUndef),
      (IntKey 65529, ro_attribute ''AcceptedCommandList'' ''array'' False JUndef),
      (IntKey 65531, ro_attribute ''AttributeList'' ''array'' False JUndef), (IntKey 65532, ro_attribute ''FeatureMap'' ''bitmap32'' False JUndef),
      (IntKey 65533, ro_attribute ''ClusterRevision'' ''int16u'' False JUndef)]"

definition ClusterTemperatureMeasurementServer_cases :: "(string \<times> string) list" where "ClusterTemperatureMeasurementServer_cases = []"

definition ClusterTemperatureMeasurementServer :: generated_class where
  "ClusterTemperatureMeasurementServer =
     \<lparr>cc_class = ''ClusterTemperatureMeasurementServer'', cc_CLUSTER_NAME = ''TEMP_MEASUREMENT_CLUSTER'', cc_CLUSTER_ID = 0x0402,
      cc_Command = ClusterTemperatureMeasurementServer_Command, cc_Attribute = ClusterTemperatureMeasurementServer_Attribute,
      cc_templates = [], cc_attributes = ClusterTemperatureMeasurementServer_attributes,
      cc_cases = ClusterTemperatureMeasurementServer_cases, cc_handlers = []\<rparr>"

lemmas ClusterTemperatureMeasurementServer_defs = ClusterTemperatureMeasurementServer_Command_def ClusterTemperatureMeasurementServer_Attribute_def
  ClusterTemperatureMeasurementServer_cases_def ClusterTemperatureMeasurementServer_attributes_def
  ClusterTemperatureMeasurementServer_def

lemma ClusterTemperatureMeasurementServer_ok: "class_ok ClusterTemperatureMeasurementServer"
  by (simp add: class_ok_def field_ok_def ClusterTemperatureMeasurementServer_defs ro_attribute_def)

lemma ClusterTemperatureMeasurementServer_ids: "cc_class ClusterTemperatureMeasurementServer = ''ClusterTemperatureMeasurementServer''" "cc_CLUSTER_ID ClusterTemperatureMeasurementServer = 0x0402" "distinct (map snd (cc_Command ClusterTemperatureMeasurementServer)) \<longleftrightarrow> True"
  by (simp_all add: ClusterTemperatureMeasurementServer_def ClusterTemperatureMeasurementServer_Command_def)

section \<open>\<open>ClusterTestClusterServer\<close>\<close>

definition ClusterTestClusterServer_Command :: "(string \<times> int) list" where
  "ClusterTestClusterServer_Command =
     [(''Test'', 0), (''TestSpecificResponse'', 0), (''TestNotHandled'', 1), (''TestAddArgumentsResponse'', 1), (''TestSpecific'', 2),
      (''TestSimpleArgumentResponse'', 2), (''TestUnknownCommand'', 3), (''TestStructArrayArgumentResponse'', 3), (''TestAddArguments'', 4),
      (''TestListInt8UReverseResponse'', 4), (''TestSimpleArgumentRequest'', 5), (''TestEnumsResponse'', 5), (''TestStructArrayArgumentRequest'', 6),
      (''TestNullableOptionalResponse'', 6), (''TestStructArgumentRequest'', 7), (''TestComplexNullableOptionalResponse'', 7),
      (''TestNestedStructArgumentRequest'', 8), (''BooleanResponse'', 8), (''TestListStructArgumentRequest'', 9), (''SimpleStructResponse'', 9),
      (''TestListInt8UArgumentRequest'', 10), (''TestEmitTestEventResponse'', 10), (''TestNestedStructListArgumentRequest'', 11),
      (''TestEmitTestFabricScopedEventResponse'', 11), (''TestListNestedStructListArgumentRequest'', 12), (''TestListInt8UReverseRequest'', 13),
      (''TestEnumsRequest'', 14), (''TestNullableOptionalRequest'', 15), (''TestComplexNullableOptionalRequest'', 16),
      (''SimpleStructEchoRequest'', 17), (''TimedInvokeRequest'', 18), (''TestSimpleOptionalArgumentRequest'', 19),
      (''TestEmitTestEventRequest'', 20), (''TestEmitTestFabricScopedEventRequest'', 21)]"

definition ClusterTestClusterServer_Attribute :: "(string \<times> int) list" where
  "ClusterTestClusterServer_Attribute =
     [(''Boolean'', 0), (''Bitmap8'', 1), (''Bitmap16'', 2), (''Bitmap32'', 3), (''Bitmap64'', 4), (''Int8u'', 5), (''Int16u'', 6), (''Int24u'', 7),
      (''Int32u'', 8), (''Int40u'', 9), (''Int48u'', 10), (''Int56u'', 11), (''Int64u'', 12), (''Int8s'', 13), (''Int16s'', 14), (''Int24s'', 15),
      (''Int32s'', 16), (''Int40s'', 17), (''Int48s'', 18), (''Int56s'', 19), (''Int64s'', 20), (''Enum8'', 21), (''Enum16'', 22),
      (''FloatSingle'', 23), (''FloatDouble'', 24), (''OctetString'', 25), (''ListInt8u'', 26), (''ListOctetString'', 27),
      (''ListStructOctetString'', 28), (''LongOctetString'', 29), (''CharString'', 30), (''LongCharString'', 31), (''EpochUs'', 32), (''EpochS'', 33),
      (''VendorId'', 34), (''ListNullablesAndOptionalsStruct'', 35), (''EnumAttr'', 36), (''StructAttr'', 37), (''RangeRestrictedInt8u'', 38),
      (''RangeRestrictedInt8s'', 39), (''RangeRestrictedInt16u'', 40), (''RangeRestrictedInt16s'', 41), (''ListLongOctetString'', 42),
      (''ListFabricScoped'', 43), (''TimedWriteBoolean'', 48), (''GeneralErrorBoolean'', 49), (''ClusterErrorBoolean'', 50), (''Unsupported'', 255),
      (''NullableBoolean'', 16384), (''NullableBitmap8'', 16385), (''NullableBitmap16'', 16386), (''NullableBitmap32'', 16387),
      (''NullableBitmap64'', 16388), (''NullableInt8u'', 16389), (''NullableInt16u'', 16390), (''NullableInt24u'', 16391),
      (''NullableInt32u'', 16392), (''NullableInt40u'', 16393), (''NullableInt48u'', 16394), (''NullableInt56u'', 16395), (''NullableInt64u'', 16396),
      (''NullableInt8s'', 16397), (''NullableInt16s'', 16398), (''NullableInt24s'', 16399), (''NullableInt32s'', 16400), (''NullableInt40s'', 16401),
      (''NullableInt48s'', 16402), (''NullableInt56s'', 16403), (''NullableInt64s'', 16404), (''NullableEnum8'', 16405), (''NullableEnum16'', 16406),
      (''NullableFloatSingle'', 16407), (''NullableFloatDouble'', 16408), (''NullableOctetString'', 16409), (''NullableCharString'', 16414),
      (''NullableEnumAttr'', 16420), (''NullableStruct'', 16421), (''NullableRangeRestrictedInt8u'', 16422),
      (''NullableRangeRestrictedInt8s'', 16423), (''NullableRangeRestrictedInt16u'', 16424), (''NullableRangeRestrictedInt16s'', 16425),
      (''GeneratedCommandList'', 65528), (''AcceptedCommandList'', 65529), (''AttributeList'', 65531), (''FeatureMap'', 65532),
      (''ClusterRevision'', 65533)]"

definition ClusterTestClusterServer_templates_1 :: "(string \<times> template_field list) list" where
  "ClusterTestClusterServer_templates_1 =
     [(''Test'', []), (''TestSpecificResponse'', [(0, ''uint8_t'', Some ''ReturnValue'')]), (''TestNotHandled'', []),
      (''TestAddArgumentsResponse'', [(0, ''uint8_t'', Some ''ReturnValue'')]), (''TestSpecific'', []),
      (''TestSimpleArgumentResponse'', [(0, ''bool'', Some ''ReturnValue'')]), (''TestUnknownCommand'', []),
      (''TestStructArrayArgumentResponse'', [(0, ''array'', None), (1, ''array'', None), (2, ''array'', None), (3, ''array'', None), (4, ''uint8_t'', Some ''Arg5''),
         (5, ''bool'', Some ''Arg6'')]),
      (''TestAddArguments'', [(0, ''uint8_t'', Some ''Arg1''), (1, ''uint8_t'', Some ''Arg2'')]),
      (''TestListInt8UReverseResponse'', [(0, ''array'', None)]), (''TestSimpleArgumentRequest'', [(0, ''bool'', Some ''Arg1'')]),
      (''TestEnumsResponse'', [(0, ''chip::VendorId'', Some ''Arg1''), (1, ''uint8_t'', Some ''Arg2'')]),
      (''TestStructArrayArgumentRequest'', [(0, ''array'', None), (1, ''array'', None), (2, ''array'', None), (3, ''array'', None), (4, ''uint8_t'', Some ''Arg5''),
         (5, ''bool'', Some ''Arg6'')]),
      (''TestNullableOptionalResponse'', [(0, ''bool'', Some ''WasPresent''), (1, ''bool'', Some ''WasNull''), (2, ''uint8_t'', Some ''Value''),
         (3, ''uint8_t'', Some ''OriginalValue'')]),
      (''TestStructArgumentRequest'', [(0, ''struct'', None)]),
      (''TestComplexNullableOptionalResponse'', [(0, ''bool'', Some ''NullableIntWasNull''), (1, ''uint16_t'', Some ''NullableIntValue''),
         (2, ''bool'', Some ''OptionalIntWasPresent''), (3, ''uint16_t'', Some ''OptionalIntValue''),
         (4, ''bool'', Some ''NullableOptionalIntWasPresent''), (5, ''bool'', Some ''NullableOptionalIntWasNull''),
         (6, ''uint16_t'', Some ''NullableOptionalIntValue''), (7, ''bool'', Some ''NullableStringWasNull''),
         (8, ''chip::CharSpan'', Some ''NullableStringValue''), (9, ''bool'', Some ''OptionalStringWasPresent''),
         (10, ''chip::CharSpan'', Some ''OptionalStringValue''), (11, ''bool'', Some ''NullableOptionalStringWasPresent''),
         (12, ''bool'', Some ''NullableOptionalStringWasNull''), (13, ''chip::CharSpan'', Some ''NullableOptionalStringValue''),
         (14, ''bool'', Some ''NullableStructWasNull''), (15, ''struct'', None), (16, ''bool'', Some ''OptionalStructWasPresent''),
         (17, ''struct'', None), (18, ''bool'', Some ''NullableOptionalStructWasPresent''),
         (19, ''bool'', Some ''NullableOptionalStructWasNull''), (20, ''struct'', None), (21, ''bool'', Some ''NullableListWasNull''),
         (22, ''array'', None), (23, ''bool'', Some ''OptionalListWasPresent''), (24, ''array'', None),
         (25, ''bool'', Some ''NullableOptionalListWasPresent''), (26, ''bool'', Some ''NullableOptionalListWasNull''),
         (27, ''array'', None)]),
      (''TestNestedStructArgumentRequest'', [(0, ''struct'', None)]), (''BooleanResponse'', [(0, ''bool'', Some ''Value'')]),
      (''TestListStructArgumentRequest'', [(0, ''array'', None)]), (''SimpleStructResponse'', [(0, ''struct'', None)]),
      (''TestListInt8UArgumentRequest'', [(0, ''array'', None)]), (''TestEmitTestEventResponse'', [(0, ''uint64_t'', Some ''Value'')])]"

definition ClusterTestClusterServer_templates_2 :: "(string \<times> template_field list) list" where
  "ClusterTestClusterServer_templates_2 =
     [(''TestNestedStructListArgumentRequest'', [(0, ''struct'', None)]),
      (''TestEmitTestFabricScopedEventResponse'', [(0, ''uint64_t'', Some ''Value'')]),
      (''TestListNestedStructListArgumentRequest'', [(0, ''array'', None)]), (''TestListInt8UReverseRequest'', [(0, ''array'', None)]),
      (''TestEnumsRequest'', [(0, ''chip::VendorId'', Some ''Arg1''), (1, ''uint8_t'', Some ''Arg2'')]),
      (''TestNullableOptionalRequest'', [(0, ''uint8_t'', Some ''Arg1'')]),
      (''TestComplexNullableOptionalRequest'', [(0, ''uint16_t'', Some ''NullableInt''), (1, ''uint16_t'', Some ''OptionalInt''), (2, ''uint16_t'', Some ''NullableOptionalInt''),
         (3, ''chip::CharSpan'', Some ''NullableString''), (4, ''chip::CharSpan'', Some ''OptionalString''),
         (5, ''chip::CharSpan'', Some ''NullableOptionalString''), (6, ''struct'', None), (7, ''struct'', None), (8, ''struct'', None),
         (9, ''array'', None), (10, ''array'', None), (11, ''array'', None)]),
      (''SimpleStructEchoRequest'', [(0, ''struct'', None)]), (''TimedInvokeRequest'', []),
      (''TestSimpleOptionalArgumentRequest'', [(0, ''bool'', Some ''Arg1'')]),
      (''TestEmitTestEventRequest'', [(0, ''uint8_t'', Some ''Arg1''), (1, ''uint8_t'', Some ''Arg2''), (2, ''bool'', Some ''Arg3'')]),
      (''TestEmitTestFabricScopedEventRequest'', [(0, ''uint8_t'', Some ''Arg1'')])]"

definition ClusterTestClusterServer_templates :: "(string \<times> template_field list) list" where
  "ClusterTestClusterServer_templates = ClusterTestClusterServer_templates_1 @ ClusterTestClusterServer_templates_2"

definition ClusterTestClusterServer_attributes_1 :: "(prop_key \<times> attribute) list" where
  "ClusterTestClusterServer_attributes_1 =
     [(IntKey 0, ro_attribute ''Boolean'' ''boolean'' False JUndef), (IntKey 1, ro_attribute ''Bitmap8'' ''Bitmap8MaskMap'' False JUndef),
      (IntKey 2, ro_attribute ''Bitmap16'' ''Bitmap16MaskMap'' False JUndef), (IntKey 3, ro_attribute ''Bitmap32'' ''Bitmap32MaskMap'' False JUndef),
      (IntKey 4, ro_attribute ''Bitmap64'' ''Bitmap64MaskMap'' False JUndef), (IntKey 5, ro_attribute ''Int8u'' ''int8u'' False JUndef),
      (IntKey 6, ro_attribute ''Int16u'' ''int16u'' False JUndef), (IntKey 7, ro_attribute ''Int24u'' ''int24u'' False JUndef),
      (IntKey 8, ro_attribute ''Int32u'' ''int32u'' False JUndef), (IntKey 9, ro_attribute ''Int40u'' ''int40u'' False JUndef),
      (IntKey 10, ro_attribute ''Int48u'' ''int48u'' False JUndef), (IntKey 11, ro_attribute ''Int56u'' ''int56u'' False JUndef),
      (IntKey 12, ro_attribute ''Int64u'' ''int64u'' False JUndef), (IntKey 13, ro_attribute ''Int8s'' ''int8s'' False JUndef),
      (IntKey 14, ro_attribute ''Int16s'' ''int16s'' False JUndef), (IntKey 15, ro_attribute ''Int24s'' ''int24s'' False JUndef),
      (IntKey 16, ro_attribute ''Int32s'' ''int32s'' False JUndef), (IntKey 17, ro_attribute ''Int40s'' ''int40s'' False JUndef),
      (IntKey 18, ro_attribute ''Int48s'' ''int48s'' False JUndef), (IntKey 19, ro_attribute ''Int56s'' ''int56s'' False JUndef),
      (IntKey 20, ro_attribute ''Int64s'' ''int64s'' False JUndef)]"

definition ClusterTestClusterServer_attributes_2 :: "(prop_key \<times> attribute) list" where
  "ClusterTestClusterServer_attributes_2 =
     [(IntKey 21, ro_attribute ''Enum8'' ''enum8'' False JUndef), (IntKey 22, ro_attribute ''Enum16'' ''enum16'' False JUndef),
      (IntKey 23, ro_attribute ''FloatSingle'' ''single'' False JUndef), (IntKey 24, ro_attribute ''FloatDouble'' ''double'' False JUndef),
      (IntKey 25, ro_attribute ''OctetString'' ''octet_string'' False JUndef), (IntKey 26, ro_attribute ''ListInt8u'' ''array'' False JUndef),
      (IntKey 27, ro_attribute ''ListOctetString'' ''array'' False JUndef),
      (IntKey 28, ro_attribute ''ListStructOctetString'' ''array'' False JUndef),
      (IntKey 29, ro_attribute ''LongOctetString'' ''long_octet_string'' False JUndef),
      (IntKey 30, ro_attribute ''CharString'' ''char_string'' False JUndef),
      (IntKey 31, ro_attribute ''LongCharString'' ''long_char_string'' False JUndef), (IntKey 32, ro_attribute ''EpochUs'' ''epoch_us'' False JUndef),
      (IntKey 33, ro_attribute ''EpochS'' ''epoch_s'' False JUndef), (IntKey 34, ro_attribute ''VendorId'' ''vendor_id'' False JUndef),
      (IntKey 35, ro_attribute ''ListNullablesAndOptionalsStruct'' ''array'' False JUndef),
      (IntKey 36, ro_attribute ''EnumAttr'' ''SimpleEnum'' False JUndef), (IntKey 37, ro_attribute ''StructAttr'' ''SimpleStruct'' False JUndef),
      (IntKey 38, ro_attribute ''RangeRestrictedInt8u'' ''int8u'' False JUndef),
      (IntKey 39, ro_attribute ''RangeRestrictedInt8s'' ''int8s'' False JUndef),
      (IntKey 40, ro_attribute ''RangeRestrictedInt16u'' ''int16u'' False JUndef),
      (IntKey 41, ro_attribute ''RangeRestrictedInt16s'' ''int16s'' False JUndef)]"

definition ClusterTestClusterServer_attributes_3 :: "(prop_key \<times> attribute) list" where
  "ClusterTestClusterServer_attributes_3 =
     [(IntKey 42, ro_attribute ''ListLongOctetString'' ''array'' False JUndef), (IntKey 43, ro_attribute ''ListFabricScoped'' ''array'' False JUndef),
      (IntKey 48, ro_attribute ''TimedWriteBoolean'' ''boolean'' False JUndef),
      (IntKey 49, ro_attribute ''GeneralErrorBoolean'' ''boolean'' False JUndef),
      (IntKey 50, ro_attribute ''ClusterErrorBoolean'' ''boolean'' False JUndef), (IntKey 255, ro_attribute ''Unsupported'' ''boolean'' False JUndef),
      (IntKey 16384, ro_attribute ''NullableBoolean'' ''boolean'' True JUndef),
      (IntKey 16385, ro_attribute ''NullableBitmap8'' ''Bitmap8MaskMap'' True JUndef),
      (IntKey 16386, ro_attribute ''NullableBitmap16'' ''Bitmap16MaskMap'' True JUndef),
      (IntKey 16387, ro_attribute ''NullableBitmap32'' ''Bitmap32MaskMap'' True JUndef),
      (IntKey 16388, ro_attribute ''NullableBitmap64'' ''Bitmap64MaskMap'' True JUndef),
      (IntKey 16389, ro_attribute ''NullableInt8u'' ''int8u'' True JUndef), (IntKey 16390, ro_attribute ''NullableInt16u'' ''int16u'' True JUndef),
      (IntKey 16391, ro_attribute ''NullableInt24u'' ''int24u'' True JUndef), (IntKey 16392, ro_attribute ''NullableInt32u'' ''int32u'' True JUndef),
      (IntKey 16393, ro_attribute ''NullableInt40u'' ''int40u'' True JUndef), (IntKey 16394, ro_attribute ''NullableInt48u'' ''int48u'' True JUndef),
      (IntKey 16395, ro_attribute ''NullableInt56u'' ''int56u'' True JUndef), (IntKey 16396, ro_attribute ''NullableInt64u'' ''int64u'' True JUndef),
      (IntKey 16397, ro_attribute ''NullableInt8s'' ''int8s'' True JUndef), (IntKey 16398, ro_attribute ''NullableInt16s'' ''int16s'' True JUndef)]"

definition ClusterTestClusterServer_attributes_4 :: "(prop_key \<times> attribute) list" where
  "ClusterTestClusterServer_attributes_4 =
     [(IntKey 16399, ro_attribute ''NullableInt24s'' ''int24s'' True JUndef), (IntKey 16400, ro_attribute ''NullableInt32s'' ''int32s'' True JUndef),
      (IntKey 16401, ro_attribute ''NullableInt40s'' ''int40s'' True JUndef), (IntKey 16402, ro_attribute ''NullableInt48s'' ''int48s'' True JUndef),
      (IntKey 16403, ro_attribute ''NullableInt56s'' ''int56s'' True JUndef), (IntKey 16404, ro_attribute ''NullableInt64s'' ''int64s'' True JUndef),
      (IntKey 16405, ro_attribute ''NullableEnum8'' ''enum8'' True JUndef), (IntKey 16406, ro_attribute ''NullableEnum16'' ''enum16'' True JUndef),
      (IntKey 16407, ro_attribute ''NullableFloatSingle'' ''single'' True JUndef),
      (IntKey 16408, ro_attribute ''NullableFloatDouble'' ''double'' True JUndef),
      (IntKey 16409, ro_attribute ''NullableOctetString'' ''octet_string'' True JUndef),
      (IntKey 16414, ro_attribute ''NullableCharString'' ''char_string'' True JUndef),
      (IntKey 16420, ro_attribute ''NullableEnumAttr'' ''SimpleEnum'' True JUndef),
      (IntKey 16421, ro_attribute ''NullableStruct'' ''SimpleStruct'' True JUndef),
      (IntKey 16422, ro_attribute ''NullableRangeRestrictedInt8u'' ''int8u'' True JUndef),
      (IntKey 16423, ro_attribute ''NullableRangeRestrictedInt8s'' ''int8s'' True JUndef),
      (IntKey 16424, ro_attribute ''NullableRangeRestrictedInt16u'' ''int16u'' True JUndef),
      (IntKey 16425, ro_attribute ''NullableRangeRestrictedInt16s'' ''int16s'' True JUndef),
      (IntKey 65528, ro_attribute ''GeneratedCommandList'' ''array'' False JUndef),
      (IntKey 65529, ro_attribute ''AcceptedCommandList'' ''array'' False JUndef),
      (IntKey 65531, ro_attribute ''AttributeList'' ''array'' False JUndef)]"

definition ClusterTestClusterServer_attributes_5 :: "(prop_key \<times> attribute) list" where
  "ClusterTestClusterServer_attributes_5 =
     [(IntKey 65532, ro_attribute ''FeatureMap'' ''bitmap32'' False JUndef), (IntKey 65533, ro_attribute ''ClusterRevision'' ''int16u'' False JUndef)]"

definition ClusterTestClusterServer_attributes :: "(prop_key \<times> attribute) list" where
  "ClusterTestClusterServer_attributes = ClusterTestClusterServer_attributes_1 @ ClusterTestClusterServer_attributes_2 @ ClusterTestClusterServer_attributes_3 @ ClusterTestClusterServer_attributes_4 @ ClusterTestClusterServer_attributes_5"

definition ClusterTestClusterServer_cases :: "(string \<times> string) list" where
  "ClusterTestClusterServer_cases =
     [(''Test'', ''onTest''), (''TestSpecificResponse'', ''onTestSpecificResponse''), (''TestNotHandled'', ''onTestNotHandled''),
      (''TestAddArgumentsResponse'', ''onTestAddArgumentsResponse''), (''TestSpecific'', ''onTestSpecific''),
      (''TestSimpleArgumentResponse'', ''onTestSimpleArgumentResponse''), (''TestUnknownCommand'', ''onTestUnknownCommand''),
      (''TestStructArrayArgumentResponse'', ''onTestStructArrayArgumentResponse''), (''TestAddArguments'', ''onTestAddArguments''),
      (''TestListInt8UReverseResponse'', ''onTestListInt8UReverseResponse''), (''TestSimpleArgumentRequest'', ''onTestSimpleArgumentRequest''),
      (''TestEnumsResponse'', ''onTestEnumsResponse''), (''TestStructArrayArgumentRequest'', ''onTestStructArrayArgumentRequest''),
      (''TestNullableOptionalResponse'', ''onTestNullableOptionalResponse''), (''TestStructArgumentRequest'', ''onTestStructArgumentRequest''),
      (''TestComplexNullableOptionalResponse'', ''onTestComplexNullableOptionalResponse''),
      (''TestNestedStructArgumentRequest'', ''onTestNestedStructArgumentRequest''), (''BooleanResponse'', ''onBooleanResponse''),
      (''TestListStructArgumentRequest'', ''onTestListStructArgumentRequest''), (''SimpleStructResponse'', ''onSimpleStructResponse''),
      (''TestListInt8UArgumentRequest'', ''onTestListInt8UArgumentRequest''), (''TestEmitTestEventResponse'', ''onTestEmitTestEventResponse''),
      (''TestNestedStructListArgumentRequest'', ''onTestNestedStructListArgumentRequest''),
      (''TestEmitTestFabricScopedEventResponse'', ''onTestEmitTestFabricScopedEventResponse''),
      (''TestListNestedStructListArgumentRequest'', ''onTestListNestedStructListArgumentRequest''),
      (''TestListInt8UReverseRequest'', ''onTestListInt8UReverseRequest''), (''TestEnumsRequest'', ''onTestEnumsRequest''),
      (''TestNullableOptionalRequest'', ''onTestNullableOptionalRequest''),
      (''TestComplexNullableOptionalRequest'', ''onTestComplexNullableOptionalRequest''),
      (''SimpleStructEchoRequest'', ''onSimpleStructEchoRequest''), (''TimedInvokeRequest'', ''onTimedInvokeRequest''),
      (''TestSimpleOptionalArgumentRequest'', ''onTestSimpleOptionalArgumentRequest''),
      (''TestEmitTestEventRequest'', ''onTestEmitTestEventRequest''),
      (''TestEmitTestFabricScopedEventRequest'', ''onTestEmitTestFabricScopedEventRequest'')]"

definition ClusterTestClusterServer_handlers_1 :: "(string \<times> string) list" where
  "ClusterTestClusterServer_handlers_1 =
     [(''onTest'', ''.onTest''), (''onTestSpecificResponse'', ''.onTestSpecificResponse''), (''onTestNotHandled'', ''.onTestNotHandled''),
      (''onTestAddArgumentsResponse'', ''.onTestAddArgumentsResponse''), (''onTestSpecific'', ''.onTestSpecific''),
      (''onTestSimpleArgumentResponse'', ''.onTestSimpleArgumentResponse''), (''onTestUnknownCommand'', ''.onTestUnknownCommand''),
      (''onTestStructArrayArgumentResponse'', ''.onTestStructArrayArgumentResponse''), (''onTestAddArguments'', ''.onTestAddArguments''),
      (''onTestListInt8UReverseResponse'', ''.onTestListInt8UReverseResponse''), (''onTestSimpleArgumentRequest'', ''.onTestSimpleArgumentRequest''),
      (''onTestEnumsResponse'', ''.onTestEnumsResponse''), (''onTestStructArrayArgumentRequest'', ''.onTestStructArrayArgumentRequest''),
      (''onTestNullableOptionalResponse'', ''.onTestNullableOptionalResponse''), (''onTestStructArgumentRequest'', ''.onTestStructArgumentRequest''),
      (''onTestComplexNullableOptionalResponse'', ''.onTestComplexNullableOptionalResponse''),
      (''onTestNestedStructArgumentRequest'', ''.onTestNestedStructArgumentRequest''), (''onBooleanResponse'', ''.onBooleanResponse''),
      (''onTestListStructArgumentRequest'', ''.onTestListStructArgumentRequest''), (''onSimpleStructResponse'', ''.onSimpleStructResponse''),
      (''onTestListInt8UArgumentRequest'', ''.onTestListInt8UArgumentRequest''), (''onTestEmitTestEventResponse'', ''.onTestEmitTestEventResponse''),
      (''onTestNestedStructListArgumentRequest'', ''.onTestNestedStructListArgumentRequest''),
      (''onTestEmitTestFabricScopedEventResponse'', ''.onTestEmitTestFabricScopedEventResponse'')]"

definition ClusterTestClusterServer_handlers_2 :: "(string \<times> string) list" where
  "ClusterTestClusterServer_handlers_2 =
     [(''onTestListNestedStructListArgumentRequest'', ''.onTestListNestedStructListArgumentRequest''),
      (''onTestListInt8UReverseRequest'', ''.onTestListInt8UReverseRequest''), (''onTestEnumsRequest'', ''.onTestEnumsRequest''),
      (''onTestNullableOptionalRequest'', ''.onTestNullableOptionalRequest''),
      (''onTestComplexNullableOptionalRequest'', ''.onTestComplexNullableOptionalRequest''),
      (''onSimpleStructEchoRequest'', ''.onSimpleStructEchoRequest''), (''onTimedInvokeRequest'', ''.onTimedInvokeRequest''),
      (''onTestSimpleOptionalArgumentRequest'', ''.onTestSimpleOptionalArgumentRequest''),
      (''onTestEmitTestEventRequest'', ''.onTestEmitTestEventRequest''),
      (''onTestEmitTestFabricScopedEventRequest'', ''.onTestEmitTestFabricScopedEventRequest'')]"

definition ClusterTestClusterServer_handlers :: "(string \<times> string) list" where
  "ClusterTestClusterServer_handlers = ClusterTestClusterServer_handlers_1 @ ClusterTestClusterServer_handlers_2"

definition ClusterTestClusterServer :: generated_class where
  "ClusterTestClusterServer =
     \<lparr>cc_class = ''ClusterTestClusterServer'', cc_CLUSTER_NAME = ''TEST_CLUSTER'', cc_CLUSTER_ID = 0x050F,
      cc_Command = ClusterTestClusterServer_Command, cc_Attribute = ClusterTestClusterServer_Attribute,
      cc_templates = ClusterTestClusterServer_templates, cc_attributes = ClusterTestClusterServer_attributes,
      cc_cases = ClusterTestClusterServer_cases, cc_handlers = ClusterTestClusterServer_handlers\<rparr>"

lemmas ClusterTestClusterServer_defs = ClusterTestClusterServer_Command_def ClusterTestClusterServer_Attribute_def ClusterTestClusterServer_cases_def
  ClusterTestClusterServer_templates_1_def ClusterTestClusterServer_templates_2_def
  ClusterTestClusterServer_templates_def ClusterTestClusterServer_attributes_1_def
  ClusterTestClusterServer_attributes_2_def ClusterTestClusterServer_attributes_3_def
  ClusterTestClusterServer_attributes_4_def ClusterTestClusterServer_attributes_5_def
  ClusterTestClusterServer_attributes_def ClusterTestClusterServer_handlers_1_def
  ClusterTestClusterServer_handlers_2_def ClusterTestClusterServer_handlers_def ClusterTestClusterServer_def

lemma ClusterTestClusterServer_ok: "class_ok ClusterTestClusterServer"
  by (simp add: class_ok_def field_ok_def ClusterTestClusterServer_defs ro_attribute_def)

lemma ClusterTestClusterServer_ids: "cc_class ClusterTestClusterServer = ''ClusterTestClusterServer''" "cc_CLUSTER_ID ClusterTestClusterServer = 0x050F" "distinct (map snd (cc_Command ClusterTestClusterServer)) \<longleftrightarrow> False"
  by (simp_all add: ClusterTestClusterServer_def ClusterTestClusterServer_Command_def)

section \<open>\<open>ClusterThermostatServer\<close>\<close>

definition ClusterThermostatServer_Command :: "(string \<times> int) list" where
  "ClusterThermostatServer_Command =
     [(''SetpointRaiseLower'', 0), (''GetWeeklyScheduleResponse'', 0), (''SetWeeklySchedule'', 1), (''GetRelayStatusLogResponse'', 1),
      (''GetWeeklySchedule'', 2), (''ClearWeeklySchedule'', 3), (''GetRelayStatusLog'', 4)]"

definition ClusterThermostatServer_Attribute :: "(string \<times> int) list" where
  "ClusterThermostatServer_Attribute =
     [(''LocalTemperature'', 0), (''OutdoorTemperature'', 1), (''Occupancy'', 2), (''AbsMinHeatSetpointLimit'', 3), (''AbsMaxHeatSetpointLimit'', 4),
      (''AbsMinCoolSetpointLimit'', 5), (''AbsMaxCoolSetpointLimit'', 6), (''PiCoolingDemand'', 7), (''PiHeatingDemand'', 8),
      (''HvacSystemTypeConfiguration'', 9), (''LocalTemperatureCalibration'', 16), (''OccupiedCoolingSetpoint'', 17),
      (''OccupiedHeatingSetpoint'', 18), (''UnoccupiedCoolingSetpoint'', 19), (''UnoccupiedHeatingSetpoint'', 20), (''MinHeatSetpointLimit'', 21),
      (''MaxHeatSetpointLimit'', 22), (''MinCoolSetpointLimit'', 23), (''MaxCoolSetpointLimit'', 24), (''MinSetpointDeadBand'', 25),
      (''RemoteSensing'', 26), (''ControlSequenceOfOperation'', 27), (''SystemMode'', 28), (''AlarmMask'', 29), (''ThermostatRunningMode'', 30),
      (''StartOfWeek'', 32), (''NumberOfWeeklyTransitions'', 33), (''NumberOfDailyTransitions'', 34), (''TemperatureSetpointHold'', 35),
      (''TemperatureSetpointHoldDuration'', 36), (''ThermostatProgrammingOperationMode'', 37), (''ThermostatRunningState'', 41),
      (''SetpointChangeSource'', 48), (''SetpointChangeAmount'', 49), (''SetpointChangeSourceTimestamp'', 50), (''AcType'', 64), (''AcCapacity'', 65),
      (''AcRefrigerantType'', 66), (''AcCompressorType'', 67), (''AcErrorCode'', 68), (''AcLouverPosition'', 69), (''AcCoilTemperature'', 70),
      (''AcCapacityFormat'', 71), (''GeneratedCommandList'', 65528), (''AcceptedCommandList'', 65529), (''AttributeList'', 65531),
      (''FeatureMap'', 65532), (''ClusterRevision'', 65533)]"

definition ClusterThermostatServer_templates :: "(string \<times> template_field list) list" where
  "ClusterThermostatServer_templates =
     [(''SetpointRaiseLower'', [(0, ''uint8_t'', Some ''Mode''), (1, ''int8_t'', Some ''Amount'')]),
      (''GetWeeklyScheduleResponse'', [(0, ''uint8_t'', Some ''NumberOfTransitionsForSequence''), (1, ''uint8_t'', Some ''DayOfWeekForSequence''),
         (2, ''uint8_t'', Some ''ModeForSequence''), (3, ''array'', None)]),
      (''SetWeeklySchedule'', [(0, ''uint8_t'', Some ''NumberOfTransitionsForSequence''), (1, ''uint8_t'', Some ''DayOfWeekForSequence''),
         (2, ''uint8_t'', Some ''ModeForSequence''), (3, ''array'', None)]),
      (''GetRelayStatusLogResponse'', [(0, ''uint16_t'', Some ''TimeOfDay''), (1, ''uint16_t'', Some ''RelayStatus''), (2, ''int16_t'', Some ''LocalTemperature''),
         (3, ''uint8_t'', Some ''HumidityInPercentage''), (4, ''int16_t'', Some ''Setpoint''), (5, ''uint16_t'', Some ''UnreadEntries'')]),
      (''GetWeeklySchedule'', [(0, ''uint8_t'', Some ''DaysToReturn''), (1, ''uint8_t'', Some ''ModeToReturn'')]), (''ClearWeeklySchedule'', []),
      (''GetRelayStatusLog'', [])]"

definition ClusterThermostatServer_attributes_1 :: "(prop_key \<times> attribute) list" where
  "ClusterThermostatServer_attributes_1 =
     [(IntKey 0, ro_attribute ''LocalTemperature'' ''int16s'' False JUndef), (IntKey 1, ro_attribute ''OutdoorTemperature'' ''int16s'' False JUndef),
      (IntKey 2, ro_attribute ''Occupancy'' ''bitmap8'' False JUndef), (IntKey 3, ro_attribute ''AbsMinHeatSetpointLimit'' ''int16s'' False JUndef),
      (IntKey 4, ro_attribute ''AbsMaxHeatSetpointLimit'' ''int16s'' False JUndef),
      (IntKey 5, ro_attribute ''AbsMinCoolSetpointLimit'' ''int16s'' False JUndef),
      (IntKey 6, ro_attribute ''AbsMaxCoolSetpointLimit'' ''int16s'' False JUndef),
      (IntKey 7, ro_attribute ''PiCoolingDemand'' ''int8u'' False JUndef), (IntKey 8, ro_attribute ''PiHeatingDemand'' ''int8u'' False JUndef),
      (IntKey 9, ro_attribute ''HvacSystemTypeConfiguration'' ''bitmap8'' False JUndef),
      (IntKey 16, ro_attribute ''LocalTemperatureCalibration'' ''int8s'' False JUndef),
      (IntKey 17, ro_attribute ''OccupiedCoolingSetpoint'' ''int16s'' False JUndef),
      (IntKey 18, ro_attribute ''OccupiedHeatingSetpoint'' ''int16s'' False JUndef),
      (IntKey 19, ro_attribute ''UnoccupiedCoolingSetpoint'' ''int16s'' False JUndef),
      (IntKey 20, ro_attribute ''UnoccupiedHeatingSetpoint'' ''int16s'' False JUndef),
      (IntKey 21, ro_attribute ''MinHeatSetpointLimit'' ''int16s'' False JUndef),
      (IntKey 22, ro_attribute ''MaxHeatSetpointLimit'' ''int16s'' False JUndef),
      (IntKey 23, ro_attribute ''MinCoolSetpointLimit'' ''int16s'' False JUndef),
      (IntKey 24, ro_attribute ''MaxCoolSetpointLimit'' ''int16s'' False JUndef),
      (IntKey 25, ro_attribute ''MinSetpointDeadBand'' ''int8s'' False JUndef), (IntKey 26, ro_attribute ''RemoteSensing'' ''bitmap8'' False JUndef)]"

definition ClusterThermostatServer_attributes_2 :: "(prop_key \<times> attribute) list" where
  "ClusterThermostatServer_attributes_2 =
     [(IntKey 27, ro_attribute ''ControlSequenceOfOperation'' ''ThermostatControlSequence'' False JUndef),
      (IntKey 28, ro_attribute ''SystemMode'' ''enum8'' False JUndef), (IntKey 29, ro_attribute ''AlarmMask'' ''bitmap8'' False JUndef),
      (IntKey 30, ro_attribute ''ThermostatRunningMode'' ''enum8'' False JUndef), (IntKey 32, ro_attribute ''StartOfWeek'' ''enum8'' False JUndef),
      (IntKey 33, ro_attribute ''NumberOfWeeklyTransitions'' ''int8u'' False JUndef),
      (IntKey 34, ro_attribute ''NumberOfDailyTransitions'' ''int8u'' False JUndef),
      (IntKey 35, ro_attribute ''TemperatureSetpointHold'' ''enum8'' False JUndef),
      (IntKey 36, ro_attribute ''TemperatureSetpointHoldDuration'' ''int16u'' False JUndef),
      (IntKey 37, ro_attribute ''ThermostatProgrammingOperationMode'' ''bitmap8'' False JUndef),
      (IntKey 41, ro_attribute ''ThermostatRunningState'' ''bitmap16'' False JUndef),
      (IntKey 48, ro_attribute ''SetpointChangeSource'' ''enum8'' False JUndef),
      (IntKey 49, ro_attribute ''SetpointChangeAmount'' ''int16s'' False JUndef),
      (IntKey 50, ro_attribute ''SetpointChangeSourceTimestamp'' ''epoch_s'' False JUndef),
      (IntKey 64, ro_attribute ''AcType'' ''enum8'' False JUndef), (IntKey 65, ro_attribute ''AcCapacity'' ''int16u'' False JUndef),
      (IntKey 66, ro_attribute ''AcRefrigerantType'' ''enum8'' False JUndef), (IntKey 67, ro_attribute ''AcCompressorType'' ''enum8'' False JUndef),
      (IntKey 68, ro_attribute ''AcErrorCode'' ''bitmap32'' False JUndef), (IntKey 69, ro_attribute ''AcLouverPosition'' ''enum8'' False JUndef),
      (IntKey 70, ro_attribute ''AcCoilTemperature'' ''int16s'' False JUndef)]"

definition ClusterThermostatServer_attributes_3 :: "(prop_key \<times> attribute) list" where
  "ClusterThermostatServer_attributes_3 =
     [(IntKey 71, ro_attribute ''AcCapacityFormat'' ''enum8'' False JUndef),
      (IntKey 65528, ro_attribute ''GeneratedCommandList'' ''array'' False JUndef),
      (IntKey 65529, ro_attribute ''AcceptedCommandList'' ''array'' False JUndef),
      (IntKey 65531, ro_attribute ''AttributeList'' ''array'' False JUndef), (IntKey 65532, ro_attribute ''FeatureMap'' ''bitmap32'' False JUndef),
      (IntKey 65533, ro_attribute ''ClusterRevision'' ''int16u'' False JUndef)]"

definition ClusterThermostatServer_attributes :: "(prop_key \<times> attribute) list" where
  "ClusterThermostatServer_attributes = ClusterThermostatServer_attributes_1 @ ClusterThermostatServer_attributes_2 @ ClusterThermostatServer_attributes_3"

definition ClusterThermostatServer_cases :: "(string \<times> string) list" where
  "ClusterThermostatServer_cases =
     [(''SetpointRaiseLower'', ''onSetpointRaiseLower''), (''GetWeeklyScheduleResponse'', ''onGetWeeklyScheduleResponse''),
      (''SetWeeklySchedule'', ''onSetWeeklySchedule''), (''GetRelayStatusLogResponse'', ''onGetRelayStatusLogResponse''),
      (''GetWeeklySchedule'', ''onGetWeeklySchedule''), (''ClearWeeklySchedule'', ''onClearWeeklySchedule''),
      (''GetRelayStatusLog'', ''onGetRelayStatusLog'')]"

definition ClusterThermostatServer_handlers :: "(string \<times> string) list" where
  "ClusterThermostatServer_handlers =
     [(''onSetpointRaiseLower'', ''.onSetpointRaiseLower''), (''onGetWeeklyScheduleResponse'', ''.onGetWeeklyScheduleResponse''),
      (''onSetWeeklySchedule'', ''.onSetWeeklySchedule''), (''onGetRelayStatusLogResponse'', ''.onGetRelayStatusLogResponse''),
      (''onGetWeeklySchedule'', ''.onGetWeeklySchedule''), (''onClearWeeklySchedule'', ''.onClearWeeklySchedule''),
      (''onGetRelayStatusLog'', ''.onGetRelayStatusLog'')]"

definition ClusterThermostatServer :: generated_class where
  "ClusterThermostatServer =
     \<lparr>cc_class = ''ClusterThermostatServer'', cc_CLUSTER_NAME = ''THERMOSTAT_CLUSTER'', cc_CLUSTER_ID = 0x0201,
      cc_Command = ClusterThermostatServer_Command, cc_Attribute = ClusterThermostatServer_Attribute,
      cc_templates = ClusterThermostatServer_templates, cc_attributes = ClusterThermostatServer_attributes,
      cc_cases = ClusterThermostatServer_cases, cc_handlers = ClusterThermostatServer_handlers\<rparr>"

lemmas ClusterThermostatServer_defs = ClusterThermostatServer_Command_def ClusterThermostatServer_Attribute_def ClusterThermostatServer_cases_def
  ClusterThermostatServer_templates_def ClusterThermostatServer_attributes_1_def
  ClusterThermostatServer_attributes_2_def ClusterThermostatServer_attributes_3_def
  ClusterThermostatServer_attributes_def ClusterThermostatServer_handlers_def ClusterThermostatServer_def

lemma ClusterThermostatServer_ok: "class_ok ClusterThermostatServer"
  by (simp add: class_ok_def field_ok_def ClusterThermostatServer_defs ro_attribute_def)

lemma ClusterThermostatServer_ids: "cc_class ClusterThermostatServer = ''ClusterThermostatServer''" "cc_CLUSTER_ID ClusterThermostatServer = 0x0201" "distinct (map snd (cc_Command ClusterThermostatServer)) \<longleftrightarrow> False"
  by (simp_all add: ClusterThermostatServer_def ClusterThermostatServer_Command_def)

section \<open>\<open>ClusterThermostatUserInterfaceConfigurationServer\<close>\<close>

definition ClusterThermostatUserInterfaceConfigurationServer_Command :: "(string \<times> int) list" where "ClusterThermostatUserInterfaceConfigurationServer_Command = []"

definition ClusterThermostatUserInterfaceConfigurationServer_Attribute :: "(string \<times> int) list" where
  "ClusterThermostatUserInterfaceConfigurationServer_Attribute =
     [(''TemperatureDisplayMode'', 0), (''KeypadLockout'', 1), (''ScheduleProgrammingVisibility'', 2), (''GeneratedCommandList'', 65528),
      (''AcceptedCommandList'', 65529), (''AttributeList'', 65531), (''FeatureMap'', 65532), (''ClusterRevision'', 65533)]"

definition ClusterThermostatUserInterfaceConfigurationServer_attributes :: "(prop_key \<times> attribute) list" where
  "ClusterThermostatUserInterfaceConfigurationServer_attributes =
     [(IntKey 0, ro_attribute ''TemperatureDisplayMode'' ''enum8'' False JUndef), (IntKey 1, ro_attribute ''KeypadLockout'' ''enum8'' False JUndef),
      (IntKey 2, ro_attribute ''ScheduleProgrammingVisibility'' ''enum8'' False JUndef),
      (IntKey 65528, ro_attribute ''GeneratedCommandList'' ''array'' False JUndef),
      (IntKey 65529, ro_attribute ''AcceptedCommandList'' ''array'' False JUndef),
      (IntKey 65531, ro_attribute ''AttributeList'' ''array'' False JUndef), (IntKey 65532, ro_attribute ''FeatureMap'' ''bitmap32'' False JUndef),
      (IntKey 65533, ro_attribute ''ClusterRevision'' ''int16u'' False JUndef)]"

definition ClusterThermostatUserInterfaceConfigurationServer_cases :: "(string \<times> string) list" where "ClusterThermostatUserInterfaceConfigurationServer_cases = []"

definition ClusterThermostatUserInterfaceConfigurationServer :: generated_class where
  "ClusterThermostatUserInterfaceConfigurationServer =
     \<lparr>cc_class = ''ClusterThermostatUserInterfaceConfigurationServer'', cc_CLUSTER_NAME = ''THERMOSTAT_UI_CONFIG_CLUSTER'', cc_CLUSTER_ID = 0x0204,
      cc_Command = ClusterThermostatUserInterfaceConfigurationServer_Command, cc_Attribute = ClusterThermostatUserInterfaceConfigurationServer_Attribute,
      cc_templates = [], cc_attributes = ClusterThermostatUserInterfaceConfigurationServer_attributes,
      cc_cases = ClusterThermostatUserInterfaceConfigurationServer_cases, cc_handlers = []\<rparr>"

lemmas ClusterThermostatUserInterfaceConfigurationServer_defs = ClusterThermostatUserInterfaceConfigurationServer_Command_def
  ClusterThermostatUserInterfaceConfigurationServer_Attribute_def
  ClusterThermostatUserInterfaceConfigurationServer_cases_def
  ClusterThermostatUserInterfaceConfigurationServer_attributes_def
  ClusterThermostatUserInterfaceConfigurationServer_def

lemma ClusterThermostatUserInterfaceConfigurationServer_ok: "class_ok ClusterThermostatUserInterfaceConfigurationServer"
  by (simp add: class_ok_def field_ok_def ClusterThermostatUserInterfaceConfigurationServer_defs ro_attribute_def)

lemma ClusterThermostatUserInterfaceConfigurationServer_ids: "cc_class ClusterThermostatUserInterfaceConfigurationServer = ''ClusterThermostatUserInterfaceConfigurationServer''" "cc_CLUSTER_ID ClusterThermostatUserInterfaceConfigurationServer = 0x0204" "distinct (map snd (cc_Command ClusterThermostatUserInterfaceConfigurationServer)) \<longleftrightarrow> True"
  by (simp_all add: ClusterThermostatUserInterfaceConfigurationServer_def ClusterThermostatUserInterfaceConfigurationServer_Command_def)

section \<open>\<open>ClusterThreadNetworkDiagnosticsServer\<close>\<close>

definition ClusterThreadNetworkDiagnosticsServer_Command :: "(string \<times> int) list" where
  "ClusterThreadNetworkDiagnosticsServer_Command =
     [(''ResetCounts'', 0)]"

definition ClusterThreadNetworkDiagnosticsServer_Attribute :: "(string \<times> int) list" where
  "ClusterThreadNetworkDiagnosticsServer_Attribute =
     [(''Channel'', 0), (''RoutingRole'', 1), (''NetworkName'', 2), (''PanId'', 3), (''ExtendedPanId'', 4), (''MeshLocalPrefix'', 5),
      (''OverrunCount'', 6), (''NeighborTableList'', 7), (''RouteTableList'', 8), (''PartitionId'', 9), (''Weighting'', 10), (''DataVersion'', 11),
      (''StableDataVersion'', 12), (''LeaderRouterId'', 13), (''DetachedRoleCount'', 14), (''ChildRoleCount'', 15), (''RouterRoleCount'', 16),
      (''LeaderRoleCount'', 17), (''AttachAttemptCount'', 18), (''PartitionIdChangeCount'', 19), (''BetterPartitionAttachAttemptCount'', 20),
      (''ParentChangeCount'', 21), (''TxTotalCount'', 22), (''TxUnicastCount'', 23), (''TxBroadcastCount'', 24), (''TxAckRequestedCount'', 25),
      (''TxAckedCount'', 26), (''TxNoAckRequestedCount'', 27), (''TxDataCount'', 28), (''TxDataPollCount'', 29), (''TxBeaconCount'', 30),
      (''TxBeaconRequestCount'', 31), (''TxOtherCount'', 32), (''TxRetryCount'', 33), (''TxDirectMaxRetryExpiryCount'', 34),
      (''TxIndirectMaxRetryExpiryCount'', 35), (''TxErrCcaCount'', 36), (''TxErrAbortCount'', 37), (''TxErrBusyChannelCount'', 38),
      (''RxTotalCount'', 39), (''RxUnicastCount'', 40), (''RxBroadcastCount'', 41), (''RxDataCount'', 42), (''RxDataPollCount'', 43),
      (''RxBeaconCount'', 44), (''RxBeaconRequestCount'', 45), (''RxOtherCount'', 46), (''RxAddressFilteredCount'', 47),
      (''RxDestAddrFilteredCount'', 48), (''RxDuplicatedCount'', 49), (''RxErrNoFrameCount'', 50), (''RxErrUnknownNeighborCount'', 51),
      (''RxErrInvalidSrcAddrCount'', 52), (''RxErrSecCount'', 53), (''RxErrFcsCount'', 54), (''RxErrOtherCount'', 55), (''ActiveTimestamp'', 56),
      (''PendingTimestamp'', 57), (''Delay'', 58), (''SecurityPolicy'', 59), (''ChannelMask'', 60), (''OperationalDatasetComponents'', 61),
      (''ActiveNetworkFaultsList'', 62), (''GeneratedCommandList'', 65528), (''AcceptedCommandList'', 65529), (''AttributeList'', 65531),
      (''FeatureMap'', 65532), (''ClusterRevision'', 65533)]"

definition ClusterThreadNetworkDiagnosticsServer_templates :: "(string \<times> template_field list) list" where
  "ClusterThreadNetworkDiagnosticsServer_templates =
     [(''ResetCounts'', [])]"

definition ClusterThreadNetworkDiagnosticsServer_attributes_1 :: "(prop_key \<times> attribute) list" where
  "ClusterThreadNetworkDiagnosticsServer_attributes_1 =
     [(IntKey 0, ro_attribute ''Channel'' ''int16u'' False JUndef), (IntKey 1, ro_attribute ''RoutingRole'' ''enum8'' False JUndef),
      (IntKey 2, ro_attribute ''NetworkName'' ''char_string'' False JUndef), (IntKey 3, ro_attribute ''PanId'' ''int16u'' False JUndef),
      (IntKey 4, ro_attribute ''ExtendedPanId'' ''int64u'' False JUndef), (IntKey 5, ro_attribute ''MeshLocalPrefix'' ''octet_string'' False JUndef),
      (IntKey 6, ro_attribute ''OverrunCount'' ''int64u'' False JUndef), (IntKey 7, ro_attribute ''NeighborTableList'' ''array'' False JUndef),
      (IntKey 8, ro_attribute ''RouteTableList'' ''array'' False JUndef), (IntKey 9, ro_attribute ''PartitionId'' ''int32u'' False JUndef),
      (IntKey 10, ro_attribute ''Weighting'' ''int8u'' False JUndef), (IntKey 11, ro_attribute ''DataVersion'' ''int8u'' False JUndef),
      (IntKey 12, ro_attribute ''StableDataVersion'' ''int8u'' False JUndef), (IntKey 13, ro_attribute ''LeaderRouterId'' ''int8u'' False JUndef),
      (IntKey 14, ro_attribute ''DetachedRoleCount'' ''int16u'' False JUndef), (IntKey 15, ro_attribute ''ChildRoleCount'' ''int16u'' False JUndef),
      (IntKey 16, ro_attribute ''RouterRoleCount'' ''int16u'' False JUndef), (IntKey 17, ro_attribute ''LeaderRoleCount'' ''int16u'' False JUndef),
      (IntKey 18, ro_attribute ''AttachAttemptCount'' ''int16u'' False JUndef),
      (IntKey 19, ro_attribute ''PartitionIdChangeCount'' ''int16u'' False JUndef),
      (IntKey 20, ro_attribute ''BetterPartitionAttachAttemptCount'' ''int16u'' False JUndef)]"

definition ClusterThreadNetworkDiagnosticsServer_attributes_2 :: "(prop_key \<times> attribute) list" where
  "ClusterThreadNetworkDiagnosticsServer_attributes_2 =
     [(IntKey 21, ro_attribute ''ParentChangeCount'' ''int16u'' False JUndef), (IntKey 22, ro_attribute ''TxTotalCount'' ''int32u'' False JUndef),
      (IntKey 23, ro_attribute ''TxUnicastCount'' ''int32u'' False JUndef), (IntKey 24, ro_attribute ''TxBroadcastCount'' ''int32u'' False JUndef),
      (IntKey 25, ro_attribute ''TxAckRequestedCount'' ''int32u'' False JUndef), (IntKey 26, ro_attribute ''TxAckedCount'' ''int32u'' False JUndef),
      (IntKey 27, ro_attribute ''TxNoAckRequestedCount'' ''int32u'' False JUndef), (IntKey 28, ro_attribute ''TxDataCount'' ''int32u'' False JUndef),
      (IntKey 29, ro_attribute ''TxDataPollCount'' ''int32u'' False JUndef), (IntKey 30, ro_attribute ''TxBeaconCount'' ''int32u'' False JUndef),
      (IntKey 31, ro_attribute ''TxBeaconRequestCount'' ''int32u'' False JUndef), (IntKey 32, ro_attribute ''TxOtherCount'' ''int32u'' False JUndef),
      (IntKey 33, ro_attribute ''TxRetryCount'' ''int32u'' False JUndef),
      (IntKey 34, ro_attribute ''TxDirectMaxRetryExpiryCount'' ''int32u'' False JUndef),
      (IntKey 35, ro_attribute ''TxIndirectMaxRetryExpiryCount'' ''int32u'' False JUndef),
      (IntKey 36, ro_attribute ''TxErrCcaCount'' ''int32u'' False JUndef), (IntKey 37, ro_attribute ''TxErrAbortCount'' ''int32u'' False JUndef),
      (IntKey 38, ro_attribute ''TxErrBusyChannelCount'' ''int32u'' False JUndef), (IntKey 39, ro_attribute ''RxTotalCount'' ''int32u'' False JUndef),
      (IntKey 40, ro_attribute ''RxUnicastCount'' ''int32u'' False JUndef), (IntKey 41, ro_attribute ''RxBroadcastCount'' ''int32u'' False JUndef)]"

definition ClusterThreadNetworkDiagnosticsServer_attributes_3 :: "(prop_key \<times> attribute) list" where
  "ClusterThreadNetworkDiagnosticsServer_attributes_3 =
     [(IntKey 42, ro_attribute ''RxDataCount'' ''int32u'' False JUndef), (IntKey 43, ro_attribute ''RxDataPollCount'' ''int32u'' False JUndef),
      (IntKey 44, ro_attribute ''RxBeaconCount'' ''int32u'' False JUndef), (IntKey 45, ro_attribute ''RxBeaconRequestCount'' ''int32u'' False JUndef),
      (IntKey 46, ro_attribute ''RxOtherCount'' ''int32u'' False JUndef),
      (IntKey 47, ro_attribute ''RxAddressFilteredCount'' ''int32u'' False JUndef),
      (IntKey 48, ro_attribute ''RxDestAddrFilteredCount'' ''int32u'' False JUndef),
      (IntKey 49, ro_attribute ''RxDuplicatedCount'' ''int32u'' False JUndef),
      (IntKey 50, ro_attribute ''RxErrNoFrameCount'' ''int32u'' False JUndef),
      (IntKey 51, ro_attribute ''RxErrUnknownNeighborCount'' ''int32u'' False JUndef),
      (IntKey 52, ro_attribute ''RxErrInvalidSrcAddrCount'' ''int32u'' False JUndef),
      (IntKey 53, ro_attribute ''RxErrSecCount'' ''int32u'' False JUndef), (IntKey 54, ro_attribute ''RxErrFcsCount'' ''int32u'' False JUndef),
      (IntKey 55, ro_attribute ''RxErrOtherCount'' ''int32u'' False JUndef), (IntKey 56, ro_attribute ''ActiveTimestamp'' ''int64u'' False JUndef),
      (IntKey 57, ro_attribute ''PendingTimestamp'' ''int64u'' False JUndef), (IntKey 58, ro_attribute ''Delay'' ''int32u'' False JUndef),
      (IntKey 59, ro_attribute ''SecurityPolicy'' ''array'' False JUndef), (IntKey 60, ro_attribute ''ChannelMask'' ''octet_string'' False JUndef),
      (IntKey 61, ro_attribute ''OperationalDatasetComponents'' ''array'' False JUndef),
      (IntKey 62, ro_attribute ''ActiveNetworkFaultsList'' ''array'' False JUndef)]"

definition ClusterThreadNetworkDiagnosticsServer_attributes_4 :: "(prop_key \<times> attribute) list" where
  "ClusterThreadNetworkDiagnosticsServer_attributes_4 =
     [(IntKey 65528, ro_attribute ''GeneratedCommandList'' ''array'' False JUndef),
      (IntKey 65529, ro_attribute ''AcceptedCommandList'' ''array'' False JUndef),
      (IntKey 65531, ro_attribute ''AttributeList'' ''array'' False JUndef), (IntKey 65532, ro_attribute ''FeatureMap'' ''bitmap32'' False JUndef),
      (IntKey 65533, ro_attribute ''ClusterRevision'' ''int16u'' False JUndef)]"

definition ClusterThreadNetworkDiagnosticsServer_attributes :: "(prop_key \<times> attribute) list" where
  "ClusterThreadNetworkDiagnosticsServer_attributes = ClusterThreadNetworkDiagnosticsServer_attributes_1 @ ClusterThreadNetworkDiagnosticsServer_attributes_2 @ ClusterThreadNetworkDiagnosticsServer_attributes_3 @ ClusterThreadNetworkDiagnosticsServer_attributes_4"

definition ClusterThreadNetworkDiagnosticsServer_cases :: "(string \<times> string) list" where
  "ClusterThreadNetworkDiagnosticsServer_cases =
     [(''ResetCounts'', ''onResetCounts'')]"

definition ClusterThreadNetworkDiagnosticsServer_handlers :: "(string \<times> string) list" where
  "ClusterThreadNetworkDiagnosticsServer_handlers =
     [(''onResetCounts'', ''.onResetCounts'')]"

definition ClusterThreadNetworkDiagnosticsServer :: generated_class where
  "ClusterThreadNetworkDiagnosticsServer =
     \<lparr>cc_class = ''ClusterThreadNetworkDiagnosticsServer'', cc_CLUSTER_NAME = ''THREAD_NETWORK_DIAGNOSTICS_CLUSTER'', cc_CLUSTER_ID = 0x0035,
      cc_Command = ClusterThreadNetworkDiagnosticsServer_Command, cc_Attribute = ClusterThreadNetworkDiagnosticsServer_Attribute,
      cc_templates = ClusterThreadNetworkDiagnosticsServer_templates, cc_attributes = ClusterThreadNetworkDiagnosticsServer_attributes,
      cc_cases = ClusterThreadNetworkDiagnosticsServer_cases, cc_handlers = ClusterThreadNetworkDiagnosticsServer_handlers\<rparr>"

lemmas ClusterThreadNetworkDiagnosticsServer_defs = ClusterThreadNetworkDiagnosticsServer_Command_def ClusterThreadNetworkDiagnosticsServer_Attribute_def
  ClusterThreadNetworkDiagnosticsServer_cases_def ClusterThreadNetworkDiagnosticsServer_templates_def
  ClusterThreadNetworkDiagnosticsServer_attributes_1_def ClusterThreadNetworkDiagnosticsServer_attributes_2_def
  ClusterThreadNetworkDiagnosticsServer_attributes_3_def ClusterThreadNetworkDiagnosticsServer_attributes_4_def
  ClusterThreadNetworkDiagnosticsServer_attributes_def ClusterThreadNetworkDiagnosticsServer_handlers_def
  ClusterThreadNetworkDiagnosticsServer_def

lemma ClusterThreadNetworkDiagnosticsServer_ok: "class_ok ClusterThreadNetworkDiagnosticsServer"
  by (simp add: class_ok_def field_ok_def ClusterThreadNetworkDiagnosticsServer_defs ro_attribute_def)

lemma ClusterThreadNetworkDiagnosticsServer_ids: "cc_class ClusterThreadNetworkDiagnosticsServer = ''ClusterThreadNetworkDiagnosticsServer''" "cc_CLUSTER_ID ClusterThreadNetworkDiagnosticsServer = 0x0035" "distinct (map snd (cc_Command ClusterThreadNetworkDiagnosticsServer)) \<longleftrightarrow> True"
  by (simp_all add: ClusterThreadNetworkDiagnosticsServer_def ClusterThreadNetworkDiagnosticsServer_Command_def)

section \<open>\<open>ClusterTimeFormatLocalizationServer\<close>\<close>

definition ClusterTimeFormatLocalizationServer_Command :: "(string \<times> int) list" where "ClusterTimeFormatLocalizationServer_Command = []"

definition ClusterTimeFormatLocalizationServer_Attribute :: "(string \<times> int) list" where
  "ClusterTimeFormatLocalizationServer_Attribute =
     [(''HourFormat'', 0), (''ActiveCalendarType'', 1), (''SupportedCalendarTypes'', 2), (''GeneratedCommandList'', 65528),
      (''AcceptedCommandList'', 65529), (''AttributeList'', 65531), (''FeatureMap'', 65532), (''ClusterRevision'', 65533)]"

definition ClusterTimeFormatLocalizationServer_attributes :: "(prop_key \<times> attribute) list" where
  "ClusterTimeFormatLocalizationServer_attributes =
     [(IntKey 0, ro_attribute ''HourFormat'' ''HourFormat'' False JUndef),
      (IntKey 1, ro_attribute ''ActiveCalendarType'' ''CalendarType'' False JUndef),
      (IntKey 2, ro_attribute ''SupportedCalendarTypes'' ''array'' False JUndef),
      (IntKey 65528, ro_attribute ''GeneratedCommandList'' ''array'' False JUndef),
      (IntKey 65529, ro_attribute ''AcceptedCommandList'' ''array'' False JUndef),
      (IntKey 65531, ro_attribute ''AttributeList'' ''array'' False JUndef), (IntKey 65532, ro_attribute ''FeatureMap'' ''bitmap32'' False JUndef),
      (IntKey 65533, ro_attribute ''ClusterRevision'' ''int16u'' False JUndef)]"

definition ClusterTimeFormatLocalizationServer_cases :: "(string \<times> string) list" where "ClusterTimeFormatLocalizationServer_cases = []"

definition ClusterTimeFormatLocalizationServer :: generated_class where
  "ClusterTimeFormatLocalizationServer =
     \<lparr>cc_class = ''ClusterTimeFormatLocalizationServer'', cc_CLUSTER_NAME = ''TIME_FORMAT_LOCALIZATION_CLUSTER'', cc_CLUSTER_ID = 0x002C,
      cc_Command = ClusterTimeFormatLocalizationServer_Command, cc_Attribute = ClusterTimeFormatLocalizationServer_Attribute,
      cc_templates = [], cc_attributes = ClusterTimeFormatLocalizationServer_attributes,
      cc_cases = ClusterTimeFormatLocalizationServer_cases, cc_handlers = []\<rparr>"

lemmas ClusterTimeFormatLocalizationServer_defs = ClusterTimeFormatLocalizationServer_Command_def ClusterTimeFormatLocalizationServer_Attribute_def
  ClusterTimeFormatLocalizationServer_cases_def ClusterTimeFormatLocalizationServer_attributes_def
  ClusterTimeFormatLocalizationServer_def

lemma ClusterTimeFormatLocalizationServer_ok: "class_ok ClusterTimeFormatLocalizationServer"
  by (simp add: class_ok_def field_ok_def ClusterTimeFormatLocalizationServer_defs ro_attribute_def)

lemma ClusterTimeFormatLocalizationServer_ids: "cc_class ClusterTimeFormatLocalizationServer = ''ClusterTimeFormatLocalizationServer''" "cc_CLUSTER_ID ClusterTimeFormatLocalizationServer = 0x002C" "distinct (map snd (cc_Command ClusterTimeFormatLocalizationServer)) \<longleftrightarrow> True"
  by (simp_all add: ClusterTimeFormatLocalizationServer_def ClusterTimeFormatLocalizationServer_Command_def)

section \<open>\<open>ClusterUnitLocalizationServer\<close>\<close>

definition ClusterUnitLocalizationServer_Command :: "(string \<times> int) list" where "ClusterUnitLocalizationServer_Command = []"

definition ClusterUnitLocalizationServer_Attribute :: "(string \<times> int) list" where
  "ClusterUnitLocalizationServer_Attribute =
     [(''TemperatureUnit'', 0), (''GeneratedCommandList'', 65528), (''AcceptedCommandList'', 65529), (''AttributeList'', 65531),
      (''FeatureMap'', 65532), (''ClusterRevision'', 65533)]"

definition ClusterUnitLocalizationServer_attributes :: "(prop_key \<times> attribute) list" where
  "ClusterUnitLocalizationServer_attributes =
     [(IntKey 0, ro_attribute ''TemperatureUnit'' ''TempUnit'' False JUndef),
      (IntKey 65528, ro_attribute ''GeneratedCommandList'' ''array'' False JUndef),
      (IntKey 65529, ro_attribute ''AcceptedCommandList'' ''array'' False JUndef),
      (IntKey 65531, ro_attribute ''AttributeList'' ''array'' False JUndef), (IntKey 65532, ro_attribute ''FeatureMap'' ''bitmap32'' False JUndef),
      (IntKey 65533, ro_attribute ''ClusterRevision'' ''int16u'' False JUndef)]"

definition ClusterUnitLocalizationServer_cases :: "(string \<times> string) list" where "ClusterUnitLocalizationServer_cases = []"

definition ClusterUnitLocalizationServer :: generated_class where
  "ClusterUnitLocalizationServer =
     \<lparr>cc_class = ''ClusterUnitLocalizationServer'', cc_CLUSTER_NAME = ''UNIT_LOCALIZATION_CLUSTER'', cc_CLUSTER_ID = 0x002D,
      cc_Command = ClusterUnitLocalizationServer_Command, cc_Attribute = ClusterUnitLocalizationServer_Attribute,
      cc_templates = [], cc_attributes = ClusterUnitLocalizationServer_attributes,
      cc_cases = ClusterUnitLocalizationServer_cases, cc_handlers = []\<rparr>"

lemmas ClusterUnitLocalizationServer_defs = ClusterUnitLocalizationServer_Command_def ClusterUnitLocalizationServer_Attribute_def
  ClusterUnitLocalizationServer_cases_def ClusterUnitLocalizationServer_attributes_def
  ClusterUnitLocalizationServer_def

lemma ClusterUnitLocalizationServer_ok: "class_ok ClusterUnitLocalizationServer"
  by (simp add: class_ok_def field_ok_def ClusterUnitLocalizationServer_defs ro_attribute_def)

lemma ClusterUnitLocalizationServer_ids: "cc_class ClusterUnitLocalizationServer = ''ClusterUnitLocalizationServer''" "cc_CLUSTER_ID ClusterUnitLocalizationServer = 0x002D" "distinct (map snd (cc_Command ClusterUnitLocalizationServer)) \<longleftrightarrow> True"
  by (simp_all add: ClusterUnitLocalizationServer_def ClusterUnitLocalizationServer_Command_def)

section \<open>\<open>ClusterUserLabelServer\<close>\<close>

definition ClusterUserLabelServer_Command :: "(string \<times> int) list" where "ClusterUserLabelServer_Command = []"

definition ClusterUserLabelServer_Attribute :: "(string \<times> int) list" where
  "ClusterUserLabelServer_Attribute =
     [(''LabelList'', 0), (''GeneratedCommandList'', 65528), (''AcceptedCommandList'', 65529), (''AttributeList'', 65531), (''FeatureMap'', 65532),
      (''ClusterRevision'', 65533)]"

definition ClusterUserLabelServer_attributes :: "(prop_key \<times> attribute) list" where
  "ClusterUserLabelServer_attributes =
     [(IntKey 0, ro_attribute ''LabelList'' ''array'' False JUndef), (IntKey 65528, ro_attribute ''GeneratedCommandList'' ''array'' False JUndef),
      (IntKey 65529, ro_attribute ''AcceptedCommandList'' ''array'' False JUndef),
      (IntKey 65531, ro_attribute ''AttributeList'' ''array'' False JUndef), (IntKey 65532, ro_attribute ''FeatureMap'' ''bitmap32'' False JUndef),
      (IntKey 65533, ro_attribute ''ClusterRevision'' ''int16u'' False JUndef)]"

definition ClusterUserLabelServer_cases :: "(string \<times> string) list" where "ClusterUserLabelServer_cases = []"

definition ClusterUserLabelServer :: generated_class where
  "ClusterUserLabelServer =
     \<lparr>cc_class = ''ClusterUserLabelServer'', cc_CLUSTER_NAME = ''USER_LABEL_CLUSTER'', cc_CLUSTER_ID = 0x0041,
      cc_Command = ClusterUserLabelServer_Command, cc_Attribute = ClusterUserLabelServer_Attribute,
      cc_templates = [], cc_attributes = ClusterUserLabelServer_attributes,
      cc_cases = ClusterUserLabelServer_cases, cc_handlers = []\<rparr>"

lemmas ClusterUserLabelServer_defs = ClusterUserLabelServer_Command_def ClusterUserLabelServer_Attribute_def ClusterUserLabelServer_cases_def
  ClusterUserLabelServer_attributes_def ClusterUserLabelServer_def

lemma ClusterUserLabelServer_ok: "class_ok ClusterUserLabelServer"
  by (simp add: class_ok_def field_ok_def ClusterUserLabelServer_defs ro_attribute_def)

lemma ClusterUserLabelServer_ids: "cc_class ClusterUserLabelServer = ''ClusterUserLabelServer''" "cc_CLUSTER_ID ClusterUserLabelServer = 0x0041" "distinct (map snd (cc_Command ClusterUserLabelServer)) \<longleftrightarrow> True"
  by (simp_all add: ClusterUserLabelServer_def ClusterUserLabelServer_Command_def)

section \<open>\<open>ClusterWakeOnLanServer\<close>\<close>

definition ClusterWakeOnLanServer_Command :: "(string \<times> int) list" where "ClusterWakeOnLanServer_Command = []"

definition ClusterWakeOnLanServer_Attribute :: "(string \<times> int) list" where
  "ClusterWakeOnLanServer_Attribute =
     [(''MACAddress'', 0), (''GeneratedCommandList'', 65528), (''AcceptedCommandList'', 65529), (''AttributeList'', 65531), (''FeatureMap'', 65532),
      (''ClusterRevision'', 65533)]"

definition ClusterWakeOnLanServer_attributes :: "(prop_key \<times> attribute) list" where
  "ClusterWakeOnLanServer_attributes =
     [(IntKey 0, ro_attribute ''MACAddress'' ''char_string'' False JUndef),
      (IntKey 65528, ro_attribute ''GeneratedCommandList'' ''array'' False JUndef),
      (IntKey 65529, ro_attribute ''AcceptedCommandList'' ''array'' False JUndef),
      (IntKey 65531, ro_attribute ''AttributeList'' ''array'' False JUndef), (IntKey 65532, ro_attribute ''FeatureMap'' ''bitmap32'' False JUndef),
      (IntKey 65533, ro_attribute ''ClusterRevision'' ''int16u'' False JUndef)]"

definition ClusterWakeOnLanServer_cases :: "(string \<times> string) list" where "ClusterWakeOnLanServer_cases = []"

definition ClusterWakeOnLanServer :: generated_class where
  "ClusterWakeOnLanServer =
     \<lparr>cc_class = ''ClusterWakeOnLanServer'', cc_CLUSTER_NAME = ''WAKE_ON_LAN_CLUSTER'', cc_CLUSTER_ID = 0x0503,
      cc_Command = ClusterWakeOnLanServer_Command, cc_Attribute = ClusterWakeOnLanServer_Attribute,
      cc_templates = [], cc_attributes = ClusterWakeOnLanServer_attributes,
      cc_cases = ClusterWakeOnLanServer_cases, cc_handlers = []\<rparr>"

lemmas ClusterWakeOnLanServer_defs = ClusterWakeOnLanServer_Command_def ClusterWakeOnLanServer_Attribute_def ClusterWakeOnLanServer_cases_def
  ClusterWakeOnLanServer_attributes_def ClusterWakeOnLanServer_def

lemma ClusterWakeOnLanServer_ok: "class_ok ClusterWakeOnLanServer"
  by (simp add: class_ok_def field_ok_def ClusterWakeOnLanServer_defs ro_attribute_def)

lemma ClusterWakeOnLanServer_ids: "cc_class ClusterWakeOnLanServer = ''ClusterWakeOnLanServer''" "cc_CLUSTER_ID ClusterWakeOnLanServer = 0x0503" "distinct (map snd (cc_Command ClusterWakeOnLanServer)) \<longleftrightarrow> True"
  by (simp_all add: ClusterWakeOnLanServer_def ClusterWakeOnLanServer_Command_def)

section \<open>\<open>ClusterWiFiNetworkDiagnosticsServer\<close>\<close>

definition ClusterWiFiNetworkDiagnosticsServer_Command :: "(string \<times> int) list" where
  "ClusterWiFiNetworkDiagnosticsServer_Command =
     [(''ResetCounts'', 0)]"

definition ClusterWiFiNetworkDiagnosticsServer_Attribute :: "(string \<times> int) list" where
  "ClusterWiFiNetworkDiagnosticsServer_Attribute =
     [(''Bssid'', 0), (''SecurityType'', 1), (''WiFiVersion'', 2), (''ChannelNumber'', 3), (''Rssi'', 4), (''BeaconLostCount'', 5),
      (''BeaconRxCount'', 6), (''PacketMulticastRxCount'', 7), (''PacketMulticastTxCount'', 8), (''PacketUnicastRxCount'', 9),
      (''PacketUnicastTxCount'', 10), (''CurrentMaxRate'', 11), (''OverrunCount'', 12), (''GeneratedCommandList'', 65528),
      (''AcceptedCommandList'', 65529), (''AttributeList'', 65531), (''FeatureMap'', 65532), (''ClusterRevision'', 65533)]"

definition ClusterWiFiNetworkDiagnosticsServer_templates :: "(string \<times> template_field list) list" where
  "ClusterWiFiNetworkDiagnosticsServer_templates =
     [(''ResetCounts'', [])]"

definition ClusterWiFiNetworkDiagnosticsServer_attributes :: "(prop_key \<times> attribute) list" where
  "ClusterWiFiNetworkDiagnosticsServer_attributes =
     [(IntKey 0, ro_attribute ''Bssid'' ''octet_string'' True JUndef), (IntKey 1, ro_attribute ''SecurityType'' ''SecurityType'' True JUndef),
      (IntKey 2, ro_attribute ''WiFiVersion'' ''WiFiVersionType'' True JUndef), (IntKey 3, ro_attribute ''ChannelNumber'' ''int16u'' True JUndef),
      (IntKey 4, ro_attribute ''Rssi'' ''int8s'' True JUndef), (IntKey 5, ro_attribute ''BeaconLostCount'' ''int32u'' False JUndef),
      (IntKey 6, ro_attribute ''BeaconRxCount'' ''int32u'' False JUndef), (IntKey 7, ro_attribute ''PacketMulticastRxCount'' ''int32u'' False JUndef),
      (IntKey 8, ro_attribute ''PacketMulticastTxCount'' ''int32u'' False JUndef),
      (IntKey 9, ro_attribute ''PacketUnicastRxCount'' ''int32u'' False JUndef),
      (IntKey 10, ro_attribute ''PacketUnicastTxCount'' ''int32u'' False JUndef),
      (IntKey 11, ro_attribute ''CurrentMaxRate'' ''int64u'' False JUndef), (IntKey 12, ro_attribute ''OverrunCount'' ''int64u'' False JUndef),
      (IntKey 65528, ro_attribute ''GeneratedCommandList'' ''array'' False JUndef),
      (IntKey 65529, ro_attribute ''AcceptedCommandList'' ''array'' False JUndef),
      (IntKey 65531, ro_attribute ''AttributeList'' ''array'' False JUndef), (IntKey 65532, ro_attribute ''FeatureMap'' ''bitmap32'' False JUndef),
      (IntKey 65533, ro_attribute ''ClusterRevision'' ''int16u'' False JUndef)]"

definition ClusterWiFiNetworkDiagnosticsServer_cases :: "(string \<times> string) list" where
  "ClusterWiFiNetworkDiagnosticsServer_cases =
     [(''ResetCounts'', ''onResetCounts'')]"

definition ClusterWiFiNetworkDiagnosticsServer_handlers :: "(string \<times> string) list" where
  "ClusterWiFiNetworkDiagnosticsServer_handlers =
     [(''onResetCounts'', ''.onResetCounts'')]"

definition ClusterWiFiNetworkDiagnosticsServer :: generated_class where
  "ClusterWiFiNetworkDiagnosticsServer =
     \<lparr>cc_class = ''ClusterWiFiNetworkDiagnosticsServer'', cc_CLUSTER_NAME = ''WIFI_NETWORK_DIAGNOSTICS_CLUSTER'', cc_CLUSTER_ID = 0x0036,
      cc_Command = ClusterWiFiNetworkDiagnosticsServer_Command, cc_Attribute = ClusterWiFiNetworkDiagnosticsServer_Attribute,
      cc_templates = ClusterWiFiNetworkDiagnosticsServer_templates, cc_attributes = ClusterWiFiNetworkDiagnosticsServer_attributes,
      cc_cases = ClusterWiFiNetworkDiagnosticsServer_cases, cc_handlers = ClusterWiFiNetworkDiagnosticsServer_handlers\<rparr>"

lemmas ClusterWiFiNetworkDiagnosticsServer_defs = ClusterWiFiNetworkDiagnosticsServer_Command_def ClusterWiFiNetworkDiagnosticsServer_Attribute_def
  ClusterWiFiNetworkDiagnosticsServer_cases_def ClusterWiFiNetworkDiagnosticsServer_templates_def
  ClusterWiFiNetworkDiagnosticsServer_attributes_def ClusterWiFiNetworkDiagnosticsServer_handlers_def
  ClusterWiFiNetworkDiagnosticsServer_def

lemma ClusterWiFiNetworkDiagnosticsServer_ok: "class_ok ClusterWiFiNetworkDiagnosticsServer"
  by (simp add: class_ok_def field_ok_def ClusterWiFiNetworkDiagnosticsServer_defs ro_attribute_def)

lemma ClusterWiFiNetworkDiagnosticsServer_ids: "cc_class ClusterWiFiNetworkDiagnosticsServer = ''ClusterWiFiNetworkDiagnosticsServer''" "cc_CLUSTER_ID ClusterWiFiNetworkDiagnosticsServer = 0x0036" "distinct (map snd (cc_Command ClusterWiFiNetworkDiagnosticsServer)) \<longleftrightarrow> True"
  by (simp_all add: ClusterWiFiNetworkDiagnosticsServer_def ClusterWiFiNetworkDiagnosticsServer_Command_def)

section \<open>\<open>ClusterWindowCoveringServer\<close>\<close>

definition ClusterWindowCoveringServer_Command :: "(string \<times> int) list" where
  "ClusterWindowCoveringServer_Command =
     [(''UpOrOpen'', 0), (''DownOrClose'', 1), (''StopMotion'', 2), (''GoToLiftValue'', 4), (''GoToLiftPercentage'', 5), (''GoToTiltValue'', 7),
      (''GoToTiltPercentage'', 8)]"

definition ClusterWindowCoveringServer_Attribute :: "(string \<times> int) list" where
  "ClusterWindowCoveringServer_Attribute =
     [(''Type'', 0), (''PhysicalClosedLimitLift'', 1), (''PhysicalClosedLimitTilt'', 2), (''CurrentPositionLift'', 3), (''CurrentPositionTilt'', 4),
      (''NumberOfActuationsLift'', 5), (''NumberOfActuationsTilt'', 6), (''ConfigStatus'', 7), (''CurrentPositionLiftPercentage'', 8),
      (''CurrentPositionTiltPercentage'', 9), (''OperationalStatus'', 10), (''TargetPositionLiftPercent100ths'', 11),
      (''TargetPositionTiltPercent100ths'', 12), (''EndProductType'', 13), (''CurrentPositionLiftPercent100ths'', 14),
      (''CurrentPositionTiltPercent100ths'', 15), (''InstalledOpenLimitLift'', 16), (''InstalledClosedLimitLift'', 17),
      (''InstalledOpenLimitTilt'', 18), (''InstalledClosedLimitTilt'', 19), (''Mode'', 23), (''SafetyStatus'', 26), (''GeneratedCommandList'', 65528),
      (''AcceptedCommandList'', 65529), (''AttributeList'', 65531), (''FeatureMap'', 65532), (''ClusterRevision'', 65533)]"

definition ClusterWindowCoveringServer_templates :: "(string \<times> template_field list) list" where
  "ClusterWindowCoveringServer_templates =
     [(''UpOrOpen'', []), (''DownOrClose'', []), (''StopMotion'', []), (''GoToLiftValue'', [(0, ''uint16_t'', Some ''LiftValue'')]),
      (''GoToLiftPercentage'', [(0, ''chip::Percent100ths'', Some ''LiftPercent100thsValue'')]),
      (''GoToTiltValue'', [(0, ''uint16_t'', Some ''TiltValue'')]),
      (''GoToTiltPercentage'', [(0, ''chip::Percent100ths'', Some ''TiltPercent100thsValue'')])]"

definition ClusterWindowCoveringServer_attributes_1 :: "(prop_key \<times> attribute) list" where
  "ClusterWindowCoveringServer_attributes_1 =
     [(IntKey 0, ro_attribute ''Type'' ''Type'' False JUndef), (IntKey 1, ro_attribute ''PhysicalClosedLimitLift'' ''int16u'' False JUndef),
      (IntKey 2, ro_attribute ''PhysicalClosedLimitTilt'' ''int16u'' False JUndef),
      (IntKey 3, ro_attribute ''CurrentPositionLift'' ''int16u'' True JUndef),
      (IntKey 4, ro_attribute ''CurrentPositionTilt'' ''int16u'' True JUndef),
      (IntKey 5, ro_attribute ''NumberOfActuationsLift'' ''int16u'' False JUndef),
      (IntKey 6, ro_attribute ''NumberOfActuationsTilt'' ''int16u'' False JUndef),
      (IntKey 7, ro_attribute ''ConfigStatus'' ''ConfigStatus'' False JUndef),
      (IntKey 8, ro_attribute ''CurrentPositionLiftPercentage'' ''Percent'' True JUndef),
      (IntKey 9, ro_attribute ''CurrentPositionTiltPercentage'' ''Percent'' True JUndef),
      (IntKey 10, ro_attribute ''OperationalStatus'' ''bitmap8'' False JUndef),
      (IntKey 11, ro_attribute ''TargetPositionLiftPercent100ths'' ''Percent100ths'' True JUndef),
      (IntKey 12, ro_attribute ''TargetPositionTiltPercent100ths'' ''Percent100ths'' True JUndef),
      (IntKey 13, ro_attribute ''EndProductType'' ''EndProductType'' False JUndef),
      (IntKey 14, ro_attribute ''CurrentPositionLiftPercent100ths'' ''Percent100ths'' True JUndef),
      (IntKey 15, ro_attribute ''CurrentPositionTiltPercent100ths'' ''Percent100ths'' True JUndef),
      (IntKey 16, ro_attribute ''InstalledOpenLimitLift'' ''int16u'' False JUndef),
      (IntKey 17, ro_attribute ''InstalledClosedLimitLift'' ''int16u'' False JUndef),
      (IntKey 18, ro_attribute ''InstalledOpenLimitTilt'' ''int16u'' False JUndef),
      (IntKey 19, ro_attribute ''InstalledClosedLimitTilt'' ''int16u'' False JUndef), (IntKey 23, ro_attribute ''Mode'' ''Mode'' False JUndef)]"

definition ClusterWindowCoveringServer_attributes_2 :: "(prop_key \<times> attribute) list" where
  "ClusterWindowCoveringServer_attributes_2 =
     [(IntKey 26, ro_attribute ''SafetyStatus'' ''bitmap16'' False JUndef),
      (IntKey 65528, ro_attribute ''GeneratedCommandList'' ''array'' False JUndef),
      (IntKey 65529, ro_attribute ''AcceptedCommandList'' ''array'' False JUndef),
      (IntKey 65531, ro_attribute ''AttributeList'' ''array'' False JUndef), (IntKey 65532, ro_attribute ''FeatureMap'' ''bitmap32'' False JUndef),
      (IntKey 65533, ro_attribute ''ClusterRevision'' ''int16u'' False JUndef)]"

definition ClusterWindowCoveringServer_attributes :: "(prop_key \<times> attribute) list" where
  "ClusterWindowCoveringServer_attributes = ClusterWindowCoveringServer_attributes_1 @ ClusterWindowCoveringServer_attributes_2"

definition ClusterWindowCoveringServer_cases :: "(string \<times> string) list" where
  "ClusterWindowCoveringServer_cases =
     [(''UpOrOpen'', ''onUpOrOpen''), (''DownOrClose'', ''onDownOrClose''), (''StopMotion'', ''onStopMotion''),
      (''GoToLiftValue'', ''onGoToLiftValue''), (''GoToLiftPercentage'', ''onGoToLiftPercentage''), (''GoToTiltValue'', ''onGoToTiltValue''),
      (''GoToTiltPercentage'', ''onGoToTiltPercentage'')]"

definition ClusterWindowCoveringServer_handlers :: "(string \<times> string) list" where
  "ClusterWindowCoveringServer_handlers =
     [(''onUpOrOpen'', ''.onUpOrOpen''), (''onDownOrClose'', ''.onDownOrClose''), (''onStopMotion'', ''.onStopMotion''),
      (''onGoToLiftValue'', ''.onGoToLiftValue''), (''onGoToLiftPercentage'', ''.onGoToLiftPercentage''), (''onGoToTiltValue'', ''.onGoToTiltValue''),
      (''onGoToTiltPercentage'', ''.onGoToTiltPercentage'')]"

definition ClusterWindowCoveringServer :: generated_class where
  "ClusterWindowCoveringServer =
     \<lparr>cc_class = ''ClusterWindowCoveringServer'', cc_CLUSTER_NAME = ''WINDOW_COVERING_CLUSTER'', cc_CLUSTER_ID = 0x0102,
      cc_Command = ClusterWindowCoveringServer_Command, cc_Attribute = ClusterWindowCoveringServer_Attribute,
      cc_templates = ClusterWindowCoveringServer_templates, cc_attributes = ClusterWindowCoveringServer_attributes,
      cc_cases = ClusterWindowCoveringServer_cases, cc_handlers = ClusterWindowCoveringServer_handlers\<rparr>"

lemmas ClusterWindowCoveringServer_defs = ClusterWindowCoveringServer_Command_def ClusterWindowCoveringServer_Attribute_def
  ClusterWindowCoveringServer_cases_def ClusterWindowCoveringServer_templates_def
  ClusterWindowCoveringServer_attributes_1_def ClusterWindowCoveringServer_attributes_2_def
  ClusterWindowCoveringServer_attributes_def ClusterWindowCoveringServer_handlers_def ClusterWindowCoveringServer_def

lemma ClusterWindowCoveringServer_ok: "class_ok ClusterWindowCoveringServer"
  by (simp add: class_ok_def field_ok_def ClusterWindowCoveringServer_defs ro_attribute_def)

lemma ClusterWindowCoveringServer_ids: "cc_class ClusterWindowCoveringServer = ''ClusterWindowCoveringServer''" "cc_CLUSTER_ID ClusterWindowCoveringServer = 0x0102" "distinct (map snd (cc_Command ClusterWindowCoveringServer)) \<longleftrightarrow> True"
  by (simp_all add: ClusterWindowCoveringServer_def ClusterWindowCoveringServer_Command_def)

end
