(* ===== verification/Generated_Clusters.thy ===== *)
theory Generated_Clusters
  imports Generated_Clusters_1 Generated_Clusters_2 Generated_Clusters_3 Generated_Clusters_4 Tlv_Roundtrip
begin

text \<open>
  The module \<open>zzz_generated/Clusters.js\<close> as a whole: its classes, what holds of all of them, and how
  the hand-written servers of \<open>src/clusters/\<close> compare with the classes of their clusters.
\<close>

section \<open>The module\<close>

definition exported_classes :: "generated_class list" where
  "exported_classes =
     [ClusterAccessControlServer, ClusterAccountLoginServer, ClusterAdministratorCommissioningServer, ClusterApplicationBasicServer,
      ClusterApplicationLauncherServer, ClusterAudioOutputServer, ClusterBarrierControlServer, ClusterBasicServer, ClusterBinaryInputBasicServer,
      ClusterBindingServer, ClusterBooleanStateServer, ClusterBridgedActionsServer, ClusterChannelServer, ClusterColorControlServer,
      ClusterContentLauncherServer, ClusterDescriptorServer, ClusterDiagnosticLogsServer, ClusterDoorLockServer, ClusterElectricalMeasurementServer,
      ClusterEthernetNetworkDiagnosticsServer, ClusterFanControlServer, ClusterFixedLabelServer, ClusterFlowMeasurementServer,
      ClusterGeneralCommissioningServer, ClusterGeneralDiagnosticsServer, ClusterGroupKeyManagementServer, ClusterGroupsServer, ClusterIasZoneServer,
      ClusterIdentifyServer, ClusterIlluminanceMeasurementServer, ClusterKeypadInputServer, ClusterLevelControlServer,
      ClusterLocalizationConfigurationServer, ClusterLowPowerServer, ClusterMediaInputServer, ClusterMediaPlaybackServer, ClusterModeSelectServer,
      ClusterNetworkCommissioningServer, ClusterOtaSoftwareUpdateProviderClient, ClusterOtaSoftwareUpdateRequestorServer,
      ClusterOccupancySensingServer, ClusterOnOffServer, ClusterOnOffSwitchConfigurationServer, ClusterOperationalCredentialsServer,
      ClusterPowerSourceServer, ClusterPowerSourceConfigurationServer, ClusterPressureMeasurementServer, ClusterPumpConfigurationAndControlServer,
      ClusterRelativeHumidityMeasurementServer, ClusterScenesServer, ClusterSoftwareDiagnosticsServer, ClusterSwitchServer,
      ClusterTargetNavigatorServer, ClusterTemperatureMeasurementServer, ClusterTestClusterServer, ClusterThermostatServer,
      ClusterThermostatUserInterfaceConfigurationServer, ClusterThreadNetworkDiagnosticsServer, ClusterTimeFormatLocalizationServer,
      ClusterUnitLocalizationServer, ClusterUserLabelServer, ClusterWakeOnLanServer, ClusterWiFiNetworkDiagnosticsServer, ClusterWindowCoveringServer]"

definition declared_names :: "string list" where
  "declared_names = map cc_class exported_classes"

lemmas class_ids = ClusterAccessControlServer_ids ClusterAccountLoginServer_ids ClusterAdministratorCommissioningServer_ids
  ClusterApplicationBasicServer_ids ClusterApplicationLauncherServer_ids ClusterAudioOutputServer_ids
  ClusterBarrierControlServer_ids ClusterBasicServer_ids ClusterBinaryInputBasicServer_ids ClusterBindingServer_ids
  ClusterBooleanStateServer_ids ClusterBridgedActionsServer_ids ClusterChannelServer_ids
  ClusterColorControlServer_ids ClusterContentLauncherServer_ids ClusterDescriptorServer_ids
  ClusterDiagnosticLogsServer_ids ClusterDoorLockServer_ids ClusterElectricalMeasurementServer_ids
  ClusterEthernetNetworkDiagnosticsServer_ids ClusterFanControlServer_ids ClusterFixedLabelServer_ids
  ClusterFlowMeasurementServer_ids ClusterGeneralCommissioningServer_ids ClusterGeneralDiagnosticsServer_ids
  ClusterGroupKeyManagementServer_ids ClusterGroupsServer_ids ClusterIasZoneServer_ids ClusterIdentifyServer_ids
  ClusterIlluminanceMeasurementServer_ids ClusterKeypadInputServer_ids ClusterLevelControlServer_ids
  ClusterLocalizationConfigurationServer_ids ClusterLowPowerServer_ids ClusterMediaInputServer_ids
  ClusterMediaPlaybackServer_ids ClusterModeSelectServer_ids ClusterNetworkCommissioningServer_ids
  ClusterOtaSoftwareUpdateProviderClient_ids ClusterOtaSoftwareUpdateRequestorServer_ids
  ClusterOccupancySensingServer_ids ClusterOnOffServer_ids ClusterOnOffSwitchConfigurationServer_ids
  ClusterOperationalCredentialsServer_ids ClusterPowerSourceServer_ids ClusterPowerSourceConfigurationServer_ids
  ClusterPressureMeasurementServer_ids ClusterPumpConfigurationAndControlServer_ids
  ClusterRelativeHumidityMeasurementServer_ids ClusterScenesServer_ids ClusterSoftwareDiagnosticsServer_ids
  ClusterSwitchServer_ids ClusterTargetNavigatorServer_ids ClusterTemperatureMeasurementServer_ids
  ClusterTestClusterServer_ids ClusterThermostatServer_ids ClusterThermostatUserInterfaceConfigurationServer_ids
  ClusterThreadNetworkDiagnosticsServer_ids ClusterTimeFormatLocalizationServer_ids ClusterUnitLocalizationServer_ids
  ClusterUserLabelServer_ids ClusterWakeOnLanServer_ids ClusterWiFiNetworkDiagnosticsServer_ids
  ClusterWindowCoveringServer_ids

lemmas class_oks = ClusterAccessControlServer_ok ClusterAccountLoginServer_ok ClusterAdministratorCommissioningServer_ok ClusterApplicationBasicServer_ok
  ClusterApplicationLauncherServer_ok ClusterAudioOutputServer_ok ClusterBarrierControlServer_ok ClusterBasicServer_ok
  ClusterBinaryInputBasicServer_ok ClusterBindingServer_ok ClusterBooleanStateServer_ok ClusterBridgedActionsServer_ok ClusterChannelServer_ok
  ClusterColorControlServer_ok ClusterContentLauncherServer_ok ClusterDescriptorServer_ok ClusterDiagnosticLogsServer_ok ClusterDoorLockServer_ok
  ClusterElectricalMeasurementServer_ok ClusterEthernetNetworkDiagnosticsServer_ok ClusterFanControlServer_ok ClusterFixedLabelServer_ok
  ClusterFlowMeasurementServer_ok ClusterGeneralCommissioningServer_ok ClusterGeneralDiagnosticsServer_ok ClusterGroupKeyManagementServer_ok
  ClusterGroupsServer_ok ClusterIasZoneServer_ok ClusterIdentifyServer_ok ClusterIlluminanceMeasurementServer_ok ClusterKeypadInputServer_ok
  ClusterLevelControlServer_ok ClusterLocalizationConfigurationServer_ok ClusterLowPowerServer_ok ClusterMediaInputServer_ok
  ClusterMediaPlaybackServer_ok ClusterModeSelectServer_ok ClusterNetworkCommissioningServer_ok ClusterOtaSoftwareUpdateProviderClient_ok
  ClusterOtaSoftwareUpdateRequestorServer_ok ClusterOccupancySensingServer_ok ClusterOnOffServer_ok ClusterOnOffSwitchConfigurationServer_ok
  ClusterOperationalCredentialsServer_ok ClusterPowerSourceServer_ok ClusterPowerSourceConfigurationServer_ok ClusterPressureMeasurementServer_ok
  ClusterPumpConfigurationAndControlServer_ok ClusterRelativeHumidityMeasurementServer_ok ClusterScenesServer_ok
  ClusterSoftwareDiagnosticsServer_ok ClusterSwitchServer_ok ClusterTargetNavigatorServer_ok ClusterTemperatureMeasurementServer_ok
  ClusterTestClusterServer_ok ClusterThermostatServer_ok ClusterThermostatUserInterfaceConfigurationServer_ok
  ClusterThreadNetworkDiagnosticsServer_ok ClusterTimeFormatLocalizationServer_ok ClusterUnitLocalizationServer_ok ClusterUserLabelServer_ok
  ClusterWakeOnLanServer_ok ClusterWiFiNetworkDiagnosticsServer_ok ClusterWindowCoveringServer_ok

lemma exported_ok: "c \<in> set exported_classes \<Longrightarrow> class_ok c"
proof -
  have "list_all class_ok exported_classes" by (simp add: exported_classes_def class_oks)
  then show "c \<in> set exported_classes \<Longrightarrow> class_ok c" by (simp add: list_all_iff)
qed

lemma undeclared: "''exchange'' \<notin> set declared_names" "''Random'' \<notin> set declared_names"
  by (simp_all add: declared_names_def exported_classes_def class_ids)

lemma cluster_ids: "distinct (map cc_CLUSTER_ID exported_classes)"
  by (simp add: exported_classes_def class_ids)

section \<open>The classes\<close>

text \<open>
  (C20) The tables of every generated class agree: an attribute of the enumeration is looked up by its id
  as the descriptor of its name, any other number gives no attribute, and there is a template for each
  command. The ids of the clusters differ.
\<close>

theorem generated_tables:
  assumes "c \<in> set exported_classes"
  shows "(\<forall>(x, i) \<in> set (cc_Attribute c). \<exists>a. lookup_attribute (cc_attributes c) (JNum i) = Inr (Some a) \<and> at_name a = x) \<and>
    (\<forall>i. i \<notin> snd ` set (cc_Attribute c) \<longrightarrow> lookup_attribute (cc_attributes c) (JNum i) = Inr None) \<and>
    (\<forall>(x, i) \<in> set (cc_Command c). \<forall>params. TemplateCommand c x params \<noteq> None) \<and>
    (\<forall>d \<in> set exported_classes. cc_CLUSTER_ID d = cc_CLUSTER_ID c \<longrightarrow> d = c)"
proof (intro conjI)
  note ok = exported_ok [OF assms]
  show "\<forall>(x, i) \<in> set (cc_Attribute c). \<exists>a. lookup_attribute (cc_attributes c) (JNum i) = Inr (Some a) \<and> at_name a = x"
    using class_lookup(1) [OF ok] by blast
  show "\<forall>i. i \<notin> snd ` set (cc_Attribute c) \<longrightarrow> lookup_attribute (cc_attributes c) (JNum i) = Inr None"
    using class_lookup(2) [OF ok] by blast
  show "\<forall>(x, i) \<in> set (cc_Command c). \<forall>params. TemplateCommand c x params \<noteq> None" using class_template [OF ok] by blast
  have "inj_on cc_CLUSTER_ID (set exported_classes)" using cluster_ids by (simp only: distinct_map)
  then show "\<forall>d \<in> set exported_classes. cc_CLUSTER_ID d = cc_CLUSTER_ID c \<longrightarrow> d = c" using assms by (meson inj_onD)
qed

theorem generated_tables_witness:
  "\<exists>a. lookup_attribute (cc_attributes ClusterDoorLockServer) (JNum 0) = Inr (Some a) \<and> at_name a = ''LockState''"
proof -
  have m: "ClusterDoorLockServer \<in> set exported_classes" by (simp add: exported_classes_def)
  have "(''LockState'', 0) \<in> set (cc_Attribute ClusterDoorLockServer)" by (simp add: ClusterDoorLockServer_defs)
  then show ?thesis using generated_tables [OF m] by blast
qed

text \<open>
  No generated class can be used as it is. Its constructor throws, since \<open>Random\<close> is not imported;
  its switch passes a command to the handler of the first command with that id, and every handler
  throws, since there is no variable \<open>exchange\<close>; a number that is no command id does nothing.
\<close>

theorem generated_dispatch:
  assumes "c \<in> set exported_classes"
  shows "class_constructor declared_names v c = Inl ReferenceError \<and>
    selected_case c (JNum i) = map_option (\<lambda>(x, j). ''on'' @ x) (find (\<lambda>(x, j). j = i) (cc_Command c)) \<and>
    class_onCommand declared_names c (JNum i) = (if i \<in> snd ` set (cc_Command c) then Inl ReferenceError else Inr [])"
  using class_selects [OF exported_ok [OF assms]] class_throws [OF exported_ok [OF assms] undeclared] by simp

theorem generated_dispatch_witness:
  "selected_case ClusterOnOffServer (JNum 2) = Some ''onToggle'' \<and>
   class_onCommand declared_names ClusterOnOffServer (JNum 2) = Inl ReferenceError \<and> class_onCommand declared_names ClusterOnOffServer (JNum 3) = Inr []"
proof -
  have m: "ClusterOnOffServer \<in> set exported_classes" by (simp add: exported_classes_def)
  show ?thesis using generated_dispatch [OF m, of 0 2] generated_dispatch [OF m, of 0 3] by (simp add: ClusterOnOffServer_defs)
qed

text \<open>
  In eight classes two commands have one id, a request and a response mostly, and the switch takes the one
  listed first: the handlers of three requests are never called.
\<close>

lemma shared_ids:
  "map cc_class (filter (\<lambda>c. \<not> distinct (map snd (cc_Command c))) exported_classes) =
     [''ClusterDoorLockServer'', ''ClusterElectricalMeasurementServer'', ''ClusterGroupsServer'', ''ClusterIasZoneServer'', ''ClusterIdentifyServer'',
      ''ClusterScenesServer'', ''ClusterTestClusterServer'', ''ClusterThermostatServer'']"
  by (simp add: exported_classes_def class_ids)

lemma shadowed_requests:
  "(''ZoneEnrollRequest'', 1) \<in> set (cc_Command ClusterIasZoneServer)" "selected_case ClusterIasZoneServer (JNum 1) = Some ''onInitiateNormalOperationMode''"
  "(''GetProfileInfoCommand'', 0) \<in> set (cc_Command ClusterElectricalMeasurementServer)"
  "selected_case ClusterElectricalMeasurementServer (JNum 0) = Some ''onGetProfileInfoResponseCommand''"
  "(''GetMeasurementProfileCommand'', 1) \<in> set (cc_Command ClusterElectricalMeasurementServer)"
  "selected_case ClusterElectricalMeasurementServer (JNum 1) = Some ''onGetMeasurementProfileResponseCommand''"
  by code_simp+

text \<open>
  (C21) Parameters of a command that are integers of at most 64 bits (a \<open>BigInt\<close> negative or from \<open>2^32\<close>
  on), non-integral numbers, booleans, \<open>null\<close>, octet strings or ASCII strings, filled into its template
  and encoded, are decoded as written, in the order of the tags, with \<open>undefined\<close> for a parameter that
  is not given and the truth value of what is given for a field of type \<open>bool\<close>; but an array or a
  structure arrives empty whatever was given. (A string that is not ASCII is written with a wrong length
  and does not decode: \<open>putString_non_ascii\<close>.)
\<close>

theorem generated_template_roundtrip:
  assumes "c \<in> set exported_classes" and "map_of (cc_templates c) x = Some fs" and "\<forall>v \<in> snd ` set params. plain_value v"
  shows "\<exists>doc. TemplateCommand c x params = Some doc \<and>
    rbind (tlv_encode [jstruct doc]) decode_json = Inr (JArr [JObj None None (Some ''struct'') (JArr (map (field_read params) fs)) None])"
  by (rule template_roundtrip [OF exported_ok [OF assms(1)] assms(2,3)])

theorem generated_template_roundtrip_witness:
  "\<exists>doc. TemplateCommand ClusterNetworkCommissioningServer ''ScanNetworksResponse'' [(''NetworkingStatus'', JNum 0), (''WiFiScanResults'', JNum 7)] = Some doc \<and>
    rbind (tlv_encode [jstruct doc]) decode_json = Inr (JArr [JObj None None (Some ''struct'') (JArr
      [JObj None (Some 0) (Some ''uint8'') (JNum 0) None, JObj None (Some 1) (Some ''null'') JUndef None,
       JObj None (Some 2) (Some ''array'') (JArr []) None, JObj None (Some 3) (Some ''array'') (JArr []) None]) None])"
proof -
  let ?ps = "[(''NetworkingStatus'', JNum 0), (''WiFiScanResults'', JNum 7)]"
  have m: "ClusterNetworkCommissioningServer \<in> set exported_classes" by (simp add: exported_classes_def)
  have t: "map_of (cc_templates ClusterNetworkCommissioningServer) ''ScanNetworksResponse'' =
      Some [(0, ''uint8_t'', Some ''NetworkingStatus''), (1, ''chip::CharSpan'', Some ''DebugText''), (2, ''array'', None), (3, ''array'', None)]"
    by (simp add: ClusterNetworkCommissioningServer_defs)
  have v: "\<forall>v \<in> snd ` set ?ps. plain_value v" by (simp add: plain_value_def)
  have r: "map (field_read ?ps) [(0, ''uint8_t'', Some ''NetworkingStatus''), (1, ''chip::CharSpan'', Some ''DebugText''), (2, ''array'', None), (3, ''array'', None)] =
      [JObj None (Some 0) (Some ''uint8'') (JNum 0) None, JObj None (Some 1) (Some ''null'') JUndef None,
       JObj None (Some 2) (Some ''array'') (JArr []) None, JObj None (Some 3) (Some ''array'') (JArr []) None]"
    by code_simp
  show ?thesis using generated_template_roundtrip [OF m t v] unfolding r .
qed

section \<open>The hand-written servers\<close>

text \<open>The network commissioning server has the templates of the class of its cluster.\<close>

lemma network_templates:
  "TemplateCommand ClusterNetworkCommissioningServer ''ScanNetworks'' [(''Ssid'', s), (''Breadcrumb'', b)] = Some (TemplateCommandScanNetworks s b)"
  "TemplateCommand ClusterNetworkCommissioningServer ''ScanNetworksResponse'' [(''NetworkingStatus'', s), (''DebugText'', t)] =
     Some (TemplateCommandScanNetworksResponse s t)"
  "TemplateCommand ClusterNetworkCommissioningServer ''AddOrUpdateWiFiNetwork'' [(''Ssid'', s), (''Credentials'', c), (''Breadcrumb'', b)] =
     Some (TemplateCommandAddOrUpdateWiFiNetwork s c b)"
  "TemplateCommand ClusterNetworkCommissioningServer ''AddOrUpdateThreadNetwork'' [(''OperationalDataset'', s), (''Breadcrumb'', b)] =
     Some (TemplateCommandAddOrUpdateThreadNetwork s b)"
  "TemplateCommand ClusterNetworkCommissioningServer ''RemoveNetwork'' [(''NetworkID'', i), (''Breadcrumb'', b)] = Some (TemplateCommandRemoveNetwork i b)"
  "TemplateCommand ClusterNetworkCommissioningServer ''NetworkConfigResponse'' [(''NetworkingStatus'', s), (''DebugText'', t), (''NetworkIndex'', i)] =
     Some (TemplateCommandNetworkConfigResponse s t i)"
  "TemplateCommand ClusterNetworkCommissioningServer ''ConnectNetwork'' [(''NetworkID'', i), (''Breadcrumb'', b)] = Some (TemplateCommandConnectNetwork i b)"
  "TemplateCommand ClusterNetworkCommissioningServer ''ConnectNetworkResponse'' [(''NetworkingStatus'', s), (''DebugText'', t), (''ErrorValue'', e)] =
     Some (TemplateCommandConnectNetworkResponse s t e)"
  "TemplateCommand ClusterNetworkCommissioningServer ''ReorderNetwork'' [(''NetworkID'', i), (''NetworkIndex'', j), (''Breadcrumb'', b)] =
     Some (TemplateCommandReorderNetwork i j b)"
  by (simp_all add: TemplateCommand_def template_value_def ClusterNetworkCommissioningServer_defs TemplateCommandScanNetworks_def
      TemplateCommandScanNetworksResponse_def TemplateCommandAddOrUpdateWiFiNetwork_def TemplateCommandAddOrUpdateThreadNetwork_def
      TemplateCommandRemoveNetwork_def TemplateCommandNetworkConfigResponse_def TemplateCommandConnectNetwork_def
      TemplateCommandConnectNetworkResponse_def TemplateCommandReorderNetwork_def)

end
