(* ===== verification/Generated_Servers.thy ===== *)
theory Generated_Servers
  imports Generated_Clusters Interaction_Commands
begin

text \<open>
  The servers of \<open>src/clusters/\<close>, as the interaction model calls them, beside the generated classes of
  their clusters: where a path leads, what an attribute id is looked up as, and what a command id does.
\<close>

section \<open>The class of a server\<close>

fun generated_of :: "cluster_server \<Rightarrow> generated_class" where
  "generated_of cluster_server.ClusterBasicServer = Generated_Clusters_1.ClusterBasicServer"
| "generated_of cluster_server.ClusterGeneralCommissioningServer = Generated_Clusters_2.ClusterGeneralCommissioningServer"
| "generated_of cluster_server.ClusterNetworkCommissioningServer = Generated_Clusters_3.ClusterNetworkCommissioningServer"
| "generated_of cluster_server.ClusterOperationalCredentialsServer = Generated_Clusters_3.ClusterOperationalCredentialsServer"

lemmas generated_server_defs = ClusterBasicServer_defs ClusterGeneralCommissioningServer_defs ClusterNetworkCommissioningServer_defs
  ClusterOperationalCredentialsServer_defs

lemma generated_of_dispatch:
  "cluster_class (JNum 0) (JNum (cc_CLUSTER_ID (generated_of c))) = Inr (Some (cc_class (generated_of c)))"
  "cluster_of (Some (cc_class (generated_of c))) = Some c"
  by (cases c; simp add: generated_server_defs cluster_class_def js_lookup_def Endpoints_def Endpoint0_def cluster_of_def ClusterMap_def)+

text \<open>What a descriptor says of an attribute, without the value a server has for it.\<close>

definition attribute_view :: "attribute \<Rightarrow> string \<times> string \<times> bool" where
  "attribute_view a = (at_name a, at_type a, at_nullable a)"

fun own_attributes :: "cluster_server \<Rightarrow> (prop_key \<times> attribute) list" where
  "own_attributes cluster_server.ClusterBasicServer = Basic_attributes"
| "own_attributes cluster_server.ClusterGeneralCommissioningServer = General_attributes"
| "own_attributes cluster_server.ClusterNetworkCommissioningServer = Network_attributes"
| "own_attributes cluster_server.ClusterOperationalCredentialsServer = Credentials_attributes"

lemma own_attributes_view:
  "map (\<lambda>(k, a). (k, attribute_view a)) (own_attributes c) = map (\<lambda>(k, a). (k, attribute_view a)) (cc_attributes (generated_of c))"
  by (cases c; simp; code_simp)

lemma viewed_lookup: "map_of (map (\<lambda>(k, a). (k, g a)) t) k = map_option g (map_of t k)"
  by (induction t) auto

lemma own_attribute_as_generated:
  "map_option attribute_view (map_of (own_attributes c) k) = map_option attribute_view (map_of (cc_attributes (generated_of c)) k)"
  using own_attributes_view [of c] by (metis viewed_lookup)

lemma getAttribute_own:
  "c \<noteq> cluster_server.ClusterOperationalCredentialsServer \<Longrightarrow> cluster_getAttribute c (JNum i) = Inr (map_of (own_attributes c) (IntKey i))"
  by (cases c) (simp_all add: basic_attributes.num general_attributes.num network_attributes.num)

text \<open>The commands a server's switch has a case for are commands of the class.\<close>

lemma unknown_command:
  assumes "i \<notin> snd ` set (cc_Command (generated_of c))" and "cp_commandId path = JNum i"
    and "c \<noteq> cluster_server.ClusterNetworkCommissioningServer"
  shows "cluster_onCommand A sign c msg path n = Inr n"
  using assms
  by (cases c) (simp_all add: generated_server_defs Basic_onCommand_def General_onCommand_def Credentials_onCommand_def
      BasicCommand_MfgSpecificPing_def GeneralCommand_ArmFailSafe_def GeneralCommand_SetRegulatoryConfig_def
      GeneralCommand_CommissioningComplete_def credentials_commands)

text \<open>
  (C19) The interaction model serves the generated data model. For each of the four servers, the id and
  the name of the generated class of its cluster lead to it through the endpoint table and the map of
  servers. For whatever number as the attribute id, it finds an attribute exactly when the class has one,
  with the name, the type and the nullability the class declares; only the operational credentials server
  throws instead, for want of the method. And a number that is no command of the class does nothing;
  only the network commissioning server throws, as it does on every command.
\<close>

theorem servers_as_generated:
  assumes "cp_commandId path = JNum cmd" and "cmd \<notin> snd ` set (cc_Command (generated_of c))"
  shows "cluster_of (Some (cc_class (generated_of c))) = Some c \<and>
    cluster_class (JNum 0) (JNum (cc_CLUSTER_ID (generated_of c))) = Inr (Some (cc_class (generated_of c))) \<and>
    rmap (map_option attribute_view) (cluster_getAttribute c (JNum i)) =
      (if c = cluster_server.ClusterOperationalCredentialsServer then Inl TypeError
       else rmap (map_option attribute_view) (lookup_attribute (cc_attributes (generated_of c)) (JNum i))) \<and>
    cluster_onCommand A sign c msg path n = (if c = cluster_server.ClusterNetworkCommissioningServer then Inl ReferenceError else Inr n)"
proof (intro conjI)
  show "rmap (map_option attribute_view) (cluster_getAttribute c (JNum i)) =
      (if c = cluster_server.ClusterOperationalCredentialsServer then Inl TypeError
       else rmap (map_option attribute_view) (lookup_attribute (cc_attributes (generated_of c)) (JNum i)))"
    by (cases "c = cluster_server.ClusterOperationalCredentialsServer") (simp_all add: getAttribute_own own_attribute_as_generated class_attributes.num)
  show "cluster_onCommand A sign c msg path n = (if c = cluster_server.ClusterNetworkCommissioningServer then Inl ReferenceError else Inr n)"
    using unknown_command [OF assms(2,1)] by (cases c) (auto simp: Network_onCommand_def)
qed (simp_all add: generated_of_dispatch)

theorem servers_as_generated_witness:
  "\<exists>a. cluster_getAttribute cluster_server.ClusterBasicServer (JNum 2) = Inr (Some a) \<and> attribute_view a = (''VendorID'', ''vendor_id'', False) \<and>
     cluster_getAttribute cluster_server.ClusterBasicServer (JNum 20) = Inr None \<and>
     cluster_onCommand toy_aead toy_sign cluster_server.ClusterBasicServer new_message (num_path 0 40 1) demo_im_node = Inr demo_im_node"
proof -
  have c: "cp_commandId (num_path 0 40 1) = JNum 1" "1 \<notin> snd ` set (cc_Command (generated_of cluster_server.ClusterBasicServer))"
    by (simp_all add: num_path_def ClusterBasicServer_defs)
  note s = servers_as_generated [OF c, of _ toy_aead toy_sign new_message demo_im_node]
  have l: "rmap (map_option attribute_view) (lookup_attribute (cc_attributes Generated_Clusters_1.ClusterBasicServer) (JNum 2)) = Inr (Some (''VendorID'', ''vendor_id'', False))"
    "rmap (map_option attribute_view) (lookup_attribute (cc_attributes Generated_Clusters_1.ClusterBasicServer) (JNum 20)) = Inr None"
    by code_simp+
  from s [of 2] l(1) have 2: "rmap (map_option attribute_view) (cluster_getAttribute cluster_server.ClusterBasicServer (JNum 2)) = Inr (Some (''VendorID'', ''vendor_id'', False))"
    by simp
  from s [of 20] l(2) have 3: "rmap (map_option attribute_view) (cluster_getAttribute cluster_server.ClusterBasicServer (JNum 20)) = Inr None"
    and 4: "cluster_onCommand toy_aead toy_sign cluster_server.ClusterBasicServer new_message (num_path 0 40 1) demo_im_node = Inr demo_im_node"
    by simp_all
  show ?thesis using 2 3 4
    by (cases "cluster_getAttribute cluster_server.ClusterBasicServer (JNum 2)"; cases "cluster_getAttribute cluster_server.ClusterBasicServer (JNum 20)") auto
qed

text \<open>
  The other way round four requests are missing: the class of the operational credentials cluster has
  them, and the server does nothing for them, so the peer gets no answer.
\<close>

definition ignored_requests :: "(string \<times> int) list" where
  "ignored_requests = [(''UpdateNOC'', 7), (''UpdateFabricLabel'', 9), (''RemoveFabric'', 10), (''RemoveTrustedRootCertificate'', 12)]"

lemma ignored_declared: "list_all (\<lambda>r. r \<in> set ClusterOperationalCredentialsServer_Command) ignored_requests"
  by code_simp

lemma requests_ignored:
  assumes "cmd \<in> snd ` set ignored_requests" and "cp_commandId path = JNum cmd"
  shows "cluster_onCommand A sign cluster_server.ClusterOperationalCredentialsServer msg path n = Inr n"
proof -
  have "cmd \<in> {7, 9, 10, 12}" using assms(1) by (simp add: ignored_requests_def)
  then show ?thesis using assms(2) by (elim insertE) (simp_all add: Credentials_onCommand_def credentials_commands)
qed

end
