(* ===== verification/Spec2Isabelle.thy ===== *)
theory Spec2Isabelle
  imports Tlv_Roundtrip Pase_Run Pase_Invariant Session_Protocol Matter_Node Node_Invariant App_Start Expect_Process Certificate_Tools Support_Modules
    Generated_Servers
begin

text \<open>
  A verification development of \<open>matternode\<close>, an implementation of the Matter protocol in
  JavaScript and TypeScript (\<open>src/\<close>). A node receives UDP datagrams; the session manager finds the
  session of each and decrypts it; the exchange manager finds or makes the exchange; the first
  message of an exchange goes to the protocol it names, the session protocol (PASE) or the
  interaction model, later ones to whoever listens on the exchange. Interaction model requests are
  TLV documents whose paths select a cluster server by the endpoint table.

  \<^bold>\<open>Theories and sources\<close>

  \<^item> \<open>Matter_Prelude\<close>, \<open>Js_Value\<close>: what is used of the language. Errors are values
    (\<open>js_error\<close>, \<open>'a result\<close>, sequenced by \<open>rbind\<close>); a \<open>Buffer\<close> is a list of octets
    with the range checks of its reads and writes; a JavaScript value is a \<open>jsval\<close>, strings lists of
    UTF-16 units, doubles their bits. The locale \<open>codec\<close> is the contract of an encoder and its
    decoder.
  \<^item> \<open>Tlv_Codec\<close>, \<open>Tlv_Writer\<close>, \<open>Tlv_Reader\<close>, \<open>Tlv_Roundtrip\<close>: \<open>src/tlv/*.ts\<close>. The reference
    definitions \<open>tlv_bytes\<close> and \<open>tlv_json\<close> give the octets and the values of an abstract document
    \<open>telem\<close>; the writer produces the first and the reader the second, for every spelling of the
    document. Decoding any octets terminates and can only fail with a range error.
  \<^item> \<open>Msg_Codec\<close>, \<open>Matter_Message\<close>: \<open>MsgCodec.js\<close> and \<open>Message.js\<close>. A datagram is laid out by
    \<open>wire\<close> and \<open>wire_bytes\<close>; the accessors read it, the locales \<open>buffer_field\<close> and
    \<open>disjoint_fields\<close> carry the laws of the fixed header fields; encryption and header privacy
    are undone by their inverses, and decryption returns only what was encrypted. \<open>AppPayload\<close> does not
    skip a vendor id.
  \<^item> \<open>Session\<close>, \<open>Session_Manager\<close>: \<open>Session.js\<close>, \<open>SessionCryptoContext.js\<close>,
    \<open>SessionManager.js\<close>. The store of sessions is the list \<open>n_sessions\<close>, so that tables and
    exchanges share a session by its index; \<open>n_sent\<close> is what went to the sockets. The locale
    \<open>registry\<close> is the contract of the tables. Nonces of a session never repeat before its
    counter wraps; messages arrive as sent.
  \<^item> \<open>Exchange\<close>, \<open>Status_Report\<close>: \<open>Exchange.js\<close>, \<open>ExchangeManager.js\<close>,
    \<open>StatusReport.js\<close>, the constants of the session protocol.
  \<^item> \<open>Pase_Session\<close>, \<open>Pase_Handshake\<close>, \<open>Pase_Run\<close>, \<open>Pase_Invariant\<close>, \<open>Session_Protocol\<close>:
    \<open>PaseSession.js\<close>, \<open>SessionProtocol.js\<close>. An \<open>async\<close> handler is cut at each \<open>await\<close>
    into tasks that run in any order with messages and timeouts. Two nodes with the same passcode
    complete the handshake with the same keys; the step relation \<open>pase_step\<close> keeps an invariant
    in every reachable state. A session comes only from a \<open>Pake3\<close> with the right confirmation value or
    from a \<open>Pake2\<close>, on which none is compared; a responder can be brought to the second as well.
  \<^item> \<open>Im_Path\<close>, \<open>Im_Command\<close>, \<open>Cluster_Servers\<close>, \<open>Cluster_Credentials\<close>, \<open>Interaction_Model\<close>:
    \<open>protocols/interaction_model/\<close> and \<open>clusters/\<close>, with \<open>zzz_generated/Endpoints.json\<close>. The
    locale \<open>attribute_server\<close> is what reads rely on in a server.
  \<^item> \<open>Interaction_Read\<close>, \<open>Interaction_Commands\<close>, \<open>Interaction_Credentials\<close>: what requests are
    answered with, as documents; the abstract dispatcher \<open>dispatch\<close> is implemented by the handler
    on octets; errors of requests.
  \<^item> \<open>Crypto_Keys\<close>: \<open>Crypto.js\<close>, \<open>GroupKey.js\<close>, \<open>CaseSession.js\<close>; when a signature survives its
    encoding, and that the message codec is the wrapper of the cipher.
  \<^item> \<open>Persistent_Store\<close>: \<open>PersistantStore.js\<close>; what a restart keeps.
  \<^item> \<open>Certificate_Tlv\<close>, \<open>Certificate_Tools\<close>: \<open>CertificateTlv.js\<close>, \<open>Certificate.js\<close>, \<open>ChipCert.js\<close>; which
    certificates are read, and as what; the PEM text of a certificate decodes to it; what a certificate request asks for.
  \<^item> \<open>Discovery_Mdns\<close>: \<open>Discovery.js\<close>, \<open>Netif.getIpv6\<close>; what a node announces another finds.
  \<^item> \<open>Async_Queue\<close>, \<open>Expect_Process\<close>: \<open>AsyncQueue.js\<close>, \<open>AsyncTimeout.js\<close>, \<open>ExpectProcess.js\<close>,
    \<open>ExpectNode.js\<close>; the locale \<open>fifo\<close>. The calls that await lines, the output and the timeouts
    interleave by the step relation \<open>expect_step\<close>; no line goes to two calls.
  \<^item> \<open>Matter_Node\<close>, \<open>Node_Handshake\<close> and this theory: \<open>Node.js\<close>, the layers together, from datagram to
    datagram. Two nodes that carry each other's datagrams complete the PASE handshake from the
    \<open>pase\<close> command on; why the session they agree on is not found afterwards.
  \<^item> \<open>Node_Invariant\<close>: the step relation \<open>node_step\<close> of a whole node (datagrams, awaited values, timers,
    the \<open>pase\<close> command) and what every reachable node keeps: its invariant, and that no entry leaves a table. Every operation is shown to be a sequence
    of the elementary changes \<open>change\<close>, and each invariant is proved once per change.
  \<^item> \<open>Json_Text\<close>: \<open>JSON.stringify\<close> and \<open>JSON.parse\<close> on the values of the TLV reader, and that parsing
    undoes printing.
  \<^item> \<open>Shell_Commands\<close>, \<open>Shell_Cli\<close>, \<open>Shell_Session\<close>: \<open>src/shell/\<close>. A command is a function of the
    environment, the words of the line and the state \<open>shell\<close> (node, store, what was printed); whole
    sessions of lines keep the store saved, and \<open>crypto\<close> and \<open>tlv\<close> undo what they do.
  \<^item> \<open>App_Start\<close>: \<open>main\<close> of \<open>app.ts\<close>; a node comes back with its identity on the port of its number. The
    error handlers of the sockets.
  \<^item> \<open>Cluster_Class\<close>, \<open>Generated_Clusters_1\<close> to \<open>Generated_Clusters_4\<close>, \<open>Generated_Clusters\<close>, \<open>Generated_Servers\<close>:
    \<open>zzz_generated/Clusters.js\<close>. A class is a record of its tables, templates, descriptors, switch and
    handlers; what its methods do is defined once. The methods of the generated classes throw. The hand-written
    servers find the attributes of their classes and no others, and act on no command the classes lack.
  \<^item> \<open>Support_Modules\<close>: \<open>Const.js\<close>, the echo protocol, the trace file of \<open>Tracer.js\<close>, \<open>Random.js\<close>,
    \<open>Mixin.js\<close>.

  \<^bold>\<open>Parameters\<close>

  The packages are arguments: AES-CCM (\<open>aead\<close>), HKDF (\<open>hkdf\<close>), SPAKE2+ (\<open>spake\<close>), ECDSA, hashing and
  big numbers (\<open>crypto_lib\<close>, \<open>signer\<close>), the storage and the logger's levels (\<open>store_env\<close>), the import of
  a public key, the delivery of DNS records (\<open>response_arrives\<close>), the option parser \<open>yargs\<close> and the
  X.509 package of the shell (\<open>shell_env\<close>), time and random octets (\<open>n_now\<close>, \<open>n_random\<close>). What a theorem
  uses of them is a named hypothesis (\<open>ccm_ok\<close>, \<open>spake_ok\<close>, \<open>kdf_ok\<close>, \<open>bn_ok\<close>, \<open>storage_ok\<close>, and of the
  option parser \<open>parses\<close>, which speaks of one command's option table and the names that command reads),
  and each has a concrete instance in the witnesses.

  \<^bold>\<open>Bounds\<close>

  No definition has fuel: recursion is structural or has a measure (the TLV reader on the octets left,
  the search on the promises that wait). Integers are unbounded where JavaScript's are within the range
  in which they are exact, and the range checks of the \<open>Buffer\<close> methods are written out. A message
  holds fewer than \<open>2 ^ 16 - 14\<close> octets, the limit of AES-CCM with a 13 octet nonce. Where a value
  leaves what is modelled of the language, the result is the error \<open>Unmodelled\<close>, and the theorems
  exclude it.

  \<^bold>\<open>Not modelled\<close>

  Sockets, child processes, the terminal and the printing of the logger are I/O; what is sent and
  printed is recorded in the state. \<open>Attestation.js\<close> is an empty class. The X.509 packages make and
  sign certificates and requests; what they are asked for is modelled. \<open>matter_grammar.js\<close> is the
  runtime of the Lark parser generator with its tables, which nothing in \<open>src/\<close> uses. Handlers of writes,
  subscriptions and timed requests exist and only print.
\<close>

section \<open>From datagram to datagram\<close>

text \<open>
  (C9) Commissioning over a secured session, across all layers of a node: a datagram that a
  session's initiator encrypted, holding an invoke request for a command of the general
  commissioning cluster outside every exchange, is decrypted, dispatched and answered with
  exactly one datagram to the address it came from, which the initiator decrypts with the shared
  key into a command response on the same exchange id, whose payload is the response document of
  the command.
\<close>

theorem node_answers_command:
  assumes "ccm_ok A" and "command_message GENERAL_COMMISSIONING_CLUSTER_ID cmd args w" and "cmd \<in> commissioning_commands"
    and "w_flags w = 0" and "w_sec w AND 3 = 0" and "w_sid w \<noteq> 0" and "length (w_rest w) < 2 ^ 16 - 14"
    and "getSecureSession (w_sid w) n = Some a" and "a < length (n_sessions n)" and "can_send (n_sessions n ! a) (w_sid w)"
    and "s_keys (n_sessions n ! a) = Some ks" and "length (ks ! 0) = 16" and "length (ks ! 1) = 16" and "\<not> s_initiator (n_sessions n ! a)"
    and "getExchange a (on_wire w (new_message_of data (Some data) (Some peer))) n = Inr None"
    and "msg_encrypt A (wire_bytes w) (ks ! 0) = Inr data"
  shows "\<exists>n' pkt. node_onMessage A kdf S sign data peer n = Inr n' \<and> n_sent n' = n_sent n @ [pkt] \<and>
    p_host pkt = pi_address peer \<and> p_port pkt = pi_port peer \<and>
    (\<forall>r kr q. s_keys r = Some kr \<longrightarrow> s_initiator r \<longrightarrow> kr ! 1 = ks ! 1 \<longrightarrow>
      (\<exists>m'. decryptMessage A r (new_message_of (p_data pkt) (Some (p_data pkt)) q) = Inr m' \<and>
        ProtocolOpcode m' = Inr ImCommand_CommandResponse \<and> ExchangeId m' = Inr (w_xid w) \<and> Iflag m' = Inr False \<and>
        AppPayload m' = Inr (tlv_bytes (commissioning_response cmd))))"
proof -
  let ?m = "new_message_of data (Some data) (Some peer)" and ?n = "touched a peer (w_ctr w) n"
  have "wire_ok w" using assms(2) by (simp add: command_message_def)
  then have "node_onMessage A kdf S sign data peer n = onSessionMessage (node_handlers A kdf S sign) (on_wire w ?m) a ?n"
    using onMessage_secured [OF assms(1) _ assms(4-8,11,12,14,16)] by (simp add: node_onMessage_def on_wire_def)
  then show ?thesis
    using secured_command_reply [OF assms(1-3), of a ?m ?n "w_sid w" ks peer kdf S sign] assms touched_peer [OF assms(9)] by simp
qed

theorem node_answers_command_witness:
  "\<exists>data n' pkt m'. msg_encrypt toy_aead (wire_bytes ((invoke_wire [(0, 48, 0, demo_arm)])\<lparr>w_sid := 9\<rparr>)) (replicate 16 1) = Inr data \<and>
    node_onMessage toy_aead toy_kdf toy_spake toy_sign data demo_peer demo_im_node = Inr n' \<and> n_sent n' = [pkt] \<and>
    decryptMessage toy_aead (demo_session\<lparr>s_initiator := True\<rparr>) (new_message_of (p_data pkt) (Some (p_data pkt)) None) = Inr m' \<and>
    AppPayload m' = Inr (tlv_bytes (commissioning_response 0))"
proof -
  let ?w = "(invoke_wire [(0, 48, 0, demo_arm)])\<lparr>w_sid := 9\<rparr>" and ?ks = "[replicate 16 1, replicate 16 2, replicate 16 3]"
  have c: "command_message GENERAL_COMMISSIONING_CLUSTER_ID 0 demo_arm ?w" and f: "w_flags ?w = 0" "w_sec ?w = 0" "w_sid ?w = 9" "w_ids ?w = []"
    using demo_command by (simp_all add: command_message_def invoke_wire_def zero_wire_def wire_ok_def wire_ranges_def id_size_def)
  have l: "length (w_rest ?w) < 60" by code_simp
  have "header_size (wire_bytes ?w) = 8" by (rule wire_header) (simp_all add: invoke_wire_def zero_wire_def)
  then obtain data where d: "msg_encrypt toy_aead (wire_bytes ?w) (replicate 16 1) = Inr data"
    using encrypt_then_decrypt [OF toy_aead_ok, of "replicate 16 1" "wire_bytes ?w"] l f(4) by (auto simp: length_wire_bytes)
  have n: "getSecureSession 9 demo_im_node = Some 1" "n_sessions demo_im_node ! 1 = demo_session" "length (n_sessions demo_im_node) = 2"
    "x_table demo_im_node = []" "n_sent demo_im_node = []"
    by (simp_all add: getSecureSession_def demo_im_node_def demo_session_def)
  have r: "can_send demo_session 9" "s_keys demo_session = Some ?ks" "\<not> s_initiator demo_session"
    by (simp_all add: can_send_def demo_session_def)
  have "0 \<in> commissioning_commands" by (simp add: commissioning_commands_def general_commands)
  then obtain n' pkt where 1: "node_onMessage toy_aead toy_kdf toy_spake toy_sign data demo_peer demo_im_node = Inr n'" "n_sent n' = [pkt]"
    and 2: "\<forall>r kr q. s_keys r = Some kr \<longrightarrow> s_initiator r \<longrightarrow> kr ! 1 = ?ks ! 1 \<longrightarrow>
      (\<exists>m'. decryptMessage toy_aead r (new_message_of (p_data pkt) (Some (p_data pkt)) q) = Inr m' \<and>
        ProtocolOpcode m' = Inr ImCommand_CommandResponse \<and> ExchangeId m' = Inr (w_xid ?w) \<and> Iflag m' = Inr False \<and>
        AppPayload m' = Inr (tlv_bytes (commissioning_response 0)))"
    using node_answers_command [OF toy_aead_ok c, of demo_im_node 1 ?ks data demo_peer toy_kdf toy_spake toy_sign] f l n r d
    by (auto simp: getExchange_def)
  from 1 d 2 [rule_format, of "demo_session\<lparr>s_initiator := True\<rparr>" ?ks None] r(2) show ?thesis by auto
qed

end
